(* ===== verification/Prelude.thy ===== *)
theory Prelude
  imports Complex_Main "HOL-Library.AList"
begin

text \<open>
  Shared vocabulary of the development: the fact collections the component theories fill, the
  names of the model's base types, millisecond-to-second rounding, and generic lemmas on lists,
  options and insertion-ordered maps that several components use.

  JavaScript numbers that the code uses as counters, sizes, identifiers and millisecond
  timestamps are modelled as \<open>int\<close>; such values are integers below \<open>2 ^ 53\<close> in every
  use the sources make of them, so double arithmetic on them is exact. The two places where the code
  multiplies such a number by a fraction are modelled with IEEE rounding in \<open>JsValue\<close>.
  \<open>bigint\<close> values are modelled as \<open>int\<close>, which is what they are.
\<close>

named_theorems step_defs \<open>definitions of the operations of a component\<close>
named_theorems inv_intros \<open>preservation of a component invariant\<close>
named_theorems window_simps \<open>arithmetic of sliding windows\<close>

type_synonym timestamp = int
type_synonym key_id = string

section \<open>Seconds from milliseconds\<close>

text \<open>\<open>Math.ceil(ms / 1000)\<close> for an integer number of milliseconds.\<close>

definition ceil_secs :: "int \<Rightarrow> int" where
  "ceil_secs ms = (ms + 999) div 1000"

lemma ceil_secs_bounds: "ms \<le> 1000 * ceil_secs ms" "1000 * ceil_secs ms < ms + 1000"
proof -
  have "1000 * ceil_secs ms = ms + 999 - (ms + 999) mod 1000"
    unfolding ceil_secs_def by (simp add: minus_mod_eq_mult_div)
  moreover have "0 \<le> (ms + 999) mod 1000" "(ms + 999) mod 1000 < 1000" by simp_all
  ultimately show "ms \<le> 1000 * ceil_secs ms" "1000 * ceil_secs ms < ms + 1000" by linarith+
qed

lemma ceil_secs_ceiling: "ceil_secs ms = \<lceil>real_of_int ms / 1000\<rceil>"
proof (rule ceiling_unique [symmetric])
  have "1000 * real_of_int (ceil_secs ms) \<ge> real_of_int ms"
    "1000 * real_of_int (ceil_secs ms) < real_of_int ms + 1000"
    using ceil_secs_bounds [of ms] by linarith+
  then show "real_of_int (ceil_secs ms) - 1 < real_of_int ms / 1000"
    "real_of_int ms / 1000 \<le> real_of_int (ceil_secs ms)"
    by (simp_all add: field_simps)
qed

lemma ceil_secs_pos [simp]: "0 < ms \<Longrightarrow> 0 < ceil_secs ms"
  using ceil_secs_bounds(1) [of ms] by linarith

section \<open>Defaults\<close>

text \<open>\<open>x ?? d\<close>.\<close>

definition first_some :: "'a option \<Rightarrow> 'a \<Rightarrow> 'a" where
  "first_some x d = (case x of Some v \<Rightarrow> v | None \<Rightarrow> d)"

lemma first_some_simps [simp]: "first_some (Some v) d = v" "first_some None d = d"
  by (simp_all add: first_some_def)

section \<open>Lists\<close>

lemma sum_list_map_nonneg:
  "(\<And>x. x \<in> set xs \<Longrightarrow> 0 \<le> f x) \<Longrightarrow> (0 :: int) \<le> sum_list (map f xs)"
  by (induction xs) auto

lemma sum_list_filter_le:
  "(\<And>x. x \<in> set xs \<Longrightarrow> 0 \<le> f x) \<Longrightarrow>
   sum_list (map f (filter P xs)) \<le> (sum_list (map f xs) :: int)"
  by (induction xs) (auto intro: add_increasing)

lemma sum_list_filter_mono:
  "(\<And>x. x \<in> set xs \<Longrightarrow> 0 \<le> f x) \<Longrightarrow> (\<And>x. x \<in> set xs \<Longrightarrow> P x \<Longrightarrow> Q x) \<Longrightarrow>
   sum_list (map f (filter P xs)) \<le> (sum_list (map f (filter Q xs)) :: int)"
  by (induction xs) (auto intro: add_increasing)

lemma filter_absorb:
  "(\<And>x. x \<in> set xs \<Longrightarrow> P x \<Longrightarrow> Q x) \<Longrightarrow> filter P (filter Q xs) = filter P xs"
  by (induction xs) auto

lemma takeWhile_rev_sorted:
  assumes "sorted (map f xs)"
  shows "takeWhile (\<lambda>x. c < f x) (rev xs) = rev (filter (\<lambda>x. c < (f x :: int)) xs)"
  using assms
proof (induction xs rule: rev_induct)
  case Nil
  then show ?case by simp
next
  case (snoc x xs)
  show ?case
  proof (cases "c < f x")
    case True
    with snoc show ?thesis by (simp add: sorted_append)
  next
    case False
    with snoc.prems have "\<forall>y\<in>set xs. \<not> c < f y"
      by (fastforce simp: sorted_append)
    then have "filter (\<lambda>x. c < f x) xs = []" by (simp add: filter_empty_conv)
    with False show ?thesis by simp
  qed
qed

section \<open>Insertion-ordered maps\<close>

text \<open>
  A JavaScript \<open>Map\<close> iterates its entries in the order of first insertion and \<open>set\<close>
  keeps the place of a key that is present: exactly \<open>AList.update\<close> on association lists with
  distinct keys. Where iteration order is not observable the development uses maps
  \<open>'k \<rightharpoonup> 'v\<close>.
\<close>

type_synonym ('k, 'v) jsmap = "('k \<times> 'v) list"

definition jsmap_ok :: "('k, 'v) jsmap \<Rightarrow> bool" where
  "jsmap_ok m \<longleftrightarrow> distinct (map fst m)"

lemma jsmap_ok_Nil [simp]: "jsmap_ok []"
  by (simp add: jsmap_ok_def)

lemma jsmap_ok_update [simp]: "jsmap_ok m \<Longrightarrow> jsmap_ok (AList.update k v m)"
  by (simp add: jsmap_ok_def distinct_update)

lemma jsmap_ok_delete [simp]: "jsmap_ok m \<Longrightarrow> jsmap_ok (AList.delete k m)"
  by (simp add: jsmap_ok_def distinct_delete)

lemma map_of_update [simp]: "map_of (AList.update k v m) = (map_of m)(k \<mapsto> v)"
  by (rule update_conv')

lemma map_of_delete [simp]: "map_of (AList.delete k m) = (map_of m)(k := None)"
  by (rule delete_conv')

lemma map_of_map_snd: "map_of (map (\<lambda>(k, v). (k, f v)) m) k = map_option f (map_of m k)"
  by (induction m) auto

lemma map_of_filter_fst:
  "distinct (map fst m) \<Longrightarrow>
   map_of (filter P m) k = (case map_of m k of None \<Rightarrow> None | Some v \<Rightarrow> if P (k, v) then Some v else None)"
proof (induction m)
  case Nil
  then show ?case by simp
next
  case (Cons p m)
  then show ?case
    by (cases p) (auto split: option.splits simp: map_of_eq_None_iff rev_image_eqI)
qed

end
