(* ===== verification/JsValue.thy ===== *)
theory JsValue
  imports Prelude
begin

text \<open>
  The part of JavaScript the sources lean on: dynamically typed values (what durable storage gives
  back and the type guards inspect), ASCII strings (\<open>trim\<close>, \<open>toLowerCase\<close>),
  \<open>BigInt\<close> printing and parsing, and the product of an integral double with a fraction
  constant under IEEE round-to-nearest-even. Strings are modelled over ASCII code units.
\<close>

section \<open>Dynamically typed values\<close>

datatype js =
    JUndefined
  | JNull
  | JBool bool
  | JNum int
  | JBigInt int
  | JStr string
  | JArr "js list"
  | JObj "(string \<times> js) list"

type_synonym storage = "string \<rightharpoonup> js"

text \<open>Property access on a \<open>Record<string, unknown>\<close>: an absent property reads as undefined.\<close>

fun js_get :: "js \<Rightarrow> string \<Rightarrow> js" where
  "js_get (JObj kvs) f = (case map_of kvs f of None \<Rightarrow> JUndefined | Some v \<Rightarrow> v)"
| "js_get _ f = JUndefined"

fun is_num :: "js \<Rightarrow> bool" where "is_num (JNum _) = True" | "is_num _ = False"
fun is_str :: "js \<Rightarrow> bool" where "is_str (JStr _) = True" | "is_str _ = False"
fun is_bool :: "js \<Rightarrow> bool" where "is_bool (JBool _) = True" | "is_bool _ = False"

text \<open>\<open>typeof v === "object" && v !== null\<close>: objects and arrays.\<close>

fun is_object :: "js \<Rightarrow> bool" where
  "is_object (JObj _) = True"
| "is_object (JArr _) = True"
| "is_object _ = False"

fun num_of :: "js \<Rightarrow> int" where "num_of (JNum n) = n" | "num_of _ = 0"
fun str_of :: "js \<Rightarrow> string" where "str_of (JStr s) = s" | "str_of _ = []"
fun bool_of :: "js \<Rightarrow> bool" where "bool_of (JBool b) = b" | "bool_of _ = False"
fun elems_of :: "js \<Rightarrow> js list" where "elems_of (JArr xs) = xs" | "elems_of _ = []"

text \<open>A field of type \<open>number | null\<close>.\<close>

definition is_num_or_null :: "js \<Rightarrow> bool" where
  "is_num_or_null v \<longleftrightarrow> v = JNull \<or> is_num v"

definition js_of_num_opt :: "int option \<Rightarrow> js" where
  "js_of_num_opt o' = (case o' of None \<Rightarrow> JNull | Some n \<Rightarrow> JNum n)"

fun num_opt_of :: "js \<Rightarrow> int option" where
  "num_opt_of (JNum n) = Some n"
| "num_opt_of _ = None"

lemma num_opt_of_js [simp]: "num_opt_of (js_of_num_opt x) = x"
  by (simp add: js_of_num_opt_def split: option.splits)

lemma is_num_or_null_js [simp]: "is_num_or_null (js_of_num_opt x)"
  by (simp add: js_of_num_opt_def is_num_or_null_def split: option.splits)

section \<open>Strings\<close>

abbreviation code_of :: "char \<Rightarrow> nat" where "code_of c \<equiv> of_char c"

definition is_space :: "char \<Rightarrow> bool" where
  "is_space c \<longleftrightarrow> code_of c = 32 \<or> (9 \<le> code_of c \<and> code_of c \<le> 13)"

definition js_trim :: "string \<Rightarrow> string" where
  "js_trim s = rev (dropWhile is_space (rev (dropWhile is_space s)))"

definition lower_char :: "char \<Rightarrow> char" where
  "lower_char c = (if 65 \<le> code_of c \<and> code_of c \<le> 90 then char_of (code_of c + 32 :: nat) else c)"

definition js_lower :: "string \<Rightarrow> string" where
  "js_lower s = map lower_char s"

definition is_digit :: "char \<Rightarrow> bool" where
  "is_digit c \<longleftrightarrow> 48 \<le> code_of c \<and> code_of c \<le> 57"

lemma code_of_char_of: "n < 256 \<Longrightarrow> code_of (char_of (n :: nat)) = n"
  by simp

lemma lower_char_idem [simp]: "lower_char (lower_char c) = lower_char c"
  by (auto simp: lower_char_def)

lemma js_lower_idem [simp]: "js_lower (js_lower s) = js_lower s"
  by (simp add: js_lower_def)

lemma dropWhile_id: "xs = [] \<or> \<not> P (hd xs) \<Longrightarrow> dropWhile P xs = xs"
  by (cases xs) auto

lemma js_trim_id:
  "s = [] \<or> (\<not> is_space (hd s) \<and> \<not> is_space (last s)) \<Longrightarrow> js_trim s = s"
  by (auto simp: js_trim_def dropWhile_id hd_rev)

lemma js_trim_ends:
  "js_trim s = [] \<or> (\<not> is_space (hd (js_trim s)) \<and> \<not> is_space (last (js_trim s)))"
proof -
  define t where "t = dropWhile is_space s"
  have trim: "js_trim s = rev (dropWhile is_space (rev t))"
    by (simp add: js_trim_def t_def)
  show ?thesis
  proof (cases "js_trim s = []")
    case False
    then have ne: "dropWhile is_space (rev t) \<noteq> []" by (simp add: trim)
    then have last: "\<not> is_space (last (js_trim s))"
      by (simp add: trim last_rev hd_dropWhile)
    have "rev t = takeWhile is_space (rev t) @ dropWhile is_space (rev t)" by simp
    then have "t = js_trim s @ rev (takeWhile is_space (rev t))"
      unfolding trim by (metis rev_append rev_rev_ident)
    with False have "hd t = hd (js_trim s)" "t \<noteq> []"
      by (metis hd_append2, metis append_is_Nil_conv)
    then have "\<not> is_space (hd (js_trim s))"
      unfolding t_def by (metis hd_dropWhile)
    with last show ?thesis by simp
  qed simp
qed

lemma js_trim_idem [simp]: "js_trim (js_trim s) = js_trim s"
  by (rule js_trim_id) (use js_trim_ends [of s] in auto)

section \<open>\<open>BigInt\<close>: printing and parsing\<close>

definition digit_char :: "nat \<Rightarrow> char" where
  "digit_char d = char_of (48 + d)"

fun nat_str :: "nat \<Rightarrow> string" where
  "nat_str n = (if n < 10 then [digit_char n] else nat_str (n div 10) @ [digit_char (n mod 10)])"

declare nat_str.simps [simp del]

definition bigint_to_string :: "int \<Rightarrow> string" where
  "bigint_to_string i = (if i < 0 then CHR ''-'' # nat_str (nat (- i)) else nat_str (nat i))"

definition digits_val :: "string \<Rightarrow> nat" where
  "digits_val s = foldl (\<lambda>a c. 10 * a + (code_of c - 48)) 0 s"

text \<open>Values of the digits of the prefixed literals \<open>0x\<close>, \<open>0o\<close>, \<open>0b\<close>.\<close>

definition radix_digit :: "nat \<Rightarrow> char \<Rightarrow> nat option" where
  "radix_digit r c =
     (let n = code_of (lower_char c);
          v = (if is_digit c then Some (n - 48)
               else if 97 \<le> n \<and> n \<le> 122 then Some (n - 87) else None)
      in case v of None \<Rightarrow> None | Some d \<Rightarrow> if d < r then Some d else None)"

definition radix_val :: "nat \<Rightarrow> string \<Rightarrow> int option" where
  "radix_val r s =
     (if s \<noteq> [] \<and> list_all (\<lambda>c. radix_digit r c \<noteq> None) s
      then Some (int (foldl (\<lambda>a c. r * a + the (radix_digit r c)) 0 s)) else None)"

definition decimal_val :: "string \<Rightarrow> int option" where
  "decimal_val s = (if s \<noteq> [] \<and> list_all is_digit s then Some (int (digits_val s)) else None)"

text \<open>
  \<open>BigInt(s)\<close> for a string: surrounding white space is ignored, the empty string is
  \<open>0n\<close>, a radix prefix takes no sign, anything else is a \<open>SyntaxError\<close> (\<open>None\<close>).
\<close>

definition bigint_of_string :: "string \<Rightarrow> int option" where
  "bigint_of_string s =
     (let t = js_trim s; p = js_lower (take 2 t) in
      if t = [] then Some 0
      else if p = ''0x'' then radix_val 16 (drop 2 t)
      else if p = ''0o'' then radix_val 8 (drop 2 t)
      else if p = ''0b'' then radix_val 2 (drop 2 t)
      else if hd t = CHR ''-'' then map_option uminus (decimal_val (tl t))
      else if hd t = CHR ''+'' then decimal_val (tl t)
      else decimal_val t)"

lemma code_digit_char [simp]: "d < 10 \<Longrightarrow> code_of (digit_char d) = 48 + d"
  by (simp add: digit_char_def)

lemma is_digit_digit_char [simp]: "d < 10 \<Longrightarrow> is_digit (digit_char d)"
  by (simp add: is_digit_def)

lemma nat_str_digits: "list_all is_digit (nat_str n)"
  by (induction n rule: nat_str.induct) (subst nat_str.simps, auto)

lemma nat_str_ne: "nat_str n \<noteq> []"
  by (subst nat_str.simps) simp

lemma digits_val_snoc: "digits_val (s @ [c]) = 10 * digits_val s + (code_of c - 48)"
  by (simp add: digits_val_def)

lemma digits_val_nat_str: "digits_val (nat_str n) = n"
proof (induction n rule: nat_str.induct)
  case (1 n)
  show ?case
  proof (cases "n < 10")
    case True
    then show ?thesis by (subst nat_str.simps) (simp add: digits_val_def)
  next
    case False
    with 1 show ?thesis
      by (subst nat_str.simps) (simp add: digits_val_snoc)
  qed
qed

lemma decimal_val_nat_str: "decimal_val (nat_str n) = Some (int n)"
  by (simp add: decimal_val_def nat_str_ne nat_str_digits digits_val_nat_str)

lemma not_space_digit: "is_digit c \<Longrightarrow> \<not> is_space c"
  by (auto simp: is_digit_def is_space_def)

lemma digits_trim: "list_all is_digit s \<Longrightarrow> js_trim s = s"
  by (cases "s = []")
    (auto simp: js_trim_id list_all_iff not_space_digit)

lemma is_digit_lower [simp]: "is_digit c \<Longrightarrow> lower_char c = c"
  by (simp add: is_digit_def lower_char_def)

lemma js_lower_digits: "list_all is_digit s \<Longrightarrow> js_lower s = s"
  by (induction s) (auto simp: js_lower_def)

lemma not_is_digit [simp]:
  "\<not> is_digit (CHR ''x'')" "\<not> is_digit (CHR ''o'')" "\<not> is_digit (CHR ''b'')"
  "\<not> is_digit (CHR ''-'')" "\<not> is_digit (CHR ''+'')"
  by (simp_all add: is_digit_def)

text \<open>A digit string has no radix prefix and no sign, so it is read in decimal.\<close>

lemma bigint_of_digits:
  assumes "list_all is_digit s" "s \<noteq> []"
  shows "bigint_of_string s = decimal_val s"
proof -
  have "list_all is_digit (take 2 s)"
    using assms(1) by (auto simp: list_all_iff dest: in_set_takeD)
  moreover from this have "js_lower (take 2 s) = take 2 s" by (rule js_lower_digits)
  ultimately have "js_lower (take 2 s) \<notin> {''0x'', ''0o'', ''0b''}" by auto
  moreover have "is_digit (hd s)" using assms by (auto simp: list_all_iff)
  then have "hd s \<noteq> CHR ''-''" "hd s \<noteq> CHR ''+''" by auto
  ultimately show ?thesis
    using assms by (auto simp: bigint_of_string_def digits_trim Let_def)
qed

lemma minus_not_space: "\<not> is_space (CHR ''-'')"
  by (simp add: is_space_def)

theorem bigint_roundtrip: "bigint_of_string (bigint_to_string i) = Some i"
proof (cases "i < 0")
  case True
  define t where "t = CHR ''-'' # nat_str (nat (- i))"
  have "is_digit (last (nat_str (nat (- i))))"
    using nat_str_digits nat_str_ne by (metis last_in_set list_all_iff)
  then have "js_trim t = t"
    by (intro js_trim_id) (simp add: t_def nat_str_ne not_space_digit minus_not_space)
  moreover have "js_lower (take 2 t) \<notin> {''0x'', ''0o'', ''0b''}"
    by (simp add: t_def js_lower_def numeral_2_eq_2 lower_char_def)
  ultimately have "bigint_of_string t = map_option uminus (decimal_val (tl t))"
    by (auto simp: bigint_of_string_def Let_def t_def)
  with True show ?thesis
    by (simp add: t_def bigint_to_string_def decimal_val_nat_str)
next
  case False
  then show ?thesis
    by (simp add: bigint_to_string_def bigint_of_digits nat_str_digits nat_str_ne
        decimal_val_nat_str)
qed

lemma bigint_trim: "js_trim (bigint_to_string n) = bigint_to_string n"
  using nat_str_digits [of "nat n"] nat_str_ne [of "nat n"] nat_str_digits [of "nat (- n)"]
    nat_str_ne [of "nat (- n)"] minus_not_space
  by (intro js_trim_id) (auto simp: bigint_to_string_def list_all_iff not_space_digit)

section \<open>Doubles: an integral double times a fraction constant\<close>

text \<open>
  A positive double is \<open>m * 2 ^ e\<close> with \<open>m < 2 ^ 53\<close>. The product of the integral double
  \<open>d\<close> and a constant \<open>c / 2 ^ k\<close> is the exact product \<open>d * c\<close>, rounded to 53
  significant bits (ties to even), over \<open>2 ^ k\<close>; \<open>round53\<close> is that rounding on naturals.
\<close>

fun bitlen :: "nat \<Rightarrow> nat" where
  "bitlen n = (if n = 0 then 0 else Suc (bitlen (n div 2)))"

declare bitlen.simps [simp del]

definition round53 :: "nat \<Rightarrow> nat" where
  "round53 n =
     (let l = bitlen n in
      if l \<le> 53 then n
      else let u = 2 ^ (l - 53); q = n div u; r = n mod u in
           (if u < 2 * r \<or> (2 * r = u \<and> odd q) then q + 1 else q) * u)"

lemma bitlen_0 [simp]: "bitlen 0 = 0"
  by (simp add: bitlen.simps)

lemma bitlen_pos: "0 < n \<Longrightarrow> bitlen n = Suc (bitlen (n div 2))"
  by (subst bitlen.simps) simp

lemma bitlen_bounds: "n < 2 ^ bitlen n \<and> (0 < n \<longrightarrow> 2 ^ (bitlen n - 1) \<le> n)"
proof (induction n rule: bitlen.induct)
  case (1 n)
  show ?case
  proof (cases "n \<le> 1")
    case True
    then have "n = 0 \<or> n = 1" by auto
    then show ?thesis by (auto simp: bitlen_pos)
  next
    case False
    then have bl: "bitlen n = Suc (bitlen (n div 2))" by (simp add: bitlen_pos)
    from False have pos: "0 < n div 2" by simp
    with 1 False have ih: "n div 2 < 2 ^ bitlen (n div 2)" "2 ^ (bitlen (n div 2) - 1) \<le> n div 2"
      by auto
    have "2 ^ bitlen (n div 2) \<le> n"
    proof -
      from pos have "0 < bitlen (n div 2)" by (simp add: bitlen_pos)
      then obtain b where b: "bitlen (n div 2) = Suc b" by (cases "bitlen (n div 2)") auto
      with ih(2) have "2 ^ b \<le> n div 2" by simp
      then show ?thesis using b by simp
    qed
    moreover have "n < 2 ^ Suc (bitlen (n div 2))" using ih(1) by simp
    ultimately show ?thesis using bl by simp
  qed
qed

lemma bitlen_le: "n < 2 ^ k \<Longrightarrow> bitlen n \<le> k"
proof (rule ccontr)
  assume n: "n < 2 ^ k" and "\<not> bitlen n \<le> k"
  then have "k \<le> bitlen n - 1" "0 < bitlen n" by auto
  then have "(2 :: nat) ^ k \<le> 2 ^ (bitlen n - 1)" "0 < n"
    by (auto intro!: power_increasing gr0I)
  with bitlen_bounds [of n] have "2 ^ k \<le> n" by linarith
  with n show False by simp
qed

lemma round53_exact: "n < 2 ^ 53 \<Longrightarrow> round53 n = n"
  using bitlen_le [of n 53] by (simp add: round53_def)

text \<open>The relative error is at most \<open>2 ^ -53\<close>.\<close>

lemma round53_error:
  "2 ^ 53 * round53 n \<le> (2 ^ 53 + 1) * n" "(2 ^ 53 - 1) * n \<le> 2 ^ 53 * round53 n"
proof -
  have "2 ^ 53 * round53 n \<le> (2 ^ 53 + 1) * n \<and> (2 ^ 53 - 1) * n \<le> 2 ^ 53 * round53 n"
  proof (cases "bitlen n \<le> 53")
    case True
    then show ?thesis by (simp add: round53_def)
  next
    case False
    define u where "u = (2 :: nat) ^ (bitlen n - 53)"
    define q where "q = n div u"
    define r where "r = n mod u"
    have n: "n = q * u + r" by (simp add: q_def r_def)
    have r: "r < u" by (simp add: r_def u_def)
    from False have "0 < n" by (auto intro!: gr0I)
    with bitlen_bounds [of n] have "2 ^ (bitlen n - 1) \<le> n" by simp
    moreover from False have "bitlen n - 1 = 52 + (bitlen n - 53)" by simp
    then have "(2 :: nat) ^ (bitlen n - 1) = 2 ^ 52 * u" unfolding u_def by (simp only: power_add)
    ultimately have big: "2 ^ 52 * u \<le> n" by simp
    have rnd: "round53 n = (if u < 2 * r \<or> (2 * r = u \<and> odd q) then q + 1 else q) * u"
      using False by (simp add: round53_def Let_def u_def q_def r_def)
    then consider "round53 n = q * u + u" "u \<le> 2 * r" | "round53 n = q * u" "2 * r \<le> u"
      by (cases "u < 2 * r \<or> (2 * r = u \<and> odd q)") (auto simp: algebra_simps)
    then show ?thesis
      by cases (use n r big in \<open>simp_all add: algebra_simps\<close>)
  qed
  then show "2 ^ 53 * round53 n \<le> (2 ^ 53 + 1) * n" "(2 ^ 53 - 1) * n \<le> 2 ^ 53 * round53 n"
    by simp_all
qed

text \<open>Rounding does not cross a representable number from above.\<close>

lemma round53_ge:
  assumes k: "k \<le> 2 ^ 53" and le: "k * 2 ^ j \<le> n"
  shows "k * 2 ^ j \<le> round53 n"
proof (cases "bitlen n \<le> 53")
  case True
  with le show ?thesis by (simp add: round53_def)
next
  case False
  define u where "u = (2 :: nat) ^ (bitlen n - 53)"
  have low: "n div u * u \<le> round53 n"
    using False by (simp add: round53_def Let_def u_def algebra_simps)
  have "k * 2 ^ j \<le> n div u * u"
  proof (cases "bitlen n - 53 \<le> j")
    case True
    then have "u dvd k * 2 ^ j" unfolding u_def by (simp add: le_imp_power_dvd dvd_mult)
    then obtain m where m: "k * 2 ^ j = m * u" by (metis dvd_def mult.commute)
    with le have "m \<le> n div u" unfolding u_def by (simp add: less_eq_div_iff_mult_less_eq)
    with m show ?thesis by simp
  next
    case j: False
    from False have "0 < n" by (auto intro!: gr0I)
    with bitlen_bounds [of n] have "2 ^ (bitlen n - 1) \<le> n" by simp
    moreover from False have "bitlen n - 1 = 52 + (bitlen n - 53)" by simp
    then have e: "(2 :: nat) ^ (bitlen n - 1) = 2 ^ 52 * u" unfolding u_def by (simp only: power_add)
    ultimately have "2 ^ 52 \<le> n div u"
      unfolding u_def by (simp add: less_eq_div_iff_mult_less_eq)
    then have "2 ^ 52 * u \<le> n div u * u" by (rule mult_le_mono1)
    moreover have "k * 2 ^ j \<le> 2 ^ 53 * 2 ^ (bitlen n - 53 - 1)"
      using k j by (intro mult_le_mono power_increasing) auto
    moreover have "(2 :: nat) ^ 53 * 2 ^ (bitlen n - 53 - 1) = 2 ^ 52 * u"
      using False unfolding u_def by (cases "bitlen n - 53") auto
    ultimately show ?thesis by linarith
  qed
  with low show ?thesis by linarith
qed

text \<open>
  The double nearest to \<open>a / b\<close>, scaled by \<open>2 ^ 111\<close>: the quotient to more than 54 bits with a
  sticky bit for the remainder, rounded once. Good for \<open>0 < a\<close> and \<open>a, b < 2 ^ 53\<close>.
\<close>

definition ratio_scaled :: "nat \<Rightarrow> nat \<Rightarrow> nat" where
  "ratio_scaled a b =
     round53 (2 * (a * 2 ^ 110 div b) + (if a * 2 ^ 110 mod b = 0 then 0 else 1))"

text \<open>\<open>Math.round((a / b) * 100)\<close>: round half up of the rounded product.\<close>

definition js_percent :: "nat \<Rightarrow> nat \<Rightarrow> nat" where
  "js_percent a b = (2 * round53 (100 * ratio_scaled a b) + 2 ^ 111) div 2 ^ 112"

lemma js_percent_examples:
  "js_percent 1 2 = 50" "js_percent 57 200 = 28" "js_percent 1 200 = 1" "js_percent 0 7 = 0"
  by (simp_all add: js_percent_def ratio_scaled_def round53_def bitlen_pos Let_def)

section \<open>Remainders and indexing\<close>

text \<open>\<open>a % b\<close> takes the sign of \<open>a\<close>; reading an array out of range gives \<open>undefined\<close>.\<close>

definition js_rem :: "int \<Rightarrow> int \<Rightarrow> int" where
  "js_rem a b = sgn a * (\<bar>a\<bar> mod \<bar>b\<bar>)"

definition js_index :: "'a list \<Rightarrow> int \<Rightarrow> 'a option" where
  "js_index xs i = (if 0 \<le> i \<and> i < int (length xs) then Some (xs ! nat i) else None)"

lemma js_rem_nonneg: "0 \<le> a \<Longrightarrow> 0 < b \<Longrightarrow> js_rem a b = a mod b"
  by (cases "a = 0") (auto simp: js_rem_def sgn_if)

lemma js_index_mem: "js_index xs i = Some x \<Longrightarrow> x \<in> set xs"
  by (auto simp: js_index_def split: if_splits)

lemma js_index_0 [simp]: "js_index [] i = None" "js_index (x # xs) 0 = Some x"
  by (auto simp: js_index_def)

end
