(* ===== verification/LimitConstants.thy ===== *)
theory LimitConstants
  imports JsValue
begin

text \<open>\<open>src/constants/limits.ts\<close>: the defaults of the breaker, the rate limiter and the router.\<close>

definition DEFAULT_CIRCUIT_BREAKER_THRESHOLD :: int where
  "DEFAULT_CIRCUIT_BREAKER_THRESHOLD = 3"

definition DEFAULT_RPM_LIMIT :: int where "DEFAULT_RPM_LIMIT = 60"

definition DEFAULT_RPD_LIMIT :: int where "DEFAULT_RPD_LIMIT = 1500"

definition DEFAULT_WINDOW_SIZE_SECONDS :: int where "DEFAULT_WINDOW_SIZE_SECONDS = 60"

definition DEFAULT_CIRCUIT_BREAKER_COOLDOWN_SECONDS :: int where
  "DEFAULT_CIRCUIT_BREAKER_COOLDOWN_SECONDS = 60"

definition DEFAULT_CIRCUIT_BREAKER_HALF_OPEN_SUCCESS_THRESHOLD :: int where
  "DEFAULT_CIRCUIT_BREAKER_HALF_OPEN_SUCCESS_THRESHOLD = 1"

definition DEFAULT_CIRCUIT_BREAKER_TRIPPING_STATUS_CODES :: "int list" where
  "DEFAULT_CIRCUIT_BREAKER_TRIPPING_STATUS_CODES = [429, 500, 502, 503, 504]"

definition DEFAULT_RETRY_AFTER_SECONDS :: int where "DEFAULT_RETRY_AFTER_SECONDS = 60"

definition MAX_RPM_LIMIT :: int where "MAX_RPM_LIMIT = 100000"

definition MIN_RPM_LIMIT :: int where "MIN_RPM_LIMIT = 1"

definition isValidRpmLimit :: "js \<Rightarrow> bool" where
  "isValidRpmLimit rpm \<longleftrightarrow> is_num rpm \<and> num_of rpm \<ge> MIN_RPM_LIMIT \<and> num_of rpm \<le> MAX_RPM_LIMIT"

definition isValidCircuitBreakerThreshold :: "js \<Rightarrow> bool" where
  "isValidCircuitBreakerThreshold threshold \<longleftrightarrow> is_num threshold \<and> num_of threshold \<ge> 1"

end
