(* ===== verification/Interfaces.thy ===== *)
theory Interfaces
  imports Prelude
begin

text \<open>
  The contracts between components, as locales; each component theory interprets the ones it
  provides on its own definitions.
  \<^item> \<open>aging\<close>: data that changes by the passing of time alone (a cooldown that elapses, window
    entries that expire).
  \<^item> \<open>durable_cache\<close>: a per-key in-memory cache in front of durable storage, as the durable
    objects keep it: \<open>load\<close> fills the cache, \<open>remember\<close> writes the cache only, \<open>save\<close>
    writes through, \<open>evict\<close> is the loss of memory when the platform evicts the object.
  \<^item> \<open>aging_cache\<close>: both; its client lemmas say when an eviction cannot be observed.
  \<^item> \<open>sliding_window\<close>: timestamped, weighted entries counted over a window.
  \<^item> \<open>stable_probe\<close>: a health check with side effects that never change another check's answer.
  \<^item> \<open>invariant_system\<close>: a deterministic machine with an inductive invariant.
\<close>

section \<open>Data that ages\<close>

locale aging =
  fixes age :: "timestamp \<Rightarrow> 'd \<Rightarrow> 'd"
  assumes age_absorb: "t \<le> t' \<Longrightarrow> age t' (age t d) = age t' d"
begin

lemma age_idem: "age t (age t d) = age t d"
  by (simp add: age_absorb)

end

section \<open>A write-through cache over durable storage\<close>

locale durable_cache =
  fixes load :: "'k \<Rightarrow> 's \<Rightarrow> 'd \<times> 's"
    and remember :: "'k \<Rightarrow> 'd \<Rightarrow> 's \<Rightarrow> 's"
    and save :: "'k \<Rightarrow> 'd \<Rightarrow> 's \<Rightarrow> 's"
    and evict :: "'s \<Rightarrow> 's"
  assumes load_pure: "fst (load k (snd (load k' s))) = fst (load k s)"
    and load_evict: "evict (snd (load k s)) = evict s"
    and remember_load: "fst (load k' (remember k d s)) = (if k' = k then d else fst (load k' s))"
    and remember_evict: "evict (remember k d s) = evict s"
    and save_load: "fst (load k' (save k d s)) = (if k' = k then d else fst (load k' s))"
    and save_evict: "fst (load k' (evict (save k d s))) =
                       (if k' = k then d else fst (load k' (evict s)))"
begin

text \<open>The abstract state a client sees: the value of every key.\<close>

definition view :: "'s \<Rightarrow> 'k \<Rightarrow> 'd" where
  "view s k = fst (load k s)"

lemma view_load [simp]: "view (snd (load k s)) = view s"
  by (simp add: view_def fun_eq_iff load_pure)

lemma view_remember [simp]: "view (remember k d s) = (view s)(k := d)"
  by (simp add: view_def fun_eq_iff remember_load)

lemma view_save [simp]: "view (save k d s) = (view s)(k := d)"
  by (simp add: view_def fun_eq_iff save_load)

lemma view_evict_save [simp]: "view (evict (save k d s)) = (view (evict s))(k := d)"
  by (simp add: view_def fun_eq_iff save_evict)

lemmas cache_simps = load_evict remember_evict

end

locale aging_cache = durable_cache load remember save evict + aging age
  for load :: "'k \<Rightarrow> 's \<Rightarrow> 'd \<times> 's"
    and remember :: "'k \<Rightarrow> 'd \<Rightarrow> 's \<Rightarrow> 's"
    and save :: "'k \<Rightarrow> 'd \<Rightarrow> 's \<Rightarrow> 's"
    and evict :: "'s \<Rightarrow> 's"
    and age :: "timestamp \<Rightarrow> 'd \<Rightarrow> 'd"
begin

text \<open>Memory and storage agree up to aging, from time \<open>t\<close> on.\<close>

definition fresh :: "timestamp \<Rightarrow> 's \<Rightarrow> bool" where
  "fresh t s \<longleftrightarrow> (\<forall>k. age t (view (evict s) k) = age t (view s k))"

lemma fresh_later: "fresh t s \<Longrightarrow> t \<le> t' \<Longrightarrow> fresh t' s"
  unfolding fresh_def by (metis age_absorb)

lemma fresh_load: "fresh t s \<Longrightarrow> fresh t (snd (load k s))"
  by (simp add: fresh_def load_evict)

lemma fresh_remember: "fresh t s \<Longrightarrow> fresh t (remember k (age t (view s k)) s)"
  by (auto simp: fresh_def remember_evict age_idem)

lemma fresh_save: "fresh t s \<Longrightarrow> fresh t (save k d s)"
  by (auto simp: fresh_def)

text \<open>An aged read does not see an eviction.\<close>

lemma fresh_read: "fresh t s \<Longrightarrow> t \<le> t' \<Longrightarrow> age t' (fst (load k (evict s))) = age t' (fst (load k s))"
  using fresh_later [of t s t'] by (simp add: fresh_def view_def)

end

section \<open>Sliding windows\<close>

locale sliding_window =
  fixes stamp :: "'e \<Rightarrow> timestamp"
    and weight :: "'e \<Rightarrow> int"
    and prune :: "timestamp \<Rightarrow> int \<Rightarrow> 'e list \<Rightarrow> 'e list"
    and usage :: "timestamp \<Rightarrow> int \<Rightarrow> 'e list \<Rightarrow> int"
  assumes prune_filter: "prune now w es = filter (\<lambda>e. now - w < stamp e) es"
    and usage_sum: "usage now w es = sum_list (map weight (filter (\<lambda>e. now - w < stamp e) es))"
begin

lemma usage_Nil [simp]: "usage now w [] = 0"
  by (simp add: usage_sum)

lemma usage_append: "usage now w (es @ fs) = usage now w es + usage now w fs"
  by (simp add: usage_sum)

lemma usage_snoc:
  "usage now w (es @ [e]) = usage now w es + (if now - w < stamp e then weight e else 0)"
  by (simp add: usage_sum)

lemma prune_absorb: "t \<le> t' \<Longrightarrow> prune t' w (prune t w es) = prune t' w es"
  by (auto simp: prune_filter intro!: filter_cong)

text \<open>Pruning by a longer window leaves the usage of a shorter one.\<close>

lemma usage_prune: "w \<le> w' \<Longrightarrow> t \<le> t' \<Longrightarrow> usage t' w (prune t w' es) = usage t' w es"
  by (simp add: usage_sum prune_filter) (metis (no_types, lifting) diff_mono order.strict_trans1)

lemma usage_nonneg: "(\<And>e. e \<in> set es \<Longrightarrow> 0 \<le> weight e) \<Longrightarrow> 0 \<le> usage now w es"
  by (auto simp: usage_sum intro!: sum_list_map_nonneg)

text \<open>With no new entry, usage only falls.\<close>

lemma usage_decay:
  "(\<And>e. e \<in> set es \<Longrightarrow> 0 \<le> weight e) \<Longrightarrow> t \<le> t' \<Longrightarrow> usage t' w es \<le> usage t w es"
  by (auto simp: usage_sum intro!: sum_list_filter_mono)

lemma usage_expired: "(\<And>e. e \<in> set es \<Longrightarrow> stamp e \<le> now - w) \<Longrightarrow> usage now w es = 0"
proof -
  assume "\<And>e. e \<in> set es \<Longrightarrow> stamp e \<le> now - w"
  then have "filter (\<lambda>e. now - w < stamp e) es = []" by (fastforce simp: filter_empty_conv)
  then show ?thesis by (simp add: usage_sum)
qed

text \<open>
  Admission control: if every entry of a chronological history was within the limit at the moment
  it was added, then no window of that length, wherever it ends, holds more than the limit.
\<close>

lemma window_bound:
  assumes sorted: "sorted (map stamp es)"
    and admitted: "\<And>p e q. es = p @ e # q \<Longrightarrow> usage (stamp e) w (p @ [e]) \<le> limit"
    and limit: "0 \<le> limit"
    and weights: "\<And>e. e \<in> set es \<Longrightarrow> 0 \<le> weight e"
  shows "usage t w (filter (\<lambda>e. stamp e \<le> t) es) \<le> limit"
  using sorted admitted weights
proof (induction es rule: rev_induct)
  case Nil
  with limit show ?case by simp
next
  case (snoc e es)
  show ?case
  proof (cases "stamp e \<le> t")
    case True
    with snoc.prems(1) have all: "filter (\<lambda>e. stamp e \<le> t) (es @ [e]) = es @ [e]"
      by (auto simp: sorted_append filter_id_conv intro: order_trans)
    have "usage t w (es @ [e]) \<le> usage (stamp e) w (es @ [e])"
      using True snoc.prems(3) by (intro usage_decay) auto
    also have "\<dots> \<le> limit" using snoc.prems(2) [of es e "[]"] by simp
    finally show ?thesis unfolding all .
  next
    case False
    have "usage t w (filter (\<lambda>e. stamp e \<le> t) es) \<le> limit"
    proof (rule snoc.IH)
      fix p x q assume "es = p @ x # q"
      then show "usage (stamp x) w (p @ [x]) \<le> limit"
        using snoc.prems(2) [of p x "q @ [e]"] by simp
    qed (use snoc.prems in \<open>auto simp: sorted_append\<close>)
    with False show ?thesis by simp
  qed
qed

end

section \<open>Health checks that do not disturb each other\<close>

fun thread_map :: "('k \<Rightarrow> 's \<Rightarrow> 'r \<times> 's) \<Rightarrow> 'k list \<Rightarrow> 's \<Rightarrow> 'r list \<times> 's" where
  "thread_map f [] s = ([], s)"
| "thread_map f (k # ks) s =
     (let (r, s1) = f k s; (rs, s2) = thread_map f ks s1 in (r # rs, s2))"

locale stable_probe =
  fixes probe :: "'k \<Rightarrow> 's \<Rightarrow> 'r \<times> 's"
  assumes probe_stable: "fst (probe k (snd (probe k' s))) = fst (probe k s)"
begin

lemma thread_stable: "fst (probe k (snd (thread_map probe ks s))) = fst (probe k s)"
proof (induction ks arbitrary: s)
  case (Cons k' ks)
  then show ?case by (simp add: Let_def case_prod_beta probe_stable)
qed simp

text \<open>Probing a list one after the other gives each key its verdict on the first state.\<close>

lemma thread_verdicts: "fst (thread_map probe ks s) = map (\<lambda>k. fst (probe k s)) ks"
proof (induction ks arbitrary: s)
  case (Cons k' ks)
  then show ?case by (simp add: Let_def case_prod_beta probe_stable)
qed simp

end

section \<open>Machines with an invariant\<close>

locale invariant_system =
  fixes step :: "'e \<Rightarrow> 's \<Rightarrow> 's"
    and inv :: "'s \<Rightarrow> bool"
  assumes inv_step: "inv s \<Longrightarrow> inv (step e s)"
begin

lemma inv_run: "inv s \<Longrightarrow> inv (fold step es s)"
  by (induction es arbitrary: s) (auto intro: inv_step)

end

end
