(* ===== verification/CircuitBreaker.thy ===== *)
theory CircuitBreaker
  imports LimitConstants Interfaces
begin

text \<open>
  \<open>src/durable_objects/circuit_breaker/\<close>: the per-key breaker of a key pool. \<open>types.ts\<close> gives
  the data and its guards, \<open>state_machine.ts\<close> the transitions, \<open>storage.ts\<close> the cache in
  front of durable storage, \<open>breaker.ts\<close> the class. The clock is an argument of each
  operation, read once per operation. An ISO date string is represented by the instant it denotes.
\<close>

section \<open>Types (types.ts)\<close>

datatype cb_state = CLOSED | OPEN | HALF_OPEN

record CircuitBreakerData =
  cbState :: cb_state
  consecutiveFailures :: int
  consecutiveSuccesses :: int
  lastFailureTime :: "timestamp option"
  lastSuccessTime :: "timestamp option"
  openedAt :: "timestamp option"

record CircuitBreakerOptions =
  optKeyId :: "key_id option"
  optFailureThreshold :: "int option"
  optCooldownSeconds :: "int option"
  optHalfOpenSuccessThreshold :: "int option"
  optTrippingStatusCodes :: "int list option"
  optStorageKeyPrefix :: "string option"

definition createDefaultCircuitBreakerData :: CircuitBreakerData where
  "createDefaultCircuitBreakerData =
     \<lparr>cbState = CLOSED, consecutiveFailures = 0, consecutiveSuccesses = 0,
      lastFailureTime = None, lastSuccessTime = None, openedAt = None\<rparr>"

definition state_name :: "cb_state \<Rightarrow> string" where
  "state_name st = (case st of CLOSED \<Rightarrow> ''CLOSED'' | OPEN \<Rightarrow> ''OPEN'' | HALF_OPEN \<Rightarrow> ''HALF_OPEN'')"

definition CIRCUIT_BREAKER_STATES :: "string list" where
  "CIRCUIT_BREAKER_STATES = [''CLOSED'', ''OPEN'', ''HALF_OPEN'']"

definition isCircuitBreakerState :: "js \<Rightarrow> bool" where
  "isCircuitBreakerState v \<longleftrightarrow> is_str v \<and> str_of v \<in> set CIRCUIT_BREAKER_STATES"

definition isCircuitBreakerData :: "js \<Rightarrow> bool" where
  "isCircuitBreakerData v \<longleftrightarrow>
     is_object v \<and>
     isCircuitBreakerState (js_get v ''state'') \<and>
     is_num (js_get v ''consecutiveFailures'') \<and>
     is_num (js_get v ''consecutiveSuccesses'') \<and>
     is_num_or_null (js_get v ''lastFailureTime'') \<and>
     is_num_or_null (js_get v ''lastSuccessTime'') \<and>
     is_num_or_null (js_get v ''openedAt'')"

text \<open>The object \<open>put\<close> stores and the record a guarded \<open>get\<close> yields.\<close>

definition js_of_cb :: "CircuitBreakerData \<Rightarrow> js" where
  "js_of_cb d = JObj
     [(''state'', JStr (state_name (cbState d))),
      (''consecutiveFailures'', JNum (consecutiveFailures d)),
      (''consecutiveSuccesses'', JNum (consecutiveSuccesses d)),
      (''lastFailureTime'', js_of_num_opt (lastFailureTime d)),
      (''lastSuccessTime'', js_of_num_opt (lastSuccessTime d)),
      (''openedAt'', js_of_num_opt (openedAt d))]"

definition cb_of_js :: "js \<Rightarrow> CircuitBreakerData" where
  "cb_of_js v =
     \<lparr>cbState = (let n = str_of (js_get v ''state'') in
                 if n = ''OPEN'' then OPEN else if n = ''HALF_OPEN'' then HALF_OPEN else CLOSED),
      consecutiveFailures = num_of (js_get v ''consecutiveFailures''),
      consecutiveSuccesses = num_of (js_get v ''consecutiveSuccesses''),
      lastFailureTime = num_opt_of (js_get v ''lastFailureTime''),
      lastSuccessTime = num_opt_of (js_get v ''lastSuccessTime''),
      openedAt = num_opt_of (js_get v ''openedAt'')\<rparr>"

section \<open>Transitions (state\_machine.ts)\<close>

definition evaluateCooldown ::
  "CircuitBreakerData \<Rightarrow> timestamp \<Rightarrow> int \<Rightarrow> bool \<times> CircuitBreakerData" where
  "evaluateCooldown d now cooldown =
     (case openedAt d of
        Some opened \<Rightarrow>
          if cbState d = OPEN \<and> now - opened \<ge> cooldown
          then (True, d\<lparr>cbState := HALF_OPEN, consecutiveSuccesses := 0\<rparr>)
          else (False, d)
      | None \<Rightarrow> (False, d))"

definition applyTrip :: "CircuitBreakerData \<Rightarrow> timestamp \<Rightarrow> int \<Rightarrow> CircuitBreakerData" where
  "applyTrip d now threshold =
     d\<lparr>cbState := OPEN, openedAt := Some now, lastFailureTime := Some now,
       consecutiveFailures := max (consecutiveFailures d) threshold,
       consecutiveSuccesses := 0\<rparr>"

definition applyReset :: "CircuitBreakerData \<Rightarrow> CircuitBreakerData" where
  "applyReset d =
     (let fresh = createDefaultCircuitBreakerData in
      d\<lparr>cbState := cbState fresh,
        consecutiveFailures := consecutiveFailures fresh,
        consecutiveSuccesses := consecutiveSuccesses fresh,
        lastFailureTime := lastFailureTime fresh,
        lastSuccessTime := lastSuccessTime fresh,
        openedAt := openedAt fresh\<rparr>)"

definition applySuccess :: "CircuitBreakerData \<Rightarrow> timestamp \<Rightarrow> int \<Rightarrow> CircuitBreakerData" where
  "applySuccess d0 now halfOpenThreshold =
     (let d = d0\<lparr>lastSuccessTime := Some now\<rparr> in
      case cbState d of
        HALF_OPEN \<Rightarrow>
          (let d' = d\<lparr>consecutiveSuccesses := consecutiveSuccesses d + 1\<rparr> in
           if consecutiveSuccesses d' \<ge> halfOpenThreshold
           then d'\<lparr>cbState := CLOSED, consecutiveFailures := 0, consecutiveSuccesses := 0,
                   openedAt := None\<rparr>
           else d')
      | CLOSED \<Rightarrow> d\<lparr>consecutiveFailures := 0\<rparr>
      | OPEN \<Rightarrow> d\<lparr>cbState := CLOSED, consecutiveFailures := 0, consecutiveSuccesses := 0,
                  openedAt := None\<rparr>)"

definition applyFailure :: "CircuitBreakerData \<Rightarrow> timestamp \<Rightarrow> int \<Rightarrow> CircuitBreakerData" where
  "applyFailure d0 now threshold =
     (let d = d0\<lparr>lastFailureTime := Some now\<rparr> in
      case cbState d of
        CLOSED \<Rightarrow>
          (let d' = d\<lparr>consecutiveFailures := consecutiveFailures d + 1\<rparr> in
           if consecutiveFailures d' \<ge> threshold
           then d'\<lparr>cbState := OPEN, openedAt := Some now, consecutiveSuccesses := 0\<rparr>
           else d')
      | HALF_OPEN \<Rightarrow>
          d\<lparr>cbState := OPEN, openedAt := Some now, consecutiveSuccesses := 0,
            consecutiveFailures := consecutiveFailures d + 1\<rparr>
      | OPEN \<Rightarrow> d\<lparr>consecutiveFailures := consecutiveFailures d + 1\<rparr>)"

section \<open>Storage (storage.ts)\<close>

record CircuitBreaker =
  cbMemory :: "key_id \<rightharpoonup> CircuitBreakerData"
  cbStorage :: storage
  cbPrefix :: string
  cbDefaultKeyId :: key_id
  failureThreshold :: int
  cooldownSeconds :: int
  cooldownMs :: int
  halfOpenSuccessThreshold :: int
  trippingStatusCodes :: "int list"

definition cb_getStorageKey :: "CircuitBreaker \<Rightarrow> key_id \<Rightarrow> string" where
  "cb_getStorageKey s keyId = cbPrefix s @ keyId"

definition cb_load :: "key_id \<Rightarrow> CircuitBreaker \<Rightarrow> CircuitBreakerData \<times> CircuitBreaker" where
  "cb_load keyId s =
     (case cbMemory s keyId of
        Some d \<Rightarrow> (d, s)
      | None \<Rightarrow>
          (let d = (case cbStorage s (cb_getStorageKey s keyId) of
                      Some stored \<Rightarrow> if isCircuitBreakerData stored then cb_of_js stored
                                      else createDefaultCircuitBreakerData
                    | None \<Rightarrow> createDefaultCircuitBreakerData)
           in (d, s\<lparr>cbMemory := (cbMemory s)(keyId \<mapsto> d)\<rparr>)))"

definition cb_getSync :: "key_id \<Rightarrow> CircuitBreaker \<Rightarrow> CircuitBreakerData option" where
  "cb_getSync keyId s = cbMemory s keyId"

definition cb_setMemory :: "key_id \<Rightarrow> CircuitBreakerData \<Rightarrow> CircuitBreaker \<Rightarrow> CircuitBreaker" where
  "cb_setMemory keyId d s = s\<lparr>cbMemory := (cbMemory s)(keyId \<mapsto> d)\<rparr>"

definition cb_persist :: "key_id \<Rightarrow> CircuitBreakerData \<Rightarrow> CircuitBreaker \<Rightarrow> CircuitBreaker" where
  "cb_persist keyId d s = s\<lparr>cbStorage := (cbStorage s)(cb_getStorageKey s keyId \<mapsto> js_of_cb d)\<rparr>"

definition cb_clearMemory :: "CircuitBreaker \<Rightarrow> CircuitBreaker" where
  "cb_clearMemory s = s\<lparr>cbMemory := Map.empty\<rparr>"

section \<open>The class (breaker.ts)\<close>

definition newCircuitBreaker :: "storage \<Rightarrow> CircuitBreakerOptions \<Rightarrow> CircuitBreaker" where
  "newCircuitBreaker storage opts =
     (let seconds = (case optCooldownSeconds opts of Some n \<Rightarrow> n
                     | None \<Rightarrow> DEFAULT_CIRCUIT_BREAKER_COOLDOWN_SECONDS) in
      \<lparr>cbMemory = Map.empty,
       cbStorage = storage,
       cbPrefix = (case optStorageKeyPrefix opts of Some p \<Rightarrow> p | None \<Rightarrow> ''cb:''),
       cbDefaultKeyId = (case optKeyId opts of Some k \<Rightarrow> k | None \<Rightarrow> ''default''),
       failureThreshold = (case optFailureThreshold opts of Some n \<Rightarrow> n
                           | None \<Rightarrow> DEFAULT_CIRCUIT_BREAKER_THRESHOLD),
       cooldownSeconds = seconds,
       cooldownMs = seconds * 1000,
       halfOpenSuccessThreshold =
         (case optHalfOpenSuccessThreshold opts of Some n \<Rightarrow> n
          | None \<Rightarrow> DEFAULT_CIRCUIT_BREAKER_HALF_OPEN_SUCCESS_THRESHOLD),
       trippingStatusCodes = (case optTrippingStatusCodes opts of Some cs \<Rightarrow> cs
                              | None \<Rightarrow> DEFAULT_CIRCUIT_BREAKER_TRIPPING_STATUS_CODES)\<rparr>)"

definition cb_resolveKeyId :: "CircuitBreaker \<Rightarrow> key_id option \<Rightarrow> key_id" where
  "cb_resolveKeyId s keyId = (case keyId of Some k \<Rightarrow> k | None \<Rightarrow> cbDefaultKeyId s)"

text \<open>
  \<open>getData\<close> ages the cached object in place, writes it through when the cooldown moved it, and
  hands out a copy.
\<close>

definition cb_getData ::
  "timestamp \<Rightarrow> key_id option \<Rightarrow> CircuitBreaker \<Rightarrow> CircuitBreakerData \<times> CircuitBreaker" where
  "cb_getData now keyId s =
     (let i = cb_resolveKeyId s keyId;
          (d0, s1) = cb_load i s;
          (moved, d) = evaluateCooldown d0 now (cooldownMs s1);
          s2 = cb_setMemory i d s1;
          s3 = (if moved then cb_persist i d s2 else s2)
      in (d, s3))"

definition cb_getDataSync ::
  "timestamp \<Rightarrow> key_id option \<Rightarrow> CircuitBreaker \<Rightarrow> CircuitBreakerData option \<times> CircuitBreaker" where
  "cb_getDataSync now keyId s =
     (let i = cb_resolveKeyId s keyId in
      case cb_getSync i s of
        Some d0 \<Rightarrow> (let (_, d) = evaluateCooldown d0 now (cooldownMs s) in (Some d, cb_setMemory i d s))
      | None \<Rightarrow> (None, s))"

definition cb_getState ::
  "timestamp \<Rightarrow> key_id option \<Rightarrow> CircuitBreaker \<Rightarrow> cb_state \<times> CircuitBreaker" where
  "cb_getState now keyId s = (let (d, s1) = cb_getData now keyId s in (cbState d, s1))"

definition cb_getStateSync ::
  "timestamp \<Rightarrow> key_id option \<Rightarrow> CircuitBreaker \<Rightarrow> cb_state \<times> CircuitBreaker" where
  "cb_getStateSync now keyId s =
     (let (d, s1) = cb_getDataSync now keyId s in
      (case d of Some d' \<Rightarrow> cbState d' | None \<Rightarrow> CLOSED, s1))"

definition cb_canExecute ::
  "timestamp \<Rightarrow> key_id option \<Rightarrow> CircuitBreaker \<Rightarrow> bool \<times> CircuitBreaker" where
  "cb_canExecute now keyId s =
     (let (st, s1) = cb_getState now keyId s in (st = CLOSED \<or> st = HALF_OPEN, s1))"

definition cb_canExecuteSync ::
  "timestamp \<Rightarrow> key_id option \<Rightarrow> CircuitBreaker \<Rightarrow> bool \<times> CircuitBreaker" where
  "cb_canExecuteSync now keyId s =
     (let (st, s1) = cb_getStateSync now keyId s in (st = CLOSED \<or> st = HALF_OPEN, s1))"

definition cb_trip :: "timestamp \<Rightarrow> key_id option \<Rightarrow> CircuitBreaker \<Rightarrow> CircuitBreaker" where
  "cb_trip now keyId s =
     (let i = cb_resolveKeyId s keyId;
          (d0, s1) = cb_getData now (Some i) s;
          d = applyTrip d0 now (failureThreshold s1)
      in cb_persist i d (cb_setMemory i d s1))"

definition cb_reset :: "timestamp \<Rightarrow> key_id option \<Rightarrow> CircuitBreaker \<Rightarrow> CircuitBreaker" where
  "cb_reset now keyId s =
     (let i = cb_resolveKeyId s keyId;
          (d0, s1) = cb_getData now (Some i) s;
          d = applyReset d0
      in cb_persist i d (cb_setMemory i d s1))"

definition cb_recordSuccess :: "timestamp \<Rightarrow> key_id option \<Rightarrow> CircuitBreaker \<Rightarrow> CircuitBreaker" where
  "cb_recordSuccess now keyId s =
     (let i = cb_resolveKeyId s keyId;
          (d0, s1) = cb_getData now (Some i) s;
          d = applySuccess d0 now (halfOpenSuccessThreshold s1)
      in cb_persist i d (cb_setMemory i d s1))"

definition cb_recordFailure :: "timestamp \<Rightarrow> key_id option \<Rightarrow> CircuitBreaker \<Rightarrow> CircuitBreaker" where
  "cb_recordFailure now keyId s =
     (let i = cb_resolveKeyId s keyId;
          (d0, s1) = cb_getData now (Some i) s;
          d = applyFailure d0 now (failureThreshold s1)
      in cb_persist i d (cb_setMemory i d s1))"

text \<open>The overloads: the first argument is a key id, or the result itself for the default key.\<close>

definition cb_recordResult ::
  "timestamp \<Rightarrow> key_id + bool \<Rightarrow> bool option \<Rightarrow> CircuitBreaker \<Rightarrow> CircuitBreaker" where
  "cb_recordResult now arg1 arg2 s =
     (let (i, success) = (case arg1 of
                            Inr b \<Rightarrow> (cbDefaultKeyId s, b)
                          | Inl k \<Rightarrow> (k, case arg2 of Some b \<Rightarrow> b | None \<Rightarrow> False))
      in if success then cb_recordSuccess now (Some i) s else cb_recordFailure now (Some i) s)"

definition cb_recordStatusCode ::
  "timestamp \<Rightarrow> key_id + int \<Rightarrow> int option \<Rightarrow> CircuitBreaker \<Rightarrow> CircuitBreaker" where
  "cb_recordStatusCode now arg1 arg2 s =
     (let (i, statusCode) = (case arg1 of
                               Inr c \<Rightarrow> (cbDefaultKeyId s, c)
                             | Inl k \<Rightarrow> (k, case arg2 of Some c \<Rightarrow> c | None \<Rightarrow> 500))
      in if statusCode \<in> set (trippingStatusCodes s) then cb_recordFailure now (Some i) s
         else if statusCode \<ge> 200 \<and> statusCode < 300 then cb_recordSuccess now (Some i) s
         else s)"

definition cb_getCircuitOpenUntil ::
  "timestamp \<Rightarrow> key_id option \<Rightarrow> CircuitBreaker \<Rightarrow> timestamp option \<times> CircuitBreaker" where
  "cb_getCircuitOpenUntil now keyId s =
     (let (d, s1) = cb_getData now keyId s in
      (case openedAt d of
         Some opened \<Rightarrow> if cbState d = OPEN then Some (opened + cooldownMs s1) else None
       | None \<Rightarrow> None, s1))"

definition cb_getRetryAfterSeconds ::
  "timestamp \<Rightarrow> key_id option \<Rightarrow> CircuitBreaker \<Rightarrow> int \<times> CircuitBreaker" where
  "cb_getRetryAfterSeconds now keyId s =
     (let (d, s1) = cb_getData now keyId s in
      (case openedAt d of
         Some opened \<Rightarrow>
           if cbState d = OPEN
           then (let remainingMs = opened + cooldownMs s1 - now in
                 if remainingMs > 0 then ceil_secs remainingMs else 0)
           else 0
       | None \<Rightarrow> 0, s1))"

record CircuitBreakerTrippedError =
  errProvider :: string
  errConsecutiveFailures :: int
  errCircuitOpenUntil :: "timestamp option"
  errRetryAfterSeconds :: int

definition cb_throwIfOpen ::
  "timestamp \<Rightarrow> key_id option \<Rightarrow> string option \<Rightarrow> CircuitBreaker \<Rightarrow>
   (CircuitBreakerTrippedError + unit) \<times> CircuitBreaker" where
  "cb_throwIfOpen now keyId provider s =
     (let (allowed, s1) = cb_canExecute now keyId s in
      if allowed then (Inr (), s1)
      else
        (let i = cb_resolveKeyId s1 keyId;
             (d, s2) = cb_getData now (Some i) s1;
             (retryAfter, s3) = cb_getRetryAfterSeconds now (Some i) s2;
             (openUntil, s4) = cb_getCircuitOpenUntil now (Some i) s3
         in (Inl \<lparr>errProvider = (case provider of Some p \<Rightarrow> p | None \<Rightarrow> i),
                  errConsecutiveFailures = consecutiveFailures d,
                  errCircuitOpenUntil = openUntil,
                  errRetryAfterSeconds = retryAfter\<rparr>, s4)))"

section \<open>The stored form\<close>

lemma cb_codec_guard [simp]: "isCircuitBreakerData (js_of_cb d)"
  by (simp add: isCircuitBreakerData_def js_of_cb_def isCircuitBreakerState_def
      CIRCUIT_BREAKER_STATES_def state_name_def split: cb_state.splits)

lemma cb_codec_roundtrip [simp]: "cb_of_js (js_of_cb d) = d"
  by (cases d) (simp add: cb_of_js_def js_of_cb_def state_name_def split: cb_state.splits)

section \<open>Lemmas: the cache contract\<close>

text \<open>The value a key has, in memory or else in storage.\<close>

definition cb_value :: "CircuitBreaker \<Rightarrow> key_id \<Rightarrow> CircuitBreakerData" where
  "cb_value s k = fst (cb_load k s)"

definition cb_age :: "int \<Rightarrow> timestamp \<Rightarrow> CircuitBreakerData \<Rightarrow> CircuitBreakerData" where
  "cb_age cooldown t d = snd (evaluateCooldown d t cooldown)"

definition cb_save :: "key_id \<Rightarrow> CircuitBreakerData \<Rightarrow> CircuitBreaker \<Rightarrow> CircuitBreaker" where
  "cb_save k d s = cb_persist k d (cb_setMemory k d s)"

lemmas cb_cache_defs =
  cb_load_def cb_setMemory_def cb_persist_def cb_clearMemory_def cb_getStorageKey_def cb_save_def Let_def

lemma evaluateCooldown_absorb:
  "t \<le> t' \<Longrightarrow> cb_age cd t' (cb_age cd t d) = cb_age cd t' d"
  by (auto simp: cb_age_def evaluateCooldown_def split: option.splits)

interpretation cb_cache: aging_cache cb_load cb_setMemory cb_save cb_clearMemory "cb_age cd"
  rewrites "durable_cache.view cb_load = cb_value" for cd
proof -
  show ac: "aging_cache cb_load cb_setMemory cb_save cb_clearMemory (cb_age cd)" for cd
    by unfold_locales
      (auto simp: cb_cache_defs evaluateCooldown_absorb split: option.splits)
  show "durable_cache.view cb_load = cb_value"
    using aging_cache.axioms(1) [OF ac]
    by (simp add: fun_eq_iff cb_value_def durable_cache.view_def)
qed

text \<open>No operation changes the configuration.\<close>

definition cb_config :: "CircuitBreaker \<Rightarrow> string \<times> key_id \<times> int \<times> int \<times> int \<times> int list" where
  "cb_config s = (cbPrefix s, cbDefaultKeyId s, failureThreshold s, cooldownMs s,
                  halfOpenSuccessThreshold s, trippingStatusCodes s)"

lemma cb_config_cache [simp]:
  "cb_config (snd (cb_load k s)) = cb_config s"
  "cb_config (cb_setMemory k d s) = cb_config s"
  "cb_config (cb_save k d s) = cb_config s"
  "cb_config (cb_persist k d s) = cb_config s"
  "cb_config (cb_clearMemory s) = cb_config s"
  by (auto simp: cb_config_def cb_cache_defs split: option.splits)

lemma cb_configD:
  assumes "cb_config s' = cb_config s"
  shows "cbDefaultKeyId s' = cbDefaultKeyId s" "failureThreshold s' = failureThreshold s"
    "cooldownMs s' = cooldownMs s" "halfOpenSuccessThreshold s' = halfOpenSuccessThreshold s"
    "trippingStatusCodes s' = trippingStatusCodes s"
  using assms by (simp_all add: cb_config_def)

lemmas cb_config_fields [simp] =
  cb_config_cache [THEN cb_configD(1)] cb_config_cache [THEN cb_configD(2)]
  cb_config_cache [THEN cb_configD(3)] cb_config_cache [THEN cb_configD(4)]
  cb_config_cache [THEN cb_configD(5)]

section \<open>Lemmas: every operation is a read or an update of one key\<close>

lemma cb_resolveKeyId_simps [simp]:
  "cb_resolveKeyId s (Some k) = k" "cb_resolveKeyId s None = cbDefaultKeyId s"
  by (simp_all add: cb_resolveKeyId_def)

text \<open>What \<open>getData\<close> gives and what it leaves behind.\<close>

definition cb_aged :: "timestamp \<Rightarrow> CircuitBreaker \<Rightarrow> key_id \<Rightarrow> CircuitBreakerData" where
  "cb_aged now s k = cb_age (cooldownMs s) now (cb_value s k)"

lemma cb_getData_eq:
  "cb_getData now keyId s =
     (let k = cb_resolveKeyId s keyId; d = cb_aged now s k; s1 = snd (cb_load k s) in
      (d, if fst (evaluateCooldown (cb_value s k) now (cooldownMs s))
          then cb_save k d s1 else cb_setMemory k d s1))"
  by (simp add: cb_getData_def Let_def case_prod_beta cb_aged_def cb_age_def cb_value_def cb_save_def)

lemma cb_getData_fst [simp]: "fst (cb_getData now keyId s) = cb_aged now s (cb_resolveKeyId s keyId)"
  by (simp add: cb_getData_eq Let_def)

lemma cb_getData_config [simp]: "cb_config (snd (cb_getData now keyId s)) = cb_config s"
  by (simp add: cb_getData_eq Let_def)

lemma cb_getData_value [simp]:
  "cb_value (snd (cb_getData now keyId s)) =
     (cb_value s)(cb_resolveKeyId s keyId := cb_aged now s (cb_resolveKeyId s keyId))"
  by (simp add: cb_getData_eq Let_def)

lemmas cb_getData_fields [simp] =
  cb_getData_config [THEN cb_configD(1)] cb_getData_config [THEN cb_configD(2)]
  cb_getData_config [THEN cb_configD(3)] cb_getData_config [THEN cb_configD(4)]
  cb_getData_config [THEN cb_configD(5)]

lemma cb_age_idem [simp]: "cb_age cd t (cb_age cd t d) = cb_age cd t d"
  by (rule cb_cache.age_idem)

lemma cb_aged_getData [simp]: "cb_aged now (snd (cb_getData now keyId s)) = cb_aged now s"
  by (auto simp: cb_aged_def fun_eq_iff)

lemma cb_getData_fresh:
  assumes "cb_cache.fresh (cooldownMs s) now s"
  shows "cb_cache.fresh (cooldownMs s) now (snd (cb_getData now keyId s))"
proof -
  define k where "k = cb_resolveKeyId s keyId"
  have "cb_cache.fresh (cooldownMs s) now (snd (cb_load k s))"
    using assms by (rule cb_cache.fresh_load)
  from cb_cache.fresh_remember [OF this, of k] cb_cache.fresh_save [OF this, of k]
  show ?thesis
    by (simp add: cb_getData_eq Let_def k_def [symmetric] cb_aged_def)
qed

text \<open>The four mutators share one shape: age the value, transform it, write it through.\<close>

definition cb_update ::
  "(CircuitBreakerData \<Rightarrow> CircuitBreakerData) \<Rightarrow> timestamp \<Rightarrow> key_id \<Rightarrow> CircuitBreaker \<Rightarrow> CircuitBreaker" where
  "cb_update f now k s = cb_save k (f (cb_aged now s k)) (snd (cb_getData now (Some k) s))"

lemma cb_mutators:
  "cb_trip now keyId s =
     cb_update (\<lambda>d. applyTrip d now (failureThreshold s)) now (cb_resolveKeyId s keyId) s"
  "cb_reset now keyId s = cb_update applyReset now (cb_resolveKeyId s keyId) s"
  "cb_recordSuccess now keyId s =
     cb_update (\<lambda>d. applySuccess d now (halfOpenSuccessThreshold s)) now (cb_resolveKeyId s keyId) s"
  "cb_recordFailure now keyId s =
     cb_update (\<lambda>d. applyFailure d now (failureThreshold s)) now (cb_resolveKeyId s keyId) s"
  by (simp_all add: cb_trip_def cb_reset_def cb_recordSuccess_def cb_recordFailure_def cb_update_def
      Let_def case_prod_beta cb_save_def)

lemma cb_update_config [simp]: "cb_config (cb_update f now k s) = cb_config s"
  by (simp add: cb_update_def)

lemmas cb_update_fields [simp] =
  cb_update_config [THEN cb_configD(1)] cb_update_config [THEN cb_configD(2)]
  cb_update_config [THEN cb_configD(3)] cb_update_config [THEN cb_configD(4)]
  cb_update_config [THEN cb_configD(5)]

lemma cb_update_value [simp]: "cb_value (cb_update f now k s) = (cb_value s)(k := f (cb_aged now s k))"
  by (simp add: cb_update_def)

lemma cb_update_fresh:
  "cb_cache.fresh (cooldownMs s) now s \<Longrightarrow> cb_cache.fresh (cooldownMs s) now (cb_update f now k s)"
  unfolding cb_update_def by (intro cb_cache.fresh_save cb_getData_fresh)

section \<open>Runs\<close>

text \<open>The calls a client or the platform can make, in any order, at times that do not go back.\<close>

datatype cb_op =
    GetData "key_id option"
  | GetDataSync "key_id option"
  | Trip "key_id option"
  | Reset "key_id option"
  | RecordResult "key_id + bool" "bool option"
  | RecordStatusCode "key_id + int" "int option"
  | ThrowIfOpen "key_id option" "string option"
  | ClearMemoryCache

fun cb_apply :: "timestamp \<Rightarrow> cb_op \<Rightarrow> CircuitBreaker \<Rightarrow> CircuitBreaker" where
  "cb_apply now (GetData k) s = snd (cb_getData now k s)"
| "cb_apply now (GetDataSync k) s = snd (cb_getDataSync now k s)"
| "cb_apply now (Trip k) s = cb_trip now k s"
| "cb_apply now (Reset k) s = cb_reset now k s"
| "cb_apply now (RecordResult a b) s = cb_recordResult now a b s"
| "cb_apply now (RecordStatusCode a b) s = cb_recordStatusCode now a b s"
| "cb_apply now (ThrowIfOpen k p) s = snd (cb_throwIfOpen now k p s)"
| "cb_apply now ClearMemoryCache s = cb_clearMemory s"

inductive cb_reachable :: "CircuitBreaker \<Rightarrow> timestamp \<Rightarrow> CircuitBreaker \<Rightarrow> bool" for s0 where
  cb_start: "cb_reachable s0 t s0"
| cb_step: "cb_reachable s0 t s \<Longrightarrow> t \<le> t' \<Longrightarrow> cb_reachable s0 t' (cb_apply t' op s)"

inductive_cases cb_reachableE: "cb_reachable s0 t s"

text \<open>
  A closed family of states (closed under reading one key, updating one key by a transition of the
  state machine, the synchronous read and eviction) is closed under every operation.
\<close>

lemma cb_readers:
  "snd (cb_throwIfOpen now k p s) =
     (let s1 = snd (cb_getData now k s) in
      if fst (cb_canExecute now k s) then s1
      else snd (cb_getData now (Some (cb_resolveKeyId s1 k))
             (snd (cb_getData now (Some (cb_resolveKeyId s1 k))
               (snd (cb_getData now (Some (cb_resolveKeyId s1 k)) s1))))))"
  by (simp add: cb_throwIfOpen_def cb_canExecute_def cb_getState_def cb_getRetryAfterSeconds_def
      cb_getCircuitOpenUntil_def Let_def case_prod_beta)

lemma cb_getDataSync_eq:
  "snd (cb_getDataSync now keyId s) =
     (let k = cb_resolveKeyId s keyId in
      if cbMemory s k = None then s else cb_setMemory k (cb_aged now s k) s)"
  by (auto simp: cb_getDataSync_def cb_getSync_def Let_def case_prod_beta cb_aged_def cb_age_def
      cb_value_def cb_load_def split: option.splits)

lemma cb_apply_closed:
  assumes P: "P s"
    and read: "\<And>k s. P s \<Longrightarrow> P (snd (cb_getData now k s))"
    and sync: "\<And>k s. P s \<Longrightarrow> P (cb_setMemory k (cb_aged now s k) s)"
    and trip: "\<And>k s. P s \<Longrightarrow> P (cb_update (\<lambda>d. applyTrip d now (failureThreshold s)) now k s)"
    and reset: "\<And>k s. P s \<Longrightarrow> P (cb_update applyReset now k s)"
    and succ: "\<And>k s. P s \<Longrightarrow>
      P (cb_update (\<lambda>d. applySuccess d now (halfOpenSuccessThreshold s)) now k s)"
    and fail: "\<And>k s. P s \<Longrightarrow> P (cb_update (\<lambda>d. applyFailure d now (failureThreshold s)) now k s)"
    and evict: "\<And>s. P s \<Longrightarrow> P (cb_clearMemory s)"
  shows "P (cb_apply now op s)"
proof (cases op)
  case (GetDataSync k)
  with P show ?thesis by (auto simp: cb_getDataSync_eq Let_def intro: sync)
next
  case (RecordResult a b)
  with P show ?thesis
    by (auto simp: cb_recordResult_def cb_mutators Let_def case_prod_beta intro: succ fail)
next
  case (RecordStatusCode a b)
  with P show ?thesis
    by (auto simp: cb_recordStatusCode_def cb_mutators Let_def case_prod_beta intro: succ fail)
next
  case (ThrowIfOpen k p)
  with P show ?thesis by (simp add: cb_readers Let_def read)
qed (use P in \<open>auto simp: cb_mutators intro: read trip reset evict\<close>)

lemma cb_apply_config [simp]: "cb_config (cb_apply now op s) = cb_config s"
  by (rule cb_apply_closed) auto

lemma cb_reachable_config: "cb_reachable s0 t s \<Longrightarrow> cb_config s = cb_config s0"
  by (induction rule: cb_reachable.induct) auto

section \<open>Runs with and without evictions\<close>

definition cb_run :: "(timestamp \<times> cb_op) list \<Rightarrow> CircuitBreaker \<Rightarrow> CircuitBreaker" where
  "cb_run calls s = fold (\<lambda>(t, op). cb_apply t op) calls s"

definition is_eviction :: "cb_op \<Rightarrow> bool" where
  "is_eviction op = (case op of ClearMemoryCache \<Rightarrow> True | _ \<Rightarrow> False)"

definition unevicted :: "(timestamp \<times> cb_op) list \<Rightarrow> (timestamp \<times> cb_op) list" where
  "unevicted calls = filter (\<lambda>(_, op). \<not> is_eviction op) calls"

lemma is_eviction_iff: "is_eviction op \<longleftrightarrow> op = ClearMemoryCache"
  by (cases op) (simp_all add: is_eviction_def)

text \<open>Two breakers no awaited reader tells apart from time \<open>t\<close> on.\<close>

definition cb_alike :: "timestamp \<Rightarrow> CircuitBreaker \<Rightarrow> CircuitBreaker \<Rightarrow> bool" where
  "cb_alike t s s' \<longleftrightarrow>
     cb_config s = cb_config s' \<and> cb_aged t s = cb_aged t s' \<and>
     cb_cache.fresh (cooldownMs s) t s \<and> cb_cache.fresh (cooldownMs s') t s'"

lemma cb_alike_sym: "cb_alike t s s' \<Longrightarrow> cb_alike t s' s"
  by (simp add: cb_alike_def)

lemma cb_aged_later: "t \<le> t' \<Longrightarrow> cb_aged t' s k = cb_age (cooldownMs s) t' (cb_aged t s k)"
  by (simp add: cb_aged_def cb_cache.age_absorb)

lemma cb_alike_later:
  assumes "cb_alike t s s'" and "t \<le> t'"
  shows "cb_alike t' s s'"
  using assms cb_configD(3) [of s s']
  by (auto simp: cb_alike_def fun_eq_iff cb_aged_later [OF assms(2)] intro: cb_cache.fresh_later)

lemma cb_alike_new: "cb_alike t (newCircuitBreaker st opts) (newCircuitBreaker st opts)"
proof -
  have "cb_clearMemory (newCircuitBreaker st opts) = newCircuitBreaker st opts"
    by (simp add: newCircuitBreaker_def cb_clearMemory_def Let_def)
  then show ?thesis by (simp add: cb_alike_def cb_cache.fresh_def)
qed

text \<open>One-sided: what a single one of them may do unnoticed.\<close>

lemma cb_alike_read: "cb_alike t s s' \<Longrightarrow> cb_alike t (snd (cb_getData t k s)) s'"
  by (simp add: cb_alike_def cb_getData_fresh)

lemma cb_alike_remember:
  assumes "cb_alike t s s'"
  shows "cb_alike t (cb_setMemory k (cb_aged t s k) s) s'"
proof -
  have "cb_aged t (cb_setMemory k (cb_aged t s k) s) = cb_aged t s"
    by (auto simp: cb_aged_def fun_eq_iff)
  moreover have "cb_cache.fresh (cooldownMs s) t (cb_setMemory k (cb_aged t s k) s)"
    using assms unfolding cb_alike_def cb_aged_def by (blast intro: cb_cache.fresh_remember)
  ultimately show ?thesis using assms by (simp add: cb_alike_def)
qed

lemma cb_alike_evict:
  assumes "cb_alike t s s'"
  shows "cb_alike t (cb_clearMemory s) s'"
proof -
  have fresh: "cb_cache.fresh (cooldownMs s) t s" using assms by (simp add: cb_alike_def)
  then have "cb_aged t (cb_clearMemory s) = cb_aged t s"
    by (simp add: cb_cache.fresh_def cb_aged_def fun_eq_iff)
  moreover have "cb_cache.fresh (cooldownMs s) t (cb_clearMemory s)"
    by (simp add: cb_cache.fresh_def cb_clearMemory_def)
  ultimately show ?thesis using assms by (simp add: cb_alike_def)
qed

lemma cb_alike_sync: "cb_alike t s s' \<Longrightarrow> cb_alike t (snd (cb_getDataSync t k s)) s'"
  by (simp add: cb_getDataSync_eq Let_def cb_alike_remember)

lemma cb_alike_throw: "cb_alike t s s' \<Longrightarrow> cb_alike t (snd (cb_throwIfOpen t k p s)) s'"
  by (simp add: cb_readers Let_def cb_alike_read)

lemma cb_alike_update:
  assumes "cb_alike t s s'"
  shows "cb_alike t (cb_update f t k s) (cb_update f t k s')"
proof -
  have "cb_aged t s = cb_aged t s'" "cb_config s = cb_config s'" using assms by (simp_all add: cb_alike_def)
  then have "cb_aged t (cb_update f t k s) = cb_aged t (cb_update f t k s')"
    using cb_configD(3) [of s s'] by (auto simp: cb_aged_def fun_eq_iff)
  with assms show ?thesis by (simp add: cb_alike_def cb_update_fresh)
qed

lemma cb_alike_config:
  assumes "cb_alike t s s'"
  shows "cbDefaultKeyId s = cbDefaultKeyId s'" "failureThreshold s = failureThreshold s'"
    "cooldownMs s = cooldownMs s'" "halfOpenSuccessThreshold s = halfOpenSuccessThreshold s'"
    "trippingStatusCodes s = trippingStatusCodes s'" "cb_resolveKeyId s k = cb_resolveKeyId s' k"
  using assms cb_configD [of s s'] by (auto simp: cb_alike_def cb_resolveKeyId_def split: option.split)

lemma cb_alike_mutators:
  assumes "cb_alike t s s'"
  shows "cb_alike t (cb_trip t k s) (cb_trip t k s')" "cb_alike t (cb_reset t k s) (cb_reset t k s')"
    "cb_alike t (cb_recordSuccess t k s) (cb_recordSuccess t k s')"
    "cb_alike t (cb_recordFailure t k s) (cb_recordFailure t k s')"
  by (simp_all add: cb_mutators cb_alike_config [OF assms] cb_alike_update [OF assms])

lemma cb_alike_apply:
  assumes "cb_alike t s s'"
  shows "cb_alike t (cb_apply t op s) (if is_eviction op then s' else cb_apply t op s')"
proof -
  note same = cb_alike_config [OF assms] cb_alike_mutators [OF assms]
  have both: "cb_alike t (f s) (f s')" if "\<And>s s'. cb_alike t s s' \<Longrightarrow> cb_alike t (f s) s'" for f
    using that [OF cb_alike_sym [OF that [OF cb_alike_sym [OF assms]]]] .
  show ?thesis
  proof (cases op)
    case (RecordResult a b)
    then show ?thesis by (simp add: is_eviction_def cb_recordResult_def Let_def same split: sum.split)
  next
    case (RecordStatusCode a b)
    with assms show ?thesis
      by (cases a; cases b) (simp_all add: is_eviction_def cb_recordStatusCode_def Let_def same)
  next
    case (GetData k)
    then show ?thesis
      using both [of "\<lambda>s. snd (cb_getData t k s)", OF cb_alike_read] by (simp add: is_eviction_def)
  next
    case (GetDataSync k)
    then show ?thesis
      using both [of "\<lambda>s. snd (cb_getDataSync t k s)", OF cb_alike_sync] by (simp add: is_eviction_def)
  next
    case (ThrowIfOpen k p)
    then show ?thesis
      using both [of "\<lambda>s. snd (cb_throwIfOpen t k p s)", OF cb_alike_throw] by (simp add: is_eviction_def)
  qed (simp_all add: is_eviction_def same cb_alike_evict [OF assms])
qed

lemma cb_alike_run:
  assumes "\<And>t. cb_alike t s s'" and "sorted (map fst calls @ [t])"
  shows "cb_alike t (cb_run calls s) (cb_run (unevicted calls) s')"
  using assms(2)
proof (induction calls arbitrary: t rule: rev_induct)
  case Nil
  then show ?case by (simp add: cb_run_def unevicted_def assms(1))
next
  case (snoc c calls)
  obtain t0 op where c: "c = (t0, op)" by force
  from snoc.prems have "t0 \<le> t" "sorted (map fst calls @ [t0])" by (simp_all add: c sorted_append)
  from cb_alike_later [OF cb_alike_apply [OF snoc.IH [OF this(2)]] this(1), of op]
  show ?case by (auto simp: c cb_run_def unevicted_def split: if_splits)
qed

lemma cb_alike_answers:
  assumes "cb_alike t s s'"
  shows "fst (cb_getData t k s) = fst (cb_getData t k s') \<and>
    fst (cb_getState t k s) = fst (cb_getState t k s') \<and>
    fst (cb_canExecute t k s) = fst (cb_canExecute t k s') \<and>
    fst (cb_throwIfOpen t k p s) = fst (cb_throwIfOpen t k p s') \<and>
    fst (cb_getCircuitOpenUntil t k s) = fst (cb_getCircuitOpenUntil t k s') \<and>
    fst (cb_getRetryAfterSeconds t k s) = fst (cb_getRetryAfterSeconds t k s')"
proof -
  have "cb_aged t s = cb_aged t s'" using assms by (simp add: cb_alike_def)
  moreover have "cb_resolveKeyId (snd (cb_getData t k s)) j = cb_resolveKeyId s j" for s j
    by (cases j) simp_all
  ultimately show ?thesis
    by (simp add: cb_alike_config [OF assms] cb_getState_def cb_canExecute_def cb_throwIfOpen_def cb_getCircuitOpenUntil_def
        cb_getRetryAfterSeconds_def Let_def case_prod_beta split: option.split)
qed

section \<open>The invariant of the state machine\<close>

text \<open>
  A closed breaker has counted fewer failures than trip it and remembers no opening; an open or
  half-open one has a start of its cooldown, without which it could never leave the state by time.
\<close>

definition cb_wf :: "int \<Rightarrow> int \<Rightarrow> CircuitBreakerData \<Rightarrow> bool" where
  "cb_wf threshold halfOpen d \<longleftrightarrow>
     0 \<le> consecutiveFailures d \<and>
     (case cbState d of
        CLOSED \<Rightarrow> openedAt d = None \<and> consecutiveFailures d < threshold \<and> consecutiveSuccesses d = 0
      | OPEN \<Rightarrow> openedAt d \<noteq> None \<and> 0 < consecutiveFailures d \<and> consecutiveSuccesses d = 0
      | HALF_OPEN \<Rightarrow> openedAt d \<noteq> None \<and> 0 \<le> consecutiveSuccesses d \<and>
                     consecutiveSuccesses d < halfOpen)"

lemma cb_wf_transitions [inv_intros]:
  "1 \<le> ft \<Longrightarrow> cb_wf ft ht createDefaultCircuitBreakerData"
  "1 \<le> ht \<Longrightarrow> cb_wf ft ht d \<Longrightarrow> cb_wf ft ht (cb_age cd t d)"
  "1 \<le> ft \<Longrightarrow> cb_wf ft ht (applyTrip d t ft)"
  "1 \<le> ft \<Longrightarrow> cb_wf ft ht (applyReset d)"
  "1 \<le> ft \<Longrightarrow> cb_wf ft ht d \<Longrightarrow> cb_wf ft ht (applySuccess d t ht)"
  "cb_wf ft ht d \<Longrightarrow> cb_wf ft ht (applyFailure d t ft)"
  by (auto simp: cb_wf_def createDefaultCircuitBreakerData_def cb_age_def evaluateCooldown_def
      applyTrip_def applyReset_def applySuccess_def applyFailure_def Let_def
      split: cb_state.splits option.splits)

text \<open>All keys, both as cached and as they would be after an eviction.\<close>

definition cb_inv :: "CircuitBreaker \<Rightarrow> bool" where
  "cb_inv s \<longleftrightarrow>
     1 \<le> failureThreshold s \<and> 1 \<le> halfOpenSuccessThreshold s \<and>
     (\<forall>k. cb_wf (failureThreshold s) (halfOpenSuccessThreshold s) (cb_value s k)) \<and>
     (\<forall>k. cb_wf (failureThreshold s) (halfOpenSuccessThreshold s) (cb_value (cb_clearMemory s) k))"

lemma cb_clear_idem [simp]: "cb_clearMemory (cb_clearMemory s) = cb_clearMemory s"
  by (simp add: cb_clearMemory_def)

lemma cb_inv_save: "cb_inv s \<Longrightarrow>
    cb_wf (failureThreshold s) (halfOpenSuccessThreshold s) d \<Longrightarrow> cb_inv (cb_save k d s)"
  by (simp add: cb_inv_def)

lemma cb_inv_remember: "cb_inv s \<Longrightarrow>
    cb_wf (failureThreshold s) (halfOpenSuccessThreshold s) d \<Longrightarrow> cb_inv (cb_setMemory k d s)"
  by (simp add: cb_inv_def cb_cache.remember_evict)

lemma cb_inv_load: "cb_inv s \<Longrightarrow> cb_inv (snd (cb_load k s))"
  by (simp add: cb_inv_def cb_cache.load_evict)

lemma cb_inv_aged:
  "cb_inv s \<Longrightarrow> cb_wf (failureThreshold s) (halfOpenSuccessThreshold s) (cb_aged now s k)"
  by (simp add: cb_inv_def cb_aged_def cb_wf_transitions)

lemma cb_inv_getData: "cb_inv s \<Longrightarrow> cb_inv (snd (cb_getData now k s))"
  by (simp add: cb_getData_eq Let_def cb_inv_save cb_inv_remember cb_inv_load cb_inv_aged)

lemma cb_inv_update:
  "cb_inv s \<Longrightarrow> cb_wf (failureThreshold s) (halfOpenSuccessThreshold s) (f (cb_aged now s k)) \<Longrightarrow>
   cb_inv (cb_update f now k s)"
  unfolding cb_update_def by (rule cb_inv_save) (simp_all add: cb_inv_getData)

lemma cb_inv_thresholds: "cb_inv s \<Longrightarrow> 1 \<le> failureThreshold s \<and> 1 \<le> halfOpenSuccessThreshold s"
  by (simp add: cb_inv_def)

lemma cb_inv_apply: "cb_inv s \<Longrightarrow> cb_inv (cb_apply now op s)"
  by (rule cb_apply_closed)
    (auto intro!: cb_inv_getData cb_inv_remember cb_inv_aged cb_inv_update inv_intros
      dest: cb_inv_thresholds simp: cb_inv_def [of "cb_clearMemory _"], auto simp: cb_inv_def)

interpretation cb_machine: invariant_system "\<lambda>(t, op). cb_apply t op" cb_inv
  by unfold_locales (auto intro: cb_inv_apply)

lemma cb_inv_new:
  assumes "case optFailureThreshold opts of Some n \<Rightarrow> 1 \<le> n | None \<Rightarrow> True"
    and "case optHalfOpenSuccessThreshold opts of Some n \<Rightarrow> 1 \<le> n | None \<Rightarrow> True"
  shows "cb_inv (newCircuitBreaker Map.empty opts)"
  using assms
  by (auto simp: cb_inv_def newCircuitBreaker_def cb_value_def cb_load_def cb_clearMemory_def
      cb_getStorageKey_def Let_def DEFAULT_CIRCUIT_BREAKER_THRESHOLD_def
      DEFAULT_CIRCUIT_BREAKER_HALF_OPEN_SUCCESS_THRESHOLD_def intro!: inv_intros
      split: option.splits)

section \<open>Lemmas: failures\<close>

lemma cb_recordFailure_effect [simp]:
  "cb_value (cb_recordFailure t (Some k) s) =
     (cb_value s)(k := applyFailure (cb_aged t s k) t (failureThreshold s))"
  "failureThreshold (cb_recordFailure t (Some k) s) = failureThreshold s"
  by (simp_all add: cb_mutators)

lemma applyFailure_not_closed:
  "cbState d \<noteq> CLOSED \<Longrightarrow> cbState (applyFailure (cb_age cd t d) t ft) = OPEN"
  by (cases "cbState d")
    (auto simp: cb_age_def evaluateCooldown_def applyFailure_def split: option.splits)

lemma applyFailure_closed:
  "cbState d = CLOSED \<Longrightarrow>
   cbState (applyFailure (cb_age cd t d) t ft) =
     (if ft \<le> consecutiveFailures d + 1 then OPEN else CLOSED) \<and>
   consecutiveFailures (applyFailure (cb_age cd t d) t ft) = consecutiveFailures d + 1"
  by (auto simp: cb_age_def evaluateCooldown_def applyFailure_def Let_def split: option.splits)

lemma cb_canExecute_tripped:
  "fst (cb_canExecute t (Some k) (cb_trip t0 (Some k) s)) \<longleftrightarrow> cooldownMs s \<le> t - t0"
  by (simp add: cb_canExecute_def cb_getState_def cb_mutators case_prod_beta cb_aged_def
      cb_age_def evaluateCooldown_def applyTrip_def)

lemma cb_retryAfter_tripped:
  "fst (cb_getRetryAfterSeconds t (Some k) (cb_trip t0 (Some k) s)) =
     (if cooldownMs s \<le> t - t0 then 0 else ceil_secs (t0 + cooldownMs s - t))"
  by (simp add: cb_getRetryAfterSeconds_def cb_mutators case_prod_beta cb_aged_def
      cb_age_def evaluateCooldown_def applyTrip_def Let_def)

section \<open>Properties\<close>

text \<open>
  C23. From empty storage and positive thresholds, whatever operations run and wherever the object is
  evicted in between, every key's breaker is well formed: a closed one is below its failure
  threshold, an open or half-open one knows when it opened, so its cooldown can end.
\<close>

theorem breaker_invariant:
  assumes "case optFailureThreshold opts of Some n \<Rightarrow> 1 \<le> n | None \<Rightarrow> True"
    and "case optHalfOpenSuccessThreshold opts of Some n \<Rightarrow> 1 \<le> n | None \<Rightarrow> True"
    and "cb_reachable (newCircuitBreaker Map.empty opts) t s"
  shows "cb_wf (failureThreshold s) (halfOpenSuccessThreshold s) (fst (cb_getData t keyId s))"
proof -
  from assms(3) cb_inv_new [OF assms(1,2)] have "cb_inv s"
    by (induction rule: cb_reachable.induct) (auto intro: cb_inv_apply)
  then show ?thesis by (simp add: cb_inv_aged)
qed

definition cb_no_options :: CircuitBreakerOptions where
  "cb_no_options = \<lparr>optKeyId = None, optFailureThreshold = None, optCooldownSeconds = None,
     optHalfOpenSuccessThreshold = None, optTrippingStatusCodes = None, optStorageKeyPrefix = None\<rparr>"

definition cb_example :: CircuitBreaker where
  "cb_example = newCircuitBreaker Map.empty cb_no_options"

lemma cb_example_fields [simp]:
  "failureThreshold cb_example = 3" "cooldownMs cb_example = 60000"
  "halfOpenSuccessThreshold cb_example = 1" "cbDefaultKeyId cb_example = ''default''"
  "cb_value cb_example k = createDefaultCircuitBreakerData"
  by (simp_all add: cb_example_def newCircuitBreaker_def cb_no_options_def Let_def cb_value_def
      cb_load_def DEFAULT_CIRCUIT_BREAKER_THRESHOLD_def
      DEFAULT_CIRCUIT_BREAKER_COOLDOWN_SECONDS_def
      DEFAULT_CIRCUIT_BREAKER_HALF_OPEN_SUCCESS_THRESHOLD_def)

theorem breaker_invariant_witness:
  "cb_wf 3 1 (fst (cb_getData 5 None (cb_trip 5 None cb_example)))"
proof -
  have "cb_reachable cb_example 5 (cb_apply 5 (Trip None) cb_example)"
    by (rule cb_step [OF cb_start order_refl])
  from breaker_invariant [of cb_no_options 5 "cb_apply 5 (Trip None) cb_example" None] this
  show ?thesis by (simp add: cb_no_options_def cb_example_def [symmetric, unfolded cb_no_options_def]
        cb_mutators)
qed

text \<open>
  C24. A closed breaker with \<open>n\<close> failures on record opens exactly when a run of failures brings the
  count to the threshold, not before; the breakers of other keys keep their value.
\<close>

theorem breaker_trips_at_threshold:
  assumes "cbState (cb_value s k) = CLOSED" "consecutiveFailures (cb_value s k) < failureThreshold s"
  shows "(cbState (cb_value (fold (\<lambda>t. cb_recordFailure t (Some k)) ts s) k) = OPEN \<longleftrightarrow>
            failureThreshold s \<le> consecutiveFailures (cb_value s k) + int (length ts)) \<and>
         (\<forall>k'. k' \<noteq> k \<longrightarrow>
            cb_value (fold (\<lambda>t. cb_recordFailure t (Some k)) ts s) k' = cb_value s k')"
proof -
  let ?run = "\<lambda>ts. fold (\<lambda>t. cb_recordFailure t (Some k)) ts s"
  have run: "failureThreshold (?run ts) = failureThreshold s \<and>
      (k' \<noteq> k \<longrightarrow> cb_value (?run ts) k' = cb_value s k') \<and>
      (if failureThreshold s \<le> consecutiveFailures (cb_value s k) + int (length ts)
       then cbState (cb_value (?run ts) k) = OPEN
       else cbState (cb_value (?run ts) k) = CLOSED \<and>
            consecutiveFailures (cb_value (?run ts) k) =
              consecutiveFailures (cb_value s k) + int (length ts))" for k' ts
  proof (induction ts rule: rev_induct)
    case Nil
    with assms show ?case by simp
  next
    case (snoc t ts)
    show ?case
    proof (cases "failureThreshold s \<le> consecutiveFailures (cb_value s k) + int (length ts)")
      case True
      with snoc have "cbState (cb_value (?run ts) k) \<noteq> CLOSED" by simp
      from applyFailure_not_closed [OF this] True snoc show ?thesis
        by (auto simp: cb_aged_def)
    next
      case False
      with snoc have "cbState (cb_value (?run ts) k) = CLOSED" by simp
      from applyFailure_closed [OF this] False snoc show ?thesis
        by (auto simp: cb_aged_def)
    qed
  qed
  from run [of ts k] have "cbState (cb_value (?run ts) k) = OPEN \<longleftrightarrow>
      failureThreshold s \<le> consecutiveFailures (cb_value s k) + int (length ts)"
    by (auto split: if_splits)
  with run [of ts] show ?thesis by blast
qed

theorem breaker_trips_at_threshold_witness:
  "cbState (cb_value (fold (\<lambda>t. cb_recordFailure t (Some ''a'')) [1, 2, 3] cb_example) ''a'') = OPEN \<and>
   cbState (cb_value (fold (\<lambda>t. cb_recordFailure t (Some ''a'')) [1, 2] cb_example) ''a'') \<noteq> OPEN \<and>
   cb_value (fold (\<lambda>t. cb_recordFailure t (Some ''a'')) [1, 2, 3] cb_example) ''b'' =
     createDefaultCircuitBreakerData"
  using breaker_trips_at_threshold [of cb_example "''a''" "[1, 2, 3]"]
    breaker_trips_at_threshold [of cb_example "''a''" "[1, 2]"]
  by (simp add: createDefaultCircuitBreakerData_def del: fold.simps fold_simps)

text \<open>
  C33. A tripped breaker refuses calls for exactly the cooldown; while it refuses, the advertised
  retry delay is positive, is long enough, and is the least whole number of seconds that is.
\<close>

theorem breaker_cooldown_exact:
  "let s' = cb_trip t0 (Some k) s;
       allowed = (\<lambda>t. fst (cb_canExecute t (Some k) s'));
       r = fst (cb_getRetryAfterSeconds t (Some k) s')
   in (allowed t \<longleftrightarrow> cooldownMs s \<le> t - t0) \<and>
      (if allowed t then r = 0
       else 1 \<le> r \<and> allowed (t + 1000 * r) \<and> \<not> allowed (t + 1000 * (r - 1)))"
  using ceil_secs_bounds [of "t0 + cooldownMs s - t"] ceil_secs_pos [of "t0 + cooldownMs s - t"]
  unfolding Let_def cb_retryAfter_tripped cb_canExecute_tripped by auto

text \<open>
  C34. Losing the object's memory is unobservable to an awaited reader: from any storage contents,
  after any run of calls (the synchronous ones included) in the course of which the memory is lost any
  number of times, \<open>getData\<close>, \<open>getState\<close>, \<open>canExecute\<close>, \<open>throwIfOpen\<close>, \<open>getCircuitOpenUntil\<close> and
  \<open>getRetryAfterSeconds\<close> answer for every key what they answer after the same run without the losses.
  The synchronous readers are not among them: they read the memory alone and fall back to a closed
  breaker, so they do see an eviction.
\<close>

theorem breaker_survives_eviction:
  assumes "sorted (map fst calls @ [t])"
  shows "let s = cb_run calls (newCircuitBreaker st opts);
             s' = cb_run (unevicted calls) (newCircuitBreaker st opts)
         in fst (cb_getData t k s) = fst (cb_getData t k s') \<and>
            fst (cb_getState t k s) = fst (cb_getState t k s') \<and>
            fst (cb_canExecute t k s) = fst (cb_canExecute t k s') \<and>
            fst (cb_throwIfOpen t k p s) = fst (cb_throwIfOpen t k p s') \<and>
            fst (cb_getCircuitOpenUntil t k s) = fst (cb_getCircuitOpenUntil t k s') \<and>
            fst (cb_getRetryAfterSeconds t k s) = fst (cb_getRetryAfterSeconds t k s')"
  using cb_alike_answers [OF cb_alike_run [OF cb_alike_new [of _ st opts] assms]]
  unfolding Let_def by blast

theorem breaker_survives_eviction_witness:
  "let calls = [(5, Trip None), (6, ClearMemoryCache), (6, RecordStatusCode (Inr 503) None),
                (7, ClearMemoryCache)];
       s = cb_run calls cb_example; s' = cb_run (unevicted calls) cb_example
   in fst (cb_canExecute 8 None s) = fst (cb_canExecute 8 None s') \<and>
      \<not> fst (cb_canExecute 8 None s') \<and> fst (cb_canExecuteSync 8 None s) \<and>
      \<not> fst (cb_canExecuteSync 8 None s')"
proof -
  let ?calls = "[(5, Trip None), (6, ClearMemoryCache), (6, RecordStatusCode (Inr 503) None),
                 (7, ClearMemoryCache)]"
  have "fst (cb_canExecute 8 None (cb_run ?calls cb_example)) =
      fst (cb_canExecute 8 None (cb_run (unevicted ?calls) cb_example))"
    using breaker_survives_eviction [of ?calls 8 Map.empty cb_no_options None None]
    unfolding cb_example_def Let_def by simp
  moreover have "\<not> fst (cb_canExecute 8 None (cb_run (unevicted ?calls) cb_example))"
    "fst (cb_canExecuteSync 8 None (cb_run ?calls cb_example))"
    "\<not> fst (cb_canExecuteSync 8 None (cb_run (unevicted ?calls) cb_example))"
    by code_simp+
  ultimately show ?thesis unfolding Let_def by blast
qed

end
