(* ===== verification/RateLimiter.thy ===== *)
theory RateLimiter
  imports LimitConstants Interfaces
begin

text \<open>
  \<open>src/durable_objects/rate_limiter/\<close>: per-key request and cost counters over a sliding minute
  and day. \<open>types.ts\<close> and \<open>data.ts\<close> give the data and its guards, \<open>window.ts\<close> the window
  arithmetic, \<open>limiter.ts\<close> the class. The cached data object is mutated in place by the code; the
  model writes it back to the cache at the points where the code mutates it, so a \<open>BigInt\<close>
  that throws leaves the partial mutation behind, as in the code.
\<close>

section \<open>Types (types.ts, data.ts)\<close>

definition ONE_DAY_MS :: int where "ONE_DAY_MS = 86400000"

definition ONE_DAY_SECONDS :: int where "ONE_DAY_SECONDS = 86400"

record RateLimitEntry =
  entTimestamp :: timestamp
  entCount :: int
  entCost :: string

record RateLimiterData =
  rlEntries :: "RateLimitEntry list"
  totalCostMicrodollars :: string
  lastRequestTime :: "timestamp option"

text \<open>\<open>RateLimiterOptions\<close>, with the three fields of \<open>RateLimitConfig\<close> the constructor also reads.\<close>

record RateLimiterOptions =
  rloTenantId :: "string option"
  rloKeyId :: "key_id option"
  rloRpmLimit :: "int option"
  rloRpdLimit :: "int option"
  rloWindowSizeSeconds :: "int option"
  rloDayWindowSeconds :: "int option"
  rloMaxBudgetMicrodollars :: "int option"
  rloStorageKeyPrefix :: "string option"
  rlcDefaultRpmLimit :: "int option"
  rlcDefaultRpdLimit :: "int option"

datatype limit_reason = RpmLimitExceeded | RpdLimitExceeded | BudgetExceeded

record RateLimitCheckResult =
  allowed :: bool
  currentRpm :: int
  resRpmLimit :: int
  currentRpd :: int
  resRpdLimit :: int
  costAccumulated :: int
  resMaxBudget :: "int option"
  retryAfterSeconds :: int
  reason :: "limit_reason option"

record RateLimiterMetrics =
  metRpm :: int
  metRpd :: int
  metCost :: int
  remainingRpm :: int
  remainingRpd :: int
  isRateLimited :: bool
  metRetryAfter :: int

definition createDefaultRateLimiterData :: RateLimiterData where
  "createDefaultRateLimiterData =
     \<lparr>rlEntries = [], totalCostMicrodollars = ''0'', lastRequestTime = None\<rparr>"

definition isRateLimitEntry :: "js \<Rightarrow> bool" where
  "isRateLimitEntry v \<longleftrightarrow>
     is_object v \<and> is_num (js_get v ''timestamp'') \<and> is_num (js_get v ''count'') \<and>
     is_str (js_get v ''costMicrodollars'')"

definition is_array :: "js \<Rightarrow> bool" where
  "is_array v \<longleftrightarrow> (case v of JArr _ \<Rightarrow> True | _ \<Rightarrow> False)"

definition isRateLimiterData :: "js \<Rightarrow> bool" where
  "isRateLimiterData v \<longleftrightarrow>
     is_object v \<and> is_array (js_get v ''entries'') \<and>
     list_all isRateLimitEntry (elems_of (js_get v ''entries'')) \<and>
     is_str (js_get v ''totalCostMicrodollars'') \<and>
     is_num_or_null (js_get v ''lastRequestTime'')"

definition js_of_entry :: "RateLimitEntry \<Rightarrow> js" where
  "js_of_entry e = JObj [(''timestamp'', JNum (entTimestamp e)), (''count'', JNum (entCount e)),
                         (''costMicrodollars'', JStr (entCost e))]"

definition entry_of_js :: "js \<Rightarrow> RateLimitEntry" where
  "entry_of_js v = \<lparr>entTimestamp = num_of (js_get v ''timestamp''),
                    entCount = num_of (js_get v ''count''),
                    entCost = str_of (js_get v ''costMicrodollars'')\<rparr>"

definition js_of_rl :: "RateLimiterData \<Rightarrow> js" where
  "js_of_rl d = JObj [(''entries'', JArr (map js_of_entry (rlEntries d))),
                      (''totalCostMicrodollars'', JStr (totalCostMicrodollars d)),
                      (''lastRequestTime'', js_of_num_opt (lastRequestTime d))]"

definition rl_of_js :: "js \<Rightarrow> RateLimiterData" where
  "rl_of_js v = \<lparr>rlEntries = map entry_of_js (elems_of (js_get v ''entries'')),
                 totalCostMicrodollars = str_of (js_get v ''totalCostMicrodollars''),
                 lastRequestTime = num_opt_of (js_get v ''lastRequestTime'')\<rparr>"

section \<open>Window arithmetic (window.ts)\<close>

definition pruneExpiredEntries :: "RateLimiterData \<Rightarrow> timestamp \<Rightarrow> int \<Rightarrow> bool \<times> RateLimiterData" where
  "pruneExpiredEntries d now dayWindowMs =
     (let cutoff = now - dayWindowMs;
          originalLength = length (rlEntries d);
          d' = d\<lparr>rlEntries := filter (\<lambda>e. entTimestamp e > cutoff) (rlEntries d)\<rparr>
      in (length (rlEntries d') \<noteq> originalLength, d'))"

text \<open>The scan from the newest entry, which stops at the first one outside the window.\<close>

fun rpm_scan :: "timestamp \<Rightarrow> RateLimitEntry list \<Rightarrow> int \<Rightarrow> int" where
  "rpm_scan cutoff [] count = count"
| "rpm_scan cutoff (e # es) count =
     (if entTimestamp e > cutoff then rpm_scan cutoff es (count + entCount e) else count)"

definition calculateRpm :: "RateLimiterData \<Rightarrow> timestamp \<Rightarrow> int \<Rightarrow> int" where
  "calculateRpm d now windowSizeMs = rpm_scan (now - windowSizeMs) (rev (rlEntries d)) 0"

fun rpd_scan :: "timestamp \<Rightarrow> RateLimitEntry list \<Rightarrow> int \<Rightarrow> int" where
  "rpd_scan cutoff [] count = count"
| "rpd_scan cutoff (e # es) count =
     rpd_scan cutoff es (if entTimestamp e > cutoff then count + entCount e else count)"

definition calculateRpd :: "RateLimiterData \<Rightarrow> timestamp \<Rightarrow> int \<Rightarrow> int" where
  "calculateRpd d now dayWindowMs = rpd_scan (now - dayWindowMs) (rlEntries d) 0"

text \<open>Both retry calculations: the oldest entry still in the window decides.\<close>

fun retry_scan :: "timestamp \<Rightarrow> int \<Rightarrow> RateLimitEntry list \<Rightarrow> int" where
  "retry_scan now windowMs [] = DEFAULT_RETRY_AFTER_SECONDS"
| "retry_scan now windowMs (e # es) =
     (if entTimestamp e > now - windowMs
      then (let remainingMs = entTimestamp e + windowMs - now in
            if remainingMs > 0 then ceil_secs remainingMs else 1)
      else retry_scan now windowMs es)"

definition calculateRpmRetryAfter :: "RateLimiterData \<Rightarrow> timestamp \<Rightarrow> int \<Rightarrow> int" where
  "calculateRpmRetryAfter d now windowSizeMs = retry_scan now windowSizeMs (rlEntries d)"

definition calculateRpdRetryAfter :: "RateLimiterData \<Rightarrow> timestamp \<Rightarrow> int \<Rightarrow> int" where
  "calculateRpdRetryAfter d now dayWindowMs = retry_scan now dayWindowMs (rlEntries d)"

section \<open>The class (limiter.ts)\<close>

record RateLimiter =
  rlMemory :: "key_id \<rightharpoonup> RateLimiterData"
  rlStorage :: storage
  rlTenantId :: "string option"
  rlDefaultKeyId :: key_id
  rpmLimit :: int
  rpdLimit :: int
  windowSizeSeconds :: int
  windowSizeMs :: int
  dayWindowSeconds :: int
  dayWindowMs :: int
  maxBudgetMicrodollars :: "int option"
  rlPrefix :: string

definition newRateLimiter :: "storage \<Rightarrow> RateLimiterOptions \<Rightarrow> RateLimiter" where
  "newRateLimiter storage opts =
     (let windowSeconds = first_some (rloWindowSizeSeconds opts) DEFAULT_WINDOW_SIZE_SECONDS;
          daySeconds = first_some (rloDayWindowSeconds opts) ONE_DAY_SECONDS in
      \<lparr>rlMemory = Map.empty,
       rlStorage = storage,
       rlTenantId = rloTenantId opts,
       rlDefaultKeyId = first_some (rloKeyId opts) ''default'',
       rpmLimit = first_some (rloRpmLimit opts) (first_some (rlcDefaultRpmLimit opts) DEFAULT_RPM_LIMIT),
       rpdLimit = first_some (rloRpdLimit opts) (first_some (rlcDefaultRpdLimit opts) DEFAULT_RPD_LIMIT),
       windowSizeSeconds = windowSeconds,
       windowSizeMs = windowSeconds * 1000,
       dayWindowSeconds = daySeconds,
       dayWindowMs = daySeconds * 1000,
       maxBudgetMicrodollars = rloMaxBudgetMicrodollars opts,
       rlPrefix = first_some (rloStorageKeyPrefix opts) ''rl:''\<rparr>)"

definition rl_resolveKeyId :: "RateLimiter \<Rightarrow> key_id option \<Rightarrow> key_id" where
  "rl_resolveKeyId s keyId = (case keyId of Some k \<Rightarrow> k | None \<Rightarrow> rlDefaultKeyId s)"

definition rl_getStorageKey :: "RateLimiter \<Rightarrow> key_id option \<Rightarrow> string" where
  "rl_getStorageKey s keyId = rlPrefix s @ rl_resolveKeyId s keyId"

text \<open>The overloaded arguments \<open>(keyId?, cost?)\<close> and \<open>(cost?)\<close>.\<close>

definition resolveArgs :: "(key_id + int) option \<Rightarrow> int option \<Rightarrow> key_id option \<times> int" where
  "resolveArgs arg1 arg2 =
     (case arg1 of
        Some (Inl k) \<Rightarrow> (Some k, first_some arg2 0)
      | Some (Inr c) \<Rightarrow> (None, c)
      | None \<Rightarrow> (None, first_some arg2 0))"

definition rl_setMemory :: "key_id \<Rightarrow> RateLimiterData \<Rightarrow> RateLimiter \<Rightarrow> RateLimiter" where
  "rl_setMemory k d s = s\<lparr>rlMemory := (rlMemory s)(k \<mapsto> d)\<rparr>"

definition rl_persist :: "key_id \<Rightarrow> RateLimiterData \<Rightarrow> RateLimiter \<Rightarrow> RateLimiter" where
  "rl_persist k d s =
     s\<lparr>rlStorage := (rlStorage s)(rl_getStorageKey s (Some k) \<mapsto> js_of_rl d)\<rparr>"

definition rl_load :: "key_id \<Rightarrow> RateLimiter \<Rightarrow> RateLimiterData \<times> RateLimiter" where
  "rl_load k s =
     (case rlMemory s k of
        Some d \<Rightarrow> (d, s)
      | None \<Rightarrow>
          (let d = (case rlStorage s (rl_getStorageKey s (Some k)) of
                      Some stored \<Rightarrow> if isRateLimiterData stored then rl_of_js stored
                                     else createDefaultRateLimiterData
                    | None \<Rightarrow> createDefaultRateLimiterData)
           in (d, rl_setMemory k d s)))"

definition rl_getData ::
  "timestamp \<Rightarrow> key_id option \<Rightarrow> RateLimiter \<Rightarrow> RateLimiterData \<times> RateLimiter" where
  "rl_getData now keyId s =
     (let k = rl_resolveKeyId s keyId;
          (d0, s1) = rl_load k s;
          (_, d) = pruneExpiredEntries d0 now (dayWindowMs s1)
      in (d, rl_setMemory k d s1))"

definition rl_getDataSync ::
  "timestamp \<Rightarrow> key_id option \<Rightarrow> RateLimiter \<Rightarrow> RateLimiterData option \<times> RateLimiter" where
  "rl_getDataSync now keyId s =
     (let k = rl_resolveKeyId s keyId in
      case rlMemory s k of
        Some d0 \<Rightarrow> (let (_, d) = pruneExpiredEntries d0 now (dayWindowMs s) in
                   (Some d, rl_setMemory k d s))
      | None \<Rightarrow> (None, s))"

text \<open>\<open>BigInt(s)\<close> on a malformed string throws.\<close>

datatype rl_error =
    BigIntSyntaxError
  | RateLimitExceededError "string option" key_id int int int
  | QuotaExceededError string string "int option" int

definition rl_checkLimitDetailed ::
  "timestamp \<Rightarrow> key_id option \<Rightarrow> int \<Rightarrow> RateLimiter \<Rightarrow>
   (rl_error + RateLimitCheckResult) \<times> RateLimiter" where
  "rl_checkLimitDetailed now keyId cost s =
     (let (d, s1) = rl_getData now keyId s;
          rpm = calculateRpm d now (windowSizeMs s1);
          rpd = calculateRpd d now (dayWindowMs s1)
      in case bigint_of_string (totalCostMicrodollars d) of
           None \<Rightarrow> (Inl BigIntSyntaxError, s1)
         | Some acc \<Rightarrow>
             (let base = \<lparr>allowed = False, currentRpm = rpm, resRpmLimit = rpmLimit s1,
                          currentRpd = rpd, resRpdLimit = rpdLimit s1, costAccumulated = acc,
                          resMaxBudget = maxBudgetMicrodollars s1, retryAfterSeconds = 0,
                          reason = None\<rparr>
              in (Inr
                   (if rpm \<ge> rpmLimit s1 then
                      base\<lparr>retryAfterSeconds := calculateRpmRetryAfter d now (windowSizeMs s1),
                           reason := Some RpmLimitExceeded\<rparr>
                    else if rpd \<ge> rpdLimit s1 then
                      base\<lparr>retryAfterSeconds := calculateRpdRetryAfter d now (dayWindowMs s1),
                           reason := Some RpdLimitExceeded\<rparr>
                    else if (case maxBudgetMicrodollars s1 of Some b \<Rightarrow> acc + cost > b | None \<Rightarrow> False) then
                      base\<lparr>retryAfterSeconds := DEFAULT_RETRY_AFTER_SECONDS,
                           reason := Some BudgetExceeded\<rparr>
                    else base\<lparr>allowed := True\<rparr>), s1)))"

definition rl_checkLimit ::
  "timestamp \<Rightarrow> (key_id + int) option \<Rightarrow> int option \<Rightarrow> RateLimiter \<Rightarrow>
   (rl_error + bool) \<times> RateLimiter" where
  "rl_checkLimit now arg1 arg2 s =
     (let (keyId, cost) = resolveArgs arg1 arg2;
          (r, s1) = rl_checkLimitDetailed now keyId cost s
      in (map_sum id allowed r, s1))"

definition rl_checkLimitSync ::
  "timestamp \<Rightarrow> (key_id + int) option \<Rightarrow> int option \<Rightarrow> RateLimiter \<Rightarrow>
   (rl_error + bool) \<times> RateLimiter" where
  "rl_checkLimitSync now arg1 arg2 s =
     (let (keyId, cost) = resolveArgs arg1 arg2;
          (data, s1) = rl_getDataSync now keyId s
      in (case data of
            None \<Rightarrow> Inr True
          | Some d \<Rightarrow>
              if calculateRpm d now (windowSizeMs s1) \<ge> rpmLimit s1 then Inr False
              else if calculateRpd d now (dayWindowMs s1) \<ge> rpdLimit s1 then Inr False
              else case maxBudgetMicrodollars s1 of
                     None \<Rightarrow> Inr True
                   | Some b \<Rightarrow>
                       (case bigint_of_string (totalCostMicrodollars d) of
                          None \<Rightarrow> Inl BigIntSyntaxError
                        | Some acc \<Rightarrow> Inr (\<not> acc + cost > b)), s1))"

text \<open>
  \<open>increment\<close>: stamps the object, adds the cost, then merges into the last entry if that is of the
  same millisecond, else appends; prunes and writes through.
\<close>

definition rl_increment ::
  "timestamp \<Rightarrow> (key_id + int) option \<Rightarrow> int option \<Rightarrow> RateLimiter \<Rightarrow> (rl_error + unit) \<times> RateLimiter" where
  "rl_increment now arg1 arg2 s =
     (let (keyId, cost) = resolveArgs arg1 arg2;
          k = rl_resolveKeyId s keyId;
          (d0, s1) = rl_getData now (Some k) s;
          d1 = d0\<lparr>lastRequestTime := Some now\<rparr>
      in case bigint_of_string (totalCostMicrodollars d1) of
           None \<Rightarrow> (Inl BigIntSyntaxError, rl_setMemory k d1 s1)
         | Some prev \<Rightarrow>
             (let d2 = d1\<lparr>totalCostMicrodollars := bigint_to_string (prev + cost)\<rparr>;
                  fresh = \<lparr>entTimestamp = now, entCount = 1, entCost = bigint_to_string cost\<rparr>;
                  finish = (\<lambda>d. (let d' = snd (pruneExpiredEntries d now (dayWindowMs s1)) in
                                 (Inr (), rl_persist k d' (rl_setMemory k d' s1))))
              in if rlEntries d2 \<noteq> [] \<and> entTimestamp (last (rlEntries d2)) = now
                 then (let l = last (rlEntries d2); l1 = l\<lparr>entCount := entCount l + 1\<rparr> in
                       case bigint_of_string (entCost l1) of
                         None \<Rightarrow> (Inl BigIntSyntaxError,
                                  rl_setMemory k (d2\<lparr>rlEntries := butlast (rlEntries d2) @ [l1]\<rparr>) s1)
                       | Some prevEntry \<Rightarrow>
                           finish (d2\<lparr>rlEntries := butlast (rlEntries d2) @
                                     [l1\<lparr>entCost := bigint_to_string (prevEntry + cost)\<rparr>]\<rparr>))
                 else finish (d2\<lparr>rlEntries := rlEntries d2 @ [fresh]\<rparr>)))"

definition rl_throwIfExceeded ::
  "timestamp \<Rightarrow> key_id option \<Rightarrow> int \<Rightarrow> RateLimiter \<Rightarrow> (rl_error + unit) \<times> RateLimiter" where
  "rl_throwIfExceeded now keyId cost s =
     (let (res, s1) = rl_checkLimitDetailed now keyId cost s;
          k = rl_resolveKeyId s keyId
      in (case res of
            Inl e \<Rightarrow> Inl e
          | Inr r \<Rightarrow>
              if allowed r then Inr ()
              else case reason r of
                     Some RpmLimitExceeded \<Rightarrow>
                       Inl (RateLimitExceededError (rlTenantId s1) k (resRpmLimit r) (currentRpm r)
                              (retryAfterSeconds r))
                   | Some RpdLimitExceeded \<Rightarrow>
                       Inl (QuotaExceededError (first_some (rlTenantId s1) ''default'') ''rpd''
                              (Some (resRpdLimit r)) (currentRpd r))
                   | Some BudgetExceeded \<Rightarrow>
                       Inl (QuotaExceededError (first_some (rlTenantId s1) ''default'') ''spend_limit''
                              (resMaxBudget r) (costAccumulated r))
                   | None \<Rightarrow> Inr (), s1))"

definition rl_getCurrentRpm :: "timestamp \<Rightarrow> key_id option \<Rightarrow> RateLimiter \<Rightarrow> int \<times> RateLimiter" where
  "rl_getCurrentRpm now keyId s =
     (let (d, s1) = rl_getData now keyId s in (calculateRpm d now (windowSizeMs s1), s1))"

definition rl_getCurrentRpd :: "timestamp \<Rightarrow> key_id option \<Rightarrow> RateLimiter \<Rightarrow> int \<times> RateLimiter" where
  "rl_getCurrentRpd now keyId s =
     (let (d, s1) = rl_getData now keyId s in (calculateRpd d now (dayWindowMs s1), s1))"

definition rl_getRemainingRpm :: "timestamp \<Rightarrow> key_id option \<Rightarrow> RateLimiter \<Rightarrow> int \<times> RateLimiter" where
  "rl_getRemainingRpm now keyId s =
     (let (c, s1) = rl_getCurrentRpm now keyId s in (max 0 (rpmLimit s1 - c), s1))"

definition rl_getRemainingRpd :: "timestamp \<Rightarrow> key_id option \<Rightarrow> RateLimiter \<Rightarrow> int \<times> RateLimiter" where
  "rl_getRemainingRpd now keyId s =
     (let (c, s1) = rl_getCurrentRpd now keyId s in (max 0 (rpdLimit s1 - c), s1))"

definition rl_getAccumulatedCost ::
  "timestamp \<Rightarrow> key_id option \<Rightarrow> RateLimiter \<Rightarrow> (rl_error + int) \<times> RateLimiter" where
  "rl_getAccumulatedCost now keyId s =
     (let (d, s1) = rl_getData now keyId s in
      (case bigint_of_string (totalCostMicrodollars d) of
         None \<Rightarrow> Inl BigIntSyntaxError | Some c \<Rightarrow> Inr c, s1))"

definition rl_getRetryAfterSeconds ::
  "timestamp \<Rightarrow> key_id option \<Rightarrow> RateLimiter \<Rightarrow> (rl_error + int) \<times> RateLimiter" where
  "rl_getRetryAfterSeconds now keyId s =
     (let (r, s1) = rl_checkLimitDetailed now keyId 0 s in (map_sum id retryAfterSeconds r, s1))"

definition rl_getMetrics ::
  "timestamp \<Rightarrow> key_id option \<Rightarrow> RateLimiter \<Rightarrow> (rl_error + RateLimiterMetrics) \<times> RateLimiter" where
  "rl_getMetrics now keyId s =
     (let (d, s1) = rl_getData now keyId s;
          rpm = calculateRpm d now (windowSizeMs s1);
          rpd = calculateRpd d now (dayWindowMs s1);
          limited = (rpm \<ge> rpmLimit s1 \<or> rpd \<ge> rpdLimit s1)
      in (case bigint_of_string (totalCostMicrodollars d) of
            None \<Rightarrow> Inl BigIntSyntaxError
          | Some cost \<Rightarrow>
              Inr \<lparr>metRpm = rpm, metRpd = rpd, metCost = cost,
                   remainingRpm = max 0 (rpmLimit s1 - rpm),
                   remainingRpd = max 0 (rpdLimit s1 - rpd),
                   isRateLimited = limited,
                   metRetryAfter =
                     (if limited
                      then if rpm \<ge> rpmLimit s1 then calculateRpmRetryAfter d now (windowSizeMs s1)
                           else calculateRpdRetryAfter d now (dayWindowMs s1)
                      else 0)\<rparr>, s1))"

definition rl_reset :: "key_id option \<Rightarrow> RateLimiter \<Rightarrow> RateLimiter" where
  "rl_reset keyId s =
     (let k = rl_resolveKeyId s keyId; d = createDefaultRateLimiterData
      in rl_persist k d (rl_setMemory k d s))"

definition rl_clearMemoryCache :: "RateLimiter \<Rightarrow> RateLimiter" where
  "rl_clearMemoryCache s = s\<lparr>rlMemory := Map.empty\<rparr>"

section \<open>Lemmas: windows\<close>

lemma rpm_scan_takeWhile:
  "rpm_scan c es n = n + sum_list (map entCount (takeWhile (\<lambda>e. c < entTimestamp e) es))"
  by (induction es arbitrary: n) auto

lemma rpd_scan_filter:
  "rpd_scan c es n = n + sum_list (map entCount (filter (\<lambda>e. c < entTimestamp e) es))"
  by (induction es arbitrary: n) auto

text \<open>Window usage of a list of entries, as the code counts a day, and its pruning.\<close>

definition entry_usage :: "timestamp \<Rightarrow> int \<Rightarrow> RateLimitEntry list \<Rightarrow> int" where
  "entry_usage now w es = rpd_scan (now - w) es 0"

definition entry_prune :: "timestamp \<Rightarrow> int \<Rightarrow> RateLimitEntry list \<Rightarrow> RateLimitEntry list" where
  "entry_prune now w es =
     rlEntries (snd (pruneExpiredEntries (createDefaultRateLimiterData\<lparr>rlEntries := es\<rparr>) now w))"

interpretation entries: sliding_window entTimestamp entCount entry_prune entry_usage
  by unfold_locales
    (simp_all add: entry_prune_def pruneExpiredEntries_def Let_def entry_usage_def rpd_scan_filter)

lemma calculateRpd_usage: "calculateRpd d now w = entry_usage now w (rlEntries d)"
  by (simp add: calculateRpd_def entry_usage_def)

text \<open>The early exit of the minute scan is sound on a chronological list.\<close>

lemma calculateRpm_usage:
  assumes "sorted (map entTimestamp (rlEntries d))"
  shows "calculateRpm d now w = entry_usage now w (rlEntries d)"
  by (simp add: calculateRpm_def entry_usage_def rpm_scan_takeWhile rpd_scan_filter
      takeWhile_rev_sorted [OF assms] rev_map [symmetric])

definition rl_age :: "int \<Rightarrow> timestamp \<Rightarrow> RateLimiterData \<Rightarrow> RateLimiterData" where
  "rl_age dw t d = snd (pruneExpiredEntries d t dw)"

lemma rl_age_fields [simp]:
  "rlEntries (rl_age dw t d) = entry_prune t dw (rlEntries d)"
  "totalCostMicrodollars (rl_age dw t d) = totalCostMicrodollars d"
  "lastRequestTime (rl_age dw t d) = lastRequestTime d"
  by (simp_all add: rl_age_def pruneExpiredEntries_def entry_prune_def Let_def)

lemma rl_age_absorb: "t \<le> t' \<Longrightarrow> rl_age dw t' (rl_age dw t d) = rl_age dw t' d"
  by (rule RateLimiterData.equality) (simp_all add: entries.prune_absorb)

section \<open>Lemmas: the cache contract\<close>

lemma entry_codec [simp]: "isRateLimitEntry (js_of_entry e)" "entry_of_js (js_of_entry e) = e"
  by (simp_all add: isRateLimitEntry_def js_of_entry_def entry_of_js_def)

lemma rl_codec_guard [simp]: "isRateLimiterData (js_of_rl d)"
  by (simp add: isRateLimiterData_def js_of_rl_def is_array_def list_all_iff)

lemma rl_codec_roundtrip [simp]: "rl_of_js (js_of_rl d) = d"
  by (simp add: rl_of_js_def js_of_rl_def map_idI)

definition rl_value :: "RateLimiter \<Rightarrow> key_id \<Rightarrow> RateLimiterData" where
  "rl_value s k = fst (rl_load k s)"

definition rl_save :: "key_id \<Rightarrow> RateLimiterData \<Rightarrow> RateLimiter \<Rightarrow> RateLimiter" where
  "rl_save k d s = rl_persist k d (rl_setMemory k d s)"

lemmas rl_cache_defs = rl_load_def rl_setMemory_def rl_persist_def rl_clearMemoryCache_def
  rl_getStorageKey_def rl_resolveKeyId_def rl_save_def Let_def

interpretation rl_cache: aging_cache rl_load rl_setMemory rl_save rl_clearMemoryCache "rl_age dw"
  rewrites "durable_cache.view rl_load = rl_value" for dw
proof -
  show ac: "aging_cache rl_load rl_setMemory rl_save rl_clearMemoryCache (rl_age dw)" for dw
    by unfold_locales (auto simp: rl_cache_defs rl_age_absorb split: option.splits)
  show "durable_cache.view rl_load = rl_value"
    using aging_cache.axioms(1) [OF ac]
    by (simp add: fun_eq_iff rl_value_def durable_cache.view_def)
qed

definition rl_config :: "RateLimiter \<Rightarrow> string option \<times> key_id \<times> int \<times> int \<times> int \<times> int \<times> int option \<times> string" where
  "rl_config s = (rlTenantId s, rlDefaultKeyId s, rpmLimit s, rpdLimit s, windowSizeMs s,
                  dayWindowMs s, maxBudgetMicrodollars s, rlPrefix s)"

lemma rl_config_cache [simp]:
  "rl_config (snd (rl_load k s)) = rl_config s"
  "rl_config (rl_setMemory k d s) = rl_config s"
  "rl_config (rl_save k d s) = rl_config s"
  "rl_config (rl_persist k d s) = rl_config s"
  "rl_config (rl_clearMemoryCache s) = rl_config s"
  by (auto simp: rl_config_def rl_cache_defs split: option.splits)

lemma rl_configD:
  assumes "rl_config s' = rl_config s"
  shows "rlDefaultKeyId s' = rlDefaultKeyId s" "rpmLimit s' = rpmLimit s" "rpdLimit s' = rpdLimit s"
    "windowSizeMs s' = windowSizeMs s" "dayWindowMs s' = dayWindowMs s"
    "maxBudgetMicrodollars s' = maxBudgetMicrodollars s"
  using assms by (simp_all add: rl_config_def)

lemmas rl_config_fields [simp] =
  rl_config_cache [THEN rl_configD(1)] rl_config_cache [THEN rl_configD(2)]
  rl_config_cache [THEN rl_configD(3)] rl_config_cache [THEN rl_configD(4)]
  rl_config_cache [THEN rl_configD(5)] rl_config_cache [THEN rl_configD(6)]

lemma rl_resolveKeyId_simps [simp]:
  "rl_resolveKeyId s (Some k) = k" "rl_resolveKeyId s None = rlDefaultKeyId s"
  by (simp_all add: rl_resolveKeyId_def)

definition rl_aged :: "timestamp \<Rightarrow> RateLimiter \<Rightarrow> key_id \<Rightarrow> RateLimiterData" where
  "rl_aged now s k = rl_age (dayWindowMs s) now (rl_value s k)"

lemma rl_getData_eq:
  "rl_getData now keyId s =
     (let k = rl_resolveKeyId s keyId; d = rl_aged now s k in (d, rl_setMemory k d (snd (rl_load k s))))"
  by (simp add: rl_getData_def Let_def case_prod_beta rl_aged_def rl_age_def rl_value_def)

lemma rl_getData_fst [simp]: "fst (rl_getData now keyId s) = rl_aged now s (rl_resolveKeyId s keyId)"
  by (simp add: rl_getData_eq Let_def)

lemma rl_getData_config [simp]: "rl_config (snd (rl_getData now keyId s)) = rl_config s"
  by (simp add: rl_getData_eq Let_def)

lemmas rl_getData_fields [simp] =
  rl_getData_config [THEN rl_configD(1)] rl_getData_config [THEN rl_configD(2)]
  rl_getData_config [THEN rl_configD(3)] rl_getData_config [THEN rl_configD(4)]
  rl_getData_config [THEN rl_configD(5)] rl_getData_config [THEN rl_configD(6)]

lemma rl_getData_value [simp]:
  "rl_value (snd (rl_getData now keyId s)) =
     (rl_value s)(rl_resolveKeyId s keyId := rl_aged now s (rl_resolveKeyId s keyId))"
  by (simp add: rl_getData_eq Let_def)

lemma rl_getData_evict [simp]:
  "rl_clearMemoryCache (snd (rl_getData now keyId s)) = rl_clearMemoryCache s"
  by (simp add: rl_getData_eq Let_def rl_cache.cache_simps)

lemma rl_age_idem [simp]: "rl_age dw t (rl_age dw t d) = rl_age dw t d"
  by (rule rl_cache.age_idem)

lemma rl_aged_getData [simp]: "rl_aged now (snd (rl_getData now keyId s)) = rl_aged now s"
  by (auto simp: rl_aged_def fun_eq_iff)

section \<open>Lemmas: counting a request\<close>

text \<open>Data that no \<open>BigInt\<close> of the code fails on, in chronological order up to \<open>now\<close>.\<close>

definition rl_ok :: "timestamp \<Rightarrow> RateLimiterData \<Rightarrow> bool" where
  "rl_ok now d \<longleftrightarrow>
     sorted (map entTimestamp (rlEntries d)) \<and>
     (\<forall>e\<in>set (rlEntries d). entTimestamp e \<le> now \<and> 0 \<le> entCount e \<and>
        bigint_of_string (entCost e) \<noteq> None) \<and>
     bigint_of_string (totalCostMicrodollars d) \<noteq> None"

lemma rl_ok_default [simp]: "rl_ok now createDefaultRateLimiterData"
proof -
  have "''0'' = bigint_to_string 0"
    by code_simp
  then have "bigint_of_string ''0'' = Some 0" using bigint_roundtrip [of 0] by simp
  then show ?thesis by (simp add: rl_ok_def createDefaultRateLimiterData_def)
qed

lemma rl_ok_age: "rl_ok now d \<Longrightarrow> rl_ok now (rl_age dw t d)"
  by (auto simp: rl_ok_def entries.prune_filter sorted_filter)

lemma rl_ok_later: "rl_ok now d \<Longrightarrow> now \<le> now' \<Longrightarrow> rl_ok now' d"
  by (fastforce simp: rl_ok_def)

definition rl_total :: "RateLimiterData \<Rightarrow> int" where
  "rl_total d = the (bigint_of_string (totalCostMicrodollars d))"

text \<open>The mutation \<open>increment\<close> makes before its final pruning, on data that is \<open>rl_ok\<close>.\<close>

definition rl_push :: "timestamp \<Rightarrow> int \<Rightarrow> RateLimiterData \<Rightarrow> RateLimiterData" where
  "rl_push now cost d =
     d\<lparr>lastRequestTime := Some now,
       totalCostMicrodollars := bigint_to_string (rl_total d + cost),
       rlEntries :=
         (if rlEntries d \<noteq> [] \<and> entTimestamp (last (rlEntries d)) = now
          then butlast (rlEntries d) @
               [\<lparr>entTimestamp = now, entCount = entCount (last (rlEntries d)) + 1,
                 entCost = bigint_to_string
                   (the (bigint_of_string (entCost (last (rlEntries d)))) + cost)\<rparr>]
          else rlEntries d @ [\<lparr>entTimestamp = now, entCount = 1, entCost = bigint_to_string cost\<rparr>])\<rparr>"

lemma rl_increment_ok:
  assumes "rl_ok now (rl_aged now s k)"
  shows "rl_increment now (Some (Inl k)) (Some cost) s =
           (Inr (), rl_save k (rl_age (dayWindowMs s) now (rl_push now cost (rl_aged now s k)))
                      (snd (rl_getData now (Some k) s)))"
proof -
  let ?d = "rl_aged now s k"
  from assms obtain tot where tot: "bigint_of_string (totalCostMicrodollars ?d) = Some tot"
    by (auto simp: rl_ok_def)
  have last: "\<exists>c. bigint_of_string (entCost (last (rlEntries ?d))) = Some c" if "rlEntries ?d \<noteq> []"
    using assms last_in_set [OF that] by (auto simp: rl_ok_def)
  have eta: "l\<lparr>entCount := a, entCost := b\<rparr> = \<lparr>entTimestamp = entTimestamp l, entCount = a, entCost = b\<rparr>"
    for l :: RateLimitEntry and a b by simp
  show ?thesis
    using tot last
    by (auto simp: rl_increment_def resolveArgs_def Let_def case_prod_beta rl_save_def rl_push_def
        rl_total_def rl_age_def [symmetric] eta simp del: rl_age_fields)
qed

lemma rl_push_ok: "rl_ok now d \<Longrightarrow> rl_ok now (rl_push now cost d)"
proof -
  assume ok: "rl_ok now d"
  show ?thesis
  proof (cases "rlEntries d = []")
    case True
    then show ?thesis by (simp add: rl_ok_def rl_push_def bigint_roundtrip)
  next
    case False
    then obtain es l where es: "rlEntries d = es @ [l]" by (metis rev_exhaust)
    with ok show ?thesis
      by (auto simp: rl_ok_def rl_push_def bigint_roundtrip sorted_append)
  qed
qed

lemma rl_push_total: "rl_total (rl_push now cost d) = rl_total d + cost"
  by (simp add: rl_total_def rl_push_def bigint_roundtrip)

lemma rl_push_usage:
  "entry_usage t w (rlEntries (rl_push now cost d)) =
     entry_usage t w (rlEntries d) + (if t - w < now then 1 else 0)"
proof (cases "rlEntries d = []")
  case True
  then show ?thesis by (simp add: rl_push_def entries.usage_sum)
next
  case False
  then obtain es l where es: "rlEntries d = es @ [l]" by (metis rev_exhaust)
  then show ?thesis by (auto simp: rl_push_def entries.usage_sum)
qed

lemma rl_total_age [simp]: "rl_total (rl_age dw t d) = rl_total d"
  by (simp add: rl_total_def)

section \<open>Runs of guarded requests\<close>

text \<open>
  What the key pool does with the limiter of a key: a request is dispatched when the check allows
  it and is then counted; the platform may evict the object at any point. The log \<open>sent\<close> keeps the time and
  cost of the dispatched requests.
\<close>

datatype rl_event = Request int | Evict

fun rl_step :: "key_id \<Rightarrow> timestamp \<times> rl_event \<Rightarrow>
    RateLimiter \<times> (timestamp \<times> int) list \<Rightarrow> RateLimiter \<times> (timestamp \<times> int) list" where
  "rl_step k (now, Evict) (s, sent) = (rl_clearMemoryCache s, sent)"
| "rl_step k (now, Request cost) (s, sent) =
     (case rl_checkLimitDetailed now (Some k) cost s of
        (Inl _, s1) \<Rightarrow> (s1, sent)
      | (Inr r, s1) \<Rightarrow>
          if allowed r
          then (case rl_increment now (Some (Inl k)) (Some cost) s1 of
                  (Inl _, s2) \<Rightarrow> (s2, sent)
                | (Inr _, s2) \<Rightarrow> (s2, sent @ [(now, cost)]))
          else (s1, sent))"

definition rl_run :: "key_id \<Rightarrow> (timestamp \<times> rl_event) list \<Rightarrow> RateLimiter \<Rightarrow>
    RateLimiter \<times> (timestamp \<times> int) list" where
  "rl_run k evs s = fold (rl_step k) evs (s, [])"

definition dispatched :: "timestamp \<Rightarrow> int \<Rightarrow> (timestamp \<times> int) list \<Rightarrow> int" where
  "dispatched now w sent = int (length (filter (\<lambda>a. now - w < fst a) sent))"

interpretation sent_log: sliding_window fst "\<lambda>_. 1" "\<lambda>now w. filter (\<lambda>a. now - w < fst a)" dispatched
  by unfold_locales (simp_all add: dispatched_def sum_list_triv)

text \<open>The data of the key accounts for the log.\<close>

definition rl_accounts :: "int \<Rightarrow> timestamp \<Rightarrow> (timestamp \<times> int) list \<Rightarrow> RateLimiterData \<Rightarrow> bool" where
  "rl_accounts dw now sent d \<longleftrightarrow>
     rl_ok now d \<and> rl_total d = sum_list (map snd sent) \<and>
     (\<forall>t w. now \<le> t \<longrightarrow> w \<le> dw \<longrightarrow> entry_usage t w (rlEntries d) = dispatched t w sent)"

lemma rl_accounts_age:
  "rl_accounts dw now sent d \<Longrightarrow> now \<le> t \<Longrightarrow> rl_accounts dw t sent (rl_age dw t d)"
  by (auto simp: rl_accounts_def entries.usage_prune intro: rl_ok_later rl_ok_age)

lemma rl_accounts_later: "rl_accounts dw now sent d \<Longrightarrow> now \<le> t \<Longrightarrow> rl_accounts dw t sent d"
  by (auto simp: rl_accounts_def intro: rl_ok_later)

lemma rl_accounts_push:
  "rl_accounts dw now sent d \<Longrightarrow> rl_accounts dw now (sent @ [(now, c)]) (rl_push now c d)"
  by (auto simp: rl_accounts_def rl_push_ok rl_push_total rl_push_usage sent_log.usage_append
      dispatched_def)

definition rl_within :: "int \<Rightarrow> int \<Rightarrow> (timestamp \<times> int) list \<Rightarrow> bool" where
  "rl_within w limit sent \<longleftrightarrow>
     (\<forall>p e q. sent = p @ e # q \<longrightarrow> dispatched (fst e) w (p @ [e]) \<le> limit)"

definition rl_run_inv :: "key_id \<Rightarrow> timestamp \<Rightarrow> RateLimiter \<times> (timestamp \<times> int) list \<Rightarrow> bool" where
  "rl_run_inv k now = (\<lambda>(s, sent).
     windowSizeMs s \<le> dayWindowMs s \<and>
     rl_accounts (dayWindowMs s) now sent (rl_value s k) \<and>
     rl_accounts (dayWindowMs s) now sent (rl_value (rl_clearMemoryCache s) k) \<and>
     sorted (map fst sent) \<and> (\<forall>a\<in>set sent. fst a \<le> now) \<and>
     rl_within (windowSizeMs s) (rpmLimit s) sent \<and> rl_within (dayWindowMs s) (rpdLimit s) sent \<and>
     (case maxBudgetMicrodollars s of Some b \<Rightarrow> sent = [] \<or> sum_list (map snd sent) \<le> b | None \<Rightarrow> True))"

lemma rl_check_state [simp]:
  "snd (rl_checkLimitDetailed now keyId c s) = snd (rl_getData now keyId s)"
  by (simp add: rl_checkLimitDetailed_def Let_def case_prod_beta split: option.splits)

text \<open>The admission decision on data that is well formed.\<close>

definition rl_admits :: "timestamp \<Rightarrow> int \<Rightarrow> RateLimiter \<Rightarrow> RateLimiterData \<Rightarrow> bool" where
  "rl_admits now cost s d \<longleftrightarrow>
     entry_usage now (windowSizeMs s) (rlEntries d) < rpmLimit s \<and>
     entry_usage now (dayWindowMs s) (rlEntries d) < rpdLimit s \<and>
     (case maxBudgetMicrodollars s of Some b \<Rightarrow> rl_total d + cost \<le> b | None \<Rightarrow> True)"

lemma rl_check_allowed:
  assumes "rl_ok now (rl_aged now s k)"
  shows "\<exists>r. fst (rl_checkLimitDetailed now (Some k) c s) = Inr r \<and>
             (allowed r \<longleftrightarrow> rl_admits now c s (rl_aged now s k))"
proof -
  let ?d = "rl_aged now s k"
  from assms obtain tot where tot: "bigint_of_string (totalCostMicrodollars ?d) = Some tot"
    and srt: "sorted (map entTimestamp (rlEntries ?d))"
    by (auto simp: rl_ok_def)
  from tot have "rl_total ?d = tot" by (simp add: rl_total_def)
  with tot show ?thesis
    by (simp add: rl_checkLimitDetailed_def Let_def case_prod_beta rl_admits_def
        calculateRpd_usage calculateRpm_usage [OF srt] not_le not_less split: option.splits)
qed

lemma rl_within_snoc:
  "rl_within w l sent \<Longrightarrow> dispatched t w (sent @ [(t, c)]) \<le> l \<Longrightarrow> rl_within w l (sent @ [(t, c)])"
proof -
  assume old: "rl_within w l sent" and new: "dispatched t w (sent @ [(t, c)]) \<le> l"
  show ?thesis unfolding rl_within_def
  proof (intro allI impI)
    fix p e q assume eq: "sent @ [(t, c)] = p @ e # q"
    show "dispatched (fst e) w (p @ [e]) \<le> l"
    proof (cases q rule: rev_cases)
      case Nil
      with eq have "sent = p" "e = (t, c)" by auto
      with new show ?thesis by simp
    next
      case (snoc q' x)
      with eq have "sent = p @ e # q'" by simp
      with old show ?thesis unfolding rl_within_def by blast
    qed
  qed
qed

lemma rl_increment_admitted:
  assumes ok: "rl_ok now (rl_aged now s k)"
  shows "fst (rl_increment now (Some (Inl k)) (Some c) (snd (rl_getData now (Some k) s))) = Inr ()"
    and "rl_value (snd (rl_increment now (Some (Inl k)) (Some c) (snd (rl_getData now (Some k) s)))) k =
           rl_age (dayWindowMs s) now (rl_push now c (rl_aged now s k))"
    and "rl_value (rl_clearMemoryCache
           (snd (rl_increment now (Some (Inl k)) (Some c) (snd (rl_getData now (Some k) s))))) k =
           rl_age (dayWindowMs s) now (rl_push now c (rl_aged now s k))"
    and "rl_config (snd (rl_increment now (Some (Inl k)) (Some c) (snd (rl_getData now (Some k) s)))) =
           rl_config s"
  using rl_increment_ok [of now "snd (rl_getData now (Some k) s)" k c] ok by simp_all

lemma rl_run_inv_getData:
  assumes "rl_run_inv k t (s, sent)"
  shows "rl_run_inv k t (snd (rl_getData t (Some k) s), sent)"
  using assms by (auto simp: rl_run_inv_def rl_aged_def intro: rl_accounts_age)

lemma rl_run_inv_step:
  assumes inv: "rl_run_inv k now (s, sent)" and le: "now \<le> t"
  shows "rl_run_inv k t (rl_step k (t, ev) (s, sent))"
proof (cases ev)
  case Evict
  with assms show ?thesis
    by (auto simp: rl_run_inv_def rl_cache_defs intro: rl_accounts_later dest: order_trans)
next
  case (Request c)
  let ?s1 = "snd (rl_getData t (Some k) s)" and ?d = "rl_aged t s k"
  have inv_t: "rl_run_inv k t (s, sent)"
    using assms by (auto simp: rl_run_inv_def intro: rl_accounts_later order_trans)
  then have acc: "rl_accounts (dayWindowMs s) t sent ?d"
    by (auto simp: rl_run_inv_def rl_aged_def intro: rl_accounts_age)
  then have ok: "rl_ok t ?d" by (simp add: rl_accounts_def)
  obtain r where r: "rl_checkLimitDetailed t (Some k) c s = (Inr r, ?s1)"
    and allowed: "allowed r \<longleftrightarrow> rl_admits t c s ?d"
    using rl_check_allowed [OF ok, of c] by (metis rl_check_state prod.collapse)
  show ?thesis
  proof (cases "allowed r")
    case False
    with r Request rl_run_inv_getData [OF inv_t] show ?thesis by simp
  next
    case True
    let ?s2 = "snd (rl_increment t (Some (Inl k)) (Some c) ?s1)"
    note inc = rl_increment_admitted [OF ok, of c]
    from r Request True inc(1) have step: "rl_step k (t, ev) (s, sent) = (?s2, sent @ [(t, c)])"
      by (auto split: prod.splits sum.splits)
    have "rl_accounts (dayWindowMs s) t (sent @ [(t, c)]) (rl_age (dayWindowMs s) t (rl_push t c ?d))"
      by (rule rl_accounts_age [OF rl_accounts_push [OF acc] order_refl])
    moreover from True allowed have adm: "rl_admits t c s ?d" by simp
    have "dispatched t w (sent @ [(t, c)]) \<le> l"
      if "w \<le> dayWindowMs s" "entry_usage t w (rlEntries ?d) < l" for w l
      using that acc by (auto simp: rl_accounts_def dispatched_def)
    then have "dispatched t (windowSizeMs s) (sent @ [(t, c)]) \<le> rpmLimit s"
      "dispatched t (dayWindowMs s) (sent @ [(t, c)]) \<le> rpdLimit s"
      using adm inv_t by (auto simp: rl_admits_def rl_run_inv_def)
    moreover have "rl_total ?d = sum_list (map snd sent)" using acc by (simp add: rl_accounts_def)
    ultimately show ?thesis
      using inv_t adm rl_configD [OF inc(4)] inc(2,3) unfolding step
      by (auto simp: rl_run_inv_def rl_admits_def sorted_append rl_within_snoc split: option.splits)
  qed
qed

lemma rl_run_inv_fold:
  "rl_run_inv k now (s, sent) \<Longrightarrow> sorted (map fst evs) \<Longrightarrow> (\<And>e. e \<in> set evs \<Longrightarrow> now \<le> fst e) \<Longrightarrow>
   \<exists>t. rl_run_inv k t (fold (rl_step k) evs (s, sent))"
proof (induction evs arbitrary: now s sent)
  case Nil
  then show ?case by auto
next
  case (Cons e evs)
  obtain t ev where e: "e = (t, ev)" by (cases e)
  obtain s' sent' where step: "rl_step k e (s, sent) = (s', sent')" by (cases "rl_step k e (s, sent)")
  from Cons.prems(3) [of e] e have "now \<le> t" by simp
  from rl_run_inv_step [OF Cons.prems(1) this, of ev] e step have "rl_run_inv k t (s', sent')"
    by simp
  with Cons.IH [of t s' sent'] Cons.prems e step show ?case by auto
qed

lemma rl_step_config: "rl_config (fst (rl_step k e (s, sent))) = rl_config s"
proof (cases e)
  case (Pair t ev)
  have "rl_config (snd (rl_increment t a b s)) = rl_config s" for a b s
    by (simp add: rl_increment_def resolveArgs_def Let_def case_prod_beta
        split: option.splits sum.splits)
  with Pair show ?thesis
    by (cases ev) (auto split: prod.splits sum.splits if_splits
        dest!: arg_cong [where f = snd] simp: rl_check_state
        intro: rl_getData_config [THEN trans])
qed

lemma rl_run_config: "rl_config (fst (fold (rl_step k) evs (s, sent))) = rl_config s"
proof (induction evs arbitrary: s sent)
  case (Cons e evs)
  then show ?case
    using rl_step_config [of k e s sent] by (cases "rl_step k e (s, sent)") simp
qed simp

lemma newRateLimiter_empty [simp]:
  "rl_value (newRateLimiter Map.empty opts) k = createDefaultRateLimiterData"
  "rl_value (rl_clearMemoryCache (newRateLimiter Map.empty opts)) k = createDefaultRateLimiterData"
  by (simp_all add: rl_value_def rl_cache_defs newRateLimiter_def)

lemma rl_run_inv_new:
  assumes "windowSizeMs (newRateLimiter Map.empty opts) \<le> dayWindowMs (newRateLimiter Map.empty opts)"
  shows "rl_run_inv k now (newRateLimiter Map.empty opts, [])"
proof -
  have "rl_total createDefaultRateLimiterData = 0"
    by (simp add: rl_total_def createDefaultRateLimiterData_def) code_simp
  then have "rl_accounts dw now [] createDefaultRateLimiterData" for dw
    by (simp add: rl_accounts_def dispatched_def entry_usage_def createDefaultRateLimiterData_def)
      (simp add: createDefaultRateLimiterData_def [symmetric])
  with assms show ?thesis by (auto simp: rl_run_inv_def rl_within_def split: option.splits)
qed

section \<open>Lemmas: evictions do not change decisions\<close>

definition rl_same :: "key_id \<Rightarrow> timestamp \<Rightarrow> RateLimiter \<Rightarrow> RateLimiter \<Rightarrow> bool" where
  "rl_same k now s s' \<longleftrightarrow>
     rl_config s = rl_config s' \<and> rl_aged now s k = rl_aged now s' k \<and>
     rl_aged now (rl_clearMemoryCache s) k = rl_aged now s k"

lemma rl_aged_later:
  "rl_aged now s k = rl_aged now s' k \<Longrightarrow> dayWindowMs s = dayWindowMs s' \<Longrightarrow> now \<le> t \<Longrightarrow>
   rl_aged t s k = rl_aged t s' k"
  unfolding rl_aged_def by (metis rl_age_absorb)

lemma rl_same_later: "rl_same k now s s' \<Longrightarrow> now \<le> t \<Longrightarrow> rl_same k t s s'"
  unfolding rl_same_def by (auto intro: rl_aged_later dest: rl_configD(5))

lemma rl_check_same:
  assumes "rl_config s = rl_config s'" "rl_aged t s k = rl_aged t s' k"
  shows "fst (rl_checkLimitDetailed t (Some k) c s) = fst (rl_checkLimitDetailed t (Some k) c s')"
  using assms rl_configD [OF assms(1)]
  by (simp add: rl_checkLimitDetailed_def Let_def case_prod_beta split: option.splits)

lemma rl_clear_idem: "rl_clearMemoryCache (rl_clearMemoryCache s) = rl_clearMemoryCache s"
  by (simp add: rl_clearMemoryCache_def)

lemma rl_same_getData: "rl_same k t s s' \<Longrightarrow>
   rl_same k t (snd (rl_getData t (Some k) s)) (snd (rl_getData t (Some k) s'))"
  by (simp add: rl_same_def)

lemma rl_same_increment:
  assumes same: "rl_same k t s s'" and ok: "rl_ok t (rl_aged t s k)"
  shows "rl_same k t (snd (rl_increment t (Some (Inl k)) (Some c) (snd (rl_getData t (Some k) s))))
           (snd (rl_increment t (Some (Inl k)) (Some c) (snd (rl_getData t (Some k) s'))))"
proof -
  from same ok have ok': "rl_ok t (rl_aged t s' k)" and dw: "dayWindowMs s = dayWindowMs s'"
    by (auto simp: rl_same_def dest: rl_configD(5))
  show ?thesis
    using same dw rl_increment_admitted(2,3) [OF ok, of c] rl_increment_admitted(2,3) [OF ok', of c]
      rl_increment_admitted(4) [OF ok, of c] rl_increment_admitted(4) [OF ok', of c]
      rl_configD(5) [OF rl_increment_admitted(4) [OF ok, of c]]
      rl_configD(5) [OF rl_increment_admitted(4) [OF ok', of c]]
    by (simp add: rl_same_def rl_aged_def [of t "snd _"] rl_aged_def [of t "rl_clearMemoryCache _"])
qed

text \<open>One event against the same history with evictions left out.\<close>

lemma rl_same_step:
  assumes same: "rl_same k t s s'" and inv: "rl_run_inv k t (s, sent)"
  shows "rl_same k t (fst (rl_step k (t, Request c) (s, sent))) (fst (rl_step k (t, Request c) (s', sent)))"
    and "snd (rl_step k (t, Request c) (s, sent)) = snd (rl_step k (t, Request c) (s', sent))"
    and "rl_same k t (fst (rl_step k (t, Evict) (s, sent))) s'"
proof -
  have ok: "rl_ok t (rl_aged t s k)"
    using inv by (auto simp: rl_run_inv_def rl_aged_def rl_accounts_def intro: rl_ok_age)
  with same have ok': "rl_ok t (rl_aged t s' k)" by (simp add: rl_same_def)
  obtain r where r: "rl_checkLimitDetailed t (Some k) c s = (Inr r, snd (rl_getData t (Some k) s))"
    using rl_check_allowed [OF ok, of c] by (metis rl_check_state prod.collapse)
  with same have r': "rl_checkLimitDetailed t (Some k) c s' = (Inr r, snd (rl_getData t (Some k) s'))"
    using rl_check_same [of s s' t k c] by (metis rl_same_def rl_check_state fst_conv prod.collapse)
  have step: "rl_step k (t, Request c) (u, sent) =
      (if allowed r
       then (snd (rl_increment t (Some (Inl k)) (Some c) (snd (rl_getData t (Some k) u))), sent @ [(t, c)])
       else (snd (rl_getData t (Some k) u), sent))"
    if "rl_checkLimitDetailed t (Some k) c u = (Inr r, snd (rl_getData t (Some k) u))"
      "rl_ok t (rl_aged t u k)" for u
    using that rl_increment_admitted(1) [OF that(2), of c] by (auto split: prod.splits sum.splits)
  show "rl_same k t (fst (rl_step k (t, Request c) (s, sent))) (fst (rl_step k (t, Request c) (s', sent)))"
    unfolding step [OF r ok] step [OF r' ok']
    using rl_same_getData [OF same] rl_same_increment [OF same ok] by simp
  show "snd (rl_step k (t, Request c) (s, sent)) = snd (rl_step k (t, Request c) (s', sent))"
    unfolding step [OF r ok] step [OF r' ok'] by simp
  show "rl_same k t (fst (rl_step k (t, Evict) (s, sent))) s'"
    using same by (simp add: rl_same_def rl_clear_idem)
qed

lemma rl_same_run:
  "rl_same k now s s' \<Longrightarrow> rl_run_inv k now (s, sent) \<Longrightarrow> sorted (map fst evs) \<Longrightarrow>
   (\<And>e. e \<in> set evs \<Longrightarrow> now \<le> fst e) \<Longrightarrow>
   snd (fold (rl_step k) evs (s, sent)) =
     snd (fold (rl_step k) (filter (\<lambda>e. snd e \<noteq> Evict) evs) (s', sent))"
proof (induction evs arbitrary: now s s' sent)
  case (Cons e evs)
  obtain t ev where e: "e = (t, ev)" by (cases e)
  with Cons.prems have le: "now \<le> t" by force
  have same: "rl_same k t s s'" by (rule rl_same_later [OF Cons.prems(1) le])
  have inv: "rl_run_inv k t (rl_step k (t, ev) (s, sent))"
    by (rule rl_run_inv_step [OF Cons.prems(2) le])
  have inv_t: "rl_run_inv k t (s, sent)"
    using Cons.prems(2) le by (auto simp: rl_run_inv_def intro: rl_accounts_later order_trans)
  have later: "\<And>e. e \<in> set evs \<Longrightarrow> t \<le> fst e" "sorted (map fst evs)"
    using Cons.prems(3) e by auto
  note st = rl_same_step [OF same inv_t]
  show ?case
  proof (cases ev)
    case Evict
    from Cons.IH [of t "fst (rl_step k (t, Evict) (s, sent))" s' sent] st(3) inv later Evict e
    show ?thesis by simp
  next
    case (Request c)
    obtain u l u' l' where u: "rl_step k (t, Request c) (s, sent) = (u, l)"
      "rl_step k (t, Request c) (s', sent) = (u', l')"
      by (metis prod.exhaust)
    with st(1,2) [of c] have "rl_same k t u u'" "l' = l" by simp_all
    with Cons.IH [of t u u' l] inv later Request e u
    show ?thesis by (simp del: rl_step.simps)
  qed
qed simp

section \<open>Lemmas: the retry delay\<close>

lemma retry_scan_first:
  assumes "sorted (map entTimestamp es)" "\<exists>e\<in>set es. now - w < entTimestamp e"
  shows "\<exists>e0\<in>set es. now - w < entTimestamp e0 \<and>
           (\<forall>e\<in>set es. now - w < entTimestamp e \<longrightarrow> entTimestamp e0 \<le> entTimestamp e) \<and>
           retry_scan now w es = ceil_secs (entTimestamp e0 + w - now)"
  using assms
proof (induction es)
  case (Cons e es)
  show ?case
  proof (cases "now - w < entTimestamp e")
    case True
    with Cons.prems(1) show ?thesis by (intro bexI [of _ e]) auto
  next
    case False
    with Cons.prems obtain e0 where "e0 \<in> set es" "now - w < entTimestamp e0"
      "\<forall>x\<in>set es. now - w < entTimestamp x \<longrightarrow> entTimestamp e0 \<le> entTimestamp x"
      "retry_scan now w es = ceil_secs (entTimestamp e0 + w - now)"
      using Cons.IH by auto
    with False show ?thesis by (intro bexI [of _ e0]) auto
  qed
qed simp

section \<open>Properties\<close>

text \<open>
  The minute count, which scans back from the newest entry and stops at the first expired one, is
  the number of requests in the window whenever the entries are in chronological order, and the
  daily pruning never changes it as long as the minute window is not longer than the day.
\<close>

theorem rpm_scan_correct:
  assumes "sorted (map entTimestamp (rlEntries d))" "w \<le> dw"
  shows "calculateRpm d now w =
           sum_list (map entCount (filter (\<lambda>e. now - w < entTimestamp e) (rlEntries d))) \<and>
         calculateRpm (snd (pruneExpiredEntries d now dw)) now w = calculateRpm d now w"
proof -
  have "sorted (map entTimestamp (rlEntries (rl_age dw now d)))"
    using assms(1) by (simp add: entries.prune_filter sorted_filter)
  from calculateRpm_usage [OF this] calculateRpm_usage [OF assms(1)] assms(2) show ?thesis
    by (simp add: rl_age_def [symmetric] entries.usage_prune) (simp add: entries.usage_sum)
qed

theorem rpm_scan_correct_witness:
  "calculateRpm \<lparr>rlEntries = [\<lparr>entTimestamp = 1, entCount = 4, entCost = ''0''\<rparr>,
       \<lparr>entTimestamp = 70, entCount = 2, entCost = ''0''\<rparr>,
       \<lparr>entTimestamp = 90, entCount = 1, entCost = ''0''\<rparr>],
     totalCostMicrodollars = ''0'', lastRequestTime = None\<rparr> 100 60 = 3"
  using rpm_scan_correct [of "\<lparr>rlEntries = [\<lparr>entTimestamp = 1, entCount = 4, entCost = ''0''\<rparr>,
       \<lparr>entTimestamp = 70, entCount = 2, entCost = ''0''\<rparr>,
       \<lparr>entTimestamp = 90, entCount = 1, entCost = ''0''\<rparr>],
     totalCostMicrodollars = ''0'', lastRequestTime = None\<rparr>" 60 1000 100]
  by simp

text \<open>
  C7. The limiter keeps its promise over every window, not only the clock's minutes: over any
  sequence of requests and evictions, the requests dispatched for a key in any minute-long window
  number at most the RPM limit, and in any day-long window at most the RPD limit.
\<close>

theorem rate_limits_hold:
  assumes "windowSizeMs s0 \<le> dayWindowMs s0" "0 \<le> rpmLimit s0" "0 \<le> rpdLimit s0"
    and "s0 = newRateLimiter Map.empty opts" and "sorted (map fst evs)"
  shows "int (length (filter (\<lambda>a. t - windowSizeMs s0 < fst a \<and> fst a \<le> t) (snd (rl_run k evs s0))))
           \<le> rpmLimit s0 \<and>
         int (length (filter (\<lambda>a. t - dayWindowMs s0 < fst a \<and> fst a \<le> t) (snd (rl_run k evs s0))))
           \<le> rpdLimit s0"
proof -
  obtain t0 where t0: "\<And>e. e \<in> set evs \<Longrightarrow> t0 \<le> fst e"
    using assms(5) by (cases evs) auto
  obtain s sent where run: "fold (rl_step k) evs (s0, []) = (s, sent)"
    by (cases "fold (rl_step k) evs (s0, [])")
  obtain t' where "rl_run_inv k t' (s, sent)"
    using rl_run_inv_fold [of k t0 s0 "[]" evs] rl_run_inv_new [of opts k t0] assms t0 run by auto
  moreover have "rl_config s = rl_config s0" using rl_run_config [of k evs s0 "[]"] run by simp
  note cfg = rl_configD [OF this]
  ultimately have srt: "sorted (map fst sent)" and
    "rl_within (windowSizeMs s0) (rpmLimit s0) sent" "rl_within (dayWindowMs s0) (rpdLimit s0) sent"
    by (auto simp: rl_run_inv_def cfg)
  then have "dispatched t (windowSizeMs s0) (filter (\<lambda>a. fst a \<le> t) sent) \<le> rpmLimit s0"
    "dispatched t (dayWindowMs s0) (filter (\<lambda>a. fst a \<le> t) sent) \<le> rpdLimit s0"
    using assms(2,3) by (auto intro!: sent_log.window_bound simp: rl_within_def)
  then show ?thesis
    by (simp add: rl_run_def run dispatched_def conj_commute)
qed

definition rl_no_options :: RateLimiterOptions where
  "rl_no_options = \<lparr>rloTenantId = None, rloKeyId = None, rloRpmLimit = Some 1, rloRpdLimit = Some 5,
     rloWindowSizeSeconds = None, rloDayWindowSeconds = None, rloMaxBudgetMicrodollars = Some 100,
     rloStorageKeyPrefix = None, rlcDefaultRpmLimit = None, rlcDefaultRpdLimit = None\<rparr>"

definition rl_example :: RateLimiter where
  "rl_example = newRateLimiter Map.empty rl_no_options"

lemma rl_example_fields [simp]:
  "rpmLimit rl_example = 1" "rpdLimit rl_example = 5" "windowSizeMs rl_example = 60000"
  "dayWindowMs rl_example = 86400000" "maxBudgetMicrodollars rl_example = Some 100"
  "rlMemory rl_example = Map.empty" "rlStorage rl_example = Map.empty"
  by (simp_all add: rl_example_def newRateLimiter_def rl_no_options_def Let_def
      DEFAULT_WINDOW_SIZE_SECONDS_def ONE_DAY_SECONDS_def)

theorem rate_limits_hold_witness:
  "int (length (filter (\<lambda>a. 9 - windowSizeMs rl_example < fst a \<and> fst a \<le> 9)
     (snd (rl_run ''a'' [(5, Request 1), (6, Evict), (9, Request 1)] rl_example)))) \<le> 1"
  using rate_limits_hold [of rl_example rl_no_options "[(5, Request 1), (6, Evict), (9, Request 1)]"
      9 "''a''"]
  by (simp add: rl_example_def [symmetric] del: rl_step.simps)

text \<open>
  The money is accounted for exactly: after any run the stored total of a key is the sum of the
  costs of the dispatched requests, no operation fails on its own numbers, and with a budget set
  the total never exceeds it once anything was dispatched.
\<close>

theorem budget_accounting:
  assumes "windowSizeMs s0 \<le> dayWindowMs s0" and "s0 = newRateLimiter Map.empty opts"
    and "sorted (map fst evs)" and "rl_run k evs s0 = (s, sent)"
  shows "fst (rl_getAccumulatedCost t (Some k) s) = Inr (sum_list (map snd sent)) \<and>
         (case maxBudgetMicrodollars s0 of
            Some b \<Rightarrow> sent = [] \<or> sum_list (map snd sent) \<le> b | None \<Rightarrow> True)"
proof -
  obtain t0 where t0: "\<And>e. e \<in> set evs \<Longrightarrow> t0 \<le> fst e"
    using assms(3) by (cases evs) auto
  from assms(4) have run: "fold (rl_step k) evs (s0, []) = (s, sent)" by (simp add: rl_run_def)
  obtain t' where inv: "rl_run_inv k t' (s, sent)"
    using rl_run_inv_fold [of k t0 s0 "[]" evs] rl_run_inv_new [of opts k t0] assms t0 run by auto
  have "rl_config s = rl_config s0" using rl_run_config [of k evs s0 "[]"] run by simp
  note cfg = rl_configD [OF this]
  from inv have "rl_ok t' (rl_value s k)" "rl_total (rl_value s k) = sum_list (map snd sent)"
    by (auto simp: rl_run_inv_def rl_accounts_def)
  then have "fst (rl_getAccumulatedCost t (Some k) s) = Inr (sum_list (map snd sent))"
    by (auto simp: rl_getAccumulatedCost_def Let_def case_prod_beta rl_aged_def rl_ok_def rl_total_def)
  with inv cfg show ?thesis by (simp add: rl_run_inv_def)
qed

theorem budget_accounting_witness:
  "\<exists>s sent. rl_run ''a'' [(5, Request 70), (6, Evict), (70000, Request 40)] rl_example = (s, sent) \<and>
     fst (rl_getAccumulatedCost 80000 (Some ''a'') s) = Inr (sum_list (map snd sent)) \<and>
     (sent = [] \<or> sum_list (map snd sent) \<le> 100)"
proof -
  obtain s sent where run:
    "rl_run ''a'' [(5, Request 70), (6, Evict), (70000, Request 40)] rl_example = (s, sent)"
    by (cases "rl_run ''a'' [(5, Request 70), (6, Evict), (70000, Request 40)] rl_example")
  with budget_accounting [OF _ rl_example_def _ run, of 80000] show ?thesis by auto
qed

text \<open>
  Evictions are invisible to clients: the same requests at the same times are dispatched whether
  or not the object loses its memory in between.
\<close>

theorem eviction_does_not_change_decisions:
  assumes "windowSizeMs s0 \<le> dayWindowMs s0" and "s0 = newRateLimiter Map.empty opts"
    and "sorted (map fst evs)"
  shows "snd (rl_run k evs s0) = snd (rl_run k (filter (\<lambda>e. snd e \<noteq> Evict) evs) s0)"
proof -
  obtain t0 where t0: "\<And>e. e \<in> set evs \<Longrightarrow> t0 \<le> fst e"
    using assms(3) by (cases evs) auto
  have "rl_same k t0 s0 s0"
    by (simp add: rl_same_def rl_aged_def assms(2))
  with assms t0 rl_run_inv_new [of opts k t0] show ?thesis
    unfolding rl_run_def by (intro rl_same_run [where now = t0]) auto
qed

theorem eviction_does_not_change_decisions_witness:
  "snd (rl_run ''a'' [(5, Request 70), (6, Evict), (7, Request 1)] rl_example) =
     snd (rl_run ''a'' [(5, Request 70), (7, Request 1)] rl_example)"
  using eviction_does_not_change_decisions [of rl_example rl_no_options
      "[(5, Request 70), (6, Evict), (7, Request 1)]" "''a''"]
  by (simp add: rl_example_def [symmetric] del: rl_step.simps)

text \<open>
  The retry delay of a full minute window is exact to the second: waiting it out frees capacity,
  waiting one second less frees none.
\<close>

theorem rpm_retry_after_exact:
  assumes "sorted (map entTimestamp (rlEntries d))" "\<forall>e\<in>set (rlEntries d). 0 < entCount e"
    and "0 < calculateRpm d now w"
  shows "let r = calculateRpmRetryAfter d now w in
         1 \<le> r \<and> calculateRpm d (now + 1000 * r) w < calculateRpm d now w \<and>
         calculateRpm d (now + 1000 * (r - 1)) w = calculateRpm d now w"
proof -
  let ?es = "rlEntries d"
  note usage = calculateRpm_usage [OF assms(1)] entries.usage_sum
  from assms(3) have "filter (\<lambda>e. now - w < entTimestamp e) ?es \<noteq> []"
    unfolding usage by (auto simp del: filter_False)
  then have "\<exists>e\<in>set ?es. now - w < entTimestamp e" by (auto simp: filter_empty_conv)
  then obtain e0 where e0: "e0 \<in> set ?es" "now - w < entTimestamp e0"
    and least: "\<forall>e\<in>set ?es. now - w < entTimestamp e \<longrightarrow> entTimestamp e0 \<le> entTimestamp e"
    and r: "retry_scan now w ?es = ceil_secs (entTimestamp e0 + w - now)"
    using retry_scan_first [OF assms(1)] by blast
  let ?r = "ceil_secs (entTimestamp e0 + w - now)"
  have b: "entTimestamp e0 + w - now \<le> 1000 * ?r" "1000 * ?r < entTimestamp e0 + w - now + 1000"
    by (rule ceil_secs_bounds)+
  have r1: "1 \<le> ?r" using e0(2) ceil_secs_pos [of "entTimestamp e0 + w - now"] by linarith
  have "filter (\<lambda>e. now + 1000 * (?r - 1) - w < entTimestamp e) ?es =
        filter (\<lambda>e. now - w < entTimestamp e) ?es"
    using least b r1 by (intro filter_cong) force+
  moreover have "sum_list (map entCount (filter (\<lambda>e. now + 1000 * ?r - w < entTimestamp e) ?es))
      < sum_list (map entCount (filter (\<lambda>e. now - w < entTimestamp e) ?es))"
  proof -
    from split_list [OF e0(1)] obtain p q where pq: "?es = p @ e0 # q" by auto
    have nn: "0 \<le> entCount x" if "x \<in> set p \<union> set q" for x
    proof -
      from that have "x \<in> set ?es" by (auto simp: pq)
      with assms(2) show ?thesis by force
    qed
    have "sum_list (map entCount (filter (\<lambda>e. now + 1000 * ?r - w < entTimestamp e) xs))
      \<le> sum_list (map entCount (filter (\<lambda>e. now - w < entTimestamp e) xs))"
      if "set xs \<subseteq> set p \<union> set q" for xs
      using that nn r1 by (intro sum_list_filter_mono) auto
    from this [of p] this [of q] show ?thesis
      using b(1) e0(2) assms(2) pq by auto
  qed
  ultimately show ?thesis
    using r1 by (simp add: calculateRpmRetryAfter_def Let_def usage r)
qed

theorem rpm_retry_after_exact_witness:
  "let d = \<lparr>rlEntries = [\<lparr>entTimestamp = 1000, entCount = 2, entCost = ''0''\<rparr>,
       \<lparr>entTimestamp = 9000, entCount = 1, entCost = ''0''\<rparr>],
       totalCostMicrodollars = ''0'', lastRequestTime = None\<rparr> in
   calculateRpmRetryAfter d 10000 60000 = 51 \<and> calculateRpm d (10000 + 51000) 60000 < 3"
  using rpm_retry_after_exact [of "\<lparr>rlEntries = [\<lparr>entTimestamp = 1000, entCount = 2, entCost = ''0''\<rparr>,
       \<lparr>entTimestamp = 9000, entCount = 1, entCost = ''0''\<rparr>],
       totalCostMicrodollars = ''0'', lastRequestTime = None\<rparr>" 10000 60000]
  by (simp add: calculateRpmRetryAfter_def ceil_secs_def Let_def calculateRpm_def)

end
