(* ===== verification/KeySelector.thy ===== *)
theory KeySelector
  imports CircuitBreaker RateLimiter
begin

text \<open>
  \<open>src/durable_objects/key_selector/\<close>: choosing a key of a tenant's pool. \<open>types.ts\<close> gives the
  data, \<open>triage.ts\<close> the health checks, \<open>strategies.ts\<close> the algorithms, \<open>selector.ts\<close> the
  class. The type of keys is generic in the code; here it is the extensible record
  \<open>SelectableKey\<close>. The breaker and the limiter are optional collaborators whose state is threaded
  through every call. The number \<open>Math.random()\<close> yields is an argument.
\<close>

section \<open>Types (types.ts)\<close>

text \<open>An ISO date string, by what \<open>Date.parse\<close> reads it as: \<open>None\<close> is \<open>NaN\<close>.\<close>

type_synonym iso_date = "timestamp option"

record SelectableKey =
  keyId :: key_id
  provider :: string
  keyTenantId :: "string option"
  keyLabel :: "string option"
  priority :: "int option"
  status :: "string option"
  keyRpmLimit :: "int option"
  keyRpdLimit :: "int option"
  circuitOpenUntil :: "iso_date option"
  lastUsedAt :: "iso_date option"

datatype KeySelectionStrategy =
  RoundRobin | LeastUsed | LoadBalanced | Priority | Random | CostOptimal | LowestLatency | Cascade

datatype triage_reason =
  KeyDisabled | KeyInvalid | KeyExhausted | KeyCircuitOpen | KeyRateLimited | KeyOverBudget

record 'k KeyTriageItem =
  itKey :: 'k
  itHealthy :: bool
  itReason :: "triage_reason option"
  itRetryAfter :: "int option"
  itOpenUntil :: "iso_date option"
  itState :: "cb_state option"
  itCurrentRpm :: "int option"
  itRemainingRpm :: "int option"

record 'k KeyTriageResult =
  trProvider :: "string option"
  totalKeys :: int
  healthyKeys :: "'k list"
  unhealthyKeys :: "'k KeyTriageItem list"
  rateLimitedKeys :: "'k KeyTriageItem list"
  circuitBrokenKeys :: "'k KeyTriageItem list"
  disabledKeys :: "'k KeyTriageItem list"
  minRetryAfterSeconds :: int

record 'k SelectKeyOptions =
  strategy :: "KeySelectionStrategy option"
  soCost :: "int option"
  throwOnExhausted :: "bool option"
  fallbackToAnyProvider :: "bool option"
  candidateKeys :: "'k list option"

record CapacitySummary =
  csProvider :: "string option"
  csTotalKeys :: int
  csHealthyKeys :: int
  totalRpmLimit :: int
  csCurrentRpm :: int
  csRemainingRpm :: int
  utilizationPercent :: int

definition isSelectableKey :: "js \<Rightarrow> bool" where
  "isSelectableKey v \<longleftrightarrow>
     is_object v \<and> is_str (js_get v ''id'') \<and> is_str (js_get v ''provider'') \<and>
     js_trim (str_of (js_get v ''id'')) \<noteq> [] \<and> js_trim (str_of (js_get v ''provider'')) \<noteq> []"

section \<open>Triage (triage.ts)\<close>

definition isStatusPermitted :: "string option \<Rightarrow> bool \<times> triage_reason option" where
  "isStatusPermitted st =
     (case st of
        None \<Rightarrow> (True, None)
      | Some v \<Rightarrow>
          if v = [] then (True, None)
          else (let l = js_lower v in
                if l = ''disabled'' then (False, Some KeyDisabled)
                else if l = ''invalid'' then (False, Some KeyInvalid)
                else if l = ''exhausted'' then (False, Some KeyExhausted)
                else (True, None)))"

text \<open>The two collaborators of a selector.\<close>

type_synonym gates = "CircuitBreaker option \<times> RateLimiter option"

text \<open>
  The breaker part of one round of the loop: allowed or not, the retry delay, the end of the
  cooldown and the state, from the breaker if there is one, else from the key's own record.
\<close>

definition triage_breaker ::
  "timestamp \<Rightarrow> ('k SelectableKey_scheme) \<Rightarrow> CircuitBreaker option \<Rightarrow>
   (bool \<times> int \<times> iso_date option \<times> cb_state) \<times> CircuitBreaker option" where
  "triage_breaker now key cbo =
     (case cbo of
        Some cb0 \<Rightarrow>
          (let (ok, cb1) = cb_canExecute now (Some (keyId key)) cb0;
               (st, cb2) = cb_getState now (Some (keyId key)) cb1
           in if ok then ((True, 0, None, st), Some cb2)
              else (let (retry, cb3) = cb_getRetryAfterSeconds now (Some (keyId key)) cb2;
                        (until, cb4) = cb_getCircuitOpenUntil now (Some (keyId key)) cb3
                    in ((False, retry, map_option Some until, st), Some cb4)))
      | None \<Rightarrow>
          ((case circuitOpenUntil key of
              Some (Some until) \<Rightarrow>
                if until > now
                then (False, max 1 (ceil_secs (until - now)), circuitOpenUntil key, OPEN)
                else (True, 0, None, CLOSED)
            | _ \<Rightarrow> (True, 0, None, CLOSED)), None))"

text \<open>The limiter part: \<open>None\<close> when the key passes, else the reason, delay and counts.\<close>

definition triage_limiter ::
  "timestamp \<Rightarrow> int \<Rightarrow> ('k SelectableKey_scheme) \<Rightarrow> RateLimiter option \<Rightarrow>
   (rl_error + (triage_reason \<times> int \<times> int \<times> int) option) \<times> RateLimiter option" where
  "triage_limiter now cost key rlo =
     (case rlo of
        None \<Rightarrow> (Inr None, None)
      | Some rl0 \<Rightarrow>
          (let (res, rl1) = rl_checkLimitDetailed now (Some (keyId key)) cost rl0 in
           ((case res of
               Inl e \<Rightarrow> Inl e
             | Inr r \<Rightarrow>
                 if allowed r then Inr None
                 else Inr (Some (if reason r = Some BudgetExceeded then KeyOverBudget else KeyRateLimited,
                                 retryAfterSeconds r, currentRpm r,
                                 max 0 (resRpmLimit r - currentRpm r)))), Some rl1)))"

datatype 'k verdict =
    Healthy
  | StaticallyOut "'k KeyTriageItem"
  | CircuitBroken int "'k KeyTriageItem"
  | Limited int "'k KeyTriageItem"

definition triage_item :: "'k \<Rightarrow> triage_reason option \<Rightarrow> 'k KeyTriageItem" where
  "triage_item key r = \<lparr>itKey = key, itHealthy = False, itReason = r, itRetryAfter = None,
     itOpenUntil = None, itState = None, itCurrentRpm = None, itRemainingRpm = None\<rparr>"

definition or_default_retry :: "int \<Rightarrow> int" where
  "or_default_retry n = (if n > 0 then n else DEFAULT_RETRY_AFTER_SECONDS)"

text \<open>One round of the asynchronous loop.\<close>

definition triage_key ::
  "timestamp \<Rightarrow> int \<Rightarrow> ('k SelectableKey_scheme) \<Rightarrow> gates \<Rightarrow>
   (rl_error + ('k SelectableKey_scheme) verdict) \<times> gates" where
  "triage_key now cost key g =
     (let (permitted, why) = isStatusPermitted (status key) in
      if \<not> permitted then (Inr (StaticallyOut (triage_item key why)), g)
      else
        (let ((cbAllowed, cbRetry, cbUntil, cbSt), cb) = triage_breaker now key (fst g) in
         if \<not> cbAllowed then
           (let retry = or_default_retry cbRetry in
            (Inr (CircuitBroken retry
               ((triage_item key (Some KeyCircuitOpen))
                  \<lparr>itRetryAfter := Some retry, itOpenUntil := cbUntil, itState := Some cbSt\<rparr>)),
             (cb, snd g)))
         else
           (let (res, rl) = triage_limiter now cost key (snd g) in
            ((case res of
                Inl e \<Rightarrow> Inl e
              | Inr None \<Rightarrow> Inr Healthy
              | Inr (Some (why, rlRetry, rpm, remaining)) \<Rightarrow>
                  (let retry = or_default_retry rlRetry in
                   Inr (Limited retry
                     ((triage_item key (Some why))
                        \<lparr>itRetryAfter := Some retry, itCurrentRpm := Some rpm,
                         itRemainingRpm := Some remaining\<rparr>)))), (cb, rl)))))"

text \<open>One round of the synchronous loop, on in-memory state only.\<close>

definition triage_breaker_sync ::
  "timestamp \<Rightarrow> ('k SelectableKey_scheme) \<Rightarrow> CircuitBreaker option \<Rightarrow>
   (bool \<times> int \<times> cb_state) \<times> CircuitBreaker option" where
  "triage_breaker_sync now key cbo =
     (case cbo of
        Some cb0 \<Rightarrow>
          (let (ok, cb1) = cb_canExecuteSync now (Some (keyId key)) cb0;
               (st, cb2) = cb_getStateSync now (Some (keyId key)) cb1
           in if ok then ((True, 0, st), Some cb2)
              else (let (d, cb3) = cb_getDataSync now (Some (keyId key)) cb2 in
                    ((False,
                      (case d of
                         Some dat \<Rightarrow>
                           (case openedAt dat of
                              Some opened \<Rightarrow>
                                (let rem = opened + cooldownMs cb3 - now in
                                 if rem > 0 then ceil_secs rem else 1)
                            | None \<Rightarrow> 0)
                       | None \<Rightarrow> 0), st), Some cb3)))
      | None \<Rightarrow>
          ((case circuitOpenUntil key of
              Some (Some until) \<Rightarrow>
                if until > now then (False, max 1 (ceil_secs (until - now)), OPEN)
                else (True, 0, CLOSED)
            | _ \<Rightarrow> (True, 0, CLOSED)), None))"

definition triage_key_sync ::
  "timestamp \<Rightarrow> int \<Rightarrow> ('k SelectableKey_scheme) \<Rightarrow> gates \<Rightarrow>
   (rl_error + ('k SelectableKey_scheme) verdict) \<times> gates" where
  "triage_key_sync now cost key g =
     (let (permitted, why) = isStatusPermitted (status key) in
      if \<not> permitted then (Inr (StaticallyOut (triage_item key why)), g)
      else
        (let ((cbAllowed, cbRetry, cbSt), cb) = triage_breaker_sync now key (fst g) in
         if \<not> cbAllowed then
           (let retry = or_default_retry cbRetry in
            (Inr (CircuitBroken retry
               ((triage_item key (Some KeyCircuitOpen))
                  \<lparr>itRetryAfter := Some retry, itState := Some cbSt\<rparr>)), (cb, snd g)))
         else
           (case snd g of
              None \<Rightarrow> (Inr Healthy, (cb, None))
            | Some rl0 \<Rightarrow>
                (let (res, rl) = rl_checkLimitSync now (Some (Inl (keyId key))) (Some cost) rl0 in
                 ((case res of
                     Inl e \<Rightarrow> Inl e
                   | Inr ok \<Rightarrow>
                       if ok then Inr Healthy
                       else Inr (Limited DEFAULT_RETRY_AFTER_SECONDS
                              ((triage_item key (Some KeyRateLimited))
                                 \<lparr>itRetryAfter := Some DEFAULT_RETRY_AFTER_SECONDS\<rparr>))),
                  (cb, Some rl))))))"

text \<open>The loop over the candidates with its five result lists and the list of delays.\<close>

record 'k triage_acc =
  accHealthy :: "'k list"
  accUnhealthy :: "'k KeyTriageItem list"
  accLimited :: "'k KeyTriageItem list"
  accBroken :: "'k KeyTriageItem list"
  accDisabled :: "'k KeyTriageItem list"
  accDelays :: "int list"

definition triage_push :: "'k \<Rightarrow> 'k verdict \<Rightarrow> 'k triage_acc \<Rightarrow> 'k triage_acc" where
  "triage_push key v a =
     (case v of
        Healthy \<Rightarrow> a\<lparr>accHealthy := accHealthy a @ [key]\<rparr>
      | StaticallyOut i \<Rightarrow> a\<lparr>accUnhealthy := accUnhealthy a @ [i], accDisabled := accDisabled a @ [i]\<rparr>
      | CircuitBroken d i \<Rightarrow> a\<lparr>accDelays := accDelays a @ [d], accUnhealthy := accUnhealthy a @ [i],
                               accBroken := accBroken a @ [i]\<rparr>
      | Limited d i \<Rightarrow> a\<lparr>accDelays := accDelays a @ [d], accUnhealthy := accUnhealthy a @ [i],
                         accLimited := accLimited a @ [i]\<rparr>)"

fun triage_loop ::
  "('k \<Rightarrow> gates \<Rightarrow> (rl_error + 'k verdict) \<times> gates) \<Rightarrow> 'k list \<Rightarrow> 'k triage_acc \<Rightarrow> gates \<Rightarrow>
   (rl_error + 'k triage_acc) \<times> gates" where
  "triage_loop body [] a g = (Inr a, g)"
| "triage_loop body (key # keys) a g =
     (case body key g of
        (Inl e, g1) \<Rightarrow> (Inl e, g1)
      | (Inr v, g1) \<Rightarrow> triage_loop body keys (triage_push key v a) g1)"

definition triage_start :: "'k triage_acc" where
  "triage_start = \<lparr>accHealthy = [], accUnhealthy = [], accLimited = [], accBroken = [],
     accDisabled = [], accDelays = []\<rparr>"

definition triage_finish :: "string option \<Rightarrow> 'k list \<Rightarrow> 'k triage_acc \<Rightarrow> 'k KeyTriageResult" where
  "triage_finish prov candidates a =
     \<lparr>trProvider = prov, totalKeys = int (length candidates), healthyKeys = accHealthy a,
      unhealthyKeys = accUnhealthy a, rateLimitedKeys = accLimited a, circuitBrokenKeys = accBroken a,
      disabledKeys = accDisabled a,
      minRetryAfterSeconds =
        (case accDelays a of [] \<Rightarrow> DEFAULT_RETRY_AFTER_SECONDS | d # ds \<Rightarrow> fold min ds d)\<rparr>"

definition triageKeysAsync ::
  "timestamp \<Rightarrow> string option \<Rightarrow> int \<Rightarrow> ('k SelectableKey_scheme) list \<Rightarrow> gates \<Rightarrow>
   (rl_error + ('k SelectableKey_scheme) KeyTriageResult) \<times> gates" where
  "triageKeysAsync now prov cost candidates g =
     (let (r, g1) = triage_loop (triage_key now cost) candidates triage_start g
      in (map_sum id (triage_finish prov candidates) r, g1))"

definition triageKeysSync ::
  "timestamp \<Rightarrow> string option \<Rightarrow> int \<Rightarrow> ('k SelectableKey_scheme) list \<Rightarrow> gates \<Rightarrow>
   (rl_error + ('k SelectableKey_scheme) KeyTriageResult) \<times> gates" where
  "triageKeysSync now prov cost candidates g =
     (let (r, g1) = triage_loop (triage_key_sync now cost) candidates triage_start g
      in (map_sum id (triage_finish prov candidates) r, g1))"

section \<open>The class: state and pool (selector.ts)\<close>

record 'k KeySelector =
  ksTenantId :: "string option"
  defaultStrategy :: KeySelectionStrategy
  ksStorage :: "storage option"
  ksPrefix :: string
  circuitBreaker :: "CircuitBreaker option"
  rateLimiter :: "RateLimiter option"
  keysMap :: "(key_id, 'k) jsmap"
  roundRobinIndices :: "string \<rightharpoonup> int"
  usageCounts :: "key_id \<rightharpoonup> int"

definition normalizeProvider :: "string \<Rightarrow> string" where
  "normalizeProvider p = js_lower (js_trim p)"

definition ks_addKey :: "'k SelectableKey_scheme \<Rightarrow> ('k SelectableKey_scheme) KeySelector \<Rightarrow>
    ('k SelectableKey_scheme) KeySelector" where
  "ks_addKey key s = s\<lparr>keysMap := AList.update (keyId key) key (keysMap s)\<rparr>"

definition ks_addKeys :: "('k SelectableKey_scheme) list \<Rightarrow> ('k SelectableKey_scheme) KeySelector \<Rightarrow>
    ('k SelectableKey_scheme) KeySelector" where
  "ks_addKeys keys s = fold ks_addKey keys s"

definition newKeySelector ::
  "string option \<Rightarrow> KeySelectionStrategy option \<Rightarrow> CircuitBreaker option \<Rightarrow> RateLimiter option \<Rightarrow>
   storage option \<Rightarrow> string option \<Rightarrow> ('k SelectableKey_scheme) list option \<Rightarrow>
   ('k SelectableKey_scheme) KeySelector" where
  "newKeySelector tenant strat cb rl store prefix keys =
     (let s = \<lparr>ksTenantId = tenant, defaultStrategy = first_some strat RoundRobin, ksStorage = store,
               ksPrefix = first_some prefix ''ks:'', circuitBreaker = cb, rateLimiter = rl,
               keysMap = [], roundRobinIndices = Map.empty, usageCounts = Map.empty\<rparr>
      in case keys of Some kl \<Rightarrow> ks_addKeys kl s | None \<Rightarrow> s)"

definition ks_removeKey :: "key_id \<Rightarrow> 'k KeySelector \<Rightarrow> bool \<times> 'k KeySelector" where
  "ks_removeKey k s =
     (map_of (keysMap s) k \<noteq> None,
      s\<lparr>usageCounts := (usageCounts s)(k := None), keysMap := AList.delete k (keysMap s)\<rparr>)"

definition ks_setKeys :: "('k SelectableKey_scheme) list \<Rightarrow> ('k SelectableKey_scheme) KeySelector \<Rightarrow>
    ('k SelectableKey_scheme) KeySelector" where
  "ks_setKeys keys s = ks_addKeys keys (s\<lparr>keysMap := []\<rparr>)"

definition ks_getKeys :: "string option \<Rightarrow> ('k SelectableKey_scheme) KeySelector \<Rightarrow>
    ('k SelectableKey_scheme) list" where
  "ks_getKeys prov s =
     (let everything = map snd (keysMap s) in
      case prov of
        None \<Rightarrow> everything
      | Some p \<Rightarrow>
          if p = [] \<or> p = ''*'' then everything
          else filter (\<lambda>k. normalizeProvider (provider k) = normalizeProvider p) everything)"

definition ks_getKeyById :: "key_id \<Rightarrow> 'k KeySelector \<Rightarrow> 'k option" where
  "ks_getKeyById k s = map_of (keysMap s) k"

definition ks_hasKey :: "key_id \<Rightarrow> 'k KeySelector \<Rightarrow> bool" where
  "ks_hasKey k s \<longleftrightarrow> map_of (keysMap s) k \<noteq> None"

definition ks_getKeyCount :: "string option \<Rightarrow> ('k SelectableKey_scheme) KeySelector \<Rightarrow> int" where
  "ks_getKeyCount prov s = int (length (ks_getKeys prov s))"

definition ks_clearKeys :: "'k KeySelector \<Rightarrow> 'k KeySelector" where
  "ks_clearKeys s = s\<lparr>keysMap := [], usageCounts := Map.empty, roundRobinIndices := Map.empty\<rparr>"

definition ks_clearMemoryCache :: "'k KeySelector \<Rightarrow> 'k KeySelector" where
  "ks_clearMemoryCache s = s\<lparr>roundRobinIndices := Map.empty, usageCounts := Map.empty\<rparr>"

definition ks_recordUsage :: "key_id \<Rightarrow> 'k KeySelector \<Rightarrow> 'k KeySelector" where
  "ks_recordUsage k s = s\<lparr>usageCounts := (usageCounts s)(k \<mapsto> first_some (usageCounts s k) 0 + 1)\<rparr>"

definition ks_getUsageCount :: "key_id \<Rightarrow> 'k KeySelector \<Rightarrow> int" where
  "ks_getUsageCount k s = first_some (usageCounts s k) 0"

definition ks_resetUsage :: "'k KeySelector \<Rightarrow> 'k KeySelector" where
  "ks_resetUsage s = s\<lparr>usageCounts := Map.empty\<rparr>"

text \<open>Running a triage on the selector's own collaborators.\<close>

definition with_gates :: "(gates \<Rightarrow> 'r \<times> gates) \<Rightarrow> 'k KeySelector \<Rightarrow> 'r \<times> 'k KeySelector" where
  "with_gates f s =
     (let (r, g) = f (circuitBreaker s, rateLimiter s)
      in (r, s\<lparr>circuitBreaker := fst g, rateLimiter := snd g\<rparr>))"

definition ks_triageKeys ::
  "timestamp \<Rightarrow> string option \<Rightarrow> int option \<Rightarrow> ('k SelectableKey_scheme) list option \<Rightarrow>
   ('k SelectableKey_scheme) KeySelector \<Rightarrow>
   (rl_error + ('k SelectableKey_scheme) KeyTriageResult) \<times> ('k SelectableKey_scheme) KeySelector" where
  "ks_triageKeys now prov cost cands s =
     with_gates (triageKeysAsync now prov (first_some cost 0) (first_some cands (ks_getKeys prov s))) s"

definition ks_triageKeysSync ::
  "timestamp \<Rightarrow> string option \<Rightarrow> int option \<Rightarrow> ('k SelectableKey_scheme) list option \<Rightarrow>
   ('k SelectableKey_scheme) KeySelector \<Rightarrow>
   (rl_error + ('k SelectableKey_scheme) KeyTriageResult) \<times> ('k SelectableKey_scheme) KeySelector" where
  "ks_triageKeysSync now prov cost cands s =
     with_gates (triageKeysSync now prov (first_some cost 0) (first_some cands (ks_getKeys prov s))) s"

definition ks_filterHealthyKeys ::
  "timestamp \<Rightarrow> string option \<Rightarrow> int option \<Rightarrow> ('k SelectableKey_scheme) list option \<Rightarrow>
   ('k SelectableKey_scheme) KeySelector \<Rightarrow>
   (rl_error + ('k SelectableKey_scheme) list) \<times> ('k SelectableKey_scheme) KeySelector" where
  "ks_filterHealthyKeys now prov cost cands s =
     (let (r, s1) = ks_triageKeys now prov cost cands s in (map_sum id healthyKeys r, s1))"

definition ks_filterHealthyKeysSync ::
  "timestamp \<Rightarrow> string option \<Rightarrow> int option \<Rightarrow> ('k SelectableKey_scheme) list option \<Rightarrow>
   ('k SelectableKey_scheme) KeySelector \<Rightarrow>
   (rl_error + ('k SelectableKey_scheme) list) \<times> ('k SelectableKey_scheme) KeySelector" where
  "ks_filterHealthyKeysSync now prov cost cands s =
     (let (r, s1) = ks_triageKeysSync now prov cost cands s in (map_sum id healthyKeys r, s1))"

section \<open>The round-robin pointer, in memory and in storage\<close>

definition ks_rrKey :: "'k KeySelector \<Rightarrow> string \<Rightarrow> string" where
  "ks_rrKey s p = ksPrefix s @ ''rr:'' @ p"

definition ks_getOrLoadRoundRobinIndex :: "string \<Rightarrow> 'k KeySelector \<Rightarrow> int \<times> 'k KeySelector" where
  "ks_getOrLoadRoundRobinIndex prov s =
     (let norm = normalizeProvider prov in
      case roundRobinIndices s norm of
        Some i \<Rightarrow> (i, s)
      | None \<Rightarrow>
          (case ksStorage s of
             None \<Rightarrow> (0, s)
           | Some st \<Rightarrow>
               (let i = (case st (ks_rrKey s norm) of Some (JNum n) \<Rightarrow> if n \<ge> 0 then n else 0 | _ \<Rightarrow> 0)
                in (i, s\<lparr>roundRobinIndices := (roundRobinIndices s)(norm \<mapsto> i)\<rparr>))))"

definition ks_persistRoundRobinIndex :: "string \<Rightarrow> int \<Rightarrow> 'k KeySelector \<Rightarrow> 'k KeySelector" where
  "ks_persistRoundRobinIndex prov i s =
     (let norm = normalizeProvider prov in
      s\<lparr>roundRobinIndices := (roundRobinIndices s)(norm \<mapsto> i),
        ksStorage := map_option (\<lambda>st. st(ks_rrKey s norm \<mapsto> JNum i)) (ksStorage s)\<rparr>)"

definition ks_getRoundRobinIndexSync :: "string \<Rightarrow> 'k KeySelector \<Rightarrow> int" where
  "ks_getRoundRobinIndexSync prov s = first_some (roundRobinIndices s (normalizeProvider prov)) 0"

definition ks_setRoundRobinIndexSync :: "string \<Rightarrow> int \<Rightarrow> 'k KeySelector \<Rightarrow> 'k KeySelector" where
  "ks_setRoundRobinIndexSync prov i s =
     s\<lparr>roundRobinIndices := (roundRobinIndices s)(normalizeProvider prov \<mapsto> i)\<rparr>"

section \<open>Strategies (strategies.ts)\<close>

text \<open>
  A strategy reads \<open>healthyKeys\<close> by index; reading out of range gives \<open>undefined\<close>,
  here \<open>None\<close>. Its context holds closures over the selector, here the selector itself.
\<close>

definition selectRoundRobin ::
  "string \<Rightarrow> 'k list \<Rightarrow> 'k KeySelector \<Rightarrow> 'k option \<times> 'k KeySelector" where
  "selectRoundRobin prov healthy s =
     (let (i, s1) = ks_getOrLoadRoundRobinIndex prov s;
          selected = js_index healthy (js_rem i (int (length healthy)))
      in (selected, ks_persistRoundRobinIndex prov (js_rem (i + 1) 1000000) s1))"

definition selectRoundRobinSync ::
  "string \<Rightarrow> 'k list \<Rightarrow> 'k KeySelector \<Rightarrow> 'k option \<times> 'k KeySelector" where
  "selectRoundRobinSync prov healthy s =
     (let i = ks_getRoundRobinIndexSync prov s;
          selected = js_index healthy (js_rem i (int (length healthy)))
      in (selected, ks_setRoundRobinIndexSync prov (js_rem (i + 1) 1000000) s))"

text \<open>The scan of least-used: \<open>minLoad\<close> starts at \<open>Infinity\<close>, here \<open>None\<close>.\<close>

fun least_used_scan ::
  "('k \<Rightarrow> 's \<Rightarrow> int \<times> 's) \<Rightarrow> ('k \<Rightarrow> int) \<Rightarrow> 'k list \<Rightarrow> 'k \<Rightarrow> int option \<Rightarrow> 's \<Rightarrow> 'k \<times> 's" where
  "least_used_scan load uses [] best minLoad s = (best, s)"
| "least_used_scan load uses (key # keys) best minLoad s =
     (let (l, s1) = load key s in
      case minLoad of
        None \<Rightarrow> least_used_scan load uses keys key (Some l) s1
      | Some m \<Rightarrow>
          if l < m then least_used_scan load uses keys key (Some l) s1
          else if l = m \<and> uses key < uses best then least_used_scan load uses keys key (Some m) s1
          else least_used_scan load uses keys best (Some m) s1)"

definition ks_load ::
  "timestamp \<Rightarrow> 'k SelectableKey_scheme \<Rightarrow> ('k SelectableKey_scheme) KeySelector \<Rightarrow>
   int \<times> ('k SelectableKey_scheme) KeySelector" where
  "ks_load now key s =
     (case rateLimiter s of
        Some rl \<Rightarrow> (let (l, rl') = rl_getCurrentRpm now (Some (keyId key)) rl
                    in (l, s\<lparr>rateLimiter := Some rl'\<rparr>))
      | None \<Rightarrow> (ks_getUsageCount (keyId key) s, s))"

definition ks_loadSync ::
  "timestamp \<Rightarrow> 'k SelectableKey_scheme \<Rightarrow> ('k SelectableKey_scheme) KeySelector \<Rightarrow>
   int \<times> ('k SelectableKey_scheme) KeySelector" where
  "ks_loadSync now key s =
     (case rateLimiter s of
        Some rl \<Rightarrow>
          (let (d, rl') = rl_getDataSync now (Some (keyId key)) rl
           in (case d of Some dat \<Rightarrow> sum_list (map entCount (rlEntries dat)) | None \<Rightarrow> 0,
               s\<lparr>rateLimiter := Some rl'\<rparr>))
      | None \<Rightarrow> (ks_getUsageCount (keyId key) s, s))"

definition selectLeastUsed ::
  "timestamp \<Rightarrow> ('k SelectableKey_scheme) list \<Rightarrow> ('k SelectableKey_scheme) KeySelector \<Rightarrow>
   ('k SelectableKey_scheme) option \<times> ('k SelectableKey_scheme) KeySelector" where
  "selectLeastUsed now healthy s =
     (case js_index healthy 0 of
        None \<Rightarrow> (None, s)
      | Some first \<Rightarrow>
          (let (best, s1) = least_used_scan (ks_load now) (\<lambda>k. ks_getUsageCount (keyId k) s) healthy first None s
           in (Some best, s1)))"

definition selectLeastUsedSync ::
  "timestamp \<Rightarrow> ('k SelectableKey_scheme) list \<Rightarrow> ('k SelectableKey_scheme) KeySelector \<Rightarrow>
   ('k SelectableKey_scheme) option \<times> ('k SelectableKey_scheme) KeySelector" where
  "selectLeastUsedSync now healthy s =
     (case js_index healthy 0 of
        None \<Rightarrow> (None, s)
      | Some first \<Rightarrow>
          (let (best, s1) = least_used_scan (ks_loadSync now) (\<lambda>k. ks_getUsageCount (keyId k) s) healthy first None s
           in (Some best, s1)))"

definition priority_of :: "'k SelectableKey_scheme \<Rightarrow> int" where
  "priority_of k = first_some (priority k) 0"

text \<open>\<open>maxPriority\<close> starts at \<open>-Infinity\<close>, here \<open>None\<close>.\<close>

definition max_priority :: "('k SelectableKey_scheme) list \<Rightarrow> int option" where
  "max_priority keys =
     fold (\<lambda>k m. case m of None \<Rightarrow> Some (priority_of k)
                         | Some p \<Rightarrow> if priority_of k > p then Some (priority_of k) else Some p) keys None"

datatype tie_breaker = TieRoundRobin | TieLeastUsed

definition selectPriority ::
  "timestamp \<Rightarrow> tie_breaker \<Rightarrow> string \<Rightarrow> ('k SelectableKey_scheme) list \<Rightarrow>
   ('k SelectableKey_scheme) KeySelector \<Rightarrow>
   ('k SelectableKey_scheme) option \<times> ('k SelectableKey_scheme) KeySelector" where
  "selectPriority now tie prov healthy s =
     (let top = filter (\<lambda>k. Some (priority_of k) = max_priority healthy) healthy in
      if length top = 1 then (js_index top 0, s)
      else case tie of
             TieLeastUsed \<Rightarrow> selectLeastUsed now top s
           | TieRoundRobin \<Rightarrow> selectRoundRobin prov top s)"

definition selectPrioritySync ::
  "timestamp \<Rightarrow> tie_breaker \<Rightarrow> string \<Rightarrow> ('k SelectableKey_scheme) list \<Rightarrow>
   ('k SelectableKey_scheme) KeySelector \<Rightarrow>
   ('k SelectableKey_scheme) option \<times> ('k SelectableKey_scheme) KeySelector" where
  "selectPrioritySync now tie prov healthy s =
     (let top = filter (\<lambda>k. Some (priority_of k) = max_priority healthy) healthy in
      if length top = 1 then (js_index top 0, s)
      else case tie of
             TieLeastUsed \<Rightarrow> selectLeastUsedSync now top s
           | TieRoundRobin \<Rightarrow> selectRoundRobinSync prov top s)"

text \<open>
  \<open>Math.floor(Math.random() * n)\<close>: the random number is \<open>rnd / 2 ^ 53\<close> with
  \<open>rnd < 2 ^ 53\<close> and the product is rounded to a double.
\<close>

definition random_index :: "nat \<Rightarrow> nat \<Rightarrow> int" where
  "random_index rnd n = int (round53 (rnd * n) div 2 ^ 53)"

section \<open>Selection (selector.ts)\<close>

datatype select_error =
    LimiterFailed rl_error
  | UndefinedKey
  | KeyExhaustedError string "string option" int int

text \<open>The \<open>switch\<close> of \<open>selectKey\<close> and of \<open>selectKeySync\<close>.\<close>

definition ks_dispatch ::
  "timestamp \<Rightarrow> nat \<Rightarrow> KeySelectionStrategy \<Rightarrow> string \<Rightarrow> ('k SelectableKey_scheme) list \<Rightarrow>
   ('k SelectableKey_scheme) KeySelector \<Rightarrow>
   ('k SelectableKey_scheme) option \<times> ('k SelectableKey_scheme) KeySelector" where
  "ks_dispatch now rnd strat prov healthy s =
     (case strat of
        LeastUsed \<Rightarrow> selectLeastUsed now healthy s
      | LoadBalanced \<Rightarrow> selectLeastUsed now healthy s
      | Priority \<Rightarrow> selectPriority now TieRoundRobin prov healthy s
      | Random \<Rightarrow> (js_index healthy (random_index rnd (length healthy)), s)
      | _ \<Rightarrow> selectRoundRobin prov healthy s)"

definition ks_dispatchSync ::
  "timestamp \<Rightarrow> nat \<Rightarrow> KeySelectionStrategy \<Rightarrow> string \<Rightarrow> ('k SelectableKey_scheme) list \<Rightarrow>
   ('k SelectableKey_scheme) KeySelector \<Rightarrow>
   ('k SelectableKey_scheme) option \<times> ('k SelectableKey_scheme) KeySelector" where
  "ks_dispatchSync now rnd strat prov healthy s =
     (case strat of
        LeastUsed \<Rightarrow> selectLeastUsedSync now healthy s
      | LoadBalanced \<Rightarrow> selectLeastUsedSync now healthy s
      | Priority \<Rightarrow> selectPrioritySync now TieRoundRobin prov healthy s
      | Random \<Rightarrow> (js_index healthy (random_index rnd (length healthy)), s)
      | _ \<Rightarrow> selectRoundRobinSync prov healthy s)"

text \<open>
  The body the two methods share. The stamp \<open>lastUsedAt\<close> is written to the chosen object: the
  pool's own entry, unless the caller passed the candidates. \<open>Inr None\<close> is the \<open>null\<close>
  returned when \<open>throwOnExhausted\<close> is false.
\<close>

definition ks_select_with ::
  "(string option \<Rightarrow> int option \<Rightarrow> ('k SelectableKey_scheme) list option \<Rightarrow>
    ('k SelectableKey_scheme) KeySelector \<Rightarrow>
    (rl_error + ('k SelectableKey_scheme) KeyTriageResult) \<times> ('k SelectableKey_scheme) KeySelector) \<Rightarrow>
   (KeySelectionStrategy \<Rightarrow> string \<Rightarrow> ('k SelectableKey_scheme) list \<Rightarrow>
    ('k SelectableKey_scheme) KeySelector \<Rightarrow>
    ('k SelectableKey_scheme) option \<times> ('k SelectableKey_scheme) KeySelector) \<Rightarrow>
   timestamp \<Rightarrow> string \<Rightarrow> ('k SelectableKey_scheme) SelectKeyOptions \<Rightarrow>
   ('k SelectableKey_scheme) KeySelector \<Rightarrow>
   (select_error + ('k SelectableKey_scheme) option) \<times> ('k SelectableKey_scheme) KeySelector" where
  "ks_select_with triage pick now prov opts s =
     (let cost = Some (first_some (soCost opts) 0) in
      case triage (Some prov) cost (candidateKeys opts) s of
        (Inl e, s1) \<Rightarrow> (Inl (LimiterFailed e), s1)
      | (Inr t1, s1) \<Rightarrow>
          (let fallback = (healthyKeys t1 = [] \<and> fallbackToAnyProvider opts = Some True) in
           case (if fallback then triage (Some ''*'') cost None s1 else (Inr t1, s1)) of
             (Inl e, s2) \<Rightarrow> (Inl (LimiterFailed e), s2)
           | (Inr t2, s2) \<Rightarrow>
               (let fell = (fallback \<and> healthyKeys t2 \<noteq> []);
                    t = (if fell then t2 else t1);
                    pooled = (fell \<or> candidateKeys opts = None)
                in case healthyKeys t of
                     [] \<Rightarrow>
                       (if first_some (throwOnExhausted opts) True
                        then Inl (KeyExhaustedError prov (ksTenantId s2) (totalKeys t) (minRetryAfterSeconds t))
                        else Inr None, s2)
                   | k0 # _ \<Rightarrow>
                       (case pick (first_some (strategy opts) (defaultStrategy s2)) (provider k0)
                               (healthyKeys t) s2 of
                          (None, s3) \<Rightarrow> (Inl UndefinedKey, s3)
                        | (Some key, s3) \<Rightarrow>
                            (let key' = key\<lparr>lastUsedAt := Some (Some now)\<rparr>;
                                 s4 = ks_recordUsage (keyId key) s3
                             in (Inr (Some key'),
                                 if pooled then s4\<lparr>keysMap := AList.update (keyId key) key' (keysMap s4)\<rparr>
                                 else s4))))))"

definition ks_selectKey ::
  "timestamp \<Rightarrow> nat \<Rightarrow> string \<Rightarrow> ('k SelectableKey_scheme) SelectKeyOptions \<Rightarrow>
   ('k SelectableKey_scheme) KeySelector \<Rightarrow>
   (select_error + ('k SelectableKey_scheme) option) \<times> ('k SelectableKey_scheme) KeySelector" where
  "ks_selectKey now rnd prov opts s =
     ks_select_with (ks_triageKeys now) (ks_dispatch now rnd) now prov opts s"

definition ks_selectKeySync ::
  "timestamp \<Rightarrow> nat \<Rightarrow> string \<Rightarrow> ('k SelectableKey_scheme) SelectKeyOptions \<Rightarrow>
   ('k SelectableKey_scheme) KeySelector \<Rightarrow>
   (select_error + ('k SelectableKey_scheme) option) \<times> ('k SelectableKey_scheme) KeySelector" where
  "ks_selectKeySync now rnd prov opts s =
     ks_select_with (ks_triageKeysSync now) (ks_dispatchSync now rnd) now prov opts s"

section \<open>Metrics (selector.ts)\<close>

record KeyMetrics =
  kmRpm :: int
  circuitBreakerTripped :: bool
  costAccumulatedMicrodollars :: int

definition ks_getKeyMetrics ::
  "timestamp \<Rightarrow> key_id \<Rightarrow> 'k KeySelector \<Rightarrow> (rl_error + KeyMetrics) \<times> 'k KeySelector" where
  "ks_getKeyMetrics now k s =
     (let (rpm, rl1) = (case rateLimiter s of
                          Some rl \<Rightarrow> (let (n, rl') = rl_getCurrentRpm now (Some k) rl in (n, Some rl'))
                        | None \<Rightarrow> (0, None));
          (tripped, cb1) = (case circuitBreaker s of
                              Some cb \<Rightarrow> (let (st, cb') = cb_getState now (Some k) cb in (st = OPEN, Some cb'))
                            | None \<Rightarrow> (False, None));
          (cost, rl2) = (case rl1 of
                           Some rl \<Rightarrow> (let (c, rl') = rl_getAccumulatedCost now (Some k) rl in (c, Some rl'))
                         | None \<Rightarrow> (Inr 0, None))
      in (map_sum id (\<lambda>c. \<lparr>kmRpm = rpm, circuitBreakerTripped = tripped,
                           costAccumulatedMicrodollars = c\<rparr>) cost,
          s\<lparr>circuitBreaker := cb1, rateLimiter := rl2\<rparr>))"

fun capacity_loop ::
  "timestamp \<Rightarrow> ('k SelectableKey_scheme) list \<Rightarrow> int \<Rightarrow> int \<Rightarrow> RateLimiter option \<Rightarrow>
   (int \<times> int) \<times> RateLimiter option" where
  "capacity_loop now [] limit cur rlo = ((limit, cur), rlo)"
| "capacity_loop now (key # keys) limit cur rlo =
     (let limit' = limit + first_some (keyRpmLimit key) DEFAULT_RPM_LIMIT in
      case rlo of
        None \<Rightarrow> capacity_loop now keys limit' cur None
      | Some rl \<Rightarrow> (let (n, rl') = rl_getCurrentRpm now (Some (keyId key)) rl
                   in capacity_loop now keys limit' (cur + n) (Some rl')))"

definition ks_getCapacitySummary ::
  "timestamp \<Rightarrow> string option \<Rightarrow> ('k SelectableKey_scheme) KeySelector \<Rightarrow>
   (rl_error + CapacitySummary) \<times> ('k SelectableKey_scheme) KeySelector" where
  "ks_getCapacitySummary now prov s =
     (let keys = ks_getKeys prov s in
      case ks_triageKeys now prov None None s of
        (Inl e, s1) \<Rightarrow> (Inl e, s1)
      | (Inr t, s1) \<Rightarrow>
          (let ((limit, cur), rl) = capacity_loop now keys 0 0 (rateLimiter s1)
           in (Inr \<lparr>csProvider = prov, csTotalKeys = int (length keys),
                    csHealthyKeys = int (length (healthyKeys t)),
                    totalRpmLimit = limit, csCurrentRpm = cur, csRemainingRpm = max 0 (limit - cur),
                    utilizationPercent =
                      (if limit > 0 then min 100 (int (js_percent (nat cur) (nat limit))) else 0)\<rparr>,
               s1\<lparr>rateLimiter := rl\<rparr>)))"

definition ks_getRoundRobinIndex :: "string \<Rightarrow> 'k KeySelector \<Rightarrow> int \<times> 'k KeySelector" where
  "ks_getRoundRobinIndex = ks_getOrLoadRoundRobinIndex"

definition ks_setRoundRobinIndex :: "string \<Rightarrow> int \<Rightarrow> 'k KeySelector \<Rightarrow> 'k KeySelector" where
  "ks_setRoundRobinIndex = ks_persistRoundRobinIndex"

end
