(* ===== verification/KeySelection.thy ===== *)
theory KeySelection
  imports KeySelector "HOL-Library.Multiset"
begin

text \<open>
  The key selector is correct: a triage gives every candidate the verdict of its own breaker and
  limiter, whatever the order of the checks; a selected key was healthy; each strategy picks what
  its name says.
\<close>

section \<open>Health checks do not disturb each other\<close>

text \<open>What the gates answer at time \<open>now\<close>: their configuration and the aged data of every key.\<close>

definition gates_view ::
  "timestamp \<Rightarrow> gates \<Rightarrow> _ option \<times> _ option" where
  "gates_view now g =
     (map_option (\<lambda>c. (cb_config c, cb_aged now c)) (fst g),
      map_option (\<lambda>l. (rl_config l, rl_aged now l)) (snd g))"

lemma cb_reads_state:
  "snd (cb_getState now k s) = snd (cb_getData now k s)"
  "snd (cb_canExecute now k s) = snd (cb_getData now k s)"
  "snd (cb_getRetryAfterSeconds now k s) = snd (cb_getData now k s)"
  "snd (cb_getCircuitOpenUntil now k s) = snd (cb_getData now k s)"
  by (simp_all add: cb_getState_def cb_canExecute_def cb_getRetryAfterSeconds_def
      cb_getCircuitOpenUntil_def Let_def case_prod_beta)

text \<open>The answers of the breaker, as functions of its aged data.\<close>

definition cb_permits :: "CircuitBreakerData \<Rightarrow> bool" where
  "cb_permits d \<longleftrightarrow> cbState d = CLOSED \<or> cbState d = HALF_OPEN"

lemma cb_reads_answer:
  "fst (cb_getState now (Some k) s) = cbState (cb_aged now s k)"
  "fst (cb_canExecute now (Some k) s) = cb_permits (cb_aged now s k)"
  "fst (cb_getRetryAfterSeconds now (Some k) s) =
     (case openedAt (cb_aged now s k) of
        Some opened \<Rightarrow> if cbState (cb_aged now s k) = OPEN
                      then (if opened + cooldownMs s - now > 0 then ceil_secs (opened + cooldownMs s - now) else 0)
                      else 0
      | None \<Rightarrow> 0)"
  "fst (cb_getCircuitOpenUntil now (Some k) s) =
     (case openedAt (cb_aged now s k) of
        Some opened \<Rightarrow> if cbState (cb_aged now s k) = OPEN then Some (opened + cooldownMs s) else None
      | None \<Rightarrow> None)"
  by (simp_all add: cb_getState_def cb_canExecute_def cb_getRetryAfterSeconds_def cb_permits_def
      cb_getCircuitOpenUntil_def Let_def case_prod_beta split: option.splits)

lemma triage_breaker_effect:
  "map_option (\<lambda>c. (cb_config c, cb_aged now c)) (snd (triage_breaker now key cbo)) =
   map_option (\<lambda>c. (cb_config c, cb_aged now c)) cbo"
  by (simp add: triage_breaker_def Let_def case_prod_beta cb_reads_state split: option.splits)

lemma triage_breaker_answer:
  "fst (triage_breaker now key (Some s)) =
     (let d = cb_aged now s (keyId key) in
      if cb_permits d then (True, 0, None, cbState d)
      else (False, fst (cb_getRetryAfterSeconds now (Some (keyId key)) s),
            map_option Some (fst (cb_getCircuitOpenUntil now (Some (keyId key)) s)), cbState d))"
  by (simp add: triage_breaker_def Let_def case_prod_beta cb_reads_state cb_reads_answer
      cong: option.case_cong if_cong)

lemma triage_limiter_effect:
  "map_option (\<lambda>l. (rl_config l, rl_aged now l)) (snd (triage_limiter now cost key rlo)) =
   map_option (\<lambda>l. (rl_config l, rl_aged now l)) rlo"
  by (simp add: triage_limiter_def Let_def case_prod_beta split: option.splits)

lemma rl_check_cong:
  "rl_config s' = rl_config s \<Longrightarrow> rl_aged now s' = rl_aged now s \<Longrightarrow>
   fst (rl_checkLimitDetailed now (Some k) cost s') = fst (rl_checkLimitDetailed now (Some k) cost s)"
  by (frule rl_configD(2), frule rl_configD(3), frule rl_configD(4), frule rl_configD(5),
      drule rl_configD(6))
    (simp add: rl_checkLimitDetailed_def Let_def case_prod_beta split: option.splits)

lemma triage_breaker_cong:
  "map_option (\<lambda>c. (cb_config c, cb_aged now c)) a = map_option (\<lambda>c. (cb_config c, cb_aged now c)) b \<Longrightarrow>
   fst (triage_breaker now key a) = fst (triage_breaker now key b)"
proof (cases a; cases b)
  fix c c' assume eq: "a = Some c" "b = Some c'"
    "map_option (\<lambda>c. (cb_config c, cb_aged now c)) a = map_option (\<lambda>c. (cb_config c, cb_aged now c)) b"
  then have "cb_config c = cb_config c'" "cb_aged now c = cb_aged now c'" by auto
  from cb_configD(3) [OF this(1)] this(2) show ?thesis
    unfolding eq by (simp add: triage_breaker_answer cb_reads_answer Let_def
        cong: option.case_cong if_cong)
qed auto

lemma triage_limiter_cong:
  "map_option (\<lambda>l. (rl_config l, rl_aged now l)) a = map_option (\<lambda>l. (rl_config l, rl_aged now l)) b \<Longrightarrow>
   fst (triage_limiter now cost key a) = fst (triage_limiter now cost key b)"
proof (cases a; cases b)
  fix l l' assume eq: "a = Some l" "b = Some l'"
    "map_option (\<lambda>l. (rl_config l, rl_aged now l)) a = map_option (\<lambda>l. (rl_config l, rl_aged now l)) b"
  then have "fst (rl_checkLimitDetailed now (Some (keyId key)) cost l) =
             fst (rl_checkLimitDetailed now (Some (keyId key)) cost l')"
    by (intro rl_check_cong) auto
  with eq show ?thesis by (simp add: triage_limiter_def Let_def case_prod_beta)
qed auto

lemma triage_key_view: "gates_view now (snd (triage_key now cost key g)) = gates_view now g"
  by (simp add: triage_key_def Let_def case_prod_beta gates_view_def triage_breaker_effect
      triage_limiter_effect)

lemma triage_key_cong:
  assumes "gates_view now g = gates_view now g'"
  shows "fst (triage_key now cost key g) = fst (triage_key now cost key g')"
proof -
  from assms have "fst (triage_breaker now key (fst g)) = fst (triage_breaker now key (fst g'))"
    "fst (triage_limiter now cost key (snd g)) = fst (triage_limiter now cost key (snd g'))"
    by (auto simp: gates_view_def intro: triage_breaker_cong triage_limiter_cong)
  then show ?thesis by (simp add: triage_key_def Let_def case_prod_beta)
qed

interpretation gate_probe: stable_probe "triage_key now cost"
  by unfold_locales (rule triage_key_cong, rule triage_key_view)

section \<open>The loop\<close>

definition verdict_of :: "('k \<Rightarrow> gates \<Rightarrow> (rl_error + 'k verdict) \<times> gates) \<Rightarrow> gates \<Rightarrow> 'k \<Rightarrow> 'k verdict" where
  "verdict_of body g key = projr (fst (body key g))"

lemma triage_loop_threads:
  assumes stable: "stable_probe body"
    and ok: "\<forall>k\<in>set keys. \<not> isl (fst (body k g))"
  shows "triage_loop body keys a g =
           (Inr (fold (\<lambda>k. triage_push k (verdict_of body g k)) keys a), snd (thread_map body keys g))"
  using ok
proof (induction keys arbitrary: a g)
  case (Cons k keys)
  obtain r g1 where r: "body k g = (r, g1)" by (cases "body k g")
  with Cons.prems obtain v where v: "r = Inr v" by (cases r) auto
  have keep: "fst (body k' g1) = fst (body k' g)" for k'
    using stable_probe.probe_stable [OF stable, of k' k g] r by simp
  then have vs: "verdict_of body g1 = verdict_of body g"
    by (simp add: verdict_of_def fun_eq_iff)
  from Cons.prems have "\<forall>k'\<in>set keys. \<not> isl (fst (body k' g1))" by (simp add: keep)
  from Cons.IH [OF this, of "triage_push k v a"] vs r v show ?case
    by (simp add: verdict_of_def Let_def case_prod_beta)
qed simp

lemma triage_loop_fails:
  assumes stable: "stable_probe body"
    and bad: "\<exists>k\<in>set keys. isl (fst (body k g))"
  shows "isl (fst (triage_loop body keys a g))"
  using bad
proof (induction keys arbitrary: a g)
  case (Cons k keys)
  obtain r g1 where r: "body k g = (r, g1)" by (cases "body k g")
  have keep: "fst (body k' g1) = fst (body k' g)" for k'
    using stable_probe.probe_stable [OF stable, of k' k g] r by simp
  show ?case
  proof (cases r)
    case (Inr v)
    with Cons.prems r keep have "\<exists>k'\<in>set keys. isl (fst (body k' g1))" by auto
    from Cons.IH [OF this] show ?thesis using r Inr by simp
  qed (simp add: r)
qed simp

text \<open>What the accumulator holds after the keys \<open>done\<close>, with verdicts \<open>v\<close>.\<close>

fun verdict_about :: "'k \<Rightarrow> 'k verdict \<Rightarrow> bool" where
  "verdict_about key Healthy = True"
| "verdict_about key (StaticallyOut i) = (itKey i = key)"
| "verdict_about key (CircuitBroken d i) = (itKey i = key \<and> itRetryAfter i = Some d \<and> 0 < d)"
| "verdict_about key (Limited d i) = (itKey i = key \<and> itRetryAfter i = Some d \<and> 0 < d)"

definition triage_acc_ok :: "('k \<Rightarrow> 'k verdict) \<Rightarrow> 'k list \<Rightarrow> 'k triage_acc \<Rightarrow> bool" where
  "triage_acc_ok v seen a \<longleftrightarrow>
     accHealthy a = filter (\<lambda>k. v k = Healthy) seen \<and>
     mset (accUnhealthy a) = mset (accLimited a @ accBroken a @ accDisabled a) \<and>
     mset (accHealthy a) + mset (map itKey (accLimited a @ accBroken a @ accDisabled a)) = mset seen \<and>
     (\<forall>i\<in>set (accLimited a @ accBroken a). \<exists>d\<in>set (accDelays a). itRetryAfter i = Some d) \<and>
     (\<forall>d\<in>set (accDelays a). 0 < d)"

lemma triage_acc_ok_push:
  assumes "triage_acc_ok v seen a" "verdict_about k (v k)"
  shows "triage_acc_ok v (seen @ [k]) (triage_push k (v k) a)"
  using assms by (cases "v k") (auto simp: triage_acc_ok_def triage_push_def)

lemma triage_acc_ok_fold:
  "triage_acc_ok v seen a \<Longrightarrow> \<forall>k\<in>set keys. verdict_about k (v k) \<Longrightarrow>
   triage_acc_ok v (seen @ keys) (fold (\<lambda>k. triage_push k (v k)) keys a)"
proof (induction keys arbitrary: seen a)
  case (Cons k keys)
  then have "triage_acc_ok v (seen @ [k]) (triage_push k (v k) a)"
    by (intro triage_acc_ok_push) auto
  from Cons.IH [OF this] Cons.prems(2) show ?case by simp
qed simp

lemma triage_key_about:
  "fst (triage_key now cost k g) = Inr v \<Longrightarrow> verdict_about k v"
  by (auto simp: triage_key_def triage_item_def or_default_retry_def Let_def case_prod_beta
      DEFAULT_RETRY_AFTER_SECONDS_def split: if_splits sum.splits option.splits)

lemma fold_min_le: "fold min ds d \<le> (d :: int)" "x \<in> set ds \<Longrightarrow> fold min ds d \<le> x"
proof (induction ds arbitrary: d)
  case (Cons e ds)
  { case 1 from Cons.IH(1) [of "min e d"] show ?case by simp }
  { case 2 with Cons.IH(1) [of "min e d"] Cons.IH(2) [of "min e d"] show ?case by auto }
qed auto

lemma fold_min_in: "fold min ds d \<in> insert (d :: int) (set ds)"
proof (induction ds arbitrary: d)
  case (Cons e ds)
  from Cons.IH [of "min e d"] show ?case by (auto simp: min_def split: if_splits)
qed simp

lemma triage_delay:
  assumes "triage_acc_ok v seen a"
  shows "0 < minRetryAfterSeconds (triage_finish prov cands a)"
    and "i \<in> set (accLimited a @ accBroken a) \<Longrightarrow>
         \<exists>d. itRetryAfter i = Some d \<and> minRetryAfterSeconds (triage_finish prov cands a) \<le> d"
proof -
  show "0 < minRetryAfterSeconds (triage_finish prov cands a)"
    using assms fold_min_in by (fastforce simp: triage_acc_ok_def triage_finish_def
        DEFAULT_RETRY_AFTER_SECONDS_def split: list.splits)
  assume "i \<in> set (accLimited a @ accBroken a)"
  with assms obtain d where "d \<in> set (accDelays a)" "itRetryAfter i = Some d"
    by (auto simp: triage_acc_ok_def)
  then show "\<exists>d. itRetryAfter i = Some d \<and> minRetryAfterSeconds (triage_finish prov cands a) \<le> d"
    by (auto simp: triage_finish_def fold_min_le split: list.splits)
qed

lemma triageKeysAsync_result:
  assumes "\<forall>k\<in>set cands. \<not> isl (fst (triage_key now cost k g))"
  obtains a where
    "triageKeysAsync now prov cost cands g =
       (Inr (triage_finish prov cands a), snd (thread_map (triage_key now cost) cands g))"
    "triage_acc_ok (verdict_of (triage_key now cost) g) cands a"
proof -
  have about: "\<forall>k\<in>set cands. verdict_about k (verdict_of (triage_key now cost) g k)"
    using assms by (auto simp: verdict_of_def isl_def intro!: triage_key_about)
  have "triage_acc_ok v [] triage_start" for v :: "'a SelectableKey_scheme \<Rightarrow> _"
    by (simp add: triage_acc_ok_def triage_start_def)
  from triage_acc_ok_fold [OF this about] have
    "triage_acc_ok (verdict_of (triage_key now cost) g) cands
       (fold (\<lambda>k. triage_push k (verdict_of (triage_key now cost) g k)) cands triage_start)" by simp
  moreover have "triageKeysAsync now prov cost cands g =
      (Inr (triage_finish prov cands (fold (\<lambda>k. triage_push k (verdict_of (triage_key now cost) g k)) cands
         triage_start)), snd (thread_map (triage_key now cost) cands g))"
    using triage_loop_threads [OF gate_probe.stable_probe_axioms assms]
    by (simp add: triageKeysAsync_def)
  ultimately show thesis by (rule that [rotated])
qed

section \<open>Which keys are healthy\<close>

definition key_available :: "timestamp \<Rightarrow> int \<Rightarrow> gates \<Rightarrow> 'k SelectableKey_scheme \<Rightarrow> bool" where
  "key_available now cost g k \<longleftrightarrow>
     fst (isStatusPermitted (status k)) \<and>
     (case fst g of
        Some cb \<Rightarrow> fst (cb_canExecute now (Some (keyId k)) cb)
      | None \<Rightarrow> (case circuitOpenUntil k of Some (Some until) \<Rightarrow> until \<le> now | _ \<Rightarrow> True)) \<and>
     (case snd g of
        Some rl \<Rightarrow> (case fst (rl_checkLimitDetailed now (Some (keyId k)) cost rl) of
                      Inr r \<Rightarrow> allowed r | Inl _ \<Rightarrow> False)
      | None \<Rightarrow> True)"

lemma triage_key_healthy:
  "fst (triage_key now cost k g) = Inr Healthy \<longleftrightarrow> key_available now cost g k"
  by (cases "fst g"; cases "snd g")
    (auto simp: triage_key_def key_available_def triage_breaker_def triage_limiter_def Let_def
      case_prod_beta split: option.splits sum.splits)

lemma key_available_cong:
  "gates_view now g = gates_view now g' \<Longrightarrow> key_available now cost g k \<longleftrightarrow> key_available now cost g' k"
  unfolding triage_key_healthy [symmetric] by (simp only: triage_key_cong [of now g g'])

lemma triage_loop_view:
  "(\<And>k g. view (snd (body k g)) = view g) \<Longrightarrow> view (snd (triage_loop body keys a g)) = view g"
proof (induction keys arbitrary: a g)
  case (Cons k keys)
  obtain r g1 where r: "body k g = (r, g1)" by (cases "body k g")
  with Cons.prems [of k g] Cons.IH [of _ g1] Cons.prems show ?case by (cases r) auto
qed simp

definition ks_gates :: "'k KeySelector \<Rightarrow> gates" where
  "ks_gates s = (circuitBreaker s, rateLimiter s)"

text \<open>What a triage leaves of the selector: all but the caches of its gates.\<close>

definition ks_frame :: "timestamp \<Rightarrow> 'k KeySelector \<Rightarrow> 'k KeySelector \<Rightarrow> bool" where
  "ks_frame now s s' \<longleftrightarrow>
     s' = s\<lparr>circuitBreaker := circuitBreaker s', rateLimiter := rateLimiter s'\<rparr> \<and>
     gates_view now (ks_gates s') = gates_view now (ks_gates s)"

lemma ks_frame_refl [simp]: "ks_frame now s s"
  by (simp add: ks_frame_def)

lemma ks_frame_trans: "ks_frame now s s' \<Longrightarrow> ks_frame now s' s'' \<Longrightarrow> ks_frame now s s''"
  unfolding ks_frame_def by (cases s; cases s'; cases s'') simp

lemma ks_frameD:
  assumes "ks_frame now s s'"
  shows "keysMap s' = keysMap s" "ksTenantId s' = ksTenantId s" "defaultStrategy s' = defaultStrategy s"
    "roundRobinIndices s' = roundRobinIndices s" "usageCounts s' = usageCounts s"
    "ksStorage s' = ksStorage s" "ksPrefix s' = ksPrefix s"
  using assms unfolding ks_frame_def by (cases s; cases s'; simp)+

lemma ks_triage_frame: "ks_frame now s (snd (ks_triageKeys now prov cost cands s))"
proof -
  have "gates_view now (snd (triageKeysAsync now prov c ks g)) = gates_view now g" for c ks g
    using triage_loop_view [of "gates_view now" "triage_key now c", OF triage_key_view]
    by (simp add: triageKeysAsync_def Let_def case_prod_beta)
  then show ?thesis
    by (simp add: ks_triageKeys_def with_gates_def ks_frame_def ks_gates_def Let_def case_prod_beta)
qed

definition ks_candidates ::
  "string option \<Rightarrow> ('k SelectableKey_scheme) list option \<Rightarrow> ('k SelectableKey_scheme) KeySelector \<Rightarrow>
   ('k SelectableKey_scheme) list" where
  "ks_candidates prov cands s = first_some cands (ks_getKeys prov s)"

lemma ks_triage_Inr:
  assumes "fst (ks_triageKeys now prov cost cands s) = Inr t"
  shows "healthyKeys t =
           filter (key_available now (first_some cost 0) (ks_gates s)) (ks_candidates prov cands s)"
    and "totalKeys t = int (length (ks_candidates prov cands s))"
proof -
  let ?c = "first_some cost 0" and ?C = "ks_candidates prov cands s"
  have r: "fst (triageKeysAsync now prov ?c ?C (ks_gates s)) = Inr t"
    using assms by (simp add: ks_triageKeys_def with_gates_def ks_gates_def ks_candidates_def
        Let_def case_prod_beta)
  have ok: "\<forall>k\<in>set ?C. \<not> isl (fst (triage_key now ?c k (ks_gates s)))"
  proof (rule ccontr)
    assume "\<not> ?thesis"
    then have "isl (fst (triage_loop (triage_key now ?c) ?C triage_start (ks_gates s)))"
      by (intro triage_loop_fails [OF gate_probe.stable_probe_axioms]) auto
    with r show False
      by (auto simp: triageKeysAsync_def Let_def case_prod_beta isl_def)
  qed
  from triageKeysAsync_result [OF this] obtain a where
    "triageKeysAsync now prov ?c ?C (ks_gates s) =
       (Inr (triage_finish prov ?C a), snd (thread_map (triage_key now ?c) ?C (ks_gates s)))"
    "triage_acc_ok (verdict_of (triage_key now ?c) (ks_gates s)) ?C a" by blast
  moreover have "verdict_of (triage_key now ?c) (ks_gates s) k = Healthy \<longleftrightarrow>
      key_available now ?c (ks_gates s) k" if "k \<in> set ?C" for k
    using ok that unfolding triage_key_healthy [symmetric] verdict_of_def
    by (metis sum.collapse(2) sum.sel(2))
  ultimately show "healthyKeys t = filter (key_available now ?c (ks_gates s)) ?C"
    "totalKeys t = int (length ?C)"
    using r by (auto simp: triage_acc_ok_def triage_finish_def cong: filter_cong)
qed

section \<open>The strategies\<close>

lemma rl_getCurrentRpm_state [simp]:
  "snd (rl_getCurrentRpm now k s) = snd (rl_getData now k s)"
  by (simp add: rl_getCurrentRpm_def Let_def case_prod_beta)

lemma rl_getCurrentRpm_getData:
  "fst (rl_getCurrentRpm now (Some k) (snd (rl_getData now k' s))) = fst (rl_getCurrentRpm now (Some k) s)"
  by (simp add: rl_getCurrentRpm_def Let_def case_prod_beta)

interpretation load_probe: stable_probe "ks_load now"
  by unfold_locales
    (auto simp: ks_load_def ks_getUsageCount_def rl_getCurrentRpm_getData Let_def case_prod_beta
      split: option.splits)

definition lighter :: "('k \<Rightarrow> int) \<Rightarrow> ('k \<Rightarrow> int) \<Rightarrow> 'k \<Rightarrow> 'k \<Rightarrow> bool" where
  "lighter load uses a b \<longleftrightarrow> load a < load b \<or> (load a = load b \<and> uses a \<le> uses b)"

lemma least_used_scan_best:
  assumes "stable_probe load"
  shows "m = Some (fst (load best s)) \<Longrightarrow>
         fst (least_used_scan load uses keys best m s) \<in> insert best (set keys) \<and>
         (\<forall>k\<in>insert best (set keys).
            lighter (\<lambda>k. fst (load k s)) uses (fst (least_used_scan load uses keys best m s)) k)"
proof (induction keys arbitrary: best m s)
  case (Cons key keys)
  obtain l s1 where l: "load key s = (l, s1)" by (cases "load key s")
  have keep: "fst (load k s1) = fst (load k s)" for k
    using stable_probe.probe_stable [OF assms, of k key s] l by simp
  have ih: "fst (least_used_scan load uses keys b (Some (fst (load b s))) s1) \<in> insert b (set keys) \<and>
      (\<forall>k\<in>insert b (set keys). lighter (\<lambda>k. fst (load k s)) uses
         (fst (least_used_scan load uses keys b (Some (fst (load b s))) s1)) k)" for b
    using Cons.IH [of "Some (fst (load b s))" b s1] by (simp add: keep)
  have lk: "l = fst (load key s)" using l by simp
  show ?case
    using ih [of key] ih [of best] Cons.prems l
    by (auto simp: lk [symmetric] lighter_def)
qed (simp add: lighter_def)

lemma least_used_scan_first:
  assumes "stable_probe load" "keys \<noteq> []"
  shows "fst (least_used_scan load uses keys b None s) \<in> set keys \<and>
         (\<forall>k\<in>set keys. lighter (\<lambda>k. fst (load k s)) uses (fst (least_used_scan load uses keys b None s)) k)"
proof -
  from assms(2) obtain key ks where keys: "keys = key # ks" by (cases keys) auto
  obtain l s1 where l: "load key s = (l, s1)" by (cases "load key s")
  have "fst (load k s1) = fst (load k s)" for k
    using stable_probe.probe_stable [OF assms(1), of k key s] l by simp
  with least_used_scan_best [OF assms(1), of "Some l" key s1 uses ks] show ?thesis
    by (simp add: keys l)
qed

lemma selectLeastUsed_best:
  assumes "selectLeastUsed now healthy s = (Some k, s')"
  shows "k \<in> set healthy \<and>
         (\<forall>k'\<in>set healthy. lighter (\<lambda>k. fst (ks_load now k s)) (\<lambda>k. ks_getUsageCount (keyId k) s) k k')"
proof (cases healthy)
  case (Cons h hs)
  with least_used_scan_first [OF load_probe.stable_probe_axioms, of healthy] assms show ?thesis
    by (fastforce simp: selectLeastUsed_def Let_def case_prod_beta)
qed (use assms in \<open>simp add: selectLeastUsed_def\<close>)

lemma selectLeastUsed_some: "healthy \<noteq> [] \<Longrightarrow> fst (selectLeastUsed now healthy s) \<noteq> None"
  by (cases healthy) (auto simp: selectLeastUsed_def Let_def case_prod_beta)

lemma selectRoundRobin_in: "selectRoundRobin prov healthy s = (Some k, s') \<Longrightarrow> k \<in> set healthy"
  by (auto simp: selectRoundRobin_def Let_def case_prod_beta dest: js_index_mem)

lemma max_priority_fold:
  "fold (\<lambda>k m. case m of None \<Rightarrow> Some (priority_of k)
                       | Some p \<Rightarrow> if priority_of k > p then Some (priority_of k) else Some p) ks (Some p) =
   Some (fold max (map priority_of ks) p)"
  by (induction ks arbitrary: p) (auto simp: max_def)

lemma max_priority_Max:
  "ks \<noteq> [] \<Longrightarrow> max_priority ks = Some (Max (set (map priority_of ks)))"
proof (cases ks)
  case (Cons k ks')
  have "max_priority ks = Some (fold max (map priority_of ks') (priority_of k))"
    by (simp add: Cons max_priority_def max_priority_fold)
  also have "fold max (map priority_of ks') (priority_of k) = Max (set (priority_of k # map priority_of ks'))"
    by (rule Max.set_eq_fold [symmetric])
  finally show ?thesis by (simp add: Cons)
qed simp

lemma top_tier:
  assumes "ks \<noteq> []"
  defines "tier \<equiv> filter (\<lambda>k. Some (priority_of k) = max_priority ks) ks"
  shows "tier \<noteq> []" and "k \<in> set tier \<Longrightarrow> k \<in> set ks \<and> (\<forall>k'\<in>set ks. priority_of k' \<le> priority_of k)"
proof -
  have "Max (set (map priority_of ks)) \<in> set (map priority_of ks)"
    using assms(1) by (intro Max_in) auto
  then show "tier \<noteq> []"
    using assms(1) by (auto simp: tier_def max_priority_Max filter_empty_conv image_iff intro: bexI)
  show "k \<in> set tier \<Longrightarrow> k \<in> set ks \<and> (\<forall>k'\<in>set ks. priority_of k' \<le> priority_of k)"
    using assms(1) by (auto simp: tier_def max_priority_Max)
qed

lemma selectPriority_top:
  assumes "selectPriority now tie prov healthy s = (Some k, s')" "healthy \<noteq> []"
  shows "k \<in> set healthy \<and> (\<forall>k'\<in>set healthy. priority_of k' \<le> priority_of k)"
proof (rule top_tier(2) [OF assms(2)])
  show "k \<in> set (filter (\<lambda>k. Some (priority_of k) = max_priority healthy) healthy)"
    using assms(1) by (auto simp: selectPriority_def Let_def split: if_splits tie_breaker.splits
        dest!: js_index_mem selectRoundRobin_in selectLeastUsed_best simp del: set_filter)
qed

lemma ks_dispatch_in:
  assumes "ks_dispatch now rnd strat prov healthy s = (Some k, s')" "healthy \<noteq> []"
  shows "k \<in> set healthy"
  using assms
  by (cases strat) (auto simp: ks_dispatch_def
      dest: selectLeastUsed_best selectPriority_top selectRoundRobin_in js_index_mem)

lemma ks_dispatch_fst_in:
  "fst (ks_dispatch now rnd strat prov healthy s) = Some k \<Longrightarrow> healthy \<noteq> [] \<Longrightarrow> k \<in> set healthy"
  by (metis ks_dispatch_in prod.collapse)

section \<open>Selection\<close>

definition available_candidates ::
  "timestamp \<Rightarrow> string \<Rightarrow> ('k SelectableKey_scheme) SelectKeyOptions \<Rightarrow>
   ('k SelectableKey_scheme) KeySelector \<Rightarrow> ('k SelectableKey_scheme) list" where
  "available_candidates now prov opts s =
     (let ok = key_available now (first_some (soCost opts) 0) (ks_gates s);
          mine = filter ok (ks_candidates (Some prov) (candidateKeys opts) s)
      in if mine = [] \<and> fallbackToAnyProvider opts = Some True
         then filter ok (map snd (keysMap s)) else mine)"

lemma ks_candidates_star [simp]: "ks_candidates (Some ''*'') None s = map snd (keysMap s)"
  by (simp add: ks_candidates_def ks_getKeys_def)

text \<open>The triage part of a selection, reduced to the keys it leaves.\<close>

lemma ks_select_triaged:
  assumes "\<And>e. fst (ks_select_with (ks_triageKeys now) pick now prov opts s) \<noteq> Inl (LimiterFailed e)"
  obtains s2 n d where "ks_frame now s s2"
    "fst (ks_select_with (ks_triageKeys now) pick now prov opts s) =
       (case available_candidates now prov opts s of
          [] \<Rightarrow> if first_some (throwOnExhausted opts) True
                then Inl (KeyExhaustedError prov (ksTenantId s) n d) else Inr None
        | k0 # ks \<Rightarrow>
            (case fst (pick (first_some (strategy opts) (defaultStrategy s)) (provider k0) (k0 # ks) s2) of
               None \<Rightarrow> Inl UndefinedKey
             | Some k \<Rightarrow> Inr (Some (k\<lparr>lastUsedAt := Some (Some now)\<rparr>))))"
proof -
  let ?c = "Some (first_some (soCost opts) 0)"
  define r1 s1 where "r1 = fst (ks_triageKeys now (Some prov) ?c (candidateKeys opts) s)"
    and "s1 = snd (ks_triageKeys now (Some prov) ?c (candidateKeys opts) s)"
  have p1: "ks_triageKeys now (Some prov) ?c (candidateKeys opts) s = (r1, s1)"
    by (simp add: r1_def s1_def)
  have f1: "ks_frame now s s1" unfolding s1_def by (rule ks_triage_frame)
  from assms p1 obtain t1 where t1: "r1 = Inr t1"
    by (cases r1) (auto simp: ks_select_with_def Let_def)
  have h1: "healthyKeys t1 = filter (key_available now (first_some (soCost opts) 0) (ks_gates s))
              (ks_candidates (Some prov) (candidateKeys opts) s)"
    using ks_triage_Inr(1) [of now "Some prov" ?c "candidateKeys opts" s t1] p1 t1 by simp
  show thesis
  proof (cases "healthyKeys t1 = [] \<and> fallbackToAnyProvider opts = Some True")
    case False
    then have av: "available_candidates now prov opts s = healthyKeys t1"
      by (auto simp: available_candidates_def h1 Let_def)
    have "fst (ks_select_with (ks_triageKeys now) pick now prov opts s) =
      (case available_candidates now prov opts s of
          [] \<Rightarrow> if first_some (throwOnExhausted opts) True
                then Inl (KeyExhaustedError prov (ksTenantId s) (totalKeys t1) (minRetryAfterSeconds t1))
                else Inr None
        | k0 # ks \<Rightarrow>
            (case fst (pick (first_some (strategy opts) (defaultStrategy s)) (provider k0) (k0 # ks) s1) of
               None \<Rightarrow> Inl UndefinedKey
             | Some k \<Rightarrow> Inr (Some (k\<lparr>lastUsedAt := Some (Some now)\<rparr>))))"
      unfolding ks_select_with_def av using False
      by (auto simp: p1 t1 Let_def ks_frameD [OF f1] split: list.splits prod.splits option.splits)
    with f1 show thesis by (intro that) auto
  next
    case True
    define r2 s2 where "r2 = fst (ks_triageKeys now (Some ''*'') ?c None s1)"
      and "s2 = snd (ks_triageKeys now (Some ''*'') ?c None s1)"
    have p2: "ks_triageKeys now (Some ''*'') ?c None s1 = (r2, s2)"
      by (simp add: r2_def s2_def)
    have f2: "ks_frame now s s2"
      unfolding s2_def by (rule ks_frame_trans [OF f1 ks_triage_frame])
    from assms p1 p2 t1 True obtain t2 where t2: "r2 = Inr t2"
      by (cases r2) (auto simp: ks_select_with_def Let_def)
    have "gates_view now (ks_gates s1) = gates_view now (ks_gates s)"
      using f1 by (simp add: ks_frame_def)
    then have "healthyKeys t2 = filter (key_available now (first_some (soCost opts) 0) (ks_gates s))
                 (map snd (keysMap s))"
      using ks_triage_Inr(1) [of now "Some ''*''" ?c None s1 t2] p2 t2
      by (simp add: ks_frameD [OF f1] key_available_cong [of now "ks_gates s1" "ks_gates s"] cong: filter_cong)
    with True have av: "available_candidates now prov opts s = healthyKeys t2"
      by (simp add: available_candidates_def h1 [symmetric] Let_def)
    define n d where "n = totalKeys t1" and "d = minRetryAfterSeconds t1"
    have "fst (ks_select_with (ks_triageKeys now) pick now prov opts s) =
      (case available_candidates now prov opts s of
          [] \<Rightarrow> if first_some (throwOnExhausted opts) True
                then Inl (KeyExhaustedError prov (ksTenantId s) n d) else Inr None
        | k0 # ks \<Rightarrow>
            (case fst (pick (first_some (strategy opts) (defaultStrategy s)) (provider k0) (k0 # ks) s2) of
               None \<Rightarrow> Inl UndefinedKey
             | Some k \<Rightarrow> Inr (Some (k\<lparr>lastUsedAt := Some (Some now)\<rparr>))))"
      unfolding ks_select_with_def av using True
      by (auto simp: p1 t1 p2 t2 n_def d_def Let_def ks_frameD [OF f2]
          split: list.splits prod.splits option.splits)
    with f2 show thesis by (intro that) auto
  qed
qed

text \<open>The random index is in range: the product never rounds up to \<open>n\<close>.\<close>

lemma random_index_range:
  assumes "rnd < 2 ^ 53" "0 < n"
  shows "0 \<le> random_index rnd n \<and> random_index rnd n < int n"
proof -
  define m where "m = rnd * n"
  have "rnd \<le> 2 ^ 53 - 1" using assms(1) by simp
  then have "m \<le> (2 ^ 53 - 1) * n" unfolding m_def by (rule mult_le_mono1)
  then have m: "m + n \<le> 2 ^ 53 * n" by simp
  have "round53 m < 2 ^ 53 * n"
  proof (cases "bitlen m \<le> 53")
    case True
    with m assms(2) show ?thesis by (simp add: round53_def)
  next
    case False
    define u where "u = (2 :: nat) ^ (bitlen m - 53)"
    have "0 < m" using False by (auto intro: gr0I)
    then have "2 ^ (bitlen m - 1) \<le> m" using bitlen_bounds [of m] by simp
    moreover obtain j where j: "bitlen m = j + 54" using False by (metis add.commute le_add_diff_inverse not_less_eq_eq numeral_eq_Suc pred_numeral_simps(2) semiring_norm(26) semiring_norm(27) semiring_norm(28))
    ultimately have "2 ^ 53 * 2 ^ j \<le> m" by (simp add: power_add)
    with m assms(2) have "(2 :: nat) ^ 53 * 2 ^ j < 2 ^ 53 * n" by linarith
    then have "2 ^ j < n" by simp
    then have u: "u < 2 * n" by (simp add: u_def j)
    have "2 * round53 m \<le> 2 * m + u"
    proof -
      define q r where "q = m div u" and "r = m mod u"
      have "m = q * u + r" by (simp add: q_def r_def)
      moreover have "round53 m = (if u < 2 * r \<or> (2 * r = u \<and> odd q) then q + 1 else q) * u"
        using False by (simp add: round53_def Let_def u_def q_def r_def)
      ultimately show ?thesis by (auto simp: algebra_simps)
    qed
    with u m show ?thesis by linarith
  qed
  then have "round53 m div 2 ^ 53 < n" by (simp add: div_less_iff_less_mult mult.commute)
  then show ?thesis by (simp add: random_index_def m_def)
qed

lemma random_index_some:
  "rnd < 2 ^ 53 \<Longrightarrow> healthy \<noteq> [] \<Longrightarrow> js_index healthy (random_index rnd (length healthy)) \<noteq> None"
  using random_index_range [of rnd "length healthy"] by (auto simp: js_index_def)

definition ks_rr_ok :: "'k KeySelector \<Rightarrow> bool" where
  "ks_rr_ok s \<longleftrightarrow> (\<forall>p i. roundRobinIndices s p = Some i \<longrightarrow> 0 \<le> i)"

lemma ks_rr_ok_load: "ks_rr_ok s \<Longrightarrow> 0 \<le> fst (ks_getOrLoadRoundRobinIndex prov s)"
  by (auto simp: ks_rr_ok_def ks_getOrLoadRoundRobinIndex_def Let_def split: option.splits js.splits)

lemma selectRoundRobin_some:
  assumes "ks_rr_ok s" "healthy \<noteq> []"
  shows "fst (selectRoundRobin prov healthy s) \<noteq> None"
  using ks_rr_ok_load [OF assms(1), of prov] assms(2)
  by (simp add: selectRoundRobin_def Let_def case_prod_beta js_rem_nonneg js_index_def)

lemma selectPriority_some:
  assumes "ks_rr_ok s" "healthy \<noteq> []"
  shows "fst (selectPriority now tie prov healthy s) \<noteq> None"
proof -
  define tier where "tier = filter (\<lambda>k. Some (priority_of k) = max_priority healthy) healthy"
  have "tier \<noteq> []" unfolding tier_def by (rule top_tier(1) [OF assms(2)])
  then have "length tier = 1 \<Longrightarrow> js_index tier 0 \<noteq> None" by (cases tier) auto
  moreover have "selectPriority now tie prov healthy s =
      (if length tier = 1 then (js_index tier 0, s)
       else case tie of TieLeastUsed \<Rightarrow> selectLeastUsed now tier s
            | TieRoundRobin \<Rightarrow> selectRoundRobin prov tier s)"
    by (simp add: selectPriority_def tier_def [symmetric] Let_def)
  ultimately show ?thesis
    using selectLeastUsed_some [OF \<open>tier \<noteq> []\<close>] selectRoundRobin_some [OF assms(1) \<open>tier \<noteq> []\<close>]
    by (auto split: tie_breaker.splits)
qed

lemma ks_dispatch_some:
  assumes "ks_rr_ok s" "healthy \<noteq> []" "rnd < 2 ^ 53"
  shows "fst (ks_dispatch now rnd strat prov healthy s) \<noteq> None"
  using selectRoundRobin_some [OF assms(1,2)] selectPriority_some [OF assms(1,2)]
    selectLeastUsed_some [OF assms(2)] random_index_some [OF assms(3,2)]
  by (cases strat) (simp_all add: ks_dispatch_def)

lemma ks_rr_ok_frame: "ks_frame now s s' \<Longrightarrow> ks_rr_ok s \<Longrightarrow> ks_rr_ok s'"
  by (simp add: ks_rr_ok_def ks_frameD(4) [of now s s'])

section \<open>Round robin over time\<close>

text \<open>Consecutive picks; a \<open>True\<close> is an eviction before the pick.\<close>

fun rr_picks :: "string \<Rightarrow> 'k list \<Rightarrow> bool list \<Rightarrow> 'k KeySelector \<Rightarrow> 'k option list" where
  "rr_picks prov healthy [] s = []"
| "rr_picks prov healthy (evict # evs) s =
     (let (k, s1) = selectRoundRobin prov healthy (if evict then ks_clearMemoryCache s else s)
      in k # rr_picks prov healthy evs s1)"

definition rr_at :: "string \<Rightarrow> int \<Rightarrow> 'k KeySelector \<Rightarrow> bool" where
  "rr_at prov i s \<longleftrightarrow>
     0 \<le> i \<and> (\<exists>st. ksStorage s = Some st \<and> st (ks_rrKey s (normalizeProvider prov)) = Some (JNum i)) \<and>
     (case roundRobinIndices s (normalizeProvider prov) of None \<Rightarrow> True | Some j \<Rightarrow> j = i)"

lemma rr_at_evict: "rr_at prov i s \<Longrightarrow> rr_at prov i (ks_clearMemoryCache s)"
  by (auto simp: rr_at_def ks_clearMemoryCache_def ks_rrKey_def)

lemma rr_at_select:
  assumes "rr_at prov i s" "i + 1 < 1000000" "healthy \<noteq> []"
  shows "fst (selectRoundRobin prov healthy s) = Some (healthy ! (nat i mod length healthy)) \<and>
         rr_at prov (i + 1) (snd (selectRoundRobin prov healthy s))"
proof -
  obtain s1 where "ks_getOrLoadRoundRobinIndex prov s = (i, s1)" "ksStorage s1 = ksStorage s"
    "ksPrefix s1 = ksPrefix s"
    using assms(1) by (auto simp: rr_at_def ks_getOrLoadRoundRobinIndex_def Let_def split: option.splits)
  moreover have "nat (i mod int (length healthy)) = nat i mod length healthy"
    using assms(1) by (simp add: rr_at_def nat_mod_distrib)
  ultimately show ?thesis
    using assms by (auto simp: selectRoundRobin_def Let_def js_rem_nonneg rr_at_def js_index_def
        ks_persistRoundRobinIndex_def ks_rrKey_def)
qed

lemma rr_picks_nth:
  "rr_at prov i s \<Longrightarrow> i + int (length evs) < 1000000 \<Longrightarrow> healthy \<noteq> [] \<Longrightarrow>
   rr_picks prov healthy evs s =
     map (\<lambda>j. Some (healthy ! ((nat i + j) mod length healthy))) [0..<length evs]"
proof (induction evs arbitrary: i s)
  case (Cons e evs)
  let ?s = "if e then ks_clearMemoryCache s else s"
  have "rr_at prov i ?s" using Cons.prems(1) by (simp add: rr_at_evict)
  from rr_at_select [OF this _ Cons.prems(3)] Cons.prems(2)
  have sel: "fst (selectRoundRobin prov healthy ?s) = Some (healthy ! (nat i mod length healthy))"
    "rr_at prov (i + 1) (snd (selectRoundRobin prov healthy ?s))" by auto
  have "nat (i + 1) = Suc (nat i)" using Cons.prems(1) by (auto simp: rr_at_def)
  with Cons.IH [OF sel(2)] Cons.prems sel(1) show ?case
    by (simp add: Let_def case_prod_beta upt_conv_Cons map_Suc_upt [symmetric] del: upt_Suc)
qed simp

lemma cyclic_block:
  "xs \<noteq> [] \<Longrightarrow> mset (map (\<lambda>j. f (xs ! ((i + j) mod length xs))) [0..<length xs]) = mset (map f xs)"
proof -
  have "map (\<lambda>j. f (xs ! ((i + j) mod length xs))) [0..<length xs] = map f (rotate i xs)"
    by (rule nth_equalityI) (auto simp: nth_rotate)
  moreover have "mset (rotate i xs) = mset xs"
    by (metis append_take_drop_id mset_append rotate_drop_take union_commute)
  ultimately show ?thesis by (simp only: mset_map)
qed

lemma cyclic_mset:
  assumes "xs \<noteq> []"
  shows "mset (map (\<lambda>j. f (xs ! ((i + j) mod length xs))) [0..<c * length xs]) =
         repeat_mset c (mset (map f xs))"
proof (induction c)
  case (Suc c)
  let ?g = "\<lambda>j. f (xs ! ((i + j) mod length xs))"
  have "[0..<Suc c * length xs] = [0..<c * length xs] @ [c * length xs..<c * length xs + length xs]"
    by (metis add.commute add_leD1 le_add1 mult_Suc upt_add_eq_append zero_le)
  moreover have "map ?g [c * length xs..<c * length xs + length xs] = map ?g [0..<length xs]"
    by (rule nth_equalityI) (auto simp: ac_simps, metis mod_mult_self4 add.assoc add.commute mult.commute)
  ultimately show ?case
    using Suc cyclic_block [OF assms, of f i] by (simp add: add.commute)
qed simp

section \<open>Properties\<close>

text \<open>
  \<open>triageKeysAsync\<close> classifies every candidate exactly once, by its own verdict on the state the
  triage starts from (the checks of the other candidates do not change it): the healthy list is the
  candidates whose check passes, in order; every other candidate is in exactly one of the limited,
  circuit-broken and disabled lists and all of those make up the unhealthy list; the advertised
  delay is positive and no longer than that of any limited or circuit-broken key.
\<close>

theorem triage_classifies:
  assumes "\<forall>k\<in>set cands. \<not> isl (fst (triage_key now cost k g))"
  shows "\<exists>r. fst (triageKeysAsync now prov cost cands g) = Inr r \<and>
    totalKeys r = int (length cands) \<and>
    healthyKeys r = filter (key_available now cost g) cands \<and>
    mset (healthyKeys r) + mset (map itKey (rateLimitedKeys r @ circuitBrokenKeys r @ disabledKeys r)) =
      mset cands \<and>
    mset (unhealthyKeys r) = mset (rateLimitedKeys r @ circuitBrokenKeys r @ disabledKeys r) \<and>
    0 < minRetryAfterSeconds r \<and>
    (\<forall>i\<in>set (rateLimitedKeys r @ circuitBrokenKeys r).
       \<exists>d. itRetryAfter i = Some d \<and> minRetryAfterSeconds r \<le> d)"
proof -
  from triageKeysAsync_result [OF assms] obtain a where
    a: "triageKeysAsync now prov cost cands g =
       (Inr (triage_finish prov cands a), snd (thread_map (triage_key now cost) cands g))"
    and ok: "triage_acc_ok (verdict_of (triage_key now cost) g) cands a" by blast
  have "verdict_of (triage_key now cost) g k = Healthy \<longleftrightarrow> key_available now cost g k"
    if "k \<in> set cands" for k
    using assms that unfolding triage_key_healthy [symmetric] verdict_of_def
    by (metis sum.collapse(2) sum.sel(2))
  then have "accHealthy a = filter (key_available now cost g) cands"
    using ok by (simp add: triage_acc_ok_def cong: filter_cong)
  moreover have "mset (accHealthy a) + mset (map itKey (accLimited a @ accBroken a @ accDisabled a)) = mset cands"
    "mset (accUnhealthy a) = mset (accLimited a @ accBroken a @ accDisabled a)"
    using ok unfolding triage_acc_ok_def by blast+
  ultimately show ?thesis
    using a triage_delay(1) [OF ok, of prov cands] triage_delay(2) [OF ok, of _ prov cands]
    by (intro exI [of _ "triage_finish prov cands a"]) (simp add: triage_finish_def)
qed

definition ks_key :: "string \<Rightarrow> int \<Rightarrow> string option \<Rightarrow> SelectableKey" where
  "ks_key i p st = \<lparr>keyId = i, provider = ''openai'', keyTenantId = None, keyLabel = None,
     priority = Some p, status = st, keyRpmLimit = None, keyRpdLimit = None,
     circuitOpenUntil = None, lastUsedAt = None\<rparr>"

lemma ks_key_fields [simp]:
  "keyId (ks_key i p st) = i" "provider (ks_key i p st) = ''openai''" "status (ks_key i p st) = st"
  "circuitOpenUntil (ks_key i p st) = None" "priority (ks_key i p st) = Some p"
  by (simp_all add: ks_key_def)

lemma lower_disabled [simp]: "js_lower ''disabled'' = ''disabled''"
  by code_simp

theorem triage_classifies_witness:
  "\<exists>r. fst (triageKeysAsync 0 None 0 [ks_key ''a'' 1 None, ks_key ''b'' 2 (Some ''disabled'')] (None, None)) =
     Inr r \<and> totalKeys r = 2 \<and> healthyKeys r = [ks_key ''a'' 1 None] \<and> 0 < minRetryAfterSeconds r"
proof -
  have ok: "\<forall>k\<in>set [ks_key ''a'' 1 None, ks_key ''b'' 2 (Some ''disabled'')].
      \<not> isl (fst (triage_key 0 0 k (None, None)))"
    by (simp add: triage_key_def isStatusPermitted_def triage_breaker_def triage_limiter_def Let_def
        case_prod_beta)
  have av: "key_available 0 0 (None, None) (ks_key ''a'' 1 None)"
    "\<not> key_available 0 0 (None, None) (ks_key ''b'' 2 (Some ''disabled''))"
    by (simp_all add: key_available_def triage_key_def isStatusPermitted_def triage_breaker_def
        triage_limiter_def Let_def case_prod_beta)
  from triage_classifies [OF ok, of None] av show ?thesis by auto
qed

text \<open>
  C20. A key that \<open>selectKey\<close> returns is an entry of the pool for that provider (or one of the
  candidates the caller passed, or of any provider when the fallback is on and the provider has no
  healthy key), unchanged but for its \<open>lastUsedAt\<close>; its status permits it, its breaker would let
  it execute and its limiter allows the request, all in the state before the call.
\<close>

theorem selected_key_is_healthy:
  assumes "fst (ks_selectKey now rnd prov opts s) = Inr (Some k)"
  shows "\<exists>k0. k = k0\<lparr>lastUsedAt := Some (Some now)\<rparr> \<and>
    key_available now (first_some (soCost opts) 0) (ks_gates s) k0 \<and>
    (k0 \<in> set (ks_candidates (Some prov) (candidateKeys opts) s) \<or>
     (fallbackToAnyProvider opts = Some True \<and> k0 \<in> set (map snd (keysMap s)) \<and>
      (\<forall>k\<in>set (ks_candidates (Some prov) (candidateKeys opts) s).
         \<not> key_available now (first_some (soCost opts) 0) (ks_gates s) k)))"
proof -
  let ?pick = "ks_dispatch now rnd" and ?av = "available_candidates now prov opts s"
  have res: "fst (ks_select_with (ks_triageKeys now) ?pick now prov opts s) = Inr (Some k)"
    using assms by (simp add: ks_selectKey_def)
  obtain s2 n d where
    "fst (ks_select_with (ks_triageKeys now) ?pick now prov opts s) = (case ?av of
          [] \<Rightarrow> if first_some (throwOnExhausted opts) True
                then Inl (KeyExhaustedError prov (ksTenantId s) n d) else Inr None
        | k0 # ks \<Rightarrow>
            (case fst (?pick (first_some (strategy opts) (defaultStrategy s)) (provider k0) (k0 # ks) s2) of
               None \<Rightarrow> Inl UndefinedKey
             | Some k \<Rightarrow> Inr (Some (k\<lparr>lastUsedAt := Some (Some now)\<rparr>))))"
    by (rule ks_select_triaged [of now ?pick prov opts s]) (simp_all add: res)
  then obtain k0 where "k = k0\<lparr>lastUsedAt := Some (Some now)\<rparr>" "k0 \<in> set ?av"
    unfolding res by (auto split: list.splits if_splits option.splits dest!: ks_dispatch_fst_in)
  then show ?thesis
    by (intro exI [of _ k0]) (auto simp: available_candidates_def Let_def filter_empty_conv split: if_splits)
qed

definition ks_example :: "SelectableKey KeySelector" where
  "ks_example = newKeySelector (Some ''t'') None None None (Some Map.empty) None
     (Some [ks_key ''a'' 1 None, ks_key ''b'' 2 None])"

definition ks_no_options :: "SelectableKey SelectKeyOptions" where
  "ks_no_options = \<lparr>strategy = None, soCost = None, throwOnExhausted = None,
     fallbackToAnyProvider = None, candidateKeys = None\<rparr>"

lemma ks_example_fields [simp]:
  "keysMap ks_example = [(''a'', ks_key ''a'' 1 None), (''b'', ks_key ''b'' 2 None)]"
  "circuitBreaker ks_example = None" "rateLimiter ks_example = None"
  "roundRobinIndices ks_example = Map.empty" "ksStorage ks_example = Some Map.empty"
  "defaultStrategy ks_example = RoundRobin" "ksTenantId ks_example = Some ''t''"
  "ksPrefix ks_example = ''ks:''" "usageCounts ks_example = Map.empty"
  by (simp_all add: ks_example_def newKeySelector_def ks_addKeys_def ks_addKey_def)

lemma ks_no_options_fields [simp]:
  "strategy ks_no_options = None" "soCost ks_no_options = None" "throwOnExhausted ks_no_options = None"
  "fallbackToAnyProvider ks_no_options = None" "candidateKeys ks_no_options = None"
  by (simp_all add: ks_no_options_def)

lemma normalize_openai [simp]: "normalizeProvider ''openai'' = ''openai''"
  by code_simp

lemma ks_example_selects:
  "fst (ks_selectKey 7 0 ''openai'' ks_no_options ks_example) =
     Inr (Some ((ks_key ''a'' 1 None)\<lparr>lastUsedAt := Some (Some 7)\<rparr>))"
  by (simp add: ks_selectKey_def ks_select_with_def ks_triageKeys_def with_gates_def triageKeysAsync_def
      ks_getKeys_def triage_key_def triage_breaker_def triage_limiter_def isStatusPermitted_def
      triage_push_def triage_start_def triage_finish_def ks_dispatch_def selectRoundRobin_def
      ks_getOrLoadRoundRobinIndex_def js_rem_def js_index_def Let_def case_prod_beta)

theorem selected_key_is_healthy_witness:
  "\<exists>k0. (ks_key ''a'' 1 None)\<lparr>lastUsedAt := Some (Some 7)\<rparr> = k0\<lparr>lastUsedAt := Some (Some 7)\<rparr> \<and>
     key_available 7 0 (ks_gates ks_example) k0"
  using selected_key_is_healthy [OF ks_example_selects] by auto

text \<open>
  \<open>selectKey\<close> fails only for want of a healthy key: when no limiter record is corrupt, it returns
  a key if and only if some candidate (with the fallback on: some key of the pool) is healthy;
  otherwise it throws \<open>KeyExhaustedError\<close>, or returns null when told not to throw.
\<close>

theorem selection_complete:
  assumes "\<And>e. fst (ks_selectKey now rnd prov opts s) \<noteq> Inl (LimiterFailed e)"
    and "ks_rr_ok s" and "rnd < 2 ^ 53"
  shows "((\<exists>k. fst (ks_selectKey now rnd prov opts s) = Inr (Some k)) \<longleftrightarrow>
          available_candidates now prov opts s \<noteq> []) \<and>
         (available_candidates now prov opts s = [] \<longrightarrow>
            (if first_some (throwOnExhausted opts) True
             then \<exists>n d. fst (ks_selectKey now rnd prov opts s) =
                        Inl (KeyExhaustedError prov (ksTenantId s) n d)
             else fst (ks_selectKey now rnd prov opts s) = Inr None))"
proof -
  let ?pick = "ks_dispatch now rnd" and ?av = "available_candidates now prov opts s"
  obtain s2 n d where f: "ks_frame now s s2" and
    res: "fst (ks_select_with (ks_triageKeys now) ?pick now prov opts s) = (case ?av of
          [] \<Rightarrow> if first_some (throwOnExhausted opts) True
                then Inl (KeyExhaustedError prov (ksTenantId s) n d) else Inr None
        | k0 # ks \<Rightarrow>
            (case fst (?pick (first_some (strategy opts) (defaultStrategy s)) (provider k0) (k0 # ks) s2) of
               None \<Rightarrow> Inl UndefinedKey
             | Some k \<Rightarrow> Inr (Some (k\<lparr>lastUsedAt := Some (Some now)\<rparr>))))"
    by (rule ks_select_triaged [OF assms(1) [unfolded ks_selectKey_def]])
  have some: "\<exists>k. fst (?pick strat p (k0 # ks) s2) = Some k" for strat p k0 ks
    using ks_dispatch_some [OF ks_rr_ok_frame [OF f assms(2)] _ assms(3), of "k0 # ks" now strat p]
    by simp
  then show ?thesis
  proof (cases ?av)
    case (Cons k0 ks)
    with some [of "first_some (strategy opts) (defaultStrategy s)" "provider k0" k0 ks] show ?thesis
      unfolding ks_selectKey_def res by auto
  qed (simp add: ks_selectKey_def res)
qed

theorem selection_complete_witness:
  "available_candidates 7 ''openai'' ks_no_options ks_example \<noteq> []"
proof -
  have "ks_rr_ok ks_example" by (simp add: ks_rr_ok_def)
  from selection_complete [OF _ this, of 7 0 "''openai''" ks_no_options] ks_example_selects
  show ?thesis by simp
qed

text \<open>
  Round robin is fair and durable: from a stored pointer \<open>i\<close>, the next \<open>c * n\<close> selections
  over the same \<open>n\<close> healthy keys choose each key exactly \<open>c\<close> times, in cyclic order, even
  when the object is evicted from memory before any of them, as long as the pointer does not wrap.
\<close>

theorem round_robin_fair:
  assumes "ksStorage s = Some st" "st (ks_rrKey s (normalizeProvider prov)) = Some (JNum i)"
    and "roundRobinIndices s (normalizeProvider prov) \<in> {None, Some i}"
    and "0 \<le> i" "healthy \<noteq> []" "length evs = c * length healthy" "i + int (length evs) < 1000000"
  shows "rr_picks prov healthy evs s =
           map (\<lambda>j. Some (healthy ! ((nat i + j) mod length healthy))) [0..<length evs] \<and>
         mset (rr_picks prov healthy evs s) = repeat_mset c (mset (map Some healthy))"
proof -
  have "rr_at prov i s" using assms(1-4) by (auto simp: rr_at_def)
  from rr_picks_nth [OF this assms(7,5)] cyclic_mset [OF assms(5), of Some "nat i" c] assms(6)
  show ?thesis by simp
qed

definition rr_example :: "string KeySelector" where
  "rr_example = \<lparr>ksTenantId = None, defaultStrategy = RoundRobin,
     ksStorage = Some [''ks:rr:openai'' \<mapsto> JNum 3], ksPrefix = ''ks:'', circuitBreaker = None,
     rateLimiter = None, keysMap = [], roundRobinIndices = Map.empty, usageCounts = Map.empty\<rparr>"

theorem round_robin_fair_witness:
  "mset (rr_picks ''openai'' [''a'', ''b''] [False, True, True, False] rr_example) =
   repeat_mset 2 (mset (map Some [''a'', ''b'']))"
  by (rule round_robin_fair [THEN conjunct2, of _ "[''ks:rr:openai'' \<mapsto> JNum 3]" _ 3])
    (simp_all add: rr_example_def ks_rrKey_def)

text \<open>
  The least-used strategy picks a healthy key whose load (requests in the current minute, or the
  invocation count when there is no limiter) is minimal, and of those one with the fewest
  invocations.
\<close>

theorem least_used_minimal:
  assumes "healthy \<noteq> []"
  shows "\<exists>k s'. selectLeastUsed now healthy s = (Some k, s') \<and> k \<in> set healthy \<and>
    (\<forall>k'\<in>set healthy.
       fst (ks_load now k s) \<le> fst (ks_load now k' s) \<and>
       (fst (ks_load now k s) = fst (ks_load now k' s) \<longrightarrow>
          ks_getUsageCount (keyId k) s \<le> ks_getUsageCount (keyId k') s))"
proof -
  obtain k s' where k: "selectLeastUsed now healthy s = (Some k, s')"
    using selectLeastUsed_some [OF assms, of now s] by (cases "selectLeastUsed now healthy s") auto
  with selectLeastUsed_best [OF k] show ?thesis by (fastforce simp: lighter_def)
qed

theorem least_used_minimal_witness:
  "\<exists>k s'. selectLeastUsed 0 [ks_key ''a'' 1 None, ks_key ''b'' 2 None] (ks_recordUsage ''a'' ks_example) =
     (Some k, s') \<and> k = ks_key ''b'' 2 None"
  using least_used_minimal [of "[ks_key ''a'' 1 None, ks_key ''b'' 2 None]" 0 "ks_recordUsage ''a'' ks_example"]
  by (auto simp: ks_load_def ks_getUsageCount_def ks_recordUsage_def)

text \<open>
  The priority strategy picks a healthy key of maximal priority (absent counts as zero), and
  it always picks one when there is one.
\<close>

theorem priority_maximal:
  assumes "healthy \<noteq> []" "ks_rr_ok s"
  shows "\<exists>k s'. selectPriority now tie prov healthy s = (Some k, s') \<and> k \<in> set healthy \<and>
    (\<forall>k'\<in>set healthy. first_some (priority k') 0 \<le> first_some (priority k) 0)"
proof -
  obtain k s' where k: "selectPriority now tie prov healthy s = (Some k, s')"
    using selectPriority_some [OF assms(2,1), of now tie prov] by (cases "selectPriority now tie prov healthy s") auto
  with selectPriority_top [OF k assms(1)] show ?thesis by (auto simp: priority_of_def)
qed

theorem priority_maximal_witness:
  "\<exists>k s'. selectPriority 0 TieRoundRobin ''openai'' [ks_key ''a'' 1 None, ks_key ''b'' 2 None] ks_example =
     (Some k, s') \<and> k = ks_key ''b'' 2 None"
  using priority_maximal [of "[ks_key ''a'' 1 None, ks_key ''b'' 2 None]" ks_example 0 TieRoundRobin "''openai''"]
  by (auto simp: ks_rr_ok_def)

end
