(* ===== verification/Quota.thy ===== *)
theory Quota
  imports Interfaces JsValue
begin

text \<open>
  Tiers and limits (\<open>src/contracts/v3_types.ts\<close>, \<open>src/quota/limits.ts\<close>), the community debt
  ledger (\<open>src/quota/tenant/debt.ts\<close>) and the quota evaluator (\<open>src/quota/tenant/evaluator.ts\<close>,
  \<open>types.ts\<close>). \<open>Infinity\<close> as a limit is \<open>None\<close>.
\<close>

section \<open>Tiers\<close>

datatype UserTier = Admin | Ultra | MaxTier | Builder | Probationary | Demo | Suspended

definition tier_name :: "UserTier \<Rightarrow> string" where
  "tier_name t = (case t of Admin \<Rightarrow> ''admin'' | Ultra \<Rightarrow> ''ultra'' | MaxTier \<Rightarrow> ''max''
     | Builder \<Rightarrow> ''builder'' | Probationary \<Rightarrow> ''probationary'' | Demo \<Rightarrow> ''demo'' | Suspended \<Rightarrow> ''suspended'')"

definition tier_of_name :: "string \<Rightarrow> UserTier option" where
  "tier_of_name n = find (\<lambda>t. tier_name t = n) [Admin, Ultra, MaxTier, Builder, Probationary, Demo, Suspended]"

lemma tier_of_name_name [simp]: "tier_of_name (tier_name t) = Some t"
  by (cases t) (simp_all add: tier_of_name_def tier_name_def)

lemma tier_name_ne [simp]: "tier_name t \<noteq> []"
  by (cases t) (simp_all add: tier_name_def)

type_synonym limit = "int option"

record TierLimits =
  tlTier :: UserTier
  tlRpmLimit :: limit
  tlRpdLimit :: limit
  maxProjects :: limit
  allowCustomSubCaps :: bool
  priorityWeight :: int

definition tier_limits :: "UserTier \<Rightarrow> limit \<Rightarrow> limit \<Rightarrow> limit \<Rightarrow> bool \<Rightarrow> int \<Rightarrow> TierLimits" where
  "tier_limits t rpm rpd projects caps w =
     \<lparr>tlTier = t, tlRpmLimit = rpm, tlRpdLimit = rpd, maxProjects = projects,
      allowCustomSubCaps = caps, priorityWeight = w\<rparr>"

definition TIER_LIMITS_MAP :: "UserTier \<Rightarrow> TierLimits" where
  "TIER_LIMITS_MAP t = (case t of
       Admin \<Rightarrow> tier_limits Admin None None None True 0
     | Ultra \<Rightarrow> tier_limits Ultra None None (Some 25) True 1
     | MaxTier \<Rightarrow> tier_limits MaxTier (Some 60) (Some 10000) (Some 10) True 2
     | Builder \<Rightarrow> tier_limits Builder (Some 20) (Some 2000) (Some 3) True 3
     | Probationary \<Rightarrow> tier_limits Probationary (Some 2) (Some 50) (Some 1) False 4
     | Demo \<Rightarrow> tier_limits Demo (Some 20) (Some 2000) (Some 0) False 5
     | Suspended \<Rightarrow> tier_limits Suspended (Some 0) (Some 0) (Some 0) False 99)"

text \<open>The tier of a request comes from JSON, so it is any string; an unknown one is suspended.\<close>

definition getTierLimits :: "string \<Rightarrow> TierLimits" where
  "getTierLimits tier =
     (case tier_of_name tier of Some t \<Rightarrow> TIER_LIMITS_MAP t | None \<Rightarrow> TIER_LIMITS_MAP Suspended)"

definition min_limit :: "limit \<Rightarrow> int \<Rightarrow> limit" where
  "min_limit l c = (case l of None \<Rightarrow> Some c | Some n \<Rightarrow> Some (min n c))"

definition calculateProjectQuota :: "string \<Rightarrow> int option \<Rightarrow> limit" where
  "calculateProjectQuota tier cap =
     (let tenantLimit = tlRpmLimit (getTierLimits tier) in
      case cap of Some c \<Rightarrow> min_limit tenantLimit c | None \<Rightarrow> tenantLimit)"

definition over_limit :: "limit \<Rightarrow> int \<Rightarrow> bool" where
  "over_limit l n = (case l of None \<Rightarrow> False | Some m \<Rightarrow> n > m)"

definition remaining :: "limit \<Rightarrow> int \<Rightarrow> limit" where
  "remaining l n = map_option (\<lambda>m. max 0 (m - n)) l"

section \<open>The debt ledger (debt.ts)\<close>

record DebtState =
  dsDebt :: int
  dsContributed :: int
  dsTrusted :: bool
  dsDebtFreeDays :: int
  dsCeiling :: int

text \<open>\<open>BigInt\<close> division truncates towards zero.\<close>

definition bigint_div :: "int \<Rightarrow> int \<Rightarrow> int" where
  "bigint_div a b = sgn a * sgn b * (\<bar>a\<bar> div \<bar>b\<bar>)"

text \<open>
  The ratio is converted to a double before it is compared with 50 and 100; the conversion is
  monotone and exact on those, so the comparisons are those of the integers.
\<close>

definition calculateMultiplierCeiling :: "int \<Rightarrow> int \<Rightarrow> bool \<Rightarrow> int" where
  "calculateMultiplierCeiling debt contributed trusted =
     (let ratio = (if contributed > 0 then bigint_div (debt * 100) contributed
                   else if debt > 0 then 1000 else 0)
      in if ratio > 100 then 100 else if ratio > 50 then 150 else if trusted then 500 else 450)"

datatype JailStatus = PRISTINE | SOFT_WARNING | HARD_JAIL

definition determineJailStatus :: "int \<Rightarrow> int \<Rightarrow> JailStatus" where
  "determineJailStatus debt cap =
     (if debt > 0 then
        (if cap = 100 then HARD_JAIL else if cap = 150 then SOFT_WARNING else PRISTINE)
      else PRISTINE)"

text \<open>
  \<open>Math.floor(Number(debt) * 0.2)\<close>: the double \<open>0.2\<close> is \<open>3602879701896397 / 2 ^ 54\<close> and
  \<open>0.3\<close> is \<open>5404319552844595 / 2 ^ 54\<close>; the conversion and the product round.
\<close>

definition decay_amount :: "int \<Rightarrow> int \<Rightarrow> int" where
  "decay_amount c debt =
     (sgn debt * int (round53 (round53 (nat \<bar>debt\<bar>) * nat c))) div 2 ^ 54"

definition DECAY_TRUSTED :: int where "DECAY_TRUSTED = 5404319552844595"
definition DECAY_DEFAULT :: int where "DECAY_DEFAULT = 3602879701896397"

definition processDailyDebtReset :: "DebtState \<Rightarrow> DebtState" where
  "processDailyDebtReset st =
     (let (days, trusted, debt) =
        (if dsDebt st = 0 then
           (let days = dsDebtFreeDays st + 1
            in (days, if days > 30 then True else dsTrusted st, dsDebt st))
         else
           (let days = 0; trusted = False;
                decay = (if trusted then DECAY_TRUSTED else DECAY_DEFAULT);
                amount = decay_amount decay (dsDebt st)
            in (days, trusted, if dsDebt st > amount then dsDebt st - amount else 0)));
          contributed = 0
      in \<lparr>dsDebt = debt, dsContributed = contributed, dsTrusted = trusted, dsDebtFreeDays = days,
          dsCeiling = calculateMultiplierCeiling debt contributed trusted\<rparr>)"

section \<open>The evaluator (types.ts, evaluator.ts)\<close>

record QuotaEntry =
  qeTimestamp :: timestamp
  qeCount :: int
  qeCost :: string
  qeProject :: "string option"

record ConsumeQuotaRequest =
  rqTenantId :: "string option"
  rqProjectId :: "string option"
  rqTier :: "string option"
  rqProjectMaxSubCap :: "int option"
  rqCost :: js
  rqCount :: "int option"
  rqCheckOnly :: bool

record ConsumeQuotaResult =
  cqAllowed :: bool
  cqTenantId :: string
  cqProjectId :: "string option"
  cqTier :: string
  cqCurrentRpm :: int
  cqRpmLimit :: limit
  cqCurrentRpd :: int
  cqRpdLimit :: limit
  cqCurrentProjectRpm :: "int option"
  cqProjectRpmLimit :: "limit option"
  cqTotalCost :: string
  cqDebt :: string
  cqContributed :: string
  cqTrusted :: bool
  cqDebtFreeDays :: int
  cqCeiling :: int
  cqRemainingRpm :: limit
  cqRemainingRpd :: limit
  cqRetryAfter :: "int option"
  cqErrorCode :: "string option"

text \<open>Numbers of the model are integers, so \<open>Math.trunc\<close> is the identity.\<close>

definition toMicrodollars :: "js \<Rightarrow> int" where
  "toMicrodollars cost =
     (case cost of
        JBigInt n \<Rightarrow> n
      | JNum n \<Rightarrow> n
      | JStr s \<Rightarrow> (let trimmed = js_trim s in
                  if length trimmed = 0 then 0 else first_some (bigint_of_string trimmed) 0)
      | _ \<Rightarrow> 0)"

definition truthy_str :: "string option \<Rightarrow> bool" where
  "truthy_str s \<longleftrightarrow> s \<noteq> None \<and> s \<noteq> Some []"

fun usage_loop :: "timestamp \<Rightarrow> string option \<Rightarrow> QuotaEntry list \<Rightarrow> int \<Rightarrow> int" where
  "usage_loop cutoff proj [] n = n"
| "usage_loop cutoff proj (e # es) n =
     usage_loop cutoff proj es
       (if qeTimestamp e > cutoff \<and> (\<not> truthy_str proj \<or> qeProject e = proj) then n + qeCount e else n)"

definition calculateUsage :: "QuotaEntry list \<Rightarrow> int \<Rightarrow> timestamp \<Rightarrow> string option \<Rightarrow> int" where
  "calculateUsage entries windowMs now proj = usage_loop (now - windowMs) proj entries 0"

fun quota_retry :: "timestamp \<Rightarrow> int \<Rightarrow> timestamp \<Rightarrow> QuotaEntry list \<Rightarrow> int" where
  "quota_retry cutoff w now [] = 60"
| "quota_retry cutoff w now (e # es) =
     (if qeTimestamp e > cutoff then max 1 (ceil_secs (qeTimestamp e + w - now))
      else quota_retry cutoff w now es)"

definition quotaRpmRetryAfter :: "QuotaEntry list \<Rightarrow> int \<Rightarrow> timestamp \<Rightarrow> int" where
  "quotaRpmRetryAfter entries rpmWindowMs now = quota_retry (now - rpmWindowMs) rpmWindowMs now entries"

record QuotaEvaluationContext =
  qcTenantId :: string
  qcTier :: string
  qcEntries :: "QuotaEntry list"
  qcTotal :: int
  qcDebtState :: DebtState
  qcRpmWindowMs :: int
  qcRpdWindowMs :: int
  qcNow :: timestamp

definition evaluateQuota ::
  "ConsumeQuotaRequest \<Rightarrow> QuotaEvaluationContext \<Rightarrow> ConsumeQuotaResult \<times> QuotaEntry option \<times> int" where
  "evaluateQuota req ctx =
     (let effectiveTier = first_some (rqTier req) (qcTier ctx);
          requested = (case rqCount req of Some n \<Rightarrow> if n > 0 then n else 1 | None \<Rightarrow> 1);
          incomingCost = toMicrodollars (rqCost req);
          limits = getTierLimits effectiveTier;
          rootRpm = tlRpmLimit limits;
          rootRpd = tlRpdLimit limits;
          curRpm = calculateUsage (qcEntries ctx) (qcRpmWindowMs ctx) (qcNow ctx) None;
          curRpd = calculateUsage (qcEntries ctx) (qcRpdWindowMs ctx) (qcNow ctx) None;
          rpmRetry = quotaRpmRetryAfter (qcEntries ctx) (qcRpmWindowMs ctx) (qcNow ctx);
          d = qcDebtState ctx;
          base = \<lparr>cqAllowed = False, cqTenantId = qcTenantId ctx, cqProjectId = rqProjectId req,
                  cqTier = effectiveTier, cqCurrentRpm = curRpm, cqRpmLimit = rootRpm,
                  cqCurrentRpd = curRpd, cqRpdLimit = rootRpd, cqCurrentProjectRpm = None,
                  cqProjectRpmLimit = None, cqTotalCost = bigint_to_string (qcTotal ctx),
                  cqDebt = bigint_to_string (dsDebt d),
                  cqContributed = bigint_to_string (dsContributed d), cqTrusted = dsTrusted d,
                  cqDebtFreeDays = dsDebtFreeDays d, cqCeiling = dsCeiling d,
                  cqRemainingRpm = remaining rootRpm curRpm, cqRemainingRpd = remaining rootRpd curRpd,
                  cqRetryAfter = None, cqErrorCode = None\<rparr>
      in if over_limit rootRpm (curRpm + requested) then
           (base\<lparr>cqRetryAfter := Some rpmRetry, cqErrorCode := Some ''USER_QUOTA_EXHAUSTED''\<rparr>,
            None, incomingCost)
         else if over_limit rootRpd (curRpd + requested) then
           (base\<lparr>cqRetryAfter := Some 86400, cqErrorCode := Some ''USER_DAILY_QUOTA_EXHAUSTED''\<rparr>,
            None, incomingCost)
         else
           (let hasProject = truthy_str (rqProjectId req);
                projLimit = (if hasProject
                             then Some (calculateProjectQuota effectiveTier (rqProjectMaxSubCap req))
                             else None);
                curProj = (if hasProject
                           then Some (calculateUsage (qcEntries ctx) (qcRpmWindowMs ctx) (qcNow ctx)
                                        (rqProjectId req))
                           else None);
                withProj = base\<lparr>cqCurrentProjectRpm := curProj, cqProjectRpmLimit := projLimit\<rparr>
            in if (case (projLimit, curProj) of
                     (Some l, Some n) \<Rightarrow> over_limit l (n + requested) | _ \<Rightarrow> False) then
                 (withProj\<lparr>cqRetryAfter := Some rpmRetry,
                           cqErrorCode := Some ''PROJECT_SUB_CAP_EXCEEDED''\<rparr>, None, incomingCost)
               else if rqCheckOnly req then (withProj\<lparr>cqAllowed := True\<rparr>, None, incomingCost)
               else
                 (withProj\<lparr>cqAllowed := True, cqCurrentRpm := curRpm + requested,
                           cqCurrentRpd := curRpd + requested,
                           cqCurrentProjectRpm := map_option (\<lambda>n. n + requested) curProj,
                           cqTotalCost := bigint_to_string (qcTotal ctx + incomingCost),
                           cqRemainingRpm := remaining rootRpm (curRpm + requested),
                           cqRemainingRpd := remaining rootRpd (curRpd + requested)\<rparr>,
                  Some \<lparr>qeTimestamp = qcNow ctx, qeCount = requested,
                        qeCost = bigint_to_string incomingCost,
                        qeProject = (if hasProject then rqProjectId req else None)\<rparr>,
                  incomingCost)))"

section \<open>Properties of the debt ledger\<close>

instantiation JailStatus :: linorder
begin

fun severity :: "JailStatus \<Rightarrow> nat" where
  "severity PRISTINE = 0"
| "severity SOFT_WARNING = 1"
| "severity HARD_JAIL = 2"

definition less_eq_JailStatus :: "JailStatus \<Rightarrow> JailStatus \<Rightarrow> bool" where
  "less_eq_JailStatus a b \<longleftrightarrow> severity a \<le> severity b"

definition less_JailStatus :: "JailStatus \<Rightarrow> JailStatus \<Rightarrow> bool" where
  "less_JailStatus a b \<longleftrightarrow> severity a < severity b"

instance
proof
  fix a b :: JailStatus
  show "a \<le> b \<Longrightarrow> b \<le> a \<Longrightarrow> a = b"
    by (cases a; cases b) (simp_all add: less_eq_JailStatus_def)
qed (auto simp: less_eq_JailStatus_def less_JailStatus_def)

end

definition jail_of :: "int \<Rightarrow> int \<Rightarrow> bool \<Rightarrow> JailStatus" where
  "jail_of debt contributed trusted =
     determineJailStatus debt (calculateMultiplierCeiling debt contributed trusted)"

text \<open>The status in closed form: the debt against the day's contribution.\<close>

lemma quot_gt:
  assumes "0 < (c :: int)"
  shows "k < a div c \<longleftrightarrow> (k + 1) * c \<le> a"
proof
  assume "k < a div c"
  then have "(k + 1) * c \<le> a div c * c" using assms by (intro mult_right_mono) auto
  also have "\<dots> \<le> a" using assms by (metis div_mult_mod_eq le_add_same_cancel1 pos_mod_sign)
  finally show "(k + 1) * c \<le> a" .
next
  assume "(k + 1) * c \<le> a"
  then have "(k + 1) * c div c \<le> a div c" using assms by (intro zdiv_mono1)
  with assms show "k < a div c" by simp
qed

lemma jail_of_eq:
  "jail_of debt contributed trusted =
     (if debt \<le> 0 then PRISTINE
      else if contributed \<le> 0 \<or> 101 * contributed \<le> 100 * debt then HARD_JAIL
      else if 51 * contributed \<le> 100 * debt then SOFT_WARNING else PRISTINE)"
proof (cases "0 < debt \<and> 0 < contributed")
  case True
  then have "bigint_div (debt * 100) contributed = debt * 100 div contributed"
    by (simp add: bigint_div_def)
  with True quot_gt [of contributed 100 "debt * 100"] quot_gt [of contributed 50 "debt * 100"]
  show ?thesis
    by (auto simp: jail_of_def determineJailStatus_def calculateMultiplierCeiling_def Let_def mult.commute)
qed (auto simp: jail_of_def determineJailStatus_def calculateMultiplierCeiling_def Let_def)

text \<open>The double \<open>0.2\<close> times an amount below \<open>2 ^ 51\<close>, rounded and floored, is its fifth.\<close>

lemma decay_default_nat:
  assumes d: "d < 2 ^ 51"
  shows "round53 (d * 3602879701896397) div 2 ^ 54 = d div 5"
proof -
  define q where "q = d div 5"
  define n where "n = d * 3602879701896397"
  have dq: "5 * q \<le> d" "d \<le> 5 * q + 4" unfolding q_def by linarith+
  have "q * 2 ^ 54 \<le> n" using dq(1) by (simp add: n_def)
  then have lo: "q * 2 ^ 54 \<le> round53 n" using dq d by (intro round53_ge) auto
  have "2 ^ 53 * round53 n \<le> (2 ^ 53 + 1) * n" by (rule round53_error)
  also have "\<dots> \<le> (2 ^ 53 + 1) * ((5 * q + 4) * 3602879701896397)"
    unfolding n_def using dq(2) by (intro mult_le_mono) auto
  also have "\<dots> < 2 ^ 53 * ((q + 1) * 2 ^ 54)"
    using dq(1) d by simp
  finally have "round53 n < (q + 1) * 2 ^ 54" by simp
  with lo have "round53 n div 2 ^ 54 = q"
    by (intro div_nat_eqI) (simp_all add: mult.commute)
  then show ?thesis by (simp add: n_def q_def)
qed

lemma decay_default:
  assumes "0 \<le> d" "d < 2 ^ 51"
  shows "decay_amount DECAY_DEFAULT d = d div 5"
proof -
  from assms obtain n where n: "d = int n" "n < 2 ^ 51" by (metis nonneg_int_cases of_nat_less_numeral_power_cancel_iff)
  then have "round53 n = n" by (intro round53_exact) simp
  moreover have "int (round53 (n * 3602879701896397)) div 2 ^ 54 = int (round53 (n * 3602879701896397) div 2 ^ 54)"
    by (simp only: zdiv_int of_nat_power of_nat_numeral)
  moreover have "int (n div 5) = d div 5" by (simp only: zdiv_int n of_nat_numeral)
  moreover have "sgn d * x = x" if "n = 0 \<Longrightarrow> x = 0" for x
    using n that by (cases "n = 0") auto
  ultimately show ?thesis
    using decay_default_nat [OF n(2)] n
    by (cases "n = 0") (simp_all only: decay_amount_def DECAY_DEFAULT_def, simp_all)
qed

text \<open>
  A debtor's status only worsens as the debt grows and only improves as the day's contribution
  grows, whatever the trust flag; a positive debt with no contribution is hard jail, no debt is
  pristine.
\<close>

theorem jail_status_monotone:
  assumes "debt \<le> debt'" "contributed' \<le> contributed"
  shows "jail_of debt contributed trusted \<le> jail_of debt' contributed' trusted' \<and>
         (0 < debt \<longrightarrow> jail_of debt 0 trusted = HARD_JAIL) \<and> jail_of 0 contributed trusted = PRISTINE"
  using assms by (auto simp: jail_of_eq less_eq_JailStatus_def)

theorem jail_status_monotone_witness:
  "jail_of 30 100 True \<le> jail_of 60 100 False \<and> jail_of 30 100 True = PRISTINE \<and>
   jail_of 60 100 False = SOFT_WARNING"
  using jail_status_monotone [of 30 60 100 100 True False] by (simp add: jail_of_eq)

text \<open>
  The daily reset forgives exactly a fifth (rounded down) of a debt below \<open>2 ^ 51\<close>, for trusted
  contributors as for others: the 30 percent branch of the code is never taken, because the flag is
  cleared before it is read. A debt therefore never reaches zero by decay alone (one to four
  micro-units never shrink), and every debtor wakes up in hard jail.
\<close>

theorem daily_reset_debt:
  assumes "0 < dsDebt st" "dsDebt st < 2 ^ 51"
  shows "let st' = processDailyDebtReset st in
         dsDebt st' = dsDebt st - dsDebt st div 5 \<and> 0 < dsDebt st' \<and>
         \<not> dsTrusted st' \<and> dsDebtFreeDays st' = 0 \<and>
         determineJailStatus (dsDebt st') (dsCeiling st') = HARD_JAIL"
proof -
  have "dsDebt st div 5 < dsDebt st" using assms(1) by simp
  then show ?thesis
    using assms decay_default [of "dsDebt st"]
    by (simp add: processDailyDebtReset_def Let_def determineJailStatus_def calculateMultiplierCeiling_def)
qed

theorem daily_reset_debt_witness:
  "dsDebt (processDailyDebtReset \<lparr>dsDebt = 4, dsContributed = 9, dsTrusted = True, dsDebtFreeDays = 40,
     dsCeiling = 500\<rparr>) = 4"
  using daily_reset_debt [of "\<lparr>dsDebt = 4, dsContributed = 9, dsTrusted = True, dsDebtFreeDays = 40,
     dsCeiling = 500\<rparr>"] by (simp add: Let_def)

end
