(* ===== verification/TenantQuota.thy ===== *)
theory TenantQuota
  imports Quota
begin

text \<open>
  \<open>src/quota/tenant/tenant_do.ts\<close>: the durable object that enforces one tenant's quota. Its
  in-memory fields are the record \<open>QuotaState\<close>; they are loaded from storage on first use and
  written back by every change. A new object over the same storage (\<open>tq_rebirth\<close>) is what the
  platform makes of an evicted one. The clock is read once per operation.
\<close>

record QuotaState =
  qsTier :: UserTier
  qsEntries :: "QuotaEntry list"
  qsTotal :: int
  qsDebt :: DebtState

record TenantQuotaDO =
  tqTenantId :: string
  tqMem :: QuotaState
  tqIsLoaded :: bool
  tqRpmWindowMs :: int
  tqRpdWindowMs :: int
  tqStorage :: storage
  tqAlarm :: "timestamp option"
  tqResolvedTenant :: string
  tqInitialTier :: UserTier

datatype tq_error =
    TenantIsolationError string "string option"
  | TqBigIntSyntaxError

record TenantQuotaDOOptions =
  toTenantId :: "string option"
  toInitialTier :: "UserTier option"
  toRpmWindowMs :: "int option"
  toRpdWindowMs :: "int option"

section \<open>Construction\<close>

text \<open>\<open>setUTCHours(24, 0, 0, 0)\<close>: the next midnight.\<close>

definition next_midnight :: "timestamp \<Rightarrow> timestamp" where
  "next_midnight t = (t div 86400000 + 1) * 86400000"

definition initial_quota :: "UserTier \<Rightarrow> QuotaState" where
  "initial_quota tier = \<lparr>qsTier = tier, qsEntries = [], qsTotal = 0,
     qsDebt = \<lparr>dsDebt = 0, dsContributed = 0, dsTrusted = False, dsDebtFreeDays = 0, dsCeiling = 150\<rparr>\<rparr>"

text \<open>\<open>idName\<close> and \<open>idString\<close> are the name and the string form of the object's id.\<close>

definition newTenantQuotaDO ::
  "timestamp \<Rightarrow> string option \<Rightarrow> string \<Rightarrow> storage \<Rightarrow> timestamp option \<Rightarrow> TenantQuotaDOOptions \<Rightarrow>
   tq_error + TenantQuotaDO" where
  "newTenantQuotaDO now idName idString store alarm opts =
     (let resolved = (case toTenantId opts of Some t \<Rightarrow> t | None \<Rightarrow> first_some idName idString);
          tier = first_some (toInitialTier opts) Builder
      in if resolved = [] \<or> js_trim resolved = [] then Inl (TenantIsolationError [] None)
         else Inr \<lparr>tqTenantId = resolved, tqMem = initial_quota tier, tqIsLoaded = False,
                   tqRpmWindowMs = first_some (toRpmWindowMs opts) 60000,
                   tqRpdWindowMs = first_some (toRpdWindowMs opts) 86400000,
                   tqStorage = store,
                   tqAlarm = (case alarm of Some a \<Rightarrow> Some a | None \<Rightarrow> Some (next_midnight now)),
                   tqResolvedTenant = resolved, tqInitialTier = tier\<rparr>)"

definition tq_rebirth :: "TenantQuotaDO \<Rightarrow> TenantQuotaDO" where
  "tq_rebirth s = s\<lparr>tqTenantId := tqResolvedTenant s, tqMem := initial_quota (tqInitialTier s),
                    tqIsLoaded := False\<rparr>"

definition tq_assertTenant :: "string option \<Rightarrow> TenantQuotaDO \<Rightarrow> tq_error + unit" where
  "tq_assertTenant target s =
     (if \<not> truthy_str target then Inr ()
      else if target \<noteq> Some (tqTenantId s) then Inl (TenantIsolationError (tqTenantId s) target)
      else Inr ())"

definition TQ_STORAGE_KEY :: string where "TQ_STORAGE_KEY = ''quota:data''"

section \<open>The stored form\<close>

definition js_of_quota_entry :: "QuotaEntry \<Rightarrow> js" where
  "js_of_quota_entry e =
     JObj ([(''timestamp'', JNum (qeTimestamp e)), (''count'', JNum (qeCount e)),
            (''costMicrodollars'', JStr (qeCost e))] @
           (case qeProject e of Some p \<Rightarrow> [(''projectId'', JStr p)] | None \<Rightarrow> []))"

definition quota_entry_of_js :: "js \<Rightarrow> QuotaEntry" where
  "quota_entry_of_js v =
     \<lparr>qeTimestamp = num_of (js_get v ''timestamp''), qeCount = num_of (js_get v ''count''),
      qeCost = str_of (js_get v ''costMicrodollars''),
      qeProject = (case js_get v ''projectId'' of JStr p \<Rightarrow> Some p | _ \<Rightarrow> None)\<rparr>"

definition js_of_quota :: "timestamp \<Rightarrow> string \<Rightarrow> QuotaState \<Rightarrow> js" where
  "js_of_quota now tenant q =
     JObj [(''tenantId'', JStr tenant), (''tier'', JStr (tier_name (qsTier q))),
           (''entries'', JArr (map js_of_quota_entry (qsEntries q))),
           (''totalCostMicrodollars'', JStr (bigint_to_string (qsTotal q))),
           (''communityDebtMicroCu'', JStr (bigint_to_string (dsDebt (qsDebt q)))),
           (''dailyContributedCu'', JStr (bigint_to_string (dsContributed (qsDebt q)))),
           (''trustedContributor'', JBool (dsTrusted (qsDebt q))),
           (''consecutiveDebtFreeDays'', JNum (dsDebtFreeDays (qsDebt q))),
           (''multiplierCeiling'', JNum (dsCeiling (qsDebt q))),
           (''lastUpdated'', JNum now)]"

text \<open>
  The guarded assignments of \<open>ensureLoaded\<close>, in order. A tier is stored only from a checked tier;
  a stored name outside the table has the limits of \<open>suspended\<close> and is read as that.
\<close>

definition load_tier :: "js \<Rightarrow> UserTier \<Rightarrow> UserTier" where
  "load_tier v old = (case js_get v ''tier'' of
     JStr n \<Rightarrow> if n = [] then old else first_some (tier_of_name n) Suspended | _ \<Rightarrow> old)"

definition load_entries :: "js \<Rightarrow> QuotaEntry list \<Rightarrow> QuotaEntry list" where
  "load_entries v old = (case js_get v ''entries'' of JArr es \<Rightarrow> map quota_entry_of_js es | _ \<Rightarrow> old)"

definition load_total :: "js \<Rightarrow> int \<Rightarrow> int" where
  "load_total v old = (case js_get v ''totalCostMicrodollars'' of JStr x \<Rightarrow> toMicrodollars (JStr x) | _ \<Rightarrow> old)"

definition load_bigint :: "js \<Rightarrow> string \<Rightarrow> int \<Rightarrow> int option" where
  "load_bigint v f old = (case js_get v f of JStr x \<Rightarrow> bigint_of_string x | _ \<Rightarrow> Some old)"

definition load_bool :: "js \<Rightarrow> string \<Rightarrow> bool \<Rightarrow> bool" where
  "load_bool v f old = (case js_get v f of JBool b \<Rightarrow> b | _ \<Rightarrow> old)"

definition load_num :: "js \<Rightarrow> string \<Rightarrow> int \<Rightarrow> int" where
  "load_num v f old = (case js_get v f of JNum n \<Rightarrow> n | _ \<Rightarrow> old)"

definition load_tenant :: "js \<Rightarrow> string \<Rightarrow> string" where
  "load_tenant v old = (case js_get v ''tenantId'' of JStr t \<Rightarrow> if t = [] then old else t | _ \<Rightarrow> old)"

section \<open>Loading, pruning, persisting\<close>

definition prune_quota :: "timestamp \<Rightarrow> int \<Rightarrow> QuotaEntry list \<Rightarrow> QuotaEntry list" where
  "prune_quota now w es = filter (\<lambda>e. qeTimestamp e > now - w) es"

definition tq_pruneEntries :: "timestamp \<Rightarrow> TenantQuotaDO \<Rightarrow> TenantQuotaDO" where
  "tq_pruneEntries now s =
     s\<lparr>tqMem := (tqMem s)\<lparr>qsEntries := prune_quota now (tqRpdWindowMs s) (qsEntries (tqMem s))\<rparr>\<rparr>"

definition tq_persist :: "timestamp \<Rightarrow> TenantQuotaDO \<Rightarrow> TenantQuotaDO" where
  "tq_persist now s =
     (let s1 = tq_pruneEntries now s in
      s1\<lparr>tqStorage := (tqStorage s1)(TQ_STORAGE_KEY \<mapsto> js_of_quota now (tqTenantId s1) (tqMem s1))\<rparr>)"

definition tq_ensureLoaded :: "timestamp \<Rightarrow> TenantQuotaDO \<Rightarrow> (tq_error + unit) \<times> TenantQuotaDO" where
  "tq_ensureLoaded now s =
     (if tqIsLoaded s then (Inr (), s)
      else
        let finish = (\<lambda>s'. (Inr (), (tq_pruneEntries now s')\<lparr>tqIsLoaded := True\<rparr>)) in
        case tqStorage s TQ_STORAGE_KEY of
          None \<Rightarrow> finish s
        | Some v \<Rightarrow>
            if \<not> is_object v then finish s
            else
              (let m0 = tqMem s;
                   m1 = m0\<lparr>qsTier := load_tier v (qsTier m0), qsEntries := load_entries v (qsEntries m0),
                           qsTotal := load_total v (qsTotal m0)\<rparr>;
                   s1 = s\<lparr>tqTenantId := load_tenant v (tqTenantId s), tqMem := m1\<rparr>;
                   d0 = qsDebt m0
               in case load_bigint v ''communityDebtMicroCu'' (dsDebt d0) of
                    None \<Rightarrow> (Inl TqBigIntSyntaxError, s1)
                  | Some debt \<Rightarrow>
                      (let d1 = d0\<lparr>dsDebt := debt\<rparr> in
                       case load_bigint v ''dailyContributedCu'' (dsContributed d0) of
                         None \<Rightarrow> (Inl TqBigIntSyntaxError, s1\<lparr>tqMem := m1\<lparr>qsDebt := d1\<rparr>\<rparr>)
                       | Some contributed \<Rightarrow>
                           finish (s1\<lparr>tqMem := m1\<lparr>qsDebt :=
                             d1\<lparr>dsContributed := contributed,
                                dsTrusted := load_bool v ''trustedContributor'' (dsTrusted d0),
                                dsDebtFreeDays := load_num v ''consecutiveDebtFreeDays'' (dsDebtFreeDays d0),
                                dsCeiling := load_num v ''multiplierCeiling'' (dsCeiling d0)\<rparr>\<rparr>\<rparr>))))"

definition tq_clearMemoryCache :: "TenantQuotaDO \<Rightarrow> TenantQuotaDO" where
  "tq_clearMemoryCache s =
     s\<lparr>tqMem := (tqMem s)\<lparr>qsEntries := [], qsTotal := 0\<rparr>, tqIsLoaded := False\<rparr>"

section \<open>Operations\<close>

text \<open>\<open>await this.ensureLoaded()\<close>, then the rest.\<close>

definition when_loaded ::
  "timestamp \<Rightarrow> (TenantQuotaDO \<Rightarrow> (tq_error + 'r) \<times> TenantQuotaDO) \<Rightarrow> TenantQuotaDO \<Rightarrow>
   (tq_error + 'r) \<times> TenantQuotaDO" where
  "when_loaded now f s =
     (case tq_ensureLoaded now s of (Inl e, s1) \<Rightarrow> (Inl e, s1) | (Inr _, s1) \<Rightarrow> f s1)"

definition set_debt :: "DebtState \<Rightarrow> TenantQuotaDO \<Rightarrow> TenantQuotaDO" where
  "set_debt d s = s\<lparr>tqMem := (tqMem s)\<lparr>qsDebt := d\<rparr>\<rparr>"

definition tq_updateMultiplierCeiling :: "TenantQuotaDO \<Rightarrow> TenantQuotaDO" where
  "tq_updateMultiplierCeiling s =
     (let d = qsDebt (tqMem s) in
      set_debt (d\<lparr>dsCeiling := calculateMultiplierCeiling (dsDebt d) (dsContributed d) (dsTrusted d)\<rparr>) s)"

definition tq_accrueDebt :: "timestamp \<Rightarrow> int \<Rightarrow> TenantQuotaDO \<Rightarrow> (tq_error + unit) \<times> TenantQuotaDO" where
  "tq_accrueDebt now cu = when_loaded now (\<lambda>s.
     (let d = qsDebt (tqMem s) in
      (Inr (), tq_persist now (tq_updateMultiplierCeiling (set_debt (d\<lparr>dsDebt := dsDebt d + cu\<rparr>) s)))))"

definition tq_decrementDebt :: "timestamp \<Rightarrow> int \<Rightarrow> TenantQuotaDO \<Rightarrow> (tq_error + unit) \<times> TenantQuotaDO" where
  "tq_decrementDebt now cu = when_loaded now (\<lambda>s.
     (let d = qsDebt (tqMem s);
          d' = d\<lparr>dsDebt := (if dsDebt d > cu then dsDebt d - cu else 0),
                 dsContributed := dsContributed d + cu\<rparr>
      in (Inr (), tq_persist now (tq_updateMultiplierCeiling (set_debt d' s)))))"

definition tq_getDebtState :: "TenantQuotaDO \<Rightarrow> string \<times> string \<times> int \<times> JailStatus" where
  "tq_getDebtState s =
     (let d = qsDebt (tqMem s) in
      (bigint_to_string (dsDebt d), bigint_to_string (dsContributed d), dsCeiling d,
       determineJailStatus (dsDebt d) (dsCeiling d)))"

definition tq_alarm :: "timestamp \<Rightarrow> TenantQuotaDO \<Rightarrow> (tq_error + unit) \<times> TenantQuotaDO" where
  "tq_alarm now = when_loaded now (\<lambda>s.
     (Inr (), (tq_persist now (set_debt (processDailyDebtReset (qsDebt (tqMem s))) s))
                \<lparr>tqAlarm := Some (next_midnight now)\<rparr>))"

definition tq_setTier :: "timestamp \<Rightarrow> UserTier \<Rightarrow> TenantQuotaDO \<Rightarrow> (tq_error + unit) \<times> TenantQuotaDO" where
  "tq_setTier now tier = when_loaded now (\<lambda>s.
     (Inr (), tq_persist now (s\<lparr>tqMem := (tqMem s)\<lparr>qsTier := tier\<rparr>\<rparr>)))"

definition tq_getRpm :: "timestamp \<Rightarrow> string option \<Rightarrow> TenantQuotaDO \<Rightarrow> int" where
  "tq_getRpm now proj s = calculateUsage (qsEntries (tqMem s)) (tqRpmWindowMs s) now proj"

definition tq_getRpd :: "timestamp \<Rightarrow> string option \<Rightarrow> TenantQuotaDO \<Rightarrow> int" where
  "tq_getRpd now proj s = calculateUsage (qsEntries (tqMem s)) (tqRpdWindowMs s) now proj"

definition tq_consumeQuota ::
  "timestamp \<Rightarrow> ConsumeQuotaRequest \<Rightarrow> TenantQuotaDO \<Rightarrow> (tq_error + ConsumeQuotaResult) \<times> TenantQuotaDO" where
  "tq_consumeQuota now req s =
     (case tq_assertTenant (rqTenantId req) s of
        Inl e \<Rightarrow> (Inl e, s)
      | Inr _ \<Rightarrow>
          when_loaded now (\<lambda>s1.
            (let s2 = tq_pruneEntries now s1;
                 m = tqMem s2;
                 (result, newEntry, cost) = evaluateQuota req
                   \<lparr>qcTenantId = tqTenantId s2, qcTier = tier_name (qsTier m), qcEntries = qsEntries m,
                    qcTotal = qsTotal m, qcDebtState = qsDebt m, qcRpmWindowMs = tqRpmWindowMs s2,
                    qcRpdWindowMs = tqRpdWindowMs s2, qcNow = now\<rparr>
             in case newEntry of
                  Some e \<Rightarrow>
                    (Inr result,
                     tq_persist now (s2\<lparr>tqMem := m\<lparr>qsEntries := qsEntries m @ [e],
                                                    qsTotal := qsTotal m + cost\<rparr>\<rparr>))
                | None \<Rightarrow> (Inr result, s2))) s)"

definition tq_reset :: "timestamp \<Rightarrow> TenantQuotaDO \<Rightarrow> (tq_error + unit) \<times> TenantQuotaDO" where
  "tq_reset now = when_loaded now (\<lambda>s.
     (Inr (), tq_persist now (s\<lparr>tqMem := (tqMem s)\<lparr>qsEntries := [], qsTotal := 0\<rparr>\<rparr>)))"

section \<open>The HTTP surface (\<open>fetch\<close>)\<close>

text \<open>A request after URL and JSON parsing; a body that is not JSON counts as the empty object.\<close>

record QuotaFetch =
  qfMethod :: string
  qfPath :: string
  qfHeaderTenant :: "string option"
  qfConsume :: ConsumeQuotaRequest
  qfBodyTier :: "string option"
  qfBodyTenant :: "string option"
  qfQueryProject :: "string option"
  qfQueryTier :: "string option"

record QuotaStatus =
  quTenantId :: string
  quTier :: string
  quCurrentRpm :: int
  quRpmLimit :: limit
  quCurrentRpd :: int
  quRpdLimit :: limit
  quCurrentProjectRpm :: "int option"
  quTotal :: string
  quDebt :: DebtState
  quRemainingRpm :: limit
  quRemainingRpd :: limit

datatype quota_body =
    HealthBody string string int int timestamp
  | ConsumeBody ConsumeQuotaResult "int option"
  | StatusBody QuotaStatus
  | InvalidTierBody
  | TierBody UserTier string
  | ResetBody string
  | NotFoundBody
  | IsolationBody string "string option"
  | InternalBody

type_synonym quota_response = "int \<times> quota_body"

fun error_response :: "tq_error \<Rightarrow> quota_response" where
  "error_response (TenantIsolationError own other) = (403, IsolationBody own other)"
| "error_response TqBigIntSyntaxError = (500, InternalBody)"

definition respond :: "(tq_error + quota_response) \<times> TenantQuotaDO \<Rightarrow> quota_response \<times> TenantQuotaDO" where
  "respond r = (case r of (Inl e, s) \<Rightarrow> (error_response e, s) | (Inr b, s) \<Rightarrow> (b, s))"

definition CONSUME_PATHS :: "string list" where
  "CONSUME_PATHS = [''/consume'', ''/consumeQuota'', ''/consume-quota'', ''/quota/consume'', ''/'']"

definition consume_response :: "ConsumeQuotaResult \<Rightarrow> quota_response" where
  "consume_response r =
     (if \<not> cqAllowed r then (429, ConsumeBody r (Some (first_some (cqRetryAfter r) 60)))
      else (200, ConsumeBody r None))"

definition tq_status :: "timestamp \<Rightarrow> QuotaFetch \<Rightarrow> TenantQuotaDO \<Rightarrow> QuotaStatus" where
  "tq_status now req s =
     (let tier = first_some (qfQueryTier req) (tier_name (qsTier (tqMem s)));
          limits = getTierLimits tier;
          rpm = tq_getRpm now None s;
          rpd = tq_getRpd now None s
      in \<lparr>quTenantId = tqTenantId s, quTier = tier, quCurrentRpm = rpm, quRpmLimit = tlRpmLimit limits,
          quCurrentRpd = rpd, quRpdLimit = tlRpdLimit limits,
          quCurrentProjectRpm = (if truthy_str (qfQueryProject req)
                                 then Some (tq_getRpm now (qfQueryProject req) s) else None),
          quTotal = bigint_to_string (qsTotal (tqMem s)), quDebt = qsDebt (tqMem s),
          quRemainingRpm = remaining (tlRpmLimit limits) rpm,
          quRemainingRpd = remaining (tlRpdLimit limits) rpd\<rparr>)"

definition tq_fetch :: "timestamp \<Rightarrow> QuotaFetch \<Rightarrow> TenantQuotaDO \<Rightarrow> quota_response \<times> TenantQuotaDO" where
  "tq_fetch now req s = respond
     (case (if truthy_str (qfHeaderTenant req) then tq_assertTenant (qfHeaderTenant req) s else Inr ()) of
        Inl e \<Rightarrow> (Inl e, s)
      | Inr _ \<Rightarrow>
          (if qfMethod req = ''GET'' \<and> qfPath req = ''/health'' then
             when_loaded now (\<lambda>s1. (Inr (200, HealthBody (tqTenantId s1) (tier_name (qsTier (tqMem s1)))
                (tq_getRpm now None s1) (tq_getRpd now None s1) now), s1)) s
           else if qfMethod req = ''POST'' \<and> qfPath req \<in> set CONSUME_PATHS then
             (let (r, s1) = tq_consumeQuota now (qfConsume req) s in (map_sum id consume_response r, s1))
           else if qfMethod req = ''GET'' \<and> qfPath req \<in> {''/quota'', ''/status'', ''/metrics''} then
             when_loaded now (\<lambda>s1. (Inr (200, StatusBody (tq_status now req s1)), s1)) s
           else if qfMethod req \<in> {''POST'', ''PUT''} \<and> qfPath req = ''/tier'' then
             (case (if truthy_str (qfBodyTenant req) then tq_assertTenant (qfBodyTenant req) s else Inr ()) of
                Inl e \<Rightarrow> (Inl e, s)
              | Inr _ \<Rightarrow>
                  (case (case qfBodyTier req of Some n \<Rightarrow> tier_of_name n | None \<Rightarrow> None) of
                     None \<Rightarrow> (Inr (400, InvalidTierBody), s)
                   | Some tier \<Rightarrow>
                       (let (r, s1) = tq_setTier now tier s
                        in (map_sum id (\<lambda>_. (200, TierBody (qsTier (tqMem s1)) (tqTenantId s1))) r, s1))))
           else if qfMethod req = ''POST'' \<and> qfPath req = ''/reset'' then
             (let (r, s1) = tq_reset now s
              in (map_sum id (\<lambda>_. (200, ResetBody (tqTenantId s1))) r, s1))
           else (Inr (404, NotFoundBody), s)))"

section \<open>Lemmas: the store is a write-through cache\<close>

lemma quota_entry_codec [simp]: "quota_entry_of_js (js_of_quota_entry e) = e"
  by (cases "qeProject e") (simp_all add: quota_entry_of_js_def js_of_quota_entry_def)

lemma toMicrodollars_parsed: "bigint_of_string s = Some n \<Longrightarrow> toMicrodollars (JStr s) = n"
proof -
  assume "bigint_of_string s = Some n"
  moreover have "bigint_of_string (js_trim s) = bigint_of_string s"
    by (simp only: bigint_of_string_def js_trim_idem)
  moreover have "js_trim s = [] \<Longrightarrow> bigint_of_string s = Some 0" by (simp add: bigint_of_string_def)
  ultimately show ?thesis by (auto simp: toMicrodollars_def Let_def)
qed

lemma toMicrodollars_string [simp]: "toMicrodollars (JStr (bigint_to_string n)) = n"
  by (rule toMicrodollars_parsed) (rule bigint_roundtrip)

lemma js_get_quota [simp]:
  "js_get (js_of_quota now t q) ''tenantId'' = JStr t"
  "js_get (js_of_quota now t q) ''tier'' = JStr (tier_name (qsTier q))"
  "js_get (js_of_quota now t q) ''entries'' = JArr (map js_of_quota_entry (qsEntries q))"
  "js_get (js_of_quota now t q) ''totalCostMicrodollars'' = JStr (bigint_to_string (qsTotal q))"
  "js_get (js_of_quota now t q) ''communityDebtMicroCu'' = JStr (bigint_to_string (dsDebt (qsDebt q)))"
  "js_get (js_of_quota now t q) ''dailyContributedCu'' = JStr (bigint_to_string (dsContributed (qsDebt q)))"
  "js_get (js_of_quota now t q) ''trustedContributor'' = JBool (dsTrusted (qsDebt q))"
  "js_get (js_of_quota now t q) ''consecutiveDebtFreeDays'' = JNum (dsDebtFreeDays (qsDebt q))"
  "js_get (js_of_quota now t q) ''multiplierCeiling'' = JNum (dsCeiling (qsDebt q))"
  "is_object (js_of_quota now t q)"
  by (simp_all add: js_of_quota_def)

text \<open>The snapshot read back, on top of what was in memory; total, with unreadable debt as zero.\<close>

definition quota_of_js :: "js \<Rightarrow> QuotaState \<Rightarrow> QuotaState" where
  "quota_of_js v m =
     m\<lparr>qsTier := load_tier v (qsTier m), qsEntries := load_entries v (qsEntries m),
       qsTotal := load_total v (qsTotal m),
       qsDebt := \<lparr>dsDebt = first_some (load_bigint v ''communityDebtMicroCu'' (dsDebt (qsDebt m))) 0,
                  dsContributed = first_some (load_bigint v ''dailyContributedCu'' (dsContributed (qsDebt m))) 0,
                  dsTrusted = load_bool v ''trustedContributor'' (dsTrusted (qsDebt m)),
                  dsDebtFreeDays = load_num v ''consecutiveDebtFreeDays'' (dsDebtFreeDays (qsDebt m)),
                  dsCeiling = load_num v ''multiplierCeiling'' (dsCeiling (qsDebt m))\<rparr>\<rparr>"

lemma quota_codec [simp]: "quota_of_js (js_of_quota now t q) m = q"
  by (simp add: quota_of_js_def load_tier_def load_entries_def load_total_def load_bigint_def
      load_bool_def load_num_def bigint_roundtrip map_idI)

definition tq_load :: "unit \<Rightarrow> TenantQuotaDO \<Rightarrow> QuotaState \<times> TenantQuotaDO" where
  "tq_load k s =
     (if tqIsLoaded s then (tqMem s, s)
      else (case tqStorage s TQ_STORAGE_KEY of
              None \<Rightarrow> (tqMem s, s\<lparr>tqIsLoaded := True\<rparr>)
            | Some v \<Rightarrow>
                if is_object v
                then (quota_of_js v (tqMem s),
                      s\<lparr>tqTenantId := load_tenant v (tqTenantId s), tqMem := quota_of_js v (tqMem s),
                        tqIsLoaded := True\<rparr>)
                else (tqMem s, s\<lparr>tqIsLoaded := True\<rparr>)))"

definition tq_remember :: "unit \<Rightarrow> QuotaState \<Rightarrow> TenantQuotaDO \<Rightarrow> TenantQuotaDO" where
  "tq_remember k q s = s\<lparr>tqMem := q, tqIsLoaded := True\<rparr>"

definition tq_save :: "timestamp \<Rightarrow> unit \<Rightarrow> QuotaState \<Rightarrow> TenantQuotaDO \<Rightarrow> TenantQuotaDO" where
  "tq_save now k q s =
     s\<lparr>tqMem := q, tqIsLoaded := True,
       tqStorage := (tqStorage s)(TQ_STORAGE_KEY \<mapsto> js_of_quota now (tqTenantId s) q)\<rparr>"

definition tq_age :: "int \<Rightarrow> timestamp \<Rightarrow> QuotaState \<Rightarrow> QuotaState" where
  "tq_age w t q = q\<lparr>qsEntries := prune_quota t w (qsEntries q)\<rparr>"

lemmas tq_cache_defs = tq_load_def tq_remember_def tq_save_def tq_rebirth_def

definition tq_value :: "TenantQuotaDO \<Rightarrow> QuotaState" where
  "tq_value s = fst (tq_load () s)"

lemma usage_loop_sum:
  "usage_loop c proj es n =
     n + sum_list (map qeCount (filter (\<lambda>e. c < qeTimestamp e \<and> (\<not> truthy_str proj \<or> qeProject e = proj)) es))"
  by (induction es arbitrary: n) auto

interpretation quota_entries: sliding_window qeTimestamp qeCount prune_quota "\<lambda>now w es. calculateUsage es w now None"
  by unfold_locales (simp_all add: prune_quota_def calculateUsage_def usage_loop_sum truthy_str_def)

lemma tq_age_absorb: "t \<le> t' \<Longrightarrow> tq_age w t' (tq_age w t q) = tq_age w t' q"
  by (simp add: tq_age_def quota_entries.prune_absorb)

interpretation tq_cache: aging_cache tq_load tq_remember "tq_save now" tq_rebirth "tq_age w"
  rewrites "durable_cache.view tq_load = (\<lambda>s k. tq_value s)" for now w
proof -
  show ac: "aging_cache tq_load tq_remember (tq_save now) tq_rebirth (tq_age w)" for now w
    by unfold_locales (auto simp: tq_cache_defs tq_age_absorb split: option.splits)
  have "durable_cache tq_load tq_remember (tq_save 0) tq_rebirth"
    by (rule aging_cache.axioms(1) [OF ac])
  then show "durable_cache.view tq_load = (\<lambda>s k. tq_value s)"
    by (simp add: fun_eq_iff tq_value_def durable_cache.view_def)
qed

text \<open>Storage that this object wrote, or that was never written.\<close>

definition tq_written :: "string \<Rightarrow> js option \<Rightarrow> bool" where
  "tq_written tenant v \<longleftrightarrow> v = None \<or> (\<exists>t q. v = Some (js_of_quota t tenant q))"

lemma tq_written_simps [simp]: "tq_written tenant None" "tq_written tenant (Some (js_of_quota t tenant q))"
  by (auto simp: tq_written_def)

definition tq_stored_ok :: "TenantQuotaDO \<Rightarrow> bool" where
  "tq_stored_ok s \<longleftrightarrow>
     tqTenantId s \<noteq> [] \<and> tqResolvedTenant s \<noteq> [] \<and> tq_written (tqTenantId s) (tqStorage s TQ_STORAGE_KEY)"

lemma tq_ensureLoaded_ok:
  assumes "tq_stored_ok s"
  shows "tq_ensureLoaded now s =
     (Inr (), if tqIsLoaded s then s else tq_remember () (tq_age (tqRpdWindowMs s) now (tq_value s)) s)"
proof (cases "tqStorage s TQ_STORAGE_KEY")
  case None
  then show ?thesis
    by (simp add: tq_ensureLoaded_def tq_remember_def tq_age_def tq_value_def tq_load_def
        tq_pruneEntries_def Let_def)
next
  case (Some v)
  with assms obtain t q where "v = js_of_quota t (tqTenantId s) q"
    by (auto simp: tq_stored_ok_def tq_written_def)
  with Some assms show ?thesis
    by (simp add: tq_ensureLoaded_def tq_remember_def tq_age_def tq_value_def tq_load_def
        tq_pruneEntries_def Let_def load_tier_def load_entries_def load_total_def load_bigint_def
        load_bool_def load_num_def load_tenant_def tq_stored_ok_def bigint_roundtrip map_idI)
qed

section \<open>Lemmas: every operation reads or rewrites the state\<close>

lemma tq_value_simps [simp]:
  "tq_value (tq_remember k q s) = q" "tq_value (tq_save now k q s) = q"
  "tq_value (tq_rebirth (tq_save now k q s)) = q"
  "tq_value (tq_rebirth (tq_remember k q s)) = tq_value (tq_rebirth s)"
  by (simp_all add: tq_value_def tq_cache_defs)

lemma tq_value_loaded: "tqIsLoaded s \<Longrightarrow> tq_value s = tqMem s"
  by (simp add: tq_value_def tq_load_def)

definition tq_windows :: "TenantQuotaDO \<Rightarrow> int \<times> int \<times> string \<times> UserTier" where
  "tq_windows s = (tqRpmWindowMs s, tqRpdWindowMs s, tqResolvedTenant s, tqInitialTier s)"

text \<open>A loaded rewrite: \<open>f\<close> on the loaded snapshot, pruned, written through.\<close>

definition tq_rewrite :: "timestamp \<Rightarrow> (QuotaState \<Rightarrow> QuotaState) \<Rightarrow> TenantQuotaDO \<Rightarrow> TenantQuotaDO" where
  "tq_rewrite now f s =
     tq_save now () (tq_age (tqRpdWindowMs s) now
       (f (if tqIsLoaded s then tqMem s else tq_age (tqRpdWindowMs s) now (tq_value s)))) s"

lemma tq_persist_save:
  "tqIsLoaded s \<Longrightarrow> tq_persist now s = tq_save now () (tq_age (tqRpdWindowMs s) now (tqMem s)) s"
  by (simp add: tq_persist_def tq_save_def tq_age_def tq_pruneEntries_def Let_def)

lemma tq_ops_rewrite:
  assumes "tq_stored_ok s"
  shows "tq_accrueDebt now cu s = (Inr (), tq_rewrite now (\<lambda>q. q\<lparr>qsDebt :=
           (let d = (qsDebt q)\<lparr>dsDebt := dsDebt (qsDebt q) + cu\<rparr> in
            d\<lparr>dsCeiling := calculateMultiplierCeiling (dsDebt d) (dsContributed d) (dsTrusted d)\<rparr>)\<rparr>) s)"
    and "tq_decrementDebt now cu s = (Inr (), tq_rewrite now (\<lambda>q. q\<lparr>qsDebt :=
           (let d = (qsDebt q)\<lparr>dsDebt := (if dsDebt (qsDebt q) > cu then dsDebt (qsDebt q) - cu else 0),
                               dsContributed := dsContributed (qsDebt q) + cu\<rparr> in
            d\<lparr>dsCeiling := calculateMultiplierCeiling (dsDebt d) (dsContributed d) (dsTrusted d)\<rparr>)\<rparr>) s)"
    and "tq_alarm now s = (Inr (), (tq_rewrite now (\<lambda>q. q\<lparr>qsDebt := processDailyDebtReset (qsDebt q)\<rparr>) s)
           \<lparr>tqAlarm := Some (next_midnight now)\<rparr>)"
    and "tq_setTier now tier s = (Inr (), tq_rewrite now (\<lambda>q. q\<lparr>qsTier := tier\<rparr>) s)"
    and "tq_reset now s = (Inr (), tq_rewrite now (\<lambda>q. q\<lparr>qsEntries := [], qsTotal := 0\<rparr>) s)"
  by (cases "tqIsLoaded s"; simp add: tq_accrueDebt_def tq_decrementDebt_def tq_alarm_def
      tq_setTier_def tq_reset_def when_loaded_def tq_ensureLoaded_ok [OF assms] tq_persist_save
      set_debt_def tq_updateMultiplierCeiling_def tq_rewrite_def tq_save_def tq_remember_def Let_def)+

lemma tq_rewrite_value [simp]:
  "tq_value (tq_rewrite now f s) = tq_age (tqRpdWindowMs s) now
     (f (if tqIsLoaded s then tq_value s else tq_age (tqRpdWindowMs s) now (tq_value s)))"
  "tq_value (tq_rebirth (tq_rewrite now f s)) = tq_value (tq_rewrite now f s)"
  by (simp_all add: tq_rewrite_def tq_value_loaded)

lemma tq_rewrite_fields [simp]:
  "tq_windows (tq_rewrite now f s) = tq_windows s" "tqIsLoaded (tq_rewrite now f s)"
  "tq_stored_ok s \<Longrightarrow> tq_stored_ok (tq_rewrite now f s)"
  by (auto simp: tq_rewrite_def tq_save_def tq_windows_def tq_stored_ok_def)

text \<open>What \<open>consumeQuota\<close> adds, as a function of the pruned snapshot.\<close>

definition tq_context :: "timestamp \<Rightarrow> TenantQuotaDO \<Rightarrow> QuotaState \<Rightarrow> QuotaEvaluationContext" where
  "tq_context now s q =
     \<lparr>qcTenantId = tqTenantId s, qcTier = tier_name (qsTier q), qcEntries = qsEntries q,
      qcTotal = qsTotal q, qcDebtState = qsDebt q, qcRpmWindowMs = tqRpmWindowMs s,
      qcRpdWindowMs = tqRpdWindowMs s, qcNow = now\<rparr>"

lemma prune_quota_idem [simp]: "prune_quota t w (prune_quota t w es) = prune_quota t w es"
  by (simp add: prune_quota_def)

lemma tq_consume_foreign:
  "tq_assertTenant (rqTenantId req) s = Inl e \<Longrightarrow> tq_consumeQuota now req s = (Inl e, s)"
  by (simp add: tq_consumeQuota_def)

lemma tq_load_and_prune:
  assumes "tq_stored_ok s"
  obtains s1 where "tq_ensureLoaded now s = (Inr (), s1)"
    "tq_pruneEntries now s1 = tq_remember () (tq_age (tqRpdWindowMs s) now (tq_value s)) s"
proof (cases "tqIsLoaded s")
  case True
  then have "tq_pruneEntries now s = tq_remember () (tq_age (tqRpdWindowMs s) now (tq_value s)) s"
    by (cases s) (simp add: tq_pruneEntries_def tq_remember_def tq_age_def tq_value_loaded)
  with True show thesis by (intro that [of s]) (simp_all add: tq_ensureLoaded_ok [OF assms])
next
  case False
  then show thesis
    by (intro that [of "tq_remember () (tq_age (tqRpdWindowMs s) now (tq_value s)) s"])
      (simp_all add: tq_ensureLoaded_ok [OF assms] tq_pruneEntries_def tq_remember_def tq_age_def)
qed

lemma tq_consume_eq:
  assumes "tq_stored_ok s" "tq_assertTenant (rqTenantId req) s = Inr ()"
  shows "tq_consumeQuota now req s =
     (let q = tq_age (tqRpdWindowMs s) now (tq_value s);
          (result, entry, cost) = evaluateQuota req (tq_context now s q)
      in (Inr result,
          case entry of
            Some e \<Rightarrow> tq_save now () (tq_age (tqRpdWindowMs s) now
                        (q\<lparr>qsEntries := qsEntries q @ [e], qsTotal := qsTotal q + cost\<rparr>)) s
          | None \<Rightarrow> tq_remember () q s))"
proof -
  define q where "q = tq_age (tqRpdWindowMs s) now (tq_value s)"
  obtain s1 where s1: "tq_ensureLoaded now s = (Inr (), s1)" "tq_pruneEntries now s1 = tq_remember () q s"
    using tq_load_and_prune [OF assms(1)] unfolding q_def by blast
  obtain result entry cost where ev: "evaluateQuota req (tq_context now s q) = (result, entry, cost)"
    by (cases "evaluateQuota req (tq_context now s q)")
  have fields: "tqMem (tq_remember () q s) = q" "tqTenantId (tq_remember () q s) = tqTenantId s"
    "tqRpmWindowMs (tq_remember () q s) = tqRpmWindowMs s" "tqRpdWindowMs (tq_remember () q s) = tqRpdWindowMs s"
    by (simp_all add: tq_remember_def)
  have persist: "tq_persist now ((tq_remember () q s)\<lparr>tqMem := q'\<rparr>) =
      tq_save now () (tq_age (tqRpdWindowMs s) now q') s" for q'
    by (simp add: tq_persist_def tq_pruneEntries_def tq_save_def tq_remember_def tq_age_def Let_def)
  show ?thesis
    unfolding q_def [symmetric] using ev
    by (cases entry) (simp_all add: tq_consumeQuota_def assms(2) when_loaded_def s1 fields persist
        tq_context_def)
qed

section \<open>Runs of a tenant's object\<close>

definition requested_count :: "ConsumeQuotaRequest \<Rightarrow> int" where
  "requested_count req = (case rqCount req of Some n \<Rightarrow> if n > 0 then n else 1 | None \<Rightarrow> 1)"

lemma requested_count_pos [simp]: "0 < requested_count req"
  by (simp add: requested_count_def split: option.splits)

lemma evaluateQuota_entry:
  assumes "evaluateQuota req ctx = (r, Some e, c)"
  shows "qeTimestamp e = qcNow ctx" "qeCount e = requested_count req" "cqAllowed r"
    "\<not> over_limit (tlRpmLimit (getTierLimits (first_some (rqTier req) (qcTier ctx))))
        (calculateUsage (qcEntries ctx) (qcRpmWindowMs ctx) (qcNow ctx) None + qeCount e)"
    "\<not> over_limit (tlRpdLimit (getTierLimits (first_some (rqTier req) (qcTier ctx))))
        (calculateUsage (qcEntries ctx) (qcRpdWindowMs ctx) (qcNow ctx) None + qeCount e)"
    "c = toMicrodollars (rqCost req)"
  using assms by (auto simp: evaluateQuota_def requested_count_def [symmetric] Let_def split: if_splits)

lemma evaluateQuota_no_entry:
  "evaluateQuota req ctx = (r, None, c) \<Longrightarrow> \<not> cqAllowed r \<or> rqCheckOnly req"
  by (auto simp: evaluateQuota_def Let_def split: if_splits)

datatype quota_event =
    QConsume ConsumeQuotaRequest
  | QAccrue int
  | QDecrement int
  | QAlarm
  | QEvict

text \<open>One event; the log keeps time and count of the requests that were let through and counted.\<close>

fun quota_step :: "timestamp \<times> quota_event \<Rightarrow> TenantQuotaDO \<times> (timestamp \<times> int) list \<Rightarrow>
    TenantQuotaDO \<times> (timestamp \<times> int) list" where
  "quota_step (now, QConsume req) (s, sent) =
     (case tq_consumeQuota now req s of
        (Inl _, s1) \<Rightarrow> (s1, sent)
      | (Inr r, s1) \<Rightarrow> (s1, if cqAllowed r \<and> \<not> rqCheckOnly req then sent @ [(now, requested_count req)] else sent))"
| "quota_step (now, QAccrue cu) (s, sent) = (snd (tq_accrueDebt now cu s), sent)"
| "quota_step (now, QDecrement cu) (s, sent) = (snd (tq_decrementDebt now cu s), sent)"
| "quota_step (now, QAlarm) (s, sent) = (snd (tq_alarm now s), sent)"
| "quota_step (now, QEvict) (s, sent) = (tq_rebirth s, sent)"

definition quota_run :: "(timestamp \<times> quota_event) list \<Rightarrow> TenantQuotaDO \<Rightarrow>
    TenantQuotaDO \<times> (timestamp \<times> int) list" where
  "quota_run evs s = fold quota_step evs (s, [])"

definition sent_in :: "timestamp \<Rightarrow> int \<Rightarrow> (timestamp \<times> int) list \<Rightarrow> int" where
  "sent_in now w sent = sum_list (map snd (filter (\<lambda>a. now - w < fst a) sent))"

interpretation quota_log: sliding_window fst snd "\<lambda>now w. filter (\<lambda>a. now - w < fst a)" sent_in
  by unfold_locales (simp_all add: sent_in_def)

definition quota_within :: "int \<Rightarrow> limit \<Rightarrow> (timestamp \<times> int) list \<Rightarrow> bool" where
  "quota_within w l sent \<longleftrightarrow>
     (\<forall>p e q. sent = p @ e # q \<longrightarrow> \<not> over_limit l (sent_in (fst e) w (p @ [e])))"

definition quota_accounts :: "int \<Rightarrow> timestamp \<Rightarrow> UserTier \<Rightarrow> (timestamp \<times> int) list \<Rightarrow> QuotaState \<Rightarrow> bool" where
  "quota_accounts dw now tier sent q \<longleftrightarrow>
     qsTier q = tier \<and>
     (\<forall>t w. now \<le> t \<longrightarrow> w \<le> dw \<longrightarrow> calculateUsage (qsEntries q) w t None = sent_in t w sent)"

definition quota_inv :: "UserTier \<Rightarrow> timestamp \<Rightarrow> TenantQuotaDO \<times> (timestamp \<times> int) list \<Rightarrow> bool" where
  "quota_inv tier now = (\<lambda>(s, sent).
     tq_stored_ok s \<and> tqTenantId s = tqResolvedTenant s \<and> tqRpmWindowMs s \<le> tqRpdWindowMs s \<and>
     quota_accounts (tqRpdWindowMs s) now tier sent (tq_value s) \<and>
     quota_accounts (tqRpdWindowMs s) now tier sent (tq_value (tq_rebirth s)) \<and>
     sorted (map fst sent) \<and> (\<forall>a\<in>set sent. fst a \<le> now \<and> 0 < snd a) \<and>
     quota_within (tqRpmWindowMs s) (tlRpmLimit (TIER_LIMITS_MAP tier)) sent \<and>
     quota_within (tqRpdWindowMs s) (tlRpdLimit (TIER_LIMITS_MAP tier)) sent)"

lemma quota_accounts_later: "quota_accounts dw now T sent q \<Longrightarrow> now \<le> t \<Longrightarrow> quota_accounts dw t T sent q"
  by (auto simp: quota_accounts_def)

lemma quota_accounts_age:
  "quota_accounts dw now T sent q \<Longrightarrow> now \<le> t \<Longrightarrow> quota_accounts dw t T sent (tq_age dw t q)"
  by (auto simp: quota_accounts_def tq_age_def quota_entries.usage_prune)

lemma quota_accounts_debt:
  "quota_accounts dw now T sent q \<Longrightarrow> quota_accounts dw now T sent (q\<lparr>qsDebt := d\<rparr>)"
  by (simp add: quota_accounts_def)

lemma quota_accounts_push:
  "quota_accounts dw now T sent q \<Longrightarrow> qeTimestamp e = now \<Longrightarrow> qeCount e = n \<Longrightarrow>
   quota_accounts dw now T (sent @ [(now, n)]) (q\<lparr>qsEntries := qsEntries q @ [e], qsTotal := c\<rparr>)"
  by (simp add: quota_accounts_def quota_entries.usage_append quota_log.usage_append
      quota_entries.usage_sum quota_log.usage_sum)

lemma quota_within_snoc:
  "quota_within w l sent \<Longrightarrow> \<not> over_limit l (sent_in t w (sent @ [(t, n)])) \<Longrightarrow>
   quota_within w l (sent @ [(t, n)])"
  unfolding quota_within_def
  by (metis append_butlast_last_id butlast.simps(2) butlast_append butlast_snoc fst_conv last.simps
      last_append last_snoc list.distinct(1))

lemma quota_inv_later: "quota_inv T now (s, sent) \<Longrightarrow> now \<le> t \<Longrightarrow> quota_inv T t (s, sent)"
  by (auto simp: quota_inv_def intro: quota_accounts_later order_trans)

lemma quota_inv_rewrite:
  assumes "quota_inv T now (s, sent)"
    and f: "\<And>q. quota_accounts (tqRpdWindowMs s) now T sent q \<Longrightarrow>
                 quota_accounts (tqRpdWindowMs s) now T sent (f q)"
  shows "quota_inv T now (tq_rewrite now f s, sent)"
proof -
  have acc: "quota_accounts (tqRpdWindowMs s) now T sent (tq_value s)" using assms(1) by (simp add: quota_inv_def)
  then have "quota_accounts (tqRpdWindowMs s) now T sent
      (f (if tqIsLoaded s then tq_value s else tq_age (tqRpdWindowMs s) now (tq_value s)))"
    by (auto intro!: f quota_accounts_age)
  then have "quota_accounts (tqRpdWindowMs s) now T sent (tq_value (tq_rewrite now f s))"
    by (simp add: quota_accounts_age)
  moreover have "tqTenantId (tq_rewrite now f s) = tqTenantId s" by (simp add: tq_rewrite_def tq_save_def)
  ultimately show ?thesis
    using assms(1) tq_rewrite_fields(1) [of now f s]
    by (auto simp: quota_inv_def tq_windows_def)
qed

lemma tq_alarm_irrelevant [simp]:
  "tq_value (s\<lparr>tqAlarm := a\<rparr>) = tq_value s"
  "tq_value (tq_rebirth (s\<lparr>tqAlarm := a\<rparr>)) = tq_value (tq_rebirth s)"
  "tq_stored_ok (s\<lparr>tqAlarm := a\<rparr>) = tq_stored_ok s"
  by (auto simp: tq_value_def tq_load_def tq_rebirth_def tq_stored_ok_def split: option.splits)

lemma quota_inv_alarm [simp]: "quota_inv T now (s\<lparr>tqAlarm := a\<rparr>, sent) = quota_inv T now (s, sent)"
  by (simp add: quota_inv_def)

lemma tq_rebirth_fields [simp]:
  "tqTenantId (tq_rebirth s) = tqResolvedTenant s" "tqResolvedTenant (tq_rebirth s) = tqResolvedTenant s"
  "tqStorage (tq_rebirth s) = tqStorage s" "tqRpmWindowMs (tq_rebirth s) = tqRpmWindowMs s"
  "tqRpdWindowMs (tq_rebirth s) = tqRpdWindowMs s" "tq_rebirth (tq_rebirth s) = tq_rebirth s"
  by (simp_all add: tq_rebirth_def)

lemma quota_inv_rebirth: "quota_inv T now (s, sent) \<Longrightarrow> quota_inv T now (tq_rebirth s, sent)"
  unfolding quota_inv_def by (auto simp: tq_stored_ok_def)

lemma tier_limits_name [simp]: "getTierLimits (tier_name T) = TIER_LIMITS_MAP T"
  by (simp add: getTierLimits_def)

lemma over_limit_mono: "over_limit l m \<Longrightarrow> m \<le> n \<Longrightarrow> over_limit l n"
  by (auto simp: over_limit_def split: option.splits)

lemma quota_inv_store:
  assumes "quota_inv T now (s, sent)" and s': "s' = tq_remember () q s \<or> s' = tq_save now () q s"
    and acc: "quota_accounts (tqRpdWindowMs s) now T sent q"
  shows "quota_inv T now (s', sent)"
  using s' assms(1) acc
  by (elim disjE) (simp_all add: quota_inv_def, auto simp: tq_remember_def tq_save_def tq_stored_ok_def)

lemma quota_inv_admit:
  assumes inv: "quota_inv T now (s, sent)" and n: "0 < n"
    and acc: "quota_accounts (tqRpdWindowMs s) now T (sent @ [(now, n)]) q"
    and rpm: "\<not> over_limit (tlRpmLimit (TIER_LIMITS_MAP T)) (sent_in now (tqRpmWindowMs s) sent + n)"
    and rpd: "\<not> over_limit (tlRpdLimit (TIER_LIMITS_MAP T)) (sent_in now (tqRpdWindowMs s) sent + n)"
  shows "quota_inv T now (tq_save now () q s, sent @ [(now, n)])"
proof -
  have within: "quota_within w l sent \<Longrightarrow> \<not> over_limit l (sent_in now w sent + n) \<Longrightarrow>
      quota_within w l (sent @ [(now, n)])" for w l
    using n over_limit_mono [of l "sent_in now w sent" "sent_in now w sent + n"]
    by (intro quota_within_snoc) (auto simp: quota_log.usage_snoc)
  have "sorted (map fst (sent @ [(now, n)]))"
    using inv by (auto simp: quota_inv_def sorted_append)
  moreover have "tq_stored_ok (tq_save now () q s)"
    using inv by (auto simp: quota_inv_def tq_stored_ok_def tq_save_def)
  ultimately show ?thesis
    using inv acc n within [OF _ rpm] within [OF _ rpd]
    by (simp add: quota_inv_def) (simp add: tq_save_def)
qed

lemma quota_inv_consume:
  assumes inv: "quota_inv T now (s, sent)" and tier: "rqTier req = None"
  shows "quota_inv T now (quota_step (now, QConsume req) (s, sent))"
proof (cases "tq_assertTenant (rqTenantId req) s")
  case (Inl e)
  then have "tq_consumeQuota now req s = (Inl e, s)" by (rule tq_consume_foreign)
  with inv show ?thesis by simp
next
  case (Inr u)
  define q where "q = tq_age (tqRpdWindowMs s) now (tq_value s)"
  obtain r entry c where ev: "evaluateQuota req (tq_context now s q) = (r, entry, c)"
    by (cases "evaluateQuota req (tq_context now s q)")
  have ok: "tq_stored_ok s" and win: "tqRpmWindowMs s \<le> tqRpdWindowMs s"
    and acc: "quota_accounts (tqRpdWindowMs s) now T sent q"
    using inv by (auto simp: quota_inv_def q_def intro: quota_accounts_age)
  from acc have T: "qsTier q = T" by (simp add: quota_accounts_def)
  have res: "tq_consumeQuota now req s = (Inr r,
      case entry of Some e \<Rightarrow> tq_save now () (tq_age (tqRpdWindowMs s) now
                        (q\<lparr>qsEntries := qsEntries q @ [e], qsTotal := qsTotal q + c\<rparr>)) s
        | None \<Rightarrow> tq_remember () q s)"
    using tq_consume_eq [OF ok, of req now] Inr ev unfolding q_def [symmetric] by (simp add: Let_def)
  show ?thesis
  proof (cases entry)
    case None
    with ev evaluateQuota_no_entry have "\<not> cqAllowed r \<or> rqCheckOnly req" by blast
    with None res quota_inv_store [OF inv _ acc] show ?thesis by auto
  next
    case (Some e)
    note adm = evaluateQuota_entry [OF ev [unfolded Some]]
    have e: "qeTimestamp e = now" "qeCount e = requested_count req"
      using adm(1,2) by (simp_all add: tq_context_def)
    have use: "calculateUsage (qsEntries q) w now None = sent_in now w sent" if "w \<le> tqRpdWindowMs s" for w
      using acc that by (simp add: quota_accounts_def)
    have lims: "\<not> over_limit (tlRpmLimit (TIER_LIMITS_MAP T))
        (sent_in now (tqRpmWindowMs s) sent + requested_count req)"
      "\<not> over_limit (tlRpdLimit (TIER_LIMITS_MAP T))
        (sent_in now (tqRpdWindowMs s) sent + requested_count req)"
      using adm(4,5) by (simp_all add: tq_context_def tier T use win e)
    have "cqAllowed r \<and> \<not> rqCheckOnly req"
      using ev Some adm(3) by (auto simp: evaluateQuota_def Let_def split: if_splits)
    moreover have "quota_inv T now (tq_save now () (tq_age (tqRpdWindowMs s) now
        (q\<lparr>qsEntries := qsEntries q @ [e], qsTotal := qsTotal q + c\<rparr>)) s, sent @ [(now, requested_count req)])"
      by (rule quota_inv_admit [OF inv _ quota_accounts_age [OF quota_accounts_push [OF acc e] order_refl] lims])
        simp
    ultimately show ?thesis using res Some by simp
  qed
qed

definition untiered :: "quota_event \<Rightarrow> bool" where
  "untiered ev \<longleftrightarrow> (case ev of QConsume req \<Rightarrow> rqTier req = None | _ \<Rightarrow> True)"

lemma quota_inv_step:
  assumes "quota_inv T now (s, sent)" "untiered ev"
  shows "quota_inv T now (quota_step (now, ev) (s, sent))"
proof -
  have ok: "tq_stored_ok s" using assms(1) by (simp add: quota_inv_def)
  show ?thesis
  proof (cases ev)
    case (QConsume req)
    with assms show ?thesis using quota_inv_consume [OF assms(1), of req] by (simp add: untiered_def)
  next
    case QEvict
    with assms(1) show ?thesis by (simp add: quota_inv_rebirth)
  qed (simp_all add: tq_ops_rewrite [OF ok] quota_inv_rewrite [OF assms(1)] quota_accounts_debt)
qed

lemma quota_step_windows: "tq_stored_ok s \<Longrightarrow> tq_windows (fst (quota_step e (s, sent))) = tq_windows s"
proof (cases e)
  case (Pair now ev)
  assume ok: "tq_stored_ok s"
  show ?thesis
  proof (cases ev)
    case (QConsume req)
    show ?thesis
    proof (cases "tq_assertTenant (rqTenantId req) s")
      case (Inl x)
      with Pair QConsume show ?thesis by (simp add: tq_consume_foreign)
    next
      case (Inr u)
      with Pair QConsume show ?thesis
        by (auto simp: tq_consume_eq [OF ok] Let_def case_prod_beta tq_windows_def tq_save_def
            tq_remember_def split: option.splits)
    qed
  qed (use Pair ok in \<open>simp_all add: tq_ops_rewrite tq_windows_def tq_rewrite_def tq_save_def tq_rebirth_def\<close>)
qed

lemma quota_inv_fold:
  "quota_inv T t0 (s, sent) \<Longrightarrow> sorted (map fst evs) \<Longrightarrow> (\<forall>e\<in>set evs. t0 \<le> fst e \<and> untiered (snd e)) \<Longrightarrow>
   \<exists>t. quota_inv T t (fold quota_step evs (s, sent)) \<and>
       tq_windows (fst (fold quota_step evs (s, sent))) = tq_windows s"
proof (induction evs arbitrary: t0 s sent)
  case (Cons e evs)
  obtain now ev where e: "e = (now, ev)" by (cases e)
  with Cons.prems have inv: "quota_inv T now (s, sent)" by (auto intro: quota_inv_later)
  obtain s1 sent1 where step: "quota_step e (s, sent) = (s1, sent1)" by (cases "quota_step e (s, sent)")
  with quota_inv_step [OF inv, of ev] e Cons.prems(3) have "quota_inv T now (s1, sent1)" by simp
  moreover have "tq_windows s1 = tq_windows s"
    using quota_step_windows [of s e sent] inv step by (simp add: quota_inv_def)
  ultimately show ?case using Cons.IH [of now s1 sent1] Cons.prems e step by auto
qed auto

lemma tq_fresh_step:
  fixes ev :: quota_event and sent :: "(timestamp \<times> int) list"
  assumes "tq_cache.fresh w now s" "tqRpdWindowMs s = w" "tq_stored_ok s" "tqTenantId s = tqResolvedTenant s"
  defines "s' \<equiv> fst (quota_step (now, ev) (s, sent))"
  shows "tq_cache.fresh w now s' \<and> tqRpdWindowMs s' = w \<and> tq_stored_ok s' \<and>
         tqTenantId s' = tqResolvedTenant s'"
proof -
  have save: "tq_cache.fresh w now (tq_save n () q s)" for n q
    using assms(1) by (rule tq_cache.fresh_save)
  have rem: "tq_cache.fresh w now (tq_remember () (tq_age w now (tq_value s)) s)"
    using tq_cache.fresh_remember [OF assms(1)] by simp
  have fields: "tqRpdWindowMs (tq_save n () q s) = w" "tq_stored_ok (tq_save n () q s)"
    "tqTenantId (tq_save n () q s) = tqResolvedTenant (tq_save n () q s)"
    "tqRpdWindowMs (tq_remember () q s) = w" "tq_stored_ok (tq_remember () q s)"
    "tqTenantId (tq_remember () q s) = tqResolvedTenant (tq_remember () q s)" for n q
    using assms(2-4) by (auto simp: tq_save_def tq_remember_def tq_stored_ok_def)
  have alarm: "tq_cache.fresh w now (x\<lparr>tqAlarm := a\<rparr>) = tq_cache.fresh w now x" for x a
    by (simp add: tq_cache.fresh_def)
  show ?thesis
  proof (cases ev)
    case (QConsume req)
    show ?thesis
    proof (cases "tq_assertTenant (rqTenantId req) s")
      case (Inl e)
      then have "tq_consumeQuota now req s = (Inl e, s)" by (rule tq_consume_foreign)
      with assms QConsume show ?thesis by simp
    next
      case (Inr u)
      define q where "q = tq_age w now (tq_value s)"
      obtain r entry c where ev: "evaluateQuota req (tq_context now s q) = (r, entry, c)"
        by (cases "evaluateQuota req (tq_context now s q)")
      have "tq_consumeQuota now req s = (Inr r,
          case entry of Some e \<Rightarrow> tq_save now () (tq_age w now
                            (q\<lparr>qsEntries := qsEntries q @ [e], qsTotal := qsTotal q + c\<rparr>)) s
            | None \<Rightarrow> tq_remember () q s)"
        using tq_consume_eq [OF assms(3), of req now, unfolded assms(2), folded q_def] Inr ev
        by (simp add: Let_def)
      with QConsume show ?thesis
        using save rem fields by (cases entry) (simp_all add: s'_def q_def)
    qed
  next
    case QEvict
    have "tq_cache.fresh w now (tq_rebirth s)" by (simp add: tq_cache.fresh_def)
    with QEvict assms(2-4) show ?thesis by (simp add: s'_def tq_stored_ok_def)
  qed (use save fields in \<open>simp_all add: s'_def tq_ops_rewrite [OF assms(3)] tq_rewrite_def alarm\<close>)
qed

lemma tq_fresh_run:
  "tq_cache.fresh w t0 s \<and> tqRpdWindowMs s = w \<and> tq_stored_ok s \<and> tqTenantId s = tqResolvedTenant s \<Longrightarrow>
   sorted (map fst evs) \<Longrightarrow> (\<forall>e\<in>set evs. t0 \<le> fst e \<and> fst e \<le> t) \<Longrightarrow> t0 \<le> t \<Longrightarrow>
   (let s' = fst (fold quota_step evs (s, sent)) in
    tq_cache.fresh w t s' \<and> tqRpdWindowMs s' = w \<and> tq_stored_ok s' \<and> tqTenantId s' = tqResolvedTenant s')"
proof (induction evs arbitrary: t0 s sent)
  case Nil
  then show ?case by (auto intro: tq_cache.fresh_later)
next
  case (Cons e evs)
  obtain now ev where e: "e = (now, ev)" by (cases e)
  obtain s1 sent1 where step: "quota_step e (s, sent) = (s1, sent1)" by (cases "quota_step e (s, sent)")
  have "tq_cache.fresh w now s" using Cons.prems e by (auto intro: tq_cache.fresh_later)
  with tq_fresh_step [of w now s ev sent] Cons.prems(1) step e
  have "tq_cache.fresh w now s1 \<and> tqRpdWindowMs s1 = w \<and> tq_stored_ok s1 \<and> tqTenantId s1 = tqResolvedTenant s1"
    by simp
  from Cons.IH [OF this] Cons.prems e step show ?case by (auto simp: Let_def)
qed

lemma new_tenant_quota:
  assumes "newTenantQuotaDO now idName idString Map.empty alarm opts = Inr s0"
  shows "tq_stored_ok s0" "tqTenantId s0 = tqResolvedTenant s0" "tq_rebirth s0 = s0"
    "tq_value s0 = initial_quota (tqInitialTier s0)" "tqStorage s0 = Map.empty" "\<not> tqIsLoaded s0"
  using assms by (auto simp: newTenantQuotaDO_def tq_stored_ok_def tq_rebirth_def tq_value_def tq_load_def
      Let_def split: if_splits)

lemma new_quota_inv:
  assumes "newTenantQuotaDO now idName idString Map.empty alarm opts = Inr s0"
    and "tqRpmWindowMs s0 \<le> tqRpdWindowMs s0"
  shows "quota_inv (tqInitialTier s0) t (s0, [])"
  using assms(2) new_tenant_quota [OF assms(1)]
  by (simp add: quota_inv_def quota_accounts_def initial_quota_def quota_within_def)

lemma quota_run_limits:
  assumes "newTenantQuotaDO now idName idString Map.empty alarm opts = Inr s0"
    and "tqRpmWindowMs s0 \<le> tqRpdWindowMs s0"
    and "sorted (map fst evs)" "\<And>e. e \<in> set evs \<Longrightarrow> untiered (snd e)"
  shows "let limits = TIER_LIMITS_MAP (tqInitialTier s0);
             used = (\<lambda>w. sum_list (map snd (filter (\<lambda>a. t - w < fst a \<and> fst a \<le> t) (snd (quota_run evs s0)))))
         in \<not> over_limit (tlRpmLimit limits) (used (tqRpmWindowMs s0)) \<and>
            \<not> over_limit (tlRpdLimit limits) (used (tqRpdWindowMs s0))"
proof -
  let ?T = "tqInitialTier s0"
  obtain t0 where t0: "\<And>e. e \<in> set evs \<Longrightarrow> t0 \<le> fst e"
    using assms(3) by (cases evs) auto
  obtain s sent where run: "fold quota_step evs (s0, []) = (s, sent)"
    by (cases "fold quota_step evs (s0, [])")
  obtain t' where inv: "quota_inv ?T t' (s, sent)" and win: "tq_windows s = tq_windows s0"
    using quota_inv_fold [OF new_quota_inv [OF assms(1,2), of t0] assms(3)] t0 assms(4) run by auto
  have bound: "\<not> over_limit l (sum_list (map snd (filter (\<lambda>a. t - w < fst a \<and> fst a \<le> t) sent)))"
    if within: "quota_within w l sent" and pos: "\<And>m. l = Some m \<Longrightarrow> 0 \<le> m" for w l
  proof (cases l)
    case (Some m)
    have "sent_in t w (filter (\<lambda>a. fst a \<le> t) sent) \<le> m"
      using inv within Some pos
      by (intro quota_log.window_bound)
        (auto simp: quota_inv_def quota_within_def over_limit_def not_less less_imp_le)
    with Some show ?thesis by (simp add: sent_in_def over_limit_def conj_commute)
  qed (simp add: over_limit_def)
  have "0 \<le> m" if "tlRpmLimit (TIER_LIMITS_MAP ?T) = Some m \<or> tlRpdLimit (TIER_LIMITS_MAP ?T) = Some m" for m
    using that by (cases ?T) (auto simp: TIER_LIMITS_MAP_def tier_limits_def)
  then show ?thesis
    using inv bound run win
    by (auto simp: quota_inv_def quota_run_def Let_def tq_windows_def)
qed

section \<open>Properties\<close>

text \<open>
  C8. Over any run of a tenant's object (requests, debt changes, daily alarms, evictions in any
  order), the requests let through in any window of the RPM length never exceed the RPM limit of the
  tenant's tier, nor those in any window of the RPD length the RPD limit, provided no request
  overrides the tier.
\<close>

theorem quota_limits_hold:
  assumes "newTenantQuotaDO now idName idString Map.empty alarm opts = Inr s0"
    and "tqRpmWindowMs s0 \<le> tqRpdWindowMs s0"
    and "sorted (map fst evs)" "\<forall>e\<in>set evs. untiered (snd e)"
  shows "let limits = TIER_LIMITS_MAP (tqInitialTier s0);
             used = (\<lambda>w. sum_list (map snd (filter (\<lambda>a. t - w < fst a \<and> fst a \<le> t) (snd (quota_run evs s0)))))
         in \<not> over_limit (tlRpmLimit limits) (used (tqRpmWindowMs s0)) \<and>
            \<not> over_limit (tlRpdLimit limits) (used (tqRpdWindowMs s0))"
  by (rule quota_run_limits [OF assms(1,2,3)]) (use assms(4) in auto)

definition tq_no_options :: TenantQuotaDOOptions where
  "tq_no_options = \<lparr>toTenantId = None, toInitialTier = Some Probationary, toRpmWindowMs = None,
     toRpdWindowMs = None\<rparr>"

definition tq_example :: TenantQuotaDO where
  "tq_example = \<lparr>tqTenantId = ''acme'', tqMem = initial_quota Probationary, tqIsLoaded = False,
     tqRpmWindowMs = 60000, tqRpdWindowMs = 86400000, tqStorage = Map.empty, tqAlarm = Some 86400000,
     tqResolvedTenant = ''acme'', tqInitialTier = Probationary\<rparr>"

lemma tq_example_new:
  "newTenantQuotaDO 5 (Some ''acme'') ''id'' Map.empty None tq_no_options = Inr tq_example"
proof -
  have "js_trim ''acme'' = ''acme''" by code_simp
  then show ?thesis
    by (simp add: newTenantQuotaDO_def tq_no_options_def tq_example_def next_midnight_def Let_def)
qed

definition plain_request :: ConsumeQuotaRequest where
  "plain_request = \<lparr>rqTenantId = None, rqProjectId = None, rqTier = None, rqProjectMaxSubCap = None,
     rqCost = JBigInt 7, rqCount = None, rqCheckOnly = False\<rparr>"

theorem quota_limits_hold_witness:
  "\<not> over_limit (Some 2) (sum_list (map snd (filter (\<lambda>a. 50 - 60000 < fst a \<and> fst a \<le> 50)
      (snd (quota_run [(10, QConsume plain_request), (20, QEvict), (30, QConsume plain_request),
                       (40, QConsume plain_request)] tq_example)))))"
  using quota_limits_hold [OF tq_example_new, of "[(10, QConsume plain_request), (20, QEvict),
      (30, QConsume plain_request), (40, QConsume plain_request)]" 50]
  by (simp add: untiered_def plain_request_def Let_def TIER_LIMITS_MAP_def tier_limits_def
      tq_example_def del: quota_step.simps)

text \<open>
  What a \<open>consumeQuota\<close> does to a well-formed object: a request it lets through and counts is
  recorded once, in memory and in storage, with its cost added to the total and the reported counters
  those after it; a refused or check-only request changes nothing but the pruning of expired entries,
  and writes nothing.
\<close>

theorem consume_effect:
  assumes "tq_stored_ok s" and "fst (tq_consumeQuota now req s) = Inr r"
  defines "s' \<equiv> snd (tq_consumeQuota now req s)" and "q \<equiv> tq_age (tqRpdWindowMs s) now (tq_value s)"
  shows "if cqAllowed r \<and> \<not> rqCheckOnly req
         then \<exists>e. qeTimestamp e = now \<and> qeCount e = requested_count req \<and>
                  tq_value s' = tq_age (tqRpdWindowMs s) now
                    (q\<lparr>qsEntries := qsEntries q @ [e],
                       qsTotal := qsTotal q + toMicrodollars (rqCost req)\<rparr>) \<and>
                  tq_value (tq_rebirth s') = tq_value s' \<and>
                  cqTotalCost r = bigint_to_string (qsTotal (tq_value s'))
         else tq_value s' = q \<and> tqStorage s' = tqStorage s"
proof -
  have own: "tq_assertTenant (rqTenantId req) s = Inr ()"
    using assms(2) by (cases "tq_assertTenant (rqTenantId req) s") (simp_all add: tq_consume_foreign)
  obtain r' entry c where ev: "evaluateQuota req (tq_context now s q) = (r', entry, c)"
    by (cases "evaluateQuota req (tq_context now s q)")
  note eq = tq_consume_eq [OF assms(1) own, of now, folded q_def]
  have r: "r' = r" using assms(2) ev eq by (simp add: Let_def)
  show ?thesis
  proof (cases entry)
    case None
    with evaluateQuota_no_entry [of req _ r' c] ev r have "\<not> (cqAllowed r \<and> \<not> rqCheckOnly req)" by blast
    with None ev eq show ?thesis by (auto simp: s'_def Let_def tq_remember_def tq_value_def tq_load_def)
  next
    case (Some e)
    note adm = evaluateQuota_entry [OF ev [unfolded Some]]
    have "cqAllowed r \<and> \<not> rqCheckOnly req \<and> cqTotalCost r = bigint_to_string (qsTotal q + c)"
      using ev Some r adm(3)
      by (auto simp: evaluateQuota_def Let_def tq_context_def split: if_splits)
    with Some ev eq adm(1,2,6) show ?thesis
      by (auto simp: s'_def Let_def tq_context_def tq_age_def intro!: exI [of _ e])
  qed
qed

theorem consume_effect_witness:
  "tqStorage (snd (tq_consumeQuota 10 (plain_request\<lparr>rqCheckOnly := True\<rparr>) tq_example)) = Map.empty"
proof -
  have ok: "tq_stored_ok tq_example" by (simp add: tq_example_def tq_stored_ok_def)
  then obtain r where "fst (tq_consumeQuota 10 (plain_request\<lparr>rqCheckOnly := True\<rparr>) tq_example) = Inr r"
    by (simp add: tq_consume_eq tq_assertTenant_def truthy_str_def plain_request_def Let_def case_prod_beta)
  from consume_effect [OF ok this] show ?thesis by (simp add: tq_example_def plain_request_def)
qed

text \<open>
  Tenant isolation: a request that names another tenant, in the header, the body of a consume or
  the body of a tier change, is answered with the isolation error (HTTP 403) and leaves the object
  untouched, memory, storage and alarm.
\<close>

theorem tenant_isolation:
  assumes "truthy_str other" "other \<noteq> Some (tqTenantId s)"
  shows "tq_consumeQuota now (req\<lparr>rqTenantId := other\<rparr>) s = (Inl (TenantIsolationError (tqTenantId s) other), s) \<and>
         (qfHeaderTenant http = other \<longrightarrow> tq_fetch now http s = ((403, IsolationBody (tqTenantId s) other), s)) \<and>
         (qfHeaderTenant http = None \<and> qfMethod http = ''POST'' \<and> qfPath http = ''/tier'' \<and>
          qfBodyTenant http = other \<longrightarrow> tq_fetch now http s = ((403, IsolationBody (tqTenantId s) other), s))"
  using assms
  by (auto simp: tq_consumeQuota_def tq_assertTenant_def tq_fetch_def respond_def CONSUME_PATHS_def truthy_str_def)

theorem tenant_isolation_witness:
  "snd (tq_consumeQuota 10 (plain_request\<lparr>rqTenantId := Some ''evil''\<rparr>) tq_example) = tq_example"
  using tenant_isolation [of "Some ''evil''" tq_example 10 plain_request]
  by (simp add: truthy_str_def tq_example_def)

text \<open>
  Losing the object from memory is unobservable: after any run from a new object, a request, a
  debt accrual or a reset gets the same answer from the object and from a fresh one on its storage,
  and the debt state is the same.
\<close>

theorem quota_survives_eviction:
  assumes "newTenantQuotaDO now0 idName idString Map.empty alarm opts = Inr s0"
    and "sorted (map fst evs)" "\<forall>e\<in>set evs. fst e \<le> now"
  defines "s \<equiv> fst (quota_run evs s0)"
  shows "fst (tq_consumeQuota now req (tq_rebirth s)) = fst (tq_consumeQuota now req s) \<and>
         qsDebt (tq_value (tq_rebirth s)) = qsDebt (tq_value s) \<and>
         qsTier (tq_value (tq_rebirth s)) = qsTier (tq_value s) \<and>
         qsTotal (tq_value (tq_rebirth s)) = qsTotal (tq_value s)"
proof -
  let ?w = "tqRpdWindowMs s0"
  obtain t0 where t0: "\<And>e. e \<in> set evs \<Longrightarrow> t0 \<le> fst e" "t0 \<le> now"
  proof (cases evs)
    case Nil
    then show ?thesis by (intro that [of now]) auto
  next
    case (Cons e es)
    then show ?thesis using assms(2,3) by (intro that [of "fst e"]) auto
  qed
  have "tq_cache.fresh ?w t0 s0"
    using new_tenant_quota(3) [OF assms(1)] by (simp add: tq_cache.fresh_def)
  then have inv: "tq_cache.fresh ?w now s \<and> tqRpdWindowMs s = ?w \<and> tq_stored_ok s \<and> tqTenantId s = tqResolvedTenant s"
    using tq_fresh_run [of ?w t0 s0 evs now "[]"] new_tenant_quota [OF assms(1)] assms(2,3) t0
    by (simp add: s_def quota_run_def Let_def)
  then have age: "tq_age ?w now (tq_value (tq_rebirth s)) = tq_age ?w now (tq_value s)"
    by (simp add: tq_cache.fresh_def)
  have ctx: "tq_context now (tq_rebirth s) = tq_context now s"
    using inv by (simp add: tq_context_def fun_eq_iff)
  have ok: "tq_stored_ok (tq_rebirth s)" using inv by (auto simp: tq_stored_ok_def)
  have own: "tq_assertTenant x (tq_rebirth s) = tq_assertTenant x s" for x
    using inv by (simp add: tq_assertTenant_def)
  have "fst (tq_consumeQuota now req (tq_rebirth s)) = fst (tq_consumeQuota now req s)"
  proof (cases "tq_assertTenant (rqTenantId req) s")
    case (Inl e)
    then show ?thesis by (simp add: tq_consume_foreign own)
  next
    case (Inr u)
    then show ?thesis
      using inv age by (simp add: tq_consume_eq own ok ctx Let_def case_prod_beta)
  qed
  moreover have "qsDebt q = qsDebt q' \<and> qsTier q = qsTier q' \<and> qsTotal q = qsTotal q'"
    if "tq_age ?w now q = tq_age ?w now q'" for q q'
    using that by (cases q; cases q') (simp add: tq_age_def)
  ultimately show ?thesis using age by blast
qed

theorem quota_survives_eviction_witness:
  "fst (tq_consumeQuota 30 plain_request (tq_rebirth (fst (quota_run [(10, QConsume plain_request)] tq_example)))) =
   fst (tq_consumeQuota 30 plain_request (fst (quota_run [(10, QConsume plain_request)] tq_example)))"
  using quota_survives_eviction [OF tq_example_new, of "[(10, QConsume plain_request)]" 30 plain_request]
  by (simp del: quota_step.simps)

end
