(* ===== verification/PoolCoordinator.thy ===== *)
theory PoolCoordinator
  imports Interfaces JsValue
begin

text \<open>
  \<open>src/pool/coordinator_do.ts\<close>: the durable object that watches the whole pool. It adds up the
  volume every tenant reports over five minutes, puts a 60 second brake on a tenant that takes more
  than 35 percent of it, and keeps a health weight per provider. Brakes and weights are in
  durable storage, volumes in memory only. The platform's storage is taken to be present. Key counts
  and latencies are natural numbers.
\<close>

record Volume =
  volAmount :: int
  volTime :: timestamp

record ProviderStats =
  psActiveKeys :: nat
  psQuarantineKeys :: nat
  psLatencyMs :: nat
  psWeight :: nat

record PoolCoordinatorDO =
  tenantVolumes :: "(string, Volume list) jsmap"
  activeBrakes :: "(string, timestamp) jsmap"
  providers :: "(string, ProviderStats) jsmap"
  pcStorage :: storage
  pcAlarm :: "timestamp option"

definition FIVE_MINUTES :: int where "FIVE_MINUTES = 5 * 60 * 1000"
definition BRAKE_MS :: int where "BRAKE_MS = 60 * 1000"

section \<open>Storage\<close>

definition js_of_stats :: "ProviderStats \<Rightarrow> js" where
  "js_of_stats p = JObj [(''activeKeys'', JNum (int (psActiveKeys p))),
     (''quarantineKeys'', JNum (int (psQuarantineKeys p))), (''latencyMs'', JNum (int (psLatencyMs p))),
     (''wProvider'', JNum (int (psWeight p)))]"

definition stats_of_js :: "js \<Rightarrow> ProviderStats" where
  "stats_of_js v = \<lparr>psActiveKeys = nat (num_of (js_get v ''activeKeys'')),
     psQuarantineKeys = nat (num_of (js_get v ''quarantineKeys'')),
     psLatencyMs = nat (num_of (js_get v ''latencyMs'')), psWeight = nat (num_of (js_get v ''wProvider''))\<rparr>"

text \<open>\<open>Object.fromEntries\<close> and \<open>new Map(Object.entries(v))\<close> for a stored object.\<close>

definition js_of_brakes :: "(string, timestamp) jsmap \<Rightarrow> js" where
  "js_of_brakes m = JObj (map (\<lambda>(t, e). (t, JNum e)) m)"

fun load_map :: "(js \<Rightarrow> 'v) \<Rightarrow> js option \<Rightarrow> (string, 'v) jsmap \<Rightarrow> (string, 'v) jsmap" where
  "load_map f (Some (JObj kvs)) old = map (\<lambda>(k, v). (k, f v)) kvs"
| "load_map f _ old = old"

definition pc_initStorage :: "PoolCoordinatorDO \<Rightarrow> PoolCoordinatorDO" where
  "pc_initStorage s =
     s\<lparr>activeBrakes := load_map num_of (pcStorage s ''activeBrakes'') (activeBrakes s),
       providers := load_map stats_of_js (pcStorage s ''providers'') (providers s)\<rparr>"

text \<open>The constructor runs \<open>initStorage\<close> on empty maps and schedules an alarm if there is none.\<close>

definition newPoolCoordinatorDO :: "timestamp \<Rightarrow> storage \<Rightarrow> timestamp option \<Rightarrow> PoolCoordinatorDO" where
  "newPoolCoordinatorDO now store alarm =
     pc_initStorage \<lparr>tenantVolumes = [], activeBrakes = [], providers = [], pcStorage = store,
       pcAlarm = (case alarm of Some a \<Rightarrow> Some a | None \<Rightarrow> Some (now + 60000))\<rparr>"

definition pc_putBrakes :: "PoolCoordinatorDO \<Rightarrow> PoolCoordinatorDO" where
  "pc_putBrakes s = s\<lparr>pcStorage := (pcStorage s)(''activeBrakes'' \<mapsto> js_of_brakes (activeBrakes s))\<rparr>"

definition pc_scheduleNextAlarm :: "timestamp \<Rightarrow> PoolCoordinatorDO \<Rightarrow> PoolCoordinatorDO" where
  "pc_scheduleNextAlarm now s = s\<lparr>pcAlarm := Some (now + 60000)\<rparr>"

section \<open>The alarm\<close>

definition fresh_volumes :: "timestamp \<Rightarrow> Volume list \<Rightarrow> Volume list" where
  "fresh_volumes cutoff vs = filter (\<lambda>v. volTime v > cutoff) vs"

definition pc_alarm :: "timestamp \<Rightarrow> PoolCoordinatorDO \<Rightarrow> PoolCoordinatorDO" where
  "pc_alarm now s =
     (let kept = filter (\<lambda>(t, expiry). \<not> now > expiry) (activeBrakes s);
          changed = (kept \<noteq> activeBrakes s);
          s1 = s\<lparr>activeBrakes := kept\<rparr>;
          s2 = (if changed then pc_putBrakes s1 else s1);
          cutoff = now - FIVE_MINUTES;
          vols = filter (\<lambda>(t, vs). vs \<noteq> [])
                   (map (\<lambda>(t, vs). (t, fresh_volumes cutoff vs)) (tenantVolumes s2))
      in pc_scheduleNextAlarm now (s2\<lparr>tenantVolumes := vols\<rparr>))"

section \<open>Requests\<close>

definition volume_sum :: "Volume list \<Rightarrow> int" where
  "volume_sum vs = fold (\<lambda>v n. n + volAmount v) vs 0"

text \<open>
  \<open>tenantTotal > 0.35 * poolTotal\<close>: the double \<open>0.35\<close> is \<open>6305039478318694 / 2 ^ 54\<close> and
  the product is rounded.
\<close>

definition over_share :: "int \<Rightarrow> int \<Rightarrow> bool" where
  "over_share tenantTotal poolTotal \<longleftrightarrow>
     poolTotal > 0 \<and> tenantTotal * 2 ^ 54 > int (round53 (nat poolTotal * 6305039478318694))"

definition pc_reportVolume ::
  "timestamp \<Rightarrow> string \<Rightarrow> int \<Rightarrow> PoolCoordinatorDO \<Rightarrow> bool \<times> PoolCoordinatorDO" where
  "pc_reportVolume now tenant volume s =
     (let cutoff = now - FIVE_MINUTES;
          vols = fresh_volumes cutoff
                   (first_some (map_of (tenantVolumes s) tenant) [] @ [\<lparr>volAmount = volume, volTime = now\<rparr>]);
          m1 = AList.update tenant vols (tenantVolumes s);
          tenantTotal = volume_sum vols;
          poolTotal = fold (\<lambda>(t, vs) n. n + volume_sum (fresh_volumes cutoff vs)) m1 0;
          m2 = map (\<lambda>(t, vs). (t, fresh_volumes cutoff vs)) m1;
          s1 = s\<lparr>tenantVolumes := m2\<rparr>
      in if over_share tenantTotal poolTotal
         then (True, pc_putBrakes (s1\<lparr>activeBrakes := AList.update tenant (now + BRAKE_MS) (activeBrakes s1)\<rparr>))
         else (False, s1))"

text \<open>\<open>expiry ? Date.now() < expiry : false\<close>.\<close>

definition pc_brakeStatus :: "timestamp \<Rightarrow> string \<Rightarrow> PoolCoordinatorDO \<Rightarrow> bool" where
  "pc_brakeStatus now tenant s =
     (case map_of (activeBrakes s) tenant of Some expiry \<Rightarrow> expiry \<noteq> 0 \<and> now < expiry | None \<Rightarrow> False)"

text \<open>
  The weight \<open>(active / total) * (1000 / (latency || 1000))\<close>, as a multiple of \<open>2 ^ -222\<close>: both
  quotients are rounded doubles over \<open>2 ^ 111\<close>, and so is their product over \<open>2 ^ 222\<close>.
\<close>

definition provider_weight :: "nat \<Rightarrow> nat \<Rightarrow> nat \<Rightarrow> nat" where
  "provider_weight active quarantine latency =
     (let total = active + quarantine in
      if total > 0
      then round53 (ratio_scaled active total * ratio_scaled 1000 (if latency = 0 then 1000 else latency))
      else 2 ^ 222)"

definition pc_updateProvider ::
  "string \<Rightarrow> nat \<Rightarrow> nat \<Rightarrow> nat \<Rightarrow> PoolCoordinatorDO \<Rightarrow> nat \<times> PoolCoordinatorDO" where
  "pc_updateProvider prov active quarantine latency s =
     (let w = provider_weight active quarantine latency;
          m = AList.update prov \<lparr>psActiveKeys = active, psQuarantineKeys = quarantine,
                                 psLatencyMs = latency, psWeight = w\<rparr> (providers s)
      in (w, s\<lparr>providers := m,
               pcStorage := (pcStorage s)(''providers'' \<mapsto>
                 JObj (map (\<lambda>(p, st). (p, js_of_stats st)) m))\<rparr>))"

definition pc_health :: "PoolCoordinatorDO \<Rightarrow> (string, ProviderStats) jsmap" where
  "pc_health s = providers s"

text \<open>The routes of \<open>fetch\<close>, by parsed request.\<close>

datatype pool_request =
    PoolHealth
  | ReportVolume string int
  | UpdateProvider string nat nat nat
  | BrakeStatus string
  | OtherRoute

datatype pool_response =
    HealthData "(string, ProviderStats) jsmap"
  | BrakeApplied bool
  | ProviderUpdated nat
  | Braked bool
  | PoolNotFound

fun pc_fetch :: "timestamp \<Rightarrow> pool_request \<Rightarrow> PoolCoordinatorDO \<Rightarrow> pool_response \<times> PoolCoordinatorDO" where
  "pc_fetch now PoolHealth s = (HealthData (pc_health s), s)"
| "pc_fetch now (ReportVolume t v) s = (let (b, s1) = pc_reportVolume now t v s in (BrakeApplied b, s1))"
| "pc_fetch now (UpdateProvider p a q l) s = (let (w, s1) = pc_updateProvider p a q l s in (ProviderUpdated w, s1))"
| "pc_fetch now (BrakeStatus t) s = (Braked (pc_brakeStatus now t s), s)"
| "pc_fetch now OtherRoute s = (PoolNotFound, s)"

section \<open>Lemmas\<close>

lemma volume_sum_eq: "volume_sum vs = sum_list (map volAmount vs)"
proof -
  have "fold (\<lambda>v n. n + volAmount v) vs n = n + sum_list (map volAmount vs)" for n
    by (induction vs arbitrary: n) auto
  then show ?thesis by (simp add: volume_sum_def)
qed

interpretation volumes: sliding_window volTime volAmount "\<lambda>now w. fresh_volumes (now - w)"
    "\<lambda>now w vs. volume_sum (fresh_volumes (now - w) vs)"
  by unfold_locales (simp_all add: fresh_volumes_def volume_sum_eq)

text \<open>The volume of a pool over the last five minutes, as a sum over its tenants.\<close>

definition pool_volume :: "timestamp \<Rightarrow> (string, Volume list) jsmap \<Rightarrow> int" where
  "pool_volume now m = sum_list (map (\<lambda>(t, vs). volume_sum (fresh_volumes (now - FIVE_MINUTES) vs)) m)"

lemma pool_fold:
  "fold (\<lambda>(t, vs) n. n + volume_sum (fresh_volumes (now - FIVE_MINUTES) vs)) m n = n + pool_volume now m"
  by (induction m arbitrary: n) (auto simp: pool_volume_def)

text \<open>Comparing with the rounded product is comparing with 35 percent, but on the boundary.\<close>

lemma share_rounding:
  "9007199254740992 * round53 (n * 6305039478318694) \<le> 9007199254740993 * (n * 6305039478318694)"
  "9007199254740991 * (n * 6305039478318694) \<le> 9007199254740992 * round53 (n * 6305039478318694)"
proof -
  have pow: "(2 :: nat) ^ 53 = 9007199254740992" "(9007199254740992 :: nat) + 1 = 9007199254740993"
    "(9007199254740992 :: nat) - 1 = 9007199254740991" by simp_all
  show "9007199254740992 * round53 (n * 6305039478318694) \<le> 9007199254740993 * (n * 6305039478318694)"
    "9007199254740991 * (n * 6305039478318694) \<le> 9007199254740992 * round53 (n * 6305039478318694)"
    using round53_error [of "n * 6305039478318694"] unfolding pow by this+
qed

lemma over_share_nat:
  assumes "0 < n"
  shows "over_share (int m) (int n) \<longleftrightarrow> round53 (n * 6305039478318694) < 18014398509481984 * m"
proof -
  define r where "r = round53 (n * 6305039478318694)"
  have "over_share (int m) (int n) \<longleftrightarrow> int r < int m * 2 ^ 54"
    using assms by (simp only: over_share_def r_def nat_int of_nat_0_less_iff simp_thms)
  also have "int m * 2 ^ 54 = int (18014398509481984 * m)" by simp
  also have "int r < int (18014398509481984 * m) \<longleftrightarrow> r < 18014398509481984 * m" by (rule of_nat_less_iff)
  finally show ?thesis by (simp only: r_def)
qed

lemma over_share_lower:
  assumes "0 < p" "p < 2 ^ 45" "35 * p < 100 * t"
  shows "over_share t p"
proof -
  obtain n m where nm: "p = int n" "t = int m" "0 < n" "n < 35184372088832" "35 * n < 100 * m"
    using assms by (cases p; cases t) auto
  with share_rounding(1) [of n] have "round53 (n * 6305039478318694) < 18014398509481984 * m"
    by linarith
  with nm show ?thesis by (simp add: over_share_nat)
qed

lemma over_share_upper:
  assumes "p < 2 ^ 45" "over_share t p"
  shows "35 * p \<le> 100 * t"
proof -
  have "0 < p" "0 < t" using assms(2) by (auto simp: over_share_def intro: ccontr)
  then obtain n m where nm: "p = int n" "t = int m" "0 < n" "n < 35184372088832"
    using assms(1) by (cases p; cases t) auto
  with assms(2) have "round53 (n * 6305039478318694) < 18014398509481984 * m"
    by (simp add: over_share_nat)
  with share_rounding(2) [of n] nm(4) have "35 * n \<le> 100 * m" by linarith
  with nm show ?thesis by simp
qed

lemma fresh_idem [simp]: "fresh_volumes c (fresh_volumes c vs) = fresh_volumes c vs"
  by (simp add: fresh_volumes_def)

lemma pool_volume_fresh [simp]:
  "pool_volume now (map (\<lambda>(t, vs). (t, fresh_volumes (now - FIVE_MINUTES) vs)) m) = pool_volume now m"
  by (induction m) (auto simp: pool_volume_def)

definition tenant_volume :: "timestamp \<Rightarrow> string \<Rightarrow> (string, Volume list) jsmap \<Rightarrow> int" where
  "tenant_volume now tenant m =
     volume_sum (fresh_volumes (now - FIVE_MINUTES) (first_some (map_of m tenant) []))"

lemma report_decision:
  "fst (pc_reportVolume now tenant v s) =
     over_share (tenant_volume now tenant (tenantVolumes (snd (pc_reportVolume now tenant v s))))
                (pool_volume now (tenantVolumes (snd (pc_reportVolume now tenant v s))))"
  by (simp add: pc_reportVolume_def Let_def pool_fold tenant_volume_def map_of_map_snd pc_putBrakes_def)

lemma report_volumes:
  "tenant_volume now tenant (tenantVolumes (snd (pc_reportVolume now tenant v s))) =
     tenant_volume now tenant (tenantVolumes s) + v"
  by (simp add: pc_reportVolume_def Let_def tenant_volume_def map_of_map_snd pc_putBrakes_def
      volume_sum_eq) (simp add: fresh_volumes_def FIVE_MINUTES_def)

lemma load_brakes [simp]: "load_map num_of (Some (js_of_brakes m)) old = m"
  by (simp add: js_of_brakes_def map_idI split_beta)

lemma brake_filter:
  "(now :: timestamp) \<le> u \<Longrightarrow> distinct (map fst m) \<Longrightarrow>
   (case map_of (filter (\<lambda>(t, e). \<not> now > e) m) tenant of Some e \<Rightarrow> e \<noteq> 0 \<and> u < e | None \<Rightarrow> False) =
   (case map_of m tenant of Some e \<Rightarrow> e \<noteq> 0 \<and> u < e | None \<Rightarrow> False)"
  by (auto simp: map_of_filter_fst split: option.splits)

section \<open>Properties\<close>

text \<open>
  A volume report puts the brake on a tenant whenever it takes strictly more than 35 percent of
  the pool's volume of the last five minutes, and never on one that takes less; the binary constant
  can err only on the exact boundary, and does (63 of 180 is braked). A tenant that reports alone is
  always braked.
\<close>

theorem brake_decision:
  fixes s :: PoolCoordinatorDO and tenant :: string and v :: int and now :: timestamp
  defines "r \<equiv> pc_reportVolume now tenant v s"
  defines "p \<equiv> pool_volume now (tenantVolumes (snd r))" and "t \<equiv> tenant_volume now tenant (tenantVolumes s) + v"
  assumes "p < 2 ^ 45"
  shows "(0 < p \<and> 35 * p < 100 * t \<longrightarrow> fst r) \<and> (fst r \<longrightarrow> 0 < p \<and> 35 * p \<le> 100 * t) \<and>
         over_share 63 180 \<and> (0 < p \<and> t = p \<longrightarrow> fst r)"
proof -
  have dec: "fst r = over_share t p"
    unfolding r_def p_def t_def by (subst report_decision) (simp only: report_volumes)
  have "over_share 63 180"
    using over_share_nat [of 180 63] by (simp add: round53_def bitlen_pos Let_def)
  moreover have "over_share t p \<Longrightarrow> 0 < p" by (simp add: over_share_def)
  ultimately show ?thesis
    unfolding dec using over_share_lower [OF _ assms(4)] over_share_upper [OF assms(4)] by auto
qed

definition pool_example :: PoolCoordinatorDO where
  "pool_example = \<lparr>tenantVolumes = [(''b'', [\<lparr>volAmount = 60, volTime = 900\<rparr>])], activeBrakes = [],
     providers = [], pcStorage = Map.empty, pcAlarm = None\<rparr>"

theorem brake_decision_witness:
  "fst (pc_reportVolume 1000 ''a'' 40 pool_example)"
proof -
  have p: "pool_volume 1000 (tenantVolumes (snd (pc_reportVolume 1000 ''a'' 40 pool_example))) = 100"
    "tenant_volume 1000 ''a'' (tenantVolumes pool_example) = 0"
    by (simp_all add: pc_reportVolume_def pool_example_def pool_volume_def tenant_volume_def volume_sum_def
        fresh_volumes_def FIVE_MINUTES_def Let_def pc_putBrakes_def)
  from brake_decision [of 1000 "''a''" 40 pool_example] show ?thesis by (simp add: p)
qed

text \<open>
  A brake holds for exactly 60 seconds from the report that set it. The alarm does not lift it
  early, and it survives the loss of the object, whose successor reads it from storage.
\<close>

theorem brake_lasts_a_minute:
  assumes "fst (pc_reportVolume now tenant v s)" and "0 \<le> now" and "jsmap_ok (activeBrakes s)"
  defines "s' \<equiv> snd (pc_reportVolume now tenant v s)"
  shows "pc_brakeStatus u tenant s' = (u < now + 60000) \<and>
         pc_brakeStatus u tenant (newPoolCoordinatorDO born (pcStorage s') al) = (u < now + 60000) \<and>
         (a \<le> u \<longrightarrow> pc_brakeStatus u tenant (pc_alarm a s') = (u < now + 60000) \<and>
           pc_brakeStatus u tenant (newPoolCoordinatorDO born (pcStorage (pc_alarm a s')) al) = (u < now + 60000))"
proof -
  have brakes: "activeBrakes s' = AList.update tenant (now + 60000) (activeBrakes s)"
    and store: "pcStorage s' ''activeBrakes'' = Some (js_of_brakes (activeBrakes s'))"
    using assms(1) by (auto simp: s'_def pc_reportVolume_def Let_def pc_putBrakes_def BRAKE_MS_def split: if_splits)
  have ok: "distinct (map fst (activeBrakes s'))"
    using assms(3) unfolding brakes by (metis jsmap_ok_update jsmap_ok_def)
  have born: "pc_brakeStatus u tenant (newPoolCoordinatorDO born (pcStorage x) al) = pc_brakeStatus u tenant x"
    if "pcStorage x ''activeBrakes'' = Some (js_of_brakes (activeBrakes x))" for x
    using that by (simp add: pc_brakeStatus_def newPoolCoordinatorDO_def pc_initStorage_def)
  have alarm: "pc_brakeStatus u tenant (pc_alarm a s') = pc_brakeStatus u tenant s'"
    "pcStorage (pc_alarm a s') ''activeBrakes'' = Some (js_of_brakes (activeBrakes (pc_alarm a s')))" if "a \<le> u"
    using brake_filter [OF that ok, of tenant] store
    by (simp_all add: pc_brakeStatus_def pc_alarm_def pc_scheduleNextAlarm_def pc_putBrakes_def Let_def)
  have "pc_brakeStatus u tenant s' = (u < now + 60000)"
    using assms(2) by (simp add: pc_brakeStatus_def brakes)
  then show ?thesis using born [OF store] born alarm by simp
qed

theorem brake_lasts_a_minute_witness:
  "pc_brakeStatus 60999 ''a'' (snd (pc_reportVolume 1000 ''a'' 40 pool_example)) \<and>
   \<not> pc_brakeStatus 61000 ''a'' (snd (pc_reportVolume 1000 ''a'' 40 pool_example))"
proof -
  have "over_share 40 100"
    by (rule over_share_lower) simp_all
  then have b: "fst (pc_reportVolume 1000 ''a'' 40 pool_example)"
    by (simp add: pc_reportVolume_def pool_example_def volume_sum_def fresh_volumes_def FIVE_MINUTES_def Let_def)
  show ?thesis
    using brake_lasts_a_minute [OF b, of 60999] brake_lasts_a_minute [OF b, of 61000]
    by (simp add: pool_example_def)
qed

end
