(* ===== verification/KeyPool.thy ===== *)
theory KeyPool
  imports KeySelection TenantQuota
begin

text \<open>
  \<open>src/durable_objects/key_pool/\<close>: the durable object that owns a tenant's keys. It holds the
  key selector, which holds the one breaker and the one limiter of the object; keys are loaded from
  storage on first use, or from the D1 database when storage has none. The database query is a
  parameter: the rows it returns for a tenant, \<open>None\<close> when there is no binding or it fails.
  What the object stores under \<open>pool:\<close> and \<open>dispatch:\<close> are the typed fields
  \<open>kpStored...\<close>. Telemetry is the list of emitted events.
\<close>

section \<open>Types (types.ts, contracts/key_pool.ts)\<close>

record EncryptedKey = SelectableKey +
  ciphertext :: string
  nonce :: string

definition isEncryptedKey :: "js \<Rightarrow> bool" where
  "isEncryptedKey v \<longleftrightarrow>
     is_object v \<and>
     is_str (js_get v ''id'') \<and> js_trim (str_of (js_get v ''id'')) \<noteq> [] \<and>
     is_str (js_get v ''provider'') \<and> js_trim (str_of (js_get v ''provider'')) \<noteq> [] \<and>
     is_str (js_get v ''ciphertext'') \<and> js_trim (str_of (js_get v ''ciphertext'')) \<noteq> [] \<and>
     is_str (js_get v ''nonce'') \<and> js_trim (str_of (js_get v ''nonce'')) \<noteq> []"

text \<open>The same guard on a value already of the type.\<close>

definition valid_key :: "EncryptedKey \<Rightarrow> bool" where
  "valid_key k \<longleftrightarrow> js_trim (keyId k) \<noteq> [] \<and> js_trim (provider k) \<noteq> [] \<and>
                  js_trim (ciphertext k) \<noteq> [] \<and> js_trim (nonce k) \<noteq> []"

record D1Row =
  rowId :: key_id
  rowTenant :: string
  rowLabel :: string
  rowProvider :: string
  rowCiphertext :: string
  rowNonce :: string
  rowRpmLimit :: int
  rowRpdLimit :: int
  rowStatus :: string
  rowDispatchedToday :: "int option"
  rowDispatchedCommunal :: "int option"
  rowOwnerDebt :: "int option"

type_synonym d1 = "string \<Rightarrow> D1Row list option"

record pool_event =
  evTenant :: string
  evType :: string
  evKey :: key_id
  evProvider :: string
  evCost :: int
  evMeta :: "(string \<times> string) list"
  evTime :: timestamp

datatype kp_error =
    KpTenantIsolation string string "key_id option"
  | KpInvalidKey
  | KpKeyNotFound key_id string
  | KpSelect select_error
  | KpLimiter rl_error
  | KpEmptyTenant

record KeyPoolDO =
  kpCtxId :: string
  kpTenantId :: string
  kpSelector :: "EncryptedKey KeySelector"
  kpIsLoaded :: bool
  kpDispatchedToday :: "(key_id, int) jsmap"
  kpDispatchedCommunal :: "(key_id, int) jsmap"
  kpKeys :: "(key_id, EncryptedKey) jsmap"
  kpStoredKeys :: "EncryptedKey list option"
  kpStoredTenant :: "string option"
  kpStoredToday :: "key_id \<rightharpoonup> int"
  kpStoredCommunal :: "key_id \<rightharpoonup> int"
  kpAlarm :: "timestamp option"
  kpEvents :: "pool_event list"

type_synonym 'r kp_result = "(kp_error + 'r) \<times> KeyPoolDO"

section \<open>Tenant isolation\<close>

definition kp_assertTenant :: "string option \<Rightarrow> key_id option \<Rightarrow> KeyPoolDO \<Rightarrow> unit kp_result" where
  "kp_assertTenant target resource s =
     (case target of
        None \<Rightarrow> (Inr (), s)
      | Some t \<Rightarrow>
          if t = [] then (Inr (), s)
          else if kpTenantId s = kpCtxId s then (Inr (), s\<lparr>kpTenantId := t\<rparr>)
          else if t \<noteq> kpTenantId s then (Inl (KpTenantIsolation (kpTenantId s) t resource), s)
          else (Inr (), s))"

definition owned :: "KeyPoolDO \<Rightarrow> EncryptedKey \<Rightarrow> EncryptedKey" where
  "owned s k = k\<lparr>keyTenantId := Some (kpTenantId s)\<rparr>"

text \<open>The loop that checks each key's tenant and puts a copy into the map.\<close>

fun kp_adopt_keys :: "EncryptedKey list \<Rightarrow> KeyPoolDO \<Rightarrow> unit kp_result" where
  "kp_adopt_keys [] s = (Inr (), s)"
| "kp_adopt_keys (k # ks) s =
     (case kp_assertTenant (keyTenantId k) (Some (keyId k)) s of
        (Inl e, s1) \<Rightarrow> (Inl e, s1)
      | (Inr _, s1) \<Rightarrow>
          kp_adopt_keys ks (s1\<lparr>kpKeys := AList.update (keyId k) (owned s1 k) (kpKeys s1)\<rparr>))"

definition kp_syncSelector :: "KeyPoolDO \<Rightarrow> KeyPoolDO" where
  "kp_syncSelector s = s\<lparr>kpSelector := ks_setKeys (map snd (kpKeys s)) (kpSelector s)\<rparr>"

section \<open>Construction\<close>

definition default_breaker :: "storage \<Rightarrow> CircuitBreaker" where
  "default_breaker store = newCircuitBreaker store cb_no_options"

definition default_limiter :: "storage \<Rightarrow> string \<Rightarrow> RateLimiter" where
  "default_limiter store tenant = newRateLimiter store
     \<lparr>rloTenantId = Some tenant, rloKeyId = None, rloRpmLimit = None, rloRpdLimit = None,
      rloWindowSizeSeconds = None, rloDayWindowSeconds = None, rloMaxBudgetMicrodollars = None,
      rloStorageKeyPrefix = None, rlcDefaultRpmLimit = None, rlcDefaultRpdLimit = None\<rparr>"

text \<open>
  The constructor without injected collaborators: \<open>cbStore\<close>, \<open>rlStore\<close>, \<open>ksStore\<close> are the
  parts of the object's storage under the prefixes of the breaker, the limiter and the selector, the
  further arguments the part under \<open>pool:\<close>.
\<close>

definition newKeyPoolDO ::
  "timestamp \<Rightarrow> string option \<Rightarrow> string \<Rightarrow> string option \<Rightarrow> storage \<Rightarrow> storage \<Rightarrow> storage \<Rightarrow>
   EncryptedKey list option \<Rightarrow> string option \<Rightarrow> timestamp option \<Rightarrow> EncryptedKey list option \<Rightarrow>
   kp_error + KeyPoolDO" where
  "newKeyPoolDO now idName idString optTenant cbStore rlStore ksStore keys tenant alarm initial =
     (let resolved = (case optTenant of Some t \<Rightarrow> t | None \<Rightarrow> first_some idName idString) in
      if resolved = [] \<or> js_trim resolved = [] then Inl KpEmptyTenant
      else
        (let s = \<lparr>kpCtxId = idString, kpTenantId = resolved,
                  kpSelector = newKeySelector (Some resolved) (Some Priority)
                    (Some (default_breaker cbStore)) (Some (default_limiter rlStore resolved))
                    (Some ksStore) None None,
                  kpIsLoaded = False, kpDispatchedToday = [], kpDispatchedCommunal = [], kpKeys = [],
                  kpStoredKeys = keys, kpStoredTenant = tenant, kpStoredToday = Map.empty,
                  kpStoredCommunal = Map.empty,
                  kpAlarm = (case alarm of Some a \<Rightarrow> Some a | None \<Rightarrow> Some (next_midnight now)),
                  kpEvents = []\<rparr>
         in case initial of
              None \<Rightarrow> Inr s
            | Some [] \<Rightarrow> Inr s
            | Some ks \<Rightarrow>
                (case kp_adopt_keys ks s of
                   (Inl e, _) \<Rightarrow> Inl e
                 | (Inr _, s1) \<Rightarrow> Inr ((kp_syncSelector s1)\<lparr>kpIsLoaded := True\<rparr>))))"

section \<open>Storage and D1 hydration\<close>

definition kp_persistKeys :: "KeyPoolDO \<Rightarrow> KeyPoolDO" where
  "kp_persistKeys s = s\<lparr>kpStoredKeys := Some (map snd (kpKeys s)), kpStoredTenant := Some (kpTenantId s)\<rparr>"

text \<open>
  \<open>communal / total\<close> is a rounded quotient (over \<open>2 ^ 111\<close>); \<open>0.1\<close> is
  \<open>3602879701896397 / 2 ^ 55\<close>, \<open>0.8\<close> is \<open>3602879701896397 / 2 ^ 52\<close>.
\<close>

definition is_parasite :: "int \<Rightarrow> int \<Rightarrow> bool" where
  "is_parasite communal sent \<longleftrightarrow>
     sent > 0 \<and> ratio_scaled (nat communal) (nat sent) < 3602879701896397 * 2 ^ 56"

definition is_hero :: "int \<Rightarrow> int \<Rightarrow> bool" where
  "is_hero communal sent \<longleftrightarrow>
     sent > 0 \<and> ratio_scaled (nat communal) (nat sent) \<ge> 3602879701896397 * 2 ^ 59"

text \<open>The priority of a row: own keys first, then debtors' keys, parasites' before heroes'.\<close>

definition row_priority :: "bool \<Rightarrow> int \<Rightarrow> int \<Rightarrow> int \<Rightarrow> int" where
  "row_priority isOwnKey communal sent debt =
     (if isOwnKey then 10000
      else min 5000 (debt div 1000) + (if is_parasite communal sent then 2000 else 0)
           - (if is_hero communal sent then 1000 else 0))"

definition count_of :: "(key_id, int) jsmap \<Rightarrow> key_id \<Rightarrow> int" where
  "count_of m k = first_some (map_of m k) 0"

definition kp_row_key :: "KeyPoolDO \<Rightarrow> D1Row \<Rightarrow> EncryptedKey" where
  "kp_row_key s row =
     \<lparr>keyId = rowId row, provider = rowProvider row, keyTenantId = Some (kpTenantId s),
      keyLabel = Some (rowLabel row),
      priority = Some (row_priority (rowTenant row = kpTenantId s)
        (first_some (rowDispatchedCommunal row) 0 + count_of (kpDispatchedCommunal s) (rowId row))
        (first_some (rowDispatchedToday row) 0 + count_of (kpDispatchedToday s) (rowId row))
        (first_some (rowOwnerDebt row) 0)),
      status = Some (rowStatus row), keyRpmLimit = Some (rowRpmLimit row),
      keyRpdLimit = Some (rowRpdLimit row), circuitOpenUntil = None, lastUsedAt = None,
      ciphertext = rowCiphertext row, nonce = rowNonce row\<rparr>"

definition kp_putD1 :: "D1Row list \<Rightarrow> KeyPoolDO \<Rightarrow> KeyPoolDO" where
  "kp_putD1 rows s =
     (let d1Keys = map (kp_row_key s) rows;
          s1 = s\<lparr>kpKeys := fold (\<lambda>k m. AList.update (keyId k) k m) d1Keys (kpKeys s)\<rparr>
      in (kp_syncSelector s1)\<lparr>kpStoredKeys := Some d1Keys, kpStoredTenant := Some (kpTenantId s)\<rparr>)"

definition kp_loadD1 :: "d1 \<Rightarrow> KeyPoolDO \<Rightarrow> KeyPoolDO" where
  "kp_loadD1 db s =
     (case db (kpTenantId s) of
        None \<Rightarrow> s
      | Some rows \<Rightarrow> if rows = [] then s else kp_putD1 rows s)"

definition kp_ensureLoaded :: "d1 \<Rightarrow> KeyPoolDO \<Rightarrow> unit kp_result" where
  "kp_ensureLoaded db s =
     (if kpIsLoaded s then (Inr (), s)
      else
        (let s1 = (case kpStoredTenant s of
                     Some t \<Rightarrow> if t \<noteq> [] \<and> kpTenantId s = kpCtxId s then s\<lparr>kpTenantId := t\<rparr> else s
                   | None \<Rightarrow> s)
         in case (case kpStoredKeys s1 of
                    None \<Rightarrow> (Inr (), s1)
                  | Some ks \<Rightarrow>
                      (case kp_adopt_keys (filter valid_key ks) s1 of
                         (Inl e, s2) \<Rightarrow> (Inl e, s2)
                       | (Inr _, s2) \<Rightarrow> (Inr (), kp_syncSelector s2))) of
              (Inl e, s2) \<Rightarrow> (Inl e, s2)
            | (Inr _, s2) \<Rightarrow>
                (Inr (), (if kpKeys s2 = [] then kp_loadD1 db s2 else s2)\<lparr>kpIsLoaded := True\<rparr>)))"

definition kp_loadFromStorage :: "d1 \<Rightarrow> KeyPoolDO \<Rightarrow> unit kp_result" where
  "kp_loadFromStorage db s = kp_ensureLoaded db (s\<lparr>kpIsLoaded := False\<rparr>)"

text \<open>The breaker and the limiter the object shares with its selector.\<close>

definition with_breaker :: "(CircuitBreaker \<Rightarrow> 'r \<times> CircuitBreaker) \<Rightarrow> 'r \<Rightarrow> KeyPoolDO \<Rightarrow> 'r \<times> KeyPoolDO" where
  "with_breaker f none s =
     (case circuitBreaker (kpSelector s) of
        Some cb \<Rightarrow> (let (r, cb') = f cb in (r, s\<lparr>kpSelector := (kpSelector s)\<lparr>circuitBreaker := Some cb'\<rparr>\<rparr>))
      | None \<Rightarrow> (none, s))"

definition with_limiter :: "(RateLimiter \<Rightarrow> 'r \<times> RateLimiter) \<Rightarrow> 'r \<Rightarrow> KeyPoolDO \<Rightarrow> 'r \<times> KeyPoolDO" where
  "with_limiter f none s =
     (case rateLimiter (kpSelector s) of
        Some rl \<Rightarrow> (let (r, rl') = f rl in (r, s\<lparr>kpSelector := (kpSelector s)\<lparr>rateLimiter := Some rl'\<rparr>\<rparr>))
      | None \<Rightarrow> (none, s))"

definition kp_clearMemoryCache :: "KeyPoolDO \<Rightarrow> KeyPoolDO" where
  "kp_clearMemoryCache s =
     (let s1 = s\<lparr>kpKeys := [], kpIsLoaded := False, kpSelector := ks_clearMemoryCache (kpSelector s)\<rparr>;
          s2 = snd (with_breaker (\<lambda>cb. ((), cb_clearMemory cb)) () s1)
      in snd (with_limiter (\<lambda>rl. ((), rl_clearMemoryCache rl)) () s2))"

section \<open>Keys\<close>

definition kp_addKeySync :: "EncryptedKey \<Rightarrow> KeyPoolDO \<Rightarrow> unit kp_result" where
  "kp_addKeySync key s =
     (if \<not> valid_key key then (Inl KpInvalidKey, s)
      else case kp_assertTenant (keyTenantId key) (Some (keyId key)) s of
             (Inl e, s1) \<Rightarrow> (Inl e, s1)
           | (Inr _, s1) \<Rightarrow>
               (let safe = owned s1 key
                in (Inr (), s1\<lparr>kpKeys := AList.update (keyId safe) safe (kpKeys s1),
                               kpSelector := ks_addKey safe (kpSelector s1)\<rparr>)))"

fun kp_addKeysSync :: "EncryptedKey list \<Rightarrow> KeyPoolDO \<Rightarrow> unit kp_result" where
  "kp_addKeysSync [] s = (Inr (), s)"
| "kp_addKeysSync (k # ks) s =
     (case kp_addKeySync k s of (Inl e, s1) \<Rightarrow> (Inl e, s1) | (Inr _, s1) \<Rightarrow> kp_addKeysSync ks s1)"

definition kp_loaded :: "d1 \<Rightarrow> (KeyPoolDO \<Rightarrow> 'r kp_result) \<Rightarrow> KeyPoolDO \<Rightarrow> 'r kp_result" where
  "kp_loaded db f s =
     (case kp_ensureLoaded db s of (Inl e, s1) \<Rightarrow> (Inl e, s1) | (Inr _, s1) \<Rightarrow> f s1)"

definition kp_then_persist :: "unit kp_result \<Rightarrow> unit kp_result" where
  "kp_then_persist r = (case r of (Inl e, s) \<Rightarrow> (Inl e, s) | (Inr _, s) \<Rightarrow> (Inr (), kp_persistKeys s))"

definition kp_addKey :: "d1 \<Rightarrow> EncryptedKey \<Rightarrow> KeyPoolDO \<Rightarrow> unit kp_result" where
  "kp_addKey db key = kp_loaded db (\<lambda>s. kp_then_persist (kp_addKeySync key s))"

definition kp_addKeys :: "d1 \<Rightarrow> EncryptedKey list \<Rightarrow> KeyPoolDO \<Rightarrow> unit kp_result" where
  "kp_addKeys db keys = kp_loaded db (\<lambda>s. kp_then_persist (kp_addKeysSync keys s))"

definition kp_setKeys :: "EncryptedKey list \<Rightarrow> KeyPoolDO \<Rightarrow> unit kp_result" where
  "kp_setKeys keys s =
     (case kp_addKeysSync keys (s\<lparr>kpKeys := []\<rparr>) of
        (Inl e, s1) \<Rightarrow> (Inl e, s1)
      | (Inr _, s1) \<Rightarrow> (Inr (), kp_persistKeys (s1\<lparr>kpIsLoaded := True\<rparr>)))"

definition kp_removeKey :: "d1 \<Rightarrow> key_id \<Rightarrow> KeyPoolDO \<Rightarrow> bool kp_result" where
  "kp_removeKey db k = kp_loaded db (\<lambda>s.
     (let fromMap = (map_of (kpKeys s) k \<noteq> None);
          (fromSelector, sel) = ks_removeKey k (kpSelector s);
          s1 = s\<lparr>kpKeys := AList.delete k (kpKeys s), kpSelector := sel\<rparr>
      in if fromMap \<or> fromSelector then (Inr True, kp_persistKeys s1) else (Inr False, s1)))"

definition kp_getKeys :: "d1 \<Rightarrow> string option \<Rightarrow> KeyPoolDO \<Rightarrow> (EncryptedKey list) kp_result" where
  "kp_getKeys db prov = kp_loaded db (\<lambda>s.
     (let everything = map snd (kpKeys s) in
      (Inr (case prov of
              None \<Rightarrow> everything
            | Some p \<Rightarrow>
                if p = [] \<or> p = ''*'' then everything
                else filter (\<lambda>k. normalizeProvider (provider k) = normalizeProvider p) everything), s)))"

definition kp_getKeyById :: "d1 \<Rightarrow> key_id \<Rightarrow> KeyPoolDO \<Rightarrow> (EncryptedKey option) kp_result" where
  "kp_getKeyById db k = kp_loaded db (\<lambda>s. (Inr (map_of (kpKeys s) k), s))"

definition kp_hasKey :: "d1 \<Rightarrow> key_id \<Rightarrow> KeyPoolDO \<Rightarrow> bool kp_result" where
  "kp_hasKey db k = kp_loaded db (\<lambda>s. (Inr (map_of (kpKeys s) k \<noteq> None), s))"

definition kp_getKeyCount :: "d1 \<Rightarrow> string option \<Rightarrow> KeyPoolDO \<Rightarrow> int kp_result" where
  "kp_getKeyCount db prov s =
     (let (r, s1) = kp_getKeys db prov s in (map_sum id (\<lambda>ks. int (length ks)) r, s1))"

definition kp_clearKeys :: "KeyPoolDO \<Rightarrow> KeyPoolDO" where
  "kp_clearKeys s =
     kp_persistKeys (s\<lparr>kpKeys := [], kpSelector := ks_clearKeys (kpSelector s), kpIsLoaded := True\<rparr>)"

section \<open>Telemetry and dispatch counters\<close>

definition kp_emit ::
  "timestamp \<Rightarrow> string \<Rightarrow> key_id \<Rightarrow> int \<Rightarrow> (string \<times> string) list \<Rightarrow> KeyPoolDO \<Rightarrow> KeyPoolDO" where
  "kp_emit now eventType k cost meta s =
     s\<lparr>kpEvents := kpEvents s @
        [\<lparr>evTenant = kpTenantId s, evType = eventType, evKey = k,
          evProvider = (case map_of (kpKeys s) k of Some key \<Rightarrow> provider key | None \<Rightarrow> ''unknown''),
          evCost = cost, evMeta = meta, evTime = now\<rparr>]\<rparr>"

definition kp_recordDispatch :: "key_id \<Rightarrow> bool \<Rightarrow> KeyPoolDO \<Rightarrow> KeyPoolDO" where
  "kp_recordDispatch k isCommunal s =
     (let today = count_of (kpDispatchedToday s) k + 1;
          s1 = s\<lparr>kpDispatchedToday := AList.update k today (kpDispatchedToday s),
                 kpStoredToday := (kpStoredToday s)(k \<mapsto> today)\<rparr>;
          communal = count_of (kpDispatchedCommunal s1) k + 1
      in if isCommunal
         then s1\<lparr>kpDispatchedCommunal := AList.update k communal (kpDispatchedCommunal s1),
                 kpStoredCommunal := (kpStoredCommunal s1)(k \<mapsto> communal)\<rparr>
         else s1)"

text \<open>The class of a key at the end of the day; the ratio string of the event is left out.\<close>

definition classification :: "int \<Rightarrow> int \<Rightarrow> string" where
  "classification communal sent =
     (if is_hero communal sent then ''HERO'' else if is_parasite communal sent then ''PARASITE'' else ''NORMAL'')"

definition kp_classify :: "timestamp \<Rightarrow> key_id \<Rightarrow> KeyPoolDO \<Rightarrow> KeyPoolDO" where
  "kp_classify now k s =
     (let sent = count_of (kpDispatchedToday s) k; communal = count_of (kpDispatchedCommunal s) k in
      if sent > 0
      then kp_emit now ''key_classification'' k 0 [(''classification'', classification communal sent)] s
      else s)"

definition kp_alarm :: "timestamp \<Rightarrow> KeyPoolDO \<Rightarrow> KeyPoolDO" where
  "kp_alarm now s =
     (let s1 = fold (kp_classify now) (map fst (kpDispatchedToday s)) s
      in s1\<lparr>kpDispatchedToday := [], kpDispatchedCommunal := [], kpAlarm := Some (next_midnight now)\<rparr>)"

section \<open>Selection and feedback\<close>

definition blank :: "string \<Rightarrow> bool" where
  "blank x \<longleftrightarrow> x = [] \<or> js_trim x = []"

definition kp_select ::
  "timestamp \<Rightarrow> nat \<Rightarrow> string \<Rightarrow> EncryptedKey SelectKeyOptions \<Rightarrow> KeyPoolDO \<Rightarrow> (EncryptedKey option) kp_result" where
  "kp_select now rnd prov opts s =
     (let (r, sel) = ks_selectKey now rnd prov opts (kpSelector s)
      in (map_sum KpSelect id r, s\<lparr>kpSelector := sel\<rparr>))"

definition default_select :: "EncryptedKey SelectKeyOptions" where
  "default_select = \<lparr>strategy = None, soCost = None, throwOnExhausted = None,
     fallbackToAnyProvider = None, candidateKeys = None\<rparr>"

text \<open>\<open>selected.id\<close> of an absent key would throw; with these options the selector never returns null.\<close>

definition kp_getKey :: "timestamp \<Rightarrow> nat \<Rightarrow> d1 \<Rightarrow> string \<Rightarrow> KeyPoolDO \<Rightarrow> key_id kp_result" where
  "kp_getKey now rnd db prov s =
     (if blank prov then (Inl KpInvalidKey, s)
      else kp_loaded db (\<lambda>s1.
        (case kp_select now rnd prov default_select s1 of
           (Inl e, s2) \<Rightarrow> (Inl e, s2)
         | (Inr None, s2) \<Rightarrow> (Inl (KpSelect UndefinedKey), s2)
         | (Inr (Some k), s2) \<Rightarrow> (Inr (keyId k), s2))) s)"

definition kp_getKeyDetails ::
  "timestamp \<Rightarrow> nat \<Rightarrow> d1 \<Rightarrow> string \<Rightarrow> EncryptedKey SelectKeyOptions \<Rightarrow> KeyPoolDO \<Rightarrow>
   (EncryptedKey option) kp_result" where
  "kp_getKeyDetails now rnd db prov opts s =
     (if blank prov then (Inl KpInvalidKey, s) else kp_loaded db (kp_select now rnd prov opts) s)"

text \<open>The guard the three feedback calls share: a key id that is not blank and is in the pool.\<close>

definition kp_known_key :: "d1 \<Rightarrow> key_id \<Rightarrow> (KeyPoolDO \<Rightarrow> 'r kp_result) \<Rightarrow> KeyPoolDO \<Rightarrow> 'r kp_result" where
  "kp_known_key db k f s =
     kp_loaded db (\<lambda>s1.
       (case map_of (kpKeys s1) k of
          None \<Rightarrow> (Inl (KpKeyNotFound k (kpTenantId s1)), s1)
        | Some _ \<Rightarrow> f s1)) s"

definition kp_recordUsage :: "timestamp \<Rightarrow> d1 \<Rightarrow> key_id \<Rightarrow> int \<Rightarrow> KeyPoolDO \<Rightarrow> unit kp_result" where
  "kp_recordUsage now db k cost s =
     (if blank k then (Inl KpInvalidKey, s)
      else kp_known_key db k (\<lambda>s1.
        (case with_limiter (rl_increment now (Some (Inl k)) (Some cost)) (Inr ()) s1 of
           (Inl e, s2) \<Rightarrow> (Inl (KpLimiter e), s2)
         | (Inr _, s2) \<Rightarrow>
             (Inr (), kp_emit now ''key_usage'' k cost []
                        (s2\<lparr>kpSelector := ks_recordUsage k (kpSelector s2)\<rparr>)))) s)"

definition kp_recordResult :: "timestamp \<Rightarrow> d1 \<Rightarrow> key_id \<Rightarrow> bool \<Rightarrow> KeyPoolDO \<Rightarrow> unit kp_result" where
  "kp_recordResult now db k success s =
     (if blank k then (Inl KpInvalidKey, s)
      else kp_known_key db k (\<lambda>s1.
        (let s2 = snd (with_breaker (\<lambda>cb. ((), cb_recordResult now (Inl k) (Some success) cb)) () s1)
         in (Inr (), kp_emit now (if success then ''upstream_success'' else ''upstream_failure'') k 0
                       [(''success'', if success then ''true'' else ''false'')] s2))) s)"

definition kp_recordStatusCode :: "timestamp \<Rightarrow> d1 \<Rightarrow> key_id \<Rightarrow> int \<Rightarrow> KeyPoolDO \<Rightarrow> unit kp_result" where
  "kp_recordStatusCode now db k code s =
     (if blank k then (Inl KpInvalidKey, s)
      else kp_known_key db k (\<lambda>s1.
        (let s2 = snd (with_breaker (\<lambda>cb. ((), cb_recordStatusCode now (Inl k) (Some code) cb)) () s1)
         in (Inr (), kp_emit now ''upstream_status_code'' k 0
                       [(''statusCode'', bigint_to_string code)] s2))) s)"

section \<open>Metrics\<close>

definition kp_getKeyMetrics :: "timestamp \<Rightarrow> d1 \<Rightarrow> key_id \<Rightarrow> KeyPoolDO \<Rightarrow> KeyMetrics kp_result" where
  "kp_getKeyMetrics now db k =
     kp_known_key db k (\<lambda>s.
       (let (r, sel) = ks_getKeyMetrics now k (kpSelector s)
        in (map_sum KpLimiter id r, s\<lparr>kpSelector := sel\<rparr>)))"

definition kp_getCapacitySummary :: "timestamp \<Rightarrow> d1 \<Rightarrow> string option \<Rightarrow> KeyPoolDO \<Rightarrow> CapacitySummary kp_result" where
  "kp_getCapacitySummary now db prov =
     kp_loaded db (\<lambda>s.
       (let (r, sel) = ks_getCapacitySummary now prov (kpSelector s)
        in (map_sum KpLimiter id r, s\<lparr>kpSelector := sel\<rparr>)))"

definition kp_getCircuitBreakerState :: "timestamp \<Rightarrow> d1 \<Rightarrow> key_id \<Rightarrow> KeyPoolDO \<Rightarrow> cb_state kp_result" where
  "kp_getCircuitBreakerState now db k =
     kp_known_key db k (\<lambda>s. (let (st, s1) = with_breaker (cb_getState now (Some k)) CLOSED s in (Inr st, s1)))"

definition kp_resetKeyCircuitBreaker :: "timestamp \<Rightarrow> d1 \<Rightarrow> key_id \<Rightarrow> KeyPoolDO \<Rightarrow> unit kp_result" where
  "kp_resetKeyCircuitBreaker now db k =
     kp_loaded db (\<lambda>s. (Inr (), snd (with_breaker (\<lambda>cb. ((), cb_reset now (Some k) cb)) () s)))"

definition kp_resetKeyRateLimit :: "d1 \<Rightarrow> key_id \<Rightarrow> KeyPoolDO \<Rightarrow> unit kp_result" where
  "kp_resetKeyRateLimit db k =
     kp_loaded db (\<lambda>s. (Inr (), snd (with_limiter (\<lambda>rl. ((), rl_reset (Some k) rl)) () s)))"

definition kp_getRateLimiterMetrics ::
  "timestamp \<Rightarrow> d1 \<Rightarrow> key_id \<Rightarrow> KeyPoolDO \<Rightarrow> RateLimiterMetrics kp_result" where
  "kp_getRateLimiterMetrics now db k =
     kp_known_key db k (\<lambda>s.
       (let (r, s1) = with_limiter (rl_getMetrics now (Some k)) (Inl BigIntSyntaxError) s
        in (map_sum KpLimiter id r, s1)))"

section \<open>The RPC dispatcher (rpc.ts)\<close>

text \<open>
  A request after URL and JSON parsing. The health body shows the tenant id as it was when the
  dispatcher was called, before a header could bind the object. In \<open>POST /keys\<close> a \<open>keys\<close> array comes before a \<open>key\<close>,
  which comes before a body that is itself a key. A fractional cost is not represented.
\<close>

record PoolHttp =
  phMethod :: string
  phPath :: string
  phHeaderTenant :: "string option"
  phQueryProvider :: "string option"
  phQueryKeyId :: "string option"
  phBodyTenant :: "string option"
  phBodyProvider :: "string option"
  phBodyKeyId :: string
  phBodyCost :: js
  phBodySuccess :: bool
  phBodyStatusCode :: "int option"
  phBodyKeys :: "EncryptedKey list option"
  phBodyKey :: "EncryptedKey option"
  phBodySelf :: "EncryptedKey option"

datatype pool_http_body =
    PoolHealthBody string int timestamp
  | PoolKeyBody key_id "EncryptedKey option"
  | PoolUsageBody key_id int
  | PoolResultBody key_id bool
  | PoolStatusBody key_id int
  | PoolKeysBody "EncryptedKey list"
  | PoolAddedBody "int option"
  | PoolRemovedBody bool key_id
  | PoolMetricsBody KeyMetrics
  | PoolCapacityBody CapacitySummary
  | PoolNotFoundBody
  | PoolErrorBody kp_error
  | PoolSyntaxErrorBody

type_synonym pool_http_response = "int \<times> pool_http_body"

definition select_status :: "select_error \<Rightarrow> int" where
  "select_status e = (case e of KeyExhaustedError _ _ _ _ \<Rightarrow> 429 | _ \<Rightarrow> 500)"

definition kp_status :: "kp_error \<Rightarrow> int" where
  "kp_status e = (case e of KpTenantIsolation _ _ _ \<Rightarrow> 403 | KpEmptyTenant \<Rightarrow> 403 | KpInvalidKey \<Rightarrow> 400
     | KpKeyNotFound _ _ \<Rightarrow> 404 | KpSelect se \<Rightarrow> select_status se | KpLimiter _ \<Rightarrow> 500)"

definition ok_body :: "('r \<Rightarrow> pool_http_body) \<Rightarrow> 'r kp_result \<Rightarrow> pool_http_response \<times> KeyPoolDO" where
  "ok_body f r = (case r of (Inl e, s) \<Rightarrow> ((kp_status e, PoolErrorBody e), s) | (Inr x, s) \<Rightarrow> ((200, f x), s))"

definition invalid_body :: "KeyPoolDO \<Rightarrow> pool_http_response \<times> KeyPoolDO" where
  "invalid_body s = ok_body (\<lambda>_. PoolNotFoundBody) (Inl KpInvalidKey :: kp_error + unit, s)"

definition for_tenant ::
  "string option \<Rightarrow> (KeyPoolDO \<Rightarrow> pool_http_response \<times> KeyPoolDO) \<Rightarrow> KeyPoolDO \<Rightarrow>
   pool_http_response \<times> KeyPoolDO" where
  "for_tenant t f s =
     (case kp_assertTenant t None s of
        (Inl e, s1) \<Rightarrow> ((kp_status e, PoolErrorBody e), s1)
      | (Inr _, s1) \<Rightarrow> f s1)"

definition cost_of_body :: "js \<Rightarrow> int option" where
  "cost_of_body v = (case v of JBigInt n \<Rightarrow> Some n | JNum n \<Rightarrow> Some n | JStr x \<Rightarrow> bigint_of_string x | _ \<Rightarrow> Some 0)"

text \<open>\<open>pathname.split("/")[2]\<close>.\<close>

definition path_part2 :: "string \<Rightarrow> string" where
  "path_part2 path =
     (let drop1 = (\<lambda>p. tl (dropWhile (\<lambda>c. c \<noteq> CHR ''/'') p))
      in takeWhile (\<lambda>c. c \<noteq> CHR ''/'') (drop1 (drop1 path)))"

definition kp_getKeyWithDetails :: "timestamp \<Rightarrow> nat \<Rightarrow> d1 \<Rightarrow> string \<Rightarrow> KeyPoolDO \<Rightarrow>
    (key_id \<times> EncryptedKey option) kp_result" where
  "kp_getKeyWithDetails now rnd db prov s =
     (case kp_getKey now rnd db prov s of
        (Inl e, s1) \<Rightarrow> (Inl e, s1)
      | (Inr k, s1) \<Rightarrow> (let (r, s2) = kp_getKeyById db k s1 in (map_sum id (Pair k) r, s2)))"

definition handleKeyPoolRpc ::
  "timestamp \<Rightarrow> nat \<Rightarrow> d1 \<Rightarrow> PoolHttp \<Rightarrow> KeyPoolDO \<Rightarrow> pool_http_response \<times> KeyPoolDO" where
  "handleKeyPoolRpc now rnd db req s0 = for_tenant (phHeaderTenant req) (\<lambda>s.
     (let m = phMethod req; p = phPath req in
      if p = ''/health'' then
        ok_body (\<lambda>n. PoolHealthBody (kpTenantId s0) n now)
          (kp_loaded db (\<lambda>s1. (Inr (int (length (kpKeys s1))), s1)) s)
      else if (m = ''POST'' \<and> p = ''/keys/get'') \<or> (m = ''GET'' \<and> p = ''/key'') then
        for_tenant (if m = ''POST'' then phBodyTenant req else None) (\<lambda>s1.
          (case (if m = ''POST'' \<and> phBodyProvider req \<noteq> None then phBodyProvider req else phQueryProvider req) of
             None \<Rightarrow> invalid_body s1
           | Some prov \<Rightarrow>
               if prov = [] then invalid_body s1
               else ok_body (\<lambda>(k, d). PoolKeyBody k d) (kp_getKeyWithDetails now rnd db prov s1))) s
      else if m = ''POST'' \<and> p = ''/keys/usage'' then
        for_tenant (phBodyTenant req) (\<lambda>s1.
          (case cost_of_body (phBodyCost req) of
             None \<Rightarrow> ((500, PoolSyntaxErrorBody), s1)
           | Some cost \<Rightarrow> ok_body (\<lambda>_. PoolUsageBody (phBodyKeyId req) cost)
                           (kp_recordUsage now db (phBodyKeyId req) cost s1))) s
      else if m = ''POST'' \<and> p = ''/keys/result'' then
        for_tenant (phBodyTenant req) (\<lambda>s1.
          ok_body (\<lambda>_. PoolResultBody (phBodyKeyId req) (phBodySuccess req))
            (kp_recordResult now db (phBodyKeyId req) (phBodySuccess req) s1)) s
      else if m = ''POST'' \<and> p = ''/keys/status-code'' then
        for_tenant (phBodyTenant req) (\<lambda>s1.
          (let code = first_some (phBodyStatusCode req) 500 in
           ok_body (\<lambda>_. PoolStatusBody (phBodyKeyId req) code)
             (kp_recordStatusCode now db (phBodyKeyId req) code s1))) s
      else if m = ''GET'' \<and> p = ''/keys'' then ok_body PoolKeysBody (kp_getKeys db (phQueryProvider req) s)
      else if m = ''POST'' \<and> p = ''/keys'' then
        (case phBodyKeys req of
           Some ks \<Rightarrow> ok_body (\<lambda>_. PoolAddedBody (Some (int (length ks)))) (kp_addKeys db ks s)
         | None \<Rightarrow>
             (case phBodyKey req of
                Some k \<Rightarrow> ok_body (\<lambda>_. PoolAddedBody None) (kp_addKey db k s)
              | None \<Rightarrow>
                  (case phBodySelf req of
                     Some k \<Rightarrow> if valid_key k then ok_body (\<lambda>_. PoolAddedBody None) (kp_addKey db k s)
                               else invalid_body s
                   | None \<Rightarrow> invalid_body s)))
      else if m = ''PUT'' \<and> p = ''/keys'' then
        (case phBodyKeys req of
           Some ks \<Rightarrow> ok_body (\<lambda>_. PoolAddedBody (Some (int (length ks)))) (kp_setKeys ks s)
         | None \<Rightarrow> invalid_body s)
      else if m = ''DELETE'' \<and> take 5 p = ''/keys'' then
        (let k = (if path_part2 p \<noteq> [] then path_part2 p else first_some (phQueryKeyId req) []) in
         if k = [] then invalid_body s
         else ok_body (\<lambda>b. PoolRemovedBody b k) (kp_removeKey db k s))
      else if m = ''GET'' \<and> p = ''/metrics'' then
        (let k = first_some (phQueryKeyId req) [] in
         if k = [] then invalid_body s
         else ok_body PoolMetricsBody (kp_getKeyMetrics now db k s))
      else if m = ''GET'' \<and> p = ''/capacity'' then
        ok_body PoolCapacityBody (kp_getCapacitySummary now db (phQueryProvider req) s)
      else ((404, PoolNotFoundBody), s))) s0"

section \<open>Lemmas: selection and the pool's maps\<close>

lemma ks_load_keysMap [simp]: "keysMap (snd (ks_load now k s)) = keysMap s"
  by (simp add: ks_load_def Let_def case_prod_beta split: option.splits)

lemma least_used_scan_keeps:
  "(\<And>k s. view (snd (load k s)) = view s) \<Longrightarrow> view (snd (least_used_scan load uses keys b m s)) = view s"
  by (induction keys arbitrary: b m s) (auto simp: Let_def case_prod_beta split: option.splits)

lemma selectLeastUsed_keysMap [simp]: "keysMap (snd (selectLeastUsed now hs s)) = keysMap s"
  by (simp add: selectLeastUsed_def Let_def case_prod_beta
      least_used_scan_keeps [where view = keysMap, OF ks_load_keysMap] split: option.splits)

lemma selectRoundRobin_keysMap [simp]: "keysMap (snd (selectRoundRobin p hs s)) = keysMap s"
  by (simp add: selectRoundRobin_def ks_persistRoundRobinIndex_def ks_getOrLoadRoundRobinIndex_def
      Let_def case_prod_beta split: option.splits)

lemma selectPriority_keysMap [simp]: "keysMap (snd (selectPriority now tie p hs s)) = keysMap s"
  by (simp add: selectPriority_def Let_def split: tie_breaker.splits)

lemma ks_dispatch_keysMap [simp]: "keysMap (snd (ks_dispatch now rnd strat p hs s)) = keysMap s"
  by (cases strat) (simp_all add: ks_dispatch_def)

lemma ks_triage_keysMap [simp]: "keysMap (snd (ks_triageKeys now p c cs s)) = keysMap s"
  by (rule ks_frameD(1) [OF ks_triage_frame])

lemma ks_getKeys_in: "k \<in> set (ks_getKeys p s) \<Longrightarrow> k \<in> set (map snd (keysMap s))"
  by (auto simp: ks_getKeys_def Let_def split: option.splits if_splits)

text \<open>A default selection changes the selector's map only by the stamp on one of its own keys.\<close>

definition stamped :: "timestamp \<Rightarrow> ('k SelectableKey_scheme) KeySelector \<Rightarrow> ('k SelectableKey_scheme) KeySelector \<Rightarrow> bool" where
  "stamped now s s' \<longleftrightarrow>
     keysMap s' = keysMap s \<or>
     (\<exists>k\<in>set (map snd (keysMap s)).
        keysMap s' = AList.update (keyId k) (k\<lparr>lastUsedAt := Some (Some now)\<rparr>) (keysMap s))"

lemma ks_selectKey_stamped:
  assumes "candidateKeys opts = None" "fallbackToAnyProvider opts = None"
  shows "stamped now s (snd (ks_selectKey now rnd prov opts s))"
proof -
  let ?tr = "ks_triageKeys now (Some prov) (Some (first_some (soCost opts) 0)) None s"
  obtain r1 s1 where tr: "?tr = (r1, s1)" by (cases ?tr)
  then have m1: "keysMap s1 = keysMap s"
    using ks_triage_keysMap [of now "Some prov" "Some (first_some (soCost opts) 0)" None s] by simp
  show ?thesis
  proof (cases r1)
    case (Inl e)
    with tr m1 assms show ?thesis by (simp add: ks_selectKey_def ks_select_with_def stamped_def Let_def)
  next
    case (Inr t)
    show ?thesis
    proof (cases "healthyKeys t")
      case Nil
      with tr Inr m1 assms show ?thesis by (simp add: ks_selectKey_def ks_select_with_def stamped_def Let_def)
    next
      case (Cons k0 ks)
      let ?d = "ks_dispatch now rnd (first_some (strategy opts) (defaultStrategy s1)) (provider k0) (k0 # ks) s1"
      obtain ko s2 where d: "?d = (ko, s2)" by (cases ?d)
      then have m2: "keysMap s2 = keysMap s"
        using ks_dispatch_keysMap [of now rnd "first_some (strategy opts) (defaultStrategy s1)" "provider k0"
          "k0 # ks" s1] m1 by simp
      show ?thesis
      proof (cases ko)
        case None
        with tr Inr Cons d m2 assms show ?thesis
          by (simp add: ks_selectKey_def ks_select_with_def stamped_def Let_def)
      next
        case (Some k)
        have "k \<in> set (healthyKeys t)" using ks_dispatch_in [of now rnd _ _ "k0 # ks" s1 k s2] d Some Cons by auto
        then have "k \<in> set (map snd (keysMap s))"
          using ks_triage_Inr(1) [of now "Some prov" "Some (first_some (soCost opts) 0)" None s t] tr Inr
          by (auto simp: ks_candidates_def dest!: ks_getKeys_in)
        with tr Inr Cons d Some m2 assms show ?thesis
          by (auto simp: ks_selectKey_def ks_select_with_def stamped_def Let_def ks_recordUsage_def)
      qed
    qed
  qed
qed

section \<open>The pool invariant\<close>

definition owned_map :: "string \<Rightarrow> (key_id, EncryptedKey) jsmap \<Rightarrow> bool" where
  "owned_map t m \<longleftrightarrow> jsmap_ok m \<and> (\<forall>(i, k)\<in>set m. keyId k = i \<and> keyTenantId k = Some t)"

lemma owned_map_Nil [simp]: "owned_map t []"
  by (simp add: owned_map_def)

lemma set_update_subset: "set (AList.update k v m) \<subseteq> insert (k, v) (set m)"
  by (induction m) auto

lemma owned_map_update:
  "owned_map t m \<Longrightarrow> keyTenantId k = Some t \<Longrightarrow> owned_map t (AList.update (keyId k) k m)"
  using set_update_subset [of "keyId k" k m] by (fastforce simp: owned_map_def)

lemma set_delete_subset: "set (AList.delete i m) \<subseteq> set m"
  by (induction m) auto

lemma owned_map_delete: "owned_map t m \<Longrightarrow> owned_map t (AList.delete i m)"
  using set_delete_subset [of i m] by (fastforce simp: owned_map_def)

definition kp_ok :: "string \<Rightarrow> KeyPoolDO \<Rightarrow> bool" where
  "kp_ok t s \<longleftrightarrow>
     kpTenantId s = t \<and> t \<noteq> kpCtxId s \<and> t \<noteq> [] \<and> owned_map t (kpKeys s) \<and>
     owned_map t (keysMap (kpSelector s)) \<and>
     (\<forall>k\<in>set (first_some (kpStoredKeys s) []). keyTenantId k = Some t)"

lemma kp_assert_bound:
  assumes "kp_ok t s"
  shows "kp_assertTenant target r s =
     (if target = None \<or> target = Some [] \<or> target = Some t then Inr ()
      else Inl (KpTenantIsolation t (the target) r), s)"
  using assms by (auto simp: kp_assertTenant_def kp_ok_def split: option.splits)

lemma kp_ok_adopt:
  "kp_ok t s \<Longrightarrow> kp_ok t (snd (kp_adopt_keys ks s))"
proof (induction ks arbitrary: s)
  case (Cons k ks)
  have "kp_ok t (s\<lparr>kpKeys := AList.update (keyId k) (owned s k) (kpKeys s)\<rparr>)"
    using Cons.prems owned_map_update [of t "kpKeys s" "owned s k"] by (simp add: kp_ok_def owned_def)
  from Cons.IH [OF this] Cons.prems show ?case by (simp add: kp_assert_bound [OF Cons.prems])
qed simp

lemma ks_addKeys_keysMap [simp]:
  "keysMap (ks_addKeys ks sel) = fold (\<lambda>k m. AList.update (keyId k) k m) ks (keysMap sel)"
  unfolding ks_addKeys_def by (induction ks arbitrary: sel) (simp_all add: ks_addKey_def)

lemma owned_map_fold:
  "owned_map t m \<Longrightarrow> \<forall>k\<in>set ks. keyTenantId k = Some t \<Longrightarrow>
   owned_map t (fold (\<lambda>k m. AList.update (keyId k) k m) ks m)"
  by (induction ks arbitrary: m) (auto intro: owned_map_update)

lemma owned_map_values: "owned_map t m \<Longrightarrow> k \<in> set (map snd m) \<Longrightarrow> keyTenantId k = Some t"
  by (auto simp: owned_map_def)

lemma kp_ok_sync: "kp_ok t s \<Longrightarrow> kp_ok t (kp_syncSelector s)"
  by (auto simp: kp_ok_def kp_syncSelector_def ks_setKeys_def intro!: owned_map_fold
      dest: owned_map_values)

lemma kp_ok_persist: "kp_ok t s \<Longrightarrow> kp_ok t (kp_persistKeys s)"
  using owned_map_values [of t "kpKeys s"] by (auto simp: kp_ok_def kp_persistKeys_def)

lemma kp_ok_D1:
  assumes ok: "kp_ok t s"
  shows "kp_ok t (kp_loadD1 db s)"
proof -
  have own: "\<forall>k\<in>set (map (kp_row_key s) rows). keyTenantId k = Some t" for rows
    using ok by (auto simp: kp_ok_def kp_row_key_def)
  have "kp_ok t (kp_syncSelector (s\<lparr>kpKeys := fold (\<lambda>k m. AList.update (keyId k) k m)
      (map (kp_row_key s) rows) (kpKeys s)\<rparr>))" for rows
    using ok owned_map_fold [OF _ own [of rows], of "kpKeys s"] by (intro kp_ok_sync) (simp add: kp_ok_def)
  then have "kp_ok t (kp_putD1 rows s)" for rows
    using own [of rows] unfolding kp_putD1_def Let_def by (simp add: kp_ok_def)
  with ok show ?thesis by (simp add: kp_loadD1_def split: option.splits)
qed

lemma kp_ok_flag [simp]: "kp_ok t (s\<lparr>kpIsLoaded := b\<rparr>) = kp_ok t s"
  by (simp add: kp_ok_def)

lemma kp_ok_selector:
  "kp_ok t s \<Longrightarrow> owned_map t (keysMap sel) \<Longrightarrow> kp_ok t (s\<lparr>kpSelector := sel\<rparr>)"
  by (simp add: kp_ok_def)

lemma kp_ok_ensure: "kp_ok t s \<Longrightarrow> kp_ok t (snd (kp_ensureLoaded db s))"
proof -
  assume ok: "kp_ok t s"
  have bind: "(case kpStoredTenant s of Some t \<Rightarrow> if t \<noteq> [] \<and> kpTenantId s = kpCtxId s then s\<lparr>kpTenantId := t\<rparr> else s
      | None \<Rightarrow> s) = s"
    using ok by (auto simp: kp_ok_def split: option.splits)
  show ?thesis
  proof (cases "kpStoredKeys s")
    case None
    with ok bind show ?thesis by (simp add: kp_ensureLoaded_def Let_def kp_ok_D1)
  next
    case (Some ks)
    obtain r s2 where r: "kp_adopt_keys (filter valid_key ks) s = (r, s2)"
      by (cases "kp_adopt_keys (filter valid_key ks) s")
    then have "kp_ok t s2" using kp_ok_adopt [OF ok, of "filter valid_key ks"] by simp
    with ok bind Some r show ?thesis
      by (cases r) (auto simp: kp_ensureLoaded_def Let_def kp_ok_D1 kp_ok_sync)
  qed
qed

lemma kp_ok_loaded:
  "kp_ok t s \<Longrightarrow> (\<And>s'. kp_ok t s' \<Longrightarrow> kp_ok t (snd (f s'))) \<Longrightarrow> kp_ok t (snd (kp_loaded db f s))"
  using kp_ok_ensure [of t s db]
  by (cases "kp_ensureLoaded db s") (auto simp: kp_loaded_def split: sum.splits)

lemma kp_ok_addSync: "kp_ok t s \<Longrightarrow> kp_ok t (snd (kp_addKeySync key s))"
proof -
  assume ok: "kp_ok t s"
  have "kp_ok t (s\<lparr>kpKeys := AList.update (keyId key) (owned s key) (kpKeys s),
                  kpSelector := ks_addKey (owned s key) (kpSelector s)\<rparr>)"
    using ok owned_map_update [of t _ "owned s key"] by (simp add: kp_ok_def owned_def ks_addKey_def)
  with ok show ?thesis by (auto simp: kp_addKeySync_def kp_assert_bound [OF ok] owned_def Let_def)
qed

lemma kp_ok_addsSync: "kp_ok t s \<Longrightarrow> kp_ok t (snd (kp_addKeysSync keys s))"
proof (induction keys arbitrary: s)
  case (Cons k ks)
  obtain r s1 where r: "kp_addKeySync k s = (r, s1)" by (cases "kp_addKeySync k s")
  with Cons.IH [of s1] kp_ok_addSync [OF Cons.prems, of k] show ?case by (cases r) auto
qed simp

lemma kp_ok_then_persist: "kp_ok t (snd r) \<Longrightarrow> kp_ok t (snd (kp_then_persist r))"
  by (cases r) (auto simp: kp_then_persist_def kp_ok_persist split: sum.splits)

lemma kp_ok_emit: "kp_ok t s \<Longrightarrow> kp_ok t (kp_emit now ev k c m s)"
  by (simp add: kp_emit_def kp_ok_def)

lemma kp_ok_breaker: "kp_ok t s \<Longrightarrow> kp_ok t (snd (with_breaker f n s))"
  by (auto simp: with_breaker_def kp_ok_def Let_def case_prod_beta split: option.splits)

lemma kp_ok_limiter: "kp_ok t s \<Longrightarrow> kp_ok t (snd (with_limiter f n s))"
  by (auto simp: with_limiter_def kp_ok_def Let_def case_prod_beta split: option.splits)

lemma kp_ok_known:
  "kp_ok t s \<Longrightarrow> (\<And>s'. kp_ok t s' \<Longrightarrow> kp_ok t (snd (f s'))) \<Longrightarrow> kp_ok t (snd (kp_known_key db k f s))"
  unfolding kp_known_key_def by (rule kp_ok_loaded) (auto split: option.splits)

lemma kp_ok_select:
  assumes "kp_ok t s" "candidateKeys opts = None" "fallbackToAnyProvider opts = None"
  shows "kp_ok t (snd (kp_select now rnd prov opts s))"
proof -
  let ?m = "keysMap (kpSelector s)"
  have own: "owned_map t ?m" using assms(1) by (simp add: kp_ok_def)
  have upd: "owned_map t (AList.update (keyId k) (k\<lparr>lastUsedAt := Some (Some now)\<rparr>) ?m)"
    if "k \<in> set (map snd ?m)" for k
    using owned_map_update [OF own, of "k\<lparr>lastUsedAt := Some (Some now)\<rparr>"] owned_map_values [OF own that]
    by simp
  have "owned_map t (keysMap (snd (ks_selectKey now rnd prov opts (kpSelector s))))"
    using ks_selectKey_stamped [OF assms(2,3), of now "kpSelector s" rnd prov] own upd
    unfolding stamped_def by (elim disjE bexE) (simp_all only:)
  with assms(1) show ?thesis by (simp add: kp_select_def kp_ok_selector Let_def case_prod_beta)
qed

datatype kp_op =
    OpAdd "EncryptedKey list"
  | OpSet "EncryptedKey list"
  | OpRemove key_id
  | OpClear
  | OpAssert "string option"
  | OpGetKey nat string
  | OpUsage key_id int
  | OpResult key_id bool
  | OpStatus key_id int
  | OpDispatch key_id bool
  | OpAlarm
  | OpEvict
  | OpReload

fun kp_apply :: "d1 \<Rightarrow> timestamp \<times> kp_op \<Rightarrow> KeyPoolDO \<Rightarrow> KeyPoolDO" where
  "kp_apply db (now, OpAdd ks) s = snd (kp_addKeys db ks s)"
| "kp_apply db (now, OpSet ks) s = snd (kp_setKeys ks s)"
| "kp_apply db (now, OpRemove k) s = snd (kp_removeKey db k s)"
| "kp_apply db (now, OpClear) s = kp_clearKeys s"
| "kp_apply db (now, OpAssert t) s = snd (kp_assertTenant t None s)"
| "kp_apply db (now, OpGetKey rnd p) s = snd (kp_getKey now rnd db p s)"
| "kp_apply db (now, OpUsage k c) s = snd (kp_recordUsage now db k c s)"
| "kp_apply db (now, OpResult k b) s = snd (kp_recordResult now db k b s)"
| "kp_apply db (now, OpStatus k c) s = snd (kp_recordStatusCode now db k c s)"
| "kp_apply db (now, OpDispatch k b) s = kp_recordDispatch k b s"
| "kp_apply db (now, OpAlarm) s = kp_alarm now s"
| "kp_apply db (now, OpEvict) s = kp_clearMemoryCache s"
| "kp_apply db (now, OpReload) s = snd (kp_loadFromStorage db s)"

lemma kp_ok_classify: "kp_ok t s \<Longrightarrow> kp_ok t (fold (kp_classify now) ks s)"
  by (induction ks arbitrary: s) (auto simp: kp_classify_def Let_def kp_ok_emit)

lemma kp_ok_getKey: "kp_ok t s \<Longrightarrow> kp_ok t (snd (kp_getKey now rnd db p s))"
proof -
  assume ok: "kp_ok t s"
  have "kp_ok t (snd (kp_loaded db (\<lambda>s1. (case kp_select now rnd p default_select s1 of
           (Inl e, s2) \<Rightarrow> (Inl e, s2) | (Inr None, s2) \<Rightarrow> (Inl (KpSelect UndefinedKey), s2)
         | (Inr (Some k), s2) \<Rightarrow> (Inr (keyId k), s2))) s))"
  proof (rule kp_ok_loaded [OF ok])
    fix s' assume "kp_ok t s'"
    then have "kp_ok t (snd (kp_select now rnd p default_select s'))"
      by (rule kp_ok_select) (simp_all add: default_select_def)
    then show "kp_ok t (snd (case kp_select now rnd p default_select s' of
           (Inl e, s2) \<Rightarrow> (Inl e, s2) | (Inr None, s2) \<Rightarrow> (Inl (KpSelect UndefinedKey), s2)
         | (Inr (Some k), s2) \<Rightarrow> (Inr (keyId k), s2)))"
      by (cases "kp_select now rnd p default_select s'") (auto split: sum.splits option.splits)
  qed
  with ok show ?thesis by (simp add: kp_getKey_def)
qed

lemma kp_ok_usage: "kp_ok t s \<Longrightarrow> kp_ok t (snd (kp_recordUsage now db k c s))"
proof -
  assume ok: "kp_ok t s"
  have "kp_ok t (snd (case with_limiter (rl_increment now (Some (Inl k)) (Some c)) (Inr ()) s1 of
           (Inl e, s2) \<Rightarrow> (Inl (KpLimiter e), s2)
         | (Inr _, s2) \<Rightarrow> (Inr (), kp_emit now ''key_usage'' k c []
                        (s2\<lparr>kpSelector := ks_recordUsage k (kpSelector s2)\<rparr>))))" if "kp_ok t s1" for s1
  proof -
    obtain r s2 where r: "with_limiter (rl_increment now (Some (Inl k)) (Some c)) (Inr ()) s1 = (r, s2)"
      by (cases "with_limiter (rl_increment now (Some (Inl k)) (Some c)) (Inr ()) s1")
    then have "kp_ok t s2" using kp_ok_limiter [OF that] by (metis snd_conv)
    then have "kp_ok t (kp_emit now ''key_usage'' k c [] (s2\<lparr>kpSelector := ks_recordUsage k (kpSelector s2)\<rparr>))"
      by (intro kp_ok_emit kp_ok_selector) (auto simp: kp_ok_def ks_recordUsage_def)
    with r \<open>kp_ok t s2\<close> show ?thesis by (cases r) auto
  qed
  then have "kp_ok t (snd (kp_known_key db k (\<lambda>s1.
      case with_limiter (rl_increment now (Some (Inl k)) (Some c)) (Inr ()) s1 of
           (Inl e, s2) \<Rightarrow> (Inl (KpLimiter e), s2)
         | (Inr _, s2) \<Rightarrow> (Inr (), kp_emit now ''key_usage'' k c []
                        (s2\<lparr>kpSelector := ks_recordUsage k (kpSelector s2)\<rparr>))) s))"
    by (rule kp_ok_known [OF ok])
  with ok show ?thesis by (simp add: kp_recordUsage_def)
qed

lemma kp_ok_apply: "kp_ok t s \<Longrightarrow> kp_ok t (kp_apply db (now, op) s)"
proof (cases op)
  case (OpAdd ks)
  assume "kp_ok t s"
  with OpAdd show ?thesis
    by (simp add: kp_addKeys_def kp_ok_loaded kp_ok_then_persist kp_ok_addsSync)
next
  case (OpSet ks)
  assume "kp_ok t s"
  then have "kp_ok t (s\<lparr>kpKeys := []\<rparr>)" by (simp add: kp_ok_def)
  from kp_ok_addsSync [OF this, of ks] OpSet show ?thesis
    by (cases "kp_addKeysSync ks (s\<lparr>kpKeys := []\<rparr>)")
      (auto simp: kp_setKeys_def kp_ok_persist split: sum.splits)
next
  case (OpRemove k)
  assume ok: "kp_ok t s"
  have "kp_ok t (s1\<lparr>kpKeys := AList.delete k (kpKeys s1), kpSelector := snd (ks_removeKey k (kpSelector s1))\<rparr>)"
    if "kp_ok t s1" for s1
    using that by (auto simp: kp_ok_def ks_removeKey_def intro: owned_map_delete)
  then have "kp_ok t (snd (kp_removeKey db k s))"
    unfolding kp_removeKey_def Let_def case_prod_beta
    by (intro kp_ok_loaded [OF ok]) (simp add: kp_ok_persist)
  with OpRemove show ?thesis by simp
next
  case OpClear
  assume "kp_ok t s"
  with OpClear show ?thesis
    by (auto simp: kp_clearKeys_def kp_ok_def ks_clearKeys_def kp_persistKeys_def)
next
  case (OpAssert t')
  assume "kp_ok t s"
  with OpAssert show ?thesis by (simp add: kp_assert_bound)
next
  case (OpResult k b)
  assume ok: "kp_ok t s"
  with OpResult show ?thesis
    by (simp add: kp_recordResult_def Let_def kp_ok_known kp_ok_emit kp_ok_breaker)
next
  case (OpStatus k c)
  assume ok: "kp_ok t s"
  with OpStatus show ?thesis
    by (simp add: kp_recordStatusCode_def Let_def kp_ok_known kp_ok_emit kp_ok_breaker)
next
  case OpEvict
  assume ok: "kp_ok t s"
  then have "kp_ok t (s\<lparr>kpKeys := [], kpIsLoaded := False, kpSelector := ks_clearMemoryCache (kpSelector s)\<rparr>)"
    by (simp add: kp_ok_def ks_clearMemoryCache_def)
  with OpEvict show ?thesis by (simp add: kp_clearMemoryCache_def Let_def kp_ok_limiter kp_ok_breaker)
next
  case OpReload
  assume "kp_ok t s"
  with OpReload show ?thesis by (simp add: kp_loadFromStorage_def kp_ok_ensure)
next
  case OpAlarm
  assume "kp_ok t s"
  then have "kp_ok t (fold (kp_classify now) (map fst (kpDispatchedToday s)) s)" by (rule kp_ok_classify)
  with OpAlarm show ?thesis by (simp add: kp_alarm_def kp_ok_def Let_def)
next
  case (OpDispatch k b)
  assume "kp_ok t s"
  with OpDispatch show ?thesis by (simp add: kp_recordDispatch_def kp_ok_def Let_def)
qed (simp_all add: kp_ok_getKey kp_ok_usage)

interpretation pool_machine: invariant_system "kp_apply db" "kp_ok t"
  by unfold_locales (metis kp_ok_apply surj_pair)

end
