(* ===== verification/KeyPoolSafety.thy ===== *)
theory KeyPoolSafety
  imports KeyPool
begin

text \<open>
  The properties of the key pool object of theory \<open>KeyPool\<close>: the tenant binding, the survival of
  the keys across an eviction, the errors of the feedback calls, and the priority of own keys.
\<close>

section \<open>A bound pool\<close>

lemma kp_ok_new:
  assumes "newKeyPoolDO now idName ctx (Some t) cbS rlS ksS keys stored alarm None = Inr s"
    and "t \<noteq> ctx" and "\<forall>k\<in>set (first_some keys []). keyTenantId k = Some t"
  shows "kp_ok t s"
  using assms by (auto simp: newKeyPoolDO_def Let_def kp_ok_def newKeySelector_def ks_addKeys_def split: if_splits)

lemma kp_ok_addSync_foreign:
  assumes "kp_ok t s" "valid_key k" "keyTenantId k = Some x" "x \<noteq> t" "x \<noteq> []"
  shows "kp_addKeySync k s = (Inl (KpTenantIsolation t x (Some (keyId k))), s)"
  using assms by (simp add: kp_addKeySync_def kp_assert_bound [OF assms(1)])

section \<open>Reloading\<close>

lemma fold_update_id:
  "distinct (map fst (m' @ m)) \<Longrightarrow> \<forall>(i, k)\<in>set m. keyId k = i \<Longrightarrow>
   fold (\<lambda>k m. AList.update (keyId k) k m) (map snd m) m' = m' @ m"
proof (induction m arbitrary: m')
  case (Cons e m)
  obtain i k where e: "e = (i, k)" by (cases e)
  have "AList.update i k m' = m' @ [(i, k)]"
    using Cons.prems(1) e by (induction m') auto
  with Cons.prems e Cons.IH [of "m' @ [(i, k)]"] show ?case by simp
qed simp

lemma kp_adopt_owned:
  "kp_ok t s \<Longrightarrow> \<forall>k\<in>set ks. keyTenantId k = Some t \<Longrightarrow>
   kp_adopt_keys ks s = (Inr (), s\<lparr>kpKeys := fold (\<lambda>k m. AList.update (keyId k) k m) ks (kpKeys s)\<rparr>)"
proof (induction ks arbitrary: s)
  case (Cons k ks)
  have own: "owned s k = k" using Cons.prems by (simp add: owned_def kp_ok_def)
  have "kp_ok t (s\<lparr>kpKeys := AList.update (keyId k) k (kpKeys s)\<rparr>)"
    using Cons.prems owned_map_update [of t "kpKeys s" k] by (simp add: kp_ok_def)
  from Cons.IH [OF this] Cons.prems(2) own show ?case by (simp add: kp_assert_bound [OF Cons.prems(1)])
qed simp

lemma kp_evict_fields:
  "kpKeys (kp_clearMemoryCache s) = []" "kpIsLoaded (kp_clearMemoryCache s) = False"
  "kpStoredKeys (kp_clearMemoryCache s) = kpStoredKeys s"
  "kpStoredTenant (kp_clearMemoryCache s) = kpStoredTenant s"
  "kpTenantId (kp_clearMemoryCache s) = kpTenantId s" "kpCtxId (kp_clearMemoryCache s) = kpCtxId s"
  by (auto simp: kp_clearMemoryCache_def with_breaker_def with_limiter_def Let_def case_prod_beta
      split: option.splits)

lemma kp_ok_evict: "kp_ok t s \<Longrightarrow> kp_ok t (kp_clearMemoryCache s)"
  using kp_ok_apply [of t s db now OpEvict] by simp

lemma kp_reload:
  assumes ok: "kp_ok t s" and keys: "kpKeys s \<noteq> []" "\<forall>k\<in>set (map snd (kpKeys s)). valid_key k"
    and stored: "kpStoredKeys s = Some (map snd (kpKeys s))"
  shows "\<exists>s'. kp_ensureLoaded db (kp_clearMemoryCache s) = (Inr (), s') \<and> kpKeys s' = kpKeys s \<and>
    keysMap (kpSelector s') = kpKeys s \<and> kpTenantId s' = t \<and> kpIsLoaded s'"
proof -
  let ?e = "kp_clearMemoryCache s"
  have e: "kp_ok t ?e" using ok by (rule kp_ok_evict)
  have own: "\<forall>k\<in>set (map snd (kpKeys s)). keyTenantId k = Some t"
    using ok owned_map_values by (auto simp: kp_ok_def)
  have m: "fold (\<lambda>k m. AList.update (keyId k) k m) (map snd (kpKeys s)) [] = kpKeys s"
    using ok fold_update_id [of "[]" "kpKeys s"] by (fastforce simp: kp_ok_def owned_map_def jsmap_ok_def)
  have f: "filter valid_key (map snd (kpKeys s)) = map snd (kpKeys s)"
    using keys(2) by (simp add: filter_id_conv)
  have ad: "kp_adopt_keys (map snd (kpKeys s)) ?e = (Inr (), ?e\<lparr>kpKeys := kpKeys s\<rparr>)"
    using kp_adopt_owned [OF e own] m by (simp add: kp_evict_fields)
  have bind: "(case kpStoredTenant ?e of Some t \<Rightarrow>
      if t \<noteq> [] \<and> kpTenantId ?e = kpCtxId ?e then ?e\<lparr>kpTenantId := t\<rparr> else ?e | None \<Rightarrow> ?e) = ?e"
    using e by (auto simp: kp_ok_def split: option.splits)
  have "kp_ensureLoaded db ?e = (Inr (), (kp_syncSelector (?e\<lparr>kpKeys := kpKeys s\<rparr>))\<lparr>kpIsLoaded := True\<rparr>)"
    unfolding kp_ensureLoaded_def bind Let_def
    using stored keys(1) by (simp add: kp_evict_fields f ad kp_syncSelector_def)
  with ok m show ?thesis
    by (simp add: kp_syncSelector_def ks_setKeys_def kp_evict_fields kp_ok_def)
qed

lemma kp_addSync_Inr:
  "kp_addKeySync k s = (Inr (), s1) \<Longrightarrow> map_of (kpKeys s1) (keyId k) \<noteq> None \<and> kpIsLoaded s1 = kpIsLoaded s"
  by (auto simp: kp_addKeySync_def kp_assertTenant_def owned_def Let_def update_Some_unfold
      split: if_splits option.splits)

lemma kp_then_persist_Inr:
  "kp_then_persist r = (Inr (), s1) \<Longrightarrow> \<exists>s. r = (Inr (), s) \<and> s1 = kp_persistKeys s"
  by (cases r) (auto simp: kp_then_persist_def split: sum.splits)

lemma kp_addKey_Inr:
  assumes "kp_addKey db k s = (Inr (), s1)"
  shows "\<exists>s0. kp_ensureLoaded db s = (Inr (), s0) \<and> map_of (kpKeys s1) (keyId k) \<noteq> None \<and>
    kpStoredKeys s1 = Some (map snd (kpKeys s1))"
  using assms
  by (auto simp: kp_addKey_def kp_loaded_def kp_persistKeys_def
      split: prod.splits sum.splits dest!: kp_then_persist_Inr kp_addSync_Inr)

lemma kp_ok_addKey: "kp_ok t s \<Longrightarrow> kp_ok t (snd (kp_addKey db k s))"
  unfolding kp_addKey_def by (intro kp_ok_loaded kp_ok_then_persist kp_ok_addSync)

section \<open>Where the keys of a pool come from\<close>

text \<open>What makes a key usable: its id, its provider and the encrypted secret.\<close>

definition material :: "EncryptedKey \<Rightarrow> key_id \<times> string \<times> string \<times> string" where
  "material k = (keyId k, provider k, ciphertext k, nonce k)"

definition row_material :: "D1Row \<Rightarrow> key_id \<times> string \<times> string \<times> string" where
  "row_material row = (rowId row, rowProvider row, rowCiphertext row, rowNonce row)"

definition mats :: "(key_id, EncryptedKey) jsmap \<Rightarrow> (key_id \<times> string \<times> string \<times> string) set" where
  "mats m = (\<lambda>e. material (snd e)) ` set m"

definition pool_mats :: "KeyPoolDO \<Rightarrow> (key_id \<times> string \<times> string \<times> string) set" where
  "pool_mats s = mats (kpKeys s) \<union> mats (keysMap (kpSelector s)) \<union> material ` set (first_some (kpStoredKeys s) [])"

text \<open>A key that names no other tenant, and the keys a call hands in.\<close>

definition for_pool :: "string \<Rightarrow> EncryptedKey \<Rightarrow> bool" where
  "for_pool t k \<longleftrightarrow> keyTenantId k \<in> {None, Some [], Some t}"

definition offers :: "(key_id \<times> string \<times> string \<times> string) set \<Rightarrow> string \<Rightarrow> EncryptedKey list \<Rightarrow> bool" where
  "offers S t ks \<longleftrightarrow> material ` {k \<in> set ks. for_pool t k} \<subseteq> S"

definition d1_offers :: "(key_id \<times> string \<times> string \<times> string) set \<Rightarrow> string \<Rightarrow> d1 \<Rightarrow> bool" where
  "d1_offers S t db \<longleftrightarrow> row_material ` set (first_some (db t) []) \<subseteq> S"

fun handed_in :: "kp_op \<Rightarrow> EncryptedKey list" where
  "handed_in (OpAdd ks) = ks"
| "handed_in (OpSet ks) = ks"
| "handed_in _ = []"

definition kp_from :: "(key_id \<times> string \<times> string \<times> string) set \<Rightarrow> string \<Rightarrow> KeyPoolDO \<Rightarrow> bool" where
  "kp_from S t s \<longleftrightarrow> kp_ok t s \<and> pool_mats s \<subseteq> S"

lemma mats_Nil [simp]: "mats [] = {}"
  by (simp add: mats_def)

lemma mats_update: "mats (AList.update i k m) \<subseteq> insert (material k) (mats m)"
  using set_update_subset [of i k m] by (force simp: mats_def)

lemma mats_delete: "mats (AList.delete i m) \<subseteq> mats m"
  using set_delete_subset [of i m] by (auto simp: mats_def)

lemma mats_fold: "mats (fold (\<lambda>k m. AList.update (keyId k) k m) ks m) \<subseteq> material ` set ks \<union> mats m"
proof (induction ks arbitrary: m)
  case (Cons k ks)
  from Cons.IH [of "AList.update (keyId k) k m"] mats_update [of "keyId k" k m] show ?case by auto
qed simp

lemma mats_values: "material ` set (map snd m) = mats m"
  by (auto simp: mats_def)

lemma material_owned [simp]: "material (owned s k) = material k" "material (k\<lparr>lastUsedAt := x\<rparr>) = material k"
  by (simp_all add: material_def owned_def)

lemma material_row [simp]: "material (kp_row_key s row) = row_material row"
  by (simp add: material_def row_material_def kp_row_key_def)

lemma kp_from_ok: "kp_from S t s \<Longrightarrow> kp_ok t s"
  by (simp add: kp_from_def)

lemma offers_Cons: "offers S t (k # ks) \<longleftrightarrow> (for_pool t k \<longrightarrow> material k \<in> S) \<and> offers S t ks"
  by (auto simp: offers_def)

lemma kp_from_adopt: "kp_from S t s \<Longrightarrow> offers S t ks \<Longrightarrow> kp_from S t (snd (kp_adopt_keys ks s))"
proof (induction ks arbitrary: s)
  case (Cons k ks)
  note ok = kp_from_ok [OF Cons.prems(1)]
  show ?case
  proof (cases "for_pool t k")
    case True
    let ?s = "s\<lparr>kpKeys := AList.update (keyId k) (owned s k) (kpKeys s)\<rparr>"
    have "kp_ok t ?s" using ok owned_map_update [of t "kpKeys s" "owned s k"] by (simp add: kp_ok_def owned_def)
    moreover have "pool_mats ?s \<subseteq> S"
      using Cons.prems True mats_update [of "keyId k" "owned s k" "kpKeys s"]
      by (auto simp: kp_from_def pool_mats_def offers_Cons)
    ultimately have "kp_from S t ?s" by (simp add: kp_from_def)
    from Cons.IH [OF this] Cons.prems True show ?thesis
      by (auto simp: kp_assert_bound [OF ok] for_pool_def offers_Cons)
  next
    case False
    with Cons.prems show ?thesis by (auto simp: kp_assert_bound [OF ok] for_pool_def)
  qed
qed simp

lemma kp_from_sync: "kp_from S t s \<Longrightarrow> kp_from S t (kp_syncSelector s)"
  using kp_ok_sync [of t s] mats_fold [of "map snd (kpKeys s)" "[]"]
  unfolding kp_from_def pool_mats_def mats_values by (auto simp: kp_syncSelector_def ks_setKeys_def)

lemma kp_from_persist: "kp_from S t s \<Longrightarrow> kp_from S t (kp_persistKeys s)"
  using kp_ok_persist [of t s] mats_values [of "kpKeys s"] by (auto simp: kp_from_def pool_mats_def kp_persistKeys_def)

lemma kp_from_flag [simp]: "kp_from S t (s\<lparr>kpIsLoaded := b\<rparr>) = kp_from S t s"
  by (simp add: kp_from_def pool_mats_def)

lemma kp_from_D1:
  assumes from_S: "kp_from S t s" and rows: "d1_offers S t db"
  shows "kp_from S t (kp_loadD1 db s)"
proof -
  note ok = kp_from_ok [OF from_S]
  have "pool_mats (kp_putD1 rs s) \<subseteq> S" if "row_material ` set rs \<subseteq> S" for rs
  proof -
    let ?s = "s\<lparr>kpKeys := fold (\<lambda>k m. AList.update (keyId k) k m) (map (kp_row_key s) rs) (kpKeys s)\<rparr>"
    have new: "material ` set (map (kp_row_key s) rs) \<subseteq> S" using that by auto
    have "mats (kpKeys s) \<subseteq> S" using from_S by (simp add: kp_from_def pool_mats_def)
    from order_trans [OF mats_fold Un_least [OF new this]] have "mats (kpKeys ?s) \<subseteq> S" by simp
    then have "mats (kpKeys (kp_syncSelector ?s)) \<subseteq> S" "mats (keysMap (kpSelector (kp_syncSelector ?s))) \<subseteq> S"
      using mats_fold [of "map snd (kpKeys ?s)" "[]"] unfolding mats_values
      by (auto simp: kp_syncSelector_def ks_setKeys_def)
    with new show ?thesis by (simp add: kp_putD1_def pool_mats_def Let_def)
  qed
  with from_S rows kp_ok_D1 [OF ok, of db] ok show ?thesis
    by (auto simp: kp_from_def d1_offers_def kp_loadD1_def kp_ok_def split: option.splits if_splits)
qed

lemma kp_from_ensure:
  assumes from_S: "kp_from S t s" and rows: "d1_offers S t db"
  shows "kp_from S t (snd (kp_ensureLoaded db s))"
proof -
  note ok = kp_from_ok [OF from_S]
  have bind: "(case kpStoredTenant s of Some t \<Rightarrow> if t \<noteq> [] \<and> kpTenantId s = kpCtxId s then s\<lparr>kpTenantId := t\<rparr> else s
      | None \<Rightarrow> s) = s"
    using ok by (auto simp: kp_ok_def split: option.splits)
  show ?thesis
  proof (cases "kpStoredKeys s")
    case None
    with from_S bind rows show ?thesis by (simp add: kp_ensureLoaded_def Let_def kp_from_D1)
  next
    case (Some ks)
    obtain r s2 where r: "kp_adopt_keys (filter valid_key ks) s = (r, s2)"
      by (cases "kp_adopt_keys (filter valid_key ks) s")
    have "offers S t (filter valid_key ks)" using from_S Some by (auto simp: kp_from_def pool_mats_def offers_def)
    from kp_from_adopt [OF from_S this] r have s2: "kp_from S t s2" by simp
    with from_S bind Some r rows kp_from_sync [OF s2] show ?thesis
      by (cases r) (auto simp: kp_ensureLoaded_def Let_def kp_from_D1)
  qed
qed

lemma kp_from_loaded:
  "kp_from S t s \<Longrightarrow> d1_offers S t db \<Longrightarrow>
   (\<And>s'. kp_from S t s' \<Longrightarrow> kp_from S t (snd (f s'))) \<Longrightarrow> kp_from S t (snd (kp_loaded db f s))"
  using kp_from_ensure [of S t s db]
  by (cases "kp_ensureLoaded db s") (auto simp: kp_loaded_def split: sum.splits)

lemma kp_from_known:
  "kp_from S t s \<Longrightarrow> d1_offers S t db \<Longrightarrow>
   (\<And>s'. kp_from S t s' \<Longrightarrow> kp_from S t (snd (f s'))) \<Longrightarrow> kp_from S t (snd (kp_known_key db k f s))"
  unfolding kp_known_key_def by (rule kp_from_loaded) (auto split: option.splits)

lemma kp_from_addSync:
  assumes from_S: "kp_from S t s" and new: "for_pool t k \<longrightarrow> material k \<in> S"
  shows "kp_from S t (snd (kp_addKeySync k s))"
proof -
  note ok = kp_from_ok [OF from_S]
  have "pool_mats (s\<lparr>kpKeys := AList.update (keyId k) (owned s k) (kpKeys s),
      kpSelector := ks_addKey (owned s k) (kpSelector s)\<rparr>) \<subseteq> S" if "material k \<in> S"
  proof -
    have "mats (AList.update (keyId k) (owned s k) m) \<subseteq> S" if "mats m \<subseteq> S" for m
      using order_trans [OF mats_update [of "keyId k" "owned s k" m] insert_subsetI [OF _ that]]
        \<open>material k \<in> S\<close> by simp
    moreover have "keyId (owned s k) = keyId k" by (simp add: owned_def)
    ultimately show ?thesis using from_S by (simp add: kp_from_def pool_mats_def ks_addKey_def)
  qed
  with kp_ok_addSync [OF ok, of k] from_S new show ?thesis
    by (auto simp: kp_addKeySync_def kp_assert_bound [OF ok] for_pool_def kp_from_def owned_def Let_def)
qed

lemma kp_from_addsSync: "kp_from S t s \<Longrightarrow> offers S t ks \<Longrightarrow> kp_from S t (snd (kp_addKeysSync ks s))"
proof (induction ks arbitrary: s)
  case (Cons k ks)
  obtain r s1 where r: "kp_addKeySync k s = (r, s1)" by (cases "kp_addKeySync k s")
  with Cons.IH [of s1] kp_from_addSync [OF Cons.prems(1), of k] Cons.prems(2) show ?case
    by (cases r) (auto simp: offers_Cons)
qed simp

lemma kp_from_then_persist: "kp_from S t (snd r) \<Longrightarrow> kp_from S t (snd (kp_then_persist r))"
  by (cases r) (auto simp: kp_then_persist_def kp_from_persist split: sum.splits)

text \<open>The calls that only count, log or move the breaker and the limiter.\<close>

lemma pool_mats_frame [simp]:
  "pool_mats (kp_emit now ev k c m s) = pool_mats s"
  "pool_mats (snd (with_breaker f n s)) = pool_mats s"
  "pool_mats (snd (with_limiter g n' s)) = pool_mats s"
  "pool_mats (kp_recordDispatch k b s) = pool_mats s"
  "pool_mats (s\<lparr>kpSelector := ks_recordUsage k (kpSelector s)\<rparr>) = pool_mats s"
  by (simp_all add: pool_mats_def kp_emit_def with_breaker_def with_limiter_def kp_recordDispatch_def ks_recordUsage_def
      Let_def case_prod_beta split: option.splits)

lemma kp_from_emit: "kp_from S t s \<Longrightarrow> kp_from S t (kp_emit now ev k c m s)"
  by (simp add: kp_from_def kp_ok_emit)

lemma kp_from_breaker: "kp_from S t s \<Longrightarrow> kp_from S t (snd (with_breaker f n s))"
  by (simp add: kp_from_def kp_ok_breaker)

lemma kp_from_limiter: "kp_from S t s \<Longrightarrow> kp_from S t (snd (with_limiter f n s))"
  by (simp add: kp_from_def kp_ok_limiter)

lemma kp_from_select: "kp_from S t s \<Longrightarrow> kp_from S t (snd (kp_select now rnd p default_select s))"
proof -
  assume from_S: "kp_from S t s"
  have opts: "candidateKeys default_select = None" "fallbackToAnyProvider default_select = None"
    by (simp_all add: default_select_def)
  let ?m = "keysMap (kpSelector s)" and ?m' = "keysMap (snd (ks_selectKey now rnd p default_select (kpSelector s)))"
  have "mats (AList.update (keyId k) (k\<lparr>lastUsedAt := Some (Some now)\<rparr>) ?m) \<subseteq> mats ?m" if "k \<in> set (map snd ?m)" for k
    using mats_update [of "keyId k" "k\<lparr>lastUsedAt := Some (Some now)\<rparr>" ?m] imageI [OF that, of material]
    unfolding mats_values by auto
  with ks_selectKey_stamped [OF opts, of now "kpSelector s" rnd p] have "mats ?m' \<subseteq> mats ?m"
    unfolding stamped_def by (elim disjE bexE) (simp_all only: subset_refl)
  with from_S kp_ok_select [OF kp_from_ok [OF from_S] opts, of now rnd p] show ?thesis
    by (auto simp: kp_from_def pool_mats_def kp_select_def case_prod_beta)
qed

lemma kp_from_getKey:
  assumes "kp_from S t s" "d1_offers S t db"
  shows "kp_from S t (snd (kp_getKey now rnd db p s))"
proof -
  have picked: "kp_from S t (snd (case kp_select now rnd p default_select s' of
           (Inl e, s2) \<Rightarrow> (Inl e, s2) | (Inr None, s2) \<Rightarrow> (Inl (KpSelect UndefinedKey), s2)
         | (Inr (Some k), s2) \<Rightarrow> (Inr (keyId k), s2)))" if "kp_from S t s'" for s'
    using kp_from_select [OF that, of now rnd p]
    by (cases "kp_select now rnd p default_select s'") (auto split: sum.splits option.splits)
  show ?thesis
    using assms(1) unfolding kp_getKey_def by (auto intro: kp_from_loaded [OF assms] picked)
qed

lemma kp_from_usage:
  assumes "kp_from S t s" "d1_offers S t db"
  shows "kp_from S t (snd (kp_recordUsage now db k c s))"
proof -
  have "kp_from S t (snd (case with_limiter (rl_increment now (Some (Inl k)) (Some c)) (Inr ()) s1 of
           (Inl e, s2) \<Rightarrow> (Inl (KpLimiter e), s2)
         | (Inr _, s2) \<Rightarrow> (Inr (), kp_emit now ''key_usage'' k c []
                        (s2\<lparr>kpSelector := ks_recordUsage k (kpSelector s2)\<rparr>))))" if "kp_from S t s1" for s1
  proof -
    obtain r s2 where r: "with_limiter (rl_increment now (Some (Inl k)) (Some c)) (Inr ()) s1 = (r, s2)"
      by (cases "with_limiter (rl_increment now (Some (Inl k)) (Some c)) (Inr ()) s1")
    then have s2: "kp_from S t s2" using kp_from_limiter [OF that] by (metis snd_conv)
    then have "kp_from S t (s2\<lparr>kpSelector := ks_recordUsage k (kpSelector s2)\<rparr>)"
      unfolding kp_from_def pool_mats_frame by (auto simp: kp_ok_def ks_recordUsage_def)
    with r s2 show ?thesis by (cases r) (auto simp: kp_from_emit)
  qed
  from kp_from_known [OF assms this] assms(1) show ?thesis by (simp add: kp_recordUsage_def)
qed

lemma kp_from_classify: "kp_from S t s \<Longrightarrow> kp_from S t (fold (kp_classify now) ks s)"
  by (induction ks arbitrary: s) (auto simp: kp_classify_def Let_def kp_from_emit)

lemma kp_from_remove:
  assumes "kp_from S t s" "d1_offers S t db"
  shows "kp_from S t (snd (kp_removeKey db k s))"
proof -
  have "kp_from S t (s1\<lparr>kpKeys := AList.delete k (kpKeys s1), kpSelector := snd (ks_removeKey k (kpSelector s1))\<rparr>)"
    if "kp_from S t s1" for s1
    using that mats_delete [of k "kpKeys s1"] mats_delete [of k "keysMap (kpSelector s1)"]
    by (auto simp: kp_from_def kp_ok_def pool_mats_def ks_removeKey_def intro: owned_map_delete)
  then show ?thesis
    unfolding kp_removeKey_def Let_def case_prod_beta
    by (intro kp_from_loaded [OF assms]) (simp add: kp_from_persist)
qed

lemma kp_from_apply:
  assumes from_S: "kp_from S t s" and rows: "d1_offers S t db"
    and new: "offers S t (handed_in op)"
  shows "kp_from S t (kp_apply db (now, op) s)"
proof (cases op)
  case (OpAdd ks)
  with new have "\<And>s'. kp_from S t s' \<Longrightarrow> kp_from S t (snd (kp_then_persist (kp_addKeysSync ks s')))"
    by (simp add: kp_from_then_persist kp_from_addsSync)
  with OpAdd show ?thesis by (simp add: kp_addKeys_def kp_from_loaded [OF from_S rows])
next
  case (OpSet ks)
  have "kp_from S t (s\<lparr>kpKeys := []\<rparr>)" using from_S by (auto simp: kp_from_def kp_ok_def pool_mats_def)
  from kp_from_addsSync [OF this, of ks] OpSet new show ?thesis
    by (cases "kp_addKeysSync ks (s\<lparr>kpKeys := []\<rparr>)") (auto simp: kp_setKeys_def kp_from_persist split: sum.splits)
next
  case OpClear
  with from_S show ?thesis
    by (auto simp: kp_clearKeys_def kp_from_def kp_ok_def ks_clearKeys_def kp_persistKeys_def pool_mats_def)
next
  case (OpAssert t')
  with from_S show ?thesis by (simp add: kp_assert_bound [OF kp_from_ok [OF from_S]])
next
  case (OpResult k b)
  with from_S rows show ?thesis
    by (simp add: kp_recordResult_def Let_def kp_from_known kp_from_emit kp_from_breaker)
next
  case (OpStatus k c)
  with from_S rows show ?thesis
    by (simp add: kp_recordStatusCode_def Let_def kp_from_known kp_from_emit kp_from_breaker)
next
  case OpEvict
  have "kp_from S t (s\<lparr>kpKeys := [], kpIsLoaded := False, kpSelector := ks_clearMemoryCache (kpSelector s)\<rparr>)"
    using from_S by (auto simp: kp_from_def kp_ok_def ks_clearMemoryCache_def pool_mats_def)
  with OpEvict show ?thesis by (simp add: kp_clearMemoryCache_def Let_def kp_from_limiter kp_from_breaker)
next
  case OpReload
  with from_S rows show ?thesis by (simp add: kp_loadFromStorage_def kp_from_ensure)
next
  case OpAlarm
  have "kp_from S t (fold (kp_classify now) (map fst (kpDispatchedToday s)) s)" by (rule kp_from_classify [OF from_S])
  with OpAlarm show ?thesis by (simp add: kp_alarm_def kp_from_def kp_ok_def pool_mats_def Let_def)
next
  case (OpDispatch k b)
  with from_S kp_ok_apply [OF kp_from_ok [OF from_S], of db now op] show ?thesis by (simp add: kp_from_def)
qed (use from_S rows in \<open>simp_all add: kp_from_getKey kp_from_usage kp_from_remove\<close>)

text \<open>Everything a run can bring into the pool of \<open>t\<close>.\<close>

definition sources ::
  "string \<Rightarrow> d1 \<Rightarrow> EncryptedKey list \<Rightarrow> (timestamp \<times> kp_op) list \<Rightarrow> (key_id \<times> string \<times> string \<times> string) set" where
  "sources t db keys es =
     material ` {k \<in> set keys \<union> (\<Union>e\<in>set es. set (handed_in (snd e))). for_pool t k} \<union>
     row_material ` set (first_some (db t) [])"

lemma kp_from_run:
  "kp_from S t s \<Longrightarrow> d1_offers S t db \<Longrightarrow> \<forall>e\<in>set es. offers S t (handed_in (snd e)) \<Longrightarrow>
   kp_from S t (fold (kp_apply db) es s)"
proof (induction es arbitrary: s)
  case (Cons e es)
  have "kp_from S t (kp_apply db e s)" using kp_from_apply [of S t s db "snd e" "fst e"] Cons.prems by simp
  with Cons show ?case by simp
qed simp

lemma new_pool_from:
  assumes new: "newKeyPoolDO now idName ctx optTenant cbS rlS ksS keys stored alarm initial = Inr s"
    and t: "t = (case optTenant of Some t \<Rightarrow> t | None \<Rightarrow> first_some idName ctx)" "t \<noteq> ctx"
    and own: "\<forall>k\<in>set (first_some keys []). keyTenantId k = Some t"
    and S: "offers S t (first_some keys [] @ first_some initial [])"
  shows "kp_from S t s"
proof -
  define s0 where "s0 = \<lparr>kpCtxId = ctx, kpTenantId = t,
      kpSelector = newKeySelector (Some t) (Some Priority) (Some (default_breaker cbS)) (Some (default_limiter rlS t))
        (Some ksS) None None,
      kpIsLoaded = False, kpDispatchedToday = [], kpDispatchedCommunal = [], kpKeys = [],
      kpStoredKeys = keys, kpStoredTenant = stored, kpStoredToday = Map.empty, kpStoredCommunal = Map.empty,
      kpAlarm = (case alarm of Some a \<Rightarrow> Some a | None \<Rightarrow> Some (next_midnight now)), kpEvents = []\<rparr>"
  have result: "s = (if first_some initial [] = [] then s0
      else (kp_syncSelector (snd (kp_adopt_keys (first_some initial []) s0)))\<lparr>kpIsLoaded := True\<rparr>)" "t \<noteq> []"
    using new unfolding newKeyPoolDO_def t(1) [symmetric] Let_def s0_def [symmetric]
    by (auto split: if_splits option.splits list.splits sum.splits prod.splits)
  have "kp_from S t s0"
    using t(2) result(2) own S
    by (auto simp: s0_def kp_from_def kp_ok_def newKeySelector_def ks_addKeys_def pool_mats_def offers_def for_pool_def)
  moreover from this have "kp_from S t (kp_syncSelector (snd (kp_adopt_keys (first_some initial []) s0)))"
    using S by (intro kp_from_sync kp_from_adopt) (auto simp: offers_def)
  ultimately show ?thesis using result(1) by simp
qed

lemma kp_from_entry:
  assumes "kp_from S t s" and "(i, k) \<in> set (kpKeys s) \<union> set (keysMap (kpSelector s))"
  shows "keyId k = i \<and> keyTenantId k = Some t \<and> material k \<in> S"
proof -
  have "material k \<in> pool_mats s"
    using assms(2) by (force simp: pool_mats_def mats_def)
  then have "material k \<in> S" using assms(1) by (auto simp: kp_from_def)
  moreover have "owned_map t (kpKeys s)" "owned_map t (keysMap (kpSelector s))"
    using assms(1) by (simp_all add: kp_from_def kp_ok_def)
  ultimately show ?thesis using assms(2) by (auto simp: owned_map_def)
qed

section \<open>Properties\<close>

lemma trim_words [simp]:
  "js_trim ''t'' = ''t''" "js_trim ''a'' = ''a''" "js_trim ''b'' = ''b''" "js_trim ''c'' = ''c''"
  "js_trim ''n'' = ''n''" "js_trim ''openai'' = ''openai''"
  by code_simp+

definition pool_key :: "string \<Rightarrow> string option \<Rightarrow> EncryptedKey" where
  "pool_key i tid = \<lparr>keyId = i, provider = ''openai'', keyTenantId = tid, keyLabel = None,
     priority = None, status = None, keyRpmLimit = None, keyRpdLimit = None, circuitOpenUntil = None,
     lastUsedAt = None, ciphertext = ''c'', nonce = ''n''\<rparr>"

lemma pool_key_fields [simp]:
  "keyId (pool_key i tid) = i" "keyTenantId (pool_key i tid) = tid" "provider (pool_key i tid) = ''openai''"
  "i \<noteq> [] \<Longrightarrow> valid_key (pool_key i tid) = (js_trim i \<noteq> [])"
  "(pool_key i tid)\<lparr>keyTenantId := x\<rparr> = pool_key i x"
  by (simp_all add: valid_key_def pool_key_def trim_words)

definition no_d1 :: d1 where
  "no_d1 t = None"

definition key_pool_example :: KeyPoolDO where
  "key_pool_example = (case newKeyPoolDO 0 None ''ctx'' (Some ''t'') Map.empty Map.empty Map.empty None None None None of
     Inr s \<Rightarrow> s | Inl _ \<Rightarrow> undefined)"

lemma key_pool_example_new:
  "newKeyPoolDO 0 None ''ctx'' (Some ''t'') Map.empty Map.empty Map.empty None None None None = Inr key_pool_example"
  by (simp add: key_pool_example_def newKeyPoolDO_def Let_def)

lemma key_pool_example_ok: "kp_ok ''t'' key_pool_example"
  using kp_ok_new [OF key_pool_example_new] by simp

text \<open>
  C12. A pool bound to a tenant never leaves it. The pool is constructed for a tenant \<open>t\<close> in any of the
  ways the code has (the tenant of its options, else the name of the object), with or without initial
  keys, on storage that holds nothing or what the pool of \<open>t\<close> wrote. Whatever sequence of calls follows,
  evictions, reloads and failing calls included: its tenant id is still \<open>t\<close>; every key in its map and in
  its selector stands under its own id and carries the label \<open>t\<close>; the secret of each of these keys, with
  its id and provider, was in storage at the start, or was handed in by a call with a label that named
  no other tenant, or is in a row that the database returned for \<open>t\<close> (its own keys and the communal
  keys of others, which take the label \<open>t\<close>); and a key that names another tenant is refused with a
  tenant isolation error and no effect.
\<close>

theorem pool_keeps_its_tenant:
  assumes "newKeyPoolDO now idName ctx optTenant cbS rlS ksS keys stored alarm initial = Inr s0"
    and "t = (case optTenant of Some t \<Rightarrow> t | None \<Rightarrow> first_some idName ctx)" "t \<noteq> ctx"
    and "\<forall>k\<in>set (first_some keys []). keyTenantId k = Some t"
    and "s = fold (kp_apply db) es s0"
    and "valid_key foreign" and "keyTenantId foreign = Some x" and "x \<noteq> t" and "x \<noteq> []"
  shows "kpTenantId s = t \<and>
    (\<forall>(i, k)\<in>set (kpKeys s) \<union> set (keysMap (kpSelector s)). keyId k = i \<and> keyTenantId k = Some t \<and>
       material k \<in> sources t db (first_some keys [] @ first_some initial []) es) \<and>
    kp_addKeySync foreign s = (Inl (KpTenantIsolation t x (Some (keyId foreign))), s)"
proof -
  let ?S = "sources t db (first_some keys [] @ first_some initial []) es"
  have "kp_from ?S t s0" by (rule new_pool_from [OF assms(1-4)]) (auto simp: offers_def sources_def)
  then have "kp_from ?S t s"
    unfolding assms(5) by (rule kp_from_run) (auto simp: offers_def d1_offers_def sources_def)
  from kp_from_entry [OF this] kp_ok_addSync_foreign [OF kp_from_ok [OF this] assms(6-9)] kp_from_ok [OF this]
  show ?thesis by (auto simp: kp_ok_def)
qed

theorem pool_keeps_its_tenant_witness:
  "kpTenantId (fold (kp_apply no_d1) [(5, OpAdd [pool_key ''a'' None]), (6, OpEvict)] key_pool_example) = ''t''"
  using pool_keeps_its_tenant [OF key_pool_example_new, of "''t''" _ no_d1
      "[(5, OpAdd [pool_key ''a'' None]), (6, OpEvict)]" "pool_key ''b'' (Some ''u'')" "''u''"] by simp

text \<open>
  Keys round-trip through storage: after a successful \<open>addKey\<close>, losing the object's memory and
  loading it again restores the same key map in the same order, the added key included, and gives the
  selector exactly these keys. (A key without ciphertext or nonce, which only a database row can
  bring in, is dropped on reload: the hypothesis excludes it.)
\<close>

theorem keys_survive_eviction:
  assumes "kp_ok t s" and "kp_addKey db key s = (Inr (), s1)"
    and "\<forall>k\<in>set (map snd (kpKeys s1)). valid_key k"
  shows "\<exists>s2. kp_ensureLoaded db' (kp_clearMemoryCache s1) = (Inr (), s2) \<and> kpKeys s2 = kpKeys s1 \<and>
    keysMap (kpSelector s2) = kpKeys s1 \<and> map_of (kpKeys s2) (keyId key) \<noteq> None \<and> kpTenantId s2 = t"
proof -
  have "kp_ok t s1"
    using kp_ok_addKey [OF assms(1), of db key] assms(2) by simp
  with kp_reload [of t s1 db'] kp_addKey_Inr [OF assms(2)] assms(3) show ?thesis by fastforce
qed

lemma key_pool_example_add:
  "kp_addKey no_d1 (pool_key ''a'' None) key_pool_example =
     (Inr (), kp_persistKeys (key_pool_example\<lparr>kpIsLoaded := True, kpKeys := [(''a'', pool_key ''a'' (Some ''t''))],
        kpSelector := ks_addKey (pool_key ''a'' (Some ''t'')) (kpSelector key_pool_example)\<rparr>))"
  by (simp add: kp_addKey_def kp_loaded_def kp_ensureLoaded_def kp_loadD1_def no_d1_def kp_addKeySync_def
      kp_assertTenant_def owned_def Let_def kp_then_persist_def key_pool_example_def newKeyPoolDO_def)

theorem keys_survive_eviction_witness:
  "\<exists>s2. kp_ensureLoaded no_d1 (kp_clearMemoryCache (snd (kp_addKey no_d1 (pool_key ''a'' None) key_pool_example)))
      = (Inr (), s2) \<and> kpKeys s2 = [(''a'', pool_key ''a'' (Some ''t''))]"
  using keys_survive_eviction [OF key_pool_example_ok key_pool_example_add, of no_d1]
  by (auto simp: key_pool_example_add kp_persistKeys_def)

text \<open>
  Feedback about a key the pool does not hold is refused: \<open>recordUsage\<close>, \<open>recordResult\<close> and
  \<open>recordStatusCode\<close> answer \<open>KeyNotFoundError\<close> and change nothing beyond loading the object (no
  usage is counted, no breaker moves, no event is emitted), which the RPC maps to status 404; a blank
  key id is refused before the object is even loaded, with status 400.
\<close>

theorem feedback_needs_known_key:
  assumes "kp_ensureLoaded db s = (Inr (), s1)" and "map_of (kpKeys s1) k = None"
  shows "(let e = if blank k then KpInvalidKey else KpKeyNotFound k (kpTenantId s1);
             s' = if blank k then s else s1
         in kp_recordUsage now db k cost s = (Inl e, s') \<and>
            kp_recordResult now db k success s = (Inl e, s') \<and>
            kp_recordStatusCode now db k code s = (Inl e, s') \<and>
            kp_status e = (if blank k then 400 else 404))"
  using assms
  by (simp add: kp_recordUsage_def kp_recordResult_def kp_recordStatusCode_def kp_known_key_def kp_loaded_def
      kp_status_def)

theorem feedback_needs_known_key_witness:
  "fst (kp_recordUsage 9 no_d1 ''b'' 3 (key_pool_example\<lparr>kpIsLoaded := True\<rparr>)) = Inl (KpKeyNotFound ''b'' ''t'')"
proof -
  have e: "kp_ensureLoaded no_d1 (key_pool_example\<lparr>kpIsLoaded := True\<rparr>) = (Inr (), key_pool_example\<lparr>kpIsLoaded := True\<rparr>)"
    by (simp add: kp_ensureLoaded_def)
  have "map_of (kpKeys (key_pool_example\<lparr>kpIsLoaded := True\<rparr>)) ''b'' = None" "kpTenantId key_pool_example = ''t''"
    by (simp_all add: key_pool_example_def newKeyPoolDO_def Let_def)
  with feedback_needs_known_key [OF e, of "''b''" 9 3 True 500] show ?thesis by (simp add: blank_def Let_def)
qed

text \<open>
  Own keys first. Every key of another tenant loaded from the database has a priority below that
  of every own key, whatever its owner's debt and its communal ratio; so whenever a healthy key of
  the pool's own tenant exists among the loaded ones, the priority strategy picks one of these.
\<close>

theorem own_keys_first:
  assumes "healthy \<noteq> []" and "set healthy \<subseteq> kp_row_key s ` set rows"
    and "\<exists>r\<in>set rows. rowTenant r = kpTenantId s \<and> kp_row_key s r \<in> set healthy"
    and "ks_rr_ok sel"
  shows "row_priority False communal sent debt < row_priority True c n d \<and>
    (\<exists>k sel' r. selectPriority now tie prov healthy sel = (Some k, sel') \<and>
       k = kp_row_key s r \<and> r \<in> set rows \<and> rowTenant r = kpTenantId s)"
proof -
  have bound: "row_priority own a b e \<le> (if own then 10000 else 7000)" for own a b e
    using min.cobounded1 [of 5000 "e div 1000"] by (simp add: row_priority_def del: min.cobounded1)
  obtain k sel' where k: "selectPriority now tie prov healthy sel = (Some k, sel')"
    using selectPriority_some [OF assms(4,1), of now tie prov]
    by (cases "selectPriority now tie prov healthy sel") auto
  note mx = selectPriority_top [OF k assms(1)]
  from mx assms(2) obtain r where r: "r \<in> set rows" "k = kp_row_key s r" by auto
  from assms(3) obtain r0 where "rowTenant r0 = kpTenantId s" "kp_row_key s r0 \<in> set healthy" by auto
  with mx have "10000 \<le> priority_of k"
    by (auto simp: priority_of_def kp_row_key_def row_priority_def dest!: bspec [of _ _ "kp_row_key s r0"])
  then have "10000 \<le> row_priority (rowTenant r = kpTenantId s)
      (first_some (rowDispatchedCommunal r) 0 + count_of (kpDispatchedCommunal s) (rowId r))
      (first_some (rowDispatchedToday r) 0 + count_of (kpDispatchedToday s) (rowId r))
      (first_some (rowOwnerDebt r) 0)"
    by (simp add: r(2) priority_of_def kp_row_key_def)
  from order_trans [OF this bound] have "rowTenant r = kpTenantId s" by (simp split: if_splits)
  with k r have "\<exists>k sel' r. selectPriority now tie prov healthy sel = (Some k, sel') \<and>
       k = kp_row_key s r \<and> r \<in> set rows \<and> rowTenant r = kpTenantId s" by blast
  moreover have "row_priority False communal sent debt < row_priority True c n d"
    using bound [of False communal sent debt] by (simp add: row_priority_def)
  ultimately show ?thesis by blast
qed

definition pool_row :: "string \<Rightarrow> string \<Rightarrow> D1Row" where
  "pool_row i tid = \<lparr>rowId = i, rowTenant = tid, rowLabel = ''l'', rowProvider = ''openai'', rowCiphertext = ''c'',
     rowNonce = ''n'', rowRpmLimit = 60, rowRpdLimit = 1000, rowStatus = ''active'', rowDispatchedToday = None,
     rowDispatchedCommunal = None, rowOwnerDebt = Some 9000000\<rparr>"

theorem own_keys_first_witness:
  "\<exists>k sel'. selectPriority 0 TieRoundRobin ''openai''
      [kp_row_key key_pool_example (pool_row ''a'' ''u''), kp_row_key key_pool_example (pool_row ''b'' ''t'')]
      (kpSelector key_pool_example) = (Some k, sel') \<and> k = kp_row_key key_pool_example (pool_row ''b'' ''t'')"
proof -
  let ?rows = "[pool_row ''a'' ''u'', pool_row ''b'' ''t'']"
  have rr: "ks_rr_ok (kpSelector key_pool_example)" and t: "kpTenantId key_pool_example = ''t''"
    by (simp_all add: key_pool_example_def newKeyPoolDO_def Let_def ks_rr_ok_def newKeySelector_def)
  have "rowTenant (pool_row i u) = u" for i u by (simp add: pool_row_def)
  with own_keys_first [of "map (kp_row_key key_pool_example) ?rows" key_pool_example ?rows, OF _ _ _ rr,
      of 0 0 0 0 0 0 0 TieRoundRobin "''openai''"] t
  obtain k sel' r where "selectPriority 0 TieRoundRobin ''openai'' (map (kp_row_key key_pool_example) ?rows)
      (kpSelector key_pool_example) = (Some k, sel')" "k = kp_row_key key_pool_example r" "r \<in> set ?rows"
    "rowTenant r = ''t''" by auto
  with \<open>\<And>i u. rowTenant (pool_row i u) = u\<close> show ?thesis by auto
qed

lemma kp_addSync_only:
  "kp_addKeySync k s = (Inr (), s1) \<Longrightarrow> i \<noteq> keyId k \<Longrightarrow>
   map_of (kpKeys s1) i = map_of (kpKeys s) i \<and>
   map_of (keysMap (kpSelector s1)) i = map_of (keysMap (kpSelector s)) i"
  by (auto simp: kp_addKeySync_def kp_assertTenant_def owned_def Let_def ks_addKey_def update_conv'
      split: if_splits option.splits)

lemma kp_addsSync_only:
  "kp_addKeysSync ks s = (Inr (), s1) \<Longrightarrow> i \<notin> keyId ` set ks \<Longrightarrow>
   map_of (kpKeys s1) i = map_of (kpKeys s) i \<and>
   map_of (keysMap (kpSelector s1)) i = map_of (keysMap (kpSelector s)) i"
proof (induction ks arbitrary: s)
  case (Cons k ks)
  then obtain s2 where s2: "kp_addKeySync k s = (Inr (), s2)" "kp_addKeysSync ks s2 = (Inr (), s1)"
    by (auto split: prod.splits sum.splits)
  with kp_addSync_only [OF s2(1), of i] Cons.IH [OF s2(2)] Cons.prems(2) show ?case by auto
qed simp

text \<open>
  \<open>setKeys\<close> replaces the object's own map but only adds to its selector's: a key that was there
  before and is not in the new set stays selectable, while all feedback about it is refused as
  unknown.
\<close>

theorem set_keys_leaves_stale_keys:
  assumes "kp_setKeys ks s = (Inr (), s1)" and "map_of (keysMap (kpSelector s)) k \<noteq> None"
    and "k \<notin> keyId ` set ks" and "\<not> blank k"
  shows "map_of (keysMap (kpSelector s1)) k \<noteq> None \<and> map_of (kpKeys s1) k = None \<and>
    kp_recordUsage now db k cost s1 = (Inl (KpKeyNotFound k (kpTenantId s1)), s1)"
proof -
  obtain s0 where s0: "kp_addKeysSync ks (s\<lparr>kpKeys := []\<rparr>) = (Inr (), s0)"
    "s1 = kp_persistKeys (s0\<lparr>kpIsLoaded := True\<rparr>)"
    using assms(1) by (auto simp: kp_setKeys_def split: prod.splits sum.splits)
  with kp_addsSync_only [OF s0(1) assms(3)] assms(2,4) show ?thesis
    by (simp add: kp_persistKeys_def kp_recordUsage_def kp_known_key_def kp_loaded_def kp_ensureLoaded_def)
qed

theorem set_keys_leaves_stale_keys_witness:
  "\<exists>s1. kp_setKeys [] (snd (kp_addKey no_d1 (pool_key ''a'' None) key_pool_example)) = (Inr (), s1) \<and>
     map_of (keysMap (kpSelector s1)) ''a'' \<noteq> None \<and>
     fst (kp_recordUsage 0 no_d1 ''a'' 1 s1) = Inl (KpKeyNotFound ''a'' (kpTenantId s1))"
proof -
  let ?s = "snd (kp_addKey no_d1 (pool_key ''a'' None) key_pool_example)"
  obtain s1 where s1: "kp_setKeys [] ?s = (Inr (), s1)" by (simp add: kp_setKeys_def)
  have "map_of (keysMap (kpSelector ?s)) ''a'' \<noteq> None"
    by (simp add: key_pool_example_add kp_persistKeys_def ks_addKey_def update_conv')
  with set_keys_leaves_stale_keys [OF s1, of "''a''" 0 no_d1 1] s1 show ?thesis by (auto simp: blank_def)
qed

end
