(* ===== verification/JsLib.thy ===== *)
theory JsLib
  imports JsValue "HOL-Library.Product_Lexorder" "HOL-Library.List_Lexorder"
begin

text \<open>
  More of the JavaScript library: \<open>Array.prototype.sort\<close> with a comparison function and
  \<open>slice\<close>, \<open>localeCompare\<close> on ASCII strings, \<open>BigInt\<close> division, \<open>JSON.stringify\<close> and
  \<open>String.prototype.includes\<close>.
\<close>

section \<open>Sorting\<close>

text \<open>
  \<open>sort(cmp)\<close> is stable; for a comparison function that is a total preorder its result is
  determined, and it is that of the insertion sort below.
\<close>

fun js_insert :: "('a \<Rightarrow> 'a \<Rightarrow> int) \<Rightarrow> 'a \<Rightarrow> 'a list \<Rightarrow> 'a list" where
  "js_insert cmp x [] = [x]"
| "js_insert cmp x (y # ys) = (if cmp x y \<le> 0 then x # y # ys else y # js_insert cmp x ys)"

definition js_sort :: "('a \<Rightarrow> 'a \<Rightarrow> int) \<Rightarrow> 'a list \<Rightarrow> 'a list" where
  "js_sort cmp xs = foldr (js_insert cmp) xs []"

lemma js_sort_simps [simp]:
  "js_sort cmp [] = []" "js_sort cmp (x # xs) = js_insert cmp x (js_sort cmp xs)"
  by (simp_all add: js_sort_def)

lemma set_js_insert [simp]: "set (js_insert cmp x ys) = insert x (set ys)"
  by (induction ys) auto

lemma set_js_sort [simp]: "set (js_sort cmp xs) = set xs"
  by (induction xs) auto

lemma length_js_insert [simp]: "length (js_insert cmp x ys) = Suc (length ys)"
  by (induction ys) auto

lemma length_js_sort [simp]: "length (js_sort cmp xs) = length xs"
  by (induction xs) auto

lemma js_sort_eq_Nil [simp]: "js_sort cmp xs = [] \<longleftrightarrow> xs = []"
  by (metis length_js_sort length_0_conv)

lemma distinct_js_insert: "distinct (js_insert cmp x ys) \<longleftrightarrow> x \<notin> set ys \<and> distinct ys"
  by (induction ys) auto

lemma distinct_js_sort [simp]: "distinct (js_sort cmp xs) = distinct xs"
  by (induction xs) (auto simp: distinct_js_insert)

lemma distinct_map_js_sort [simp]: "distinct (map f (js_sort cmp xs)) = distinct (map f xs)"
proof -
  have "distinct (map f (js_insert cmp x ys)) \<longleftrightarrow> f x \<notin> f ` set ys \<and> distinct (map f ys)" for x ys
    by (induction ys) auto
  then show ?thesis by (induction xs) simp_all
qed

text \<open>A comparison function that orders by some key, the contract \<open>sort\<close> asks of its argument.\<close>

locale comparison =
  fixes cmp :: "'a \<Rightarrow> 'a \<Rightarrow> int" and key :: "'a \<Rightarrow> 'b :: linorder"
  assumes cmp_key: "cmp a b \<le> 0 \<longleftrightarrow> key a \<le> key b"
begin

lemma sorted_insert: "sorted (map key ys) \<Longrightarrow> sorted (map key (js_insert cmp x ys))"
  by (induction ys) (auto simp: cmp_key)

lemma sorted_sort: "sorted (map key (js_sort cmp xs))"
  by (induction xs) (simp_all add: sorted_insert)

text \<open>The first element of a sorted list is minimal, and the earliest minimal one of the input.\<close>

lemma hd_sort_min: "x \<in> set xs \<Longrightarrow> key (hd (js_sort cmp xs)) \<le> key x"
  using sorted_sort [of xs] by (cases "js_sort cmp xs") (auto simp flip: set_js_sort [of cmp xs])

lemma insert_hd: "ys \<noteq> [] \<Longrightarrow> hd (js_insert cmp x ys) = (if key x \<le> key (hd ys) then x else hd ys)"
  by (cases ys) (auto simp: cmp_key)

lemma hd_sort_first:
  "xs \<noteq> [] \<Longrightarrow> \<exists>us vs. xs = us @ hd (js_sort cmp xs) # vs \<and> (\<forall>u\<in>set us. key (hd (js_sort cmp xs)) < key u)"
proof (induction xs)
  case (Cons x xs)
  show ?case
  proof (cases "xs = []")
    case False
    with Cons.IH obtain us vs where u: "xs = us @ hd (js_sort cmp xs) # vs"
      "\<forall>u\<in>set us. key (hd (js_sort cmp xs)) < key u" by blast
    show ?thesis
    proof (cases "key x \<le> key (hd (js_sort cmp xs))")
      case True
      with False have "hd (js_sort cmp (x # xs)) = x" by (simp add: insert_hd)
      then show ?thesis by (intro exI [of _ "[]"] exI [of _ xs]) simp
    next
      case gt: False
      with False have "hd (js_sort cmp (x # xs)) = hd (js_sort cmp xs)" by (simp add: insert_hd)
      with u gt show ?thesis by (intro exI [of _ "x # us"] exI [of _ vs]) auto
    qed
  qed (auto intro: exI [of _ "[]"])
qed simp

end

section \<open>Slices\<close>

text \<open>\<open>xs.slice(a, b)\<close>: a negative index counts from the end.\<close>

definition slice_index :: "nat \<Rightarrow> int \<Rightarrow> nat" where
  "slice_index n i = (if i < 0 then nat (max 0 (int n + i)) else min n (nat i))"

definition js_slice :: "'a list \<Rightarrow> int \<Rightarrow> int \<Rightarrow> 'a list" where
  "js_slice xs a b =
     (let i = slice_index (length xs) a; j = slice_index (length xs) b in take (j - i) (drop i xs))"

lemma js_slice_prefix [simp]: "0 \<le> b \<Longrightarrow> js_slice xs 0 b = take (nat b) xs"
  by (simp add: js_slice_def slice_index_def Let_def min_def)

section \<open>\<open>BigInt\<close> division\<close>

text \<open>Division truncates; by zero it throws, which no caller here can reach.\<close>

definition bigint_div :: "int \<Rightarrow> int \<Rightarrow> int" where
  "bigint_div a b = sgn a * sgn b * (\<bar>a\<bar> div \<bar>b\<bar>)"

lemma bigint_div_nonneg: "0 \<le> a \<Longrightarrow> 0 < b \<Longrightarrow> bigint_div a b = a div b"
  by (auto simp: bigint_div_def sgn_if)

section \<open>\<open>localeCompare\<close>\<close>

text \<open>
  The root collation on ASCII: first the characters' primary order (spaces, punctuation, symbols,
  digits, letters without regard to case), control characters ignored; then lower case before upper.
\<close>

definition collation_order :: string where
  "collation_order = map char_of [9, 10, 11, 12, 13, 32 :: nat] @ ''_-,;:!?.'' @
     map char_of [39, 34 :: nat] @ ''()[]{}@*/'' @ map char_of [92 :: nat] @ ''&#%'' @
     map char_of [96 :: nat] @ ''^+<=>|~$0123456789abcdefghijklmnopqrstuvwxyz''"

fun position :: "'a \<Rightarrow> 'a list \<Rightarrow> nat option" where
  "position c [] = None"
| "position c (x # xs) = (if c = x then Some 0 else map_option Suc (position c xs))"

definition collation_chars :: "string \<Rightarrow> string" where
  "collation_chars s = filter (\<lambda>c. position (lower_char c) collation_order \<noteq> None) s"

definition collation_key :: "string \<Rightarrow> nat list \<times> nat list" where
  "collation_key s =
     (map (\<lambda>c. the (position (lower_char c) collation_order)) (collation_chars s),
      map (\<lambda>c. if lower_char c = c then 0 else 1) (collation_chars s))"

definition localeCompare :: "string \<Rightarrow> string \<Rightarrow> int" where
  "localeCompare a b =
     (if collation_key a < collation_key b then -1 else if collation_key b < collation_key a then 1 else 0)"

section \<open>\<open>JSON.stringify\<close>\<close>

definition hex_digit :: "nat \<Rightarrow> char" where
  "hex_digit d = (if d < 10 then char_of (48 + d) else char_of (87 + d))"

definition json_char :: "char \<Rightarrow> string" where
  "json_char c =
     (let n = code_of c; esc = (\<lambda>m. [char_of (92 :: nat), char_of (m :: nat)]) in
      if n = 34 \<or> n = 92 then esc n
      else if n = 8 then esc 98 else if n = 9 then esc 116 else if n = 10 then esc 110
      else if n = 12 then esc 102 else if n = 13 then esc 114
      else if n < 32 then esc 117 @ ''00'' @ [hex_digit (n div 16), hex_digit (n mod 16)]
      else [c])"

definition json_string :: "string \<Rightarrow> string" where
  "json_string s = ''\"'' @ concat (map json_char s) @ ''\"''"

fun join :: "string \<Rightarrow> string list \<Rightarrow> string" where
  "join sep [] = []"
| "join sep [x] = x"
| "join sep (x # xs) = x @ sep @ join sep xs"

text \<open>\<open>None\<close> is the \<open>TypeError\<close> a \<open>BigInt\<close> value raises; undefined values are left out of objects.\<close>

fun json :: "js \<Rightarrow> string option" where
  "json JUndefined = Some ''null''"
| "json JNull = Some ''null''"
| "json (JBool b) = Some (if b then ''true'' else ''false'')"
| "json (JNum n) = Some (bigint_to_string n)"
| "json (JBigInt n) = None"
| "json (JStr s) = Some (json_string s)"
| "json (JArr xs) = map_option (\<lambda>ss. ''['' @ join '','' ss @ '']'') (those (map json xs))"
| "json (JObj kvs) =
     map_option (\<lambda>ss. ''{'' @ join '','' (concat ss) @ ''}'')
       (those (map (\<lambda>(k, v). if v = JUndefined then Some []
                      else map_option (\<lambda>t. [json_string k @ '':'' @ t]) (json v)) kvs))"

section \<open>Substrings\<close>

fun str_includes :: "string \<Rightarrow> string \<Rightarrow> bool" where
  "str_includes s [] = True"
| "str_includes [] p = False"
| "str_includes (c # s) p = (take (length p) (c # s) = p \<or> str_includes s p)"

lemma str_includes_iff: "str_includes s p \<longleftrightarrow> (\<exists>u v. s = u @ p @ v)"
proof (induction s p rule: str_includes.induct)
  case (3 c s x p)
  have "(\<exists>u v. c # s = u @ (x # p) @ v) \<longleftrightarrow> (\<exists>v. c # s = (x # p) @ v) \<or> (\<exists>u v. s = u @ (x # p) @ v)"
    by (auto simp: Cons_eq_append_conv)
  moreover have "take (length (x # p)) (c # s) = x # p \<longleftrightarrow> (\<exists>v. c # s = (x # p) @ v)"
    by (metis append_take_drop_id append_eq_conv_conj)
  ultimately show ?case using 3 by (simp del: append_Cons)
qed auto

end
