(* ===== verification/Financial.thy ===== *)
theory Financial
  imports JsLib
begin

text \<open>
  Money: \<open>src/constants/financial.ts\<close> (microdollars to and from decimal strings) and
  \<open>src/proxy/cost_calculator.ts\<close> (token prices). Amounts are \<open>BigInt\<close> values, modelled as
  \<open>int\<close>. The number branches that go through \<open>toFixed(6)\<close> are left out: a dollar amount is
  given as a string.
\<close>

section \<open>Constants (constants/financial.ts)\<close>

definition MICRODOLLAR_MULTIPLIER :: int where "MICRODOLLAR_MULTIPLIER = 1000000"
definition ONE_CENT_MICRODOLLARS :: int where "ONE_CENT_MICRODOLLARS = 10000"

section \<open>Padding and trimming\<close>

abbreviation zero_char :: char where "zero_char \<equiv> CHR ''0''"

definition padStart :: "nat \<Rightarrow> string \<Rightarrow> string" where
  "padStart n s = replicate (n - length s) zero_char @ s"

definition padEnd :: "nat \<Rightarrow> string \<Rightarrow> string" where
  "padEnd n s = s @ replicate (n - length s) zero_char"

definition strip_zeros :: "string \<Rightarrow> string" where
  "strip_zeros s = rev (dropWhile (\<lambda>c. c = zero_char) (rev s))"

section \<open>Dollars and microdollars (constants/financial.ts)\<close>

definition before_dot :: "string \<Rightarrow> string" where
  "before_dot s = takeWhile (\<lambda>c. c \<noteq> CHR ''.'') s"

definition after_dot :: "string \<Rightarrow> string option" where
  "after_dot s = (case dropWhile (\<lambda>c. c \<noteq> CHR ''.'') s of [] \<Rightarrow> None | _ # r \<Rightarrow> Some r)"

definition is_digits :: "string \<Rightarrow> bool" where
  "is_digits s \<longleftrightarrow> s \<noteq> [] \<and> list_all is_digit s"

definition unsigned_part :: "string \<Rightarrow> bool \<times> string" where
  "unsigned_part s = (if s \<noteq> [] \<and> hd s = CHR ''-'' then (True, tl s) else (False, s))"

text \<open>The pattern \<open>-?\d+(\.\d+)?\<close>; \<open>None\<close> is the \<open>TypeError\<close>.\<close>

definition dollarsToMicrodollars :: "string \<Rightarrow> int option" where
  "dollarsToMicrodollars dollars =
     (let (isNegative, cleaned) = unsigned_part (js_trim dollars);
          integerPart = before_dot cleaned; fraction = first_some (after_dot cleaned) [] in
      if \<not> is_digits integerPart \<or> (after_dot cleaned \<noteq> None \<and> \<not> is_digits fraction) then None
      else
        (let fractionPart = (if length fraction < 6 then padEnd 6 fraction else take 6 fraction);
             total = int (digits_val integerPart) * MICRODOLLAR_MULTIPLIER + int (digits_val fractionPart)
         in Some (if isNegative then - total else total)))"

definition centsToMicrodollars :: "int \<Rightarrow> int" where
  "centsToMicrodollars cents = cents * ONE_CENT_MICRODOLLARS"

definition microdollarsToCents :: "int \<Rightarrow> int" where
  "microdollarsToCents microdollars = bigint_div microdollars ONE_CENT_MICRODOLLARS"

datatype MoneyPrecision = Cents | Microdollars | Auto

definition formatMicrodollars :: "int \<Rightarrow> bool option \<Rightarrow> MoneyPrecision option \<Rightarrow> string" where
  "formatMicrodollars microdollars includeSymbol prec =
     (let isNegative = microdollars < 0; a = \<bar>microdollars\<bar>;
          fracPart = a mod MICRODOLLAR_MULTIPLIER;
          fracStr = padStart 6 (bigint_to_string fracPart);
          formattedFrac = (case first_some prec Auto of
              Cents \<Rightarrow> take 2 fracStr
            | Microdollars \<Rightarrow> fracStr
            | Auto \<Rightarrow> if fracPart mod ONE_CENT_MICRODOLLARS = 0 then take 2 fracStr
                      else padEnd 2 (strip_zeros fracStr))
      in (if isNegative then ''-'' else []) @ (if first_some includeSymbol True then ''$'' else []) @
         bigint_to_string (a div MICRODOLLAR_MULTIPLIER) @ ''.'' @ formattedFrac)"

definition isValidMicrodollarAmount :: "js \<Rightarrow> bool" where
  "isValidMicrodollarAmount v = (case v of JBigInt n \<Rightarrow> 0 \<le> n | _ \<Rightarrow> False)"

section \<open>Token prices (proxy/cost_calculator.ts)\<close>

definition TOKENS_PER_MILLION :: int where "TOKENS_PER_MILLION = 1000000"

record ProxyPricing =
  promptMicrodollarsPerMillion :: int
  completionMicrodollarsPerMillion :: int

definition model_pricing :: "int \<Rightarrow> int \<Rightarrow> ProxyPricing" where
  "model_pricing p c = \<lparr>promptMicrodollarsPerMillion = p, completionMicrodollarsPerMillion = c\<rparr>"

definition DEFAULT_MODEL_PRICING :: "(string, ProxyPricing) jsmap" where
  "DEFAULT_MODEL_PRICING =
   [(''gpt-4o'', model_pricing 2500000 10000000),
    (''gpt-4o-mini'', model_pricing 150000 600000),
    (''gpt-4-turbo'', model_pricing 10000000 30000000),
    (''gpt-4'', model_pricing 30000000 60000000),
    (''gpt-3.5-turbo'', model_pricing 500000 1500000),
    (''o1'', model_pricing 15000000 60000000),
    (''o1-mini'', model_pricing 3000000 12000000),
    (''text-embedding-3-small'', model_pricing 20000 0),
    (''text-embedding-3-large'', model_pricing 130000 0),
    (''claude-3-5-sonnet'', model_pricing 3000000 15000000),
    (''claude-3-5-haiku'', model_pricing 800000 4000000),
    (''claude-3-opus'', model_pricing 15000000 75000000),
    (''claude-3-sonnet'', model_pricing 3000000 15000000),
    (''claude-3-haiku'', model_pricing 250000 1250000),
    (''default'', model_pricing 1000000 3000000)]"

type_synonym custom_pricing = "(string, ProxyPricing) jsmap"

definition registerModelPricing :: "string \<Rightarrow> ProxyPricing \<Rightarrow> custom_pricing \<Rightarrow> custom_pricing" where
  "registerModelPricing model pricing m = AList.update (js_trim (js_lower model)) pricing m"

definition clearCustomModelPricing :: "custom_pricing \<Rightarrow> custom_pricing" where
  "clearCustomModelPricing m = []"

definition normalizeModelName :: "string \<Rightarrow> string" where
  "normalizeModelName model =
     (let s = js_trim (js_lower model) in
      case dropWhile (\<lambda>c. c \<noteq> CHR ''/'') s of [] \<Rightarrow> s | _ # r \<Rightarrow> r)"

text \<open>
  The \<open>in\<close> operator also finds the properties an object inherits; of those, \<open>constructor\<close> and
  \<open>__proto__\<close> are in lower case. Such a name yields a value without prices: \<open>None\<close>.
\<close>

definition inherited_property :: "string \<Rightarrow> bool" where
  "inherited_property name \<longleftrightarrow> name = ''constructor'' \<or> name = ''__proto__''"

definition starts_with :: "string \<Rightarrow> string \<Rightarrow> bool" where
  "starts_with s p \<longleftrightarrow> take (length p) s = p"

definition getModelPricing :: "custom_pricing \<Rightarrow> string \<Rightarrow> ProxyPricing option" where
  "getModelPricing customModelPricing model =
     (let normalized = normalizeModelName model in
      case map_of customModelPricing normalized of
        Some p \<Rightarrow> Some p
      | None \<Rightarrow>
          (case map_of DEFAULT_MODEL_PRICING normalized of
             Some p \<Rightarrow> Some p
           | None \<Rightarrow>
               if inherited_property normalized then None
               else
                 (case find (\<lambda>(key, _). key \<noteq> ''default'' \<and> starts_with normalized key) DEFAULT_MODEL_PRICING of
                    Some (_, p) \<Rightarrow> Some p
                  | None \<Rightarrow> map_of DEFAULT_MODEL_PRICING ''default'')))"

definition calculateTokenCost :: "int \<Rightarrow> int \<Rightarrow> bool \<Rightarrow> int" where
  "calculateTokenCost tokens rate roundUp =
     (let t = max 0 tokens in
      if t \<le> 0 \<or> rate \<le> 0 then 0
      else if roundUp then bigint_div (t * rate + (TOKENS_PER_MILLION - 1)) TOKENS_PER_MILLION
      else bigint_div (t * rate) TOKENS_PER_MILLION)"

record ProxyCost =
  promptCostMicrodollars :: int
  completionCostMicrodollars :: int
  totalCostMicrodollars :: int

text \<open>Without prices a positive token count is multiplied by undefined: a \<open>TypeError\<close>, \<open>None\<close>.\<close>

definition token_cost_at :: "int \<Rightarrow> int option \<Rightarrow> bool \<Rightarrow> int option" where
  "token_cost_at tokens rate roundUp =
     (case rate of
        Some r \<Rightarrow> Some (calculateTokenCost tokens r roundUp)
      | None \<Rightarrow> if tokens \<le> 0 then Some 0 else None)"

definition calculateCostBreakdown ::
  "custom_pricing \<Rightarrow> string \<Rightarrow> int \<Rightarrow> int \<Rightarrow> bool \<Rightarrow> ProxyCost option" where
  "calculateCostBreakdown custom model promptTokens completionTokens roundUp =
     (let pricing = getModelPricing custom model in
      case token_cost_at promptTokens (map_option promptMicrodollarsPerMillion pricing) roundUp of
        None \<Rightarrow> None
      | Some p \<Rightarrow>
          (case token_cost_at completionTokens (map_option completionMicrodollarsPerMillion pricing) roundUp of
             None \<Rightarrow> None
           | Some c \<Rightarrow> Some \<lparr>promptCostMicrodollars = p, completionCostMicrodollars = c,
                            totalCostMicrodollars = p + c\<rparr>))"

definition calculateProxyCost :: "custom_pricing \<Rightarrow> string \<Rightarrow> int \<Rightarrow> int \<Rightarrow> bool \<Rightarrow> int option" where
  "calculateProxyCost custom model promptTokens completionTokens roundUp =
     map_option totalCostMicrodollars
       (calculateCostBreakdown custom model promptTokens completionTokens roundUp)"

text \<open>
  The proxy's own dollar parser has no pattern check: its parts are what \<open>split(".")\<close> gives, read
  by \<open>BigInt\<close>, whose \<open>SyntaxError\<close> is \<open>None\<close>.
\<close>

definition usdToMicrodollars :: "string \<Rightarrow> int option" where
  "usdToMicrodollars usd =
     (let (negative, unsigned) = unsigned_part (js_trim usd);
          w = before_dot unsigned;
          f = take 6 (padEnd 6 (before_dot (first_some (after_dot unsigned) []))) in
      case (if w = [] then Some 0 else bigint_of_string w) of
        None \<Rightarrow> None
      | Some wholePart \<Rightarrow>
          (case bigint_of_string f of
             None \<Rightarrow> None
           | Some fracPart \<Rightarrow>
               (let r = wholePart * MICRODOLLAR_MULTIPLIER + fracPart
                in Some (if negative then - r else r))))"

text \<open>The trimming loop, from the end of the string.\<close>

fun trim_zeros :: "int \<Rightarrow> string \<Rightarrow> string" where
  "trim_zeros m [] = []"
| "trim_zeros m (c # cs) =
     (if int (length (c # cs)) > m \<and> c = zero_char then trim_zeros m cs else rev (c # cs))"

definition microdollarsToUsdString :: "int \<Rightarrow> int \<Rightarrow> string" where
  "microdollarsToUsdString microdollars minDecimals =
     (let a = \<bar>microdollars\<bar>;
          fracStr = padStart 6 (bigint_to_string (a mod MICRODOLLAR_MULTIPLIER));
          fracStr' = (if minDecimals < 6 then trim_zeros minDecimals (rev fracStr) else fracStr)
      in (if microdollars < 0 then ''-'' else []) @ ''$'' @
         bigint_to_string (a div MICRODOLLAR_MULTIPLIER) @ ''.'' @ fracStr')"

section \<open>Lemmas: digits\<close>

lemma digits_val_append: "digits_val (s @ t) = digits_val s * 10 ^ length t + digits_val t"
proof (induction t rule: rev_induct)
  case (snoc c t)
  have "digits_val (s @ t @ [c]) = 10 * digits_val (s @ t) + (code_of c - 48)"
    using digits_val_snoc [of "s @ t" c] by simp
  with snoc show ?case by (simp add: digits_val_snoc algebra_simps)
qed (simp add: digits_val_def)

lemma digits_val_zeros [simp]: "digits_val (replicate n zero_char) = 0"
  by (induction n) (simp_all add: digits_val_def)

lemma digits_val_lt: "list_all is_digit s \<Longrightarrow> digits_val s < 10 ^ length s"
proof (induction s rule: rev_induct)
  case (snoc c s)
  then show ?case by (auto simp: digits_val_snoc is_digit_def)
qed (simp add: digits_val_def)

lemma digits_zero: "list_all is_digit s \<Longrightarrow> digits_val s = 0 \<Longrightarrow> s = replicate (length s) zero_char"
proof (induction s rule: rev_induct)
  case (snoc c s)
  then have "code_of c - 48 = 0" "digits_val s = 0" "48 \<le> code_of c"
    by (auto simp: digits_val_snoc is_digit_def)
  then have "code_of c = code_of zero_char" by simp
  then have "c = zero_char" by (simp only: of_char_eq_iff)
  have "s = replicate (length s) zero_char" using snoc \<open>digits_val s = 0\<close> by simp
  then have "s @ [c] = replicate (length s) zero_char @ [zero_char]" using \<open>c = zero_char\<close> by metis
  then show ?case by (simp add: replicate_append_same)
qed simp

lemma digit_zero [simp]: "is_digit zero_char"
  by (simp add: is_digit_def)

lemma nat_str_length: "0 < k \<Longrightarrow> n < 10 ^ k \<Longrightarrow> length (nat_str n) \<le> k"
proof (induction k arbitrary: n)
  case (Suc k)
  show ?case
  proof (cases "n < 10")
    case True
    then show ?thesis by (subst nat_str.simps) simp
  next
    case False
    with Suc.prems have "0 < k" by (cases k) auto
    have "n < 10 ^ k * 10" using Suc.prems(2) by simp
    then have "n div 10 < 10 ^ k" by (rule less_mult_imp_div_less)
    with Suc.IH [of "n div 10"] \<open>0 < k\<close> False show ?thesis by (subst nat_str.simps) simp
  qed
qed simp

lemma frac_string:
  assumes "0 \<le> f" "f < 1000000"
  shows "length (padStart 6 (bigint_to_string f)) = 6"
    "list_all is_digit (padStart 6 (bigint_to_string f))"
    "digits_val (padStart 6 (bigint_to_string f)) = nat f"
proof -
  from assms have "nat f < 10 ^ 6" by simp
  then have "length (nat_str (nat f)) \<le> 6" by (intro nat_str_length) simp_all
  with assms show "length (padStart 6 (bigint_to_string f)) = 6"
    by (simp add: padStart_def bigint_to_string_def)
  from assms show "list_all is_digit (padStart 6 (bigint_to_string f))"
    using nat_str_digits [of "nat f"] by (auto simp: padStart_def bigint_to_string_def list_all_iff)
  from assms show "digits_val (padStart 6 (bigint_to_string f)) = nat f"
    by (simp add: padStart_def bigint_to_string_def digits_val_append digits_val_nat_str)
qed

lemma strip_zeros_snoc: "strip_zeros (s @ [c]) = (if c = zero_char then strip_zeros s else s @ [c])"
  by (simp add: strip_zeros_def)

lemma strip_zeros_pad: "\<exists>k. s = strip_zeros s @ replicate k zero_char"
proof (induction s rule: rev_induct)
  case (snoc c s)
  then obtain k where "s = strip_zeros s @ replicate k zero_char" by blast
  then have "s @ [zero_char] = strip_zeros s @ replicate (Suc k) zero_char"
    by (metis append_assoc replicate_append_same replicate_Suc)
  then show ?case by (auto simp: strip_zeros_snoc intro: exI [of _ "Suc k"] exI [of _ 0])
qed (simp add: strip_zeros_def)

lemma padEnd_prefix:
  "length s = n \<Longrightarrow> s = t @ replicate k zero_char \<Longrightarrow> padEnd n t = s"
  by (auto simp: padEnd_def)

lemma strip_digits: "list_all is_digit s \<Longrightarrow> list_all is_digit (strip_zeros s)"
  using strip_zeros_pad [of s] by (metis list_all_append)

lemma not_dot: "is_digit c \<Longrightarrow> c \<noteq> CHR ''.''"
  by (auto simp: is_digit_def)

lemma dot_parts:
  assumes "list_all is_digit w"
  shows "before_dot (w @ CHR ''.'' # f) = w" "after_dot (w @ CHR ''.'' # f) = Some f"
proof -
  have "\<forall>c\<in>set w. c \<noteq> CHR ''.''" using assms not_dot by (auto simp: list_all_iff)
  then show "before_dot (w @ CHR ''.'' # f) = w" "after_dot (w @ CHR ''.'' # f) = Some f"
    by (simp_all add: before_dot_def after_dot_def takeWhile_append2 dropWhile_append2)
qed

lemma dollars_of_parts:
  assumes "is_digits w" "is_digits f" "length f \<le> 6"
  shows "dollarsToMicrodollars ((if neg then ''-'' else []) @ w @ ''.'' @ f) =
    Some ((if neg then -1 else 1) * (int (digits_val w) * 1000000 + int (digits_val (padEnd 6 f))))"
proof -
  let ?body = "w @ CHR ''.'' # f" and ?s = "(if neg then ''-'' else []) @ w @ CHR ''.'' # f"
  have w: "w \<noteq> []" "list_all is_digit w" and f: "f \<noteq> []" "list_all is_digit f"
    using assms by (simp_all add: is_digits_def)
  have "is_digit (hd w)" "is_digit (last f)" using w f by (auto simp: list_all_iff)
  then have hd: "\<not> is_space (hd w)" "hd w \<noteq> CHR ''-''" and last: "\<not> is_space (last f)"
    by (auto simp: not_space_digit is_digit_def)
  have trim: "js_trim ?s = ?s"
    using w(1) f(1) hd(1) last minus_not_space by (intro js_trim_id) auto
  have uns: "unsigned_part ?s = (neg, ?body)"
    using w(1) hd(2) by (simp add: unsigned_part_def)
  have pad: "\<not> length f < 6 \<Longrightarrow> take 6 f = padEnd 6 f"
    using assms(3) by (simp add: padEnd_def)
  have eq: "(if neg then ''-'' else []) @ w @ ''.'' @ f = ?s" by simp
  show ?thesis
    unfolding eq dollarsToMicrodollars_def trim uns
    using assms(1,2) by (simp add: dot_parts [OF w(2)] pad MICRODOLLAR_MULTIPLIER_def Let_def)
qed

lemma is_digits_nat [simp]: "0 \<le> n \<Longrightarrow> is_digits (bigint_to_string n)"
  by (simp add: is_digits_def bigint_to_string_def nat_str_ne nat_str_digits)

lemma digits_val_bigint [simp]: "0 \<le> n \<Longrightarrow> digits_val (bigint_to_string n) = nat n"
  by (simp add: bigint_to_string_def digits_val_nat_str)

lemma formatted_fraction:
  assumes f: "0 \<le> f" "f < 1000000"
  defines "s \<equiv> padStart 6 (bigint_to_string f)"
  shows "f mod 10000 = 0 \<Longrightarrow> padEnd 6 (take 2 s) = s"
    and "is_digits (padEnd 2 (strip_zeros s))" "length (padEnd 2 (strip_zeros s)) \<le> 6"
    and "padEnd 6 (padEnd 2 (strip_zeros s)) = s"
    and "digits_val (padEnd 6 (take 2 s)) = nat (f div 10000 * 10000)"
proof -
  note s = frac_string [OF f, folded s_def]
  have split: "s = take 2 s @ drop 2 s" by simp
  have v: "digits_val s = digits_val (take 2 s) * 10000 + digits_val (drop 2 s)"
    using digits_val_append [of "take 2 s" "drop 2 s"] s(1) by simp
  have lo: "digits_val (drop 2 s) < 10000"
    using digits_val_lt [of "drop 2 s"] s(1,2) by (simp add: list_all_iff) (metis in_set_dropD)
  have hi: "digits_val (take 2 s) = nat f div 10000" using v lo s(3) by simp
  have pad: "padEnd 6 (take 2 s) = take 2 s @ replicate 4 zero_char"
    using s(1) by (simp add: padEnd_def)
  show "digits_val (padEnd 6 (take 2 s)) = nat (f div 10000 * 10000)"
    unfolding pad digits_val_append using hi f(1) by (simp add: nat_mult_distrib nat_div_distrib)
  {
    assume "f mod 10000 = 0"
    then have "nat f mod 10000 = 0" using f(1) nat_mod_distrib [of f 10000] by simp
    moreover have "nat f mod 10000 = digits_val (drop 2 s)" by (simp add: s(3) [symmetric] v lo)
    ultimately have "digits_val (drop 2 s) = 0" by simp
    then have "drop 2 s = replicate 4 zero_char"
      using digits_zero [of "drop 2 s"] s(1,2) by (simp add: list_all_iff) (metis in_set_dropD)
    then show "padEnd 6 (take 2 s) = s" unfolding pad using split by metis
  }
  obtain k where k: "s = strip_zeros s @ replicate k zero_char" using strip_zeros_pad by blast
  then have len: "length (strip_zeros s) \<le> 6" using s(1) by (metis le_add1 length_append)
  then show "length (padEnd 2 (strip_zeros s)) \<le> 6" by (simp add: padEnd_def)
  show "is_digits (padEnd 2 (strip_zeros s))"
    using strip_digits [OF s(2)] by (auto simp: is_digits_def padEnd_def list_all_iff)
  have "k = 6 - length (strip_zeros s)" using k s(1) by (metis add_diff_cancel_left' length_append length_replicate)
  then show "padEnd 6 (padEnd 2 (strip_zeros s)) = s"
    using k len by (auto simp: padEnd_def simp flip: replicate_add) 
qed

lemma cents_split: "u * 1000000 + v * 10000 = (u * 100 + v) * (10000 :: int)"
  by simp

lemma cut_cents: "x div 1000000 * 1000000 + x mod 1000000 div 10000 * 10000 = x div 10000 * (10000 :: int)"
proof -
  have d: "x div 1000000 = x div 10000 div 100" using zdiv_zmult2_eq [of 100 x 10000] by simp
  have "x mod 1000000 = 10000 * (x div 10000 mod 100) + x mod 10000"
    using zmod_zmult2_eq [of 100 x 10000] by simp
  moreover have "(10000 * u + x mod 10000) div 10000 = u" for u by simp
  ultimately have m: "x mod 1000000 div 10000 = x div 10000 mod 100" by (simp only:)
  show ?thesis unfolding d m cents_split div_mult_mod_eq ..
qed

lemma million_bounds: "1000000 * (x div 1000000) \<le> (x :: int)" "x < 1000000 * (x div 1000000) + 1000000"
proof -
  define q r where "q = x div 1000000" and "r = x mod 1000000"
  have x: "x = 1000000 * q + r" "0 \<le> r" "r < 1000000" by (simp_all add: q_def r_def)
  from x have "1000000 * q \<le> x" by linarith
  moreover from x have "x < 1000000 * q + 1000000" by linarith
  ultimately show "1000000 * (x div 1000000) \<le> x" "x < 1000000 * (x div 1000000) + 1000000"
    by (simp_all add: q_def)
qed

section \<open>Properties\<close>

text \<open>The price of the tokens, rounded to whole microdollars.\<close>

definition rounded :: "bool \<Rightarrow> int \<Rightarrow> int \<Rightarrow> int \<Rightarrow> bool" where
  "rounded up tokens rate cost \<longleftrightarrow>
     (let price = max 0 tokens * max 0 rate in
      if up then 1000000 * (cost - 1) < price \<and> price \<le> 1000000 * cost
      else 1000000 * cost \<le> price \<and> price < 1000000 * (cost + 1))"

text \<open>
  Money survives printing and parsing: the microdollar amount read back from what
  \<open>formatMicrodollars\<close> prints (without the dollar sign, in the default or the full precision) is the
  amount printed, negative amounts included; the two-decimal form reads back as the amount cut towards
  zero to whole cents.
\<close>

theorem money_roundtrip:
  "dollarsToMicrodollars (formatMicrodollars m (Some False) None) = Some m \<and>
   dollarsToMicrodollars (formatMicrodollars m (Some False) (Some Microdollars)) = Some m \<and>
   dollarsToMicrodollars (formatMicrodollars m (Some False) (Some Cents)) =
     Some (centsToMicrodollars (microdollarsToCents m))"
proof -
  define a where "a = \<bar>m\<bar>"
  define s where "s = padStart 6 (bigint_to_string (a mod 1000000))"
  have a: "0 \<le> a mod 1000000" "a mod 1000000 < 1000000" "0 \<le> a div 1000000" by (simp_all add: a_def)
  note fr = frac_string [OF a(1,2), folded s_def] and fs = formatted_fraction [OF a(1,2), folded s_def]
  have digits: "is_digits s" "is_digits (take 2 s)" "length (take 2 s) \<le> 6" "padEnd 6 s = s"
    using fr(1,2) by (auto simp: is_digits_def list_all_iff padEnd_def dest: in_set_takeD)
  have sgn: "(if m < 0 then -1 else 1) * (int (nat (a div 1000000)) * 1000000 + v) =
      (if m < 0 then -1 else 1) * (a div 1000000 * 1000000 + v)" for v
    using a(3) by simp
  have whole: "a div 1000000 * 1000000 + int (nat (a mod 1000000)) = a" using a(1) by simp
  have sm: "(if m < 0 then -1 else 1) * a = m" by (simp add: a_def)
  have parse: "dollarsToMicrodollars ((if m < 0 then ''-'' else []) @ bigint_to_string (a div 1000000) @ ''.'' @ f) =
      Some ((if m < 0 then -1 else 1) * (a div 1000000 * 1000000 + int (digits_val (padEnd 6 f))))"
    if "is_digits f" "length f \<le> 6" for f
    using dollars_of_parts [OF is_digits_nat [OF a(3)] that, of "m < 0"] a(3) by simp
  have full: "dollarsToMicrodollars ((if m < 0 then ''-'' else []) @ bigint_to_string (a div 1000000) @ ''.'' @ f) = Some m"
    if "is_digits f" "length f \<le> 6" "padEnd 6 f = s" for f
    unfolding parse [OF that(1,2)] that(3) fr(3) whole sm ..
  have cents: "(if m < 0 then -1 else 1) * (a div 1000000 * 1000000 + int (nat (a mod 1000000 div 10000 * 10000))) =
      centsToMicrodollars (microdollarsToCents m)"
  proof -
    have "a div 1000000 * 1000000 + a mod 1000000 div 10000 * 10000 = a div 10000 * 10000"
      by (rule cut_cents)
    moreover have "0 \<le> a mod 1000000 div 10000 * 10000" using a(1) by simp
    ultimately have "a div 1000000 * 1000000 + int (nat (a mod 1000000 div 10000 * 10000)) = a div 10000 * 10000"
      by simp
    then show ?thesis
      unfolding centsToMicrodollars_def microdollarsToCents_def bigint_div_def ONE_CENT_MICRODOLLARS_def
      by (simp add: a_def [symmetric] sgn_if) (simp add: a_def)
  qed
  let ?pre = "\<lambda>f. (if m < 0 then ''-'' else []) @ bigint_to_string (a div 1000000) @ ''.'' @ f"
  have format: "formatMicrodollars m (Some False) p = ?pre (case first_some p Auto of
        Cents \<Rightarrow> take 2 s | Microdollars \<Rightarrow> s
      | Auto \<Rightarrow> if a mod 1000000 mod 10000 = 0 then take 2 s else padEnd 2 (strip_zeros s))" for p
    unfolding formatMicrodollars_def Let_def MICRODOLLAR_MULTIPLIER_def ONE_CENT_MICRODOLLARS_def a_def s_def
    by simp
  have "dollarsToMicrodollars (formatMicrodollars m (Some False) None) = Some m"
  proof (cases "a mod 1000000 mod 10000 = 0")
    case True
    show ?thesis
      unfolding format first_some_simps MoneyPrecision.case if_P [OF True] by (intro full digits fs True)
  next
    case False
    show ?thesis
      unfolding format first_some_simps MoneyPrecision.case if_not_P [OF False] by (intro full fs)
  qed
  moreover have "dollarsToMicrodollars (formatMicrodollars m (Some False) (Some Microdollars)) = Some m"
    unfolding format first_some_simps MoneyPrecision.case using fr(1)
    by (intro full digits) simp
  moreover have "dollarsToMicrodollars (formatMicrodollars m (Some False) (Some Cents)) =
      Some (centsToMicrodollars (microdollarsToCents m))"
    unfolding format first_some_simps MoneyPrecision.case parse [OF digits(2,3)] fs(5) cents ..
  ultimately show ?thesis by blast
qed

lemma token_cost_rounded: "rounded up tokens rate (calculateTokenCost tokens rate up)"
proof (cases "tokens \<le> 0 \<or> rate \<le> 0")
  case True
  then show ?thesis by (auto simp: rounded_def calculateTokenCost_def)
next
  case False
  then have pos: "0 < tokens" "0 < rate" and "0 < tokens * rate" by simp_all
  then have "calculateTokenCost tokens rate up = (if up then (tokens * rate + 999999) div 1000000 else tokens * rate div 1000000)"
    by (simp add: calculateTokenCost_def bigint_div_nonneg TOKENS_PER_MILLION_def)
  moreover define p l h where "p = tokens * rate" and "l = p div 1000000" and "h = (p + 999999) div 1000000"
  moreover have "1000000 * l \<le> p" "p < 1000000 * l + 1000000" "p \<le> 1000000 * h" "1000000 * h < p + 1000000"
    using million_bounds [of p] million_bounds [of "p + 999999"] unfolding l_def h_def by linarith+
  ultimately show ?thesis using pos by (simp add: rounded_def distrib_left right_diff_distrib)
qed

lemma token_cost_grows: "calculateTokenCost tokens rate up \<le> calculateTokenCost (tokens + \<bar>d\<bar>) rate up"
proof (cases "tokens \<le> 0 \<or> rate \<le> 0")
  case True
  moreover have "0 \<le> calculateTokenCost (tokens + \<bar>d\<bar>) rate up"
    by (simp add: calculateTokenCost_def Let_def bigint_div_nonneg TOKENS_PER_MILLION_def pos_imp_zdiv_nonneg_iff)
  ultimately show ?thesis by (auto simp: calculateTokenCost_def)
next
  case False
  then have pos: "0 < tokens" "0 < rate" by simp_all
  then have "tokens * rate \<le> (tokens + \<bar>d\<bar>) * rate" by (intro mult_right_mono) simp_all
  with pos show ?thesis
    by (simp add: calculateTokenCost_def bigint_div_nonneg TOKENS_PER_MILLION_def Let_def zdiv_mono1)
qed

text \<open>
  C35. What a completion costs. Where the model has prices, the breakdown charges the prompt and the
  completion each at its own rate per million tokens, rounded to whole microdollars: down, or up on request;
  a count or rate that is not positive costs nothing. The total is the sum of the two and is what
  \<open>calculateProxyCost\<close> returns; and more tokens never cost less. Where the model has no prices (its name is
  an inherited property of the price table) only a completion without tokens has a cost, of zero.
\<close>

theorem token_cost_exact:
  "case getModelPricing custom model of
     None \<Rightarrow> calculateCostBreakdown custom model prompt completion up =
       (if prompt \<le> 0 \<and> completion \<le> 0
        then Some \<lparr>promptCostMicrodollars = 0, completionCostMicrodollars = 0, totalCostMicrodollars = 0\<rparr> else None)
   | Some rates \<Rightarrow> \<exists>c c'.
       calculateCostBreakdown custom model prompt completion up = Some c \<and>
       calculateCostBreakdown custom model (prompt + \<bar>d\<bar>) (completion + \<bar>e\<bar>) up = Some c' \<and>
       rounded up prompt (promptMicrodollarsPerMillion rates) (promptCostMicrodollars c) \<and>
       rounded up completion (completionMicrodollarsPerMillion rates) (completionCostMicrodollars c) \<and>
       totalCostMicrodollars c = promptCostMicrodollars c + completionCostMicrodollars c \<and>
       calculateProxyCost custom model prompt completion up = Some (totalCostMicrodollars c) \<and>
       promptCostMicrodollars c \<le> promptCostMicrodollars c' \<and>
       completionCostMicrodollars c \<le> completionCostMicrodollars c'"
  by (cases "getModelPricing custom model")
    (auto simp: calculateProxyCost_def calculateCostBreakdown_def token_cost_at_def token_cost_rounded token_cost_grows)

text \<open>
  How a model is priced: a registered price wins, then the table's own entry, then the first
  table entry, in the table's order, whose name is a prefix, then the default. The order puts a model
  before its cheaper variant, so a dated snapshot of \<open>gpt-4o-mini\<close> is billed at the price of
  \<open>gpt-4o\<close> (over sixteen times its own) and one of \<open>o1-mini\<close> at that of \<open>o1\<close>; and a price
  registered under a name with a provider prefix is never found.
\<close>

theorem pricing_resolution:
  fixes custom :: custom_pricing and model :: string
  defines "key \<equiv> normalizeModelName model"
  shows "getModelPricing custom model =
      (if map_of custom key \<noteq> None then map_of custom key
       else if map_of DEFAULT_MODEL_PRICING key \<noteq> None then map_of DEFAULT_MODEL_PRICING key
       else if inherited_property key then None
       else case filter (\<lambda>(name, _). name \<noteq> ''default'' \<and> starts_with key name) DEFAULT_MODEL_PRICING of
              (_, p) # _ \<Rightarrow> Some p
            | [] \<Rightarrow> Some (model_pricing 1000000 3000000)) \<and>
    getModelPricing [] ''gpt-4o-mini-2024-07-18'' = getModelPricing [] ''gpt-4o'' \<and>
    getModelPricing [] ''o1-mini-2024-09-12'' = getModelPricing [] ''o1'' \<and>
    getModelPricing [] ''gpt-4o-mini'' \<noteq> getModelPricing [] ''gpt-4o'' \<and>
    getModelPricing (registerModelPricing ''acme/m1'' (model_pricing 7 7) []) ''acme/m1'' =
      getModelPricing [] ''acme/m1''"
proof -
  have find: "find P xs = (case filter P xs of [] \<Rightarrow> None | x # _ \<Rightarrow> Some x)" for P and xs :: "(string \<times> ProxyPricing) list"
    by (induction xs) auto
  have default: "map_of DEFAULT_MODEL_PRICING ''default'' = Some (model_pricing 1000000 3000000)"
    by (simp add: DEFAULT_MODEL_PRICING_def)
  have "getModelPricing [] ''gpt-4o-mini-2024-07-18'' = getModelPricing [] ''gpt-4o''"
    "getModelPricing [] ''o1-mini-2024-09-12'' = getModelPricing [] ''o1''"
    "getModelPricing [] ''gpt-4o-mini'' \<noteq> getModelPricing [] ''gpt-4o''"
    "getModelPricing (registerModelPricing ''acme/m1'' (model_pricing 7 7) []) ''acme/m1'' =
      getModelPricing [] ''acme/m1''"
    by code_simp+
  moreover have "getModelPricing custom model =
      (if map_of custom key \<noteq> None then map_of custom key
       else if map_of DEFAULT_MODEL_PRICING key \<noteq> None then map_of DEFAULT_MODEL_PRICING key
       else if inherited_property key then None
       else case filter (\<lambda>(name, _). name \<noteq> ''default'' \<and> starts_with key name) DEFAULT_MODEL_PRICING of
              (_, p) # _ \<Rightarrow> Some p
            | [] \<Rightarrow> Some (model_pricing 1000000 3000000))"
    unfolding getModelPricing_def Let_def key_def [symmetric] find default
    by (simp split: option.split list.split)
  ultimately show ?thesis by blast
qed

end
