(* ===== verification/ModelRegistry.thy ===== *)
theory ModelRegistry
  imports Financial
begin

text \<open>
  \<open>src/router/registry/\<close>: the model catalogue (\<open>catalog.ts\<close>), normalization (\<open>helpers.ts\<close>) and
  the registry with its alias lookup, context-window checks and pricing (\<open>registry.ts\<close>). Token counts
  are integers, so \<open>Math.trunc\<close> is the identity.
\<close>

section \<open>Models (types/models.ts, helpers.ts)\<close>

record ModelDef =
  mdId :: string
  mdProvider :: string
  logicalAliases :: "string list"
  contextWindow :: int
  maxOutputTokens :: int
  inputCostPerMTokMicro :: int
  outputCostPerMTokMicro :: int
  cacheReadCostPerMTokMicro :: int
  supportsTools :: bool
  supportsVision :: bool
  supportsJsonSchema :: bool
  deprecatedAt :: "string option"
  sunsetAt :: "string option"
  mdIsActive :: bool
  lastSyncedAt :: "string option"

text \<open>A definition as it is handed in: costs as \<open>bigint\<close> or \<open>number\<close>, optional aliases and flag.\<close>

record RawModelDef =
  rmId :: string
  rmProvider :: string
  rmAliases :: "string list option"
  rmContextWindow :: int
  rmMaxOutputTokens :: int
  rmInputCost :: js
  rmOutputCost :: js
  rmCacheReadCost :: js
  rmTools :: bool
  rmVision :: bool
  rmJsonSchema :: bool
  rmDeprecatedAt :: "string option"
  rmSunsetAt :: "string option"
  rmIsActive :: "bool option"
  rmLastSyncedAt :: "string option"

definition toBigIntMicro :: "js \<Rightarrow> int \<Rightarrow> int" where
  "toBigIntMicro v d = (case v of JBigInt n \<Rightarrow> n | JNum n \<Rightarrow> n | _ \<Rightarrow> d)"

definition normalizeModelDef :: "RawModelDef \<Rightarrow> ModelDef" where
  "normalizeModelDef m =
     \<lparr>mdId = rmId m, mdProvider = rmProvider m,
      logicalAliases = filter (\<lambda>a. a \<noteq> []) (map js_trim (first_some (rmAliases m) [])),
      contextWindow = rmContextWindow m, maxOutputTokens = rmMaxOutputTokens m,
      inputCostPerMTokMicro = toBigIntMicro (rmInputCost m) 0,
      outputCostPerMTokMicro = toBigIntMicro (rmOutputCost m) 0,
      cacheReadCostPerMTokMicro = toBigIntMicro (rmCacheReadCost m) 0,
      supportsTools = rmTools m, supportsVision = rmVision m, supportsJsonSchema = rmJsonSchema m,
      deprecatedAt = rmDeprecatedAt m, sunsetAt = rmSunsetAt m,
      mdIsActive = first_some (rmIsActive m) True, lastSyncedAt = rmLastSyncedAt m\<rparr>"

section \<open>The catalogue (catalog.ts)\<close>

definition catalog_entry ::
  "string \<Rightarrow> string \<Rightarrow> string list \<Rightarrow> int \<Rightarrow> int \<Rightarrow> int \<Rightarrow> int \<Rightarrow> int \<Rightarrow> bool \<Rightarrow> bool \<Rightarrow> bool \<Rightarrow>
   string option \<Rightarrow> string option \<Rightarrow> string \<Rightarrow> RawModelDef" where
  "catalog_entry i p al ctx mo ic oc cc st sv sj dep sun syn =
     \<lparr>rmId = i, rmProvider = p, rmAliases = Some al, rmContextWindow = ctx, rmMaxOutputTokens = mo,
      rmInputCost = JBigInt ic, rmOutputCost = JBigInt oc, rmCacheReadCost = JBigInt cc,
      rmTools = st, rmVision = sv, rmJsonSchema = sj, rmDeprecatedAt = dep, rmSunsetAt = sun,
      rmIsActive = Some True, rmLastSyncedAt = Some syn\<rparr>"

definition DEFAULT_MODEL_DEFINITIONS :: "RawModelDef list" where
  "DEFAULT_MODEL_DEFINITIONS =
  [
   catalog_entry ''gemini-2.0-flash'' ''google'' [''smart-fast'', ''fast-model'', ''fast'']
     1048576 8192 100000 400000 25000 True True True (Some ''2026-09-01T00:00:00.000Z'') (Some ''2026-12-31T00:00:00.000Z'')
     ''2026-09-09T00:00:00.000Z'',
   catalog_entry ''gemini-1.5-pro'' ''google'' [''smart-model'', ''reasoning'']
     2097152 8192 1250000 5000000 312500 True True True (Some ''2026-09-01T00:00:00.000Z'') (Some ''2026-12-31T00:00:00.000Z'')
     ''2026-09-09T00:00:00.000Z'',
   catalog_entry ''gpt-4o'' ''openai'' [''smart-model'', ''reasoning'', ''vision'']
     128000 16384 2500000 10000000 1250000 True True True None None
     ''2026-09-09T00:00:00.000Z'',
   catalog_entry ''gpt-4o-mini'' ''openai'' [''fast-model'', ''economy'', ''fast'']
     128000 16384 150000 600000 75000 True True True None None
     ''2026-09-09T00:00:00.000Z'',
   catalog_entry ''claude-3-5-sonnet'' ''anthropic'' [''smart-model'', ''reasoning'', ''code'']
     200000 8192 3000000 15000000 300000 True True True (Some ''2026-09-01T00:00:00.000Z'') (Some ''2026-12-31T00:00:00.000Z'')
     ''2026-09-09T00:00:00.000Z'',
   catalog_entry ''claude-3-5-haiku'' ''anthropic'' [''fast-model'', ''economy'']
     200000 8192 800000 4000000 80000 True False True None None
     ''2026-09-09T00:00:00.000Z'',
   catalog_entry ''deepseek-chat'' ''deepseek'' [''economy'', ''fast'', ''deepseek-v3'']
     64000 8192 140000 280000 14000 True False True (Some ''2026-09-01T00:00:00.000Z'') (Some ''2026-12-31T00:00:00.000Z'')
     ''2026-09-09T00:00:00.000Z'',
   catalog_entry ''llama-3.3-70b-versatile'' ''groq'' [''fast-model'', ''smart-fast'']
     128000 32768 590000 790000 0 True False True None None
     ''2026-09-09T00:00:00.000Z''
  ]"

definition FREE_TIER_MODEL_DEFINITIONS :: "RawModelDef list" where
  "FREE_TIER_MODEL_DEFINITIONS =
  [
   catalog_entry ''gemini-2.5-flash'' ''google'' [''gemini-flash'', ''google-flash'', ''flash-2.5'']
     1048576 65536 75000 300000 18750 True True True None None
     ''2026-09-10T00:00:00.000Z'',
   catalog_entry ''gemini-3.5-flash'' ''google'' [''gemini-3.5'', ''flash-3.5'']
     1048576 65536 100000 400000 25000 True True True None None
     ''2026-09-10T00:00:00.000Z'',
   catalog_entry ''gemini-3.5-flash-lite'' ''google'' [''flash-lite'', ''gemini-lite'']
     1048576 65536 50000 200000 12500 True True True None None
     ''2026-09-10T00:00:00.000Z'',
   catalog_entry ''gemini-3.1-pro-preview'' ''google'' [''gemini-pro'', ''gemini-3.1-pro'', ''pro-3.1'']
     1048576 65536 1250000 5000000 312500 True True True None None
     ''2026-09-10T00:00:00.000Z'',
   catalog_entry ''gemini-3.8-flash'' ''google'' [''smart-fast-next'', ''gemini-3.8'', ''flash-3.8'']
     1048576 65536 150000 600000 37500 True True True None None
     ''2026-09-10T00:00:00.000Z'',
   catalog_entry ''qwen/qwen3.6-27b'' ''groq'' [''groq-code'', ''qwen-27b'']
     131072 8192 200000 400000 50000 True False True None None
     ''2026-09-10T00:00:00.000Z'',
   catalog_entry ''qwen/qwen3.8-27b'' ''groq'' [''qwen-3.8'', ''groq-qwen'']
     131072 8192 350000 700000 87500 True False True None None
     ''2026-09-10T00:00:00.000Z'',
   catalog_entry ''openai/gpt-oss-120b'' ''groq'' [''groq-oss'', ''gpt-oss'', ''gpt-oss-120b'']
     131072 65536 600000 1200000 150000 True False True None None
     ''2026-09-10T00:00:00.000Z'',
   catalog_entry ''openai/gpt-oss-20b'' ''groq'' [''gpt-oss-20b'', ''groq-fast'']
     131072 65536 150000 300000 37500 True False True None None
     ''2026-09-10T00:00:00.000Z'',
   catalog_entry ''deepseek/deepseek-r1-distill-llama-70b'' ''deepseek'' [''deepseek-r1'', ''r1-distill'']
     131072 32768 550000 1500000 137500 True False True None None
     ''2026-09-10T00:00:00.000Z''
  ]"

definition ALL_MODEL_DEFINITIONS :: "RawModelDef list" where
  "ALL_MODEL_DEFINITIONS = DEFAULT_MODEL_DEFINITIONS @ FREE_TIER_MODEL_DEFINITIONS"

section \<open>The registry (registry.ts)\<close>

record ModelRegistry =
  rgModels :: "(string, ModelDef) jsmap"
  rgAliases :: "(string, string) jsmap"

datatype registry_error =
    ModelIdTypeError
  | AliasTypeError
  | ModelNotFoundError string "string list"
  | UnknownModelAliasError string "string list"
  | ContextWindowExceededError string int int

type_synonym 'r registry_result = "registry_error + 'r"

text \<open>\<open>x.toLowerCase().trim()\<close>.\<close>

definition clean :: "string \<Rightarrow> string" where
  "clean s = js_trim (js_lower s)"

definition registerModel :: "RawModelDef \<Rightarrow> ModelRegistry \<Rightarrow> unit registry_result \<times> ModelRegistry" where
  "registerModel model r =
     (if rmId model = [] \<or> js_trim (rmId model) = [] then (Inl ModelIdTypeError, r)
      else (Inr (), r\<lparr>rgModels := AList.update (clean (rmId model)) (normalizeModelDef model) (rgModels r)\<rparr>))"

fun registerModels :: "RawModelDef list \<Rightarrow> ModelRegistry \<Rightarrow> unit registry_result \<times> ModelRegistry" where
  "registerModels [] r = (Inr (), r)"
| "registerModels (m # ms) r =
     (case registerModel m r of (Inl e, r1) \<Rightarrow> (Inl e, r1) | (Inr _, r1) \<Rightarrow> registerModels ms r1)"

definition unregisterModel :: "string \<Rightarrow> ModelRegistry \<Rightarrow> bool \<times> ModelRegistry" where
  "unregisterModel modelId r =
     (let key = clean modelId
      in (map_of (rgModels r) key \<noteq> None,
          \<lparr>rgModels = AList.delete key (rgModels r),
           rgAliases = filter (\<lambda>(_, target). clean target \<noteq> key) (rgAliases r)\<rparr>))"

definition getModel :: "ModelRegistry \<Rightarrow> string \<Rightarrow> ModelDef option" where
  "getModel r modelId = map_of (rgModels r) (clean modelId)"

definition hasModel :: "ModelRegistry \<Rightarrow> string \<Rightarrow> bool" where
  "hasModel r modelId \<longleftrightarrow> map_of (rgModels r) (clean modelId) \<noteq> None"

definition getModelOrThrow :: "ModelRegistry \<Rightarrow> string \<Rightarrow> ModelDef registry_result" where
  "getModelOrThrow r modelId =
     (case getModel r modelId of
        None \<Rightarrow> Inl (ModelNotFoundError modelId (map fst (rgModels r)))
      | Some m \<Rightarrow> Inr m)"

definition getAllModels :: "ModelRegistry \<Rightarrow> bool \<Rightarrow> ModelDef list" where
  "getAllModels r onlyActive =
     (let everything = map snd (rgModels r) in if onlyActive then filter mdIsActive everything else everything)"

definition getActiveModels :: "ModelRegistry \<Rightarrow> ModelDef list" where
  "getActiveModels r = getAllModels r True"

definition getModelsByProvider :: "ModelRegistry \<Rightarrow> string \<Rightarrow> bool \<Rightarrow> ModelDef list" where
  "getModelsByProvider r prov onlyActive =
     filter (\<lambda>m. clean (mdProvider m) = clean prov) (getAllModels r onlyActive)"

definition registerAlias :: "string \<Rightarrow> string \<Rightarrow> ModelRegistry \<Rightarrow> unit registry_result \<times> ModelRegistry" where
  "registerAlias alias canonicalModelId r =
     (if clean alias = [] then (Inl AliasTypeError, r)
      else (Inr (), r\<lparr>rgAliases := AList.update (clean alias) (js_trim canonicalModelId) (rgAliases r)\<rparr>))"

definition unregisterAlias :: "string \<Rightarrow> ModelRegistry \<Rightarrow> bool \<times> ModelRegistry" where
  "unregisterAlias alias r =
     (map_of (rgAliases r) (clean alias) \<noteq> None,
      r\<lparr>rgAliases := AList.delete (clean alias) (rgAliases r)\<rparr>)"

definition hasAlias :: "ModelRegistry \<Rightarrow> string \<Rightarrow> bool" where
  "hasAlias r alias \<longleftrightarrow>
     map_of (rgAliases r) (clean alias) \<noteq> None \<or>
     list_ex (\<lambda>(_, m). list_ex (\<lambda>a. js_lower a = clean alias) (logicalAliases m)) (rgModels r)"

definition aliased_to :: "string \<Rightarrow> ModelDef \<Rightarrow> bool" where
  "aliased_to c m \<longleftrightarrow> list_ex (\<lambda>a. clean a = c) (logicalAliases m)"

text \<open>The scan for the cheapest active model with an alias; the first of equals wins.\<close>

fun cheapest_match :: "string \<Rightarrow> ModelDef list \<Rightarrow> ModelDef option \<Rightarrow> ModelDef option" where
  "cheapest_match c [] best = best"
| "cheapest_match c (m # ms) best =
     cheapest_match c ms
       (if mdIsActive m \<and> aliased_to c m then
          (case best of
             None \<Rightarrow> Some m
           | Some b \<Rightarrow> if inputCostPerMTokMicro m < inputCostPerMTokMicro b then Some m else best)
        else best)"

definition resolveAlias :: "ModelRegistry \<Rightarrow> string \<Rightarrow> string option" where
  "resolveAlias r alias =
     (let c = clean alias; implicit = map_option mdId (cheapest_match c (map snd (rgModels r)) None) in
      case map_of (rgAliases r) c of
        Some target \<Rightarrow> if target \<noteq> [] then Some target else implicit
      | None \<Rightarrow> implicit)"

definition usable :: "bool \<Rightarrow> ModelDef \<Rightarrow> ModelDef option" where
  "usable onlyActive m = (if onlyActive \<and> \<not> mdIsActive m then None else Some m)"

definition resolveModel :: "ModelRegistry \<Rightarrow> string \<Rightarrow> bool \<Rightarrow> ModelDef option" where
  "resolveModel r idOrAlias onlyActive =
     (let c = clean idOrAlias in
      case map_of (rgModels r) c of
        Some m \<Rightarrow> usable onlyActive m
      | None \<Rightarrow>
          (case resolveAlias r c of
             None \<Rightarrow> None
           | Some i \<Rightarrow>
               if i = [] then None
               else (case map_of (rgModels r) (clean i) of
                       None \<Rightarrow> None
                     | Some m \<Rightarrow> usable onlyActive m)))"

definition compareByCost :: "ModelDef \<Rightarrow> ModelDef \<Rightarrow> int" where
  "compareByCost a b =
     (if inputCostPerMTokMicro a < inputCostPerMTokMicro b then -1
      else if inputCostPerMTokMicro a > inputCostPerMTokMicro b then 1 else 0)"

text \<open>\<open>if (!map.has(clean)) map.set(clean, model.id)\<close>, for each alias of each model.\<close>

definition add_alias :: "string \<Rightarrow> string \<Rightarrow> (string, string) jsmap \<Rightarrow> (string, string) jsmap" where
  "add_alias a i m = (if map_of m a = None then AList.update a i m else m)"

definition add_aliases_of :: "ModelDef \<Rightarrow> (string, string) jsmap \<Rightarrow> (string, string) jsmap" where
  "add_aliases_of model m = fold (\<lambda>a. add_alias (clean a) (mdId model)) (logicalAliases model) m"

definition getAliasMap :: "ModelRegistry \<Rightarrow> bool \<Rightarrow> (string, string) jsmap" where
  "getAliasMap r onlyActive =
     (let implicit = fold add_aliases_of (js_sort compareByCost (getAllModels r onlyActive)) [];
          live = (\<lambda>target. case map_of (rgModels r) (clean target) of
                             Some m \<Rightarrow> mdIsActive m | None \<Rightarrow> False)
      in fold (\<lambda>(alias, target) m. if \<not> onlyActive \<or> live target then AList.update alias target m else m)
           (rgAliases r) implicit)"

definition getAliasesForModel :: "ModelRegistry \<Rightarrow> string \<Rightarrow> string list" where
  "getAliasesForModel r modelId =
     (let own = (case map_of (rgModels r) (clean modelId) of None \<Rightarrow> [] | Some m \<Rightarrow> logicalAliases m);
          explicit = map fst (filter (\<lambda>(_, target). clean target = clean modelId) (rgAliases r))
      in fold (\<lambda>a acc. if a \<in> set acc then acc else acc @ [a]) (own @ explicit) [])"

definition resolveModelOrThrow :: "ModelRegistry \<Rightarrow> string \<Rightarrow> bool \<Rightarrow> ModelDef registry_result" where
  "resolveModelOrThrow r idOrAlias onlyActive =
     (case resolveModel r idOrAlias onlyActive of
        Some m \<Rightarrow> Inr m
      | None \<Rightarrow>
          (let knownAliases = map fst (getAliasMap r onlyActive) in
           if str_includes idOrAlias ''-'' \<or> js_lower idOrAlias \<in> set knownAliases
           then Inl (UnknownModelAliasError idOrAlias knownAliases)
           else Inl (ModelNotFoundError idOrAlias (map fst (rgModels r)))))"

definition newModelRegistry ::
  "RawModelDef list option \<Rightarrow> (string \<times> string) list \<Rightarrow> unit registry_result \<times> ModelRegistry" where
  "newModelRegistry models aliases =
     (let empty_registry = \<lparr>rgModels = [], rgAliases = []\<rparr>;
          add_all = fold (\<lambda>(alias, target) (res, r).
             case res of Inl e \<Rightarrow> (Inl e, r) | Inr _ \<Rightarrow> registerAlias alias target r) aliases
      in add_all (registerModels (first_some models DEFAULT_MODEL_DEFINITIONS) empty_registry))"

section \<open>Context windows (registry.ts)\<close>

definition with_model :: "ModelRegistry \<Rightarrow> string \<Rightarrow> (ModelDef \<Rightarrow> 'r registry_result) \<Rightarrow> 'r registry_result" where
  "with_model r i f = (case resolveModelOrThrow r i True of Inl e \<Rightarrow> Inl e | Inr m \<Rightarrow> f m)"

definition getContextWindow :: "ModelRegistry \<Rightarrow> string \<Rightarrow> int registry_result" where
  "getContextWindow r i = with_model r i (\<lambda>m. Inr (contextWindow m))"

definition getMaxOutputTokens :: "ModelRegistry \<Rightarrow> string \<Rightarrow> int registry_result" where
  "getMaxOutputTokens r i = with_model r i (\<lambda>m. Inr (maxOutputTokens m))"

definition fitsContextWindow :: "ModelRegistry \<Rightarrow> string \<Rightarrow> int \<Rightarrow> int \<Rightarrow> bool" where
  "fitsContextWindow r i promptTokens outTokens =
     (case resolveModel r i True of
        None \<Rightarrow> False
      | Some m \<Rightarrow> max 0 promptTokens + max 0 outTokens \<le> contextWindow m)"

definition getRemainingContextWindow :: "ModelRegistry \<Rightarrow> string \<Rightarrow> int \<Rightarrow> int registry_result" where
  "getRemainingContextWindow r i promptTokens =
     with_model r i (\<lambda>m. Inr (max 0 (contextWindow m - max 0 promptTokens)))"

datatype limit_reason = PromptTooLong | OutputTooLong | TotalTooLong

record ContextValidationResult =
  cvValid :: bool
  cvContextWindow :: int
  cvMaxOutputTokens :: int
  cvPromptTokens :: int
  cvMaxCompletionTokens :: int
  cvTotalEstimatedTokens :: int
  cvRemainingTokens :: int
  cvErrorReason :: "limit_reason option"

definition token_limit_reason :: "ModelDef \<Rightarrow> int \<Rightarrow> int option \<Rightarrow> limit_reason option" where
  "token_limit_reason m prompt out =
     (if prompt > contextWindow m then Some PromptTooLong
      else if out \<noteq> None \<and> first_some out 0 > maxOutputTokens m then Some OutputTooLong
      else if prompt + first_some out 0 > contextWindow m then Some TotalTooLong
      else None)"

definition validateTokenLimits ::
  "ModelRegistry \<Rightarrow> string \<Rightarrow> int \<Rightarrow> int option \<Rightarrow> ContextValidationResult registry_result" where
  "validateTokenLimits r i promptTokens outTokens =
     with_model r i (\<lambda>m.
       (let prompt = max 0 promptTokens; out = map_option (max 0) outTokens;
            reason = token_limit_reason m prompt out
        in Inr \<lparr>cvValid = (reason = None), cvContextWindow = contextWindow m,
                cvMaxOutputTokens = maxOutputTokens m, cvPromptTokens = prompt,
                cvMaxCompletionTokens = first_some out (maxOutputTokens m),
                cvTotalEstimatedTokens = prompt + first_some out 0,
                cvRemainingTokens = max 0 (contextWindow m - prompt), cvErrorReason = reason\<rparr>))"

definition assertWithinContextWindow :: "ModelRegistry \<Rightarrow> string \<Rightarrow> int \<Rightarrow> int \<Rightarrow> unit registry_result" where
  "assertWithinContextWindow r i promptTokens outTokens =
     with_model r i (\<lambda>m.
       (let n = max 0 promptTokens + max 0 outTokens in
        if n > contextWindow m then Inl (ContextWindowExceededError (mdId m) (contextWindow m) n) else Inr ()))"

section \<open>Pricing (registry.ts)\<close>

record TokenUsage =
  promptTokens :: int
  completionTokens :: int
  cachedTokens :: "int option"
  reasoningTokens :: "int option"

definition price :: "int \<Rightarrow> int \<Rightarrow> int" where
  "price tokens cost = bigint_div (tokens * cost) MICRODOLLAR_MULTIPLIER"

definition calculateCostForModel :: "ModelDef \<Rightarrow> TokenUsage \<Rightarrow> int" where
  "calculateCostForModel m u =
     (let prompt = max 0 (promptTokens u); completion = max 0 (completionTokens u);
          reasoning = max 0 (first_some (reasoningTokens u) 0); cached = max 0 (first_some (cachedTokens u) 0)
      in price prompt (inputCostPerMTokMicro m) +
         price (completion + reasoning) (outputCostPerMTokMicro m) +
         price cached (cacheReadCostPerMTokMicro m))"

definition calculateCost :: "ModelRegistry \<Rightarrow> string \<Rightarrow> TokenUsage \<Rightarrow> int registry_result" where
  "calculateCost r i u = with_model r i (\<lambda>m. Inr (calculateCostForModel m u))"

record CostBreakdown =
  cbPrompt :: int
  cbCompletion :: int
  cbReasoning :: int
  cbCacheRead :: int
  cbTotal :: int

definition cost_breakdown :: "ModelDef \<Rightarrow> TokenUsage \<Rightarrow> CostBreakdown" where
  "cost_breakdown m u =
     (let prompt = max 0 (promptTokens u); completion = max 0 (completionTokens u);
          reasoning = max 0 (first_some (reasoningTokens u) 0); cached = max 0 (first_some (cachedTokens u) 0)
      in \<lparr>cbPrompt = price prompt (inputCostPerMTokMicro m),
          cbCompletion = price completion (outputCostPerMTokMicro m),
          cbReasoning = price reasoning (outputCostPerMTokMicro m),
          cbCacheRead = price cached (cacheReadCostPerMTokMicro m),
          cbTotal = price prompt (inputCostPerMTokMicro m) +
                    price (completion + reasoning) (outputCostPerMTokMicro m) +
                    price cached (cacheReadCostPerMTokMicro m)\<rparr>)"

definition registryCostBreakdown :: "ModelRegistry \<Rightarrow> string \<Rightarrow> TokenUsage \<Rightarrow> CostBreakdown registry_result" where
  "registryCostBreakdown r i u = with_model r i (\<lambda>m. Inr (cost_breakdown m u))"

definition calculateEstimatedCost :: "ModelRegistry \<Rightarrow> string \<Rightarrow> int \<Rightarrow> int \<Rightarrow> int registry_result" where
  "calculateEstimatedCost r i prompt completion =
     calculateCost r i \<lparr>promptTokens = prompt, completionTokens = completion, cachedTokens = None,
                        reasoningTokens = None\<rparr>"

definition getPricing :: "ModelRegistry \<Rightarrow> string \<Rightarrow> (int \<times> int \<times> int) registry_result" where
  "getPricing r i = with_model r i (\<lambda>m.
     Inr (inputCostPerMTokMicro m, outputCostPerMTokMicro m, cacheReadCostPerMTokMicro m))"

section \<open>Candidates (registry.ts)\<close>

record ModelFilterCriteria =
  fcProvider :: "string option"
  fcOnlyActive :: "bool option"
  fcMinContextWindow :: "int option"
  fcMaxCost :: "js option"
  fcTools :: bool
  fcVision :: bool
  fcJsonSchema :: bool

definition matches_criteria :: "ModelFilterCriteria \<Rightarrow> ModelDef \<Rightarrow> bool" where
  "matches_criteria c m \<longleftrightarrow>
     (case fcProvider c of Some p \<Rightarrow> p = [] \<or> clean (mdProvider m) = clean p | None \<Rightarrow> True) \<and>
     (case fcMinContextWindow c of Some n \<Rightarrow> contextWindow m \<ge> n | None \<Rightarrow> True) \<and>
     (case fcMaxCost c of Some v \<Rightarrow> inputCostPerMTokMicro m \<le> toBigIntMicro v 0 | None \<Rightarrow> True) \<and>
     (\<not> fcTools c \<or> supportsTools m) \<and> (\<not> fcVision c \<or> supportsVision m) \<and>
     (\<not> fcJsonSchema c \<or> supportsJsonSchema m)"

definition findCandidates :: "ModelRegistry \<Rightarrow> ModelFilterCriteria \<Rightarrow> ModelDef list" where
  "findCandidates r c =
     js_sort compareByCost (filter (matches_criteria c) (getAllModels r (first_some (fcOnlyActive c) True)))"

fun cheapest_from :: "ModelDef \<Rightarrow> ModelDef list \<Rightarrow> ModelDef" where
  "cheapest_from best [] = best"
| "cheapest_from best (m # ms) =
     cheapest_from (if inputCostPerMTokMicro m < inputCostPerMTokMicro best then m else best) ms"

definition getCheapestModel :: "ModelDef list \<Rightarrow> ModelDef option" where
  "getCheapestModel candidates = (case candidates of [] \<Rightarrow> None | m # ms \<Rightarrow> Some (cheapest_from m ms))"

end
