(* ===== verification/SseUsage.thy ===== *)
theory SseUsage
  imports ModelRegistry
begin

text \<open>
  What the proxy reads out of a provider's JSON: token usage (\<open>src/proxy/sse/usage_extractor.ts\<close>)
  and the completion text (\<open>src/proxy/upstream/payload.ts\<close>).
\<close>

section \<open>Usage (sse/usage_extractor.ts)\<close>

record PartialUsage =
  puPrompt :: "int option"
  puCompletion :: "int option"
  puTotal :: "int option"
  puCached :: "int option"
  puReasoning :: "int option"
  puFound :: bool

definition no_usage :: PartialUsage where
  "no_usage = \<lparr>puPrompt = None, puCompletion = None, puTotal = None, puCached = None,
               puReasoning = None, puFound = False\<rparr>"

text \<open>The chain of \<open>typeof obj.f === "number"\<close> tests: the first field that is a number.\<close>

fun first_num :: "js \<Rightarrow> string list \<Rightarrow> int option" where
  "first_num v [] = None"
| "first_num v (f # fs) = (case num_opt_of (js_get v f) of Some n \<Rightarrow> Some n | None \<Rightarrow> first_num v fs)"

definition set_prompt :: "int option \<Rightarrow> PartialUsage \<Rightarrow> PartialUsage" where
  "set_prompt n u = (if n = None then u else u\<lparr>puPrompt := n, puFound := True\<rparr>)"

definition set_completion :: "int option \<Rightarrow> PartialUsage \<Rightarrow> PartialUsage" where
  "set_completion n u = (if n = None then u else u\<lparr>puCompletion := n, puFound := True\<rparr>)"

definition set_total :: "int option \<Rightarrow> PartialUsage \<Rightarrow> PartialUsage" where
  "set_total n u = (if n = None then u else u\<lparr>puTotal := n, puFound := True\<rparr>)"

definition set_cached :: "int option \<Rightarrow> PartialUsage \<Rightarrow> PartialUsage" where
  "set_cached n u = (if n = None then u else u\<lparr>puCached := n\<rparr>)"

definition set_reasoning :: "int option \<Rightarrow> PartialUsage \<Rightarrow> PartialUsage" where
  "set_reasoning n u = (if n = None then u else u\<lparr>puReasoning := n\<rparr>)"

text \<open>A detail object takes precedence over the flat field, even when it has no such number.\<close>

definition detail_num :: "js \<Rightarrow> string \<Rightarrow> string \<Rightarrow> int option" where
  "detail_num v details f =
     (if is_object (js_get v details) then num_opt_of (js_get (js_get v details) f)
      else num_opt_of (js_get v f))"

definition openai_usage_object :: "js \<Rightarrow> js option" where
  "openai_usage_object obj =
     (if is_object (js_get obj ''usage'') then Some (js_get obj ''usage'')
      else if is_object (js_get obj ''x_groq'') \<and> is_object (js_get (js_get obj ''x_groq'') ''usage'')
      then Some (js_get (js_get obj ''x_groq'') ''usage'') else None)"

definition openai_usage :: "js \<Rightarrow> PartialUsage \<Rightarrow> PartialUsage" where
  "openai_usage obj u =
     (case openai_usage_object obj of
        None \<Rightarrow> u
      | Some v \<Rightarrow>
          set_reasoning (detail_num v ''completion_tokens_details'' ''reasoning_tokens'')
            (set_cached (detail_num v ''prompt_tokens_details'' ''cached_tokens'')
              (set_total (first_num v [''total_tokens'', ''totalTokens''])
                (set_completion (first_num v [''completion_tokens'', ''completionTokens'', ''output_tokens''])
                  (set_prompt (first_num v [''prompt_tokens'', ''promptTokens'', ''input_tokens'']) u)))))"

definition gemini_usage :: "js \<Rightarrow> PartialUsage \<Rightarrow> PartialUsage" where
  "gemini_usage obj u =
     (let v = js_get obj ''usageMetadata'' in
      if \<not> is_object v then u
      else
        set_reasoning (first_num v [''thoughtsTokenCount'', ''thoughts_token_count''])
          (set_cached (first_num v [''cachedContentTokenCount'', ''cached_content_token_count''])
            (set_total (first_num v [''totalTokenCount'', ''total_token_count''])
              (set_completion (first_num v [''candidatesTokenCount'', ''candidates_token_count''])
                (set_prompt (first_num v [''promptTokenCount'', ''prompt_token_count'']) u)))))"

definition anthropic_usage :: "js \<Rightarrow> PartialUsage \<Rightarrow> PartialUsage" where
  "anthropic_usage obj u =
     (let v = js_get (js_get obj ''message'') ''usage'' in
      if \<not> is_object (js_get obj ''message'') \<or> \<not> is_object v then u
      else
        set_cached (first_num v [''cache_read_input_tokens''])
          (set_completion (first_num v [''output_tokens''])
            (set_prompt (first_num v [''input_tokens'']) u)))"

definition cohere_usage :: "js \<Rightarrow> PartialUsage \<Rightarrow> PartialUsage" where
  "cohere_usage obj u =
     (let meta = js_get obj ''meta'';
          read = (\<lambda>v. set_completion (first_num v [''output_tokens'']) (set_prompt (first_num v [''input_tokens'']) u))
      in if \<not> is_object meta then u
         else if is_object (js_get meta ''tokens'') then read (js_get meta ''tokens'')
         else if is_object (js_get meta ''billed_units'') then read (js_get meta ''billed_units'')
         else u)"

definition bedrock_usage :: "js \<Rightarrow> PartialUsage \<Rightarrow> PartialUsage" where
  "bedrock_usage obj u =
     (let v = js_get obj ''amazon-bedrock-invocationMetrics'' in
      if \<not> is_object v then u
      else set_completion (first_num v [''outputTokenCount''])
             (set_prompt (first_num v [''inputTokenCount'']) u))"

definition root_usage :: "js \<Rightarrow> PartialUsage \<Rightarrow> PartialUsage" where
  "root_usage obj u =
     (if puFound u then u
      else set_total (first_num obj [''total_tokens''])
             (set_completion (first_num obj [''completion_tokens''])
               (set_prompt (first_num obj [''prompt_tokens'']) u)))"

definition extractUsageFromPayload :: "js \<Rightarrow> PartialUsage option" where
  "extractUsageFromPayload payload =
     (if \<not> is_object payload then None
      else
        (let u = root_usage payload (bedrock_usage payload (cohere_usage payload
                   (anthropic_usage payload (gemini_usage payload (openai_usage payload no_usage)))))
         in if puFound u then Some u else None))"

section \<open>Completion text (upstream/payload.ts)\<close>

fun js_head :: "js \<Rightarrow> js" where
  "js_head (JArr (x # xs)) = x"
| "js_head _ = JUndefined"

fun str_opt :: "js \<Rightarrow> string option" where
  "str_opt (JStr s) = Some s"
| "str_opt _ = None"

definition openai_content :: "js \<Rightarrow> string option" where
  "openai_content obj =
     (let choice = js_head (js_get obj ''choices''); msg = js_get choice ''message'' in
      case (if is_object msg then str_opt (js_get msg ''content'') else None) of
        Some s \<Rightarrow> Some s
      | None \<Rightarrow> str_opt (js_get choice ''text''))"

definition joined_texts :: "js list \<Rightarrow> string option" where
  "joined_texts blocks =
     (let ts = map (\<lambda>b. str_of (js_get b ''text'')) (filter (\<lambda>b. is_object b \<and> is_str (js_get b ''text'')) blocks)
      in if ts = [] then None else Some (concat ts))"

definition anthropic_content :: "js \<Rightarrow> string option" where
  "anthropic_content obj =
     (case js_get obj ''content'' of
        JArr items \<Rightarrow> joined_texts (filter (\<lambda>b. js_get b ''type'' = JStr ''text'') items)
      | _ \<Rightarrow> None)"

definition gemini_content :: "js \<Rightarrow> string option" where
  "gemini_content obj =
     (case js_get (js_get (js_head (js_get obj ''candidates'')) ''content'') ''parts'' of
        JArr parts \<Rightarrow> joined_texts parts
      | _ \<Rightarrow> None)"

definition cohere_content :: "js \<Rightarrow> string option" where
  "cohere_content obj =
     (case str_opt (js_get obj ''text'') of
        Some s \<Rightarrow> Some s
      | None \<Rightarrow>
          if is_object (js_get obj ''message'') then str_opt (js_get (js_get obj ''message'') ''content'') else None)"

definition extractContentFromPayload :: "js \<Rightarrow> string" where
  "extractContentFromPayload payload =
     (if \<not> is_object payload then []
      else case openai_content payload of Some s \<Rightarrow> s | None \<Rightarrow>
        (case anthropic_content payload of Some s \<Rightarrow> s | None \<Rightarrow>
          (case gemini_content payload of Some s \<Rightarrow> s | None \<Rightarrow>
            (case cohere_content payload of Some s \<Rightarrow> s | None \<Rightarrow> []))))"

end
