(* ===== verification/SseTransformer.thy ===== *)
theory SseTransformer
  imports SseUsage
begin

text \<open>
  \<open>src/proxy/sse/transformer.ts\<close>: the stream transformer that cuts incoming text into lines, lines
  into server-sent events, and reads usage and metadata out of the events. Chunks are decoded text;
  \<open>JSON.parse\<close> is a parameter, \<open>None\<close> where it throws. Timestamps, promises and the callbacks, which
  only observe, are left out. The transformer is its buffer, the chunks it has forwarded and the
  parser's state.
\<close>

section \<open>State (types.ts, transformer.ts)\<close>

datatype sse_mode = Passthrough | EventsMode

record SSEEvent =
  seEvent :: "string option"
  seId :: "string option"
  seRetry :: "int option"
  seData :: string
  seRaw :: string

record StreamUsage =
  suPrompt :: int
  suCompletion :: int
  suTotal :: int
  suCached :: "int option"
  suReasoning :: "int option"

record SSEParser =
  spDataLines :: "string list"
  spRawLines :: "string list"
  spType :: "string option"
  spId :: "string option"
  spRetry :: "int option"
  spPrompt :: int
  spCompletion :: int
  spCached :: int
  spReasoning :: int
  spUsage :: "StreamUsage option"
  spModel :: "string option"
  spFingerprint :: "string option"
  spFinishReason :: "string option"
  spEventCount :: nat
  spEvents :: "SSEEvent list"
  spFormatted :: "string list"

record SSEStreamTransformer =
  stBuffer :: string
  stChunkCount :: nat
  stForwarded :: "string list"
  stParser :: SSEParser

definition newParser :: SSEParser where
  "newParser = \<lparr>spDataLines = [], spRawLines = [], spType = None, spId = None, spRetry = None,
     spPrompt = 0, spCompletion = 0, spCached = 0, spReasoning = 0, spUsage = None, spModel = None,
     spFingerprint = None, spFinishReason = None, spEventCount = 0, spEvents = [], spFormatted = []\<rparr>"

definition newSSEStreamTransformer :: SSEStreamTransformer where
  "newSSEStreamTransformer =
     \<lparr>stBuffer = [], stChunkCount = 0, stForwarded = [], stParser = newParser\<rparr>"

section \<open>Usage and metadata\<close>

definition positive_opt :: "int \<Rightarrow> int option" where
  "positive_opt n = (if n > 0 then Some n else None)"

definition applyUsageUpdate :: "PartialUsage \<Rightarrow> SSEParser \<Rightarrow> SSEParser" where
  "applyUsageUpdate u p =
     (let p1 = p\<lparr>spPrompt := first_some (puPrompt u) (spPrompt p),
                 spCompletion := first_some (puCompletion u) (spCompletion p),
                 spCached := first_some (puCached u) (spCached p),
                 spReasoning := first_some (puReasoning u) (spReasoning p)\<rparr>
      in p1\<lparr>spUsage := Some
              \<lparr>suPrompt = spPrompt p1, suCompletion = spCompletion p1,
               suTotal = first_some (puTotal u) (spPrompt p1 + spCompletion p1),
               suCached = positive_opt (spCached p1), suReasoning = positive_opt (spReasoning p1)\<rparr>\<rparr>)"

definition set_if_falsy :: "string option \<Rightarrow> js \<Rightarrow> string option" where
  "set_if_falsy old v = (if is_str v \<and> first_some old [] = [] then Some (str_of v) else old)"

definition inspect_value :: "js \<Rightarrow> SSEParser \<Rightarrow> SSEParser" where
  "inspect_value v p =
     (let reason = js_get (js_head (js_get v ''choices'')) ''finish_reason'';
          p1 = p\<lparr>spModel := set_if_falsy (spModel p) (js_get v ''model''),
                 spFingerprint := set_if_falsy (spFingerprint p) (js_get v ''system_fingerprint''),
                 spFinishReason := (if is_str reason \<and> str_of reason \<noteq> [] then Some (str_of reason)
                                    else spFinishReason p)\<rparr>
      in case extractUsageFromPayload v of None \<Rightarrow> p1 | Some u \<Rightarrow> applyUsageUpdate u p1)"

definition inspectEventPayload :: "(string \<Rightarrow> js option) \<Rightarrow> string \<Rightarrow> SSEParser \<Rightarrow> SSEParser" where
  "inspectEventPayload parseJson data p =
     (let trimmed = js_trim data in
      if trimmed = [] \<or> trimmed = ''[DONE]'' \<or> (hd trimmed \<noteq> CHR ''{'' \<and> hd trimmed \<noteq> CHR ''['') then p
      else case parseJson trimmed of None \<Rightarrow> p | Some v \<Rightarrow> inspect_value v p)"

section \<open>Events\<close>

abbreviation newline :: char where "newline \<equiv> CHR 0x0A"
abbreviation carriage :: char where "carriage \<equiv> CHR 0x0D"

fun split_nl :: "string \<Rightarrow> string list" where
  "split_nl [] = [[]]"
| "split_nl (c # s) = (if c = newline then [] # split_nl s
     else (case split_nl s of [] \<Rightarrow> [[c]] | l # ls \<Rightarrow> (c # l) # ls))"

definition field_line :: "string \<Rightarrow> string \<Rightarrow> string" where
  "field_line name value = name @ '': '' @ value @ [newline]"

definition format_event :: "SSEEvent \<Rightarrow> string" where
  "format_event e =
     (case seEvent e of Some v \<Rightarrow> field_line ''event'' v | None \<Rightarrow> []) @
     (case seId e of Some v \<Rightarrow> field_line ''id'' v | None \<Rightarrow> []) @
     (case seRetry e of Some n \<Rightarrow> field_line ''retry'' (bigint_to_string n) | None \<Rightarrow> []) @
     concat (map (field_line ''data'') (split_nl (seData e))) @ [newline]"

definition pending :: "SSEParser \<Rightarrow> bool" where
  "pending p \<longleftrightarrow> spDataLines p \<noteq> [] \<or> spType p \<noteq> None \<or> spId p \<noteq> None"

definition current_event :: "SSEParser \<Rightarrow> SSEEvent" where
  "current_event p = \<lparr>seEvent = spType p, seId = spId p, seRetry = spRetry p,
     seData = join [newline] (spDataLines p), seRaw = join [newline] (spRawLines p)\<rparr>"

definition dispatchEvent :: "(string \<Rightarrow> js option) \<Rightarrow> sse_mode \<Rightarrow> SSEParser \<Rightarrow> SSEParser" where
  "dispatchEvent parseJson mode p =
     (let e = current_event p;
          p1 = p\<lparr>spDataLines := [], spRawLines := [], spType := None, spId := None, spRetry := None,
                 spEventCount := spEventCount p + 1, spEvents := spEvents p @ [e],
                 spFormatted := (if mode = EventsMode then spFormatted p @ [format_event e] else spFormatted p)\<rparr>
      in inspectEventPayload parseJson (seData e) p1)"

section \<open>Lines\<close>

text \<open>\<open>parseInt(value, 10)\<close>: an optional sign and the longest run of digits.\<close>

definition parse_int :: "string \<Rightarrow> int option" where
  "parse_int s =
     (let t = js_trim s;
          body = (if t \<noteq> [] \<and> (hd t = CHR ''-'' \<or> hd t = CHR ''+'') then tl t else t);
          ds = takeWhile is_digit body
      in if ds = [] then None
         else Some (if t \<noteq> [] \<and> hd t = CHR ''-'' then - int (digits_val ds) else int (digits_val ds)))"

definition field_value :: "string \<Rightarrow> string" where
  "field_value s = (if s \<noteq> [] \<and> hd s = CHR '' '' then tl s else s)"

definition processLine :: "(string \<Rightarrow> js option) \<Rightarrow> sse_mode \<Rightarrow> string \<Rightarrow> SSEParser \<Rightarrow> SSEParser" where
  "processLine parseJson mode line p =
     (if line = [] then (if pending p then dispatchEvent parseJson mode p else p)
      else
        (let p1 = p\<lparr>spRawLines := spRawLines p @ [line]\<rparr> in
         if hd line = CHR '':'' then p1
         else if starts_with line ''data:'' then p1\<lparr>spDataLines := spDataLines p1 @ [field_value (drop 5 line)]\<rparr>
         else if line = ''data'' then p1\<lparr>spDataLines := spDataLines p1 @ [[]]\<rparr>
         else if starts_with line ''event:'' then p1\<lparr>spType := Some (field_value (drop 6 line))\<rparr>
         else if starts_with line ''id:'' then p1\<lparr>spId := Some (field_value (drop 3 line))\<rparr>
         else if starts_with line ''retry:'' then
           (case parse_int (js_trim (drop 6 line)) of None \<Rightarrow> p1 | Some n \<Rightarrow> p1\<lparr>spRetry := Some n\<rparr>)
         else p1))"

fun findNextNewlineIndex :: "string \<Rightarrow> bool \<Rightarrow> nat option" where
  "findNextNewlineIndex [] isFlushing = None"
| "findNextNewlineIndex (c # cs) isFlushing =
     (if c = newline then Some 0
      else if c = carriage then (if cs = [] \<and> \<not> isFlushing then None else Some 0)
      else map_option Suc (findNextNewlineIndex cs isFlushing))"

definition delimiter_length :: "string \<Rightarrow> nat \<Rightarrow> nat" where
  "delimiter_length buf i = (if take 2 (drop i buf) = [carriage, newline] then 2 else 1)"

lemma findNextNewlineIndex_less: "findNextNewlineIndex buf fl = Some i \<Longrightarrow> i < length buf"
  by (induction buf arbitrary: i) (auto split: if_splits)

function parseBuffer ::
  "(string \<Rightarrow> js option) \<Rightarrow> sse_mode \<Rightarrow> bool \<Rightarrow> string \<Rightarrow> SSEParser \<Rightarrow> string \<times> SSEParser" where
  "parseBuffer parseJson mode isFlushing buf p =
     (case findNextNewlineIndex buf isFlushing of
        None \<Rightarrow> (buf, p)
      | Some i \<Rightarrow>
          parseBuffer parseJson mode isFlushing (drop (i + delimiter_length buf i) buf)
            (processLine parseJson mode (take i buf) p))"
  by pat_completeness auto

termination
  by (relation "measure (\<lambda>(_, _, _, buf, _). length buf)")
    (auto simp: delimiter_length_def dest: findNextNewlineIndex_less)

declare parseBuffer.simps [simp del]

section \<open>The stream\<close>

definition handleTransform ::
  "(string \<Rightarrow> js option) \<Rightarrow> sse_mode \<Rightarrow> string \<Rightarrow> SSEStreamTransformer \<Rightarrow> SSEStreamTransformer" where
  "handleTransform parseJson mode chunk s =
     (let (rest, p) = parseBuffer parseJson mode False (stBuffer s @ chunk) (stParser s)
      in \<lparr>stBuffer = rest, stChunkCount = stChunkCount s + 1,
          stForwarded = (if mode = Passthrough then stForwarded s @ [chunk] else stForwarded s),
          stParser = p\<rparr>)"

definition flush_parser :: "(string \<Rightarrow> js option) \<Rightarrow> sse_mode \<Rightarrow> string \<Rightarrow> SSEParser \<Rightarrow> SSEParser" where
  "flush_parser parseJson mode buf p =
     (let (rest, p1) = parseBuffer parseJson mode True buf p;
          p2 = (if rest \<noteq> [] then processLine parseJson mode rest p1 else p1)
      in if pending p2 then dispatchEvent parseJson mode p2 else p2)"

definition handleFlush ::
  "(string \<Rightarrow> js option) \<Rightarrow> sse_mode \<Rightarrow> SSEStreamTransformer \<Rightarrow> SSEStreamTransformer" where
  "handleFlush parseJson mode s =
     s\<lparr>stBuffer := [], stParser := flush_parser parseJson mode (stBuffer s) (stParser s)\<rparr>"

definition run_stream ::
  "(string \<Rightarrow> js option) \<Rightarrow> sse_mode \<Rightarrow> string list \<Rightarrow> SSEStreamTransformer" where
  "run_stream parseJson mode chunks =
     handleFlush parseJson mode (fold (handleTransform parseJson mode) chunks newSSEStreamTransformer)"

section \<open>Lemmas: cutting lines\<close>

lemma find_newline_append:
  "findNextNewlineIndex a False = Some i \<Longrightarrow>
   findNextNewlineIndex (a @ b) False = Some i \<and> delimiter_length (a @ b) i = delimiter_length a i"
proof (induction a arbitrary: i)
  case (Cons c cs)
  then show ?case
    by (cases cs; auto simp: delimiter_length_def split: if_splits)
qed simp

text \<open>Text may be handed over in pieces: cutting a prefix first changes nothing.\<close>

lemma parseBuffer_append:
  "parseBuffer pj mode False (a @ b) p =
     (let (rest, p') = parseBuffer pj mode False a p in parseBuffer pj mode False (rest @ b) p')"
proof (induction pj mode "False" a p rule: parseBuffer.induct)
  case (1 pj mode a p)
  show ?case
  proof (cases "findNextNewlineIndex a False")
    case None
    then have "parseBuffer pj mode False a p = (a, p)" by (subst parseBuffer.simps) simp
    then show ?thesis by simp
  next
    case (Some i)
    let ?d = "i + delimiter_length a i" and ?p = "processLine pj mode (take i a) p"
    have le: "?d \<le> length a"
      using findNextNewlineIndex_less [OF Some] by (auto simp: delimiter_length_def dest: arg_cong [where f = length])
    have a: "parseBuffer pj mode False a p = parseBuffer pj mode False (drop ?d a) ?p"
      by (subst parseBuffer.simps) (simp add: Some)
    have "parseBuffer pj mode False (a @ b) p = parseBuffer pj mode False (drop ?d (a @ b)) ?p"
      using find_newline_append [OF Some, of b] findNextNewlineIndex_less [OF Some]
      by (subst parseBuffer.simps) simp
    also have "drop ?d (a @ b) = drop ?d a @ b" using le by simp
    finally show ?thesis using 1 [OF Some] a by simp
  qed
qed

lemma parseBuffer_residual: "findNextNewlineIndex (fst (parseBuffer pj mode fl buf p)) fl = None"
proof (induction pj mode fl buf p rule: parseBuffer.induct)
  case (1 pj mode fl buf p)
  then show ?case by (subst parseBuffer.simps) (auto split: option.split)
qed

lemma parseBuffer_settled: "findNextNewlineIndex buf fl = None \<Longrightarrow> parseBuffer pj mode fl buf p = (buf, p)"
  by (subst parseBuffer.simps) simp

text \<open>A run over any chunks is one cut of their concatenation.\<close>

lemma fold_handleTransform:
  "findNextNewlineIndex (stBuffer s) False = None \<Longrightarrow>
   fold (handleTransform pj mode) cs s =
     (let (rest, p) = parseBuffer pj mode False (stBuffer s @ concat cs) (stParser s)
      in \<lparr>stBuffer = rest, stChunkCount = stChunkCount s + length cs,
          stForwarded = (if mode = Passthrough then stForwarded s @ cs else stForwarded s), stParser = p\<rparr>)"
proof (induction cs arbitrary: s)
  case Nil
  then show ?case by (simp add: parseBuffer_settled)
next
  case (Cons c cs)
  obtain r p where r: "parseBuffer pj mode False (stBuffer s @ c) (stParser s) = (r, p)"
    by (cases "parseBuffer pj mode False (stBuffer s @ c) (stParser s)")
  then have "findNextNewlineIndex r False = None"
    using parseBuffer_residual [of pj mode False "stBuffer s @ c" "stParser s"] by simp
  then have "findNextNewlineIndex (stBuffer (handleTransform pj mode c s)) False = None"
    by (simp add: handleTransform_def r)
  from Cons.IH [OF this] show ?case
    using parseBuffer_append [of pj mode "stBuffer s @ c" "concat cs" "stParser s"]
    by (simp add: handleTransform_def r Let_def case_prod_beta)
qed

lemma run_stream_parser:
  "stParser (run_stream pj mode cs) =
     (let (rest, p) = parseBuffer pj mode False (concat cs) newParser in flush_parser pj mode rest p)"
  by (simp add: run_stream_def handleFlush_def fold_handleTransform newSSEStreamTransformer_def
      Let_def case_prod_beta)

section \<open>Lemmas: printing and reading events\<close>

definition plain :: "string \<Rightarrow> bool" where
  "plain s \<longleftrightarrow> newline \<notin> set s \<and> carriage \<notin> set s"

lemma plain_simps [simp]: "plain []" "plain (s @ t) \<longleftrightarrow> plain s \<and> plain t"
  "plain (c # s) \<longleftrightarrow> c \<noteq> newline \<and> c \<noteq> carriage \<and> plain s"
  by (auto simp: plain_def)

lemma plain_drop [simp]: "plain s \<Longrightarrow> plain (drop n s)"
  by (auto simp: plain_def dest: in_set_dropD)

lemma plain_tl: "plain s \<Longrightarrow> plain (field_value s)"
  by (cases s) (auto simp: field_value_def)

lemma newline_neq [simp]: "newline \<noteq> carriage" "carriage \<noteq> newline"
  by simp_all

lemma find_plain: "plain l \<Longrightarrow> findNextNewlineIndex (l @ newline # rest) fl = Some (length l)"
  by (induction l) auto

lemma find_take_plain: "findNextNewlineIndex buf fl = Some i \<Longrightarrow> plain (take i buf)"
  by (induction buf arbitrary: i) (auto split: if_splits)

lemma find_none_plain: "findNextNewlineIndex buf True = None \<Longrightarrow> plain buf"
  by (induction buf) (auto split: if_splits)

lemma parse_line:
  "plain l \<Longrightarrow> parseBuffer pj mode fl (l @ newline # rest) p = parseBuffer pj mode fl rest (processLine pj mode l p)"
  by (subst parseBuffer.simps) (simp add: find_plain delimiter_length_def)

lemma parse_lines:
  "\<forall>l\<in>set ls. plain l \<Longrightarrow>
   parseBuffer pj mode fl (concat (map (\<lambda>l. l @ [newline]) ls) @ rest) p =
     parseBuffer pj mode fl rest (fold (processLine pj mode) ls p)"
  by (induction ls arbitrary: p) (simp_all add: parse_line)

definition event_lines :: "SSEEvent \<Rightarrow> string list" where
  "event_lines e =
     (case seEvent e of Some v \<Rightarrow> [''event: '' @ v] | None \<Rightarrow> []) @
     (case seId e of Some v \<Rightarrow> [''id: '' @ v] | None \<Rightarrow> []) @
     (case seRetry e of Some n \<Rightarrow> [''retry: '' @ bigint_to_string n] | None \<Rightarrow> []) @
     map ((@) ''data: '') (split_nl (seData e)) @ [[]]"

lemma format_event_lines: "format_event e = concat (map (\<lambda>l. l @ [newline]) (event_lines e))"
  by (auto simp: format_event_def event_lines_def field_line_def [abs_def] o_def split: option.split)

definition event_ok :: "SSEEvent \<Rightarrow> bool" where
  "event_ok e \<longleftrightarrow> (\<forall>v. seEvent e = Some v \<longrightarrow> plain v) \<and> (\<forall>v. seId e = Some v \<longrightarrow> plain v) \<and>
     carriage \<notin> set (seData e)"

lemma split_nl_ne [simp]: "split_nl s \<noteq> []"
  by (induction s) (auto split: list.split)

lemma split_nl_plain: "carriage \<notin> set s \<Longrightarrow> l \<in> set (split_nl s) \<Longrightarrow> plain l"
proof (induction s arbitrary: l)
  case (Cons c s)
  obtain x xs where x: "split_nl s = x # xs" using split_nl_ne [of s] by (cases "split_nl s") auto
  with Cons show ?case by (auto split: if_splits)
qed simp

lemma join_split_nl: "join [newline] (split_nl s) = s"
proof (induction s)
  case (Cons c s)
  obtain x xs where x: "split_nl s = x # xs" using split_nl_ne [of s] by (cases "split_nl s") auto
  with Cons show ?case by (cases xs) auto
qed simp

lemma digit_plain: "list_all is_digit s \<Longrightarrow> plain s"
  by (auto simp: plain_def list_all_iff is_digit_def)

lemma bigint_plain: "plain (bigint_to_string n)"
  by (simp add: bigint_to_string_def digit_plain nat_str_digits)

lemma event_lines_plain: "event_ok e \<Longrightarrow> l \<in> set (event_lines e) \<Longrightarrow> plain l"
  by (auto simp: event_lines_def event_ok_def bigint_plain split_nl_plain split: option.splits)

lemma parse_int_bigint: "parse_int (bigint_to_string n) = Some n"
proof -
  have d: "list_all is_digit (nat_str k)" "nat_str k \<noteq> []" for k by (simp_all add: nat_str_digits nat_str_ne)
  have tw: "takeWhile is_digit (nat_str k) = nat_str k" for k
    using d(1) [of k] by (simp add: takeWhile_eq_all_conv list_all_iff)
  have "is_digit (hd (nat_str k))" for k using d [of k] by (simp add: list_all_iff)
  then have hd: "hd (nat_str k) \<noteq> CHR ''-'' \<and> hd (nat_str k) \<noteq> CHR ''+''" for k
    using not_is_digit by metis
  show ?thesis
    by (simp add: parse_int_def bigint_trim) (simp add: bigint_to_string_def tw hd d digits_val_nat_str)
qed

lemma retry_line: "parse_int (js_trim (CHR '' '' # bigint_to_string n)) = Some n"
proof -
  have "js_trim (CHR '' '' # s) = js_trim s" for s by (simp add: js_trim_def is_space_def)
  then show ?thesis by (simp add: bigint_trim parse_int_bigint)
qed

lemma field_lines:
  "processLine pj mode (''event: '' @ v) p = p\<lparr>spRawLines := spRawLines p @ [''event: '' @ v], spType := Some v\<rparr>"
  "processLine pj mode (''id: '' @ v) p = p\<lparr>spRawLines := spRawLines p @ [''id: '' @ v], spId := Some v\<rparr>"
  "processLine pj mode (''retry: '' @ bigint_to_string n) p =
     p\<lparr>spRawLines := spRawLines p @ [''retry: '' @ bigint_to_string n], spRetry := Some n\<rparr>"
  "processLine pj mode (''data: '' @ v) p =
     p\<lparr>spRawLines := spRawLines p @ [''data: '' @ v], spDataLines := spDataLines p @ [v]\<rparr>"
  by (simp_all add: processLine_def starts_with_def field_value_def Let_def retry_line)

lemma data_lines:
  "fold (processLine pj mode) (map ((@) ''data: '') ds) p =
     p\<lparr>spRawLines := spRawLines p @ map ((@) ''data: '') ds, spDataLines := spDataLines p @ ds\<rparr>"
  by (induction ds arbitrary: p) (simp_all only: list.map fold_simps field_lines, simp_all)

lemma event_lines_fold:
  assumes "spDataLines p = []" "spRawLines p = []" "spType p = None" "spId p = None" "spRetry p = None"
  shows "\<exists>raw. fold (processLine pj mode) (event_lines e) p =
    dispatchEvent pj mode (p\<lparr>spRawLines := raw, spType := seEvent e, spId := seId e, spRetry := seRetry e,
                             spDataLines := split_nl (seData e)\<rparr>)"
proof -
  have blank: "processLine pj mode [] q = dispatchEvent pj mode q" if "spDataLines q \<noteq> []" for q
    using that by (simp add: processLine_def pending_def)
  obtain pr co ca re us mo fp fr ec ev fm where p: "p = \<lparr>spDataLines = [], spRawLines = [], spType = None,
      spId = None, spRetry = None, spPrompt = pr, spCompletion = co, spCached = ca, spReasoning = re,
      spUsage = us, spModel = mo, spFingerprint = fp, spFinishReason = fr, spEventCount = ec,
      spEvents = ev, spFormatted = fm\<rparr>"
    using assms by (cases p) simp
  let ?ls = "butlast (event_lines e)"
  have "fold (processLine pj mode) ?ls p =
      p\<lparr>spRawLines := ?ls, spType := seEvent e, spId := seId e, spRetry := seRetry e,
        spDataLines := split_nl (seData e)\<rparr>" (is "_ = ?q")
    unfolding event_lines_def p
    by (cases "seEvent e"; cases "seId e"; cases "seRetry e")
      (simp_all add: data_lines field_lines butlast_append del: append_Cons)
  moreover have ls: "event_lines e = ?ls @ [[]]" by (simp add: event_lines_def butlast_append)
  moreover have "fold (processLine pj mode) (?ls @ [[]]) p =
      processLine pj mode [] (fold (processLine pj mode) ?ls p)" by simp
  ultimately have "fold (processLine pj mode) (event_lines e) p = dispatchEvent pj mode ?q"
    using blank [of ?q] by simp
  then show ?thesis by blast
qed

text \<open>What a parser has taken in, apart from the event in progress and the raw texts.\<close>

definition clear_raw :: "SSEEvent \<Rightarrow> SSEEvent" where
  "clear_raw e = e\<lparr>seRaw := []\<rparr>"

definition settled :: "SSEParser \<Rightarrow> SSEParser" where
  "settled p = p\<lparr>spDataLines := [], spRawLines := [], spType := None, spId := None, spRetry := None,
                spEvents := map clear_raw (spEvents p)\<rparr>"

definition record_event :: "(string \<Rightarrow> js option) \<Rightarrow> sse_mode \<Rightarrow> SSEEvent \<Rightarrow> SSEParser \<Rightarrow> SSEParser" where
  "record_event pj mode e p =
     inspectEventPayload pj (seData e)
       (p\<lparr>spEventCount := spEventCount p + 1, spEvents := spEvents p @ [clear_raw e],
          spFormatted := (if mode = EventsMode then spFormatted p @ [format_event e] else spFormatted p)\<rparr>)"

lemma format_clear [simp]: "format_event (clear_raw e) = format_event e"
  by (simp add: format_event_def clear_raw_def)

lemma clear_fields [simp]: "seData (clear_raw e) = seData e" "clear_raw (clear_raw e) = clear_raw e"
  by (simp_all add: clear_raw_def)

lemma settled_update:
  "settled (p\<lparr>spPrompt := a\<rparr>) = (settled p)\<lparr>spPrompt := a\<rparr>"
  "settled (p\<lparr>spCompletion := a\<rparr>) = (settled p)\<lparr>spCompletion := a\<rparr>"
  "settled (p\<lparr>spCached := a\<rparr>) = (settled p)\<lparr>spCached := a\<rparr>"
  "settled (p\<lparr>spReasoning := a\<rparr>) = (settled p)\<lparr>spReasoning := a\<rparr>"
  "settled (p\<lparr>spUsage := u\<rparr>) = (settled p)\<lparr>spUsage := u\<rparr>"
  "settled (p\<lparr>spModel := s\<rparr>) = (settled p)\<lparr>spModel := s\<rparr>"
  "settled (p\<lparr>spFingerprint := s\<rparr>) = (settled p)\<lparr>spFingerprint := s\<rparr>"
  "settled (p\<lparr>spFinishReason := s\<rparr>) = (settled p)\<lparr>spFinishReason := s\<rparr>"
  by (cases p, simp add: settled_def)+

lemma settled_select:
  "spPrompt (settled p) = spPrompt p" "spCompletion (settled p) = spCompletion p"
  "spCached (settled p) = spCached p" "spReasoning (settled p) = spReasoning p"
  "spModel (settled p) = spModel p" "spFingerprint (settled p) = spFingerprint p"
  "spFinishReason (settled p) = spFinishReason p"
  by (simp_all add: settled_def)

lemma settled_usage: "settled (applyUsageUpdate u p) = applyUsageUpdate u (settled p)"
  by (simp add: applyUsageUpdate_def settled_update settled_select)

lemma settled_value: "settled (inspect_value v p) = inspect_value v (settled p)"
  unfolding inspect_value_def Let_def settled_select
  by (cases "extractUsageFromPayload v")
    (simp_all add: settled_update settled_select settled_usage split del: if_split)

lemma settled_inspect: "settled (inspectEventPayload pj d p) = inspectEventPayload pj d (settled p)"
  by (simp add: inspectEventPayload_def Let_def settled_value split: option.split)

lemma inspect_events [simp]:
  "spEvents (inspectEventPayload pj d p) = spEvents p" "spDataLines (inspectEventPayload pj d p) = spDataLines p"
  "spRawLines (inspectEventPayload pj d p) = spRawLines p" "spType (inspectEventPayload pj d p) = spType p"
  "spId (inspectEventPayload pj d p) = spId p" "spRetry (inspectEventPayload pj d p) = spRetry p"
  "spFormatted (inspectEventPayload pj d p) = spFormatted p"
  by (simp_all add: inspectEventPayload_def inspect_value_def applyUsageUpdate_def Let_def split: option.split)

lemma settled_dispatch: "settled (dispatchEvent pj mode p) = record_event pj mode (current_event p) (settled p)"
  unfolding dispatchEvent_def record_event_def Let_def settled_inspect
  by (rule arg_cong [where f = "inspectEventPayload pj (seData (current_event p))"])
    (rule SSEParser.equality; simp add: settled_def)

lemma record_clear [simp]: "record_event pj mode (clear_raw e) = record_event pj mode e"
  by (simp add: record_event_def fun_eq_iff)

lemma dispatch_events [simp]:
  "spEvents (dispatchEvent pj mode p) = spEvents p @ [current_event p]"
  "spFormatted (dispatchEvent pj EventsMode p) = spFormatted p @ [format_event (current_event p)]"
  "spDataLines (dispatchEvent pj mode p) = []" "spRawLines (dispatchEvent pj mode p) = []"
  "spType (dispatchEvent pj mode p) = None" "spId (dispatchEvent pj mode p) = None"
  "spRetry (dispatchEvent pj mode p) = None"
  by (simp_all add: dispatchEvent_def Let_def)

text \<open>The invariant of a parser: its state is the record of its events, which can be printed.\<close>

definition parser_ok :: "(string \<Rightarrow> js option) \<Rightarrow> SSEParser \<Rightarrow> bool" where
  "parser_ok pj p \<longleftrightarrow>
     settled p = fold (record_event pj EventsMode) (spEvents p) newParser \<and>
     spFormatted p = map format_event (spEvents p) \<and>
     (\<forall>e\<in>set (spEvents p). event_ok e) \<and> (\<forall>d\<in>set (spDataLines p). plain d) \<and>
     (\<forall>v. spType p = Some v \<longrightarrow> plain v) \<and> (\<forall>v. spId p = Some v \<longrightarrow> plain v)"

lemma join_plain: "\<forall>d\<in>set ds. plain d \<Longrightarrow> carriage \<notin> set (join [newline] ds)"
  by (induction "[newline]" ds rule: join.induct) (auto simp: plain_def)

lemma parser_ok_dispatch: "parser_ok pj p \<Longrightarrow> parser_ok pj (dispatchEvent pj EventsMode p)"
  by (auto simp: parser_ok_def settled_dispatch event_ok_def current_event_def join_plain)

lemma parser_ok_line: "parser_ok pj p \<Longrightarrow> plain l \<Longrightarrow> parser_ok pj (processLine pj EventsMode l p)"
  using parser_ok_dispatch [of pj p]
  by (auto simp: processLine_def parser_ok_def settled_def Let_def plain_tl split: option.split)

lemma parser_ok_parse: "parser_ok pj p \<Longrightarrow> parser_ok pj (snd (parseBuffer pj EventsMode fl buf p))"
proof (induction pj EventsMode fl buf p rule: parseBuffer.induct)
  case (1 pj fl buf p)
  then show ?case
    by (subst parseBuffer.simps) (auto simp: parser_ok_line find_take_plain split: option.split)
qed

lemma parser_ok_new: "parser_ok pj newParser"
  by (simp add: parser_ok_def newParser_def settled_def)

lemma parser_ok_flush: "parser_ok pj p \<Longrightarrow> parser_ok pj (flush_parser pj EventsMode buf p)"
  using parser_ok_parse [of pj p True buf] parseBuffer_residual [of pj EventsMode True buf p]
  by (auto simp: flush_parser_def Let_def case_prod_beta parser_ok_dispatch parser_ok_line find_none_plain)

lemma reparse_events:
  assumes "spDataLines p = []" "spRawLines p = []" "spType p = None" "spId p = None" "spRetry p = None"
    and "\<forall>e\<in>set es. event_ok e"
  shows "\<exists>q. parseBuffer pj mode False (concat (map format_event es)) p = ([], q) \<and>
    settled q = fold (record_event pj mode) es (settled p) \<and> \<not> pending q"
  using assms
proof (induction es arbitrary: p)
  case Nil
  then show ?case by (simp add: parseBuffer_settled pending_def)
next
  case (Cons e es)
  obtain raw where raw: "fold (processLine pj mode) (event_lines e) p =
      dispatchEvent pj mode (p\<lparr>spRawLines := raw, spType := seEvent e, spId := seId e, spRetry := seRetry e,
                               spDataLines := split_nl (seData e)\<rparr>)" (is "_ = ?q")
    using event_lines_fold [OF Cons.prems(1-5)] by blast
  have step: "parseBuffer pj mode False (concat (map format_event (e # es))) p =
      parseBuffer pj mode False (concat (map format_event es)) ?q"
    using parse_lines [of "event_lines e" pj mode False "concat (map format_event es)" p]
      event_lines_plain [of e] Cons.prems(6) by (simp add: format_event_lines raw)
  have "current_event (p\<lparr>spRawLines := raw, spType := seEvent e, spId := seId e, spRetry := seRetry e,
      spDataLines := split_nl (seData e)\<rparr>) = e\<lparr>seRaw := join [newline] raw\<rparr>"
    by (simp add: current_event_def join_split_nl)
  then have "settled ?q = record_event pj mode e (settled p)"
    by (simp add: settled_dispatch) (simp add: record_event_def settled_def clear_raw_def format_event_def)
  with step Cons.IH [of ?q] Cons.prems(6) show ?case by simp
qed

section \<open>Properties\<close>

text \<open>
  C25. Where the network cuts the stream does not matter: two sequences of chunks with the same text
  give the same events, the same usage and the same metadata, with nothing left in the buffer (a
  \<open>\r\<close> at the end of a chunk is held back until the next one shows whether \<open>\n\<close> follows). In
  passthrough mode the chunks themselves are forwarded unchanged.
\<close>

theorem sse_chunking:
  assumes "concat cs = concat ds"
  shows "stParser (run_stream pj mode cs) = stParser (run_stream pj mode ds) \<and>
    stBuffer (run_stream pj mode cs) = [] \<and>
    stForwarded (run_stream pj mode cs) = (if mode = Passthrough then cs else [])"
proof -
  have "stForwarded (run_stream pj mode cs) = (if mode = Passthrough then cs else [])"
    by (simp add: run_stream_def handleFlush_def fold_handleTransform newSSEStreamTransformer_def
        Let_def case_prod_beta)
  with assms show ?thesis by (simp add: run_stream_parser) (simp add: run_stream_def handleFlush_def)
qed

theorem sse_chunking_witness:
  "stParser (run_stream (\<lambda>_. None) Passthrough [''data: x'' @ [carriage], [newline], [newline]]) =
   stParser (run_stream (\<lambda>_. None) Passthrough [''data: x'' @ [carriage, newline, newline]])"
  using sse_chunking [of "[''data: x'' @ [carriage], [newline], [newline]]" "[''data: x'' @ [carriage, newline, newline]]"]
  by simp

text \<open>
  What the transformer prints in events mode can be read back: a second transformer that reads its
  output sees the same events (type, id, retry delay and data; only the raw text differs) and arrives
  at the same usage, model, fingerprint and finish reason.
\<close>

theorem sse_events_roundtrip:
  fixes pj :: "string \<Rightarrow> js option" and cs :: "string list"
  defines "p \<equiv> stParser (run_stream pj EventsMode cs)"
  defines "q \<equiv> stParser (run_stream pj EventsMode (spFormatted p))"
  shows "map clear_raw (spEvents q) = map clear_raw (spEvents p) \<and> spUsage q = spUsage p \<and>
    spModel q = spModel p \<and> spFingerprint q = spFingerprint p \<and> spFinishReason q = spFinishReason p"
proof -
  have "parser_ok pj p"
    unfolding p_def run_stream_parser Let_def case_prod_beta
    by (intro parser_ok_flush parser_ok_parse parser_ok_new)
  then have p: "settled p = fold (record_event pj EventsMode) (spEvents p) newParser"
    "spFormatted p = map format_event (spEvents p)" "\<forall>e\<in>set (spEvents p). event_ok e"
    by (simp_all add: parser_ok_def)
  obtain r where r: "parseBuffer pj EventsMode False (concat (map format_event (spEvents p))) newParser = ([], r)"
    "settled r = fold (record_event pj EventsMode) (spEvents p) (settled newParser)" "\<not> pending r"
    using reparse_events [of newParser "spEvents p" pj EventsMode] p(3) by (auto simp: newParser_def)
  have "q = r"
    unfolding q_def run_stream_parser p(2)
    using r(1,3) by (simp add: flush_parser_def parseBuffer_settled)
  moreover have "settled newParser = newParser" by (simp add: settled_def newParser_def)
  ultimately have "settled q = settled p" using r(2) p(1) by simp
  then have "spEvents (settled q) = spEvents (settled p)" "spUsage (settled q) = spUsage (settled p)"
    "spModel (settled q) = spModel (settled p)" "spFingerprint (settled q) = spFingerprint (settled p)"
    "spFinishReason (settled q) = spFinishReason (settled p)" by simp_all
  then show ?thesis by (simp add: settled_def)
qed

end
