(* ===== verification/Capability.thy ===== *)
theory Capability
  imports ModelRegistry
begin

text \<open>
  \<open>src/router/capability/\<close>: what a request needs (\<open>extractor.ts\<close>, \<open>token_estimator.ts\<close>), whether
  a model offers it (\<open>auditor.ts\<close>), the order of candidates (\<open>sorter.ts\<close>) and the filter over a
  registry (\<open>filter.ts\<close>). Requests are dynamic values. The buffer multiplier is at its default 1.0;
  the explanatory \<open>reasons\<close> of an audit are left out.
\<close>

section \<open>Requirements (types.ts)\<close>

record CapabilityRequirements =
  minContextLength :: "int option"
  reqMaxOutputTokens :: "int option"
  requiresTools :: "bool option"
  requiresVision :: "bool option"
  requiresJsonSchema :: "bool option"
  requiresStreaming :: "bool option"
  reqProvider :: "string option"
  maxCostPerMTokMicro :: "int option"
  onlyActive :: "bool option"

datatype ModelSortStrategy = CostAsc | CostDesc | ContextDesc | NoSort

record RequirementExtractionOptions =
  eoEstimatedPromptTokens :: "int option"
  eoDefaultMaxOutputTokens :: "int option"
  eoProvider :: "string option"
  eoMaxCost :: "int option"
  eoOnlyActive :: "bool option"

definition isRecord :: "js \<Rightarrow> bool" where
  "isRecord v = (case v of JObj _ \<Rightarrow> True | _ \<Rightarrow> False)"

text \<open>\<open>"f" in v\<close>.\<close>

definition js_has :: "js \<Rightarrow> string \<Rightarrow> bool" where
  "js_has v f = (case v of JObj kvs \<Rightarrow> map_of kvs f \<noteq> None | _ \<Rightarrow> False)"

definition isCapabilityRequirements :: "js \<Rightarrow> bool" where
  "isCapabilityRequirements v \<longleftrightarrow>
     isRecord v \<and>
     (is_bool (js_get v ''requiresTools'') \<or> is_bool (js_get v ''requiresVision'') \<or>
      is_bool (js_get v ''requiresJsonSchema'') \<or> is_num (js_get v ''minContextLength'') \<or>
      is_num (js_get v ''maxOutputTokens''))"

section \<open>Token estimates (token_estimator.ts)\<close>

definition ceil4 :: "nat \<Rightarrow> int" where
  "ceil4 n = int ((n + 3) div 4)"

definition string_tokens :: "string \<Rightarrow> int" where
  "string_tokens s = max 1 (ceil4 (length s))"

definition type_is :: "js \<Rightarrow> string \<Rightarrow> bool" where
  "type_is v t \<longleftrightarrow> js_get v ''type'' = JStr t"

definition plain_record_tokens :: "js \<Rightarrow> int" where
  "plain_record_tokens v =
     (if type_is v ''image_url'' \<or> type_is v ''image'' then 800
      else if type_is v ''text'' \<and> is_str (js_get v ''text'') then string_tokens (str_of (js_get v ''text''))
      else (case json v of Some s \<Rightarrow> string_tokens s | None \<Rightarrow> 10))"

lemma map_of_size_list: "map_of kvs f = Some v \<Longrightarrow> Suc (size v) \<le> size_list (\<lambda>x. Suc (size (snd x))) kvs"
  by (induction kvs) (auto split: if_splits)

lemma map_of_size [termination_simp]:
  "map_of kvs f = Some v \<Longrightarrow> size v < Suc (size_list (\<lambda>x. Suc (size (snd x))) kvs)"
  by (drule map_of_size_list) simp

lemma map_of_size_array [termination_simp]:
  "map_of kvs f = Some (JArr xs) \<Longrightarrow> size_list size xs < size_list (\<lambda>x. Suc (size (snd x))) kvs"
  by (drule map_of_size_list) simp

fun estimateTokens :: "js \<Rightarrow> int" where
  "estimateTokens JUndefined = 0"
| "estimateTokens JNull = 0"
| "estimateTokens (JStr s) = (if s = [] then 0 else string_tokens s)"
| "estimateTokens (JNum _) = 1"
| "estimateTokens (JBool _) = 1"
| "estimateTokens (JBigInt _) = 0"
| "estimateTokens (JArr xs) = sum_list (map (\<lambda>x. estimateTokens x + 4) xs)"
| "estimateTokens (JObj kvs) =
     (case map_of kvs ''content'' of
        None \<Rightarrow> plain_record_tokens (JObj kvs)
      | Some c \<Rightarrow>
          4 + (case map_of kvs ''role'' of Some (JStr r) \<Rightarrow> string_tokens r | _ \<Rightarrow> 0)
            + estimateTokens c
            + (case map_of kvs ''name'' of Some (JStr n) \<Rightarrow> string_tokens n | _ \<Rightarrow> 0)
            + (case map_of kvs ''tool_calls'' of Some t \<Rightarrow> (case t of JArr _ \<Rightarrow> estimateTokens t | _ \<Rightarrow> 0)
                                               | None \<Rightarrow> 0))"

section \<open>Extraction (extractor.ts)\<close>

definition nonempty_array :: "js \<Rightarrow> bool" where
  "nonempty_array v \<longleftrightarrow> (case v of JArr xs \<Rightarrow> xs \<noteq> [] | _ \<Rightarrow> False)"

definition needs_tools :: "js \<Rightarrow> bool" where
  "needs_tools req \<longleftrightarrow>
     nonempty_array (js_get req ''tools'') \<or> nonempty_array (js_get req ''functions'') \<or>
     (js_get req ''tool_choice'' \<noteq> JUndefined \<and> js_get req ''tool_choice'' \<noteq> JStr ''none'') \<or>
     (js_get req ''function_call'' \<noteq> JUndefined \<and> js_get req ''function_call'' \<noteq> JStr ''none'')"

definition image_part :: "js \<Rightarrow> bool" where
  "image_part part \<longleftrightarrow>
     isRecord part \<and>
     (let t = js_lower (str_of (js_get part ''type'')) in
      t = ''image_url'' \<or> t = ''image'' \<or> js_has part ''image_url'' \<or> js_has part ''image'')"

definition message_has_image :: "js \<Rightarrow> bool" where
  "message_has_image msg \<longleftrightarrow>
     isRecord msg \<and>
     ((case js_get msg ''content'' of
         JArr parts \<Rightarrow> list_ex image_part parts
       | JStr s \<Rightarrow> str_includes s ''data:image/''
       | _ \<Rightarrow> False) \<or>
      nonempty_array (js_get msg ''images''))"

definition needs_vision :: "js \<Rightarrow> bool" where
  "needs_vision req \<longleftrightarrow>
     (case js_get req ''messages'' of JArr ms \<Rightarrow> list_ex message_has_image ms | _ \<Rightarrow> False) \<or>
     nonempty_array (js_get req ''images'')"

definition needs_json :: "js \<Rightarrow> bool" where
  "needs_json req \<longleftrightarrow>
     (case js_get req ''response_format'' of
        JStr s \<Rightarrow> clean s = ''json_object'' \<or> clean s = ''json_schema''
      | JObj kvs \<Rightarrow>
          (let t = clean (str_of (js_get (JObj kvs) ''type''))
           in t = ''json_object'' \<or> t = ''json_schema'' \<or> js_has (JObj kvs) ''json_schema'')
      | _ \<Rightarrow> False) \<or>
     js_get req ''json_schema'' \<noteq> JUndefined \<or> js_get req ''output_schema'' \<noteq> JUndefined"

fun positive_num :: "js \<Rightarrow> int option" where
  "positive_num (JNum n) = (if n > 0 then Some n else None)"
| "positive_num _ = None"

definition requested_output :: "js \<Rightarrow> int option \<Rightarrow> int option" where
  "requested_output req d =
     (case positive_num (js_get req ''max_tokens'') of
        Some n \<Rightarrow> Some n
      | None \<Rightarrow>
          (case positive_num (js_get req ''max_completion_tokens'') of
             Some n \<Rightarrow> Some n
           | None \<Rightarrow> (case d of Some n \<Rightarrow> if n > 0 then Some n else None | None \<Rightarrow> None)))"

definition array_tokens :: "js \<Rightarrow> int" where
  "array_tokens v = (case v of JArr _ \<Rightarrow> estimateTokens v | _ \<Rightarrow> 0)"

definition prompt_tokens :: "js \<Rightarrow> int option \<Rightarrow> int" where
  "prompt_tokens req estimate =
     (if estimate \<noteq> None \<and> first_some estimate 0 \<ge> 0 then first_some estimate 0
      else array_tokens (js_get req ''messages'') + estimateTokens (js_get req ''system'') +
           array_tokens (js_get req ''tools'') + array_tokens (js_get req ''functions''))"

definition first_opt :: "'a option \<Rightarrow> 'a option \<Rightarrow> 'a option" where
  "first_opt a b = (case a of Some x \<Rightarrow> Some x | None \<Rightarrow> b)"

definition extractRequirements :: "js \<Rightarrow> RequirementExtractionOptions \<Rightarrow> CapabilityRequirements" where
  "extractRequirements req opts =
     (if \<not> isRecord req then
        \<lparr>minContextLength = None, reqMaxOutputTokens = None, requiresTools = Some False,
         requiresVision = Some False, requiresJsonSchema = Some False, requiresStreaming = None,
         reqProvider = (if eoProvider opts = Some [] then None else eoProvider opts),
         maxCostPerMTokMicro = eoMaxCost opts,
         onlyActive = Some (first_some (eoOnlyActive opts) True)\<rparr>
      else if isCapabilityRequirements req then
        (let n = (\<lambda>f. num_opt_of (js_get req f));
             b = (\<lambda>f. case js_get req f of JBool x \<Rightarrow> Some x | _ \<Rightarrow> None)
         in \<lparr>minContextLength = n ''minContextLength'', reqMaxOutputTokens = n ''maxOutputTokens'',
             requiresTools = b ''requiresTools'', requiresVision = b ''requiresVision'',
             requiresJsonSchema = b ''requiresJsonSchema'', requiresStreaming = b ''requiresStreaming'',
             reqProvider = first_opt (eoProvider opts)
               (case js_get req ''provider'' of JStr p \<Rightarrow> Some p | _ \<Rightarrow> None),
             maxCostPerMTokMicro = first_opt (eoMaxCost opts)
               (case js_get req ''maxCostPerMTokMicro'' of JBigInt c \<Rightarrow> Some c | _ \<Rightarrow> None),
             onlyActive = Some (first_some (first_opt (eoOnlyActive opts) (b ''onlyActive'')) True)\<rparr>)
      else
        (let out = requested_output req (eoDefaultMaxOutputTokens opts);
             total_required = prompt_tokens req (eoEstimatedPromptTokens opts) + first_some out 0
         in \<lparr>minContextLength = (if total_required > 0 then Some total_required else None),
             reqMaxOutputTokens = out, requiresTools = Some (needs_tools req),
             requiresVision = Some (needs_vision req), requiresJsonSchema = Some (needs_json req),
             requiresStreaming = (if js_get req ''stream'' = JBool True then Some True else None),
             reqProvider = eoProvider opts, maxCostPerMTokMicro = eoMaxCost opts,
             onlyActive = Some (first_some (eoOnlyActive opts) True)\<rparr>))"

section \<open>Audit (auditor.ts)\<close>

definition positive :: "int option \<Rightarrow> bool" where
  "positive x \<longleftrightarrow> (case x of Some n \<Rightarrow> n > 0 | None \<Rightarrow> False)"

definition checkCapabilities :: "ModelDef \<Rightarrow> CapabilityRequirements \<Rightarrow> string list" where
  "checkCapabilities m r =
     (if first_some (onlyActive r) True \<and> \<not> mdIsActive m then [''active''] else []) @
     (if requiresTools r = Some True \<and> \<not> supportsTools m then [''tools''] else []) @
     (if requiresVision r = Some True \<and> \<not> supportsVision m then [''vision''] else []) @
     (if requiresJsonSchema r = Some True \<and> \<not> supportsJsonSchema m then [''json_schema''] else []) @
     (if positive (minContextLength r) \<and> contextWindow m < first_some (minContextLength r) 0
      then [''context_length''] else []) @
     (if positive (reqMaxOutputTokens r) \<and> maxOutputTokens m < first_some (reqMaxOutputTokens r) 0
      then [''max_output_tokens''] else []) @
     (if js_trim (first_some (reqProvider r) []) \<noteq> [] \<and>
         clean (mdProvider m) \<noteq> clean (first_some (reqProvider r) []) then [''provider''] else []) @
     (case maxCostPerMTokMicro r of
        Some c \<Rightarrow> if inputCostPerMTokMicro m > c then [''cost_limit''] else []
      | None \<Rightarrow> [])"

definition isCapable :: "ModelDef \<Rightarrow> CapabilityRequirements \<Rightarrow> bool" where
  "isCapable m r \<longleftrightarrow> checkCapabilities m r = []"

definition getRequiredCapabilityNames :: "CapabilityRequirements \<Rightarrow> string list" where
  "getRequiredCapabilityNames r =
     (if requiresTools r = Some True then [''tools''] else []) @
     (if requiresVision r = Some True then [''vision''] else []) @
     (if requiresJsonSchema r = Some True then [''json_schema''] else []) @
     (if requiresStreaming r = Some True then [''streaming''] else []) @
     (if positive (minContextLength r)
      then [''context_length>='' @ bigint_to_string (first_some (minContextLength r) 0)] else []) @
     (if positive (reqMaxOutputTokens r)
      then [''max_output_tokens>='' @ bigint_to_string (first_some (reqMaxOutputTokens r) 0)] else []) @
     (if first_some (reqProvider r) [] \<noteq> [] then [''provider='' @ first_some (reqProvider r) []] else []) @
     (case maxCostPerMTokMicro r of Some c \<Rightarrow> [''cost<='' @ bigint_to_string c] | None \<Rightarrow> [])"

section \<open>Order (sorter.ts)\<close>

definition cost_asc :: "ModelDef \<Rightarrow> ModelDef \<Rightarrow> int" where
  "cost_asc a b =
     (if inputCostPerMTokMicro a \<noteq> inputCostPerMTokMicro b
      then (if inputCostPerMTokMicro a < inputCostPerMTokMicro b then -1 else 1)
      else if outputCostPerMTokMicro a \<noteq> outputCostPerMTokMicro b
      then (if outputCostPerMTokMicro a < outputCostPerMTokMicro b then -1 else 1)
      else if contextWindow a \<noteq> contextWindow b then contextWindow b - contextWindow a
      else localeCompare (mdId a) (mdId b))"

definition cost_desc :: "ModelDef \<Rightarrow> ModelDef \<Rightarrow> int" where
  "cost_desc a b =
     (if inputCostPerMTokMicro a \<noteq> inputCostPerMTokMicro b
      then (if inputCostPerMTokMicro a > inputCostPerMTokMicro b then -1 else 1)
      else localeCompare (mdId b) (mdId a))"

definition context_desc :: "ModelDef \<Rightarrow> ModelDef \<Rightarrow> int" where
  "context_desc a b =
     (if contextWindow a \<noteq> contextWindow b then contextWindow b - contextWindow a
      else if inputCostPerMTokMicro a \<noteq> inputCostPerMTokMicro b
      then (if inputCostPerMTokMicro a < inputCostPerMTokMicro b then -1 else 1)
      else localeCompare (mdId a) (mdId b))"

definition sortCandidates :: "ModelDef list \<Rightarrow> ModelSortStrategy \<Rightarrow> ModelDef list" where
  "sortCandidates candidates strat =
     (case strat of
        CostAsc \<Rightarrow> js_sort cost_asc candidates
      | CostDesc \<Rightarrow> js_sort cost_desc candidates
      | ContextDesc \<Rightarrow> js_sort context_desc candidates
      | NoSort \<Rightarrow> candidates)"

section \<open>The filter (filter.ts)\<close>

datatype filter_error =
    CapabilityMismatch "string list" "string option"
  | NoRegistryError

definition filterCandidates ::
  "ModelDef list \<Rightarrow> CapabilityRequirements \<Rightarrow> ModelSortStrategy option \<Rightarrow> bool \<Rightarrow> filter_error + ModelDef list" where
  "filterCandidates models r sortBy throwIfEmpty =
     (let sorted = sortCandidates (filter (\<lambda>m. isCapable m r) models) (first_some sortBy CostAsc);
          names = getRequiredCapabilityNames r in
      if sorted = [] \<and> throwIfEmpty
      then Inl (CapabilityMismatch (if names \<noteq> [] then names else [''unknown''])
             (case models of [] \<Rightarrow> None | m # _ \<Rightarrow> Some (mdId m)))
      else Inr sorted)"

definition filterCandidatesOrThrow ::
  "ModelDef list \<Rightarrow> CapabilityRequirements \<Rightarrow> ModelSortStrategy option \<Rightarrow> filter_error + ModelDef list" where
  "filterCandidatesOrThrow models r sortBy = filterCandidates models r sortBy True"

definition selectOptimalCandidate :: "ModelDef list \<Rightarrow> CapabilityRequirements \<Rightarrow> ModelDef option" where
  "selectOptimalCandidate models r =
     (case sortCandidates (filter (\<lambda>m. isCapable m r) models) CostAsc of [] \<Rightarrow> None | m # _ \<Rightarrow> Some m)"

definition filterRegistry ::
  "ModelRegistry option \<Rightarrow> CapabilityRequirements \<Rightarrow> ModelSortStrategy option \<Rightarrow> filter_error + ModelDef list" where
  "filterRegistry registry r sortBy =
     (case registry of
        None \<Rightarrow> Inl NoRegistryError
      | Some reg \<Rightarrow> filterCandidates (getAllModels reg (first_some (onlyActive r) True)) r sortBy False)"

end
