(* ===== verification/Upstream.thy ===== *)
theory Upstream
  imports SseTransformer Capability
begin

text \<open>
  \<open>src/proxy/upstream/\<close>: the HTTP client for the model providers. Headers are maps from lower-case
  names; a fetch, the clock of HTTP dates, \<open>JSON.parse\<close> and the resolver of pool keys are parameters.
  The state threaded through is whatever the fetch and the key pool share. The latency statistics
  behind the adaptive timeout are floating-point averages and are left out: a timeout is an outcome
  of the fetch.
\<close>

section \<open>Constants (types.ts)\<close>

definition HOP_BY_HOP_HEADERS :: "string list" where
  "HOP_BY_HOP_HEADERS =
     [''connection'', ''keep-alive'', ''proxy-authenticate'', ''proxy-authorization'', ''te'', ''trailer'',
      ''transfer-encoding'', ''upgrade'', ''host'']"

definition CLIENT_AUTH_HEADERS :: "string list" where
  "CLIENT_AUTH_HEADERS =
     [''authorization'', ''x-api-key'', ''api-key'', ''proxy-authorization'', ''kc-token'', ''kc-tenant-id'',
      ''kc-trace-id'', ''kc-key-id'']"

definition DEFAULT_PROVIDER_BASE_URLS :: "(string \<times> string) list" where
  "DEFAULT_PROVIDER_BASE_URLS =
     [(''openai'', ''https://api.openai.com/v1''), (''anthropic'', ''https://api.anthropic.com/v1''),
      (''google'', ''https://generativelanguage.googleapis.com/v1beta''),
      (''gemini'', ''https://generativelanguage.googleapis.com/v1beta''),
      (''groq'', ''https://api.groq.com/openai/v1''), (''deepseek'', ''https://api.deepseek.com/v1''),
      (''cohere'', ''https://api.cohere.com/v1''), (''mistral'', ''https://api.mistral.ai/v1''),
      (''together'', ''https://api.together.xyz/v1'')]"

definition DEFAULT_PROVIDER_ENDPOINTS :: "(string \<times> string) list" where
  "DEFAULT_PROVIDER_ENDPOINTS =
     [(''openai'', ''/chat/completions''), (''anthropic'', ''/messages''),
      (''google'', ''/openai/chat/completions''), (''gemini'', ''/openai/chat/completions''),
      (''groq'', ''/chat/completions''), (''deepseek'', ''/chat/completions''), (''cohere'', ''/chat''),
      (''mistral'', ''/chat/completions''), (''together'', ''/chat/completions'')]"

definition DEFAULT_UPSTREAM_TIMEOUT_MS :: int where
  "DEFAULT_UPSTREAM_TIMEOUT_MS = 30000"

section \<open>Headers (headers.ts)\<close>

type_synonym headers = "(string, string) jsmap"

definition header_set :: "string \<Rightarrow> string \<Rightarrow> headers \<Rightarrow> headers" where
  "header_set name v h = AList.update (js_lower name) v h"

definition header_get :: "string \<Rightarrow> headers \<Rightarrow> string option" where
  "header_get name h = map_of h (js_lower name)"

definition header_default :: "string \<Rightarrow> string \<Rightarrow> headers \<Rightarrow> headers" where
  "header_default name v h = (if header_get name h = None then header_set name v h else h)"

text \<open>The smallest integer not below \<open>n * 10 ^ e\<close>.\<close>

definition ceil_scaled :: "nat \<Rightarrow> int \<Rightarrow> int" where
  "ceil_scaled n e =
     (if e \<ge> 0 then int n * 10 ^ nat e else (int n + 10 ^ nat (- e) - 1) div 10 ^ nat (- e))"

text \<open>
  \<open>parseFloat\<close> followed by \<open>Math.ceil\<close>, for values that are not negative: an optional sign, digits
  with a decimal point, an exponent; \<open>None\<close> where there is no number or it is negative.
\<close>

definition exponent_part :: "string \<Rightarrow> int" where
  "exponent_part s =
     (if s = [] \<or> (hd s \<noteq> CHR ''e'' \<and> hd s \<noteq> CHR ''E'') then 0
      else
        (let t = tl s;
             body = (if t \<noteq> [] \<and> (hd t = CHR ''-'' \<or> hd t = CHR ''+'') then tl t else t);
             v = int (digits_val (takeWhile is_digit body))
         in if t \<noteq> [] \<and> hd t = CHR ''-'' then - v else v))"

definition parse_float_ceil :: "string \<Rightarrow> int option" where
  "parse_float_ceil t =
     (let negative = t \<noteq> [] \<and> hd t = CHR ''-'';
          body = (if t \<noteq> [] \<and> (hd t = CHR ''-'' \<or> hd t = CHR ''+'') then tl t else t);
          whole = takeWhile is_digit body;
          rest = dropWhile is_digit body;
          point = rest \<noteq> [] \<and> hd rest = CHR ''.'';
          frac = (if point then takeWhile is_digit (tl rest) else []);
          rest2 = (if point then dropWhile is_digit (tl rest) else rest);
          n = digits_val (whole @ frac)
      in if whole @ frac = [] \<or> (negative \<and> n \<noteq> 0) then None
         else Some (ceil_scaled n (exponent_part rest2 - int (length frac))))"

definition parseRetryAfter :: "(string \<Rightarrow> timestamp option) \<Rightarrow> timestamp \<Rightarrow> string option \<Rightarrow> int" where
  "parseRetryAfter parseDate now headerValue =
     (let trimmed = js_trim (first_some headerValue []) in
      if trimmed = [] then 60
      else case parse_float_ceil trimmed of
        Some n \<Rightarrow> n
      | None \<Rightarrow>
          (case parseDate trimmed of
             Some d \<Rightarrow> max 1 (ceil_secs (d - now))
           | None \<Rightarrow> 60))"

definition forwarded :: "string \<Rightarrow> bool" where
  "forwarded name \<longleftrightarrow>
     (let lower = js_lower name in
      lower \<notin> set HOP_BY_HOP_HEADERS \<and> lower \<notin> set CLIENT_AUTH_HEADERS \<and>
      \<not> starts_with lower ''cf-'' \<and> \<not> starts_with lower ''x-forwarded-'')"

definition copied_headers :: "(string \<times> string) list \<Rightarrow> headers" where
  "copied_headers incoming =
     fold (\<lambda>(name, v) h. header_set name v h) (filter (\<lambda>(name, v). forwarded name) incoming) []"

definition inject_key :: "string \<Rightarrow> string \<Rightarrow> headers \<Rightarrow> headers" where
  "inject_key prov apiKey h =
     (let p = js_lower prov in
      if js_trim apiKey = [] then h
      else if p = ''anthropic'' then header_default ''anthropic-version'' ''2023-06-01'' (header_set ''x-api-key'' apiKey h)
      else if p = ''google'' \<or> p = ''gemini''
      then header_set ''authorization'' (''Bearer '' @ apiKey) (header_set ''x-goog-api-key'' apiKey h)
      else header_set ''authorization'' (''Bearer '' @ apiKey) h)"

definition rewriteHeaders :: "string \<Rightarrow> (string \<times> string) list \<Rightarrow> string \<Rightarrow> bool \<Rightarrow> headers" where
  "rewriteHeaders prov incoming apiKey stream =
     (let h = header_default ''content-type'' ''application/json'' (copied_headers incoming);
          h1 = (if stream then header_set ''accept'' ''text/event-stream'' h
                else header_default ''accept'' ''application/json'' h)
      in inject_key prov apiKey h1)"

section \<open>URLs (urls.ts)\<close>

definition strip_slashes :: "string \<Rightarrow> string" where
  "strip_slashes s = dropWhile (\<lambda>c. c = CHR ''/'') s"

definition provider_endpoint :: "string \<Rightarrow> string option \<Rightarrow> string option \<Rightarrow> string" where
  "provider_endpoint prov endpoint model =
     (let ep = first_some endpoint [];
          resolved = (if js_trim ep = [] then first_some (map_of DEFAULT_PROVIDER_ENDPOINTS prov) ''/chat/completions''
                      else ep);
          google = (prov = ''google'' \<or> prov = ''gemini'');
          m = first_some model []
      in if prov = ''anthropic'' \<and> resolved = ''/chat/completions'' then ''/messages''
         else if google \<and> resolved = ''/chat/completions'' then ''/openai/chat/completions''
         else if google \<and> str_includes resolved '':generateContent'' \<and> m \<noteq> [] \<and>
                 \<not> str_includes resolved ''/models/''
         then ''/models/'' @ m @ resolved
         else resolved)"

definition buildProviderUrl ::
  "string \<Rightarrow> string option \<Rightarrow> string option \<Rightarrow> (string \<times> string) list \<Rightarrow> string" where
  "buildProviderUrl prov endpoint model baseUrls =
     (let ep = first_some endpoint []; p = js_lower prov;
          rawBase = (case map_of baseUrls p of
                       Some u \<Rightarrow> u
                     | None \<Rightarrow> first_some (map_of DEFAULT_PROVIDER_BASE_URLS p) (''https://api.'' @ p @ ''.com/v1''))
      in if starts_with ep ''http://'' \<or> starts_with ep ''https://'' then ep
         else rev (strip_slashes (rev rawBase)) @ ''/'' @ strip_slashes (provider_endpoint p endpoint model))"

section \<open>Errors (errors.ts)\<close>

datatype upstream_error =
    UpstreamRateLimited string int string
  | UpstreamKeyRejected string int string
  | UpstreamTimedOut string "string option" int
  | UpstreamRejected string "string option" int int

definition truncateText :: "string \<Rightarrow> nat \<Rightarrow> string" where
  "truncateText s n = (if length s \<le> n then s else take n s @ ''... [truncated]'')"

text \<open>
  The constructors keep what distinguishes the errors: provider, delay or status, the truncated
  text, the model, the timeout, and for \<open>ProviderRoutingError\<close> the upstream and the own status.
\<close>

definition mapUpstreamHttpError ::
  "(string \<Rightarrow> timestamp option) \<Rightarrow> timestamp \<Rightarrow> string \<Rightarrow> int \<Rightarrow> string \<Rightarrow> headers \<Rightarrow> string option \<Rightarrow>
   int option \<Rightarrow> upstream_error" where
  "mapUpstreamHttpError parseDate now prov status responseText hs model timeoutMs =
     (if status = 429
      then UpstreamRateLimited prov (parseRetryAfter parseDate now (header_get ''retry-after'' hs))
             (truncateText responseText 500)
      else if status = 401 \<or> status = 403
      then UpstreamKeyRejected prov status (truncateText responseText 500)
      else if status = 408 \<or> status = 504
      then UpstreamTimedOut prov model (first_some timeoutMs DEFAULT_UPSTREAM_TIMEOUT_MS)
      else UpstreamRejected prov model status 502)"

section \<open>The client and its collaborators (types.ts, client.ts)\<close>

text \<open>
  \<open>KeyPoolContract\<close>: \<open>getKey\<close> may throw, the feedback calls are not awaited and their rejections are
  swallowed; \<open>recordDispatch\<close> is optional.
\<close>

record ('s, 'e) KeyPoolContract =
  poolGetKey :: "string \<Rightarrow> 's \<Rightarrow> ('e + string) \<times> 's"
  poolRecordUsage :: "string \<Rightarrow> int \<Rightarrow> 's \<Rightarrow> 's"
  poolRecordResult :: "string \<Rightarrow> bool \<Rightarrow> 's \<Rightarrow> 's"
  poolRecordDispatch :: "(string \<Rightarrow> bool \<Rightarrow> 's \<Rightarrow> 's) option"

record UpstreamRequest =
  uqProvider :: string
  uqModel :: "string option"
  uqEndpoint :: "string option"
  uqApiKey :: "string option"
  uqKeyId :: "string option"
  uqBody :: "string option"
  uqHeaders :: "(string \<times> string) list"
  uqStream :: bool
  uqRecordPoolUsage :: "bool option"

record HttpRequest =
  hqUrl :: string
  hqHeaders :: headers
  hqBody :: "string option"

text \<open>
  A response arrives with its status, its headers, and a body: absent, or chunks of text which a read
  returns, unless the connection breaks meanwhile.
\<close>

record HttpResponse =
  hrStatus :: int
  hrHeaders :: headers
  hrChunks :: "string list option"
  hrReadFails :: bool

datatype fetch_outcome =
    FetchTimeout
  | FetchDomainError upstream_error
  | FetchNetworkError string
  | FetchResponse HttpResponse

record ('s, 'e) UpstreamClient =
  ucPool :: "('s, 'e) KeyPoolContract option"
  ucFetch :: "HttpRequest \<Rightarrow> 's \<Rightarrow> fetch_outcome \<times> 's"
  ucKeyResolver :: "(string \<Rightarrow> string \<Rightarrow> 's \<Rightarrow> ('e + string) \<times> 's) option"
  ucCostCalculator :: "(string \<Rightarrow> TokenUsage \<Rightarrow> int option) option"
  ucBaseUrls :: "(string \<times> string) list"
  ucDefaultHeaders :: "(string \<times> string) list"
  ucTimeoutMs :: int
  ucParseJson :: "string \<Rightarrow> js option"
  ucParseDate :: "string \<Rightarrow> timestamp option"

datatype 'e send_error =
    PoolError 'e
  | InvalidKeyError string
  | HttpError upstream_error
  | NetworkError string
  | EmptyStreamBody
  | BodyReadError
  | BodySyntaxError
  | CostCalculatorError

record UpstreamResponse =
  urResponse :: HttpResponse
  urStreaming :: bool
  urKeyId :: "string option"

section \<open>Sending (client.ts)\<close>

definition truthy :: "string option \<Rightarrow> bool" where
  "truthy s \<longleftrightarrow> first_some s [] \<noteq> []"

text \<open>A text that does not look like a provider's key is taken for the id of a pool key.\<close>

definition is_pool_reference :: "string \<Rightarrow> bool" where
  "is_pool_reference k \<longleftrightarrow>
     starts_with k ''key_'' \<or>
     (\<not> starts_with k ''AIza'' \<and> \<not> starts_with k ''gsk_'' \<and> \<not> starts_with k ''sk-'')"

definition resolve_reference ::
  "('s, 'e) UpstreamClient \<Rightarrow> string \<Rightarrow> string \<Rightarrow> 's \<Rightarrow> ('e + string) \<times> 's" where
  "resolve_reference uc ref prov s =
     (case ucKeyResolver uc of None \<Rightarrow> (Inr ref, s) | Some f \<Rightarrow> f ref prov s)"

text \<open>The plain key to send and the pool key to report on.\<close>

definition resolve_key ::
  "('s, 'e) UpstreamClient \<Rightarrow> UpstreamRequest \<Rightarrow> 's \<Rightarrow> ('e send_error + string \<times> string option) \<times> 's" where
  "resolve_key uc q s =
     (let k = first_some (uqApiKey q) [];
          checked = (\<lambda>keyId (r, s'). case r of
             Inl e \<Rightarrow> (Inl (PoolError e), s')
           | Inr secret \<Rightarrow> if js_trim secret = [] then (Inl (InvalidKeyError (uqProvider q)), s')
                         else (Inr (secret, keyId), s'))
      in case (if js_trim k = [] then ucPool uc else None) of
           Some pool \<Rightarrow>
             (case poolGetKey pool (uqProvider q) s of
                (Inl e, s1) \<Rightarrow> (Inl (PoolError e), s1)
              | (Inr ref, s1) \<Rightarrow>
                  checked (Some (first_some (uqKeyId q) ref)) (resolve_reference uc ref (uqProvider q) s1))
         | None \<Rightarrow>
             if k \<noteq> [] \<and> ucKeyResolver uc \<noteq> None \<and> is_pool_reference k
             then checked (Some (first_some (uqKeyId q) k)) (resolve_reference uc k (uqProvider q) s)
             else checked (uqKeyId q) (Inr k, s))"

definition client_headers :: "('s, 'e) UpstreamClient \<Rightarrow> UpstreamRequest \<Rightarrow> string \<Rightarrow> headers" where
  "client_headers uc q apiKey =
     fold (\<lambda>(name, v) h. header_default name v h) (ucDefaultHeaders uc)
       (rewriteHeaders (uqProvider q) (uqHeaders q) apiKey (uqStream q))"

definition http_request :: "('s, 'e) UpstreamClient \<Rightarrow> UpstreamRequest \<Rightarrow> string \<Rightarrow> HttpRequest" where
  "http_request uc q apiKey =
     \<lparr>hqUrl = buildProviderUrl (uqProvider q) (uqEndpoint q) (uqModel q) (ucBaseUrls uc),
      hqHeaders = client_headers uc q apiKey, hqBody = uqBody q\<rparr>"

text \<open>Feedback to the pool, when there is a pool, a key id, and recording is not switched off.\<close>

definition with_pool ::
  "('s, 'e) UpstreamClient \<Rightarrow> UpstreamRequest \<Rightarrow> string option \<Rightarrow>
   (('s, 'e) KeyPoolContract \<Rightarrow> string \<Rightarrow> 's \<Rightarrow> 's) \<Rightarrow> 's \<Rightarrow> 's" where
  "with_pool uc q keyId f s =
     (case ucPool uc of
        Some pool \<Rightarrow>
          if truthy keyId \<and> uqRecordPoolUsage q \<noteq> Some False then f pool (first_some keyId []) s else s
      | None \<Rightarrow> s)"

definition report_result ::
  "('s, 'e) UpstreamClient \<Rightarrow> UpstreamRequest \<Rightarrow> string option \<Rightarrow> bool \<Rightarrow> 's \<Rightarrow> 's" where
  "report_result uc q keyId success = with_pool uc q keyId (\<lambda>pool k. poolRecordResult pool k success)"

definition report_usage ::
  "('s, 'e) UpstreamClient \<Rightarrow> UpstreamRequest \<Rightarrow> string option \<Rightarrow> TokenUsage \<Rightarrow> 's \<Rightarrow> 's" where
  "report_usage uc q keyId u =
     with_pool uc q keyId (\<lambda>pool k s.
       case ucCostCalculator uc of
         Some calc \<Rightarrow>
           if truthy (uqModel q)
           then (case calc (first_some (uqModel q) []) u of
                   Some cost \<Rightarrow> poolRecordUsage pool k cost s
                 | None \<Rightarrow> s)
           else s
       | None \<Rightarrow> s)"

definition http_ok :: "int \<Rightarrow> bool" where
  "http_ok status \<longleftrightarrow> 200 \<le> status \<and> status < 300"

definition body_text :: "HttpResponse \<Rightarrow> string" where
  "body_text r = (if hrReadFails r then [] else concat (first_some (hrChunks r) []))"

definition receive ::
  "timestamp \<Rightarrow> ('s, 'e) UpstreamClient \<Rightarrow> UpstreamRequest \<Rightarrow> string option \<Rightarrow> fetch_outcome \<Rightarrow> 's \<Rightarrow>
   ('e send_error + UpstreamResponse) \<times> 's" where
  "receive now uc q keyId outcome s =
     (let failed = report_result uc q keyId False s in
      case outcome of
        FetchTimeout \<Rightarrow> (Inl (HttpError (UpstreamTimedOut (uqProvider q) (uqModel q) (ucTimeoutMs uc))), failed)
      | FetchDomainError e \<Rightarrow> (Inl (HttpError e), failed)
      | FetchNetworkError msg \<Rightarrow> (Inl (NetworkError msg), failed)
      | FetchResponse r \<Rightarrow>
          (let streaming = uqStream q \<or>
                 str_includes (first_some (header_get ''content-type'' (hrHeaders r)) []) ''text/event-stream''
           in if \<not> http_ok (hrStatus r)
              then (Inl (HttpError (mapUpstreamHttpError (ucParseDate uc) now (uqProvider q) (hrStatus r)
                           (body_text r) (hrHeaders r) (uqModel q) (Some (ucTimeoutMs uc)))), failed)
              else if streaming
              then (if hrChunks r = None then (Inl EmptyStreamBody, s)
                    else (Inr \<lparr>urResponse = r, urStreaming = True, urKeyId = keyId\<rparr>, s))
              else (Inr \<lparr>urResponse = r, urStreaming = False, urKeyId = keyId\<rparr>, report_result uc q keyId True s)))"

definition send ::
  "timestamp \<Rightarrow> ('s, 'e) UpstreamClient \<Rightarrow> UpstreamRequest \<Rightarrow> 's \<Rightarrow>
   ('e send_error + UpstreamResponse) \<times> 's" where
  "send now uc q s =
     (case resolve_key uc q s of
        (Inl e, s1) \<Rightarrow> (Inl e, s1)
      | (Inr (apiKey, keyId), s1) \<Rightarrow>
          (let (outcome, s2) = ucFetch uc (http_request uc q apiKey) s1
           in receive now uc q keyId outcome s2))"

section \<open>Bodies (client.ts)\<close>

definition usage_of_stream :: "StreamUsage \<Rightarrow> TokenUsage" where
  "usage_of_stream u = \<lparr>promptTokens = suPrompt u, completionTokens = suCompletion u,
     cachedTokens = suCached u, reasoningTokens = suReasoning u\<rparr>"

definition usage_of_partial :: "PartialUsage \<Rightarrow> StreamUsage" where
  "usage_of_partial u =
     (let p = first_some (puPrompt u) 0; c = first_some (puCompletion u) 0
      in \<lparr>suPrompt = p, suCompletion = c, suTotal = first_some (puTotal u) (p + c),
          suCached = puCached u, suReasoning = puReasoning u\<rparr>)"

text \<open>The first \<open>json()\<close> of a plain response: read, parse, extract the usage and report it.\<close>

definition read_json ::
  "('s, 'e) UpstreamClient \<Rightarrow> UpstreamRequest \<Rightarrow> UpstreamResponse \<Rightarrow> 's \<Rightarrow>
   ('e send_error + js \<times> StreamUsage option) \<times> 's" where
  "read_json uc q res s =
     (if hrReadFails (urResponse res) then (Inl BodyReadError, s)
      else case ucParseJson uc (body_text (urResponse res)) of
        None \<Rightarrow> (Inl BodySyntaxError, s)
      | Some v \<Rightarrow>
          (case map_option usage_of_partial (extractUsageFromPayload v) of
             None \<Rightarrow> (Inr (v, None), s)
           | Some u \<Rightarrow> (Inr (v, Some u), report_usage uc q (urKeyId res) (usage_of_stream u) s)))"

text \<open>
  The end of a streamed response, when the client has read it through the transformer: success and
  the usage seen in the stream are reported.
\<close>

definition stream_done ::
  "('s, 'e) UpstreamClient \<Rightarrow> UpstreamRequest \<Rightarrow> UpstreamResponse \<Rightarrow> 's \<Rightarrow> 's" where
  "stream_done uc q res s =
     (let t = stParser (run_stream (ucParseJson uc) Passthrough (first_some (hrChunks (urResponse res)) []));
          s1 = report_result uc q (urKeyId res) True s
      in case spUsage t of
           Some u \<Rightarrow> report_usage uc q (urKeyId res) (usage_of_stream u) s1
         | None \<Rightarrow> s1)"

text \<open>
  \<open>json()\<close> of either kind of response, with the usage \<open>getUsage()\<close> answers afterwards. An event
  stream that was not asked for is read to its end first.
\<close>

definition read_body ::
  "('s, 'e) UpstreamClient \<Rightarrow> UpstreamRequest \<Rightarrow> UpstreamResponse \<Rightarrow> 's \<Rightarrow>
   ('e send_error + js \<times> StreamUsage option) \<times> 's" where
  "read_body uc q res s =
     (if \<not> urStreaming res then read_json uc q res s
      else if hrReadFails (urResponse res) then (Inl BodyReadError, s)
      else
        (let chunks = first_some (hrChunks (urResponse res)) [];
             s1 = stream_done uc q res s
         in case ucParseJson uc (concat chunks) of
              None \<Rightarrow> (Inl BodySyntaxError, s1)
            | Some v \<Rightarrow> (Inr (v, spUsage (stParser (run_stream (ucParseJson uc) Passthrough chunks))), s1)))"

section \<open>Chat (client.ts)\<close>

record UpstreamChatRequest =
  ccProvider :: string
  ccModel :: string
  ccMessages :: js
  ccTemperature :: js
  ccMaxTokens :: "int option"
  ccStream :: bool
  ccApiKey :: "string option"
  ccKeyId :: "string option"
  ccHeaders :: "(string \<times> string) list"
  ccExtra :: "(string \<times> js) list"

record UpstreamChatResponse =
  crContent :: string
  crUsage :: "StreamUsage option"
  crCost :: int
  crResponse :: UpstreamResponse

text \<open>An object literal with spreads: a later entry of the same name replaces the value of an earlier one.\<close>

definition js_object :: "(string \<times> js) list \<Rightarrow> js" where
  "js_object kvs = JObj (fold (\<lambda>(k, v). AList.update k v) kvs [])"

definition chat_body :: "UpstreamChatRequest \<Rightarrow> js" where
  "chat_body c =
     (let temp = (if ccTemperature c \<noteq> JUndefined then [(''temperature'', ccTemperature c)] else [])
      in js_object (
        if js_lower (ccProvider c) = ''anthropic''
        then [(''model'', JStr (ccModel c)), (''messages'', ccMessages c),
              (''max_tokens'', JNum (first_some (ccMaxTokens c) 4096)), (''stream'', JBool (ccStream c))] @
             temp @ ccExtra c
        else [(''model'', JStr (ccModel c)), (''messages'', ccMessages c), (''stream'', JBool (ccStream c))] @
             temp @ (case ccMaxTokens c of Some n \<Rightarrow> [(''max_tokens'', JNum n)] | None \<Rightarrow> []) @ ccExtra c))"

definition chat_upstream :: "UpstreamChatRequest \<Rightarrow> UpstreamRequest" where
  "chat_upstream c =
     \<lparr>uqProvider = ccProvider c, uqModel = Some (ccModel c), uqEndpoint = None, uqApiKey = ccApiKey c,
      uqKeyId = ccKeyId c, uqBody = json (chat_body c), uqHeaders = ccHeaders c, uqStream = ccStream c,
      uqRecordPoolUsage = None\<rparr>"

definition chat ::
  "timestamp \<Rightarrow> ('s, 'e) UpstreamClient \<Rightarrow> UpstreamChatRequest \<Rightarrow> 's \<Rightarrow>
   ('e send_error + UpstreamChatResponse) \<times> 's" where
  "chat now uc c s =
     (let q = chat_upstream c in
      case send now uc q s of
        (Inl e, s1) \<Rightarrow> (Inl e, s1)
      | (Inr res, s1) \<Rightarrow>
          if ccStream c then (Inr \<lparr>crContent = [], crUsage = None, crCost = 0, crResponse = res\<rparr>, s1)
          else
            (case read_body uc q res s1 of
               (Inl e, s2) \<Rightarrow> (Inl e, s2)
             | (Inr (v, usage), s2) \<Rightarrow>
                 (case (case (usage, ucCostCalculator uc) of
                          (Some u, Some calc) \<Rightarrow> calc (ccModel c) (usage_of_stream u)
                        | _ \<Rightarrow> Some 0) of
                    None \<Rightarrow> (Inl CostCalculatorError, s2)
                  | Some cost \<Rightarrow>
                      (Inr \<lparr>crContent = extractContentFromPayload v, crUsage = usage, crCost = cost,
                            crResponse = res\<rparr>, s2))))"

section \<open>Properties\<close>

lemma header_get_set [simp]:
  "header_get n (header_set n' v h) = (if js_lower n = js_lower n' then Some v else header_get n h)"
  by (simp add: header_get_def header_set_def update_conv')

lemma header_get_default [simp]:
  "header_get n (header_default n' v h) =
     (if js_lower n = js_lower n' then Some (first_some (header_get n h) v) else header_get n h)"
  by (auto simp: header_default_def header_get_def header_set_def update_conv' split: option.split)

text \<open>The value the client sent last under a name.\<close>

definition client_value :: "string \<Rightarrow> (string \<times> string) list \<Rightarrow> string option" where
  "client_value lower incoming = map_of (rev (map (\<lambda>(n, v). (js_lower n, v)) incoming)) lower"

lemma forwarded_literal:
  "forwarded name \<longleftrightarrow>
     (let lower = js_lower name in
      lower \<notin> {''connection'', ''keep-alive'', ''proxy-authenticate'', ''proxy-authorization'', ''te'', ''trailer'',
        ''transfer-encoding'', ''upgrade'', ''host'', ''authorization'', ''x-api-key'', ''api-key'', ''kc-token'',
        ''kc-tenant-id'', ''kc-trace-id'', ''kc-key-id''} \<and>
      take 3 lower \<noteq> ''cf-'' \<and> take 12 lower \<noteq> ''x-forwarded-'')"
proof -
  have prefixes: "starts_with l ''cf-'' \<longleftrightarrow> take 3 l = ''cf-''" "starts_with l ''x-forwarded-'' \<longleftrightarrow> take 12 l = ''x-forwarded-''" for l
    by (simp_all add: starts_with_def eval_nat_numeral)
  show ?thesis
    unfolding forwarded_def HOP_BY_HOP_HEADERS_def CLIENT_AUTH_HEADERS_def prefixes Let_def by auto
qed

lemma fold_headers_get:
  "header_get name (fold (\<lambda>(n, v) h. header_set n v h) (filter (\<lambda>(n, v). forwarded n) kvs) h) =
     (if forwarded name
      then (case client_value (js_lower name) kvs of Some v \<Rightarrow> Some v | None \<Rightarrow> header_get name h) else header_get name h)"
proof (induction kvs arbitrary: h)
  case Nil
  then show ?case by (simp add: client_value_def)
next
  case (Cons nv kvs)
  obtain n v where nv: "nv = (n, v)" by fastforce
  have last: "client_value l (nv # kvs) =
      (case client_value l kvs of Some w \<Rightarrow> Some w | None \<Rightarrow> if js_lower n = l then Some v else None)" for l
    by (auto simp: client_value_def nv map_add_def split: option.split)
  have same: "forwarded n = forwarded name" if "js_lower n = js_lower name" using that by (simp add: forwarded_def)
  show ?case
    using Cons.IH [of h] Cons.IH [of "header_set n v h"] same unfolding last
    by (auto simp: nv split: option.split)
qed

lemma copied_get: "header_get name (copied_headers incoming) = (if forwarded name then client_value (js_lower name) incoming else None)"
  unfolding copied_headers_def fold_headers_get by (simp add: header_get_def split: option.split)

text \<open>
  C36. Exactly which headers a provider gets. Of what the client sent, nothing passes under the names of
  the hop-by-hop headers, of the proxy's own credentials (\<open>Authorization\<close>, \<open>X-Api-Key\<close>, \<open>Api-Key\<close>, \<open>KC-Token\<close>
  and its relatives) or with the prefixes of the edge network; the pool's key is set in the header, or headers, of
  the provider; \<open>accept\<close> asks for a stream where one is wanted; content type, accept and the version of Anthropic have
  a default where the client sent none; and every other header passes as it was sent. So a \<open>Cookie\<close>, an
  \<open>X-Goog-Api-Key\<close> for another provider, and \<open>x-kc-tenant-id\<close> and \<open>x-kc-trace-id\<close>, the names which the chat handler
  sets, do reach the provider.
\<close>

theorem header_hygiene:
  assumes "js_trim k \<noteq> []"
  shows "let lower = js_lower name; p = js_lower prov in
    header_get name (rewriteHeaders prov incoming k stream) =
      (if lower = ''authorization'' then (if p = ''anthropic'' then None else Some (''Bearer '' @ k))
       else if lower = ''x-api-key'' then (if p = ''anthropic'' then Some k else None)
       else if lower = ''x-goog-api-key'' \<and> p \<in> {''google'', ''gemini''} then Some k
       else if lower \<in> {''connection'', ''keep-alive'', ''proxy-authenticate'', ''proxy-authorization'', ''te'', ''trailer'',
           ''transfer-encoding'', ''upgrade'', ''host'', ''api-key'', ''kc-token'', ''kc-tenant-id'', ''kc-trace-id'',
           ''kc-key-id''} \<or> take 3 lower = ''cf-'' \<or> take 12 lower = ''x-forwarded-'' then None
       else if lower = ''accept'' \<and> stream then Some ''text/event-stream''
       else if lower \<in> {''accept'', ''content-type''} then Some (first_some (client_value lower incoming) ''application/json'')
       else if lower = ''anthropic-version'' \<and> p = ''anthropic'' then Some (first_some (client_value lower incoming) ''2023-06-01'')
       else client_value lower incoming)"
proof -
  have lower: "js_lower ''authorization'' = ''authorization''" "js_lower ''x-api-key'' = ''x-api-key''"
    "js_lower ''content-type'' = ''content-type''" "js_lower ''accept'' = ''accept''"
    "js_lower ''x-goog-api-key'' = ''x-goog-api-key''" "js_lower ''anthropic-version'' = ''anthropic-version''"
    by code_simp+
  let ?l = "js_lower name"
  consider "?l = ''authorization''" | "?l = ''x-api-key''" | "?l = ''x-goog-api-key''" | "?l = ''accept''" | "?l = ''content-type''"
    | "?l = ''anthropic-version''"
    | "?l \<notin> {''authorization'', ''x-api-key'', ''x-goog-api-key'', ''accept'', ''content-type'', ''anthropic-version''}"
    by blast
  then show ?thesis
    using assms
    by cases (simp_all add: rewriteHeaders_def inject_key_def copied_get forwarded_literal lower Let_def)
qed

theorem header_hygiene_witness:
  "header_get ''KC-Token'' (rewriteHeaders ''openai'' [(''kc-token'', ''s'')] ''sk-1'' False) = None
    \<and> header_get ''Authorization'' (rewriteHeaders ''openai'' [(''authorization'', ''Bearer x'')] ''sk-1'' False) = Some ''Bearer sk-1''
    \<and> header_get ''Cookie'' (rewriteHeaders ''openai'' [(''cookie'', ''id=1'')] ''sk-1'' False) = Some ''id=1''"
proof -
  have key: "js_trim ''sk-1'' \<noteq> []" by code_simp
  have lower: "js_lower ''KC-Token'' = ''kc-token''" "js_lower ''Authorization'' = ''authorization''" "js_lower ''Cookie'' = ''cookie''"
    "js_lower ''cookie'' = ''cookie''" "js_lower ''openai'' = ''openai''" by code_simp+
  note h = header_hygiene [OF key, where prov = "''openai''" and stream = False, unfolded Let_def lower]
  from h [of "''KC-Token''" "[(''kc-token'', ''s'')]"] h [of "''Authorization''" "[(''authorization'', ''Bearer x'')]"]
    h [of "''Cookie''" "[(''cookie'', ''id=1'')]"]
  show ?thesis by (simp add: lower client_value_def)
qed

end
