(* ===== verification/RegistryProps.thy ===== *)
theory RegistryProps
  imports ModelRegistry Interfaces
begin

text \<open>
  The properties of the model registry of theory \<open>ModelRegistry\<close>: what it keeps invariant, what a
  lookup finds after a registration, the agreement of its two ways to resolve an alias, the limits
  and the exactness of its prices.
\<close>

section \<open>Names\<close>

lemma is_space_lower [simp]: "is_space (lower_char c) = is_space c"
  by (auto simp: is_space_def lower_char_def)

lemma lower_trim: "js_lower (js_trim s) = js_trim (js_lower s)"
proof -
  have dw: "dropWhile is_space (map lower_char s) = map lower_char (dropWhile is_space s)" for s
    by (induction s) auto
  show ?thesis by (simp add: js_lower_def js_trim_def dw rev_map)
qed

lemma clean_idem [simp]: "clean (clean s) = clean s"
  by (simp add: clean_def lower_trim)

lemma clean_trim [simp]: "clean (js_trim s) = clean s"
  by (simp add: clean_def lower_trim)

lemma clean_eq_Nil: "clean s = [] \<longleftrightarrow> js_trim s = []"
  unfolding clean_def lower_trim [symmetric] by (simp add: js_lower_def)

lemma trim_Nil [simp]: "js_trim [] = []" "clean [] = []"
  by (simp_all add: js_trim_def clean_def js_lower_def)

section \<open>Sorting and filtering\<close>

context comparison
begin

lemma insert_front: "\<forall>z\<in>set zs. key x \<le> key z \<Longrightarrow> js_insert cmp x zs = x # zs"
  by (cases zs) (auto simp: cmp_key)

lemma filter_insert:
  "sorted (map key ys) \<Longrightarrow>
   filter P (js_insert cmp x ys) = (if P x then js_insert cmp x (filter P ys) else filter P ys)"
proof (induction ys)
  case (Cons y ys)
  have "P x \<Longrightarrow> key x \<le> key y \<Longrightarrow> js_insert cmp x (filter P (y # ys)) = x # filter P (y # ys)"
    using Cons.prems by (intro insert_front) auto
  with Cons show ?case by (auto simp: cmp_key)
qed simp

lemma filter_sort: "filter P (js_sort cmp xs) = js_sort cmp (filter P xs)"
  by (induction xs) (simp_all add: filter_insert sorted_sort)

definition first_min :: "'a list \<Rightarrow> 'a option" where
  "first_min xs = (case js_sort cmp xs of [] \<Rightarrow> None | x # _ \<Rightarrow> Some x)"

lemma first_min_Nil [simp]: "first_min [] = None"
  by (simp add: first_min_def)

lemma first_min_Cons:
  "first_min (x # xs) = (case first_min xs of None \<Rightarrow> Some x | Some y \<Rightarrow> Some (if key x \<le> key y then x else y))"
  by (auto simp: first_min_def cmp_key split: list.splits)

lemma first_min_find: "find P (js_sort cmp xs) = first_min (filter P xs)"
proof -
  have "find P ys = (case filter P ys of [] \<Rightarrow> None | y # _ \<Rightarrow> Some y)" for ys
    by (induction ys) auto
  then show ?thesis by (simp add: first_min_def filter_sort)
qed

lemma first_min_Some:
  "first_min xs = Some m \<Longrightarrow> m \<in> set xs \<and> (\<forall>x\<in>set xs. key m \<le> key x)"
  using sorted_sort [of xs] set_js_sort [of cmp xs]
  by (cases "js_sort cmp xs") (auto simp: first_min_def simp del: set_js_sort)

lemma first_min_None: "first_min xs = None \<longleftrightarrow> xs = []"
  by (simp add: first_min_def split: list.split) (metis js_sort_eq_Nil list.distinct(1))

end

interpretation by_cost: comparison compareByCost inputCostPerMTokMicro
  by unfold_locales (simp add: compareByCost_def)

lemma cheapest_match_min:
  "cheapest_match c ms best =
     by_cost.first_min ((case best of None \<Rightarrow> [] | Some b \<Rightarrow> [b]) @ filter (\<lambda>m. mdIsActive m \<and> aliased_to c m) ms)"
proof (induction ms arbitrary: best)
  case Nil
  then show ?case by (auto simp: by_cost.first_min_Cons split: option.split)
next
  case (Cons m ms)
  show ?case
    by (cases "by_cost.first_min (filter (\<lambda>m. mdIsActive m \<and> aliased_to c m) ms)")
      (auto simp: Cons.IH by_cost.first_min_Cons split: option.split)
qed

section \<open>The alias map\<close>

lemma map_of_add_alias: "map_of (add_alias a i m) c = (if c = a \<and> map_of m a = None then Some i else map_of m c)"
  by (simp add: add_alias_def)

lemma map_of_add_aliases:
  "map_of (add_aliases_of model m) c =
     (case map_of m c of Some i \<Rightarrow> Some i | None \<Rightarrow> if aliased_to c model then Some (mdId model) else None)"
proof -
  have "map_of (fold (\<lambda>a. add_alias (clean a) (mdId model)) as m) c =
     (case map_of m c of Some i \<Rightarrow> Some i
      | None \<Rightarrow> if list_ex (\<lambda>a. clean a = c) as then Some (mdId model) else None)" for as m
    by (induction as arbitrary: m) (auto simp: map_of_add_alias split: option.split)
  then show ?thesis by (simp add: add_aliases_of_def aliased_to_def)
qed

lemma map_of_implicit:
  "map_of (fold add_aliases_of ms m) c =
     (case map_of m c of Some i \<Rightarrow> Some i | None \<Rightarrow> map_option mdId (find (aliased_to c) ms))"
  by (induction ms arbitrary: m) (auto simp: map_of_add_aliases split: option.split)

lemma map_of_overrides:
  "distinct (map fst os) \<Longrightarrow>
   map_of (fold (\<lambda>(a, t) m. if P t then AList.update a t m else m) os m) c =
     (case map_of os c of Some t \<Rightarrow> if P t then Some t else map_of m c | None \<Rightarrow> map_of m c)"
proof (induction os arbitrary: m)
  case (Cons e os)
  obtain a t where e: "e = (a, t)" by (cases e)
  with Cons.prems have "c = a \<Longrightarrow> map_of os c = None" by (auto simp: map_of_eq_None_iff)
  with Cons e show ?case by (auto split: option.split)
qed simp

section \<open>The invariant of the registry\<close>

definition model_entry_ok :: "string \<times> ModelDef \<Rightarrow> bool" where
  "model_entry_ok e \<longleftrightarrow> fst e = clean (mdId (snd e)) \<and> fst e \<noteq> [] \<and>
     (\<forall>a\<in>set (logicalAliases (snd e)). js_trim a = a \<and> a \<noteq> [])"

definition alias_entry_ok :: "string \<times> string \<Rightarrow> bool" where
  "alias_entry_ok e \<longleftrightarrow> clean (fst e) = fst e \<and> fst e \<noteq> [] \<and> js_trim (snd e) = snd e"

definition registry_ok :: "ModelRegistry \<Rightarrow> bool" where
  "registry_ok r \<longleftrightarrow>
     jsmap_ok (rgModels r) \<and> list_all model_entry_ok (rgModels r) \<and>
     jsmap_ok (rgAliases r) \<and> list_all alias_entry_ok (rgAliases r)"

lemma registry_ok_empty: "registry_ok \<lparr>rgModels = [], rgAliases = []\<rparr>"
  by (simp add: registry_ok_def)

lemma list_all_update: "list_all P m \<Longrightarrow> P (k, v) \<Longrightarrow> list_all P (AList.update k v m)"
  by (induction m) auto

lemma list_all_delete: "list_all P m \<Longrightarrow> list_all P (AList.delete k m)"
  by (induction m) auto

lemma list_all_filter: "list_all P m \<Longrightarrow> list_all P (filter Q m)"
  by (induction m) auto

lemma jsmap_ok_filter: "jsmap_ok m \<Longrightarrow> jsmap_ok (filter Q m)"
  by (simp add: jsmap_ok_def distinct_map_filter)

lemma normalized_aliases: "a \<in> set (logicalAliases (normalizeModelDef m)) \<Longrightarrow> js_trim a = a \<and> a \<noteq> []"
  by (auto simp: normalizeModelDef_def)

lemma mdId_normalize [simp]: "mdId (normalizeModelDef m) = rmId m"
  by (simp add: normalizeModelDef_def)

lemma registry_ok_register: "registry_ok r \<Longrightarrow> registry_ok (snd (registerModel m r))"
proof -
  assume "registry_ok r"
  moreover have "js_trim (rmId m) \<noteq> [] \<Longrightarrow> model_entry_ok (clean (rmId m), normalizeModelDef m)"
    by (simp add: model_entry_ok_def clean_eq_Nil normalized_aliases)
  ultimately show ?thesis by (simp add: registerModel_def registry_ok_def list_all_update)
qed

lemma registry_ok_registers: "registry_ok r \<Longrightarrow> registry_ok (snd (registerModels ms r))"
proof (induction ms arbitrary: r)
  case (Cons m ms)
  obtain x r1 where x: "registerModel m r = (x, r1)" by (cases "registerModel m r")
  with Cons registry_ok_register [of r m] show ?case by (cases x) auto
qed simp

lemma registry_ok_unregister: "registry_ok r \<Longrightarrow> registry_ok (snd (unregisterModel i r))"
  by (simp add: unregisterModel_def registry_ok_def Let_def list_all_delete list_all_filter jsmap_ok_filter)

lemma registry_ok_alias: "registry_ok r \<Longrightarrow> registry_ok (snd (registerAlias a i r))"
proof -
  assume "registry_ok r"
  moreover have "clean a \<noteq> [] \<Longrightarrow> alias_entry_ok (clean a, js_trim i)"
    by (simp add: alias_entry_ok_def)
  ultimately show ?thesis by (simp add: registerAlias_def registry_ok_def list_all_update)
qed

lemma registry_ok_unalias: "registry_ok r \<Longrightarrow> registry_ok (snd (unregisterAlias a r))"
  by (simp add: unregisterAlias_def registry_ok_def list_all_delete)

datatype registry_op =
    RegisterModel RawModelDef
  | UnregisterModel string
  | RegisterAlias string string
  | UnregisterAlias string

fun registry_apply :: "registry_op \<Rightarrow> ModelRegistry \<Rightarrow> ModelRegistry" where
  "registry_apply (RegisterModel m) r = snd (registerModel m r)"
| "registry_apply (UnregisterModel i) r = snd (unregisterModel i r)"
| "registry_apply (RegisterAlias a i) r = snd (registerAlias a i r)"
| "registry_apply (UnregisterAlias a) r = snd (unregisterAlias a r)"

interpretation registry_machine: invariant_system registry_apply registry_ok
proof
  fix r op assume "registry_ok r"
  then show "registry_ok (registry_apply op r)"
    by (cases op) (simp_all add: registry_ok_register registry_ok_unregister registry_ok_alias registry_ok_unalias)
qed

lemma registry_ok_new: "registry_ok (snd (newModelRegistry models aliases))"
proof -
  have "registry_ok (snd x) \<Longrightarrow> registry_ok (snd (fold (\<lambda>(alias, target) (res, r).
      case res of Inl e \<Rightarrow> (Inl e, r) | Inr _ \<Rightarrow> registerAlias alias target r) as x))" for as x
  proof (induction as arbitrary: x)
    case (Cons a as)
    obtain al t res r where "a = (al, t)" "x = (res, r)" by (cases a, cases x)
    with Cons registry_ok_alias [of r al t] show ?case by (cases res) auto
  qed simp
  then show ?thesis
    unfolding newModelRegistry_def Let_def by (simp add: registry_ok_registers registry_ok_empty)
qed

lemma live_override:
  assumes "registry_ok r" "map_of (rgModels r) (clean t) = Some m"
  shows "t \<noteq> []"
  using assms by (auto simp: registry_ok_def list_all_iff model_entry_ok_def dest!: map_of_SomeD)

section \<open>Properties\<close>

text \<open>
  Whatever models and aliases are registered and unregistered after its construction, the registry
  stays well formed: one entry per name, every model stored under the lower-cased, trimmed form of
  its own non-empty id with trimmed non-empty aliases, every override under a normalized alias.
\<close>

theorem registry_invariant:
  fixes models :: "RawModelDef list option" and aliases :: "(string \<times> string) list" and ops :: "registry_op list"
  defines "r \<equiv> fold registry_apply ops (snd (newModelRegistry models aliases))"
  shows "distinct (map fst (rgModels r)) \<and> distinct (map fst (rgAliases r)) \<and>
    list_all model_entry_ok (rgModels r) \<and> list_all alias_entry_ok (rgAliases r)"
  using registry_machine.inv_run [OF registry_ok_new, of ops models aliases]
  by (simp add: r_def registry_ok_def jsmap_ok_def)

text \<open>
  A registered model is found again under any spelling of its id (case and surrounding white
  space do not matter), exactly as normalized, and resolves to itself as long as it is active; all
  other ids resolve as before. Once it is unregistered no lookup by id finds it and no override
  points to it.
\<close>

theorem register_then_resolve:
  assumes "js_trim (rmId m) \<noteq> []" and "clean name = clean (rmId m)"
  shows "let r1 = snd (registerModel m r); n = normalizeModelDef m; r2 = snd (unregisterModel name r1) in
    fst (registerModel m r) = Inr () \<and> getModel r1 name = Some n \<and>
    resolveModel r1 name True = (if mdIsActive n then Some n else None) \<and>
    (clean other \<noteq> clean name \<longrightarrow> getModel r1 other = getModel r other) \<and>
    fst (unregisterModel name r1) \<and> getModel r2 name = None \<and>
    list_all (\<lambda>(_, target). clean target \<noteq> clean name) (rgAliases r2)"
proof -
  have "rmId m \<noteq> []" using assms(1) by auto
  moreover have "list_all P (filter P xs)" for P and xs :: "(string \<times> string) list"
    by (simp add: list_all_iff)
  ultimately show ?thesis
    using assms by (simp add: registerModel_def getModel_def resolveModel_def usable_def unregisterModel_def
        Let_def case_prod_beta)
qed

definition demo_model :: RawModelDef where
  "demo_model = catalog_entry '' Demo-1 '' ''acme'' [''quick''] 1000 100 10 20 5 True False False None None ''d''"

lemma demo_ids [simp]: "rmId demo_model = '' Demo-1 ''" "js_trim '' Demo-1 '' = ''Demo-1''"
  "clean '' Demo-1 '' = ''demo-1''" "clean ''DEMO-1'' = ''demo-1''"
  by (simp add: demo_model_def catalog_entry_def, code_simp+)

theorem register_then_resolve_witness:
  "getModel (snd (registerModel demo_model \<lparr>rgModels = [], rgAliases = []\<rparr>)) ''DEMO-1'' =
     Some (normalizeModelDef demo_model)"
  using register_then_resolve [of demo_model "''DEMO-1''" "\<lparr>rgModels = [], rgAliases = []\<rparr>"]
  by (simp add: Let_def)

text \<open>
  The two ways to resolve an alias agree: on a well-formed registry whose overrides all point to
  active models, the map \<open>getAliasMap\<close> builds from the models sorted by cost gives every alias the
  id that \<open>resolveAlias\<close> finds by its scan, and that is the override if there is one, else the id of
  a cheapest active model with the alias, else nothing.
\<close>

theorem alias_map_agrees:
  assumes "registry_ok r"
    and "list_all (\<lambda>(_, t). \<exists>m. map_of (rgModels r) (clean t) = Some m \<and> mdIsActive m) (rgAliases r)"
  shows "map_of (getAliasMap r True) (clean alias) = resolveAlias r alias \<and>
    (case map_of (rgAliases r) (clean alias) of
       Some t \<Rightarrow> resolveAlias r alias = Some t
     | None \<Rightarrow>
         let ms = filter (\<lambda>m. mdIsActive m \<and> aliased_to (clean alias) m) (map snd (rgModels r)) in
         if ms = [] then resolveAlias r alias = None
         else \<exists>m. m \<in> set ms \<and> resolveAlias r alias = Some (mdId m) \<and>
                list_all (\<lambda>m'. inputCostPerMTokMicro m \<le> inputCostPerMTokMicro m') ms)"
proof -
  let ?c = "clean alias" and ?ms = "map snd (rgModels r)"
  define Q where "Q = (\<lambda>m. mdIsActive m \<and> aliased_to ?c m)"
  define best where "best = by_cost.first_min (filter Q ?ms)"
  have live: "\<exists>m. map_of (rgModels r) (clean t) = Some m \<and> mdIsActive m \<and> t \<noteq> []"
    if "map_of (rgAliases r) a = Some t" for a t
    using assms(2) live_override [OF assms(1)] map_of_SomeD [OF that] by (fastforce simp: list_all_iff)
  have scan: "cheapest_match ?c ?ms None = best"
    by (simp add: cheapest_match_min best_def Q_def)
  have dist: "distinct (map fst (rgAliases r))"
    using assms(1) by (simp add: registry_ok_def jsmap_ok_def)
  have "map_of (fold add_aliases_of (js_sort compareByCost (filter mdIsActive ?ms)) []) ?c = map_option mdId best"
    by (simp add: map_of_implicit by_cost.first_min_find best_def Q_def conj_commute)
  then have "map_of (getAliasMap r True) ?c =
      (case map_of (rgAliases r) ?c of Some t \<Rightarrow> Some t | None \<Rightarrow> map_option mdId best)"
    using live by (fastforce simp: getAliasMap_def getAllModels_def map_of_overrides [OF dist] split: option.split)
  moreover have res: "resolveAlias r alias =
      (case map_of (rgAliases r) ?c of Some t \<Rightarrow> Some t | None \<Rightarrow> map_option mdId best)"
    using live by (fastforce simp: resolveAlias_def scan split: option.split)
  ultimately have agree: "map_of (getAliasMap r True) ?c = resolveAlias r alias" by simp
  have Q: "filter (\<lambda>m. mdIsActive m \<and> aliased_to ?c m) ?ms = filter Q ?ms" by (simp add: Q_def)
  show ?thesis
  proof (cases "map_of (rgAliases r) ?c")
    case (Some t)
    with agree res show ?thesis by simp
  next
    case None
    show ?thesis
    proof (cases best)
      case Nb: None
      then have "filter Q ?ms = []" by (simp only: best_def by_cost.first_min_None)
      with None Nb agree res show ?thesis unfolding Q by simp
    next
      case (Some m)
      then have m: "m \<in> set (filter Q ?ms) \<and> (\<forall>x\<in>set (filter Q ?ms). inputCostPerMTokMicro m \<le> inputCostPerMTokMicro x)"
        unfolding best_def by (rule by_cost.first_min_Some)
      then have "filter Q ?ms \<noteq> []" by (metis empty_iff list.set(1))
      moreover from m have "m \<in> set (filter Q ?ms) \<and> resolveAlias r alias = Some (mdId m) \<and>
          list_all (\<lambda>m'. inputCostPerMTokMicro m \<le> inputCostPerMTokMicro m') (filter Q ?ms)"
        using None Some res by (simp add: list_all_iff)
      ultimately show ?thesis unfolding Q using None agree by (simp add: Let_def) blast
    qed
  qed
qed

theorem alias_map_agrees_witness:
  "map_of (getAliasMap (snd (newModelRegistry (Some [demo_model]) [])) True) (clean ''quick'') =
     resolveAlias (snd (newModelRegistry (Some [demo_model]) [])) ''quick''"
proof -
  have "list_all P (rgAliases (snd (newModelRegistry (Some [demo_model]) [])))" for P
    by (simp add: newModelRegistry_def registerModel_def)
  then show ?thesis using alias_map_agrees [OF registry_ok_new] by blast
qed

lemma price_bounds:
  assumes "0 \<le> t" "0 \<le> c"
  shows "1000000 * price t c \<le> t * c" "t * c < 1000000 * price t c + 1000000" "0 \<le> price t c"
  using assms million_bounds [of "t * c"]
  by (simp_all add: price_def bigint_div_nonneg MICRODOLLAR_MULTIPLIER_def pos_imp_zdiv_nonneg_iff)

text \<open>
  The cost of a call is the exact price of its tokens, undercut by less than one microdollar for
  each of the three rates and never exceeded; reasoning tokens are billed with the completion. The
  itemized breakdown has the same total, and its items never add up to more than it and to at most
  one microdollar less.
\<close>

theorem registry_cost_exact:
  fixes m :: ModelDef and u :: TokenUsage
  defines "p \<equiv> max 0 (promptTokens u)" and "c \<equiv> max 0 (completionTokens u)"
    and "k \<equiv> max 0 (first_some (reasoningTokens u) 0)" and "h \<equiv> max 0 (first_some (cachedTokens u) 0)"
  defines "exact \<equiv> p * inputCostPerMTokMicro m + (c + k) * outputCostPerMTokMicro m + h * cacheReadCostPerMTokMicro m"
    and "b \<equiv> cost_breakdown m u"
  assumes "0 \<le> inputCostPerMTokMicro m" "0 \<le> outputCostPerMTokMicro m" "0 \<le> cacheReadCostPerMTokMicro m"
  shows "1000000 * calculateCostForModel m u \<le> exact \<and>
    exact < 1000000 * calculateCostForModel m u + 3000000 \<and>
    cbTotal b = calculateCostForModel m u \<and>
    cbPrompt b + cbCompletion b + cbReasoning b + cbCacheRead b \<le> cbTotal b \<and>
    cbTotal b \<le> cbPrompt b + cbCompletion b + cbReasoning b + cbCacheRead b + 1"
proof -
  define i out a where "i = inputCostPerMTokMicro m" and "out = outputCostPerMTokMicro m"
    and "a = cacheReadCostPerMTokMicro m"
  have pos: "0 \<le> p" "0 \<le> c" "0 \<le> k" "0 \<le> h" "0 \<le> i" "0 \<le> out" "0 \<le> a"
    using assms(7-9) by (simp_all add: p_def c_def k_def h_def i_def out_def a_def)
  have total: "calculateCostForModel m u = price p i + price (c + k) out + price h a"
    "cbTotal b = price p i + price (c + k) out + price h a"
    "cbPrompt b = price p i" "cbCompletion b = price c out" "cbReasoning b = price k out" "cbCacheRead b = price h a"
    by (simp_all add: calculateCostForModel_def cost_breakdown_def b_def Let_def p_def c_def k_def h_def
        i_def out_def a_def)
  have exact: "exact = p * i + (c + k) * out + h * a" by (simp add: exact_def i_def out_def a_def)
  have split: "(c + k) * out = c * out + k * out" by (rule distrib_right)
  note price = price_bounds [of p i] price_bounds [of "c + k" out] price_bounds [of h a]
    price_bounds [of c out] price_bounds [of k out]
  show ?thesis
    unfolding total exact using pos price split by simp
qed

theorem registry_cost_exact_witness:
  "1000000 * calculateCostForModel (normalizeModelDef demo_model)
      \<lparr>promptTokens = 5, completionTokens = 7, cachedTokens = None, reasoningTokens = Some 3\<rparr> \<le> 250"
  using registry_cost_exact [of "normalizeModelDef demo_model"
      "\<lparr>promptTokens = 5, completionTokens = 7, cachedTokens = None, reasoningTokens = Some 3\<rparr>"]
  by (simp add: normalizeModelDef_def demo_model_def catalog_entry_def toBigIntMicro_def)

end
