(* ===== verification/Cascade.thy ===== *)
theory Cascade
  imports Upstream RegistryProps
begin

text \<open>
  \<open>src/router/cascade/\<close>: from a request to the ordered candidate models (\<open>evaluator.ts\<close>), the walk
  over them with key acquisition and escalation (\<open>fallback.ts\<close>), and the router that joins them
  (\<open>router.ts\<close>). A request is the dynamic object the router receives. The key pool and the upstream
  client are injected: the walk takes them as an environment over a shared state. Callbacks, which
  only observe, are left out.
\<close>

section \<open>Candidates (evaluator.ts)\<close>

datatype routing_error =
    CandidateMismatch "string list" "string option"
  | NoAvailableProvider
  | UnknownModel string "string list"
  | CandidateContextExceeded string int int
  | FilterError filter_error

record CandidateResolutionContext =
  rcRegistry :: ModelRegistry
  rcSortBy :: "ModelSortStrategy option"
  rcFallbackModels :: "string list option"
  rcAllowMismatchEscalation :: bool

definition isGenericRoutingKeyword :: "string \<Rightarrow> bool" where
  "isGenericRoutingKeyword alias \<longleftrightarrow>
     clean alias \<in> {[], ''auto'', ''cheapest'', ''default'', ''cascade''}"

definition getCapabilityNames :: "CapabilityRequirements \<Rightarrow> string list" where
  "getCapabilityNames r =
     (if requiresTools r = Some True then [''tools''] else []) @
     (if requiresVision r = Some True then [''vision''] else []) @
     (if requiresJsonSchema r = Some True then [''json_schema''] else []) @
     (if positive (minContextLength r) then [''context_length''] else []) @
     (if positive (reqMaxOutputTokens r) then [''max_output_tokens''] else [])"

definition request_requirements :: "js \<Rightarrow> CapabilityRequirements" where
  "request_requirements req =
     extractRequirements req
       \<lparr>eoEstimatedPromptTokens = num_opt_of (js_get req ''estimatedPromptTokens''),
        eoDefaultMaxOutputTokens = None, eoProvider = None, eoMaxCost = None, eoOnlyActive = None\<rparr>"

text \<open>A model is appended once, however often it is named.\<close>

definition push_new :: "ModelDef \<Rightarrow> ModelDef list \<Rightarrow> ModelDef list" where
  "push_new m cs = (if mdId m \<in> mdId ` set cs then cs else cs @ [m])"

definition push_fallback ::
  "ModelRegistry \<Rightarrow> CapabilityRequirements \<Rightarrow> string \<Rightarrow> ModelDef list \<Rightarrow> ModelDef list" where
  "push_fallback reg r name cs =
     (case resolveModel reg name True of
        Some m \<Rightarrow> if isCapable m r then push_new m cs else cs
      | None \<Rightarrow> cs)"

definition requested_fallbacks :: "js \<Rightarrow> CandidateResolutionContext \<Rightarrow> string list" where
  "requested_fallbacks req ctx =
     (case js_get req ''fallbackModels'' of
        JArr xs \<Rightarrow> map str_of xs
      | _ \<Rightarrow> first_some (rcFallbackModels ctx) [])"

definition explicit_candidates ::
  "js \<Rightarrow> CandidateResolutionContext \<Rightarrow> CapabilityRequirements \<Rightarrow> ModelDef \<Rightarrow> routing_error + ModelDef list" where
  "explicit_candidates req ctx r target =
     (let missing = checkCapabilities target r;
          start = (if missing = [] then [target] else []);
          named = fold (push_fallback (rcRegistry ctx) r) (requested_fallbacks req ctx) start
      in if missing \<noteq> [] \<and> ''context_length'' \<in> set missing
         then Inl (CandidateContextExceeded (mdId target) (contextWindow target) (first_some (minContextLength r) 0))
         else if missing \<noteq> [] \<and> \<not> rcAllowMismatchEscalation ctx
         then Inl (CandidateMismatch missing (Some (mdId target)))
         else
           (case filterRegistry (Some (rcRegistry ctx)) r (Some (first_some (rcSortBy ctx) CostAsc)) of
              Inl e \<Rightarrow> Inl (FilterError e)
            | Inr rest \<Rightarrow>
                (let cs = fold push_new rest named
                 in if cs = [] then Inl (CandidateMismatch missing None) else Inr cs)))"

definition resolveCandidates :: "js \<Rightarrow> CandidateResolutionContext \<Rightarrow> routing_error + ModelDef list" where
  "resolveCandidates req ctx =
     (let alias = js_trim (str_of (js_get req ''modelAlias'')); r = request_requirements req in
      if isGenericRoutingKeyword alias then
        (case filterRegistry (Some (rcRegistry ctx)) r (Some (first_some (rcSortBy ctx) CostAsc)) of
           Inl e \<Rightarrow> Inl (FilterError e)
         | Inr cs \<Rightarrow>
             if cs \<noteq> [] then Inr cs
             else if getCapabilityNames r \<noteq> [] then Inl (CandidateMismatch (getCapabilityNames r) None)
             else Inl NoAvailableProvider)
      else
        (case resolveModel (rcRegistry ctx) alias True of
           None \<Rightarrow> Inl (UnknownModel alias (map mdId (getAllModels (rcRegistry ctx) True)))
         | Some target \<Rightarrow> explicit_candidates req ctx r target))"

definition selectPrimaryCandidate :: "ModelDef list \<Rightarrow> ModelDef option" where
  "selectPrimaryCandidate cs = (case cs of [] \<Rightarrow> None | m # _ \<Rightarrow> Some m)"

definition selectFallbackCandidates :: "ModelDef list \<Rightarrow> int \<Rightarrow> ModelDef list" where
  "selectFallbackCandidates cs maxFallbacks = js_slice cs 1 (1 + maxFallbacks)"

section \<open>The walk (fallback.ts)\<close>

datatype ('e, 'f) attempt_error = KeyAcquisitionFailed 'e | UpstreamFailed 'f

record ('e, 'f) FallbackAttempt =
  faProvider :: string
  faModelId :: string
  faError :: "('e, 'f) attempt_error"

datatype ('e, 'f) cascade_error =
    FallbackExhausted "('e, 'f) FallbackAttempt list"
  | RequestAborted
  | UpstreamAborted 'f

record ('e, 'f) CascadeRouteResponse =
  cvContent :: string
  cvCost :: int
  cvModel :: ModelDef
  cvAttempts :: "('e, 'f) FallbackAttempt list"
  cvUsage :: "StreamUsage option"
  cvResponse :: UpstreamResponse
  cvIsSelfKey :: bool

text \<open>
  \<open>FallbackExecutionContext\<close>, with what the walk reads of the abort signal and of an upstream error.
\<close>

record ('s, 'e, 'f) FallbackExecutionContext =
  fxRegistry :: ModelRegistry
  fxChat :: "UpstreamChatRequest \<Rightarrow> 's \<Rightarrow> ('f + UpstreamChatResponse) \<times> 's"
  fxKeyPool :: "('s, 'e) KeyPoolContract option"
  fxMaxFallbacks :: int
  fxDefaultMaxTokens :: "int option"
  fxDefaultTemperature :: js
  fxExtraBodyParams :: "(string \<times> js) list"
  fxCheckSelfKey :: "(string \<Rightarrow> string \<Rightarrow> 's \<Rightarrow> bool \<times> 's) option"
  fxAborted :: "'s \<Rightarrow> bool"
  fxIsAbortError :: "'f \<Rightarrow> bool"

definition js_truthy :: "js \<Rightarrow> bool" where
  "js_truthy v \<longleftrightarrow> (case v of JUndefined \<Rightarrow> False | JNull \<Rightarrow> False | JBool b \<Rightarrow> b | JNum n \<Rightarrow> n \<noteq> 0
     | JBigInt n \<Rightarrow> n \<noteq> 0 | JStr s \<Rightarrow> s \<noteq> [] | _ \<Rightarrow> True)"

definition js_fields :: "js \<Rightarrow> (string \<times> js) list" where
  "js_fields v = (case v of JObj kvs \<Rightarrow> kvs | _ \<Rightarrow> [])"

fun str_of_opt :: "js \<Rightarrow> string option" where
  "str_of_opt (JStr s) = Some s"
| "str_of_opt _ = None"

definition candidatesToTry ::
  "('s, 'e, 'f) FallbackExecutionContext \<Rightarrow> js \<Rightarrow> ModelDef list \<Rightarrow> ModelDef list" where
  "candidatesToTry fx req cs =
     js_slice cs 0 (1 + first_some (num_opt_of (js_get req ''maxFallbacks'')) (fxMaxFallbacks fx))"

definition acquire_key ::
  "('s, 'e, 'f) FallbackExecutionContext \<Rightarrow> js \<Rightarrow> ModelDef \<Rightarrow> 's \<Rightarrow>
   ('e + string option \<times> string option) \<times> 's" where
  "acquire_key fx req m s =
     (let apiKey = str_of_opt (js_get req ''apiKey'') in
      if truthy apiKey then (Inr (apiKey, None), s)
      else case fxKeyPool fx of
        None \<Rightarrow> (Inr (apiKey, None), s)
      | Some pool \<Rightarrow>
          (case poolGetKey pool (mdProvider m) s of
             (Inl e, s1) \<Rightarrow> (Inl e, s1)
           | (Inr k, s1) \<Rightarrow> (Inr (Some k, Some k), s1)))"

definition chat_request ::
  "('s, 'e, 'f) FallbackExecutionContext \<Rightarrow> js \<Rightarrow> ModelDef \<Rightarrow> string option \<Rightarrow> string option \<Rightarrow>
   UpstreamChatRequest" where
  "chat_request fx req m apiKey keyId =
     (let num = (\<lambda>f. num_opt_of (js_get req f));
          opt = (\<lambda>f. if js_truthy (js_get req f) then [(f, js_get req f)] else [])
      in \<lparr>ccProvider = mdProvider m, ccModel = mdId m, ccMessages = js_get req ''messages'',
          ccTemperature = (if js_get req ''temperature'' \<in> {JUndefined, JNull} then fxDefaultTemperature fx
                           else js_get req ''temperature''),
          ccMaxTokens = first_opt (num ''maxTokens'')
            (first_opt (num ''max_tokens'') (first_opt (num ''max_completion_tokens'') (fxDefaultMaxTokens fx))),
          ccStream = (js_get req ''stream'' = JBool True), ccApiKey = apiKey, ccKeyId = keyId,
          ccHeaders = map (\<lambda>(k, v). (k, str_of v)) (js_fields (js_get req ''headers'')),
          ccExtra = fxExtraBodyParams fx @ js_fields (js_get req ''extraBodyParams'') @ opt ''tools'' @
            opt ''functions'' @ opt ''tool_choice'' @ opt ''function_call'' @ opt ''response_format''\<rparr>)"

definition settled_cost ::
  "('s, 'e, 'f) FallbackExecutionContext \<Rightarrow> ModelDef \<Rightarrow> UpstreamChatResponse \<Rightarrow> int" where
  "settled_cost fx m res =
     (case crUsage res of
        Some u \<Rightarrow>
          if crCost res = 0
          then (case calculateCost (fxRegistry fx) (mdId m) (usage_of_stream u) of Inr c \<Rightarrow> c | Inl _ \<Rightarrow> 0)
          else crCost res
      | None \<Rightarrow> crCost res)"

definition record_success ::
  "('s, 'e, 'f) FallbackExecutionContext \<Rightarrow> string option \<Rightarrow> bool \<Rightarrow> int \<Rightarrow> 's \<Rightarrow> 's" where
  "record_success fx keyId selfKey cost s =
     (case fxKeyPool fx of
        Some pool \<Rightarrow>
          if truthy keyId then
            (let k = first_some keyId [];
                 s1 = (case poolRecordDispatch pool of Some f \<Rightarrow> f k (\<not> selfKey) s | None \<Rightarrow> s);
                 s2 = poolRecordResult pool k True s1
             in if cost > 0 then poolRecordUsage pool k cost s2 else s2)
          else s
      | None \<Rightarrow> s)"

definition record_failure ::
  "('s, 'e, 'f) FallbackExecutionContext \<Rightarrow> string option \<Rightarrow> 's \<Rightarrow> 's" where
  "record_failure fx keyId s =
     (case fxKeyPool fx of
        Some pool \<Rightarrow> if truthy keyId then poolRecordResult pool (first_some keyId []) False s else s
      | None \<Rightarrow> s)"

definition failed_attempt :: "ModelDef \<Rightarrow> ('e, 'f) attempt_error \<Rightarrow> ('e, 'f) FallbackAttempt" where
  "failed_attempt m e = \<lparr>faProvider = mdProvider m, faModelId = mdId m, faError = e\<rparr>"

fun cascade_loop ::
  "('s, 'e, 'f) FallbackExecutionContext \<Rightarrow> js \<Rightarrow> bool \<Rightarrow> ModelDef list \<Rightarrow> ('e, 'f) FallbackAttempt list \<Rightarrow>
   's \<Rightarrow> (('e, 'f) cascade_error + ('e, 'f) CascadeRouteResponse) \<times> 's" where
  "cascade_loop fx req selfKey [] attempts s = (Inl (FallbackExhausted attempts), s)"
| "cascade_loop fx req selfKey (m # ms) attempts s =
     (if fxAborted fx s then (Inl RequestAborted, s)
      else case acquire_key fx req m s of
        (Inl e, s1) \<Rightarrow>
          cascade_loop fx req selfKey ms (attempts @ [failed_attempt m (KeyAcquisitionFailed e)]) s1
      | (Inr (apiKey, keyId), s1) \<Rightarrow>
          (case fxChat fx (chat_request fx req m apiKey keyId) s1 of
             (Inr res, s2) \<Rightarrow>
               (let cost = settled_cost fx m res
                in (Inr \<lparr>cvContent = crContent res, cvCost = cost, cvModel = m, cvAttempts = attempts,
                         cvUsage = crUsage res, cvResponse = crResponse res, cvIsSelfKey = selfKey\<rparr>,
                    record_success fx keyId selfKey cost s2))
           | (Inl f, s2) \<Rightarrow>
               if fxIsAbortError fx f \<or> fxAborted fx s2 then (Inl (UpstreamAborted f), s2)
               else cascade_loop fx req selfKey ms (attempts @ [failed_attempt m (UpstreamFailed f)])
                      (record_failure fx keyId s2)))"

definition executeCascadeRouting ::
  "('s, 'e, 'f) FallbackExecutionContext \<Rightarrow> js \<Rightarrow> ModelDef list \<Rightarrow> 's \<Rightarrow>
   (('e, 'f) cascade_error + ('e, 'f) CascadeRouteResponse) \<times> 's" where
  "executeCascadeRouting fx req candidates s =
     (let tried = candidatesToTry fx req candidates;
          tenant = str_of (js_get req ''tenantId'');
          (selfKey, s1) =
            (case (tried, fxCheckSelfKey fx) of
               (m # _, Some check) \<Rightarrow> if tenant \<noteq> [] then check (mdProvider m) tenant s else (False, s)
             | _ \<Rightarrow> (False, s))
      in cascade_loop fx req selfKey tried [] s1)"

section \<open>The router (router.ts)\<close>

record ('s, 'e, 'f) CascadeRouter =
  crRegistry :: ModelRegistry
  crKeyPool :: "('s, 'e) KeyPoolContract option"
  crChat :: "UpstreamChatRequest \<Rightarrow> 's \<Rightarrow> ('f + UpstreamChatResponse) \<times> 's"
  crMaxFallbacks :: int
  crSortBy :: "ModelSortStrategy option"
  crFallbackModels :: "string list option"
  crAllowMismatchEscalation :: bool
  crDefaultMaxTokens :: "int option"
  crDefaultTemperature :: js
  crExtraBodyParams :: "(string \<times> js) list"

text \<open>Without an injected client, the router builds one on the same key pool.\<close>

definition registry_cost_calculator :: "ModelRegistry \<Rightarrow> string \<Rightarrow> TokenUsage \<Rightarrow> int option" where
  "registry_cost_calculator reg model u = Some (case calculateCost reg model u of Inr c \<Rightarrow> c | Inl _ \<Rightarrow> 0)"

definition default_client :: "ModelRegistry \<Rightarrow> ('s, 'e) KeyPoolContract option \<Rightarrow>
   (HttpRequest \<Rightarrow> 's \<Rightarrow> fetch_outcome \<times> 's) \<Rightarrow> (string \<Rightarrow> js option) \<Rightarrow> (string \<Rightarrow> timestamp option) \<Rightarrow>
   ('s, 'e) UpstreamClient" where
  "default_client reg pool fetch parseJson parseDate =
     \<lparr>ucPool = pool, ucFetch = fetch, ucKeyResolver = None,
      ucCostCalculator = Some (registry_cost_calculator reg), ucBaseUrls = DEFAULT_PROVIDER_BASE_URLS,
      ucDefaultHeaders = [], ucTimeoutMs = DEFAULT_UPSTREAM_TIMEOUT_MS, ucParseJson = parseJson,
      ucParseDate = parseDate\<rparr>"

definition newCascadeRouter ::
  "ModelRegistry \<Rightarrow> ('s, 'e) KeyPoolContract option \<Rightarrow>
   (UpstreamChatRequest \<Rightarrow> 's \<Rightarrow> ('f + UpstreamChatResponse) \<times> 's) \<Rightarrow> int option \<Rightarrow>
   ('s, 'e, 'f) CascadeRouter" where
  "newCascadeRouter reg pool chatFn maxFallbacks =
     \<lparr>crRegistry = reg, crKeyPool = pool, crChat = chatFn, crMaxFallbacks = first_some maxFallbacks 5,
      crSortBy = None, crFallbackModels = None, crAllowMismatchEscalation = False,
      crDefaultMaxTokens = None, crDefaultTemperature = JUndefined, crExtraBodyParams = []\<rparr>"

text \<open>A key is drawn, which the pool's round robin notices, and forgotten.\<close>

definition checkSelfKeyAvailable ::
  "('s, 'e) KeyPoolContract option \<Rightarrow> string \<Rightarrow> string \<Rightarrow> 's \<Rightarrow> bool \<times> 's" where
  "checkSelfKeyAvailable pool prov tenantId s =
     (case pool of
        None \<Rightarrow> (False, s)
      | Some p \<Rightarrow> (case poolGetKey p prov s of (Inl _, s1) \<Rightarrow> (False, s1) | (Inr _, s1) \<Rightarrow> (True, s1)))"

definition getCandidates :: "('s, 'e, 'f) CascadeRouter \<Rightarrow> js \<Rightarrow> routing_error + ModelDef list" where
  "getCandidates cr req =
     resolveCandidates req
       \<lparr>rcRegistry = crRegistry cr, rcSortBy = crSortBy cr, rcFallbackModels = crFallbackModels cr,
        rcAllowMismatchEscalation = crAllowMismatchEscalation cr\<rparr>"

definition selectPrimaryModel :: "('s, 'e, 'f) CascadeRouter \<Rightarrow> js \<Rightarrow> routing_error + ModelDef option" where
  "selectPrimaryModel cr req = map_sum id selectPrimaryCandidate (getCandidates cr req)"

definition getFallbackCandidates :: "('s, 'e, 'f) CascadeRouter \<Rightarrow> js \<Rightarrow> routing_error + ModelDef list" where
  "getFallbackCandidates cr req =
     map_sum id (\<lambda>cs. selectFallbackCandidates cs
       (first_some (num_opt_of (js_get req ''maxFallbacks'')) (crMaxFallbacks cr))) (getCandidates cr req)"

definition route_context ::
  "('s, 'e, 'f) CascadeRouter \<Rightarrow> ('s \<Rightarrow> bool) \<Rightarrow> ('f \<Rightarrow> bool) \<Rightarrow> ('s, 'e, 'f) FallbackExecutionContext" where
  "route_context cr aborted isAbort =
     \<lparr>fxRegistry = crRegistry cr, fxChat = crChat cr, fxKeyPool = crKeyPool cr,
      fxMaxFallbacks = crMaxFallbacks cr, fxDefaultMaxTokens = crDefaultMaxTokens cr,
      fxDefaultTemperature = crDefaultTemperature cr, fxExtraBodyParams = crExtraBodyParams cr,
      fxCheckSelfKey = Some (checkSelfKeyAvailable (crKeyPool cr)), fxAborted = aborted,
      fxIsAbortError = isAbort\<rparr>"

datatype ('e, 'f) route_error = NotRouted routing_error | RouteFailed "('e, 'f) cascade_error"

definition route ::
  "('s, 'e, 'f) CascadeRouter \<Rightarrow> ('s \<Rightarrow> bool) \<Rightarrow> ('f \<Rightarrow> bool) \<Rightarrow> js \<Rightarrow> 's \<Rightarrow>
   (('e, 'f) route_error + ('e, 'f) CascadeRouteResponse) \<times> 's" where
  "route cr aborted isAbort req s =
     (case getCandidates cr req of
        Inl e \<Rightarrow> (Inl (NotRouted e), s)
      | Inr cs \<Rightarrow>
          (let (r, s1) = executeCascadeRouting (route_context cr aborted isAbort) req cs s
           in (map_sum RouteFailed id r, s1)))"

end
