(* ===== verification/CascadeProps.thy ===== *)
theory CascadeProps
  imports Cascade KeyPoolSafety
begin

text \<open>
  Properties of the routing cascade: which candidates a request gets, what the walk over them
  returns, when it succeeds, and what it does to the key pool behind it.
\<close>

section \<open>Lemmas: candidates\<close>

lemma localeCompare_le: "localeCompare a b \<le> 0 \<longleftrightarrow> collation_key a \<le> collation_key b"
  by (cases "collation_key a" "collation_key b" rule: linorder_cases) (auto simp: localeCompare_def)

interpretation by_cost_asc: comparison cost_asc
  "\<lambda>m. (inputCostPerMTokMicro m, outputCostPerMTokMicro m, - contextWindow m, collation_key (mdId m))"
  by unfold_locales (auto simp: cost_asc_def localeCompare_le)

interpretation by_context: comparison context_desc
  "\<lambda>m. (- contextWindow m, inputCostPerMTokMicro m, collation_key (mdId m))"
  by unfold_locales (auto simp: context_desc_def localeCompare_le)

definition capable_models :: "ModelRegistry \<Rightarrow> CapabilityRequirements \<Rightarrow> ModelDef list" where
  "capable_models reg r = filter (\<lambda>m. isCapable m r) (map snd (rgModels reg))"

lemma capable_active: "isCapable m r \<Longrightarrow> first_some (onlyActive r) True \<Longrightarrow> mdIsActive m"
  by (simp add: isCapable_def checkCapabilities_def split: if_splits)

lemma set_sortCandidates [simp]: "set (sortCandidates ms st) = set ms"
  by (cases st) (simp_all add: sortCandidates_def)

lemma sortCandidates_Nil [simp]: "sortCandidates ms st = [] \<longleftrightarrow> ms = []"
  by (metis set_empty set_sortCandidates)

lemma distinct_sortCandidates [simp]: "distinct (map f (sortCandidates ms st)) \<longleftrightarrow> distinct (map f ms)"
  by (cases st) (simp_all add: sortCandidates_def)

lemma filterRegistry_eq:
  "filterRegistry (Some reg) r (Some st) = Inr (sortCandidates (capable_models reg r) st)"
proof -
  have "filter (\<lambda>m. isCapable m r) (getAllModels reg (first_some (onlyActive r) True)) = capable_models reg r"
    by (auto simp: capable_models_def getAllModels_def Let_def intro: filter_cong dest: capable_active)
  then show ?thesis by (simp add: filterRegistry_def filterCandidates_def Let_def)
qed

lemma distinct_ids: "registry_ok reg \<Longrightarrow> distinct (map mdId (map snd (rgModels reg)))"
proof -
  assume ok: "registry_ok reg"
  then have "map clean (map mdId (map snd (rgModels reg))) = map fst (rgModels reg)"
    by (auto simp: registry_ok_def list_all_iff model_entry_ok_def)
  moreover have "distinct (map fst (rgModels reg))" using ok by (simp add: registry_ok_def jsmap_ok_def)
  ultimately have "distinct (map clean (map mdId (map snd (rgModels reg))))" by (simp only:)
  then show ?thesis by (rule distinct_map [THEN iffD1, THEN conjunct1])
qed

lemma distinct_capable: "registry_ok reg \<Longrightarrow> distinct (map mdId (capable_models reg r))"
  using distinct_ids [of reg] unfolding capable_models_def by (rule distinct_map_filter)

lemma resolveModel_in: "resolveModel reg name True = Some m \<Longrightarrow> m \<in> set (map snd (rgModels reg))"
  by (auto simp: resolveModel_def usable_def Let_def split: option.splits if_splits
      intro: rev_image_eqI dest!: map_of_SomeD)

text \<open>Lists built by appending what is not yet there.\<close>

definition collects :: "ModelDef set \<Rightarrow> ModelDef list \<Rightarrow> bool" where
  "collects M cs \<longleftrightarrow> distinct (map mdId cs) \<and> set cs \<subseteq> M"

lemma collects_push: "collects M cs \<Longrightarrow> m \<in> M \<Longrightarrow> collects M (push_new m cs)"
  by (auto simp: collects_def push_new_def)

lemma collects_fallbacks:
  "collects (set (capable_models reg r)) cs \<Longrightarrow>
   collects (set (capable_models reg r)) (fold (push_fallback reg r) names cs)"
proof (induction names arbitrary: cs)
  case (Cons n names)
  have "m \<in> set (capable_models reg r)" if "resolveModel reg n True = Some m" "isCapable m r" for m
    using that by (auto simp: capable_models_def dest!: resolveModel_in)
  with Cons show ?case by (auto simp: push_fallback_def collects_push split: option.split)
qed simp

lemma collects_fold: "collects M cs \<Longrightarrow> set ms \<subseteq> M \<Longrightarrow> collects M (fold push_new ms cs)"
  by (induction ms arbitrary: cs) (auto simp: collects_push)

lemma fold_keeps: "(\<And>x cs. \<exists>ds. f x cs = cs @ ds) \<Longrightarrow> \<exists>ds. fold f xs cs = cs @ ds"
proof (induction xs arbitrary: cs)
  case (Cons x xs)
  obtain ds where ds: "f x cs = cs @ ds" using Cons.prems by blast
  obtain es where "fold f xs (cs @ ds) = (cs @ ds) @ es" using Cons.IH [OF Cons.prems] by blast
  with ds show ?case by simp
qed simp

lemma push_keeps: "\<exists>ds. push_new m cs = cs @ ds"
  by (simp add: push_new_def)

lemma fallback_keeps: "\<exists>ds. push_fallback reg r n cs = cs @ ds"
  by (simp add: push_fallback_def push_new_def split: option.split)

lemma fold_push_ids: "mdId ` set (fold push_new ms cs) = mdId ` (set cs \<union> set ms)"
proof (induction ms arbitrary: cs)
  case (Cons m ms)
  have "mdId ` set (push_new m cs) = mdId ` (insert m (set cs))" by (auto simp: push_new_def)
  with Cons show ?case by (simp add: image_Un)
qed simp

lemma collects_all:
  assumes "registry_ok reg" "collects (set (capable_models reg r)) cs" "set ms = set (capable_models reg r)"
  shows "set (fold push_new ms cs) = set (capable_models reg r)"
proof -
  let ?M = "set (capable_models reg r)"
  have "collects ?M (fold push_new ms cs)" using assms(2,3) by (intro collects_fold) simp_all
  then have sub: "set (fold push_new ms cs) \<subseteq> ?M" by (simp add: collects_def)
  have ids: "mdId ` set (fold push_new ms cs) = mdId ` ?M"
    using assms(2,3) by (auto simp: fold_push_ids collects_def)
  have "inj_on mdId ?M" using distinct_capable [OF assms(1)] by (simp add: distinct_map)
  then show ?thesis using sub ids inj_on_image_eq_iff by blast
qed

text \<open>The candidates of an explicit request, once the guards are passed.\<close>

lemma explicit_shape:
  fixes r :: CapabilityRequirements and names :: "string list" and st :: ModelSortStrategy
  assumes "registry_ok (rcRegistry ctx)" "resolveModel (rcRegistry ctx) alias True = Some target"
  defines "M \<equiv> capable_models (rcRegistry ctx) r"
  defines "cs \<equiv> fold push_new (sortCandidates M st)
      (fold (push_fallback (rcRegistry ctx) r) names (if isCapable target r then [target] else []))"
  shows "distinct (map mdId cs) \<and> set cs = set M \<and> (isCapable target r \<longrightarrow> cs \<noteq> [] \<and> hd cs = target)"
proof -
  let ?start = "if isCapable target r then [target] else []"
  have "target \<in> set M" if "isCapable target r"
    using that assms(2) by (auto simp: M_def capable_models_def dest!: resolveModel_in)
  then have named: "collects (set M) (fold (push_fallback (rcRegistry ctx) r) names ?start)"
    unfolding M_def by (intro collects_fallbacks) (simp add: collects_def)
  have 1: "distinct (map mdId cs)"
    using collects_fold [OF named, of "sortCandidates M st"] by (simp add: cs_def collects_def)
  have 2: "set cs = set M"
    unfolding cs_def M_def by (rule collects_all [OF assms(1)]) (use named in \<open>simp_all add: M_def\<close>)
  obtain ds es where "fold (push_fallback (rcRegistry ctx) r) names ?start = ?start @ ds"
    "cs = (?start @ ds) @ es"
    unfolding cs_def
    using fold_keeps [of "push_fallback (rcRegistry ctx) r", OF fallback_keeps] fold_keeps [of push_new, OF push_keeps]
    by metis
  then have "isCapable target r \<longrightarrow> cs \<noteq> [] \<and> hd cs = target" by simp
  with 1 2 show ?thesis by blast
qed

abbreviation request_alias :: "js \<Rightarrow> string" where
  "request_alias req \<equiv> js_trim (str_of (js_get req ''modelAlias''))"

abbreviation offered :: "js \<Rightarrow> CandidateResolutionContext \<Rightarrow> ModelDef list" where
  "offered req ctx \<equiv> capable_models (rcRegistry ctx) (request_requirements req)"

lemma generic_candidates:
  "isGenericRoutingKeyword (request_alias req) \<Longrightarrow>
   resolveCandidates req ctx =
     (if offered req ctx \<noteq> [] then Inr (sortCandidates (offered req ctx) (first_some (rcSortBy ctx) CostAsc))
      else if getCapabilityNames (request_requirements req) \<noteq> []
      then Inl (CandidateMismatch (getCapabilityNames (request_requirements req)) None)
      else Inl NoAvailableProvider)"
  by (simp add: resolveCandidates_def Let_def filterRegistry_eq)

lemma explicit_candidates_eq:
  fixes req :: js
  defines "r \<equiv> request_requirements req"
  assumes ok: "registry_ok (rcRegistry ctx)" and explicit: "\<not> isGenericRoutingKeyword (request_alias req)"
    and target: "resolveModel (rcRegistry ctx) (request_alias req) True = Some t"
  obtains cs where "distinct (map mdId cs)" "set cs = set (offered req ctx)"
    "isCapable t r \<longrightarrow> cs \<noteq> [] \<and> hd cs = t"
    "resolveCandidates req ctx =
        (if \<not> isCapable t r \<and> ''context_length'' \<in> set (checkCapabilities t r)
         then Inl (CandidateContextExceeded (mdId t) (contextWindow t) (first_some (minContextLength r) 0))
         else if \<not> isCapable t r \<and> \<not> rcAllowMismatchEscalation ctx
         then Inl (CandidateMismatch (checkCapabilities t r) (Some (mdId t)))
         else if cs = [] then Inl (CandidateMismatch (checkCapabilities t r) None) else Inr cs)"
proof -
  define cs where "cs = fold push_new (sortCandidates (offered req ctx) (first_some (rcSortBy ctx) CostAsc))
      (fold (push_fallback (rcRegistry ctx) r) (requested_fallbacks req ctx) (if isCapable t r then [t] else []))"
  have "distinct (map mdId cs) \<and> set cs = set (offered req ctx) \<and> (isCapable t r \<longrightarrow> cs \<noteq> [] \<and> hd cs = t)"
    using explicit_shape [OF ok target, of r] by (simp add: cs_def r_def)
  then show thesis
    using explicit target
    by (intro that [of cs]) (simp_all add: resolveCandidates_def explicit_candidates_def Let_def
        filterRegistry_eq cs_def r_def isCapable_def)
qed

lemma candidates_set:
  assumes "registry_ok (rcRegistry ctx)" "resolveCandidates req ctx = Inr cs"
  shows "set cs = set (offered req ctx)"
proof (cases "isGenericRoutingKeyword (request_alias req)")
  case True
  with assms(2) show ?thesis by (auto simp: generic_candidates split: if_splits)
next
  case False
  then obtain t where t: "resolveModel (rcRegistry ctx) (request_alias req) True = Some t"
    using assms(2) by (cases "resolveModel (rcRegistry ctx) (request_alias req) True")
      (auto simp: resolveCandidates_def Let_def)
  show ?thesis
    by (rule explicit_candidates_eq [OF assms(1) False t]) (use assms(2) in \<open>auto split: if_splits\<close>)
qed

section \<open>Properties: candidates\<close>

text \<open>
  C18. A request gets candidates exactly when some model can serve it: a generic request when any
  model of the registry is capable, a request for a model when that model exists and is capable (or,
  with escalation allowed, misses anything but context length while some model is capable). The
  candidates are then exactly the capable models, each once; the requested model comes first, and for
  a generic request with the default order a cheapest one.
\<close>

theorem candidates_exact:
  fixes req :: js and ctx :: CandidateResolutionContext
  defines "alias \<equiv> js_trim (str_of (js_get req ''modelAlias''))" and "r \<equiv> request_requirements req"
  defines "M \<equiv> capable_models (rcRegistry ctx) r"
    and "target \<equiv> resolveModel (rcRegistry ctx) alias True"
  assumes ok: "registry_ok (rcRegistry ctx)"
  shows "case resolveCandidates req ctx of
      Inr cs \<Rightarrow>
        cs \<noteq> [] \<and> distinct (map mdId cs) \<and> set cs = set M \<and>
        (if isGenericRoutingKeyword alias
         then rcSortBy ctx = None \<longrightarrow> (\<forall>m\<in>set cs. inputCostPerMTokMicro (hd cs) \<le> inputCostPerMTokMicro m)
         else \<exists>t. target = Some t \<and> (if isCapable t r then hd cs = t else rcAllowMismatchEscalation ctx))
    | Inl e \<Rightarrow>
        if isGenericRoutingKeyword alias
        then M = [] \<and> e = (if getCapabilityNames r = [] then NoAvailableProvider
                         else CandidateMismatch (getCapabilityNames r) None)
        else case target of
          None \<Rightarrow> e = UnknownModel alias (map mdId (getAllModels (rcRegistry ctx) True))
        | Some t \<Rightarrow>
            \<not> isCapable t r \<and>
            (if ''context_length'' \<in> set (checkCapabilities t r)
             then e = CandidateContextExceeded (mdId t) (contextWindow t) (first_some (minContextLength r) 0)
             else (\<exists>who. e = CandidateMismatch (checkCapabilities t r) who) \<and>
               (rcAllowMismatchEscalation ctx \<longrightarrow> M = []))"
proof (cases "isGenericRoutingKeyword alias")
  case True
  let ?cs = "sortCandidates M (first_some (rcSortBy ctx) CostAsc)"
  have "\<forall>m\<in>set M. inputCostPerMTokMicro (hd (js_sort cost_asc M)) \<le> inputCostPerMTokMicro m"
    using by_cost_asc.hd_sort_min [of _ M] by fastforce
  then have "rcSortBy ctx = None \<longrightarrow> (\<forall>m\<in>set ?cs. inputCostPerMTokMicro (hd ?cs) \<le> inputCostPerMTokMicro m)"
    by (simp add: sortCandidates_def)
  then show ?thesis
    using True distinct_capable [OF ok, of r] generic_candidates [of req ctx]
    by (auto simp: alias_def r_def M_def)
next
  case explicit: False
  show ?thesis
  proof (cases target)
    case None
    with explicit show ?thesis
      by (simp add: resolveCandidates_def Let_def alias_def r_def target_def)
  next
    case (Some t)
    obtain cs where cs: "distinct (map mdId cs)" "set cs = set M" "isCapable t r \<longrightarrow> cs \<noteq> [] \<and> hd cs = t"
      "resolveCandidates req ctx =
        (if \<not> isCapable t r \<and> ''context_length'' \<in> set (checkCapabilities t r)
         then Inl (CandidateContextExceeded (mdId t) (contextWindow t) (first_some (minContextLength r) 0))
         else if \<not> isCapable t r \<and> \<not> rcAllowMismatchEscalation ctx
         then Inl (CandidateMismatch (checkCapabilities t r) (Some (mdId t)))
         else if cs = [] then Inl (CandidateMismatch (checkCapabilities t r) None) else Inr cs)"
      using explicit_candidates_eq [OF ok explicit [unfolded alias_def] Some [unfolded target_def alias_def]]
      unfolding M_def r_def by blast
    with explicit Some show ?thesis by (cases "isCapable t r") auto
  qed
qed

text \<open>Two catalog entries and a request for one of them.\<close>

definition demo_context :: CandidateResolutionContext where
  "demo_context = \<lparr>rcRegistry = snd (newModelRegistry (Some [demo_model]) []), rcSortBy = None,
     rcFallbackModels = None, rcAllowMismatchEscalation = False\<rparr>"

lemma demo_resolved:
  "isGenericRoutingKeyword (js_trim ''demo-1'') = False"
  "resolveModel (rcRegistry demo_context) (js_trim ''demo-1'') True = Some (normalizeModelDef demo_model)"
  "isCapable (normalizeModelDef demo_model) (request_requirements (JObj [(''modelAlias'', JStr ''demo-1'')]))"
  by code_simp+

theorem candidates_exact_witness:
  "\<exists>cs. resolveCandidates (JObj [(''modelAlias'', JStr ''demo-1'')]) demo_context = Inr cs \<and>
     hd cs = normalizeModelDef demo_model"
proof -
  have "registry_ok (rcRegistry demo_context)" by (simp add: demo_context_def registry_ok_new)
  from candidates_exact [OF this, of "JObj [(''modelAlias'', JStr ''demo-1'')]"] demo_resolved
  show ?thesis
    by (cases "resolveCandidates (JObj [(''modelAlias'', JStr ''demo-1'')]) demo_context") simp_all
qed

section \<open>Lemmas: the walk\<close>

text \<open>
  A try of a model that fails: no key could be drawn for it, or the upstream answered with a failure that
  is not an abort. A walk of failures is one such try after the other, each in the state the one before left.
\<close>

inductive fails ::
  "('s, 'e, 'f) FallbackExecutionContext \<Rightarrow> js \<Rightarrow> ModelDef \<Rightarrow> 's \<Rightarrow> ('e, 'f) FallbackAttempt \<Rightarrow> 's \<Rightarrow> bool"
  for fx :: "('s, 'e, 'f) FallbackExecutionContext" and req :: js where
  no_key: "\<not> fxAborted fx s \<Longrightarrow> acquire_key fx req m s = (Inl e, s1) \<Longrightarrow>
    fails fx req m s \<lparr>faProvider = mdProvider m, faModelId = mdId m, faError = KeyAcquisitionFailed e\<rparr> s1"
| no_answer: "\<not> fxAborted fx s \<Longrightarrow> acquire_key fx req m s = (Inr (k, i), s1) \<Longrightarrow>
    fxChat fx (chat_request fx req m k i) s1 = (Inl f, s2) \<Longrightarrow> \<not> fxIsAbortError fx f \<Longrightarrow> \<not> fxAborted fx s2 \<Longrightarrow>
    fails fx req m s \<lparr>faProvider = mdProvider m, faModelId = mdId m, faError = UpstreamFailed f\<rparr> (record_failure fx i s2)"

inductive failed_walk ::
  "('s, 'e, 'f) FallbackExecutionContext \<Rightarrow> js \<Rightarrow> ModelDef list \<Rightarrow> 's \<Rightarrow> ('e, 'f) FallbackAttempt list \<Rightarrow> 's \<Rightarrow> bool"
  for fx :: "('s, 'e, 'f) FallbackExecutionContext" and req :: js where
  none: "failed_walk fx req [] s [] s"
| more: "fails fx req m s a s1 \<Longrightarrow> failed_walk fx req ms s1 as s2 \<Longrightarrow> failed_walk fx req (m # ms) s (a # as) s2"

text \<open>A try that succeeds, with what the route makes of the answer.\<close>

definition answers ::
  "('s, 'e, 'f) FallbackExecutionContext \<Rightarrow> js \<Rightarrow> ('e, 'f) CascadeRouteResponse \<Rightarrow> 's \<Rightarrow> 's \<Rightarrow> bool" where
  "answers fx req res s s' \<longleftrightarrow>
     \<not> fxAborted fx s \<and>
     (\<exists>k i s1 out s2. acquire_key fx req (cvModel res) s = (Inr (k, i), s1) \<and>
        fxChat fx (chat_request fx req (cvModel res) k i) s1 = (Inr out, s2) \<and>
        cvContent res = crContent out \<and> cvUsage res = crUsage out \<and> cvResponse res = crResponse out \<and>
        cvCost res = settled_cost fx (cvModel res) out \<and> s' = record_success fx i (cvIsSelfKey res) (cvCost res) s2)"

definition walked ::
  "('s, 'e, 'f) FallbackExecutionContext \<Rightarrow> js \<Rightarrow> ModelDef list \<Rightarrow> ('e, 'f) FallbackAttempt list \<Rightarrow> 's \<Rightarrow>
   (('e, 'f) cascade_error + ('e, 'f) CascadeRouteResponse) \<times> 's \<Rightarrow> bool" where
  "walked fx req ms attempts s = (\<lambda>(r, s').
     (case r of
        Inr res \<Rightarrow> \<exists>us vs as s1. ms = us @ cvModel res # vs \<and> cvAttempts res = attempts @ as \<and>
          failed_walk fx req us s as s1 \<and> answers fx req res s1 s'
      | Inl (FallbackExhausted bs) \<Rightarrow> \<exists>as. bs = attempts @ as \<and> failed_walk fx req ms s as s'
      | Inl RequestAborted \<Rightarrow> fxAborted fx s'
      | Inl (UpstreamAborted f) \<Rightarrow> fxIsAbortError fx f \<or> fxAborted fx s'))"

lemma walked_step:
  assumes "fails fx req m s a s1" "walked fx req ms (attempts @ [a]) s1 z"
  shows "walked fx req (m # ms) attempts s z"
proof -
  obtain r s' where z: "z = (r, s')" by (cases z)
  show ?thesis
  proof (cases r)
    case (Inr res)
    with assms(2) z obtain us vs as s2 where w: "ms = us @ cvModel res # vs" "cvAttempts res = (attempts @ [a]) @ as"
      "failed_walk fx req us s1 as s2" "answers fx req res s2 s'"
      by (auto simp: walked_def)
    have "failed_walk fx req (m # us) s (a # as) s2" by (rule more [OF assms(1) w(3)])
    moreover have "m # ms = (m # us) @ cvModel res # vs" "cvAttempts res = attempts @ (a # as)" using w(1, 2) by simp_all
    ultimately show ?thesis unfolding z Inr walked_def using w(4) by (simp only: prod.case sum.case) blast
  next
    case (Inl e)
    show ?thesis
    proof (cases e)
      case (FallbackExhausted bs)
      with assms(2) z Inl obtain as where "bs = (attempts @ [a]) @ as" "failed_walk fx req ms s1 as s'" by (auto simp: walked_def)
      with more [OF assms(1) this(2)] show ?thesis by (auto simp: z Inl FallbackExhausted walked_def)
    qed (use assms(2) z Inl in \<open>simp_all add: walked_def\<close>)
  qed
qed

lemma walk_outcome: "walked fx req ms attempts s (cascade_loop fx req sk ms attempts s)"
proof (induction ms arbitrary: attempts s)
  case Nil
  then show ?case by (simp add: walked_def failed_walk.none)
next
  case (Cons m ms)
  show ?case
  proof (cases "fxAborted fx s")
    case True
    then show ?thesis by (simp add: walked_def)
  next
    case running: False
    obtain a s1 where a: "acquire_key fx req m s = (a, s1)" by (cases "acquire_key fx req m s")
    show ?thesis
    proof (cases a)
      case (Inl e)
      from walked_step [OF no_key [OF running a [unfolded Inl]] Cons.IH [unfolded failed_attempt_def]] running a Inl
      show ?thesis by (simp add: failed_attempt_def)
    next
      case (Inr ks)
      obtain k i where ks: "ks = (k, i)" by (cases ks)
      obtain c s2 where c: "fxChat fx (chat_request fx req m k i) s1 = (c, s2)"
        by (cases "fxChat fx (chat_request fx req m k i) s1")
      show ?thesis
      proof (cases c)
        case failed: (Inl f)
        show ?thesis
        proof (cases "fxIsAbortError fx f \<or> fxAborted fx s2")
          case True
          with running a Inr ks c failed show ?thesis by (simp add: walked_def)
        next
          case False
          then have f: "fails fx req m s (failed_attempt m (UpstreamFailed f)) (record_failure fx i s2)"
            unfolding failed_attempt_def using running a Inr ks c failed by (intro no_answer) auto
          from walked_step [OF f Cons.IH] running a Inr ks c failed False show ?thesis by simp
        qed
      next
        case out: (Inr out)
        let ?cost = "settled_cost fx m out"
        let ?res = "\<lparr>cvContent = crContent out, cvCost = ?cost, cvModel = m, cvAttempts = attempts, cvUsage = crUsage out,
            cvResponse = crResponse out, cvIsSelfKey = sk\<rparr>"
        have "answers fx req ?res s (record_success fx i sk ?cost s2)"
          using running a Inr ks c out by (simp add: answers_def)
        then have "walked fx req (m # ms) attempts s (Inr ?res, record_success fx i sk ?cost s2)"
          unfolding walked_def prod.case sum.case
          by (intro exI [of _ "[]"] exI [of _ ms] exI [of _ s]) (simp add: failed_walk.none)
        with running a Inr ks c out show ?thesis by (simp add: Let_def)
      qed
    qed
  qed
qed

lemma slice_prefix: "\<exists>n. js_slice xs 0 b = take n xs"
  by (auto simp: js_slice_def slice_index_def Let_def)

lemma tried_subset: "set (candidatesToTry fx req cs) \<subseteq> set cs"
  using slice_prefix [of cs] unfolding candidatesToTry_def by (metis set_take_subset)

lemma executeCascade_loop:
  "\<exists>sk s1. executeCascadeRouting fx req cs s = cascade_loop fx req sk (candidatesToTry fx req cs) [] s1"
  by (simp add: executeCascadeRouting_def Let_def case_prod_beta) blast

section \<open>Properties: the walk\<close>

text \<open>
  C19. What a route returns. A request that gets no candidates fails as candidate resolution says and
  nothing is touched. Otherwise the models tried are the first \<open>1 + maxFallbacks\<close> candidates, in order, each
  in the state the one before left (the first after the question whether the tenant has a key of its own). A
  success comes from the first of them that works: each model before it failed, for want of a key or by
  a failure of the upstream that is no abort, and is reported with its provider and that error; the model is
  capable of the request; content, usage and response are those of its upstream's answer, the cost is
  the settled cost of that answer, and the success is recorded. A request that exhausts its candidates reports the
  failure of each of them, in order; any other failure is a cancellation.
\<close>

theorem route_outcome:
  fixes cr :: "('s, 'e, 'f) CascadeRouter" and req :: js and aborted :: "'s \<Rightarrow> bool" and isAbort :: "'f \<Rightarrow> bool"
  defines "fx \<equiv> route_context cr aborted isAbort"
  defines "tried \<equiv> candidatesToTry fx req"
  defines "after_check \<equiv> \<lambda>cs s. {s, snd (checkSelfKeyAvailable (crKeyPool cr) (mdProvider (hd (tried cs)))
    (str_of (js_get req ''tenantId'')) s)}"
  assumes "registry_ok (crRegistry cr)"
  shows "case route cr aborted isAbort req s of
      (Inl (NotRouted e), s') \<Rightarrow> getCandidates cr req = Inl e \<and> s' = s
    | (Inr res, s') \<Rightarrow>
        \<exists>cs us vs s0 s1. getCandidates cr req = Inr cs \<and> tried cs = us @ cvModel res # vs \<and> s0 \<in> after_check cs s \<and>
          failed_walk fx req us s0 (cvAttempts res) s1 \<and> answers fx req res s1 s' \<and>
          isCapable (cvModel res) (request_requirements req)
    | (Inl (RouteFailed (FallbackExhausted bs)), s') \<Rightarrow>
        \<exists>cs s0. getCandidates cr req = Inr cs \<and> s0 \<in> after_check cs s \<and> failed_walk fx req (tried cs) s0 bs s'
    | (Inl (RouteFailed RequestAborted), s') \<Rightarrow> aborted s'
    | (Inl (RouteFailed (UpstreamAborted f)), s') \<Rightarrow> isAbort f \<or> aborted s'"
proof (cases "getCandidates cr req")
  case (Inl e)
  then show ?thesis by (simp add: route_def)
next
  case (Inr cs)
  obtain r s' where r: "executeCascadeRouting fx req cs s = (r, s')"
    by (cases "executeCascadeRouting fx req cs s")
  have check: "fxCheckSelfKey fx = Some (checkSelfKeyAvailable (crKeyPool cr))" by (simp add: fx_def route_context_def)
  obtain sk s0 where s0: "executeCascadeRouting fx req cs s = cascade_loop fx req sk (tried cs) [] s0" "s0 \<in> after_check cs s"
    by (cases "tried cs") (simp_all add: executeCascadeRouting_def tried_def after_check_def check Let_def case_prod_beta)
  have ok: "walked fx req (tried cs) [] s0 (r, s')"
    using walk_outcome [of fx req "tried cs" "[]" s0 sk] s0(1) r by simp
  have abort: "fxAborted fx = aborted" "fxIsAbortError fx = isAbort" by (simp_all add: fx_def route_context_def)
  have capable: "isCapable m (request_requirements req)" if "m \<in> set (tried cs)" for m
  proof -
    have "set cs = set (capable_models (crRegistry cr) (request_requirements req))"
      using candidates_set [of "\<lparr>rcRegistry = crRegistry cr, rcSortBy = crSortBy cr,
          rcFallbackModels = crFallbackModels cr, rcAllowMismatchEscalation = crAllowMismatchEscalation cr\<rparr>" req cs]
        assms(4) Inr by (simp add: getCandidates_def)
    then show ?thesis using that tried_subset [of fx req cs] by (auto simp: tried_def capable_models_def)
  qed
  have route: "route cr aborted isAbort req s = (map_sum RouteFailed id r, s')"
    using Inr r by (simp add: route_def fx_def)
  show ?thesis
  proof (cases r)
    case answered: (Inr res)
    with ok obtain us vs s1 where w: "tried cs = us @ cvModel res # vs" "failed_walk fx req us s0 (cvAttempts res) s1"
      "answers fx req res s1 s'" by (auto simp: walked_def)
    with capable [of "cvModel res"] Inr s0(2) answered route show ?thesis
      by (simp only: map_sum.simps id_apply prod.case sum.case) force
  next
    case (Inl e)
    with ok Inr s0(2) abort route show ?thesis by (cases e) (auto simp: walked_def)
  qed
qed

definition demo_request :: js where
  "demo_request = JObj [(''modelAlias'', JStr ''demo-1''), (''messages'', JArr []), (''stream'', JBool False)]"

definition demo_router :: "(UpstreamChatRequest \<Rightarrow> unit \<Rightarrow> (string + UpstreamChatResponse) \<times> unit) \<Rightarrow>
    (unit, string, string) CascadeRouter" where
  "demo_router chatFn = newCascadeRouter (rcRegistry demo_context) None chatFn None"

lemma demo_candidates: "getCandidates (demo_router f) demo_request = Inr [normalizeModelDef demo_model]"
proof -
  have "getCandidates (demo_router f) demo_request = resolveCandidates demo_request demo_context"
    by (simp add: getCandidates_def demo_router_def newCascadeRouter_def demo_context_def)
  also have "\<dots> = Inr [normalizeModelDef demo_model]" by code_simp
  finally show ?thesis .
qed

lemma demo_tried:
  "candidatesToTry (route_context (demo_router f) aborted isAbort) demo_request ms = take 6 ms"
  by (simp add: candidatesToTry_def route_context_def demo_router_def newCascadeRouter_def demo_request_def)

theorem route_outcome_witness:
  "\<exists>a s'. route (demo_router (\<lambda>c s. (Inl ''down'', s))) (\<lambda>_. False) (\<lambda>_. False) demo_request () =
      (Inl (RouteFailed (FallbackExhausted [a])), s') \<and> faModelId a = '' Demo-1 ''"
proof -
  let ?cr = "demo_router (\<lambda>c s. (Inl ''down'', s))"
  let ?fx = "route_context ?cr (\<lambda>_. False) (\<lambda>_. False)"
  have "registry_ok (crRegistry ?cr)"
    by (simp add: demo_router_def newCascadeRouter_def demo_context_def registry_ok_new)
  note outcome = route_outcome [where aborted = "\<lambda>_. False" and isAbort = "\<lambda>_. False" and req = demo_request
      and s = "()", OF this]
  obtain bs where bs: "route ?cr (\<lambda>_. False) (\<lambda>_. False) demo_request () = (Inl (RouteFailed (FallbackExhausted bs)), ())"
    by (simp add: route_def demo_candidates executeCascadeRouting_def demo_tried)
      (simp add: route_context_def demo_router_def newCascadeRouter_def demo_request_def acquire_key_def)
  with outcome have "failed_walk ?fx demo_request [normalizeModelDef demo_model] () bs ()"
    by (auto simp: demo_candidates demo_tried)
  then obtain a where "bs = [a]" "faModelId a = mdId (normalizeModelDef demo_model)"
    by (auto elim!: failed_walk.cases fails.cases)
  moreover have "mdId (normalizeModelDef demo_model) = '' Demo-1 ''" by code_simp
  ultimately show ?thesis using bs by auto
qed

lemma walk_reaches:
  assumes "\<And>s. \<not> fxAborted fx s" "\<And>f. \<not> fxIsAbortError fx f"
    and key: "\<And>s. \<exists>k s'. acquire_key fx req m s = (Inr k, s')"
    and up: "\<And>c s. ccModel c = mdId m \<Longrightarrow> \<exists>res s'. fxChat fx c s = (Inr res, s')"
    and "m \<in> set ms"
  shows "\<exists>res s'. cascade_loop fx req sk ms attempts s = (Inr res, s') \<and>
    (\<exists>us vs. ms = us @ cvModel res # vs \<and> m \<in> set (cvModel res # vs))"
  using \<open>m \<in> set ms\<close>
proof (induction ms arbitrary: attempts s)
  case (Cons x ms)
  have later: "\<exists>res s'. cascade_loop fx req sk ms as s1 = (Inr res, s') \<and>
      (\<exists>us vs. x # ms = us @ cvModel res # vs \<and> m \<in> set (cvModel res # vs))" if "x \<noteq> m" for as s1
  proof -
    from Cons.prems that have "m \<in> set ms" by simp
    then obtain res s' us vs where "cascade_loop fx req sk ms as s1 = (Inr res, s')"
      "ms = us @ cvModel res # vs" "m \<in> set (cvModel res # vs)"
      using Cons.IH [of as s1] by blast
    then show ?thesis by (metis append_Cons)
  qed
  have now: "\<exists>us vs. x # ms = us @ x # vs \<and> m \<in> set (x # vs)" using Cons.prems by (auto intro: exI [of _ "[]"])
  obtain a s1 where a: "acquire_key fx req x s = (a, s1)" by (cases "acquire_key fx req x s")
  show ?case
  proof (cases a)
    case (Inl e)
    then have "x \<noteq> m" using key [of s] a by auto
    with Inl a assms(1) show ?thesis using later by simp
  next
    case (Inr ks)
    obtain k i where ks: "ks = (k, i)" by (cases ks)
    obtain c s2 where c: "fxChat fx (chat_request fx req x k i) s1 = (c, s2)"
      by (cases "fxChat fx (chat_request fx req x k i) s1")
    show ?thesis
    proof (cases c)
      case failed: (Inl f)
      then have "x \<noteq> m" using up [of "chat_request fx req x k i" s1] c by (auto simp: chat_request_def Let_def)
      with failed Inr ks a c assms(1,2) show ?thesis using later by simp
    next
      case (Inr res)
      with \<open>a = Inr ks\<close> ks a c assms(1) now show ?thesis by (simp add: Let_def)
    qed
  qed
qed simp

text \<open>
  C37. Escalation reaches a working model: when one of the models to be tried can always be served (its
  provider's key is always there and the upstream always answers for it), and nobody cancels, then
  routing returns a response, from that model or from one tried before it, whatever the other models,
  the pool and the upstream do.
\<close>

theorem route_succeeds:
  fixes cr :: "('s, 'e, 'f) CascadeRouter" and aborted :: "'s \<Rightarrow> bool" and isAbort :: "'f \<Rightarrow> bool"
  defines "tried \<equiv> candidatesToTry (route_context cr aborted isAbort)"
  assumes "getCandidates cr req = Inr cs" and "m \<in> set (tried req cs)"
    and "\<And>s. \<not> aborted s" and "\<And>f. \<not> isAbort f"
    and "\<And>pool s. crKeyPool cr = Some pool \<Longrightarrow> \<exists>k s'. poolGetKey pool (mdProvider m) s = (Inr k, s')"
    and "\<And>c s. ccModel c = mdId m \<Longrightarrow> \<exists>res s'. crChat cr c s = (Inr res, s')"
  shows "\<exists>res s' us vs. route cr aborted isAbort req s = (Inr res, s') \<and>
    tried req cs = us @ cvModel res # vs \<and> m \<in> set (cvModel res # vs)"
proof -
  let ?fx = "route_context cr aborted isAbort"
  obtain sk s1 where "executeCascadeRouting ?fx req cs s = cascade_loop ?fx req sk (tried req cs) [] s1"
    using executeCascade_loop [of ?fx req cs s] unfolding tried_def by blast
  moreover have "\<exists>k s'. acquire_key ?fx req m s = (Inr k, s')" for s
    using assms(6) [of _ s] by (cases "crKeyPool cr") (auto simp: acquire_key_def route_context_def Let_def)
  then obtain res s' where "cascade_loop ?fx req sk (tried req cs) [] s1 = (Inr res, s')"
    "\<exists>us vs. tried req cs = us @ cvModel res # vs \<and> m \<in> set (cvModel res # vs)"
    using walk_reaches [of ?fx req m "tried req cs" sk "[]" s1] assms(3-5,7)
    by (fastforce simp: route_context_def)
  ultimately show ?thesis using assms(2) by (simp add: route_def)
qed

definition demo_answer :: UpstreamChatResponse where
  "demo_answer = \<lparr>crContent = ''hi'', crUsage = None, crCost = 0,
     crResponse = \<lparr>urResponse = \<lparr>hrStatus = 200, hrHeaders = [], hrChunks = None, hrReadFails = False\<rparr>,
                   urStreaming = False, urKeyId = None\<rparr>\<rparr>"

theorem route_succeeds_witness:
  "\<exists>res s'. route (demo_router (\<lambda>c s. (Inr demo_answer, s))) (\<lambda>_. False) (\<lambda>_. False) demo_request () = (Inr res, s')"
proof -
  let ?cr = "demo_router (\<lambda>c s. (Inr demo_answer, s))"
  have "\<exists>res s' us vs. route ?cr (\<lambda>_. False) (\<lambda>_. False) demo_request () = (Inr res, s') \<and>
      candidatesToTry (route_context ?cr (\<lambda>_. False) (\<lambda>_. False)) demo_request [normalizeModelDef demo_model] =
        us @ cvModel res # vs \<and> normalizeModelDef demo_model \<in> set (cvModel res # vs)"
    by (rule route_succeeds [OF demo_candidates])
      (simp_all add: demo_tried, simp_all add: demo_router_def newCascadeRouter_def)
  then show ?thesis by blast
qed

end
