(* ===== verification/PoolRouting.thy ===== *)
theory PoolRouting
  imports CascadeProps
begin

text \<open>
  The cascade, the upstream client and the key pool put together, as \<open>src/router/cascade/router.ts\<close>
  and \<open>src/worker/router/core/resolver.ts\<close> wire them: the pool's durable object provides the
  \<open>KeyPoolContract\<close> that both the client and the cascade report to. A locale states what a client
  may assume of a metered pool: only \<open>recordUsage\<close> moves the meter.
\<close>

section \<open>The contract\<close>

locale metered_pool =
  fixes pool :: "('s, 'e) KeyPoolContract" and meter :: "'s \<Rightarrow> 'm"
  assumes meter_getKey: "meter (snd (poolGetKey pool p s)) = meter s"
    and meter_result: "meter (poolRecordResult pool k ok s) = meter s"
    and meter_dispatch: "poolRecordDispatch pool = Some f \<Longrightarrow> meter (f k communal s) = meter s"
begin

lemma meter_acquire:
  "fxKeyPool fx \<in> {None, Some pool} \<Longrightarrow> meter (snd (acquire_key fx req m s)) = meter s"
  using meter_getKey [of "mdProvider m" s]
  by (auto simp: acquire_key_def Let_def split: prod.splits sum.splits)

lemma meter_failure: "fxKeyPool fx \<in> {None, Some pool} \<Longrightarrow> meter (record_failure fx k s) = meter s"
  by (auto simp: record_failure_def meter_result)

lemma meter_success:
  "fxKeyPool fx \<in> {None, Some pool} \<Longrightarrow> cost \<le> 0 \<Longrightarrow> meter (record_success fx k sk cost s) = meter s"
  by (auto simp: record_success_def meter_result meter_dispatch Let_def split: option.split)

text \<open>A walk whose calls are free and do not move the meter themselves leaves it where it was.\<close>

lemma meter_walk:
  assumes pool: "fxKeyPool fx \<in> {None, Some pool}"
    and chat: "\<And>m a k s. meter (snd (fxChat fx (chat_request fx req m a k) s)) = meter s"
    and free: "\<And>m a k s r s'. fxChat fx (chat_request fx req m a k) s = (Inr r, s') \<Longrightarrow> crUsage r = None \<and> crCost r \<le> 0"
  shows "meter (snd (cascade_loop fx req sk ms attempts s)) = meter s"
proof (induction ms arbitrary: attempts s)
  case (Cons m ms)
  obtain a s1 where a: "acquire_key fx req m s = (a, s1)" by (cases "acquire_key fx req m s")
  then have s1: "meter s1 = meter s" using meter_acquire [OF pool, of req m s] by simp
  show ?case
  proof (cases a)
    case (Inl e)
    with a s1 Cons.IH show ?thesis by simp
  next
    case (Inr ks)
    obtain k i where ks: "ks = (k, i)" by (cases ks)
    obtain c s2 where c: "fxChat fx (chat_request fx req m k i) s1 = (c, s2)"
      by (cases "fxChat fx (chat_request fx req m k i) s1")
    then have s2: "meter s2 = meter s" using chat [of m k i s1] s1 by simp
    show ?thesis
    proof (cases c)
      case failed: (Inl f)
      with Inr ks a c s2 Cons.IH show ?thesis by (simp add: meter_failure [OF pool])
    next
      case (Inr r)
      then have "settled_cost fx m r \<le> 0" using free c by (simp add: settled_cost_def)
      with Inr \<open>a = Inr ks\<close> ks a c s2 show ?thesis by (simp add: Let_def meter_success [OF pool])
    qed
  qed
qed simp

lemma meter_route:
  assumes "crKeyPool cr \<in> {None, Some pool}"
    and "\<And>m a k s. meter (snd (crChat cr (chat_request (route_context cr ab isA) req m a k) s)) = meter s"
    and "\<And>m a k s r s'. crChat cr (chat_request (route_context cr ab isA) req m a k) s = (Inr r, s') \<Longrightarrow>
      crUsage r = None \<and> crCost r \<le> 0"
  shows "meter (snd (route cr ab isA req s)) = meter s"
proof (cases "getCandidates cr req")
  case (Inl e)
  then show ?thesis by (simp add: route_def)
next
  case (Inr cs)
  let ?fx = "route_context cr ab isA"
  have check: "meter (snd (checkSelfKeyAvailable (crKeyPool cr) p t s)) = meter s" for p t s
    using assms(1) meter_getKey [of p s] by (auto simp: checkSelfKeyAvailable_def split: prod.splits sum.splits)
  have walk: "meter (snd (cascade_loop ?fx req sk ms attempts s)) = meter s" for sk ms attempts s
    using assms by (intro meter_walk) (simp_all add: route_context_def)
  define start where "start =
      (case (candidatesToTry ?fx req cs, fxCheckSelfKey ?fx) of
         (m # _, Some check) \<Rightarrow>
           if str_of (js_get req ''tenantId'') \<noteq> [] then check (mdProvider m) (str_of (js_get req ''tenantId'')) s
           else (False, s)
       | _ \<Rightarrow> (False, s))"
  have "fxCheckSelfKey ?fx = Some (checkSelfKeyAvailable (crKeyPool cr))" by (simp add: route_context_def)
  then have "meter (snd start) = meter s" by (simp add: start_def check split: list.split)
  moreover have "executeCascadeRouting ?fx req cs s =
      cascade_loop ?fx req (fst start) (candidatesToTry ?fx req cs) [] (snd start)"
    by (simp add: executeCascadeRouting_def Let_def case_prod_beta start_def)
  ultimately have "meter (snd (executeCascadeRouting ?fx req cs s)) = meter s" by (simp add: walk)
  then show ?thesis by (simp add: route_def Inr case_prod_beta)
qed

text \<open>The upstream client reports to the same pool, but never the usage of a stream it hands on.\<close>

lemma meter_send:
  assumes "ucPool uc \<in> {None, Some pool}"
    and fetch: "\<And>q s. meter (snd (ucFetch uc q s)) = meter s"
    and resolver: "\<And>f k p s. ucKeyResolver uc = Some f \<Longrightarrow> meter (snd (f k p s)) = meter s"
  shows "meter (snd (send now uc q s)) = meter s"
proof -
  have report: "meter (report_result uc q k ok s) = meter s" for k ok s
    using assms(1) by (auto simp: report_result_def with_pool_def meter_result)
  have receive: "meter (snd (receive now uc q k out s)) = meter s" for k out s
    by (cases out) (simp_all add: receive_def Let_def report)
  have ref: "meter (snd (resolve_reference uc k p s)) = meter s" for k p s
    using resolver by (simp add: resolve_reference_def split: option.split)
  have key: "meter (snd (resolve_key uc q s)) = meter s"
  proof -
    define checked :: "string option \<Rightarrow> ('e + string) \<times> 's \<Rightarrow> ('e send_error + string \<times> string option) \<times> 's"
      where "checked = (\<lambda>keyId (r, s'). case r of Inl e \<Rightarrow> (Inl (PoolError e), s')
        | Inr secret \<Rightarrow> if js_trim secret = [] then (Inl (InvalidKeyError (uqProvider q)), s')
                      else (Inr (secret, keyId), s'))"
    have checked: "snd (checked i x) = snd x" for i x
      by (cases x; cases "fst x") (auto simp: checked_def)
    show ?thesis
      unfolding resolve_key_def Let_def checked_def [symmetric]
      using assms(1) meter_getKey [of "uqProvider q" s]
      by (auto simp: checked ref split: option.split sum.split prod.split)
  qed
  show ?thesis
    using key by (auto simp: send_def case_prod_beta Let_def receive fetch split: prod.splits sum.splits)
qed

lemma meter_stream:
  assumes "ucPool uc \<in> {None, Some pool}"
    and "\<And>q s. meter (snd (ucFetch uc q s)) = meter s"
    and "\<And>f k p s. ucKeyResolver uc = Some f \<Longrightarrow> meter (snd (f k p s)) = meter s"
    and "ccStream c"
  shows "meter (snd (chat now uc c s)) = meter s"
    and "chat now uc c s = (Inr r, s') \<Longrightarrow> crUsage r = None \<and> crCost r \<le> 0"
proof -
  have "meter (snd (send now uc (chat_upstream c) s)) = meter s"
    by (rule meter_send) (use assms(1-3) in auto)
  then show "meter (snd (chat now uc c s)) = meter s"
    "chat now uc c s = (Inr r, s') \<Longrightarrow> crUsage r = None \<and> crCost r \<le> 0"
    using assms(4) by (auto simp: chat_def Let_def split: prod.splits sum.splits)
qed

end

section \<open>The durable object behind the contract\<close>

definition pool_contract :: "timestamp \<Rightarrow> nat \<Rightarrow> d1 \<Rightarrow> (KeyPoolDO, kp_error) KeyPoolContract" where
  "pool_contract now rnd db =
     \<lparr>poolGetKey = kp_getKey now rnd db,
      poolRecordUsage = (\<lambda>k cost s. snd (kp_recordUsage now db k cost s)),
      poolRecordResult = (\<lambda>k ok s. snd (kp_recordResult now db k ok s)),
      poolRecordDispatch = Some kp_recordDispatch\<rparr>"

text \<open>What the pool's rate limiter counts for every key: its configuration and current window entries.\<close>

definition pool_meter :: "timestamp \<Rightarrow> KeyPoolDO \<Rightarrow> _ option" where
  "pool_meter now s = snd (gates_view now (ks_gates (kpSelector s)))"

definition sel_meter :: "timestamp \<Rightarrow> 'k KeySelector \<Rightarrow> _ option" where
  "sel_meter now s = map_option (\<lambda>l. (rl_config l, rl_aged now l)) (rateLimiter s)"

lemma pool_meter_sel: "pool_meter now s = sel_meter now (kpSelector s)"
  by (simp add: pool_meter_def sel_meter_def gates_view_def ks_gates_def)

lemma sel_meter_cong: "rateLimiter s' = rateLimiter s \<Longrightarrow> sel_meter now s' = sel_meter now s"
  by (simp add: sel_meter_def)

lemma sel_meter_load: "sel_meter now (snd (ks_load now k s)) = sel_meter now s"
  by (simp add: sel_meter_def ks_load_def Let_def case_prod_beta split: option.split)

lemma sel_meter_least: "sel_meter now (snd (selectLeastUsed now hs s)) = sel_meter now s"
  by (simp add: selectLeastUsed_def Let_def case_prod_beta
      least_used_scan_keeps [where view = "sel_meter now", OF sel_meter_load] split: option.splits)

lemma sel_meter_round: "sel_meter now (snd (selectRoundRobin p hs s)) = sel_meter now s"
  by (rule sel_meter_cong) (simp add: selectRoundRobin_def ks_persistRoundRobinIndex_def
      ks_getOrLoadRoundRobinIndex_def Let_def case_prod_beta split: option.splits)

lemma sel_meter_dispatch: "sel_meter now (snd (ks_dispatch now rnd strat p hs s)) = sel_meter now s"
  by (cases strat) (simp_all add: ks_dispatch_def sel_meter_least sel_meter_round selectPriority_def Let_def)

lemma sel_meter_triage: "sel_meter now (snd (ks_triageKeys now p c cs s)) = sel_meter now s"
  using ks_triage_frame [of now s p c cs]
  by (simp add: ks_frame_def sel_meter_def gates_view_def ks_gates_def)

lemma sel_meter_select:
  fixes s :: "('k SelectableKey_scheme) KeySelector"
  shows "sel_meter now (snd (ks_selectKey now rnd prov opts s)) = sel_meter now s"
proof -
  have upd: "sel_meter now (x\<lparr>usageCounts := u\<rparr>) = sel_meter now x" "sel_meter now (x\<lparr>keysMap := m\<rparr>) = sel_meter now x"
    for x :: "('k SelectableKey_scheme) KeySelector" and u m by (simp_all add: sel_meter_def)
  define tr where "tr = ks_triageKeys now (Some prov) (Some (first_some (soCost opts) 0)) (candidateKeys opts) s"
  obtain r1 s1 where 1: "tr = (r1, s1)" by (cases tr)
  have m1: "sel_meter now s1 = sel_meter now s"
    using sel_meter_triage [of now "Some prov" _ "candidateKeys opts" s] 1 unfolding tr_def by (metis snd_conv)
  show ?thesis
  proof (cases r1)
    case (Inl e)
    with 1 m1 show ?thesis by (simp add: ks_selectKey_def ks_select_with_def Let_def tr_def)
  next
    case (Inr t1)
    define fallback where "fallback \<longleftrightarrow> healthyKeys t1 = [] \<and> fallbackToAnyProvider opts = Some True"
    obtain r2 s2 where 2: "(if fallback then ks_triageKeys now (Some ''*'') (Some (first_some (soCost opts) 0)) None s1
        else (Inr t1, s1)) = (r2, s2)" by fastforce
    have m2: "sel_meter now s2 = sel_meter now s"
      using sel_meter_triage [of now "Some ''*''" "Some (first_some (soCost opts) 0)" None s1] 2 m1
      by (auto split: if_splits)
    have pick: "sel_meter now s3 = sel_meter now s" if "ks_dispatch now rnd st p hs s2 = (ko, s3)" for st p hs ko s3
      using sel_meter_dispatch [of now rnd st p hs s2] that m2 by simp
    show ?thesis
      using 1 Inr 2 m2
      unfolding ks_selectKey_def ks_select_with_def Let_def tr_def [symmetric]
      by (auto simp: fallback_def [symmetric] upd ks_recordUsage_def split: sum.splits list.splits prod.splits option.splits
          dest!: pick)
  qed
qed

lemma meter_selector: "pool_meter now (s\<lparr>kpSelector := sel\<rparr>) = sel_meter now sel"
  by (simp add: pool_meter_sel)

lemma fold_addKey_limiter: "rateLimiter (fold ks_addKey ks s) = rateLimiter s"
  by (induction ks arbitrary: s) (simp_all add: ks_addKey_def)

lemma meter_sync [simp]: "pool_meter now (kp_syncSelector s) = pool_meter now s"
  unfolding kp_syncSelector_def meter_selector
  by (simp add: pool_meter_sel ks_setKeys_def ks_addKeys_def sel_meter_def fold_addKey_limiter)

lemma adopt_selector: "kpSelector (snd (kp_adopt_keys ks s)) = kpSelector s"
proof (induction ks arbitrary: s)
  case (Cons k ks)
  obtain r s1 where r: "kp_assertTenant (keyTenantId k) (Some (keyId k)) s = (r, s1)"
    by (cases "kp_assertTenant (keyTenantId k) (Some (keyId k)) s")
  then have "kpSelector s1 = kpSelector s" by (auto simp: kp_assertTenant_def split: option.splits if_splits)
  with r Cons show ?case by (cases r) simp_all
qed simp

lemma meter_adopt [simp]: "pool_meter now (snd (kp_adopt_keys ks s)) = pool_meter now s"
  by (simp add: pool_meter_sel adopt_selector)

lemma meter_D1: "pool_meter now (kp_loadD1 db s) = pool_meter now s"
proof -
  have "pool_meter now (s'\<lparr>kpStoredKeys := a, kpStoredTenant := b\<rparr>) = pool_meter now s'"
    "pool_meter now (s'\<lparr>kpKeys := ks\<rparr>) = pool_meter now s'" for s' a b ks
    by (simp_all add: pool_meter_sel)
  then show ?thesis by (simp add: kp_loadD1_def kp_putD1_def Let_def split: option.split)
qed

lemma meter_ensure: "pool_meter now (snd (kp_ensureLoaded db s)) = pool_meter now s"
proof -
  have upd: "pool_meter now (s'\<lparr>kpIsLoaded := l\<rparr>) = pool_meter now s'" "pool_meter now (s'\<lparr>kpTenantId := t\<rparr>) = pool_meter now s'"
    for s' l t by (simp_all add: pool_meter_sel)
  define s1 where "s1 = (case kpStoredTenant s of
      Some t \<Rightarrow> if t \<noteq> [] \<and> kpTenantId s = kpCtxId s then s\<lparr>kpTenantId := t\<rparr> else s | None \<Rightarrow> s)"
  have m1: "pool_meter now s1 = pool_meter now s" by (simp add: s1_def upd split: option.split)
  have adopt: "pool_meter now s2 = pool_meter now s1" if "kp_adopt_keys ks s1 = (r, s2)" for ks r s2
    using meter_adopt [of now ks s1] that by simp
  show ?thesis
    using m1 unfolding kp_ensureLoaded_def Let_def s1_def [symmetric]
    by (auto simp: upd meter_D1 split: option.splits sum.splits prod.splits dest!: adopt)
qed

lemma meter_loaded:
  "(\<And>s'. pool_meter now (snd (f s')) = pool_meter now s') \<Longrightarrow> pool_meter now (snd (kp_loaded db f s)) = pool_meter now s"
  using meter_ensure [of now db s]
  by (cases "kp_ensureLoaded db s") (auto simp: kp_loaded_def split: sum.splits)

lemma meter_select: "pool_meter now (snd (kp_select now rnd p opts s)) = pool_meter now s"
  by (simp add: kp_select_def Let_def case_prod_beta meter_selector sel_meter_select pool_meter_sel)

lemma meter_kp_getKey: "pool_meter now (snd (kp_getKey now rnd db p s)) = pool_meter now s"
proof -
  have "pool_meter now (snd (case kp_select now rnd p default_select s1 of
      (Inl e, s2) \<Rightarrow> (Inl e, s2) | (Inr None, s2) \<Rightarrow> (Inl (KpSelect UndefinedKey), s2)
    | (Inr (Some k), s2) \<Rightarrow> (Inr (keyId k), s2))) = pool_meter now s1" for s1
    using meter_select [of now rnd p default_select s1] by (auto split: prod.splits sum.splits option.splits)
  then show ?thesis by (simp add: kp_getKey_def meter_loaded)
qed

lemma meter_kp_result: "pool_meter now (snd (kp_recordResult now db k ok s)) = pool_meter now s"
proof -
  have emit: "pool_meter now (kp_emit t e k c m s') = pool_meter now s'" for t e k c m s'
    by (simp add: kp_emit_def pool_meter_sel)
  have breaker: "pool_meter now (snd (with_breaker f r s')) = pool_meter now s'" for f :: "_ \<Rightarrow> unit \<times> _" and r s'
    by (simp add: with_breaker_def Let_def case_prod_beta pool_meter_sel sel_meter_def split: option.split)
  show ?thesis
    unfolding kp_recordResult_def kp_known_key_def Let_def
    by (auto intro!: meter_loaded simp: emit breaker split: option.split)
qed

interpretation pool_object: metered_pool "pool_contract now rnd db" "pool_meter now"
proof
  fix p s show "pool_meter now (snd (poolGetKey (pool_contract now rnd db) p s)) = pool_meter now s"
    by (simp add: pool_contract_def meter_kp_getKey)
next
  fix k ok s show "pool_meter now (poolRecordResult (pool_contract now rnd db) k ok s) = pool_meter now s"
    by (simp add: pool_contract_def meter_kp_result)
next
  fix f k communal s
  assume "poolRecordDispatch (pool_contract now rnd db) = Some f"
  then show "pool_meter now (f k communal s) = pool_meter now s"
    by (auto simp: pool_contract_def kp_recordDispatch_def Let_def pool_meter_sel)
qed

section \<open>Properties\<close>

text \<open>
  Streamed requests are not metered. With the pool's durable object behind both the router and its
  upstream client, routing a request with \<open>stream: true\<close> leaves what the rate limiter counts for every
  key exactly as it was, however many keys it draws and whatever the providers answer: requests are
  counted by \<open>recordUsage\<close>, and the cascade calls it only for a response with a positive cost, which a
  stream never has when it starts. The limits of a key do not bind on streams.
\<close>

theorem streams_not_metered:
  fixes cr :: "(KeyPoolDO, kp_error, kp_error send_error) CascadeRouter"
  assumes "js_get req ''stream'' = JBool True"
    and "crKeyPool cr = Some (pool_contract now rnd db)" "crChat cr = chat now uc"
    and "ucPool uc = Some (pool_contract now rnd db)"
    and "\<And>q s. pool_meter now (snd (ucFetch uc q s)) = pool_meter now s"
    and "\<And>f k p s. ucKeyResolver uc = Some f \<Longrightarrow> pool_meter now (snd (f k p s)) = pool_meter now s"
  shows "pool_meter now (snd (route cr aborted isAbort req s)) = pool_meter now s"
proof (rule pool_object.meter_route [of _ now rnd db])
  show "crKeyPool cr \<in> {None, Some (pool_contract now rnd db)}" using assms(2) by simp
next
  fix m a k s
  have "ccStream (chat_request (route_context cr aborted isAbort) req m a k)"
    using assms(1) by (simp add: chat_request_def Let_def)
  then show "pool_meter now (snd (crChat cr (chat_request (route_context cr aborted isAbort) req m a k) s)) = pool_meter now s"
    unfolding assms(3) by (intro pool_object.meter_stream(1)) (use assms in auto)
next
  fix m a k s r s'
  assume c: "crChat cr (chat_request (route_context cr aborted isAbort) req m a k) s = (Inr r, s')"
  have "ccStream (chat_request (route_context cr aborted isAbort) req m a k)"
    using assms(1) by (simp add: chat_request_def Let_def)
  with c show "crUsage r = None \<and> crCost r \<le> 0"
    unfolding assms(3) by (auto simp: chat_def Let_def split: prod.splits sum.splits)
qed

definition demo_client :: "(KeyPoolDO, kp_error) UpstreamClient" where
  "demo_client = default_client (rcRegistry demo_context) (Some (pool_contract 0 0 (\<lambda>_. None)))
     (\<lambda>q s. (FetchNetworkError ''down'', s)) (\<lambda>_. None) (\<lambda>_. None)"

definition pooled_router :: "(KeyPoolDO, kp_error, kp_error send_error) CascadeRouter" where
  "pooled_router = newCascadeRouter (rcRegistry demo_context) (Some (pool_contract 0 0 (\<lambda>_. None)))
     (chat 0 demo_client) None"

theorem streams_not_metered_witness:
  "pool_meter 0 (snd (route pooled_router (\<lambda>_. False) (\<lambda>_. False)
       (JObj [(''modelAlias'', JStr ''demo-1''), (''stream'', JBool True)]) key_pool_example)) =
   pool_meter 0 key_pool_example"
  by (rule streams_not_metered [where uc = demo_client and rnd = 0 and db = "\<lambda>_. None"])
    (simp_all add: pooled_router_def newCascadeRouter_def demo_client_def default_client_def)

text \<open>
  Feedback arrives twice. When the upstream client has the same pool as the cascade, as the router's
  own wiring gives it, one call through a pool key reports its outcome twice: an HTTP error counts as two
  failures of the key before the walk goes on to the next model, and a successful call as two successes
  and, with a cost calculator on the client, twice its cost.
\<close>

theorem feedback_recorded_twice:
  fixes fx :: "('s, 'e, 'e send_error) FallbackExecutionContext" and uc :: "('s, 'e) UpstreamClient"
    and pool :: "('s, 'e) KeyPoolContract"
  defines "result \<equiv> poolRecordResult pool" and "usage \<equiv> poolRecordUsage pool"
  assumes wiring: "fxKeyPool fx = Some pool" "ucPool uc = Some pool" "fxChat fx = chat now uc"
    and running: "\<And>s. \<not> fxAborted fx s" "\<And>e. \<not> fxIsAbortError fx e"
    and request: "js_get req ''apiKey'' = JUndefined" "js_get req ''stream'' \<noteq> JBool True"
    and key: "poolGetKey pool (mdProvider m) s = (Inr k, st)" "k \<noteq> []"
      "resolve_key uc (chat_upstream (chat_request fx req m (Some k) (Some k))) st = (Inr (secret, Some k), st)"
    and fetch: "\<And>q. ucFetch uc q st = (FetchResponse r, st)"
  shows "(\<not> http_ok (hrStatus r) \<longrightarrow>
      (\<exists>a. cascade_loop fx req sk (m # ms) attempts s =
         cascade_loop fx req sk ms (attempts @ [a]) (result k False (result k False st)))) \<and>
    (\<forall>v u cost calc. http_ok (hrStatus r) \<and> header_get ''content-type'' (hrHeaders r) = Some ''application/json'' \<and>
        \<not> hrReadFails r \<and> ucParseJson uc (body_text r) = Some v \<and> extractUsageFromPayload v = Some u \<and>
        mdId m \<noteq> [] \<and> ucCostCalculator uc = Some calc \<and>
        calc (mdId m) (usage_of_stream (usage_of_partial u)) = Some cost \<and> cost > 0 \<longrightarrow>
      (\<exists>res. cascade_loop fx req sk (m # ms) attempts s =
         (Inr res, usage k cost (result k True
            ((case poolRecordDispatch pool of Some f \<Rightarrow> f k (\<not> sk) | None \<Rightarrow> id)
               (usage k cost (result k True st)))))))"
proof -
  let ?c = "chat_request fx req m (Some k) (Some k)"
  have fields: "\<not> ccStream ?c" "ccModel ?c = mdId m" using request(2) by (simp_all add: chat_request_def Let_def)
  then have q: "\<not> uqStream (chat_upstream ?c)" "uqModel (chat_upstream ?c) = Some (mdId m)"
    "uqRecordPoolUsage (chat_upstream ?c) = None" by (simp_all add: chat_upstream_def)
  have acquired: "acquire_key fx req m s = (Inr (Some k, Some k), st)"
    using request(1) wiring(1) key(1) by (simp add: acquire_key_def Let_def truthy_def first_some_def)
  have send: "send now uc (chat_upstream ?c) st = receive now uc (chat_upstream ?c) (Some k) (FetchResponse r) st"
    by (simp add: send_def key(3) fetch)
  have report: "report_result uc (chat_upstream ?c) (Some k) ok s' = result k ok s'" for ok s'
    using wiring(2) key(2) q by (simp add: report_result_def with_pool_def truthy_def result_def)
  have failure: "record_failure fx (Some k) s' = result k False s'" for s'
    using wiring(1) key(2) by (simp add: record_failure_def truthy_def result_def)
  have failed: "\<exists>a. cascade_loop fx req sk (m # ms) attempts s =
         cascade_loop fx req sk ms (attempts @ [a]) (result k False (result k False st))"
    if error: "\<not> http_ok (hrStatus r)"
  proof -
    obtain e where "receive now uc (chat_upstream ?c) (Some k) (FetchResponse r) st = (Inl e, result k False st)"
      using error by (simp add: receive_def Let_def report)
    then have "chat now uc ?c st = (Inl e, result k False st)" by (simp add: chat_def Let_def send)
    then show ?thesis using running acquired wiring(3) by (auto simp: failure)
  qed
  have served: "\<exists>res. cascade_loop fx req sk (m # ms) attempts s =
         (Inr res, usage k cost (result k True
            ((case poolRecordDispatch pool of Some f \<Rightarrow> f k (\<not> sk) | None \<Rightarrow> id)
               (usage k cost (result k True st)))))"
    if ok: "http_ok (hrStatus r)" "header_get ''content-type'' (hrHeaders r) = Some ''application/json''"
      "\<not> hrReadFails r" "ucParseJson uc (body_text r) = Some v" "extractUsageFromPayload v = Some u"
      "mdId m \<noteq> []" "ucCostCalculator uc = Some calc"
      "calc (mdId m) (usage_of_stream (usage_of_partial u)) = Some cost" "cost > 0"
    for v u cost calc
  proof -
    have "\<not> str_includes ''application/json'' ''text/event-stream''" by code_simp
    then have "receive now uc (chat_upstream ?c) (Some k) (FetchResponse r) st =
        (Inr \<lparr>urResponse = r, urStreaming = False, urKeyId = Some k\<rparr>, result k True st)"
      using ok(1,2) q(1) by (simp add: receive_def Let_def report)
    moreover have "report_usage uc (chat_upstream ?c) (Some k) (usage_of_stream (usage_of_partial u)) s' = usage k cost s'"
      for s' using wiring(2) key(2) q ok(6-8)
      by (simp add: report_usage_def with_pool_def truthy_def usage_def)
    ultimately obtain res where res: "chat now uc ?c st = (Inr res, usage k cost (result k True st))" "crCost res = cost"
      using fields ok by (simp add: chat_def Let_def send read_body_def read_json_def)
    then have "settled_cost fx m res = cost" using ok(9) by (simp add: settled_cost_def split: option.split)
    with res running acquired wiring key(2) ok(9) show ?thesis
      by (auto simp: Let_def record_success_def truthy_def result_def usage_def split: option.split)
  qed
  from failed served show ?thesis by blast
qed

text \<open>A pool with one key that only keeps a log of what is reported.\<close>

definition logging_pool :: "(string list, string) KeyPoolContract" where
  "logging_pool = \<lparr>poolGetKey = (\<lambda>p s. (Inr ''k1'', s)), poolRecordUsage = (\<lambda>k cost s. s @ [''usage '' @ k]),
     poolRecordResult = (\<lambda>k ok s. s @ [(if ok then ''success '' else ''failure '') @ k]), poolRecordDispatch = None\<rparr>"

definition logging_client :: "(string list, string) UpstreamClient" where
  "logging_client = default_client (rcRegistry demo_context) (Some logging_pool)
     (\<lambda>q s. (FetchResponse \<lparr>hrStatus = 500, hrHeaders = [], hrChunks = None, hrReadFails = False\<rparr>, s))
     (\<lambda>_. None) (\<lambda>_. None)"

definition logging_context :: "(string list, string, string send_error) FallbackExecutionContext" where
  "logging_context = route_context (newCascadeRouter (rcRegistry demo_context) (Some logging_pool)
     (chat 0 logging_client) None) (\<lambda>_. False) (\<lambda>_. False)"

theorem feedback_recorded_twice_witness:
  "\<exists>a. cascade_loop logging_context demo_request False [normalizeModelDef demo_model] [] [] =
     (Inl (FallbackExhausted [a]), [''failure k1'', ''failure k1''])"
proof -
  let ?m = "normalizeModelDef demo_model"
  have trim: "js_trim ''k1'' = ''k1''" by code_simp
  have "\<exists>a. cascade_loop logging_context demo_request False [?m] [] [] =
      cascade_loop logging_context demo_request False [] ([] @ [a])
        (poolRecordResult logging_pool ''k1'' False (poolRecordResult logging_pool ''k1'' False []))"
    by (rule feedback_recorded_twice [where uc = logging_client and now = 0 and secret = "''k1''" and st = "[]"
            and r = "\<lparr>hrStatus = 500, hrHeaders = [], hrChunks = None, hrReadFails = False\<rparr>",
          THEN conjunct1, THEN mp])
      (simp_all add: logging_context_def route_context_def newCascadeRouter_def logging_client_def default_client_def
        demo_request_def logging_pool_def http_ok_def resolve_key_def chat_upstream_def chat_request_def
        resolve_reference_def trim Let_def)
  then show ?thesis by (simp add: logging_pool_def)
qed

end
