(* ===== verification/Bytes.thy ===== *)
theory Bytes
  imports JsLib "HOL-Library.Word"
begin

text \<open>
  \<open>src/crypto/utils.ts\<close> and \<open>src/crypto/encryption/digest.ts\<close>: comparison of byte buffers, the
  hexadecimal and Base64 codecs, UTF-8, and random strings. A \<open>Uint8Array\<close> is a list of bytes; a
  text is the list of its Unicode code points, of which a string of the model is the part below
  256. \<open>btoa\<close>, \<open>atob\<close>, \<open>TextEncoder\<close> and \<open>TextDecoder\<close> are written out from their standards;
  the bytes of \<open>getRandomValues\<close> are an argument, byte \<open>i\<close> of call \<open>k\<close> being \<open>rnd k i\<close>.
\<close>

type_synonym byte = "8 word"
type_synonym bytes = "byte list"
type_synonym unicode = "nat list"

datatype crypto_error = TypeErr | RangeErr | PlainErr | EncryptionErr | DecryptionErr | InvalidKeyErr

unbundle bit_operations_syntax

section \<open>Constant-time comparison\<close>

text \<open>The loop over both buffers; they have the same length when it runs.\<close>

fun or_diff :: "byte \<Rightarrow> bytes \<Rightarrow> bytes \<Rightarrow> byte" where
  "or_diff diff (a # as) (b # bs) = or_diff (diff OR (a XOR b)) as bs"
| "or_diff diff _ _ = diff"

definition timingSafeEqual :: "bytes \<Rightarrow> bytes \<Rightarrow> bool" where
  "timingSafeEqual a b = (if length a \<noteq> length b then False else or_diff 0 a b = 0)"

section \<open>UTF-8\<close>

definition utf8_char :: "nat \<Rightarrow> nat list" where
  "utf8_char n =
     (if n < 0x80 then [n]
      else if n < 0x800 then [0xC0 + n div 64, 0x80 + n mod 64]
      else if n < 0x10000 then [0xE0 + n div 4096, 0x80 + n div 64 mod 64, 0x80 + n mod 64]
      else [0xF0 + n div 262144, 0x80 + n div 4096 mod 64, 0x80 + n div 64 mod 64, 0x80 + n mod 64])"

definition continuation :: "nat \<Rightarrow> bool" where
  "continuation b \<longleftrightarrow> 0x80 \<le> b \<and> b \<le> 0xBF"

fun utf8_chars :: "nat list \<Rightarrow> unicode option" where
  "utf8_chars [] = Some []"
| "utf8_chars (b # bs) =
     (if b < 0x80 then map_option (Cons b) (utf8_chars bs)
      else if 0xC2 \<le> b \<and> b \<le> 0xDF then
        (case bs of
           c # r \<Rightarrow> if continuation c
             then map_option (Cons ((b - 0xC0) * 64 + (c - 0x80))) (utf8_chars r) else None
         | _ \<Rightarrow> None)
      else if 0xE0 \<le> b \<and> b \<le> 0xEF then
        (case bs of
           c # d # r \<Rightarrow>
             if continuation c \<and> (b = 0xE0 \<longrightarrow> 0xA0 \<le> c) \<and> (b = 0xED \<longrightarrow> c \<le> 0x9F) \<and> continuation d
             then map_option (Cons ((b - 0xE0) * 4096 + (c - 0x80) * 64 + (d - 0x80))) (utf8_chars r)
             else None
         | _ \<Rightarrow> None)
      else if 0xF0 \<le> b \<and> b \<le> 0xF4 then
        (case bs of
           c # d # e # r \<Rightarrow>
             if continuation c \<and> (b = 0xF0 \<longrightarrow> 0x90 \<le> c) \<and> (b = 0xF4 \<longrightarrow> c \<le> 0x8F)
                \<and> continuation d \<and> continuation e
             then map_option (Cons ((b - 0xF0) * 262144 + (c - 0x80) * 4096 + (d - 0x80) * 64 + (e - 0x80)))
                    (utf8_chars r)
             else None
         | _ \<Rightarrow> None)
      else None)"

definition byte_of :: "nat \<Rightarrow> byte" where
  "byte_of n = word_of_nat n"

definition textToBytes :: "unicode \<Rightarrow> bytes" where
  "textToBytes t = map byte_of (concat (map utf8_char t))"

definition stringToBytes :: "string \<Rightarrow> bytes" where
  "stringToBytes s = textToBytes (map of_char s)"

text \<open>The fatal decoder, which drops one leading byte order mark.\<close>

definition bytesToString :: "bytes \<Rightarrow> crypto_error + unicode" where
  "bytesToString bs =
     (let ns = map unat bs;
          body = (if take 3 ns = [0xEF, 0xBB, 0xBF] then drop 3 ns else ns)
      in case utf8_chars body of None \<Rightarrow> Inl TypeErr | Some t \<Rightarrow> Inr t)"

definition timingSafeEqualStrings :: "string \<Rightarrow> string \<Rightarrow> bool" where
  "timingSafeEqualStrings a b = timingSafeEqual (stringToBytes a) (stringToBytes b)"

text \<open>\<open>sha\<close> is the SHA-256 digest of the platform.\<close>

definition timingSafeEqualHashed :: "(bytes \<Rightarrow> bytes) \<Rightarrow> bytes \<Rightarrow> bytes \<Rightarrow> bool" where
  "timingSafeEqualHashed sha a b = timingSafeEqual (sha a) (sha b)"

section \<open>Hexadecimal\<close>

definition byte_hex :: "byte \<Rightarrow> string" where
  "byte_hex b = [hex_digit (unat b div 16), hex_digit (unat b mod 16)]"

definition bytesToHex :: "bytes \<Rightarrow> string" where
  "bytesToHex bs = concat (map byte_hex bs)"

definition is_hex :: "char \<Rightarrow> bool" where
  "is_hex c \<longleftrightarrow> radix_digit 16 c \<noteq> None"

text \<open>
  \<open>parseInt(s, 16)\<close> and its conversion by \<open>Uint8Array\<close>: white space, a sign and one \<open>0x\<close> are
  skipped, the longest run of digits is read, no digit is \<open>NaN\<close>, stored as 0.
\<close>

definition parse_hex :: "string \<Rightarrow> byte" where
  "parse_hex s =
     (let t = dropWhile is_space s;
          neg = (t \<noteq> [] \<and> hd t = CHR ''-'');
          u = (if t \<noteq> [] \<and> (hd t = CHR ''-'' \<or> hd t = CHR ''+'') then tl t else t);
          v = (if js_lower (take 2 u) = ''0x'' then drop 2 u else u);
          n = (case radix_val 16 (takeWhile is_hex v) of None \<Rightarrow> 0 | Some k \<Rightarrow> k)
      in word_of_int (if neg then - n else n))"

fun hex_pairs :: "string \<Rightarrow> bytes" where
  "hex_pairs (c # d # r) = parse_hex [c, d] # hex_pairs r"
| "hex_pairs _ = []"

definition hexToBytes :: "string \<Rightarrow> crypto_error + bytes" where
  "hexToBytes hex =
     (let cleanHex = js_trim hex in
      if length cleanHex mod 2 \<noteq> 0 then Inl TypeErr
      else if \<not> list_all is_hex cleanHex then Inl TypeErr
      else Inr (hex_pairs cleanHex))"

definition hexToUint8Array :: "string \<Rightarrow> crypto_error + bytes" where
  "hexToUint8Array hex =
     (let cleanHex = js_trim hex in
      if length cleanHex mod 2 \<noteq> 0 then Inl PlainErr else Inr (hex_pairs cleanHex))"

section \<open>Base64\<close>

definition b64_char :: "nat \<Rightarrow> char" where
  "b64_char n =
     (if n < 26 then char_of (65 + n) else if n < 52 then char_of (71 + n)
      else if n < 62 then char_of (n - 4) else if n = 62 then CHR ''+'' else CHR ''/'')"

definition b64_val :: "char \<Rightarrow> nat option" where
  "b64_val c =
     (let n = code_of c in
      if 65 \<le> n \<and> n \<le> 90 then Some (n - 65)
      else if 97 \<le> n \<and> n \<le> 122 then Some (n - 71)
      else if 48 \<le> n \<and> n \<le> 57 then Some (n + 4)
      else if c = CHR ''+'' then Some 62
      else if c = CHR ''/'' then Some 63 else None)"

fun btoa :: "nat list \<Rightarrow> string" where
  "btoa [] = []"
| "btoa [a] = [b64_char (a div 4), b64_char (a mod 4 * 16), CHR ''='', CHR ''='']"
| "btoa [a, b] =
     [b64_char (a div 4), b64_char (a mod 4 * 16 + b div 16), b64_char (b mod 16 * 4), CHR ''='']"
| "btoa (a # b # c # r) =
     b64_char (a div 4) # b64_char (a mod 4 * 16 + b div 16) # b64_char (b mod 16 * 4 + c div 64)
     # b64_char (c mod 64) # btoa r"

definition uint8ArrayToBase64 :: "bytes \<Rightarrow> string" where
  "uint8ArrayToBase64 bs = btoa (map unat bs)"

fun sextets_bytes :: "nat list \<Rightarrow> nat list" where
  "sextets_bytes (a # b # c # d # r) =
     (a * 4 + b div 16) # (b mod 16 * 16 + c div 4) # (c mod 4 * 64 + d) # sextets_bytes r"
| "sextets_bytes [a, b, c] = [a * 4 + b div 16, b mod 16 * 16 + c div 4]"
| "sextets_bytes [a, b] = [a * 4 + b div 16]"
| "sextets_bytes _ = []"

text \<open>
  \<open>atob\<close>, the forgiving decoder: white space is removed, then up to two trailing \<open>=\<close> of a whole
  number of quartets; a length of 1 modulo 4 or a foreign character is an error.
\<close>

definition atob_space :: "char \<Rightarrow> bool" where
  "atob_space c \<longleftrightarrow> code_of c \<in> {9, 10, 12, 13, 32}"

definition strip_padding :: "string \<Rightarrow> string" where
  "strip_padding s =
     (if length s mod 4 \<noteq> 0 \<or> s = [] \<or> last s \<noteq> CHR ''='' then s
      else let t = butlast s in if t \<noteq> [] \<and> last t = CHR ''='' then butlast t else t)"

definition atob :: "string \<Rightarrow> nat list option" where
  "atob s =
     (let t = strip_padding (filter (Not \<circ> atob_space) s) in
      if length t mod 4 = 1 \<or> \<not> list_all (\<lambda>c. b64_val c \<noteq> None) t then None
      else Some (sextets_bytes (map (the \<circ> b64_val) t)))"

definition from_url_char :: "char \<Rightarrow> char" where
  "from_url_char c = (if c = CHR ''-'' then CHR ''+'' else if c = CHR ''_'' then CHR ''/'' else c)"

definition pad_quartet :: "string \<Rightarrow> string" where
  "pad_quartet s = s @ replicate ((4 - length s mod 4) mod 4) (CHR ''='')"

definition base64ToUint8Array :: "string \<Rightarrow> crypto_error + bytes" where
  "base64ToUint8Array b64 =
     (case atob (pad_quartet (map from_url_char (js_trim b64))) of
        None \<Rightarrow> Inl DecryptionErr
      | Some ns \<Rightarrow> Inr (map byte_of ns))"

definition to_url_char :: "char \<Rightarrow> char" where
  "to_url_char c = (if c = CHR ''+'' then CHR ''-'' else if c = CHR ''/'' then CHR ''_'' else c)"

definition uint8ArrayToBase64Url :: "bytes \<Rightarrow> string" where
  "uint8ArrayToBase64Url bs =
     rev (dropWhile (\<lambda>c. c = CHR ''='') (rev (map to_url_char (uint8ArrayToBase64 bs))))"

definition base64UrlToUint8Array :: "string \<Rightarrow> crypto_error + bytes" where
  "base64UrlToUint8Array b64url = base64ToUint8Array b64url"

definition decodeBase64OrHex :: "string \<Rightarrow> nat option \<Rightarrow> crypto_error + bytes" where
  "decodeBase64OrHex input expectedLength =
     (let trimmed = js_trim input;
          expected = (case expectedLength of Some n \<Rightarrow> n \<noteq> 0 | None \<Rightarrow> False);
          hex = trimmed \<noteq> [] \<and> list_all is_hex trimmed
      in if expected \<and> length trimmed = the expectedLength * 2 \<and> hex then hexToUint8Array trimmed
         else (let fallback = (if hex \<and> length trimmed mod 2 = 0 then hexToUint8Array trimmed
                               else base64ToUint8Array trimmed)
               in case base64ToUint8Array trimmed of
                    Inr bs \<Rightarrow> if \<not> expected \<or> length bs = the expectedLength then Inr bs else fallback
                  | Inl _ \<Rightarrow> fallback))"

section \<open>Randomness\<close>

type_synonym random_source = "nat \<Rightarrow> nat \<Rightarrow> byte"

definition secureRandomBytes :: "random_source \<Rightarrow> nat \<Rightarrow> int \<Rightarrow> crypto_error + bytes" where
  "secureRandomBytes rnd k len = (if len < 0 then Inl RangeErr else Inr (map (rnd k) [0..<nat len]))"

definition secureRandomHex :: "random_source \<Rightarrow> nat \<Rightarrow> int \<Rightarrow> crypto_error + string" where
  "secureRandomHex rnd k len = map_sum id bytesToHex (secureRandomBytes rnd k len)"

fun pick_chars :: "string \<Rightarrow> nat \<Rightarrow> nat \<Rightarrow> bytes \<Rightarrow> string \<Rightarrow> string" where
  "pick_chars alphabet maxValidByte len [] result = result"
| "pick_chars alphabet maxValidByte len (b # bs) result =
     (if length result < len
      then pick_chars alphabet maxValidByte len bs
             (if unat b < maxValidByte then result @ [alphabet ! (unat b mod length alphabet)] else result)
      else result)"

definition max_valid_byte :: "nat \<Rightarrow> nat" where
  "max_valid_byte n = 256 - 256 mod n"

text \<open>
  The rejection loop: \<open>None\<close> when it never fills the string. \<open>batch\<close> says how many bytes it draws
  when so many characters are missing.
\<close>

partial_function (option) random_loop ::
  "random_source \<Rightarrow> (nat \<Rightarrow> nat) \<Rightarrow> string \<Rightarrow> nat \<Rightarrow> nat \<Rightarrow> string \<Rightarrow> string option" where
  "random_loop rnd batch alphabet len k result =
     (if length result < len
      then random_loop rnd batch alphabet len (Suc k)
             (pick_chars alphabet (max_valid_byte (length alphabet)) len
                (map (rnd k) [0..<batch (len - length result)]) result)
      else Some result)"

definition secureRandomString :: "random_source \<Rightarrow> int \<Rightarrow> string \<Rightarrow> (crypto_error + string) option" where
  "secureRandomString rnd len alphabet =
     (if len \<le> 0 then Some (Inr [])
      else if length alphabet = 0 then Some (Inl PlainErr)
      else map_option Inr (random_loop rnd (\<lambda>missing. max (missing * 2) 16) alphabet (nat len) 0 []))"

definition wipeBytes :: "bytes \<Rightarrow> bytes" where
  "wipeBytes bs = map (\<lambda>_. 0) bs"

lemma byte_bound: "unat (b :: byte) < 256"
  using unsigned_less [of b] by simp

lemma unat_byte_of: "n < 256 \<Longrightarrow> unat (byte_of n) = n"
  unfolding byte_of_def by (subst unat_of_nat) (simp add: take_bit_eq_mod)

lemma byte_of_unat [simp]: "byte_of (unat b) = b"
  by (simp add: byte_of_def)

lemma bytes_of_unats [simp]: "map byte_of (map unat bs) = bs"
  by (induction bs) simp_all

section \<open>Lemmas: comparison\<close>

lemma xor_zero: "a XOR b = (0 :: byte) \<longleftrightarrow> a = b"
  by (auto simp: bit_eq_iff bit_simps)

lemma or_zero: "a OR b = (0 :: byte) \<longleftrightarrow> a = 0 \<and> b = 0"
  by (auto simp: bit_eq_iff bit_simps)

lemma or_diff_zero: "length as = length bs \<Longrightarrow> or_diff d as bs = 0 \<longleftrightarrow> d = 0 \<and> as = bs"
  by (induction d as bs rule: or_diff.induct) (auto simp: or_zero xor_zero)

lemma timingSafeEqual_eq [simp]: "timingSafeEqual a b \<longleftrightarrow> a = b"
  by (auto simp: timingSafeEqual_def or_diff_zero)

section \<open>Lemmas: hexadecimal\<close>

lemma nat16_cases: "n < (16 :: nat) \<Longrightarrow> n \<in> {0, 1, 2, 3, 4, 5, 6, 7, 8, 9, 10, 11, 12, 13, 14, 15}"
  by (simp add: insert_iff) arith

lemma hex_digit_val: "n < 16 \<Longrightarrow> radix_digit 16 (hex_digit n) = Some n"
  by (drule nat16_cases) (auto simp: hex_digit_def radix_digit_def is_digit_def lower_char_def)

lemma hex_digit_space: "n < 16 \<Longrightarrow> \<not> is_space (hex_digit n)"
  by (drule nat16_cases) (auto simp: hex_digit_def is_space_def)

lemma is_hex_facts:
  assumes "is_hex c"
  shows "\<not> is_space c" "c \<noteq> CHR ''-''" "c \<noteq> CHR ''+''" "lower_char c \<noteq> CHR ''x''"
proof -
  show "\<not> is_space c" "c \<noteq> CHR ''-''" "c \<noteq> CHR ''+''"
    using assms by (auto simp: is_hex_def radix_digit_def is_space_def is_digit_def lower_char_def Let_def
        split: if_splits)
  show "lower_char c \<noteq> CHR ''x''"
  proof
    assume "lower_char c = CHR ''x''"
    then have "radix_digit 16 c = None" by (simp add: radix_digit_def)
    with assms show False by (simp add: is_hex_def)
  qed
qed

lemma parse_hex_pair:
  assumes "radix_digit 16 c = Some m" "radix_digit 16 d = Some n"
  shows "parse_hex [c, d] = byte_of (16 * m + n)"
proof -
  have "is_hex c" "is_hex d" using assms by (simp_all add: is_hex_def)
  then show ?thesis
    using assms is_hex_facts [of c] is_hex_facts [of d]
    by (simp add: parse_hex_def js_lower_def radix_val_def byte_of_def)
qed

lemma parse_byte_hex: "parse_hex (byte_hex b) = b"
proof -
  have "unat b < 256" by (rule byte_bound)
  then show ?thesis
    by (simp add: byte_hex_def parse_hex_pair hex_digit_val byte_of_def)
qed

lemma hex_pairs_append: "length s = 2 \<Longrightarrow> hex_pairs (s @ r) = parse_hex s # hex_pairs r"
  by (auto simp: length_Suc_conv numeral_2_eq_2)

lemma hex_pairs_bytes: "hex_pairs (bytesToHex bs) = bs"
  by (induction bs) (auto simp: bytesToHex_def hex_pairs_append byte_hex_def parse_byte_hex [unfolded byte_hex_def])

lemma byte_hex_digits:
  "c \<in> set (bytesToHex bs) \<Longrightarrow> \<exists>n<16. c = hex_digit n"
proof (induction bs)
  case (Cons b bs)
  have "unat b < 256" by (rule byte_bound)
  then have "unat b div 16 < 16" "unat b mod 16 < 16" by simp_all
  with Cons show ?case
    by (auto simp: bytesToHex_def byte_hex_def) (metis mod_less_divisor zero_less_numeral)
qed (simp add: bytesToHex_def)

lemma hex_chars: "list_all is_hex (bytesToHex bs)"
  using byte_hex_digits by (fastforce simp: list_all_iff is_hex_def hex_digit_val)

lemma trim_no_space: "list_all (\<lambda>c. \<not> is_space c) s \<Longrightarrow> js_trim s = s"
  by (rule js_trim_id) (cases s rule: rev_cases; auto simp: list_all_iff hd_append)

lemma hex_trim: "list_all is_hex s \<Longrightarrow> js_trim s = s"
  by (rule trim_no_space) (auto simp: list_all_iff dest: is_hex_facts)

lemma hex_length: "length (bytesToHex bs) = 2 * length bs"
  by (induction bs) (auto simp: bytesToHex_def byte_hex_def)

lemma hex_roundtrip: "hexToBytes (bytesToHex bs) = Inr bs"
  by (simp add: hexToBytes_def hex_trim hex_chars hex_length hex_pairs_bytes)

lemma hex8_roundtrip: "hexToUint8Array (bytesToHex bs) = Inr bs"
  by (simp add: hexToUint8Array_def hex_trim hex_chars hex_length hex_pairs_bytes)

lemma hex_digit_lower: "radix_digit 16 c = Some n \<Longrightarrow> n < 16 \<and> hex_digit n = lower_char c"
  by (auto simp: radix_digit_def Let_def hex_digit_def is_digit_def lower_char_def split: if_splits)

lemma byte_hex_pair:
  assumes "is_hex c" "is_hex d"
  shows "byte_hex (parse_hex [c, d]) = [lower_char c, lower_char d]"
proof -
  obtain m n where mn: "radix_digit 16 c = Some m" "radix_digit 16 d = Some n"
    using assms by (auto simp: is_hex_def)
  note lo = hex_digit_lower [OF mn(1)] hex_digit_lower [OF mn(2)]
  then have "unat (byte_of (16 * m + n)) = 16 * m + n"
    by (intro unat_byte_of) auto
  with lo show ?thesis by (simp add: byte_hex_def parse_hex_pair [OF mn])
qed

lemma bytes_hex_pairs:
  "list_all is_hex s \<Longrightarrow> even (length s) \<Longrightarrow> bytesToHex (hex_pairs s) = js_lower s"
  by (induction s rule: hex_pairs.induct) (auto simp: bytesToHex_def byte_hex_pair js_lower_def)

section \<open>Lemmas: Base64\<close>

lemma b64_val_char: "n < 64 \<Longrightarrow> b64_val (b64_char n) = Some n"
proof -
  assume "n < 64"
  then consider "n < 26" | "26 \<le> n" "n < 52" | "52 \<le> n" "n < 62" | "n = 62" | "n = 63" by linarith
  then show ?thesis
    by cases (auto simp: b64_char_def b64_val_def Let_def)
qed

lemma b64_val_facts:
  assumes "b64_val c = Some n"
  shows "n < 64" "c \<noteq> CHR ''=''" "c \<noteq> CHR ''-''" "c \<noteq> CHR ''_''" "\<not> is_space c" "\<not> atob_space c"
  using assms
  by (auto simp: b64_val_def Let_def is_space_def atob_space_def split: if_splits)

lemma sextets_btoa:
  "list_all (\<lambda>n. n < 256) ns \<Longrightarrow>
   \<exists>t p. btoa ns = t @ replicate p (CHR ''='') \<and> p < 3 \<and> length (btoa ns) mod 4 = 0 \<and> length t mod 4 \<noteq> 1
     \<and> list_all (\<lambda>c. b64_val c \<noteq> None) t \<and> sextets_bytes (map (the \<circ> b64_val) t) = ns"
proof (induction ns rule: btoa.induct)
  case 1
  show ?case by (intro exI [of _ "[]"] exI [of _ 0]) simp
next
  case (2 a)
  show ?case
    by (rule exI [of _ "[b64_char (a div 4), b64_char (a mod 4 * 16)]"], rule exI [of _ 2])
      (use 2 in \<open>simp add: b64_val_char numeral_2_eq_2\<close>)
next
  case (3 a b)
  then have "b64_val (b64_char (a div 4)) = Some (a div 4)"
    "b64_val (b64_char (a mod 4 * 16 + b div 16)) = Some (a mod 4 * 16 + b div 16)"
    "b64_val (b64_char (b mod 16 * 4)) = Some (b mod 16 * 4)"
    by (auto intro!: b64_val_char)
  moreover have "b div 16 < 16" using 3 by auto
  ultimately show ?case
    by (intro exI [of _ "[b64_char (a div 4), b64_char (a mod 4 * 16 + b div 16), b64_char (b mod 16 * 4)]"]
        exI [of _ 1]) (simp add: div_add1_eq)
next
  case (4 a b c r)
  then have "list_all (\<lambda>n. n < 256) r" by simp
  from 4(1) [OF this] obtain t p where r: "btoa r = t @ replicate p (CHR ''='')" "p < 3" "length (btoa r) mod 4 = 0"
    "length t mod 4 \<noteq> 1" "list_all (\<lambda>c. b64_val c \<noteq> None) t" "sextets_bytes (map (the \<circ> b64_val) t) = r"
    by (elim exE conjE)
  define s where "s = [a div 4, a mod 4 * 16 + b div 16, b mod 16 * 4 + c div 64, c mod 64]"
  have "list_all (\<lambda>n. n < 64) s" using 4(2) by (auto simp: s_def)
  then have s: "map (b64_val \<circ> b64_char) s = map Some s"
    by (auto simp: list_all_iff b64_val_char)
  moreover have "b div 16 < 16" "c div 64 < 4" using 4(2) by auto
  ultimately show ?case
    by (intro exI [of _ "map b64_char s @ t"] exI [of _ p])
      (use r in \<open>simp add: s_def div_add1_eq comp_def\<close>)
qed

definition b64_text :: "string \<Rightarrow> bool" where
  "b64_text t \<longleftrightarrow> list_all (\<lambda>c. b64_val c \<noteq> None) t"

abbreviation padding :: "nat \<Rightarrow> string" where
  "padding p \<equiv> replicate p (CHR ''='')"

lemma b64_text_chars:
  assumes "b64_text t" "c \<in> set t"
  shows "c \<noteq> CHR ''=''" "c \<noteq> CHR ''-''" "c \<noteq> CHR ''_''" "\<not> is_space c" "\<not> atob_space c"
  using assms b64_val_facts [of c] by (auto simp: b64_text_def list_all_iff)

lemma base64_shape:
  obtains t p where "uint8ArrayToBase64 bs = t @ padding p" "p < 3" "(length t + p) mod 4 = 0"
    "length t mod 4 \<noteq> 1" "b64_text t" "sextets_bytes (map (the \<circ> b64_val) t) = map unat bs"
proof -
  have "list_all (\<lambda>n. n < 256) (map unat bs)" by (simp add: list_all_iff byte_bound)
  from sextets_btoa [OF this] show ?thesis
    by (elim exE conjE) (rule that; simp add: uint8ArrayToBase64_def b64_text_def)
qed

lemma strip_padding_text:
  assumes "b64_text t" "p < 3" "(length t + p) mod 4 = 0"
  shows "strip_padding (t @ padding p) = t"
proof -
  have l: "t \<noteq> [] \<Longrightarrow> last t \<noteq> CHR ''=''" using b64_text_chars(1) [OF assms(1), of "last t"] by simp
  have "p = 0 \<or> p = 1 \<or> p = 2" using assms(2) by linarith
  with l assms(3) show ?thesis
    by (auto simp: strip_padding_def butlast_append numeral_2_eq_2)
qed

lemma atob_text:
  assumes "b64_text t" "p < 3" "(length t + p) mod 4 = 0" "length t mod 4 \<noteq> 1"
  shows "atob (t @ padding p) = Some (sextets_bytes (map (the \<circ> b64_val) t))"
proof -
  have f: "filter (Not \<circ> atob_space) (t @ padding p) = t @ padding p"
    using b64_text_chars(5) [OF assms(1)] by (auto simp: atob_space_def)
  show ?thesis
    unfolding atob_def Let_def f strip_padding_text [OF assms(1-3)]
    using assms(1, 4) by (simp add: b64_text_def)
qed

lemma from_url_text: "b64_text t \<Longrightarrow> map from_url_char (t @ padding p) = t @ padding p"
  using b64_text_chars by (auto simp: from_url_char_def map_idI)

lemma from_to_url: "b64_text t \<Longrightarrow> map from_url_char (map to_url_char t) = t"
  using b64_text_chars(2, 3) by (auto simp: from_url_char_def to_url_char_def map_idI)

lemma pad_quartet_full: "(length s) mod 4 = 0 \<Longrightarrow> pad_quartet s = s"
  by (simp add: pad_quartet_def)

lemma pad_quartet_text: "p < 3 \<Longrightarrow> (length s + p) mod 4 = 0 \<Longrightarrow> pad_quartet s = s @ padding p"
proof -
  assume p: "p < 3" "(length s + p) mod 4 = 0"
  define m where "m = length s mod 4"
  have "(m + p) mod 4 = 0" using p(2) by (simp add: m_def mod_add_left_eq)
  moreover have "m = 0 \<or> m = 1 \<or> m = 2 \<or> m = 3" by (auto simp: m_def)
  moreover have "p = 0 \<or> p = 1 \<or> p = 2" using p(1) by linarith
  ultimately have "(4 - m) mod 4 = p" by (elim disjE) simp_all
  then show ?thesis by (simp add: pad_quartet_def m_def)
qed

lemma base64_roundtrip: "base64ToUint8Array (uint8ArrayToBase64 bs) = Inr bs"
proof -
  obtain t p where s: "uint8ArrayToBase64 bs = t @ padding p" "p < 3" "(length t + p) mod 4 = 0"
    "length t mod 4 \<noteq> 1" "b64_text t" "sextets_bytes (map (the \<circ> b64_val) t) = map unat bs"
    by (rule base64_shape)
  have trim: "js_trim (t @ padding p) = t @ padding p"
    by (rule trim_no_space) (use b64_text_chars(4) [OF s(5)] in \<open>auto simp: list_all_iff is_space_def\<close>)
  have "pad_quartet (t @ padding p) = t @ padding p" using s(3) by (simp add: pad_quartet_full)
  then show ?thesis
    unfolding base64ToUint8Array_def s(1) trim from_url_text [OF s(5)]
    by (simp add: atob_text [OF s(5, 2, 3, 4)] s(6) del: map_map)
qed

lemma to_url_strip:
  assumes "b64_text t"
  shows "uint8ArrayToBase64 bs = t @ padding p \<Longrightarrow> uint8ArrayToBase64Url bs = map to_url_char t"
proof -
  assume eq: "uint8ArrayToBase64 bs = t @ padding p"
  have "to_url_char c \<noteq> CHR ''=''" if "c \<in> set t" for c
    using b64_text_chars(1) [OF assms that] by (auto simp: to_url_char_def)
  then have "dropWhile (\<lambda>c. c = CHR ''='') (rev (map to_url_char t)) = rev (map to_url_char t)"
    by (intro dropWhile_id) (cases t rule: rev_cases; auto)
  then show ?thesis
    by (simp add: uint8ArrayToBase64Url_def eq to_url_char_def dropWhile_append)
qed

lemma url_trim [simp]: "js_trim (uint8ArrayToBase64Url bs) = uint8ArrayToBase64Url bs"
proof -
  obtain t p where s: "uint8ArrayToBase64 bs = t @ padding p" "b64_text t" by (rule base64_shape)
  have "\<not> is_space (to_url_char c)" if "c \<in> set t" for c
    using b64_text_chars(4) [OF s(2) that] by (auto simp: to_url_char_def is_space_def)
  then show ?thesis
    unfolding to_url_strip [OF s(2, 1)] by (intro trim_no_space) (auto simp: list_all_iff)
qed

lemma base64url_roundtrip: "base64UrlToUint8Array (uint8ArrayToBase64Url bs) = Inr bs"
proof -
  obtain t p where s: "uint8ArrayToBase64 bs = t @ padding p" "p < 3" "(length t + p) mod 4 = 0"
    "length t mod 4 \<noteq> 1" "b64_text t" "sextets_bytes (map (the \<circ> b64_val) t) = map unat bs"
    by (rule base64_shape)
  have trim: "js_trim (map to_url_char t) = map to_url_char t"
    using url_trim [of bs] to_url_strip [OF s(5, 1)] by simp
  show ?thesis
    unfolding base64UrlToUint8Array_def base64ToUint8Array_def to_url_strip [OF s(5, 1)] trim
      from_to_url [OF s(5)] pad_quartet_text [OF s(2, 3)]
    by (simp add: atob_text [OF s(5, 2, 3, 4)] s(6) del: map_map)
qed

section \<open>Lemmas: UTF-8\<close>

definition scalar :: "nat \<Rightarrow> bool" where
  "scalar n \<longleftrightarrow> n < 0x110000 \<and> \<not> (0xD800 \<le> n \<and> n \<le> 0xDFFF)"

lemma utf8_two:
  assumes "0x80 \<le> n" "n < 0x800"
  shows "utf8_chars (utf8_char n @ r) = map_option (Cons n) (utf8_chars r)"
proof -
  obtain a c where n: "n = a * 64 + c" "c < 64" "n div 64 = a" "n mod 64 = c"
    by (metis div_mult_mod_eq mod_less_divisor zero_less_numeral)
  with assms have "2 \<le> a" "a < 32" by linarith+
  with n(2) show ?thesis
    using assms by (simp add: utf8_char_def n(3, 4) continuation_def n(1))
qed

lemma utf8_three:
  assumes "0x800 \<le> n" "n < 0x10000" "scalar n"
  shows "utf8_chars (utf8_char n @ r) = map_option (Cons n) (utf8_chars r)"
proof -
  define a where "a = n div 4096"
  define b where "b = n div 64 mod 64"
  define c where "c = n mod 64"
  have lt: "b < 64" "c < 64" by (simp_all add: b_def c_def)
  have "n div 64 = a * 64 + b" using div_mult_mod_eq [of "n div 64" 64]
    by (simp add: a_def b_def div_mult2_eq [symmetric])
  then have n: "n = a * 4096 + b * 64 + c" using div_mult_mod_eq [of n 64] by (simp add: c_def)
  from assms(1, 2) n lt have "a < 16" "a = 0 \<Longrightarrow> 32 \<le> b" by linarith+
  moreover have "a = 13 \<Longrightarrow> b < 32" using assms(3) n lt unfolding scalar_def by linarith
  moreover have "utf8_char n = [0xE0 + a, 0x80 + b, 0x80 + c]"
    using assms(1, 2) by (simp add: utf8_char_def a_def b_def c_def)
  ultimately show ?thesis
    using lt by (simp add: continuation_def) (auto simp: n)
qed

lemma utf8_four:
  assumes "0x10000 \<le> n" "scalar n"
  shows "utf8_chars (utf8_char n @ r) = map_option (Cons n) (utf8_chars r)"
proof -
  define a where "a = n div 262144"
  define b where "b = n div 4096 mod 64"
  define c where "c = n div 64 mod 64"
  define d where "d = n mod 64"
  have lt: "b < 64" "c < 64" "d < 64" by (simp_all add: b_def c_def d_def)
  have "n div 4096 = a * 64 + b" using div_mult_mod_eq [of "n div 4096" 64]
    by (simp add: a_def b_def div_mult2_eq [symmetric])
  moreover have "n div 64 = n div 4096 * 64 + c" using div_mult_mod_eq [of "n div 64" 64]
    by (simp add: c_def div_mult2_eq [symmetric])
  ultimately have n: "n = a * 262144 + b * 4096 + c * 64 + d"
    using div_mult_mod_eq [of n 64] by (simp add: d_def)
  from assms n lt have "a < 5" "a = 0 \<Longrightarrow> 16 \<le> b" "a = 4 \<Longrightarrow> b < 16"
    unfolding scalar_def by linarith+
  moreover have "utf8_char n = [0xF0 + a, 0x80 + b, 0x80 + c, 0x80 + d]"
    using assms(1) by (simp add: utf8_char_def a_def b_def c_def d_def)
  ultimately show ?thesis
    using lt by (simp add: continuation_def) (auto simp: n)
qed

lemma utf8_one: "scalar n \<Longrightarrow> utf8_chars (utf8_char n @ r) = map_option (Cons n) (utf8_chars r)"
  by (cases "n < 0x80"; cases "n < 0x800"; cases "n < 0x10000")
    (simp_all add: utf8_two utf8_three utf8_four, simp_all add: utf8_char_def)

lemma utf8_chars_text: "list_all scalar t \<Longrightarrow> utf8_chars (concat (map utf8_char t)) = Some t"
  by (induction t) (simp_all add: utf8_one)

lemma utf8_char_bytes: "scalar n \<Longrightarrow> list_all (\<lambda>b. b < 256) (utf8_char n)"
  by (auto simp: utf8_char_def scalar_def)

lemma unats_of_bytes: "list_all (\<lambda>b. b < 256) ns \<Longrightarrow> map unat (map byte_of ns) = ns"
  by (induction ns) (simp_all add: unat_byte_of)

lemma unat_textToBytes: "list_all scalar t \<Longrightarrow> map unat (textToBytes t) = concat (map utf8_char t)"
proof -
  assume "list_all scalar t"
  then have "list_all (\<lambda>b. b < 256) (concat (map utf8_char t))"
    using utf8_char_bytes by (fastforce simp: list_all_iff)
  then show ?thesis unfolding textToBytes_def by (rule unats_of_bytes)
qed

lemma utf8_bom: "utf8_chars ([0xEF, 0xBB, 0xBF] @ r) = map_option (Cons 0xFEFF) (utf8_chars r)"
  by (simp add: continuation_def)

lemma utf8_roundtrip:
  assumes "list_all scalar t" "t = [] \<or> hd t \<noteq> 0xFEFF"
  shows "bytesToString (textToBytes t) = Inr t"
proof -
  let ?ns = "concat (map utf8_char t)"
  have dec: "utf8_chars ?ns = Some t" by (rule utf8_chars_text) fact
  have "take 3 ?ns \<noteq> [0xEF, 0xBB, 0xBF]"
  proof
    assume "take 3 ?ns = [0xEF, 0xBB, 0xBF]"
    then have "?ns = [0xEF, 0xBB, 0xBF] @ drop 3 ?ns" by (metis append_take_drop_id)
    then have "utf8_chars ?ns = map_option (Cons 0xFEFF) (utf8_chars (drop 3 ?ns))"
      by (metis (no_types) utf8_bom)
    with dec assms(2) show False by (cases "utf8_chars (drop 3 ?ns)") auto
  qed
  then show ?thesis by (simp add: bytesToString_def unat_textToBytes [OF assms(1)] dec)
qed

lemma string_scalar: "list_all scalar (map of_char s)" "map of_char s = [] \<or> hd (map of_char s) \<noteq> (0xFEFF :: nat)"
proof -
  have "scalar (of_char c)" for c :: char
    using nat_of_char_less_256 [of c] unfolding scalar_def by linarith
  then show "list_all scalar (map of_char s)" by (simp add: list_all_iff)
  have "of_char c \<noteq> (0xFEFF :: nat)" for c :: char
    using nat_of_char_less_256 [of c] by linarith
  then show "map of_char s = [] \<or> hd (map of_char s) \<noteq> (0xFEFF :: nat)" by (cases s) simp_all
qed

lemma stringToBytes_eq: "stringToBytes s = stringToBytes t \<longleftrightarrow> s = t"
proof
  assume "stringToBytes s = stringToBytes t"
  then have "utf8_chars (map unat (stringToBytes s)) = utf8_chars (map unat (stringToBytes t))" by simp
  then have "map of_char s = (map of_char t :: nat list)"
    unfolding stringToBytes_def unat_textToBytes [OF string_scalar(1)] utf8_chars_text [OF string_scalar(1)] by simp
  then show "s = t" by (simp add: inj_map_eq_map inj_of_char)
qed simp

section \<open>Lemmas: random strings\<close>

lemma pick_chars_grow:
  "length (pick_chars al m len bs res) \<ge> length res"
  "length res \<le> len \<Longrightarrow> length (pick_chars al m len bs res) \<le> len"
  by (induction al m len bs res rule: pick_chars.induct) auto

lemma pick_chars_set: "al \<noteq> [] \<Longrightarrow> set (pick_chars al m len bs res) \<subseteq> set res \<union> set al"
proof (induction al m len bs res rule: pick_chars.induct)
  case (2 al m len b bs res)
  then have "al ! (unat b mod length al) \<in> set al" by (intro nth_mem) simp
  then have "insert (al ! (unat b mod length al)) (set res \<union> set al) = set res \<union> set al" by auto
  with 2 show ?case by auto
qed simp

lemma pick_chars_progress:
  "length res < len \<Longrightarrow> \<exists>b\<in>set bs. unat b < m \<Longrightarrow> length res < length (pick_chars al m len bs res)"
proof (induction al m len bs res rule: pick_chars.induct)
  case (2 al m len b bs res)
  show ?case
  proof (cases "unat b < m")
    case True
    have "length (res @ [al ! (unat b mod length al)])
        \<le> length (pick_chars al m len bs (res @ [al ! (unat b mod length al)]))" by (rule pick_chars_grow)
    with True 2(2) show ?thesis by simp
  next
    case False
    with 2 show ?thesis by auto
  qed
qed simp

text \<open>An acceptable byte among the first sixteen of batch \<open>k\<close>.\<close>

definition usable :: "random_source \<Rightarrow> nat \<Rightarrow> nat \<Rightarrow> bool" where
  "usable rnd m k \<longleftrightarrow> (\<exists>i<16. unat (rnd k i) < m)"

lemma random_loop_returns:
  assumes "al \<noteq> []" "\<And>k. \<exists>j\<ge>k. usable rnd (max_valid_byte (length al)) j" "length res \<le> len" "\<And>n. 16 \<le> batch n"
  shows "\<exists>r. random_loop rnd batch al len k res = Some r \<and> length r = len \<and> set r \<subseteq> set res \<union> set al"
  using assms(3)
proof (induction "len - length res" arbitrary: res k rule: less_induct)
  case (less res)
  let ?m = "max_valid_byte (length al)"
  let ?next = "\<lambda>k res. pick_chars al ?m len (map (rnd k) [0..<batch (len - length res)]) res"
  have unfold: "random_loop rnd batch al len k res =
      (if length res < len then random_loop rnd batch al len (Suc k) (?next k res) else Some res)" for k res
    by (subst random_loop.simps) simp
  have within: "length (?next k res) \<le> len" "set (?next k res) \<subseteq> set res \<union> set al"
    if "length res \<le> len" for k res
    using that pick_chars_grow(2) pick_chars_set [OF assms(1)] by blast+
  have wait: "\<exists>r. random_loop rnd batch al len k res' = Some r \<and> length r = len \<and> set r \<subseteq> set res' \<union> set al"
    if "j - k = d" "k \<le> j" "usable rnd ?m j" "length res' = length res" "length res < len" for d k j res'
    using that
  proof (induction d arbitrary: k res')
    case (Suc d)
    show ?case
    proof (cases "length (?next k res') = length res")
      case True
      have "j - Suc k = d" "Suc k \<le> j" using Suc.prems(1, 2) by simp_all
      from Suc.IH [OF this Suc.prems(3) True Suc.prems(5)] obtain r where
        "random_loop rnd batch al len (Suc k) (?next k res') = Some r" "length r = len"
        "set r \<subseteq> set (?next k res') \<union> set al"
        by blast
      then show ?thesis using within(2) [of res' k] Suc.prems by (subst unfold) auto
    next
      case False
      with pick_chars_grow(1) Suc.prems have "length res < length (?next k res')" by (metis le_neq_implies_less)
      with less.hyps [of "?next k res'" "Suc k"] within [of res' k] Suc.prems show ?thesis
        by (subst unfold) fastforce
    qed
  next
    case 0
    then obtain i where "i < 16" "unat (rnd k i) < ?m" by (auto simp: usable_def)
    moreover have "16 \<le> batch (len - length res')" by (rule assms(4))
    ultimately have "\<exists>b\<in>set (map (rnd k) [0..<batch (len - length res')]). unat b < ?m"
      by (auto intro!: bexI [of _ i])
    then have "length res' < length (?next k res')"
      by (rule pick_chars_progress [rotated]) (use 0 in simp)
    then have "length res < length (?next k res')" using 0 by simp
    with less.hyps [of "?next k res'" "Suc k"] within [of res' k] 0 show ?case
      by (subst unfold) fastforce
  qed
  show ?case
  proof (cases "length res < len")
    case True
    obtain j where "j \<ge> k" "usable rnd ?m j" using assms(2) by blast
    with wait [of j k "j - k" res] True show ?thesis by blast
  next
    case False
    with less.prems show ?thesis by (subst unfold) auto
  qed
qed

lemma pick_chars_zero: "pick_chars al 0 len bs res = res"
  by (induction bs) auto

lemma random_loop_stuck:
  assumes "max_valid_byte (length al) = 0" "length res < len"
  shows "random_loop rnd batch al len k res = None"
proof -
  have "max_valid_byte (length al) = 0 \<longrightarrow> \<not> length res < len" if "random_loop rnd batch al len k res = Some r" for r
    by (rule random_loop.raw_induct [where P = "\<lambda>rnd batch al len k res r. max_valid_byte (length al) = 0 \<longrightarrow> \<not> length res < len",
        OF _ that]) (auto simp: pick_chars_zero split: if_splits, metis pick_chars_zero neq0_conv)
  with assms show ?thesis by (cases "random_loop rnd batch al len k res") auto
qed

lemma no_modulo_bias:
  assumes "0 < n" "n \<le> 256" "i < n"
  shows "card {b :: byte. unat b < max_valid_byte n \<and> unat b mod n = i} = 256 div n"
proof -
  let ?B = "{b :: byte. unat b < max_valid_byte n \<and> unat b mod n = i}"
  have lim: "max_valid_byte n = 256 div n * n"
    by (simp add: max_valid_byte_def minus_mod_eq_div_mult)
  have top: "max_valid_byte n \<le> 256" by (simp add: max_valid_byte_def)
  have "bij_betw (\<lambda>q. byte_of (q * n + i)) {..<256 div n} ?B"
  proof (rule bij_betw_byWitness [where f' = "\<lambda>b. unat b div n"])
    have less: "q * n + i < max_valid_byte n" if "q < 256 div n" for q
    proof -
      have "q * n + i < Suc q * n" using assms(3) by simp
      also have "\<dots> \<le> 256 div n * n" using that by (intro mult_le_mono1) simp
      finally show ?thesis by (simp add: lim)
    qed
    then have u: "unat (byte_of (q * n + i)) = q * n + i" if "q < 256 div n" for q
      using that top by (intro unat_byte_of) (meson less_le_trans)
    show "\<forall>q\<in>{..<256 div n}. unat (byte_of (q * n + i)) div n = q"
      using u assms(3) by simp
    show "\<forall>b\<in>?B. byte_of (unat b div n * n + i) = b"
    proof
      fix b assume "b \<in> ?B"
      then have "unat b div n * n + i = unat b" using div_mult_mod_eq [of "unat b" n] by simp
      then show "byte_of (unat b div n * n + i) = b" by simp
    qed
    show "(\<lambda>q. byte_of (q * n + i)) ` {..<256 div n} \<subseteq> ?B"
      using assms(3) less u by auto
    show "(\<lambda>b. unat b div n) ` ?B \<subseteq> {..<256 div n}"
      using assms(1) by (auto simp: lim less_mult_imp_div_less)
  qed
  then have "card {..<256 div n} = card ?B" by (rule bij_betw_same_card)
  then show ?thesis by (simp only: card_lessThan)
qed

lemma base64_trim [simp]: "js_trim (uint8ArrayToBase64 bs) = uint8ArrayToBase64 bs"
proof -
  obtain t p where s: "uint8ArrayToBase64 bs = t @ padding p" "b64_text t" by (rule base64_shape)
  show ?thesis
    unfolding s(1)
    by (rule trim_no_space) (use b64_text_chars(4) [OF s(2)] in \<open>auto simp: list_all_iff is_space_def\<close>)
qed

section \<open>The codecs: one interface\<close>

text \<open>What the hashing and encryption modules rely on: decoding undoes encoding.\<close>

locale codec =
  fixes enc :: "'a \<Rightarrow> 'b" and dec :: "'b \<Rightarrow> 'e + 'a"
  assumes dec_enc [simp]: "dec (enc x) = Inr x"
begin

lemma enc_eq [simp]: "enc x = enc y \<longleftrightarrow> x = y"
  by (metis dec_enc sum.inject(2))

lemma dec_fails: "dec s = Inl e \<Longrightarrow> s \<noteq> enc x"
  by auto

end

interpretation hex: codec bytesToHex hexToBytes
  by unfold_locales (rule hex_roundtrip)

interpretation b64: codec uint8ArrayToBase64 base64ToUint8Array
  by unfold_locales (rule base64_roundtrip)

interpretation b64url: codec uint8ArrayToBase64Url base64UrlToUint8Array
  by unfold_locales (rule base64url_roundtrip)

section \<open>Properties\<close>

text \<open>Every binary codec of the program is lossless: what \<open>bytesToHex\<close>, \<open>uint8ArrayToBase64\<close>
  and \<open>uint8ArrayToBase64Url\<close> write, their decoders read back, for every buffer, and the decoder
  that guesses between Base64 and hexadecimal reads the Base64 text of a buffer of any length that
  it is not told to expect.\<close>

theorem codecs_roundtrip:
  "hexToBytes (bytesToHex bs) = Inr bs \<and>
   base64ToUint8Array (uint8ArrayToBase64 bs) = Inr bs \<and>
   base64UrlToUint8Array (uint8ArrayToBase64Url bs) = Inr bs \<and>
   decodeBase64OrHex (uint8ArrayToBase64 bs) None = Inr bs"
  by (simp add: decodeBase64OrHex_def)

text \<open>C38. The rejection sampler returns: if usable bytes keep coming, \<open>secureRandomString\<close> ends with
  exactly the requested number of characters, all from the alphabet, and the bytes it accepts fall
  on each character equally often (no modulo bias).\<close>

theorem random_string_returns:
  assumes "0 < len" "alphabet \<noteq> []" "length alphabet \<le> 256"
    and "\<And>k. \<exists>j\<ge>k. usable rnd (max_valid_byte (length alphabet)) j"
  shows "(\<exists>r. secureRandomString rnd len alphabet = Some (Inr r) \<and> length r = nat len \<and> set r \<subseteq> set alphabet) \<and>
         (\<forall>i<length alphabet. card {b :: byte. unat b < max_valid_byte (length alphabet)
            \<and> unat b mod length alphabet = i} = 256 div length alphabet)"
proof (intro conjI allI impI)
  show "\<exists>r. secureRandomString rnd len alphabet = Some (Inr r) \<and> length r = nat len \<and> set r \<subseteq> set alphabet"
    using random_loop_returns [OF assms(2, 4), of "[]" "nat len" "\<lambda>missing. max (missing * 2) 16" 0] assms(1, 2)
    by (auto simp: secureRandomString_def)
  show "card {b :: byte. unat b < max_valid_byte (length alphabet) \<and> unat b mod length alphabet = i}
      = 256 div length alphabet" if "i < length alphabet" for i
    using assms(3) that by (intro no_modulo_bias) auto
qed

theorem random_string_returns_witness:
  "\<exists>r. secureRandomString (\<lambda>_ _. 5) 3 ''ab'' = Some (Inr r) \<and> length r = nat 3 \<and> set r \<subseteq> set ''ab''"
proof -
  have "max_valid_byte (length ''ab'') = 256" by code_simp
  then have "usable (\<lambda>_ _. 5) (max_valid_byte (length ''ab'')) k" for k
    unfolding usable_def by (intro exI [of _ 0]) simp
  then show ?thesis
    by (intro random_string_returns [of 3 "''ab''" "\<lambda>_ _. 5", THEN conjunct1]) auto
qed

text \<open>An alphabet of more than 256 characters leaves no usable byte: the sampler never returns.\<close>

theorem random_string_stuck:
  assumes "0 < len" "256 < length alphabet"
  shows "secureRandomString rnd len alphabet = None"
  using assms random_loop_stuck [of alphabet "[]" "nat len" rnd "\<lambda>missing. max (missing * 2) 16" 0]
  by (auto simp: secureRandomString_def max_valid_byte_def)

end
