(* ===== verification/Crypto.thy ===== *)
theory Crypto
  imports Bytes KeyPool
begin

text \<open>
  \<open>src/crypto/hashing.ts\<close>, \<open>src/crypto/encryption/\<close>, \<open>src/constants/crypto.ts\<close>,
  \<open>src/durable_objects/crypto.ts\<close>, \<open>src/storage/repositories/api_keys/crypto.ts\<close> and
  \<open>src/worker/router/core/key_resolver.ts\<close>: hashes and their verification, authenticated encryption
  of provider keys, and the resolution of a stored key to its plaintext. The Web Crypto primitives
  are the record \<open>SubtleCrypto\<close>, an argument of everything that uses them; what is documented of
  them is \<open>subtle_ok\<close>. The type parameter is the platform's \<open>CryptoKey\<close>. Error messages are left out.
\<close>

record 'k SubtleCrypto =
  scDigest :: "bytes \<Rightarrow> bytes"
  scImportRaw :: "bytes \<Rightarrow> 'k"
  scDeriveHkdf :: "bytes \<Rightarrow> bytes \<Rightarrow> bytes \<Rightarrow> 'k"
  scEncrypt :: "'k \<Rightarrow> bytes \<Rightarrow> bytes \<Rightarrow> bytes option"
  scDecrypt :: "'k \<Rightarrow> bytes \<Rightarrow> bytes \<Rightarrow> bytes option"
  scHmac :: "bytes \<Rightarrow> bytes \<Rightarrow> bytes"

section \<open>Constants and masking (constants/crypto.ts)\<close>

definition ENCRYPTION_KEY_LENGTH :: nat where "ENCRYPTION_KEY_LENGTH = 256"

definition ENCRYPTION_KEY_LENGTH_BYTES :: nat where "ENCRYPTION_KEY_LENGTH_BYTES = 32"

definition NONCE_LENGTH_BYTES :: nat where "NONCE_LENGTH_BYTES = 12"

definition TAG_LENGTH_BYTES :: nat where "TAG_LENGTH_BYTES = 16"

definition KEY_MASK_PREFIX_LENGTH :: int where "KEY_MASK_PREFIX_LENGTH = 6"

definition KEY_MASK_SUFFIX_LENGTH :: int where "KEY_MASK_SUFFIX_LENGTH = 4"

definition isValidNonceLength :: "nat \<Rightarrow> bool" where
  "isValidNonceLength n \<longleftrightarrow> n = NONCE_LENGTH_BYTES"

definition isValidKeyLength :: "nat \<Rightarrow> bool" where
  "isValidKeyLength n \<longleftrightarrow> n = ENCRYPTION_KEY_LENGTH"

record MaskedKeyParts =
  mkPrefix :: string
  mkSuffix :: string
  mkMasked :: string

definition maskApiKey :: "string \<Rightarrow> int \<Rightarrow> int \<Rightarrow> MaskedKeyParts" where
  "maskApiKey key prefixLength suffixLength =
     (let n = int (length key) in
      if key = [] then \<lparr>mkPrefix = [], mkSuffix = [], mkMasked = []\<rparr>
      else if n \<le> prefixLength + suffixLength then
        (let prefix = js_slice key 0 (min prefixLength n)
         in \<lparr>mkPrefix = prefix, mkSuffix = [], mkMasked = prefix @ ''...''\<rparr>)
      else
        (let prefix = js_slice key 0 prefixLength; suffix = js_slice key (- suffixLength) n
         in \<lparr>mkPrefix = prefix, mkSuffix = suffix, mkMasked = prefix @ ''...'' @ suffix\<rparr>))"

section \<open>Hashing (hashing.ts)\<close>

definition SHA256_HEX_LENGTH :: nat where "SHA256_HEX_LENGTH = 64"

datatype HashInput = HashText string | HashBytes bytes | HashOther

definition normalizeHashInput :: "HashInput \<Rightarrow> crypto_error + bytes" where
  "normalizeHashInput input =
     (case input of HashText s \<Rightarrow> Inr (stringToBytes s) | HashBytes b \<Rightarrow> Inr b | HashOther \<Rightarrow> Inl TypeErr)"

definition sha256 :: "'k SubtleCrypto \<Rightarrow> HashInput \<Rightarrow> crypto_error + bytes" where
  "sha256 sc input = map_sum id (scDigest sc) (normalizeHashInput input)"

definition sha256Hex :: "'k SubtleCrypto \<Rightarrow> HashInput \<Rightarrow> crypto_error + string" where
  "sha256Hex sc input = map_sum id bytesToHex (sha256 sc input)"

definition sha256Base64 :: "'k SubtleCrypto \<Rightarrow> HashInput \<Rightarrow> crypto_error + string" where
  "sha256Base64 sc input = map_sum id uint8ArrayToBase64 (sha256 sc input)"

definition sha256Base64Url :: "'k SubtleCrypto \<Rightarrow> HashInput \<Rightarrow> crypto_error + string" where
  "sha256Base64Url sc input = map_sum id uint8ArrayToBase64Url (sha256 sc input)"

text \<open>A text always hashes.\<close>

definition hashToken :: "'k SubtleCrypto \<Rightarrow> string \<Rightarrow> string" where
  "hashToken sc token = bytesToHex (scDigest sc (stringToBytes token))"

definition hashApiKey :: "'k SubtleCrypto \<Rightarrow> string \<Rightarrow> string" where
  "hashApiKey sc apiKey = bytesToHex (scDigest sc (stringToBytes (js_trim apiKey)))"

definition hashWithSalt :: "'k SubtleCrypto \<Rightarrow> HashInput \<Rightarrow> bytes \<Rightarrow> crypto_error + string" where
  "hashWithSalt sc input salt =
     (case normalizeHashInput input of
        Inl e \<Rightarrow> Inl e
      | Inr dataBytes \<Rightarrow> sha256Hex sc (HashBytes (salt @ dataBytes)))"

definition hashFingerprint :: "'k SubtleCrypto \<Rightarrow> HashInput \<Rightarrow> int \<Rightarrow> crypto_error + string" where
  "hashFingerprint sc input len =
     (if len \<le> 0 \<or> int SHA256_HEX_LENGTH < len then Inl RangeErr
      else map_sum id (\<lambda>hex. js_slice hex 0 len) (sha256Hex sc input))"

definition is_hex_digest :: "string \<Rightarrow> bool" where
  "is_hex_digest s \<longleftrightarrow> length s = SHA256_HEX_LENGTH \<and> list_all is_hex s"

definition verifySha256 :: "'k SubtleCrypto \<Rightarrow> HashInput \<Rightarrow> string \<Rightarrow> crypto_error + bool" where
  "verifySha256 sc input expectedHash =
     (let cleanExpected = js_trim expectedHash in
      if is_hex_digest cleanExpected then
        map_sum id (\<lambda>actualHex. timingSafeEqualStrings actualHex (js_lower cleanExpected)) (sha256Hex sc input)
      else
        (case (sha256Base64 sc input, sha256Base64Url sc input) of
           (Inr actualB64, Inr actualB64Url) \<Rightarrow>
             Inr (timingSafeEqualStrings actualB64 cleanExpected
                  \<or> timingSafeEqualStrings actualB64Url cleanExpected)
         | (Inl e, _) \<Rightarrow> Inl e
         | (_, Inl e) \<Rightarrow> Inl e))"

definition verifyToken :: "'k SubtleCrypto \<Rightarrow> string \<Rightarrow> string \<Rightarrow> bool" where
  "verifyToken sc token expectedTokenHash =
     timingSafeEqualStrings (hashToken sc token) (js_trim (js_lower expectedTokenHash))"

definition hmacSha256 :: "'k SubtleCrypto \<Rightarrow> bytes \<Rightarrow> HashInput \<Rightarrow> crypto_error + bytes" where
  "hmacSha256 sc key input = map_sum id (scHmac sc key) (normalizeHashInput input)"

definition hmacSha256Hex :: "'k SubtleCrypto \<Rightarrow> bytes \<Rightarrow> HashInput \<Rightarrow> crypto_error + string" where
  "hmacSha256Hex sc key input = map_sum id bytesToHex (hmacSha256 sc key input)"

definition verifyHmacSha256 :: "'k SubtleCrypto \<Rightarrow> bytes \<Rightarrow> HashInput \<Rightarrow> string + bytes \<Rightarrow> crypto_error + bool" where
  "verifyHmacSha256 sc key input expectedMac =
     (case hmacSha256 sc key input of
        Inl e \<Rightarrow> Inl e
      | Inr actualMac \<Rightarrow>
          (case expectedMac of
             Inr expectedBytes \<Rightarrow> Inr (timingSafeEqual actualMac expectedBytes)
           | Inl s \<Rightarrow>
               (let cleanMac = js_trim s in
                if is_hex_digest cleanMac then
                  map_sum id (timingSafeEqual actualMac) (hexToBytes cleanMac)
                else
                  (case base64ToUint8Array cleanMac of
                     Inl _ \<Rightarrow> Inr False
                   | Inr expectedBytes \<Rightarrow> Inr (timingSafeEqual actualMac expectedBytes)))))"

section \<open>Keys (encryption/keys.ts)\<close>

datatype 'k KeyInput = Passphrase string | RawKey bytes | Imported 'k

definition deriveKey :: "'k SubtleCrypto \<Rightarrow> string + bytes \<Rightarrow> crypto_error + 'k" where
  "deriveKey sc secret =
     (case secret of
        Inl s \<Rightarrow> if length s = 0 then Inl EncryptionErr
                 else Inr (scImportRaw sc (scDigest sc (stringToBytes s)))
      | Inr b \<Rightarrow> if length b = 0 then Inl EncryptionErr else Inr (scImportRaw sc (scDigest sc b)))"

definition importRawKey :: "'k SubtleCrypto \<Rightarrow> bytes \<Rightarrow> crypto_error + 'k" where
  "importRawKey sc rawKey =
     (if length rawKey \<noteq> ENCRYPTION_KEY_LENGTH_BYTES then Inl EncryptionErr else Inr (scImportRaw sc rawKey))"

definition deriveTenantKey :: "'k SubtleCrypto \<Rightarrow> string + bytes \<Rightarrow> string \<Rightarrow> 'k" where
  "deriveTenantKey sc masterSecret tenantId =
     scDeriveHkdf sc (case masterSecret of Inl s \<Rightarrow> stringToBytes s | Inr b \<Rightarrow> b)
       (stringToBytes tenantId) (stringToBytes ''aes-256-gcm-key'')"

definition resolveKey :: "'k SubtleCrypto \<Rightarrow> 'k KeyInput \<Rightarrow> bool \<Rightarrow> crypto_error + 'k" where
  "resolveKey sc key isDecryption =
     (case key of
        Passphrase s \<Rightarrow>
          if length s = 0 then Inl (if isDecryption then DecryptionErr else EncryptionErr)
          else deriveKey sc (Inl s)
      | RawKey b \<Rightarrow>
          if length b = 0 then Inl (if isDecryption then DecryptionErr else EncryptionErr)
          else if length b = ENCRYPTION_KEY_LENGTH_BYTES then importRawKey sc b
          else deriveKey sc (Inr b)
      | Imported k \<Rightarrow> Inr k)"

definition importKeyFromBase64 :: "'k SubtleCrypto \<Rightarrow> string \<Rightarrow> crypto_error + 'k" where
  "importKeyFromBase64 sc s =
     (case base64ToUint8Array s of Inl e \<Rightarrow> Inl e | Inr raw \<Rightarrow> importRawKey sc raw)"

definition importKeyFromHex :: "'k SubtleCrypto \<Rightarrow> string \<Rightarrow> crypto_error + 'k" where
  "importKeyFromHex sc s =
     (case hexToUint8Array s of Inl e \<Rightarrow> Inl e | Inr raw \<Rightarrow> importRawKey sc raw)"

section \<open>AES-GCM (encryption/aes.ts)\<close>

definition generateNonce :: "random_source \<Rightarrow> nat \<Rightarrow> int \<Rightarrow> crypto_error + bytes" where
  "generateNonce rnd k len =
     (if len \<noteq> int NONCE_LENGTH_BYTES then Inl EncryptionErr else secureRandomBytes rnd k len)"

definition generateNonceB64 :: "random_source \<Rightarrow> nat \<Rightarrow> int \<Rightarrow> crypto_error + string" where
  "generateNonceB64 rnd k len = map_sum id uint8ArrayToBase64 (generateNonce rnd k len)"

datatype Plaintext = PlainText unicode | PlainBytes bytes

definition plain_bytes :: "Plaintext \<Rightarrow> bytes" where
  "plain_bytes p = (case p of PlainText t \<Rightarrow> textToBytes t | PlainBytes b \<Rightarrow> b)"

record EncryptedPayload =
  epCiphertext :: bytes
  epNonce :: bytes
  epCombined :: bytes
  epCiphertextB64 :: string
  epNonceB64 :: string
  epCombinedB64 :: string

definition encrypted_payload :: "bytes \<Rightarrow> bytes \<Rightarrow> EncryptedPayload" where
  "encrypted_payload iv ct =
     (let combined = iv @ ct
      in \<lparr>epCiphertext = ct, epNonce = iv, epCombined = combined,
          epCiphertextB64 = uint8ArrayToBase64 ct, epNonceB64 = uint8ArrayToBase64 iv,
          epCombinedB64 = uint8ArrayToBase64 combined\<rparr>)"

text \<open>\<open>k\<close> is the number of the random call, should a nonce be drawn.\<close>

definition encrypt ::
  "'k SubtleCrypto \<Rightarrow> random_source \<Rightarrow> nat \<Rightarrow> Plaintext \<Rightarrow> 'k KeyInput \<Rightarrow> bytes option \<Rightarrow>
   crypto_error + EncryptedPayload" where
  "encrypt sc rnd k plaintext key customNonce =
     (case (case customNonce of
              Some n \<Rightarrow> if length n \<noteq> NONCE_LENGTH_BYTES then Inl EncryptionErr else Inr n
            | None \<Rightarrow> generateNonce rnd k (int NONCE_LENGTH_BYTES)) of
        Inl e \<Rightarrow> Inl e
      | Inr iv \<Rightarrow>
          (case resolveKey sc key False of
             Inl e \<Rightarrow> Inl e
           | Inr cryptoKey \<Rightarrow>
               (case scEncrypt sc cryptoKey iv (plain_bytes plaintext) of
                  None \<Rightarrow> Inl EncryptionErr
                | Some ct \<Rightarrow> Inr (encrypted_payload iv ct))))"

text \<open>The formats that \<open>decrypt\<close> accepts: a pair, or one text or buffer with or without a nonce.\<close>

datatype DecryptionInput = InputPair "string + bytes" "string + bytes" | InputOne "string + bytes"

definition input_bytes :: "string + bytes \<Rightarrow> crypto_error + bytes" where
  "input_bytes x = (case x of Inl s \<Rightarrow> base64ToUint8Array s | Inr b \<Rightarrow> Inr b)"

definition both :: "crypto_error + 'a \<Rightarrow> crypto_error + 'b \<Rightarrow> crypto_error + 'a \<times> 'b" where
  "both x y = (case x of Inl e \<Rightarrow> Inl e | Inr a \<Rightarrow> (case y of Inl e \<Rightarrow> Inl e | Inr b \<Rightarrow> Inr (a, b)))"

definition parseDecryptionInput ::
  "DecryptionInput \<Rightarrow> (string + bytes) option \<Rightarrow> crypto_error + bytes \<times> bytes" where
  "parseDecryptionInput input nonceParam =
     (case input of
        InputPair c n \<Rightarrow> both (input_bytes c) (input_bytes n)
      | InputOne c \<Rightarrow>
          (case nonceParam of
             Some n \<Rightarrow> both (input_bytes c) (input_bytes n)
           | None \<Rightarrow>
               (case input_bytes c of
                  Inl e \<Rightarrow> Inl e
                | Inr combined \<Rightarrow>
                    if length combined < NONCE_LENGTH_BYTES + TAG_LENGTH_BYTES then Inl DecryptionErr
                    else Inr (drop NONCE_LENGTH_BYTES combined, take NONCE_LENGTH_BYTES combined))))"

definition decryptRaw ::
  "'k SubtleCrypto \<Rightarrow> DecryptionInput \<Rightarrow> 'k KeyInput \<Rightarrow> (string + bytes) option \<Rightarrow> crypto_error + bytes" where
  "decryptRaw sc input key nonceParam =
     (case resolveKey sc key True of
        Inl e \<Rightarrow> Inl e
      | Inr cryptoKey \<Rightarrow>
          (case parseDecryptionInput input nonceParam of
             Inl _ \<Rightarrow> Inl DecryptionErr
           | Inr (ct, iv) \<Rightarrow>
               if length iv \<noteq> NONCE_LENGTH_BYTES then Inl DecryptionErr
               else (case scDecrypt sc cryptoKey iv ct of
                       None \<Rightarrow> Inl DecryptionErr | Some p \<Rightarrow> Inr p)))"

text \<open>\<open>TextDecoder\<close> without \<open>fatal\<close>; \<open>lossy\<close> is what it makes of malformed UTF-8.\<close>

definition decode_text :: "(bytes \<Rightarrow> unicode) \<Rightarrow> bytes \<Rightarrow> unicode" where
  "decode_text lossy bs = (case bytesToString bs of Inr t \<Rightarrow> t | Inl _ \<Rightarrow> lossy bs)"

definition decrypt ::
  "'k SubtleCrypto \<Rightarrow> (bytes \<Rightarrow> unicode) \<Rightarrow> DecryptionInput \<Rightarrow> 'k KeyInput \<Rightarrow> (string + bytes) option \<Rightarrow>
   crypto_error + unicode" where
  "decrypt sc lossy input key nonceParam = map_sum id (decode_text lossy) (decryptRaw sc input key nonceParam)"

text \<open>\<open>EncryptionService\<close> keeps one imported key.\<close>

definition service_createForTenant :: "'k SubtleCrypto \<Rightarrow> string + bytes \<Rightarrow> string \<Rightarrow> 'k" where
  "service_createForTenant sc masterSecret tenantId = deriveTenantKey sc masterSecret tenantId"

definition service_encrypt ::
  "'k SubtleCrypto \<Rightarrow> random_source \<Rightarrow> nat \<Rightarrow> 'k \<Rightarrow> unicode \<Rightarrow> crypto_error + string \<times> string" where
  "service_encrypt sc rnd k key plaintext =
     (case generateNonce rnd k (int NONCE_LENGTH_BYTES) of
        Inl e \<Rightarrow> Inl e
      | Inr iv \<Rightarrow>
          map_sum id (\<lambda>r. (epCiphertextB64 r, epNonceB64 r))
            (encrypt sc rnd k (PlainText plaintext) (Imported key) (Some iv)))"

definition service_decrypt ::
  "'k SubtleCrypto \<Rightarrow> (bytes \<Rightarrow> unicode) \<Rightarrow> 'k \<Rightarrow> string \<Rightarrow> string \<Rightarrow> crypto_error + unicode" where
  "service_decrypt sc lossy key ct iv =
     (case both (decodeBase64OrHex iv (Some NONCE_LENGTH_BYTES)) (decodeBase64OrHex ct None) of
        Inl e \<Rightarrow> Inl e
      | Inr (nonceBytes, ciphertextBytes) \<Rightarrow>
          (case decryptRaw sc (InputOne (Inr ciphertextBytes)) (Imported key) (Some (Inr nonceBytes)) of
             Inr p \<Rightarrow> Inr (decode_text lossy p)
           | Inl _ \<Rightarrow>
               (let t = js_trim ct in
                if t \<noteq> [] \<and> list_all is_hex t \<and> length t mod 2 = 0 then
                  (case hexToUint8Array t of
                     Inl _ \<Rightarrow> Inl PlainErr
                   | Inr hexBytes \<Rightarrow>
                       (case decryptRaw sc (InputOne (Inr hexBytes)) (Imported key) (Some (Inr nonceBytes)) of
                          Inr p \<Rightarrow> Inr (decode_text lossy p)
                        | Inl _ \<Rightarrow> Inl PlainErr))
                else Inl PlainErr)))"

section \<open>Stored keys (durable\_objects/crypto.ts)\<close>

text \<open>The two environment variables are arguments; \<open>MASTER_KEY\<close> stands in for an unset or empty
  \<open>KC_MASTER_KEY\<close>.\<close>

definition resolveMasterKey ::
  "string option \<Rightarrow> string option \<Rightarrow> 'k KeyInput option \<Rightarrow> crypto_error + 'k KeyInput" where
  "resolveMasterKey envKc envMaster masterKey =
     (case masterKey of
        Some (Passphrase s) \<Rightarrow> if js_trim s = [] then Inl DecryptionErr else Inr (Passphrase s)
      | Some (RawKey b) \<Rightarrow> if length b = 0 then Inl DecryptionErr else Inr (RawKey b)
      | Some (Imported k) \<Rightarrow> Inr (Imported k)
      | None \<Rightarrow>
          (case (if truthy_str envKc then envKc else envMaster) of
             Some s \<Rightarrow> if js_trim s = [] then Inl DecryptionErr else Inr (Passphrase s)
           | None \<Rightarrow> Inl DecryptionErr))"

definition as_decryption_error :: "crypto_error + 'a \<Rightarrow> crypto_error + 'a" where
  "as_decryption_error r = (case r of Inl _ \<Rightarrow> Inl DecryptionErr | Inr x \<Rightarrow> Inr x)"

definition resolveCryptoKey :: "'k SubtleCrypto \<Rightarrow> 'k KeyInput \<Rightarrow> crypto_error + 'k" where
  "resolveCryptoKey sc key =
     (case key of
        Imported k \<Rightarrow> Inr k
      | Passphrase s \<Rightarrow> as_decryption_error (deriveKey sc (Inl s))
      | RawKey b \<Rightarrow> as_decryption_error
          (if length b = ENCRYPTION_KEY_LENGTH_BYTES then importRawKey sc b else deriveKey sc (Inr b)))"

definition validateNonce :: "string + bytes \<Rightarrow> bool" where
  "validateNonce n = (case input_bytes n of Inl _ \<Rightarrow> False | Inr b \<Rightarrow> isValidNonceLength (length b))"

definition decryptKeyRaw ::
  "'k SubtleCrypto \<Rightarrow> string option \<Rightarrow> string option \<Rightarrow> EncryptedKey \<Rightarrow> 'k KeyInput option \<Rightarrow>
   crypto_error + bytes" where
  "decryptKeyRaw sc envKc envMaster key masterKey =
     (if js_trim (ciphertext key) = [] then Inl DecryptionErr
      else if js_trim (nonce key) = [] then Inl DecryptionErr
      else (case base64ToUint8Array (nonce key) of
          Inl _ \<Rightarrow> Inl DecryptionErr
        | Inr nonceBytes \<Rightarrow>
            if length nonceBytes \<noteq> NONCE_LENGTH_BYTES then Inl DecryptionErr
            else (case base64ToUint8Array (ciphertext key) of
                Inl _ \<Rightarrow> Inl DecryptionErr
              | Inr ciphertextBytes \<Rightarrow>
                  if length ciphertextBytes < TAG_LENGTH_BYTES then Inl DecryptionErr
                  else (case resolveMasterKey envKc envMaster masterKey of
                      Inl e \<Rightarrow> Inl e
                    | Inr resolvedKey \<Rightarrow>
                        (case resolveCryptoKey sc resolvedKey of
                           Inl e \<Rightarrow> Inl e
                         | Inr cryptoKey \<Rightarrow>
                             (case scDecrypt sc cryptoKey nonceBytes ciphertextBytes of
                                None \<Rightarrow> Inl DecryptionErr
                              | Some p \<Rightarrow> Inr p))))))"

definition decryptKey ::
  "'k SubtleCrypto \<Rightarrow> string option \<Rightarrow> string option \<Rightarrow> EncryptedKey \<Rightarrow> 'k KeyInput option \<Rightarrow>
   crypto_error + unicode" where
  "decryptKey sc envKc envMaster key masterKey =
     (case decryptKeyRaw sc envKc envMaster key masterKey of
        Inl e \<Rightarrow> Inl e
      | Inr raw \<Rightarrow> as_decryption_error (bytesToString raw))"

text \<open>The overload with positional arguments.\<close>

definition ephemeral_key :: "string \<Rightarrow> string \<Rightarrow> EncryptedKey" where
  "ephemeral_key ct iv =
     \<lparr>keyId = ''ephemeral-key'', provider = ''unknown'', keyTenantId = Some ''ephemeral-tenant'',
      keyLabel = None, priority = None, status = None, keyRpmLimit = None, keyRpdLimit = None,
      circuitOpenUntil = None, lastUsedAt = None, ciphertext = ct, nonce = iv\<rparr>"

record EncryptKeyOptions =
  ekId :: "key_id option"
  ekNonce :: "(string + bytes) option"
  ekLabel :: "string option"
  ekPriority :: "int option"
  ekRpmLimit :: "int option"
  ekRpdLimit :: "int option"

definition encryptKey ::
  "'k SubtleCrypto \<Rightarrow> random_source \<Rightarrow> nat \<Rightarrow> string \<Rightarrow> string option \<Rightarrow> string option \<Rightarrow>
   Plaintext \<Rightarrow> string \<Rightarrow> string \<Rightarrow> 'k KeyInput option \<Rightarrow> EncryptKeyOptions \<Rightarrow> crypto_error + EncryptedKey" where
  "encryptKey sc rnd k uuid envKc envMaster plaintext tenantId prov masterKey opts =
     (if plaintext = PlainText [] then Inl EncryptionErr
      else if js_trim tenantId = [] then Inl InvalidKeyErr
      else if js_trim prov = [] then Inl InvalidKeyErr
      else (case (case ekNonce opts of
                    None \<Rightarrow> generateNonce rnd k (int NONCE_LENGTH_BYTES)
                  | Some n \<Rightarrow> input_bytes n) of
          Inl e \<Rightarrow> Inl e
        | Inr nonceBytes \<Rightarrow>
            if length nonceBytes \<noteq> NONCE_LENGTH_BYTES then Inl EncryptionErr
            else (case resolveMasterKey envKc envMaster masterKey of
                Inl e \<Rightarrow> Inl e
              | Inr resolvedKey \<Rightarrow>
                  (case resolveCryptoKey sc resolvedKey of
                     Inl e \<Rightarrow> Inl e
                   | Inr cryptoKey \<Rightarrow>
                       (case scEncrypt sc cryptoKey nonceBytes (plain_bytes plaintext) of
                          None \<Rightarrow> Inl EncryptionErr
                        | Some ciphertextBytes \<Rightarrow>
                            Inr \<lparr>keyId = first_some (ekId opts) (''key_'' @ prov @ ''_'' @ take 8 uuid),
                                 provider = prov, keyTenantId = Some tenantId, keyLabel = ekLabel opts,
                                 priority = Some (first_some (ekPriority opts) 100),
                                 status = Some ''active'', keyRpmLimit = ekRpmLimit opts,
                                 keyRpdLimit = ekRpdLimit opts, circuitOpenUntil = None,
                                 lastUsedAt = None, ciphertext = uint8ArrayToBase64 ciphertextBytes,
                                 nonce = uint8ArrayToBase64 nonceBytes\<rparr>)))))"

section \<open>Keys at rest (api\_keys/crypto.ts)\<close>

definition resolveMasterKeyForEncryption ::
  "'k KeyInput option \<Rightarrow> 'k KeyInput option \<Rightarrow> crypto_error + 'k KeyInput" where
  "resolveMasterKeyForEncryption masterKey overrideKey =
     (case (case overrideKey of None \<Rightarrow> masterKey | k \<Rightarrow> k) of
        None \<Rightarrow> Inl EncryptionErr
      | Some key \<Rightarrow> if key = Passphrase [] then Inl EncryptionErr else Inr key)"

definition resolveMasterKeyForDecryption ::
  "'k KeyInput option \<Rightarrow> 'k KeyInput option \<Rightarrow> crypto_error + 'k KeyInput" where
  "resolveMasterKeyForDecryption masterKey overrideKey =
     (case (case overrideKey of None \<Rightarrow> masterKey | k \<Rightarrow> k) of
        None \<Rightarrow> Inl DecryptionErr
      | Some key \<Rightarrow> if key = Passphrase [] then Inl DecryptionErr else Inr key)"

record EncryptedParts =
  epKeyB64 :: string
  epKeyNonceB64 :: string
  epPrefix :: string
  epSuffix :: string

definition encryptPlaintextKey ::
  "'k SubtleCrypto \<Rightarrow> random_source \<Rightarrow> nat \<Rightarrow> string \<Rightarrow> string \<Rightarrow> string + bytes \<Rightarrow>
   crypto_error + EncryptedParts" where
  "encryptPlaintextKey sc rnd k plaintextKey tenantId masterKeySecret =
     (let tenantKey = deriveTenantKey sc masterKeySecret tenantId in
      case encrypt sc rnd k (PlainText (map of_char plaintextKey)) (Imported tenantKey) None of
        Inl e \<Rightarrow> Inl e
      | Inr encrypted \<Rightarrow>
          (let masked = maskApiKey plaintextKey KEY_MASK_PREFIX_LENGTH KEY_MASK_SUFFIX_LENGTH
           in Inr \<lparr>epKeyB64 = epCiphertextB64 encrypted, epKeyNonceB64 = epNonceB64 encrypted,
                   epPrefix = mkPrefix masked, epSuffix = mkSuffix masked\<rparr>))"

definition validatePreEncryptedNonce :: "string \<Rightarrow> crypto_error + unit" where
  "validatePreEncryptedNonce nonceB64 =
     (case base64ToUint8Array nonceB64 of
        Inl _ \<Rightarrow> Inl InvalidKeyErr
      | Inr b \<Rightarrow> if isValidNonceLength (length b) then Inr () else Inl InvalidKeyErr)"

definition decryptApiKeyRecord ::
  "'k SubtleCrypto \<Rightarrow> (bytes \<Rightarrow> unicode) \<Rightarrow> string \<Rightarrow> string \<Rightarrow> string \<Rightarrow> string + bytes \<Rightarrow>
   crypto_error + unicode" where
  "decryptApiKeyRecord sc lossy tenantId encryptedKeyB64 nonceB64 masterKeySecret =
     as_decryption_error
       (decrypt sc lossy (InputPair (Inl encryptedKeyB64) (Inl nonceB64))
          (Imported (deriveTenantKey sc masterKeySecret tenantId)) None)"

section \<open>Resolution of a stored key (key\_resolver.ts)\<close>

text \<open>The strings of the model end at code point 255; a decrypted key is read as one of them.\<close>

definition string_of_text :: "unicode \<Rightarrow> string" where
  "string_of_text t = map char_of t"

record StoredKey =
  skEncryptedKey :: string
  skNonce :: string
  skTenant :: string

text \<open>\<open>select i\<close> is the row of the \<open>SELECT\<close> by identifier, \<open>None\<close> for no row, a failed query or no
  database; the cache maps an identifier to a plaintext and its expiry.\<close>

definition CACHE_TTL_MS :: int where "CACHE_TTL_MS = 5 * 60 * 1000"

definition starts_with :: "string \<Rightarrow> string \<Rightarrow> bool" where
  "starts_with p s \<longleftrightarrow> take (length p) s = p"

definition looks_plaintext :: "string \<Rightarrow> bool" where
  "looks_plaintext t \<longleftrightarrow>
     starts_with ''AIza'' t \<or> starts_with ''gsk_'' t \<or> starts_with ''sk-'' t \<or>
     (\<not> starts_with ''key_'' t \<and> length t > 30 \<and> CHR '' '' \<notin> set t)"

text \<open>One attempt: a decryption that throws or yields only white space falls through.\<close>

definition usable_key :: "crypto_error + unicode \<Rightarrow> string option" where
  "usable_key r =
     (case r of
        Inl _ \<Rightarrow> None
      | Inr t \<Rightarrow> let s = js_trim (string_of_text t) in if s = [] then None else Some s)"

definition decrypt_stored ::
  "'k SubtleCrypto \<Rightarrow> (bytes \<Rightarrow> unicode) \<Rightarrow> string \<Rightarrow> string \<Rightarrow> StoredKey \<Rightarrow> string option" where
  "decrypt_stored sc lossy masterKey tenantId row =
     usable_key (decrypt sc lossy (InputPair (Inl (skEncryptedKey row)) (Inl (skNonce row)))
       (Imported (deriveTenantKey sc (Inl masterKey) tenantId)) None)"

definition stored_plaintext ::
  "'k SubtleCrypto \<Rightarrow> (bytes \<Rightarrow> unicode) \<Rightarrow> string \<Rightarrow> string \<Rightarrow> StoredKey \<Rightarrow> string option" where
  "stored_plaintext sc lossy masterKey tenantId row =
     (case (if skTenant row \<noteq> [] then decrypt_stored sc lossy masterKey (skTenant row) row else None) of
        Some s \<Rightarrow> Some s
      | None \<Rightarrow>
          (case (if tenantId \<noteq> [] \<and> tenantId \<noteq> skTenant row
                 then decrypt_stored sc lossy masterKey tenantId row else None) of
             Some s \<Rightarrow> Some s
           | None \<Rightarrow>
               (case usable_key (decryptKey sc None None (ephemeral_key (skEncryptedKey row) (skNonce row))
                       (Some (Passphrase masterKey))) of
                  Some s \<Rightarrow> Some s
                | None \<Rightarrow> decrypt_stored sc lossy masterKey ''default'' row)))"

type_synonym key_cache = "string \<rightharpoonup> string \<times> timestamp"

definition resolve_stored ::
  "'k SubtleCrypto \<Rightarrow> (bytes \<Rightarrow> unicode) \<Rightarrow> timestamp \<Rightarrow> (string \<Rightarrow> StoredKey option) \<Rightarrow> string option \<Rightarrow>
   string \<Rightarrow> string \<Rightarrow> key_cache \<Rightarrow> string \<times> key_cache" where
  "resolve_stored sc lossy now select masterKey trimmed tenantId cache =
     (case masterKey of
        None \<Rightarrow> (trimmed, cache)
      | Some mk \<Rightarrow>
          if mk = [] then (trimmed, cache)
          else (case select trimmed of
              None \<Rightarrow> (trimmed, cache)
            | Some row \<Rightarrow>
                if skEncryptedKey row = [] \<or> skNonce row = [] then (trimmed, cache)
                else (case stored_plaintext sc lossy mk tenantId row of
                    Some s \<Rightarrow> (s, cache(trimmed \<mapsto> (s, now + CACHE_TTL_MS)))
                  | None \<Rightarrow> (trimmed, cache))))"

definition resolvePlaintextKey ::
  "'k SubtleCrypto \<Rightarrow> (bytes \<Rightarrow> unicode) \<Rightarrow> timestamp \<Rightarrow> (string \<Rightarrow> StoredKey option) \<Rightarrow> string option \<Rightarrow>
   string \<Rightarrow> string \<Rightarrow> key_cache \<Rightarrow> string \<times> key_cache" where
  "resolvePlaintextKey sc lossy now select masterKey keyIdOrPlaintext tenantId cache =
     (let trimmed = js_trim keyIdOrPlaintext in
      if keyIdOrPlaintext = [] then (keyIdOrPlaintext, cache)
      else if looks_plaintext trimmed then (trimmed, cache)
      else (case cache trimmed of
          Some (key, expiresAt) \<Rightarrow>
            if expiresAt > now then (key, cache)
            else resolve_stored sc lossy now select masterKey trimmed tenantId cache
        | None \<Rightarrow> resolve_stored sc lossy now select masterKey trimmed tenantId cache))"

section \<open>What is documented of the platform\<close>

text \<open>SHA-256 has 32 bytes; AES-GCM under a 12-byte nonce appends a tag of 16 bytes and decrypts what
  it encrypted.\<close>

definition subtle_ok :: "'k SubtleCrypto \<Rightarrow> bool" where
  "subtle_ok sc \<longleftrightarrow>
     (\<forall>d. length (scDigest sc d) = 32) \<and>
     (\<forall>k iv p. length iv = NONCE_LENGTH_BYTES \<longrightarrow>
        (\<exists>c. scEncrypt sc k iv p = Some c \<and> length c = length p + TAG_LENGTH_BYTES \<and> scDecrypt sc k iv c = Some p))"

lemma subtle_digest: "subtle_ok sc \<Longrightarrow> length (scDigest sc d) = 32"
  by (simp add: subtle_ok_def)

lemma subtle_box:
  assumes "subtle_ok sc" "length iv = NONCE_LENGTH_BYTES" "scEncrypt sc k iv p = Some c"
  shows "length c = length p + TAG_LENGTH_BYTES" "scDecrypt sc k iv c = Some p"
proof -
  obtain c' where "scEncrypt sc k iv p = Some c'" "length c' = length p + TAG_LENGTH_BYTES"
    "scDecrypt sc k iv c' = Some p"
    using assms(1, 2) unfolding subtle_ok_def by blast
  with assms(3) show "length c = length p + TAG_LENGTH_BYTES" "scDecrypt sc k iv c = Some p" by simp_all
qed

lemmas length_defs = NONCE_LENGTH_BYTES_def TAG_LENGTH_BYTES_def ENCRYPTION_KEY_LENGTH_BYTES_def

text \<open>A toy cipher with these laws: the tag is the key.\<close>

definition toy_tag :: "bytes \<Rightarrow> bytes" where
  "toy_tag k = take 16 (k @ replicate 16 0)"

definition toy_subtle :: "bytes SubtleCrypto" where
  "toy_subtle =
     \<lparr>scDigest = (\<lambda>d. take 32 (d @ replicate 32 0)), scImportRaw = (\<lambda>b. b),
      scDeriveHkdf = (\<lambda>master salt info. salt @ master),
      scEncrypt = (\<lambda>k iv p. Some (p @ toy_tag k)),
      scDecrypt = (\<lambda>k iv c. if drop (length c - 16) c = toy_tag k then Some (take (length c - 16) c) else None),
      scHmac = (\<lambda>k d. k @ d)\<rparr>"

lemma toy_subtle_ok: "subtle_ok toy_subtle"
  by (auto simp: subtle_ok_def toy_subtle_def toy_tag_def length_defs min_def)

section \<open>Lemmas: Base64 text as the modules use it\<close>

lemma base64_length: "length (uint8ArrayToBase64 bs) = (length bs + 2) div 3 * 4"
proof -
  have "length (btoa ns) = (length ns + 2) div 3 * 4" for ns
  proof (induction ns rule: btoa.induct)
    case (4 a b c r)
    have "(length (a # b # c # r) + 2) div 3 = (length r + 2 + 3) div 3" by simp
    also have "\<dots> = (length r + 2) div 3 + 1" by (simp only: div_add_self2)
    finally show ?case using 4 by simp
  qed auto
  then show ?thesis by (simp add: uint8ArrayToBase64_def)
qed

lemma base64_empty [simp]: "uint8ArrayToBase64 bs = [] \<longleftrightarrow> bs = []"
  using base64_length [of bs] by (cases bs) (auto simp: uint8ArrayToBase64_def)

lemma input_bytes_simps [simp]: "input_bytes (Inl (uint8ArrayToBase64 bs)) = Inr bs" "input_bytes (Inr bs) = Inr bs"
  by (simp_all add: input_bytes_def)

lemma decode_text_bytes:
  "list_all scalar t \<Longrightarrow> t = [] \<or> hd t \<noteq> 0xFEFF \<Longrightarrow> decode_text lossy (textToBytes t) = t"
  by (simp add: decode_text_def utf8_roundtrip)

lemma generateNonce_Inr: "generateNonce rnd k n = Inr iv \<Longrightarrow> length iv = NONCE_LENGTH_BYTES"
  by (auto simp: generateNonce_def secureRandomBytes_def length_defs split: if_splits)

lemma encrypt_Inr:
  assumes "encrypt sc rnd k plaintext key customNonce = Inr r"
  obtains iv cryptoKey ct where "length iv = NONCE_LENGTH_BYTES" "resolveKey sc key False = Inr cryptoKey"
    "scEncrypt sc cryptoKey iv (plain_bytes plaintext) = Some ct" "r = encrypted_payload iv ct"
  using assms
  by (auto simp: encrypt_def split: option.splits sum.splits if_splits dest: generateNonce_Inr)

lemma decrypt_imported:
  assumes "subtle_ok sc" "encrypt sc rnd k (PlainText t) (Imported key) customNonce = Inr r"
    and "list_all scalar t" "t = [] \<or> hd t \<noteq> 0xFEFF"
  shows "decrypt sc lossy (InputPair (Inl (epCiphertextB64 r)) (Inl (epNonceB64 r))) (Imported key) None = Inr t"
  using assms(2)
proof (rule encrypt_Inr)
  fix iv cryptoKey ct
  assume *: "length iv = NONCE_LENGTH_BYTES" "resolveKey sc (Imported key) False = Inr cryptoKey"
    "scEncrypt sc cryptoKey iv (plain_bytes (PlainText t)) = Some ct" "r = encrypted_payload iv ct"
  then have "cryptoKey = key" by (simp add: resolveKey_def)
  with * subtle_box [OF assms(1) *(1, 3)] decode_text_bytes [OF assms(3, 4)] show ?thesis
    by (simp add: decrypt_def decryptRaw_def resolveKey_def parseDecryptionInput_def both_def
        encrypted_payload_def Let_def plain_bytes_def)
qed

section \<open>Properties: encryption\<close>

definition no_key_options :: EncryptKeyOptions where
  "no_key_options = \<lparr>ekId = None, ekNonce = None, ekLabel = None, ekPriority = None,
     ekRpmLimit = None, ekRpdLimit = None\<rparr>"

lemma encryptKey_Inr:
  assumes "encryptKey sc rnd k uuid envKc envMaster plaintext tenantId prov masterKey opts = Inr key"
  obtains nonceBytes mk cryptoKey ct where "length nonceBytes = NONCE_LENGTH_BYTES"
    "resolveMasterKey envKc envMaster masterKey = Inr mk" "resolveCryptoKey sc mk = Inr cryptoKey"
    "scEncrypt sc cryptoKey nonceBytes (plain_bytes plaintext) = Some ct"
    "ciphertext key = uint8ArrayToBase64 ct" "nonce key = uint8ArrayToBase64 nonceBytes"
    "keyTenantId key = Some tenantId" "js_trim tenantId \<noteq> []"
  using assms by (auto simp: encryptKey_def split: if_splits sum.splits option.splits)

text \<open>What \<open>encryptKey\<close> stores, \<open>decryptKey\<close> recovers: under the same master key the record it
  returns decrypts to the plaintext, its nonce has 12 bytes and it belongs to the tenant given, for
  every text that does not begin with a byte order mark.\<close>

theorem encrypted_key_roundtrip:
  assumes "subtle_ok sc" "list_all scalar t" "hd t \<noteq> 0xFEFF"
    and "encryptKey sc rnd k uuid envKc envMaster (PlainText t) tenantId prov masterKey opts = Inr key"
  shows "decryptKey sc envKc envMaster key masterKey = Inr t \<and> validateNonce (Inl (nonce key)) \<and>
         keyTenantId key = Some tenantId"
  using assms(4)
proof (rule encryptKey_Inr)
  fix nonceBytes mk cryptoKey ct
  assume *: "length nonceBytes = NONCE_LENGTH_BYTES"
    "resolveMasterKey envKc envMaster masterKey = Inr mk" "resolveCryptoKey sc mk = Inr cryptoKey"
    "scEncrypt sc cryptoKey nonceBytes (plain_bytes (PlainText t)) = Some ct"
    "ciphertext key = uint8ArrayToBase64 ct" "nonce key = uint8ArrayToBase64 nonceBytes"
    "keyTenantId key = Some tenantId"
  note box = subtle_box [OF assms(1) *(1, 4)]
  have "ct \<noteq> []" "nonceBytes \<noteq> []" "\<not> length ct < TAG_LENGTH_BYTES"
    using box(1) *(1) by (auto simp: length_defs)
  with * box(2) have "decryptKeyRaw sc envKc envMaster key masterKey = Inr (plain_bytes (PlainText t))"
    by (simp add: decryptKeyRaw_def)
  moreover have "bytesToString (plain_bytes (PlainText t)) = Inr t"
    using assms(2, 3) by (simp add: plain_bytes_def utf8_roundtrip)
  ultimately show ?thesis
    using * by (simp add: decryptKey_def as_decryption_error_def validateNonce_def isValidNonceLength_def)
qed

theorem encrypted_key_roundtrip_witness:
  "\<exists>key. encryptKey toy_subtle (\<lambda>_ _. 7) 0 ''12345678-9'' None None (PlainText [115, 107, 233]) ''acme'' ''openai''
       (Some (Passphrase ''secret'')) no_key_options = Inr key \<and>
     decryptKey toy_subtle None None key (Some (Passphrase ''secret'')) = Inr [115, 107, 233]"
proof -
  let ?e = "encryptKey toy_subtle (\<lambda>_ _. 7) 0 ''12345678-9'' None None (PlainText [115, 107, 233]) ''acme'' ''openai''
       (Some (Passphrase ''secret'')) no_key_options"
  have "js_trim ''acme'' \<noteq> []" "js_trim ''openai'' \<noteq> []" "js_trim ''secret'' \<noteq> []" by code_simp+
  then obtain key where "?e = Inr key"
    by (simp add: encryptKey_def no_key_options_def generateNonce_def secureRandomBytes_def length_defs
        resolveMasterKey_def resolveCryptoKey_def deriveKey_def as_decryption_error_def toy_subtle_def)
  with encrypted_key_roundtrip [OF toy_subtle_ok, of "[115, 107, 233]" "\<lambda>_ _. 7" 0 "''12345678-9''" None None
      "''acme''" "''openai''" "Some (Passphrase ''secret'')" no_key_options key]
  show ?thesis by (simp add: scalar_def)
qed

text \<open>Decryption of a stored key fails in one way only: whatever is wrong (an empty or malformed
  ciphertext or nonce, a nonce that is not 12 bytes, a missing tag, no master key, a failed
  authentication, text that is not UTF-8) the error is a \<open>DecryptionError\<close>; and it succeeds only on a
  record whose nonce decodes to 12 bytes.\<close>

theorem decrypt_key_errors:
  assumes "decryptKey sc envKc envMaster key masterKey = r"
  shows "r = Inl DecryptionErr \<or> (\<exists>t. r = Inr t \<and> validateNonce (Inl (nonce key)))"
proof -
  have master: "resolveMasterKey envKc envMaster masterKey = Inl e \<Longrightarrow> e = DecryptionErr" for e
    by (auto simp: resolveMasterKey_def split: option.splits KeyInput.splits if_splits)
  have crypto: "resolveCryptoKey sc mk = Inl e \<Longrightarrow> e = DecryptionErr" for mk e
    by (auto simp: resolveCryptoKey_def as_decryption_error_def split: KeyInput.splits sum.splits)
  have "decryptKeyRaw sc envKc envMaster key masterKey = Inl DecryptionErr \<or>
      (\<exists>p. decryptKeyRaw sc envKc envMaster key masterKey = Inr p) \<and> validateNonce (Inl (nonce key))"
    using master crypto
    by (auto simp: decryptKeyRaw_def validateNonce_def input_bytes_def isValidNonceLength_def
        split: sum.splits option.splits)
  then show ?thesis
  proof
    assume "decryptKeyRaw sc envKc envMaster key masterKey = Inl DecryptionErr"
    with assms show ?thesis by (simp add: decryptKey_def)
  next
    assume "(\<exists>p. decryptKeyRaw sc envKc envMaster key masterKey = Inr p) \<and> validateNonce (Inl (nonce key))"
    then obtain p where p: "decryptKeyRaw sc envKc envMaster key masterKey = Inr p" "validateNonce (Inl (nonce key))"
      by blast
    with assms show ?thesis
      by (cases "bytesToString p") (auto simp: decryptKey_def as_decryption_error_def)
  qed
qed

theorem decrypt_key_errors_witness:
  "\<exists>r. decryptKey toy_subtle None None (ephemeral_key ''AAAA'' ''AAAA'') None = r \<and>
     (r = Inl DecryptionErr \<or> (\<exists>t. r = Inr t \<and> validateNonce (Inl (nonce (ephemeral_key ''AAAA'' ''AAAA'')))))"
  using decrypt_key_errors [OF refl, of toy_subtle None None "ephemeral_key ''AAAA'' ''AAAA''" None] by blast

section \<open>Properties: resolution of stored keys\<close>

lemma string_of_text [simp]: "string_of_text (map of_char s) = s"
  by (simp add: string_of_text_def comp_def)

lemma stored_first:
  assumes "subtle_ok sc" "encryptPlaintextKey sc rnd k plain tenant (Inl mk) = Inr parts"
    and "js_trim plain \<noteq> []"
  shows "decrypt_stored sc lossy mk tenant
           \<lparr>skEncryptedKey = epKeyB64 parts, skNonce = epKeyNonceB64 parts, skTenant = tenant'\<rparr> = Some (js_trim plain)"
    and "epKeyB64 parts \<noteq> []" "epKeyNonceB64 parts \<noteq> []"
proof -
  let ?k = "deriveTenantKey sc (Inl mk) tenant"
  obtain r where r: "encrypt sc rnd k (PlainText (map of_char plain)) (Imported ?k) None = Inr r"
    "epKeyB64 parts = epCiphertextB64 r" "epKeyNonceB64 parts = epNonceB64 r"
    using assms(2) by (auto simp: encryptPlaintextKey_def Let_def split: sum.splits)
  from decrypt_imported [OF assms(1) r(1) string_scalar] assms(3) r(2, 3)
  show "decrypt_stored sc lossy mk tenant
      \<lparr>skEncryptedKey = epKeyB64 parts, skNonce = epKeyNonceB64 parts, skTenant = tenant'\<rparr> = Some (js_trim plain)"
    by (simp add: decrypt_stored_def usable_key_def Let_def)
  from r(1) obtain iv c ct where "length iv = NONCE_LENGTH_BYTES" "r = encrypted_payload iv ct"
    "scEncrypt sc c iv (plain_bytes (PlainText (map of_char plain))) = Some ct"
    by (rule encrypt_Inr)
  moreover from this have "ct \<noteq> []" "iv \<noteq> []"
    using subtle_box(1) [OF assms(1)] by (fastforce simp: length_defs)+
  ultimately show "epKeyB64 parts \<noteq> []" "epKeyNonceB64 parts \<noteq> []"
    using r(2, 3) by (simp_all add: encrypted_payload_def Let_def)
qed

text \<open>A key stored by \<open>encryptPlaintextKey\<close> for one tenant resolves, by its identifier, to its
  (trimmed) plaintext for every caller, whatever tenant the caller names; and for five minutes the
  same answer is served from memory to any caller, whatever has become of the stored row.\<close>

theorem stored_key_resolves_for_anyone:
  assumes "subtle_ok sc" "encryptPlaintextKey sc rnd k plain tenant (Inl mk) = Inr parts"
    and "tenant \<noteq> []" "mk \<noteq> []" "js_trim plain \<noteq> []"
    and "js_trim i = i" "i \<noteq> []" "\<not> looks_plaintext i" "cache i = None"
    and "select i = Some \<lparr>skEncryptedKey = epKeyB64 parts, skNonce = epKeyNonceB64 parts, skTenant = tenant\<rparr>"
    and "now' < now + CACHE_TTL_MS"
    and "resolvePlaintextKey sc lossy now select (Some mk) i caller cache = (answer, cache')"
  shows "answer = js_trim plain \<and>
         resolvePlaintextKey sc lossy now' select' mk' i caller' cache' = (js_trim plain, cache')"
  using assms stored_first [OF assms(1, 2, 5)]
  by (auto simp: resolvePlaintextKey_def resolve_stored_def stored_plaintext_def Let_def)

definition toy_parts :: EncryptedParts where
  "toy_parts = \<lparr>epKeyB64 = uint8ArrayToBase64 (stringToBytes ''sk-0123456789'' @ toy_tag (stringToBytes ''acmemk'')),
     epKeyNonceB64 = uint8ArrayToBase64 (replicate 12 7), epPrefix = ''sk-012'', epSuffix = ''6789''\<rparr>"

lemma toy_stored: "encryptPlaintextKey toy_subtle (\<lambda>_ _. 7) 0 ''sk-0123456789'' ''acme'' (Inl ''mk'') = Inr toy_parts"
  by code_simp

theorem stored_key_resolves_for_anyone_witness:
  "\<exists>cache'. resolvePlaintextKey toy_subtle (\<lambda>_. []) 0
       [''key_1'' \<mapsto> \<lparr>skEncryptedKey = epKeyB64 toy_parts, skNonce = epKeyNonceB64 toy_parts, skTenant = ''acme''\<rparr>]
       (Some ''mk'') ''key_1'' ''rival'' Map.empty = (''sk-0123456789'', cache') \<and>
     resolvePlaintextKey toy_subtle (\<lambda>_. []) 60000 Map.empty None ''key_1'' ''rival'' cache' = (''sk-0123456789'', cache')"
proof -
  let ?sel = "[''key_1'' \<mapsto> \<lparr>skEncryptedKey = epKeyB64 toy_parts, skNonce = epKeyNonceB64 toy_parts, skTenant = ''acme''\<rparr>]"
  obtain a c where ac: "resolvePlaintextKey toy_subtle (\<lambda>_. []) 0 ?sel (Some ''mk'') ''key_1'' ''rival'' Map.empty = (a, c)"
    by fastforce
  have trim: "js_trim ''sk-0123456789'' = ''sk-0123456789''" "js_trim ''key_1'' = ''key_1''" "\<not> looks_plaintext ''key_1''"
    by code_simp+
  have "a = js_trim ''sk-0123456789'' \<and>
      resolvePlaintextKey toy_subtle (\<lambda>_. []) 60000 Map.empty None ''key_1'' ''rival'' c = (js_trim ''sk-0123456789'', c)"
    by (rule stored_key_resolves_for_anyone [OF toy_subtle_ok toy_stored _ _ _ _ _ _ _ _ _ ac])
      (use trim in \<open>simp_all add: CACHE_TTL_MS_def\<close>)
  with ac trim show ?thesis by auto
qed

section \<open>Properties: hashes and masks\<close>

lemma timingSafeEqualStrings_eq [simp]: "timingSafeEqualStrings a b \<longleftrightarrow> a = b"
  by (simp add: timingSafeEqualStrings_def stringToBytes_eq)

lemma base64url_length: "length bs = 32 \<Longrightarrow> length (uint8ArrayToBase64Url bs) \<le> 44"
proof -
  assume "length bs = 32"
  then have "length (uint8ArrayToBase64 bs) = 44" by (simp add: base64_length)
  moreover have "length (uint8ArrayToBase64Url bs) \<le> length (uint8ArrayToBase64 bs)"
    using length_dropWhile_le [of "\<lambda>c. c = CHR ''=''" "rev (map to_url_char (uint8ArrayToBase64 bs))"]
    by (simp add: uint8ArrayToBase64Url_def)
  ultimately show ?thesis by simp
qed

lemma base64_codes_agree: "uint8ArrayToBase64Url x = uint8ArrayToBase64 y \<Longrightarrow> x = y"
  using base64url_roundtrip [of x] base64_roundtrip [of y] by (simp add: base64UrlToUint8Array_def)

lemma hex_lower [simp]: "js_lower (bytesToHex bs) = bytesToHex bs"
  using bytes_hex_pairs [of "bytesToHex bs"] by (simp add: hex_chars hex_length hex_pairs_bytes)

text \<open>\<open>verifySha256\<close> accepts a digest in each encoding the program writes (hexadecimal, Base64 and
  Base64 for URLs) exactly when it is the digest of the data, and \<open>verifyToken\<close> accepts the stored
  hash of a token exactly when the digests agree.\<close>

theorem verify_sha256_exact:
  assumes "subtle_ok sc" "length d = 32" "normalizeHashInput input = Inr bs"
  shows "verifySha256 sc input (bytesToHex d) = Inr (scDigest sc bs = d) \<and>
         verifySha256 sc input (uint8ArrayToBase64 d) = Inr (scDigest sc bs = d) \<and>
         verifySha256 sc input (uint8ArrayToBase64Url d) = Inr (scDigest sc bs = d) \<and>
         verifyToken sc token (bytesToHex d) = (scDigest sc (stringToBytes token) = d)"
proof -
  note h = hex_trim [OF hex_chars]
  have n: "\<not> is_hex_digest (uint8ArrayToBase64 d)" "\<not> is_hex_digest (uint8ArrayToBase64Url d)"
    using assms(2) base64url_length [OF assms(2)]
    by (auto simp: is_hex_digest_def SHA256_HEX_LENGTH_def base64_length)
  have y: "is_hex_digest (bytesToHex d)"
    using assms(2) by (simp add: is_hex_digest_def SHA256_HEX_LENGTH_def hex_length hex_chars)
  show ?thesis
    using assms(3) n y base64_codes_agree
    by (auto simp: verifySha256_def sha256Hex_def sha256Base64_def sha256Base64Url_def sha256_def h
        verifyToken_def hashToken_def Let_def dest: sym)
qed

theorem verify_sha256_exact_witness:
  "verifySha256 toy_subtle (HashText ''abc'') (bytesToHex (take 32 ([97, 98, 99] @ replicate 32 0))) = Inr True"
proof -
  have "scDigest toy_subtle (stringToBytes ''abc'') = take 32 ([97, 98, 99] @ replicate 32 0)" by code_simp
  with verify_sha256_exact [OF toy_subtle_ok, of "take 32 ([97, 98, 99] @ replicate 32 0)" "HashText ''abc''"
      "stringToBytes ''abc''" "''abc''"]
  show ?thesis by (simp add: normalizeHashInput_def)
qed

text \<open>A masked key shows its first six and last four characters and nothing else.\<close>

lemma mask_default:
  "10 < length key \<Longrightarrow> maskApiKey key KEY_MASK_PREFIX_LENGTH KEY_MASK_SUFFIX_LENGTH =
     \<lparr>mkPrefix = take 6 key, mkSuffix = drop (length key - 4) key,
      mkMasked = take 6 key @ ''...'' @ drop (length key - 4) key\<rparr>"
  by (auto simp: maskApiKey_def KEY_MASK_PREFIX_LENGTH_def KEY_MASK_SUFFIX_LENGTH_def Let_def js_slice_def
      slice_index_def nat_diff_distrib)

text \<open>A suffix of length 0 is cut at \<open>-0\<close>, which is the start: the whole key is shown.\<close>

theorem mask_without_suffix_leaks:
  "0 \<le> p \<Longrightarrow> p < int (length key) \<Longrightarrow> mkSuffix (maskApiKey key p 0) = key"
  by (auto simp: maskApiKey_def Let_def)

end
