(* ===== verification/AuthTokens.thy ===== *)
theory AuthTokens
  imports Crypto
begin

text \<open>
  \<open>src/storage/repositories/auth_tokens/\<close>: the bearer tokens of the tenants in the D1 table
  \<open>auth_tokens\<close>. The table is the list of its rows; each SQL statement of the repository is the list
  operation it denotes, with the table's uniqueness constraints (\<open>id\<close>, \<open>hash_sha256\<close>) checked on
  insertion. \<open>JSON.parse\<close> is the argument \<open>parse\<close>. Dates are instants; \<open>Some None\<close> is a value that
  is not a date, on which \<open>toISOString\<close> throws.
\<close>

record AuthTokenRow =
  trId :: string
  trHash :: string
  trTenant :: string
  trEncrypted :: "string option"
  trNonce :: "string option"
  trBudget :: int
  trSpent :: int
  trProviders :: string
  trRpm :: int
  trExpires :: "iso_date option"
  trCreated :: timestamp

record AuthTokenRecord =
  atId :: string
  atHash :: string
  atTenant :: string
  atEncrypted :: "string option"
  atNonce :: "string option"
  atBudget :: int
  atSpent :: int
  atProviders :: "string list"
  atRpm :: int
  atExpires :: "timestamp option"
  atCreated :: timestamp

record CreateAuthTokenParams =
  ctId :: "string option"
  ctToken :: string
  ctTenant :: string
  ctKey :: "string option"
  ctBudget :: "int option"
  ctSpent :: "int option"
  ctProviders :: "string list option"
  ctRpm :: "int option"
  ctExpires :: "iso_date option"

record UpdateAuthTokenParams =
  utBudget :: "int option"
  utProviders :: "string list option"
  utRpm :: "int option"
  utExpires :: "iso_date option option"

datatype auth_error =
    Unauthenticated string
  | TenantViolation
  | NegativeAmount
  | InvalidRpmLimit int
  | InvalidDate
  | CryptoFailure crypto_error
  | ConstraintViolation
  | QuotaExceeded string limit int
  | RateLimited limit int int
  | CorruptCounter

type_synonym token_table = "AuthTokenRow list"

section \<open>Rows and records (mapper.ts)\<close>

text \<open>\<open>String(x)\<close> of a parsed JSON value.\<close>

fun js_string :: "js \<Rightarrow> string" where
  "js_string (JStr s) = s"
| "js_string (JNum n) = bigint_to_string n"
| "js_string (JBigInt n) = bigint_to_string n"
| "js_string (JBool b) = (if b then ''true'' else ''false'')"
| "js_string JNull = ''null''"
| "js_string JUndefined = ''undefined''"
| "js_string (JArr xs) = join '','' (map (\<lambda>x. if x = JNull \<or> x = JUndefined then [] else js_string x) xs)"
| "js_string (JObj _) = ''[object Object]''"

definition providers_of :: "(string \<Rightarrow> js option) \<Rightarrow> string \<Rightarrow> string list" where
  "providers_of parse s =
     (if s = [] then [] else case parse s of Some (JArr xs) \<Rightarrow> map js_string xs | _ \<Rightarrow> [])"

definition iso_string :: "iso_date option \<Rightarrow> auth_error + timestamp option" where
  "iso_string d = (case d of None \<Rightarrow> Inr None | Some None \<Rightarrow> Inl InvalidDate | Some (Some t) \<Rightarrow> Inr (Some t))"

definition mapRowToAuthTokenRecord ::
  "(string \<Rightarrow> js option) \<Rightarrow> AuthTokenRow \<Rightarrow> auth_error + AuthTokenRecord" where
  "mapRowToAuthTokenRecord parse row =
     (case iso_string (trExpires row) of
        Inl e \<Rightarrow> Inl e
      | Inr expires \<Rightarrow>
          Inr \<lparr>atId = trId row, atHash = trHash row, atTenant = trTenant row,
               atEncrypted = trEncrypted row, atNonce = trNonce row, atBudget = trBudget row,
               atSpent = trSpent row, atProviders = providers_of parse (trProviders row),
               atRpm = trRpm row, atExpires = expires, atCreated = trCreated row\<rparr>)"

definition map_row ::
  "(string \<Rightarrow> js option) \<Rightarrow> AuthTokenRow option \<Rightarrow> auth_error + AuthTokenRecord option" where
  "map_row parse r =
     (case r of None \<Rightarrow> Inr None | Some row \<Rightarrow> map_sum id Some (mapRowToAuthTokenRecord parse row))"

definition map_rows ::
  "(string \<Rightarrow> js option) \<Rightarrow> AuthTokenRow list \<Rightarrow> auth_error + AuthTokenRecord list" where
  "map_rows parse rows =
     foldr (\<lambda>row acc. case mapRowToAuthTokenRecord parse row of
                         Inl e \<Rightarrow> Inl e | Inr r \<Rightarrow> map_sum id (Cons r) acc) rows (Inr [])"

section \<open>SQL statements\<close>

definition select_one :: "(AuthTokenRow \<Rightarrow> bool) \<Rightarrow> token_table \<Rightarrow> AuthTokenRow option" where
  "select_one P db = find P db"

definition update_where ::
  "(AuthTokenRow \<Rightarrow> bool) \<Rightarrow> (AuthTokenRow \<Rightarrow> AuthTokenRow) \<Rightarrow> token_table \<Rightarrow> nat \<times> token_table" where
  "update_where P f db = (length (filter P db), map (\<lambda>r. if P r then f r else r) db)"

definition delete_where :: "(AuthTokenRow \<Rightarrow> bool) \<Rightarrow> token_table \<Rightarrow> nat \<times> token_table" where
  "delete_where P db = (length (filter P db), filter (Not \<circ> P) db)"

definition insert_row :: "AuthTokenRow \<Rightarrow> token_table \<Rightarrow> (auth_error + unit) \<times> token_table" where
  "insert_row row db =
     (if \<exists>r\<in>set db. trId r = trId row \<or> trHash r = trHash row then (Inl ConstraintViolation, db)
      else (Inr (), db @ [row]))"

definition by_id :: "string \<Rightarrow> AuthTokenRow \<Rightarrow> bool" where
  "by_id i r \<longleftrightarrow> trId r = js_trim i"

definition by_owner :: "string \<Rightarrow> string \<Rightarrow> AuthTokenRow \<Rightarrow> bool" where
  "by_owner i t r \<longleftrightarrow> trId r = js_trim i \<and> trTenant r = js_trim t"

text \<open>\<open>Number(b)\<close> of a non-negative \<open>BigInt\<close>: the nearest double.\<close>

definition number_of_bigint :: "int \<Rightarrow> int" where
  "number_of_bigint b = int (round53 (nat b))"

section \<open>The repository (repository.ts)\<close>

text \<open>The key of the call, else of the repository, else of the environment.\<close>

definition token_resolveKey :: "string option \<Rightarrow> string option \<Rightarrow> string option \<Rightarrow> auth_error + string" where
  "token_resolveKey envKc masterKey overrideKey =
     (if truthy_str overrideKey then Inr (the overrideKey)
      else if truthy_str masterKey then Inr (the masterKey)
      else case envKc of
             Some s \<Rightarrow> if js_trim s \<noteq> [] then Inr s else Inl (CryptoFailure EncryptionErr)
           | None \<Rightarrow> Inl (CryptoFailure EncryptionErr))"

text \<open>An optional amount, 0 by default.\<close>

definition amount :: "int option \<Rightarrow> auth_error + int" where
  "amount a = (case a of None \<Rightarrow> Inr 0 | Some n \<Rightarrow> if n < 0 then Inl NegativeAmount else Inr n)"

definition token_row ::
  "string \<Rightarrow> string \<Rightarrow> string \<Rightarrow> EncryptedPayload \<Rightarrow> int \<Rightarrow> int \<Rightarrow> string list \<Rightarrow> int \<Rightarrow>
   timestamp option \<Rightarrow> timestamp \<Rightarrow> AuthTokenRow" where
  "token_row i h tenantId encrypted budget spent providers rpm expires now =
     \<lparr>trId = i, trHash = h, trTenant = tenantId,
      trEncrypted = Some (epCiphertextB64 encrypted), trNonce = Some (epNonceB64 encrypted),
      trBudget = number_of_bigint budget, trSpent = number_of_bigint spent,
      trProviders = the (json (JArr (map JStr providers))), trRpm = rpm,
      trExpires = map_option Some expires, trCreated = now\<rparr>"

definition createToken ::
  "'k SubtleCrypto \<Rightarrow> random_source \<Rightarrow> nat \<Rightarrow> string \<Rightarrow> string option \<Rightarrow> string option \<Rightarrow> timestamp \<Rightarrow>
   CreateAuthTokenParams \<Rightarrow> token_table \<Rightarrow> (auth_error + AuthTokenRecord) \<times> token_table" where
  "createToken sc rnd k uuid envKc masterKey now p db =
     (let rawToken = js_trim (ctToken p); tenantId = js_trim (ctTenant p);
          i = (case ctId p of Some s \<Rightarrow> if js_trim s = [] then uuid else js_trim s | None \<Rightarrow> uuid);
          rpm = first_some (ctRpm p) DEFAULT_RPM_LIMIT;
          providers = first_some (ctProviders p) []
      in if rawToken = [] then (Inl (Unauthenticated ''invalid_token''), db)
         else if tenantId = [] then (Inl TenantViolation, db)
         else (case token_resolveKey envKc masterKey (ctKey p) of
             Inl e \<Rightarrow> (Inl e, db)
           | Inr key \<Rightarrow>
               (case encrypt sc rnd k (PlainText (map of_char rawToken)) (Passphrase key) None of
                  Inl e \<Rightarrow> (Inl (CryptoFailure e), db)
                | Inr encrypted \<Rightarrow>
                    (case amount (ctBudget p) of
                       Inl e \<Rightarrow> (Inl e, db)
                     | Inr budget \<Rightarrow>
                         (case amount (ctSpent p) of
                            Inl e \<Rightarrow> (Inl e, db)
                          | Inr spent \<Rightarrow>
                              if \<not> isValidRpmLimit (JNum rpm) then (Inl (InvalidRpmLimit rpm), db)
                              else (case iso_string (ctExpires p) of
                                  Inl e \<Rightarrow> (Inl e, db)
                                | Inr expires \<Rightarrow>
                                    (case insert_row (token_row i (hashToken sc rawToken) tenantId
                                        encrypted budget spent providers rpm expires now) db of
                                       (Inl e, db') \<Rightarrow> (Inl e, db')
                                     | (Inr _, db') \<Rightarrow>
                                         (Inr \<lparr>atId = i, atHash = hashToken sc rawToken,
                                               atTenant = tenantId,
                                               atEncrypted = Some (epCiphertextB64 encrypted),
                                               atNonce = Some (epNonceB64 encrypted),
                                               atBudget = budget, atSpent = spent,
                                               atProviders = providers, atRpm = rpm,
                                               atExpires = expires, atCreated = now\<rparr>, db'))))))))"

definition findByToken ::
  "'k SubtleCrypto \<Rightarrow> (string \<Rightarrow> js option) \<Rightarrow> string \<Rightarrow> token_table \<Rightarrow> auth_error + AuthTokenRecord option" where
  "findByToken sc parse plainToken db =
     (if plainToken = [] then Inr None
      else (let computedHash = hashToken sc plainToken in
            case select_one (\<lambda>r. trHash r = computedHash) db of
              None \<Rightarrow> Inr None
            | Some row \<Rightarrow>
                if \<not> timingSafeEqualStrings computedHash (js_lower (trHash row)) then Inr None
                else map_row parse (Some row)))"

definition findByHash ::
  "(string \<Rightarrow> js option) \<Rightarrow> string \<Rightarrow> token_table \<Rightarrow> auth_error + AuthTokenRecord option" where
  "findByHash parse h db =
     (if h = [] then Inr None
      else map_row parse (select_one (\<lambda>r. trHash r = js_trim (js_lower h)) db))"

definition findById ::
  "(string \<Rightarrow> js option) \<Rightarrow> string \<Rightarrow> string option \<Rightarrow> token_table \<Rightarrow> auth_error + AuthTokenRecord option" where
  "findById parse i tenantId db =
     (if i = [] then Inr None
      else case tenantId of
        None \<Rightarrow> map_row parse (select_one (by_id i) db)
      | Some t \<Rightarrow>
          if js_trim t = [] then Inl TenantViolation
          else (case select_one (by_owner i t) db of
              Some row \<Rightarrow> map_row parse (Some row)
            | None \<Rightarrow>
                (case select_one (by_id i) db of
                   Some cross \<Rightarrow> if trTenant cross \<noteq> js_trim t then Inl TenantViolation else Inr None
                 | None \<Rightarrow> Inr None)))"

definition listByTenant ::
  "(string \<Rightarrow> js option) \<Rightarrow> string \<Rightarrow> int option \<Rightarrow> int option \<Rightarrow> token_table \<Rightarrow>
   auth_error + AuthTokenRecord list" where
  "listByTenant parse tenantId maxRows offset db =
     (let t = js_trim tenantId; n = max 1 (min 1000 (first_some maxRows 50)); k = max 0 (first_some offset 0) in
      if t = [] then Inl TenantViolation
      else map_rows parse
             (take (nat n) (drop (nat k)
                (sort_key (\<lambda>r. - trCreated r) (filter (\<lambda>r. trTenant r = t) db)))))"

definition countByTenant :: "string \<Rightarrow> token_table \<Rightarrow> auth_error + nat" where
  "countByTenant tenantId db =
     (let t = js_trim tenantId in
      if t = [] then Inl TenantViolation else Inr (length (filter (\<lambda>r. trTenant r = t) db)))"

text \<open>The operations that first look the token up under its tenant.\<close>

definition owned_update ::
  "(string \<Rightarrow> js option) \<Rightarrow> string \<Rightarrow> string \<Rightarrow> (token_table \<Rightarrow> nat \<times> token_table) \<Rightarrow> token_table \<Rightarrow>
   (auth_error + bool) \<times> token_table" where
  "owned_update parse i t stmt db =
     (case findById parse i (Some t) db of
        Inl e \<Rightarrow> (Inl e, db)
      | Inr None \<Rightarrow> (Inr False, db)
      | Inr (Some _) \<Rightarrow> (let (n, db') = stmt db in (Inr (n > 0), db')))"

definition deleteToken ::
  "(string \<Rightarrow> js option) \<Rightarrow> string \<Rightarrow> string option \<Rightarrow> token_table \<Rightarrow> (auth_error + bool) \<times> token_table" where
  "deleteToken parse i tenantId db =
     (if i = [] then (Inr False, db)
      else case tenantId of
        None \<Rightarrow> (let (n, db') = delete_where (by_id i) db in (Inr (n > 0), db'))
      | Some t \<Rightarrow>
          if js_trim t = [] then (Inl TenantViolation, db)
          else owned_update parse i (js_trim t) (delete_where (by_owner i t)) db)"

definition revokeToken ::
  "(string \<Rightarrow> js option) \<Rightarrow> timestamp \<Rightarrow> string \<Rightarrow> string option \<Rightarrow> token_table \<Rightarrow>
   (auth_error + bool) \<times> token_table" where
  "revokeToken parse now i tenantId db =
     (if i = [] then (Inr False, db)
      else case tenantId of
        None \<Rightarrow> (let (n, db') = update_where (by_id i) (\<lambda>r. r\<lparr>trExpires := Some (Some now)\<rparr>) db
                 in (Inr (n > 0), db'))
      | Some t \<Rightarrow>
          if js_trim t = [] then (Inl TenantViolation, db)
          else owned_update parse i (js_trim t)
                 (update_where (by_owner i t) (\<lambda>r. r\<lparr>trExpires := Some (Some now)\<rparr>)) db)"

definition updateBudget ::
  "(string \<Rightarrow> js option) \<Rightarrow> string \<Rightarrow> string \<Rightarrow> int \<Rightarrow> token_table \<Rightarrow> (auth_error + bool) \<times> token_table" where
  "updateBudget parse i t budget db =
     (if budget < 0 then (Inl NegativeAmount, db)
      else owned_update parse i t
             (update_where (by_owner i t) (\<lambda>r. r\<lparr>trBudget := number_of_bigint budget\<rparr>)) db)"

text \<open>\<open>recordSpend\<close> reads the row in one statement and writes the new sum in another.\<close>

definition spend_read ::
  "(string \<Rightarrow> js option) \<Rightarrow> string \<Rightarrow> string \<Rightarrow> int \<Rightarrow> token_table \<Rightarrow> auth_error + int" where
  "spend_read parse i t spend db =
     (if spend < 0 then Inl NegativeAmount
      else case findById parse i (Some t) db of
        Inl e \<Rightarrow> Inl e
      | Inr None \<Rightarrow> Inl (Unauthenticated ''invalid_token'')
      | Inr (Some existing) \<Rightarrow> Inr (atSpent existing + spend))"

definition spend_write :: "string \<Rightarrow> string \<Rightarrow> int \<Rightarrow> token_table \<Rightarrow> token_table" where
  "spend_write i t newSpent db =
     snd (update_where (by_owner i t) (\<lambda>r. r\<lparr>trSpent := number_of_bigint newSpent\<rparr>) db)"

definition recordSpend ::
  "(string \<Rightarrow> js option) \<Rightarrow> string \<Rightarrow> string \<Rightarrow> int \<Rightarrow> token_table \<Rightarrow> (auth_error + int) \<times> token_table" where
  "recordSpend parse i t spend db =
     (case spend_read parse i t spend db of
        Inl e \<Rightarrow> (Inl e, db)
      | Inr newSpent \<Rightarrow> (Inr newSpent, spend_write i t newSpent db))"

text \<open>The columns that \<open>updateToken\<close> names, checked in the order of the source.\<close>

definition update_error :: "UpdateAuthTokenParams \<Rightarrow> auth_error option" where
  "update_error p =
     (if (case utBudget p of Some b \<Rightarrow> b < 0 | None \<Rightarrow> False) then Some NegativeAmount
      else if (case utRpm p of Some n \<Rightarrow> \<not> isValidRpmLimit (JNum n) | None \<Rightarrow> False)
      then Some (InvalidRpmLimit (the (utRpm p)))
      else if utExpires p = Some (Some None) then Some InvalidDate
      else None)"

definition set_columns :: "string \<Rightarrow> UpdateAuthTokenParams \<Rightarrow> AuthTokenRow \<Rightarrow> AuthTokenRow" where
  "set_columns providers p r =
     r\<lparr>trBudget := (case utBudget p of Some b \<Rightarrow> number_of_bigint b | None \<Rightarrow> trBudget r),
       trProviders := (case utProviders p of Some _ \<Rightarrow> providers | None \<Rightarrow> trProviders r),
       trRpm := (case utRpm p of Some n \<Rightarrow> n | None \<Rightarrow> trRpm r),
       trExpires := (case utExpires p of Some d \<Rightarrow> d | None \<Rightarrow> trExpires r)\<rparr>"

definition updateToken ::
  "(string \<Rightarrow> js option) \<Rightarrow> string \<Rightarrow> string \<Rightarrow> UpdateAuthTokenParams \<Rightarrow> token_table \<Rightarrow>
   (auth_error + AuthTokenRecord option) \<times> token_table" where
  "updateToken parse i t p db =
     (case findById parse i (Some t) db of
        Inl e \<Rightarrow> (Inl e, db)
      | Inr None \<Rightarrow> (Inr None, db)
      | Inr (Some existing) \<Rightarrow>
          (case update_error p of
             Some e \<Rightarrow> (Inl e, db)
           | None \<Rightarrow>
               if utBudget p = None \<and> utProviders p = None \<and> utRpm p = None \<and> utExpires p = None
               then (Inr (Some existing), db)
               else (let providers = the (json (JArr (map JStr (first_some (utProviders p) []))));
                         db' = snd (update_where (by_owner i t) (set_columns providers p) db)
                     in (findById parse i (Some t) db', db'))))"

definition decryptToken ::
  "'k SubtleCrypto \<Rightarrow> (bytes \<Rightarrow> unicode) \<Rightarrow> string option \<Rightarrow> string option \<Rightarrow> string option \<Rightarrow>
   AuthTokenRecord \<Rightarrow> auth_error + unicode" where
  "decryptToken sc lossy envKc masterKey key r =
     (if \<not> truthy_str (atEncrypted r) \<or> \<not> truthy_str (atNonce r) then Inl (CryptoFailure DecryptionErr)
      else case token_resolveKey envKc masterKey key of
        Inl e \<Rightarrow> Inl e
      | Inr effective \<Rightarrow>
          map_sum CryptoFailure id
            (decrypt sc lossy (InputOne (Inl (the (atEncrypted r)))) (Passphrase effective)
               (Some (Inl (the (atNonce r))))))"

text \<open>The verdict on a token record, shared in substance with the middleware.\<close>

definition provider_allowed :: "string option \<Rightarrow> string list \<Rightarrow> bool" where
  "provider_allowed required providers \<longleftrightarrow>
     \<not> truthy_str required \<or> providers = [] \<or>
     js_trim (js_lower (the required)) \<in> set (map (\<lambda>p. js_trim (js_lower p)) providers)"

definition expired :: "timestamp \<Rightarrow> AuthTokenRecord \<Rightarrow> bool" where
  "expired now r \<longleftrightarrow> (case atExpires r of Some t \<Rightarrow> now \<ge> t | None \<Rightarrow> False)"

record TokenValidationResult =
  tvValid :: bool
  tvReason :: "string option"
  tvToken :: "AuthTokenRecord option"

definition validateToken ::
  "'k SubtleCrypto \<Rightarrow> (string \<Rightarrow> js option) \<Rightarrow> timestamp \<Rightarrow> string option \<Rightarrow> string \<Rightarrow> token_table \<Rightarrow>
   auth_error + TokenValidationResult" where
  "validateToken sc parse now required plainToken db =
     (case findByToken sc parse plainToken db of
        Inl e \<Rightarrow> Inl e
      | Inr None \<Rightarrow> Inr \<lparr>tvValid = False, tvReason = Some ''invalid_token'', tvToken = None\<rparr>
      | Inr (Some r) \<Rightarrow>
          Inr (if expired now r then
                 \<lparr>tvValid = False, tvReason = Some ''expired_token'', tvToken = Some r\<rparr>
               else if \<not> provider_allowed required (atProviders r) then
                 \<lparr>tvValid = False, tvReason = Some ''provider_not_allowed'', tvToken = Some r\<rparr>
               else if atBudget r > 0 \<and> atSpent r \<ge> atBudget r then
                 \<lparr>tvValid = False, tvReason = Some ''budget_exceeded'', tvToken = Some r\<rparr>
               else \<lparr>tvValid = True, tvReason = None, tvToken = Some r\<rparr>))"

section \<open>Lemmas: statements on the table\<close>

lemma select_one_Some: "select_one P db = Some r \<Longrightarrow> r \<in> set db \<and> P r"
  by (auto simp: select_one_def find_Some_iff)

lemma select_one_None: "select_one P db = None \<longleftrightarrow> (\<forall>r\<in>set db. \<not> P r)"
  by (auto simp: select_one_def find_None_iff)

lemma select_one_snoc: "select_one P (db @ [r]) = (case select_one P db of None \<Rightarrow> if P r then Some r else None | s \<Rightarrow> s)"
  by (induction db) (auto simp: select_one_def)

lemma select_one_update:
  assumes "\<And>r. Q (f r) = Q r"
  shows "select_one Q (map (\<lambda>r. if P r then f r else r) db) =
    map_option (\<lambda>r. if P r then f r else r) (select_one Q db)"
  using assms by (induction db) (auto simp: select_one_def)

lemma map_rows_eq:
  "map_rows parse rows = (if \<exists>r\<in>set rows. trExpires r = Some None then Inl InvalidDate
     else Inr (map (\<lambda>r. case mapRowToAuthTokenRecord parse r of Inr x \<Rightarrow> x | Inl _ \<Rightarrow> undefined) rows))"
  by (induction rows)
    (auto simp: map_rows_def mapRowToAuthTokenRecord_def iso_string_def split: option.splits sum.splits)

text \<open>A row that the repository may have written.\<close>

definition row_ok :: "AuthTokenRow \<Rightarrow> bool" where
  "row_ok r \<longleftrightarrow> 0 \<le> trBudget r \<and> 0 \<le> trSpent r \<and> isValidRpmLimit (JNum (trRpm r)) \<and> trExpires r \<noteq> Some None
     \<and> trTenant r \<noteq> [] \<and> js_trim (trTenant r) = trTenant r"

definition table_ok :: "token_table \<Rightarrow> bool" where
  "table_ok db \<longleftrightarrow> distinct (map trId db) \<and> distinct (map trHash db) \<and> list_all row_ok db"

text \<open>The record read from a sound row.\<close>

definition record_of :: "(string \<Rightarrow> js option) \<Rightarrow> AuthTokenRow \<Rightarrow> AuthTokenRecord" where
  "record_of parse r =
     \<lparr>atId = trId r, atHash = trHash r, atTenant = trTenant r, atEncrypted = trEncrypted r, atNonce = trNonce r,
      atBudget = trBudget r, atSpent = trSpent r, atProviders = providers_of parse (trProviders r),
      atRpm = trRpm r, atExpires = (case trExpires r of Some d \<Rightarrow> d | None \<Rightarrow> None), atCreated = trCreated r\<rparr>"

lemma record_of_sel [simp]:
  "atTenant (record_of parse r) = trTenant r" "atSpent (record_of parse r) = trSpent r"
  "atBudget (record_of parse r) = trBudget r" "atId (record_of parse r) = trId r"
  by (simp_all add: record_of_def)

lemma map_row_ok: "trExpires r \<noteq> Some None \<Longrightarrow> mapRowToAuthTokenRecord parse r = Inr (record_of parse r)"
  by (auto simp: mapRowToAuthTokenRecord_def iso_string_def record_of_def split: option.splits)

lemma map_row_Inr: "mapRowToAuthTokenRecord parse r = Inr x \<Longrightarrow> x = record_of parse r"
  by (auto simp: mapRowToAuthTokenRecord_def iso_string_def record_of_def split: option.splits)

lemma map_row_error: "mapRowToAuthTokenRecord parse r = Inl e \<Longrightarrow> e = InvalidDate \<and> trExpires r = Some None"
  by (auto simp: mapRowToAuthTokenRecord_def iso_string_def split: option.splits)

lemma findById_Some:
  assumes "findById parse i (Some t) db = Inr (Some x)"
  shows "\<exists>r\<in>set db. by_owner i t r \<and> select_one (by_owner i t) db = Some r \<and> x = record_of parse r"
proof (cases "select_one (by_owner i t) db")
  case None
  with assms show ?thesis by (auto simp: findById_def split: if_splits option.splits)
next
  case (Some r)
  with assms have "mapRowToAuthTokenRecord parse r = Inr x"
    by (cases "mapRowToAuthTokenRecord parse r") (auto simp: findById_def map_row_def split: if_splits)
  with Some select_one_Some [OF Some] show ?thesis by (auto dest: map_row_Inr)
qed

section \<open>Lemmas: what a tenant's operations leave alone\<close>

definition others :: "string \<Rightarrow> token_table \<Rightarrow> token_table" where
  "others t db = filter (\<lambda>r. trTenant r \<noteq> js_trim t) db"

lemma others_update:
  assumes "\<And>r. trTenant (f r) = trTenant r"
  shows "others t (snd (update_where (by_owner i t) f db)) = others t db"
  using assms by (induction db) (auto simp: others_def update_where_def by_owner_def)

lemma others_delete: "others t (snd (delete_where (by_owner i t) db)) = others t db"
  by (induction db) (auto simp: others_def delete_where_def by_owner_def)

lemma by_owner_trim [simp]: "by_owner i (js_trim t) = by_owner i t"
  by (simp add: by_owner_def fun_eq_iff)

lemma set_columns_sel [simp]:
  "trTenant (set_columns ps p r) = trTenant r" "trId (set_columns ps p r) = trId r"
  "trHash (set_columns ps p r) = trHash r"
  by (simp_all add: set_columns_def)

datatype token_op =
    Make nat string CreateAuthTokenParams
  | Delete string
  | Revoke string
  | Budget string int
  | Spend string int
  | Update string UpdateAuthTokenParams

text \<open>One operation on behalf of tenant \<open>t\<close>.\<close>

fun token_step ::
  "'k SubtleCrypto \<Rightarrow> random_source \<Rightarrow> (string \<Rightarrow> js option) \<Rightarrow> string option \<Rightarrow> string option \<Rightarrow> string \<Rightarrow>
   timestamp \<times> token_op \<Rightarrow> token_table \<Rightarrow> token_table" where
  "token_step sc rnd parse envKc master t (now, Make k uuid p) db =
     snd (createToken sc rnd k uuid envKc master now (p\<lparr>ctTenant := t\<rparr>) db)"
| "token_step sc rnd parse envKc master t (now, Delete i) db = snd (deleteToken parse i (Some t) db)"
| "token_step sc rnd parse envKc master t (now, Revoke i) db = snd (revokeToken parse now i (Some t) db)"
| "token_step sc rnd parse envKc master t (now, Budget i b) db = snd (updateBudget parse i t b db)"
| "token_step sc rnd parse envKc master t (now, Spend i n) db = snd (recordSpend parse i t n db)"
| "token_step sc rnd parse envKc master t (now, Update i p) db = snd (updateToken parse i t p db)"

text \<open>The table after an operation: unchanged, one row more, or one statement on the tenant's rows.\<close>

lemma owned_update_table:
  "snd (owned_update parse i t stmt db) = db \<or> snd (owned_update parse i t stmt db) = snd (stmt db)"
  by (auto simp: owned_update_def Let_def case_prod_beta split: sum.splits option.splits)

definition created :: "string \<Rightarrow> AuthTokenRow \<Rightarrow> bool" where
  "created t r \<longleftrightarrow> trTenant r = js_trim t \<and> js_trim t \<noteq> [] \<and> 0 \<le> trBudget r \<and> 0 \<le> trSpent r
     \<and> isValidRpmLimit (JNum (trRpm r)) \<and> trExpires r \<noteq> Some None"

lemma created_ok: "created t r \<Longrightarrow> row_ok r"
  by (simp add: created_def row_ok_def)

lemma iso_string_ok: "iso_string d = Inr x \<Longrightarrow> map_option Some x \<noteq> Some None"
  by (cases x) simp_all

lemma number_of_bigint_nonneg [simp]: "0 \<le> number_of_bigint b"
  by (simp add: number_of_bigint_def)

lemma createToken_table:
  "snd (createToken sc rnd k uuid envKc master now p db) = db \<or>
   (\<exists>r. created (ctTenant p) r \<and> snd (createToken sc rnd k uuid envKc master now p db) = snd (insert_row r db))"
proof -
  have row: "created (ctTenant p) (token_row i h (js_trim (ctTenant p)) en budget spent ps rpm x now)"
    if "js_trim (ctTenant p) \<noteq> []" "isValidRpmLimit (JNum rpm)" "iso_string (ctExpires p) = Inr x"
    for i h en budget spent ps rpm x
    using that by (auto simp: created_def token_row_def dest: iso_string_ok)
  have ins: "snd (case insert_row r db of (Inl e, d) \<Rightarrow> (Inl e, d) | (Inr _, d) \<Rightarrow> (Inr x, d)) = snd (insert_row r db)"
    for r x
    by (auto split: prod.split sum.split)
  show ?thesis
    by (simp add: createToken_def Let_def ins split: sum.split) (blast intro: row)
qed

definition owner_update :: "(AuthTokenRow \<Rightarrow> AuthTokenRow) \<Rightarrow> bool" where
  "owner_update f \<longleftrightarrow> (\<forall>r. trTenant (f r) = trTenant r \<and> trId (f r) = trId r \<and> trHash (f r) = trHash r
     \<and> (row_ok r \<longrightarrow> row_ok (f r)))"

lemma token_step_cases:
  "token_step sc rnd parse envKc master t ev db = db \<or>
   (\<exists>r. created t r \<and> token_step sc rnd parse envKc master t ev db = snd (insert_row r db)) \<or>
   (\<exists>i. token_step sc rnd parse envKc master t ev db = snd (delete_where (by_owner i t) db)) \<or>
   (\<exists>i f. owner_update f \<and> token_step sc rnd parse envKc master t ev db = snd (update_where (by_owner i t) f db))"
  (is "?goal (token_step sc rnd parse envKc master t ev db)")
proof -
  obtain now op' where ev: "ev = (now, op')" by (cases ev)
  have upd: "?goal d" if "d = db \<or> d = snd (update_where (by_owner i t) f db)" "owner_update f" for d i f
    using that by blast
  show ?thesis
  proof (cases op')
    case (Make k uuid p)
    with createToken_table [of sc rnd k uuid envKc master now "p\<lparr>ctTenant := t\<rparr>" db] show ?thesis
      by (auto simp: ev)
  next
    case (Delete i)
    with owned_update_table [of parse i "js_trim t" "delete_where (by_owner i t)" db] show ?thesis
      by (auto simp: ev deleteToken_def)
  next
    case (Revoke i)
    have "owner_update (\<lambda>r. r\<lparr>trExpires := Some (Some now)\<rparr>)" by (simp add: owner_update_def row_ok_def)
    with Revoke owned_update_table [of parse i "js_trim t"
        "update_where (by_owner i t) (\<lambda>r. r\<lparr>trExpires := Some (Some now)\<rparr>)" db] show ?thesis
      by (intro upd [of _ i]) (auto simp: ev revokeToken_def)
  next
    case (Budget i b)
    have "owner_update (\<lambda>r. r\<lparr>trBudget := number_of_bigint b\<rparr>)" by (simp add: owner_update_def row_ok_def)
    with Budget owned_update_table [of parse i t
        "update_where (by_owner i t) (\<lambda>r. r\<lparr>trBudget := number_of_bigint b\<rparr>)" db] show ?thesis
      by (intro upd [of _ i]) (auto simp: ev updateBudget_def)
  next
    case (Spend i n)
    have "owner_update (\<lambda>r. r\<lparr>trSpent := number_of_bigint m\<rparr>)" for m by (simp add: owner_update_def row_ok_def)
    with Spend show ?thesis
      by (cases "spend_read parse i t n db")
        (simp add: ev recordSpend_def, intro upd [of _ i], auto simp: ev recordSpend_def spend_write_def)
  next
    case (Update i p)
    have ok: "owner_update (set_columns ps p)" if "update_error p = None" for ps
      using that by (auto simp: owner_update_def row_ok_def set_columns_def update_error_def
          split: option.splits if_splits)
    have "snd (updateToken parse i t p db) = db \<or>
        update_error p = None \<and> (\<exists>ps. snd (updateToken parse i t p db) =
           snd (update_where (by_owner i t) (set_columns ps p) db))"
      by (auto simp: updateToken_def Let_def split: sum.splits option.splits)
    then show ?thesis
    proof
      assume "snd (updateToken parse i t p db) = db"
      then show ?thesis by (simp add: ev Update)
    next
      assume "update_error p = None \<and> (\<exists>ps. snd (updateToken parse i t p db) =
           snd (update_where (by_owner i t) (set_columns ps p) db))"
      then obtain ps where "snd (updateToken parse i t p db) = snd (update_where (by_owner i t) (set_columns ps p) db)"
        "owner_update (set_columns ps p)" using ok by blast
      then show ?thesis by (intro upd [of _ i "set_columns ps p"]) (simp_all add: ev Update)
    qed
  qed
qed

lemma others_step: "others t (token_step sc rnd parse envKc master t ev db) = others t db"
  using token_step_cases [of sc rnd parse envKc master t ev db]
  by (auto simp: others_update others_delete owner_update_def insert_row_def)
    (auto simp: others_def created_def)

lemma table_ok_update: "table_ok db \<Longrightarrow> owner_update f \<Longrightarrow> table_ok (snd (update_where P f db))"
proof -
  assume ok: "table_ok db" "owner_update f"
  have "map trId (snd (update_where P f db)) = map trId db \<and> map trHash (snd (update_where P f db)) = map trHash db"
    using ok(2) by (induction db) (auto simp: update_where_def owner_update_def)
  moreover have "list_all row_ok (snd (update_where P f db))"
    using ok by (auto simp: table_ok_def list_all_iff update_where_def owner_update_def)
  ultimately show ?thesis using ok(1) by (simp add: table_ok_def)
qed

lemma table_ok_delete: "table_ok db \<Longrightarrow> table_ok (snd (delete_where P db))"
  by (auto simp: table_ok_def delete_where_def list_all_iff distinct_map_filter)

lemma table_ok_insert: "table_ok db \<Longrightarrow> row_ok r \<Longrightarrow> table_ok (snd (insert_row r db))"
  by (auto simp: table_ok_def insert_row_def)

lemma table_ok_step: "table_ok db \<Longrightarrow> table_ok (token_step sc rnd parse envKc master t ev db)"
  using token_step_cases [of sc rnd parse envKc master t ev db]
  by (auto simp: table_ok_update table_ok_delete table_ok_insert created_ok)

lemma json_strings: "those (map json (map JStr ss)) = Some (map json_string ss)"
  by (induction ss) simp_all

lemma json_array_text: "the (json (JArr (map JStr ss))) = ''['' @ join '','' (map json_string ss) @ '']''"
  using json_strings [of ss] by simp

lemma token_decrypts:
  assumes "subtle_ok sc" "encrypt sc rnd k (PlainText (map of_char tok)) (Passphrase key) None = Inr en"
  shows "epCiphertextB64 en \<noteq> []" "epNonceB64 en \<noteq> []"
    "decrypt sc lossy (InputOne (Inl (epCiphertextB64 en))) (Passphrase key) (Some (Inl (epNonceB64 en))) =
       Inr (map of_char tok)"
proof -
  obtain iv cryptoKey ct where *: "length iv = NONCE_LENGTH_BYTES"
    "resolveKey sc (Passphrase key) False = Inr cryptoKey"
    "scEncrypt sc cryptoKey iv (plain_bytes (PlainText (map of_char tok))) = Some ct" "en = encrypted_payload iv ct"
    using assms(2) by (rule encrypt_Inr)
  note box = subtle_box [OF assms(1) *(1, 3)]
  have "ct \<noteq> []" "iv \<noteq> []" using box(1) *(1) by (auto simp: length_defs)
  then show "epCiphertextB64 en \<noteq> []" "epNonceB64 en \<noteq> []" by (simp_all add: *(4) encrypted_payload_def Let_def)
  have "resolveKey sc (Passphrase key) True = Inr cryptoKey"
    using *(2) by (auto simp: resolveKey_def split: if_splits)
  with * box(2) show "decrypt sc lossy (InputOne (Inl (epCiphertextB64 en))) (Passphrase key)
      (Some (Inl (epNonceB64 en))) = Inr (map of_char tok)"
    by (simp add: decrypt_def decryptRaw_def parseDecryptionInput_def both_def encrypted_payload_def Let_def
        plain_bytes_def decode_text_bytes [OF string_scalar])
qed

definition token_run ::
  "'k SubtleCrypto \<Rightarrow> random_source \<Rightarrow> (string \<Rightarrow> js option) \<Rightarrow> string option \<Rightarrow> string option \<Rightarrow>
   (string \<times> timestamp \<times> token_op) list \<Rightarrow> token_table \<Rightarrow> token_table" where
  "token_run sc rnd parse envKc master evs db =
     fold (\<lambda>(t, ev). token_step sc rnd parse envKc master t ev) evs db"

text \<open>The same with the deletions and revocations that name no tenant.\<close>

fun table_step ::
  "'k SubtleCrypto \<Rightarrow> random_source \<Rightarrow> (string \<Rightarrow> js option) \<Rightarrow> string option \<Rightarrow> string option \<Rightarrow>
   string option \<times> timestamp \<times> token_op \<Rightarrow> token_table \<Rightarrow> token_table" where
  "table_step sc rnd parse envKc master (Some t, ev) db = token_step sc rnd parse envKc master t ev db"
| "table_step sc rnd parse envKc master (None, now, Delete i) db = snd (deleteToken parse i None db)"
| "table_step sc rnd parse envKc master (None, now, Revoke i) db = snd (revokeToken parse now i None db)"
| "table_step sc rnd parse envKc master (None, now, _) db = db"

lemma table_ok_table_step: "table_ok db \<Longrightarrow> table_ok (table_step sc rnd parse envKc master e db)"
proof (induction sc rnd parse envKc master e db rule: table_step.induct)
  case (3 sc rnd parse envKc master now i db)
  have "owner_update (\<lambda>r. r\<lparr>trExpires := Some (Some now)\<rparr>)" by (simp add: owner_update_def row_ok_def)
  with 3 show ?case by (auto simp: revokeToken_def Let_def case_prod_beta table_ok_update)
qed (auto simp: table_ok_step deleteToken_def Let_def case_prod_beta table_ok_delete)

section \<open>Properties\<close>

text \<open>
  C32. Typing of the table. Whatever sequence of the repository's operations runs, on behalf of any tenants or,
  for deletions and revocations, of none, the table keeps its schema: distinct identifiers and hashes,
  non-negative amounts, a request limit within bounds, a readable expiry, a non-empty trimmed owner; so
  that no row it finds by token or by identifier makes the reading throw. (The console inserts rows past
  the repository, without these checks: \<open>handlePostTokens\<close> is not among the operations.)
\<close>

theorem token_table_wellformed:
  assumes "table_ok db" and "db' = fold (table_step sc rnd parse envKc master) evs db"
  shows "table_ok db' \<and> (\<exists>x. findByToken sc parse token db' = Inr x) \<and> (\<exists>x. findByHash parse h db' = Inr x) \<and>
         (\<exists>x. findById parse i None db' = Inr x)"
proof -
  have ok: "table_ok db'"
    unfolding assms(2) using assms(1) by (induction evs arbitrary: db) (auto simp: table_ok_table_step)
  have reads: "\<exists>x. map_row parse (select_one P d) = Inr x" if "table_ok d" for P d
    using that by (cases "select_one P d")
      (auto simp: map_row_def map_row_ok table_ok_def list_all_iff row_ok_def dest!: select_one_Some)
  have "\<exists>x. findByToken sc parse token db' = Inr x" "\<exists>x. findById parse i None db' = Inr x"
    using reads [OF ok] by (auto simp: findByToken_def findById_def Let_def split: option.splits) (metis option.distinct(1))+
  moreover have "\<exists>x. findByHash parse h db' = Inr x" using reads [OF ok] by (simp add: findByHash_def)
  ultimately show ?thesis using ok by blast
qed

definition toy_row :: "string \<Rightarrow> string \<Rightarrow> int \<Rightarrow> AuthTokenRow" where
  "toy_row i t spent = \<lparr>trId = i, trHash = i, trTenant = t, trEncrypted = None, trNonce = None, trBudget = 0,
     trSpent = spent, trProviders = [], trRpm = 60, trExpires = None, trCreated = 0\<rparr>"

text \<open>\<open>acme\<close> spends and sets a budget, \<open>rival\<close> tries to delete the token, and someone revokes it.\<close>

definition toy_ops :: "(string option \<times> timestamp \<times> token_op) list" where
  "toy_ops = [(Some ''acme'', 5, Spend ''t1'' 4), (Some ''acme'', 6, Budget ''t1'' 100), (Some ''rival'', 7, Delete ''t1''),
     (None, 8, Revoke ''t1'')]"

lemma toy_names: "js_trim ''acme'' = ''acme''" "js_trim ''rival'' = ''rival''" "js_trim ''t1'' = ''t1''"
  by code_simp+

lemma toy_run:
  "fold (table_step sc rnd parse envKc master) toy_ops [toy_row ''t1'' ''acme'' 3] =
     [(toy_row ''t1'' ''acme'' 7)\<lparr>trBudget := 100, trExpires := Some (Some 8)\<rparr>]"
proof -
  have round: "number_of_bigint 7 = 7" "number_of_bigint 100 = 100" by code_simp+
  show ?thesis
    by (simp add: toy_ops_def recordSpend_def spend_read_def spend_write_def updateBudget_def deleteToken_def revokeToken_def
        owned_update_def findById_def select_one_def by_owner_def by_id_def map_row_def map_row_ok update_where_def toy_row_def
        toy_names round)
qed

theorem token_table_wellformed_witness:
  "fold (table_step toy_subtle (\<lambda>_ _. 7) (\<lambda>_. None) None None) toy_ops [toy_row ''t1'' ''acme'' 3] =
     [(toy_row ''t1'' ''acme'' 7)\<lparr>trBudget := 100, trExpires := Some (Some 8)\<rparr>] \<and>
   table_ok [(toy_row ''t1'' ''acme'' 7)\<lparr>trBudget := 100, trExpires := Some (Some 8)\<rparr>]"
proof -
  have "table_ok [toy_row ''t1'' ''acme'' 3]"
    by (simp add: table_ok_def row_ok_def toy_row_def toy_names isValidRpmLimit_def MIN_RPM_LIMIT_def MAX_RPM_LIMIT_def)
  from token_table_wellformed [OF this refl, of toy_subtle "\<lambda>_ _. 7" "\<lambda>_. None" None None toy_ops] show ?thesis
    unfolding toy_run by blast
qed

lemma map_rows_tenant:
  "map_rows parse rows = Inr xs \<Longrightarrow> y \<in> set xs \<Longrightarrow> \<exists>r\<in>set rows. atTenant y = trTenant r"
  by (fastforce simp: map_rows_eq map_row_ok split: if_splits)

text \<open>
  C17. Isolation of the token table. Whatever operations run on behalf of other tenants, with whatever
  identifiers, the rows of a tenant stay as they are. What a tenant finds by identifier, lists and counts
  are its own rows, and depend on its own rows only. (Looking up an identifier of another tenant is answered by a violation
  instead of nothing. Deletions and revocations that name no tenant are not meant.)
\<close>

theorem token_isolation:
  assumes "\<forall>e\<in>set evs. js_trim (fst e) \<noteq> js_trim t"
  defines "own \<equiv> filter (\<lambda>r. trTenant r = js_trim t)"
  shows "own (token_run sc rnd parse envKc master evs db) = own db \<and>
    (findById p i (Some t) (own db) = Inr (Some x) \<longleftrightarrow> findById p i (Some t) db = Inr (Some x)) \<and>
    listByTenant p t m k (own db) = listByTenant p t m k db \<and> countByTenant t (own db) = countByTenant t db \<and>
    (findById p i (Some t) db = Inr (Some x) \<longrightarrow> atTenant x = js_trim t) \<and>
    (\<forall>xs. listByTenant p t m k db = Inr xs \<longrightarrow> (\<forall>y\<in>set xs. atTenant y = js_trim t))"
proof -
  have step: "own (token_step sc rnd parse envKc master u ev db) = own db" if "js_trim u \<noteq> js_trim t" for u ev db
  proof -
    have "own db = own (others u db)" for db using that by (auto simp: own_def others_def intro!: filter_cong)
    then show ?thesis using others_step [of u sc rnd parse envKc master ev db] by metis
  qed
  have "own (token_run sc rnd parse envKc master evs db) = own db"
    using assms(1) by (induction evs arbitrary: db) (auto simp: token_run_def step)
  moreover have "select_one (by_owner i t) (own db) = select_one (by_owner i t) db"
    by (induction db) (auto simp: select_one_def own_def by_owner_def)
  then have "findById p i (Some t) (own db) = Inr (Some x) \<longleftrightarrow> findById p i (Some t) db = Inr (Some x)"
    by (auto simp: findById_def split: option.splits if_splits)
  moreover have "listByTenant p t m k (own db) = listByTenant p t m k db" "countByTenant t (own db) = countByTenant t db"
    by (simp_all add: listByTenant_def countByTenant_def own_def Let_def)
  moreover have "atTenant x = js_trim t" if "findById p i (Some t) db = Inr (Some x)"
    using findById_Some [OF that] by (auto simp: by_owner_def)
  moreover have "atTenant y = js_trim t" if l: "listByTenant p t m k db = Inr xs" "y \<in> set xs" for xs y
  proof -
    from l(1) have "map_rows p (take (nat (max 1 (min 1000 (first_some m 50)))) (drop (nat (max 0 (first_some k 0)))
        (sort_key (\<lambda>r. - trCreated r) (filter (\<lambda>r. trTenant r = js_trim t) db)))) = Inr xs"
      by (simp add: listByTenant_def Let_def split: if_splits)
    from map_rows_tenant [OF this l(2)] show ?thesis by (auto dest!: in_set_takeD in_set_dropD)
  qed
  ultimately show ?thesis by blast
qed

theorem token_isolation_witness:
  "token_run toy_subtle (\<lambda>_ _. 7) (\<lambda>_. None) None None [(''rival'', 5, Delete ''t1''), (''rival'', 6, Spend ''t2'' 4)]
     [toy_row ''t1'' ''acme'' 3, toy_row ''t2'' ''rival'' 0] = [toy_row ''t1'' ''acme'' 3, toy_row ''t2'' ''rival'' 4] \<and>
   findById (\<lambda>_. None) ''t1'' (Some ''acme'') [toy_row ''t1'' ''acme'' 3, toy_row ''t2'' ''rival'' 0] =
     Inr (Some (record_of (\<lambda>_. None) (toy_row ''t1'' ''acme'' 3))) \<and>
   atTenant (record_of (\<lambda>_. None) (toy_row ''t1'' ''acme'' 3)) = ''acme''"
proof -
  let ?db = "[toy_row ''t1'' ''acme'' 3, toy_row ''t2'' ''rival'' 0]"
  let ?evs = "[(''rival'', 5, Delete ''t1''), (''rival'', 6, Spend ''t2'' 4)]"
  have names: "js_trim ''t2'' = ''t2''" "number_of_bigint 4 = 4" by code_simp+
  have f: "findById (\<lambda>_. None) ''t1'' (Some ''acme'') ?db = Inr (Some (record_of (\<lambda>_. None) (toy_row ''t1'' ''acme'' 3)))"
    by (simp add: findById_def select_one_def by_owner_def toy_row_def map_row_def map_row_ok toy_names)
  have "token_run toy_subtle (\<lambda>_ _. 7) (\<lambda>_. None) None None ?evs ?db = [toy_row ''t1'' ''acme'' 3, toy_row ''t2'' ''rival'' 4]"
    by (simp add: token_run_def recordSpend_def spend_read_def spend_write_def deleteToken_def owned_update_def findById_def
        select_one_def by_owner_def by_id_def map_row_def map_row_ok update_where_def toy_row_def toy_names names)
  moreover have "\<forall>e\<in>set ?evs. js_trim (fst e) \<noteq> js_trim ''acme''" by (simp add: toy_names)
  from token_isolation [OF this, of toy_subtle "\<lambda>_ _. 7" "\<lambda>_. None" None None ?db "\<lambda>_. None" "''t1''"] f
  have "atTenant (record_of (\<lambda>_. None) (toy_row ''t1'' ''acme'' 3)) = js_trim ''acme''" by blast
  ultimately show ?thesis using f unfolding toy_names by blast
qed

text \<open>Issue and look-up: the token just created is found by its plaintext with the record that
  \<open>createToken\<close> returned, and that record decrypts, under the same key, to the token.\<close>

theorem created_token_roundtrip:
  assumes "subtle_ok sc" "createToken sc rnd k uuid envKc master now p db = (Inr x, db')"
    and "parse (the (json (JArr (map JStr (first_some (ctProviders p) []))))) =
         Some (JArr (map JStr (first_some (ctProviders p) [])))"
    and "atBudget x < 2 ^ 53" "atSpent x < 2 ^ 53"
  shows "findByToken sc parse (js_trim (ctToken p)) db' = Inr (Some x) \<and>
         decryptToken sc lossy envKc master (ctKey p) x = Inr (map of_char (js_trim (ctToken p)))"
proof -
  let ?tok = "js_trim (ctToken p)" and ?ps = "first_some (ctProviders p) []"
  from assms(2) obtain i key en budget spent expires where
    c: "?tok \<noteq> []" "js_trim (ctTenant p) \<noteq> []" "token_resolveKey envKc master (ctKey p) = Inr key"
    "encrypt sc rnd k (PlainText (map of_char ?tok)) (Passphrase key) None = Inr en"
    "amount (ctBudget p) = Inr budget" "amount (ctSpent p) = Inr spent"
    "iso_string (ctExpires p) = Inr expires"
    and ins: "insert_row (token_row i (hashToken sc ?tok) (js_trim (ctTenant p)) en budget spent ?ps
        (first_some (ctRpm p) DEFAULT_RPM_LIMIT) expires now) db = (Inr (), db')"
    and x: "x = \<lparr>atId = i, atHash = hashToken sc ?tok, atTenant = js_trim (ctTenant p),
         atEncrypted = Some (epCiphertextB64 en), atNonce = Some (epNonceB64 en), atBudget = budget, atSpent = spent,
         atProviders = ?ps, atRpm = first_some (ctRpm p) DEFAULT_RPM_LIMIT, atExpires = expires, atCreated = now\<rparr>"
    by (auto simp: createToken_def Let_def split: if_splits sum.splits prod.splits)
  let ?row = "token_row i (hashToken sc ?tok) (js_trim (ctTenant p)) en budget spent ?ps
      (first_some (ctRpm p) DEFAULT_RPM_LIMIT) expires now"
  from ins have db: "db' = db @ [?row]" "\<forall>r\<in>set db. trHash r \<noteq> hashToken sc ?tok"
    by (auto simp: insert_row_def token_row_def split: if_splits)
  have "0 \<le> budget" "0 \<le> spent" using c(5, 6) by (auto simp: amount_def split: option.splits if_splits)
  then have num: "number_of_bigint budget = budget" "number_of_bigint spent = spent"
    using assms(4, 5) by (auto simp: x number_of_bigint_def round53_exact nat_less_iff)
  have "the (json (JArr (map JStr ?ps))) \<noteq> []" unfolding json_array_text by simp
  then have prov: "providers_of parse (the (json (JArr (map JStr ?ps)))) = ?ps"
    unfolding providers_of_def assms(3) by (simp add: comp_def)
  have "record_of parse ?row = x" unfolding x record_of_def
    using num prov by (cases expires) (simp_all add: token_row_def)
  moreover have "trExpires ?row \<noteq> Some None" using c(7) by (auto simp: token_row_def dest: iso_string_ok)
  moreover have "select_one (\<lambda>r. trHash r = hashToken sc ?tok) db' = Some ?row"
  proof -
    have "select_one (\<lambda>r. trHash r = hashToken sc ?tok) db = None" using db(2) by (simp add: select_one_None)
    then show ?thesis by (simp add: db(1) select_one_snoc token_row_def)
  qed
  moreover have "trHash ?row = hashToken sc ?tok" by (simp add: token_row_def)
  ultimately have "findByToken sc parse ?tok db' = Inr (Some x)"
    using c(1) by (simp add: findByToken_def map_row_def map_row_ok hashToken_def)
  moreover have "decryptToken sc lossy envKc master (ctKey p) x = Inr (map of_char ?tok)"
    using token_decrypts [OF assms(1) c(4)] c(3) by (simp add: decryptToken_def x truthy_str_def)
  ultimately show ?thesis by blast
qed

definition toy_params :: CreateAuthTokenParams where
  "toy_params = \<lparr>ctId = None, ctToken = '' tok-1 '', ctTenant = ''acme'', ctKey = Some ''mk'', ctBudget = Some 500,
     ctSpent = None, ctProviders = None, ctRpm = None, ctExpires = None\<rparr>"

theorem created_token_roundtrip_witness:
  "\<exists>x db'. createToken toy_subtle (\<lambda>_ _. 7) 0 ''u1'' None None 9 toy_params [] = (Inr x, db') \<and>
     findByToken toy_subtle (\<lambda>_. Some (JArr [])) ''tok-1'' db' = Inr (Some x)"
proof -
  let ?c = "createToken toy_subtle (\<lambda>_ _. 7) 0 ''u1'' None None 9 toy_params []"
  have trim: "js_trim '' tok-1 '' = ''tok-1''" "js_trim ''acme'' = ''acme''" "isValidRpmLimit (JNum 60)"
    by code_simp+
  then have "\<exists>x db'. ?c = (Inr x, db') \<and> atBudget x < 2 ^ 53 \<and> atSpent x < 2 ^ 53"
    by (simp add: createToken_def Let_def toy_params_def token_resolveKey_def truthy_str_def encrypt_def
        generateNonce_def secureRandomBytes_def length_defs resolveKey_def deriveKey_def toy_subtle_def
        amount_def iso_string_def insert_row_def DEFAULT_RPM_LIMIT_def)
  then obtain x db' where c: "?c = (Inr x, db')" and "atBudget x < 2 ^ 53" "atSpent x < 2 ^ 53" by blast
  moreover have "js_trim (ctToken toy_params) = ''tok-1''" using trim by (simp add: toy_params_def)
  moreover have "ctProviders toy_params = None" by (simp add: toy_params_def)
  ultimately show ?thesis
    using created_token_roundtrip [OF toy_subtle_ok c, of "\<lambda>_. Some (JArr [])"] by simp
qed

section \<open>The two statements of \<open>recordSpend\<close>\<close>

lemma select_one_spend:
  "select_one (by_owner i t) (spend_write i t n db) =
     map_option (\<lambda>r. r\<lparr>trSpent := number_of_bigint n\<rparr>) (select_one (by_owner i t) db)"
  by (induction db) (auto simp: spend_write_def update_where_def select_one_def by_owner_def)

lemma findById_spend:
  assumes "findById parse i (Some t) db = Inr (Some x)" "0 \<le> n" "n < 2 ^ 53"
  shows "findById parse i (Some t) (spend_write i t n db) = Inr (Some (x\<lparr>atSpent := n\<rparr>))"
proof -
  obtain r where r: "select_one (by_owner i t) db = Some r" "x = record_of parse r"
    using findById_Some [OF assms(1)] by blast
  with assms(1) have "i \<noteq> []" "js_trim t \<noteq> []" "trExpires r \<noteq> Some None"
    by (auto simp: findById_def map_row_def mapRowToAuthTokenRecord_def iso_string_def split: if_splits)
  moreover have "number_of_bigint n = n" using assms(2, 3) by (simp add: number_of_bigint_def round53_exact nat_less_iff)
  moreover have "record_of parse (r\<lparr>trSpent := n\<rparr>) = (record_of parse r)\<lparr>atSpent := n\<rparr>"
    by (simp add: record_of_def)
  ultimately show ?thesis
    using r by (simp add: findById_def select_one_spend map_row_def map_row_ok)
qed

lemma spend_read_Inr:
  "findById parse i (Some t) db = Inr (Some x) \<Longrightarrow> 0 \<le> a \<Longrightarrow> spend_read parse i t a db = Inr (atSpent x + a)"
  by (simp add: spend_read_def)

text \<open>Two calls that both read before either writes.\<close>

definition interleaved_spends ::
  "(string \<Rightarrow> js option) \<Rightarrow> string \<Rightarrow> string \<Rightarrow> int \<Rightarrow> int \<Rightarrow> token_table \<Rightarrow> token_table" where
  "interleaved_spends parse i t a b db =
     (case (spend_read parse i t a db, spend_read parse i t b db) of
        (Inr m, Inr n) \<Rightarrow> spend_write i t n (spend_write i t m db) | _ \<Rightarrow> db)"

text \<open>Spending is recorded exactly by calls that follow one another, but \<open>recordSpend\<close> reads and
  writes in two statements: of two overlapping calls the first charge is lost.\<close>

theorem spend_lost_update:
  assumes "table_ok db" "findById parse i (Some t) db = Inr (Some x)" "0 \<le> a" "0 \<le> b" "atSpent x + a + b < 2 ^ 53"
  shows "findById parse i (Some t) (snd (recordSpend parse i t b (snd (recordSpend parse i t a db)))) =
           Inr (Some (x\<lparr>atSpent := atSpent x + a + b\<rparr>)) \<and>
         findById parse i (Some t) (interleaved_spends parse i t a b db) =
           Inr (Some (x\<lparr>atSpent := atSpent x + b\<rparr>))"
proof -
  obtain r where "r \<in> set db" "x = record_of parse r" using findById_Some [OF assms(2)] by blast
  with assms(1) have "0 \<le> atSpent x" by (auto simp: table_ok_def list_all_iff row_ok_def)
  with assms(3-5) have bounds: "0 \<le> atSpent x + a" "atSpent x + a < 2 ^ 53" "0 \<le> atSpent x + b" "atSpent x + b < 2 ^ 53"
    "0 \<le> atSpent x + a + b" by linarith+
  have one: "findById parse i (Some t) (spend_write i t (atSpent x + a) db) = Inr (Some (x\<lparr>atSpent := atSpent x + a\<rparr>))"
    using findById_spend [OF assms(2) bounds(1, 2)] .
  have "findById parse i (Some t) (spend_write i t (atSpent x + a + b) (spend_write i t (atSpent x + a) db)) =
      Inr (Some (x\<lparr>atSpent := atSpent x + a + b\<rparr>))"
    using findById_spend [OF one bounds(5) assms(5)] by simp
  moreover have "findById parse i (Some t) (spend_write i t (atSpent x + b) (spend_write i t (atSpent x + a) db)) =
      Inr (Some (x\<lparr>atSpent := atSpent x + b\<rparr>))"
    using findById_spend [OF one bounds(3, 4)] by simp
  ultimately show ?thesis
    using spend_read_Inr [OF assms(2)] spend_read_Inr [OF one] assms(3, 4)
    by (simp add: recordSpend_def interleaved_spends_def)
qed

theorem spend_lost_update_witness:
  "findById (\<lambda>_. None) ''t1'' (Some ''acme'') (interleaved_spends (\<lambda>_. None) ''t1'' ''acme'' 10 20 [toy_row ''t1'' ''acme'' 3]) =
     Inr (Some ((record_of (\<lambda>_. None) (toy_row ''t1'' ''acme'' 3))\<lparr>atSpent := 23\<rparr>))"
proof -
  have t: "js_trim ''acme'' = ''acme''" "js_trim ''t1'' = ''t1''" "isValidRpmLimit (JNum 60)" by code_simp+
  then have f: "findById (\<lambda>_. None) ''t1'' (Some ''acme'') [toy_row ''t1'' ''acme'' 3] =
      Inr (Some (record_of (\<lambda>_. None) (toy_row ''t1'' ''acme'' 3)))"
    by (simp add: findById_def select_one_def by_owner_def toy_row_def map_row_def map_row_ok)
  have "table_ok [toy_row ''t1'' ''acme'' 3]" using t by (simp add: table_ok_def row_ok_def toy_row_def)
  from spend_lost_update [OF this f, of 10 20] show ?thesis by (simp add: toy_row_def)
qed

end
