(* ===== verification/Demo.thy ===== *)
theory Demo
  imports Bytes Interfaces KeySelector
begin

text \<open>
  \<open>src/auth/demo/\<close>: the public playground. One durable object hands out a token that rotates every
  fifteen minutes and admits requests under sliding-window limits per client address and for the
  whole pool. The token and its expiry are stored; the windows (\<open>DemoSandbox\<close>) are in memory only.
  The sixteen bytes of \<open>getRandomValues\<close> are an argument, the clock is read once per operation.
\<close>

section \<open>Constants\<close>

definition DEFAULT_ROTATION_INTERVAL_MS :: int where "DEFAULT_ROTATION_INTERVAL_MS = 15 * 60 * 1000"
definition DEFAULT_IP_RPM_LIMIT :: int where "DEFAULT_IP_RPM_LIMIT = 1"
definition DEFAULT_IP_RPD_LIMIT :: int where "DEFAULT_IP_RPD_LIMIT = 5"
definition DEFAULT_GLOBAL_RPM_LIMIT :: int where "DEFAULT_GLOBAL_RPM_LIMIT = 5"
definition DEFAULT_GLOBAL_RPD_LIMIT :: int where "DEFAULT_GLOBAL_RPD_LIMIT = 20"
definition DEFAULT_STALE_PRUNE_MS :: int where "DEFAULT_STALE_PRUNE_MS = 60 * 60 * 1000"

section \<open>Tokens (sandbox.ts)\<close>

definition generateDemoToken :: "timestamp \<Rightarrow> bytes \<Rightarrow> string" where
  "generateDemoToken now randomBytes =
     ''kc_demo_'' @ bigint_to_string (now div 1000) @ ''_'' @ take 12 (bytesToHex randomBytes)"

definition DEMO_PREFIX :: string where "DEMO_PREFIX = ''kc_demo_''"

datatype token_verdict = TokenValid | TokenMissing | TokenBadPrefix | TokenRotated | TokenExpired

definition validateDemoToken :: "string \<Rightarrow> string \<Rightarrow> timestamp \<Rightarrow> timestamp \<Rightarrow> token_verdict" where
  "validateDemoToken token currentToken tokenExpiresAt now =
     (if token = [] then TokenMissing
      else if take (length DEMO_PREFIX) token \<noteq> DEMO_PREFIX then TokenBadPrefix
      else if token \<noteq> currentToken then TokenRotated
      else if now \<ge> tokenExpiresAt then TokenExpired
      else TokenValid)"

section \<open>Sliding windows (sandbox.ts)\<close>

record IpWindowData =
  iwRequests :: nat
  iwWindowStart :: timestamp
  iwTimestamps :: "timestamp list"
  iwMinuteWindowStart :: timestamp
  iwMinuteRequests :: nat
  iwDayWindowStart :: timestamp
  iwDayRequests :: nat

record DemoSandbox =
  sbIpRpm :: int
  sbIpRpd :: int
  sbGlobalRpm :: int
  sbGlobalRpd :: int
  sbStale :: int
  sbWindows :: "string \<rightharpoonup> IpWindowData"
  sbGlobal :: "timestamp list"

datatype demo_reason = IpRpmExceeded | IpRpdExceeded | GlobalRpmExceeded | GlobalRpdExceeded

record DemoRateLimitResult =
  drAllowed :: bool
  drCurrentRpm :: int
  drRpmLimit :: int
  drCurrentRpd :: int
  drRpdLimit :: int
  drGlobalRpm :: int
  drGlobalRpmLimit :: int
  drRetryAfter :: "int option"
  drReason :: "demo_reason option"

definition since :: "timestamp \<Rightarrow> int \<Rightarrow> timestamp list \<Rightarrow> timestamp list" where
  "since now w ts = filter (\<lambda>t. now - w < t) ts"

definition count_since :: "timestamp \<Rightarrow> int \<Rightarrow> timestamp list \<Rightarrow> int" where
  "count_since now w ts = int (length (since now w ts))"

definition ip_times :: "DemoSandbox \<Rightarrow> string \<Rightarrow> timestamp list" where
  "ip_times s ip = (case sbWindows s ip of Some d \<Rightarrow> iwTimestamps d | None \<Rightarrow> [])"

definition sb_checkRateLimit :: "string \<Rightarrow> timestamp \<Rightarrow> DemoSandbox \<Rightarrow> DemoRateLimitResult" where
  "sb_checkRateLimit ip now s =
     (let activeGlobal = since now 60000 (sbGlobal s);
          ipTimestamps = since now 86400000 (ip_times s ip);
          ipMinute = since now 60000 ipTimestamps;
          activeDay = since now 86400000 (sbGlobal s);
          retry = (\<lambda>oldest w. Some (max 1 (ceil_secs (oldest + w - now))));
          base = \<lparr>drAllowed = False, drCurrentRpm = int (length ipMinute), drRpmLimit = sbIpRpm s,
                  drCurrentRpd = int (length ipTimestamps), drRpdLimit = sbIpRpd s,
                  drGlobalRpm = int (length activeGlobal), drGlobalRpmLimit = sbGlobalRpm s,
                  drRetryAfter = None, drReason = None\<rparr>
      in if int (length ipMinute) \<ge> sbIpRpm s then
           base\<lparr>drRetryAfter := retry (hd ipMinute) 60000, drReason := Some IpRpmExceeded\<rparr>
         else if int (length ipTimestamps) \<ge> sbIpRpd s then
           base\<lparr>drRetryAfter := retry (hd ipTimestamps) 86400000, drReason := Some IpRpdExceeded\<rparr>
         else if int (length activeGlobal) \<ge> sbGlobalRpm s then
           base\<lparr>drRetryAfter := retry (hd activeGlobal) 60000, drReason := Some GlobalRpmExceeded\<rparr>
         else if int (length activeDay) \<ge> sbGlobalRpd s then
           base\<lparr>drRetryAfter := retry (hd activeDay) 86400000, drReason := Some GlobalRpdExceeded\<rparr>
         else base\<lparr>drAllowed := True\<rparr>)"

definition sb_recordRequest :: "string \<Rightarrow> timestamp \<Rightarrow> DemoSandbox \<Rightarrow> DemoRateLimitResult \<times> DemoSandbox" where
  "sb_recordRequest ip now s =
     (let check = sb_checkRateLimit ip now s in
      if \<not> drAllowed check then (check, s)
      else (let global = since now 86400000 (sbGlobal s) @ [now];
                valid = since now 86400000 (ip_times s ip) @ [now];
                ipMinute = since now 60000 valid;
                updated = \<lparr>iwRequests = length valid, iwWindowStart = now, iwTimestamps = valid,
                           iwMinuteWindowStart = now - 60000, iwMinuteRequests = length ipMinute,
                           iwDayWindowStart = now - 86400000, iwDayRequests = length valid\<rparr>
            in (\<lparr>drAllowed = True, drCurrentRpm = int (length ipMinute), drRpmLimit = sbIpRpm s,
                 drCurrentRpd = int (length valid), drRpdLimit = sbIpRpd s,
                 drGlobalRpm = int (length global), drGlobalRpmLimit = sbGlobalRpm s,
                 drRetryAfter = None, drReason = None\<rparr>,
                s\<lparr>sbGlobal := global, sbWindows := (sbWindows s)(ip \<mapsto> updated)\<rparr>)))"

definition sb_pruneStaleWindows :: "timestamp \<Rightarrow> DemoSandbox \<Rightarrow> DemoSandbox" where
  "sb_pruneStaleWindows now s =
     s\<lparr>sbWindows := (\<lambda>ip. case sbWindows s ip of
          Some d \<Rightarrow> if iwWindowStart d < now - sbStale s then None else Some d
        | None \<Rightarrow> None)\<rparr>"

section \<open>The durable object (do.ts, storage.ts)\<close>

record DemoDO =
  ddToken :: string
  ddExpiresAt :: timestamp
  ddRotation :: int
  ddSandbox :: DemoSandbox
  ddStoredToken :: "string option"
  ddStoredExpiry :: "timestamp option"
  ddAlarm :: "timestamp option"

record DemoDOOptions =
  doRotation :: "int option"
  doIpRpm :: "int option"
  doIpRpd :: "int option"
  doGlobalRpm :: "int option"
  doStale :: "int option"

text \<open>The constructor of the object never passes a daily limit of the pool to its sandbox.\<close>

definition newDemoSandbox :: "DemoDOOptions \<Rightarrow> DemoSandbox" where
  "newDemoSandbox opts =
     \<lparr>sbIpRpm = first_some (doIpRpm opts) DEFAULT_IP_RPM_LIMIT,
      sbIpRpd = first_some (doIpRpd opts) DEFAULT_IP_RPD_LIMIT,
      sbGlobalRpm = first_some (doGlobalRpm opts) DEFAULT_GLOBAL_RPM_LIMIT,
      sbGlobalRpd = DEFAULT_GLOBAL_RPD_LIMIT,
      sbStale = first_some (doStale opts) DEFAULT_STALE_PRUNE_MS,
      sbWindows = Map.empty, sbGlobal = []\<rparr>"

definition dd_persist :: "string \<Rightarrow> timestamp \<Rightarrow> DemoDO \<Rightarrow> DemoDO" where
  "dd_persist token expiresAt s = s\<lparr>ddStoredToken := Some token, ddStoredExpiry := Some expiresAt\<rparr>"

definition dd_scheduleAlarm :: "timestamp \<Rightarrow> DemoDO \<Rightarrow> DemoDO" where
  "dd_scheduleAlarm t s = s\<lparr>ddAlarm := Some t\<rparr>"

definition dd_rotateToken :: "timestamp \<Rightarrow> bytes \<Rightarrow> DemoDO \<Rightarrow> DemoDO" where
  "dd_rotateToken now rnd s =
     (let expiresAt = now + ddRotation s; token = generateDemoToken now rnd;
          s1 = dd_persist token expiresAt (s\<lparr>ddToken := token, ddExpiresAt := expiresAt\<rparr>)
      in dd_scheduleAlarm expiresAt (s1\<lparr>ddSandbox := sb_pruneStaleWindows now (ddSandbox s1)\<rparr>))"

definition dd_ensureInitialized :: "timestamp \<Rightarrow> bytes \<Rightarrow> DemoDO \<Rightarrow> DemoDO" where
  "dd_ensureInitialized now rnd s =
     (case (ddStoredToken s, ddStoredExpiry s) of
        (Some savedToken, Some savedExpiry) \<Rightarrow>
          if savedToken \<noteq> [] \<and> savedExpiry \<noteq> 0 \<and> savedExpiry > now
          then dd_scheduleAlarm savedExpiry (s\<lparr>ddToken := savedToken, ddExpiresAt := savedExpiry\<rparr>)
          else dd_rotateToken now rnd s
      | _ \<Rightarrow> dd_rotateToken now rnd s)"

text \<open>A new object over the storage of an old one; it is initialised before it serves.\<close>

definition newDemoDO ::
  "timestamp \<Rightarrow> bytes \<Rightarrow> string option \<Rightarrow> timestamp option \<Rightarrow> DemoDOOptions \<Rightarrow> DemoDO" where
  "newDemoDO now rnd storedToken storedExpiry opts =
     dd_ensureInitialized now rnd
       \<lparr>ddToken = [], ddExpiresAt = 0, ddRotation = first_some (doRotation opts) DEFAULT_ROTATION_INTERVAL_MS,
        ddSandbox = newDemoSandbox opts, ddStoredToken = storedToken, ddStoredExpiry = storedExpiry,
        ddAlarm = None\<rparr>"

definition dd_alarm :: "timestamp \<Rightarrow> bytes \<Rightarrow> DemoDO \<Rightarrow> DemoDO" where
  "dd_alarm now rnd s = dd_rotateToken now rnd s"

definition dd_getActiveDemoToken :: "DemoDO \<Rightarrow> string \<times> timestamp" where
  "dd_getActiveDemoToken s = (ddToken s, ddExpiresAt s)"

definition dd_validateToken :: "timestamp \<Rightarrow> string \<Rightarrow> DemoDO \<Rightarrow> token_verdict" where
  "dd_validateToken now token s = validateDemoToken token (ddToken s) (ddExpiresAt s) now"

definition dd_checkRateLimit :: "timestamp \<Rightarrow> string \<Rightarrow> DemoDO \<Rightarrow> DemoRateLimitResult" where
  "dd_checkRateLimit now ip s = sb_checkRateLimit ip now (ddSandbox s)"

definition dd_recordRequest :: "timestamp \<Rightarrow> string \<Rightarrow> DemoDO \<Rightarrow> DemoRateLimitResult \<times> DemoDO" where
  "dd_recordRequest now ip s =
     (let (r, sb) = sb_recordRequest ip now (ddSandbox s) in (r, s\<lparr>ddSandbox := sb\<rparr>))"

record CheckAndConsumeResult =
  ccAllowed :: bool
  ccStatus :: int
  ccRetryAfter :: "int option"
  ccRateLimit :: "DemoRateLimitResult option"

definition dd_checkAndConsume :: "timestamp \<Rightarrow> string \<Rightarrow> string \<Rightarrow> DemoDO \<Rightarrow> CheckAndConsumeResult \<times> DemoDO" where
  "dd_checkAndConsume now ip token s =
     (if dd_validateToken now token s \<noteq> TokenValid
      then (\<lparr>ccAllowed = False, ccStatus = 401, ccRetryAfter = None, ccRateLimit = None\<rparr>, s)
      else (let (rateLimit, s1) = dd_recordRequest now ip s in
            if \<not> drAllowed rateLimit
            then (\<lparr>ccAllowed = False, ccStatus = 429, ccRetryAfter = drRetryAfter rateLimit,
                   ccRateLimit = Some rateLimit\<rparr>, s1)
            else (\<lparr>ccAllowed = True, ccStatus = 200, ccRetryAfter = None, ccRateLimit = Some rateLimit\<rparr>, s1)))"

text \<open>A request after URL and JSON parsing; a body that is not JSON has no fields.\<close>

record DemoFetch =
  dfMethod :: string
  dfPath :: string
  dfQueryIp :: "string option"
  dfConnectingIp :: "string option"
  dfBodyToken :: "string option"
  dfBodyIp :: "string option"

datatype demo_body =
    DemoEmpty
  | DemoTokenBody string timestamp "int option"
  | DemoLimits DemoRateLimitResult
  | DemoInvalid token_verdict
  | DemoValid timestamp
  | DemoMissingToken
  | DemoConsume CheckAndConsumeResult
  | DemoNotFound

text \<open>Status, body and \<open>retry-after\<close> header.\<close>

type_synonym demo_response = "int \<times> demo_body \<times> int option"

definition dd_fetch :: "timestamp \<Rightarrow> bytes \<Rightarrow> DemoFetch \<Rightarrow> DemoDO \<Rightarrow> demo_response \<times> DemoDO" where
  "dd_fetch now rnd req s =
     (let get = (dfMethod req = ''GET''); post = (dfMethod req = ''POST''); path = dfPath req;
          ip = first_some (dfConnectingIp req) ''127.0.0.1''
      in if dfMethod req = ''OPTIONS'' then ((204, DemoEmpty, None), s)
         else if (get \<or> post) \<and> path \<in> {''/token'', ''/api/demo/token'', ''/''} then
           (let (token, expiresAt) = dd_getActiveDemoToken s
            in ((200, DemoTokenBody token expiresAt (Some (max 0 ((expiresAt - now) div 1000))), None), s))
         else if get \<and> path = ''/limits'' then
           ((200, DemoLimits (dd_checkRateLimit now (first_some (dfQueryIp req) ip) s), None), s)
         else if post \<and> path \<in> {''/verify'', ''/validate''} then
           (case dfBodyToken req of
              Some token \<Rightarrow>
                if token = [] then ((400, DemoMissingToken, None), s)
                else (case dd_validateToken now token s of
                        TokenValid \<Rightarrow> ((200, DemoValid (ddExpiresAt s), None), s)
                      | v \<Rightarrow> ((401, DemoInvalid v, None), s))
            | None \<Rightarrow> ((400, DemoMissingToken, None), s))
         else if post \<and> path \<in> {''/consume'', ''/check''} then
           (case dfBodyToken req of
              Some token \<Rightarrow>
                if token = [] then ((400, DemoMissingToken, None), s)
                else (let (r, s1) = dd_checkAndConsume now (first_some (dfBodyIp req) ip) token s
                      in ((ccStatus r, DemoConsume r, ccRetryAfter r), s1))
            | None \<Rightarrow> ((400, DemoMissingToken, None), s))
         else if post \<and> path = ''/rotate'' then
           (let s1 = dd_rotateToken now rnd s; (token, expiresAt) = dd_getActiveDemoToken s1
            in ((200, DemoTokenBody token expiresAt None, None), s1))
         else ((404, DemoNotFound, None), s))"

section \<open>Lemmas: windows of time stamps\<close>

interpretation stamps: sliding_window "\<lambda>t. t" "\<lambda>_. 1" since count_since
  by unfold_locales (simp_all add: since_def count_since_def sum_list_triv)

lemma count_since_since: "w \<le> w' \<Longrightarrow> count_since now w (since now w' ts) = count_since now w ts"
  by (rule stamps.usage_prune) simp_all

section \<open>Events\<close>

datatype demo_event = DemoRequest string string | DemoAlarm bytes

text \<open>The list \<open>sent\<close> keeps the time and address of every admitted request.\<close>

fun demo_step :: "timestamp \<times> demo_event \<Rightarrow> DemoDO \<times> (timestamp \<times> string) list \<Rightarrow>
    DemoDO \<times> (timestamp \<times> string) list" where
  "demo_step (now, DemoRequest ip token) (s, sent) =
     (let (r, s1) = dd_checkAndConsume now ip token s
      in (s1, if ccAllowed r then sent @ [(now, ip)] else sent))"
| "demo_step (now, DemoAlarm rnd) (s, sent) = (dd_alarm now rnd s, sent)"

definition demo_run :: "(timestamp \<times> demo_event) list \<Rightarrow> DemoDO \<Rightarrow> DemoDO \<times> (timestamp \<times> string) list" where
  "demo_run evs s = fold demo_step evs (s, [])"

definition of_ip :: "string \<Rightarrow> (timestamp \<times> string) list \<Rightarrow> timestamp list" where
  "of_ip ip sent = map fst (filter (\<lambda>a. snd a = ip) sent)"

lemma of_ip_snoc [simp]: "of_ip ip (sent @ [(t, ip')]) = of_ip ip sent @ (if ip' = ip then [t] else [])"
  by (simp add: of_ip_def)

text \<open>Every admission was within the limit when it was made.\<close>

definition rated :: "int \<Rightarrow> int \<Rightarrow> timestamp list \<Rightarrow> bool" where
  "rated w l ts \<longleftrightarrow> (\<forall>p t q. ts = p @ t # q \<longrightarrow> count_since t w (p @ [t]) \<le> l)"

lemma rated_snoc: "rated w l ts \<Longrightarrow> count_since t w (ts @ [t]) \<le> l \<Longrightarrow> rated w l (ts @ [t])"
  unfolding rated_def by (metis append_butlast_last_id butlast.simps(2) butlast_append butlast_snoc
      last.simps last_append last_snoc list.distinct(1))

lemma rated_Nil [simp]: "rated w l []"
  by (simp add: rated_def)

lemma rated_bound:
  "sorted ts \<Longrightarrow> rated w l ts \<Longrightarrow> 0 \<le> l \<Longrightarrow> count_since t w (filter (\<lambda>x. x \<le> t) ts) \<le> l"
  by (rule stamps.window_bound) (auto simp: rated_def)

text \<open>
  What the sandbox remembers of the admitted requests: the pool's day, and of each address its last day as
  far as pruning does not reach back into it.
\<close>

definition sb_accounts :: "timestamp \<Rightarrow> (timestamp \<times> string) list \<Rightarrow> DemoSandbox \<Rightarrow> bool" where
  "sb_accounts now sent s \<longleftrightarrow>
     (\<forall>t w. now \<le> t \<longrightarrow> w \<le> 86400000 \<longrightarrow> count_since t w (sbGlobal s) = count_since t w (map fst sent)) \<and>
     (\<forall>ip t w. now \<le> t \<longrightarrow> w \<le> 86400000 \<longrightarrow> w \<le> sbStale s \<longrightarrow>
        count_since t w (ip_times s ip) = count_since t w (of_ip ip sent)) \<and>
     (\<forall>ip d. sbWindows s ip = Some d \<longrightarrow> (\<forall>t\<in>set (of_ip ip sent). t \<le> iwWindowStart d))"

definition demo_inv :: "timestamp \<Rightarrow> DemoDO \<times> (timestamp \<times> string) list \<Rightarrow> bool" where
  "demo_inv now = (\<lambda>(s, sent). let sb = ddSandbox s in
     60000 \<le> sbStale sb \<and> sb_accounts now sent sb \<and> sorted (map fst sent) \<and> (\<forall>a\<in>set sent. fst a \<le> now) \<and>
     rated 60000 (sbGlobalRpm sb) (map fst sent) \<and> rated 86400000 (sbGlobalRpd sb) (map fst sent) \<and>
     (\<forall>ip. rated 60000 (sbIpRpm sb) (of_ip ip sent)) \<and>
     (\<forall>ip. rated (min 86400000 (sbStale sb)) (sbIpRpd sb) (of_ip ip sent)))"

definition sb_limits :: "DemoSandbox \<Rightarrow> int \<times> int \<times> int \<times> int \<times> int" where
  "sb_limits s = (sbIpRpm s, sbIpRpd s, sbGlobalRpm s, sbGlobalRpd s, sbStale s)"

lemma sb_check_allowed:
  "drAllowed (sb_checkRateLimit ip now s) \<longleftrightarrow>
     count_since now 60000 (ip_times s ip) < sbIpRpm s \<and> count_since now 86400000 (ip_times s ip) < sbIpRpd s \<and>
     count_since now 60000 (sbGlobal s) < sbGlobalRpm s \<and> count_since now 86400000 (sbGlobal s) < sbGlobalRpd s"
proof -
  have "since now 60000 (since now 86400000 (ip_times s ip)) = since now 60000 (ip_times s ip)"
    by (auto simp: since_def intro!: filter_cong)
  then show ?thesis by (auto simp: sb_checkRateLimit_def Let_def count_since_def)
qed

lemma count_since_mono: "w \<le> w' \<Longrightarrow> count_since t w ts \<le> count_since t w' ts"
  by (induction ts) (auto simp: count_since_def since_def)

lemma sb_accounts_ip:
  "sb_accounts now sent s \<Longrightarrow> now \<le> t \<Longrightarrow> w \<le> 86400000 \<Longrightarrow> w \<le> sbStale s \<Longrightarrow>
   count_since t w (ip_times s ip) = count_since t w (of_ip ip sent)"
  by (simp add: sb_accounts_def)

lemma sb_accounts_later: "sb_accounts now sent s \<Longrightarrow> now \<le> t \<Longrightarrow> sb_accounts t sent s"
  by (simp add: sb_accounts_def)

lemma sb_record_admitted:
  assumes "drAllowed (sb_checkRateLimit ip now s)"
  shows "drAllowed (fst (sb_recordRequest ip now s))"
    "sbGlobal (snd (sb_recordRequest ip now s)) = since now 86400000 (sbGlobal s) @ [now]"
    "ip_times (snd (sb_recordRequest ip now s)) ip' =
       (if ip' = ip then since now 86400000 (ip_times s ip) @ [now] else ip_times s ip')"
    "sbWindows (snd (sb_recordRequest ip now s)) ip' = Some d \<Longrightarrow>
       (ip' = ip \<and> iwWindowStart d = now) \<or> (ip' \<noteq> ip \<and> sbWindows s ip' = Some d)"
    "sb_limits (snd (sb_recordRequest ip now s)) = sb_limits s"
  using assms by (auto simp: sb_recordRequest_def Let_def ip_times_def sb_limits_def split: if_splits)

lemma sb_record_refused:
  "\<not> drAllowed (sb_checkRateLimit ip now s) \<Longrightarrow>
   sb_recordRequest ip now s = (sb_checkRateLimit ip now s, s)"
  by (simp add: sb_recordRequest_def Let_def)

lemma sb_accounts_record:
  assumes acc: "sb_accounts now sent s" and adm: "drAllowed (sb_checkRateLimit ip now s)"
    and old: "\<And>a. a \<in> set sent \<Longrightarrow> fst a \<le> now"
  shows "sb_accounts now (sent @ [(now, ip)]) (snd (sb_recordRequest ip now s))"
  unfolding sb_accounts_def
proof (intro conjI allI impI)
  fix t w :: int assume t: "now \<le> t" "w \<le> 86400000"
  then have "count_since t w (since now 86400000 (sbGlobal s)) = count_since t w (sbGlobal s)"
    by (intro stamps.usage_prune) auto
  with acc t show "count_since t w (sbGlobal (snd (sb_recordRequest ip now s))) = count_since t w (map fst (sent @ [(now, ip)]))"
    by (simp add: sb_record_admitted [OF adm] stamps.usage_append sb_accounts_def)
next
  fix ip' and t w :: int assume t: "now \<le> t" "w \<le> 86400000" "w \<le> sbStale (snd (sb_recordRequest ip now s))"
  then have "count_since t w (since now 86400000 ts) = count_since t w ts" for ts
    by (intro stamps.usage_prune) auto
  moreover have "w \<le> sbStale s" using t(3) sb_record_admitted(5) [OF adm] by (simp add: sb_limits_def)
  ultimately show "count_since t w (ip_times (snd (sb_recordRequest ip now s)) ip') =
      count_since t w (of_ip ip' (sent @ [(now, ip)]))"
    using sb_accounts_ip [OF acc t(1,2)] by (simp add: sb_record_admitted [OF adm] stamps.usage_append)
next
  fix ip' d assume d: "sbWindows (snd (sb_recordRequest ip now s)) ip' = Some d"
  show "\<forall>t\<in>set (of_ip ip' (sent @ [(now, ip)])). t \<le> iwWindowStart d"
    using sb_record_admitted(4) [OF adm d] acc old by (auto simp: sb_accounts_def of_ip_def)
qed

lemma sb_accounts_prune:
  assumes acc: "sb_accounts now sent s"
  shows "sb_accounts now sent (sb_pruneStaleWindows now s)"
  unfolding sb_accounts_def
proof (intro conjI allI impI)
  show "count_since t w (sbGlobal (sb_pruneStaleWindows now s)) = count_since t w (map fst sent)"
    if "now \<le> t" "w \<le> 86400000" for t w
    using acc that by (simp add: sb_pruneStaleWindows_def sb_accounts_def)
  fix ip
  show "\<forall>t\<in>set (of_ip ip sent). t \<le> iwWindowStart d"
    if "sbWindows (sb_pruneStaleWindows now s) ip = Some d" for d
    using acc that by (auto simp: sb_pruneStaleWindows_def sb_accounts_def split: option.splits if_splits)
  fix t w :: int assume t: "now \<le> t" "w \<le> 86400000" "w \<le> sbStale (sb_pruneStaleWindows now s)"
  then have stale: "w \<le> sbStale s" by (simp add: sb_pruneStaleWindows_def)
  show "count_since t w (ip_times (sb_pruneStaleWindows now s) ip) = count_since t w (of_ip ip sent)"
  proof (cases "\<exists>d. sbWindows s ip = Some d \<and> iwWindowStart d < now - sbStale s")
    case True
    then obtain d where d: "sbWindows s ip = Some d" "iwWindowStart d < now - sbStale s" by blast
    with acc have "x \<le> t - w" if "x \<in> set (of_ip ip sent)" for x
      using that t stale by (fastforce simp: sb_accounts_def)
    then have "count_since t w (of_ip ip sent) = 0" by (intro stamps.usage_expired) auto
    with d show ?thesis by (simp add: ip_times_def sb_pruneStaleWindows_def)
  next
    case False
    then have "ip_times (sb_pruneStaleWindows now s) ip = ip_times s ip"
      by (auto simp: ip_times_def sb_pruneStaleWindows_def split: option.splits)
    with sb_accounts_ip [OF acc t(1,2) stale] show ?thesis by simp
  qed
qed

lemma dd_consume_state:
  "snd (dd_checkAndConsume now ip token s) =
     (if dd_validateToken now token s = TokenValid
      then s\<lparr>ddSandbox := snd (sb_recordRequest ip now (ddSandbox s))\<rparr> else s)"
  by (simp add: dd_checkAndConsume_def dd_recordRequest_def Let_def case_prod_beta)

lemma dd_consume_allowed:
  "ccAllowed (fst (dd_checkAndConsume now ip token s)) \<longleftrightarrow>
     dd_validateToken now token s = TokenValid \<and> drAllowed (sb_checkRateLimit ip now (ddSandbox s))"
proof (cases "drAllowed (sb_checkRateLimit ip now (ddSandbox s))")
  case True
  then show ?thesis
    by (simp add: dd_checkAndConsume_def dd_recordRequest_def Let_def case_prod_beta sb_record_admitted)
next
  case False
  then show ?thesis
    by (simp add: dd_checkAndConsume_def dd_recordRequest_def Let_def case_prod_beta sb_record_refused)
qed

lemma dd_alarm_sandbox [simp]: "ddSandbox (dd_alarm now rnd s) = sb_pruneStaleWindows now (ddSandbox s)"
  by (simp add: dd_alarm_def dd_rotateToken_def dd_persist_def dd_scheduleAlarm_def Let_def)

lemma sb_prune_limits [simp]: "sb_limits (sb_pruneStaleWindows now s) = sb_limits s"
  by (simp add: sb_pruneStaleWindows_def sb_limits_def)

lemma demo_inv_step:
  assumes inv: "demo_inv now (s, sent)" and le: "now \<le> t"
  shows "demo_inv t (demo_step (t, ev) (s, sent)) \<and>
         sb_limits (ddSandbox (fst (demo_step (t, ev) (s, sent)))) = sb_limits (ddSandbox s)"
proof (cases ev)
  case (DemoAlarm rnd)
  from inv le have "sb_accounts t sent (ddSandbox s)"
    by (auto simp: demo_inv_def Let_def intro: sb_accounts_later)
  from sb_accounts_prune [OF this] inv le DemoAlarm show ?thesis
    by (auto simp: demo_inv_def Let_def sb_pruneStaleWindows_def)
      (auto simp: sb_limits_def)
next
  case (DemoRequest ip token)
  let ?sb = "ddSandbox s"
  show ?thesis
  proof (cases "dd_validateToken t token s = TokenValid \<and> drAllowed (sb_checkRateLimit ip t ?sb)")
    case False
    then have "demo_step (t, ev) (s, sent) = (s, sent)"
      using dd_consume_state [of t ip token s] dd_consume_allowed [of t ip token s] DemoRequest
        sb_record_refused [of ip t ?sb]
      by (auto simp: case_prod_beta Let_def)
    with inv le show ?thesis by (auto simp: demo_inv_def Let_def intro: sb_accounts_later)
  next
    case True
    let ?sb' = "snd (sb_recordRequest ip t ?sb)"
    note rec = sb_record_admitted [of ip t ?sb, OF True [THEN conjunct2]]
    have acc: "sb_accounts t sent ?sb" using inv le by (auto simp: demo_inv_def Let_def intro: sb_accounts_later)
    have old: "\<And>a. a \<in> set sent \<Longrightarrow> fst a \<le> t" using inv le by (fastforce simp: demo_inv_def Let_def)
    have step: "demo_step (t, ev) (s, sent) = (s\<lparr>ddSandbox := ?sb'\<rparr>, sent @ [(t, ip)])"
      using dd_consume_state [of t ip token s] dd_consume_allowed [of t ip token s] DemoRequest True
      by (auto simp: case_prod_beta Let_def)
    have lim: "count_since t 60000 (map fst sent) < sbGlobalRpm ?sb" "count_since t 86400000 (map fst sent) < sbGlobalRpd ?sb"
      using True acc by (auto simp: sb_check_allowed sb_accounts_def)
    have "60000 \<le> sbStale ?sb" using inv by (simp add: demo_inv_def Let_def)
    then have lim_ip: "count_since t 60000 (of_ip ip sent) < sbIpRpm ?sb"
      using True sb_accounts_ip [OF acc order_refl, of 60000 ip] by (simp add: sb_check_allowed)
    let ?day = "min 86400000 (sbStale ?sb)"
    have "count_since t ?day (of_ip ip sent) \<le> count_since t 86400000 (ip_times ?sb ip)"
      using sb_accounts_ip [OF acc order_refl, of ?day ip] count_since_mono [of ?day 86400000 t "ip_times ?sb ip"] by simp
    then have lim_day: "count_since t ?day (of_ip ip sent) < sbIpRpd ?sb" using True by (simp add: sb_check_allowed)
    have snoc: "count_since t w (ts @ [t]) \<le> l" if "count_since t w ts < l" "0 < w" for w ts l
      using that by (simp add: stamps.usage_snoc)
    have "0 < ?day" using \<open>60000 \<le> sbStale ?sb\<close> by simp
    from lim lim_ip snoc [OF lim_day this] have "rated 60000 (sbGlobalRpm ?sb) (map fst sent @ [t])"
      "rated 86400000 (sbGlobalRpd ?sb) (map fst sent @ [t])" "rated 60000 (sbIpRpm ?sb) (of_ip ip sent @ [t])"
      "rated ?day (sbIpRpd ?sb) (of_ip ip sent @ [t])"
      using inv by (auto simp: demo_inv_def Let_def intro!: rated_snoc snoc)
    moreover have "sbStale ?sb' = sbStale ?sb" "sbGlobalRpm ?sb' = sbGlobalRpm ?sb" "sbGlobalRpd ?sb' = sbGlobalRpd ?sb"
      "sbIpRpm ?sb' = sbIpRpm ?sb" "sbIpRpd ?sb' = sbIpRpd ?sb" using rec(5) by (simp_all add: sb_limits_def)
    ultimately show ?thesis
      unfolding step using inv sb_accounts_record [OF acc True [THEN conjunct2] old] old rec(5)
      by (auto simp: demo_inv_def Let_def sorted_append)
  qed
qed

lemma demo_inv_later: "demo_inv now x \<Longrightarrow> now \<le> t \<Longrightarrow> demo_inv t x"
  by (fastforce simp: demo_inv_def Let_def case_prod_beta intro: sb_accounts_later)

lemma demo_run_inv:
  assumes "demo_inv now x" and "sorted (now # map fst evs)" and "\<forall>e\<in>set evs. fst e \<le> t" and "now \<le> t"
  shows "demo_inv t (fold demo_step evs x) \<and>
         sb_limits (ddSandbox (fst (fold demo_step evs x))) = sb_limits (ddSandbox (fst x))"
  using assms
proof (induction evs arbitrary: now x)
  case Nil
  then show ?case by (simp add: demo_inv_later)
next
  case (Cons e evs)
  obtain t' ev where e: "e = (t', ev)" by (cases e)
  obtain s sent where x: "x = (s, sent)" by (cases x)
  have "demo_inv t' (demo_step e x)"
    and lims: "sb_limits (ddSandbox (fst (demo_step e x))) = sb_limits (ddSandbox (fst x))"
    using demo_inv_step [of now s sent t' ev] Cons.prems e x by simp_all
  from Cons.IH [OF this(1)] Cons.prems e lims show ?case by simp
qed

lemma sb_accounts_empty: "ts = [] \<Longrightarrow> sbGlobal s = [] \<Longrightarrow> sbWindows s = Map.empty \<Longrightarrow> sb_accounts now ts s"
  by (simp add: sb_accounts_def ip_times_def of_ip_def)

lemma newDemoDO_sandbox:
  "\<exists>keep. ddSandbox (newDemoDO now rnd st se opts) =
     (if keep then newDemoSandbox opts else sb_pruneStaleWindows now (newDemoSandbox opts))"
  by (rule exI [of _ "ddSandbox (newDemoDO now rnd st se opts) = newDemoSandbox opts"])
    (auto simp: newDemoDO_def dd_ensureInitialized_def dd_rotateToken_def dd_persist_def dd_scheduleAlarm_def Let_def
      split: option.splits)

lemma newDemoSandbox_prune [simp]: "sb_pruneStaleWindows now (newDemoSandbox opts) = newDemoSandbox opts"
  by (simp add: sb_pruneStaleWindows_def newDemoSandbox_def fun_eq_iff)

lemma newDemoDO_sandbox_eq [simp]: "ddSandbox (newDemoDO now rnd st se opts) = newDemoSandbox opts"
  using newDemoDO_sandbox [of now rnd st se opts] by auto

lemma demo_inv_new:
  assumes "60000 \<le> first_some (doStale opts) DEFAULT_STALE_PRUNE_MS"
  shows "demo_inv now (newDemoDO now rnd st se opts, [])"
  using assms by (simp add: demo_inv_def Let_def sb_accounts_empty newDemoSandbox_def of_ip_def)

text \<open>
  C31. The demo pool keeps its limits. However many requests, of whatever addresses and with whatever tokens,
  reach a demo pool object, and whenever its alarm rotates the token and prunes the windows: in any minute
  ending at any time it admits no more than the pool's minute limit in all and no more than the
  minute limit of an address from that address; in any day no more than the pool's daily limit in all;
  and the daily limit of an address bounds what that address is admitted in any period of a day or of the pruning
  threshold, whichever is shorter. (The threshold is an hour unless configured: over a whole day the limit of an address
  is not kept, see \<open>demo_daily_limit_evaded\<close>. The counts live in the memory of the object, so the
  statement is about one object between evictions.)
\<close>

theorem demo_limits_hold:
  assumes stale: "60000 \<le> first_some (doStale opts) DEFAULT_STALE_PRUNE_MS"
    and nonneg: "0 \<le> first_some (doIpRpm opts) DEFAULT_IP_RPM_LIMIT"
      "0 \<le> first_some (doGlobalRpm opts) DEFAULT_GLOBAL_RPM_LIMIT" "0 \<le> first_some (doIpRpd opts) DEFAULT_IP_RPD_LIMIT"
    and chrono: "sorted (now # map fst evs)"
    and sent: "sent = snd (demo_run evs (newDemoDO now rnd storedToken storedExpiry opts))"
  shows "count_since t 60000 (filter (\<lambda>x. x \<le> t) (map fst sent))
           \<le> first_some (doGlobalRpm opts) DEFAULT_GLOBAL_RPM_LIMIT
       \<and> count_since t 86400000 (filter (\<lambda>x. x \<le> t) (map fst sent)) \<le> DEFAULT_GLOBAL_RPD_LIMIT
       \<and> count_since t 60000 (filter (\<lambda>x. x \<le> t) (of_ip ip sent))
           \<le> first_some (doIpRpm opts) DEFAULT_IP_RPM_LIMIT
       \<and> count_since t (min 86400000 (first_some (doStale opts) DEFAULT_STALE_PRUNE_MS)) (filter (\<lambda>x. x \<le> t) (of_ip ip sent))
           \<le> first_some (doIpRpd opts) DEFAULT_IP_RPD_LIMIT"
proof -
  let ?s = "newDemoDO now rnd storedToken storedExpiry opts"
  let ?t = "Max (insert now (fst ` set evs))"
  have last: "\<forall>e\<in>set evs. fst e \<le> ?t" "now \<le> ?t"
    by simp_all
  from demo_run_inv [OF demo_inv_new [OF stale] chrono last, of rnd storedToken storedExpiry]
  obtain s' where run: "fold demo_step evs (?s, []) = (s', sent)"
    and inv: "demo_inv ?t (s', sent)" and lims: "sb_limits (ddSandbox s') = sb_limits (newDemoSandbox opts)"
    using sent by (cases "fold demo_step evs (?s, [])") (auto simp: demo_run_def)
  have "sorted (map fst (filter (\<lambda>a. snd a = ip) sent))"
    using inv by (auto simp: demo_inv_def Let_def intro: sorted_filter)
  with inv lims nonneg show ?thesis
    by (auto simp: demo_inv_def Let_def sb_limits_def newDemoSandbox_def DEFAULT_GLOBAL_RPD_LIMIT_def of_ip_def
        intro!: rated_bound)
qed

text \<open>The daily limit of an address is not kept: the alarm forgets an address that was quiet for an hour.\<close>

theorem demo_daily_limit_evaded:
  assumes "sbWindows (ddSandbox s) ip = Some d" and "iwWindowStart d < now - sbStale (ddSandbox s)"
  shows "drCurrentRpd (dd_checkRateLimit t ip (dd_alarm now rnd s)) = 0"
  using assms by (simp add: dd_checkRateLimit_def sb_checkRateLimit_def Let_def ip_times_def
      sb_pruneStaleWindows_def since_def)

theorem demo_limits_hold_witness:
  "let opts = \<lparr>doRotation = None, doIpRpm = None, doIpRpd = None, doGlobalRpm = None, doStale = None\<rparr>;
       evs = [(1060000, DemoRequest ''h'' ''kc_demo_1000_''), (1060001, DemoRequest ''h'' ''kc_demo_1000_'')]
   in snd (demo_run evs (newDemoDO 1000000 [] None None opts)) = [(1060000, ''h'')]
      \<and> count_since 1060001 60000 (filter (\<lambda>x. x \<le> 1060001) (of_ip ''h''
           (snd (demo_run evs (newDemoDO 1000000 [] None None opts))))) \<le> 1"
proof -
  let ?opts = "\<lparr>doRotation = None, doIpRpm = None, doIpRpd = None, doGlobalRpm = None, doStale = None\<rparr>"
  let ?evs = "[(1060000, DemoRequest ''h'' ''kc_demo_1000_''), (1060001, DemoRequest ''h'' ''kc_demo_1000_'')]"
  have "snd (demo_run ?evs (newDemoDO 1000000 [] None None ?opts)) = [(1060000, ''h'')]"
    by code_simp
  moreover have "count_since 1060001 60000 (filter (\<lambda>x. x \<le> 1060001) (of_ip ''h''
      (snd (demo_run ?evs (newDemoDO 1000000 [] None None ?opts))))) \<le> first_some (doIpRpm ?opts) DEFAULT_IP_RPM_LIMIT"
    using demo_limits_hold [OF _ _ _ _ _ refl, where opts = ?opts and now = 1000000 and evs = ?evs and rnd = "[]" and
        storedToken = None and storedExpiry = None and t = 1060001 and ip = "''h''"]
    by (simp add: DEFAULT_STALE_PRUNE_MS_def DEFAULT_IP_RPM_LIMIT_def DEFAULT_GLOBAL_RPM_LIMIT_def DEFAULT_IP_RPD_LIMIT_def)
  ultimately show ?thesis by (simp add: Let_def DEFAULT_IP_RPM_LIMIT_def)
qed

end
