(* ===== verification/Errors.thy ===== *)
theory Errors
  imports JsLib LimitConstants
begin

text \<open>
  \<open>src/errors/\<close> (with the error classes of \<open>auth/sybil\<close>, \<open>router/registry\<close> and the cost
  ledger): every class sets a status, a code and a \<open>details\<close> object, and turns into a JSON
  response. An error is a record; its class is \<open>erName\<close>. The \<open>cause\<close> and the fields that only repeat
  the details are left out. A response is \<open>None\<close> where \<open>JSON.stringify\<close> raises its \<open>TypeError\<close>.
\<close>

section \<open>The base class (domain\_error.ts)\<close>

type_synonym js_object = "(string \<times> js) list"

text \<open>\<open>{ ...a, ...b }\<close>\<close>

definition spread :: "('k \<times> 'v) list \<Rightarrow> ('k \<times> 'v) list \<Rightarrow> ('k \<times> 'v) list" where
  "spread a b = fold (\<lambda>(k, v). AList.update k v) b a"

text \<open>\<open>...(v !== undefined ? { k: v } : {})\<close>, and the same for a truthy string\<close>

definition field :: "string \<Rightarrow> ('a \<Rightarrow> js) \<Rightarrow> 'a option \<Rightarrow> js_object" where
  "field k f v = (case v of Some x \<Rightarrow> [(k, f x)] | None \<Rightarrow> [])"

definition text_field :: "string \<Rightarrow> string option \<Rightarrow> js_object" where
  "text_field k v = field k JStr (if v = Some [] then None else v)"

record DomainErrorOptions =
  eoDetails :: "js_object option"
  eoStatus :: "int option"
  eoCode :: "string option"
  eoOperational :: "bool option"

record DomainError =
  erName :: string
  erMessage :: string
  erStatus :: int
  erCode :: string
  erDetails :: "js_object option"
  erOperational :: bool
  erRetryAfter :: "int option"

definition newDomainError :: "string \<Rightarrow> string \<Rightarrow> DomainErrorOptions \<Rightarrow> DomainError" where
  "newDomainError cls msg opts =
     \<lparr>erName = cls, erMessage = msg, erStatus = first_some (eoStatus opts) 500,
      erCode = first_some (eoCode opts) ''INTERNAL_DOMAIN_ERROR'', erDetails = eoDetails opts,
      erOperational = first_some (eoOperational opts) True, erRetryAfter = None\<rparr>"

text \<open>What every subclass passes: the caller's options with status, code and details replaced.\<close>

definition subclass_error ::
  "string \<Rightarrow> string \<Rightarrow> DomainErrorOptions \<Rightarrow> int \<Rightarrow> string \<Rightarrow> js_object \<Rightarrow> DomainError" where
  "subclass_error cls msg opts status code details =
     newDomainError cls msg
       (opts\<lparr>eoStatus := Some status, eoCode := Some code,
             eoDetails := Some (spread details (first_some (eoDetails opts) []))\<rparr>)"

definition toJSON :: "DomainError \<Rightarrow> js" where
  "toJSON e = JObj ([(''error'', JStr (erMessage e)), (''code'', JStr (erCode e)), (''statusCode'', JNum (erStatus e))] @
     (case erDetails e of Some d \<Rightarrow> if d = [] then [] else [(''details'', JObj d)] | None \<Rightarrow> []))"

record ErrorResponse =
  rsStatus :: int
  rsBody :: string
  rsHeaders :: "(string \<times> string) list"

definition base_toResponse :: "(string \<times> string) list \<Rightarrow> DomainError \<Rightarrow> ErrorResponse option" where
  "base_toResponse headers e =
     map_option (\<lambda>body. \<lparr>rsStatus = erStatus e, rsBody = body,
                          rsHeaders = spread [(''content-type'', ''application/json; charset=utf-8'')] headers\<rparr>)
       (json (toJSON e))"

text \<open>The overrides of the subclasses.\<close>

definition own_headers :: "DomainError \<Rightarrow> (string \<times> string) list" where
  "own_headers e =
     (if erName e = ''AuthenticationError''
      then [(''www-authenticate'', ''Bearer realm=\"Key Collective API\"'')]
      else if erName e \<in> {''RateLimitExceededError'', ''CircuitBreakerTrippedError''}
      then [(''retry-after'', bigint_to_string (first_some (erRetryAfter e) 0))]
      else if erName e = ''KeyExhaustedError''
      then (case erRetryAfter e of
              Some n \<Rightarrow> if n = 0 then [] else [(''retry-after'', bigint_to_string n)] | None \<Rightarrow> [])
      else [])"

definition toResponse :: "(string \<times> string) list \<Rightarrow> DomainError \<Rightarrow> ErrorResponse option" where
  "toResponse headers e = base_toResponse (spread (own_headers e) headers) e"

text \<open>A value that was thrown: an instance of the class, or anything else.\<close>

datatype thrown = DomainErr DomainError | OtherErr string | Thrown js

definition has_key :: "string \<Rightarrow> js \<Rightarrow> bool" where
  "has_key k x = (case x of JObj kvs \<Rightarrow> k \<in> set (map fst kvs) | _ \<Rightarrow> False)"

definition isDomainError :: "thrown \<Rightarrow> bool" where
  "isDomainError v =
     (case v of DomainErr e \<Rightarrow> True
      | OtherErr m \<Rightarrow> False
      | Thrown x \<Rightarrow> has_key ''statusCode'' x \<and> has_key ''code'' x \<and> has_key ''isOperational'' x \<and>
          is_num (js_get x ''statusCode'') \<and> is_str (js_get x ''code''))"

text \<open>\<open>value instanceof C || value.name === "C"\<close>\<close>

definition is_named :: "string \<Rightarrow> thrown \<Rightarrow> bool" where
  "is_named cls v =
     (case v of DomainErr e \<Rightarrow> erName e = cls
      | OtherErr m \<Rightarrow> False
      | Thrown x \<Rightarrow> is_object x \<and> js_get x ''name'' = JStr cls)"

section \<open>Authentication (auth\_errors.ts)\<close>

definition newAuthenticationError :: "string option \<Rightarrow> string option \<Rightarrow> string option \<Rightarrow> DomainErrorOptions \<Rightarrow> DomainError" where
  "newAuthenticationError msg reason prefix opts =
     subclass_error ''AuthenticationError''
       (first_some msg ''Authentication failed: invalid or expired bearer token'') opts 401 ''AUTHENTICATION_FAILED''
       (text_field ''reason'' reason @ text_field ''bearerTokenPrefix'' prefix)"

definition newTenantIsolationError ::
  "string option \<Rightarrow> string option \<Rightarrow> string option \<Rightarrow> string option \<Rightarrow> DomainErrorOptions \<Rightarrow> DomainError" where
  "newTenantIsolationError msg tenant attempted resource opts =
     subclass_error ''TenantIsolationError''
       (first_some msg ''Tenant isolation violation: cross-tenant access is forbidden'') opts 403
       ''TENANT_ISOLATION_VIOLATION''
       (text_field ''tenantId'' tenant @ text_field ''attemptedTenantId'' attempted @ text_field ''resourceId'' resource)"

definition isAuthenticationError :: "thrown \<Rightarrow> bool" where "isAuthenticationError = is_named ''AuthenticationError''"
definition isTenantIsolationError :: "thrown \<Rightarrow> bool" where "isTenantIsolationError = is_named ''TenantIsolationError''"

section \<open>Keys (key\_errors.ts)\<close>

definition newDecryptionError ::
  "string option \<Rightarrow> string option \<Rightarrow> string option \<Rightarrow> string option \<Rightarrow> int option \<Rightarrow> DomainErrorOptions \<Rightarrow> DomainError" where
  "newDecryptionError msg keyId provider algorithm nonceLength opts =
     subclass_error ''DecryptionError''
       (first_some msg ''AES-GCM decryption failed: invalid ciphertext or corrupted nonce tag'') opts 500
       ''DECRYPTION_FAILED''
       (text_field ''keyId'' keyId @ text_field ''provider'' provider @
        [(''algorithm'', JStr (first_some algorithm ''AES-GCM''))] @ field ''nonceLengthBytes'' JNum nonceLength)"

definition newEncryptionError :: "string option \<Rightarrow> string option \<Rightarrow> string option \<Rightarrow> DomainErrorOptions \<Rightarrow> DomainError" where
  "newEncryptionError msg provider algorithm opts =
     subclass_error ''EncryptionError''
       (first_some msg ''AES-256-GCM encryption failed: Web Crypto operation unsuccessful'') opts 500
       ''ENCRYPTION_FAILED''
       (text_field ''provider'' provider @ [(''algorithm'', JStr (first_some algorithm ''AES-GCM''))])"

text \<open>The limit may be \<open>Infinity\<close> (\<open>Some None\<close>), which JSON writes as null.\<close>

record RateLimitExceededErrorOptions =
  reTenantId :: "string option"
  reProvider :: "string option"
  reKeyId :: "string option"
  reRpmLimit :: "int option option"
  reCurrentRpm :: "int option"
  reRetryAfter :: "int option"

definition newRateLimitExceededError ::
  "string option \<Rightarrow> RateLimitExceededErrorOptions \<Rightarrow> DomainErrorOptions \<Rightarrow> DomainError" where
  "newRateLimitExceededError msg o' opts =
     (let retryAfter = first_some (reRetryAfter o') 60 in
      (subclass_error ''RateLimitExceededError'' (first_some msg ''Rate limit exceeded: tenant RPM limit reached'') opts 429
         ''RATE_LIMIT_EXCEEDED''
         (text_field ''tenantId'' (reTenantId o') @ text_field ''provider'' (reProvider o') @
          text_field ''keyId'' (reKeyId o') @ field ''rpmLimit'' js_of_num_opt (reRpmLimit o') @
          field ''currentRpm'' JNum (reCurrentRpm o') @ [(''retryAfterSeconds'', JNum retryAfter)]))
        \<lparr>erRetryAfter := Some retryAfter\<rparr>)"

definition newKeyNotFoundError ::
  "string \<Rightarrow> string option \<Rightarrow> string option \<Rightarrow> string option \<Rightarrow> DomainErrorOptions \<Rightarrow> DomainError" where
  "newKeyNotFoundError keyId msg tenant provider opts =
     subclass_error ''KeyNotFoundError'' (first_some msg (''Key '' @ [CHR 39] @ keyId @ [CHR 39] @ '' not found in pool''))
       opts 404 ''KEY_NOT_FOUND''
       ([(''keyId'', JStr keyId)] @ text_field ''tenantId'' tenant @ text_field ''provider'' provider)"

definition newKeyExhaustedError ::
  "string option \<Rightarrow> string option \<Rightarrow> string option \<Rightarrow> int option \<Rightarrow> int option \<Rightarrow> DomainErrorOptions \<Rightarrow> DomainError" where
  "newKeyExhaustedError msg provider tenant totalKeys retryAfter opts =
     (subclass_error ''KeyExhaustedError''
        (first_some msg ''All provider keys are currently exhausted, rate limited, or disabled'') opts 429
        ''ALL_KEYS_EXHAUSTED''
        (text_field ''provider'' provider @ text_field ''tenantId'' tenant @ field ''totalKeys'' JNum totalKeys @
         field ''retryAfterSeconds'' JNum retryAfter))\<lparr>erRetryAfter := retryAfter\<rparr>"

definition newInvalidKeyError :: "string option \<Rightarrow> string option \<Rightarrow> string option \<Rightarrow> DomainErrorOptions \<Rightarrow> DomainError" where
  "newInvalidKeyError msg provider reason opts =
     subclass_error ''InvalidKeyError'' (first_some msg ''Invalid API key format or rejected by provider validation'')
       opts 400 ''INVALID_KEY'' (text_field ''provider'' provider @ text_field ''reason'' reason)"

text \<open>A limit is a number, or a \<open>BigInt\<close> that is printed.\<close>

definition quota_amount :: "js \<Rightarrow> js" where
  "quota_amount v = (case v of JBigInt n \<Rightarrow> JStr (bigint_to_string n) | _ \<Rightarrow> v)"

definition newQuotaExceededError ::
  "string option \<Rightarrow> string \<Rightarrow> string option \<Rightarrow> js option \<Rightarrow> js option \<Rightarrow> DomainErrorOptions \<Rightarrow> DomainError" where
  "newQuotaExceededError msg tenant quotaType quotaLimit consumed opts =
     subclass_error ''QuotaExceededError'' (first_some msg ''Tenant quota ceiling reached'') opts 429 ''QUOTA_EXCEEDED''
       ([(''tenantId'', JStr tenant), (''quotaType'', JStr (first_some quotaType ''spend_limit''))] @
        field ''limit'' quota_amount quotaLimit @ field ''consumed'' quota_amount consumed)"

definition isDecryptionError :: "thrown \<Rightarrow> bool" where "isDecryptionError = is_named ''DecryptionError''"
definition isEncryptionError :: "thrown \<Rightarrow> bool" where "isEncryptionError = is_named ''EncryptionError''"
definition isRateLimitExceededError :: "thrown \<Rightarrow> bool" where "isRateLimitExceededError = is_named ''RateLimitExceededError''"
definition isKeyNotFoundError :: "thrown \<Rightarrow> bool" where "isKeyNotFoundError = is_named ''KeyNotFoundError''"
definition isKeyExhaustedError :: "thrown \<Rightarrow> bool" where "isKeyExhaustedError = is_named ''KeyExhaustedError''"
definition isInvalidKeyError :: "thrown \<Rightarrow> bool" where "isInvalidKeyError = is_named ''InvalidKeyError''"
definition isQuotaExceededError :: "thrown \<Rightarrow> bool" where "isQuotaExceededError = is_named ''QuotaExceededError''"

section \<open>Routing (routing\_errors.ts, registry/errors.ts)\<close>

definition quoted :: "string \<Rightarrow> string" where "quoted s = [CHR 39] @ s @ [CHR 39]"

definition newCircuitBreakerTrippedError ::
  "string \<Rightarrow> string option \<Rightarrow> string option \<Rightarrow> int option \<Rightarrow> string option \<Rightarrow> int option \<Rightarrow> DomainErrorOptions \<Rightarrow> DomainError" where
  "newCircuitBreakerTrippedError provider msg modelId failures openUntil retryAfterSeconds opts =
     (let retryAfter = first_some retryAfterSeconds 60 in
      (subclass_error ''CircuitBreakerTrippedError''
         (first_some msg (''Circuit breaker open for provider '' @ quoted provider @ '': service temporarily degraded''))
         opts 503 ''CIRCUIT_BREAKER_OPEN''
         ([(''provider'', JStr provider)] @ text_field ''modelId'' modelId @ field ''consecutiveFailures'' JNum failures @
          text_field ''circuitOpenUntil'' openUntil @ [(''retryAfterSeconds'', JNum retryAfter)]))
        \<lparr>erRetryAfter := Some retryAfter\<rparr>)"

text \<open>The only class whose status the caller picks (502 or 504).\<close>

definition newProviderRoutingError ::
  "string \<Rightarrow> string option \<Rightarrow> string option \<Rightarrow> int option \<Rightarrow> string option \<Rightarrow> DomainErrorOptions \<Rightarrow> DomainError" where
  "newProviderRoutingError provider msg modelId upstreamStatus upstreamText opts =
     (let st = first_some (eoStatus opts) 502 in
      subclass_error ''ProviderRoutingError''
        (first_some msg (''Upstream provider '' @ quoted provider @ '' failed to process request (HTTP '' @
           bigint_to_string (first_some upstreamStatus st) @ '')''))
        opts st (if st = 504 then ''GATEWAY_TIMEOUT'' else ''BAD_GATEWAY'')
        ([(''provider'', JStr provider)] @ text_field ''modelId'' modelId @
         field ''upstreamStatusCode'' JNum upstreamStatus @ text_field ''upstreamResponseText'' upstreamText))"

definition newModelNotFoundError ::
  "string \<Rightarrow> string option \<Rightarrow> string list option \<Rightarrow> DomainErrorOptions \<Rightarrow> DomainError" where
  "newModelNotFoundError modelIdOrAlias msg available opts =
     subclass_error ''ModelNotFoundError''
       (first_some msg (''Model or alias '' @ quoted modelIdOrAlias @ '' not found in registry'')) opts 404 ''MODEL_NOT_FOUND''
       ([(''modelIdOrAlias'', JStr modelIdOrAlias)] @ field ''availableModels'' (\<lambda>ms. JArr (map JStr ms)) available)"

definition newUnknownModelAliasError ::
  "string \<Rightarrow> string option \<Rightarrow> string list option \<Rightarrow> DomainErrorOptions \<Rightarrow> DomainError" where
  "newUnknownModelAliasError alias msg configured opts =
     subclass_error ''UnknownModelAliasError''
       (first_some msg (''Unknown model alias '' @ quoted alias @ ''. No target model mapped.'')) opts 400
       ''UNKNOWN_MODEL_ALIAS''
       ([(''alias'', JStr alias)] @ field ''configuredAliases'' (\<lambda>as. JArr (map JStr as)) configured)"

definition newNoAvailableProviderError ::
  "string option \<Rightarrow> string option \<Rightarrow> int option \<Rightarrow> string option \<Rightarrow> DomainErrorOptions \<Rightarrow> DomainError" where
  "newNoAvailableProviderError msg requestedModel candidateCount reason opts =
     subclass_error ''NoAvailableProviderError''
       (first_some msg ''No available provider could satisfy the routing request'') opts 503 ''NO_AVAILABLE_PROVIDER''
       (text_field ''requestedModel'' requestedModel @ [(''candidateCount'', JNum (first_some candidateCount 0))] @
        text_field ''reason'' reason)"

definition newProviderTimeoutError ::
  "string \<Rightarrow> string option \<Rightarrow> string option \<Rightarrow> int option \<Rightarrow> DomainErrorOptions \<Rightarrow> DomainError" where
  "newProviderTimeoutError provider msg modelId timeoutMs opts =
     subclass_error ''ProviderTimeoutError''
       (first_some msg (''Upstream provider '' @ quoted provider @ '' timed out after '' @
          bigint_to_string (first_some timeoutMs 30000) @ ''ms'')) opts 504 ''GATEWAY_TIMEOUT''
       ([(''provider'', JStr provider)] @ text_field ''modelId'' modelId @ field ''timeoutMs'' JNum timeoutMs)"

definition newCapabilityMismatchError ::
  "string list \<Rightarrow> string option \<Rightarrow> string option \<Rightarrow> DomainErrorOptions \<Rightarrow> DomainError" where
  "newCapabilityMismatchError required msg candidateModel opts =
     subclass_error ''CapabilityMismatchError''
       (first_some msg (''No configured provider supports required capabilities: ['' @ join '', '' required @ '']''))
       opts 400 ''CAPABILITY_MISMATCH''
       ([(''requiredCapabilities'', JArr (map JStr required))] @ text_field ''candidateModel'' candidateModel)"

record FallbackAttempt =
  faProvider :: string
  faModelId :: string
  faError :: string

definition attempt_js :: "FallbackAttempt \<Rightarrow> js" where
  "attempt_js a = JObj [(''provider'', JStr (faProvider a)), (''modelId'', JStr (faModelId a)), (''error'', JStr (faError a))]"

definition newFallbackExhaustedError :: "FallbackAttempt list \<Rightarrow> string option \<Rightarrow> DomainErrorOptions \<Rightarrow> DomainError" where
  "newFallbackExhaustedError attempts msg opts =
     subclass_error ''FallbackExhaustedError''
       (first_some msg (''Primary route and all '' @ bigint_to_string (int (length attempts)) @
          '' fallback routes exhausted without success'')) opts 502 ''FALLBACK_EXHAUSTED''
       [(''attemptedRoutes'', JArr (map attempt_js attempts))]"

definition newContextWindowExceededError ::
  "string \<Rightarrow> int \<Rightarrow> int \<Rightarrow> string option \<Rightarrow> DomainErrorOptions \<Rightarrow> DomainError" where
  "newContextWindowExceededError modelId window requested msg opts =
     subclass_error ''ContextWindowExceededError''
       (first_some msg (''Prompt tokens ('' @ bigint_to_string requested @ '') exceed model '' @ quoted modelId @
          '' context window ('' @ bigint_to_string window @ '')'')) opts 400 ''CONTEXT_WINDOW_EXCEEDED''
       [(''modelId'', JStr modelId), (''contextWindow'', JNum window), (''requestedTokens'', JNum requested)]"

definition isCircuitBreakerTrippedError :: "thrown \<Rightarrow> bool" where "isCircuitBreakerTrippedError = is_named ''CircuitBreakerTrippedError''"
definition isProviderRoutingError :: "thrown \<Rightarrow> bool" where "isProviderRoutingError = is_named ''ProviderRoutingError''"
definition isModelNotFoundError :: "thrown \<Rightarrow> bool" where "isModelNotFoundError = is_named ''ModelNotFoundError''"
definition isUnknownModelAliasError :: "thrown \<Rightarrow> bool" where "isUnknownModelAliasError = is_named ''UnknownModelAliasError''"
definition isNoAvailableProviderError :: "thrown \<Rightarrow> bool" where "isNoAvailableProviderError = is_named ''NoAvailableProviderError''"
definition isProviderTimeoutError :: "thrown \<Rightarrow> bool" where "isProviderTimeoutError = is_named ''ProviderTimeoutError''"
definition isCapabilityMismatchError :: "thrown \<Rightarrow> bool" where "isCapabilityMismatchError = is_named ''CapabilityMismatchError''"
definition isFallbackExhaustedError :: "thrown \<Rightarrow> bool" where "isFallbackExhaustedError = is_named ''FallbackExhaustedError''"
definition isContextWindowExceededError :: "thrown \<Rightarrow> bool" where "isContextWindowExceededError = is_named ''ContextWindowExceededError''"

section \<open>Telemetry, registration and the ledger\<close>

definition newTelemetryEmissionError ::
  "string option \<Rightarrow> string option \<Rightarrow> string option \<Rightarrow> string option \<Rightarrow> DomainErrorOptions \<Rightarrow> DomainError" where
  "newTelemetryEmissionError msg traceId eventType reason opts =
     subclass_error ''TelemetryEmissionError''
       (first_some msg ''Non-blocking telemetry emission to Workers Analytics Engine failed'') opts 500
       ''TELEMETRY_EMISSION_FAILED''
       (text_field ''traceId'' traceId @ text_field ''eventType'' eventType @ text_field ''reason'' reason)"

definition newInvalidTelemetryEventError :: "string option \<Rightarrow> string list option \<Rightarrow> DomainErrorOptions \<Rightarrow> DomainError" where
  "newInvalidTelemetryEventError msg errors opts =
     subclass_error ''InvalidTelemetryEventError''
       (first_some msg ''Invalid telemetry event payload: schema validation failed'') opts 400 ''INVALID_TELEMETRY_EVENT''
       (field ''validationErrors'' (\<lambda>es. JArr (map JStr es)) errors)"

definition isTelemetryEmissionError :: "thrown \<Rightarrow> bool" where "isTelemetryEmissionError = is_named ''TelemetryEmissionError''"
definition isInvalidTelemetryEventError :: "thrown \<Rightarrow> bool" where "isInvalidTelemetryEventError = is_named ''InvalidTelemetryEventError''"

definition fixed_error :: "int \<Rightarrow> string \<Rightarrow> js_object option \<Rightarrow> DomainErrorOptions" where
  "fixed_error st code details =
     \<lparr>eoDetails = details, eoStatus = Some st, eoCode = Some code, eoOperational = None\<rparr>"

definition newSybilBotDetectedError :: "string option \<Rightarrow> js_object option \<Rightarrow> DomainError" where
  "newSybilBotDetectedError msg details =
     newDomainError ''SybilBotDetectedError'' (first_some msg ''Bot detected: Cloudflare Turnstile challenge failed'')
       (fixed_error 403 ''BOT_DETECTED'' details)"

definition newSybilDisposableIdentityError :: "string option \<Rightarrow> js_object option \<Rightarrow> DomainError" where
  "newSybilDisposableIdentityError msg details =
     newDomainError ''SybilDisposableIdentityError''
       (first_some msg ''Disposable identity rejected: disposable email domain not permitted'')
       (fixed_error 403 ''DISPOSABLE_IDENTITY_REJECTED'' details)"

definition newSubnetQuotaExceededError :: "string option \<Rightarrow> js_object option \<Rightarrow> DomainError" where
  "newSubnetQuotaExceededError msg details =
     newDomainError ''SubnetQuotaExceededError''
       (first_some msg ''Subnet quota exceeded: maximum 1 registration per /24 subnet per 30 days'')
       (fixed_error 429 ''SUBNET_QUOTA_EXCEEDED'' details)"

definition newCostLedgerError :: "string \<Rightarrow> DomainErrorOptions \<Rightarrow> DomainError" where
  "newCostLedgerError msg opts =
     newDomainError ''CostLedgerError'' msg
       (opts\<lparr>eoStatus := Some (first_some (eoStatus opts) 500), eoCode := Some (first_some (eoCode opts) ''COST_LEDGER_ERROR'')\<rparr>)"

definition newInvalidCostLedgerEventError :: "string \<Rightarrow> js_object option \<Rightarrow> DomainError" where
  "newInvalidCostLedgerEventError msg details =
     (newCostLedgerError msg (fixed_error 400 ''INVALID_COST_LEDGER_EVENT'' details))\<lparr>erName := ''InvalidCostLedgerEventError''\<rparr>"

definition newTenantIsolationViolationError :: "string \<Rightarrow> js_object option \<Rightarrow> DomainError" where
  "newTenantIsolationViolationError msg details =
     (newCostLedgerError msg (fixed_error 403 ''TENANT_ISOLATION_VIOLATION'' details))
       \<lparr>erName := ''TenantIsolationViolationError''\<rparr>"

section \<open>The response of a failed request (worker/auth/error\_formatter.ts)\<close>

definition formatAuthError :: "thrown \<Rightarrow> ErrorResponse option" where
  "formatAuthError err =
     (case err of
        DomainErr e \<Rightarrow>
          if erName e = ''QuotaExceededError''
          then toResponse [(''retry-after'', bigint_to_string DEFAULT_RETRY_AFTER_SECONDS)] e
          else toResponse [] e
      | _ \<Rightarrow>
          (let message = (case err of OtherErr m \<Rightarrow> m | _ \<Rightarrow> ''Internal authentication error'')
           in map_option (\<lambda>body. \<lparr>rsStatus = 500, rsBody = body,
                                   rsHeaders = [(''content-type'', ''application/json; charset=utf-8'')]\<rparr>)
                (json (JObj [(''error'', JStr message), (''code'', JStr ''INTERNAL_AUTH_ERROR''), (''statusCode'', JNum 500)]))))"

section \<open>Lemmas: \<open>JSON.stringify\<close>\<close>

text \<open>Values without a \<open>BigInt\<close>, the only ones that can be written.\<close>

fun plain_js :: "js \<Rightarrow> bool" where
  "plain_js (JBigInt _) = False"
| "plain_js (JArr xs) = list_all plain_js xs"
| "plain_js (JObj kvs) = list_all (\<lambda>kv. plain_js (snd kv)) kvs"
| "plain_js _ = True"

definition plain_object :: "js_object \<Rightarrow> bool" where
  "plain_object d \<longleftrightarrow> list_all (\<lambda>kv. plain_js (snd kv)) d"

lemma those_Some: "(\<exists>ys. those xs = Some ys) \<longleftrightarrow> None \<notin> set xs"
  by (induction xs) (auto split: option.splits)

lemma json_plain: "(\<exists>s. json v = Some s) \<longleftrightarrow> plain_js v"
proof (induction v rule: json.induct)
  case (7 xs)
  then show ?case by (auto simp: those_Some list_all_iff image_iff) (metis not_None_eq)+
next
  case (8 kvs)
  have "json v = None \<longleftrightarrow> \<not> plain_js v" if "(k, v) \<in> set kvs" "v \<noteq> JUndefined" for k v
    using 8 [OF that(1) refl that(2)] by auto
  then show ?case
    by (auto simp: those_Some list_all_iff image_iff split: if_splits)
qed auto

lemma spread_Nil [simp]: "spread a [] = a"
  by (simp add: spread_def)

lemma map_of_spread: "map_of (spread a b) k = (case map_of (rev b) k of None \<Rightarrow> map_of a k | v \<Rightarrow> v)"
  by (induction b arbitrary: a) (auto simp: spread_def map_add_def split: option.splits)

lemma plain_spread: "plain_object a \<Longrightarrow> plain_object b \<Longrightarrow> plain_object (spread a b)"
proof (induction b arbitrary: a)
  case (Cons kv b)
  have "plain_object (AList.update (fst kv) (snd kv) a)"
    using Cons.prems by (induction a) (auto simp: plain_object_def)
  with Cons show ?case by (simp add: spread_def plain_object_def case_prod_beta)
qed (simp add: spread_def)

lemma plain_append [simp]: "plain_object (a @ b) \<longleftrightarrow> plain_object a \<and> plain_object b"
  by (simp add: plain_object_def)

lemma plain_Cons [simp]: "plain_object ((k, v) # b) \<longleftrightarrow> plain_js v \<and> plain_object b"
  by (simp add: plain_object_def)

lemma plain_Nil [simp]: "plain_object []"
  by (simp add: plain_object_def)

lemma plain_field [simp]: "(\<And>x. v = Some x \<Longrightarrow> plain_js (f x)) \<Longrightarrow> plain_object (field k f v)"
  by (simp add: field_def split: option.split)

lemma plain_text_field [simp]: "plain_object (text_field k v)"
  by (simp add: text_field_def)

lemma plain_num_opt [simp]: "plain_js (js_of_num_opt n)"
  by (simp add: js_of_num_opt_def split: option.split)

lemma plain_strings [simp]: "list_all plain_js (map JStr xs)"
  by (simp add: list_all_iff)

lemma plain_attempts [simp]: "list_all plain_js (map attempt_js as)"
  by (simp add: list_all_iff attempt_js_def)

section \<open>Every error the classes can build\<close>

definition plain_options :: "DomainErrorOptions \<Rightarrow> bool" where
  "plain_options opts \<longleftrightarrow> plain_object (first_some (eoDetails opts) [])"

fun is_amount :: "js option \<Rightarrow> bool" where
  "is_amount None = True"
| "is_amount (Some (JNum _)) = True"
| "is_amount (Some (JBigInt _)) = True"
| "is_amount (Some JNull) = True"
| "is_amount _ = False"

inductive built :: "DomainError \<Rightarrow> bool" where
  "plain_options opts \<Longrightarrow> built (newAuthenticationError m reason prefix opts)"
| "plain_options opts \<Longrightarrow> built (newTenantIsolationError m tenant attempted resource opts)"
| "plain_options opts \<Longrightarrow> built (newDecryptionError m k p alg n opts)"
| "plain_options opts \<Longrightarrow> built (newEncryptionError m p alg opts)"
| "plain_options opts \<Longrightarrow> built (newRateLimitExceededError m r opts)"
| "plain_options opts \<Longrightarrow> built (newKeyNotFoundError k m tenant p opts)"
| "plain_options opts \<Longrightarrow> built (newKeyExhaustedError m p tenant keys ra opts)"
| "plain_options opts \<Longrightarrow> built (newInvalidKeyError m p reason opts)"
| "plain_options opts \<Longrightarrow> is_amount l \<Longrightarrow> is_amount c \<Longrightarrow> built (newQuotaExceededError m t q l c opts)"
| "plain_options opts \<Longrightarrow> built (newCircuitBreakerTrippedError p m model failures until ra opts)"
| "plain_options opts \<Longrightarrow> eoStatus opts \<in> {None, Some 502, Some 504} \<Longrightarrow>
     built (newProviderRoutingError p m model us ut opts)"
| "plain_options opts \<Longrightarrow> built (newModelNotFoundError model m available opts)"
| "plain_options opts \<Longrightarrow> built (newUnknownModelAliasError alias m configured opts)"
| "plain_options opts \<Longrightarrow> built (newNoAvailableProviderError m model n reason opts)"
| "plain_options opts \<Longrightarrow> built (newProviderTimeoutError p m model ms opts)"
| "plain_options opts \<Longrightarrow> built (newCapabilityMismatchError required m model opts)"
| "plain_options opts \<Longrightarrow> built (newFallbackExhaustedError attempts m opts)"
| "plain_options opts \<Longrightarrow> built (newContextWindowExceededError model w n m opts)"
| "plain_options opts \<Longrightarrow> built (newTelemetryEmissionError m trace event reason opts)"
| "plain_options opts \<Longrightarrow> built (newInvalidTelemetryEventError m errors opts)"
| "plain_object (first_some d []) \<Longrightarrow> built (newSybilBotDetectedError m d)"
| "plain_object (first_some d []) \<Longrightarrow> built (newSybilDisposableIdentityError m d)"
| "plain_object (first_some d []) \<Longrightarrow> built (newSubnetQuotaExceededError m d)"
| "plain_options opts \<Longrightarrow> eoStatus opts \<in> {None, Some 500} \<Longrightarrow> eoCode opts = None \<Longrightarrow> built (newCostLedgerError t opts)"
| "plain_object (first_some d []) \<Longrightarrow> built (newInvalidCostLedgerEventError t d)"
| "plain_object (first_some d []) \<Longrightarrow> built (newTenantIsolationViolationError t d)"

text \<open>Status and code of each class, as the header comments of the error files list them.\<close>

definition documented :: "(string \<times> int \<times> string) list" where
  "documented =
     [(''AuthenticationError'', 401, ''AUTHENTICATION_FAILED''),
      (''TenantIsolationError'', 403, ''TENANT_ISOLATION_VIOLATION''),
      (''DecryptionError'', 500, ''DECRYPTION_FAILED''),
      (''EncryptionError'', 500, ''ENCRYPTION_FAILED''),
      (''RateLimitExceededError'', 429, ''RATE_LIMIT_EXCEEDED''),
      (''KeyNotFoundError'', 404, ''KEY_NOT_FOUND''),
      (''KeyExhaustedError'', 429, ''ALL_KEYS_EXHAUSTED''),
      (''InvalidKeyError'', 400, ''INVALID_KEY''),
      (''QuotaExceededError'', 429, ''QUOTA_EXCEEDED''),
      (''CircuitBreakerTrippedError'', 503, ''CIRCUIT_BREAKER_OPEN''),
      (''ProviderRoutingError'', 502, ''BAD_GATEWAY''),
      (''ProviderRoutingError'', 504, ''GATEWAY_TIMEOUT''),
      (''ModelNotFoundError'', 404, ''MODEL_NOT_FOUND''),
      (''UnknownModelAliasError'', 400, ''UNKNOWN_MODEL_ALIAS''),
      (''NoAvailableProviderError'', 503, ''NO_AVAILABLE_PROVIDER''),
      (''ProviderTimeoutError'', 504, ''GATEWAY_TIMEOUT''),
      (''CapabilityMismatchError'', 400, ''CAPABILITY_MISMATCH''),
      (''FallbackExhaustedError'', 502, ''FALLBACK_EXHAUSTED''),
      (''ContextWindowExceededError'', 400, ''CONTEXT_WINDOW_EXCEEDED''),
      (''TelemetryEmissionError'', 500, ''TELEMETRY_EMISSION_FAILED''),
      (''InvalidTelemetryEventError'', 400, ''INVALID_TELEMETRY_EVENT''),
      (''SybilBotDetectedError'', 403, ''BOT_DETECTED''),
      (''SybilDisposableIdentityError'', 403, ''DISPOSABLE_IDENTITY_REJECTED''),
      (''SubnetQuotaExceededError'', 429, ''SUBNET_QUOTA_EXCEEDED''),
      (''CostLedgerError'', 500, ''COST_LEDGER_ERROR''),
      (''InvalidCostLedgerEventError'', 400, ''INVALID_COST_LEDGER_EVENT''),
      (''TenantIsolationViolationError'', 403, ''TENANT_ISOLATION_VIOLATION'')]"

lemmas new_error_defs =
  newAuthenticationError_def newTenantIsolationError_def newDecryptionError_def newEncryptionError_def
  newRateLimitExceededError_def newKeyNotFoundError_def newKeyExhaustedError_def newInvalidKeyError_def
  newQuotaExceededError_def newCircuitBreakerTrippedError_def newProviderRoutingError_def
  newModelNotFoundError_def newUnknownModelAliasError_def newNoAvailableProviderError_def
  newProviderTimeoutError_def newCapabilityMismatchError_def newFallbackExhaustedError_def
  newContextWindowExceededError_def newTelemetryEmissionError_def newInvalidTelemetryEventError_def
  newSybilBotDetectedError_def newSybilDisposableIdentityError_def newSubnetQuotaExceededError_def
  newCostLedgerError_def newInvalidCostLedgerEventError_def newTenantIsolationViolationError_def
  subclass_error_def newDomainError_def fixed_error_def

lemma built_documented: "built e \<Longrightarrow> (erName e, erStatus e, erCode e) \<in> set documented"
  by (induction rule: built.induct) (auto simp: new_error_defs documented_def Let_def)

lemma built_plain: "built e \<Longrightarrow> plain_object (first_some (erDetails e) [])"
  by (induction rule: built.induct)
    (auto simp: new_error_defs plain_options_def Let_def intro!: plain_spread plain_field
       simp: quota_amount_def split: js.splits)

lemma json_built: "built e \<Longrightarrow> \<exists>body. json (toJSON e) = Some body"
proof -
  assume "built e"
  then have "plain_js (toJSON e)"
    using built_plain [of e] by (auto simp: toJSON_def plain_object_def split: option.split)
  then show ?thesis by (simp add: json_plain del: json.simps)
qed

lemma toResponse_built:
  assumes "built e"
  obtains body where "json (toJSON e) = Some body"
    and "toResponse hs e = Some \<lparr>rsStatus = erStatus e, rsBody = body,
           rsHeaders = spread [(''content-type'', ''application/json; charset=utf-8'')] (spread (own_headers e) hs)\<rparr>"
  using json_built [OF assms] by (auto simp: toResponse_def base_toResponse_def)

lemma built_retry:
  "built e \<Longrightarrow> erName e \<in> {''RateLimitExceededError'', ''CircuitBreakerTrippedError''} \<Longrightarrow> erRetryAfter e \<noteq> None"
  by (induction rule: built.induct) (simp_all add: new_error_defs Let_def)

lemma format_built:
  assumes "built e"
  shows "\<exists>r. formatAuthError (DomainErr e) = Some r \<and> (erName e, rsStatus r, erCode e) \<in> set documented
           \<and> Some (rsBody r) = json (toJSON e)
           \<and> map_of (rsHeaders r) ''content-type'' = Some ''application/json; charset=utf-8''
           \<and> (map_of (rsHeaders r) ''www-authenticate'' \<noteq> None \<longleftrightarrow> rsStatus r = 401)
           \<and> map_of (rsHeaders r) ''retry-after'' =
               (if erName e = ''QuotaExceededError'' then Some ''60''
                else if erName e \<in> {''RateLimitExceededError'', ''CircuitBreakerTrippedError''}
                then map_option bigint_to_string (erRetryAfter e)
                else if erName e = ''KeyExhaustedError'' \<and> erRetryAfter e \<noteq> Some 0
                then map_option bigint_to_string (erRetryAfter e) else None)"
proof -
  let ?hs = "if erName e = ''QuotaExceededError'' then [(''retry-after'', bigint_to_string DEFAULT_RETRY_AFTER_SECONDS)] else []"
  obtain body where body: "json (toJSON e) = Some body"
    and r: "toResponse ?hs e = Some \<lparr>rsStatus = erStatus e, rsBody = body,
           rsHeaders = spread [(''content-type'', ''application/json; charset=utf-8'')] (spread (own_headers e) ?hs)\<rparr>"
    using toResponse_built [OF assms] by blast
  have sixty: "bigint_to_string DEFAULT_RETRY_AFTER_SECONDS = ''60''" by code_simp
  have fmt: "formatAuthError (DomainErr e) = toResponse ?hs e" by (simp add: formatAuthError_def)
  have status: "erStatus e = 401 \<longleftrightarrow> erName e = ''AuthenticationError''"
    using built_documented [OF assms] by (auto simp: documented_def)
  show ?thesis
    unfolding fmt r
    using built_documented [OF assms] built_retry [OF assms] body status sixty
    by (auto simp: own_headers_def spread_def split: option.splits)
qed

text \<open>
  No failure goes unanswered. Whatever error of the program's classes is thrown (with details
  that hold no \<open>BigInt\<close>; the limits of a quota error may be one), \<open>formatAuthError\<close> answers it: the
  status and the code are those documented for the class, the body is the error's JSON, a 401 asks
  for credentials, a rate limit, an open circuit and a spent quota say when to come back; anything
  else that was thrown is answered with 500.
\<close>

theorem errors_answered:
  assumes "built e"
  shows "(\<exists>r. formatAuthError (DomainErr e) = Some r \<and> (erName e, rsStatus r, erCode e) \<in> set documented
           \<and> Some (rsBody r) = json (toJSON e)
           \<and> map_of (rsHeaders r) ''content-type'' = Some ''application/json; charset=utf-8''
           \<and> (map_of (rsHeaders r) ''www-authenticate'' \<noteq> None \<longleftrightarrow> rsStatus r = 401)
           \<and> map_of (rsHeaders r) ''retry-after'' =
               (if erName e = ''QuotaExceededError'' then Some ''60''
                else if erName e \<in> {''RateLimitExceededError'', ''CircuitBreakerTrippedError''}
                then map_option bigint_to_string (erRetryAfter e)
                else if erName e = ''KeyExhaustedError'' \<and> erRetryAfter e \<noteq> Some 0
                then map_option bigint_to_string (erRetryAfter e) else None))
         \<and> (\<forall>m. map_option rsStatus (formatAuthError (OtherErr m)) = Some 500)"
  using format_built [OF assms] by (simp add: formatAuthError_def)

theorem errors_answered_witness:
  "(\<exists>r. formatAuthError (DomainErr (newQuotaExceededError None ''t1'' None (Some (JBigInt 5)) (Some (JBigInt 7))
         \<lparr>eoDetails = None, eoStatus = None, eoCode = None, eoOperational = None\<rparr>)) = Some r
      \<and> rsStatus r = 429 \<and> map_of (rsHeaders r) ''retry-after'' = Some ''60'')"
proof -
  let ?e = "newQuotaExceededError None ''t1'' None (Some (JBigInt 5)) (Some (JBigInt 7))
         \<lparr>eoDetails = None, eoStatus = None, eoCode = None, eoOperational = None\<rparr>"
  have "built ?e" by (intro built.intros) (simp_all add: plain_options_def)
  from errors_answered [OF this] show ?thesis
    by (auto simp: documented_def newQuotaExceededError_def subclass_error_def newDomainError_def)
qed

end
