(* ===== verification/Auth.thy ===== *)
theory Auth
  imports AuthTokens Demo TenantQuota RateLimiter Errors
begin

text \<open>
  \<open>src/worker/auth/\<close>: the middleware in front of every route. A bearer token is looked up in the
  token table; the record is checked (expiry, provider, budget) and the request is counted by the
  tenant's quota object, over RPC or HTTP, or by a rate limiter of the worker where there is none.
  The master key and the tokens of the demo pool are let in beside the table.

  An environment holds what the middleware reaches: the table, the demo object, the quota object of
  every tenant, the limiters and the storage they share. Options and defaults are merged already; the
  injected repositories, limiters and factories of the tests are left out. The clock is read once.
  What is thrown is a value of \<open>Errors.thrown\<close>, with the messages of the code.
\<close>

section \<open>The token (token\_extractor.ts)\<close>

definition no_opts :: DomainErrorOptions where
  "no_opts = \<lparr>eoDetails = None, eoStatus = None, eoCode = None, eoOperational = None\<rparr>"

definition auth_failure :: "string \<Rightarrow> string \<Rightarrow> thrown" where
  "auth_failure msg why = DomainErr (newAuthenticationError (Some msg) (Some why) None no_opts)"

text \<open>\<open>/^bearer\s*(.*)$/i\<close>: no white space is required after the scheme; the dot stops at line ends.\<close>

definition bearer_match :: "string \<Rightarrow> string option" where
  "bearer_match s =
     (let rest = dropWhile is_space (drop 6 s) in
      if js_lower (take 6 s) = ''bearer'' \<and> list_all (\<lambda>c. code_of c \<noteq> 10 \<and> code_of c \<noteq> 13) rest
      then Some rest else None)"

definition extractBearerToken :: "string option \<Rightarrow> thrown + string" where
  "extractBearerToken authHeader =
     (if js_trim (first_some authHeader []) = []
      then Inl (auth_failure ''Missing Authorization header'' ''missing_token'')
      else case bearer_match (js_trim (first_some authHeader [])) of
          None \<Rightarrow> Inl (auth_failure ''Malformed Authorization header: Bearer scheme required'' ''malformed_header'')
        | Some token \<Rightarrow>
            if js_trim token = [] then Inl (auth_failure ''Bearer token cannot be empty'' ''missing_token'')
            else Inr (js_trim token))"

section \<open>Requests, options and environment (types.ts)\<close>

record AuthRequest =
  arAuthorization :: "string option"
  arConnectingIp :: "string option"
  arXProjectId :: "string option"
  arKcProjectId :: "string option"

record AuthMiddlewareOptions =
  aoProvider :: "string option"
  aoRpmOverride :: "int option"
  aoCost :: "int option"

datatype quota_stub = RpcStub | FetchStub | BareStub

record AuthEnv =
  aeDb :: "token_table option"
  aeMasterKey :: "string option"
  aeDemo :: "DemoDO option"
  aeStub :: "quota_stub option"
  aeQuota :: "string \<Rightarrow> TenantQuotaDO"
  aeLimiters :: "string \<rightharpoonup> RateLimiter"
  aeStorage :: storage

record AuthenticatedContext =
  acTenantId :: string
  acToken :: AuthTokenRecord
  acRpmLimit :: limit
  acCurrentRpm :: int
  acRemainingRpm :: limit
  acBudget :: int
  acSpent :: int
  acBudgetRemaining :: "int option"

section \<open>Tokens outside the table (middleware.ts)\<close>

definition synthetic_token :: "'k SubtleCrypto \<Rightarrow> timestamp \<Rightarrow> string \<Rightarrow> string \<Rightarrow> string \<Rightarrow> int \<Rightarrow> int \<Rightarrow> AuthTokenRecord" where
  "synthetic_token sc now rawToken ident tenant budget rpm =
     \<lparr>atId = ident, atHash = hashToken sc rawToken, atTenant = tenant, atEncrypted = None, atNonce = None,
      atBudget = budget, atSpent = 0, atProviders = [], atRpm = rpm, atExpires = None, atCreated = now\<rparr>"

definition master_context :: "'k SubtleCrypto \<Rightarrow> timestamp \<Rightarrow> string \<Rightarrow> AuthenticatedContext" where
  "master_context sc now rawToken =
     \<lparr>acTenantId = ''admin'',
      acToken = synthetic_token sc now rawToken ''master_key'' ''admin'' 0 10000,
      acRpmLimit = Some 10000, acCurrentRpm = 1, acRemainingRpm = Some 9999, acBudget = 0, acSpent = 0,
      acBudgetRemaining = None\<rparr>"

text \<open>The answer of the demo object has no \<open>remainingRpm\<close>, so the remaining count is always the default 2.\<close>

definition demo_context :: "'k SubtleCrypto \<Rightarrow> timestamp \<Rightarrow> string \<Rightarrow> DemoRateLimitResult option \<Rightarrow> AuthenticatedContext" where
  "demo_context sc now rawToken rateLimit =
     (let rpm = (case rateLimit of Some r \<Rightarrow> drRpmLimit r | None \<Rightarrow> 3) in
      \<lparr>acTenantId = ''demo'',
       acToken = synthetic_token sc now rawToken (''demo_'' @ take 16 rawToken) ''demo'' 1000000 rpm,
       acRpmLimit = Some rpm, acCurrentRpm = (case rateLimit of Some r \<Rightarrow> drCurrentRpm r | None \<Rightarrow> 1),
       acRemainingRpm = Some 2, acBudget = 1000000, acSpent = 0, acBudgetRemaining = None\<rparr>)"

definition invalid_token :: thrown where
  "invalid_token = auth_failure ''Invalid bearer token'' ''invalid_token''"

definition consume_demo ::
  "'k SubtleCrypto \<Rightarrow> timestamp \<Rightarrow> AuthRequest \<Rightarrow> string \<Rightarrow> DemoDO \<Rightarrow> (thrown + AuthenticatedContext) \<times> DemoDO" where
  "consume_demo sc now req rawToken d =
     (let clientIp = first_some (arConnectingIp req) ''127.0.0.1'';
          ((status, body, retry), d1) = dd_fetch now []
            \<lparr>dfMethod = ''POST'', dfPath = ''/consume'', dfQueryIp = None, dfConnectingIp = None,
             dfBodyToken = Some rawToken, dfBodyIp = Some clientIp\<rparr> d
      in case body of
           DemoConsume r \<Rightarrow>
             if ccAllowed r then (Inr (demo_context sc now rawToken (ccRateLimit r)), d1)
             else (Inl (auth_failure ''Invalid or expired demo token'' ''invalid_token''), d1)
         | _ \<Rightarrow> (Inl (auth_failure ''Missing token parameter'' ''invalid_token''), d1))"

definition auth_unknown ::
  "'k SubtleCrypto \<Rightarrow> timestamp \<Rightarrow> AuthRequest \<Rightarrow> string \<Rightarrow> AuthEnv \<Rightarrow> (thrown + AuthenticatedContext) \<times> AuthEnv" where
  "auth_unknown sc now req rawToken env =
     (if aeMasterKey env = Some rawToken then (Inr (master_context sc now rawToken), env)
      else if take (length DEMO_PREFIX) rawToken \<noteq> DEMO_PREFIX then (Inl invalid_token, env)
      else case aeDemo env of
          None \<Rightarrow> (Inl invalid_token, env)
        | Some d \<Rightarrow> (let (r, d1) = consume_demo sc now req rawToken d in (r, env\<lparr>aeDemo := Some d1\<rparr>)))"

section \<open>The checks on a record\<close>

definition spend_exceeded :: "string \<Rightarrow> AuthTokenRecord \<Rightarrow> thrown" where
  "spend_exceeded msg r =
     DomainErr (newQuotaExceededError (Some msg) (atTenant r) (Some ''spend_limit'')
       (Some (JBigInt (atBudget r))) (Some (JBigInt (atSpent r))) no_opts)"

definition auth_gate :: "timestamp \<Rightarrow> AuthMiddlewareOptions \<Rightarrow> AuthTokenRecord \<Rightarrow> thrown option" where
  "auth_gate now opts r =
     (if expired now r then Some (auth_failure ''Bearer token has expired'' ''expired_token'')
      else if \<not> provider_allowed (aoProvider opts) (atProviders r) then
        Some (DomainErr (newAuthenticationError
          (Some (''Provider '' @ quoted (first_some (aoProvider opts) []) @ '' is not allowed for this authentication token''))
          (Some ''provider_not_allowed'') None
          (no_opts\<lparr>eoDetails := Some [(''requiredProvider'', JStr (first_some (aoProvider opts) [])),
                                     (''allowedProviders'', JArr (map JStr (atProviders r)))]\<rparr>)))
      else if atBudget r > 0 \<and> atSpent r \<ge> atBudget r then
        Some (spend_exceeded (''Tenant budget ceiling reached: token budget exhausted ('' @ bigint_to_string (atSpent r) @
          ''/'' @ bigint_to_string (atBudget r) @ '' '' @ [char_of (181 :: nat)] @ ''$)'') r)
      else if atBudget r > 0 \<and> first_some (aoCost opts) 0 > 0 \<and> atSpent r + first_some (aoCost opts) 0 > atBudget r then
        Some (spend_exceeded ''Estimated request cost exceeds remaining tenant budget'' r)
      else None)"

definition record_context :: "AuthTokenRecord \<Rightarrow> limit \<Rightarrow> int \<Rightarrow> limit \<Rightarrow> AuthenticatedContext" where
  "record_context r rpm current rest =
     \<lparr>acTenantId = atTenant r, acToken = r, acRpmLimit = rpm, acCurrentRpm = current, acRemainingRpm = rest,
      acBudget = atBudget r, acSpent = atSpent r,
      acBudgetRemaining = (if atBudget r > 0 then Some (atBudget r - atSpent r) else None)\<rparr>"

section \<open>The quota object\<close>

definition limit_js :: "limit \<Rightarrow> js" where "limit_js l = js_of_num_opt l"

text \<open>The \<open>error\<close> text the quota object attaches to each of its error codes.\<close>

definition quota_error_text :: "ConsumeQuotaResult \<Rightarrow> string" where
  "quota_error_text r =
     (if cqErrorCode r = Some ''USER_DAILY_QUOTA_EXHAUSTED'' then ''User daily quota ceiling exceeded''
      else if cqErrorCode r = Some ''PROJECT_SUB_CAP_EXCEEDED'' then ''Project sub-cap exceeded''
      else ''User quota ceiling exceeded'')"

definition project_of :: "AuthRequest \<Rightarrow> string option" where
  "project_of req = (case arXProjectId req of Some p \<Rightarrow> Some p | None \<Rightarrow> arKcProjectId req)"

definition quota_request :: "AuthRequest \<Rightarrow> AuthMiddlewareOptions \<Rightarrow> string \<Rightarrow> js \<Rightarrow> ConsumeQuotaRequest" where
  "quota_request req opts tenant cost =
     \<lparr>rqTenantId = Some tenant, rqProjectId = (if truthy_str (project_of req) then project_of req else None),
      rqTier = None, rqProjectMaxSubCap = aoRpmOverride opts, rqCost = cost, rqCount = Some 1, rqCheckOnly = False\<rparr>"

definition quota_refusal :: "AuthTokenRecord \<Rightarrow> limit \<Rightarrow> ConsumeQuotaResult \<Rightarrow> thrown" where
  "quota_refusal r rpm q =
     (if cqErrorCode q = Some ''USER_DAILY_QUOTA_EXHAUSTED''
      then DomainErr (newQuotaExceededError (Some (quota_error_text q)) (atTenant r) (Some ''rpd'')
             (Some (limit_js (cqRpdLimit q))) (Some (JNum (cqCurrentRpd q))) no_opts)
      else DomainErr (newRateLimitExceededError (Some (quota_error_text q))
             \<lparr>reTenantId = Some (atTenant r), reProvider = None, reKeyId = Some (atId r), reRpmLimit = Some rpm,
              reCurrentRpm = Some (cqCurrentRpm q), reRetryAfter = Some (first_some (cqRetryAfter q) 60)\<rparr> no_opts))"

definition isolation_text :: "string \<Rightarrow> string \<Rightarrow> string" where
  "isolation_text own target =
     ''Tenant isolation violation: attempt to access/mutate tenant '' @ quoted target @
     '' in TenantQuotaDO for tenant '' @ quoted own"

definition isolation_error :: "string \<Rightarrow> string option \<Rightarrow> thrown" where
  "isolation_error own target =
     DomainErr (newTenantIsolationError (Some (isolation_text own (first_some target []))) (Some own) target None no_opts)"

text \<open>Over RPC the result keeps its unlimited limits.\<close>

definition consume_rpc ::
  "timestamp \<Rightarrow> AuthRequest \<Rightarrow> AuthMiddlewareOptions \<Rightarrow> AuthTokenRecord \<Rightarrow> TenantQuotaDO \<Rightarrow>
   (thrown + AuthenticatedContext) \<times> TenantQuotaDO" where
  "consume_rpc now req opts r q =
     (case tq_consumeQuota now (quota_request req opts (atTenant r) (JBigInt (first_some (aoCost opts) 0))) q of
        (Inl (TenantIsolationError own target), q1) \<Rightarrow> (Inl (isolation_error own target), q1)
      | (Inl TqBigIntSyntaxError, q1) \<Rightarrow> (Inl (OtherErr ''SyntaxError''), q1)
      | (Inr res, q1) \<Rightarrow>
          if \<not> cqAllowed res then (Inl (quota_refusal r (cqRpmLimit res) res), q1)
          else (Inr (record_context r (cqRpmLimit res) (cqCurrentRpm res) (cqRemainingRpm res)), q1))"

text \<open>
  Over HTTP an unlimited limit arrives as null and the token's own limit takes its place. A failure of
  the object that is neither a refusal nor a foreign tenant is reported as a rate limit.
\<close>

definition null_limit :: "limit \<Rightarrow> int \<Rightarrow> int" where
  "null_limit l d = first_some l d"

definition http_refusal :: "int \<Rightarrow> AuthTokenRecord \<Rightarrow> quota_body \<Rightarrow> thrown" where
  "http_refusal effectiveRpm r body =
     (case body of
        ConsumeBody q retry \<Rightarrow> quota_refusal r (Some (null_limit (cqRpmLimit q) effectiveRpm)) q
      | _ \<Rightarrow> DomainErr (newRateLimitExceededError (Some ''SyntaxError'')
               \<lparr>reTenantId = Some (atTenant r), reProvider = None, reKeyId = Some (atId r),
                reRpmLimit = Some (Some effectiveRpm), reCurrentRpm = Some effectiveRpm, reRetryAfter = Some 60\<rparr> no_opts))"

definition consume_http ::
  "timestamp \<Rightarrow> AuthRequest \<Rightarrow> AuthMiddlewareOptions \<Rightarrow> int \<Rightarrow> AuthTokenRecord \<Rightarrow> TenantQuotaDO \<Rightarrow>
   (thrown + AuthenticatedContext) \<times> TenantQuotaDO" where
  "consume_http now req opts effectiveRpm r q =
     (let ((status, body), q1) = tq_fetch now
            \<lparr>qfMethod = ''POST'', qfPath = ''/consume'', qfHeaderTenant = Some (atTenant r),
             qfConsume = quota_request req opts (atTenant r) (JStr (bigint_to_string (first_some (aoCost opts) 0))),
             qfBodyTier = None, qfBodyTenant = Some (atTenant r), qfQueryProject = None, qfQueryTier = None\<rparr> q
      in if status = 403 then
           (case body of
              IsolationBody own target \<Rightarrow>
                (Inl (DomainErr (newTenantIsolationError (Some (isolation_text own (first_some target [])))
                        (Some (atTenant r)) None None no_opts)), q1)
            | _ \<Rightarrow> (Inl (DomainErr (newTenantIsolationError
                        (Some (''Tenant isolation violation for tenant '' @ quoted (atTenant r)))
                        (Some (atTenant r)) None None no_opts)), q1))
         else if \<not> (200 \<le> status \<and> status \<le> 299) then (Inl (http_refusal effectiveRpm r body), q1)
         else (case body of
                 ConsumeBody res retry \<Rightarrow>
                   if \<not> cqAllowed res then (Inl (http_refusal effectiveRpm r body), q1)
                   else (let rpm = null_limit (cqRpmLimit res) effectiveRpm in
                         (Inr (record_context r (Some rpm) (cqCurrentRpm res)
                                (Some (first_some (cqRemainingRpm res) (max 0 (rpm - cqCurrentRpm res))))), q1))
               | _ \<Rightarrow> (Inr (record_context r (Some effectiveRpm) 1 (Some (max 0 (effectiveRpm - 1)))), q1)))"

section \<open>The limiters of the worker (middleware.ts, storage.ts)\<close>

definition mem_get :: "string \<Rightarrow> storage \<Rightarrow> js option" where
  "mem_get k s = s k"

definition mem_getMany :: "string list \<Rightarrow> storage \<Rightarrow> storage" where
  "mem_getMany ks s = s |` set ks"

definition mem_put :: "string \<Rightarrow> js \<Rightarrow> storage \<Rightarrow> storage" where
  "mem_put k v s = s(k \<mapsto> v)"

definition mem_putMany :: "(string \<times> js) list \<Rightarrow> storage \<Rightarrow> storage" where
  "mem_putMany kvs s = fold (\<lambda>(k, v). mem_put k v) kvs s"

definition mem_delete :: "string \<Rightarrow> storage \<Rightarrow> bool \<times> storage" where
  "mem_delete k s = (s k \<noteq> None, s(k := None))"

fun mem_deleteMany :: "string list \<Rightarrow> storage \<Rightarrow> nat \<times> storage" where
  "mem_deleteMany [] s = (0, s)"
| "mem_deleteMany (k # ks) s =
     (let (found, s1) = mem_delete k s; (n, s2) = mem_deleteMany ks s1 in (if found then Suc n else n, s2))"

definition mem_deleteAll :: "storage \<Rightarrow> storage" where
  "mem_deleteAll s = Map.empty"

definition mem_list :: "string \<Rightarrow> storage \<Rightarrow> storage" where
  "mem_list prefix s = (\<lambda>k. if take (length prefix) k = prefix then s k else None)"

definition limiter_key :: "string \<Rightarrow> int \<Rightarrow> string" where
  "limiter_key tenant rpm = tenant @ '':'' @ bigint_to_string rpm"

definition limiter_options :: "string \<Rightarrow> int \<Rightarrow> RateLimiterOptions" where
  "limiter_options tenant rpm =
     \<lparr>rloTenantId = Some tenant, rloKeyId = None, rloRpmLimit = Some rpm, rloRpdLimit = None,
      rloWindowSizeSeconds = None, rloDayWindowSeconds = None, rloMaxBudgetMicrodollars = None,
      rloStorageKeyPrefix = None, rlcDefaultRpmLimit = None, rlcDefaultRpdLimit = None\<rparr>"

text \<open>All limiters share one storage, with keys that name the token only.\<close>

definition getRateLimiter :: "string \<Rightarrow> int \<Rightarrow> AuthEnv \<Rightarrow> RateLimiter" where
  "getRateLimiter tenant rpm env =
     (case aeLimiters env (limiter_key tenant rpm) of
        Some l \<Rightarrow> l\<lparr>rlStorage := aeStorage env\<rparr>
      | None \<Rightarrow> newRateLimiter (aeStorage env) (limiter_options tenant rpm))"

definition put_limiter :: "string \<Rightarrow> int \<Rightarrow> RateLimiter \<Rightarrow> AuthEnv \<Rightarrow> AuthEnv" where
  "put_limiter tenant rpm l env =
     env\<lparr>aeLimiters := (aeLimiters env)(limiter_key tenant rpm \<mapsto> l), aeStorage := rlStorage l\<rparr>"

definition clearRateLimiters :: "AuthEnv \<Rightarrow> AuthEnv" where
  "clearRateLimiters env = env\<lparr>aeLimiters := Map.empty, aeStorage := mem_deleteAll (aeStorage env)\<rparr>"

definition counters :: "string \<Rightarrow> int \<Rightarrow> int \<Rightarrow> string" where
  "counters what current most = what @ '' limit reached ('' @ bigint_to_string current @ ''/'' @ bigint_to_string most @ '')''"

definition limiter_refusal :: "AuthTokenRecord \<Rightarrow> RateLimitCheckResult \<Rightarrow> thrown" where
  "limiter_refusal r c =
     (if reason c = Some RpmLimitExceeded then
        DomainErr (newRateLimitExceededError
          (Some (''Rate limit exceeded for tenant '' @ quoted (atTenant r) @ '': '' @
             counters ''RPM'' (currentRpm c) (resRpmLimit c)))
          \<lparr>reTenantId = Some (atTenant r), reProvider = None, reKeyId = Some (atId r),
           reRpmLimit = Some (Some (resRpmLimit c)), reCurrentRpm = Some (currentRpm c),
           reRetryAfter = Some (retryAfterSeconds c)\<rparr> no_opts)
      else if reason c = Some RpdLimitExceeded then
        DomainErr (newQuotaExceededError
          (Some (''Daily request quota exceeded for tenant '' @ quoted (atTenant r) @ '': '' @
             counters ''RPD'' (currentRpd c) (resRpdLimit c)))
          (atTenant r) (Some ''rpd'') (Some (JNum (resRpdLimit c))) (Some (JNum (currentRpd c))) no_opts)
      else DomainErr (newQuotaExceededError
          (Some (''Financial budget ceiling exceeded for tenant '' @ quoted (atTenant r)))
          (atTenant r) (Some ''spend_limit'') (map_option JBigInt (resMaxBudget c)) (Some (JBigInt (costAccumulated c)))
          no_opts))"

definition consume_limiter ::
  "timestamp \<Rightarrow> AuthMiddlewareOptions \<Rightarrow> int \<Rightarrow> AuthTokenRecord \<Rightarrow> RateLimiter \<Rightarrow>
   (thrown + AuthenticatedContext) \<times> RateLimiter" where
  "consume_limiter now opts effectiveRpm r l =
     (let cost = first_some (aoCost opts) 0 in
      case rl_checkLimitDetailed now (Some (atId r)) cost l of
        (Inl _, l1) \<Rightarrow> (Inl (OtherErr ''SyntaxError''), l1)
      | (Inr c, l1) \<Rightarrow>
          if \<not> allowed c then (Inl (limiter_refusal r c), l1)
          else (case rl_increment now (Some (Inl (atId r))) (Some cost) l1 of
                  (Inl _, l2) \<Rightarrow> (Inl (OtherErr ''SyntaxError''), l2)
                | (Inr _, l2) \<Rightarrow>
                    (Inr (record_context r (Some effectiveRpm) (currentRpm c + 1)
                            (Some (max 0 (effectiveRpm - (currentRpm c + 1))))), l2)))"

section \<open>Authentication\<close>

definition effective_rpm :: "AuthMiddlewareOptions \<Rightarrow> AuthTokenRecord \<Rightarrow> int" where
  "effective_rpm opts r = first_some (aoRpmOverride opts) (atRpm r)"

definition auth_count ::
  "timestamp \<Rightarrow> AuthRequest \<Rightarrow> AuthMiddlewareOptions \<Rightarrow> AuthTokenRecord \<Rightarrow> AuthEnv \<Rightarrow>
   (thrown + AuthenticatedContext) \<times> AuthEnv" where
  "auth_count now req opts r env =
     (let tenant = atTenant r; rpm = effective_rpm opts r;
          put = (\<lambda>(x, q). (x, env\<lparr>aeQuota := (aeQuota env)(tenant := q)\<rparr>))
      in case aeStub env of
           Some RpcStub \<Rightarrow> put (consume_rpc now req opts r (aeQuota env tenant))
         | Some FetchStub \<Rightarrow> put (consume_http now req opts rpm r (aeQuota env tenant))
         | Some BareStub \<Rightarrow>
             (Inl (auth_failure (''Tenant quota stub for '' @ quoted tenant @ '' does not support RPC or fetch'')
                ''invalid_tenant_quota_stub''), env)
         | None \<Rightarrow>
             (let (x, l) = consume_limiter now opts rpm r (getRateLimiter tenant rpm env)
              in (x, put_limiter tenant rpm l env)))"

definition missing_db :: thrown where
  "missing_db = auth_failure ''D1 database binding (DB) is required for authentication lookup'' ''missing_db_binding''"

text \<open>A stored date that is none makes \<open>toISOString\<close> throw a \<open>RangeError\<close>.\<close>

definition authenticate ::
  "'k SubtleCrypto \<Rightarrow> (string \<Rightarrow> js option) \<Rightarrow> timestamp \<Rightarrow> AuthRequest \<Rightarrow> AuthMiddlewareOptions \<Rightarrow> AuthEnv \<Rightarrow>
   (thrown + AuthenticatedContext) \<times> AuthEnv" where
  "authenticate sc parse now req opts env =
     (case extractBearerToken (arAuthorization req) of
        Inl e \<Rightarrow> (Inl e, env)
      | Inr rawToken \<Rightarrow>
          (case aeDb env of
             None \<Rightarrow> (Inl missing_db, env)
           | Some db \<Rightarrow>
               (case findByToken sc parse rawToken db of
                  Inl _ \<Rightarrow> (Inl (OtherErr ''Invalid time value''), env)
                | Inr None \<Rightarrow> auth_unknown sc now req rawToken env
                | Inr (Some r) \<Rightarrow>
                    (case auth_gate now opts r of
                       Some e \<Rightarrow> (Inl e, env)
                     | None \<Rightarrow> auth_count now req opts r env))))"

definition verifyToken ::
  "'k SubtleCrypto \<Rightarrow> (string \<Rightarrow> js option) \<Rightarrow> timestamp \<Rightarrow> string \<Rightarrow> AuthEnv \<Rightarrow> thrown + string" where
  "verifyToken sc parse now bearerToken env =
     (case extractBearerToken (Some bearerToken) of
        Inl e \<Rightarrow> Inl e
      | Inr rawToken \<Rightarrow>
          (case aeDb env of
             None \<Rightarrow> Inl missing_db
           | Some db \<Rightarrow>
               (case findByToken sc parse rawToken db of
                  Inl _ \<Rightarrow> Inl (OtherErr ''Invalid time value'')
                | Inr None \<Rightarrow> Inl invalid_token
                | Inr (Some r) \<Rightarrow>
                    if expired now r then Inl (auth_failure ''Bearer token has expired'' ''expired_token'')
                    else Inr (atTenant r))))"

definition as_domain_error :: "thrown \<Rightarrow> DomainError" where
  "as_domain_error err =
     (case err of
        DomainErr e \<Rightarrow> e
      | OtherErr m \<Rightarrow> newAuthenticationError (Some m) (Some ''internal_error'') None no_opts
      | Thrown v \<Rightarrow> newAuthenticationError (Some (js_string v)) (Some ''internal_error'') None no_opts)"

definition authenticateSafe ::
  "'k SubtleCrypto \<Rightarrow> (string \<Rightarrow> js option) \<Rightarrow> timestamp \<Rightarrow> AuthRequest \<Rightarrow> AuthMiddlewareOptions \<Rightarrow> AuthEnv \<Rightarrow>
   (DomainError \<times> ErrorResponse option + AuthenticatedContext) \<times> AuthEnv" where
  "authenticateSafe sc parse now req opts env =
     (case authenticate sc parse now req opts env of
        (Inr ctx, env1) \<Rightarrow> (Inr ctx, env1)
      | (Inl err, env1) \<Rightarrow> (Inl (as_domain_error err, formatAuthError (DomainErr (as_domain_error err))), env1))"

text \<open>\<open>handle\<close>, and \<open>withAuth\<close> with its handler and the request bound.\<close>

definition handle ::
  "'k SubtleCrypto \<Rightarrow> (string \<Rightarrow> js option) \<Rightarrow> timestamp \<Rightarrow> AuthRequest \<Rightarrow> AuthMiddlewareOptions \<Rightarrow>
   (AuthenticatedContext \<Rightarrow> AuthEnv \<Rightarrow> (thrown + ErrorResponse) \<times> AuthEnv) \<Rightarrow> AuthEnv \<Rightarrow>
   ErrorResponse option \<times> AuthEnv" where
  "handle sc parse now req opts next env =
     (case authenticate sc parse now req opts env of
        (Inl err, env1) \<Rightarrow> (formatAuthError err, env1)
      | (Inr ctx, env1) \<Rightarrow>
          (case next ctx env1 of
             (Inl err, env2) \<Rightarrow> (formatAuthError err, env2)
           | (Inr response, env2) \<Rightarrow> (Some response, env2)))"

section \<open>Lemmas: one request\<close>

lemma auth_gate_None:
  "auth_gate now opts r = None \<longleftrightarrow>
     \<not> expired now r \<and> provider_allowed (aoProvider opts) (atProviders r) \<and>
     (0 < atBudget r \<longrightarrow> atSpent r < atBudget r \<and>
        (0 < first_some (aoCost opts) 0 \<longrightarrow> atSpent r + first_some (aoCost opts) 0 \<le> atBudget r))"
  by (auto simp: auth_gate_def)

text \<open>The quota object over HTTP answers from the same \<open>consumeQuota\<close>.\<close>

lemma fetch_consume:
  assumes "qfMethod req = ''POST''" "qfPath req = ''/consume''" "qfHeaderTenant req = rqTenantId (qfConsume req)"
  shows "tq_fetch now req q =
    (let (x, q1) = tq_consumeQuota now (qfConsume req) q in respond (map_sum id consume_response x, q1))"
proof (cases "tq_assertTenant (rqTenantId (qfConsume req)) q")
  case (Inl e)
  then have "tq_consumeQuota now (qfConsume req) q = (Inl e, q)" by (simp add: tq_consumeQuota_def)
  moreover have "truthy_str (rqTenantId (qfConsume req))"
    using Inl by (auto simp: tq_assertTenant_def split: if_splits)
  ultimately show ?thesis using Inl assms by (simp add: tq_fetch_def)
next
  case (Inr u)
  then show ?thesis using assms by (simp add: tq_fetch_def CONSUME_PATHS_def case_prod_beta Let_def)
qed

lemma toMicrodollars_BigInt [simp]: "toMicrodollars (JBigInt n) = n"
  by (simp add: toMicrodollars_def)

text \<open>The cost travels as a \<open>BigInt\<close> or as its decimal text, with the same meaning.\<close>

lemma evaluateQuota_cost:
  "toMicrodollars (rqCost req) = toMicrodollars c \<Longrightarrow> evaluateQuota (req\<lparr>rqCost := c\<rparr>) ctx = evaluateQuota req ctx"
  by (simp add: evaluateQuota_def Let_def)

lemma consume_cost:
  assumes "toMicrodollars (rqCost req) = toMicrodollars c"
  shows "tq_consumeQuota now (req\<lparr>rqCost := c\<rparr>) q = tq_consumeQuota now req q"
proof -
  have "evaluateQuota (req\<lparr>rqCost := c\<rparr>) = evaluateQuota req"
    by (intro ext evaluateQuota_cost assms)
  then show ?thesis unfolding tq_consumeQuota_def by (simp cong: sum.case_cong)
qed

definition quota_ask :: "AuthRequest \<Rightarrow> AuthMiddlewareOptions \<Rightarrow> AuthTokenRecord \<Rightarrow> ConsumeQuotaRequest" where
  "quota_ask req opts r = quota_request req opts (atTenant r) (JBigInt (first_some (aoCost opts) 0))"

lemma quota_request_text:
  "tq_consumeQuota now (quota_request req opts (atTenant r) (JStr (bigint_to_string (first_some (aoCost opts) 0)))) q =
   tq_consumeQuota now (quota_ask req opts r) q"
  using consume_cost [of "quota_ask req opts r" "JStr (bigint_to_string (first_some (aoCost opts) 0))" now q]
  by (simp add: quota_request_def quota_ask_def)

lemma consume_http_eq:
  "consume_http now req opts rpm r q =
     (case tq_consumeQuota now (quota_ask req opts r) q of
        (Inl (TenantIsolationError own target), q1) \<Rightarrow>
          (Inl (DomainErr (newTenantIsolationError (Some (isolation_text own (first_some target [])))
             (Some (atTenant r)) None None no_opts)), q1)
      | (Inl TqBigIntSyntaxError, q1) \<Rightarrow> (Inl (http_refusal rpm r InternalBody), q1)
      | (Inr res, q1) \<Rightarrow>
          if \<not> cqAllowed res then (Inl (quota_refusal r (Some (null_limit (cqRpmLimit res) rpm)) res), q1)
          else (Inr (record_context r (Some (null_limit (cqRpmLimit res) rpm)) (cqCurrentRpm res)
                  (Some (first_some (cqRemainingRpm res) (max 0 (null_limit (cqRpmLimit res) rpm - cqCurrentRpm res))))), q1))"
proof -
  let ?ask = "quota_request req opts (atTenant r) (JStr (bigint_to_string (first_some (aoCost opts) 0)))"
  let ?fetch = "\<lparr>qfMethod = ''POST'', qfPath = ''/consume'', qfHeaderTenant = Some (atTenant r), qfConsume = ?ask,
     qfBodyTier = None, qfBodyTenant = Some (atTenant r), qfQueryProject = None, qfQueryTier = None\<rparr>"
  have "qfHeaderTenant ?fetch = rqTenantId (qfConsume ?fetch)" by (simp add: quota_request_def)
  from fetch_consume [OF _ _ this, of now q]
  have "tq_fetch now ?fetch q =
      (let (x, q1) = tq_consumeQuota now (quota_ask req opts r) q in respond (map_sum id consume_response x, q1))"
    by (simp add: quota_request_text)
  then show ?thesis
    by (auto simp: consume_http_def Let_def respond_def consume_response_def http_refusal_def
        split: prod.split sum.split tq_error.split)
qed

lemma consume_rpc_eq:
  "consume_rpc now req opts r q =
     (case tq_consumeQuota now (quota_ask req opts r) q of
        (Inl (TenantIsolationError own target), q1) \<Rightarrow> (Inl (isolation_error own target), q1)
      | (Inl TqBigIntSyntaxError, q1) \<Rightarrow> (Inl (OtherErr ''SyntaxError''), q1)
      | (Inr res, q1) \<Rightarrow>
          if \<not> cqAllowed res then (Inl (quota_refusal r (cqRpmLimit res) res), q1)
          else (Inr (record_context r (cqRpmLimit res) (cqCurrentRpm res) (cqRemainingRpm res)), q1))"
  by (simp add: consume_rpc_def quota_ask_def)

lemma consume_stub:
  assumes "(x, q1) = (if http then consume_http now req opts rpm r q else consume_rpc now req opts r q)"
  shows "\<exists>y. tq_consumeQuota now (quota_ask req opts r) q = (y, q1) \<and>
    ((\<exists>ctx. x = Inr ctx) \<longleftrightarrow> (\<exists>res. y = Inr res \<and> cqAllowed res)) \<and>
    (\<forall>ctx. x = Inr ctx \<longrightarrow> acTenantId ctx = atTenant r \<and> acToken ctx = r)"
  using assms
  by (cases "tq_consumeQuota now (quota_ask req opts r) q")
    (fastforce simp: consume_http_eq consume_rpc_eq record_context_def split: sum.splits tq_error.splits if_splits)

lemma findByToken_Some:
  assumes "findByToken sc parse rawToken db = Inr (Some r)"
  shows "\<exists>row\<in>set db. trHash row = hashToken sc rawToken \<and> mapRowToAuthTokenRecord parse row = Inr r"
  using assms
  by (auto simp: findByToken_def map_row_def Let_def map_sum_def dest!: select_one_Some split: if_splits option.splits sum.splits)

lemma mapRow_tenant: "mapRowToAuthTokenRecord parse row = Inr r \<Longrightarrow> atTenant r = trTenant row \<and> atId r = trId row"
  by (auto simp: mapRowToAuthTokenRecord_def split: sum.splits)

lemma demo_verdict: "dd_validateToken now token d = TokenValid \<longleftrightarrow>
   token \<noteq> [] \<and> take (length DEMO_PREFIX) token = DEMO_PREFIX \<and> token = ddToken d \<and> now < ddExpiresAt d"
  by (simp add: dd_validateToken_def validateDemoToken_def)

lemma consume_demo_Inr:
  assumes "consume_demo sc now req rawToken d = (Inr ctx, d1)" "rawToken \<noteq> []"
  shows "dd_validateToken now rawToken d = TokenValid \<and> acTenantId ctx = ''demo'' \<and>
         drAllowed (sb_checkRateLimit (first_some (arConnectingIp req) ''127.0.0.1'') now (ddSandbox d)) \<and>
         d1 = snd (dd_checkAndConsume now (first_some (arConnectingIp req) ''127.0.0.1'') rawToken d)"
proof -
  let ?ip = "first_some (arConnectingIp req) ''127.0.0.1''"
  obtain r d2 where r: "dd_checkAndConsume now ?ip rawToken d = (r, d2)" by fastforce
  then have "ccAllowed r \<and> acTenantId ctx = ''demo'' \<and> d1 = d2"
    using assms by (auto simp: consume_demo_def dd_fetch_def Let_def demo_context_def split: if_splits)
  with dd_consume_allowed [of now ?ip rawToken d] r show ?thesis by simp
qed

lemma extract_nonempty: "extractBearerToken h = Inr token \<Longrightarrow> token \<noteq> []"
  by (auto simp: extractBearerToken_def split: if_splits option.splits)

text \<open>A grant is an admitted record, the master key or an admitted demo token.\<close>

lemma auth_unknown_Inr:
  assumes "auth_unknown sc now req rawToken env = (Inr ctx, env')" "rawToken \<noteq> []"
  shows "(aeMasterKey env = Some rawToken \<and> acTenantId ctx = ''admin'' \<and> env' = env) \<or>
     (\<exists>d. aeDemo env = Some d \<and> acTenantId ctx = ''demo'' \<and> dd_validateToken now rawToken d = TokenValid \<and>
        drAllowed (sb_checkRateLimit (first_some (arConnectingIp req) ''127.0.0.1'') now (ddSandbox d)) \<and>
        env' = env\<lparr>aeDemo := Some (snd (dd_checkAndConsume now
          (first_some (arConnectingIp req) ''127.0.0.1'') rawToken d))\<rparr>)"
  using assms consume_demo_Inr [OF _ assms(2)]
  by (fastforce simp: auth_unknown_def Let_def master_context_def split: if_splits option.splits prod.splits)

text \<open>An admitted request leaves an entry of its moment in the quota object and in its storage.\<close>

lemma admitted_is_stored:
  assumes "tq_consumeQuota now req s = (Inr res, s1)" "cqAllowed res" "\<not> rqCheckOnly req"
  shows "\<exists>e. qeTimestamp e = now \<and> qeCount e = requested_count req \<and>
    (0 < tqRpdWindowMs s \<longrightarrow> e \<in> set (qsEntries (tqMem s1))) \<and>
    tqStorage s1 TQ_STORAGE_KEY = Some (js_of_quota now (tqTenantId s1) (tqMem s1))"
proof -
  obtain u where u: "tq_assertTenant (rqTenantId req) s = Inr u"
    using assms(1) by (cases "tq_assertTenant (rqTenantId req) s") (auto simp: tq_consumeQuota_def)
  obtain v s0 where s0: "tq_ensureLoaded now s = (Inr v, s0)"
    using assms(1) u by (cases "tq_ensureLoaded now s") (auto simp: tq_consumeQuota_def when_loaded_def split: sum.splits)
  have window: "tqRpdWindowMs s0 = tqRpdWindowMs s"
    using s0 by (auto simp: tq_ensureLoaded_def tq_pruneEntries_def Let_def split: if_splits option.splits)
  let ?s = "tq_pruneEntries now s0"
  obtain result entry cost where ev: "evaluateQuota req
      \<lparr>qcTenantId = tqTenantId ?s, qcTier = tier_name (qsTier (tqMem ?s)), qcEntries = qsEntries (tqMem ?s),
       qcTotal = qsTotal (tqMem ?s), qcDebtState = qsDebt (tqMem ?s), qcRpmWindowMs = tqRpmWindowMs ?s,
       qcRpdWindowMs = tqRpdWindowMs ?s, qcNow = now\<rparr> = (result, entry, cost)"
    by (metis prod_cases3)
  obtain e where e: "entry = Some e"
    using evaluateQuota_no_entry [of req _ result cost] assms u s0 ev
    by (cases entry) (auto simp: tq_consumeQuota_def when_loaded_def Let_def)
  note facts = evaluateQuota_entry(1,2) [OF ev [unfolded e]]
  have s1: "s1 = tq_persist now (?s\<lparr>tqMem := (tqMem ?s)\<lparr>qsEntries := qsEntries (tqMem ?s) @ [e],
      qsTotal := qsTotal (tqMem ?s) + cost\<rparr>\<rparr>)"
    using assms u s0 ev e by (auto simp: tq_consumeQuota_def when_loaded_def Let_def)
  show ?thesis
    using facts window
    by (intro exI [of _ e]) (auto simp: s1 tq_persist_def tq_pruneEntries_def prune_quota_def Let_def)
qed

text \<open>
  The request is counted where it is admitted: the quota object of the tenant is left in the state that
  its admitting \<open>consumeQuota\<close> returns, with an entry of this moment in memory and in storage; without a
  quota object the limiter of the worker is left in the state after its check and its \<open>increment\<close>.
\<close>

definition counted ::
  "timestamp \<Rightarrow> AuthRequest \<Rightarrow> AuthMiddlewareOptions \<Rightarrow> AuthTokenRecord \<Rightarrow> AuthEnv \<Rightarrow> AuthEnv \<Rightarrow> bool" where
  "counted now req opts r env env' \<longleftrightarrow>
     (case aeStub env of
        None \<Rightarrow> \<exists>c l1 l2.
          rl_checkLimitDetailed now (Some (atId r)) (first_some (aoCost opts) 0)
            (getRateLimiter (atTenant r) (effective_rpm opts r) env) = (Inr c, l1) \<and> allowed c \<and>
          rl_increment now (Some (Inl (atId r))) (Some (first_some (aoCost opts) 0)) l1 = (Inr (), l2) \<and>
          env' = put_limiter (atTenant r) (effective_rpm opts r) l2 env
      | Some BareStub \<Rightarrow> False
      | _ \<Rightarrow> \<exists>res q1 e.
          tq_consumeQuota now (quota_ask req opts r) (aeQuota env (atTenant r)) = (Inr res, q1) \<and> cqAllowed res \<and>
          env' = env\<lparr>aeQuota := (aeQuota env)(atTenant r := q1)\<rparr> \<and>
          qeTimestamp e = now \<and> qeCount e = 1 \<and>
          (0 < tqRpdWindowMs (aeQuota env (atTenant r)) \<longrightarrow> e \<in> set (qsEntries (tqMem q1))) \<and>
          tqStorage q1 TQ_STORAGE_KEY = Some (js_of_quota now (tqTenantId q1) (tqMem q1)))"

lemma counted_db: "counted now req opts r env env' \<Longrightarrow> aeDb env' = aeDb env"
  by (auto simp: counted_def put_limiter_def split: option.splits quota_stub.splits)

lemma auth_count_Inr:
  assumes "auth_count now req opts r env = (Inr ctx, env')"
  shows "counted now req opts r env env' \<and> acTenantId ctx = atTenant r \<and> acToken ctx = r"
proof (cases "aeStub env")
  case None
  then show ?thesis
    using assms by (auto simp: auth_count_def counted_def consume_limiter_def record_context_def Let_def
        split: prod.splits sum.splits if_splits)
next
  case (Some stub)
  show ?thesis
  proof (cases "stub = BareStub")
    case True
    with assms Some show ?thesis by (simp add: auth_count_def)
  next
    case False
    let ?q = "aeQuota env (atTenant r)"
    obtain q1 where step: "(Inr ctx, q1) = (if stub = FetchStub then consume_http now req opts (effective_rpm opts r) r ?q
          else consume_rpc now req opts r ?q)" and env': "env' = env\<lparr>aeQuota := (aeQuota env)(atTenant r := q1)\<rparr>"
      using assms Some False by (cases stub) (auto simp: auth_count_def Let_def split: prod.splits)
    obtain res where res: "tq_consumeQuota now (quota_ask req opts r) ?q = (Inr res, q1)" "cqAllowed res"
      and ctx: "acTenantId ctx = atTenant r \<and> acToken ctx = r"
      using consume_stub [OF step] by (elim exE conjE) blast
    have ask: "\<not> rqCheckOnly (quota_ask req opts r)" "requested_count (quota_ask req opts r) = 1"
      by (simp_all add: quota_ask_def quota_request_def requested_count_def)
    from admitted_is_stored [OF res ask(1)] res ctx Some False env' ask(2) show ?thesis
      by (cases stub) (auto simp: counted_def)
  qed
qed

text \<open>
  C1. Who gets in. If \<open>authenticate\<close> lets a request through, its header carried a bearer token and
  either a row of the token table holds that token's hash, the record of the row is not expired, allows
  the required provider, has budget left for the estimated cost and was counted and admitted, and the
  context names the row's tenant; or the token is the master key, and nothing is changed; or it is the
  current, unexpired token of the demo pool, the pool admitted the client's address, and the pool is left
  as \<open>checkAndConsume\<close> leaves it. Counted and admitted means that the environment afterwards differs from
  the one before only in the object that counts: the quota object of the row's own tenant is in the state
  its admitting \<open>consumeQuota\<close> returned, and (with a day window of positive length) holds an entry of this
  moment, written to its storage; or, where no quota object is bound, the worker's limiter of that tenant
  is in the state after an admitting \<open>checkLimitDetailed\<close> followed by \<open>increment\<close> with the same cost.
\<close>

theorem authentication_sound:
  assumes "authenticate sc parse now req opts env = (Inr ctx, env')"
  shows "\<exists>rawToken db. extractBearerToken (arAuthorization req) = Inr rawToken \<and> aeDb env = Some db \<and> aeDb env' = Some db \<and>
    ((\<exists>row\<in>set db. trHash row = hashToken sc rawToken \<and> mapRowToAuthTokenRecord parse row = Inr (acToken ctx)
        \<and> acTenantId ctx = trTenant row \<and> \<not> expired now (acToken ctx)
        \<and> provider_allowed (aoProvider opts) (atProviders (acToken ctx))
        \<and> (atBudget (acToken ctx) \<le> 0 \<or>
             atSpent (acToken ctx) < atBudget (acToken ctx)
             \<and> atSpent (acToken ctx) + max 0 (first_some (aoCost opts) 0) \<le> atBudget (acToken ctx))
        \<and> counted now req opts (acToken ctx) env env')
     \<or> (aeMasterKey env = Some rawToken \<and> acTenantId ctx = ''admin'' \<and> env' = env)
     \<or> (\<exists>d. aeDemo env = Some d \<and> acTenantId ctx = ''demo'' \<and> rawToken = ddToken d \<and> now < ddExpiresAt d
          \<and> drAllowed (sb_checkRateLimit (first_some (arConnectingIp req) ''127.0.0.1'') now (ddSandbox d))
          \<and> env' = env\<lparr>aeDemo := Some (snd (dd_checkAndConsume now
              (first_some (arConnectingIp req) ''127.0.0.1'') rawToken d))\<rparr>))"
proof -
  from assms obtain rawToken db where token: "extractBearerToken (arAuthorization req) = Inr rawToken"
    and db: "aeDb env = Some db"
    by (auto simp: authenticate_def split: sum.splits option.splits)
  then obtain found where found: "findByToken sc parse rawToken db = Inr found"
    using assms by (auto simp: authenticate_def split: sum.splits)
  show ?thesis
  proof (cases found)
    case None
    with assms token db found have "auth_unknown sc now req rawToken env = (Inr ctx, env')"
      by (simp add: authenticate_def)
    from auth_unknown_Inr [OF this extract_nonempty [OF token]] token db show ?thesis
      by (auto simp: demo_verdict)
  next
    case (Some r)
    with assms token db found have gate: "auth_gate now opts r = None"
      and count: "auth_count now req opts r env = (Inr ctx, env')"
      by (auto simp: authenticate_def split: option.splits)
    obtain row where row: "row \<in> set db" "trHash row = hashToken sc rawToken" "mapRowToAuthTokenRecord parse row = Inr r"
      using findByToken_Some [OF found [unfolded Some]] by blast
    note facts = auth_count_Inr [OF count] mapRow_tenant [OF row(3)] gate [unfolded auth_gate_None]
    have "atBudget r \<le> 0 \<or> atSpent r < atBudget r \<and> atSpent r + max 0 (first_some (aoCost opts) 0) \<le> atBudget r"
      using facts by (auto simp: max_def)
    with row facts have "\<exists>row\<in>set db. trHash row = hashToken sc rawToken \<and> mapRowToAuthTokenRecord parse row = Inr (acToken ctx)
        \<and> acTenantId ctx = trTenant row \<and> \<not> expired now (acToken ctx)
        \<and> provider_allowed (aoProvider opts) (atProviders (acToken ctx))
        \<and> (atBudget (acToken ctx) \<le> 0 \<or> atSpent (acToken ctx) < atBudget (acToken ctx)
             \<and> atSpent (acToken ctx) + max 0 (first_some (aoCost opts) 0) \<le> atBudget (acToken ctx))
        \<and> counted now req opts (acToken ctx) env env'"
      by (intro bexI [of _ row] conjI) simp_all
    moreover have "aeDb env' = Some db" using facts counted_db db by fastforce
    ultimately show ?thesis using token db
      by (intro exI [of _ rawToken] exI [of _ db] conjI disjI1) simp_all
  qed
qed

section \<open>Streams of requests\<close>

text \<open>The grants are kept with their time and the tenant they name.\<close>

definition auth_step ::
  "'k SubtleCrypto \<Rightarrow> (string \<Rightarrow> js option) \<Rightarrow> timestamp \<times> AuthRequest \<times> AuthMiddlewareOptions \<Rightarrow>
   AuthEnv \<times> (timestamp \<times> string) list \<Rightarrow> AuthEnv \<times> (timestamp \<times> string) list" where
  "auth_step sc parse = (\<lambda>(now, req, opts) (env, granted).
     (let (x, env1) = authenticate sc parse now req opts env
      in (env1, case x of Inr ctx \<Rightarrow> granted @ [(now, acTenantId ctx)] | Inl _ \<Rightarrow> granted)))"

definition auth_run ::
  "'k SubtleCrypto \<Rightarrow> (string \<Rightarrow> js option) \<Rightarrow> (timestamp \<times> AuthRequest \<times> AuthMiddlewareOptions) list \<Rightarrow> AuthEnv \<Rightarrow>
   AuthEnv \<times> (timestamp \<times> string) list" where
  "auth_run sc parse reqs env = fold (auth_step sc parse) reqs (env, [])"

definition sent_of :: "string \<Rightarrow> (timestamp \<times> string) list \<Rightarrow> (timestamp \<times> int) list" where
  "sent_of t granted = map (\<lambda>g. (fst g, 1)) (filter (\<lambda>g. snd g = t) granted)"

lemma sent_of_snoc [simp]:
  "sent_of t (granted @ [(now, t')]) = sent_of t granted @ (if t' = t then [(now, 1)] else [])"
  by (simp add: sent_of_def)

definition quota_bound :: "AuthEnv \<Rightarrow> bool" where
  "quota_bound env \<longleftrightarrow> aeStub env \<in> {Some RpcStub, Some FetchStub}"

lemma auth_count_db: "auth_count now req opts r env = (x, env') \<Longrightarrow> aeDb env' = aeDb env"
  by (auto simp: auth_count_def Let_def put_limiter_def split: option.splits quota_stub.splits prod.splits)

lemma auth_unknown_db: "auth_unknown sc now req rawToken env = (x, env') \<Longrightarrow> aeDb env' = aeDb env"
  by (auto simp: auth_unknown_def Let_def split: if_splits option.splits prod.splits)

lemma authenticate_db: "authenticate sc parse now req opts env = (x, env') \<Longrightarrow> aeDb env' = aeDb env"
  by (auto simp: authenticate_def dest: auth_count_db auth_unknown_db split: sum.splits option.splits)

lemma auth_unknown_env:
  "auth_unknown sc now req rawToken env = (x, env') \<Longrightarrow> aeQuota env' = aeQuota env \<and> aeStub env' = aeStub env"
  by (auto simp: auth_unknown_def Let_def split: if_splits option.splits prod.splits)

text \<open>Seen from a tenant's quota object, a request is at most one \<open>consumeQuota\<close> of its own tenant.\<close>

lemma auth_step_quota:
  assumes bound: "quota_bound env" and t: "t \<notin> {''admin'', ''demo''}"
  shows "\<exists>evs. set (map fst evs) \<subseteq> {fst e} \<and> length evs \<le> 1 \<and> (\<forall>ev\<in>set evs. untiered (snd ev)) \<and>
    (let (env', granted') = auth_step sc parse e (env, granted) in
     quota_bound env' \<and>
     (aeQuota env' t, sent_of t granted') = fold quota_step evs (aeQuota env t, sent_of t granted))"
proof -
  obtain now req opts where e: "e = (now, req, opts)" by (cases e)
  obtain x env' where auth: "authenticate sc parse now req opts env = (x, env')" by fastforce
  let ?granted = "case x of Inr ctx \<Rightarrow> granted @ [(now, acTenantId ctx)] | Inl _ \<Rightarrow> granted"
  have step: "auth_step sc parse e (env, granted) = (env', ?granted)"
    by (simp add: auth_step_def e auth)
  show ?thesis
  proof (cases "\<exists>rawToken db r. extractBearerToken (arAuthorization req) = Inr rawToken \<and> aeDb env = Some db \<and>
      findByToken sc parse rawToken db = Inr (Some r) \<and> auth_gate now opts r = None")
    case False
    have "aeQuota env' = aeQuota env \<and> aeStub env' = aeStub env"
      using auth False
      by (auto simp: authenticate_def dest: auth_unknown_env split: sum.splits option.splits)
    moreover have "acTenantId ctx \<in> {''admin'', ''demo''}" if "x = Inr ctx" for ctx
      using auth False that extract_nonempty [of "arAuthorization req"]
      by (auto simp: authenticate_def dest!: auth_unknown_Inr split: sum.splits option.splits)
    ultimately show ?thesis
      using bound t by (intro exI [of _ "[]"]) (auto simp: step quota_bound_def split: sum.split)
  next
    case True
    then obtain rawToken db r where found: "extractBearerToken (arAuthorization req) = Inr rawToken"
      "aeDb env = Some db" "findByToken sc parse rawToken db = Inr (Some r)" "auth_gate now opts r = None"
      by blast
    let ?q = "aeQuota env (atTenant r)" and ?ask = "quota_ask req opts r"
    from auth found have "auth_count now req opts r env = (x, env')" by (simp add: authenticate_def)
    then obtain q1 where cons: "(x, q1) = (if aeStub env = Some FetchStub
          then consume_http now req opts (effective_rpm opts r) r ?q else consume_rpc now req opts r ?q)"
      and env': "env' = env\<lparr>aeQuota := (aeQuota env)(atTenant r := q1)\<rparr>"
      using bound by (auto simp: quota_bound_def auth_count_def Let_def split: prod.splits)
    obtain y where y: "tq_consumeQuota now ?ask ?q = (y, q1) \<and>
        ((\<exists>ctx. x = Inr ctx) \<longleftrightarrow> (\<exists>res. y = Inr res \<and> cqAllowed res)) \<and>
        (\<forall>ctx. x = Inr ctx \<longrightarrow> acTenantId ctx = atTenant r \<and> acToken ctx = r)"
      using consume_stub [OF cons] ..
    have ask: "rqCheckOnly ?ask = False" "requested_count ?ask = 1" "rqTier ?ask = None"
      by (simp_all add: quota_ask_def quota_request_def requested_count_def)
    have qstep: "quota_step (now, QConsume ?ask) (?q, sent) = (q1, if \<exists>ctx. x = Inr ctx then sent @ [(now, 1)] else sent)" for sent
      using y ask by (auto split: sum.split)
    have granted: "sent_of t ?granted = sent_of t granted @ (if t = atTenant r \<and> (\<exists>ctx. x = Inr ctx) then [(now, 1)] else [])"
      using y by (cases x) auto
    have env: "quota_bound env'" "aeQuota env' t = (if t = atTenant r then q1 else aeQuota env t)"
      using env' bound by (auto simp: quota_bound_def)
    show ?thesis
    proof (intro exI conjI)
      let ?evs = "if t = atTenant r then [(now, QConsume ?ask)] else []"
      show "set (map fst ?evs) \<subseteq> {fst e}" "length ?evs \<le> 1" by (auto simp: e)
      show "\<forall>ev\<in>set ?evs. untiered (snd ev)" using ask by (simp add: untiered_def)
      show "let (env', granted') = auth_step sc parse e (env, granted) in
          quota_bound env' \<and> (aeQuota env' t, sent_of t granted') = fold quota_step ?evs (aeQuota env t, sent_of t granted)"
        unfolding step using granted env by (simp add: qstep del: quota_step.simps)
    qed
  qed
qed

lemma auth_run_quota:
  assumes "quota_bound env" "t \<notin> {''admin'', ''demo''}" "sorted (map fst reqs)"
  shows "\<exists>evs. sorted (map fst evs) \<and> set (map fst evs) \<subseteq> set (map fst reqs) \<and> (\<forall>ev\<in>set evs. untiered (snd ev)) \<and>
    (aeQuota (fst (fold (auth_step sc parse) reqs (env, granted))) t,
     sent_of t (snd (fold (auth_step sc parse) reqs (env, granted)))) = fold quota_step evs (aeQuota env t, sent_of t granted)"
  using assms
proof (induction reqs arbitrary: env granted)
  case Nil
  show ?case by (rule exI [of _ "[]"]) simp
next
  case (Cons e reqs)
  obtain env1 granted1 where step: "auth_step sc parse e (env, granted) = (env1, granted1)" by fastforce
  obtain evs1 where one: "set (map fst evs1) \<subseteq> {fst e}" "length evs1 \<le> 1" "\<forall>ev\<in>set evs1. untiered (snd ev)"
    "quota_bound env1" "(aeQuota env1 t, sent_of t granted1) = fold quota_step evs1 (aeQuota env t, sent_of t granted)"
    using auth_step_quota [OF Cons.prems(1,2), of e sc parse granted] step by auto
  obtain evs where rest: "sorted (map fst evs)" "set (map fst evs) \<subseteq> set (map fst reqs)" "\<forall>ev\<in>set evs. untiered (snd ev)"
    "(aeQuota (fst (fold (auth_step sc parse) reqs (env1, granted1))) t,
      sent_of t (snd (fold (auth_step sc parse) reqs (env1, granted1)))) = fold quota_step evs (aeQuota env1 t, sent_of t granted1)"
    using Cons.IH [OF one(4) Cons.prems(2), of granted1] Cons.prems(3) by auto
  have "sorted (map fst (evs1 @ evs))"
    using one(1,2) rest(1,2) Cons.prems(3) by (cases evs1) (fastforce simp: sorted_append)+
  with one rest step show ?case
    by (intro exI [of _ "evs1 @ evs"]) (auto simp: subset_iff)
qed

text \<open>
  C3. A tenant's limits hold end to end. Whatever requests reach the middleware in chronological
  order, with any headers, tokens, options and tenants mixed, and whether the quota objects are called
  over RPC or HTTP: in no window of the RPM length are more requests of a tenant let through than its
  tier allows per minute, and in none of the RPD length more than it allows per day, starting from the
  tenant's new quota object. (The names admin and demo belong to the master key and the demo pool.)
\<close>

theorem tenant_limits_end_to_end:
  assumes "quota_bound env" and "t \<notin> {''admin'', ''demo''}"
    and new: "newTenantQuotaDO start idName idString Map.empty al qopts = Inr (aeQuota env t)"
    and windows: "tqRpmWindowMs (aeQuota env t) \<le> tqRpdWindowMs (aeQuota env t)"
    and "sorted (map fst reqs)"
  shows "let limits = TIER_LIMITS_MAP (tqInitialTier (aeQuota env t));
             used = (\<lambda>w. int (length (filter (\<lambda>g. snd g = t \<and> \<tau> - w < fst g \<and> fst g \<le> \<tau>)
                       (snd (auth_run sc parse reqs env)))))
         in \<not> over_limit (tlRpmLimit limits) (used (tqRpmWindowMs (aeQuota env t))) \<and>
            \<not> over_limit (tlRpdLimit limits) (used (tqRpdWindowMs (aeQuota env t)))"
proof -
  obtain evs where evs: "sorted (map fst evs)" "\<forall>ev\<in>set evs. untiered (snd ev)"
    "(aeQuota (fst (auth_run sc parse reqs env)) t, sent_of t (snd (auth_run sc parse reqs env)))
       = fold quota_step evs (aeQuota env t, [])"
    using auth_run_quota [OF assms(1,2,5), of sc parse "[]"] by (auto simp: auth_run_def sent_of_def)
  then have sent: "snd (quota_run evs (aeQuota env t)) = sent_of t (snd (auth_run sc parse reqs env))"
    by (metis quota_run_def snd_conv)
  have "sum_list (map snd (filter (\<lambda>a. \<tau> - w < fst a \<and> fst a \<le> \<tau>) (sent_of t granted))) =
      int (length (filter (\<lambda>g. snd g = t \<and> \<tau> - w < fst g \<and> fst g \<le> \<tau>) granted))" for w granted
    by (induction granted) (auto simp: sent_of_def)
  with quota_run_limits [OF new windows evs(1), where t = \<tau>] evs(2) sent show ?thesis
    by (simp add: Let_def)
qed

section \<open>Failures\<close>

lemma plain_no_opts [simp]: "plain_options no_opts"
  by (simp add: plain_options_def no_opts_def)

text \<open>The errors the middleware answers with.\<close>

definition answerable :: "thrown \<Rightarrow> bool" where
  "answerable x \<longleftrightarrow> (\<exists>e. x = DomainErr e \<and> built e \<and>
     erName e \<in> {''AuthenticationError'', ''TenantIsolationError'', ''RateLimitExceededError'', ''QuotaExceededError''})"

lemma answerableI:
  "built e \<Longrightarrow> erName e \<in> {''AuthenticationError'', ''TenantIsolationError'', ''RateLimitExceededError'', ''QuotaExceededError''} \<Longrightarrow>
   answerable (DomainErr e)"
  by (simp add: answerable_def)

lemma answerable_authentication:
  "plain_options opts \<Longrightarrow> answerable (DomainErr (newAuthenticationError m why p opts))"
  by (intro answerableI built.intros(1)) (simp_all add: new_error_defs)

lemma answerable_auth [simp]: "answerable (auth_failure m why)"
  unfolding auth_failure_def by (rule answerable_authentication) simp

lemma answerable_isolation [simp]: "answerable (DomainErr (newTenantIsolationError m a b c no_opts))"
  by (intro answerableI built.intros(2)) (simp_all add: new_error_defs)

lemma answerable_rate [simp]: "answerable (DomainErr (newRateLimitExceededError m r no_opts))"
  by (intro answerableI built.intros(5)) (simp_all add: new_error_defs Let_def)

lemma answerable_quota [simp]:
  "is_amount l \<Longrightarrow> is_amount c \<Longrightarrow> answerable (DomainErr (newQuotaExceededError m t q l c no_opts))"
  by (intro answerableI built.intros(9)) (simp_all add: new_error_defs)

lemma is_amount_simps [simp]: "is_amount (Some (limit_js l))" "is_amount (map_option JBigInt b)"
  by (auto simp: limit_js_def js_of_num_opt_def split: option.split) (cases b, auto)

lemma answerable_refusals [simp]:
  "answerable (quota_refusal r l q)" "answerable (limiter_refusal r c)" "answerable (http_refusal n r body)"
  "answerable (isolation_error a b)" "answerable (spend_exceeded m r)" "answerable invalid_token" "answerable missing_db"
  by (simp_all add: quota_refusal_def limiter_refusal_def http_refusal_def isolation_error_def spend_exceeded_def
      invalid_token_def missing_db_def split: quota_body.split)

lemma answerable_gate: "auth_gate now opts r = Some e \<Longrightarrow> answerable e"
proof -
  let ?opts = "no_opts\<lparr>eoDetails := Some [(''requiredProvider'', JStr (first_some (aoProvider opts) [])),
      (''allowedProviders'', JArr (map JStr (atProviders r)))]\<rparr>"
  have "plain_options ?opts" by (simp add: plain_options_def)
  note answerable_authentication [OF this]
  then show "auth_gate now opts r = Some e \<Longrightarrow> answerable e"
    by (auto simp: auth_gate_def split: if_splits)
qed

lemma authenticate_failure:
  assumes "authenticate sc parse now req opts env = (Inl x, env')"
  shows "answerable x \<or> (\<exists>m. x = OtherErr m)"
proof -
  have token: "extractBearerToken h = Inl e \<Longrightarrow> answerable e" for h e
    by (auto simp: extractBearerToken_def split: if_splits option.splits)
  have unknown: "auth_unknown sc now req rawToken env = (Inl x, env') \<Longrightarrow> answerable x" for rawToken
    by (auto simp: auth_unknown_def consume_demo_def Let_def split: if_splits option.splits prod.splits demo_body.splits)
  have count: "auth_count now req opts r env = (Inl x, env') \<Longrightarrow> answerable x \<or> (\<exists>m. x = OtherErr m)" for r
    by (auto simp: auth_count_def Let_def consume_limiter_def consume_rpc_eq consume_http_eq
        split: quota_stub.splits option.splits prod.splits sum.splits if_splits tq_error.splits)
  show ?thesis
    using assms token unknown count answerable_gate
    by (auto simp: authenticate_def split: sum.splits option.splits)
qed

lemma answerable_response:
  assumes "answerable (DomainErr e)"
  shows "\<exists>r. formatAuthError (DomainErr e) = Some r \<and> rsStatus r = erStatus e \<and> rsStatus r \<in> {401, 403, 429}
         \<and> (map_of (rsHeaders r) ''www-authenticate'' \<noteq> None \<longleftrightarrow> rsStatus r = 401)
         \<and> (map_of (rsHeaders r) ''retry-after'' \<noteq> None \<longleftrightarrow> rsStatus r = 429)"
proof -
  have b: "built e" and n: "erName e \<in> {''AuthenticationError'', ''TenantIsolationError'', ''RateLimitExceededError'', ''QuotaExceededError''}"
    using assms by (auto simp: answerable_def)
  obtain r where r: "formatAuthError (DomainErr e) = Some r" "(erName e, rsStatus r, erCode e) \<in> set documented"
    "map_of (rsHeaders r) ''www-authenticate'' \<noteq> None \<longleftrightarrow> rsStatus r = 401"
    "map_of (rsHeaders r) ''retry-after'' = (if erName e = ''QuotaExceededError'' then Some ''60''
       else if erName e \<in> {''RateLimitExceededError'', ''CircuitBreakerTrippedError''}
       then map_option bigint_to_string (erRetryAfter e)
       else if erName e = ''KeyExhaustedError'' \<and> erRetryAfter e \<noteq> Some 0
       then map_option bigint_to_string (erRetryAfter e) else None)"
    using format_built [OF b] by (elim exE conjE) blast
  from n r(2) built_documented [OF b]
  have st: "(erName e, rsStatus r) \<in> {(''AuthenticationError'', 401), (''TenantIsolationError'', 403),
      (''RateLimitExceededError'', 429), (''QuotaExceededError'', 429)} \<and> erStatus e = rsStatus r"
    by (elim insertE emptyE) (simp_all add: documented_def)
  have retry: "map_of (rsHeaders r) ''retry-after'' \<noteq> None \<longleftrightarrow> rsStatus r = 429"
    using st built_retry [OF b] unfolding r(4) by (elim conjE insertE emptyE) simp_all
  from st have "rsStatus r = erStatus e \<and> rsStatus r \<in> {401, 403, 429}" by auto
  with r(1,3) retry show ?thesis by blast
qed

text \<open>
  C30. A refused request is always answered. \<open>authenticateSafe\<close> never fails: where it does not
  let the request through it gives an error of the program with its response, with status 401, 403 or
  429; the response asks for credentials exactly when the status is 401 and says when to come back
  exactly when it is 429. A failure inside (a corrupt date or counter) is a 401 here too.
\<close>

theorem refusals_answered:
  "case authenticateSafe sc parse now req opts env of
     (Inr ctx, env') \<Rightarrow> authenticate sc parse now req opts env = (Inr ctx, env')
   | (Inl (e, response), env') \<Rightarrow>
       \<exists>r. response = Some r \<and> rsStatus r = erStatus e \<and> rsStatus r \<in> {401, 403, 429}
         \<and> (map_of (rsHeaders r) ''www-authenticate'' \<noteq> None \<longleftrightarrow> rsStatus r = 401)
         \<and> (map_of (rsHeaders r) ''retry-after'' \<noteq> None \<longleftrightarrow> rsStatus r = 429)"
proof -
  obtain x env' where auth: "authenticate sc parse now req opts env = (x, env')" by fastforce
  show ?thesis
  proof (cases x)
    case (Inl err)
    have "answerable (DomainErr (as_domain_error err))"
      using authenticate_failure [OF auth [unfolded Inl]]
    proof (elim disjE exE)
      assume "answerable err"
      then show ?thesis by (auto simp: answerable_def as_domain_error_def)
    qed (simp add: as_domain_error_def answerable_authentication)
    from answerable_response [OF this] auth Inl show ?thesis by (simp add: authenticateSafe_def)
  qed (simp add: auth authenticateSafe_def)
qed

section \<open>Two ways to call the quota object\<close>

lemma consume_result:
  "fst (tq_consumeQuota now req q) = Inr res \<Longrightarrow> \<exists>ctx. res = fst (evaluateQuota req ctx)"
  by (auto simp: tq_consumeQuota_def when_loaded_def Let_def case_prod_beta split: sum.splits option.splits)

lemma remaining_finite: "cqRemainingRpm (fst (evaluateQuota req ctx)) = None \<longleftrightarrow> cqRpmLimit (fst (evaluateQuota req ctx)) = None"
  by (simp add: evaluateQuota_def Let_def remaining_def split: option.split)

definition failure_status :: "thrown \<Rightarrow> int option" where
  "failure_status x = map_option rsStatus (formatAuthError x)"

lemma failure_status_answerable: "answerable (DomainErr e) \<Longrightarrow> failure_status (DomainErr e) = Some (erStatus e)"
  using answerable_response [of e] by (auto simp: failure_status_def)

lemma error_status:
  "erStatus (newTenantIsolationError m a b c opts) = 403" "erStatus (newRateLimitExceededError m r opts) = 429"
  "erStatus (newQuotaExceededError m t q l n opts) = 429"
  by (simp_all add: new_error_defs Let_def)

lemma refusal_statuses [simp]:
  "failure_status (DomainErr (newTenantIsolationError m a b c no_opts)) = Some 403"
  "failure_status (DomainErr (newRateLimitExceededError m r no_opts)) = Some 429"
  "is_amount l \<Longrightarrow> is_amount n \<Longrightarrow> failure_status (DomainErr (newQuotaExceededError m t q l n no_opts)) = Some 429"
  using error_status failure_status_answerable [OF answerable_isolation] failure_status_answerable [OF answerable_rate]
    failure_status_answerable [OF answerable_quota]
  by simp_all

lemma refusal_status: "failure_status (quota_refusal r l q) = Some 429"
  by (simp add: quota_refusal_def)

lemma http_failure_status: "failure_status (http_refusal rpm r InternalBody) = Some 429"
  by (simp add: http_refusal_def)

definition same_grant :: "thrown + AuthenticatedContext \<Rightarrow> thrown + AuthenticatedContext \<Rightarrow> bool" where
  "same_grant rpc http \<longleftrightarrow>
     (case (rpc, http) of
        (Inr a, Inr b) \<Rightarrow> b = a\<lparr>acRpmLimit := acRpmLimit b, acRemainingRpm := acRemainingRpm b\<rparr> \<and>
                         (acRpmLimit a = None \<or> a = b)
      | (Inl e, Inl e') \<Rightarrow> failure_status e = failure_status e' \<or>
                          (failure_status e = Some 500 \<and> failure_status e' = Some 429)
      | _ \<Rightarrow> False)"

lemma same_grant_refl: "same_grant x x"
  by (simp add: same_grant_def split: sum.split)

lemma consume_agrees:
  "snd (consume_rpc now req opts r q) = snd (consume_http now req opts rpm r q) \<and>
   same_grant (fst (consume_rpc now req opts r q)) (fst (consume_http now req opts rpm r q))"
proof -
  obtain y q1 where y: "tq_consumeQuota now (quota_ask req opts r) q = (y, q1)" by fastforce
  show ?thesis
  proof (cases y)
    case (Inl e)
    then show ?thesis
      by (cases e) (simp_all add: consume_rpc_eq consume_http_eq y same_grant_def isolation_error_def
          http_failure_status failure_status_def [of "OtherErr _"] formatAuthError_def)
  next
    case (Inr res)
    obtain ctx where "res = fst (evaluateQuota (quota_ask req opts r) ctx)"
      using consume_result [of now "quota_ask req opts r" q res] y Inr by auto
    then have "cqRemainingRpm res = None \<longleftrightarrow> cqRpmLimit res = None" by (simp add: remaining_finite)
    with Inr show ?thesis
      by (auto simp: consume_rpc_eq consume_http_eq y same_grant_def refusal_status record_context_def null_limit_def)
  qed
qed

lemma auth_unknown_stub:
  "auth_unknown sc now req rawToken (env\<lparr>aeStub := st\<rparr>) =
   (let (x, env1) = auth_unknown sc now req rawToken env in (x, env1\<lparr>aeStub := st\<rparr>))"
  by (auto simp: auth_unknown_def Let_def split: option.split prod.split)

text \<open>
  C29. RPC and HTTP are the same check. For every request, calling the quota object by RPC or by HTTP
  leaves every tenant's object in the same state and comes to the same decision: the same context (only
  an unlimited limit, which HTTP loses, is replaced by the token's own), or failures with the same
  status. The one exception is a failure inside the object, a 500 over RPC, which the HTTP path reports
  as a rate limit.
\<close>

theorem quota_transport_agrees:
  "let (rpc, env1) = authenticate sc parse now req opts (env\<lparr>aeStub := Some RpcStub\<rparr>);
       (http, env2) = authenticate sc parse now req opts (env\<lparr>aeStub := Some FetchStub\<rparr>)
   in aeQuota env1 = aeQuota env2 \<and> same_grant rpc http"
proof -
  have count: "let (rpc, env1) = auth_count now req opts r (env\<lparr>aeStub := Some RpcStub\<rparr>);
       (http, env2) = auth_count now req opts r (env\<lparr>aeStub := Some FetchStub\<rparr>)
     in aeQuota env1 = aeQuota env2 \<and> same_grant rpc http" for r
    using consume_agrees [of now req opts r "aeQuota env (atTenant r)" "effective_rpm opts r"]
    by (simp add: auth_count_def Let_def case_prod_beta)
  show ?thesis
  proof (cases "extractBearerToken (arAuthorization req)")
    case token: (Inr rawToken)
    show ?thesis
    proof (cases "aeDb env")
      case db: (Some db)
      show ?thesis
      proof (cases "findByToken sc parse rawToken db")
        case found: (Inr rec)
        show ?thesis
          by (cases rec; cases "map_option (auth_gate now opts) rec")
            (use token db found count in \<open>auto simp: authenticate_def auth_unknown_stub same_grant_refl Let_def
              case_prod_beta split: option.split\<close>)
      qed (simp add: authenticate_def token db same_grant_refl)
    qed (simp add: authenticate_def token same_grant_refl)
  qed (simp add: authenticate_def same_grant_refl)
qed

section \<open>Remarks on the code\<close>

text \<open>A header without white space after the scheme is accepted.\<close>

lemma scheme_needs_no_space: "extractBearerToken (Some ''Bearerabc'') = Inr ''abc''"
  by code_simp

text \<open>Where a quota object is bound, the limit of the token itself is never applied.\<close>

lemma own_limit_ignored:
  "aeStub env \<noteq> None \<Longrightarrow> counted now req opts (r\<lparr>atRpm := n\<rparr>) env env' = counted now req opts r env env'"
  by (auto simp: counted_def quota_ask_def quota_request_def split: option.splits quota_stub.splits)

section \<open>Witnesses\<close>

definition toy_env :: AuthEnv where
  "toy_env = \<lparr>aeDb = Some [(toy_row ''t1'' ''acme'' 0)\<lparr>trHash := hashToken toy_subtle ''k''\<rparr>],
     aeMasterKey = None, aeDemo = None, aeStub = Some RpcStub, aeQuota = (\<lambda>_. tq_example),
     aeLimiters = Map.empty, aeStorage = Map.empty\<rparr>"

definition toy_request :: AuthRequest where
  "toy_request = \<lparr>arAuthorization = Some ''Bearer k'', arConnectingIp = None, arXProjectId = None, arKcProjectId = None\<rparr>"

definition no_auth_options :: AuthMiddlewareOptions where
  "no_auth_options = \<lparr>aoProvider = None, aoRpmOverride = None, aoCost = None\<rparr>"

lemma toy_token: "extractBearerToken (arAuthorization toy_request) = Inr ''k''"
  unfolding toy_request_def by code_simp

lemma toy_found: "findByToken toy_subtle (\<lambda>_. None) ''k'' (the (aeDb toy_env)) =
    Inr (Some (record_of (\<lambda>_. None) ((toy_row ''t1'' ''acme'' 0)\<lparr>trHash := hashToken toy_subtle ''k''\<rparr>)))"
  by (simp add: findByToken_def toy_env_def select_one_def map_row_def map_row_ok toy_row_def hashToken_def)

lemma toy_admitted:
  "case fst (tq_consumeQuota 1000 (quota_request toy_request no_auth_options ''acme'' (JBigInt 0)) tq_example) of
     Inr res \<Rightarrow> cqAllowed res | Inl _ \<Rightarrow> False"
  by code_simp

lemma toy_authenticated:
  "\<exists>ctx env'. authenticate toy_subtle (\<lambda>_. None) 1000 toy_request no_auth_options toy_env = (Inr ctx, env') \<and>
     acTenantId ctx = ''acme''"
proof -
  let ?r = "record_of (\<lambda>_. None) ((toy_row ''t1'' ''acme'' 0)\<lparr>trHash := hashToken toy_subtle ''k''\<rparr>)"
  have tenant: "atTenant ?r = ''acme''" by (simp add: toy_row_def)
  have ask: "quota_ask toy_request no_auth_options ?r = quota_request toy_request no_auth_options ''acme'' (JBigInt 0)"
    by (simp add: quota_ask_def toy_row_def no_auth_options_def)
  obtain res where res: "fst (tq_consumeQuota 1000 (quota_ask toy_request no_auth_options ?r) tq_example) = Inr res" "cqAllowed res"
    using toy_admitted unfolding ask by (auto split: sum.splits)
  have "auth_gate 1000 no_auth_options ?r = None"
    by (simp add: auth_gate_None expired_def provider_allowed_def no_auth_options_def record_of_def toy_row_def truthy_str_def)
  then show ?thesis
    using res toy_found toy_token tenant
    by (cases "tq_consumeQuota 1000 (quota_ask toy_request no_auth_options ?r) tq_example")
      (simp add: authenticate_def auth_count_def toy_env_def consume_rpc_eq record_context_def Let_def)
qed

theorem authentication_sound_witness:
  "\<exists>ctx env'. authenticate toy_subtle (\<lambda>_. None) 1000 toy_request no_auth_options toy_env = (Inr ctx, env')
     \<and> acTenantId ctx = ''acme'' \<and> counted 1000 toy_request no_auth_options (acToken ctx) toy_env env'"
proof -
  obtain ctx env' where auth: "authenticate toy_subtle (\<lambda>_. None) 1000 toy_request no_auth_options toy_env = (Inr ctx, env')"
    "acTenantId ctx = ''acme''" using toy_authenticated by blast
  from authentication_sound [OF auth(1)] auth(2)
  have "counted 1000 toy_request no_auth_options (acToken ctx) toy_env env'" by auto
  with auth show ?thesis by blast
qed

theorem tenant_limits_end_to_end_witness:
  "\<not> over_limit (Some 2) (int (length (filter (\<lambda>g. snd g = ''acme'' \<and> 1002 - 60000 < fst g \<and> fst g \<le> 1002)
     (snd (auth_run toy_subtle (\<lambda>_. None)
        [(1000, toy_request, no_auth_options), (1001, toy_request, no_auth_options), (1002, toy_request, no_auth_options)]
        toy_env)))))"
  using tenant_limits_end_to_end [where env = toy_env and t = "''acme''" and start = 5 and idName = "Some ''acme''"
      and idString = "''id''" and al = None and qopts = tq_no_options and sc = toy_subtle and parse = "\<lambda>_. None" and \<tau> = 1002
      and reqs = "[(1000, toy_request, no_auth_options), (1001, toy_request, no_auth_options), (1002, toy_request, no_auth_options)]"]
    tq_example_new
  by (simp add: quota_bound_def toy_env_def tq_example_def TIER_LIMITS_MAP_def tier_limits_def Let_def)

end
