(* ===== verification/Dates.thy ===== *)
theory Dates
  imports JsLib
begin

text \<open>
  \<open>Date.prototype.toISOString\<close> as the ECMAScript standard has it: the proleptic Gregorian calendar
  in UTC, milliseconds since 1970. A year of the calendar below starts in March, so that the leap day is
  its last. The inverse \<open>date_of_iso\<close> is \<open>Date.parse\<close> on the strings \<open>toISOString\<close> makes.
\<close>

section \<open>The calendar\<close>

definition days_before_year :: "int \<Rightarrow> int" where
  "days_before_year y =
     146097 * (y div 400) + 36524 * (y mod 400 div 100) + 1461 * (y mod 100 div 4) + 365 * (y mod 4)"

text \<open>
  From days since 1 March of the year 0 to the March-based year and the day in it, through the
  400-year, 100-year, 4-year and 1-year cycles; the last year of a cycle takes its leap day.
\<close>

definition march_year :: "int \<Rightarrow> int \<times> int" where
  "march_year z =
     (let era = z div 146097; r400 = z mod 146097;
          c = min (r400 div 36524) 3; r100 = r400 - 36524 * c;
          q = r100 div 1461; r4 = r100 mod 1461;
          y = min (r4 div 365) 3
      in (400 * era + 100 * c + 4 * q + y, r4 - 365 * y))"

definition civil_of_days :: "int \<Rightarrow> int \<times> int \<times> int" where
  "civil_of_days days =
     (let (y, doy) = march_year (days + 719468);
          mp = (5 * doy + 2) div 153;
          m = (if mp < 10 then mp + 3 else mp - 9)
      in (if m \<le> 2 then y + 1 else y, m, doy - (153 * mp + 2) div 5 + 1))"

definition days_of_civil :: "int \<Rightarrow> int \<Rightarrow> int \<Rightarrow> int" where
  "days_of_civil y m d =
     (let mp = (if m \<le> 2 then m + 9 else m - 3)
      in days_before_year (if m \<le> 2 then y - 1 else y) + (153 * mp + 2) div 5 + d - 1 - 719468)"

lemma march_year_inverse:
  "march_year z = (y, doy) \<Longrightarrow> days_before_year y + doy = z \<and> 0 \<le> doy \<and> doy \<le> 365"
proof -
  define r400 where "r400 = z mod 146097"
  define c where "c = min (r400 div 36524) 3"
  define r100 where "r100 = r400 - 36524 * c"
  define q where "q = r100 div 1461"
  define r4 where "r4 = r100 mod 1461"
  define y1 where "y1 = min (r4 div 365) 3"
  have r400: "0 \<le> r400" "r400 < 146097" by (simp_all add: r400_def)
  then have c: "0 \<le> c" "c \<le> 3" "0 \<le> r100" "r100 \<le> 36524"
    unfolding c_def r100_def by (auto simp: min_def)
  then have q: "0 \<le> q" "q \<le> 24" unfolding q_def by linarith+
  have r4: "0 \<le> r4" "r4 \<le> 1460" "1461 * q + r4 = r100" by (simp_all add: r4_def q_def)
  then have y1: "0 \<le> y1" "y1 \<le> 3" "0 \<le> r4 - 365 * y1" "r4 - 365 * y1 \<le> 365"
    unfolding y1_def by (auto simp: min_def)
  assume "march_year z = (y, doy)"
  then have y: "y = 400 * (z div 146097) + (100 * c + (4 * q + y1))" and doy: "doy = r4 - 365 * y1"
    by (auto simp: march_year_def Let_def r400_def c_def r100_def q_def r4_def y1_def)
  have digits: "y div 400 = z div 146097" "y mod 400 = 100 * c + (4 * q + y1)"
    using c q y1 int_div_pos_eq [OF y] int_mod_pos_eq [OF y] by simp_all
  have "y = 100 * (4 * (z div 146097) + c) + (4 * q + y1)" "y = 4 * (100 * (z div 146097) + 25 * c + q) + y1"
    using y by simp_all
  from this [THEN int_mod_pos_eq] have low: "y mod 100 = 4 * q + y1" "y mod 4 = y1"
    using q y1 by simp_all
  have "(100 * c + (4 * q + y1)) div 100 = c" "(4 * q + y1) div 4 = q" using c q y1 by simp_all
  then have "days_before_year y = 146097 * (z div 146097) + 36524 * c + 1461 * q + 365 * y1"
    by (simp only: days_before_year_def digits low)
  moreover have "z = 146097 * (z div 146097) + r400" by (simp add: r400_def)
  ultimately show ?thesis using r4(3) y1(3, 4) r100_def unfolding doy by linarith
qed

lemma civil_inverse: "civil_of_days n = (y, m, d) \<Longrightarrow> days_of_civil y m d = n"
proof -
  obtain my doy where my: "march_year (n + 719468) = (my, doy)" by fastforce
  define mp where "mp = (5 * doy + 2) div 153"
  have doy: "days_before_year my + doy = n + 719468" "0 \<le> doy" "doy \<le> 365"
    using march_year_inverse [OF my] by auto
  then have mp: "0 \<le> mp" "mp \<le> 11" unfolding mp_def by linarith+
  assume "civil_of_days n = (y, m, d)"
  then have *: "m = (if mp < 10 then mp + 3 else mp - 9)" "y = (if m \<le> 2 then my + 1 else my)"
    "d = doy - (153 * mp + 2) div 5 + 1"
    by (auto simp: civil_of_days_def my mp_def Let_def)
  then have "(if m \<le> 2 then m + 9 else m - 3) = mp" "(if m \<le> 2 then y - 1 else y) = my"
    using mp by auto
  then have "days_of_civil y m d = days_before_year my + (153 * mp + 2) div 5 + d - 1 - 719468"
    by (simp only: days_of_civil_def Let_def)
  with doy(1) *(3) show ?thesis by simp
qed

lemma civil_ranges: "civil_of_days n = (y, m, d) \<Longrightarrow> 1 \<le> m \<and> m \<le> 12 \<and> 1 \<le> d \<and> d \<le> 31"
proof -
  obtain my doy where my: "march_year (n + 719468) = (my, doy)" by fastforce
  define mp where "mp = (5 * doy + 2) div 153"
  have "0 \<le> doy" "doy \<le> 365" using march_year_inverse [OF my] by auto
  then have mp: "0 \<le> mp" "mp \<le> 11" "153 * mp \<le> 5 * doy + 2" "5 * doy + 2 < 153 * mp + 153"
    unfolding mp_def by linarith+
  define k where "k = (153 * mp + 2) div 5"
  have k: "5 * k \<le> 153 * mp + 2" "153 * mp + 2 < 5 * k + 5" unfolding k_def by linarith+
  assume "civil_of_days n = (y, m, d)"
  then have "m = (if mp < 10 then mp + 3 else mp - 9)" "d = doy - k + 1"
    by (auto simp: civil_of_days_def my mp_def k_def Let_def)
  with mp k show ?thesis by auto
qed

section \<open>The string\<close>

definition digit_of :: "int \<Rightarrow> char" where
  "digit_of n = digit_char (nat (n mod 10))"

definition two_digits :: "int \<Rightarrow> string" where
  "two_digits n = [digit_of (n div 10), digit_of n]"

definition pad_zeros :: "nat \<Rightarrow> string \<Rightarrow> string" where
  "pad_zeros n s = replicate (n - length s) CHR ''0'' @ s"

text \<open>Four digits, or a sign and six outside the years 0 to 9999.\<close>

definition year_string :: "int \<Rightarrow> string" where
  "year_string y =
     (if 0 \<le> y \<and> y \<le> 9999 then pad_zeros 4 (nat_str (nat y))
      else (if y < 0 then CHR ''-'' else CHR ''+'') # pad_zeros 6 (nat_str (nat \<bar>y\<bar>)))"

definition iso_date_string :: "int \<times> int \<times> int \<Rightarrow> string" where
  "iso_date_string = (\<lambda>(y, m, d). year_string y @ CHR ''-'' # two_digits m @ CHR ''-'' # two_digits d)"

definition iso_time_string :: "int \<Rightarrow> string" where
  "iso_time_string ms =
     two_digits (ms div 3600000) @ CHR '':'' # two_digits (ms div 60000 mod 60) @ CHR '':'' #
     two_digits (ms div 1000 mod 60) @ CHR ''.'' # digit_of (ms mod 1000 div 100) # two_digits (ms mod 100)"

definition toISOString :: "timestamp \<Rightarrow> string" where
  "toISOString t =
     iso_date_string (civil_of_days (t div 86400000)) @ CHR ''T'' # iso_time_string (t mod 86400000) @ ''Z''"

section \<open>Reading it back\<close>

definition digit_value :: "char \<Rightarrow> int" where
  "digit_value c = int (code_of c) - 48"

text \<open>The number of \<open>n\<close> digits at position \<open>i\<close>.\<close>

definition number_at :: "string \<Rightarrow> nat \<Rightarrow> nat \<Rightarrow> int" where
  "number_at s i n = int (digits_val (take n (drop i s)))"

definition date_of_iso :: "string \<Rightarrow> timestamp option" where
  "date_of_iso s =
     (let sign = s \<noteq> [] \<and> (hd s = CHR ''-'' \<or> hd s = CHR ''+'');
          body = (if sign then tl s else s);
          v = int (digits_val (takeWhile is_digit body));
          r = dropWhile is_digit body;
          days = days_of_civil (if sign \<and> hd s = CHR ''-'' then - v else v) (number_at r 1 2) (number_at r 4 2);
          ms = 3600000 * number_at r 7 2 + 60000 * number_at r 10 2 + 1000 * number_at r 13 2 + number_at r 16 3
      in if length r = 20 \<and> map (\<lambda>i. r ! i) [0, 3, 6, 9, 12, 15, 19] = ''--T::.Z''
         then Some (86400000 * days + ms) else None)"

lemma digit_of_simps [simp]: "is_digit (digit_of n)" "code_of (digit_of n) = 48 + nat (n mod 10)"
  by (simp_all add: digit_of_def nat_less_iff)

lemma digits_val_two: "0 \<le> n \<Longrightarrow> n < 100 \<Longrightarrow> int (digits_val (two_digits n)) = n"
proof -
  assume "0 \<le> n" "n < 100"
  then have "n div 10 mod 10 = n div 10" by (intro mod_pos_pos_trivial) auto
  moreover have "0 \<le> n div 10" using \<open>0 \<le> n\<close> by simp
  ultimately show ?thesis by (simp add: two_digits_def digits_val_def)
qed

lemma digits_val_three:
  "0 \<le> n \<Longrightarrow> n < 1000 \<Longrightarrow> int (digits_val (digit_of (n div 100) # two_digits (n mod 100))) = n"
proof -
  assume n: "0 \<le> n" "n < 1000"
  then have "n div 100 mod 10 = n div 100" by (intro mod_pos_pos_trivial) auto
  then have "int (digits_val (digit_of (n div 100) # two_digits (n mod 100))) =
      100 * (n div 100) + int (digits_val (two_digits (n mod 100)))"
    using n by (simp add: two_digits_def digits_val_def)
  with n show ?thesis by (simp add: digits_val_two)
qed

lemma digits_val_zero_pad: "digits_val (replicate k CHR ''0'' @ s) = digits_val s"
  by (induction k) (simp_all add: digits_val_def)

lemma pad_zeros_digits: "list_all is_digit s \<Longrightarrow> list_all is_digit (pad_zeros n s)"
  by (auto simp: pad_zeros_def list_all_iff is_digit_def)

lemma digits_val_pad [simp]: "digits_val (pad_zeros n s) = digits_val s"
  by (simp add: pad_zeros_def digits_val_zero_pad)

lemma year_digits: "list_all is_digit (pad_zeros k (nat_str n))"
  by (simp add: pad_zeros_digits nat_str_digits)

lemma year_span:
  assumes "list_all is_digit ys" "r \<noteq> []" "\<not> is_digit (hd r)"
  shows "takeWhile is_digit (ys @ r) = ys" "dropWhile is_digit (ys @ r) = r"
  using assms by (cases r; auto simp: takeWhile_append dropWhile_append list_all_iff)+

lemma year_no_sign: "hd (pad_zeros 4 (nat_str n) @ r) \<noteq> CHR ''-''" "hd (pad_zeros 4 (nat_str n) @ r) \<noteq> CHR ''+''"
proof -
  have ne: "pad_zeros 4 (nat_str n) \<noteq> []" using nat_str_ne [of n] by (simp add: pad_zeros_def)
  then have "is_digit (hd (pad_zeros 4 (nat_str n)))"
    using year_digits [of 4 n] by (simp add: list_all_iff)
  with ne show "hd (pad_zeros 4 (nat_str n) @ r) \<noteq> CHR ''-''" "hd (pad_zeros 4 (nat_str n) @ r) \<noteq> CHR ''+''"
    by auto
qed

text \<open>What follows the year, and the numbers in it.\<close>

definition after_year :: "int \<Rightarrow> int \<Rightarrow> int \<Rightarrow> string" where
  "after_year m d ms = CHR ''-'' # two_digits m @ CHR ''-'' # two_digits d @ CHR ''T'' # iso_time_string ms @ ''Z''"

lemma after_year_numbers:
  assumes "0 \<le> m" "m < 100" "0 \<le> d" "d < 100" "0 \<le> ms" "ms < 86400000"
  defines "r \<equiv> after_year m d ms"
  shows "number_at r 1 2 = m" "number_at r 4 2 = d" "number_at r 7 2 = ms div 3600000"
    "number_at r 10 2 = ms div 60000 mod 60" "number_at r 13 2 = ms div 1000 mod 60" "number_at r 16 3 = ms mod 1000"
proof -
  have hour: "0 \<le> ms div 3600000" "ms div 3600000 < 100" using assms by auto
  have r: "take 2 (drop 1 r) = two_digits m" "take 2 (drop 4 r) = two_digits d"
    "take 2 (drop 7 r) = two_digits (ms div 3600000)" "take 2 (drop 10 r) = two_digits (ms div 60000 mod 60)"
    "take 2 (drop 13 r) = two_digits (ms div 1000 mod 60)"
    "take 3 (drop 16 r) = digit_of (ms mod 1000 div 100) # two_digits (ms mod 1000 mod 100)"
    by (simp_all add: r_def after_year_def iso_time_string_def two_digits_def mod_mod_cancel)
  show "number_at r 1 2 = m" "number_at r 4 2 = d" "number_at r 7 2 = ms div 3600000"
    "number_at r 10 2 = ms div 60000 mod 60" "number_at r 13 2 = ms div 1000 mod 60"
    unfolding number_at_def r by (simp_all add: digits_val_two assms hour)
  show "number_at r 16 3 = ms mod 1000"
    unfolding number_at_def r by (rule digits_val_three) simp_all
qed

lemma after_year_shape:
  "length (after_year m d ms) = 20" "map (\<lambda>i. after_year m d ms ! i) [0, 3, 6, 9, 12, 15, 19] = ''--T::.Z''"
  by (simp_all add: after_year_def iso_time_string_def two_digits_def)

lemma day_of_clock:
  "3600000 * (ms div 3600000) + 60000 * (ms div 60000 mod 60) + 1000 * (ms div 1000 mod 60) + ms mod 1000 = (ms :: int)"
proof -
  have "ms div 60000 = ms div 1000 div 60" "ms div 3600000 = ms div 60000 div 60"
    by (simp_all add: zdiv_zmult2_eq [symmetric])
  then show ?thesis
    using div_mult_mod_eq [of ms 1000] div_mult_mod_eq [of "ms div 1000" 60] div_mult_mod_eq [of "ms div 60000" 60]
    by linarith
qed

text \<open>Reading an instant back from its string.\<close>

lemma date_of_iso_roundtrip: "date_of_iso (toISOString t) = Some t"
proof -
  obtain y m d where civil: "civil_of_days (t div 86400000) = (y, m, d)" by (metis surj_pair)
  define ms where "ms = t mod 86400000"
  have iso: "toISOString t = year_string y @ after_year m d ms"
    by (simp add: toISOString_def civil iso_date_string_def after_year_def ms_def)
  have md: "0 \<le> m" "m < 100" "0 \<le> d" "d < 100" "0 \<le> ms" "ms < 86400000"
    using civil_ranges [OF civil] by (auto simp: ms_def)
  have tail: "after_year m d ms \<noteq> []" "\<not> is_digit (hd (after_year m d ms))"
    by (simp_all add: after_year_def)
  have "date_of_iso (toISOString t) = Some (86400000 * days_of_civil y m d +
      (3600000 * (ms div 3600000) + 60000 * (ms div 60000 mod 60) + 1000 * (ms div 1000 mod 60) + ms mod 1000))"
    unfolding date_of_iso_def iso Let_def after_year_shape
    using year_no_sign [of "nat y" "after_year m d ms"]
    by (simp add: year_string_def year_span [OF year_digits tail] digits_val_nat_str
        after_year_numbers [OF md] after_year_shape tail(1) del: list.map One_nat_def)
  then show ?thesis
    using civil_inverse [OF civil] md by (simp add: day_of_clock ms_def)
qed

end
