(* ===== verification/Ledger.thy ===== *)
theory Ledger
  imports Dates SseTransformer Interfaces "HOL-Library.Char_ord"
begin

text \<open>
  \<open>src/storage/repositories/cost_ledger/\<close> and \<open>src/storage/d1/{ledger,rollups,validation}.ts\<close>: what
  every request cost. One table holds an immutable row per request (\<open>cost_ledger\<close>, unique \<open>id\<close>), one the
  totals per tenant, day, provider and model (\<open>daily_spend_rollup\<close>, unique in these four). A
  statement is the list operation it denotes; a batch is a transaction. \<open>ORDER BY\<close> leaves the order
  of ties open: here it is the order of the index, insertion order when ascending and its reverse
  when descending. Dates in the tables are strings. \<open>Date.parse\<close> is the argument \<open>parse\<close>, random
  identifiers are \<open>uuid\<close>; error messages and their details are left out. Stored integers stay below \<open>2 ^ 53\<close>.
\<close>

section \<open>Types (types.ts) and errors\<close>

text \<open>\<open>CostLedgerDbRow\<close> has the same columns as the event.\<close>

record CostLedgerEvent =
  leId :: string
  leRequestId :: string
  leTenant :: string
  leKeyId :: string
  leProvider :: string
  leModel :: string
  lePrompt :: int
  leCompletion :: int
  leCached :: int
  leReasoning :: int
  leCost :: int
  leLatency :: int
  leStatus :: int
  leCreatedAt :: string

record DailySpendRollup =
  drTenant :: string
  drDay :: string
  drProvider :: string
  drModel :: string
  drRequests :: int
  drTokens :: int
  drCost :: int

record LedgerDb =
  ldEvents :: "CostLedgerEvent list"
  ldRollups :: "DailySpendRollup list"

text \<open>\<open>bigint | number\<close>; the number is a rational or not finite. Other values are the last.\<close>

datatype Amount = BigAmount int | NumAmount rat | NonFinite | OtherAmount

text \<open>\<open>string | Date\<close>; a \<open>Date\<close> may be invalid.\<close>

datatype DateInput = DateText string | DateObject "timestamp option"

record CostLedgerEventInput =
  liId :: "string option"
  liRequestId :: string
  liTenant :: string
  liKeyId :: string
  liProvider :: string
  liModel :: string
  liPrompt :: "int option"
  liCompletion :: "int option"
  liCached :: "int option"
  liReasoning :: "int option"
  liCost :: Amount
  liLatency :: "int option"
  liStatus :: int
  liCreatedAt :: "DateInput option"

record DailySpendRollupInput =
  riTenant :: string
  riDay :: DateInput
  riProvider :: string
  riModel :: string
  riRequests :: "int option"
  riTokens :: "int option"
  riCost :: Amount

record ListCostEventsOptions =
  loSince :: "DateInput option"
  loUntil :: "DateInput option"
  loProvider :: "string option"
  loModel :: "string option"
  loKeyId :: "string option"
  loLimit :: "int option"
  loOffset :: "int option"
  loOrder :: "string option"

record ListDailyRollupsOptions =
  lrStart :: "DateInput option"
  lrEnd :: "DateInput option"
  lrProvider :: "string option"
  lrModel :: "string option"
  lrLimit :: "int option"
  lrOffset :: "int option"
  lrOrder :: "string option"

record TenantSpendSummary =
  tsTenant :: string
  tsCost :: int
  tsRequests :: int
  tsTokens :: int
  tsStart :: "string option"
  tsEnd :: "string option"

text \<open>
  \<open>TenantIsolationViolationError\<close>, \<open>InvalidCostLedgerEventError\<close>, \<open>CostLedgerError\<close> (around a failure
  of the database) and the \<open>RangeError\<close> of \<open>toISOString\<close>.
\<close>

datatype ledger_error = TenantViolation | InvalidEvent | LedgerFailure | DateRangeError

section \<open>Helpers (helpers.ts)\<close>

fun validateMicrodollars :: "Amount \<Rightarrow> ledger_error + int" where
  "validateMicrodollars (BigAmount v) = (if v < 0 then Inl InvalidEvent else Inr v)"
| "validateMicrodollars (NumAmount v) =
     (if of_int \<lfloor>v\<rfloor> \<noteq> v then Inl InvalidEvent
      else if v < 0 then Inl InvalidEvent
      else Inr \<lfloor>v\<rfloor>)"
| "validateMicrodollars NonFinite = Inl InvalidEvent"
| "validateMicrodollars OtherAmount = Inl InvalidEvent"

text \<open>The pattern \<open>/^\d{4}-\d{2}-\d{2}$/\<close>.\<close>

definition is_calendar_day :: "string \<Rightarrow> bool" where
  "is_calendar_day s \<longleftrightarrow>
     length s = 10 \<and> s ! 4 = CHR ''-'' \<and> s ! 7 = CHR ''-'' \<and>
     list_all is_digit (take 4 s @ take 2 (drop 5 s) @ drop 8 s)"

fun formatCalendarDay :: "(string \<Rightarrow> timestamp option) \<Rightarrow> DateInput \<Rightarrow> ledger_error + string" where
  "formatCalendarDay parse (DateObject None) = Inl InvalidEvent"
| "formatCalendarDay parse (DateObject (Some t)) = Inr (take 10 (toISOString t))"
| "formatCalendarDay parse (DateText s) =
     (let trimmed = js_trim s in
      if is_calendar_day trimmed then Inr trimmed
      else case parse trimmed of
        Some t \<Rightarrow> Inr (take 10 (toISOString t))
      | None \<Rightarrow> Inl InvalidEvent)"

definition calculateEventCostMicrodollars ::
  "int \<Rightarrow> int \<Rightarrow> int option \<Rightarrow> int option \<Rightarrow> int \<Rightarrow> int \<Rightarrow> int \<Rightarrow> int" where
  "calculateEventCostMicrodollars prompt completion cached reasoning inputRate outputRate cacheRate =
     (let p = max 0 prompt; c = max 0 completion; r = max 0 (first_some reasoning 0); k = max 0 (first_some cached 0)
      in bigint_div (p * inputRate) MICRODOLLAR_MULTIPLIER
         + bigint_div ((c + r) * outputRate) MICRODOLLAR_MULTIPLIER
         + bigint_div (k * cacheRate) MICRODOLLAR_MULTIPLIER)"

text \<open>A number of the model is an integer, so \<open>Number.isInteger\<close> holds of it.\<close>

fun ledger_amount :: "js \<Rightarrow> bool" where
  "ledger_amount (JBigInt _) = True" | "ledger_amount (JNum _) = True" | "ledger_amount _ = False"

definition isDailySpendRollup :: "js \<Rightarrow> bool" where
  "isDailySpendRollup v \<longleftrightarrow>
     is_object v \<and>
     list_all (\<lambda>f. is_str (js_get v f)) [''tenantId'', ''day'', ''provider'', ''modelId''] \<and>
     list_all (\<lambda>f. is_num (js_get v f)) [''totalRequests'', ''totalTokens''] \<and>
     ledger_amount (js_get v ''totalCostMicrodollars'')"

definition isCostLedgerEvent :: "js \<Rightarrow> bool" where
  "isCostLedgerEvent v \<longleftrightarrow>
     is_object v \<and>
     list_all (\<lambda>f. is_str (js_get v f)) [''id'', ''requestId'', ''tenantId'', ''keyId'', ''provider'', ''modelId''] \<and>
     list_all (\<lambda>f. is_num (js_get v f)) [''promptTokens'', ''completionTokens'', ''statusCode''] \<and>
     ledger_amount (js_get v ''costMicrodollars'')"

section \<open>Validation (repository.ts)\<close>

definition blank_text :: "string \<Rightarrow> bool" where
  "blank_text s \<longleftrightarrow> js_trim s = []"

definition validateTenantId :: "string \<Rightarrow> ledger_error + unit" where
  "validateTenantId t = (if blank_text t then Inl TenantViolation else Inr ())"

definition validateEventInput :: "CostLedgerEventInput \<Rightarrow> ledger_error + unit" where
  "validateEventInput inp =
     (case validateTenantId (liTenant inp) of
        Inl e \<Rightarrow> Inl e
      | Inr _ \<Rightarrow>
          if blank_text (liRequestId inp) \<or> blank_text (liKeyId inp) \<or> blank_text (liProvider inp) \<or> blank_text (liModel inp) then Inl InvalidEvent
          else if liStatus inp < 100 \<or> liStatus inp > 599 then Inl InvalidEvent
          else Inr ())"

fun normalizeCreatedAt ::
  "(string \<Rightarrow> timestamp option) \<Rightarrow> timestamp \<Rightarrow> DateInput option \<Rightarrow> ledger_error + string" where
  "normalizeCreatedAt parse now None = Inr (toISOString now)"
| "normalizeCreatedAt parse now (Some (DateText s)) =
     (if s = [] then Inr (toISOString now)
      else case parse s of Some t \<Rightarrow> Inr (toISOString t) | None \<Rightarrow> Inl InvalidEvent)"
| "normalizeCreatedAt parse now (Some (DateObject None)) = Inl InvalidEvent"
| "normalizeCreatedAt parse now (Some (DateObject (Some t))) = Inr (toISOString t)"

definition MAX_SAFE_INTEGER :: int where "MAX_SAFE_INTEGER = 9007199254740991"

definition toSqlInteger :: "int \<Rightarrow> ledger_error + int" where
  "toSqlInteger v = (if v > MAX_SAFE_INTEGER \<or> v < - MAX_SAFE_INTEGER then Inl InvalidEvent else Inr v)"

section \<open>Statements\<close>

definition insert_event :: "CostLedgerEvent \<Rightarrow> LedgerDb \<Rightarrow> LedgerDb option" where
  "insert_event e db =
     (if leId e \<in> leId ` set (ldEvents db) then None else Some (db\<lparr>ldEvents := ldEvents db @ [e]\<rparr>))"

fun insert_events :: "CostLedgerEvent list \<Rightarrow> LedgerDb \<Rightarrow> LedgerDb option" where
  "insert_events [] db = Some db"
| "insert_events (e # es) db = Option.bind (insert_event e db) (insert_events es)"

definition rollup_key :: "DailySpendRollup \<Rightarrow> string \<times> string \<times> string \<times> string" where
  "rollup_key r = (drTenant r, drDay r, drProvider r, drModel r)"

definition add_rollup :: "DailySpendRollup \<Rightarrow> DailySpendRollup \<Rightarrow> DailySpendRollup" where
  "add_rollup new r = r\<lparr>drRequests := drRequests r + drRequests new, drTokens := drTokens r + drTokens new,
                        drCost := drCost r + drCost new\<rparr>"

text \<open>\<open>INSERT ... ON CONFLICT DO UPDATE\<close>\<close>

fun upsert_rollup :: "DailySpendRollup \<Rightarrow> DailySpendRollup list \<Rightarrow> DailySpendRollup list" where
  "upsert_rollup new [] = [new]"
| "upsert_rollup new (r # rs) =
     (if rollup_key r = rollup_key new then add_rollup new r # rs else r # upsert_rollup new rs)"

definition order_events :: "bool \<Rightarrow> CostLedgerEvent list \<Rightarrow> CostLedgerEvent list" where
  "order_events asc es = (let sorted_events = sort_key leCreatedAt es in if asc then sorted_events else rev sorted_events)"

definition order_rollups :: "bool \<Rightarrow> DailySpendRollup list \<Rightarrow> DailySpendRollup list" where
  "order_rollups asc rs = (let sorted_rollups = sort_key drDay rs in if asc then sorted_rollups else rev sorted_rollups)"

definition ascending :: "string option \<Rightarrow> bool" where
  "ascending ord \<longleftrightarrow> map_option js_lower ord = Some ''asc''"

section \<open>Writing events\<close>

text \<open>What the three writing methods compute first, in this order.\<close>

definition tokens_of :: "int option \<Rightarrow> int" where
  "tokens_of n = max 0 (first_some n 0)"

definition event_of ::
  "(string \<Rightarrow> timestamp option) \<Rightarrow> timestamp \<Rightarrow> string \<Rightarrow> CostLedgerEventInput \<Rightarrow> ledger_error + CostLedgerEvent" where
  "event_of parse now uuid inp =
     (case validateEventInput inp of
        Inl e \<Rightarrow> Inl e
      | Inr _ \<Rightarrow>
     (case normalizeCreatedAt parse now (liCreatedAt inp) of
        Inl e \<Rightarrow> Inl e
      | Inr createdAt \<Rightarrow>
     (case validateMicrodollars (liCost inp) of
        Inl e \<Rightarrow> Inl e
      | Inr cost \<Rightarrow>
          Inr \<lparr>leId = first_some (liId inp) uuid, leRequestId = js_trim (liRequestId inp), leTenant = js_trim (liTenant inp),
               leKeyId = js_trim (liKeyId inp), leProvider = js_trim (liProvider inp), leModel = js_trim (liModel inp),
               lePrompt = tokens_of (liPrompt inp), leCompletion = tokens_of (liCompletion inp),
               leCached = tokens_of (liCached inp), leReasoning = tokens_of (liReasoning inp), leCost = cost,
               leLatency = tokens_of (liLatency inp), leStatus = liStatus inp, leCreatedAt = createdAt\<rparr>)))"

definition recordEvent ::
  "(string \<Rightarrow> timestamp option) \<Rightarrow> timestamp \<Rightarrow> string \<Rightarrow> CostLedgerEventInput \<Rightarrow> LedgerDb \<Rightarrow>
   (ledger_error + CostLedgerEvent) \<times> LedgerDb" where
  "recordEvent parse now uuid inp db =
     (case event_of parse now uuid inp of
        Inl e \<Rightarrow> (Inl e, db)
      | Inr ev \<Rightarrow>
          \<comment> \<open>\<open>toSqlInteger\<close> is called inside the \<open>try\<close>\<close>
          (case toSqlInteger (leCost ev) of
             Inl e \<Rightarrow> (Inl LedgerFailure, db)
           | Inr _ \<Rightarrow>
               (case insert_event ev db of None \<Rightarrow> (Inl LedgerFailure, db) | Some db' \<Rightarrow> (Inr ev, db'))))"

text \<open>The loop of \<open>recordBatch\<close>; the \<open>n\<close>-th event takes the \<open>n\<close>-th random identifier.\<close>

fun batch_events ::
  "(string \<Rightarrow> timestamp option) \<Rightarrow> timestamp \<Rightarrow> (nat \<Rightarrow> string) \<Rightarrow> nat \<Rightarrow> CostLedgerEventInput list \<Rightarrow>
   ledger_error + CostLedgerEvent list" where
  "batch_events parse now uuid n [] = Inr []"
| "batch_events parse now uuid n (inp # inps) =
     (case event_of parse now (uuid n) inp of
        Inl e \<Rightarrow> Inl e
      | Inr ev \<Rightarrow>
          (case toSqlInteger (leCost ev) of
             Inl e \<Rightarrow> Inl e
           | Inr _ \<Rightarrow> map_sum id (Cons ev) (batch_events parse now uuid (n + 1) inps)))"

definition recordBatch ::
  "(string \<Rightarrow> timestamp option) \<Rightarrow> timestamp \<Rightarrow> (nat \<Rightarrow> string) \<Rightarrow> CostLedgerEventInput list \<Rightarrow> LedgerDb \<Rightarrow>
   (ledger_error + CostLedgerEvent list) \<times> LedgerDb" where
  "recordBatch parse now uuid inps db =
     (if inps = [] then (Inr [], db)
      else case batch_events parse now uuid 0 inps of
        Inl e \<Rightarrow> (Inl e, db)
      | Inr evs \<Rightarrow> (case insert_events evs db of None \<Rightarrow> (Inl LedgerFailure, db) | Some db' \<Rightarrow> (Inr evs, db')))"

definition total_tokens :: "CostLedgerEvent \<Rightarrow> int" where
  "total_tokens e = lePrompt e + leCompletion e + leReasoning e"

definition rollup_of :: "string \<Rightarrow> CostLedgerEvent \<Rightarrow> DailySpendRollup" where
  "rollup_of day e = \<lparr>drTenant = leTenant e, drDay = day, drProvider = leProvider e, drModel = leModel e,
                      drRequests = 1, drTokens = total_tokens e, drCost = leCost e\<rparr>"

definition recordEventWithRollup ::
  "(string \<Rightarrow> timestamp option) \<Rightarrow> timestamp \<Rightarrow> string \<Rightarrow> CostLedgerEventInput \<Rightarrow> LedgerDb \<Rightarrow>
   (ledger_error + CostLedgerEvent) \<times> LedgerDb" where
  "recordEventWithRollup parse now uuid inp db =
     (case event_of parse now uuid inp of
        Inl e \<Rightarrow> (Inl e, db)
      | Inr ev \<Rightarrow>
     (case formatCalendarDay parse (DateText (leCreatedAt ev)) of
        Inl e \<Rightarrow> (Inl e, db)
      | Inr day \<Rightarrow>
     (case toSqlInteger (leCost ev) of
        Inl e \<Rightarrow> (Inl e, db)
      | Inr _ \<Rightarrow>
          (case insert_event ev db of
             None \<Rightarrow> (Inl LedgerFailure, db)
           | Some db' \<Rightarrow> (Inr ev, db'\<lparr>ldRollups := upsert_rollup (rollup_of day ev) (ldRollups db')\<rparr>)))))"

section \<open>Reading events\<close>

definition getEventById :: "string \<Rightarrow> string \<Rightarrow> LedgerDb \<Rightarrow> ledger_error + CostLedgerEvent option" where
  "getEventById t i db =
     (case validateTenantId t of
        Inl e \<Rightarrow> Inl e
      | Inr _ \<Rightarrow>
          if blank_text i then Inl InvalidEvent
          else Inr (find (\<lambda>e. leTenant e = js_trim t \<and> leId e = js_trim i) (ldEvents db)))"

definition getEventsByRequestId :: "string \<Rightarrow> string \<Rightarrow> LedgerDb \<Rightarrow> ledger_error + CostLedgerEvent list" where
  "getEventsByRequestId t r db =
     (case validateTenantId t of
        Inl e \<Rightarrow> Inl e
      | Inr _ \<Rightarrow>
          if blank_text r then Inl InvalidEvent
          else Inr (order_events True (filter (\<lambda>e. leTenant e = js_trim t \<and> leRequestId e = js_trim r) (ldEvents db))))"

text \<open>A bound on \<open>created_at\<close>; a string is passed on as it is.\<close>

fun time_bound :: "DateInput option \<Rightarrow> ledger_error + string option" where
  "time_bound None = Inr None"
| "time_bound (Some (DateText s)) = Inr (if s = [] then None else Some s)"
| "time_bound (Some (DateObject None)) = Inl DateRangeError"
| "time_bound (Some (DateObject (Some t))) = Inr (Some (toISOString t))"

definition from_bound :: "string option \<Rightarrow> string \<Rightarrow> bool" where
  "from_bound b s \<longleftrightarrow> (case b of None \<Rightarrow> True | Some x \<Rightarrow> x \<le> s)"

definition to_bound :: "string option \<Rightarrow> string \<Rightarrow> bool" where
  "to_bound b s \<longleftrightarrow> (case b of None \<Rightarrow> True | Some x \<Rightarrow> s \<le> x)"

text \<open>\<open>AND column = ?\<close>, added when the option is truthy.\<close>

definition column_is :: "string option \<Rightarrow> string \<Rightarrow> bool" where
  "column_is opt v \<longleftrightarrow> opt = None \<or> opt = Some [] \<or> v = js_trim (the opt)"

definition skip_rows :: "int option \<Rightarrow> 'a list \<Rightarrow> 'a list" where
  "skip_rows offset rows = (case offset of Some n \<Rightarrow> if n > 0 then drop (nat n) rows else rows | None \<Rightarrow> rows)"

definition listEvents :: "string \<Rightarrow> ListCostEventsOptions \<Rightarrow> LedgerDb \<Rightarrow> ledger_error + CostLedgerEvent list" where
  "listEvents t opts db =
     (case validateTenantId t of
        Inl e \<Rightarrow> Inl e
      | Inr _ \<Rightarrow>
     (case time_bound (loSince opts) of
        Inl e \<Rightarrow> Inl e
      | Inr lower \<Rightarrow>
     (case time_bound (loUntil opts) of
        Inl e \<Rightarrow> Inl e
      | Inr upper \<Rightarrow>
          (let rows = filter (\<lambda>e. leTenant e = js_trim t \<and> from_bound lower (leCreatedAt e) \<and> to_bound upper (leCreatedAt e)
                          \<and> column_is (loProvider opts) (leProvider e) \<and> column_is (loModel opts) (leModel e)
                          \<and> column_is (loKeyId opts) (leKeyId e)) (ldEvents db);
               limit = max 1 (min (first_some (loLimit opts) 100) 1000)
           in Inr (take (nat limit) (skip_rows (loOffset opts) (order_events (ascending (loOrder opts)) rows)))))))"

definition getEventsByKey ::
  "string \<Rightarrow> string \<Rightarrow> ListCostEventsOptions \<Rightarrow> LedgerDb \<Rightarrow> ledger_error + CostLedgerEvent list" where
  "getEventsByKey t k opts db =
     (if blank_text k then Inl InvalidEvent else listEvents t (opts\<lparr>loKeyId := Some k\<rparr>) db)"

definition countEvents :: "string \<Rightarrow> DateInput option \<Rightarrow> DateInput option \<Rightarrow> LedgerDb \<Rightarrow> ledger_error + int" where
  "countEvents t since until db =
     (case validateTenantId t of
        Inl e \<Rightarrow> Inl e
      | Inr _ \<Rightarrow>
     (case time_bound since of
        Inl e \<Rightarrow> Inl e
      | Inr lower \<Rightarrow>
     (case time_bound until of
        Inl e \<Rightarrow> Inl e
      | Inr upper \<Rightarrow>
          Inr (int (length (filter (\<lambda>e. leTenant e = js_trim t \<and> from_bound lower (leCreatedAt e)
                                       \<and> to_bound upper (leCreatedAt e)) (ldEvents db)))))))"

section \<open>Rollups\<close>

definition upsertDailyRollup ::
  "(string \<Rightarrow> timestamp option) \<Rightarrow> DailySpendRollupInput \<Rightarrow> LedgerDb \<Rightarrow> (ledger_error + unit) \<times> LedgerDb" where
  "upsertDailyRollup parse inp db =
     (case validateTenantId (riTenant inp) of
        Inl e \<Rightarrow> (Inl e, db)
      | Inr _ \<Rightarrow>
          if blank_text (riProvider inp) \<or> blank_text (riModel inp) then (Inl InvalidEvent, db)
          else
     (case formatCalendarDay parse (riDay inp) of
        Inl e \<Rightarrow> (Inl e, db)
      | Inr day \<Rightarrow>
     (case validateMicrodollars (riCost inp) of
        Inl e \<Rightarrow> (Inl e, db)
      | Inr cost \<Rightarrow>
     (case toSqlInteger cost of
        Inl e \<Rightarrow> (Inl LedgerFailure, db)
      | Inr _ \<Rightarrow>
          (Inr (), db\<lparr>ldRollups := upsert_rollup
             \<lparr>drTenant = js_trim (riTenant inp), drDay = day, drProvider = js_trim (riProvider inp),
              drModel = js_trim (riModel inp), drRequests = max 0 (first_some (riRequests inp) 1),
              drTokens = tokens_of (riTokens inp), drCost = cost\<rparr> (ldRollups db)\<rparr>)))))"

text \<open>A bound on \<open>day\<close>, in calendar form.\<close>

definition day_bound ::
  "(string \<Rightarrow> timestamp option) \<Rightarrow> DateInput option \<Rightarrow> ledger_error + string option" where
  "day_bound parse d =
     (case d of
        None \<Rightarrow> Inr None
      | Some x \<Rightarrow> if x = DateText [] then Inr None else map_sum id Some (formatCalendarDay parse x))"

definition above_zero :: "int option \<Rightarrow> bool" where
  "above_zero n \<longleftrightarrow> (case n of Some v \<Rightarrow> v > 0 | None \<Rightarrow> False)"

text \<open>Without a limit the statement ends in \<open>ORDER BY ... OFFSET ?\<close>, which is a syntax error of SQL.\<close>

definition getDailyRollups ::
  "(string \<Rightarrow> timestamp option) \<Rightarrow> string \<Rightarrow> ListDailyRollupsOptions \<Rightarrow> LedgerDb \<Rightarrow>
   ledger_error + DailySpendRollup list" where
  "getDailyRollups parse t opts db =
     (case validateTenantId t of
        Inl e \<Rightarrow> Inl e
      | Inr _ \<Rightarrow>
     (case day_bound parse (lrStart opts) of
        Inl e \<Rightarrow> Inl e
      | Inr lower \<Rightarrow>
     (case day_bound parse (lrEnd opts) of
        Inl e \<Rightarrow> Inl e
      | Inr upper \<Rightarrow>
          (let rows = order_rollups (ascending (lrOrder opts))
                 (filter (\<lambda>r. drTenant r = js_trim t \<and> from_bound lower (drDay r) \<and> to_bound upper (drDay r)
                    \<and> column_is (lrProvider opts) (drProvider r) \<and> column_is (lrModel opts) (drModel r)) (ldRollups db))
           in if above_zero (lrLimit opts)
              then Inr (take (nat (min (the (lrLimit opts)) 1000)) (skip_rows (lrOffset opts) rows))
              else if above_zero (lrOffset opts) then Inl LedgerFailure
              else Inr rows))))"

definition getTenantSpendSummary ::
  "(string \<Rightarrow> timestamp option) \<Rightarrow> string \<Rightarrow> DateInput option \<Rightarrow> DateInput option \<Rightarrow> LedgerDb \<Rightarrow>
   ledger_error + TenantSpendSummary" where
  "getTenantSpendSummary parse t startDate endDate db =
     (case validateTenantId t of
        Inl e \<Rightarrow> Inl e
      | Inr _ \<Rightarrow>
     (case day_bound parse startDate of
        Inl e \<Rightarrow> Inl e
      | Inr lower \<Rightarrow>
     (case day_bound parse endDate of
        Inl e \<Rightarrow> Inl e
      | Inr upper \<Rightarrow>
          (let rows = filter (\<lambda>r. drTenant r = js_trim t \<and> from_bound lower (drDay r) \<and> to_bound upper (drDay r)) (ldRollups db)
           in Inr \<lparr>tsTenant = js_trim t, tsCost = sum_list (map drCost rows), tsRequests = sum_list (map drRequests rows),
                   tsTokens = sum_list (map drTokens rows), tsStart = lower, tsEnd = upper\<rparr>))))"

definition getTenantTotalSpendMicrodollars ::
  "(string \<Rightarrow> timestamp option) \<Rightarrow> string \<Rightarrow> DateInput option \<Rightarrow> DateInput option \<Rightarrow> LedgerDb \<Rightarrow> ledger_error + int" where
  "getTenantTotalSpendMicrodollars parse t startDate endDate db =
     map_sum id tsCost (getTenantSpendSummary parse t startDate endDate db)"

section \<open>Reconciliation\<close>

text \<open>The query (\<open>GROUP BY provider, model_id\<close>) and the batch after it; another request may come between.\<close>

definition day_events :: "string \<Rightarrow> string \<Rightarrow> LedgerDb \<Rightarrow> CostLedgerEvent list" where
  "day_events t day db = filter (\<lambda>e. leTenant e = t \<and> take 10 (leCreatedAt e) = day) (ldEvents db)"

definition group_rows :: "string \<Rightarrow> string \<Rightarrow> CostLedgerEvent list \<Rightarrow> DailySpendRollup list" where
  "group_rows t day es =
     map (\<lambda>(p, m). let g = filter (\<lambda>e. leProvider e = p \<and> leModel e = m) es in
            \<lparr>drTenant = t, drDay = day, drProvider = p, drModel = m, drRequests = int (length g),
             drTokens = sum_list (map total_tokens g), drCost = sum_list (map leCost g)\<rparr>)
       (sort (remdups (map (\<lambda>e. (leProvider e, leModel e)) es)))"

definition reconcile_read :: "string \<Rightarrow> string \<Rightarrow> LedgerDb \<Rightarrow> DailySpendRollup list" where
  "reconcile_read t day db = group_rows (js_trim t) day (day_events (js_trim t) day db)"

definition reconcile_write ::
  "string \<Rightarrow> string \<Rightarrow> DailySpendRollup list \<Rightarrow> LedgerDb \<Rightarrow> (ledger_error + DailySpendRollup list) \<times> LedgerDb" where
  "reconcile_write t day rows db =
     (if list_all (\<lambda>r. \<not> isl (toSqlInteger (drCost r))) rows
      then (Inr rows, db\<lparr>ldRollups := filter (\<lambda>r. \<not> (drTenant r = js_trim t \<and> drDay r = day)) (ldRollups db) @ rows\<rparr>)
      else (Inl LedgerFailure, db))"

definition reconcileDailyRollupFromLedger ::
  "(string \<Rightarrow> timestamp option) \<Rightarrow> string \<Rightarrow> DateInput \<Rightarrow> LedgerDb \<Rightarrow>
   (ledger_error + DailySpendRollup list) \<times> LedgerDb" where
  "reconcileDailyRollupFromLedger parse t d db =
     (case validateTenantId t of
        Inl e \<Rightarrow> (Inl e, db)
      | Inr _ \<Rightarrow>
     (case formatCalendarDay parse d of
        Inl e \<Rightarrow> (Inl e, db)
      | Inr day \<Rightarrow> reconcile_write t day (reconcile_read t day db) db))"

end
