(* ===== verification/LedgerProps.thy ===== *)
theory LedgerProps
  imports Ledger
begin

text \<open>
  The cost ledger of theory \<open>Ledger\<close>: the daily totals are those of the events, reconciliation
  restores them, no tenant reads or changes what belongs to another, and what an event recorded in
  the middle of a reconciliation loses.
\<close>

section \<open>Dates as the ledger writes them\<close>

text \<open>The ECMAScript standard: \<open>Date.parse\<close> reads back what \<open>toISOString\<close> writes.\<close>

definition reads_iso :: "(string \<Rightarrow> timestamp option) \<Rightarrow> bool" where
  "reads_iso parse \<longleftrightarrow> (\<forall>t. parse (toISOString t) = Some t)"

lemma reads_iso_date_of_iso: "reads_iso date_of_iso"
  by (simp add: reads_iso_def date_of_iso_roundtrip)

lemma iso_parts:
  obtains y r where "toISOString t = y @ r" "length y \<ge> 4" "length r = 20" "hd y \<in> set ''+-'' \<or> is_digit (hd y)" "last r = CHR ''Z''"
proof -
  obtain y m d where civil: "civil_of_days (t div 86400000) = (y, m, d)" by (metis surj_pair)
  have "toISOString t = year_string y @ after_year m d (t mod 86400000)"
    by (simp add: toISOString_def civil iso_date_string_def after_year_def)
  moreover have "length (year_string y) \<ge> 4" by (auto simp: year_string_def pad_zeros_def)
  moreover have "pad_zeros 4 (nat_str n) \<noteq> [] \<and> is_digit (hd (pad_zeros 4 (nat_str n)))" for n
    using year_digits [of 4 n] nat_str_ne [of n] by (auto simp: list_all_iff pad_zeros_def hd_append)
  then have "hd (year_string y) \<in> set ''+-'' \<or> is_digit (hd (year_string y))"
    by (auto simp: year_string_def)
  ultimately show ?thesis
    using that after_year_shape(1) by (auto simp: after_year_def)
qed

lemma iso_trim: "js_trim (toISOString t) = toISOString t" and iso_length: "length (toISOString t) \<ge> 24"
proof -
  obtain y r where iso: "toISOString t = y @ r" "length y \<ge> 4" "length r = 20"
    "hd y \<in> set ''+-'' \<or> is_digit (hd y)" "last r = CHR ''Z''" by (rule iso_parts)
  from iso(2,3) have ne: "y \<noteq> []" "r \<noteq> []" by auto
  show "js_trim (toISOString t) = toISOString t"
    by (rule js_trim_id) (use iso ne not_space_digit in \<open>auto simp: is_space_def\<close>)
  show "length (toISOString t) \<ge> 24" using iso by simp
qed

lemma iso_day:
  "reads_iso parse \<Longrightarrow> formatCalendarDay parse (DateText (toISOString t)) = Inr (take 10 (toISOString t))"
  using iso_length [of t] by (simp add: iso_trim is_calendar_day_def reads_iso_def)

lemma created_iso: "normalizeCreatedAt parse now c = Inr s \<Longrightarrow> \<exists>t. s = toISOString t"
  by (induction parse now c rule: normalizeCreatedAt.induct) (auto split: if_splits option.splits)

lemma event_of_created:
  "event_of parse now uuid inp = Inr ev \<Longrightarrow> \<exists>t. leCreatedAt ev = toISOString t"
  by (auto simp: event_of_def created_iso split: sum.splits)

section \<open>Daily totals\<close>

definition event_key :: "CostLedgerEvent \<Rightarrow> string \<times> string \<times> string \<times> string" where
  "event_key e = (leTenant e, take 10 (leCreatedAt e), leProvider e, leModel e)"

text \<open>A row holds the totals of the events of its tenant, day, provider and model.\<close>

definition totals_of :: "CostLedgerEvent list \<Rightarrow> DailySpendRollup \<Rightarrow> bool" where
  "totals_of es r \<longleftrightarrow>
     (let g = filter (\<lambda>e. event_key e = rollup_key r) es in
      drRequests r = int (length g) \<and> drTokens r = sum_list (map total_tokens g) \<and> drCost r = sum_list (map leCost g))"

definition in_step :: "LedgerDb \<Rightarrow> bool" where
  "in_step db \<longleftrightarrow>
     distinct (map rollup_key (ldRollups db)) \<and>
     rollup_key ` set (ldRollups db) = event_key ` set (ldEvents db) \<and>
     (\<forall>r\<in>set (ldRollups db). totals_of (ldEvents db) r)"

lemma rollup_key_add [simp]: "rollup_key (add_rollup new r) = rollup_key r"
  by (simp add: rollup_key_def add_rollup_def)

lemma upsert_alt:
  "distinct (map rollup_key rs) \<Longrightarrow>
   upsert_rollup new rs =
     (if rollup_key new \<in> rollup_key ` set rs then map (\<lambda>r. if rollup_key r = rollup_key new then add_rollup new r else r) rs
      else rs @ [new])"
proof (induction rs)
  case (Cons r rs)
  show ?case
  proof (cases "rollup_key r = rollup_key new")
    case True
    with Cons.prems have "rollup_key new \<notin> rollup_key ` set rs" by simp
    then have "\<forall>x\<in>set rs. rollup_key x \<noteq> rollup_key new" by (metis imageI)
    then have "map (\<lambda>r. if rollup_key r = rollup_key new then add_rollup new r else r) rs = rs"
      by (intro map_idI) auto
    with True show ?thesis by simp
  next
    case False
    with Cons show ?thesis by auto
  qed
qed simp

lemma totals_of_other:
  "totals_of es r \<Longrightarrow> rollup_key r \<noteq> event_key ev \<Longrightarrow> totals_of (es @ [ev]) r"
  by (simp add: totals_of_def)

lemma key_of_rollup: "rollup_key (rollup_of (take 10 (leCreatedAt ev)) ev) = event_key ev"
  by (simp add: rollup_key_def rollup_of_def event_key_def)

text \<open>Recording an event with its rollup keeps the tables in step.\<close>

lemma in_step_record:
  assumes "in_step db"
  shows "in_step (db\<lparr>ldEvents := ldEvents db @ [ev],
                    ldRollups := upsert_rollup (rollup_of (take 10 (leCreatedAt ev)) ev) (ldRollups db)\<rparr>)"
proof -
  let ?new = "rollup_of (take 10 (leCreatedAt ev)) ev"
  have dist: "distinct (map rollup_key (ldRollups db))"
    and keys: "rollup_key ` set (ldRollups db) = event_key ` set (ldEvents db)"
    and totals: "\<And>r. r \<in> set (ldRollups db) \<Longrightarrow> totals_of (ldEvents db) r"
    using assms by (auto simp: in_step_def)
  note alt = upsert_alt [OF dist, of ?new, unfolded key_of_rollup]
  show ?thesis
  proof (cases "event_key ev \<in> rollup_key ` set (ldRollups db)")
    case True
    have "totals_of (ldEvents db @ [ev]) (add_rollup ?new r)"
      if "r \<in> set (ldRollups db)" "rollup_key r = event_key ev" for r
      using totals [OF that(1)] that(2)
      by (simp add: totals_of_def Let_def) (simp add: add_rollup_def rollup_of_def)
    then have "\<forall>r\<in>set (upsert_rollup ?new (ldRollups db)). totals_of (ldEvents db @ [ev]) r"
      using True totals totals_of_other by (auto simp: alt)
    moreover have names: "map rollup_key (upsert_rollup ?new (ldRollups db)) = map rollup_key (ldRollups db)"
      using True by (simp add: alt)
    then have "rollup_key ` set (upsert_rollup ?new (ldRollups db)) = rollup_key ` set (ldRollups db)"
      by (metis list.set_map)
    ultimately show ?thesis
      using True dist keys by (auto simp: in_step_def names)
  next
    case False
    then have "filter (\<lambda>e. event_key e = event_key ev) (ldEvents db) = []"
      unfolding keys filter_empty_conv by (metis imageI)
    then have "totals_of (ldEvents db @ [ev]) ?new"
      by (simp add: totals_of_def key_of_rollup Let_def) (simp add: rollup_of_def)
    moreover have "rollup_key r \<noteq> event_key ev" if "r \<in> set (ldRollups db)" for r
      using False that by (metis imageI)
    ultimately show ?thesis
      using False dist keys totals totals_of_other by (auto simp: in_step_def alt key_of_rollup)
  qed
qed

lemma event_of_day:
  "reads_iso parse \<Longrightarrow> event_of parse now uuid inp = Inr ev \<Longrightarrow>
   formatCalendarDay parse (DateText (leCreatedAt ev)) = Inr (take 10 (leCreatedAt ev))"
  using event_of_created [of parse now uuid inp ev] iso_day [of parse] by (auto simp del: formatCalendarDay.simps)

lemma record_cases:
  assumes "reads_iso parse" "recordEventWithRollup parse now uuid inp db = (res, db')"
  shows "(\<exists>e. res = Inl e \<and> db' = db) \<or>
    (\<exists>ev. res = Inr ev \<and> event_of parse now uuid inp = Inr ev \<and> leId ev \<notin> leId ` set (ldEvents db)
       \<and> db' = db\<lparr>ldEvents := ldEvents db @ [ev],
                  ldRollups := upsert_rollup (rollup_of (take 10 (leCreatedAt ev)) ev) (ldRollups db)\<rparr>)"
proof (cases "event_of parse now uuid inp")
  case (Inl e)
  then have "recordEventWithRollup parse now uuid inp db = (Inl e, db)" by (simp add: recordEventWithRollup_def)
  with assms(2) show ?thesis by auto
next
  case (Inr ev)
  then show ?thesis
    using assms(2) event_of_day [OF assms(1) Inr]
    by (auto simp: recordEventWithRollup_def insert_event_def simp del: formatCalendarDay.simps
        split: sum.splits option.splits if_splits)
qed

section \<open>Reconciliation\<close>

lemma group_keys:
  "rollup_key ` set (group_rows t day es) = (\<lambda>e. (t, day, leProvider e, leModel e)) ` set es"
  by (force simp: group_rows_def rollup_key_def Let_def image_iff)

lemma group_distinct: "distinct (map rollup_key (group_rows t day es))"
proof -
  have "map rollup_key (group_rows t day es) =
      map (\<lambda>(p, m). (t, day, p, m)) (sort (remdups (map (\<lambda>e. (leProvider e, leModel e)) es)))"
    by (simp add: group_rows_def rollup_key_def Let_def split_def)
  then show ?thesis by (auto simp: distinct_map inj_on_def)
qed

lemma day_key: "e \<in> set (day_events t day db) \<Longrightarrow> event_key e = (t, day, leProvider e, leModel e)"
  by (auto simp: day_events_def event_key_def)

lemma group_totals:
  "r \<in> set (group_rows t day (day_events t day db)) \<Longrightarrow> totals_of (ldEvents db) r"
proof -
  have *: "filter (\<lambda>e. leProvider e = p \<and> leModel e = m) (day_events t day db) =
      filter (\<lambda>e. event_key e = (t, day, p, m)) (ldEvents db)" for p m
    by (simp add: day_events_def event_key_def)
  assume "r \<in> set (group_rows t day (day_events t day db))"
  then show ?thesis
    by (auto simp: group_rows_def totals_of_def rollup_key_def Let_def *)
qed

abbreviation of_day :: "string \<Rightarrow> string \<Rightarrow> string \<times> string \<times> string \<times> string \<Rightarrow> bool" where
  "of_day t day k \<equiv> fst k = t \<and> fst (snd k) = day"

lemma reconcile_cases:
  assumes "reconcileDailyRollupFromLedger parse t d db = (res, db')"
  shows "(\<exists>e. res = Inl e \<and> db' = db) \<or>
    (\<exists>day. formatCalendarDay parse d = Inr day \<and> res = Inr (reconcile_read t day db)
       \<and> db' = db\<lparr>ldRollups := filter (\<lambda>r. \<not> of_day (js_trim t) day (rollup_key r)) (ldRollups db) @ reconcile_read t day db\<rparr>)"
  using assms
  by (auto simp: reconcileDailyRollupFromLedger_def reconcile_write_def rollup_key_def simp del: formatCalendarDay.simps
      split: sum.splits if_splits)

text \<open>Reconciliation keeps the tables in step, too.\<close>

lemma in_step_reconcile:
  assumes "in_step db"
  shows "in_step (db\<lparr>ldRollups := filter (\<lambda>r. \<not> of_day t day (rollup_key r)) (ldRollups db) @ group_rows t day (day_events t day db)\<rparr>)"
proof -
  let ?rows = "group_rows t day (day_events t day db)"
  have dist: "distinct (map rollup_key (ldRollups db))"
    and keys: "rollup_key ` set (ldRollups db) = event_key ` set (ldEvents db)"
    and totals: "\<And>r. r \<in> set (ldRollups db) \<Longrightarrow> totals_of (ldEvents db) r"
    using assms by (auto simp: in_step_def)
  have new: "rollup_key ` set ?rows = event_key ` {e \<in> set (ldEvents db). of_day t day (event_key e)}"
    unfolding group_keys by (rule image_cong) (auto simp: day_events_def event_key_def)
  have old: "rollup_key ` {r \<in> set (ldRollups db). \<not> of_day t day (rollup_key r)} =
      {k \<in> rollup_key ` set (ldRollups db). \<not> of_day t day k}" by auto
  let ?db = "db\<lparr>ldRollups := filter (\<lambda>r. \<not> of_day t day (rollup_key r)) (ldRollups db) @ ?rows\<rparr>"
  have "distinct (map rollup_key (ldRollups ?db))"
    using dist group_distinct [of t day "day_events t day db"]
    by (simp add: distinct_map_filter) (use new in auto)
  moreover have "rollup_key ` set (ldRollups ?db) = event_key ` set (ldEvents db)"
  proof -
    have "set (ldRollups ?db) = {r \<in> set (ldRollups db). \<not> of_day t day (rollup_key r)} \<union> set ?rows" by auto
    then have "rollup_key ` set (ldRollups ?db) = {k \<in> event_key ` set (ldEvents db). \<not> of_day t day k}
        \<union> event_key ` {e \<in> set (ldEvents db). of_day t day (event_key e)}"
      by (simp only: image_Un old new keys)
    then show ?thesis by auto
  qed
  moreover have "\<forall>r\<in>set (ldRollups ?db). totals_of (ldEvents db) r"
    using totals group_totals by auto
  ultimately show ?thesis by (simp add: in_step_def)
qed

section \<open>A ledger in use\<close>

datatype ledger_call =
    Record timestamp string CostLedgerEventInput
  | Reconcile string DateInput

text \<open>The tables and the events that were recorded, in the order of the calls.\<close>

fun ledger_step ::
  "(string \<Rightarrow> timestamp option) \<Rightarrow> ledger_call \<Rightarrow> LedgerDb \<times> CostLedgerEvent list \<Rightarrow> LedgerDb \<times> CostLedgerEvent list" where
  "ledger_step parse (Record now uuid inp) (db, evs) =
     (case recordEventWithRollup parse now uuid inp db of
        (Inl e, db') \<Rightarrow> (db', evs) | (Inr ev, db') \<Rightarrow> (db', evs @ [ev]))"
| "ledger_step parse (Reconcile t d) (db, evs) = (snd (reconcileDailyRollupFromLedger parse t d db), evs)"

definition empty_ledger :: LedgerDb where
  "empty_ledger = \<lparr>ldEvents = [], ldRollups = []\<rparr>"

definition ledger_run :: "(string \<Rightarrow> timestamp option) \<Rightarrow> ledger_call list \<Rightarrow> LedgerDb \<times> CostLedgerEvent list" where
  "ledger_run parse calls = fold (ledger_step parse) calls (empty_ledger, [])"

fun ledger_inv :: "LedgerDb \<times> CostLedgerEvent list \<Rightarrow> bool" where
  "ledger_inv (db, evs) \<longleftrightarrow> in_step db \<and> ldEvents db = evs \<and> distinct (map leId evs)"

interpretation ledger: invariant_system "ledger_step parse" "\<lambda>s. reads_iso parse \<longrightarrow> ledger_inv s" for parse
proof
  fix c s
  show "reads_iso parse \<longrightarrow> ledger_inv (ledger_step parse c s)" if "reads_iso parse \<longrightarrow> ledger_inv s"
  proof
    assume parse: "reads_iso parse"
    obtain db evs where s: "s = (db, evs)" by fastforce
    have inv: "in_step db" "ldEvents db = evs" "distinct (map leId evs)" using that parse s by auto
    show "ledger_inv (ledger_step parse c s)"
    proof (cases c)
      case (Record now uuid inp)
      obtain res db' where rec: "recordEventWithRollup parse now uuid inp db = (res, db')" by fastforce
      from record_cases [OF parse this] in_step_record [OF inv(1)] inv show ?thesis
        by (auto simp: s Record rec)
    next
      case (Reconcile t d)
      obtain res db' where rec: "reconcileDailyRollupFromLedger parse t d db = (res, db')" by fastforce
      from reconcile_cases [OF this] in_step_reconcile [OF inv(1)] inv show ?thesis
        by (auto simp: s Reconcile rec reconcile_read_def)
    qed
  qed
qed

lemma ledger_run_inv: "reads_iso parse \<Longrightarrow> ledger_inv (ledger_run parse calls)"
  using ledger.inv_run [of parse "(empty_ledger, [])" calls]
  by (simp add: ledger_run_def empty_ledger_def in_step_def)

section \<open>Sums over the totals\<close>

lemma sum_by_key:
  assumes "distinct ks" "g ` set es \<subseteq> set ks"
  shows "sum_list (map (\<lambda>k. sum_list (map f (filter (\<lambda>e. g e = k) es))) ks) = (sum_list (map f es) :: int)"
  using assms(2)
proof (induction es)
  case (Cons e es)
  have "sum_list (map (\<lambda>k. sum_list (map f (filter (\<lambda>x. g x = k) (e # es)))) ks) =
      sum_list (map (\<lambda>k. (if g e = k then f e else 0) + sum_list (map f (filter (\<lambda>x. g x = k) es))) ks)"
    by (intro arg_cong [where f = sum_list] map_cong) auto
  also have "\<dots> = sum_list (map (\<lambda>k. if g e = k then f e else 0) ks) + sum_list (map f es)"
    using Cons by (simp add: sum_list_addf)
  also have "sum_list (map (\<lambda>k. if g e = k then f e else 0) ks) = f e"
    using assms(1) Cons.prems by (simp add: sum_list_distinct_conv_sum_set)
  finally show ?case by simp
qed simp

text \<open>Totals selected by their key add up to the events with these keys.\<close>

lemma in_step_sums:
  fixes P :: "string \<times> string \<times> string \<times> string \<Rightarrow> bool"
  assumes "in_step db"
  defines "rows \<equiv> filter (\<lambda>r. P (rollup_key r)) (ldRollups db)" and "es \<equiv> filter (\<lambda>e. P (event_key e)) (ldEvents db)"
  shows "sum_list (map drCost rows) = sum_list (map leCost es)"
    and "sum_list (map drRequests rows) = int (length es)"
    and "sum_list (map drTokens rows) = sum_list (map total_tokens es)"
proof -
  let ?ks = "map rollup_key rows"
  have keys: "rollup_key ` set (ldRollups db) = event_key ` set (ldEvents db)"
    using assms(1) by (simp add: in_step_def)
  have "event_key e \<in> rollup_key ` set rows" if "e \<in> set es" for e
  proof -
    from that have "event_key e \<in> event_key ` set (ldEvents db)" by (simp add: es_def)
    then obtain r where "r \<in> set (ldRollups db)" "rollup_key r = event_key e"
      unfolding keys [symmetric] by (metis imageE)
    with that show ?thesis by (force simp: rows_def es_def)
  qed
  then have ks: "distinct ?ks" "event_key ` set es \<subseteq> set ?ks"
    using assms(1) by (auto simp: in_step_def rows_def distinct_map_filter)
  have group: "filter (\<lambda>e. event_key e = rollup_key r) es = filter (\<lambda>e. event_key e = rollup_key r) (ldEvents db)"
    if "r \<in> set rows" for r
    using that unfolding es_def filter_filter by (intro filter_cong) (auto simp: rows_def)
  have sum: "sum_list (map h rows) = sum_list (map f es)"
    if "\<And>r. r \<in> set rows \<Longrightarrow> h r = sum_list (map f (filter (\<lambda>e. event_key e = rollup_key r) es))" for h :: "_ \<Rightarrow> int" and f
  proof -
    have rows: "map h rows = map (\<lambda>k. sum_list (map f (filter (\<lambda>e. event_key e = k) es))) ?ks"
      using that by simp
    show ?thesis unfolding rows by (rule sum_by_key [OF ks])
  qed
  have totals: "totals_of (ldEvents db) r" if "r \<in> set rows" for r
    using assms(1) that by (simp add: in_step_def rows_def)
  show "sum_list (map drCost rows) = sum_list (map leCost es)"
    by (rule sum) (use totals group in \<open>simp add: totals_of_def Let_def\<close>)
  show "sum_list (map drTokens rows) = sum_list (map total_tokens es)"
    by (rule sum) (use totals group in \<open>simp add: totals_of_def Let_def\<close>)
  have "sum_list (map drRequests rows) = sum_list (map (\<lambda>_. 1) es)"
    by (rule sum) (use totals group in \<open>simp add: totals_of_def Let_def sum_list_triv\<close>)
  then show "sum_list (map drRequests rows) = int (length es)" by (simp add: sum_list_triv)
qed

text \<open>
  C11. The daily totals are right. Whatever requests are recorded with \<open>recordEventWithRollup\<close>, whatever
  days are reconciled in between, and whichever of the calls fail: the ledger holds exactly the events
  that were returned to the callers, each once, and the rollup table has one row for every tenant, day,
  provider and model that occurs among them, with their number, their tokens and their cost.
\<close>

theorem rollups_match_ledger:
  assumes "reads_iso parse" and "ledger_run parse calls = (db, evs)"
  shows "ldEvents db = evs \<and> distinct (map leId evs) \<and> distinct (map rollup_key (ldRollups db))
    \<and> (\<forall>k. (\<exists>r\<in>set (ldRollups db). rollup_key r = k) \<longleftrightarrow> (\<exists>e\<in>set evs. event_key e = k))
    \<and> (\<forall>r\<in>set (ldRollups db). let g = filter (\<lambda>e. event_key e = rollup_key r) evs in
          drRequests r = int (length g) \<and> drTokens r = sum_list (map total_tokens g) \<and> drCost r = sum_list (map leCost g))"
proof -
  have inv: "in_step db" "ldEvents db = evs" "distinct (map leId evs)"
    using ledger_run_inv [OF assms(1), of calls] assms(2) by auto
  then have "rollup_key ` set (ldRollups db) = event_key ` set evs" by (simp add: in_step_def)
  then have "(\<exists>r\<in>set (ldRollups db). rollup_key r = k) \<longleftrightarrow> (\<exists>e\<in>set evs. event_key e = k)" for k
    by (metis (no_types, lifting) imageE imageI)
  with inv show ?thesis by (auto simp: in_step_def totals_of_def)
qed

text \<open>
  C26. The bill is exact. What \<open>getTenantSpendSummary\<close> reports for a tenant and a period is the sum of
  the costs, the number and the tokens of the tenant's recorded events of that period: nothing is
  billed twice, nothing is lost, and no rounding occurs.
\<close>

theorem spend_summary_exact:
  assumes "reads_iso parse" and "ledger_run parse calls = (db, evs)"
    and "getTenantSpendSummary parse t from to db = Inr summary"
  shows "let billed = filter (\<lambda>e. leTenant e = js_trim t \<and> from_bound (tsStart summary) (take 10 (leCreatedAt e))
                           \<and> to_bound (tsEnd summary) (take 10 (leCreatedAt e))) evs in
    tsCost summary = sum_list (map leCost billed) \<and> tsRequests summary = int (length billed)
    \<and> tsTokens summary = sum_list (map total_tokens billed)"
proof -
  have inv: "in_step db" "ldEvents db = evs"
    using ledger_run_inv [OF assms(1), of calls] assms(2) by auto
  obtain l u where "summary = (let rows = filter (\<lambda>r. drTenant r = js_trim t \<and> from_bound l (drDay r) \<and> to_bound u (drDay r)) (ldRollups db)
       in \<lparr>tsTenant = js_trim t, tsCost = sum_list (map drCost rows), tsRequests = sum_list (map drRequests rows),
           tsTokens = sum_list (map drTokens rows), tsStart = l, tsEnd = u\<rparr>)"
    using assms(3) by (auto simp: getTenantSpendSummary_def Let_def split: sum.splits)
  then show ?thesis
    using in_step_sums [OF inv(1), of "\<lambda>(t', day, p, m). t' = js_trim t \<and> from_bound l day \<and> to_bound u day"]
    by (simp add: Let_def rollup_key_def event_key_def inv(2))
qed

text \<open>
  C39. Reconciliation repairs. Whatever the two tables hold, after a successful \<open>reconcileDailyRollupFromLedger\<close>
  the tenant's rows of that day are exactly the returned ones, one for each provider and model among
  the tenant's events of the day, with their totals; the rows of other tenants and days and the
  ledger are as before; and doing it again returns the same rows and changes nothing.
\<close>

theorem reconcile_repairs:
  assumes "formatCalendarDay parse d = Inr day"
    and "reconcileDailyRollupFromLedger parse t d db = (Inr rows, db')"
  defines "day_rows \<equiv> \<lambda>r. of_day (js_trim t) day (rollup_key r)"
  shows "filter day_rows (ldRollups db') = rows \<and> distinct (map rollup_key rows)
    \<and> rollup_key ` set rows = event_key ` {e \<in> set (ldEvents db). of_day (js_trim t) day (event_key e)}
    \<and> (\<forall>r\<in>set rows. totals_of (ldEvents db) r)
    \<and> filter (Not \<circ> day_rows) (ldRollups db') = filter (Not \<circ> day_rows) (ldRollups db)
    \<and> ldEvents db' = ldEvents db
    \<and> reconcileDailyRollupFromLedger parse t d db' = (Inr rows, db')"
proof -
  let ?es = "day_events (js_trim t) day db"
  have rows: "rows = group_rows (js_trim t) day ?es"
    and db': "db' = db\<lparr>ldRollups := filter (Not \<circ> day_rows) (ldRollups db) @ rows\<rparr>"
    using reconcile_cases [OF assms(2)] assms(1) by (auto simp: reconcile_read_def day_rows_def comp_def)
  have keys: "rollup_key ` set rows = (\<lambda>e. (js_trim t, day, leProvider e, leModel e)) ` set ?es"
    unfolding rows by (rule group_keys)
  also have "\<dots> = event_key ` {e \<in> set (ldEvents db). of_day (js_trim t) day (event_key e)}"
    by (rule image_cong) (auto simp: day_events_def event_key_def)
  finally have keys': "rollup_key ` set rows = event_key ` {e \<in> set (ldEvents db). of_day (js_trim t) day (event_key e)}" .
  have own: "day_rows r" if "r \<in> set rows" for r
    using that keys by (auto simp: day_rows_def) (metis (no_types, lifting) fst_conv imageE imageI snd_conv)+
  have split: "filter day_rows rows = rows" "filter (Not \<circ> day_rows) rows = []"
    by (auto simp: filter_empty_conv filter_id_conv intro: own)
  have "filter day_rows (ldRollups db') = rows" "filter (Not \<circ> day_rows) (ldRollups db') = filter (Not \<circ> day_rows) (ldRollups db)"
    by (auto simp: db' split filter_empty_conv filter_id_conv comp_def intro: own)
  moreover have "ldEvents db' = ldEvents db" by (simp add: db')
  moreover have "reconcileDailyRollupFromLedger parse t d db' = (Inr rows, db')"
  proof -
    have "day_events (js_trim t) day db' = ?es" by (simp add: day_events_def db')
    moreover have "db'\<lparr>ldRollups := filter (Not \<circ> day_rows) (ldRollups db') @ rows\<rparr> = db'"
      by (simp add: db' split [unfolded comp_def] comp_def)
    ultimately show ?thesis
      using assms(1,2) rows
      by (auto simp: reconcileDailyRollupFromLedger_def reconcile_write_def reconcile_read_def day_rows_def rollup_key_def
          comp_def simp del: formatCalendarDay.simps split: sum.splits if_splits)
  qed
  moreover have "\<forall>r\<in>set rows. totals_of (ldEvents db) r"
    using group_totals rows by blast
  moreover have "distinct (map rollup_key rows)" unfolding rows by (rule group_distinct)
  ultimately show ?thesis using keys' by blast
qed

section \<open>Recording during a reconciliation\<close>

text \<open>What the tables say a tenant spent on a day.\<close>

definition rollup_spend :: "string \<Rightarrow> string \<Rightarrow> LedgerDb \<Rightarrow> int" where
  "rollup_spend t day db = sum_list (map drCost (filter (\<lambda>r. of_day t day (rollup_key r)) (ldRollups db)))"

definition ledger_spend :: "string \<Rightarrow> string \<Rightarrow> LedgerDb \<Rightarrow> int" where
  "ledger_spend t day db = sum_list (map leCost (filter (\<lambda>e. of_day t day (event_key e)) (ldEvents db)))"

text \<open>
  The query of a reconciliation and its batch are two round trips. An event recorded between them,
  with its rollup, by another request on the same tenant and day is in the ledger, but the totals of the
  day lose it: they stay behind the ledger by exactly its cost, although both writers succeeded.
\<close>

theorem reconcile_loses_event:
  assumes "reads_iso parse" and "in_step db" and "rows = reconcile_read t day db"
    and "recordEventWithRollup parse now uuid inp db = (Inr ev, db1)"
    and "of_day (js_trim t) day (event_key ev)"
    and "reconcile_write t day rows db1 = (Inr rows, db2)"
  shows "ev \<in> set (ldEvents db2) \<and> rollup_spend (js_trim t) day db2 = ledger_spend (js_trim t) day db2 - leCost ev"
proof -
  let ?t = "js_trim t"
  from record_cases [OF assms(1,4)] have db1: "ldEvents db1 = ldEvents db @ [ev]" by auto
  have db2: "ldEvents db2 = ldEvents db1"
    "ldRollups db2 = filter (\<lambda>r. \<not> of_day ?t day (rollup_key r)) (ldRollups db1) @ rows"
    using assms(6) by (auto simp: reconcile_write_def rollup_key_def split: if_splits)
  let ?old = "db\<lparr>ldRollups := filter (\<lambda>r. \<not> of_day ?t day (rollup_key r)) (ldRollups db) @ rows\<rparr>"
  have "in_step ?old"
    using in_step_reconcile [OF assms(2)] by (simp add: assms(3) reconcile_read_def)
  from in_step_sums(1) [OF this, of "of_day ?t day"] have "rollup_spend ?t day ?old = ledger_spend ?t day db"
    by (simp add: rollup_spend_def ledger_spend_def)
  moreover have "rollup_spend ?t day ?old = rollup_spend ?t day db2"
    by (simp add: rollup_spend_def db2 filter_empty_conv)
  moreover have "ledger_spend ?t day db2 = ledger_spend ?t day db + leCost ev"
    using assms(5) by (simp add: ledger_spend_def db2 db1)
  ultimately show ?thesis by (simp add: db2 db1)
qed

section \<open>Isolation of tenants\<close>

definition own_part :: "string \<Rightarrow> LedgerDb \<Rightarrow> LedgerDb" where
  "own_part t db = \<lparr>ldEvents = filter (\<lambda>e. leTenant e = t) (ldEvents db),
                    ldRollups = filter (\<lambda>r. drTenant r = t) (ldRollups db)\<rparr>"

lemma own_rows:
  "filter (\<lambda>e. leTenant e = t \<and> P e) (ldEvents (own_part t db)) = filter (\<lambda>e. leTenant e = t \<and> P e) (ldEvents db)"
  "filter (\<lambda>r. drTenant r = t \<and> Q r) (ldRollups (own_part t db)) = filter (\<lambda>r. drTenant r = t \<and> Q r) (ldRollups db)"
  by (simp_all add: own_part_def conj_ac cong: conj_cong)

lemma own_find:
  "find (\<lambda>e. leTenant e = t \<and> P e) (ldEvents (own_part t db)) = find (\<lambda>e. leTenant e = t \<and> P e) (ldEvents db)"
proof -
  have "find R (filter Q xs) = find (\<lambda>x. Q x \<and> R x) xs" for R Q and xs :: "CostLedgerEvent list"
    by (induction xs) auto
  then show ?thesis by (simp add: own_part_def)
qed

lemma own_upsert: "drTenant new \<noteq> t \<Longrightarrow> filter (\<lambda>r. drTenant r = t) (upsert_rollup new rs) = filter (\<lambda>r. drTenant r = t) rs"
  by (induction rs) (auto simp: rollup_key_def add_rollup_def)

lemma event_of_tenant: "event_of parse now uuid inp = Inr ev \<Longrightarrow> leTenant ev = js_trim (liTenant inp)"
  by (auto simp: event_of_def split: sum.splits)

lemma own_insert: "insert_event ev db = Some db' \<Longrightarrow> leTenant ev \<noteq> t \<Longrightarrow> own_part t db' = own_part t db"
  by (auto simp: insert_event_def own_part_def split: if_splits)

lemma own_reads:
  defines "own \<equiv> \<lambda>t db. own_part (js_trim t) db"
  shows "getEventById t i (own t db) = getEventById t i db"
    and "getEventsByRequestId t r (own t db) = getEventsByRequestId t r db"
    and "listEvents t lopts (own t db) = listEvents t lopts db"
    and "countEvents t from to (own t db) = countEvents t from to db"
    and "getDailyRollups parse t ropts (own t db) = getDailyRollups parse t ropts db"
    and "getTenantSpendSummary parse t from to (own t db) = getTenantSpendSummary parse t from to db"
    and "reconcile_read t day (own t db) = reconcile_read t day db"
  unfolding own_def getEventById_def getEventsByRequestId_def listEvents_def countEvents_def getDailyRollups_def
    getTenantSpendSummary_def reconcile_read_def day_events_def own_rows own_find by (rule refl)+

lemma own_rollup:
  "drTenant new \<noteq> t \<Longrightarrow> own_part t (db\<lparr>ldRollups := upsert_rollup new (ldRollups db)\<rparr>) = own_part t db"
  by (simp add: own_part_def own_upsert)

lemma own_writes:
  shows "js_trim (liTenant inp) \<noteq> t \<Longrightarrow> own_part t (snd (recordEvent parse now uuid inp db)) = own_part t db"
    and "js_trim (liTenant inp) \<noteq> t \<Longrightarrow> own_part t (snd (recordEventWithRollup parse now uuid inp db)) = own_part t db"
    and "js_trim (riTenant rinp) \<noteq> t \<Longrightarrow> own_part t (snd (upsertDailyRollup parse rinp db)) = own_part t db"
    and "js_trim u \<noteq> t \<Longrightarrow> own_part t (snd (reconcileDailyRollupFromLedger parse u d db)) = own_part t db"
proof -
  show "js_trim (liTenant inp) \<noteq> t \<Longrightarrow> own_part t (snd (recordEvent parse now uuid inp db)) = own_part t db"
    using event_of_tenant [of parse now uuid inp]
    by (simp add: recordEvent_def own_insert split: sum.split option.split)
  show "js_trim (liTenant inp) \<noteq> t \<Longrightarrow> own_part t (snd (recordEventWithRollup parse now uuid inp db)) = own_part t db"
    using event_of_tenant [of parse now uuid inp]
    by (simp add: recordEventWithRollup_def own_insert own_rollup rollup_of_def del: formatCalendarDay.simps
        split: sum.split option.split)
  show "js_trim (riTenant rinp) \<noteq> t \<Longrightarrow> own_part t (snd (upsertDailyRollup parse rinp db)) = own_part t db"
    by (simp add: upsertDailyRollup_def own_rollup split: sum.split)
  have rows: "drTenant r = js_trim u" if "r \<in> set (reconcile_read u day db)" for r day
    using that by (auto simp: reconcile_read_def group_rows_def Let_def)
  have kept: "filter (\<lambda>r. drTenant r = t) (filter (\<lambda>r. fst (rollup_key r) = js_trim u \<longrightarrow> fst (snd (rollup_key r)) \<noteq> day) rs) = filter (\<lambda>r. drTenant r = t) rs"
    if "js_trim u \<noteq> t" for day rs
    using that by (intro filter_absorb) (auto simp: rollup_key_def)
  show "js_trim u \<noteq> t \<Longrightarrow> own_part t (snd (reconcileDailyRollupFromLedger parse u d db)) = own_part t db"
    using reconcile_cases [OF prod.collapse [symmetric], of parse u d db] rows
    by (auto simp: own_part_def filter_empty_conv kept simp del: filter_filter)
qed

text \<open>
  C28. The ledger is separated by tenant. What a tenant reads depends on the tenant's own rows only:
  events by id, by request and by filter, counts, daily totals and summaries are what they would be if
  no other tenant existed. What another tenant records, adds to its totals or reconciles leaves the
  tenant's rows in both tables as they were.
\<close>

theorem ledger_isolation:
  assumes "js_trim (liTenant inp) \<noteq> js_trim t" and "js_trim (riTenant rinp) \<noteq> js_trim t" and "js_trim u \<noteq> js_trim t"
  defines "own \<equiv> own_part (js_trim t)"
  shows "getEventById t i (own db) = getEventById t i db
    \<and> getEventsByRequestId t r (own db) = getEventsByRequestId t r db
    \<and> listEvents t lopts (own db) = listEvents t lopts db
    \<and> countEvents t from to (own db) = countEvents t from to db
    \<and> getDailyRollups parse t ropts (own db) = getDailyRollups parse t ropts db
    \<and> getTenantSpendSummary parse t from to (own db) = getTenantSpendSummary parse t from to db
    \<and> own (snd (recordEvent parse now uuid inp db)) = own db
    \<and> own (snd (recordEventWithRollup parse now uuid inp db)) = own db
    \<and> own (snd (upsertDailyRollup parse rinp db)) = own db
    \<and> own (snd (reconcileDailyRollupFromLedger parse u d db)) = own db"
  unfolding own_def using own_reads own_writes assms(1-3) by simp

section \<open>Instances\<close>

definition acme_input :: "string \<Rightarrow> int \<Rightarrow> CostLedgerEventInput" where
  "acme_input i cost =
     \<lparr>liId = Some i, liRequestId = ''r1'', liTenant = '' acme '', liKeyId = ''k1'', liProvider = ''openai'', liModel = ''gpt-4o'',
      liPrompt = Some 100, liCompletion = Some 20, liCached = None, liReasoning = None, liCost = BigAmount cost,
      liLatency = Some 350, liStatus = 200, liCreatedAt = None\<rparr>"

definition acme_event :: "string \<Rightarrow> int \<Rightarrow> CostLedgerEvent" where
  "acme_event i cost =
     \<lparr>leId = i, leRequestId = ''r1'', leTenant = ''acme'', leKeyId = ''k1'', leProvider = ''openai'', leModel = ''gpt-4o'',
      lePrompt = 100, leCompletion = 20, leCached = 0, leReasoning = 0, leCost = cost, leLatency = 350, leStatus = 200,
      leCreatedAt = ''2024-02-29T00:00:00.000Z''\<rparr>"

definition acme_row :: "int \<Rightarrow> int \<Rightarrow> int \<Rightarrow> DailySpendRollup" where
  "acme_row n tokens cost =
     \<lparr>drTenant = ''acme'', drDay = ''2024-02-29'', drProvider = ''openai'', drModel = ''gpt-4o'', drRequests = n,
      drTokens = tokens, drCost = cost\<rparr>"

definition acme_calls :: "ledger_call list" where
  "acme_calls = [Record 1709164800000 ''u'' (acme_input ''e1'' 1500), Record 1709164800000 ''u'' (acme_input ''e2'' 500),
                 Record 1709164800000 ''u'' (acme_input ''e1'' 7), Reconcile ''acme'' (DateText ''2024-02-29'')]"

definition acme_db :: LedgerDb where
  "acme_db = \<lparr>ldEvents = [acme_event ''e1'' 1500, acme_event ''e2'' 500], ldRollups = [acme_row 2 240 2000]\<rparr>"

lemma acme_now: "toISOString 1709164800000 = ''2024-02-29T00:00:00.000Z''"
  by code_simp

lemma acme_texts:
  "js_trim '' acme '' = ''acme''" "js_trim ''acme'' = ''acme''" "js_trim ''r1'' = ''r1''" "js_trim ''k1'' = ''k1''"
  "js_trim ''openai'' = ''openai''" "js_trim ''gpt-4o'' = ''gpt-4o''" "js_trim ''2024-02-29'' = ''2024-02-29''"
  by code_simp+

lemma acme_event_of:
  "c \<ge> 0 \<Longrightarrow> event_of parse 1709164800000 uuid (acme_input i c) = Inr (acme_event i c)"
  by (simp add: event_of_def acme_input_def acme_event_def validateEventInput_def validateTenantId_def blank_text_def
      tokens_of_def acme_texts acme_now)

lemma acme_day: "formatCalendarDay date_of_iso (DateText ''2024-02-29T00:00:00.000Z'') = Inr ''2024-02-29''"
  by code_simp

lemma acme_record:
  assumes "0 \<le> c" "c \<le> 9007199254740991"
  shows "recordEventWithRollup date_of_iso 1709164800000 uuid (acme_input i c) db =
     (if i \<in> leId ` set (ldEvents db) then (Inl LedgerFailure, db)
      else (Inr (acme_event i c), \<lparr>ldEvents = ldEvents db @ [acme_event i c], ldRollups = upsert_rollup (acme_row 1 120 c) (ldRollups db)\<rparr>))"
proof -
  have "leCreatedAt (acme_event i c) = ''2024-02-29T00:00:00.000Z''" "leId (acme_event i c) = i" "leCost (acme_event i c) = c"
    "rollup_of ''2024-02-29'' (acme_event i c) = acme_row 1 120 c"
    by (simp_all add: acme_event_def rollup_of_def acme_row_def total_tokens_def)
  with assms show ?thesis
    by (simp add: recordEventWithRollup_def acme_event_of acme_day toSqlInteger_def MAX_SAFE_INTEGER_def insert_event_def
        del: formatCalendarDay.simps)
qed

lemma acme_reconcile:
  "reconcileDailyRollupFromLedger date_of_iso ''acme'' (DateText ''2024-02-29'') acme_db = (Inr [acme_row 2 240 2000], acme_db)"
  by code_simp

lemma acme_run: "ledger_run date_of_iso acme_calls = (acme_db, [acme_event ''e1'' 1500, acme_event ''e2'' 500])"
proof -
  have "upsert_rollup (acme_row 1 120 500) [acme_row 1 120 1500] = [acme_row 2 240 2000]"
    by (simp add: acme_row_def rollup_key_def add_rollup_def)
  moreover have "leId (acme_event i c) = i" for i c by (simp add: acme_event_def)
  ultimately have "fold (ledger_step date_of_iso) [Record 1709164800000 ''u'' (acme_input ''e1'' 1500),
      Record 1709164800000 ''u'' (acme_input ''e2'' 500), Record 1709164800000 ''u'' (acme_input ''e1'' 7)] (empty_ledger, [])
      = (acme_db, [acme_event ''e1'' 1500, acme_event ''e2'' 500])"
    by (simp add: acme_record empty_ledger_def acme_db_def)
  then show ?thesis by (simp add: ledger_run_def acme_calls_def acme_reconcile)
qed

theorem rollups_match_ledger_witness:
  "ledger_run date_of_iso acme_calls = (acme_db, [acme_event ''e1'' 1500, acme_event ''e2'' 500])
   \<and> ldEvents acme_db = [acme_event ''e1'' 1500, acme_event ''e2'' 500]
   \<and> distinct (map leId [acme_event ''e1'' 1500, acme_event ''e2'' 500])"
  using rollups_match_ledger [OF reads_iso_date_of_iso acme_run] acme_run by blast

lemma acme_summary:
  "getTenantSpendSummary date_of_iso ''acme'' None (Some (DateText ''2024-12-31'')) acme_db =
   Inr \<lparr>tsTenant = ''acme'', tsCost = 2000, tsRequests = 2, tsTokens = 240, tsStart = None, tsEnd = Some ''2024-12-31''\<rparr>"
  by code_simp

theorem spend_summary_exact_witness:
  "2000 = sum_list (map leCost (filter (\<lambda>e. leTenant e = js_trim ''acme'' \<and> take 10 (leCreatedAt e) \<le> ''2024-12-31'')
             [acme_event ''e1'' 1500, acme_event ''e2'' 500]))"
  using spend_summary_exact [OF reads_iso_date_of_iso acme_run acme_summary]
  by (simp add: Let_def from_bound_def to_bound_def)

text \<open>A rollup table that has drifted, repaired.\<close>

definition drifted_db :: LedgerDb where
  "drifted_db = acme_db\<lparr>ldRollups := [acme_row 1 120 1500, (acme_row 3 30 9)\<lparr>drModel := ''old''\<rparr>]\<rparr>"

lemma drifted_reconcile:
  "reconcileDailyRollupFromLedger date_of_iso ''acme'' (DateText ''2024-02-29'') drifted_db = (Inr [acme_row 2 240 2000], acme_db)"
  by code_simp

theorem reconcile_repairs_witness:
  "rollup_key ` set [acme_row 2 240 2000] = event_key ` {e \<in> set (ldEvents drifted_db). of_day (js_trim ''acme'') ''2024-02-29'' (event_key e)}
   \<and> reconcileDailyRollupFromLedger date_of_iso ''acme'' (DateText ''2024-02-29'') acme_db = (Inr [acme_row 2 240 2000], acme_db)"
proof -
  have day: "formatCalendarDay date_of_iso (DateText ''2024-02-29'') = Inr ''2024-02-29''" by code_simp
  show ?thesis using reconcile_repairs [OF day drifted_reconcile] by blast
qed

theorem reconcile_loses_event_witness:
  "\<exists>db1 db2. recordEventWithRollup date_of_iso 1709164800000 ''u'' (acme_input ''e3'' 70) acme_db = (Inr (acme_event ''e3'' 70), db1)
     \<and> reconcile_write ''acme'' ''2024-02-29'' (reconcile_read ''acme'' ''2024-02-29'' acme_db) db1
         = (Inr (reconcile_read ''acme'' ''2024-02-29'' acme_db), db2)
     \<and> rollup_spend (js_trim ''acme'') ''2024-02-29'' db2 = ledger_spend (js_trim ''acme'') ''2024-02-29'' db2 - 70"
proof -
  have step: "in_step acme_db"
    using ledger_run_inv [OF reads_iso_date_of_iso, of acme_calls] by (simp add: acme_run)
  obtain db1 where rec: "recordEventWithRollup date_of_iso 1709164800000 ''u'' (acme_input ''e3'' 70) acme_db = (Inr (acme_event ''e3'' 70), db1)"
    by (simp add: acme_record) (simp add: acme_db_def acme_event_def)
  have rows: "reconcile_read ''acme'' ''2024-02-29'' acme_db = [acme_row 2 240 2000]" by code_simp
  obtain db2 where stored: "reconcile_write ''acme'' ''2024-02-29'' (reconcile_read ''acme'' ''2024-02-29'' acme_db) db1
      = (Inr (reconcile_read ''acme'' ''2024-02-29'' acme_db), db2)"
    by (simp add: reconcile_write_def rows toSqlInteger_def MAX_SAFE_INTEGER_def acme_row_def)
  have "of_day (js_trim ''acme'') ''2024-02-29'' (event_key (acme_event ''e3'' 70))"
    by (simp add: event_key_def acme_event_def acme_texts)
  from reconcile_loses_event [OF reads_iso_date_of_iso step refl rec this stored] rec stored show ?thesis
    by (auto simp: acme_event_def)
qed

theorem ledger_isolation_witness:
  "own_part (js_trim ''globex'') (snd (recordEventWithRollup date_of_iso 1709164800000 ''u'' (acme_input ''e3'' 70) acme_db))
     = own_part (js_trim ''globex'') acme_db"
  using ledger_isolation [of "acme_input ''e3'' 70" "''globex''"
      "\<lparr>riTenant = ''acme'', riDay = DateText [], riProvider = [], riModel = [], riRequests = None, riTokens = None, riCost = NonFinite\<rparr>"
      "''acme''" "[]" acme_db "[]" _ None None date_of_iso _ 1709164800000 "''u''" "DateText []"]
  by (simp add: acme_input_def) (simp add: js_trim_def is_space_def)

section \<open>Queries that fail or miss\<close>

text \<open>An offset without a limit is never served, whatever the rest of the query.\<close>

theorem rollup_offset_needs_limit:
  "above_zero (lrOffset opts) \<Longrightarrow> \<not> above_zero (lrLimit opts) \<Longrightarrow> isl (getDailyRollups parse t opts db)"
  by (simp add: getDailyRollups_def Let_def split: sum.split)

text \<open>An event whose given id has white space around it is recorded, but cannot be found by its id.\<close>

theorem padded_id_not_found:
  assumes "recordEvent parse now uuid inp db = (Inr ev, db')" and "leId ev = '' e1 ''"
    and "getEventById t (leId ev) db' = Inr found"
  shows "found \<noteq> Some ev"
proof
  assume "found = Some ev"
  with assms(3) have "leId ev = js_trim (leId ev)"
    by (auto simp: getEventById_def find_Some_iff split: sum.splits if_splits)
  then show False unfolding assms(2) by (simp add: js_trim_def is_space_def)
qed

end
