(* ===== verification/LedgerD1.thy ===== *)
theory LedgerD1
  imports LedgerProps
begin

text \<open>
  \<open>src/storage/d1/{ledger,rollups,validation}.ts\<close>: the functions of the storage adapter over the two
  ledger tables, beside the repository of theory \<open>Ledger\<close>. What they throw is a plain \<open>Error\<close>; the
  constructor says which check failed.
\<close>

section \<open>Types (types.ts) and validation (validation.ts)\<close>

record CostLedgerRecordInput =
  ciId :: "string option"
  ciRequestId :: string
  ciTenant :: string
  ciKeyId :: string
  ciProvider :: string
  ciModel :: string
  ciPrompt :: "int option"
  ciCompletion :: "int option"
  ciCached :: "int option"
  ciReasoning :: "int option"
  ciCost :: int
  ciLatency :: "int option"
  ciStatus :: int
  ciCreatedAt :: "string option"

record RollupInput =
  diTenant :: string
  diDay :: string
  diProvider :: string
  diModel :: string
  diRequests :: "int option"
  diTokens :: "int option"
  diCost :: int

record TelemetryEvent =
  teTrace :: string
  teTenant :: string
  teTimestamp :: timestamp
  teLatency :: int
  teCost :: int
  teMetadata :: "string \<rightharpoonup> string"

record TenantMetrics =
  tmTenant :: string
  tmCost :: int
  tmRequests :: int
  tmTokens :: int

datatype d1_error = BadTenant | EmptyField | BadCost | StatementFailed

definition assertValidTenantId :: "string \<Rightarrow> d1_error + unit" where
  "assertValidTenantId t = (if blank_text t then Inl BadTenant else Inr ())"

definition assertValidMicrodollars :: "int \<Rightarrow> d1_error + unit" where
  "assertValidMicrodollars cost = (if cost < 0 then Inl BadCost else if cost > MAX_SAFE_INTEGER then Inl BadCost else Inr ())"

section \<open>Events (ledger.ts)\<close>

definition recordCostLedgerEvent ::
  "timestamp \<Rightarrow> string \<Rightarrow> CostLedgerRecordInput \<Rightarrow> LedgerDb \<Rightarrow> (d1_error + unit) \<times> LedgerDb" where
  "recordCostLedgerEvent now uuid ev db =
     (case assertValidTenantId (ciTenant ev) of
        Inl e \<Rightarrow> (Inl e, db)
      | Inr _ \<Rightarrow>
          if blank_text (ciRequestId ev) \<or> blank_text (ciKeyId ev) \<or> blank_text (ciProvider ev) \<or> blank_text (ciModel ev) then (Inl EmptyField, db)
          else
     (case assertValidMicrodollars (ciCost ev) of
        Inl e \<Rightarrow> (Inl e, db)
      | Inr _ \<Rightarrow>
     (case insert_event
         \<lparr>leId = first_some (ciId ev) uuid, leRequestId = js_trim (ciRequestId ev), leTenant = js_trim (ciTenant ev),
          leKeyId = js_trim (ciKeyId ev), leProvider = js_trim (ciProvider ev), leModel = js_trim (ciModel ev),
          lePrompt = tokens_of (ciPrompt ev), leCompletion = tokens_of (ciCompletion ev), leCached = tokens_of (ciCached ev),
          leReasoning = tokens_of (ciReasoning ev), leCost = ciCost ev, leLatency = tokens_of (ciLatency ev),
          leStatus = ciStatus ev, leCreatedAt = first_some (ciCreatedAt ev) (toISOString now)\<rparr> db of
        None \<Rightarrow> (Inl StatementFailed, db)
      | Some db' \<Rightarrow> (Inr (), db'))))"

text \<open>
  \<open>event.metadata?.f || d\<close>. A status code that is not a number is bound as null, which the column
  refuses.
\<close>

definition metadata_or :: "(string \<rightharpoonup> string) \<Rightarrow> string \<Rightarrow> string \<Rightarrow> string" where
  "metadata_or m f d = (case m f of None \<Rightarrow> d | Some v \<Rightarrow> if v = [] then d else v)"

definition recordTelemetry ::
  "timestamp \<Rightarrow> string \<Rightarrow> TelemetryEvent \<Rightarrow> LedgerDb \<Rightarrow> (d1_error + unit) \<times> LedgerDb" where
  "recordTelemetry now uuid ev db =
     (case assertValidTenantId (teTenant ev) of
        Inl e \<Rightarrow> (Inl e, db)
      | Inr _ \<Rightarrow>
     (case assertValidMicrodollars (teCost ev) of
        Inl e \<Rightarrow> (Inl e, db)
      | Inr _ \<Rightarrow>
          (let input = (\<lambda>status.
             \<lparr>ciId = None, ciRequestId = teTrace ev, ciTenant = teTenant ev,
              ciKeyId = metadata_or (teMetadata ev) ''keyId'' ''system'',
              ciProvider = metadata_or (teMetadata ev) ''provider'' ''unknown'',
              ciModel = metadata_or (teMetadata ev) ''modelId'' ''unknown'',
              ciPrompt = None, ciCompletion = None, ciCached = None, ciReasoning = None, ciCost = teCost ev,
              ciLatency = Some (teLatency ev), ciStatus = status, ciCreatedAt = Some (toISOString (teTimestamp ev))\<rparr>);
               code = metadata_or (teMetadata ev) ''statusCode'' []
           in if code = [] then recordCostLedgerEvent now uuid (input 200) db
              else case parse_int code of
                Some n \<Rightarrow> recordCostLedgerEvent now uuid (input n) db
              | None \<Rightarrow>
                  (case recordCostLedgerEvent now uuid (input 200) db of
                     (Inl e, _) \<Rightarrow> (Inl e, db)
                   | (Inr _, _) \<Rightarrow> (Inl StatementFailed, db)))))"

section \<open>Totals (rollups.ts)\<close>

definition saveRollup :: "RollupInput \<Rightarrow> LedgerDb \<Rightarrow> (d1_error + unit) \<times> LedgerDb" where
  "saveRollup inp db =
     (case assertValidTenantId (diTenant inp) of
        Inl e \<Rightarrow> (Inl e, db)
      | Inr _ \<Rightarrow>
          if blank_text (diDay inp) \<or> blank_text (diProvider inp) \<or> blank_text (diModel inp) then (Inl EmptyField, db)
          else
     (case assertValidMicrodollars (diCost inp) of
        Inl e \<Rightarrow> (Inl e, db)
      | Inr _ \<Rightarrow>
          (Inr (), db\<lparr>ldRollups := upsert_rollup
             \<lparr>drTenant = js_trim (diTenant inp), drDay = js_trim (diDay inp), drProvider = js_trim (diProvider inp),
              drModel = js_trim (diModel inp), drRequests = max 0 (first_some (diRequests inp) 1),
              drTokens = tokens_of (diTokens inp), drCost = diCost inp\<rparr> (ldRollups db)\<rparr>)))"

definition day_text :: "string option \<Rightarrow> string option" where
  "day_text d = (case d of None \<Rightarrow> None | Some s \<Rightarrow> if s = [] then None else Some (js_trim s))"

definition period_rows :: "string \<Rightarrow> string option \<Rightarrow> string option \<Rightarrow> LedgerDb \<Rightarrow> DailySpendRollup list" where
  "period_rows t from to db =
     filter (\<lambda>r. drTenant r = t \<and> from_bound from (drDay r) \<and> to_bound to (drDay r)) (ldRollups db)"

definition getTenantMetrics ::
  "string \<Rightarrow> string option \<Rightarrow> string option \<Rightarrow> LedgerDb \<Rightarrow> d1_error + TenantMetrics" where
  "getTenantMetrics t startDate endDate db =
     (case assertValidTenantId t of
        Inl e \<Rightarrow> Inl e
      | Inr _ \<Rightarrow>
          (let rows = period_rows (js_trim t) (day_text startDate) (day_text endDate) db
           in Inr \<lparr>tmTenant = js_trim t, tmCost = sum_list (map drCost rows),
                   tmRequests = sum_list (map drRequests rows), tmTokens = sum_list (map drTokens rows)\<rparr>))"

definition d1_getDailyRollups ::
  "string \<Rightarrow> string option \<Rightarrow> string option \<Rightarrow> LedgerDb \<Rightarrow> d1_error + DailySpendRollup list" where
  "d1_getDailyRollups t startDate endDate db =
     (case assertValidTenantId t of
        Inl e \<Rightarrow> Inl e
      | Inr _ \<Rightarrow> Inr (order_rollups False (period_rows (js_trim t) (day_text startDate) (day_text endDate) db)))"

section \<open>The two stores agree\<close>

text \<open>The inputs of the repository that say the same.\<close>

definition repository_rollup :: "RollupInput \<Rightarrow> DailySpendRollupInput" where
  "repository_rollup inp =
     \<lparr>riTenant = diTenant inp, riDay = DateText (diDay inp), riProvider = diProvider inp, riModel = diModel inp,
      riRequests = diRequests inp, riTokens = diTokens inp, riCost = BigAmount (diCost inp)\<rparr>"

definition repository_event :: "CostLedgerRecordInput \<Rightarrow> CostLedgerEventInput" where
  "repository_event ev =
     \<lparr>liId = ciId ev, liRequestId = ciRequestId ev, liTenant = ciTenant ev, liKeyId = ciKeyId ev, liProvider = ciProvider ev,
      liModel = ciModel ev, liPrompt = ciPrompt ev, liCompletion = ciCompletion ev, liCached = ciCached ev,
      liReasoning = ciReasoning ev, liCost = BigAmount (ciCost ev), liLatency = ciLatency ev, liStatus = ciStatus ev,
      liCreatedAt = map_option DateText (ciCreatedAt ev)\<rparr>"

text \<open>A day as the repository writes it, and a time that reads and writes as itself.\<close>

definition plain_day :: "string \<Rightarrow> bool" where
  "plain_day d \<longleftrightarrow> is_calendar_day (js_trim d)"

definition plain_time :: "string option \<Rightarrow> bool" where
  "plain_time c \<longleftrightarrow> (case c of None \<Rightarrow> True | Some s \<Rightarrow> \<exists>t. s = toISOString t)"

lemma day_bound_plain:
  "pred_option plain_day d \<Longrightarrow> day_bound parse (map_option DateText d) = Inr (day_text d)"
  by (cases d) (auto simp: day_bound_def day_text_def plain_day_def is_calendar_day_def Let_def)

lemma plain_day_not_blank: "plain_day d \<Longrightarrow> \<not> blank_text d"
  by (auto simp: plain_day_def is_calendar_day_def blank_text_def)

lemma iso_not_empty: "toISOString t \<noteq> []"
  using iso_length [of t] by auto

lemma saveRollup_agrees:
  assumes "plain_day (diDay inp)"
  shows "isl (fst (saveRollup inp db)) \<longleftrightarrow> isl (fst (upsertDailyRollup parse (repository_rollup inp) db))"
    and "snd (saveRollup inp db) = snd (upsertDailyRollup parse (repository_rollup inp) db)"
proof -
  have day: "formatCalendarDay parse (DateText (diDay inp)) = Inr (js_trim (diDay inp))" "\<not> blank_text (diDay inp)"
    using assms by (auto simp: plain_day_def plain_day_not_blank Let_def)
  show "isl (fst (saveRollup inp db)) \<longleftrightarrow> isl (fst (upsertDailyRollup parse (repository_rollup inp) db))"
    "snd (saveRollup inp db) = snd (upsertDailyRollup parse (repository_rollup inp) db)"
    by (simp_all add: saveRollup_def upsertDailyRollup_def repository_rollup_def day validateTenantId_def
        assertValidTenantId_def assertValidMicrodollars_def toSqlInteger_def MAX_SAFE_INTEGER_def
        del: formatCalendarDay.simps)
qed

lemma recordCostLedgerEvent_agrees:
  assumes "reads_iso parse" and "plain_time (ciCreatedAt ev)" and "100 \<le> ciStatus ev" "ciStatus ev \<le> 599"
  shows "isl (fst (recordCostLedgerEvent now uuid ev db)) \<longleftrightarrow> isl (fst (recordEvent parse now uuid (repository_event ev) db))"
    and "snd (recordCostLedgerEvent now uuid ev db) = snd (recordEvent parse now uuid (repository_event ev) db)"
proof -
  have created: "normalizeCreatedAt parse now (map_option DateText (ciCreatedAt ev)) = Inr (first_some (ciCreatedAt ev) (toISOString now))"
    using assms(1,2) by (auto simp: plain_time_def reads_iso_def iso_not_empty split: option.splits)
  show "isl (fst (recordCostLedgerEvent now uuid ev db)) \<longleftrightarrow> isl (fst (recordEvent parse now uuid (repository_event ev) db))"
    "snd (recordCostLedgerEvent now uuid ev db) = snd (recordEvent parse now uuid (repository_event ev) db)"
    using assms(3,4)
    by (simp_all add: recordCostLedgerEvent_def recordEvent_def event_of_def repository_event_def validateEventInput_def
        validateTenantId_def created assertValidTenantId_def assertValidMicrodollars_def toSqlInteger_def MAX_SAFE_INTEGER_def
        split: option.split)
qed

definition all_rollups :: "string option \<Rightarrow> string option \<Rightarrow> ListDailyRollupsOptions" where
  "all_rollups from to =
     \<lparr>lrStart = map_option DateText from, lrEnd = map_option DateText to, lrProvider = None, lrModel = None,
      lrLimit = None, lrOffset = None, lrOrder = None\<rparr>"

lemma reads_agree:
  assumes "pred_option plain_day from" "pred_option plain_day to"
  shows "map_sum (\<lambda>_. ()) (\<lambda>m. (tmTenant m, tmCost m, tmRequests m, tmTokens m)) (getTenantMetrics t from to db) =
      map_sum (\<lambda>_. ()) (\<lambda>m. (tsTenant m, tsCost m, tsRequests m, tsTokens m))
        (getTenantSpendSummary parse t (map_option DateText from) (map_option DateText to) db)"
    and "map_sum (\<lambda>_. ()) id (d1_getDailyRollups t from to db) =
      map_sum (\<lambda>_. ()) id (getDailyRollups parse t (all_rollups from to) db)"
  using assms
  by (simp_all add: getTenantMetrics_def getTenantSpendSummary_def d1_getDailyRollups_def getDailyRollups_def all_rollups_def
      assertValidTenantId_def validateTenantId_def day_bound_plain period_rows_def ascending_def column_is_def above_zero_def Let_def)

text \<open>
  Outside the forms both accept the two differ: the adapter looks at no status (and at no form of a day or a
  time), the repository refuses every status that is not one of HTTP.
\<close>

theorem adapter_accepts_any_status:
  "isl (fst (recordCostLedgerEvent now uuid (ev\<lparr>ciStatus := c\<rparr>) db)) \<longleftrightarrow> isl (fst (recordCostLedgerEvent now uuid ev db))"
  "c < 100 \<Longrightarrow> isl (fst (recordEvent parse now uuid (repository_event (ev\<lparr>ciStatus := c\<rparr>)) db))"
  "599 < c \<Longrightarrow> isl (fst (recordEvent parse now uuid (repository_event (ev\<lparr>ciStatus := c\<rparr>)) db))"
proof -
  show "isl (fst (recordCostLedgerEvent now uuid (ev\<lparr>ciStatus := c\<rparr>) db)) \<longleftrightarrow> isl (fst (recordCostLedgerEvent now uuid ev db))"
    by (auto simp: recordCostLedgerEvent_def insert_event_def Let_def split: option.splits sum.splits if_splits)
  show "isl (fst (recordEvent parse now uuid (repository_event (ev\<lparr>ciStatus := c\<rparr>)) db))" if "c < 100"
    using that by (simp add: recordEvent_def event_of_def repository_event_def validateEventInput_def validateTenantId_def)
  show "isl (fst (recordEvent parse now uuid (repository_event (ev\<lparr>ciStatus := c\<rparr>)) db))" if "599 < c"
    using that by (simp add: recordEvent_def event_of_def repository_event_def validateEventInput_def validateTenantId_def)
qed

text \<open>
  C40. Where the two implementations over the ledger tables agree. Given a rollup whose day is a calendar day in the
  form \<open>YYYY-MM-DD\<close>, an event whose time, if it has one, is written as \<open>toISOString\<close> writes it and whose status is from
  100 to 599, and a period whose bounds, if any, are such days: the storage adapter refuses the rollup, or the event,
  exactly if the repository does, both leave the same tables behind, and both report the same
  totals and rollups of a tenant. (Outside these forms the adapter accepts what the repository refuses, see
  \<open>adapter_accepts_any_status\<close>; reasons of a refusal are not compared.)
\<close>

theorem ledger_stores_agree:
  assumes "reads_iso parse" and "plain_day (diDay rinp)"
    and "plain_time (ciCreatedAt ev)" and "100 \<le> ciStatus ev" "ciStatus ev \<le> 599"
    and "pred_option plain_day from" "pred_option plain_day to"
  shows "(isl (fst (saveRollup rinp db)) \<longleftrightarrow> isl (fst (upsertDailyRollup parse (repository_rollup rinp) db)))
    \<and> snd (saveRollup rinp db) = snd (upsertDailyRollup parse (repository_rollup rinp) db)
    \<and> (isl (fst (recordCostLedgerEvent now uuid ev db)) \<longleftrightarrow> isl (fst (recordEvent parse now uuid (repository_event ev) db)))
    \<and> snd (recordCostLedgerEvent now uuid ev db) = snd (recordEvent parse now uuid (repository_event ev) db)
    \<and> map_sum (\<lambda>_. ()) (\<lambda>m. (tmTenant m, tmCost m, tmRequests m, tmTokens m)) (getTenantMetrics t from to db) =
        map_sum (\<lambda>_. ()) (\<lambda>m. (tsTenant m, tsCost m, tsRequests m, tsTokens m))
          (getTenantSpendSummary parse t (map_option DateText from) (map_option DateText to) db)
    \<and> map_sum (\<lambda>_. ()) id (d1_getDailyRollups t from to db) =
        map_sum (\<lambda>_. ()) id (getDailyRollups parse t (all_rollups from to) db)"
  using saveRollup_agrees [OF assms(2)] recordCostLedgerEvent_agrees [OF assms(1,3-5)] reads_agree [OF assms(6,7)]
  by simp

section \<open>An instance\<close>

definition acme_telemetry :: CostLedgerRecordInput where
  "acme_telemetry =
     \<lparr>ciId = Some ''e9'', ciRequestId = ''r9'', ciTenant = ''acme'', ciKeyId = ''k1'', ciProvider = ''openai'', ciModel = ''gpt-4o'',
      ciPrompt = Some 5, ciCompletion = None, ciCached = None, ciReasoning = None, ciCost = 30, ciLatency = None, ciStatus = 200,
      ciCreatedAt = None\<rparr>"

definition acme_rollup :: RollupInput where
  "acme_rollup = \<lparr>diTenant = ''acme'', diDay = ''2024-02-29'', diProvider = ''openai'', diModel = ''gpt-4o'', diRequests = None,
                  diTokens = Some 5, diCost = 30\<rparr>"

theorem ledger_stores_agree_witness:
  "snd (saveRollup acme_rollup acme_db) = snd (upsertDailyRollup date_of_iso (repository_rollup acme_rollup) acme_db)
   \<and> snd (recordCostLedgerEvent 1709164800000 ''u'' acme_telemetry acme_db)
       = snd (recordEvent date_of_iso 1709164800000 ''u'' (repository_event acme_telemetry) acme_db)"
proof -
  have "plain_day (diDay acme_rollup)" by code_simp
  moreover have "plain_time (ciCreatedAt acme_telemetry)" "100 \<le> ciStatus acme_telemetry" "ciStatus acme_telemetry \<le> 599"
    by (simp_all add: acme_telemetry_def plain_time_def)
  ultimately show ?thesis
    using ledger_stores_agree [OF reads_iso_date_of_iso, of acme_rollup acme_telemetry None None] by simp
qed

end
