(* ===== verification/ApiKeys.thy ===== *)
theory ApiKeys
  imports Crypto Dates "HOL-Library.Char_ord"
begin

text \<open>
  \<open>src/storage/repositories/api_keys/\<close> and \<open>src/storage/d1/keys.ts\<close>: the encrypted provider keys of
  the tenants in the D1 table \<open>api_keys\<close>, whose only uniqueness constraint is on \<open>id\<close>. The
  repository encrypts a key under its tenant's derived key before it stores it; the storage adapter
  stores what is encrypted already. The table is the list of its rows, a statement the list operation it
  denotes; rows that \<open>ORDER BY\<close> does not separate stay in insertion order. Dates are strings. The aliases
  of the repository's methods are the methods themselves.
\<close>

section \<open>Types (types.ts), validation (validation.ts)\<close>

text \<open>\<open>APIKeyRow\<close> has the same columns.\<close>

record APIKey =
  akId :: string
  akTenant :: string
  akLabel :: string
  akProvider :: string
  akEncrypted :: string
  akNonce :: string
  akPrefix :: string
  akSuffix :: string
  akRpm :: int
  akRpd :: int
  akPriority :: int
  akStatus :: string
  akOpenUntil :: "string option"
  akLastUsed :: "string option"
  akCreated :: string

type_synonym key_table = "APIKey list"

record CreateApiKeyInput =
  ciKeyId :: "string option"
  ciKeyTenant :: string
  ciLabel :: string
  ciKeyProvider :: string
  ciPlaintext :: string
  ciRpm :: "int option"
  ciRpd :: "int option"
  ciPriority :: "int option"
  ciKeyStatus :: "string option"
  ciOpenUntil :: "string option"
  ciCreated :: "string option"

record InsertEncryptedApiKeyInput =
  iiId :: "string option"
  iiTenant :: string
  iiLabel :: string
  iiProvider :: string
  iiEncrypted :: string
  iiNonce :: string
  iiPrefix :: "string option"
  iiSuffix :: "string option"
  iiRpm :: "int option"
  iiRpd :: "int option"
  iiPriority :: "int option"
  iiStatus :: "string option"
  iiOpenUntil :: "string option"
  iiLastUsed :: "string option"
  iiCreated :: "string option"

text \<open>\<open>circuitOpenUntil\<close> may be left out, null or a string.\<close>

record UpdateApiKeyInput =
  uiLabel :: "string option"
  uiRpm :: "int option"
  uiRpd :: "int option"
  uiPriority :: "int option"
  uiStatus :: "string option"
  uiOpenUntil :: "string option option"
  uiPlaintext :: "string option"

record ListApiKeysOptions =
  lkProvider :: "string option"
  lkStatus :: "string option"
  lkLimit :: "int option"
  lkOffset :: "int option"

text \<open>\<open>InvalidKeyError\<close> with its reason, \<open>KeyNotFoundError\<close>, what encryption raises, a failed statement.\<close>

datatype key_error = InvalidKey string | KeyNotFound string | CryptoFailed crypto_error | StatementError

definition KEY_STATUSES :: "string list" where
  "KEY_STATUSES =
     [''Healthy'', ''RateLimited'', ''Degraded'', ''Disabled'', ''healthy'', ''rate_limited'', ''exhausted'', ''invalid'', ''disabled'']"

definition isKeyStatus :: "string \<Rightarrow> bool" where
  "isKeyStatus s \<longleftrightarrow> s \<in> set KEY_STATUSES"

definition isModelProvider :: "string \<Rightarrow> bool" where
  "isModelProvider s \<longleftrightarrow> js_trim s \<noteq> []"

text \<open>The checks of the limits and the status, the same on creation and update.\<close>

definition bad_rpm :: "int option \<Rightarrow> bool" where
  "bad_rpm r \<longleftrightarrow> (case r of None \<Rightarrow> False | Some n \<Rightarrow> \<not> isValidRpmLimit (JNum n))"

definition bad_rpd :: "int option \<Rightarrow> bool" where
  "bad_rpd r \<longleftrightarrow> (case r of None \<Rightarrow> False | Some n \<Rightarrow> n < 1)"

definition bad_status :: "string option \<Rightarrow> bool" where
  "bad_status s \<longleftrightarrow> (case s of None \<Rightarrow> False | Some x \<Rightarrow> \<not> isKeyStatus x)"

definition validateCreateApiKeyInput :: "CreateApiKeyInput \<Rightarrow> key_error + unit" where
  "validateCreateApiKeyInput inp =
     (if js_trim (ciKeyTenant inp) = [] then Inl (InvalidKey ''missing_tenant_id'')
      else if js_trim (ciPlaintext inp) = [] then Inl (InvalidKey ''missing_plaintext_key'')
      else if \<not> isModelProvider (ciKeyProvider inp) then Inl (InvalidKey ''invalid_provider'')
      else if js_trim (ciLabel inp) = [] then Inl (InvalidKey ''missing_label'')
      else if bad_rpm (ciRpm inp) then Inl (InvalidKey ''invalid_rpm_limit'')
      else if bad_rpd (ciRpd inp) then Inl (InvalidKey ''invalid_rpd_limit'')
      else if bad_status (ciKeyStatus inp) then Inl (InvalidKey ''invalid_status'')
      else Inr ())"

section \<open>Statements\<close>

definition insert_key :: "APIKey \<Rightarrow> key_table \<Rightarrow> key_table option" where
  "insert_key row db = (if akId row \<in> akId ` set db then None else Some (db @ [row]))"

definition key_row :: "string \<Rightarrow> string \<Rightarrow> APIKey \<Rightarrow> bool" where
  "key_row i t r \<longleftrightarrow> akId r = i \<and> akTenant r = t"

definition update_keys :: "(APIKey \<Rightarrow> bool) \<Rightarrow> (APIKey \<Rightarrow> APIKey) \<Rightarrow> key_table \<Rightarrow> key_table" where
  "update_keys P f db = map (\<lambda>r. if P r then f r else r) db"

text \<open>\<open>ORDER BY priority DESC, created_at ASC\<close>\<close>

definition by_priority :: "key_table \<Rightarrow> key_table" where
  "by_priority rows = sort_key (\<lambda>r. (- akPriority r, akCreated r)) rows"

text \<open>\<open>AND column = ?\<close>, added when the option is truthy; a negative \<open>LIMIT\<close> is none.\<close>

definition key_filter :: "string option \<Rightarrow> string \<Rightarrow> bool" where
  "key_filter opt v \<longleftrightarrow> opt = None \<or> opt = Some [] \<or> opt = Some v"

definition key_page :: "int option \<Rightarrow> int option \<Rightarrow> key_table \<Rightarrow> key_table" where
  "key_page limit offset rows =
     (case limit of
        None \<Rightarrow> rows
      | Some n \<Rightarrow>
          (let rest = drop (nat (first_some offset 0)) rows in if n < 0 then rest else take (nat n) rest))"

section \<open>The repository (repository.ts)\<close>

text \<open>The master key of the call or of the repository, as key material; an imported key is none.\<close>

definition key_material :: "'k KeyInput \<Rightarrow> key_error + (string + bytes)" where
  "key_material k = (case k of Passphrase s \<Rightarrow> Inr (Inl s) | RawKey b \<Rightarrow> Inr (Inr b) | Imported _ \<Rightarrow> Inl (CryptoFailed TypeErr))"

definition encryption_secret :: "'k KeyInput option \<Rightarrow> 'k KeyInput option \<Rightarrow> key_error + (string + bytes)" where
  "encryption_secret own override =
     (case resolveMasterKeyForEncryption own override of Inl e \<Rightarrow> Inl (CryptoFailed e) | Inr k \<Rightarrow> key_material k)"

definition decryption_secret :: "'k KeyInput option \<Rightarrow> 'k KeyInput option \<Rightarrow> key_error + (string + bytes)" where
  "decryption_secret own override =
     (case resolveMasterKeyForDecryption own override of Inl e \<Rightarrow> Inl (CryptoFailed e) | Inr k \<Rightarrow> key_material k)"

text \<open>\<open>encryptPlaintextKey\<close>, and the same steps written out in \<open>update\<close>.\<close>

definition encrypt_for ::
  "'k SubtleCrypto \<Rightarrow> random_source \<Rightarrow> nat \<Rightarrow> 'k KeyInput option \<Rightarrow> 'k KeyInput option \<Rightarrow> string \<Rightarrow> string \<Rightarrow>
   key_error + EncryptedParts" where
  "encrypt_for sc rnd k own override plain tenant =
     (case encryption_secret own override of
        Inl e \<Rightarrow> Inl e
      | Inr secret \<Rightarrow>
          (case encryptPlaintextKey sc rnd k plain tenant secret of Inl e \<Rightarrow> Inl (CryptoFailed e) | Inr parts \<Rightarrow> Inr parts))"

definition create ::
  "'k SubtleCrypto \<Rightarrow> random_source \<Rightarrow> nat \<Rightarrow> string \<Rightarrow> timestamp \<Rightarrow> 'k KeyInput option \<Rightarrow> CreateApiKeyInput \<Rightarrow>
   'k KeyInput option \<Rightarrow> key_table \<Rightarrow> (key_error + APIKey) \<times> key_table" where
  "create sc rnd k uuid now own inp override db =
     (case validateCreateApiKeyInput inp of
        Inl e \<Rightarrow> (Inl e, db)
      | Inr _ \<Rightarrow>
     (case encrypt_for sc rnd k own override (ciPlaintext inp) (ciKeyTenant inp) of
        Inl e \<Rightarrow> (Inl e, db)
      | Inr parts \<Rightarrow>
          (let row = \<lparr>akId = first_some (ciKeyId inp) uuid, akTenant = ciKeyTenant inp, akLabel = js_trim (ciLabel inp),
                      akProvider = ciKeyProvider inp, akEncrypted = epKeyB64 parts, akNonce = epKeyNonceB64 parts,
                      akPrefix = epPrefix parts, akSuffix = epSuffix parts,
                      akRpm = first_some (ciRpm inp) DEFAULT_RPM_LIMIT, akRpd = first_some (ciRpd inp) DEFAULT_RPD_LIMIT,
                      akPriority = first_some (ciPriority inp) 0, akStatus = first_some (ciKeyStatus inp) ''Healthy'',
                      akOpenUntil = ciOpenUntil inp, akLastUsed = None,
                      akCreated = first_some (ciCreated inp) (toISOString now)\<rparr>
           in case insert_key row db of None \<Rightarrow> (Inl StatementError, db) | Some db' \<Rightarrow> (Inr row, db'))))"

definition insertEncryptedKey ::
  "string \<Rightarrow> timestamp \<Rightarrow> InsertEncryptedApiKeyInput \<Rightarrow> key_table \<Rightarrow> (key_error + APIKey) \<times> key_table" where
  "insertEncryptedKey uuid now inp db =
     (if js_trim (iiTenant inp) = [] then (Inl (InvalidKey ''missing_tenant_id''), db)
      else if js_trim (iiLabel inp) = [] then (Inl (InvalidKey ''missing_label''), db)
      else if iiProvider inp = [] then (Inl (InvalidKey ''invalid_provider''), db)
      else if js_trim (iiEncrypted inp) = [] then (Inl (InvalidKey ''missing_ciphertext''), db)
      else if js_trim (iiNonce inp) = [] then (Inl (InvalidKey ''missing_nonce''), db)
      else case validatePreEncryptedNonce (iiNonce inp) of
        Inl e \<Rightarrow> (Inl (CryptoFailed e), db)
      | Inr _ \<Rightarrow>
          (let row = \<lparr>akId = first_some (iiId inp) uuid, akTenant = iiTenant inp, akLabel = js_trim (iiLabel inp),
                      akProvider = iiProvider inp, akEncrypted = iiEncrypted inp, akNonce = iiNonce inp,
                      akPrefix = first_some (iiPrefix inp) ''sk-...'', akSuffix = first_some (iiSuffix inp) ''...'',
                      akRpm = first_some (iiRpm inp) DEFAULT_RPM_LIMIT, akRpd = first_some (iiRpd inp) DEFAULT_RPD_LIMIT,
                      akPriority = first_some (iiPriority inp) 0, akStatus = first_some (iiStatus inp) ''Healthy'',
                      akOpenUntil = iiOpenUntil inp, akLastUsed = iiLastUsed inp,
                      akCreated = first_some (iiCreated inp) (toISOString now)\<rparr>
           in case insert_key row db of None \<Rightarrow> (Inl StatementError, db) | Some db' \<Rightarrow> (Inr row, db')))"

definition getById :: "string \<Rightarrow> string option \<Rightarrow> key_table \<Rightarrow> APIKey option" where
  "getById i t db = find (\<lambda>r. akId r = i \<and> (t = None \<or> t = Some (akTenant r))) db"

definition getByIdOrThrow :: "string \<Rightarrow> string option \<Rightarrow> key_table \<Rightarrow> key_error + APIKey" where
  "getByIdOrThrow i t db = (case getById i t db of None \<Rightarrow> Inl (KeyNotFound i) | Some key \<Rightarrow> Inr key)"

definition listKeysByTenant :: "string \<Rightarrow> ListApiKeysOptions option \<Rightarrow> key_table \<Rightarrow> key_table" where
  "listKeysByTenant t opts db =
     (case opts of
        None \<Rightarrow> by_priority (filter (\<lambda>r. akTenant r = t) db)
      | Some o' \<Rightarrow> key_page (lkLimit o') (lkOffset o')
          (by_priority (filter (\<lambda>r. akTenant r = t \<and> key_filter (lkProvider o') (akProvider r) \<and> key_filter (lkStatus o') (akStatus r)) db)))"

definition getActiveKeysForProvider :: "string \<Rightarrow> string \<Rightarrow> key_table \<Rightarrow> key_table" where
  "getActiveKeysForProvider t p db =
     by_priority (filter (\<lambda>r. akTenant r = t \<and> akProvider r = p \<and> akStatus r \<notin> {''Disabled'', ''disabled''}) db)"

definition decryptKeyRecord ::
  "'k SubtleCrypto \<Rightarrow> (bytes \<Rightarrow> unicode) \<Rightarrow> 'k KeyInput option \<Rightarrow> APIKey \<Rightarrow> 'k KeyInput option \<Rightarrow> key_error + unicode" where
  "decryptKeyRecord sc lossy own key override =
     (case decryption_secret own override of
        Inl e \<Rightarrow> Inl e
      | Inr secret \<Rightarrow>
          map_sum CryptoFailed id (decryptApiKeyRecord sc lossy (akTenant key) (akEncrypted key) (akNonce key) secret))"

definition getDecryptedKey ::
  "'k SubtleCrypto \<Rightarrow> (bytes \<Rightarrow> unicode) \<Rightarrow> 'k KeyInput option \<Rightarrow> string \<Rightarrow> string \<Rightarrow> 'k KeyInput option \<Rightarrow> key_table \<Rightarrow>
   key_error + unicode" where
  "getDecryptedKey sc lossy own i t override db =
     (case getByIdOrThrow i (Some t) db of Inl e \<Rightarrow> Inl e | Inr key \<Rightarrow> decryptKeyRecord sc lossy own key override)"

text \<open>The new ciphertext and mask, when the key is rotated.\<close>

definition rotated ::
  "'k SubtleCrypto \<Rightarrow> random_source \<Rightarrow> nat \<Rightarrow> 'k KeyInput option \<Rightarrow> 'k KeyInput option \<Rightarrow> string \<Rightarrow> UpdateApiKeyInput \<Rightarrow> APIKey \<Rightarrow>
   key_error + APIKey" where
  "rotated sc rnd k own override t upd key =
     (case uiPlaintext upd of
        None \<Rightarrow> Inr key
      | Some plain \<Rightarrow>
          if js_trim plain = [] then Inl (InvalidKey ''empty_plaintext_key'')
          else case encrypt_for sc rnd k own override plain t of
            Inl e \<Rightarrow> Inl e
          | Inr parts \<Rightarrow> Inr (key\<lparr>akEncrypted := epKeyB64 parts, akNonce := epKeyNonceB64 parts,
                                akPrefix := epPrefix parts, akSuffix := epSuffix parts\<rparr>))"

definition update_key ::
  "'k SubtleCrypto \<Rightarrow> random_source \<Rightarrow> nat \<Rightarrow> 'k KeyInput option \<Rightarrow> string \<Rightarrow> string \<Rightarrow> UpdateApiKeyInput \<Rightarrow>
   'k KeyInput option \<Rightarrow> key_table \<Rightarrow> (key_error + APIKey) \<times> key_table" where
  "update_key sc rnd k own i t upd override db =
     (case getByIdOrThrow i (Some t) db of
        Inl e \<Rightarrow> (Inl e, db)
      | Inr existing \<Rightarrow>
     (case rotated sc rnd k own override t upd existing of
        Inl e \<Rightarrow> (Inl e, db)
      | Inr key \<Rightarrow>
          (let label = (case uiLabel upd of Some l \<Rightarrow> js_trim l | None \<Rightarrow> akLabel existing) in
           if label = [] then (Inl (InvalidKey ''missing_label''), db)
           else if bad_rpm (uiRpm upd) then (Inl (InvalidKey ''invalid_rpm_limit''), db)
           else if bad_rpd (uiRpd upd) then (Inl (InvalidKey ''invalid_rpd_limit''), db)
           else if bad_status (uiStatus upd) then (Inl (InvalidKey ''invalid_status''), db)
           else
             (let f = (\<lambda>r. r\<lparr>akLabel := label, akEncrypted := akEncrypted key, akNonce := akNonce key,
                            akPrefix := akPrefix key, akSuffix := akSuffix key,
                            akRpm := first_some (uiRpm upd) (akRpm existing), akRpd := first_some (uiRpd upd) (akRpd existing),
                            akPriority := first_some (uiPriority upd) (akPriority existing),
                            akStatus := first_some (uiStatus upd) (akStatus existing),
                            akOpenUntil := first_some (uiOpenUntil upd) (akOpenUntil existing)\<rparr>)
              in (Inr (f existing), update_keys (key_row i t) f db)))))"

definition updateStatus ::
  "string \<Rightarrow> string \<Rightarrow> string \<Rightarrow> string option \<Rightarrow> key_table \<Rightarrow> (key_error + unit) \<times> key_table" where
  "updateStatus i t st openUntil db =
     (if \<not> isKeyStatus st then (Inl (InvalidKey ''invalid_status''), db)
      else case getByIdOrThrow i (Some t) db of
        Inl e \<Rightarrow> (Inl e, db)
      | Inr _ \<Rightarrow> (Inr (), update_keys (key_row i t) (\<lambda>r. r\<lparr>akStatus := st, akOpenUntil := openUntil\<rparr>) db))"

definition recordKeyUsage :: "timestamp \<Rightarrow> string \<Rightarrow> string option \<Rightarrow> string option \<Rightarrow> key_table \<Rightarrow> key_table" where
  "recordKeyUsage now i t stamp db =
     update_keys (\<lambda>r. akId r = i \<and> (t = None \<or> t = Some (akTenant r)))
       (\<lambda>r. r\<lparr>akLastUsed := Some (first_some stamp (toISOString now))\<rparr>) db"

definition delete_key :: "string \<Rightarrow> string \<Rightarrow> key_table \<Rightarrow> bool \<times> key_table" where
  "delete_key i t db =
     (case getById i (Some t) db of None \<Rightarrow> (False, db) | Some _ \<Rightarrow> (True, filter (Not \<circ> key_row i t) db))"

definition countKeysByTenant :: "string \<Rightarrow> string option \<Rightarrow> string option \<Rightarrow> key_table \<Rightarrow> int" where
  "countKeysByTenant t prov st db =
     int (length (filter (\<lambda>r. akTenant r = t \<and> key_filter prov (akProvider r) \<and> key_filter st (akStatus r)) db))"

section \<open>The storage adapter (d1/keys.ts)\<close>

text \<open>The part of \<open>EncryptedKey\<close> (\<open>contracts/key_pool.ts\<close>) the adapter reads and writes.\<close>

record PoolKey =
  pkId :: string
  pkTenant :: string
  pkProvider :: string
  pkCiphertext :: string
  pkNonce :: string

datatype adapter_error = TenantEmpty | FieldEmpty

definition mapRowToEncryptedKey :: "APIKey \<Rightarrow> PoolKey" where
  "mapRowToEncryptedKey r =
     \<lparr>pkId = akId r, pkTenant = akTenant r, pkProvider = akProvider r, pkCiphertext = akEncrypted r, pkNonce = akNonce r\<rparr>"

definition getKeysForTenant :: "string \<Rightarrow> key_table \<Rightarrow> adapter_error + PoolKey list" where
  "getKeysForTenant t db =
     (if js_trim t = [] then Inl TenantEmpty
      else Inr (map mapRowToEncryptedKey (by_priority (filter (\<lambda>r. akTenant r = js_trim t) db))))"

definition getKeyById :: "string \<Rightarrow> string \<Rightarrow> key_table \<Rightarrow> adapter_error + PoolKey option" where
  "getKeyById t i db =
     (if js_trim t = [] then Inl TenantEmpty
      else if js_trim i = [] then Inl FieldEmpty
      else Inr (map_option mapRowToEncryptedKey (find (key_row (js_trim i) (js_trim t)) db)))"

text \<open>\<open>CURRENT_TIMESTAMP\<close> of SQL, the default of \<open>created_at\<close>.\<close>

definition current_timestamp :: "timestamp \<Rightarrow> string" where
  "current_timestamp now =
     (let s = toISOString now; n = length s
      in take (n - 14) s @ CHR '' '' # take 8 (drop (n - 13) s))"

text \<open>\<open>INSERT ... ON CONFLICT (id) DO UPDATE\<close>: every column but \<open>id\<close> and \<open>created_at\<close> is overwritten.\<close>

fun upsert_key :: "APIKey \<Rightarrow> key_table \<Rightarrow> key_table" where
  "upsert_key new [] = [new]"
| "upsert_key new (r # rs) = (if akId r = akId new then new\<lparr>akCreated := akCreated r\<rparr> # rs else r # upsert_key new rs)"

definition saveEncryptedKey :: "timestamp \<Rightarrow> PoolKey \<Rightarrow> key_table \<Rightarrow> (adapter_error + unit) \<times> key_table" where
  "saveEncryptedKey now key db =
     (if js_trim (pkTenant key) = [] then (Inl TenantEmpty, db)
      else if js_trim (pkId key) = [] \<or> js_trim (pkProvider key) = [] \<or> js_trim (pkCiphertext key) = [] \<or> js_trim (pkNonce key) = []
      then (Inl FieldEmpty, db)
      else (Inr (), upsert_key
        \<lparr>akId = js_trim (pkId key), akTenant = js_trim (pkTenant key), akLabel = pkProvider key @ '' Key'',
         akProvider = js_trim (pkProvider key), akEncrypted = js_trim (pkCiphertext key), akNonce = js_trim (pkNonce key),
         akPrefix = ''enc_'', akSuffix = ''...'', akRpm = 60, akRpd = 1500, akPriority = 0, akStatus = ''Healthy'',
         akOpenUntil = None, akLastUsed = None, akCreated = current_timestamp now\<rparr> db))"

definition deleteKey :: "string \<Rightarrow> string \<Rightarrow> key_table \<Rightarrow> (adapter_error + unit) \<times> key_table" where
  "deleteKey t i db =
     (if js_trim t = [] then (Inl TenantEmpty, db)
      else if js_trim i = [] then (Inl FieldEmpty, db)
      else (Inr (), filter (Not \<circ> key_row (js_trim i) (js_trim t)) db))"

section \<open>Encryption of stored keys\<close>

lemma secrets_agree: "encryption_secret own override = Inr s \<Longrightarrow> decryption_secret own override = Inr s"
  by (auto simp: encryption_secret_def decryption_secret_def resolveMasterKeyForEncryption_def
      resolveMasterKeyForDecryption_def split: option.splits sum.splits if_splits)

lemma encrypt_for_decrypts:
  assumes "subtle_ok sc" "encrypt_for sc rnd k own override plain t = Inr parts"
    and "akTenant key = t" "akEncrypted key = epKeyB64 parts" "akNonce key = epKeyNonceB64 parts"
  shows "decryptKeyRecord sc lossy own key override = Inr (map of_char plain)"
proof -
  from assms(2) obtain secret where secret: "encryption_secret own override = Inr secret"
    "encryptPlaintextKey sc rnd k plain t secret = Inr parts"
    by (auto simp: encrypt_for_def split: sum.splits)
  then obtain r where r: "encrypt sc rnd k (PlainText (map of_char plain)) (Imported (deriveTenantKey sc secret t)) None = Inr r"
    "epKeyB64 parts = epCiphertextB64 r" "epKeyNonceB64 parts = epNonceB64 r"
    by (auto simp: encryptPlaintextKey_def Let_def split: sum.splits)
  from decrypt_imported [OF assms(1) r(1) string_scalar] secrets_agree [OF secret(1)] assms(3-5) r(2,3) show ?thesis
    by (simp add: decryptKeyRecord_def decryptApiKeyRecord_def as_decryption_error_def)
qed

lemma insert_key_find:
  assumes "insert_key row db = Some db'"
  shows "getById (akId row) (Some (akTenant row)) db' = Some row"
proof -
  have row: "akId row \<notin> akId ` set db" "db' = db @ [row]"
    using assms by (auto simp: insert_key_def split: if_splits)
  have "find P (xs @ [x]) = Some x" if "\<forall>y\<in>set xs. \<not> P y" "P x" for P x and xs :: key_table
    using that by (induction xs) auto
  moreover have "\<forall>y\<in>set db. \<not> (akId y = akId row \<and> (Some (akTenant row) = None \<or> Some (akTenant row) = Some (akTenant y)))"
    using row(1) by (metis imageI)
  ultimately show ?thesis by (simp only: getById_def row(2)) simp
qed

lemma getById_update:
  assumes "\<And>r. akId (f r) = akId r" "\<And>r. akTenant (f r) = akTenant r"
  shows "getById i (Some t) (update_keys (key_row i t) f db) = map_option f (getById i (Some t) db)"
  by (induction db) (auto simp: getById_def update_keys_def key_row_def assms)

lemma create_Inr:
  assumes "create sc rnd k uuid now own inp override db = (Inr key, db')"
  obtains parts where "encrypt_for sc rnd k own override (ciPlaintext inp) (ciKeyTenant inp) = Inr parts"
    "akTenant key = ciKeyTenant inp" "akEncrypted key = epKeyB64 parts" "akNonce key = epKeyNonceB64 parts"
    "insert_key key db = Some db'"
  using assms by (auto simp: create_def Let_def split: sum.splits option.splits)

lemma update_Inr:
  assumes "update_key sc rnd k own i t upd override db = (Inr key2, db')"
  obtains existing f where "getById i (Some t) db = Some existing" "getById i (Some t) db' = Some key2"
    "akTenant key2 = akTenant existing"
    "\<And>plain. uiPlaintext upd = Some plain \<Longrightarrow> \<exists>parts. encrypt_for sc rnd k own override plain t = Inr parts
       \<and> akEncrypted key2 = epKeyB64 parts \<and> akNonce key2 = epKeyNonceB64 parts"
    "uiPlaintext upd = None \<Longrightarrow> akEncrypted key2 = akEncrypted existing \<and> akNonce key2 = akNonce existing"
proof -
  obtain existing where existing: "getById i (Some t) db = Some existing"
    using assms by (auto simp: update_key_def getByIdOrThrow_def split: option.splits)
  then obtain key where key: "rotated sc rnd k own override t upd existing = Inr key"
    using assms by (auto simp: update_key_def getByIdOrThrow_def split: sum.splits)
  obtain f where f: "key2 = f existing" "db' = update_keys (key_row i t) f db"
    "\<And>r. akId (f r) = akId r" "\<And>r. akTenant (f r) = akTenant r"
    "\<And>r. akEncrypted (f r) = akEncrypted key" "\<And>r. akNonce (f r) = akNonce key"
    using assms existing key
    by (auto simp: update_key_def getByIdOrThrow_def Let_def split: if_splits)
  have "getById i (Some t) db' = Some key2"
    using getById_update [OF f(3,4), of i t db] by (simp add: f(1,2) existing)
  moreover have "\<exists>parts. encrypt_for sc rnd k own override plain t = Inr parts
      \<and> akEncrypted key2 = epKeyB64 parts \<and> akNonce key2 = epKeyNonceB64 parts" if "uiPlaintext upd = Some plain" for plain
    using key that by (auto simp: rotated_def f(1,5,6) split: if_splits sum.splits)
  moreover have "akEncrypted key2 = akEncrypted existing \<and> akNonce key2 = akNonce existing" if "uiPlaintext upd = None"
    using key that by (simp add: rotated_def f(1,5,6))
  ultimately show ?thesis using that [OF existing] f(1,4) by metis
qed

text \<open>
  C15. A stored key comes back as it was. What \<open>create\<close> encrypts and stores is, for its id and tenant and under
  the same master key, decrypted to the same plaintext; and after any successful \<open>update\<close> it is
  decrypted to the new plaintext where the key was rotated and to the old one otherwise.
\<close>

theorem stored_keys_roundtrip:
  assumes "subtle_ok sc" and "create sc rnd k uuid now own inp override db = (Inr key, db1)"
    and "update_key sc rnd k' own (akId key) (ciKeyTenant inp) upd override db1 = (Inr key2, db2)"
  shows "getDecryptedKey sc lossy own (akId key) (ciKeyTenant inp) override db1 = Inr (map of_char (ciPlaintext inp))
    \<and> getDecryptedKey sc lossy own (akId key) (ciKeyTenant inp) override db2 =
        Inr (map of_char (first_some (uiPlaintext upd) (ciPlaintext inp)))"
proof -
  from assms(2) obtain parts where parts: "encrypt_for sc rnd k own override (ciPlaintext inp) (ciKeyTenant inp) = Inr parts"
    "akTenant key = ciKeyTenant inp" "akEncrypted key = epKeyB64 parts" "akNonce key = epKeyNonceB64 parts"
    "insert_key key db = Some db1" by (rule create_Inr)
  note found = insert_key_find [OF parts(5), unfolded parts(2)]
  have first: "decryptKeyRecord sc lossy own r override = Inr (map of_char (ciPlaintext inp))"
    if "akTenant r = ciKeyTenant inp" "akEncrypted r = akEncrypted key" "akNonce r = akNonce key" for r
    using encrypt_for_decrypts [OF assms(1) parts(1), of r lossy] parts(3,4) that by simp
  have "getDecryptedKey sc lossy own (akId key) (ciKeyTenant inp) override db2 =
      Inr (map of_char (first_some (uiPlaintext upd) (ciPlaintext inp)))"
    using assms(3)
  proof (rule update_Inr)
    fix existing
    assume *: "getById (akId key) (Some (ciKeyTenant inp)) db1 = Some existing"
      "getById (akId key) (Some (ciKeyTenant inp)) db2 = Some key2" "akTenant key2 = akTenant existing"
      "\<And>plain. uiPlaintext upd = Some plain \<Longrightarrow> \<exists>parts. encrypt_for sc rnd k' own override plain (ciKeyTenant inp) = Inr parts
         \<and> akEncrypted key2 = epKeyB64 parts \<and> akNonce key2 = epKeyNonceB64 parts"
      "uiPlaintext upd = None \<Longrightarrow> akEncrypted key2 = akEncrypted existing \<and> akNonce key2 = akNonce existing"
    with found have same: "existing = key" by simp
    have "decryptKeyRecord sc lossy own key2 override = Inr (map of_char (first_some (uiPlaintext upd) (ciPlaintext inp)))"
    proof (cases "uiPlaintext upd")
      case None
      with first [of key2] *(3,5) same parts(2) show ?thesis by simp
    next
      case (Some plain)
      with *(4) obtain parts' where "encrypt_for sc rnd k' own override plain (ciKeyTenant inp) = Inr parts'"
        "akEncrypted key2 = epKeyB64 parts'" "akNonce key2 = epKeyNonceB64 parts'" by blast
      from encrypt_for_decrypts [OF assms(1) this(1) _ this(2,3), of lossy] *(3) same parts(2) Some show ?thesis by simp
    qed
    with *(2) show ?thesis by (simp add: getDecryptedKey_def getByIdOrThrow_def)
  qed
  with first [OF parts(2) refl refl] found show ?thesis by (simp add: getDecryptedKey_def getByIdOrThrow_def)
qed

section \<open>Isolation of tenants\<close>

definition own_keys :: "string \<Rightarrow> key_table \<Rightarrow> key_table" where
  "own_keys t db = filter (\<lambda>r. akTenant r = t) db"

lemma own_keys_reads:
  "getById i (Some t) (own_keys t db) = getById i (Some t) db"
  "filter (\<lambda>r. akTenant r = t \<and> P r) (own_keys t db) = filter (\<lambda>r. akTenant r = t \<and> P r) db"
  "filter (\<lambda>r. akTenant r = t) (own_keys t db) = filter (\<lambda>r. akTenant r = t) db"
  "find (key_row i t) (own_keys t db) = find (key_row i t) db"
proof -
  show "getById i (Some t) (own_keys t db) = getById i (Some t) db" "find (key_row i t) (own_keys t db) = find (key_row i t) db"
    by (induction db) (auto simp: getById_def own_keys_def key_row_def)
qed (simp_all add: own_keys_def conj_ac cong: conj_cong)

lemma own_keys_writes:
  "insert_key row db = Some db' \<Longrightarrow> akTenant row \<noteq> t \<Longrightarrow> own_keys t db' = own_keys t db"
  "(\<And>r. akTenant (f r) = akTenant r) \<Longrightarrow> (\<And>r. P r \<Longrightarrow> akTenant r \<noteq> t) \<Longrightarrow> own_keys t (update_keys P f db) = own_keys t db"
  "u \<noteq> t \<Longrightarrow> own_keys t (filter (Not \<circ> key_row i u) db) = own_keys t db"
proof -
  show "insert_key row db = Some db' \<Longrightarrow> akTenant row \<noteq> t \<Longrightarrow> own_keys t db' = own_keys t db"
    by (auto simp: insert_key_def own_keys_def split: if_splits)
  show "own_keys t (update_keys P f db) = own_keys t db"
    if "\<And>r. akTenant (f r) = akTenant r" "\<And>r. P r \<Longrightarrow> akTenant r \<noteq> t"
    using that by (induction db) (auto simp: own_keys_def update_keys_def)
  show "u \<noteq> t \<Longrightarrow> own_keys t (filter (Not \<circ> key_row i u) db) = own_keys t db"
    by (induction db) (auto simp: own_keys_def key_row_def)
qed

lemma own_keys_update:
  assumes "u \<noteq> t" "\<And>r. akTenant (f r) = akTenant r"
  shows "own_keys t (update_keys (key_row i u) f db) = own_keys t db"
    and "own_keys t (update_keys (\<lambda>r. akId r = i \<and> u = akTenant r) f db) = own_keys t db"
  using assms by (auto intro!: own_keys_writes(2) simp: key_row_def)

lemma update_key_own:
  "u \<noteq> t \<Longrightarrow> own_keys t (snd (update_key sc rnd k own i u upd override db)) = own_keys t db"
  by (simp add: update_key_def Let_def own_keys_update split: sum.split)

text \<open>A row written over another one is the row of its new tenant.\<close>

lemma own_keys_upsert:
  "distinct (map akId db) \<Longrightarrow> akTenant new \<noteq> t \<Longrightarrow>
   own_keys t (upsert_key new db) = filter (\<lambda>r. akId r \<noteq> akId new) (own_keys t db)"
proof (induction db)
  case (Cons r rs)
  have "filter (\<lambda>x. akId x \<noteq> akId new) (own_keys t rs) = own_keys t rs" if "akId r = akId new"
  proof (rule filter_True, rule ballI)
    fix x assume "x \<in> set (own_keys t rs)"
    then have "akId x \<in> akId ` set rs" by (simp add: own_keys_def)
    with Cons.prems(1) that show "akId x \<noteq> akId new" by auto
  qed
  with Cons show ?case by (auto simp: own_keys_def)
qed (simp add: own_keys_def)

lemma own_keys_save:
  assumes "distinct (map akId db)" "js_trim (pkTenant key) \<noteq> t"
  shows "own_keys t (snd (saveEncryptedKey now key db)) =
    (case fst (saveEncryptedKey now key db) of
       Inl _ \<Rightarrow> own_keys t db | Inr _ \<Rightarrow> filter (\<lambda>r. akId r \<noteq> js_trim (pkId key)) (own_keys t db))"
  using own_keys_upsert [OF assms(1)] assms(2) by (simp add: saveEncryptedKey_def)

text \<open>
  C13. What separates the tenants in the key table. What the repository and the adapter read for a tenant
  depends on that tenant's rows only. Creating, inserting, updating, marking, using and deleting keys in
  the name of another tenant leaves the tenant's rows as they were. The one exception is the adapter's
  \<open>saveEncryptedKey\<close>: accepted for another tenant, it leaves the tenant's rows except the one, if any, that
  has the saved id; that row is taken away from the tenant. (Identifiers are unique, the primary key of
  the table. Calls of \<open>getById\<close> and \<open>recordKeyUsage\<close> that name no tenant are not meant.)
\<close>

theorem key_table_isolation:
  assumes "ciKeyTenant inp \<noteq> t" and "iiTenant einp \<noteq> t" and "u \<noteq> t" and "js_trim u \<noteq> t" and "js_trim t' = t"
    and "distinct (map akId db)" and "js_trim (pkTenant saved) \<noteq> t"
  defines "own \<equiv> own_keys t"
  shows "getById i (Some t) (own db) = getById i (Some t) db
    \<and> listKeysByTenant t opts (own db) = listKeysByTenant t opts db
    \<and> getActiveKeysForProvider t p (own db) = getActiveKeysForProvider t p db
    \<and> countKeysByTenant t prov st (own db) = countKeysByTenant t prov st db
    \<and> getKeysForTenant t' (own db) = getKeysForTenant t' db
    \<and> getKeyById t' i (own db) = getKeyById t' i db
    \<and> own (snd (create sc rnd k uuid now master inp override db)) = own db
    \<and> own (snd (insertEncryptedKey uuid now einp db)) = own db
    \<and> own (snd (update_key sc rnd k master i u upd override db)) = own db
    \<and> own (snd (updateStatus i u newStatus openUntil db)) = own db
    \<and> own (recordKeyUsage now i (Some u) stamp db) = own db
    \<and> own (snd (delete_key i u db)) = own db
    \<and> own (snd (deleteKey u i db)) = own db
    \<and> own (snd (saveEncryptedKey now saved db)) =
        (case fst (saveEncryptedKey now saved db) of
           Inl _ \<Rightarrow> own db | Inr _ \<Rightarrow> filter (\<lambda>r. akId r \<noteq> js_trim (pkId saved)) (own db))"
proof -
  have "listKeysByTenant t opts (own db) = listKeysByTenant t opts db"
    unfolding own_def listKeysByTenant_def own_keys_reads ..
  moreover have "getActiveKeysForProvider t p (own db) = getActiveKeysForProvider t p db"
    "countKeysByTenant t prov st (own db) = countKeysByTenant t prov st db"
    unfolding own_def getActiveKeysForProvider_def countKeysByTenant_def own_keys_reads by (rule refl)+
  moreover have "getKeysForTenant t' (own db) = getKeysForTenant t' db" "getKeyById t' i (own db) = getKeyById t' i db"
    unfolding own_def getKeysForTenant_def getKeyById_def assms(5) own_keys_reads by (rule refl)+
  moreover have "own (snd (create sc rnd k uuid now master inp override db)) = own db"
    using assms(1) by (simp add: own_def create_def Let_def own_keys_writes(1) split: sum.split option.split)
  moreover have "own (snd (insertEncryptedKey uuid now einp db)) = own db"
    using assms(2) by (simp add: own_def insertEncryptedKey_def Let_def own_keys_writes(1) split: sum.split option.split)
  moreover have "own (snd (updateStatus i u newStatus openUntil db)) = own db" "own (recordKeyUsage now i (Some u) stamp db) = own db"
    using assms(3) by (simp_all add: own_def updateStatus_def recordKeyUsage_def own_keys_update split: sum.split)
  moreover have "own (snd (delete_key i u db)) = own db" "own (snd (deleteKey u i db)) = own db"
    using assms(3,4) by (simp_all add: own_def delete_key_def deleteKey_def own_keys_writes(3) split: option.split)
  moreover have "own (snd (update_key sc rnd k master i u upd override db)) = own db"
    "getById i (Some t) (own db) = getById i (Some t) db"
    unfolding own_def by (rule update_key_own [OF assms(3)], rule own_keys_reads(1))
  moreover note own_keys_save [OF assms(6, 7), folded own_def]
  ultimately show ?thesis by blast
qed

section \<open>Saving under a foreign id\<close>

lemma upsert_key_alt:
  "distinct (map akId db) \<Longrightarrow>
   upsert_key new db =
     (if akId new \<in> akId ` set db then map (\<lambda>r. if akId r = akId new then new\<lparr>akCreated := akCreated r\<rparr> else r) db
      else db @ [new])"
proof (induction db)
  case (Cons r rs)
  show ?case
  proof (cases "akId r = akId new")
    case True
    with Cons.prems have "akId new \<notin> akId ` set rs" by simp
    then have "\<forall>x\<in>set rs. akId x \<noteq> akId new" by (metis imageI)
    then have "map (\<lambda>r. if akId r = akId new then new\<lparr>akCreated := akCreated r\<rparr> else r) rs = rs"
      by (intro map_idI) auto
    with True show ?thesis by simp
  next
    case False
    with Cons show ?thesis by auto
  qed
qed simp

lemma find_unique:
  "x \<in> set xs \<Longrightarrow> P x \<Longrightarrow> (\<And>y. y \<in> set xs \<Longrightarrow> P y \<Longrightarrow> y = x) \<Longrightarrow> find P xs = Some x"
proof (induction xs)
  case (Cons a xs)
  show ?case
  proof (cases "P a")
    case True
    with Cons.prems(3) [of a] show ?thesis by simp
  next
    case False
    with Cons.prems(1,2) have "x \<in> set xs" by auto
    from Cons.IH [OF this Cons.prems(2)] Cons.prems(3) have "find P xs = Some x" by (meson list.set_intros(2))
    with False show ?thesis by simp
  qed
qed simp

text \<open>
  \<open>saveEncryptedKey\<close> is not bound to a tenant. If a tenant saves a key under an id that belongs to
  another tenant, the call succeeds and the row changes hands: the other tenant's key is gone, for the
  repository and for the adapter, and the caller finds a healthy key under that id. The number of rows is the same.
\<close>

theorem save_takes_over_foreign_key:
  assumes "distinct (map akId db)" and "r \<in> set db" and "akId r = js_trim (pkId key)"
    and "akTenant r \<noteq> js_trim (pkTenant key)"
    and "saveEncryptedKey now key db = (Inr (), db')"
  shows "getById (akId r) (Some (akTenant r)) db = Some r
    \<and> getById (akId r) (Some (akTenant r)) db' = None
    \<and> (\<exists>row. getById (akId r) (Some (js_trim (pkTenant key))) db' = Some row \<and> akStatus row = ''Healthy''
          \<and> akEncrypted row = js_trim (pkCiphertext key))
    \<and> length db' = length db"
proof -
  define new where "new = \<lparr>akId = js_trim (pkId key), akTenant = js_trim (pkTenant key), akLabel = pkProvider key @ '' Key'',
     akProvider = js_trim (pkProvider key), akEncrypted = js_trim (pkCiphertext key), akNonce = js_trim (pkNonce key),
     akPrefix = ''enc_'', akSuffix = ''...'', akRpm = 60, akRpd = 1500, akPriority = 0, akStatus = ''Healthy'',
     akOpenUntil = None, akLastUsed = None, akCreated = current_timestamp now\<rparr>"
  then have new: "db' = upsert_key new db" "akId new = akId r" "akTenant new = js_trim (pkTenant key)"
    "akStatus new = ''Healthy''" "akEncrypted new = js_trim (pkCiphertext key)"
    using assms(3,5) by (simp_all add: saveEncryptedKey_def split: if_splits)
  have "akId new \<in> akId ` set db" using assms(2) new(2) by (metis imageI)
  then have db': "db' = map (\<lambda>x. if akId x = akId r then new\<lparr>akCreated := akCreated x\<rparr> else x) db"
    using upsert_key_alt [OF assms(1), of new] new(1,2) by simp
  have only: "akId x = akId r \<longleftrightarrow> x = r" if "x \<in> set db" for x
    using assms(1,2) that inj_on_eq_iff [of akId "set db" x r] by (simp add: distinct_map)
  have "getById (akId r) (Some (akTenant r)) db = Some r"
    unfolding getById_def by (rule find_unique) (use assms(2) only in auto)
  moreover have "getById (akId r) (Some (akTenant r)) db' = None"
    using assms(4) new(2,3) by (auto simp: getById_def find_None_iff db')
  moreover have "\<exists>row. getById (akId r) (Some (js_trim (pkTenant key))) db' = Some row \<and> akStatus row = ''Healthy''
      \<and> akEncrypted row = js_trim (pkCiphertext key)"
    using assms(2) new(2-5) unfolding db'
  proof (induction db)
    case (Cons x xs)
    then show ?case by (cases "akId x = akId r") (auto simp: getById_def)
  qed simp
  ultimately show ?thesis by (simp add: db')
qed

text \<open>A key created with white space around its tenant id is out of reach of the adapter, which trims.\<close>

theorem padded_tenant_not_loaded:
  assumes "create sc rnd k uuid now own inp override db = (Inr key, db')"
    and "js_trim (ciKeyTenant inp) \<noteq> ciKeyTenant inp" and "getKeysForTenant (ciKeyTenant inp) db' = Inr keys"
    and "akId key \<notin> akId ` set db"
  shows "akId key \<notin> pkId ` set keys"
proof -
  from assms(1) have row: "akTenant key = ciKeyTenant inp" "db' = db @ [key]"
    by (auto simp: create_def insert_key_def Let_def split: sum.splits option.splits if_splits)
  with assms(2-4) show ?thesis
    by (auto simp: getKeysForTenant_def by_priority_def mapRowToEncryptedKey_def split: if_splits)
qed

section \<open>Instances\<close>

definition globex_input :: CreateApiKeyInput where
  "globex_input =
     \<lparr>ciKeyId = Some ''k1'', ciKeyTenant = ''globex'', ciLabel = ''main'', ciKeyProvider = ''openai'', ciPlaintext = ''sk-1234'',
      ciRpm = None, ciRpd = None, ciPriority = None, ciKeyStatus = None, ciOpenUntil = None, ciCreated = Some ''2024-02-29''\<rparr>"

definition no_update :: UpdateApiKeyInput where
  "no_update = \<lparr>uiLabel = None, uiRpm = None, uiRpd = None, uiPriority = None, uiStatus = None, uiOpenUntil = None, uiPlaintext = None\<rparr>"

definition acme_save :: PoolKey where
  "acme_save = \<lparr>pkId = ''k1'', pkTenant = ''acme'', pkProvider = ''openai'', pkCiphertext = ''AAAA'', pkNonce = ''BBBB''\<rparr>"

lemma globex_texts:
  "js_trim ''globex'' = ''globex''" "js_trim ''main'' = ''main''" "js_trim ''openai'' = ''openai''" "js_trim ''sk-1234'' = ''sk-1234''"
  "js_trim ''sk-5678'' = ''sk-5678''" "js_trim ''k1'' = ''k1''" "js_trim ''acme'' = ''acme''" "js_trim ''AAAA'' = ''AAAA''" "js_trim ''BBBB'' = ''BBBB''"
  by code_simp+

lemma toy_encrypts: "\<exists>parts. encrypt_for toy_subtle (\<lambda>_ _. 7) k (Some (Passphrase ''secret'')) None plain t = Inr parts"
  by (simp add: encrypt_for_def encryption_secret_def resolveMasterKeyForEncryption_def key_material_def encryptPlaintextKey_def
      encrypt_def generateNonce_def secureRandomBytes_def resolveKey_def toy_subtle_def Let_def length_defs)

lemma globex_created:
  "\<exists>key. create toy_subtle (\<lambda>_ _. 7) 0 ''u'' 0 (Some (Passphrase ''secret'')) globex_input None [] = (Inr key, [key])
     \<and> akId key = ''k1'' \<and> akTenant key = ''globex'' \<and> akLabel key = ''main''"
proof -
  obtain parts where "encrypt_for toy_subtle (\<lambda>_ _. 7) 0 (Some (Passphrase ''secret'')) None ''sk-1234'' ''globex'' = Inr parts"
    using toy_encrypts by blast
  then show ?thesis
    by (simp add: create_def globex_input_def validateCreateApiKeyInput_def globex_texts isModelProvider_def bad_rpm_def
        bad_rpd_def bad_status_def insert_key_def Let_def)
qed

theorem stored_keys_roundtrip_witness:
  "\<exists>key db2. create toy_subtle (\<lambda>_ _. 7) 0 ''u'' 0 (Some (Passphrase ''secret'')) globex_input None [] = (Inr key, [key])
     \<and> getDecryptedKey toy_subtle (\<lambda>_. []) (Some (Passphrase ''secret'')) ''k1'' ''globex'' None [key] = Inr (map of_char ''sk-1234'')
     \<and> getDecryptedKey toy_subtle (\<lambda>_. []) (Some (Passphrase ''secret'')) ''k1'' ''globex'' None db2 = Inr (map of_char ''sk-5678'')"
proof -
  obtain key where key: "create toy_subtle (\<lambda>_ _. 7) 0 ''u'' 0 (Some (Passphrase ''secret'')) globex_input None [] = (Inr key, [key])"
    "akId key = ''k1''" "akTenant key = ''globex''" "akLabel key = ''main''" using globex_created by blast
  let ?upd = "no_update\<lparr>uiPlaintext := Some ''sk-5678''\<rparr>"
  obtain parts where "encrypt_for toy_subtle (\<lambda>_ _. 7) 1 (Some (Passphrase ''secret'')) None ''sk-5678'' ''globex'' = Inr parts"
    using toy_encrypts by blast
  then obtain key2 db2 where upd: "update_key toy_subtle (\<lambda>_ _. 7) 1 (Some (Passphrase ''secret'')) (akId key) (ciKeyTenant globex_input)
      ?upd None [key] = (Inr key2, db2)"
    by (simp add: update_key_def getByIdOrThrow_def getById_def key rotated_def globex_input_def no_update_def globex_texts
        bad_rpm_def bad_rpd_def bad_status_def Let_def)
  from stored_keys_roundtrip [OF toy_subtle_ok key(1) upd, of "\<lambda>_. []"] key(1,2) show ?thesis
    by (auto simp: globex_input_def no_update_def)
qed

definition acme_insert :: InsertEncryptedApiKeyInput where
  "acme_insert =
     \<lparr>iiId = None, iiTenant = ''acme'', iiLabel = ''b'', iiProvider = ''openai'', iiEncrypted = ''AAAA'', iiNonce = ''BBBB'', iiPrefix = None,
      iiSuffix = None, iiRpm = None, iiRpd = None, iiPriority = None, iiStatus = None, iiOpenUntil = None, iiLastUsed = None, iiCreated = None\<rparr>"

text \<open>A table with a key of \<open>globex\<close> and one of \<open>initech\<close>.\<close>

definition two_keys :: key_table where
  "two_keys =
     [\<lparr>akId = ''k1'', akTenant = ''globex'', akLabel = ''a'', akProvider = ''openai'', akEncrypted = ''AAAA'', akNonce = ''BBBB'',
       akPrefix = ''enc_'', akSuffix = ''...'', akRpm = 60, akRpd = 1500, akPriority = 0, akStatus = ''Healthy'',
       akOpenUntil = None, akLastUsed = None, akCreated = ''2024-02-29''\<rparr>,
      \<lparr>akId = ''k2'', akTenant = ''initech'', akLabel = ''b'', akProvider = ''groq'', akEncrypted = ''CCCC'', akNonce = ''DDDD'',
       akPrefix = ''enc_'', akSuffix = ''...'', akRpm = 60, akRpd = 1500, akPriority = 0, akStatus = ''Healthy'',
       akOpenUntil = None, akLastUsed = None, akCreated = ''2024-03-01''\<rparr>]"

text \<open>\<open>acme\<close> deletes and saves under \<open>k1\<close>: \<open>initech\<close> keeps its key, \<open>globex\<close> loses its own to the save.\<close>

theorem key_table_isolation_witness:
  "own_keys ''initech'' two_keys \<noteq> [] \<and>
   own_keys ''initech'' (snd (delete_key ''k2'' ''acme'' two_keys)) = own_keys ''initech'' two_keys \<and>
   own_keys ''initech'' (snd (saveEncryptedKey 0 acme_save two_keys)) = own_keys ''initech'' two_keys \<and>
   own_keys ''globex'' two_keys \<noteq> [] \<and> own_keys ''globex'' (snd (saveEncryptedKey 0 acme_save two_keys)) = []"
proof -
  have trim: "js_trim ''initech'' = ''initech''" by code_simp
  have distinct: "distinct (map akId two_keys)" by (simp add: two_keys_def)
  have save: "fst (saveEncryptedKey 0 acme_save two_keys) = Inr ()"
    by (simp add: saveEncryptedKey_def acme_save_def globex_texts)
  have fields: "js_trim (pkTenant acme_save) = ''acme''" "js_trim (pkId acme_save) = ''k1''"
    by (simp_all add: acme_save_def globex_texts)
  have other: "ciKeyTenant (globex_input\<lparr>ciKeyTenant := ''acme''\<rparr>) = ''acme''" "iiTenant acme_insert = ''acme''"
    by (simp_all add: acme_insert_def)
  note at_k2 = key_table_isolation [where inp = "globex_input\<lparr>ciKeyTenant := ''acme''\<rparr>" and einp = acme_insert and u = "''acme''"
      and db = two_keys and saved = acme_save and now = 0 and i = "''k2''" and sc = toy_subtle]
  note initech = at_k2 [where t = "''initech''" and t' = "''initech''"] and globex = at_k2 [where t = "''globex''" and t' = "''globex''"]
  have "own_keys ''initech'' (snd (delete_key ''k2'' ''acme'' two_keys)) = own_keys ''initech'' two_keys"
    "own_keys ''initech'' (snd (saveEncryptedKey 0 acme_save two_keys)) = filter (\<lambda>r. akId r \<noteq> ''k1'') (own_keys ''initech'' two_keys)"
    using initech trim distinct save fields other globex_texts(7) by auto
  moreover have "own_keys ''globex'' (snd (saveEncryptedKey 0 acme_save two_keys)) = filter (\<lambda>r. akId r \<noteq> ''k1'') (own_keys ''globex'' two_keys)"
    using globex distinct save fields other globex_texts(1, 7) by auto
  ultimately show ?thesis by (simp add: own_keys_def two_keys_def)
qed

theorem save_takes_over_foreign_key_witness:
  "\<exists>key db'. create toy_subtle (\<lambda>_ _. 7) 0 ''u'' 0 (Some (Passphrase ''secret'')) globex_input None [] = (Inr key, [key])
     \<and> saveEncryptedKey 0 acme_save [key] = (Inr (), db') \<and> getById ''k1'' (Some ''globex'') db' = None"
proof -
  obtain key where key: "create toy_subtle (\<lambda>_ _. 7) 0 ''u'' 0 (Some (Passphrase ''secret'')) globex_input None [] = (Inr key, [key])"
    "akId key = ''k1''" "akTenant key = ''globex''" using globex_created by blast
  obtain db' where save: "saveEncryptedKey 0 acme_save [key] = (Inr (), db')"
    by (simp add: saveEncryptedKey_def acme_save_def globex_texts)
  from save_takes_over_foreign_key [OF _ _ _ _ save, of key] key save show ?thesis
    by (auto simp: acme_save_def globex_texts)
qed

end
