(* ===== verification/Sybil.thy ===== *)
theory Sybil
  imports Quota JsLib
begin

text \<open>
  \<open>src/auth/sybil/\<close>: who may register. Turnstile verification (\<open>turnstile.ts\<close>), the subnet, email and ASN
  checks with the in-memory registration tracker (\<open>utils.ts\<close>), the assessment of a registration
  (\<open>engine.ts\<close>) and the score of a sign-in (\<open>scoring.ts\<close>). Where the input has several spellings of a field,
  the model has the one that \<open>??\<close> or \<open>||\<close> picks. The HTTP calls are functions of what is sent, headers a
  function of the lower-case name, \<open>Date.parse\<close> is \<open>parse\<close>; the time of a call is its injected \<open>now\<close>.
  Reasons, challenge times and host names are left out.
\<close>

section \<open>Constants (constants.ts)\<close>

definition BUILDER_MIN_ACCOUNT_AGE_DAYS :: int where "BUILDER_MIN_ACCOUNT_AGE_DAYS = 30"
definition BUILDER_MIN_PUBLIC_REPOS :: int where "BUILDER_MIN_PUBLIC_REPOS = 1"
definition BUILDER_MIN_CONTRIBUTIONS :: int where "BUILDER_MIN_CONTRIBUTIONS = 5"
definition SYBIL_SCORE_BUILDER_THRESHOLD :: int where "SYBIL_SCORE_BUILDER_THRESHOLD = 65"
definition SYBIL_SCORE_PROBATIONARY_THRESHOLD :: int where "SYBIL_SCORE_PROBATIONARY_THRESHOLD = 40"
definition SUBNET_VELOCITY_WINDOW_MS :: int where "SUBNET_VELOCITY_WINDOW_MS = 30 * 24 * 60 * 60 * 1000"
definition MAX_REGISTRATIONS_PER_SUBNET :: int where "MAX_REGISTRATIONS_PER_SUBNET = 1"
definition SYBIL_MIN_ACCOUNT_AGE_DAYS :: int where "SYBIL_MIN_ACCOUNT_AGE_DAYS = 30"
definition SYBIL_MIN_ACTIVITY_REPOS :: int where "SYBIL_MIN_ACTIVITY_REPOS = 5"
definition SYBIL_MIN_ACTIVITY_CONTRIBUTIONS :: int where "SYBIL_MIN_ACTIVITY_CONTRIBUTIONS = 20"

text \<open>\<open>TURNSTILE_TEST_TOKENS\<close>: those that pass, that fail, and the one that counts as spent.\<close>

definition TEST_TOKENS_PASS :: "string list" where
  "TEST_TOKENS_PASS = [''1x0000000000000000000000000000000AA'', ''valid_turnstile_response'']"

definition TEST_TOKENS_FAIL :: "string list" where
  "TEST_TOKENS_FAIL = [''2x0000000000000000000000000000000AB'', ''invalid_turnstile_response'']"

definition TEST_TOKEN_SPENT :: string where
  "TEST_TOKEN_SPENT = ''3x0000000000000000000000000000000AC''"

definition DISPOSABLE_EMAIL_DOMAINS :: "string list" where
  "DISPOSABLE_EMAIL_DOMAINS =
     [''temp-mail.org'', ''tempmail.com'', ''guerrillamail.com'', ''guerrillamail.net'', ''guerrillamail.org'', ''mailinator.com'',
      ''10minutemail.com'', ''10minutemail.net'', ''throwawaymail.com'', ''trashmail.com'', ''trashmail.net'', ''trashmail.org'',
      ''yopmail.com'', ''yopmail.fr'', ''yopmail.net'', ''sharklasers.com'', ''getairmail.com'', ''dispostable.com'', ''burnermail.io'',
      ''fakeinbox.com'', ''maildrop.cc'', ''mohmal.com'', ''fakemailgenerator.com'', ''crazymailing.com'', ''mytemp.email'',
      ''emailondeck.com'', ''tempail.com'', ''inboxkitten.com'', ''generator.email'', ''discard.email'']"

definition DATACENTER_ASNS :: "int list" where
  "DATACENTER_ASNS = [16509, 14618, 24940, 14061, 16276, 63949, 15169, 8075, 31898, 20473, 45102, 200130]"

section \<open>\<open>Number(s)\<close> and string methods\<close>

datatype jsnumber = NaN | Infinite bool | Finite rat

text \<open>An unsigned decimal literal: digits, a fraction, an exponent; \<open>None\<close> if it is none.\<close>

definition exponent_of :: "string \<Rightarrow> int option" where
  "exponent_of s =
     (case s of
        [] \<Rightarrow> Some 0
      | c # t \<Rightarrow>
          if c \<noteq> CHR ''e'' \<and> c \<noteq> CHR ''E'' then None
          else (case t of
                  [] \<Rightarrow> None
                | d # u \<Rightarrow>
                    if d = CHR ''-'' then map_option uminus (decimal_val u)
                    else if d = CHR ''+'' then decimal_val u
                    else decimal_val t))"

definition decimal_literal :: "string \<Rightarrow> rat option" where
  "decimal_literal s =
     (let whole = takeWhile is_digit s; rest = dropWhile is_digit s;
          point = rest \<noteq> [] \<and> hd rest = CHR ''.'';
          frac = (if point then takeWhile is_digit (tl rest) else []);
          rest2 = (if point then dropWhile is_digit (tl rest) else rest);
          n = of_nat (digits_val (whole @ frac)) :: rat
      in if whole @ frac = [] then None
         else (case exponent_of rest2 of
                 None \<Rightarrow> None
               | Some e \<Rightarrow>
                   (let k = e - int (length frac)
                    in Some (if k \<ge> 0 then n * 10 ^ nat k else n / 10 ^ nat (- k)))))"

text \<open>A decimal numeral stands for itself, not for the nearest double.\<close>

definition js_number :: "string \<Rightarrow> jsnumber" where
  "js_number s =
     (let t = js_trim s; p = js_lower (take 2 t);
          radix = (\<lambda>r. case radix_val r (drop 2 t) of Some i \<Rightarrow> Finite (of_int i) | None \<Rightarrow> NaN) in
      if t = [] then Finite 0
      else if p = ''0x'' then radix 16
      else if p = ''0o'' then radix 8
      else if p = ''0b'' then radix 2
      else
        (let negative = hd t = CHR ''-''; body = (if negative \<or> hd t = CHR ''+'' then tl t else t) in
         if body = ''Infinity'' then Infinite negative
         else case decimal_literal body of
           None \<Rightarrow> NaN
         | Some q \<Rightarrow> Finite (if negative then - q else q)))"

fun split_on :: "char \<Rightarrow> string \<Rightarrow> string list" where
  "split_on c [] = [[]]"
| "split_on c (x # xs) =
     (if x = c then [] # split_on c xs
      else (case split_on c xs of [] \<Rightarrow> [[x]] | y # ys \<Rightarrow> (x # y) # ys))"

section \<open>Subnets, emails, networks (utils.ts)\<close>

text \<open>An octet that \<open>Number\<close> reads as a value from 0 to 255; \<open>pr\<close> prints a value that is not integral.\<close>

definition octet :: "(rat \<Rightarrow> string) \<Rightarrow> string \<Rightarrow> string option" where
  "octet pr s =
     (case js_number s of
        Finite q \<Rightarrow>
          if 0 \<le> q \<and> q \<le> 255 then Some (if of_int \<lfloor>q\<rfloor> = q then bigint_to_string \<lfloor>q\<rfloor> else pr q) else None
      | _ \<Rightarrow> None)"

definition ipv4_subnet :: "(rat \<Rightarrow> string) \<Rightarrow> string \<Rightarrow> string option" where
  "ipv4_subnet pr trimmed =
     (case map (octet pr) (split_on CHR ''.'' trimmed) of
        [Some p0, Some p1, Some p2, Some p3] \<Rightarrow> Some (p0 @ ''.'' @ p1 @ ''.'' @ p2 @ ''.0/24'')
      | _ \<Rightarrow> None)"

definition extractSubnet :: "(rat \<Rightarrow> string) \<Rightarrow> string \<Rightarrow> string" where
  "extractSubnet pr ip =
     (if ip = [] then ''0.0.0.0/24''
      else
        (let trimmed = js_trim ip in
         case ipv4_subnet pr trimmed of
           Some s \<Rightarrow> s
         | None \<Rightarrow>
             if CHR '':'' \<in> set trimmed then
               (case filter (\<lambda>s. s \<noteq> []) (split_on CHR '':'' trimmed) of
                  s0 # s1 # s2 # _ \<Rightarrow> s0 @ '':'' @ s1 @ '':'' @ s2 @ ''::/48''
                | _ \<Rightarrow> trimmed @ ''::/48'')
             else trimmed @ ''/24''))"

text \<open>What follows the last \<open>@\<close>; \<open>None\<close> where there is none or nothing follows it.\<close>

definition email_domain :: "string \<Rightarrow> string option" where
  "email_domain email =
     (let after = rev (takeWhile (\<lambda>c. c \<noteq> CHR ''@'') (rev email))
      in if CHR ''@'' \<notin> set email \<or> after = [] then None else Some (js_trim (js_lower after)))"

text \<open>The parent domains with at least two labels.\<close>

definition parent_domains :: "string \<Rightarrow> string list" where
  "parent_domains d =
     (let parts = split_on CHR ''.'' d in map (\<lambda>i. join ''.'' (drop i parts)) [1 ..< length parts - 1])"

definition isDisposableEmail :: "string \<Rightarrow> bool" where
  "isDisposableEmail email \<longleftrightarrow>
     (case email_domain email of
        None \<Rightarrow> True
      | Some d \<Rightarrow>
          d = [] \<or> d \<in> set DISPOSABLE_EMAIL_DOMAINS \<or>
          list_ex (\<lambda>p. p \<in> set DISPOSABLE_EMAIL_DOMAINS) (parent_domains d))"

text \<open>\<open>number | string | undefined\<close>\<close>

datatype asn = AsnNumber int | AsnText string

definition isDatacenterAsn :: "asn option \<Rightarrow> bool" where
  "isDatacenterAsn a \<longleftrightarrow>
     (case a of
        None \<Rightarrow> False
      | Some (AsnNumber n) \<Rightarrow> n \<in> set DATACENTER_ASNS
      | Some (AsnText s) \<Rightarrow> int (digits_val (filter is_digit s)) \<in> set DATACENTER_ASNS)"

section \<open>The registration tracker\<close>

type_synonym tracker = "(string, timestamp list) jsmap"

definition active_since :: "timestamp \<Rightarrow> timestamp list \<Rightarrow> timestamp list" where
  "active_since cutoff ts = filter (\<lambda>t. t > cutoff) ts"

definition getSubnetRegistrationCount :: "string \<Rightarrow> int \<Rightarrow> timestamp \<Rightarrow> tracker \<Rightarrow> int \<times> tracker" where
  "getSubnetRegistrationCount subnet windowMs now tr =
     (case map_of tr subnet of
        None \<Rightarrow> (0, tr)
      | Some ts \<Rightarrow>
          if ts = [] then (0, tr)
          else
            (let active = active_since (now - windowMs) ts
             in (int (length active),
                 if length active = length ts then tr
                 else if active \<noteq> [] then AList.update subnet active tr
                 else AList.delete subnet tr)))"

definition recordRegistration :: "string \<Rightarrow> timestamp \<Rightarrow> tracker \<Rightarrow> tracker" where
  "recordRegistration subnet ts tr = AList.update subnet (first_some (map_of tr subnet) [] @ [ts]) tr"

definition reset_tracker :: "tracker \<Rightarrow> tracker" where
  "reset_tracker tr = []"

section \<open>Turnstile (turnstile.ts)\<close>

text \<open>What the \<open>siteverify\<close> call comes to; a body without success is one whose success is falsy.\<close>

datatype siteverify = CallFailed | HttpStatus int | Verdict bool "string list option"

record TurnstileVerificationResult =
  tvSuccess :: bool
  tvErrors :: "string list option"

definition refused :: "string \<Rightarrow> TurnstileVerificationResult" where
  "refused e = \<lparr>tvSuccess = False, tvErrors = Some [e]\<rparr>"

definition verifyTurnstileToken ::
  "(string \<Rightarrow> string \<Rightarrow> string option \<Rightarrow> siteverify) \<Rightarrow> string option \<Rightarrow> string option \<Rightarrow> string option \<Rightarrow>
   TurnstileVerificationResult" where
  "verifyTurnstileToken call secretKey remoteIp token =
     (let trimmedToken = js_trim (first_some token []) in
      if trimmedToken = [] then refused ''missing-input-response''
      else if trimmedToken \<in> set TEST_TOKENS_PASS then \<lparr>tvSuccess = True, tvErrors = None\<rparr>
      else if trimmedToken \<in> set TEST_TOKENS_FAIL then refused ''invalid-input-response''
      else if trimmedToken = TEST_TOKEN_SPENT then refused ''timeout-or-duplicate''
      else case secretKey of
        None \<Rightarrow> refused ''missing-secret-key''
      | Some secret \<Rightarrow>
          if secret = [] then refused ''missing-secret-key''
          else case call secret trimmedToken (if remoteIp = Some [] then None else remoteIp) of
            CallFailed \<Rightarrow> refused ''internal-verification-network-error''
          | HttpStatus s \<Rightarrow> refused (''http-'' @ bigint_to_string s)
          | Verdict ok errors \<Rightarrow> \<lparr>tvSuccess = ok, tvErrors = errors\<rparr>)"

section \<open>Assessment of a registration (engine.ts)\<close>

text \<open>A creation time: a string, a \<open>Date\<close> (perhaps invalid) or a number.\<close>

datatype creation_date = CreatedText string | CreatedDate "timestamp option" | CreatedNumber int

text \<open>Milliseconds; \<open>None\<close> is \<open>NaN\<close>.\<close>

definition created_ms :: "(string \<Rightarrow> timestamp option) \<Rightarrow> timestamp \<Rightarrow> creation_date option \<Rightarrow> timestamp option" where
  "created_ms parse now c =
     (case c of
        None \<Rightarrow> Some now
      | Some (CreatedDate d) \<Rightarrow> d
      | Some (CreatedNumber n) \<Rightarrow> Some n
      | Some (CreatedText s) \<Rightarrow> (case parse s of Some t \<Rightarrow> Some t | None \<Rightarrow> Some now))"

definition account_age :: "timestamp \<Rightarrow> timestamp option \<Rightarrow> int option" where
  "account_age now c = map_option (\<lambda>t. max 0 ((now - t) div 86400000)) c"

record AntiSybilInput =
  asToken :: "string option"
  asIp :: string
  asAsn :: "asn option"
  asCountry :: "string option"
  asTor :: bool
  asEmail :: string
  asVerified :: bool
  asCreated :: "creation_date option"
  asRepos :: int
  asContributions :: int

record AntiSybilAssessment =
  saPassed :: bool
  saScore :: int
  saTier :: UserTier
  saTurnstile :: bool
  saEmailOk :: bool
  saAge :: "int option"
  saRepos :: int
  saContributions :: int
  saSubnetCount :: int

definition at_least_days :: "int \<Rightarrow> int option \<Rightarrow> bool" where
  "at_least_days n age \<longleftrightarrow> (case age of Some a \<Rightarrow> a \<ge> n | None \<Rightarrow> False)"

definition penalty :: "bool \<Rightarrow> int \<Rightarrow> int \<Rightarrow> int" where
  "penalty b n score = (if b then score - n else score)"

definition engine_score :: "bool \<Rightarrow> bool \<Rightarrow> bool \<Rightarrow> bool \<Rightarrow> bool \<Rightarrow> bool \<Rightarrow> bool \<Rightarrow> bool \<Rightarrow> bool \<Rightarrow> int" where
  "engine_score turnstile exceeded datacenter tor disposable verified mature repos contributions =
     (let raw =
        (if \<not> turnstile then 0
         else penalty (\<not> contributions) 10 (penalty (\<not> repos) 15 (penalty (\<not> mature) 20 (penalty (\<not> verified) 25
           (let s = penalty tor 30 (penalty datacenter 25 (penalty exceeded 45 100))
            in if disposable then min s 20 else s)))))
      in max 0 (min 100 raw))"

definition tier_for :: "bool \<Rightarrow> bool \<Rightarrow> int \<Rightarrow> bool \<Rightarrow> UserTier" where
  "tier_for turnstile disposable score authentic =
     (if \<not> turnstile \<or> disposable \<or> score < SYBIL_SCORE_PROBATIONARY_THRESHOLD then Suspended
      else if score \<ge> SYBIL_SCORE_BUILDER_THRESHOLD \<and> authentic then Builder
      else Probationary)"

definition client_ip :: "AntiSybilInput \<Rightarrow> string" where
  "client_ip inp = (if asIp inp = [] then ''0.0.0.0'' else asIp inp)"

text \<open>The arguments after the number printer and the date parser are the options of the call.\<close>

definition evaluateAntiSybil ::
  "(rat \<Rightarrow> string) \<Rightarrow> (string \<Rightarrow> timestamp option) \<Rightarrow> (string \<Rightarrow> string \<Rightarrow> string option \<Rightarrow> siteverify) \<Rightarrow> string option \<Rightarrow>
   bool option \<Rightarrow> timestamp \<Rightarrow> AntiSybilInput \<Rightarrow> tracker \<Rightarrow> AntiSybilAssessment \<times> tracker" where
  "evaluateAntiSybil pr parse call secret recordOnPass now inp tr =
     (let turnstile = tvSuccess (verifyTurnstileToken call secret (Some (client_ip inp)) (asToken inp));
          subnet = extractSubnet pr (client_ip inp);
          (count, tr1) = getSubnetRegistrationCount subnet SUBNET_VELOCITY_WINDOW_MS now tr;
          exceeded = count \<ge> MAX_REGISTRATIONS_PER_SUBNET;
          tor = (asTor inp \<or> asCountry inp = Some ''T1'');
          disposable = isDisposableEmail (js_trim (asEmail inp));
          age = account_age now (created_ms parse now (asCreated inp));
          repos = max 0 (asRepos inp); contributions = max 0 (asContributions inp);
          mature = at_least_days BUILDER_MIN_ACCOUNT_AGE_DAYS age;
          hasRepos = repos \<ge> BUILDER_MIN_PUBLIC_REPOS; hasContributions = contributions \<ge> BUILDER_MIN_CONTRIBUTIONS;
          score = engine_score turnstile exceeded (isDatacenterAsn (asAsn inp)) tor disposable (asVerified inp)
                    mature hasRepos hasContributions;
          tier = tier_for turnstile disposable score (mature \<and> hasRepos \<and> hasContributions \<and> \<not> exceeded);
          passed = (tier \<noteq> Suspended)
      in (\<lparr>saPassed = passed, saScore = score, saTier = tier, saTurnstile = turnstile, saEmailOk = \<not> disposable, saAge = age,
           saRepos = repos, saContributions = contributions, saSubnetCount = count\<rparr>,
          if passed \<and> first_some recordOnPass True then recordRegistration subnet now tr1 else tr1))"

record SybilScore =
  ssScore :: int
  ssPassed :: bool
  ssTier :: UserTier
  ssRisk :: string
  ssVpn :: bool
  ssTor :: bool
  ssDisposable :: bool
  ssRateLimited :: bool
  ssIp :: string

definition risk_level :: "int \<Rightarrow> string" where
  "risk_level score =
     (if score \<ge> 80 then ''low'' else if score \<ge> 60 then ''medium'' else if score \<ge> 40 then ''high'' else ''critical'')"

definition toSybilScore :: "AntiSybilAssessment \<Rightarrow> AntiSybilInput \<Rightarrow> SybilScore" where
  "toSybilScore a inp =
     \<lparr>ssScore = 100 - saScore a, ssPassed = saPassed a, ssTier = saTier a, ssRisk = risk_level (saScore a),
      ssVpn = isDatacenterAsn (asAsn inp), ssTor = (asTor inp \<or> asCountry inp = Some ''T1''), ssDisposable = (\<not> saEmailOk a),
      ssRateLimited = (saSubnetCount a \<ge> MAX_REGISTRATIONS_PER_SUBNET), ssIp = client_ip inp\<rparr>"

section \<open>The score of a sign-in (scoring.ts)\<close>

record SybilUserInput =
  suCreated :: "creation_date option"
  suRepos :: "int option"
  suContributions :: "int option"
  suEmail :: "string option"
  suUsername :: "string option"
  suAccessToken :: "string option"
  suTurnstile :: "string option"
  suVerified :: bool
  suRegistrationIp :: "string option"

record CfProperties =
  cfAsn :: "asn option"
  cfCountry :: "string option"
  cfTor :: bool
  cfBotScore :: "jsnumber option"

record SybilRequest =
  srHeader :: "string \<Rightarrow> string option"
  srCf :: "CfProperties option"
  srIp :: "string option"
  srTurnstile :: "string option"

text \<open>The profile the GitHub API returns; a call that fails or is refused returns none.\<close>

record GitHubProfile =
  ghCreated :: "string option"
  ghRepos :: "int option"
  ghEmail :: "string option"
  ghTotalContributions :: "int option"
  ghContributions :: "int option"
  ghContributionsCount :: "int option"

fun or_else :: "'a option \<Rightarrow> 'a option \<Rightarrow> 'a option" where
  "or_else None y = y"
| "or_else (Some x) y = Some x"

definition truthy_text :: "string option \<Rightarrow> bool" where
  "truthy_text s \<longleftrightarrow> s \<noteq> None \<and> s \<noteq> Some []"

definition extractHeaderValue :: "SybilRequest option \<Rightarrow> string \<Rightarrow> string option" where
  "extractHeaderValue req name = (case req of None \<Rightarrow> None | Some r \<Rightarrow> srHeader r name)"

definition score_ip :: "SybilUserInput \<Rightarrow> SybilRequest option \<Rightarrow> string" where
  "score_ip user req =
     (let h = extractHeaderValue req;
          ip = or_else (h ''cf-connecting-ip'') (or_else (h ''x-real-ip'')
                 (map_option (\<lambda>s. js_trim (hd (split_on CHR '','' s))) (h ''x-forwarded-for'')));
          ip2 = (if truthy_text ip then ip else or_else (Option.bind req srIp) ip)
      in if truthy_text ip2 then the ip2
         else if truthy_text (suRegistrationIp user) then the (suRegistrationIp user)
         else ''127.0.0.1'')"

definition truthy_created :: "creation_date option \<Rightarrow> bool" where
  "truthy_created c \<longleftrightarrow> c \<notin> {None, Some (CreatedText []), Some (CreatedNumber 0)}"

text \<open>The fields GitHub fills in, those that are missing.\<close>

definition with_profile :: "GitHubProfile \<Rightarrow> SybilUserInput \<Rightarrow> SybilUserInput" where
  "with_profile p u =
     u\<lparr>suCreated := (if truthy_text (ghCreated p) \<and> \<not> truthy_created (suCreated u) then map_option CreatedText (ghCreated p) else suCreated u),
       suRepos := or_else (suRepos u) (ghRepos p),
       suEmail := (if truthy_text (ghEmail p) \<and> \<not> truthy_text (suEmail u) then ghEmail p else suEmail u),
       suContributions := or_else (suContributions u)
         (or_else (ghTotalContributions p) (or_else (ghContributions p) (ghContributionsCount p)))\<rparr>"

definition resolved_user ::
  "(string option \<Rightarrow> string option \<Rightarrow> GitHubProfile option) \<Rightarrow> SybilUserInput \<Rightarrow> SybilUserInput" where
  "resolved_user github u =
     (if truthy_text (suUsername u) \<or> truthy_text (suAccessToken u)
      then (case github (suUsername u) (suAccessToken u) of None \<Rightarrow> u | Some p \<Rightarrow> with_profile p u)
      else u)"

definition score_token :: "SybilUserInput \<Rightarrow> SybilRequest option \<Rightarrow> string option" where
  "score_token user req =
     (let h = extractHeaderValue req
      in or_else (h ''cf-turnstile-response'') (or_else (h ''cf-turnstile-token'') (or_else (h ''x-turnstile-token'')
           (or_else (h ''turnstile-token'') (or_else (Option.bind req srTurnstile) (suTurnstile user))))))"

definition bot_score :: "SybilRequest option \<Rightarrow> jsnumber option" where
  "bot_score req =
     (case Option.bind (Option.bind req srCf) cfBotScore of
        Some n \<Rightarrow> Some n
      | None \<Rightarrow>
          (case or_else (extractHeaderValue req ''cf-bot-score'') (extractHeaderValue req ''x-bot-score'') of
             None \<Rightarrow> None
           | Some s \<Rightarrow> (case js_number s of NaN \<Rightarrow> None | n \<Rightarrow> Some n)))"

fun below_30 :: "jsnumber option \<Rightarrow> bool" where
  "below_30 (Some (Finite q)) \<longleftrightarrow> q < 30"
| "below_30 (Some (Infinite negative)) \<longleftrightarrow> negative"
| "below_30 _ \<longleftrightarrow> False"

text \<open>The call to \<open>verifyTurnstileToken\<close> passes no secret.\<close>

definition score_turnstile ::
  "(string \<Rightarrow> string \<Rightarrow> string option \<Rightarrow> siteverify) \<Rightarrow> SybilUserInput \<Rightarrow> SybilRequest option \<Rightarrow> bool" where
  "score_turnstile call user req =
     (let token = score_token user req in
      if below_30 (bot_score req) then False
      else if js_trim (first_some token []) \<noteq> [] then tvSuccess (verifyTurnstileToken call None (Some (score_ip user req)) token)
      else True)"

record SybilScoreResult =
  srScore :: int
  srPassed :: bool
  srTier :: UserTier
  srRisk :: string
  srVpn :: bool
  srTor :: bool
  srDisposable :: bool
  srExceeded :: bool
  srTurnstileFailed :: bool
  srYoung :: bool
  srLowActivity :: bool
  srSourceIp :: string
  srCount :: int

definition bonus :: "bool \<Rightarrow> int \<Rightarrow> int \<Rightarrow> int" where
  "bonus b n score = (if b then score + n else score)"

definition synthesis :: "bool \<Rightarrow> bool \<Rightarrow> bool \<Rightarrow> bool \<Rightarrow> bool \<Rightarrow> bool \<Rightarrow> bool \<Rightarrow> bool \<Rightarrow> int" where
  "synthesis turnstile exceeded datacenter tor disposable verified mature activity =
     (let s = bonus activity 20 (bonus mature 20 (penalty (\<not> verified) 10 (bonus (\<not> disposable) 20
                (penalty tor 10 (penalty datacenter 10 (bonus (\<not> exceeded) 20 (bonus turnstile 20 0)))))));
          raw = (if \<not> turnstile then 0 else if disposable then min s 20 else s)
      in max 0 (min 100 raw))"

definition calculateSybilScore ::
  "(rat \<Rightarrow> string) \<Rightarrow> (string \<Rightarrow> timestamp option) \<Rightarrow> (string \<Rightarrow> string \<Rightarrow> string option \<Rightarrow> siteverify) \<Rightarrow>
   (string option \<Rightarrow> string option \<Rightarrow> GitHubProfile option) \<Rightarrow> timestamp \<Rightarrow> SybilUserInput \<Rightarrow> SybilRequest option \<Rightarrow>
   tracker \<Rightarrow> SybilScoreResult \<times> tracker" where
  "calculateSybilScore pr parse call github now user req tr =
     (let ip = score_ip user req; subnet = extractSubnet pr ip; u = resolved_user github user;
          turnstile = score_turnstile call user req;
          (count, tr1) = getSubnetRegistrationCount subnet SUBNET_VELOCITY_WINDOW_MS now tr;
          exceeded = count \<ge> MAX_REGISTRATIONS_PER_SUBNET;
          cf = Option.bind req srCf;
          datacenter = isDatacenterAsn (or_else (Option.bind cf cfAsn) (map_option AsnText (extractHeaderValue req ''cf-ray-asn'')));
          tor = (case cf of None \<Rightarrow> False | Some c \<Rightarrow> cfTor c \<or> cfCountry c = Some ''T1'');
          disposable = isDisposableEmail (js_trim (first_some (suEmail u) []));
          age = account_age now (created_ms parse now (suCreated u));
          mature = at_least_days (SYBIL_MIN_ACCOUNT_AGE_DAYS + 1) age;
          activity = (max 0 (first_some (suRepos u) 0) > SYBIL_MIN_ACTIVITY_REPOS \<or>
                      max 0 (first_some (suContributions u) 0) > SYBIL_MIN_ACTIVITY_CONTRIBUTIONS);
          score = synthesis turnstile exceeded datacenter tor disposable (suVerified u) mature activity;
          tier = tier_for turnstile disposable score (mature \<and> activity \<and> \<not> exceeded);
          passed = (tier \<noteq> Suspended)
      in (\<lparr>srScore = score, srPassed = passed, srTier = tier, srRisk = risk_level score, srVpn = datacenter, srTor = tor,
           srDisposable = disposable, srExceeded = exceeded, srTurnstileFailed = (\<not> turnstile), srYoung = (\<not> mature),
           srLowActivity = (\<not> activity), srSourceIp = ip, srCount = count\<rparr>,
          if passed \<and> \<not> exceeded then recordRegistration subnet now tr1 else tr1))"

end
