(* ===== verification/SybilProps.thy ===== *)
theory SybilProps
  imports Sybil
begin

text \<open>
  The registration gate of theory \<open>Sybil\<close>: when an applicant gets which tier, that a subnet gets one
  builder in thirty days, and which tokens the sign-in score accepts.
\<close>

section \<open>The verdict of the engine\<close>

lemmas thresholds = SYBIL_SCORE_BUILDER_THRESHOLD_def SYBIL_SCORE_PROBATIONARY_THRESHOLD_def

lemma tier_for_suspended:
  "tier_for turnstile disposable score authentic \<noteq> Suspended \<longleftrightarrow> turnstile \<and> \<not> disposable \<and> 40 \<le> score"
  by (auto simp: tier_for_def thresholds)

lemma tier_for_builder:
  "tier_for turnstile disposable score authentic = Builder \<longleftrightarrow> turnstile \<and> \<not> disposable \<and> 65 \<le> score \<and> authentic"
  by (auto simp: tier_for_def thresholds)

lemma tier_for_range: "tier_for turnstile disposable score authentic \<in> {Suspended, Probationary, Builder}"
  by (auto simp: tier_for_def)

definition at_most_one :: "bool list \<Rightarrow> bool" where
  "at_most_one bs \<longleftrightarrow> length (filter id bs) \<le> 1"

lemma engine_score_authentic:
  "65 \<le> engine_score True False datacenter tor False verified True True True \<longleftrightarrow> at_most_one [datacenter, tor, \<not> verified]"
  by (simp add: engine_score_def penalty_def at_most_one_def)

lemma penalty_points: "penalty b n score = score - (if b then n else 0)"
  by (simp add: penalty_def)

lemma engine_score_points:
  "engine_score turnstile exceeded datacenter tor disposable verified mature repos contributions =
    (if turnstile then max 0
       ((if disposable then min 20 (100 - ((if exceeded then 45 else 0) + (if datacenter then 25 else 0) + (if tor then 30 else 0)))
         else 100 - ((if exceeded then 45 else 0) + (if datacenter then 25 else 0) + (if tor then 30 else 0)))
        - ((if verified then 0 else 25) + (if mature then 0 else 20) + (if repos then 0 else 15) + (if contributions then 0 else 10)))
     else 0)"
proof -
  define network where "network = (if exceeded then 45 else 0 :: int) + (if datacenter then 25 else 0) + (if tor then 30 else 0)"
  define person where "person =
    (if verified then 0 else 25 :: int) + (if mature then 0 else 20) + (if repos then 0 else 15) + (if contributions then 0 else 10)"
  have sums: "penalty tor 30 (penalty datacenter 25 (penalty exceeded 45 100)) = 100 - network"
    "penalty (\<not> contributions) 10 (penalty (\<not> repos) 15 (penalty (\<not> mature) 20 (penalty (\<not> verified) 25 x))) = x - person"
    for x
    by (simp_all add: network_def person_def penalty_points)
  have "0 \<le> network" "0 \<le> person" by (simp_all add: network_def person_def)
  then have "max 0 (min 100 ((if disposable then min (100 - network) 20 else 100 - network) - person)) =
      max 0 ((if disposable then min 20 (100 - network) else 100 - network) - person)"
    by (simp add: min_def max_def)
  then show ?thesis
    unfolding engine_score_def Let_def sums network_def [symmetric] person_def [symmetric] by simp
qed

lemma count_nonneg: "0 \<le> fst (getSubnetRegistrationCount s w now tr)"
  by (simp add: getSubnetRegistrationCount_def Let_def split: option.split)

text \<open>
  C27. Who is admitted, and as what. The score is 100 less 45 for a registration from the subnet within
  thirty days, 25 for a data-center network, 30 for a Tor exit, 25 for an unverified email, 20 for an account
  younger than thirty days, 15 for no repository and 10 for fewer than five contributions, never below
  0; a disposable email caps what the network leaves at 20, and a refused Turnstile token means 0. An
  applicant passes exactly if Turnstile accepted the token, the email is not disposable and the deductions are
  at most 60; and becomes a builder exactly if, besides, the account is thirty days old with a repository
  and five contributions, nobody registered from the subnet in thirty days, and at most one of a
  data-center network, a Tor exit and an unverified email speaks against it.
\<close>

theorem assessment_exact:
  shows "let a = fst (evaluateAntiSybil pr parse call secret recordOnPass now inp tr);
             turnstile = tvSuccess (verifyTurnstileToken call secret (Some (client_ip inp)) (asToken inp));
             disposable = isDisposableEmail (js_trim (asEmail inp));
             age = account_age now (created_ms parse now (asCreated inp));
             tor = (asTor inp \<or> asCountry inp = Some ''T1'');
             count = fst (getSubnetRegistrationCount (extractSubnet pr (client_ip inp)) SUBNET_VELOCITY_WINDOW_MS now tr);
             network = (if 1 \<le> count then 45 else 0) + (if isDatacenterAsn (asAsn inp) then 25 else 0) + (if tor then 30 else 0);
             person = (if asVerified inp then 0 else 25) + (if at_least_days 30 age then 0 else 20) +
               (if 1 \<le> asRepos inp then 0 else 15) + (if 5 \<le> asContributions inp then 0 else 10)
         in saScore a = (if turnstile then max 0 ((if disposable then min 20 (100 - network) else 100 - network) - person) else 0)
            \<and> (saPassed a = (turnstile \<and> \<not> disposable \<and> network + person \<le> 60))
            \<and> (saPassed a = (saTier a \<noteq> Suspended)) \<and> saTier a \<in> {Suspended, Probationary, Builder}
            \<and> ((saTier a = Builder) =
                (turnstile \<and> \<not> disposable \<and> count = 0 \<and> at_least_days 30 age \<and> 1 \<le> asRepos inp \<and> 5 \<le> asContributions inp
                 \<and> at_most_one [isDatacenterAsn (asAsn inp), tor, \<not> asVerified inp]))"
proof -
  define count where "count = fst (getSubnetRegistrationCount (extractSubnet pr (client_ip inp)) SUBNET_VELOCITY_WINDOW_MS now tr)"
  define turnstile where "turnstile = tvSuccess (verifyTurnstileToken call secret (Some (client_ip inp)) (asToken inp))"
  define disposable where "disposable = isDisposableEmail (js_trim (asEmail inp))"
  define mature where "mature = at_least_days 30 (account_age now (created_ms parse now (asCreated inp)))"
  define tor where "tor = (asTor inp \<or> asCountry inp = Some ''T1'')"
  define score where "score = engine_score turnstile (count \<ge> 1) (isDatacenterAsn (asAsn inp)) tor disposable (asVerified inp)
     mature (1 \<le> max 0 (asRepos inp)) (5 \<le> max 0 (asContributions inp))"
  define tier where "tier = tier_for turnstile disposable score
     (mature \<and> 1 \<le> max 0 (asRepos inp) \<and> 5 \<le> max 0 (asContributions inp) \<and> \<not> count \<ge> 1)"
  have a: "saScore (fst (evaluateAntiSybil pr parse call secret recordOnPass now inp tr)) = score"
    "saTier (fst (evaluateAntiSybil pr parse call secret recordOnPass now inp tr)) = tier"
    "saPassed (fst (evaluateAntiSybil pr parse call secret recordOnPass now inp tr)) \<longleftrightarrow> tier \<noteq> Suspended"
    by (simp_all add: evaluateAntiSybil_def Let_def split_def tier_def score_def turnstile_def disposable_def mature_def tor_def
        count_def BUILDER_MIN_ACCOUNT_AGE_DAYS_def BUILDER_MIN_PUBLIC_REPOS_def BUILDER_MIN_CONTRIBUTIONS_def
        MAX_REGISTRATIONS_PER_SUBNET_def)
  have max: "1 \<le> max 0 (asRepos inp) \<longleftrightarrow> 1 \<le> asRepos inp" "5 \<le> max 0 (asContributions inp) \<longleftrightarrow> 5 \<le> asContributions inp"
    by auto
  have zero: "\<not> count \<ge> 1 \<longleftrightarrow> count = 0" using count_nonneg unfolding count_def by smt
  have builder: "tier = Builder \<longleftrightarrow> turnstile \<and> \<not> disposable \<and> count = 0 \<and> mature \<and> 1 \<le> asRepos inp \<and> 5 \<le> asContributions inp
      \<and> at_most_one [isDatacenterAsn (asAsn inp), tor, \<not> asVerified inp]"
  proof (cases "turnstile \<and> \<not> disposable \<and> count = 0 \<and> mature \<and> 1 \<le> asRepos inp \<and> 5 \<le> asContributions inp")
    case True
    then show ?thesis
      using engine_score_authentic [of "isDatacenterAsn (asAsn inp)" tor "asVerified inp"]
      by (simp add: tier_def tier_for_builder score_def max)
  next
    case False
    then show ?thesis unfolding tier_def tier_for_builder max zero by blast
  qed
  define network where "network = (if 1 \<le> count then 45 else 0) + (if isDatacenterAsn (asAsn inp) then 25 else 0) + (if tor then 30 else 0 :: int)"
  define person where "person = (if asVerified inp then 0 else 25) + (if mature then 0 else 20) +
      (if 1 \<le> asRepos inp then 0 else 15) + (if 5 \<le> asContributions inp then 0 else 10 :: int)"
  have points: "score = (if turnstile then max 0 ((if disposable then min 20 (100 - network) else 100 - network) - person) else 0)"
    unfolding score_def max network_def person_def by (rule engine_score_points)
  moreover have "tier \<noteq> Suspended \<longleftrightarrow> turnstile \<and> \<not> disposable \<and> network + person \<le> 60"
    using tier_for_suspended [of turnstile disposable score] unfolding tier_def points by auto
  moreover have "tier \<in> {Suspended, Probationary, Builder}" unfolding tier_def by (rule tier_for_range)
  ultimately show ?thesis
    unfolding Let_def a turnstile_def [symmetric] disposable_def [symmetric] mature_def [symmetric] tor_def [symmetric]
      count_def [symmetric] network_def [symmetric] person_def [symmetric]
    using builder by blast
qed

section \<open>One builder per subnet\<close>

definition entries :: "tracker \<Rightarrow> string \<Rightarrow> timestamp list" where
  "entries tr s = first_some (map_of tr s) []"

lemma count_entries: "fst (getSubnetRegistrationCount s w now tr) = int (length (active_since (now - w) (entries tr s)))"
  by (simp add: getSubnetRegistrationCount_def entries_def Let_def active_since_def split: option.split)

lemma pruning_keeps:
  "t \<in> set (entries tr s') \<Longrightarrow> now - w < t \<Longrightarrow> t \<in> set (entries (snd (getSubnetRegistrationCount s w now tr)) s')"
proof -
  assume t: "t \<in> set (entries tr s')" "now - w < t"
  show ?thesis
  proof (cases "map_of tr s")
    case None
    with t show ?thesis by (simp add: getSubnetRegistrationCount_def)
  next
    case (Some ts)
    have "t \<in> set (active_since (now - w) ts)" if "s' = s"
      using t Some that by (simp add: entries_def active_since_def)
    then show ?thesis
      using t Some by (auto simp: getSubnetRegistrationCount_def entries_def Let_def)
  qed
qed

lemma recording_adds: "t \<in> set (entries (recordRegistration s now tr) s') \<longleftrightarrow> t \<in> set (entries tr s') \<or> (s' = s \<and> t = now)"
  by (auto simp: recordRegistration_def entries_def)

datatype applicant =
    Registers "bool option" AntiSybilInput
  | SignsIn SybilUserInput "SybilRequest option"

text \<open>
  One application: the address it comes from, whether a pass of it is recorded (the option
  \<open>recordOnPass\<close> of the first gate can switch that off), the tier it gets, the tracker after it.
\<close>

definition apply_for ::
  "(rat \<Rightarrow> string) \<Rightarrow> (string \<Rightarrow> timestamp option) \<Rightarrow> (string \<Rightarrow> string \<Rightarrow> string option \<Rightarrow> siteverify) \<Rightarrow> string option \<Rightarrow>
   (string option \<Rightarrow> string option \<Rightarrow> GitHubProfile option) \<Rightarrow> timestamp \<Rightarrow> applicant \<Rightarrow> tracker \<Rightarrow>
   string \<times> bool \<times> UserTier \<times> tracker" where
  "apply_for pr parse call secret github now a tr =
     (case a of
        Registers recordOnPass inp \<Rightarrow>
          (let (r, tr') = evaluateAntiSybil pr parse call secret recordOnPass now inp tr
           in (client_ip inp, first_some recordOnPass True, saTier r, tr'))
      | SignsIn user req \<Rightarrow>
          (let (r, tr') = calculateSybilScore pr parse call github now user req tr
           in (score_ip user req, True, srTier r, tr')))"

text \<open>A run over the global tracker, with the builders it makes: address, time, whether recorded.\<close>

type_synonym builder = "string \<times> timestamp \<times> bool"

definition sybil_step ::
  "(rat \<Rightarrow> string) \<Rightarrow> (string \<Rightarrow> timestamp option) \<Rightarrow> (string \<Rightarrow> string \<Rightarrow> string option \<Rightarrow> siteverify) \<Rightarrow> string option \<Rightarrow>
   (string option \<Rightarrow> string option \<Rightarrow> GitHubProfile option) \<Rightarrow> timestamp \<times> applicant \<Rightarrow> tracker \<times> builder list \<Rightarrow> tracker \<times> builder list" where
  "sybil_step pr parse call secret github = (\<lambda>(now, a) (tr, builders).
     let (ip, recorded, tier, tr') = apply_for pr parse call secret github now a tr
     in (tr', if tier = Builder then builders @ [(ip, now, recorded)] else builders))"

definition sybil_run ::
  "(rat \<Rightarrow> string) \<Rightarrow> (string \<Rightarrow> timestamp option) \<Rightarrow> (string \<Rightarrow> string \<Rightarrow> string option \<Rightarrow> siteverify) \<Rightarrow> string option \<Rightarrow>
   (string option \<Rightarrow> string option \<Rightarrow> GitHubProfile option) \<Rightarrow> (timestamp \<times> applicant) list \<Rightarrow> builder list" where
  "sybil_run pr parse call secret github calls = snd (fold (sybil_step pr parse call secret github) calls ([], []))"

lemma apply_for_effect:
  assumes "apply_for pr parse call secret github now a tr = (ip, recorded, tier, tr')"
  defines "subnet \<equiv> extractSubnet pr ip"
  defines "tr1 \<equiv> snd (getSubnetRegistrationCount subnet SUBNET_VELOCITY_WINDOW_MS now tr)"
  shows "(tr' = tr1 \<and> (tier \<noteq> Builder \<or> \<not> recorded) \<or> tr' = recordRegistration subnet now tr1)
    \<and> (tier = Builder \<longrightarrow> active_since (now - SUBNET_VELOCITY_WINDOW_MS) (entries tr subnet) = [])"
proof -
  have count: "fst (getSubnetRegistrationCount subnet SUBNET_VELOCITY_WINDOW_MS now tr) < 1 \<Longrightarrow>
      active_since (now - SUBNET_VELOCITY_WINDOW_MS) (entries tr subnet) = []"
    by (simp add: count_entries)
  show ?thesis
  proof (cases a)
    case (Registers recordOnPass inp)
    then have "ip = client_ip inp" using assms(1) by (auto simp: apply_for_def split: prod.splits)
    with assms(1) count Registers show ?thesis
      unfolding tr1_def subnet_def
      by (auto simp: apply_for_def evaluateAntiSybil_def Let_def split_def tier_for_builder MAX_REGISTRATIONS_PER_SUBNET_def)
  next
    case (SignsIn user req)
    then have "ip = score_ip user req" using assms(1) by (auto simp: apply_for_def split: prod.splits)
    with assms(1) count SignsIn show ?thesis
      unfolding tr1_def subnet_def
      by (auto simp: apply_for_def calculateSybilScore_def Let_def split_def tier_for_builder MAX_REGISTRATIONS_PER_SUBNET_def)
  qed
qed

text \<open>
  Recent recorded builders are in the tracker, so a subnet that has one is exceeded. \<open>now\<close> is the time of
  the last call.
\<close>

definition apart :: "(rat \<Rightarrow> string) \<Rightarrow> builder \<Rightarrow> builder \<Rightarrow> bool" where
  "apart pr g h \<longleftrightarrow>
     (extractSubnet pr (fst g) = extractSubnet pr (fst h) \<and> snd (snd g) \<longrightarrow>
        fst (snd h) - fst (snd g) \<ge> SUBNET_VELOCITY_WINDOW_MS)"

definition sybil_inv :: "(rat \<Rightarrow> string) \<Rightarrow> timestamp \<Rightarrow> tracker \<times> builder list \<Rightarrow> bool" where
  "sybil_inv pr now = (\<lambda>(tr, builders).
     (\<forall>(ip, t, recorded)\<in>set builders. t \<le> now \<and>
        (recorded \<and> now - SUBNET_VELOCITY_WINDOW_MS < t \<longrightarrow> t \<in> set (entries tr (extractSubnet pr ip))))
     \<and> sorted_wrt (apart pr) builders)"

lemma sybil_inv_step:
  assumes "sybil_inv pr old (tr, builders)" "old \<le> now"
  shows "sybil_inv pr now (sybil_step pr parse call secret github (now, a) (tr, builders))"
proof -
  obtain ip recorded tier tr' where app: "apply_for pr parse call secret github now a tr = (ip, recorded, tier, tr')"
    by (metis surj_pair)
  let ?s = "extractSubnet pr ip"
  define tr1 where "tr1 = snd (getSubnetRegistrationCount ?s SUBNET_VELOCITY_WINDOW_MS now tr)"
  have eff: "tr' = tr1 \<and> (tier \<noteq> Builder \<or> \<not> recorded) \<or> tr' = recordRegistration ?s now tr1"
    "tier = Builder \<Longrightarrow> active_since (now - SUBNET_VELOCITY_WINDOW_MS) (entries tr ?s) = []"
    using apply_for_effect [OF app] by (auto simp: tr1_def)
  have old: "t \<le> old" "r \<Longrightarrow> old - SUBNET_VELOCITY_WINDOW_MS < t \<Longrightarrow> t \<in> set (entries tr (extractSubnet pr i))"
    if "(i, t, r) \<in> set builders" for i t r
    using assms(1) that by (auto simp: sybil_inv_def)
  have kept: "t \<in> set (entries tr' (extractSubnet pr i))"
    if "(i, t, True) \<in> set builders" "now - SUBNET_VELOCITY_WINDOW_MS < t" for i t
  proof -
    have "t \<in> set (entries tr (extractSubnet pr i))" using old(2) [OF that(1)] that(2) assms(2) by simp
    then have "t \<in> set (entries tr1 (extractSubnet pr i))" unfolding tr1_def using that(2) by (rule pruning_keeps)
    with eff(1) show ?thesis by (auto simp: recording_adds)
  qed
  have far: "apart pr g (ip, now, recorded)" if "tier = Builder" and g: "g \<in> set builders" for g
  proof (rule ccontr)
    assume "\<not> ?thesis"
    then obtain i t where i: "g = (i, t, True)" "extractSubnet pr i = ?s" "now - SUBNET_VELOCITY_WINDOW_MS < t"
      by (cases g) (auto simp: apart_def)
    then have "t \<in> set (entries tr ?s)" using old(2) [OF g [unfolded i(1)]] assms(2) by simp
    with i(3) eff(2) [OF that(1)] show False by (auto simp: active_since_def filter_empty_conv)
  qed
  have le: "t \<le> now" if "(i, t, r) \<in> set builders" for i t r using old(1) [OF that] assms(2) by linarith
  have srt: "sorted_wrt (apart pr) builders" using assms(1) by (simp add: sybil_inv_def)
  show ?thesis
  proof (cases "tier = Builder")
    case True
    have "now \<in> set (entries tr' ?s)" if recorded using eff(1) True that by (auto simp: recording_adds)
    with True kept far le srt show ?thesis
      by (auto simp: sybil_step_def app sybil_inv_def sorted_wrt_append)
  next
    case False
    with kept le srt show ?thesis by (auto simp: sybil_step_def app sybil_inv_def)
  qed
qed

lemma sybil_inv_run:
  "sybil_inv pr old st \<Longrightarrow> sorted (old # map fst calls) \<Longrightarrow>
   \<exists>now. sybil_inv pr now (fold (sybil_step pr parse call secret github) calls st)"
proof (induction calls arbitrary: old st)
  case Nil
  then show ?case by auto
next
  case (Cons c calls)
  obtain tr builders where st: "st = (tr, builders)" by fastforce
  obtain now a where c: "c = (now, a)" by fastforce
  from Cons.prems have "sybil_inv pr now (sybil_step pr parse call secret github c st)"
    unfolding st c by (intro sybil_inv_step) auto
  from Cons.IH [OF this] Cons.prems(2) show ?case by (auto simp: c)
qed

section \<open>Addresses of one network\<close>

definition dotted :: "int \<Rightarrow> int \<Rightarrow> int \<Rightarrow> int \<Rightarrow> string" where
  "dotted a b c d =
     bigint_to_string a @ ''.'' @ bigint_to_string b @ ''.'' @ bigint_to_string c @ ''.'' @ bigint_to_string d"

definition plain_segment :: "string \<Rightarrow> bool" where
  "plain_segment s \<longleftrightarrow> s \<noteq> [] \<and> list_all (\<lambda>c. c \<noteq> CHR '':'' \<and> c \<noteq> CHR ''.'' \<and> \<not> is_space c) s"

text \<open>
  The same text, the same first three octets, or the same first three segments of a longer IPv6 address.
\<close>

definition same_network :: "string \<Rightarrow> string \<Rightarrow> bool" where
  "same_network x y \<longleftrightarrow>
     x = y \<or>
     (\<exists>a b c d e. {a, b, c, d, e} \<subseteq> {0..255} \<and> x = dotted a b c d \<and> y = dotted a b c e) \<or>
     (\<exists>p q r u v. plain_segment p \<and> plain_segment q \<and> plain_segment r \<and>
        list_all (\<lambda>c. c \<noteq> CHR ''.'' \<and> \<not> is_space c) (u @ v) \<and>
        x = p @ '':'' @ q @ '':'' @ r @ '':'' @ u \<and> y = p @ '':'' @ q @ '':'' @ r @ '':'' @ v)"

lemma split_on_Cons: "c \<notin> set xs \<Longrightarrow> split_on c (xs @ c # ys) = xs # split_on c ys"
  by (induction xs) auto

lemma split_on_none: "c \<notin> set xs \<Longrightarrow> split_on c xs = [xs]"
  by (induction xs) auto

lemma js_number_digits:
  assumes "list_all is_digit s" and "s \<noteq> []"
  shows "js_number s = Finite (of_nat (digits_val s))"
proof -
  have "list_all is_digit (take 2 s)"
    using assms(1) by (auto simp: list_all_iff dest: in_set_takeD)
  moreover from this have "js_lower (take 2 s) = take 2 s" by (rule js_lower_digits)
  ultimately have radix: "js_lower (take 2 s) \<noteq> ''0x''" "js_lower (take 2 s) \<noteq> ''0o''" "js_lower (take 2 s) \<noteq> ''0b''"
    by auto
  have "is_digit (hd s)" using assms by (auto simp: list_all_iff)
  then have sgn: "hd s \<noteq> CHR ''-''" "hd s \<noteq> CHR ''+''" "s \<noteq> ''Infinity''" by (auto simp: is_digit_def)
  have parts: "takeWhile is_digit s = s" "dropWhile is_digit s = []"
    using assms(1) by (simp_all add: takeWhile_eq_all_conv dropWhile_eq_Nil_conv list_all_iff)
  have "decimal_literal s = Some (of_nat (digits_val s))"
    using assms(2) by (simp add: decimal_literal_def exponent_of_def parts Let_def)
  with assms(2) radix sgn show ?thesis
    by (simp add: js_number_def digits_trim [OF assms(1)] Let_def)
qed

lemma octet_decimal:
  assumes "n \<in> {0..255}"
  shows "octet pr (bigint_to_string n) = Some (bigint_to_string n)"
proof -
  have "bigint_to_string n = nat_str (nat n)" using assms by (simp add: bigint_to_string_def)
  then have "js_number (bigint_to_string n) = Finite (of_int n)"
    using js_number_digits [OF nat_str_digits nat_str_ne, of "nat n"] assms by (simp add: digits_val_nat_str)
  moreover have "(of_int n :: rat) \<le> 255" "(0 :: rat) \<le> of_int n"
    using assms of_int_le_iff [of n 255, where 'a = rat] by simp_all
  ultimately show ?thesis by (simp add: octet_def)
qed

lemma trim_solid: "list_all (\<lambda>c. \<not> is_space c) s \<Longrightarrow> js_trim s = s"
  by (cases "s = []") (auto simp: js_trim_id list_all_iff)

lemma not_space_dot: "\<not> is_space (CHR ''.'')"
  by (simp add: is_space_def)

lemma decimal_chars:
  "0 \<le> n \<Longrightarrow> x \<in> set (bigint_to_string n) \<Longrightarrow> is_digit x"
  using nat_str_digits [of "nat n"] by (simp add: bigint_to_string_def list_all_iff)

lemma dotted_subnet:
  assumes "{a, b, c, d} \<subseteq> {0..255}"
  shows "extractSubnet pr (dotted a b c d) =
    bigint_to_string a @ ''.'' @ bigint_to_string b @ ''.'' @ bigint_to_string c @ ''.0/24''"
proof -
  have dot: "CHR ''.'' \<notin> set (bigint_to_string n)" if "n \<in> {0..255}" for n
    using decimal_chars [of n "CHR ''.''"] that by (auto simp: is_digit_def)
  have "split_on CHR ''.'' (dotted a b c d) = [bigint_to_string a, bigint_to_string b, bigint_to_string c, bigint_to_string d]"
    using assms dot by (simp add: dotted_def split_on_Cons split_on_none)
  then have v4: "ipv4_subnet pr (dotted a b c d) =
      Some (bigint_to_string a @ ''.'' @ bigint_to_string b @ ''.'' @ bigint_to_string c @ ''.0/24'')"
    using assms by (simp add: ipv4_subnet_def octet_decimal)
  have ends: "\<not> is_space x" if "n \<in> {0..255}" "x \<in> set (bigint_to_string n)" for n x
    using decimal_chars [of n x] that by (simp add: not_space_digit)
  have "list_all (\<lambda>c. \<not> is_space c) (dotted a b c d)"
    using assms ends [of a] ends [of b] ends [of c] ends [of d]
    by (auto simp: dotted_def list_all_iff not_space_dot)
  then have "js_trim (dotted a b c d) = dotted a b c d" by (rule trim_solid)
  moreover have "dotted a b c d \<noteq> []" by (simp add: dotted_def)
  ultimately show ?thesis using v4 by (simp add: extractSubnet_def Let_def)
qed

lemma plain_segment_solid: "plain_segment s \<Longrightarrow> list_all (\<lambda>c. c \<noteq> CHR ''.'' \<and> \<not> is_space c) s"
  by (auto simp: plain_segment_def list_all_iff)

lemma long_subnet:
  assumes "plain_segment p" "plain_segment q" "plain_segment r" "list_all (\<lambda>c. c \<noteq> CHR ''.'' \<and> \<not> is_space c) u"
  shows "extractSubnet pr (p @ '':'' @ q @ '':'' @ r @ '':'' @ u) = p @ '':'' @ q @ '':'' @ r @ ''::/48''"
proof -
  let ?x = "p @ '':'' @ q @ '':'' @ r @ '':'' @ u"
  have segs: "p \<noteq> []" "q \<noteq> []" "r \<noteq> []" "CHR '':'' \<notin> set p" "CHR '':'' \<notin> set q" "CHR '':'' \<notin> set r"
    using assms(1-3) by (auto simp: plain_segment_def list_all_iff)
  have colon: "\<not> is_space (CHR '':'')" by (simp add: is_space_def)
  have chars: "list_all (\<lambda>c. c \<noteq> CHR ''.'' \<and> \<not> is_space c) ?x"
    using assms(4) colon by (simp add: assms(1-3) [THEN plain_segment_solid])
  then have "CHR ''.'' \<notin> set ?x" by (auto simp: list_all_iff)
  then have "ipv4_subnet pr ?x = None" by (simp add: ipv4_subnet_def split_on_none del: append.simps append_Cons split: option.split)
  moreover have "js_trim ?x = ?x" using chars by (intro trim_solid) (auto simp: list_all_iff)
  moreover have "split_on CHR '':'' ?x = p # q # r # split_on CHR '':'' u" using segs by (simp add: split_on_Cons)
  moreover have "?x \<noteq> []" by simp
  ultimately show ?thesis using segs by (simp add: extractSubnet_def Let_def)
qed

lemma same_network_subnet: "same_network x y \<Longrightarrow> extractSubnet pr x = extractSubnet pr y"
  unfolding same_network_def
  by (elim disjE exE conjE) (simp_all add: dotted_subnet long_subnet [simplified])

text \<open>
  C16. One builder per network. Registrations and sign-ins, through either of the two gates, with any options,
  tokens, profiles and network data, run over the shared tracker in chronological order. If two of them
  receive the builder tier and come from one network (the same address, two IPv4 addresses with the same
  first three octets, or two IPv6 addresses that spell out the same first three segments), and the first
  was recorded (\<open>recordOnPass\<close> was not switched off for it), they are at least thirty days apart.
\<close>

theorem one_builder_per_subnet:
  assumes "sorted (map fst calls)"
  shows "sorted_wrt (\<lambda>(x, t, recorded) (y, u, _). same_network x y \<and> recorded \<longrightarrow> u - t \<ge> 30 * 86400000)
    (sybil_run pr parse call secret github calls)"
proof (cases calls)
  case Nil
  then show ?thesis by (simp add: sybil_run_def)
next
  case (Cons c cs)
  have "sybil_inv pr (fst c) ([], [])" by (simp add: sybil_inv_def)
  from sybil_inv_run [OF this, of calls parse call secret github] assms
  have "\<exists>now. sybil_inv pr now (fold (sybil_step pr parse call secret github) calls ([], []))" by (auto simp: Cons)
  then have "sorted_wrt (apart pr) (sybil_run pr parse call secret github calls)" by (auto simp: sybil_run_def sybil_inv_def)
  then show ?thesis
    by (rule sorted_wrt_mono_rel [rotated]) (auto simp: apart_def SUBNET_VELOCITY_WINDOW_MS_def dest: same_network_subnet [of _ _ pr])
qed

section \<open>Tokens\<close>

lemma score_fields:
  "srTurnstileFailed (fst (calculateSybilScore pr parse call github now user req tr)) = (\<not> score_turnstile call user req)"
  "\<not> score_turnstile call user req \<Longrightarrow> srScore (fst (calculateSybilScore pr parse call github now user req tr)) = 0"
  "\<not> score_turnstile call user req \<Longrightarrow> srTier (fst (calculateSybilScore pr parse call github now user req tr)) = Suspended"
  "srPassed (fst (calculateSybilScore pr parse call github now user req tr)) =
     (srTier (fst (calculateSybilScore pr parse call github now user req tr)) \<noteq> Suspended)"
  by (simp_all only: calculateSybilScore_def Let_def split_def fst_conv SybilScoreResult.simps synthesis_def tier_for_def
      not_False_eq_True not_not if_True simp_thms max.idem min.absorb2 zero_le_numeral)

text \<open>The published test tokens are accepted whatever secret is configured, and without a call.\<close>

theorem test_token_accepted:
  "token \<in> set TEST_TOKENS_PASS \<Longrightarrow> tvSuccess (verifyTurnstileToken call secret ip (Some token))"
proof -
  have "\<forall>t\<in>set TEST_TOKENS_PASS. js_trim t = t \<and> t \<noteq> []" by code_simp
  moreover assume "token \<in> set TEST_TOKENS_PASS"
  ultimately show ?thesis by (auto simp: verifyTurnstileToken_def)
qed

text \<open>
  The sign-in score refuses every genuine Turnstile token. It verifies without a secret, so a token that
  is not one of the published test tokens fails, however \<open>siteverify\<close> would answer, and the user is
  suspended with score 0; while a user who sends no token at all, and no low bot score, passes this layer.
\<close>

theorem score_refuses_real_tokens:
  assumes "score_token user req = Some token" and "js_trim token \<noteq> []" and "js_trim token \<notin> set TEST_TOKENS_PASS"
    and "score_token user' req' = None" and "\<not> below_30 (bot_score req')"
  shows "(let r = fst (calculateSybilScore pr parse call github now user req tr) in
           srScore r = 0 \<and> srTier r = Suspended \<and> \<not> srPassed r \<and> srTurnstileFailed r)
    \<and> \<not> srTurnstileFailed (fst (calculateSybilScore pr parse call github now user' req' tr))"
proof
  have "js_trim [] = []" by (simp add: js_trim_def)
  then have "score_turnstile call user' req'"
    using assms(4,5) by (simp add: score_turnstile_def)
  then show "\<not> srTurnstileFailed (fst (calculateSybilScore pr parse call github now user' req' tr))"
    by (simp add: score_fields)
  have "\<not> score_turnstile call user req"
    using assms(1-3) by (simp add: score_turnstile_def verifyTurnstileToken_def refused_def Let_def)
  then show "let r = fst (calculateSybilScore pr parse call github now user req tr) in
           srScore r = 0 \<and> srTier r = Suspended \<and> \<not> srPassed r \<and> srTurnstileFailed r"
    by (simp add: score_fields)
qed

text \<open>
  Two addresses of one /48 network, written with \<open>::\<close>, count as different subnets: the empty segments are
  dropped before the first three are taken.
\<close>

theorem ipv6_compression_splits_subnet:
  "extractSubnet pr ''2001:db8::1'' = ''2001:db8:1::/48''" "extractSubnet pr ''2001:db8::2'' = ''2001:db8:2::/48''"
proof -
  have "js_trim ''2001:db8::1'' = ''2001:db8::1''" "js_trim ''2001:db8::2'' = ''2001:db8::2''" by code_simp+
  then show "extractSubnet pr ''2001:db8::1'' = ''2001:db8:1::/48''" "extractSubnet pr ''2001:db8::2'' = ''2001:db8:2::/48''"
    by (simp_all add: extractSubnet_def ipv4_subnet_def Let_def split: option.split)
qed

section \<open>Instances\<close>

definition developer :: AntiSybilInput where
  "developer =
     \<lparr>asToken = Some ''1x0000000000000000000000000000000AA'', asIp = ''10.1.2.3'', asAsn = None, asCountry = None, asTor = False,
      asEmail = ''dev@example.org'', asVerified = True, asCreated = Some (CreatedNumber 0), asRepos = 3, asContributions = 12\<rparr>"

definition neighbour :: AntiSybilInput where
  "neighbour = developer\<lparr>asIp := ''10.1.2.77''\<rparr>"

definition developer_run :: "(timestamp \<times> applicant) list" where
  "developer_run = [(2592000000, Registers None developer), (2592000001, Registers None neighbour),
     (5184000001, Registers None neighbour)]"

abbreviation no_print :: "rat \<Rightarrow> string" where "no_print \<equiv> \<lambda>_. []"
abbreviation no_parse :: "string \<Rightarrow> timestamp option" where "no_parse \<equiv> \<lambda>_. None"
abbreviation no_call :: "string \<Rightarrow> string \<Rightarrow> string option \<Rightarrow> siteverify" where "no_call \<equiv> \<lambda>_ _ _. CallFailed"
abbreviation no_github :: "string option \<Rightarrow> string option \<Rightarrow> GitHubProfile option" where "no_github \<equiv> \<lambda>_ _. None"

lemma developer_builds:
  "sybil_run no_print no_parse no_call None no_github developer_run =
     [(''10.1.2.3'', 2592000000, True), (''10.1.2.77'', 5184000001, True)]"
  by code_simp

theorem one_builder_per_subnet_witness:
  "sybil_run no_print no_parse no_call None no_github developer_run =
     [(''10.1.2.3'', 2592000000, True), (''10.1.2.77'', 5184000001, True)]
    \<and> same_network ''10.1.2.3'' ''10.1.2.77'' \<and> (5184000001 :: int) - 2592000000 \<ge> 30 * 86400000"
proof -
  have "dotted 10 1 2 3 = ''10.1.2.3''" "dotted 10 1 2 77 = ''10.1.2.77''" by code_simp+
  then have same: "same_network ''10.1.2.3'' ''10.1.2.77''"
    unfolding same_network_def by (intro disjI2 disjI1 exI [of _ 10] exI [of _ 1] exI [of _ 2] exI [of _ 3] exI [of _ 77]) simp
  with one_builder_per_subnet [of developer_run no_print no_parse no_call None no_github]
  show ?thesis using developer_builds by (simp add: developer_run_def)
qed

definition newcomer :: "string option \<Rightarrow> SybilUserInput" where
  "newcomer token =
     \<lparr>suCreated = None, suRepos = None, suContributions = None, suEmail = Some ''dev@example.org'', suUsername = None,
      suAccessToken = None, suTurnstile = token, suVerified = True, suRegistrationIp = None\<rparr>"

lemma newcomer_token: "score_token (newcomer t) None = t"
  by (cases t) (simp_all add: newcomer_def score_token_def extractHeaderValue_def Let_def)

lemma newcomer_trim: "js_trim ''real-token'' = ''real-token''" "''real-token'' \<notin> set TEST_TOKENS_PASS"
  by code_simp+

theorem score_refuses_real_tokens_witness:
  "(let r = fst (calculateSybilScore no_print no_parse (\<lambda>_ _ _. Verdict True None) no_github 0 (newcomer (Some ''real-token'')) None []) in
       srScore r = 0 \<and> srTier r = Suspended \<and> \<not> srPassed r \<and> srTurnstileFailed r)
    \<and> \<not> srTurnstileFailed (fst (calculateSybilScore no_print no_parse (\<lambda>_ _ _. Verdict True None) no_github 0 (newcomer None) None []))"
  using score_refuses_real_tokens [of "newcomer (Some ''real-token'')" None "''real-token''" "newcomer None" None]
  by (simp add: newcomer_token newcomer_trim bot_score_def extractHeaderValue_def)

end
