(* ===== verification/Gateway.thy ===== *)
theory Gateway
  imports Auth Sybil
begin

text \<open>
  \<open>src/worker/gateway/{subdomain,admin_verifier}.ts\<close> and \<open>src/worker/router/dashboard/auth_routes.ts\<close>:
  the host a request is for, the credentials it carries, who counts as an administrator, and the two
  routes that hand out session tokens.

  A request is its method in upper case, the path, the headers under lower-case names, the query
  parameters. A JSON body is an argument of its own, the record of the interface the code declares for it, \<open>None\<close> if it is not JSON.
  \<open>uri\<close> is \<open>decodeURIComponent\<close>, \<open>None\<close> where it throws. The environment holds the tables the
  routes read and write beside what the middleware reaches; they are absent if \<open>aeDb\<close> is. \<open>geSchema\<close> says
  whether the database has the columns and tables that a statement names which the migrations do not
  create, and \<open>geCache\<close> is the cache of decrypted keys.
\<close>

section \<open>Requests\<close>

record Request =
  reqMethod :: string
  reqHost :: string
  reqPath :: string
  reqHeader :: "string \<Rightarrow> string option"
  reqQuery :: "string \<Rightarrow> string option"

definition nonempty :: "string option \<Rightarrow> string" where
  "nonempty s = js_trim (first_some s [])"

section \<open>Tables\<close>

record UserRow =
  usId :: string
  usEmail :: "string option"
  usTier :: string
  usRole :: "string option"
  usSybil :: "int option"
  usQuarantined :: bool
  usReason :: "string option"

record ProjectRecord =
  pjId :: string
  pjName :: string
  pjTenant :: string
  pjDescription :: "string option"
  pjCreated :: int
  pjUpdated :: int

record KeyRow =
  krId :: string
  krTenant :: string
  krLabel :: string
  krProvider :: string
  krEncrypted :: string
  krNonce :: string
  krPrefix :: string
  krSuffix :: string
  krRpm :: int
  krRpd :: int
  krPriority :: int
  krStatus :: string
  krPool :: "string option"
  krRouting :: "string option"
  krObservation :: "timestamp option"
  krProjectHash :: "string option"
  krOpenUntil :: "timestamp option"
  krCreated :: timestamp
  krDispatched :: "int option"
  krCommunal :: "int option"
  krVesting :: "int option"

record HashRow =
  hrHash :: string
  hrTenant :: string
  hrState :: string
  hrTombstone :: "timestamp option"
  hrCreated :: timestamp

record ConsentRow =
  csKey :: string
  csTenant :: string
  csType :: string
  csCreated :: timestamp

record AuditRow =
  auUser :: string
  auAction :: string
  auIp :: string

record GatewayEnv =
  geAuth :: AuthEnv
  geUsers :: "UserRow list"
  geKeys :: "KeyRow list"
  geProjects :: "ProjectRecord list"
  geProjectKeys :: "(string \<times> string option) list"
  geHashes :: "HashRow list"
  geConsents :: "ConsentRow list"
  geSchema :: "string \<Rightarrow> bool"
  geCache :: key_cache
  geDebts :: "(string \<times> int) list"
  geAudit :: "AuditRow list"
  geMasterKey :: "string option"
  geTurnstile :: "string option"
  geAdminToken :: "string option"
  geAdminEmails :: "string option"
  geAdminTokens :: "string list"
  geFreeze :: "string option"

definition bound :: "GatewayEnv \<Rightarrow> bool" where
  "bound env \<longleftrightarrow> aeDb (geAuth env) \<noteq> None"

definition tokens :: "GatewayEnv \<Rightarrow> token_table" where
  "tokens env = first_some (aeDb (geAuth env)) []"

definition put_tokens :: "token_table \<Rightarrow> GatewayEnv \<Rightarrow> GatewayEnv" where
  "put_tokens db env = env\<lparr>geAuth := (geAuth env)\<lparr>aeDb := Some db\<rparr>\<rparr>"

section \<open>Hosts (subdomain.ts)\<close>

datatype EdgeSubdomain = Api | Console | Admin | Apex

definition starts :: "string \<Rightarrow> string \<Rightarrow> bool" where
  "starts p s \<longleftrightarrow> take (length p) s = p"

definition parseSubdomain :: "string \<Rightarrow> EdgeSubdomain" where
  "parseSubdomain host =
     (let normalized = js_trim (js_lower (takeWhile (\<lambda>c. c \<noteq> CHR '':'') host)) in
      if host = [] then Apex
      else if starts ''api.'' normalized \<or> normalized = ''api'' then Api
      else if starts ''console.'' normalized \<or> normalized = ''console'' then Console
      else if starts ''admin.'' normalized \<or> normalized = ''admin'' then Admin
      else Apex)"

record HostRouteDecision =
  hdHost :: string
  hdSubdomain :: EdgeSubdomain
  hdAdminAuth :: bool
  hdGateway :: bool
  hdConsole :: bool

definition resolveHostRoute :: "string \<Rightarrow> HostRouteDecision" where
  "resolveHostRoute host =
     (let s = parseSubdomain host
      in \<lparr>hdHost = host, hdSubdomain = s, hdAdminAuth = (s = Admin), hdGateway = (s = Api), hdConsole = (s = Console)\<rparr>)"

section \<open>Credentials\<close>

text \<open>The three places, in this order; an empty text is none.\<close>

definition bearer_credential :: "Request \<Rightarrow> string" where
  "bearer_credential r =
     (case reqHeader r ''authorization'' of
        Some h \<Rightarrow> if starts ''Bearer '' h then js_trim (drop 7 h) else []
      | None \<Rightarrow> [])"

definition query_credential :: "Request \<Rightarrow> string" where
  "query_credential r =
     nonempty (if truthy_text (reqQuery r ''token'') then reqQuery r ''token'' else reqQuery r ''admin_token'')"

text \<open>\<open>/(?:^|;\s*)kc_auth_token=([^;]+)/\<close>\<close>

definition cookie_at :: "string \<Rightarrow> string option" where
  "cookie_at s =
     (let v = takeWhile (\<lambda>c. c \<noteq> CHR '';'') (drop 14 s)
      in if starts ''kc_auth_token='' s \<and> v \<noteq> [] then Some v else None)"

fun cookie_after :: "string \<Rightarrow> string option" where
  "cookie_after [] = None"
| "cookie_after (c # s) =
     (if c = CHR '';'' then or_else (cookie_at (dropWhile is_space s)) (cookie_after s) else cookie_after s)"

definition cookie_value :: "string \<Rightarrow> string option" where
  "cookie_value s = or_else (cookie_at s) (cookie_after s)"

definition cookie_credential :: "(string \<Rightarrow> string option) \<Rightarrow> Request \<Rightarrow> string option" where
  "cookie_credential uri r =
     (case cookie_value (first_some (reqHeader r ''cookie'') []) of
        None \<Rightarrow> Some []
      | Some v \<Rightarrow> uri (js_trim v))"

definition raw_credential :: "(string \<Rightarrow> string option) \<Rightarrow> Request \<Rightarrow> string option" where
  "raw_credential uri r =
     (if bearer_credential r \<noteq> [] then Some (bearer_credential r)
      else if query_credential r \<noteq> [] then Some (query_credential r)
      else cookie_credential uri r)"

section \<open>Administrators (admin\_verifier.ts)\<close>

text \<open>What a row of the user table says: a verdict, or nothing.\<close>

definition listed_email :: "string option \<Rightarrow> string option \<Rightarrow> bool" where
  "listed_email emails email \<longleftrightarrow>
     truthy_text email \<and> truthy_text emails \<and>
     js_lower (the email) \<in> set (map (js_lower \<circ> js_trim) (split_on CHR '','' (the emails)))"

definition user_verdict :: "string option \<Rightarrow> UserRow option \<Rightarrow> bool option" where
  "user_verdict emails u =
     (case u of
        None \<Rightarrow> None
      | Some row \<Rightarrow>
          if usQuarantined row then Some False
          else if usTier row = ''admin'' \<or> usRole row = Some ''admin'' then Some True
          else if listed_email emails (usEmail row) then Some True
          else None)"

definition user_by_id :: "string \<Rightarrow> GatewayEnv \<Rightarrow> UserRow option" where
  "user_by_id i env = find (\<lambda>u. usId u = i) (geUsers env)"

text \<open>A date that is none compares as \<open>NaN\<close>.\<close>

definition row_expired :: "timestamp \<Rightarrow> AuthTokenRow \<Rightarrow> bool" where
  "row_expired now row \<longleftrightarrow> (case trExpires row of Some (Some t) \<Rightarrow> now \<ge> t | _ \<Rightarrow> False)"

definition token_verdict_admin :: "'k SubtleCrypto \<Rightarrow> timestamp \<Rightarrow> string \<Rightarrow> GatewayEnv \<Rightarrow> bool option" where
  "token_verdict_admin sc now rawToken env =
     (case find (\<lambda>r. trHash r = hashToken sc rawToken) (tokens env) of
        None \<Rightarrow> None
      | Some row \<Rightarrow>
          if row_expired now row then Some False
          else if trTenant row = ''admin'' then Some True
          else user_verdict (geAdminEmails env) (user_by_id (trTenant row) env))"

definition verifyAdminRequest ::
  "'k SubtleCrypto \<Rightarrow> (string \<Rightarrow> string option) \<Rightarrow> timestamp \<Rightarrow> Request \<Rightarrow> GatewayEnv \<Rightarrow> bool option" where
  "verifyAdminRequest sc uri now r env =
     (case raw_credential uri r of
        None \<Rightarrow> None
      | Some rawToken \<Rightarrow>
          Some (rawToken \<noteq> [] \<and>
            ((\<exists>t\<in>set (geAdminTokens env). timingSafeEqualStrings rawToken t) \<or>
             (nonempty (geAdminToken env) \<noteq> [] \<and> timingSafeEqualStrings rawToken (nonempty (geAdminToken env))) \<or>
             (bound env \<and>
              first_some (or_else (token_verdict_admin sc now rawToken env)
                 (user_verdict (geAdminEmails env) (user_by_id rawToken env))) False))))"

section \<open>Session tokens (auth\_routes.ts)\<close>

text \<open>\<open>n.toString(36)\<close>\<close>

fun base36 :: "nat \<Rightarrow> string" where
  "base36 n =
     (let d = char_of (if n mod 36 < 10 then 48 + n mod 36 else 87 + n mod 36)
      in if n < 36 then [d] else base36 (n div 36) @ [d])"

declare base36.simps [simp del]

text \<open>
  \<open>INSERT INTO users ... ON CONFLICT(id) DO UPDATE SET email = ..., tier = COALESCE(users.tier, ...)\<close>;
  \<open>email\<close> is unique.
\<close>

definition upsert_user :: "string \<Rightarrow> string \<Rightarrow> string \<Rightarrow> int \<Rightarrow> UserRow list \<Rightarrow> UserRow list option" where
  "upsert_user i email tier score users =
     (if \<exists>u\<in>set users. usId u \<noteq> i \<and> usEmail u = Some email then None
      else if \<exists>u\<in>set users. usId u = i
      then Some (map (\<lambda>u. if usId u = i then u\<lparr>usEmail := Some email\<rparr> else u) users)
      else Some (users @ [\<lparr>usId = i, usEmail = Some email, usTier = tier, usRole = Some ''user'', usSybil = Some score,
                           usQuarantined = False, usReason = None\<rparr>]))"

definition session_token :: "string \<Rightarrow> string \<Rightarrow> string" where
  "session_token tier uuid = ''kc_'' @ tier @ ''_'' @ take 16 (filter (\<lambda>c. c \<noteq> CHR ''-'') uuid)"

definition session_row :: "'k SubtleCrypto \<Rightarrow> timestamp \<Rightarrow> string \<Rightarrow> string \<Rightarrow> int \<Rightarrow> int \<Rightarrow> AuthTokenRow" where
  "session_row sc now tenant token rpm budget =
     \<lparr>trId = ''tok_'' @ take 12 tenant @ ''_'' @ base36 (nat now), trHash = hashToken sc token, trTenant = tenant,
      trEncrypted = None, trNonce = None, trBudget = budget, trSpent = 0, trProviders = ''[]'', trRpm = rpm,
      trExpires = None, trCreated = now\<rparr>"

text \<open>The two statements in one \<open>try\<close>: a failure is logged, and what was written stays.\<close>

definition store_session ::
  "string \<Rightarrow> string \<Rightarrow> string \<Rightarrow> int \<Rightarrow> AuthTokenRow \<Rightarrow> GatewayEnv \<Rightarrow> GatewayEnv" where
  "store_session tenant email tier score row env =
     (if \<not> bound env then env
      else case upsert_user tenant email tier score (geUsers env) of
        None \<Rightarrow> env
      | Some users \<Rightarrow>
          (case insert_row row (tokens env) of
             (Inl _, _) \<Rightarrow> env\<lparr>geUsers := users\<rparr>
           | (Inr _, db) \<Rightarrow> put_tokens db (env\<lparr>geUsers := users\<rparr>)))"

record SyncSessionBody =
  sbId :: "string option"
  sbEmail :: "string option"
  sbTier :: "string option"
  sbAuthProvider :: "string option"

record SyncedSession =
  syId :: string
  syEmail :: string
  syTier :: string
  syProvider :: string
  syToken :: string

definition or_text :: "string \<Rightarrow> string \<Rightarrow> string" where
  "or_text s d = (if s = [] then d else s)"

text \<open>\<open>pathname.replace(/\/+$/, "") || "/"\<close>\<close>

definition normal_path :: "string \<Rightarrow> string" where
  "normal_path p = or_text (rev (dropWhile (\<lambda>c. c = CHR ''/'') (rev p))) ''/''"

definition asked_tier :: "SyncSessionBody \<Rightarrow> string" where
  "asked_tier b =
     or_text (nonempty (sbTier b))
       (if sbAuthProvider b = Some ''google'' then ''builder'' else if sbAuthProvider b = Some ''github'' then ''max'' else ''demo'')"

definition synced_tier :: "SyncSessionBody \<Rightarrow> string" where
  "synced_tier b =
     (if asked_tier b \<in> {''admin'', ''ultra''} \<and> or_text (nonempty (sbAuthProvider b)) ''github'' \<noteq> ''internal''
      then ''max'' else asked_tier b)"

definition session_rpm :: "string \<Rightarrow> int" where
  "session_rpm tier =
     (if tier \<in> {''admin'', ''ultra''} then 1000 else if tier = ''max'' then 60 else if tier = ''builder'' then 20 else 2)"

text \<open>A refusal is a status.\<close>

definition handleSyncSession ::
  "'k SubtleCrypto \<Rightarrow> string \<Rightarrow> timestamp \<Rightarrow> SyncSessionBody option \<Rightarrow> GatewayEnv \<Rightarrow> (int + SyncedSession) \<times> GatewayEnv" where
  "handleSyncSession sc uuid now body env =
     (case body of
        None \<Rightarrow> (Inl 400, env)
      | Some b \<Rightarrow>
          (let tenant = nonempty (sbId b); email = or_text (nonempty (sbEmail b)) (tenant @ ''@users.noreply.kc'');
               tier = synced_tier b; token = session_token tier uuid;
               score = (if tier = ''probationary'' then 35 else if tier = ''demo'' then 20 else 95);
               row = session_row sc now tenant token (session_rpm tier) (if tier = ''demo'' then 0 else 50000000)
           in if tenant = [] then (Inl 400, env)
              else (Inr \<lparr>syId = tenant, syEmail = email, syTier = tier,
                         syProvider = or_text (nonempty (sbAuthProvider b)) ''github'', syToken = token\<rparr>,
                    store_session tenant email tier score row env)))"

text \<open>
  The profile GitHub returns for a code, \<open>None\<close> if the exchange or the call fails. The page posts the
  token to the window that opened it.
\<close>

record GithubProfile =
  gpId :: "int option"
  gpLogin :: "string option"
  gpEmail :: "string option"

record CallbackPage =
  cbLogin :: string
  cbToken :: string
  cbTier :: string

definition github_tenant :: "GithubProfile option \<Rightarrow> string" where
  "github_tenant p =
     (case Option.bind p gpId of
        Some i \<Rightarrow> if i \<noteq> 0 then ''gh_'' @ bigint_to_string i
                  else ''gh_'' @ or_text (first_some (Option.bind p gpLogin) []) ''collective-dev''
      | None \<Rightarrow> ''gh_'' @ or_text (first_some (Option.bind p gpLogin) []) ''collective-dev'')"

definition handleOAuthGithubCallback ::
  "'k SubtleCrypto \<Rightarrow> (string \<Rightarrow> string option \<Rightarrow> GithubProfile option) \<Rightarrow> string \<Rightarrow> timestamp \<Rightarrow> Request \<Rightarrow> GatewayEnv \<Rightarrow>
   (int + CallbackPage) \<times> GatewayEnv" where
  "handleOAuthGithubCallback sc github uuid now r env =
     (case reqQuery r ''code'' of
        None \<Rightarrow> (Inl 400, env)
      | Some code \<Rightarrow>
          if code = [] then (Inl 400, env)
          else
            (let p = github code (reqQuery r ''state''); login = or_text (first_some (Option.bind p gpLogin) []) ''collective-dev'';
                 tenant = github_tenant p;
                 email = or_text (first_some (Option.bind p gpEmail) []) (login @ ''@users.noreply.github.com'');
                 token = session_token ''max'' uuid
             in (Inr \<lparr>cbLogin = login, cbToken = token, cbTier = ''max''\<rparr>,
                 store_session tenant email ''max'' 95 (session_row sc now tenant token 60 50000000) env)))"

end
