(* ===== verification/Dashboard.thy ===== *)
theory Dashboard
  imports Gateway
begin

text \<open>
  \<open>src/worker/router/dashboard/{project_routes,token_routes}.ts\<close>: the projects and the bearer tokens
  a tenant manages from the console. Each handler is one step: the reply, and the environment after it.
  The body of a request is one record with the fields of the interfaces of the routes, each of its
  declared type. An exception that is no \<open>RouterError\<close> is answered with status 500.
\<close>

section \<open>Bodies and replies\<close>

record JsonBody =
  jbId :: "string option"
  jbName :: "string option"
  jbDescription :: "string option option"
  jbTenant :: "string option"
  jbArchived :: "bool option"
  jbSubCap :: "int option"
  jbRpm :: "int option"
  jbRpd :: "int option"
  jbPriority :: "int option"
  jbBudget :: "int option"
  jbProviders :: "string list option"
  jbExpires :: "string option"
  jbProvider :: "string option"
  jbLabel :: "string option"
  jbKey :: "string option"
  jbK1 :: bool
  jbK2 :: bool
  jbPool :: "string option"
  jbNewKey :: "string option"
  jbKeyId :: "string option"
  jbKeyIdSnake :: "string option"
  jbLeaked :: "string option"
  jbLeakedCamel :: "string option"
  jbTurnstile :: "string option"
  jbTurnstileCamel :: "string option"
  jbEmail :: "string option"
  jbTier :: "string option"
  jbAuthProvider :: "string option"
  jbNewTier :: "string option"
  jbReason :: "string option"
  jbStatus :: "string option"
  jbAction :: "string option"
  jbState :: "string option"
  jbActive :: "bool option"
  jbQuarantined :: "bool option"

definition empty_body :: JsonBody where
  "empty_body = \<lparr>jbId = None, jbName = None, jbDescription = None, jbTenant = None, jbArchived = None, jbSubCap = None,
     jbRpm = None, jbRpd = None, jbPriority = None, jbBudget = None, jbProviders = None, jbExpires = None,
     jbProvider = None, jbLabel = None, jbKey = None, jbK1 = False, jbK2 = False, jbPool = None, jbNewKey = None,
     jbKeyId = None, jbKeyIdSnake = None, jbLeaked = None, jbLeakedCamel = None, jbTurnstile = None,
     jbTurnstileCamel = None, jbEmail = None, jbTier = None, jbAuthProvider = None, jbNewTier = None, jbReason = None,
     jbStatus = None, jbAction = None, jbState = None, jbActive = None, jbQuarantined = None\<rparr>"

datatype body = NoText | NotJson | Json JsonBody

definition json_body :: "body \<Rightarrow> JsonBody option" where
  "json_body b = (case b of Json j \<Rightarrow> Some j | _ \<Rightarrow> None)"

record TokenSummary =
  tsId :: string
  tsTenant :: string
  tsRpm :: int
  tsBudget :: int
  tsSpent :: int
  tsCreated :: timestamp
  tsExpires :: "iso_date option"
  tsMasked :: string

record CreatedToken =
  cnId :: string
  cnToken :: string
  cnTenant :: string
  cnRpm :: int
  cnBudget :: int
  cnProviders :: "string list"
  cnExpires :: "timestamp option"
  cnCreated :: timestamp
  cnMasked :: string

record UpdatedProject =
  upId :: string
  upName :: string
  upDescription :: "string option"
  upArchived :: "bool option"
  upSubCap :: "int option"
  upUpdated :: int

definition guest :: "string \<Rightarrow> bool" where
  "guest tenantId \<longleftrightarrow> tenantId = [] \<or> tenantId = ''anonymous'' \<or> tenantId = ''guest''"

text \<open>\<open>pathname.match(/^\/api\/tokens\/([^/?#]+)/)\<close>, decoded; \<open>None\<close> where that throws.\<close>

definition path_id :: "(string \<Rightarrow> string option) \<Rightarrow> string \<Rightarrow> string \<Rightarrow> string option" where
  "path_id uri prefix path =
     (let s = takeWhile (\<lambda>c. c \<notin> set ''/?#'') (drop (length prefix) path)
      in if starts prefix path \<and> s \<noteq> [] then uri (js_trim s) else Some [])"

text \<open>The tenant an administrator asks for, in a list and when something is created.\<close>

definition listed_tenant :: "Request \<Rightarrow> string \<Rightarrow> string option" where
  "listed_tenant r tenantId =
     (if tenantId \<noteq> ''admin'' then Some tenantId
      else if truthy_text (reqHeader r ''x-tenant-id'') then reqHeader r ''x-tenant-id''
      else if truthy_text (reqQuery r ''tenant_id'') then reqQuery r ''tenant_id''
      else if truthy_text (reqQuery r ''tenantId'') then reqQuery r ''tenantId''
      else None)"

definition created_for :: "Request \<Rightarrow> JsonBody \<Rightarrow> string \<Rightarrow> string" where
  "created_for r b tenantId =
     (if tenantId \<noteq> ''admin'' then tenantId
      else or_text (nonempty (reqHeader r ''x-tenant-id'')) (or_text (nonempty (jbTenant b)) tenantId))"

definition sees :: "string option \<Rightarrow> string \<Rightarrow> bool" where
  "sees scope owner \<longleftrightarrow> (case scope of None \<Rightarrow> True | Some t \<Rightarrow> owner = t)"

text \<open>A row an operation may touch: any for \<open>admin\<close>, else one of the tenant's own.\<close>

definition owned_by :: "string \<Rightarrow> string \<Rightarrow> bool" where
  "owned_by tenantId owner \<longleftrightarrow> tenantId = ''admin'' \<or> owner = tenantId"

datatype 'a answer = Answer int 'a | Refuse int string

section \<open>Projects (project\_routes.ts)\<close>

definition handleGetProjects :: "Request \<Rightarrow> GatewayEnv \<Rightarrow> string \<Rightarrow> ProjectRecord list answer" where
  "handleGetProjects r env tenantId =
     (if guest tenantId then Refuse 401 ''UNAUTHORIZED''
      else if \<not> bound env then Answer 200 []
      else Answer 200 (sort_key (\<lambda>p. - pjCreated p)
             (filter (\<lambda>p. sees (listed_tenant r tenantId) (pjTenant p)) (geProjects env))))"

definition handlePostProjects ::
  "string \<Rightarrow> timestamp \<Rightarrow> Request \<Rightarrow> body \<Rightarrow> GatewayEnv \<Rightarrow> string \<Rightarrow> ProjectRecord answer \<times> GatewayEnv" where
  "handlePostProjects uuid now r body env tenantId =
     (if guest tenantId then (Refuse 401 ''UNAUTHORIZED'', env)
      else if \<not> bound env then (Refuse 500 ''DATABASE_ERROR'', env)
      else case json_body body of
        None \<Rightarrow> (Refuse 400 ''BAD_REQUEST'', env)
      | Some b \<Rightarrow>
          if nonempty (jbName b) = [] then (Refuse 400 ''BAD_REQUEST'', env)
          else
            (let description = nonempty (first_some (jbDescription b) None);
                 project = \<lparr>pjId = or_text (nonempty (jbId b)) (''proj_'' @ base36 (nat now) @ ''_'' @ take 8 uuid),
                   pjName = nonempty (jbName b), pjTenant = created_for r b tenantId,
                   pjDescription = (if description = [] then None else Some description),
                   pjCreated = now div 1000, pjUpdated = now div 1000\<rparr>
             in if \<exists>p\<in>set (geProjects env). pjId p = pjId project then (Refuse 409 ''CONFLICT'', env)
                else (Answer 201 project, env\<lparr>geProjects := geProjects env @ [project]\<rparr>)))"

text \<open>The id that was deleted. \<open>Refuse 500\<close> stands for the exception of \<open>decodeURIComponent\<close>, too.\<close>

definition handleDeleteProject ::
  "(string \<Rightarrow> string option) \<Rightarrow> string \<Rightarrow> GatewayEnv \<Rightarrow> string \<Rightarrow> string answer \<times> GatewayEnv" where
  "handleDeleteProject uri path env tenantId =
     (if guest tenantId then (Refuse 401 ''UNAUTHORIZED'', env)
      else case path_id uri ''/api/projects/'' path of
        None \<Rightarrow> (Refuse 500 ''INTERNAL_ROUTING_ERROR'', env)
      | Some i \<Rightarrow>
          if i = [] then (Refuse 400 ''BAD_REQUEST'', env)
          else if \<not> bound env then (Refuse 500 ''DATABASE_ERROR'', env)
          else case find (\<lambda>p. pjId p = i \<and> owned_by tenantId (pjTenant p)) (geProjects env) of
            None \<Rightarrow> (Refuse 404 ''NOT_FOUND'', env)
          | Some _ \<Rightarrow>
              (Answer 200 i,
               env\<lparr>geProjectKeys := map (\<lambda>(k, p). (k, if p = Some i then None else p)) (geProjectKeys env),
                   geProjects := filter (\<lambda>p. \<not> (pjId p = i \<and> owned_by tenantId (pjTenant p))) (geProjects env)\<rparr>))"

text \<open>The statement writes the name, the description and the time, whatever the body asks for.\<close>

definition handleUpdateProject ::
  "(string \<Rightarrow> string option) \<Rightarrow> timestamp \<Rightarrow> string \<Rightarrow> body \<Rightarrow> GatewayEnv \<Rightarrow> string \<Rightarrow> UpdatedProject answer \<times> GatewayEnv" where
  "handleUpdateProject uri now path body env tenantId =
     (if guest tenantId then (Refuse 401 ''UNAUTHORIZED'', env)
      else case path_id uri ''/api/projects/'' path of
        None \<Rightarrow> (Refuse 500 ''INTERNAL_ROUTING_ERROR'', env)
      | Some i \<Rightarrow>
          if i = [] then (Refuse 400 ''BAD_REQUEST'', env)
          else if \<not> bound env then (Refuse 500 ''DATABASE_ERROR'', env)
          else case json_body body of
            None \<Rightarrow> (Refuse 400 ''BAD_REQUEST'', env)
          | Some b \<Rightarrow>
              (case find (\<lambda>p. pjId p = i \<and> owned_by tenantId (pjTenant p)) (geProjects env) of
                 None \<Rightarrow> (Refuse 404 ''NOT_FOUND'', env)
               | Some old \<Rightarrow>
                   (let name = or_text (nonempty (jbName b)) (pjName old);
                        description = (case jbDescription b of None \<Rightarrow> pjDescription old | Some d \<Rightarrow> map_option js_trim d)
                    in (Answer 200 \<lparr>upId = i, upName = name, upDescription = description, upArchived = jbArchived b,
                                   upSubCap = jbSubCap b, upUpdated = now div 1000\<rparr>,
                        env\<lparr>geProjects := map (\<lambda>p. if pjId p = i
                               then p\<lparr>pjName := name, pjDescription := description, pjUpdated := now div 1000\<rparr> else p)
                             (geProjects env)\<rparr>))))"

section \<open>Tokens (token\_routes.ts)\<close>

definition maskHash :: "string option \<Rightarrow> string" where
  "maskHash h =
     (let clean = js_trim (first_some h [])
      in if length clean \<le> 16 then replicate 16 CHR ''*''
         else take 8 clean @ ''...'' @ drop (length clean - 8) clean)"

definition generateCsprngToken :: "random_source \<Rightarrow> nat \<Rightarrow> string" where
  "generateCsprngToken rnd k = ''kc_proj_live_'' @ bytesToHex (map (rnd k) [0..<24])"

definition computeSha256 :: "'k SubtleCrypto \<Rightarrow> string \<Rightarrow> string" where
  "computeSha256 sc s = bytesToHex (scDigest sc (stringToBytes s))"

text \<open>The cipher text and the nonce in Base64; \<open>None\<close> if the platform refuses.\<close>

definition encryptToken ::
  "'k SubtleCrypto \<Rightarrow> random_source \<Rightarrow> nat \<Rightarrow> string \<Rightarrow> string \<Rightarrow> (string \<times> string) option" where
  "encryptToken sc rnd k plaintext secretKey =
     (let iv = map (rnd k) [0..<12]; key = scImportRaw sc (scDigest sc (stringToBytes secretKey))
      in map_option (\<lambda>ct. (uint8ArrayToBase64 ct, uint8ArrayToBase64 iv)) (scEncrypt sc key iv (stringToBytes plaintext)))"

definition still_active :: "timestamp \<Rightarrow> AuthTokenRow \<Rightarrow> bool" where
  "still_active now row \<longleftrightarrow> (case trExpires row of Some (Some t) \<Rightarrow> t > now | _ \<Rightarrow> True)"

definition token_summary :: "AuthTokenRow \<Rightarrow> TokenSummary" where
  "token_summary row =
     \<lparr>tsId = trId row, tsTenant = trTenant row, tsRpm = trRpm row, tsBudget = trBudget row, tsSpent = trSpent row,
      tsCreated = trCreated row, tsExpires = trExpires row, tsMasked = maskHash (Some (trHash row))\<rparr>"

definition handleGetTokens :: "timestamp \<Rightarrow> Request \<Rightarrow> GatewayEnv \<Rightarrow> string \<Rightarrow> TokenSummary list answer" where
  "handleGetTokens now r env tenantId =
     (if guest tenantId then Refuse 401 ''UNAUTHORIZED''
      else if \<not> bound env then Answer 200 []
      else
        (let includeExpired = (reqQuery r ''include_expired'' = Some ''true'' \<or> reqQuery r ''all'' = Some ''true'')
         in Answer 200 (map token_summary (filter (\<lambda>row. includeExpired \<or> still_active now row)
              (sort_key (\<lambda>row. - trCreated row)
                (filter (\<lambda>row. sees (listed_tenant r tenantId) (trTenant row)) (tokens env)))))))"

definition created_token_row ::
  "'k SubtleCrypto \<Rightarrow> random_source \<Rightarrow> (string \<Rightarrow> timestamp option) \<Rightarrow> string \<Rightarrow> timestamp \<Rightarrow> string \<Rightarrow> Request \<Rightarrow>
   JsonBody \<Rightarrow> string \<Rightarrow> AuthTokenRow" where
  "created_token_row sc rnd date uuid now masterKey r b tenantId =
     (let token = generateCsprngToken rnd 0; encrypted = encryptToken sc rnd 1 token masterKey
      in \<lparr>trId = or_text (nonempty (jbId b)) (''tok_'' @ base36 (nat now) @ ''_'' @ take 8 uuid),
          trHash = computeSha256 sc token, trTenant = created_for r b tenantId,
          trEncrypted = map_option fst encrypted, trNonce = map_option snd encrypted,
          trBudget = first_some (jbBudget b) 0, trSpent = 0,
          trProviders = (case jbProviders b of Some ps \<Rightarrow> the (json (JArr (map JStr ps))) | None \<Rightarrow> ''[]''),
          trRpm = (case jbRpm b of Some n \<Rightarrow> if n > 0 then n else 60 | None \<Rightarrow> 60),
          trExpires = map_option Some (if truthy_text (jbExpires b) then date (the (jbExpires b)) else None),
          trCreated = now\<rparr>)"

text \<open>A body that is not JSON is refused only under a JSON content type, else it counts as empty.\<close>

definition token_body :: "Request \<Rightarrow> body \<Rightarrow> JsonBody option" where
  "token_body r body =
     (case body of
        NoText \<Rightarrow> Some empty_body
      | Json b \<Rightarrow> Some b
      | NotJson \<Rightarrow> if str_includes (first_some (reqHeader r ''content-type'') []) ''application/json'' then None else Some empty_body)"

definition handlePostTokens ::
  "'k SubtleCrypto \<Rightarrow> random_source \<Rightarrow> (string \<Rightarrow> timestamp option) \<Rightarrow> string \<Rightarrow> timestamp \<Rightarrow> Request \<Rightarrow> body \<Rightarrow>
   GatewayEnv \<Rightarrow> string \<Rightarrow> CreatedToken answer \<times> GatewayEnv" where
  "handlePostTokens sc rnd date uuid now r body env tenantId =
     (if guest tenantId then (Refuse 401 ''UNAUTHORIZED'', env)
      else if \<not> bound env then (Refuse 500 ''DATABASE_ERROR'', env)
      else case token_body r body of
        None \<Rightarrow> (Refuse 400 ''BAD_REQUEST'', env)
      | Some b \<Rightarrow>
          if nonempty (aeMasterKey (geAuth env)) = [] then (Refuse 503 ''Server misconfiguration'', env)
          else
            (let row = created_token_row sc rnd date uuid now (the (aeMasterKey (geAuth env))) r b tenantId
             in case insert_row row (tokens env) of
                  (Inl _, _) \<Rightarrow> (Refuse 409 ''CONFLICT'', env)
                | (Inr _, db) \<Rightarrow>
                    (Answer 201 \<lparr>cnId = trId row, cnToken = generateCsprngToken rnd 0, cnTenant = trTenant row,
                       cnRpm = trRpm row, cnBudget = trBudget row, cnProviders = first_some (jbProviders b) [],
                       cnExpires = Option.bind (trExpires row) id, cnCreated = now, cnMasked = maskHash (Some (trHash row))\<rparr>,
                     put_tokens db env)))"

definition handleDeleteToken ::
  "(string \<Rightarrow> string option) \<Rightarrow> string \<Rightarrow> GatewayEnv \<Rightarrow> string \<Rightarrow> string answer \<times> GatewayEnv" where
  "handleDeleteToken uri path env tenantId =
     (if guest tenantId then (Refuse 401 ''UNAUTHORIZED'', env)
      else case path_id uri ''/api/tokens/'' path of
        None \<Rightarrow> (Refuse 500 ''INTERNAL_ROUTING_ERROR'', env)
      | Some i \<Rightarrow>
          if i = [] then (Refuse 400 ''BAD_REQUEST'', env)
          else if \<not> bound env then (Refuse 500 ''DATABASE_ERROR'', env)
          else case select_one (\<lambda>t. trId t = i \<and> owned_by tenantId (trTenant t)) (tokens env) of
            None \<Rightarrow> (Refuse 404 ''NOT_FOUND'', env)
          | Some _ \<Rightarrow>
              (Answer 200 i,
               put_tokens (snd (delete_where (\<lambda>t. trId t = i \<and> owned_by tenantId (trTenant t)) (tokens env))) env))"

end
