(* ===== verification/DashboardKeys.thy ===== *)
theory DashboardKeys
  imports Dashboard
begin

text \<open>
  \<open>src/worker/router/dashboard/keys/{get_keys,post_key,ops}.ts\<close>, \<open>abuse_routes.ts\<close> and
  \<open>src/ingress/probe.ts\<close>: the provider keys of a tenant, and the public report of a leaked key. What a handler tells the key pool object of
  a tenant is a message. \<open>call\<close> is Turnstile's service, \<open>google\<close> the reply to a call of Google's
  API, \<open>reach\<close> the call that tries a key, \<open>None\<close> if it throws. \<open>geSchema\<close> of a table says
  whether the statement below fits it: in the schema of the migrations \<open>consent_attestations\<close> lacks
  the columns \<open>key_id\<close>, \<open>consent_type\<close>, \<open>consent_version\<close> and \<open>created_at\<close>, and \<open>project_hash_registry\<close>
  requires a provider. \<open>api_keys\<close> has no column \<open>key_hash\<close>, so that statement of the report does nothing.
\<close>

datatype pool_message = RemoveFromPool string string | AddToPool string KeyRow

definition router_code :: string where "router_code = ''INTERNAL_DOMAIN_ERROR''"

definition unexpected :: string where "unexpected = ''INTERNAL_ROUTING_ERROR''"

definition pool_tenant :: "string option \<Rightarrow> string \<Rightarrow> string" where
  "pool_tenant headerTenant tenantId =
     (if tenantId = ''admin'' then or_text (first_some headerTenant []) ''default'' else tenantId)"

definition change_keys :: "(KeyRow \<Rightarrow> bool) \<Rightarrow> (KeyRow \<Rightarrow> KeyRow) \<Rightarrow> GatewayEnv \<Rightarrow> GatewayEnv" where
  "change_keys P f env = env\<lparr>geKeys := map (\<lambda>k. if P k then f k else k) (geKeys env)\<rparr>"

definition clearDecryptedKeyCache :: "GatewayEnv \<Rightarrow> GatewayEnv" where
  "clearDecryptedKeyCache env = env\<lparr>geCache := Map.empty\<rparr>"

text \<open>A key an operation may touch: any for \<open>admin\<close>, else the tenant's own and those of \<open>default\<close>.\<close>

definition shared_with :: "string \<Rightarrow> string \<Rightarrow> bool" where
  "shared_with tenantId owner \<longleftrightarrow> tenantId = ''admin'' \<or> owner = tenantId \<or> owner = ''default''"

definition js_upper :: "string \<Rightarrow> string" where
  "js_upper s = map (\<lambda>c. if 97 \<le> code_of c \<and> code_of c \<le> 122 then char_of (code_of c - 32 :: nat) else c) s"

text \<open>\<open>s.replace(p, "")\<close>: the first occurrence.\<close>

fun cut_first :: "string \<Rightarrow> string \<Rightarrow> string" where
  "cut_first p [] = []"
| "cut_first p (c # s) = (if starts p (c # s) then drop (length p) (c # s) else c # cut_first p s)"

section \<open>Listing (get\_keys.ts)\<close>

record ListedKey =
  lkId :: string
  lkPrefix :: string
  lkSuffix :: string
  lkProvider :: string
  lkLabel :: string
  lkRpm :: int
  lkRpd :: int
  lkPriority :: int
  lkStatus :: string
  lkCooldown :: "timestamp option"
  lkCreated :: timestamp
  lkPool :: string
  lkRouting :: string
  lkObservation :: "timestamp option"
  lkDispatched :: int
  lkCommunal :: int
  lkVesting :: int
  lkTenant :: "string option"
  lkOwner :: bool

definition sees_all_keys :: "GatewayEnv \<Rightarrow> string \<Rightarrow> bool" where
  "sees_all_keys env tenantId \<longleftrightarrow>
     tenantId = ''admin'' \<or>
     (\<not> guest tenantId \<and>
      (case user_by_id tenantId env of None \<Rightarrow> False | Some u \<Rightarrow> usTier u = ''admin'' \<or> usRole u = Some ''admin''))"

definition key_visible :: "GatewayEnv \<Rightarrow> string \<Rightarrow> KeyRow \<Rightarrow> bool" where
  "key_visible env tenantId k \<longleftrightarrow>
     sees_all_keys env tenantId \<or> krPool k = Some ''COMMUNITY'' \<or>
     (\<not> guest tenantId \<and> krPool k = Some ''PRIVATE'' \<and> krTenant k = tenantId)"

definition listed_status :: "string \<Rightarrow> string" where
  "listed_status s =
     (let t = js_lower s in
      if str_includes t ''rate'' then ''rate_limited''
      else if str_includes t ''exhaust'' then ''exhausted''
      else if str_includes t ''invalid'' then ''invalid''
      else if str_includes t ''disable'' then ''disabled'' else ''healthy'')"

definition listed_key :: "GatewayEnv \<Rightarrow> string \<Rightarrow> KeyRow \<Rightarrow> ListedKey" where
  "listed_key env tenantId k =
     (let owner = (sees_all_keys env tenantId \<or> (\<not> guest tenantId \<and> krTenant k = tenantId))
      in \<lparr>lkId = krId k, lkPrefix = krPrefix k, lkSuffix = krSuffix k,
          lkProvider = (if krProvider k = ''google'' then ''gemini'' else krProvider k), lkLabel = krLabel k,
          lkRpm = krRpm k, lkRpd = krRpd k, lkPriority = krPriority k, lkStatus = listed_status (krStatus k),
          lkCooldown = krOpenUntil k, lkCreated = krCreated k, lkPool = first_some (krPool k) ''COMMUNITY'',
          lkRouting = first_some (krRouting k) ''OBSERVATION'', lkObservation = krObservation k,
          lkDispatched = first_some (krDispatched k) 0, lkCommunal = first_some (krCommunal k) 0,
          lkVesting = first_some (krVesting k) 0,
          lkTenant = (if owner then Some (krTenant k) else None), lkOwner = owner\<rparr>)"

text \<open>The counts of requests and the latency, read from the ledger, are left out.\<close>

definition handleGetKeys :: "GatewayEnv \<Rightarrow> string \<Rightarrow> ListedKey list" where
  "handleGetKeys env tenantId =
     (if \<not> bound env then []
      else map (listed_key env tenantId)
        (sort_key krPriority (sort_key (\<lambda>k. - krCreated k) (filter (key_visible env tenantId) (geKeys env)))))"

section \<open>Operations (ops.ts)\<close>

definition handleDeleteKey ::
  "string \<Rightarrow> string option \<Rightarrow> GatewayEnv \<Rightarrow> string \<Rightarrow> string answer \<times> pool_message list \<times> GatewayEnv" where
  "handleDeleteKey path headerTenant env tenantId =
     (let keyId = js_trim (cut_first ''/api/keys/'' path) in
      if keyId = [] then (Refuse 400 router_code, [], env)
      else if guest tenantId then (Refuse 401 router_code, [], env)
      else (Answer 200 keyId, [RemoveFromPool (pool_tenant headerTenant tenantId) keyId],
            if bound env
            then env\<lparr>geKeys := filter (\<lambda>k. \<not> (krId k = keyId \<and> owned_by tenantId (krTenant k))) (geKeys env)\<rparr>
            else env))"

text \<open>The minute of the day; the window is from 23:30 to 00:30, both included.\<close>

definition utc_minute :: "timestamp \<Rightarrow> int" where
  "utc_minute now = now mod 86400000 div 60000"

definition freeze_window :: "timestamp \<Rightarrow> bool" where
  "freeze_window now \<longleftrightarrow>
     (let h = utc_minute now div 60; m = utc_minute now mod 60 in (h = 23 \<and> m \<ge> 30) \<or> (h = 0 \<and> m \<le> 30))"

record PoolModeReply =
  pmKey :: string
  pmPool :: string
  pmRouting :: "string option"
  pmObservation :: "timestamp option"

definition contributor :: "string \<Rightarrow> bool" where
  "contributor tenantId \<longleftrightarrow> starts ''usr_gh_'' tenantId \<or> tenantId = ''admin''"

definition pool_columns :: "timestamp \<Rightarrow> string \<Rightarrow> KeyRow \<Rightarrow> KeyRow" where
  "pool_columns now pool k =
     k\<lparr>krPool := Some pool, krRouting := (if pool = ''COMMUNITY'' then Some ''OBSERVATION'' else None),
       krObservation := (if pool = ''COMMUNITY'' then Some (now + 24 * 60 * 60 * 1000) else None)\<rparr>"

text \<open>A tenant other than \<open>admin\<close> becomes the owner of the key.\<close>

definition handlePoolMode ::
  "timestamp \<Rightarrow> string \<Rightarrow> body \<Rightarrow> GatewayEnv \<Rightarrow> string \<Rightarrow> PoolModeReply answer \<times> GatewayEnv" where
  "handlePoolMode now path body env tenantId =
     (let keyId = split_on CHR ''/'' path ! 3;
          poolType = map_option js_upper (jbPool (first_some (json_body body) empty_body));
          pool = first_some poolType []
      in if keyId = [] then (Refuse 400 router_code, env)
         else if freeze_window now then (Refuse 423 ''pool_toggle_frozen'', env)
         else if pool \<noteq> ''COMMUNITY'' \<and> pool \<noteq> ''PRIVATE'' then (Refuse 400 router_code, env)
         else if pool = ''COMMUNITY'' \<and> \<not> contributor tenantId then (Refuse 403 router_code, env)
         else if \<not> bound env then (Refuse 500 router_code, env)
         else
           (Answer 200 \<lparr>pmKey = keyId, pmPool = pool,
              pmRouting = (if pool = ''COMMUNITY'' then Some ''OBSERVATION'' else None),
              pmObservation = (if pool = ''COMMUNITY'' then Some (now + 24 * 60 * 60 * 1000) else None)\<rparr>,
            clearDecryptedKeyCache
              (change_keys (\<lambda>k. krId k = keyId \<and> shared_with tenantId (krTenant k))
                 (\<lambda>k. (pool_columns now pool k)\<lparr>krTenant := if tenantId = ''admin'' then krTenant k else tenantId\<rparr>) env)))"

definition stored_key :: "KeyRow \<Rightarrow> StoredKey" where
  "stored_key k = \<lparr>skEncryptedKey = krEncrypted k, skNonce = krNonce k, skTenant = krTenant k\<rparr>"

definition key_by_id :: "GatewayEnv \<Rightarrow> string \<Rightarrow> KeyRow option" where
  "key_by_id env i = find (\<lambda>k. krId k = i) (geKeys env)"

text \<open>Whether the provider accepted the key, for the providers that are asked.\<close>

definition handleTestKey ::
  "'k SubtleCrypto \<Rightarrow> (bytes \<Rightarrow> unicode) \<Rightarrow> (string \<Rightarrow> string \<Rightarrow> bool option) \<Rightarrow> timestamp \<Rightarrow> string \<Rightarrow> string option \<Rightarrow>
   GatewayEnv \<Rightarrow> string \<Rightarrow> bool answer \<times> GatewayEnv" where
  "handleTestKey sc lossy reach now path masterKey env tenantId =
     (let keyId = js_trim (cut_first ''/test'' (cut_first ''/api/keys/'' path)) in
      if keyId = [] then (Refuse 400 router_code, env)
      else if \<not> bound env then (Refuse 500 router_code, env)
      else if \<not> truthy_text masterKey then (Refuse 500 router_code, env)
      else case find (\<lambda>k. krId k = keyId \<and> owned_by tenantId (krTenant k)) (geKeys env) of
        None \<Rightarrow> (Refuse 404 router_code, env)
      | Some k \<Rightarrow>
          (let (plain, cache) = resolvePlaintextKey sc lossy now (\<lambda>i. map_option stored_key (key_by_id env i)) masterKey
                 keyId (or_text (krTenant k) tenantId) (geCache env);
               env1 = env\<lparr>geCache := cache\<rparr>
           in if krProvider k \<in> {''google'', ''gemini'', ''groq''}
              then (case reach (krProvider k) plain of
                  None \<Rightarrow> (Refuse 500 unexpected, env1)
                | Some ok \<Rightarrow> (Answer 200 ok, env1))
              else (Answer 200 True, env1)))"

definition sealed :: "'k SubtleCrypto \<Rightarrow> random_source \<Rightarrow> nat \<Rightarrow> string \<Rightarrow> string \<Rightarrow> string \<Rightarrow> crypto_error + EncryptedPayload" where
  "sealed sc rnd n masterKey tenant rawKey =
     encrypt sc rnd n (PlainText (map of_char rawKey)) (Imported (deriveTenantKey sc (Inl masterKey) tenant)) None"

definition key_columns :: "string \<Rightarrow> EncryptedPayload \<Rightarrow> KeyRow \<Rightarrow> KeyRow" where
  "key_columns rawKey e k =
     k\<lparr>krEncrypted := epCiphertextB64 e, krNonce := epNonceB64 e, krPrefix := take 8 rawKey,
       krSuffix := drop (length rawKey - 4) rawKey\<rparr>"

definition handleRotateKeySecret ::
  "'k SubtleCrypto \<Rightarrow> random_source \<Rightarrow> string \<Rightarrow> body \<Rightarrow> string option \<Rightarrow> string option \<Rightarrow> GatewayEnv \<Rightarrow> string \<Rightarrow>
   (string \<times> string \<times> string) answer \<times> GatewayEnv" where
  "handleRotateKeySecret sc rnd path body headerTenant masterKey env tenantId =
     (let keyId = js_trim (cut_first ''/rotate'' (cut_first ''/api/keys/'' path));
          rawKey = nonempty (jbNewKey (first_some (json_body body) empty_body))
      in if keyId = [] then (Refuse 400 router_code, env)
         else if guest tenantId then (Refuse 401 router_code, env)
         else if \<not> bound env then (Refuse 500 router_code, env)
         else if \<not> truthy_text masterKey then (Refuse 500 router_code, env)
         else if rawKey = [] then (Refuse 400 router_code, env)
         else if tenantId \<noteq> ''admin'' \<and> \<not> (\<exists>k\<in>set (geKeys env). krId k = keyId \<and> shared_with tenantId (krTenant k))
         then (Refuse 404 router_code, env)
         else case sealed sc rnd 0 (the masterKey) (pool_tenant headerTenant tenantId) rawKey of
             Inl _ \<Rightarrow> (Refuse 500 unexpected, env)
           | Inr e \<Rightarrow>
               (Answer 200 (keyId, take 8 rawKey, drop (length rawKey - 4) rawKey),
                clearDecryptedKeyCache
                  (change_keys (\<lambda>k. krId k = keyId \<and> shared_with tenantId (krTenant k)) (key_columns rawKey e) env)))"

section \<open>Adding a key (post\_key.ts)\<close>

text \<open>
  The project named in the error of a call that must fail. \<open>call\<close> is the status
  and the JSON of the reply, \<open>None\<close> where it throws; a \<open>null\<close> among the details throws, too.
\<close>

fun error_info :: "js list \<Rightarrow> js option" where
  "error_info [] = None"
| "error_info (d # ds) =
     (if d = JNull \<or> d = JUndefined then None
      else if js_get d ''@type'' = JStr ''type.googleapis.com/google.rpc.ErrorInfo'' then Some d else error_info ds)"

definition forceErrorGcpProbe :: "(string \<Rightarrow> (int \<times> js option) option) \<Rightarrow> string \<Rightarrow> string \<Rightarrow> string option" where
  "forceErrorGcpProbe google rawKey given =
     (if given \<noteq> ''google'' \<and> given \<noteq> ''gemini'' then None
      else case google rawKey of
        None \<Rightarrow> None
      | Some (code, data) \<Rightarrow>
          if code \<noteq> 400 then None
          else (case js_get (js_get (first_some data JNull) ''error'') ''details'' of
              JArr ds \<Rightarrow>
                (case js_get (js_get (first_some (error_info ds) JNull) ''metadata'') ''consumer'' of
                   JStr c \<Rightarrow> if starts ''projects/'' c then Some (drop 9 c) else None
                 | _ \<Rightarrow> None)
            | _ \<Rightarrow> None))"

text \<open>The registry of Google projects: refused, or the environment after the insertion.\<close>

definition claim_project ::
  "'k SubtleCrypto \<Rightarrow> timestamp \<Rightarrow> string option \<Rightarrow> string \<Rightarrow> GatewayEnv \<Rightarrow> (int \<times> string) + GatewayEnv" where
  "claim_project sc now project tenantId env =
     (if \<not> truthy_text project then Inr env
      else
        (let h = computeSha256 sc (the project); old = find (\<lambda>x. hrHash x = h) (geHashes env)
         in if map_option hrState old = Some ''ACTIVE'' then Inl (409, router_code)
            else if map_option hrState old = Some ''TOMBSTONED'' then Inl (403, router_code)
            else if old \<noteq> None \<or> \<not> geSchema env ''project_hash_registry'' then Inl (500, unexpected)
            else Inr (env\<lparr>geHashes := geHashes env @
                       [\<lparr>hrHash = h, hrTenant = tenantId, hrState = ''ACTIVE'', hrTombstone = None, hrCreated = now\<rparr>]\<rparr>)))"

definition or_number :: "int option \<Rightarrow> int \<Rightarrow> int" where
  "or_number n d = (if first_some n 0 = 0 then d else the n)"

definition posted_row ::
  "random_source \<Rightarrow> timestamp \<Rightarrow> JsonBody \<Rightarrow> string \<Rightarrow> EncryptedPayload \<Rightarrow> KeyRow" where
  "posted_row rnd now b target e =
     (let rawKey = nonempty (jbKey b); given = the (jbProvider b); groq = (given = ''groq'')
      in pool_columns now (if map_option js_upper (jbPool b) = Some ''COMMUNITY'' then ''COMMUNITY'' else ''PRIVATE'')
         \<lparr>krId = ''key_'' @ given @ ''_'' @ base36 (nat now) @ ''_'' @ bytesToHex (map (rnd 0) [0..<3]),
          krTenant = target, krLabel = or_text (nonempty (jbLabel b)) (given @ ''-key-'' @ base36 (nat now)),
          krProvider = (if given = ''gemini'' then ''google'' else given),
          krEncrypted = epCiphertextB64 e, krNonce = epNonceB64 e, krPrefix = take 8 rawKey,
          krSuffix = drop (length rawKey - 4) rawKey,
          krRpm = or_number (jbRpm b) (if groq then 30 else 15), krRpd = or_number (jbRpd b) (if groq then 14400 else 1500),
          krPriority = or_number (jbPriority b) 0, krStatus = ''Healthy'', krPool = None, krRouting = None,
          krObservation = None, krProjectHash = None, krOpenUntil = None, krCreated = now, krDispatched = Some 0,
          krCommunal = Some 0, krVesting = Some 0\<rparr>)"

text \<open>
  A provider that is missing cannot be bound to the insertion. The attestations come after the row, and
  the pool hears of the key after the attestations: what fails in between leaves the row.
\<close>

definition store_key ::
  "timestamp \<Rightarrow> KeyRow \<Rightarrow> GatewayEnv \<Rightarrow> KeyRow answer \<times> pool_message list \<times> GatewayEnv" where
  "store_key now row env =
     (if \<exists>k\<in>set (geKeys env). krId k = krId row then (Refuse 500 unexpected, [], env)
      else
        (let env1 = env\<lparr>geKeys := geKeys env @ [row]\<rparr>;
             consent = (\<lambda>t. \<lparr>csKey = krId row, csTenant = krTenant row, csType = t, csCreated = now\<rparr>)
         in if \<not> geSchema env ''consent_attestations'' then (Refuse 500 unexpected, [], env1)
            else (Answer 201 row, [AddToPool (krTenant row) row],
                  env1\<lparr>geConsents := geConsents env @ [consent ''K1'', consent ''K2'']\<rparr>)))"

definition handlePostKeys ::
  "'k SubtleCrypto \<Rightarrow> random_source \<Rightarrow> (string \<Rightarrow> string \<Rightarrow> string option \<Rightarrow> siteverify) \<Rightarrow>
   (string \<Rightarrow> (int \<times> js option) option) \<Rightarrow> timestamp \<Rightarrow> Request \<Rightarrow> body \<Rightarrow> string option \<Rightarrow> GatewayEnv \<Rightarrow> string \<Rightarrow>
   KeyRow answer \<times> pool_message list \<times> GatewayEnv" where
  "handlePostKeys sc rnd call google now r body masterKey env tenantId =
     (if \<not> bound env \<or> \<not> truthy_text masterKey then (Refuse 500 router_code, [], env)
      else if guest tenantId then (Refuse 401 router_code, [], env)
      else if \<not> tvSuccess (verifyTurnstileToken call (geTurnstile env) None (reqHeader r ''x-turnstile-token''))
      then (Refuse 403 router_code, [], env)
      else case json_body body of
        None \<Rightarrow> (Refuse 500 unexpected, [], env)
      | Some b \<Rightarrow>
          (let rawKey = nonempty (jbKey b); target = pool_tenant (reqHeader r ''x-tenant-id'') tenantId;
               name = (if jbProvider b = Some ''gemini'' then ''google'' else first_some (jbProvider b) [])
           in if \<not> jbK1 b \<or> \<not> jbK2 b \<or> rawKey = [] then (Refuse 400 router_code, [], env)
              else if jbPool b = Some ''COMMUNITY'' \<and> \<not> contributor tenantId then (Refuse 403 router_code, [], env)
              else case claim_project sc now (forceErrorGcpProbe google rawKey name) tenantId env of
                Inl (s, c) \<Rightarrow> (Refuse s c, [], env)
              | Inr env1 \<Rightarrow>
                  (case sealed sc rnd 1 (the masterKey) target rawKey of
                     Inl _ \<Rightarrow> (Refuse 500 unexpected, [], env1)
                   | Inr e \<Rightarrow>
                       if jbProvider b = None then (Refuse 500 unexpected, [], env1)
                       else store_key now (posted_row rnd now b target e) env1)))"

section \<open>Reports of a leak (abuse\_routes.ts)\<close>

definition revoked :: "KeyRow \<Rightarrow> KeyRow" where
  "revoked k = k\<lparr>krStatus := ''invalid'', krRouting := Some ''REVOKED''\<rparr>"

definition either_text :: "string option \<Rightarrow> string option \<Rightarrow> string" where
  "either_text a b = js_trim (if truthy_text a then the a else first_some b [])"

definition revoke_id :: "string \<Rightarrow> GatewayEnv \<Rightarrow> GatewayEnv" where
  "revoke_id i env = (if i = [] then env else change_keys (\<lambda>k. krId k = i) revoked env)"

definition revoke_leaked :: "'k SubtleCrypto \<Rightarrow> timestamp \<Rightarrow> string \<Rightarrow> GatewayEnv \<Rightarrow> GatewayEnv" where
  "revoke_leaked sc now rawKey env =
     (if rawKey = [] then env
      else
        (let h = computeSha256 sc rawKey;
             env1 = change_keys (\<lambda>k. krPrefix k = take 8 rawKey \<or> krPrefix k = take 6 rawKey) revoked env;
             env2 = change_keys (\<lambda>k. krProjectHash k = Some h) revoked env1
         in env2\<lparr>geHashes := map (\<lambda>x. if hrHash x = h
                then x\<lparr>hrState := ''TOMBSTONED'', hrTombstone := Some (now + 365 * 24 * 60 * 60 * 1000)\<rparr> else x)
              (geHashes env2)\<rparr>))"

text \<open>The reply is the same whatever was found, at least 200 ms after the start.\<close>

definition handleReportKeyAbuse ::
  "'k SubtleCrypto \<Rightarrow> (string \<Rightarrow> string \<Rightarrow> string option \<Rightarrow> siteverify) \<Rightarrow> timestamp \<Rightarrow> Request \<Rightarrow> body \<Rightarrow>
   GatewayEnv \<Rightarrow> unit answer \<times> GatewayEnv" where
  "handleReportKeyAbuse sc call now r body env =
     (let b = first_some (json_body body) empty_body;
          header = reqHeader r ''x-turnstile-token'';
          token = (if truthy_text header then the header
                   else if truthy_text (jbTurnstile b) then the (jbTurnstile b) else first_some (jbTurnstileCamel b) []);
          checked = (token \<noteq> [] \<or> truthy_text (geTurnstile env));
          rawKey = either_text (jbLeaked b) (jbLeakedCamel b);
          keyId = either_text (jbKeyId b) (jbKeyIdSnake b)
      in if checked \<and> \<not> tvSuccess (verifyTurnstileToken call (geTurnstile env) None (Some token))
         then (Refuse 403 router_code, env)
         else (Answer 200 (), if bound env then revoke_leaked sc now rawKey (revoke_id keyId env) else env))"

end
