(* ===== verification/Admin.thy ===== *)
theory Admin
  imports DashboardKeys
begin

text \<open>
  \<open>src/worker/gateway/admin_handler.ts\<close>: what an administrator does and sees. The body is one record of
  the fields the routes read, empty if it is not JSON. The view of the fleet takes what the ledger says of
  each tenant (spend of the day, requests of the last minute) as a list; times, latency and the fairness
  score, a floating-point sum, are left out of it. \<open>admin_audit_logs\<close> is a table that no migration creates:
  the insertions into it fail, and their exceptions are caught.
\<close>

record AdminBody =
  abTier :: "string option"
  abReason :: "string option"
  abStatus :: "string option"
  abPool :: "string option"
  abAction :: "string option"
  abProvider :: "string option"
  abState :: "string option"
  abActive :: "bool option"
  abQuarantined :: "bool option"

definition no_admin_body :: AdminBody where
  "no_admin_body = \<lparr>abTier = None, abReason = None, abStatus = None, abPool = None, abAction = None, abProvider = None,
     abState = None, abActive = None, abQuarantined = None\<rparr>"

definition admin_body :: "JsonBody \<Rightarrow> AdminBody" where
  "admin_body b = \<lparr>abTier = jbNewTier b, abReason = jbReason b, abStatus = jbStatus b, abPool = jbPool b, abAction = jbAction b,
     abProvider = jbProvider b, abState = jbState b, abActive = jbActive b, abQuarantined = jbQuarantined b\<rparr>"

definition given :: "string option \<Rightarrow> string \<Rightarrow> string" where
  "given x d = or_text (first_some x []) d"

section \<open>Users\<close>

text \<open>\<open>audit_logs.user_id\<close> refers to a user.\<close>

definition log_audit :: "AuditRow \<Rightarrow> GatewayEnv \<Rightarrow> GatewayEnv" where
  "log_audit row env =
     (if \<exists>u\<in>set (geUsers env). usId u = auUser row then env\<lparr>geAudit := geAudit env @ [row]\<rparr> else env)"

definition client_address :: "Request \<Rightarrow> string" where
  "client_address r = given (reqHeader r ''cf-connecting-ip'') ''127.0.0.1''"

definition tier_user :: "string \<Rightarrow> string \<Rightarrow> UserRow" where
  "tier_user i tier =
     \<lparr>usId = i, usEmail = Some (if CHR ''@'' \<in> set i then i else i @ ''@keycollective.local''), usTier = tier,
      usRole = Some (if tier = ''admin'' then ''admin'' else ''user''), usSybil = Some (if tier = ''admin'' then 100 else 90),
      usQuarantined = False, usReason = None\<rparr>"

definition set_tier :: "string \<Rightarrow> string \<Rightarrow> UserRow list \<Rightarrow> UserRow list" where
  "set_tier i tier users =
     (if \<exists>u\<in>set users. usId u = i
      then map (\<lambda>u. if usId u = i then u\<lparr>usTier := tier, usRole := Some (if tier = ''admin'' then ''admin'' else ''user'')\<rparr> else u) users
      else if \<exists>u\<in>set users. usEmail u = usEmail (tier_user i tier) then users
      else users @ [tier_user i tier])"

definition override_tier :: "Request \<Rightarrow> string \<Rightarrow> AdminBody \<Rightarrow> GatewayEnv \<Rightarrow> (string \<times> bool) \<times> GatewayEnv" where
  "override_tier r i b env =
     (let tier = given (abTier b) ''ultra''; why = given (abReason b) ''Administrative tier override'' in
      ((tier, True),
       if bound env
       then log_audit \<lparr>auUser = i, auAction = ''TIER_OVERRIDE:'' @ tier @ '':'' @ why, auIp = client_address r\<rparr>
              (env\<lparr>geUsers := set_tier i tier (geUsers env)\<rparr>)
       else env))"

definition set_quarantine :: "string \<Rightarrow> bool \<Rightarrow> string \<Rightarrow> UserRow list \<Rightarrow> UserRow list" where
  "set_quarantine i q why users =
     (if \<exists>u\<in>set users. usId u = i
      then map (\<lambda>u. if usId u = i then u\<lparr>usQuarantined := q, usReason := Some why\<rparr> else u) users
      else users @ [\<lparr>usId = i, usEmail = None, usTier = ''probationary'', usRole = Some ''user'', usSybil = Some 0,
                     usQuarantined = q, usReason = Some why\<rparr>])"

definition quarantine :: "string \<Rightarrow> AdminBody \<Rightarrow> GatewayEnv \<Rightarrow> bool \<times> GatewayEnv" where
  "quarantine i b env =
     (let q = (abQuarantined b \<noteq> Some False) in
      (q, if bound env
          then env\<lparr>geUsers := set_quarantine i q (given (abReason b) ''Administrative quarantine'') (geUsers env)\<rparr> else env))"

section \<open>Keys\<close>

definition routing_columns :: "timestamp \<Rightarrow> string \<Rightarrow> KeyRow \<Rightarrow> KeyRow" where
  "routing_columns now s k =
     (if s = ''ACTIVE'' then k\<lparr>krRouting := Some ''ACTIVE'', krObservation := None, krStatus := ''Healthy''\<rparr>
      else if s = ''QUARANTINED'' then k\<lparr>krRouting := Some ''QUARANTINED'', krStatus := ''quarantined''\<rparr>
      else if s = ''OBSERVATION''
      then k\<lparr>krRouting := Some ''OBSERVATION'', krObservation := Some (now + 24 * 60 * 60 * 1000), krStatus := ''Healthy''\<rparr>
      else k)"

definition override_routing :: "timestamp \<Rightarrow> string \<Rightarrow> AdminBody \<Rightarrow> GatewayEnv \<Rightarrow> string \<times> GatewayEnv" where
  "override_routing now i b env =
     (let s = given (abStatus b) ''ACTIVE''
      in (s, if bound env then change_keys (\<lambda>k. krId k = i) (routing_columns now s) env else env))"

definition override_pool :: "string \<Rightarrow> AdminBody \<Rightarrow> GatewayEnv \<Rightarrow> string \<times> GatewayEnv" where
  "override_pool i b env =
     (let p = (if abPool b = Some ''PRIVATE'' then ''PRIVATE'' else ''COMMUNITY'')
      in (p, if bound env then change_keys (\<lambda>k. krId k = i) (\<lambda>k. k\<lparr>krPool := Some p\<rparr>) env else env))"

definition delete_any_key :: "string \<Rightarrow> GatewayEnv \<Rightarrow> GatewayEnv" where
  "delete_any_key i env = (if bound env then env\<lparr>geKeys := filter (\<lambda>k. krId k \<noteq> i) (geKeys env)\<rparr> else env)"

definition manage_pool :: "AdminBody \<Rightarrow> GatewayEnv \<Rightarrow> GatewayEnv" where
  "manage_pool b env =
     (if \<not> bound env then env
      else if abAction b = Some ''ACTIVATE_ALL_OBSERVATION''
      then change_keys (\<lambda>k. krPool k = Some ''COMMUNITY'' \<and> krRouting k = Some ''OBSERVATION'')
             (\<lambda>k. k\<lparr>krRouting := Some ''ACTIVE'', krObservation := None\<rparr>) env
      else if abAction b = Some ''PURGE_QUARANTINED''
      then env\<lparr>geKeys := filter (\<lambda>k. \<not> (krRouting k = Some ''QUARANTINED'' \<or> krStatus k = ''invalid'')) (geKeys env)\<rparr>
      else if abAction b = Some ''RESET_ALL_DEBT'' then env\<lparr>geDebts := map (\<lambda>(t, d). (t, 0)) (geDebts env)\<rparr>
      else if abAction b = Some ''PURGE_ALL_KEYS'' then env\<lparr>geKeys := []\<rparr>
      else env)"

section \<open>The fleet\<close>

record TenantSummary =
  tmId :: string
  tmEmail :: string
  tmTier :: string
  tmRole :: string
  tmProvider :: string
  tmScore :: int
  tmQuarantined :: bool
  tmDebt :: int
  tmSpend :: int
  tmActive :: nat
  tmRpm :: int
  tmRpmLimit :: limit
  tmKeys :: "KeyRow list"

definition key_owner :: "KeyRow \<Rightarrow> string" where
  "key_owner k = or_text (krTenant k) ''default''"

definition auth_provider :: "string \<Rightarrow> string" where
  "auth_provider t =
     (if starts ''usr_goog_'' t then ''google'' else if starts ''usr_em_'' t then ''email''
      else if starts ''usr_demo'' t \<or> t = ''demo'' then ''demo'' else ''github'')"

definition fleet_tier :: "string \<Rightarrow> UserRow option \<Rightarrow> string" where
  "fleet_tier t user =
     (let p = auth_provider t in
      or_text (case user of Some u \<Rightarrow> usTier u | None \<Rightarrow> [])
        (if t = ''admin'' \<or> Option.bind user usRole = Some ''admin'' then ''admin''
         else if p = ''google'' then ''builder'' else if p = ''github'' then ''max''
         else if p = ''demo'' then ''demo'' else ''probationary''))"

definition fleet_limit :: "string \<Rightarrow> limit" where
  "fleet_limit tier =
     (if tier = ''admin'' \<or> tier = ''ultra'' then None else if tier = ''max'' then Some 60
      else if tier = ''probationary'' then Some 2 else if tier = ''demo'' then Some 1 else Some 20)"

definition made_up_email :: "string \<Rightarrow> string" where
  "made_up_email t =
     (if starts ''usr_goog_'' t then drop 9 t else if starts ''usr_gh_'' t then drop 7 t
      else if starts ''usr_em_'' t then drop 7 t else t) @ ''@users.noreply.kc''"

definition listed_order :: "KeyRow list \<Rightarrow> KeyRow list" where
  "listed_order ks = sort_key krPriority (sort_key (\<lambda>k. - krCreated k) ks)"

definition first_seen :: "string list \<Rightarrow> string list" where
  "first_seen xs = rev (remdups (rev xs))"

definition fleet_users :: "GatewayEnv \<Rightarrow> UserRow list" where
  "fleet_users env = (if bound env then take 200 (geUsers env) else [])"

definition fleet_keys :: "GatewayEnv \<Rightarrow> KeyRow list" where
  "fleet_keys env = (if bound env then listed_order (geKeys env) else [])"

definition summary_of :: "(string \<times> int) list \<Rightarrow> (string \<times> int) list \<Rightarrow> GatewayEnv \<Rightarrow> string \<Rightarrow> TenantSummary" where
  "summary_of spend rpm env t =
     (let user = find (\<lambda>u. usId u = t) (fleet_users env); keys = filter (\<lambda>k. key_owner k = t) (fleet_keys env);
          tier = fleet_tier t user
      in \<lparr>tmId = t, tmEmail = given (Option.bind user usEmail) (made_up_email t), tmTier = tier,
          tmRole = given (Option.bind user usRole) (if tier = ''admin'' then ''admin'' else ''user''),
          tmProvider = auth_provider t,
          tmScore = first_some (Option.bind user usSybil) (if tier = ''admin'' then 100 else if tier = ''demo'' then 20 else 92),
          tmQuarantined = (case user of Some u \<Rightarrow> usQuarantined u | None \<Rightarrow> False),
          tmDebt = (if bound env then first_some (map_of (geDebts env) t) 0 else 0), tmSpend = first_some (map_of spend t) 0,
          tmActive = length (filter (\<lambda>k. js_lower (krStatus k) = ''healthy'') keys),
          tmRpm = first_some (map_of rpm t) 0, tmRpmLimit = fleet_limit tier, tmKeys = keys\<rparr>)"

definition fleet :: "(string \<times> int) list \<Rightarrow> (string \<times> int) list \<Rightarrow> GatewayEnv \<Rightarrow> TenantSummary list" where
  "fleet spend rpm env =
     map (summary_of spend rpm env) (first_seen (map usId (fleet_users env) @ map key_owner (fleet_keys env)))"

text \<open>\<open>Math.round(a / b)\<close>\<close>

definition js_round_div :: "int \<Rightarrow> int \<Rightarrow> int" where
  "js_round_div a b = (2 * a + b) div (2 * b)"

record ProviderLine =
  plProvider :: string
  plActive :: nat
  plHealthy :: nat
  plLimited :: nat
  plRpmLimit :: int
  plCurrentRpm :: int
  plStatus :: string

definition provider_name :: "KeyRow \<Rightarrow> string" where
  "provider_name k = js_lower (if krProvider k = ''google'' then ''gemini'' else krProvider k)"

definition provider_line :: "(string \<times> int) list \<Rightarrow> KeyRow list \<Rightarrow> string \<Rightarrow> ProviderLine" where
  "provider_line rpm ks p =
     (let own = filter (\<lambda>k. provider_name k = p) ks;
          healthy = (\<lambda>k. js_lower (krStatus k) = ''healthy'');
          slow = filter (\<lambda>k. \<not> healthy k \<and> str_includes (js_lower (krStatus k)) ''rate'') own;
          share = (\<lambda>k. js_round_div (first_some (map_of rpm (krTenant k)) 0)
                         (max 1 (int (length (filter (\<lambda>x. krTenant x = krTenant k) ks)))))
      in \<lparr>plProvider = p, plActive = length own, plHealthy = length (filter healthy own), plLimited = length slow,
          plRpmLimit = sum_list (map krRpm own), plCurrentRpm = sum_list (map share own),
          plStatus = (if slow \<noteq> [] \<and> length slow = length own then ''degraded'' else ''healthy'')\<rparr>)"

record PoolSummary =
  psTotal :: nat
  psActiveCommunity :: nat
  psObservation :: nat
  psQuarantined :: nat
  psPrivate :: nat
  psDebt :: int
  psRpm :: int
  psRpmMax :: int
  psTpm :: int
  psTpmMax :: int
  psSpendRate :: int
  psProviders :: "ProviderLine list"

definition TOKENS_PER_REQUEST_ESTIMATE :: int where "TOKENS_PER_REQUEST_ESTIMATE = 400"

definition pool_summary :: "(string \<times> int) list \<Rightarrow> (string \<times> int) list \<Rightarrow> GatewayEnv \<Rightarrow> PoolSummary" where
  "pool_summary spend rpm env =
     (let ks = fleet_keys env; total = sum_list (map krRpm ks); most = (if total = 0 then 100 else total);
          now = sum_list (map snd rpm); n = (\<lambda>P. length (filter P ks))
      in \<lparr>psTotal = length ks,
          psActiveCommunity = n (\<lambda>k. krPool k = Some ''COMMUNITY'' \<and> krRouting k = Some ''ACTIVE''),
          psObservation = n (\<lambda>k. krRouting k = Some ''OBSERVATION''), psQuarantined = n (\<lambda>k. krRouting k = Some ''QUARANTINED''),
          psPrivate = n (\<lambda>k. krPool k = Some ''PRIVATE''),
          psDebt = (if bound env then sum_list (map snd (geDebts env)) else 0), psRpm = now, psRpmMax = most,
          psTpm = now * TOKENS_PER_REQUEST_ESTIMATE, psTpmMax = most * TOKENS_PER_REQUEST_ESTIMATE,
          psSpendRate = js_round_div (sum_list (map snd spend)) 24,
          psProviders = map (provider_line rpm ks) [''gemini'', ''groq'', ''cerebras'', ''deepseek'']\<rparr>)"

section \<open>The routes\<close>

text \<open>\<open>/^prefix([^/]+)suffix$/\<close>\<close>

definition path_param :: "string \<Rightarrow> string \<Rightarrow> string \<Rightarrow> string option" where
  "path_param prefix suffix path =
     (let i = take (length path - length prefix - length suffix) (drop (length prefix) path)
      in if starts prefix path \<and> path = prefix @ i @ suffix \<and> i \<noteq> [] \<and> CHR ''/'' \<notin> set i then Some i else None)"

datatype admin_reply =
    TierReply string string bool | RoutingReply string string | PoolReply string string | DeletedReply string
  | ManagedReply "string option" | CircuitReply string string string | KillReply bool string
  | FleetReply "TenantSummary list" PoolSummary | QuarantineReply string bool
  | ToRouter | AdminAsset | AdminIndex "string option" | StatusProbe

text \<open>An asset that is not found falls back to the index; the token of the query becomes a cookie.\<close>

definition asset_path :: "string \<Rightarrow> bool" where
  "asset_path path \<longleftrightarrow>
     starts ''/assets/'' path \<or> path = ''/favicon.ico'' \<or> path = ''/favicon.svg'' \<or>
     (let ext = takeWhile (\<lambda>c. c \<noteq> CHR ''.'') (rev path)
      in CHR ''.'' \<in> set path \<and> ext \<noteq> [] \<and>
         list_all (\<lambda>c. is_digit c \<or> (97 \<le> code_of (lower_char c) \<and> code_of (lower_char c) \<le> 122)) ext)"

definition page_reply :: "bool \<Rightarrow> bool \<Rightarrow> Request \<Rightarrow> string \<Rightarrow> admin_reply" where
  "page_reply assets found r path =
     (if \<not> (assets \<and> (reqMethod r = ''GET'' \<or> reqMethod r = ''HEAD'')) then StatusProbe
      else if asset_path path \<and> found then AdminAsset
      else AdminIndex (if truthy_text (reqQuery r ''token'') then reqQuery r ''token''
                       else if truthy_text (reqQuery r ''admin_token'') then reqQuery r ''admin_token'' else None))"

definition handleAdminRequest ::
  "timestamp \<Rightarrow> (string \<times> int) list \<Rightarrow> (string \<times> int) list \<Rightarrow> bool \<Rightarrow> bool \<Rightarrow> Request \<Rightarrow> AdminBody option \<Rightarrow> GatewayEnv \<Rightarrow>
   admin_reply \<times> GatewayEnv" where
  "handleAdminRequest now spend rpm assets found r body env =
     (let path = normal_path (reqPath r); m = reqMethod r; b = first_some body no_admin_body;
          tier = path_param ''/api/admin/tenants/'' ''/tier'' path;
          routing = path_param ''/api/admin/keys/'' ''/routing-status'' path;
          pool = path_param ''/api/admin/keys/'' ''/pool-mode'' path;
          key = path_param ''/api/admin/keys/'' [] path;
          jail = path_param ''/api/admin/tenants/'' ''/quarantine'' path
      in if m = ''POST'' \<and> tier \<noteq> None
         then (case override_tier r (the tier) b env of ((t, logged), env1) \<Rightarrow> (TierReply (the tier) t logged, env1))
         else if m = ''POST'' \<and> routing \<noteq> None
         then (case override_routing now (the routing) b env of (s, env1) \<Rightarrow> (RoutingReply (the routing) s, env1))
         else if m = ''POST'' \<and> pool \<noteq> None
         then (case override_pool (the pool) b env of (p, env1) \<Rightarrow> (PoolReply (the pool) p, env1))
         else if m = ''DELETE'' \<and> key \<noteq> None then (DeletedReply (the key), delete_any_key (the key) env)
         else if m = ''POST'' \<and> path = ''/api/admin/pool/manage'' then (ManagedReply (abAction b), manage_pool b env)
         else if m = ''POST'' \<and> path = ''/api/admin/circuit-breaker''
         then (CircuitReply (given (abProvider b) ''all'') (given (abState b) ''CLOSED'') (given (abReason b) ''Admin circuit override''), env)
         else if m = ''POST'' \<and> path = ''/api/admin/kill-switch''
         then (KillReply (abActive b = Some True) (given (abReason b) ''Admin global kill switch''), env)
         else if m = ''GET'' \<and> (path = ''/api/admin/tenants'' \<or> path = ''/api/admin/surveillance'')
         then (FleetReply (fleet spend rpm env) (pool_summary spend rpm env), env)
         else if m = ''POST'' \<and> jail \<noteq> None
         then (case quarantine (the jail) b env of (q, env1) \<Rightarrow> (QuarantineReply (the jail) q, env1))
         else if (starts ''/api/'' path \<and> \<not> starts ''/api/admin/'' path) \<or> starts ''/v1/'' path \<or> path = ''/openapi.json''
         then (ToRouter, env)
         else (page_reply assets found r path, env))"

end
