(* ===== verification/DashboardRouter.thy ===== *)
theory DashboardRouter
  imports Admin
begin

text \<open>
  \<open>src/worker/router/dashboard/handler.ts\<close>, \<open>src/worker/router/core/dispatcher.ts\<close> and
  \<open>src/worker/gateway/main_worker.ts\<close>: for whom a request of the console is served, which handler serves
  it, and how a request reaches that point. What the handlers use of the platform is the record
  \<open>Platform\<close>; the routes of the administrator are served by \<open>handleAdminRequest\<close>. The handlers that are modelled elsewhere or not at all are named, with their tenant, by
  \<open>PDelegated\<close> and by the constructors of \<open>dispatch_result\<close>.
\<close>

record 'k Platform =
  plSubtle :: "'k SubtleCrypto"
  plRandom :: random_source
  plUuid :: string
  plParse :: "string \<Rightarrow> js option"
  plDate :: "string \<Rightarrow> timestamp option"
  plUri :: "string \<Rightarrow> string option"
  plLossy :: "bytes \<Rightarrow> unicode"
  plTurnstile :: "string \<Rightarrow> string \<Rightarrow> string option \<Rightarrow> siteverify"
  plGoogle :: "string \<Rightarrow> (int \<times> js option) option"
  plReach :: "string \<Rightarrow> string \<Rightarrow> bool option"
  plGithub :: "string \<Rightarrow> string option \<Rightarrow> GithubProfile option"
  plSpentToday :: "(string \<times> int) list"
  plLastMinute :: "(string \<times> int) list"
  plAssets :: bool
  plAssetFound :: "string \<Rightarrow> bool"

section \<open>The tenant of a request (handler.ts)\<close>

definition master_key :: "GatewayEnv \<Rightarrow> string option" where
  "master_key env =
     (case geMasterKey env of
        Some s \<Rightarrow> Some s
      | None \<Rightarrow> if truthy_text (aeMasterKey (geAuth env)) then aeMasterKey (geAuth env) else None)"

definition header_tenant :: "Request \<Rightarrow> string" where
  "header_tenant r = nonempty (reqHeader r ''x-tenant-id'')"

definition auth_request :: "Request \<Rightarrow> string \<Rightarrow> AuthRequest" where
  "auth_request r rawToken =
     \<lparr>arAuthorization = Some (''Bearer '' @ rawToken), arConnectingIp = reqHeader r ''cf-connecting-ip'',
      arXProjectId = reqHeader r ''x-project-id'', arKcProjectId = reqHeader r ''kc-project-id''\<rparr>"

definition plain_auth :: AuthMiddlewareOptions where
  "plain_auth = \<lparr>aoProvider = None, aoRpmOverride = None, aoCost = None\<rparr>"

text \<open>The tenant, or the status of a refusal; 500 is the exception of \<open>decodeURIComponent\<close>.\<close>

definition credential_tenant ::
  "'k Platform \<Rightarrow> timestamp \<Rightarrow> Request \<Rightarrow> string \<Rightarrow> GatewayEnv \<Rightarrow> (int + string) \<times> GatewayEnv" where
  "credential_tenant pl now r rawToken env =
     (if rawToken = [] then (Inr ''anonymous'', env)
      else if truthy_text (master_key env) \<and> master_key env = Some rawToken then (Inr (or_text (header_tenant r) ''admin''), env)
      else
        (case authenticate (plSubtle pl) (plParse pl) now (auth_request r rawToken) plain_auth (geAuth env) of
           (Inr ctx, a) \<Rightarrow>
             (let t = or_text (acTenantId ctx) ''anonymous''
              in (Inr (if t \<in> {''default'', ''anonymous''} then or_text (header_tenant r) t else t), env\<lparr>geAuth := a\<rparr>))
         | (Inl _, a) \<Rightarrow>
             (if reqMethod r \<noteq> ''GET'' then Inl 401 else Inr ''anonymous'', env\<lparr>geAuth := a\<rparr>)))"

definition dashboard_tenant ::
  "'k Platform \<Rightarrow> timestamp \<Rightarrow> Request \<Rightarrow> GatewayEnv \<Rightarrow> (int + string \<times> string) \<times> GatewayEnv" where
  "dashboard_tenant pl now r env =
     (case raw_credential (plUri pl) r of
        None \<Rightarrow> (Inl 500, env)
      | Some rawToken \<Rightarrow>
          (case credential_tenant pl now r rawToken env of
             (Inl s, env1) \<Rightarrow> (Inl s, env1)
           | (Inr t, env1) \<Rightarrow> (Inr (if t = ''anonymous'' then or_text (header_tenant r) t else t, rawToken), env1)))"

section \<open>The session and administrators\<close>

record SessionUser =
  suId :: string
  suEmail :: "string option"
  suTier :: string
  suRole :: string
  suSybil :: int

definition holds_master :: "GatewayEnv \<Rightarrow> string \<Rightarrow> bool" where
  "holds_master env rawToken \<longleftrightarrow> rawToken \<noteq> [] \<and> truthy_text (master_key env) \<and> master_key env = Some rawToken"

definition session_user :: "GatewayEnv \<Rightarrow> string \<Rightarrow> string \<Rightarrow> SessionUser option" where
  "session_user env tenantId rawToken =
     (if tenantId = ''admin'' \<or> holds_master env rawToken
      then Some \<lparr>suId = ''admin'', suEmail = Some ''admin@keycollective.ai'', suTier = ''admin'', suRole = ''admin'', suSybil = 100\<rparr>
      else if tenantId = ''anonymous'' then None
      else case (if bound env then user_by_id tenantId env else None) of
        Some u \<Rightarrow>
          Some \<lparr>suId = usId u, suEmail = usEmail u, suTier = usTier u,
                suRole = or_text (first_some (usRole u) []) (if usTier u = ''admin'' then ''admin'' else ''user''),
                suSybil = first_some (usSybil u) 95\<rparr>
      | None \<Rightarrow>
          Some \<lparr>suId = tenantId, suEmail = Some (tenantId @ ''@keycollective.local''),
                suTier = (if starts ''usr_gh_'' tenantId \<or> starts ''gh_'' tenantId then ''max'' else ''builder''),
                suRole = ''user'', suSybil = 90\<rparr>)"

definition dashboard_admin :: "GatewayEnv \<Rightarrow> string \<Rightarrow> string \<Rightarrow> bool" where
  "dashboard_admin env tenantId rawToken \<longleftrightarrow>
     tenantId = ''admin'' \<or> holds_master env rawToken \<or>
     (bound env \<and> tenantId \<noteq> ''anonymous'' \<and>
      (case user_by_id tenantId env of None \<Rightarrow> False | Some u \<Rightarrow> usTier u = ''admin'' \<or> usRole u = Some ''admin''))"

section \<open>The routes (handler.ts)\<close>

datatype console_route =
    GithubCallback | SyncSession | Telemetry | Session | AdminApi | ListKeys | AddKey | DeleteKey | PoolMode | RotateKey
  | TestKey | ListProjects | AddProject | DeleteProject | UpdateProject | ListTokens | AddToken | DeleteToken
  | ReportKey | Logs | Stats | PoolApi

definition ends :: "string \<Rightarrow> string \<Rightarrow> bool" where
  "ends p s \<longleftrightarrow> length p \<le> length s \<and> drop (length s - length p) s = p"

definition one_of :: "string \<Rightarrow> string \<Rightarrow> bool" where
  "one_of path p \<longleftrightarrow> path = p \<or> path = p @ ''/''"

definition under :: "string \<Rightarrow> string \<Rightarrow> bool" where
  "under path p \<longleftrightarrow> path = p \<or> starts (p @ ''/'') path"

text \<open>\<open>/^\/api\/keys\/[^/]+\/pool-mode$/\<close>\<close>

definition pool_mode_path :: "string \<Rightarrow> bool" where
  "pool_mode_path path \<longleftrightarrow>
     (case split_on CHR ''/'' path of
        [a, b, c, d, e] \<Rightarrow> a = [] \<and> b = ''api'' \<and> c = ''keys'' \<and> d \<noteq> [] \<and> e = ''pool-mode''
      | _ \<Rightarrow> False)"

definition dashboard_route :: "string \<Rightarrow> string \<Rightarrow> console_route" where
  "dashboard_route m path =
     (if m = ''GET'' \<and> path = ''/api/auth/github/callback'' then GithubCallback
      else if m = ''POST'' \<and> path = ''/api/auth/sync-session'' then SyncSession
      else if m = ''GET'' \<and> (path = ''/api/telemetry/stream'' \<or> path = ''/v1/telemetry/stream'') then Telemetry
      else if m = ''GET'' \<and> path = ''/api/session'' then Session
      else if starts ''/api/admin/'' path then AdminApi
      else if m = ''GET'' \<and> path = ''/api/keys'' then ListKeys
      else if m = ''POST'' \<and> path = ''/api/keys'' then AddKey
      else if m = ''DELETE'' \<and> starts ''/api/keys/'' path then DeleteKey
      else if m = ''PATCH'' \<and> pool_mode_path path then PoolMode
      else if m = ''POST'' \<and> starts ''/api/keys/'' path \<and> ends ''/rotate'' path then RotateKey
      else if m = ''POST'' \<and> starts ''/api/keys/'' path \<and> ends ''/test'' path then TestKey
      else if m = ''GET'' \<and> one_of path ''/api/projects'' then ListProjects
      else if m = ''POST'' \<and> one_of path ''/api/projects'' then AddProject
      else if m = ''DELETE'' \<and> under path ''/api/projects'' then DeleteProject
      else if m = ''PATCH'' \<and> under path ''/api/projects'' then UpdateProject
      else if m = ''GET'' \<and> one_of path ''/api/tokens'' then ListTokens
      else if m = ''POST'' \<and> one_of path ''/api/tokens'' then AddToken
      else if m = ''DELETE'' \<and> under path ''/api/tokens'' then DeleteToken
      else if m = ''POST'' \<and> path = ''/api/abuse/report-key'' then ReportKey
      else if m = ''GET'' \<and> path = ''/api/logs'' then Logs
      else if m = ''GET'' \<and> path = ''/api/stats'' then Stats
      else PoolApi)"

datatype payload =
    PPage CallbackPage | PSynced SyncedSession | PStream string | PSession "SessionUser option"
  | PKeys "ListedKey list" | PKey KeyRow | PDeleted string | PPool PoolModeReply | PRotated "string \<times> string \<times> string"
  | PTested bool | PProjects "ProjectRecord list" | PProject ProjectRecord | PUpdated UpdatedProject
  | PTokens "TokenSummary list" | PToken CreatedToken | PReported | PAdmin admin_reply | PDelegated console_route string

definition sync_body :: "JsonBody \<Rightarrow> SyncSessionBody" where
  "sync_body b = \<lparr>sbId = jbId b, sbEmail = jbEmail b, sbTier = jbTier b, sbAuthProvider = jbAuthProvider b\<rparr>"

definition open_answer :: "('a \<Rightarrow> payload) \<Rightarrow> (int + 'a) \<times> GatewayEnv \<Rightarrow> payload answer \<times> pool_message list \<times> GatewayEnv" where
  "open_answer f x = (case fst x of Inl s \<Rightarrow> Refuse s ''BAD_REQUEST'' | Inr a \<Rightarrow> Answer 200 (f a), [], snd x)"

definition plain_answer :: "('a \<Rightarrow> payload) \<Rightarrow> 'a answer \<times> GatewayEnv \<Rightarrow> payload answer \<times> pool_message list \<times> GatewayEnv" where
  "plain_answer f x = (map_answer f (fst x), [], snd x)"

definition pool_answer ::
  "('a \<Rightarrow> payload) \<Rightarrow> 'a answer \<times> pool_message list \<times> GatewayEnv \<Rightarrow> payload answer \<times> pool_message list \<times> GatewayEnv" where
  "pool_answer f x = (map_answer f (fst x), snd x)"

text \<open>
  \<open>handleAdminRequest\<close> with what it reads of the ledger and of the assets. It is given the dashboard itself
  for the requests it passes on, but none of them begins with \<open>/api/admin/\<close>.
\<close>

definition administer :: "'k Platform \<Rightarrow> timestamp \<Rightarrow> Request \<Rightarrow> body \<Rightarrow> GatewayEnv \<Rightarrow> admin_reply \<times> GatewayEnv" where
  "administer pl now r b env =
     handleAdminRequest now (plSpentToday pl) (plLastMinute pl) (plAssets pl) (plAssetFound pl (reqPath r)) r
       (map_option admin_body (json_body b)) env"

definition serve ::
  "'k Platform \<Rightarrow> timestamp \<Rightarrow> Request \<Rightarrow> body \<Rightarrow> string \<Rightarrow> string \<Rightarrow> GatewayEnv \<Rightarrow>
   payload answer \<times> pool_message list \<times> GatewayEnv" where
  "serve pl now r b t rawToken env =
     (let path = reqPath r; header = reqHeader r ''x-tenant-id''; mk = master_key env;
          delegated = (\<lambda>x. (Answer 200 (PDelegated x t), [], env))
      in case dashboard_route (reqMethod r) path of
           Telemetry \<Rightarrow> (Answer 200 (PStream t), [], env)
         | Session \<Rightarrow> (Answer 200 (PSession (session_user env t rawToken)), [], env)
         | AdminApi \<Rightarrow>
             if dashboard_admin env t rawToken
             then (case administer pl now r b env of (reply, env1) \<Rightarrow> (Answer 200 (PAdmin reply), [], env1))
             else (Refuse 403 ''FORBIDDEN'', [], env)
         | ListKeys \<Rightarrow> (Answer 200 (PKeys (handleGetKeys env t)), [], env)
         | AddKey \<Rightarrow> pool_answer PKey
             (handlePostKeys (plSubtle pl) (plRandom pl) (plTurnstile pl) (plGoogle pl) now r b mk env t)
         | DeleteKey \<Rightarrow> pool_answer PDeleted (handleDeleteKey path header env t)
         | PoolMode \<Rightarrow> plain_answer PPool (handlePoolMode now path b env t)
         | RotateKey \<Rightarrow> plain_answer PRotated
             (handleRotateKeySecret (plSubtle pl) (plRandom pl) path b header mk env t)
         | TestKey \<Rightarrow> plain_answer PTested
             (handleTestKey (plSubtle pl) (plLossy pl) (plReach pl) now path mk env t)
         | ListProjects \<Rightarrow> plain_answer PProjects (handleGetProjects r env t, env)
         | AddProject \<Rightarrow> plain_answer PProject (handlePostProjects (plUuid pl) now r b env t)
         | DeleteProject \<Rightarrow> plain_answer PDeleted (handleDeleteProject (plUri pl) path env t)
         | UpdateProject \<Rightarrow> plain_answer PUpdated (handleUpdateProject (plUri pl) now path b env t)
         | ListTokens \<Rightarrow> plain_answer PTokens (handleGetTokens now r env t, env)
         | AddToken \<Rightarrow> plain_answer PToken
             (handlePostTokens (plSubtle pl) (plRandom pl) (plDate pl) (plUuid pl) now r b env t)
         | DeleteToken \<Rightarrow> plain_answer PDeleted (handleDeleteToken (plUri pl) path env t)
         | ReportKey \<Rightarrow> plain_answer (\<lambda>_. PReported) (handleReportKeyAbuse (plSubtle pl) (plTurnstile pl) now r b env)
         | x \<Rightarrow> delegated x)"

definition dashboard_handle ::
  "'k Platform \<Rightarrow> timestamp \<Rightarrow> Request \<Rightarrow> body \<Rightarrow> GatewayEnv \<Rightarrow> payload answer \<times> pool_message list \<times> GatewayEnv" where
  "dashboard_handle pl now r b env =
     (case dashboard_route (reqMethod r) (reqPath r) of
        GithubCallback \<Rightarrow>
          open_answer PPage (handleOAuthGithubCallback (plSubtle pl) (plGithub pl) (plUuid pl) now r env)
      | SyncSession \<Rightarrow>
          open_answer PSynced (handleSyncSession (plSubtle pl) (plUuid pl) now (map_option sync_body (json_body b)) env)
      | _ \<Rightarrow>
          (case dashboard_tenant pl now r env of
             (Inl s, env1) \<Rightarrow> (Refuse s (if s = 401 then ''UNAUTHORIZED'' else unexpected), [], env1)
           | (Inr (t, rawToken), env1) \<Rightarrow> serve pl now r b t rawToken env1))"

end
