(* ===== verification/Dispatch.thy ===== *)
theory Dispatch
  imports DashboardRouter
begin

text \<open>
  \<open>src/worker/router/core/dispatcher.ts\<close>, \<open>src/worker/gateway/main_worker.ts\<close> and the heads of
  \<open>src/worker/router/errors.ts\<close>: the way of a request from the edge to its handler. A handler that is
  modelled elsewhere, or not at all, is named with what it is given; the dashboard is served here.
\<close>

section \<open>Errors of the router (errors.ts)\<close>

text \<open>Status, \<open>retry-after\<close> and \<open>www-authenticate\<close> of the answer to an exception; its text is left out.\<close>

record ErrorHead =
  ehStatus :: int
  ehRetryAfter :: "int option"
  ehAuthenticate :: "string option"

definition formatRouterError :: "thrown \<Rightarrow> ErrorHead" where
  "formatRouterError err =
     (case err of
        DomainErr e \<Rightarrow>
          if erName e = ''RateLimitExceededError''
          then \<lparr>ehStatus = erStatus e, ehRetryAfter = Some (first_some (erRetryAfter e) DEFAULT_RETRY_AFTER_SECONDS), ehAuthenticate = None\<rparr>
          else if erName e = ''QuotaExceededError''
          then \<lparr>ehStatus = erStatus e, ehRetryAfter = Some DEFAULT_RETRY_AFTER_SECONDS, ehAuthenticate = None\<rparr>
          else if erName e = ''AuthenticationError''
          then \<lparr>ehStatus = erStatus e, ehRetryAfter = None, ehAuthenticate = Some ''Bearer''\<rparr>
          else \<lparr>ehStatus = erStatus e, ehRetryAfter = None, ehAuthenticate = None\<rparr>
      | _ \<Rightarrow> \<lparr>ehStatus = 500, ehRetryAfter = None, ehAuthenticate = None\<rparr>)"

section \<open>The dispatcher (dispatcher.ts)\<close>

datatype dispatch_result =
    MidnightFreeze | HealthCheck | IssueReport | OpenApiSpec | DemoTokenIssue | ModelList | ModelEntry string
  | FromDashboard "payload answer" "pool_message list"
  | ToKeyPool string string | ToChat AuthenticatedContext | RouteNotFound | Failed ErrorHead

definition api_auth_request :: "Request \<Rightarrow> AuthRequest" where
  "api_auth_request r =
     \<lparr>arAuthorization = reqHeader r ''authorization'', arConnectingIp = reqHeader r ''cf-connecting-ip'',
      arXProjectId = reqHeader r ''x-project-id'', arKcProjectId = reqHeader r ''kc-project-id''\<rparr>"

definition unauthenticated_context :: "timestamp \<Rightarrow> Request \<Rightarrow> AuthenticatedContext" where
  "unauthenticated_context now r =
     (let t = first_some (or_else (reqHeader r ''x-tenant-id'') (reqHeader r ''kc-tenant-id'')) ''default''
      in \<lparr>acTenantId = t,
          acToken = \<lparr>atId = ''unauthenticated'', atHash = [], atTenant = t, atEncrypted = None, atNonce = None, atBudget = 0,
            atSpent = 0, atProviders = [], atRpm = 1000, atExpires = None, atCreated = now\<rparr>,
          acRpmLimit = Some 1000, acCurrentRpm = 1, acRemainingRpm = Some 999, acBudget = 0, acSpent = 0,
          acBudgetRemaining = None\<rparr>)"

definition dispatch_context ::
  "'k Platform \<Rightarrow> timestamp \<Rightarrow> bool \<Rightarrow> AuthenticatedContext option \<Rightarrow> Request \<Rightarrow> GatewayEnv \<Rightarrow>
   (thrown + AuthenticatedContext) \<times> GatewayEnv" where
  "dispatch_context pl now requireAuth preset r env =
     (case preset of
        Some ctx \<Rightarrow> (Inr ctx, env)
      | None \<Rightarrow>
          if requireAuth
          then (let (x, a) = authenticate (plSubtle pl) (plParse pl) now (api_auth_request r) plain_auth (geAuth env)
                in (x, env\<lparr>geAuth := a\<rparr>))
          else (Inr (unauthenticated_context now r), env))"

definition foreign_header :: "Request \<Rightarrow> AuthenticatedContext \<Rightarrow> bool" where
  "foreign_header r ctx \<longleftrightarrow>
     truthy_text (reqHeader r ''x-tenant-id'') \<and> header_tenant r \<noteq> js_trim (acTenantId ctx)"

definition header_violation :: "Request \<Rightarrow> AuthenticatedContext \<Rightarrow> thrown" where
  "header_violation r ctx =
     DomainErr (newTenantIsolationError
       (Some (''Tenant isolation violation: Header x-tenant-id '' @ quoted (first_some (reqHeader r ''x-tenant-id'') []) @
              '' does not match authenticated token tenant '' @ quoted (acTenantId ctx)))
       (Some (acTenantId ctx)) (reqHeader r ''x-tenant-id'') None no_opts)"

text \<open>The path the object of the key pool is asked for.\<close>

definition pool_path :: "string \<Rightarrow> string" where
  "pool_path p = or_text (if starts ''/v1'' p then drop 3 p else p) ''/''"

definition pool_prefix :: "string \<Rightarrow> bool" where
  "pool_prefix path \<longleftrightarrow>
     (\<exists>p\<in>set [''/v1/keys'', ''/keys'', ''/v1/metrics'', ''/metrics'', ''/v1/capacity'', ''/capacity'']. starts p path)"

definition tenant_route :: "Request \<Rightarrow> string \<Rightarrow> bool \<Rightarrow> AuthenticatedContext \<Rightarrow> dispatch_result" where
  "tenant_route r path isJson ctx =
     (if foreign_header r ctx then Failed (formatRouterError (header_violation r ctx))
      else if pool_prefix path then ToKeyPool (acTenantId ctx) (pool_path (reqPath r))
      else if reqMethod r = ''POST'' \<and> (path = ''/v1/chat/completions'' \<or> path = ''/chat/completions'' \<or> path = ''/v1/route'' \<or> path = ''/'')
      then (if isJson then ToChat ctx else Failed \<lparr>ehStatus = 400, ehRetryAfter = None, ehAuthenticate = None\<rparr>)
      else RouteNotFound)"

text \<open>The last segment of the path.\<close>

definition last_segment :: "string \<Rightarrow> string" where
  "last_segment path = last (split_on CHR ''/'' path)"

definition dispatchRoute ::
  "'k Platform \<Rightarrow> timestamp \<Rightarrow> bool \<Rightarrow> AuthenticatedContext option \<Rightarrow> Request \<Rightarrow> body \<Rightarrow> GatewayEnv \<Rightarrow> dispatch_result \<times> GatewayEnv" where
  "dispatchRoute pl now requireAuth preset r b env =
     (let path = normal_path (reqPath r); m = reqMethod r in
      if geFreeze env = Some ''true'' \<or> geFreeze env = Some ''1'' then (MidnightFreeze, env)
      else if path = ''/health'' \<or> path = ''/v1/health'' then (HealthCheck, env)
      else if m = ''POST'' \<and> (path = ''/v1/report'' \<or> path = ''/report'') then (IssueReport, env)
      else if m = ''GET'' \<and> (path = ''/openapi.json'' \<or> path = ''/v1/openapi.json'') then (OpenApiSpec, env)
      else if (m = ''POST'' \<or> m = ''GET'') \<and> (path = ''/v1/demo/token'' \<or> path = ''/demo/token'' \<or> path = ''/api/demo/token'')
      then (DemoTokenIssue, env)
      else if m = ''GET'' \<and> (path = ''/v1/models'' \<or> path = ''/models'') then (ModelList, env)
      else if m = ''GET'' \<and> (starts ''/v1/models/'' path \<or> starts ''/models/'' path) then (ModelEntry (last_segment path), env)
      else if starts ''/api/'' path
      then (case dashboard_handle pl now (r\<lparr>reqPath := path\<rparr>) b env of (x, ms, env1) \<Rightarrow> (FromDashboard x ms, env1))
      else (case dispatch_context pl now requireAuth preset r env of
          (Inl err, env1) \<Rightarrow> (Failed (formatRouterError err), env1)
        | (Inr ctx, env1) \<Rightarrow> (tenant_route r path (json_body b \<noteq> None) ctx, env1)))"

section \<open>The edge (main\_worker.ts)\<close>

datatype edge =
    Preflight | HiddenNotFound | AdminConsole admin_reply | ConsoleAssets | RedirectToConsole | Health | StaticAsset | IndexPage
  | ReadyText | Routed dispatch_result | EdgeException

definition worker_fetch ::
  "'k Platform \<Rightarrow> timestamp \<Rightarrow> Request \<Rightarrow> body \<Rightarrow> GatewayEnv \<Rightarrow> edge \<times> GatewayEnv" where
  "worker_fetch pl now r b env =
     (let assets = plAssets pl; path = normal_path (reqPath r); m = reqMethod r; sub = hdSubdomain (resolveHostRoute (reqHost r));
          routed = (case dispatchRoute pl now True None r b env of (x, env1) \<Rightarrow> (Routed x, env1))
      in if m = ''OPTIONS'' then (Preflight, env)
         else if sub = Admin
         then (case verifyAdminRequest (plSubtle pl) (plUri pl) now r env of
             None \<Rightarrow> (EdgeException, env)
           | Some ok \<Rightarrow>
               if \<not> ok then (HiddenNotFound, env)
               else (case administer pl now r b env of
                   (ToRouter, env1) \<Rightarrow> routed
                 | (reply, env1) \<Rightarrow> (AdminConsole reply, env1)))
         else if sub = Console
         then (if starts ''/api/'' path \<or> starts ''/v1/'' path \<or> path = ''/openapi.json'' then routed else (ConsoleAssets, env))
         else if js_trim (js_lower (takeWhile (\<lambda>c. c \<noteq> CHR '':'') (reqHost r))) = ''key-col.axe08.tech'' \<and> path = ''/''
         then (RedirectToConsole, env)
         else if m = ''GET'' \<and> (path = ''/health'' \<or> path = ''/v1/health'') then (Health, env)
         else if sub = Apex \<and> assets \<and> m = ''GET'' \<and>
           (starts ''/assets/'' path \<or> path = ''/favicon.ico'' \<or> path = ''/favicon.svg'') then (StaticAsset, env)
         else if sub = Apex \<and> assets \<and> m = ''GET'' \<and> path = ''/dashboard'' then (IndexPage, env)
         else if sub = Apex \<and> assets \<and> m = ''GET'' \<and> path = ''/'' \<and>
           str_includes (first_some (reqHeader r ''accept'') []) ''text/html'' then (StaticAsset, env)
         else if m = ''GET'' \<and> path = ''/'' then (ReadyText, env)
         else routed)"

end
