(* ===== verification/DashboardProps.thy ===== *)
theory DashboardProps
  imports Dispatch
begin

text \<open>
  The properties of the console and of the way to it: what a tenant can change through the dashboard,
  what it sees, how the two ways into the worker treat the header \<open>x-tenant-id\<close>, and what becomes of a
  key that is added or rotated.
\<close>

section \<open>Lemmas: the environment\<close>

lemma tokens_put [simp]: "tokens (put_tokens db env) = db" "bound (put_tokens db env)"
  "geProjects (put_tokens db env) = geProjects env" "geKeys (put_tokens db env) = geKeys env"
  "geUsers (put_tokens db env) = geUsers env" "aeMasterKey (geAuth (put_tokens db env)) = aeMasterKey (geAuth env)"
  "geAdminEmails (put_tokens db env) = geAdminEmails env" "geAdminTokens (put_tokens db env) = geAdminTokens env"
  "geAdminToken (put_tokens db env) = geAdminToken env" "geFreeze (put_tokens db env) = geFreeze env"
  by (simp_all add: tokens_def put_tokens_def bound_def)

lemma change_keys_sel [simp]:
  "tokens (change_keys P f env) = tokens env" "geProjects (change_keys P f env) = geProjects env"
  "geUsers (change_keys P f env) = geUsers env" "geKeys (change_keys P f env) = map (\<lambda>k. if P k then f k else k) (geKeys env)"
  "geHashes (change_keys P f env) = geHashes env" "geSchema (change_keys P f env) = geSchema env"
  "geConsents (change_keys P f env) = geConsents env"
  by (simp_all add: change_keys_def tokens_def)

lemma clear_cache_sel [simp]:
  "tokens (clearDecryptedKeyCache env) = tokens env" "geProjects (clearDecryptedKeyCache env) = geProjects env"
  "geUsers (clearDecryptedKeyCache env) = geUsers env" "geKeys (clearDecryptedKeyCache env) = geKeys env"
  by (simp_all add: clearDecryptedKeyCache_def tokens_def)

lemma tokens_frame [simp]:
  "tokens (env\<lparr>geKeys := ks\<rparr>) = tokens env" "tokens (env\<lparr>geProjects := ps\<rparr>) = tokens env"
  "tokens (env\<lparr>geProjectKeys := pk\<rparr>) = tokens env" "tokens (env\<lparr>geHashes := hs\<rparr>) = tokens env"
  "tokens (env\<lparr>geConsents := cs\<rparr>) = tokens env" "tokens (env\<lparr>geCache := c\<rparr>) = tokens env"
  "tokens (env\<lparr>geUsers := us\<rparr>) = tokens env"
  by (simp_all add: tokens_def)

text \<open>Authentication touches the quota objects and the demo pool, no table.\<close>

definition same_tables :: "GatewayEnv \<Rightarrow> GatewayEnv \<Rightarrow> bool" where
  "same_tables a b \<longleftrightarrow> (\<exists>x. b = a\<lparr>geAuth := x\<rparr> \<and> aeDb x = aeDb (geAuth a))"

lemma same_tables_refl [simp]: "same_tables a a"
  unfolding same_tables_def by (intro exI [of _ "geAuth a"]) simp

lemma same_tablesI: "aeDb x = aeDb (geAuth a) \<Longrightarrow> same_tables a (a\<lparr>geAuth := x\<rparr>)"
  unfolding same_tables_def by blast

lemma same_tables_sel:
  "same_tables a b \<Longrightarrow> tokens b = tokens a \<and> geProjects b = geProjects a \<and> geKeys b = geKeys a \<and> geUsers b = geUsers a
     \<and> bound b = bound a"
  by (auto simp: same_tables_def tokens_def bound_def)

lemma credential_tables:
  "credential_tenant pl now r rawToken env = (x, env') \<Longrightarrow> same_tables env env'"
  by (auto simp: credential_tenant_def Let_def intro!: same_tablesI dest: authenticate_db
      split: if_splits prod.splits sum.splits)

lemma dashboard_tables: "dashboard_tenant pl now r env = (x, env') \<Longrightarrow> same_tables env env'"
  by (auto simp: dashboard_tenant_def dest: credential_tables split: option.splits prod.splits sum.splits)

section \<open>Lemmas: what a tenant leaves alone\<close>

text \<open>The rows of the others; the keys of \<open>default\<close> are open to every tenant.\<close>

definition foreign_rows :: "string \<Rightarrow> GatewayEnv \<Rightarrow> AuthTokenRow list \<times> ProjectRecord list \<times> KeyRow list \<times> UserRow list" where
  "foreign_rows t env =
     (filter (\<lambda>x. trTenant x \<noteq> t) (tokens env), filter (\<lambda>p. pjTenant p \<noteq> t) (geProjects env),
      filter (\<lambda>k. krTenant k \<noteq> t \<and> krTenant k \<noteq> ''default'') (geKeys env), geUsers env)"

definition told_pool :: "pool_message \<Rightarrow> string" where
  "told_pool m = (case m of RemoveFromPool t _ \<Rightarrow> t | AddToPool t _ \<Rightarrow> t)"

definition stays_with :: "string \<Rightarrow> GatewayEnv \<Rightarrow> payload answer \<times> pool_message list \<times> GatewayEnv \<Rightarrow> bool" where
  "stays_with t env x \<longleftrightarrow> foreign_rows t (snd (snd x)) = foreign_rows t env \<and> (\<forall>m\<in>set (fst (snd x)). told_pool m = t)"

lemma filter_map_outside:
  assumes "\<And>x. x \<in> set xs \<Longrightarrow> P x \<Longrightarrow> \<not> Q x \<and> \<not> Q (f x)"
  shows "filter Q (map (\<lambda>x. if P x then f x else x) xs) = filter Q xs"
  using assms by (induction xs) auto

lemma filter_filter_outside:
  "(\<And>x. x \<in> set xs \<Longrightarrow> P x \<Longrightarrow> \<not> Q x) \<Longrightarrow> filter Q (filter (\<lambda>x. \<not> P x) xs) = filter Q xs"
  by (induction xs) auto

lemma foreign_frame [simp]:
  "foreign_rows t (env\<lparr>geCache := c\<rparr>) = foreign_rows t env" "foreign_rows t (env\<lparr>geConsents := cs\<rparr>) = foreign_rows t env"
  "foreign_rows t (env\<lparr>geHashes := hs\<rparr>) = foreign_rows t env" "foreign_rows t (env\<lparr>geProjectKeys := pk\<rparr>) = foreign_rows t env"
  "foreign_rows t (clearDecryptedKeyCache env) = foreign_rows t env"
  by (simp_all add: foreign_rows_def)

lemma foreign_change_keys:
  assumes "\<And>k. P k \<Longrightarrow> krTenant k \<in> {t, ''default''} \<and> krTenant (f k) \<in> {t, ''default''}"
  shows "foreign_rows t (change_keys P f env) = foreign_rows t env"
  unfolding foreign_rows_def change_keys_sel using assms by (subst filter_map_outside) auto

lemma post_project_stays:
  "t \<noteq> ''admin'' \<Longrightarrow> foreign_rows t (snd (handlePostProjects uuid now r b env t)) = foreign_rows t env"
  by (auto simp: handlePostProjects_def foreign_rows_def created_for_def Let_def split: option.splits)

lemma delete_project_stays:
  "t \<noteq> ''admin'' \<Longrightarrow> foreign_rows t (snd (handleDeleteProject uri path env t)) = foreign_rows t env"
  by (auto simp: handleDeleteProject_def foreign_rows_def owned_by_def filter_filter_outside
      intro: filter_cong split: option.splits)

lemma update_project_stays:
  assumes "t \<noteq> ''admin''" "distinct (map pjId (geProjects env))"
  shows "foreign_rows t (snd (handleUpdateProject uri now path b env t)) = foreign_rows t env"
proof -
  have "filter (\<lambda>p. pjTenant p \<noteq> t) (map (\<lambda>p. if pjId p = i then f p else p) (geProjects env))
      = filter (\<lambda>p. pjTenant p \<noteq> t) (geProjects env)"
    if "find (\<lambda>p. pjId p = i \<and> owned_by t (pjTenant p)) (geProjects env) = Some old" "\<And>p. pjTenant (f p) = pjTenant p"
    for i f old
  proof (rule filter_map_outside)
    fix x assume x: "x \<in> set (geProjects env)" "pjId x = i"
    from that(1) have "old \<in> set (geProjects env)" "pjId old = i" "pjTenant old = t"
      using assms(1) by (auto simp: find_Some_iff owned_by_def)
    with x assms(2) have "x = old" by (simp add: distinct_map inj_on_def)
    with \<open>pjTenant old = t\<close> that(2) show "\<not> pjTenant x \<noteq> t \<and> \<not> pjTenant (f x) \<noteq> t" by simp
  qed
  then show ?thesis
    by (auto simp: handleUpdateProject_def foreign_rows_def Let_def split: option.splits)
qed

lemma post_token_stays:
  "t \<noteq> ''admin'' \<Longrightarrow> foreign_rows t (snd (handlePostTokens sc rnd date uuid now r b env t)) = foreign_rows t env"
  by (auto simp: handlePostTokens_def foreign_rows_def created_token_row_def created_for_def insert_row_def Let_def
      split: option.splits prod.splits if_splits sum.splits)

lemma delete_token_stays:
  "t \<noteq> ''admin'' \<Longrightarrow> foreign_rows t (snd (handleDeleteToken uri path env t)) = foreign_rows t env"
  by (auto simp: handleDeleteToken_def foreign_rows_def owned_by_def delete_where_def comp_def
      intro!: filter_cong [OF refl] split: option.splits)

lemma delete_key_stays:
  "t \<noteq> ''admin'' \<Longrightarrow> foreign_rows t (snd (snd (handleDeleteKey path h env t))) = foreign_rows t env \<and>
    (\<forall>m\<in>set (fst (snd (handleDeleteKey path h env t))). told_pool m = t)"
  by (auto simp: handleDeleteKey_def foreign_rows_def owned_by_def Let_def told_pool_def pool_tenant_def
      intro!: filter_cong [OF refl])

lemma pool_mode_stays:
  "t \<noteq> ''admin'' \<Longrightarrow> foreign_rows t (snd (handlePoolMode now path b env t)) = foreign_rows t env"
  by (auto simp: handlePoolMode_def Let_def shared_with_def intro!: foreign_change_keys)

lemma rotate_stays:
  "t \<noteq> ''admin'' \<Longrightarrow> foreign_rows t (snd (handleRotateKeySecret sc rnd path b h mk env t)) = foreign_rows t env"
  by (auto simp: handleRotateKeySecret_def Let_def shared_with_def key_columns_def intro!: foreign_change_keys split: sum.split)

lemma test_key_stays: "foreign_rows t (snd (handleTestKey sc lossy reach now path mk env t)) = foreign_rows t env"
  by (auto simp: handleTestKey_def Let_def split: option.split prod.split)

lemma claim_project_stays: "claim_project sc now project t env = Inr env1 \<Longrightarrow> foreign_rows t env1 = foreign_rows t env
   \<and> geKeys env1 = geKeys env \<and> geSchema env1 = geSchema env \<and> geConsents env1 = geConsents env"
  by (auto simp: claim_project_def Let_def split: if_splits)

lemma posted_tenant [simp]: "krTenant (posted_row rnd now b target e) = target"
  by (simp add: posted_row_def pool_columns_def Let_def)

lemma store_key_stays:
  "krTenant row = t \<Longrightarrow> foreign_rows t (snd (snd (store_key now row env))) = foreign_rows t env \<and>
    (\<forall>m\<in>set (fst (snd (store_key now row env))). told_pool m = t)"
  by (auto simp: store_key_def Let_def foreign_rows_def told_pool_def)

lemma post_key_stays:
  assumes "t \<noteq> ''admin''"
  shows "foreign_rows t (snd (snd (handlePostKeys sc rnd call google now r b mk env t))) = foreign_rows t env \<and>
    (\<forall>m\<in>set (fst (snd (handlePostKeys sc rnd call google now r b mk env t))). told_pool m = t)"
proof -
  have "pool_tenant h t = t" for h using assms by (simp add: pool_tenant_def)
  then show ?thesis
    using store_key_stays [OF posted_tenant]
    by (auto simp: handlePostKeys_def Let_def dest: claim_project_stays split: option.splits sum.splits)
qed


lemma serve_stays:
  assumes "t \<noteq> ''admin''" "distinct (map pjId (geProjects env))" "dashboard_route (reqMethod r) (reqPath r) \<noteq> ReportKey"
    and "\<not> (dashboard_route (reqMethod r) (reqPath r) = AdminApi \<and> dashboard_admin env t rawToken)"
  shows "stays_with t env (serve pl now r b t rawToken env)"
proof -
  note keys = post_key_stays [OF assms(1)] delete_key_stays [OF assms(1)]
  note rows = post_project_stays [OF assms(1)] delete_project_stays [OF assms(1)] update_project_stays [OF assms(1, 2)]
    post_token_stays [OF assms(1)] delete_token_stays [OF assms(1)] pool_mode_stays [OF assms(1)]
    rotate_stays [OF assms(1)] test_key_stays
  show ?thesis
    using assms(3, 4) keys rows
    by (cases "dashboard_route (reqMethod r) (reqPath r)")
      (simp_all add: serve_def stays_with_def plain_answer_def pool_answer_def Let_def)
qed

section \<open>Properties: what a tenant changes\<close>


section \<open>Lemmas: bearer tokens\<close>

definition plain_token :: "string \<Rightarrow> bool" where
  "plain_token s \<longleftrightarrow> s \<noteq> [] \<and> list_all (\<lambda>c. \<not> is_space c) s"

lemma plain_trim: "plain_token s \<Longrightarrow> js_trim s = s"
  by (simp add: plain_token_def trim_no_space)

lemma bearer_trim: "plain_token s \<Longrightarrow> js_trim (''Bearer '' @ s) = ''Bearer '' @ s"
  by (rule js_trim_id) (auto simp: plain_token_def list_all_iff is_space_def)

lemma extract_bearer:
  assumes "plain_token s"
  shows "extractBearerToken (Some (''Bearer '' @ s)) = Inr s"
proof -
  have scheme: "js_lower ''Bearer'' = ''bearer''" by code_simp
  have "dropWhile is_space (CHR '' '' # s) = s"
    using assms by (simp add: plain_token_def is_space_def dropWhile_id list_all_iff)
  moreover have "list_all (\<lambda>c. code_of c \<noteq> 10 \<and> code_of c \<noteq> 13) s"
    using assms by (auto simp: plain_token_def list_all_iff is_space_def)
  ultimately have "bearer_match (''Bearer '' @ s) = Some s"
    using scheme by (simp add: bearer_match_def)
  moreover have "js_trim (first_some (Some (''Bearer '' @ s)) []) = ''Bearer '' @ s"
    unfolding first_some_simps by (rule bearer_trim [OF assms])
  ultimately show ?thesis
    unfolding extractBearerToken_def using assms plain_trim [OF assms] by (simp add: plain_token_def)
qed

lemmas extract_bearer_simp = extract_bearer [simplified]

lemma bearer_credential_plain:
  "plain_token s \<Longrightarrow> reqHeader r ''authorization'' = Some (''Bearer '' @ s) \<Longrightarrow> raw_credential uri r = Some s"
  by (simp add: raw_credential_def bearer_credential_def starts_def plain_trim) (simp add: plain_token_def)

text \<open>A row that was just inserted, and that does not expire, is what its token stands for.\<close>

lemma inserted_row:
  assumes "\<forall>x\<in>set db. trHash x \<noteq> hashToken sc token" "trHash row = hashToken sc token" "trExpires row = None"
    and "plain_token token" "aeDb a = Some (db @ [row])"
  shows "Auth.verifyToken sc parse now (''Bearer '' @ token) a = Inr (trTenant row)"
    and "find (\<lambda>r. trHash r = hashToken sc token) (db @ [row]) = Some row"
proof -
  have "find (\<lambda>r. trHash r = hashToken sc token) db = None" using assms(1) by (simp add: find_None_iff)
  then show f: "find (\<lambda>r. trHash r = hashToken sc token) (db @ [row]) = Some row"
    using assms(2) select_one_snoc [of "\<lambda>r. trHash r = hashToken sc token" db row] by (simp add: select_one_def)
  have "findByToken sc parse token (db @ [row]) = Inr (Some (record_of parse row))"
    using f assms(2, 3, 4)
    by (simp add: findByToken_def select_one_def map_row_def map_row_ok hashToken_def plain_token_def)
  then show "Auth.verifyToken sc parse now (''Bearer '' @ token) a = Inr (trTenant row)"
    using assms by (simp add: Auth.verifyToken_def extract_bearer_simp expired_def record_of_def)
qed

lemma inserted_admin:
  assumes "find (\<lambda>r. trHash r = hashToken sc token) (tokens env) = Some row" "trTenant row = ''admin''" "trExpires row = None"
    and "bound env" "plain_token token" "reqHeader r ''authorization'' = Some (''Bearer '' @ token)"
  shows "verifyAdminRequest sc uri now r env = Some True"
proof -
  have "token_verdict_admin sc now token env = Some True"
    using assms(1, 2, 3) by (simp add: token_verdict_admin_def row_expired_def)
  then show ?thesis
    using assms(4, 5, 6) by (simp add: verifyAdminRequest_def bearer_credential_plain) (simp add: plain_token_def)
qed

lemma csprng_plain: "plain_token (generateCsprngToken rnd k)"
proof -
  have "list_all (\<lambda>c. \<not> is_space c) (bytesToHex bs)" for bs
    using hex_chars [of bs] by (auto simp: list_all_iff dest: is_hex_facts)
  then show ?thesis by (simp add: plain_token_def generateCsprngToken_def is_space_def)
qed

lemma route_tokens: "dashboard_route ''POST'' ''/api/tokens'' = AddToken"
  by code_simp

lemma no_credential:
  assumes "raw_credential (plUri pl) r = Some []" "header_tenant r \<noteq> []"
  shows "dashboard_tenant pl now r env = (Inr (header_tenant r, []), env)"
  using assms by (simp add: dashboard_tenant_def credential_tenant_def or_text_def)

text \<open>
  C22. The console believes the header \<open>x-tenant-id\<close> of a request without any credential. A \<open>POST\<close> to
  \<open>/api/tokens\<close> that carries nothing but this header is served as the tenant it names: the reply holds a
  fresh token, which from then on authenticates as that tenant and, if the header says \<open>admin\<close>, passes the
  verification of administrators. The database and the master key are configured, and the random token is
  new to the table.
\<close>

theorem token_without_credential:
  assumes "raw_credential (plUri pl) r = Some []" "\<not> guest (header_tenant r)"
    and "reqMethod r = ''POST''" "reqPath r = ''/api/tokens''"
    and "bound env" "nonempty (aeMasterKey (geAuth env)) \<noteq> []"
    and "\<forall>x\<in>set (tokens env). trHash x \<noteq> hashToken (plSubtle pl) (generateCsprngToken (plRandom pl) 0)"
    and "\<forall>x\<in>set (tokens env). trId x \<noteq> ''tok_'' @ base36 (nat now) @ ''_'' @ take 8 (plUuid pl)"
  shows "\<exists>reply env'. dashboard_handle pl now r NoText env = (Answer 201 (PToken reply), [], env') \<and>
    cnTenant reply = header_tenant r \<and>
    Auth.verifyToken (plSubtle pl) (plParse pl) later (''Bearer '' @ cnToken reply) (geAuth env') = Inr (header_tenant r) \<and>
    (header_tenant r = ''admin'' \<and> reqHeader r' ''authorization'' = Some (''Bearer '' @ cnToken reply) \<longrightarrow>
       verifyAdminRequest (plSubtle pl) (plUri pl) later r' env' = Some True)"
proof -
  let ?t = "header_tenant r" and ?sc = "plSubtle pl" and ?token = "generateCsprngToken (plRandom pl) 0"
  let ?row = "created_token_row ?sc (plRandom pl) (plDate pl) (plUuid pl) now (the (aeMasterKey (geAuth env))) r empty_body ?t"
  have "?t \<noteq> []" using assms(2) by (auto simp: guest_def)
  then have tenant: "created_for r empty_body ?t = ?t"
    by (simp add: created_for_def header_tenant_def or_text_def)
  have row: "trHash ?row = hashToken ?sc ?token" "trTenant ?row = ?t" "trExpires ?row = None"
    "trId ?row = ''tok_'' @ base36 (nat now) @ ''_'' @ take 8 (plUuid pl)"
    using tenant by (simp_all add: created_token_row_def Let_def hashToken_def computeSha256_def empty_body_def
        nonempty_def or_text_def truthy_text_def js_trim_def)
  then have ins: "insert_row ?row (tokens env) = (Inr (), tokens env @ [?row])"
    using assms(7, 8) by (auto simp: insert_row_def)
  let ?env' = "put_tokens (tokens env @ [?row]) env"
  obtain reply where step: "dashboard_handle pl now r NoText env = (Answer 201 (PToken reply), [], ?env')"
    and reply: "cnTenant reply = ?t" "cnToken reply = ?token"
    using no_credential [OF assms(1) \<open>?t \<noteq> []\<close>] assms(2, 3, 4, 5, 6) ins row(2) route_tokens
    by (simp add: dashboard_handle_def serve_def handlePostTokens_def token_body_def plain_answer_def Let_def)
  have db: "aeDb (geAuth ?env') = Some (tokens env @ [?row])" by (simp add: put_tokens_def)
  note row_is = inserted_row [OF assms(7) row(1, 3) csprng_plain db]
  have "verifyAdminRequest ?sc (plUri pl) later r' ?env' = Some True"
    if "?t = ''admin''" "reqHeader r' ''authorization'' = Some (''Bearer '' @ ?token)"
    using inserted_admin [of ?sc ?token ?env' ?row] row_is(2) row(2, 3) csprng_plain that by simp
  with step reply row_is(1) row(2) show ?thesis by (intro exI [of _ reply] exI [of _ ?env']) simp
qed

text \<open>
  A session is given to whoever names it. \<open>POST /api/auth/sync-session\<close> checks no credential: for any
  non-empty identifier in its body, and no tier, it returns a token that authenticates as that
  identifier; for the identifier \<open>admin\<close> the token passes the verification of administrators. The
  e-mail address the route makes up belongs to no other user, the token and its row are new, and the
  UUID holds no white space.
\<close>

theorem session_for_any_identifier:
  assumes "js_trim i \<noteq> []" "bound env" "list_all (\<lambda>c. \<not> is_space c) uuid"
    and "\<forall>u\<in>set (geUsers env). usEmail u = Some (js_trim i @ ''@users.noreply.kc'') \<longrightarrow> usId u = js_trim i"
    and "\<forall>x\<in>set (tokens env). trHash x \<noteq> hashToken sc (session_token ''demo'' uuid)
           \<and> trId x \<noteq> ''tok_'' @ take 12 (js_trim i) @ ''_'' @ base36 (nat now)"
  shows "\<exists>s env'. handleSyncSession sc uuid now (Some \<lparr>sbId = Some i, sbEmail = None, sbTier = None, sbAuthProvider = None\<rparr>) env
        = (Inr s, env') \<and>
    Auth.verifyToken sc parse later (''Bearer '' @ syToken s) (geAuth env') = Inr (js_trim i) \<and>
    (js_trim i = ''admin'' \<and> reqHeader r ''authorization'' = Some (''Bearer '' @ syToken s) \<longrightarrow>
       verifyAdminRequest sc uri later r env' = Some True)"
proof -
  let ?t = "js_trim i" and ?token = "session_token ''demo'' uuid"
  let ?b = "\<lparr>sbId = Some i, sbEmail = None, sbTier = None, sbAuthProvider = None\<rparr>"
  let ?row = "session_row sc now ?t ?token 2 0"
  have none: "nonempty None = []" and ident: "nonempty (Some i) = ?t" by (simp_all add: nonempty_def js_trim_def)
  have tier: "synced_tier ?b = ''demo''"
    by (simp add: synced_tier_def asked_tier_def none or_text_def)
  have row: "trHash ?row = hashToken sc ?token" "trTenant ?row = ?t" "trExpires ?row = None"
    "trId ?row = ''tok_'' @ take 12 ?t @ ''_'' @ base36 (nat now)"
    by (simp_all add: session_row_def)
  have plain: "plain_token ?token"
    using assms(3) by (auto simp: plain_token_def session_token_def list_all_iff is_space_def dest: in_set_takeD)
  have ins: "insert_row ?row (tokens env) = (Inr (), tokens env @ [?row])"
    using assms(5) row by (auto simp: insert_row_def)
  have "upsert_user ?t (?t @ ''@users.noreply.kc'') ''demo'' 20 (geUsers env) \<noteq> None"
    using assms(4) by (auto simp: upsert_user_def)
  then obtain users where users: "upsert_user ?t (?t @ ''@users.noreply.kc'') ''demo'' 20 (geUsers env) = Some users"
    by blast
  let ?env' = "put_tokens (tokens env @ [?row]) (env\<lparr>geUsers := users\<rparr>)"
  have store: "store_session ?t (?t @ ''@users.noreply.kc'') ''demo'' 20 ?row env = ?env'"
    using assms(2) users ins by (simp add: store_session_def)
  obtain s where step: "handleSyncSession sc uuid now (Some ?b) env = (Inr s, ?env')" and s: "syToken s = ?token"
    using assms(1) store by (simp add: handleSyncSession_def tier Let_def none or_text_def session_rpm_def ident)
  have db: "aeDb (geAuth ?env') = Some (tokens env @ [?row])" by (simp add: put_tokens_def)
  have fresh: "\<forall>x\<in>set (tokens env). trHash x \<noteq> hashToken sc ?token" using assms(5) by blast
  note row_is = inserted_row [OF fresh row(1, 3) plain db]
  have "verifyAdminRequest sc uri later r ?env' = Some True"
    if "?t = ''admin''" "reqHeader r ''authorization'' = Some (''Bearer '' @ ?token)"
    using inserted_admin [of sc ?token ?env' ?row] row_is(2) row(2, 3) plain that by simp
  with step s row_is(1) row(2) show ?thesis by (intro exI [of _ s] exI [of _ ?env']) simp
qed

section \<open>Properties: the public interface\<close>

lemma if_other: "(if c then x else y) = z \<Longrightarrow> x \<noteq> z \<Longrightarrow> (y = z \<Longrightarrow> P) \<Longrightarrow> P"
  by (cases c) auto

lemma dispatch_tenant:
  assumes "dispatchRoute pl now requireAuth preset r b env = (d, env')"
    and "(\<exists>t p. d = ToKeyPool t p) \<or> (\<exists>ctx. d = ToChat ctx)"
  shows "\<exists>ctx. dispatch_context pl now requireAuth preset r env = (Inr ctx, env') \<and>
    d = tenant_route r (normal_path (reqPath r)) (json_body b \<noteq> None) ctx"
  using assms(1) unfolding dispatchRoute_def Let_def
proof (elim if_other)
  assume "(case dispatch_context pl now requireAuth preset r env of
      (Inl err, env1) \<Rightarrow> (Failed (formatRouterError err), env1)
    | (Inr ctx, env1) \<Rightarrow> (tenant_route r (normal_path (reqPath r)) (json_body b \<noteq> None) ctx, env1)) = (d, env')"
  then show ?thesis using assms(2) by (auto split: prod.splits sum.splits)
qed (use assms(2) in \<open>auto split: prod.splits\<close>)

text \<open>
  C10. Outside the console the header gives nothing. A request that the dispatcher hands to a key pool
  or to the completions for a tenant was authenticated as that tenant by the credential in its
  \<open>authorization\<close> header, and a header \<open>x-tenant-id\<close>, if it has one, names the same tenant.
\<close>

theorem dispatch_isolation:
  assumes "dispatchRoute pl now True None r b env = (d, env')"
    and "(\<exists>p. d = ToKeyPool t p) \<or> (\<exists>ctx. d = ToChat ctx \<and> acTenantId ctx = t)"
  shows "(\<exists>ctx. fst (authenticate (plSubtle pl) (plParse pl) now (api_auth_request r) plain_auth (geAuth env)) = Inr ctx
           \<and> acTenantId ctx = t) \<and>
    (truthy_text (reqHeader r ''x-tenant-id'') \<longrightarrow> header_tenant r = js_trim t) \<and> tokens env' = tokens env"
proof -
  let ?auth = "authenticate (plSubtle pl) (plParse pl) now (api_auth_request r) plain_auth (geAuth env)"
  from assms obtain ctx where ctx: "fst ?auth = Inr ctx" and env': "env' = env\<lparr>geAuth := snd ?auth\<rparr>"
    and d: "d = tenant_route r (normal_path (reqPath r)) (json_body b \<noteq> None) ctx"
    using dispatch_tenant [OF assms(1)] by (auto simp: dispatch_context_def Let_def case_prod_beta)
  from d assms(2) have "acTenantId ctx = t \<and> \<not> foreign_header r ctx"
    by (auto simp: tenant_route_def split: if_splits)
  moreover have "tokens env' = tokens env"
    using authenticate_db [of "plSubtle pl" "plParse pl" now "api_auth_request r" plain_auth "geAuth env"] env'
    by (cases ?auth) (simp add: tokens_def)
  ultimately show ?thesis using ctx by (auto simp: foreign_header_def)
qed

section \<open>Properties: keys\<close>

text \<open>
  What the list of keys reveals. A caller who is no administrator is shown the keys of the community
  pool and its own private ones, each once, and learns the owner of a key only if it is itself.
\<close>

theorem listed_keys_private:
  assumes "\<not> sees_all_keys env t" "bound env"
  shows "(\<forall>x\<in>set (handleGetKeys env t). lkTenant x \<in> {None, Some t} \<and> (lkPool x = ''COMMUNITY'' \<or> lkTenant x = Some t)) \<and>
    mset (map lkId (handleGetKeys env t)) = mset (map krId (filter (\<lambda>k. krPool k = Some ''COMMUNITY'' \<or>
       (\<not> guest t \<and> krPool k = Some ''PRIVATE'' \<and> krTenant k = t)) (geKeys env)))"
proof -
  have visible: "key_visible env t = (\<lambda>k. krPool k = Some ''COMMUNITY'' \<or>
       (\<not> guest t \<and> krPool k = Some ''PRIVATE'' \<and> krTenant k = t))"
    using assms(1) by (simp add: key_visible_def fun_eq_iff)
  have "lkId (listed_key env t k) = krId k" for k by (simp add: listed_key_def Let_def)
  then show ?thesis
    using assms by (auto simp: handleGetKeys_def visible listed_key_def Let_def comp_def mset_map)
qed

text \<open>
  In the schema of the migrations a key that is added is stored and refused. Once the checks of
  \<open>POST /api/keys\<close> are passed, the row of the key is inserted, the attestation after it fails, the reply
  has status 500, and the key pool of the tenant is never told. A pool type in lower case passes the check
  that only contributors may add to the community pool, and the row is a community key all the same.
\<close>

theorem posted_key_half_stored:
  assumes "bound env" "truthy_text mk" "\<not> guest t" "\<not> geSchema env ''consent_attestations''"
    and "tvSuccess (verifyTurnstileToken call (geTurnstile env) None (reqHeader r ''x-turnstile-token''))"
    and "jbK1 b" "jbK2 b" "nonempty (jbKey b) \<noteq> []" "jbProvider b = Some p" "p \<notin> {''google'', ''gemini''}"
    and "jbPool b = Some ''community''"
    and "sealed sc rnd 1 (the mk) (pool_tenant (reqHeader r ''x-tenant-id'') t) (nonempty (jbKey b)) = Inr e"
    and "\<forall>k\<in>set (geKeys env). krId k \<noteq> ''key_'' @ p @ ''_'' @ base36 (nat now) @ ''_'' @ bytesToHex (map (rnd 0) [0..<3])"
  shows "\<exists>row. handlePostKeys sc rnd call google now r (Json b) mk env t =
      (Refuse 500 unexpected, [], env\<lparr>geKeys := geKeys env @ [row]\<rparr>) \<and>
    krTenant row = pool_tenant (reqHeader r ''x-tenant-id'') t \<and> krPool row = Some ''COMMUNITY''"
proof -
  let ?row = "posted_row rnd now b (pool_tenant (reqHeader r ''x-tenant-id'') t) e"
  have upper: "js_upper ''community'' = ''COMMUNITY''" by code_simp
  have "krId ?row = ''key_'' @ p @ ''_'' @ base36 (nat now) @ ''_'' @ bytesToHex (map (rnd 0) [0..<3])"
    using assms(9) by (simp add: posted_row_def pool_columns_def Let_def)
  then have "handlePostKeys sc rnd call google now r (Json b) mk env t =
      (Refuse 500 unexpected, [], env\<lparr>geKeys := geKeys env @ [?row]\<rparr>)"
    using assms by (auto simp: handlePostKeys_def json_body_def Let_def forceErrorGcpProbe_def claim_project_def
        truthy_text_def store_key_def)
  moreover have "krPool ?row = Some ''COMMUNITY''"
    using assms(11) upper by (simp add: posted_row_def pool_columns_def Let_def)
  ultimately show ?thesis by (intro exI [of _ ?row]) simp
qed

lemma sealed_texts:
  assumes "subtle_ok sc" "sealed sc rnd n mk t raw = Inr e"
  shows "epCiphertextB64 e \<noteq> []" "epNonceB64 e \<noteq> []"
proof -
  obtain iv cryptoKey ct where *: "length iv = NONCE_LENGTH_BYTES"
    "scEncrypt sc cryptoKey iv (plain_bytes (PlainText (map of_char raw))) = Some ct" "e = encrypted_payload iv ct"
    using assms(2) unfolding sealed_def by (rule encrypt_Inr)
  from subtle_box(1) [OF assms(1) *(1, 2)] *(1) have "ct \<noteq> []" "iv \<noteq> []" by (auto simp: length_defs)
  then show "epCiphertextB64 e \<noteq> []" "epNonceB64 e \<noteq> []" by (simp_all add: *(3) encrypted_payload_def Let_def)
qed

lemma find_by_id: "distinct (map krId ks) \<Longrightarrow> k \<in> set ks \<Longrightarrow> find (\<lambda>y. krId y = krId k) ks = Some k"
  by (induction ks) (auto simp: image_iff)

text \<open>
  C21. A rotated key is the one that is used from then on. If a tenant rotates a key that is its own (not
  one of \<open>default\<close>, which any tenant may rotate but which then decrypts under neither tenant), the row afterwards is
  still the tenant's, shows the new prefix and suffix, and decrypts to the new key, trimmed; and whoever
  asks the resolver for the key by its identifier, at whatever time, gets the new key: none of the cached
  ones is left. Identifiers are unique, the primary key of the table, and the identifier is not one that the
  resolver takes for a key itself.
\<close>

theorem rotated_key_roundtrip:
  assumes "subtle_ok sc" "handleRotateKeySecret sc rnd path (Json b) h (Some mk) env t = (Answer s x, env')"
    and "k \<in> set (geKeys env)" "krId k = js_trim (cut_first ''/rotate'' (cut_first ''/api/keys/'' path))"
    and "krTenant k = t" "t \<noteq> ''admin''" "distinct (map krId (geKeys env))" "\<not> looks_plaintext (krId k)"
  shows "(\<exists>k'\<in>set (geKeys env'). krId k' = krId k \<and> krTenant k' = t \<and>
    stored_plaintext sc lossy mk reader (stored_key k') = Some (nonempty (jbNewKey b)) \<and>
    (krId k', krPrefix k', krSuffix k') = x) \<and>
    fst (resolvePlaintextKey sc lossy now (\<lambda>i. map_option stored_key (key_by_id env' i)) (Some mk) (krId k) reader (geCache env'))
      = nonempty (jbNewKey b)"
proof -
  let ?raw = "nonempty (jbNewKey b)"
  from assms(2) have t: "t \<noteq> []" "?raw \<noteq> []" "mk \<noteq> []" "krId k \<noteq> []"
    by (auto simp: handleRotateKeySecret_def json_body_def guest_def truthy_text_def assms(4) Let_def split: if_splits)
  from assms(2, 6) obtain e where e: "sealed sc rnd 0 mk t ?raw = Inr e"
    and x: "x = (krId k, take 8 ?raw, drop (length ?raw - 4) ?raw)"
    and env': "env' = clearDecryptedKeyCache (change_keys (\<lambda>k'. krId k' = krId k \<and> shared_with t (krTenant k')) (key_columns ?raw e) env)"
    by (auto simp: handleRotateKeySecret_def json_body_def pool_tenant_def assms(4) Let_def split: if_splits sum.splits)
  let ?k = "key_columns ?raw e k"
  have new: "?k \<in> set (geKeys env')" using assms(3, 5) env' by (force simp: shared_with_def)
  have "decrypt_stored sc lossy mk t (stored_key ?k) = Some ?raw"
  proof -
    have "decrypt sc lossy (InputPair (Inl (epCiphertextB64 e)) (Inl (epNonceB64 e)))
        (Imported (deriveTenantKey sc (Inl mk) t)) None = Inr (map of_char ?raw)"
      by (rule decrypt_imported [OF assms(1) e [unfolded sealed_def] string_scalar])
    moreover have "string_of_text (map of_char ?raw) = ?raw" by (simp add: string_of_text_def comp_def)
    ultimately show ?thesis
      using t(2) by (simp add: decrypt_stored_def stored_key_def key_columns_def usable_key_def Let_def nonempty_def)
  qed
  moreover have "skTenant (stored_key ?k) = t" using assms(5) by (simp add: stored_key_def key_columns_def)
  ultimately have plain: "stored_plaintext sc lossy mk r (stored_key ?k) = Some ?raw" for r
    using t by (simp add: stored_plaintext_def)
  have ids: "krId (key_columns ?raw e y) = krId y" for y by (simp add: key_columns_def)
  have "map krId (geKeys env') = map krId (geKeys env)" using ids by (simp add: env' comp_def)
  with assms(7) have "distinct (map krId (geKeys env'))" by simp
  from find_by_id [OF this new] ids have "find (\<lambda>y. krId y = krId k) (geKeys env') = Some ?k" by simp
  then have found: "key_by_id env' (krId k) = Some ?k" by (simp add: key_by_id_def)
  have texts: "skEncryptedKey (stored_key ?k) \<noteq> []" "skNonce (stored_key ?k) \<noteq> []"
    using sealed_texts [OF assms(1) e] by (simp_all add: stored_key_def key_columns_def)
  have "geCache env' (krId k) = None" by (simp add: env' clearDecryptedKeyCache_def)
  moreover have "js_trim (krId k) = krId k" by (simp add: assms(4))
  ultimately have "fst (resolvePlaintextKey sc lossy now (\<lambda>i. map_option stored_key (key_by_id env' i)) (Some mk) (krId k) reader
      (geCache env')) = ?raw"
    using assms(8) t found texts plain by (simp add: resolvePlaintextKey_def resolve_stored_def Let_def)
  with new plain assms(5) x ids show ?thesis
    by (intro conjI bexI [of _ ?k]) (simp_all add: key_columns_def)
qed

lemma revoked_sel [simp]:
  "krId (revoked k) = krId k" "krPrefix (revoked k) = krPrefix k" "krProjectHash (revoked k) = krProjectHash k"
  "revoked (revoked k) = revoked k"
  by (simp_all add: revoked_def)

lemma revoke_keys:
  "geKeys (revoke_id i env) = map (\<lambda>k. if i \<noteq> [] \<and> krId k = i then revoked k else k) (geKeys env)"
  "geKeys (revoke_leaked sc now raw env) = map (\<lambda>k. if raw \<noteq> [] \<and>
     (krPrefix k = take 8 raw \<or> krPrefix k = take 6 raw \<or> krProjectHash k = Some (computeSha256 sc raw))
     then revoked k else k) (geKeys env)"
  by (auto simp: revoke_id_def revoke_leaked_def Let_def)

text \<open>
  What the public report of a leak revokes: the key with the identifier of the report, and every
  key whose stored prefix is the first eight, or six, characters of the leaked text or whose project has
  its hash, of whatever tenant, and no other. Without a Turnstile secret the report needs no token.
\<close>

theorem report_revokes_exactly:
  assumes "bound env" "\<not> truthy_text (geTurnstile env)" "\<not> truthy_text (reqHeader r ''x-turnstile-token'')"
    and "\<not> truthy_text (jbTurnstile b)" "\<not> truthy_text (jbTurnstileCamel b)"
  shows "case handleReportKeyAbuse sc call now r (Json b) env of (reply, env') \<Rightarrow> reply = Answer 200 () \<and>
    geKeys env' =
      (let leaked = either_text (jbLeaked b) (jbLeakedCamel b); i = either_text (jbKeyId b) (jbKeyIdSnake b)
       in map (\<lambda>k. if (i \<noteq> [] \<and> krId k = i) \<or>
              (leaked \<noteq> [] \<and> (krPrefix k = take 8 leaked \<or> krPrefix k = take 6 leaked
                             \<or> krProjectHash k = Some (computeSha256 sc leaked)))
            then revoked k else k) (geKeys env))"
proof -
  let ?leaked = "either_text (jbLeaked b) (jbLeakedCamel b)" and ?i = "either_text (jbKeyId b) (jbKeyIdSnake b)"
  have no_token: "jbTurnstileCamel b = None \<or> jbTurnstileCamel b = Some []" using assms(5) by (auto simp: truthy_text_def)
  have "handleReportKeyAbuse sc call now r (Json b) env = (Answer 200 (), revoke_leaked sc now ?leaked (revoke_id ?i env))"
    using assms(1-4) no_token by (auto simp: handleReportKeyAbuse_def json_body_def Let_def)
  then show ?thesis by (auto simp: revoke_keys Let_def)
qed

section \<open>Witnesses\<close>

definition toy_platform :: "bytes Platform" where
  "toy_platform = \<lparr>plSubtle = toy_subtle, plRandom = (\<lambda>_ _. 7), plUuid = ''0123456789abcdef'', plParse = (\<lambda>_. None),
     plDate = (\<lambda>_. None), plUri = Some, plLossy = (\<lambda>_. []), plTurnstile = (\<lambda>_ _ _. CallFailed),
     plGoogle = (\<lambda>_. None), plReach = (\<lambda>_ _. None), plGithub = (\<lambda>_ _. None),
     plSpentToday = [], plLastMinute = [], plAssets = False, plAssetFound = (\<lambda>_. False)\<rparr>"

definition toy_key :: "string \<Rightarrow> string \<Rightarrow> string \<Rightarrow> KeyRow" where
  "toy_key i t pool = \<lparr>krId = i, krTenant = t, krLabel = ''l'', krProvider = ''groq'', krEncrypted = ''QQ=='', krNonce = ''QQ=='',
     krPrefix = ''gsk_1234'', krSuffix = ''wxyz'', krRpm = 30, krRpd = 14400, krPriority = 0, krStatus = ''Healthy'',
     krPool = Some pool, krRouting = None, krObservation = None, krProjectHash = None, krOpenUntil = None, krCreated = 5,
     krDispatched = None, krCommunal = None, krVesting = None\<rparr>"

definition toy_gateway :: GatewayEnv where
  "toy_gateway = \<lparr>geAuth = toy_env\<lparr>aeMasterKey := Some ''mk''\<rparr>, geUsers = [],
     geKeys = [toy_key ''k1'' ''acme'' ''PRIVATE'', toy_key ''k2'' ''beta'' ''PRIVATE'', toy_key ''k3'' ''beta'' ''COMMUNITY''],
     geProjects = [], geProjectKeys = [], geHashes = [], geConsents = [], geSchema = (\<lambda>_. False), geCache = Map.empty,
     geDebts = [], geAudit = [], geMasterKey = None, geTurnstile = None, geAdminToken = None, geAdminEmails = None,
     geAdminTokens = [], geFreeze = None\<rparr>"

definition toy_console :: "string \<Rightarrow> string \<Rightarrow> string \<Rightarrow> string \<Rightarrow> Request" where
  "toy_console m path h v = \<lparr>reqMethod = m, reqHost = ''console.key-col.axe08.tech'', reqPath = path,
     reqHeader = (\<lambda>x. if x = h then Some v else None), reqQuery = (\<lambda>_. None)\<rparr>"

lemma toy_tables [simp]:
  "tokens toy_gateway = [(toy_row ''t1'' ''acme'' 0)\<lparr>trHash := hashToken toy_subtle ''k''\<rparr>]" "bound toy_gateway"
  "geUsers toy_gateway = []" "geProjects toy_gateway = []" "geTurnstile toy_gateway = None"
  "geSchema toy_gateway = (\<lambda>_. False)" "geKeys toy_gateway =
     [toy_key ''k1'' ''acme'' ''PRIVATE'', toy_key ''k2'' ''beta'' ''PRIVATE'', toy_key ''k3'' ''beta'' ''COMMUNITY'']"
  by (simp_all add: toy_gateway_def tokens_def bound_def toy_env_def)

lemma toy_platform_sel [simp]:
  "plSubtle toy_platform = toy_subtle" "plUri toy_platform = Some" "plParse toy_platform = (\<lambda>_. None)"
  "plRandom toy_platform = (\<lambda>_ _. 7)" "plUuid toy_platform = ''0123456789abcdef''"
  by (simp_all add: toy_platform_def)

lemma toy_console_sel [simp]:
  "reqMethod (toy_console m p h v) = m" "reqPath (toy_console m p h v) = p"
  "reqHeader (toy_console m p h v) x = (if x = h then Some v else None)" "reqQuery (toy_console m p h v) x = None"
  by (simp_all add: toy_console_def)

lemma toy_no_credential: "raw_credential Some (toy_console m p ''x-tenant-id'' v) = Some []"
proof -
  have "cookie_value [] = None" "js_trim [] = []" by code_simp+
  then show ?thesis
    by (simp add: raw_credential_def bearer_credential_def query_credential_def cookie_credential_def nonempty_def truthy_text_def)
qed

lemma toy_header: "header_tenant (toy_console m p ''x-tenant-id'' v) = js_trim v"
  by (simp add: header_tenant_def nonempty_def)


theorem token_without_credential_witness:
  "\<exists>reply env'. dashboard_handle toy_platform 1000 (toy_console ''POST'' ''/api/tokens'' ''x-tenant-id'' ''admin'') NoText toy_gateway
       = (Answer 201 (PToken reply), [], env') \<and>
     Auth.verifyToken toy_subtle (\<lambda>_. None) 2000 (''Bearer '' @ cnToken reply) (geAuth env') = Inr ''admin'' \<and>
     verifyAdminRequest toy_subtle Some 2000
       (toy_console ''GET'' ''/'' ''authorization'' (''Bearer '' @ cnToken reply)) env' = Some True"
proof -
  let ?r = "toy_console ''POST'' ''/api/tokens'' ''x-tenant-id'' ''admin''"
  have t: "js_trim ''admin'' = ''admin''" "\<not> guest ''admin''" "js_trim ''mk'' = ''mk''" by code_simp+
  have fresh: "hashToken toy_subtle ''k'' \<noteq> hashToken toy_subtle (generateCsprngToken (\<lambda>_ _. 7) 0)"
    "''t1'' \<noteq> ''tok_'' @ base36 (nat 1000) @ ''_'' @ take 8 ''0123456789abcdef''" by code_simp+
  have key: "aeMasterKey (geAuth toy_gateway) = Some ''mk''" by (simp add: toy_gateway_def)
  have rows: "\<forall>x\<in>set (tokens toy_gateway). trHash x \<noteq> hashToken toy_subtle (generateCsprngToken (\<lambda>_ _. 7) 0)"
    "\<forall>x\<in>set (tokens toy_gateway). trId x \<noteq> ''tok_'' @ base36 (nat 1000) @ ''_'' @ take 8 ''0123456789abcdef''"
    using fresh by (simp_all add: toy_row_def)
  let ?call = "dashboard_handle toy_platform 1000 ?r NoText toy_gateway"
  obtain reply env' where call: "?call = (Answer 201 (PToken reply), [], env')"
    using token_without_credential [of toy_platform ?r toy_gateway 1000 2000 ?r] rows t key
    by (auto simp: toy_no_credential toy_header nonempty_def)
  show ?thesis
    using token_without_credential [of toy_platform ?r toy_gateway 1000 2000
        "toy_console ''GET'' ''/'' ''authorization'' (''Bearer '' @ cnToken reply)"] rows t key call
    by (auto simp: toy_no_credential toy_header nonempty_def)
qed

theorem session_for_any_identifier_witness:
  "\<exists>s env'. handleSyncSession toy_subtle ''0123456789abcdef'' 1000
      (Some \<lparr>sbId = Some ''admin'', sbEmail = None, sbTier = None, sbAuthProvider = None\<rparr>) toy_gateway = (Inr s, env') \<and>
    Auth.verifyToken toy_subtle (\<lambda>_. None) 2000 (''Bearer '' @ syToken s) (geAuth env') = Inr ''admin''"
proof -
  have t: "js_trim ''admin'' = ''admin''" "list_all (\<lambda>c. \<not> is_space c) ''0123456789abcdef''" by code_simp+
  have fresh: "hashToken toy_subtle ''k'' \<noteq> hashToken toy_subtle (session_token ''demo'' ''0123456789abcdef'')"
    "''t1'' \<noteq> ''tok_'' @ take 12 ''admin'' @ ''_'' @ base36 (nat 1000)" by code_simp+
  have rows: "\<forall>x\<in>set (tokens toy_gateway). trHash x \<noteq> hashToken toy_subtle (session_token ''demo'' ''0123456789abcdef'')
           \<and> trId x \<noteq> ''tok_'' @ take 12 (js_trim ''admin'') @ ''_'' @ base36 (nat 1000)"
    using fresh by (simp add: toy_row_def t(1))
  have "js_trim ''admin'' \<noteq> []" by (simp add: t(1))
  moreover have "\<forall>u\<in>set (geUsers toy_gateway). usEmail u = Some (js_trim ''admin'' @ ''@users.noreply.kc'') \<longrightarrow> usId u = js_trim ''admin''"
    by simp
  ultimately show ?thesis
    using session_for_any_identifier [where parse = "\<lambda>_. None" and later = 2000 and uri = Some
        and r = "toy_console [] [] [] []", OF _ toy_tables(2) t(2) _ rows]
    unfolding t(1) by blast
qed

theorem dispatch_isolation_witness:
  "\<exists>env'. dispatchRoute toy_platform 1000 True None (toy_console ''GET'' ''/v1/keys'' ''authorization'' ''Bearer k'') NoText
      (toy_gateway\<lparr>geAuth := toy_env\<rparr>) = (ToKeyPool ''acme'' ''/keys'', env') \<and>
    tokens env' = tokens toy_gateway"
proof -
  let ?r = "toy_console ''GET'' ''/v1/keys'' ''authorization'' ''Bearer k''" and ?env = "toy_gateway\<lparr>geAuth := toy_env\<rparr>"
  have req: "api_auth_request ?r = toy_request" "plain_auth = no_auth_options"
    by (simp_all add: api_auth_request_def toy_request_def plain_auth_def no_auth_options_def)
  obtain ctx a where auth: "authenticate toy_subtle (\<lambda>_. None) 1000 toy_request no_auth_options toy_env = (Inr ctx, a)"
    "acTenantId ctx = ''acme''" using toy_authenticated by blast
  have ctx: "dispatch_context toy_platform 1000 True None ?r ?env = (Inr ctx, ?env\<lparr>geAuth := a\<rparr>)"
    by (simp add: dispatch_context_def req auth)
  have path: "normal_path ''/v1/keys'' = ''/v1/keys''" "pool_prefix ''/v1/keys''" "pool_path ''/v1/keys'' = ''/keys''"
    "\<not> starts ''/api/'' ''/v1/keys''" "\<not> starts ''/v1/models/'' ''/v1/keys''" "\<not> starts ''/models/'' ''/v1/keys''" by code_simp+
  have "tenant_route ?r ''/v1/keys'' False ctx = ToKeyPool ''acme'' ''/keys''"
    by (simp add: tenant_route_def foreign_header_def truthy_text_def path auth(2))
  moreover have "geFreeze ?env = None" by (simp add: toy_gateway_def)
  ultimately have step: "dispatchRoute toy_platform 1000 True None ?r NoText ?env = (ToKeyPool ''acme'' ''/keys'', ?env\<lparr>geAuth := a\<rparr>)"
    by (simp add: dispatchRoute_def path ctx json_body_def)
  with dispatch_isolation [OF step, of "''acme''"] show ?thesis
    by (auto simp: tokens_def toy_gateway_def)
qed

theorem listed_keys_private_witness:
  "map lkId (handleGetKeys toy_gateway ''acme'') \<noteq> [] \<and>
   mset (map lkId (handleGetKeys toy_gateway ''acme'')) = {#''k1'', ''k3''#}"
proof -
  have "\<not> sees_all_keys toy_gateway ''acme''" "\<not> guest ''acme''" by (simp_all add: sees_all_keys_def user_by_id_def guest_def)
  with listed_keys_private [of toy_gateway "''acme''"]
  have "mset (map lkId (handleGetKeys toy_gateway ''acme'')) = {#''k1'', ''k3''#}" by (simp add: toy_key_def)
  then show ?thesis by force
qed

definition toy_post :: JsonBody where
  "toy_post = empty_body\<lparr>jbK1 := True, jbK2 := True, jbKey := Some ''gsk_1'', jbProvider := Some ''groq'', jbPool := Some ''community''\<rparr>"

lemma toy_sealed: "\<exists>e. sealed toy_subtle (\<lambda>_ _. 7) n ''mk'' t s = Inr e"
  by (simp add: sealed_def encrypt_def generateNonce_def secureRandomBytes_def resolveKey_def toy_subtle_def length_defs)

theorem posted_key_half_stored_witness:
  "\<exists>row. handlePostKeys toy_subtle (\<lambda>_ _. 7) (\<lambda>_ _ _. CallFailed) (\<lambda>_. None) 1000
      (toy_console ''POST'' ''/api/keys'' ''x-turnstile-token'' (hd TEST_TOKENS_PASS)) (Json toy_post) (Some ''mk'') toy_gateway ''acme''
      = (Refuse 500 unexpected, [], toy_gateway\<lparr>geKeys := geKeys toy_gateway @ [row]\<rparr>) \<and> krPool row = Some ''COMMUNITY''"
proof -
  let ?r = "toy_console ''POST'' ''/api/keys'' ''x-turnstile-token'' (hd TEST_TOKENS_PASS)"
  obtain e where e: "sealed toy_subtle (\<lambda>_ _. 7) 1 ''mk'' ''acme'' ''gsk_1'' = Inr e" using toy_sealed by blast
  have t: "js_trim ''gsk_1'' = ''gsk_1''" "\<not> guest ''acme''"
    "tvSuccess (verifyTurnstileToken (\<lambda>_ _ _. CallFailed) None None (Some (hd TEST_TOKENS_PASS)))" by code_simp+
  have new: "\<forall>k\<in>set (geKeys toy_gateway).
      krId k \<noteq> ''key_'' @ ''groq'' @ ''_'' @ base36 (nat 1000) @ ''_'' @ bytesToHex (map ((\<lambda>_ _. 7) 0) [0..<3])"
    by (simp add: toy_key_def)
  have "nonempty (jbKey toy_post) = ''gsk_1''" "pool_tenant h ''acme'' = ''acme''" for h
    by (simp_all add: nonempty_def toy_post_def t pool_tenant_def)
  then show ?thesis
    using posted_key_half_stored [of toy_gateway "Some ''mk''" "''acme''" "\<lambda>_ _ _. CallFailed" ?r toy_post "''groq''"
        toy_subtle "\<lambda>_ _. 7" e 1000 "\<lambda>_. None"] e t new
    by (auto simp: truthy_text_def toy_post_def)
qed

theorem rotated_key_roundtrip_witness:
  "\<exists>x env'. handleRotateKeySecret toy_subtle (\<lambda>_ _. 7) ''/api/keys/k1/rotate'' (Json (empty_body\<lparr>jbNewKey := Some ''gsk_new''\<rparr>)) None
      (Some ''mk'') toy_gateway ''acme'' = (Answer 200 x, env') \<and>
    fst (resolvePlaintextKey toy_subtle (\<lambda>_. []) 7 (\<lambda>i. map_option stored_key (key_by_id env' i)) (Some ''mk'') ''k1'' ''beta''
      (geCache env')) = ''gsk_new''"
proof -
  let ?b = "empty_body\<lparr>jbNewKey := Some ''gsk_new''\<rparr>" and ?path = "''/api/keys/k1/rotate''"
  obtain e where e: "sealed toy_subtle (\<lambda>_ _. 7) 0 ''mk'' ''acme'' ''gsk_new'' = Inr e" using toy_sealed by blast
  have t: "js_trim ''gsk_new'' = ''gsk_new''" "\<not> guest ''acme''" "js_trim (cut_first ''/rotate'' (cut_first ''/api/keys/'' ?path)) = ''k1''"
    by code_simp+
  have raw: "nonempty (jbNewKey ?b) = ''gsk_new''" by (simp add: nonempty_def t)
  have "\<exists>x env'. handleRotateKeySecret toy_subtle (\<lambda>_ _. 7) ?path (Json ?b) None (Some ''mk'') toy_gateway ''acme'' = (Answer 200 x, env')"
    using e raw t by (simp add: handleRotateKeySecret_def json_body_def Let_def truthy_text_def pool_tenant_def toy_key_def shared_with_def)
  then obtain x env' where run:
    "handleRotateKeySecret toy_subtle (\<lambda>_ _. 7) ?path (Json ?b) None (Some ''mk'') toy_gateway ''acme'' = (Answer 200 x, env')" by blast
  have "\<not> looks_plaintext ''k1''" by code_simp
  with rotated_key_roundtrip [OF toy_subtle_ok run, of "toy_key ''k1'' ''acme'' ''PRIVATE''" "\<lambda>_. []" "''beta''" 7] raw run t
  show ?thesis by (auto simp: toy_key_def)
qed

theorem report_revokes_exactly_witness:
  "geKeys (snd (handleReportKeyAbuse toy_subtle (\<lambda>_ _ _. CallFailed) 1000 (toy_console ''POST'' ''/api/abuse/report-key'' ''x'' [])
      (Json (empty_body\<lparr>jbLeaked := Some ''gsk_1234''\<rparr>)) toy_gateway)) = map revoked (geKeys toy_gateway)"
proof -
  let ?b = "empty_body\<lparr>jbLeaked := Some ''gsk_1234''\<rparr>" and ?r = "toy_console ''POST'' ''/api/abuse/report-key'' ''x'' []"
  have leaked: "either_text (Some ''gsk_1234'') None = ''gsk_1234''" by code_simp
  have "jbLeaked ?b = Some ''gsk_1234''" "jbLeakedCamel ?b = None" "\<not> truthy_text (jbTurnstile ?b)"
    "\<not> truthy_text (jbTurnstileCamel ?b)" "\<not> truthy_text (reqHeader ?r ''x-turnstile-token'')"
    by (simp_all add: empty_body_def truthy_text_def)
  moreover have "krPrefix (toy_key i t q) = take 8 ''gsk_1234''" for i t q by (simp add: toy_key_def)
  ultimately show ?thesis
    using report_revokes_exactly [of toy_gateway ?r ?b toy_subtle "\<lambda>_ _ _. CallFailed" 1000] leaked
    by (simp add: truthy_text_def Let_def split: prod.splits)
qed

end
