(* ===== verification/AdminProps.thy ===== *)
theory AdminProps
  imports DashboardProps
begin

text \<open>
  What the administrator's operations come to: the effect of a quarantine and of a change of tier on the
  verification of administrators, and the completeness of the view of the fleet.
\<close>

section \<open>Lemmas: users\<close>

lemma find_map_update:
  "(\<And>u. usId (f u) = usId u) \<Longrightarrow>
   find (\<lambda>u. usId u = i) (map (\<lambda>u. if usId u = i then f u else u) us) = map_option f (find (\<lambda>u. usId u = i) us)"
  by (induction us) auto

lemma find_other_update:
  "(\<And>u. usId (f u) = usId u) \<Longrightarrow> j \<noteq> i \<Longrightarrow>
   find (\<lambda>u. usId u = j) (map (\<lambda>u. if usId u = i then f u else u) us) = find (\<lambda>u. usId u = j) us"
  by (induction us) auto

lemma find_snoc: "find P (xs @ [x]) = (case find P xs of Some y \<Rightarrow> Some y | None \<Rightarrow> if P x then Some x else None)"
  by (induction xs) auto

lemma find_id_None: "find (\<lambda>u. usId u = i) us = None \<longleftrightarrow> \<not> (\<exists>u\<in>set us. usId u = i)"
  by (auto simp: find_None_iff)

lemma set_quarantine_find:
  "\<exists>u. find (\<lambda>u. usId u = i) (set_quarantine i q why us) = Some u \<and> usQuarantined u = q \<and> usId u = i"
proof (cases "find (\<lambda>u. usId u = i) us")
  case None
  then have "\<not> (\<exists>u\<in>set us. usId u = i)" by (simp only: find_id_None not_False_eq_True)
  with None show ?thesis by (simp add: set_quarantine_def find_snoc)
next
  case (Some u)
  then have "usId u = i" "\<exists>u\<in>set us. usId u = i" by (auto simp: find_Some_iff)
  with Some show ?thesis by (simp add: set_quarantine_def find_map_update)
qed

lemma set_quarantine_other: "j \<noteq> i \<Longrightarrow> find (\<lambda>u. usId u = j) (set_quarantine i q why us) = find (\<lambda>u. usId u = j) us"
  by (auto simp: set_quarantine_def find_other_update find_snoc split: option.split)

lemma verify_verdict:
  assumes "raw_credential uri r = Some token" "token \<notin> set (geAdminTokens env)" "nonempty (geAdminToken env) \<noteq> token"
    and "token_verdict_admin sc now token env = Some False \<or>
      token_verdict_admin sc now token env = None \<and> user_verdict (geAdminEmails env) (user_by_id token env) = Some False"
  shows "verifyAdminRequest sc uri now r env = Some False"
  using assms by (auto simp: verifyAdminRequest_def)

section \<open>Properties\<close>

text \<open>
  C14. A quarantine ends administration. After \<open>POST /api/admin/tenants/i/quarantine\<close>, for any tenant but
  \<open>admin\<close>, no request whose credential is a token of \<open>i\<close>, or the identifier of \<open>i\<close> itself where that is
  nobody's token, passes the verification of administrators, whatever tier or role \<open>i\<close> has, unless the
  credential is one of the configured administrator tokens; the users of other identifiers stay as they are.
\<close>

theorem quarantine_ends_administration:
  assumes "quarantine i b env = (True, env')" "bound env" "i \<noteq> ''admin''"
    and "raw_credential uri r = Some token" "token \<notin> set (geAdminTokens env)" "nonempty (geAdminToken env) \<noteq> token"
    and "case find (\<lambda>x. trHash x = hashToken sc token) (tokens env) of Some row \<Rightarrow> trTenant row = i | None \<Rightarrow> token = i"
  shows "verifyAdminRequest sc uri now r env' = Some False \<and> (\<forall>j. j \<noteq> i \<longrightarrow> user_by_id j env' = user_by_id j env)"
proof -
  let ?why = "given (abReason b) ''Administrative quarantine''"
  have env': "env' = env\<lparr>geUsers := set_quarantine i True ?why (geUsers env)\<rparr>"
    using assms(1, 2) by (auto simp: quarantine_def Let_def)
  obtain u where "user_by_id i env' = Some u" "usQuarantined u"
    using set_quarantine_find [of i True ?why "geUsers env"] by (auto simp: user_by_id_def env')
  then have jailed: "user_verdict emails (user_by_id i env') = Some False" for emails by (simp add: user_verdict_def)
  have same: "tokens env' = tokens env" "geAdminTokens env' = geAdminTokens env" "geAdminToken env' = geAdminToken env"
    by (simp_all add: env')
  have "token_verdict_admin sc now token env' = Some False \<or>
      token_verdict_admin sc now token env' = None \<and> user_verdict (geAdminEmails env') (user_by_id token env') = Some False"
    using assms(3, 7) jailed by (auto simp: token_verdict_admin_def same split: option.splits)
  with assms(4-6) same have "verifyAdminRequest sc uri now r env' = Some False" by (intro verify_verdict) simp_all
  moreover have "user_by_id j env' = user_by_id j env" if "j \<noteq> i" for j
    using that by (simp add: user_by_id_def env' set_quarantine_other)
  ultimately show ?thesis by blast
qed

section \<open>Lemmas: the fleet\<close>

lemma first_seen: "set (first_seen xs) = set xs" "distinct (first_seen xs)"
  by (simp_all add: first_seen_def)

lemma mset_partition:
  assumes "distinct ts" "f ` set ks \<subseteq> set ts"
  shows "mset (concat (map (\<lambda>t. filter (\<lambda>k. f k = t) ks) ts)) = mset ks"
  using assms
proof (induction ts arbitrary: ks)
  case Nil
  then show ?case by simp
next
  case (Cons t ts)
  let ?rest = "filter (\<lambda>k. f k \<noteq> t) ks"
  have "filter (\<lambda>k. f k = s) ks = filter (\<lambda>k. f k = s) ?rest" if "s \<in> set ts" for s
    using that Cons.prems(1) by (auto intro: filter_cong)
  then have "concat (map (\<lambda>s. filter (\<lambda>k. f k = s) ks) ts) = concat (map (\<lambda>s. filter (\<lambda>k. f k = s) ?rest) ts)"
    by (intro arg_cong [where f = concat] map_cong) auto
  moreover have "mset (concat (map (\<lambda>s. filter (\<lambda>k. f k = s) ?rest) ts)) = mset ?rest"
    using Cons.prems by (intro Cons.IH) auto
  ultimately show ?case by (simp add: multiset_partition [symmetric])
qed

text \<open>
  The view of the fleet is complete. Its tenants are distinct and are exactly the users it read and
  the owners of keys; every key of the table stands with exactly one tenant, its owner, so that the keys
  of all tenants together are the keys of the table, as many as the summary of the pool counts.
\<close>

theorem fleet_complete:
  assumes "bound env"
  shows "distinct (map tmId (fleet spend rpm env)) \<and>
    set (map tmId (fleet spend rpm env)) = usId ` set (take 200 (geUsers env)) \<union> key_owner ` set (geKeys env) \<and>
    mset (concat (map tmKeys (fleet spend rpm env))) = mset (geKeys env) \<and>
    (\<forall>x\<in>set (fleet spend rpm env). \<forall>k\<in>set (tmKeys x). key_owner k = tmId x) \<and>
    psTotal (pool_summary spend rpm env) = length (concat (map tmKeys (fleet spend rpm env)))"
proof -
  let ?ts = "first_seen (map usId (fleet_users env) @ map key_owner (fleet_keys env))"
  have keys: "mset (fleet_keys env) = mset (geKeys env)" "set (fleet_keys env) = set (geKeys env)"
    using assms by (simp_all add: fleet_keys_def listed_order_def)
  have ids: "tmId (summary_of spend rpm env t) = t" "tmKeys (summary_of spend rpm env t) = filter (\<lambda>k. key_owner k = t) (fleet_keys env)" for t
    by (simp_all add: summary_of_def Let_def)
  then have tenants: "map tmId (fleet spend rpm env) = ?ts" by (simp add: fleet_def comp_def)
  have all: "mset (concat (map tmKeys (fleet spend rpm env))) = mset (fleet_keys env)"
    using mset_partition [of ?ts key_owner "fleet_keys env"] by (simp add: fleet_def comp_def ids first_seen)
  have "psTotal (pool_summary spend rpm env) = length (fleet_keys env)" by (simp add: pool_summary_def Let_def)
  also have "\<dots> = length (concat (map tmKeys (fleet spend rpm env)))"
    using mset_eq_length [OF all] by simp
  finally have "psTotal (pool_summary spend rpm env) = length (concat (map tmKeys (fleet spend rpm env)))" .
  moreover have "\<forall>x\<in>set (fleet spend rpm env). \<forall>k\<in>set (tmKeys x). key_owner k = tmId x"
    by (auto simp: fleet_def ids)
  ultimately show ?thesis
    using all keys assms by (auto simp: tenants first_seen fleet_users_def)
qed

section \<open>Witnesses\<close>

definition toy_admin :: UserRow where
  "toy_admin = \<lparr>usId = ''acme'', usEmail = None, usTier = ''admin'', usRole = Some ''admin'', usSybil = Some 100,
     usQuarantined = False, usReason = None\<rparr>"

text \<open>The token \<open>k\<close> of \<open>acme\<close> passes before and fails after.\<close>

theorem quarantine_ends_administration_witness:
  "verifyAdminRequest toy_subtle Some 1000 (toy_console ''GET'' ''/'' ''authorization'' ''Bearer k'')
      (toy_gateway\<lparr>geUsers := [toy_admin]\<rparr>) = Some True \<and>
   verifyAdminRequest toy_subtle Some 1000 (toy_console ''GET'' ''/'' ''authorization'' ''Bearer k'')
      (snd (quarantine ''acme'' no_admin_body (toy_gateway\<lparr>geUsers := [toy_admin]\<rparr>))) = Some False"
proof -
  let ?r = "toy_console ''GET'' ''/'' ''authorization'' ''Bearer k''" and ?env = "toy_gateway\<lparr>geUsers := [toy_admin]\<rparr>"
  have "plain_token ''k''" by code_simp
  then have token: "raw_credential Some ?r = Some ''k''" by (rule bearer_credential_plain) simp
  have bound: "bound ?env" by (simp add: bound_def toy_gateway_def toy_env_def)
  have config: "geAdminTokens ?env = []" "geAdminToken ?env = None" by (simp_all add: toy_gateway_def)
  have row: "find (\<lambda>x. trHash x = hashToken toy_subtle ''k'') (tokens ?env)
      = Some ((toy_row ''t1'' ''acme'' 0)\<lparr>trHash := hashToken toy_subtle ''k''\<rparr>)" by simp
  then have "token_verdict_admin toy_subtle 1000 ''k'' ?env = Some True"
    by (simp add: token_verdict_admin_def row_expired_def toy_row_def user_verdict_def user_by_id_def toy_admin_def)
  then have before: "verifyAdminRequest toy_subtle Some 1000 ?r ?env = Some True"
    using token bound by (simp add: verifyAdminRequest_def)
  have run: "quarantine ''acme'' no_admin_body ?env = (True, snd (quarantine ''acme'' no_admin_body ?env))"
    by (simp add: quarantine_def no_admin_body_def Let_def)
  have empty: "nonempty None = []" by code_simp
  have "verifyAdminRequest toy_subtle Some 1000 ?r (snd (quarantine ''acme'' no_admin_body ?env)) = Some False"
    using quarantine_ends_administration [OF run bound _ token, where sc = toy_subtle and now = 1000] config row empty
    by (simp add: toy_row_def)
  with before show ?thesis by blast
qed

theorem fleet_complete_witness:
  "mset (concat (map tmKeys (fleet [] [] toy_gateway))) = mset (geKeys toy_gateway) \<and>
   set (map tmId (fleet [] [] toy_gateway)) = {''acme'', ''beta''}"
  using fleet_complete [of toy_gateway "[]" "[]"] by (auto simp: toy_key_def key_owner_def or_text_def)

end
