(* ===== verification/Telemetry.thy ===== *)
theory Telemetry
  imports Sybil Errors
begin

text \<open>
  \<open>src/worker/telemetry_emitter.ts\<close> and \<open>src/contracts/telemetry.ts\<close>: validation of an event, its data
  point for Workers Analytics Engine, and the emitter. A sink is a function that says with what message
  it fails, if it does; \<open>onError\<close> is taken to be set. Numbers are integers, so that the tests for
  \<open>NaN\<close> and infinity are void.
\<close>

record TelemetryEvent =
  teTrace :: string
  teTenant :: string
  teTime :: timestamp
  teType :: string
  teLatency :: int
  teCost :: int
  teMetadata :: "(string \<times> string) list"

definition event_js :: "TelemetryEvent \<Rightarrow> js" where
  "event_js e = JObj [(''traceId'', JStr (teTrace e)), (''tenantId'', JStr (teTenant e)), (''timestamp'', JNum (teTime e)),
     (''eventType'', JStr (teType e)), (''latencyMs'', JNum (teLatency e)), (''costMicrodollars'', JBigInt (teCost e)),
     (''metadata'', JObj (map (\<lambda>(k, v). (k, JStr v)) (teMetadata e)))]"

section \<open>Validation\<close>

definition blank_js :: "js \<Rightarrow> bool" where
  "blank_js v \<longleftrightarrow> \<not> is_str v \<or> js_trim (str_of v) = []"

definition complain :: "bool \<Rightarrow> string \<Rightarrow> string list" where
  "complain wrong message = (if wrong then [message] else [])"

definition validateTelemetryEvent :: "js \<Rightarrow> string list" where
  "validateTelemetryEvent v =
     (case v of
        JObj _ \<Rightarrow>
          complain (blank_js (js_get v ''traceId'')) ''traceId must be a non-empty string'' @
          complain (blank_js (js_get v ''tenantId'')) ''tenantId must be a non-empty string'' @
          complain (blank_js (js_get v ''eventType'')) ''eventType must be a non-empty string'' @
          complain (\<not> is_num (js_get v ''timestamp'') \<or> num_of (js_get v ''timestamp'') \<le> 0)
            ''timestamp must be a positive finite number'' @
          complain (\<not> is_num (js_get v ''latencyMs'') \<or> num_of (js_get v ''latencyMs'') < 0)
            ''latencyMs must be a non-negative finite number'' @
          (case js_get v ''costMicrodollars'' of
             JBigInt c \<Rightarrow> complain (c < 0) ''costMicrodollars cannot be negative''
           | _ \<Rightarrow> [''costMicrodollars must be a bigint'']) @
          (case js_get v ''metadata'' of
             JObj kvs \<Rightarrow> concat (map (\<lambda>(k, x). complain (\<not> is_str x)
                              (''metadata key '' @ quoted k @ '' must have a string value'')) kvs)
           | _ \<Rightarrow> [''metadata must be a record/object''])
      | _ \<Rightarrow> [''Telemetry event must be a non-null object''])"

section \<open>Data points\<close>

record DataPoint =
  dpIndexes :: "string list"
  dpBlobs :: "string list"
  dpDoubles :: "rat list"

definition safeParseDouble :: "string option \<Rightarrow> rat" where
  "safeParseDouble s =
     (if s = None \<or> s = Some [] then 0 else (case js_number (the s) of Finite q \<Rightarrow> q | _ \<Rightarrow> 0))"

definition defaultDataPointMapper :: "TelemetryEvent \<Rightarrow> DataPoint" where
  "defaultDataPointMapper e =
     (let m = map_of (teMetadata e) in
      \<lparr>dpIndexes = [teTenant e],
       dpBlobs = [teTenant e, teTrace e, teType e, first_some (m ''model'') (first_some (m ''modelAlias'') []),
         first_some (m ''provider'') [], first_some (m ''keyId'') [],
         first_some (m ''statusCode'') (first_some (m ''status'') []),
         the (json (JObj (map (\<lambda>(k, v). (k, JStr v)) (teMetadata e))))],
       dpDoubles = [of_int (teLatency e), of_nat (round53 (nat (teCost e))), of_int (teTime e),
         safeParseDouble (m ''promptTokens''), safeParseDouble (m ''completionTokens''), safeParseDouble (m ''totalTokens'')]\<rparr>)"

section \<open>The emitter\<close>

datatype telemetry_error = InvalidTelemetryEvent "string list" | TelemetryEmissionFailed string

record TelemetryEmitter =
  temDataset :: "(DataPoint \<Rightarrow> string option) option"
  temFallback :: "(TelemetryEvent \<Rightarrow> string option) option"
  temStrict :: bool

text \<open>What the sinks have taken and what \<open>onError\<close> was told.\<close>

record TelemetryLog =
  tlPoints :: "DataPoint list"
  tlFallback :: "TelemetryEvent list"
  tlErrors :: "telemetry_error list"

definition handleError :: "telemetry_error \<Rightarrow> TelemetryLog \<Rightarrow> TelemetryLog" where
  "handleError e l = l\<lparr>tlErrors := tlErrors l @ [e]\<rparr>"

definition dispatchSinks :: "TelemetryEmitter \<Rightarrow> TelemetryEvent \<Rightarrow> TelemetryLog \<Rightarrow> (telemetry_error + unit) \<times> TelemetryLog" where
  "dispatchSinks em e l =
     (let p = defaultDataPointMapper e;
          failed = Option.bind (temDataset em) (\<lambda>write. write p);
          l1 = (if temDataset em = None then l else l\<lparr>tlPoints := tlPoints l @ [p]\<rparr>)
      in case failed of
           Some msg \<Rightarrow> (Inl (TelemetryEmissionFailed msg), l)
         | None \<Rightarrow>
             (case Option.bind (temFallback em) (\<lambda>send. send e) of
                Some msg \<Rightarrow> (Inl (TelemetryEmissionFailed msg), l1)
              | None \<Rightarrow> (Inr (), if temFallback em = None then l1 else l1\<lparr>tlFallback := tlFallback l1 @ [e]\<rparr>)))"

definition checked_dispatch ::
  "TelemetryEmitter \<Rightarrow> TelemetryEvent \<Rightarrow> TelemetryLog \<Rightarrow> (telemetry_error + unit) \<times> TelemetryLog" where
  "checked_dispatch em e l =
     (case validateTelemetryEvent (event_js e) of
        [] \<Rightarrow> dispatchSinks em e l
      | errors \<Rightarrow> (Inl (InvalidTelemetryEvent errors), l))"

definition emitAsync ::
  "TelemetryEmitter \<Rightarrow> TelemetryEvent \<Rightarrow> TelemetryLog \<Rightarrow> (telemetry_error + unit) \<times> TelemetryLog" where
  "emitAsync em e l =
     (case checked_dispatch em e l of
        (Inl err, l1) \<Rightarrow> (if temStrict em then Inl err else Inr (), handleError err l1)
      | x \<Rightarrow> x)"

text \<open>
  With an execution context, or without strictness, a failure of \<open>emitAsync\<close> is handled once more and
  not thrown.
\<close>

definition emit ::
  "TelemetryEmitter \<Rightarrow> bool \<Rightarrow> TelemetryEvent \<Rightarrow> TelemetryLog \<Rightarrow> (telemetry_error + unit) \<times> TelemetryLog" where
  "emit em ctx e l =
     (if temStrict em \<and> \<not> ctx then checked_dispatch em e l
      else case emitAsync em e l of
        (Inl err, l1) \<Rightarrow> (Inr (), handleError err l1)
      | x \<Rightarrow> x)"

section \<open>Lemmas\<close>

lemma valid_event:
  "validateTelemetryEvent (event_js e) = [] \<longleftrightarrow>
     js_trim (teTrace e) \<noteq> [] \<and> js_trim (teTenant e) \<noteq> [] \<and> js_trim (teType e) \<noteq> [] \<and>
     0 < teTime e \<and> 0 \<le> teLatency e \<and> 0 \<le> teCost e"
  by (auto simp: validateTelemetryEvent_def event_js_def complain_def blank_js_def split_beta)

lemma point_digit_plain:
  assumes "is_digit c"
  shows "\<not> is_space c" "lower_char c = c" "c \<notin> set ''xobeE-+.I''"
  using assms by (auto simp: is_digit_def is_space_def lower_char_def)

lemma number_of_digits: "js_number (nat_str n) = Finite (of_nat n)"
proof -
  have digits: "list_all is_digit (nat_str n)" by (rule nat_str_digits)
  obtain c s where s: "nat_str n = c # s" using nat_str_ne [of n] by (cases "nat_str n") auto
  with digits have c: "is_digit c" and all: "\<forall>x\<in>set (nat_str n). is_digit x" by (auto simp: list_all_iff)
  then have "is_digit (last (nat_str n))" using nat_str_ne by simp
  then have trim: "js_trim (nat_str n) = nat_str n"
    using c s by (intro js_trim_id) (auto simp: point_digit_plain)
  have prefix: "js_lower (take 2 (nat_str n)) \<noteq> [d, e]" if "e \<in> set ''xob''" for d e
    using all s that point_digit_plain [of "hd s"] by (cases s) (auto simp: js_lower_def)
  have cut: "takeWhile is_digit (nat_str n) = nat_str n" "dropWhile is_digit (nat_str n) = []"
    using all by (simp_all add: takeWhile_eq_all_conv dropWhile_eq_Nil_conv)
  have "decimal_literal (nat_str n) = Some (of_nat n)"
    unfolding decimal_literal_def Let_def cut by (simp add: exponent_of_def digits_val_nat_str nat_str_ne)
  moreover have "nat_str n \<noteq> ''Infinity''" "hd (nat_str n) \<noteq> CHR ''-''" "hd (nat_str n) \<noteq> CHR ''+''"
    using c s point_digit_plain(3) [of c] by auto
  ultimately show ?thesis
    using prefix by (simp add: js_number_def trim nat_str_ne Let_def)
qed

text \<open>In the default mode an emission never fails its caller; with a working sink a valid event is one point.\<close>

lemma emit_lenient: "\<not> temStrict em \<Longrightarrow> fst (emit em ctx e l) = Inr ()"
  by (auto simp: emit_def emitAsync_def split: prod.splits sum.splits)

lemma emit_point:
  assumes "\<not> temStrict em" "temDataset em = Some (\<lambda>_. None)" "temFallback em = None"
  shows "tlPoints (snd (emit em ctx e l)) = tlPoints l @
    (if validateTelemetryEvent (event_js e) = [] then [defaultDataPointMapper e] else [])"
  using assms by (auto simp: emit_def emitAsync_def checked_dispatch_def dispatchSinks_def handleError_def
      split: list.splits)

end
