(* ===== verification/Chat.thy ===== *)
theory Chat
  imports PoolRouting LedgerProps PoolCoordinator Auth Telemetry
begin

text \<open>
  \<open>src/worker/router/chat/{handler,non_streaming,stream}.ts\<close> and \<open>src/worker/router/core/resolver.ts\<close>: a
  completion, from the authenticated request to the books. \<open>'s\<close> is what stands behind the router of a
  tenant, its key pool and the providers. The reply is the OpenAI one; what the code hands to
  \<open>waitUntil\<close> or does not await runs at its place. A stream is opened by the request and settled when its
  body has been read or cancelled. \<open>ceReachable\<close> says whether calls of the coordinator come through.
\<close>

section \<open>\<open>encodeURIComponent\<close>\<close>

definition uri_plain :: "char \<Rightarrow> bool" where
  "uri_plain c \<longleftrightarrow> is_digit c \<or> (97 \<le> code_of (lower_char c) \<and> code_of (lower_char c) \<le> 122) \<or>
     c \<in> set ''-_.!~*()'' \<or> code_of c = 39"

definition percent :: "nat \<Rightarrow> string" where
  "percent n = [CHR ''%'', ''0123456789ABCDEF'' ! (n div 16), ''0123456789ABCDEF'' ! (n mod 16)]"

definition encode_char :: "char \<Rightarrow> string" where
  "encode_char c =
     (let n = code_of c in
      if uri_plain c then [c] else if n < 128 then percent n else percent (192 + n div 64) @ percent (128 + n mod 64))"

definition encodeURIComponent :: "string \<Rightarrow> string" where
  "encodeURIComponent s = concat (map encode_char s)"

section \<open>The environment (resolver.ts)\<close>

record ('s, 'e, 'f) ChatDeps =
  cdRegistry :: ModelRegistry
  cdRouter :: "string \<Rightarrow> ('s, 'e, 'f) CascadeRouter"
  cdUsage :: "string \<Rightarrow> int \<Rightarrow> 's \<Rightarrow> 's"
  cdAborted :: "'s \<Rightarrow> bool"
  cdIsAbort :: "'f \<Rightarrow> bool"
  cdParse :: "string \<Rightarrow> js option"
  cdDate :: "string \<Rightarrow> timestamp option"
  cdEmitter :: TelemetryEmitter
  cdContext :: bool

record 's ChatEnv =
  ceAuth :: AuthEnv
  ceLedger :: LedgerDb
  cePoolBound :: bool
  cePools :: "string \<Rightarrow> 's"
  ceCoordinator :: "PoolCoordinatorDO option"
  ceReachable :: bool
  ceTelemetry :: TelemetryLog

datatype ('e, 'f) chat_error =
    InvalidMessages | MissingKeyPool string | EmptyTenant | EmergencyBrake string | Unrouted "('e, 'f) route_error" | EmptyStream

definition getKeyPool :: "string \<Rightarrow> 's ChatEnv \<Rightarrow> ('e, 'f) chat_error option" where
  "getKeyPool tenantId env =
     (if \<not> cePoolBound env then Some (MissingKeyPool tenantId)
      else if js_trim tenantId = [] then Some EmptyTenant else None)"

section \<open>The request (handler.ts)\<close>

definition model_alias :: "js \<Rightarrow> string" where
  "model_alias body =
     (let raw = (if js_get body ''model'' \<in> {JUndefined, JNull} then js_get body ''modelAlias'' else js_get body ''model'')
      in if is_str raw \<and> js_trim (str_of raw) \<noteq> [] then js_trim (str_of raw) else ''auto'')"

definition estimated_tokens :: "js \<Rightarrow> int option" where
  "estimated_tokens body =
     (case js_get body ''estimatedPromptTokens'' of
        JNum n \<Rightarrow> Some n
      | _ \<Rightarrow> if elems_of (js_get body ''messages'') \<noteq> [] then Some (estimateTokens (js_get body ''messages'')) else None)"

definition max_tokens :: "js \<Rightarrow> int option" where
  "max_tokens body =
     first_opt (num_opt_of (js_get body ''max_tokens''))
       (first_opt (num_opt_of (js_get body ''maxTokens'')) (num_opt_of (js_get body ''max_completion_tokens'')))"

definition only_array :: "js \<Rightarrow> js" where
  "only_array v = (case v of JArr _ \<Rightarrow> v | _ \<Rightarrow> JUndefined)"

definition opt_num :: "int option \<Rightarrow> js" where
  "opt_num n = (case n of Some i \<Rightarrow> JNum i | None \<Rightarrow> JUndefined)"

definition cascade_request :: "string \<Rightarrow> string \<Rightarrow> js \<Rightarrow> js" where
  "cascade_request traceId tenantId body =
     (let field = js_get body in JObj
       [(''modelAlias'', JStr (model_alias body)), (''messages'', JArr (elems_of (field ''messages''))),
        (''stream'', JBool (js_truthy (field ''stream''))),
        (''temperature'', if is_num (field ''temperature'') then field ''temperature'' else JUndefined),
        (''maxTokens'', opt_num (max_tokens body)), (''tools'', only_array (field ''tools'')),
        (''functions'', only_array (field ''functions'')), (''tool_choice'', field ''tool_choice''),
        (''function_call'', field ''function_call''), (''response_format'', field ''response_format''),
        (''estimatedPromptTokens'', opt_num (estimated_tokens body)),
        (''headers'', JObj [(''x-kc-trace-id'', JStr traceId), (''x-kc-tenant-id'', JStr tenantId)])])"

section \<open>The coordinator (handler.ts)\<close>

text \<open>The path of the URL, whose last segment the coordinator takes for the tenant.\<close>

definition brake_request :: "string \<Rightarrow> pool_request" where
  "brake_request tenantId =
     (let e = encodeURIComponent tenantId
      in if e = ''..'' then OtherRoute else BrakeStatus (if e = ''.'' then [] else e))"

definition brake_active :: "timestamp \<Rightarrow> string \<Rightarrow> 's ChatEnv \<Rightarrow> bool" where
  "brake_active now tenantId env \<longleftrightarrow>
     ceReachable env \<and>
     (case ceCoordinator env of
        None \<Rightarrow> False
      | Some c \<Rightarrow> fst (pc_fetch now (brake_request tenantId) c) = Braked True)"

definition report_volume :: "timestamp \<Rightarrow> string \<Rightarrow> int \<Rightarrow> 's ChatEnv \<Rightarrow> 's ChatEnv" where
  "report_volume now tenantId volume env =
     (if ceReachable env
      then env\<lparr>ceCoordinator := map_option (\<lambda>c. snd (pc_fetch now (ReportVolume tenantId (max 1 volume)) c)) (ceCoordinator env)\<rparr>
      else env)"

section \<open>Settlement (non\_streaming.ts, stream.ts)\<close>

definition ledger_input :: "string \<Rightarrow> string \<Rightarrow> ModelDef \<Rightarrow> StreamUsage option \<Rightarrow> int \<Rightarrow> int \<Rightarrow> CostLedgerEventInput" where
  "ledger_input traceId tenantId m usage cost latency =
     \<lparr>liId = None, liRequestId = traceId, liTenant = tenantId, liKeyId = mdId m, liProvider = mdProvider m, liModel = mdId m,
      liPrompt = Some (case usage of Some u \<Rightarrow> suPrompt u | None \<Rightarrow> 0),
      liCompletion = Some (case usage of Some u \<Rightarrow> suCompletion u | None \<Rightarrow> 0),
      liCached = Some (first_some (Option.bind usage suCached) 0),
      liReasoning = Some (first_some (Option.bind usage suReasoning) 0),
      liCost = BigAmount cost, liLatency = Some latency, liStatus = 200, liCreatedAt = None\<rparr>"

definition chat_event ::
  "string \<Rightarrow> string \<Rightarrow> string \<Rightarrow> timestamp \<Rightarrow> ModelDef \<Rightarrow> StreamUsage option \<Rightarrow> int \<Rightarrow> int \<Rightarrow> TelemetryEvent" where
  "chat_event kind traceId tenantId startTime m usage cost latency =
     (let n = (\<lambda>f. bigint_to_string (case usage of Some u \<Rightarrow> f u | None \<Rightarrow> 0)) in
      \<lparr>teTrace = traceId, teTenant = tenantId, teTime = startTime, teType = kind, teLatency = latency, teCost = cost,
       teMetadata = [(''model'', mdId m), (''provider'', mdProvider m), (''statusCode'', ''200''),
         (''promptTokens'', n suPrompt), (''completionTokens'', n suCompletion), (''totalTokens'', n suTotal)]\<rparr>)"

text \<open>Usage of the pool, the ledger, the token's spending, telemetry; each failure is swallowed.\<close>

definition settle_pool :: "('s, 'e, 'f) ChatDeps \<Rightarrow> string \<Rightarrow> ModelDef \<Rightarrow> int \<Rightarrow> 's ChatEnv \<Rightarrow> 's ChatEnv" where
  "settle_pool d tenantId m cost env =
     (if cost > 0 \<and> mdId m \<noteq> []
      then env\<lparr>cePools := (cePools env)(tenantId := cdUsage d (mdId m) cost (cePools env tenantId))\<rparr> else env)"

definition settle_ledger ::
  "('s, 'e, 'f) ChatDeps \<Rightarrow> timestamp \<Rightarrow> string \<Rightarrow> CostLedgerEventInput \<Rightarrow> 's ChatEnv \<Rightarrow> 's ChatEnv" where
  "settle_ledger d now uuid inp env =
     (if aeDb (ceAuth env) = None then env
      else env\<lparr>ceLedger := snd (recordEvent (cdDate d) now uuid inp (ceLedger env))\<rparr>)"

definition settle_token :: "('s, 'e, 'f) ChatDeps \<Rightarrow> AuthenticatedContext \<Rightarrow> int \<Rightarrow> 's ChatEnv \<Rightarrow> 's ChatEnv" where
  "settle_token d ctx cost env =
     (if cost > 0
      then env\<lparr>ceAuth := (ceAuth env)\<lparr>aeDb := map_option
             (\<lambda>db. snd (recordSpend (cdParse d) (atId (acToken ctx)) (acTenantId ctx) cost db)) (aeDb (ceAuth env))\<rparr>\<rparr>
      else env)"

definition settle_telemetry :: "('s, 'e, 'f) ChatDeps \<Rightarrow> TelemetryEvent \<Rightarrow> 's ChatEnv \<Rightarrow> 's ChatEnv" where
  "settle_telemetry d e env = env\<lparr>ceTelemetry := snd (emit (cdEmitter d) (cdContext d) e (ceTelemetry env))\<rparr>"

record OpenStream =
  osTrace :: string
  osStart :: timestamp
  osContext :: AuthenticatedContext
  osModel :: ModelDef
  osFinalized :: bool

definition settle ::
  "('s, 'e, 'f) ChatDeps \<Rightarrow> string \<Rightarrow> timestamp \<Rightarrow> string \<Rightarrow> OpenStream \<Rightarrow> StreamUsage option \<Rightarrow> int \<Rightarrow> 's ChatEnv \<Rightarrow> 's ChatEnv" where
  "settle d kind now uuid x usage cost env =
     (let tenantId = acTenantId (osContext x); latency = now - osStart x; m = osModel x
      in settle_telemetry d (chat_event kind (osTrace x) tenantId (osStart x) m usage cost latency)
           (settle_token d (osContext x) cost
             (settle_ledger d now uuid (ledger_input (osTrace x) tenantId m usage cost latency)
               (settle_pool d tenantId m cost env))))"

text \<open>The end of a stream; the second of a flush and a cancellation does nothing.\<close>

definition stream_cost :: "('s, 'e, 'f) ChatDeps \<Rightarrow> ModelDef \<Rightarrow> StreamUsage option \<Rightarrow> int" where
  "stream_cost d m usage =
     (case usage of
        None \<Rightarrow> 0
      | Some u \<Rightarrow> (case calculateCost (cdRegistry d) (mdId m) (usage_of_stream u) of Inr c \<Rightarrow> c | Inl _ \<Rightarrow> 0))"

definition finalizeStream ::
  "('s, 'e, 'f) ChatDeps \<Rightarrow> timestamp \<Rightarrow> string \<Rightarrow> StreamUsage option \<Rightarrow> OpenStream \<Rightarrow> 's ChatEnv \<Rightarrow> OpenStream \<times> 's ChatEnv" where
  "finalizeStream d now uuid usage x env =
     (if osFinalized x then (x, env)
      else (x\<lparr>osFinalized := True\<rparr>,
            settle d ''chat_completion_stream'' now uuid x usage (stream_cost d (osModel x) usage) env))"

section \<open>Completions\<close>

record ChatCompletion =
  cpId :: string
  cpCreated :: int
  cpModel :: string
  cpProvider :: string
  cpContent :: string
  cpUsage :: "int \<times> int \<times> int"
  cpCost :: int

datatype chat_answer = Completion ChatCompletion | Streaming OpenStream

definition completion_of ::
  "string \<Rightarrow> timestamp \<Rightarrow> ('e, 'f) CascadeRouteResponse \<Rightarrow> ChatCompletion" where
  "completion_of traceId startTime r =
     \<lparr>cpId = ''chatcmpl-'' @ traceId, cpCreated = startTime div 1000, cpModel = mdId (cvModel r),
      cpProvider = mdProvider (cvModel r), cpContent = cvContent r,
      cpUsage = (case cvUsage r of Some u \<Rightarrow> (suPrompt u, suCompletion u, suTotal u) | None \<Rightarrow> (0, 0, 0)),
      cpCost = cvCost r\<rparr>"

definition respond ::
  "('s, 'e, 'f) ChatDeps \<Rightarrow> bool \<Rightarrow> string \<Rightarrow> timestamp \<Rightarrow> timestamp \<Rightarrow> string \<Rightarrow> AuthenticatedContext \<Rightarrow>
   ('e, 'f) CascadeRouteResponse \<Rightarrow> 's ChatEnv \<Rightarrow> (('e, 'f) chat_error + chat_answer) \<times> 's ChatEnv" where
  "respond d stream traceId startTime now uuid ctx r env =
     (let x = \<lparr>osTrace = traceId, osStart = startTime, osContext = ctx, osModel = cvModel r, osFinalized = False\<rparr> in
      if stream
      then (if hrChunks (urResponse (cvResponse r)) = None then (Inl EmptyStream, env) else (Inr (Streaming x), env))
      else (Inr (Completion (completion_of traceId startTime r)),
            settle d ''chat_completion'' now uuid x (cvUsage r) (cvCost r) env))"

definition handleChatCompletions ::
  "('s, 'e, 'f) ChatDeps \<Rightarrow> string \<Rightarrow> timestamp \<Rightarrow> timestamp \<Rightarrow> string \<Rightarrow> js \<Rightarrow> AuthenticatedContext \<Rightarrow>
   's ChatEnv \<Rightarrow> (('e, 'f) chat_error + chat_answer) \<times> 's ChatEnv" where
  "handleChatCompletions d traceId startTime now uuid body ctx env =
     (let t = acTenantId ctx; ms = js_get body ''messages''; stream = js_truthy (js_get body ''stream'') in
      if ms \<noteq> JUndefined \<and> only_array ms = JUndefined then (Inl InvalidMessages, env)
      else case getKeyPool t env of
        Some e \<Rightarrow> (Inl e, env)
      | None \<Rightarrow>
          if brake_active startTime t env then (Inl (EmergencyBrake t), env)
          else case route (cdRouter d t) (cdAborted d) (cdIsAbort d) (cascade_request traceId t body) (cePools env t) of
            (Inl e, s) \<Rightarrow> (Inl (Unrouted e), env\<lparr>cePools := (cePools env)(t := s)\<rparr>)
          | (Inr r, s) \<Rightarrow>
              (case respond d stream traceId startTime now uuid ctx r (env\<lparr>cePools := (cePools env)(t := s)\<rparr>) of
                 (Inl e, env1) \<Rightarrow> (Inl e, env1)
               | (Inr x, env1) \<Rightarrow>
                   (Inr x, report_volume now t
                      (case cvUsage r of Some u \<Rightarrow> suTotal u | None \<Rightarrow> first_some (estimated_tokens body) 1) env1)))"

text \<open>What the dispatcher does with a completion: authenticate, then serve it.\<close>

datatype ('e, 'f) chat_failure = NotAdmitted thrown | NotServed "('e, 'f) chat_error"

definition completions ::
  "'k SubtleCrypto \<Rightarrow> ('s, 'e, 'f) ChatDeps \<Rightarrow> AuthRequest \<Rightarrow> AuthMiddlewareOptions \<Rightarrow> string \<Rightarrow> timestamp \<Rightarrow> timestamp \<Rightarrow>
   string \<Rightarrow> js \<Rightarrow> 's ChatEnv \<Rightarrow> (('e, 'f) chat_failure + chat_answer) \<times> 's ChatEnv" where
  "completions sc d req opts traceId startTime now uuid body env =
     (case authenticate sc (cdParse d) startTime req opts (ceAuth env) of
        (Inl err, a) \<Rightarrow> (Inl (NotAdmitted err), env\<lparr>ceAuth := a\<rparr>)
      | (Inr ctx, a) \<Rightarrow>
          (case handleChatCompletions d traceId startTime now uuid body ctx (env\<lparr>ceAuth := a\<rparr>) of
             (x, env1) \<Rightarrow> (map_sum NotServed id x, env1)))"

end
