(* ===== verification/ChatProps.thy ===== *)
theory ChatProps
  imports Chat
begin

text \<open>
  Completions: what a request costs, who is charged, who is refused, and what the emergency brake does.
  A run (\<open>chat_run\<close>) serves requests one after the other and settles a stream before the next request;
  \<open>chat_acts\<close> lets them overlap.
\<close>

section \<open>Runs\<close>

record ChatStep =
  csRequest :: AuthRequest
  csTrace :: string
  csStart :: timestamp
  csNow :: timestamp
  csUuid :: string
  csBody :: js
  csUsage :: "StreamUsage option"

definition chat_step ::
  "'k SubtleCrypto \<Rightarrow> ('s, 'e, 'f) ChatDeps \<Rightarrow> AuthMiddlewareOptions \<Rightarrow> ChatStep \<Rightarrow> 's ChatEnv \<Rightarrow>
   (('e, 'f) chat_failure + chat_answer) \<times> 's ChatEnv" where
  "chat_step sc d opts s env =
     (case completions sc d (csRequest s) opts (csTrace s) (csStart s) (csNow s) (csUuid s) (csBody s) env of
        (Inr (Streaming x), env1) \<Rightarrow>
          (Inr (Streaming x), snd (finalizeStream d (csNow s) (csUuid s) (csUsage s) x env1))
      | r \<Rightarrow> r)"

fun chat_run ::
  "'k SubtleCrypto \<Rightarrow> ('s, 'e, 'f) ChatDeps \<Rightarrow> AuthMiddlewareOptions \<Rightarrow> ChatStep list \<Rightarrow> 's ChatEnv \<Rightarrow>
   (('e, 'f) chat_failure + chat_answer) list \<times> 's ChatEnv" where
  "chat_run sc d opts [] env = ([], env)"
| "chat_run sc d opts (s # ss) env =
     (let (r, env1) = chat_step sc d opts s env; (rs, env2) = chat_run sc d opts ss env1 in (r # rs, env2))"

text \<open>What an answer costs.\<close>

definition billed :: "('s, 'e, 'f) ChatDeps \<Rightarrow> ChatStep \<Rightarrow> ('x + chat_answer) \<Rightarrow> int" where
  "billed d s r =
     (case r of
        Inl _ \<Rightarrow> 0
      | Inr (Completion c) \<Rightarrow> cpCost c
      | Inr (Streaming x) \<Rightarrow> stream_cost d (osModel x) (csUsage s))"

section \<open>Lemmas: one settlement\<close>

lemma settle_sel [simp]:
  "ceAuth (settle d kind now uuid x usage cost env) = ceAuth (settle_token d (osContext x) cost env)"
  "ceCoordinator (settle d kind now uuid x usage cost env) = ceCoordinator env"
  "ceReachable (settle d kind now uuid x usage cost env) = ceReachable env"
  "ceLedger (settle d kind now uuid x usage cost env) =
     ceLedger (settle_ledger d now uuid
       (ledger_input (osTrace x) (acTenantId (osContext x)) (osModel x) usage cost (now - osStart x)) env)"
  by (simp_all add: settle_def settle_telemetry_def settle_token_def settle_ledger_def settle_pool_def Let_def)

lemma settle_pools: "u \<noteq> acTenantId (osContext x) \<Longrightarrow> cePools (settle d kind now uuid x usage cost env) u = cePools env u"
  by (simp add: settle_def settle_telemetry_def settle_token_def settle_ledger_def settle_pool_def Let_def)

lemma report_sel [simp]:
  "ceAuth (report_volume now t v env) = ceAuth env" "ceLedger (report_volume now t v env) = ceLedger env"
  "cePools (report_volume now t v env) = cePools env" "ceReachable (report_volume now t v env) = ceReachable env"
  by (simp_all add: report_volume_def)

text \<open>What a settlement does to the tables.\<close>

definition charged :: "('s, 'e, 'f) ChatDeps \<Rightarrow> AuthenticatedContext \<Rightarrow> int \<Rightarrow> token_table \<Rightarrow> token_table" where
  "charged d ctx cost db =
     (if cost > 0 then snd (recordSpend (cdParse d) (atId (acToken ctx)) (acTenantId ctx) cost db) else db)"

definition books ::
  "('s, 'e, 'f) ChatDeps \<Rightarrow> AuthenticatedContext \<Rightarrow> string \<Rightarrow> timestamp \<Rightarrow> string \<Rightarrow> ModelDef \<Rightarrow> StreamUsage option \<Rightarrow>
   int \<Rightarrow> int \<Rightarrow> 's ChatEnv \<Rightarrow> 's ChatEnv \<Rightarrow> bool" where
  "books d ctx trace now uuid m usage cost latency env env' \<longleftrightarrow>
     aeDb (ceAuth env') = map_option (charged d ctx cost) (aeDb (ceAuth env)) \<and>
     ceLedger env' = (if aeDb (ceAuth env) = None then ceLedger env
       else snd (recordEvent (cdDate d) now uuid (ledger_input trace (acTenantId ctx) m usage cost latency) (ceLedger env)))"

lemma settle_books:
  "books d (osContext x) (osTrace x) now uuid (osModel x) usage cost (now - osStart x) env (settle d kind now uuid x usage cost env)"
proof -
  have "charged d ctx cost = (if cost > 0 then (\<lambda>db. snd (recordSpend (cdParse d) (atId (acToken ctx)) (acTenantId ctx) cost db)) else id)"
    for ctx by (auto simp: charged_def fun_eq_iff)
  then show ?thesis by (simp add: books_def settle_token_def settle_ledger_def option.map_id)
qed

definition same_books :: "'s ChatEnv \<Rightarrow> 's ChatEnv \<Rightarrow> bool" where
  "same_books env env' \<longleftrightarrow> aeDb (ceAuth env') = aeDb (ceAuth env) \<and> ceLedger env' = ceLedger env"

lemma books_same [simp]: "same_books env env1 \<Longrightarrow> books d ctx tr now u m us c l env1 env' = books d ctx tr now u m us c l env env'"
  by (simp add: same_books_def books_def)

lemma books_cong: "ceAuth env2 = ceAuth env1 \<Longrightarrow> ceLedger env2 = ceLedger env1 \<Longrightarrow>
   books d ctx tr now u m us c l env env2 = books d ctx tr now u m us c l env env1"
  by (simp add: books_def)

text \<open>A refused request changes no books, an answer at once settles them, an open stream not yet.\<close>

definition names_of :: "chat_answer \<Rightarrow> string \<times> string" where
  "names_of a = (case a of Completion c \<Rightarrow> (cpModel c, cpProvider c) | Streaming x \<Rightarrow> (mdId (osModel x), mdProvider (osModel x)))"

definition outcome ::
  "('s, 'e, 'f) ChatDeps \<Rightarrow> AuthenticatedContext \<Rightarrow> string \<Rightarrow> timestamp \<Rightarrow> timestamp \<Rightarrow> string \<Rightarrow> 's ChatEnv \<Rightarrow>
   ('x + chat_answer) \<times> 's ChatEnv \<Rightarrow> bool" where
  "outcome d ctx trace st now uuid env z \<longleftrightarrow>
     (\<forall>u. u \<noteq> acTenantId ctx \<longrightarrow> cePools (snd z) u = cePools env u) \<and>
     (case fst z of
        Inl e \<Rightarrow> same_books env (snd z)
      | Inr (Completion c) \<Rightarrow> \<exists>m usage. names_of (Completion c) = (mdId m, mdProvider m) \<and>
          books d ctx trace now uuid m usage (cpCost c) (now - st) env (snd z)
      | Inr (Streaming x) \<Rightarrow> same_books env (snd z) \<and> osContext x = ctx \<and> osTrace x = trace \<and> osStart x = st \<and> \<not> osFinalized x)"

lemma outcome_refused: "outcome d ctx trace st now uuid env (Inl e, env)"
  "outcome d ctx trace st now uuid env (Inl e, env\<lparr>cePools := (cePools env)(acTenantId ctx := s)\<rparr>)"
  by (simp_all add: outcome_def same_books_def)

lemma outcome_report:
  "outcome d ctx trace st now uuid env (y, env1) \<Longrightarrow> outcome d ctx trace st now uuid env (y, report_volume n t v env1)"
  by (cases y; cases "projr y") (auto simp: outcome_def same_books_def books_def)

lemma outcome_respond:
  "outcome d ctx trace st now uuid env
     (respond d stream trace st now uuid ctx r (env\<lparr>cePools := (cePools env)(acTenantId ctx := s)\<rparr>))"
proof (cases stream)
  case True
  then show ?thesis by (simp add: respond_def outcome_def same_books_def Let_def)
next
  case False
  let ?x = "\<lparr>osTrace = trace, osStart = st, osContext = ctx, osModel = cvModel r, osFinalized = False\<rparr>"
  let ?env = "env\<lparr>cePools := (cePools env)(acTenantId ctx := s)\<rparr>"
  let ?after = "settle d ''chat_completion'' now uuid ?x (cvUsage r) (cvCost r) ?env"
  have "same_books env ?env" by (simp add: same_books_def)
  then have "books d ctx trace now uuid (cvModel r) (cvUsage r) (cvCost r) (now - st) env ?after"
    using settle_books [of d ?x now uuid "cvUsage r" "cvCost r" ?env "''chat_completion''"] by simp
  moreover have "cpCost (completion_of trace st r) = cvCost r"
    "names_of (Completion (completion_of trace st r)) = (mdId (cvModel r), mdProvider (cvModel r))"
    by (simp_all add: completion_of_def names_of_def)
  ultimately show ?thesis
    using False settle_pools [of _ ?x d "''chat_completion''" now uuid "cvUsage r" "cvCost r" ?env]
    by (auto simp: respond_def outcome_def Let_def intro!: exI [of _ "cvModel r"] exI [of _ "cvUsage r"])
qed

lemma handle_books: "outcome d ctx trace st now uuid env (handleChatCompletions d trace st now uuid body ctx env)"
proof -
  let ?t = "acTenantId ctx"
  obtain y s where route: "route (cdRouter d ?t) (cdAborted d) (cdIsAbort d) (cascade_request trace ?t body) (cePools env ?t) = (y, s)"
    by fastforce
  show ?thesis
  proof (cases y)
    case (Inl e)
    with route show ?thesis
      by (simp add: handleChatCompletions_def Let_def outcome_refused split: option.split)
  next
    case (Inr r)
    let ?stream = "js_truthy (js_get body ''stream'')"
    obtain z env1 where z: "respond d ?stream trace st now uuid ctx r (env\<lparr>cePools := (cePools env)(?t := s)\<rparr>) = (z, env1)" by fastforce
    with outcome_respond [of d ctx trace st now uuid env ?stream r s] have "outcome d ctx trace st now uuid env (z, env1)" by simp
    with route Inr z show ?thesis
      by (cases z) (simp_all add: handleChatCompletions_def Let_def outcome_refused outcome_report split: option.split)
  qed
qed

lemma finalize_books:
  assumes "\<not> osFinalized x"
  shows "books d (osContext x) (osTrace x) now uuid (osModel x) usage (stream_cost d (osModel x) usage) (now - osStart x) env
           (snd (finalizeStream d now uuid usage x env))"
    and "u \<noteq> acTenantId (osContext x) \<Longrightarrow> cePools (snd (finalizeStream d now uuid usage x env)) u = cePools env u"
  using assms by (simp_all add: finalizeStream_def settle_books settle_pools)

lemma chat_step_refused:
  "authenticate sc (cdParse d) (csStart s) (csRequest s) opts (ceAuth env) = (Inl e, a) \<Longrightarrow>
   chat_step sc d opts s env = (Inl (NotAdmitted e), env\<lparr>ceAuth := a\<rparr>)"
  by (simp add: chat_step_def completions_def)

lemma chat_step_admitted:
  assumes auth: "authenticate sc (cdParse d) (csStart s) (csRequest s) opts (ceAuth env) = (Inr ctx, a)"
    and step: "chat_step sc d opts s env = (r, env')"
  shows "(\<forall>u. u \<noteq> acTenantId ctx \<longrightarrow> cePools env' u = cePools env u) \<and>
    (case r of
       Inl e \<Rightarrow> same_books env env'
     | Inr ans \<Rightarrow> \<exists>m usage latency. names_of ans = (mdId m, mdProvider m) \<and>
         books d ctx (csTrace s) (csNow s) (csUuid s) m usage (billed d s r) latency env env')"
proof -
  let ?env = "env\<lparr>ceAuth := a\<rparr>"
  obtain y env1 where y: "handleChatCompletions d (csTrace s) (csStart s) (csNow s) (csUuid s) (csBody s) ctx ?env = (y, env1)"
    by fastforce
  have "same_books env ?env" using authenticate_db [OF auth] by (simp add: same_books_def)
  then have same: "same_books ?env = same_books env" and bk: "\<And>tr now u m us c l. books d ctx tr now u m us c l ?env = books d ctx tr now u m us c l env"
    by (auto simp: same_books_def books_def fun_eq_iff)
  note out = handle_books [of d ctx "csTrace s" "csStart s" "csNow s" "csUuid s" ?env "csBody s", unfolded y outcome_def, simplified]
  show ?thesis
  proof (cases y)
    case (Inl e)
    then have "r = Inl (NotServed e)" "env' = env1" using auth step y by (auto simp: chat_step_def completions_def)
    with Inl out same show ?thesis by simp
  next
    case (Inr ans)
    show ?thesis
    proof (cases ans)
      case (Completion c)
      then have "r = Inr (Completion c)" "env' = env1" using auth step y Inr by (auto simp: chat_step_def completions_def)
      with Inr Completion out bk show ?thesis by (auto simp: billed_def)
    next
      case (Streaming x)
      then have r: "r = Inr (Streaming x)" and env': "env' = snd (finalizeStream d (csNow s) (csUuid s) (csUsage s) x env1)"
        using auth step y Inr by (auto simp: chat_step_def completions_def)
      from Inr Streaming out same have x: "same_books env env1" "osContext x = ctx" "osTrace x = csTrace s" "\<not> osFinalized x"
        and pools: "\<forall>u. u \<noteq> acTenantId ctx \<longrightarrow> cePools env1 u = cePools env u" by auto
      have "books d ctx (csTrace s) (csNow s) (csUuid s) (osModel x) (csUsage s) (billed d s r) (csNow s - osStart x) env env'"
        using finalize_books(1) [OF x(4), of d "csNow s" "csUuid s" "csUsage s" env1] x by (simp add: r env' billed_def)
      moreover have "cePools env' u = cePools env u" if "u \<noteq> acTenantId ctx" for u
        using finalize_books(2) [of x u d "csNow s" "csUuid s" "csUsage s" env1] x pools that by (simp add: env')
      ultimately show ?thesis by (auto simp: r names_of_def)
    qed
  qed
qed

section \<open>Lemmas: charging a token\<close>

text \<open>Identifiers without white space at their ends, and not empty, as the code creates them.\<close>

definition trimmed_ids :: "token_table \<Rightarrow> bool" where
  "trimmed_ids db \<longleftrightarrow> (\<forall>r\<in>set db. js_trim (trId r) = trId r \<and> trId r \<noteq> [])"

definition charge_row :: "string \<Rightarrow> int \<Rightarrow> AuthTokenRow \<Rightarrow> AuthTokenRow" where
  "charge_row i cost r = (if trId r = i then r\<lparr>trSpent := number_of_bigint (trSpent r + cost)\<rparr> else r)"

lemma charged_row:
  assumes "table_ok db" "trimmed_ids db" "row \<in> set db" "atId (acToken ctx) = trId row" "acTenantId ctx = trTenant row"
  shows "charged d ctx cost db = (if cost > 0 then map (charge_row (trId row) cost) db else db)"
proof -
  have row: "js_trim (trTenant row) = trTenant row" "trTenant row \<noteq> []" "trExpires row \<noteq> Some None" "trId row \<noteq> []" "js_trim (trId row) = trId row"
    using assms(1-3) by (auto simp: table_ok_def list_all_iff row_ok_def trimmed_ids_def)
  have unique: "r = row" if "r \<in> set db" "trId r = trId row" for r
    using assms(1, 3) that by (auto simp: table_ok_def distinct_map dest: inj_onD)
  have owner: "by_owner (trId row) (trTenant row) r \<longleftrightarrow> r = row" if "r \<in> set db" for r
    using unique [OF that] row by (auto simp: by_owner_def)
  have "select_one (by_owner (trId row) (trTenant row)) db = Some row"
  proof (cases "select_one (by_owner (trId row) (trTenant row)) db")
    case None
    with owner assms(3) show ?thesis by (auto simp: select_one_None)
  next
    case (Some r)
    with owner show ?thesis by (auto dest: select_one_Some)
  qed
  then have found: "findById p (trId row) (Some (trTenant row)) db = Inr (Some (record_of p row))" for p
    using row by (simp add: findById_def map_row_def map_row_ok)
  have charge: "map (\<lambda>r. if by_owner (trId row) (trTenant row) r then r\<lparr>trSpent := number_of_bigint (trSpent row + cost)\<rparr> else r) db =
      map (charge_row (trId row) cost) db"
    using owner unique by (auto simp: charge_row_def)
  show ?thesis
    using found charge by (simp add: charged_def assms(4, 5) recordSpend_def spend_read_def spend_write_def update_where_def)
qed

lemma charge_row_sel [simp]:
  "trId (charge_row i c r) = trId r" "trHash (charge_row i c r) = trHash r" "trTenant (charge_row i c r) = trTenant r"
  "trBudget (charge_row i c r) = trBudget r"
  by (simp_all add: charge_row_def)

lemma charge_row_ok: "row_ok r \<Longrightarrow> row_ok (charge_row i c r)"
  by (simp add: charge_row_def row_ok_def)

lemma charged_ok: "table_ok db \<Longrightarrow> table_ok (map (charge_row i c) db)" "trimmed_ids db \<Longrightarrow> trimmed_ids (map (charge_row i c) db)"
  by (auto simp: table_ok_def comp_def list_all_iff charge_row_ok trimmed_ids_def)

lemma charge_spent:
  "0 \<le> trSpent r \<Longrightarrow> 0 \<le> c \<Longrightarrow> trSpent r + c < 2 ^ 53 \<Longrightarrow> trSpent (charge_row i c r) = trSpent r + (if trId r = i then c else 0)"
  by (simp add: charge_row_def number_of_bigint_def round53_exact nat_less_iff)

lemma charged_cases:
  assumes "table_ok db"
  shows "charged d ctx cost db = db \<or>
    (\<exists>row\<in>set db. 0 < cost \<and> trId row = js_trim (atId (acToken ctx)) \<and> trTenant row = js_trim (acTenantId ctx) \<and>
       charged d ctx cost db = map (charge_row (trId row) cost) db)"
proof (cases "cost > 0 \<and> (\<exists>x. findById (cdParse d) (atId (acToken ctx)) (Some (acTenantId ctx)) db = Inr (Some x))")
  case False
  then have "charged d ctx cost db = db"
    by (auto simp: charged_def recordSpend_def spend_read_def split: sum.split option.split)
  then show ?thesis ..
next
  case True
  then obtain x where x: "findById (cdParse d) (atId (acToken ctx)) (Some (acTenantId ctx)) db = Inr (Some x)" and cost: "cost > 0" by blast
  obtain row where row: "row \<in> set db" "by_owner (atId (acToken ctx)) (acTenantId ctx) row" "x = record_of (cdParse d) row"
    using findById_Some [OF x] by blast
  have unique: "r = row" if "r \<in> set db" "trId r = trId row" for r
    using assms row(1) that by (auto simp: table_ok_def distinct_map dest: inj_onD)
  have owner: "by_owner (atId (acToken ctx)) (acTenantId ctx) r \<longleftrightarrow> r = row" if "r \<in> set db" for r
    using unique [OF that] row(2) by (auto simp: by_owner_def)
  have "charged d ctx cost db = map (\<lambda>r. if by_owner (atId (acToken ctx)) (acTenantId ctx) r
      then r\<lparr>trSpent := number_of_bigint (trSpent row + cost)\<rparr> else r) db"
    using cost x row(3) by (simp add: charged_def recordSpend_def spend_read_def spend_write_def update_where_def)
  also have "\<dots> = map (charge_row (trId row) cost) db"
  proof (rule map_cong [OF refl])
    fix r assume "r \<in> set db"
    with owner unique show "(if by_owner (atId (acToken ctx)) (acTenantId ctx) r
        then r\<lparr>trSpent := number_of_bigint (trSpent row + cost)\<rparr> else r) = charge_row (trId row) cost r"
      by (cases "r = row") (auto simp: charge_row_def)
  qed
  finally have "charged d ctx cost db = map (charge_row (trId row) cost) db" .
  with row cost show ?thesis by (intro disjI2 bexI [of _ row]) (simp_all add: by_owner_def)
qed

text \<open>Who is let through, as the settlement needs it.\<close>

lemma grant_cases:
  assumes "authenticate sc parse now req opts env = (Inr ctx, env')"
  shows "\<exists>db. aeDb env = Some db \<and>
    ((\<exists>row\<in>set db. acToken ctx = record_of parse row \<and> acTenantId ctx = trTenant row \<and> auth_gate now opts (acToken ctx) = None) \<or>
     acTenantId ctx \<in> {''admin'', ''demo''})"
proof -
  from assms obtain rawToken db found where token: "extractBearerToken (arAuthorization req) = Inr rawToken"
    and db: "aeDb env = Some db" and found: "findByToken sc parse rawToken db = Inr found"
    by (auto simp: authenticate_def split: sum.splits option.splits)
  show ?thesis
  proof (cases found)
    case None
    with assms token db found have "auth_unknown sc now req rawToken env = (Inr ctx, env')" by (simp add: authenticate_def)
    from auth_unknown_Inr [OF this extract_nonempty [OF token]] db show ?thesis by auto
  next
    case (Some r)
    with assms token db found have gate: "auth_gate now opts r = None" and count: "auth_count now req opts r env = (Inr ctx, env')"
      by (auto simp: authenticate_def split: option.splits)
    from findByToken_Some [OF found [unfolded Some]] obtain row where "row \<in> set db" "mapRowToAuthTokenRecord parse row = Inr r"
      by blast
    moreover from this have "r = record_of parse row" "atTenant r = trTenant row" by (auto dest: map_row_Inr)
    ultimately show ?thesis using auth_count_Inr [OF count] gate db by auto
  qed
qed

text \<open>The token table after a step: as it was, or one token charged that had budget left.\<close>

lemma step_charge:
  assumes db: "aeDb (ceAuth env) = Some db" "table_ok db" "trimmed_ids db" and step: "chat_step sc d opts s env = (r, env')"
  shows "\<exists>db'. aeDb (ceAuth env') = Some db' \<and> table_ok db' \<and> trimmed_ids db' \<and>
    (db' = db \<or> (\<exists>row\<in>set db. 0 < billed d s r \<and> db' = map (charge_row (trId row) (billed d s r)) db \<and>
       (trTenant row \<in> {''admin'', ''demo''} \<or> trBudget row \<le> 0 \<or> trSpent row < trBudget row)))"
proof -
  obtain y a where auth: "authenticate sc (cdParse d) (csStart s) (csRequest s) opts (ceAuth env) = (y, a)" by fastforce
  show ?thesis
  proof (cases y)
    case (Inl e)
    with auth step chat_step_refused have "env' = env\<lparr>ceAuth := a\<rparr>" by (metis Pair_inject)
    with authenticate_db [OF auth] db show ?thesis by simp
  next
    case (Inr ctx)
    note out = chat_step_admitted [OF auth [unfolded Inr] step]
    show ?thesis
    proof (cases r)
      case (Inl e)
      with out db show ?thesis by (simp add: same_books_def)
    next
      case (Inr ans)
      with out db(1) have db': "aeDb (ceAuth env') = Some (charged d ctx (billed d s r) db)" by (auto simp: books_def)
      have gate: "trTenant row \<in> {''admin'', ''demo''} \<or> trBudget row \<le> 0 \<or> trSpent row < trBudget row"
        if row: "row \<in> set db" "trId row = js_trim (atId (acToken ctx))" "trTenant row = js_trim (acTenantId ctx)" for row
      proof -
        have trims: "js_trim ''admin'' = ''admin''" "js_trim ''demo'' = ''demo''" by code_simp+
        have "row = row'" if "row' \<in> set db" "acToken ctx = record_of (cdParse d) row'" for row'
          using db(2, 3) row that by (auto simp: table_ok_def distinct_map trimmed_ids_def dest: inj_onD)
        with grant_cases [OF auth [unfolded \<open>y = Inr ctx\<close>]] db(1) row(3) trims show ?thesis
          by (fastforce simp: auth_gate_None)
      qed
      from charged_cases [OF db(2), of d ctx "billed d s r"] show ?thesis
      proof (elim disjE bexE conjE)
        fix row
        assume row: "row \<in> set db" "0 < billed d s r" "trId row = js_trim (atId (acToken ctx))"
          "trTenant row = js_trim (acTenantId ctx)" "charged d ctx (billed d s r) db = map (charge_row (trId row) (billed d s r)) db"
        let ?new = "map (charge_row (trId row) (billed d s r)) db"
        have "aeDb (ceAuth env') = Some ?new \<and> table_ok ?new \<and> trimmed_ids ?new"
          using db' row(5) db(2, 3) charged_ok by simp
        moreover note gate [OF row(1, 3, 4)]
        ultimately show ?thesis using row(1, 2) by blast
      qed (use db' db in simp)
    qed
  qed
qed

section \<open>Requests in flight\<close>

text \<open>
  Requests overlap: one is authenticated, served when its turn comes, and a stream is settled when it
  ends, in any order. \<open>svAdmitted\<close> are the requests between authentication and service, \<open>svOpen\<close> the
  streams, \<open>svBilled\<close> the amounts charged so far. A charge, which the code makes of a read and a write of
  the row, is one step.
\<close>

record 's ChatServer =
  svEnv :: "'s ChatEnv"
  svAdmitted :: "(AuthenticatedContext \<times> ChatStep) list"
  svOpen :: "OpenStream list"
  svBilled :: "int list"

datatype chat_action = Admit ChatStep | Serve nat | Settle nat timestamp string "StreamUsage option"

definition without :: "nat \<Rightarrow> 'a list \<Rightarrow> 'a list" where
  "without i xs = take i xs @ drop (Suc i) xs"

fun chat_act ::
  "'k SubtleCrypto \<Rightarrow> ('s, 'e, 'f) ChatDeps \<Rightarrow> AuthMiddlewareOptions \<Rightarrow> chat_action \<Rightarrow> 's ChatServer \<Rightarrow> 's ChatServer" where
  "chat_act sc d opts (Admit s) sv =
     (case authenticate sc (cdParse d) (csStart s) (csRequest s) opts (ceAuth (svEnv sv)) of
        (Inl err, a) \<Rightarrow> sv\<lparr>svEnv := (svEnv sv)\<lparr>ceAuth := a\<rparr>\<rparr>
      | (Inr ctx, a) \<Rightarrow> sv\<lparr>svEnv := (svEnv sv)\<lparr>ceAuth := a\<rparr>, svAdmitted := svAdmitted sv @ [(ctx, s)]\<rparr>)"
| "chat_act sc d opts (Serve i) sv =
     (if length (svAdmitted sv) \<le> i then sv
      else case svAdmitted sv ! i of
        (ctx, s) \<Rightarrow>
          (case handleChatCompletions d (csTrace s) (csStart s) (csNow s) (csUuid s) (csBody s) ctx (svEnv sv) of
             (x, env) \<Rightarrow>
               (let sv1 = sv\<lparr>svEnv := env, svAdmitted := without i (svAdmitted sv)\<rparr> in
                case x of
                  Inl _ \<Rightarrow> sv1
                | Inr (Completion c) \<Rightarrow> sv1\<lparr>svBilled := svBilled sv @ [cpCost c]\<rparr>
                | Inr (Streaming o') \<Rightarrow> sv1\<lparr>svOpen := svOpen sv @ [o']\<rparr>)))"
| "chat_act sc d opts (Settle j now uuid usage) sv =
     (if length (svOpen sv) \<le> j then sv
      else case finalizeStream d now uuid usage (svOpen sv ! j) (svEnv sv) of
        (o', env) \<Rightarrow> sv\<lparr>svEnv := env, svOpen := (svOpen sv)[j := o'],
          svBilled := svBilled sv @
            (if osFinalized (svOpen sv ! j) then [] else [stream_cost d (osModel (svOpen sv ! j)) usage])\<rparr>)"

definition chat_acts ::
  "'k SubtleCrypto \<Rightarrow> ('s, 'e, 'f) ChatDeps \<Rightarrow> AuthMiddlewareOptions \<Rightarrow> chat_action list \<Rightarrow> 's ChatEnv \<Rightarrow> 's ChatServer" where
  "chat_acts sc d opts acts env =
     fold (chat_act sc d opts) acts \<lparr>svEnv = env, svAdmitted = [], svOpen = [], svBilled = []\<rparr>"

text \<open>The requests of a token that are neither refused nor settled.\<close>

definition owes :: "AuthTokenRow \<Rightarrow> AuthenticatedContext \<Rightarrow> bool" where
  "owes row ctx \<longleftrightarrow> js_trim (atId (acToken ctx)) = trId row \<and> js_trim (acTenantId ctx) = trTenant row"

definition unsettled :: "AuthTokenRow \<Rightarrow> OpenStream \<Rightarrow> bool" where
  "unsettled row x \<longleftrightarrow> \<not> osFinalized x \<and> owes row (osContext x)"

definition in_flight :: "AuthTokenRow \<Rightarrow> 's ChatServer \<Rightarrow> nat" where
  "in_flight row sv =
     length (filter (\<lambda>p. owes row (fst p)) (svAdmitted sv)) + length (filter (unsettled row) (svOpen sv))"

lemma without_count:
  assumes "i < length xs"
  shows "length (filter P xs) = length (filter P (without i xs)) + (if P (xs ! i) then 1 else 0)"
proof -
  have "filter P xs = filter P (take i xs @ xs ! i # drop (Suc i) xs)" using assms by (simp add: id_take_nth_drop [symmetric])
  then show ?thesis by (simp add: without_def)
qed

lemma update_count:
  assumes "j < length xs" "\<not> P y"
  shows "length (filter P xs) = length (filter P (xs[j := y])) + (if P (xs ! j) then 1 else 0)"
proof -
  have "filter P xs = filter P (take j xs @ xs ! j # drop (Suc j) xs)" using assms by (simp add: id_take_nth_drop [symmetric])
  then show ?thesis using assms by (simp add: upd_conv_take_nth_drop)
qed

text \<open>The row of a token after a charge.\<close>

lemma charged_spent:
  assumes "table_ok db" "trimmed_ids db" "row \<in> set db" "owes row ctx \<longrightarrow> trSpent row + max 0 cost < 2 ^ 53"
  shows "table_ok (charged d ctx cost db) \<and> trimmed_ids (charged d ctx cost db) \<and>
    (\<exists>row'\<in>set (charged d ctx cost db). trId row' = trId row \<and> trTenant row' = trTenant row \<and> trBudget row' = trBudget row \<and>
       trSpent row' \<le> trSpent row + (if owes row ctx then max 0 cost else 0))"
proof (cases "charged d ctx cost db = db")
  case True
  with assms show ?thesis by (auto intro!: bexI [of _ row])
next
  case False
  with charged_cases [OF assms(1)] obtain x where x: "x \<in> set db" "0 < cost" "trId x = js_trim (atId (acToken ctx))"
    "trTenant x = js_trim (acTenantId ctx)" "charged d ctx cost db = map (charge_row (trId x) cost) db" by blast
  let ?row = "charge_row (trId x) cost row"
  have "trSpent ?row \<le> trSpent row + (if owes row ctx then max 0 cost else 0)"
  proof (cases "trId row = trId x")
    case True
    with assms(1, 3) x(1) have "row = x" by (auto simp: table_ok_def distinct_map dest: inj_onD)
    with x have owes: "owes row ctx" by (simp add: owes_def)
    moreover have "0 \<le> trSpent row" using assms(1, 3) by (auto simp: table_ok_def list_all_iff row_ok_def)
    ultimately show ?thesis using charge_spent [of row cost "trId x"] x(2) assms(4) by auto
  qed (simp add: charge_row_def)
  moreover have "trId ?row = trId row" "trTenant ?row = trTenant row" "trBudget ?row = trBudget row"
    by (simp_all add: charge_row_def)
  moreover have "?row \<in> set (map (charge_row (trId x) cost) db)" using assms(3) by simp
  ultimately show ?thesis using charged_ok(1) [OF assms(1)] charged_ok(2) [OF assms(2)] unfolding x(5) by blast
qed

text \<open>
  The invariant: what is spent and what the requests in flight can still cost stay below the limit \<open>B\<close>;
  without such requests the amount may also be the one from the start.
\<close>

definition within_budget :: "int \<Rightarrow> int \<Rightarrow> AuthTokenRow \<Rightarrow> nat \<Rightarrow> 's ChatEnv \<Rightarrow> bool" where
  "within_budget c B row n env \<longleftrightarrow>
     (\<exists>db row'. aeDb (ceAuth env) = Some db \<and> table_ok db \<and> trimmed_ids db \<and> row' \<in> set db \<and> trId row' = trId row \<and>
        trTenant row' = trTenant row \<and> trBudget row' = trBudget row \<and>
        (trSpent row' + c * int n \<le> B \<or> (n = 0 \<and> trSpent row' \<le> trSpent row)))"

lemma within_same: "aeDb (ceAuth env') = aeDb (ceAuth env) \<Longrightarrow> within_budget c B row n env' = within_budget c B row n env"
  by (simp add: within_budget_def)

lemma within_fewer: "within_budget c B row n env \<Longrightarrow> m \<le> n \<Longrightarrow> 0 \<le> c \<Longrightarrow> within_budget c B row m env"
  unfolding within_budget_def
  by (elim exE conjE, intro exI conjI) (assumption | use mult_left_mono [of "int m" "int n" c] in auto)+

lemma within_charged:
  assumes "within_budget c B row n env" "aeDb (ceAuth env') = map_option (charged d ctx cost) (aeDb (ceAuth env))"
    and "cost \<le> c" "0 \<le> c" "B < 2 ^ 53" and "n = m + (if owes row ctx then 1 else 0)"
  shows "within_budget c B row m env'"
proof -
  from assms(1) obtain db row' where row': "aeDb (ceAuth env) = Some db" "table_ok db" "trimmed_ids db" "row' \<in> set db"
    "trId row' = trId row" "trTenant row' = trTenant row" "trBudget row' = trBudget row"
    and bound: "trSpent row' + c * int n \<le> B \<or> (n = 0 \<and> trSpent row' \<le> trSpent row)"
    unfolding within_budget_def by blast
  have owes: "owes row' ctx = owes row ctx" using row' by (simp add: owes_def)
  have room: "trSpent row' + c + c * int m \<le> B" if "owes row ctx" using bound assms(6) that by (auto simp: algebra_simps)
  have "0 \<le> c * int m" using assms(4) by simp
  have "max 0 cost \<le> c" using assms(3, 4) by simp
  then have "owes row' ctx \<longrightarrow> trSpent row' + max 0 cost < 2 ^ 53"
    using room \<open>0 \<le> c * int m\<close> assms(5) unfolding owes by linarith
  from charged_spent [OF row'(2-4) this, of d] obtain row'' where row'': "table_ok (charged d ctx cost db)" "trimmed_ids (charged d ctx cost db)"
    "row'' \<in> set (charged d ctx cost db)" "trId row'' = trId row'" "trTenant row'' = trTenant row'" "trBudget row'' = trBudget row'"
    "trSpent row'' \<le> trSpent row' + (if owes row ctx then max 0 cost else 0)" unfolding owes by blast
  have "trSpent row'' + c * int m \<le> B \<or> (m = 0 \<and> trSpent row'' \<le> trSpent row)"
    using row''(7) bound room assms(3, 4, 6) by (cases "owes row ctx") auto
  with row'' row' assms(2) show ?thesis unfolding within_budget_def by auto
qed

lemma act_admit:
  assumes inv: "within_budget c B row (in_flight row sv) (svEnv sv)" and row: "trTenant row \<notin> {''admin'', ''demo''}" "0 < trBudget row"
    and room: "trBudget row - 1 + c * int (in_flight row (chat_act sc d opts (Admit s) sv)) \<le> B"
  shows "within_budget c B row (in_flight row (chat_act sc d opts (Admit s) sv)) (svEnv (chat_act sc d opts (Admit s) sv))"
proof -
  let ?sv = "chat_act sc d opts (Admit s) sv"
  obtain y a where auth: "authenticate sc (cdParse d) (csStart s) (csRequest s) opts (ceAuth (svEnv sv)) = (y, a)" by fastforce
  then have same: "aeDb (ceAuth (svEnv ?sv)) = aeDb (ceAuth (svEnv sv))" using authenticate_db [OF auth] by (cases y) simp_all
  show ?thesis
  proof (cases "\<exists>ctx. y = Inr ctx \<and> owes row ctx")
    case False
    with auth have "in_flight row ?sv = in_flight row sv" by (cases y) (auto simp: in_flight_def)
    with inv within_same [OF same] show ?thesis by simp
  next
    case True
    then obtain ctx where ctx: "y = Inr ctx" "owes row ctx" by blast
    from inv obtain db row' where row': "aeDb (ceAuth (svEnv sv)) = Some db" "table_ok db" "trimmed_ids db" "row' \<in> set db"
      "trId row' = trId row" "trTenant row' = trTenant row" "trBudget row' = trBudget row"
      unfolding within_budget_def by blast
    have trims: "js_trim ''admin'' = ''admin''" "js_trim ''demo'' = ''demo''" by code_simp+
    from grant_cases [OF auth [unfolded ctx(1)]] row'(1) ctx(2) row(1) trims obtain x where x: "x \<in> set db"
      "acToken ctx = record_of (cdParse d) x" "acTenantId ctx = trTenant x" "auth_gate (csStart s) opts (acToken ctx) = None"
      by (auto simp: owes_def)
    have "trId x = trId row'" using row'(3, 5) x(1, 2) ctx(2) by (auto simp: trimmed_ids_def owes_def)
    moreover have "inj_on trId (set db)" using row'(2) by (simp add: table_ok_def distinct_map)
    ultimately have "x = row'" using x(1) row'(4) by (blast dest: inj_onD)
    then have "trSpent row' < trBudget row" using x(2, 4) row' row(2) by (auto simp: auth_gate_None)
    with room have "trSpent row' + c * int (in_flight row ?sv) \<le> B" by linarith
    with row' same show ?thesis unfolding within_budget_def by auto
  qed
qed

lemma act_serve:
  assumes inv: "within_budget c B row (in_flight row sv) (svEnv sv)" and c: "0 \<le> c" "B < 2 ^ 53"
    and cost: "\<forall>x\<in>set (svBilled (chat_act sc d opts (Serve i) sv)). x \<le> c"
  shows "within_budget c B row (in_flight row (chat_act sc d opts (Serve i) sv)) (svEnv (chat_act sc d opts (Serve i) sv))"
proof (cases "length (svAdmitted sv) \<le> i")
  case False
  obtain ctx s where i: "svAdmitted sv ! i = (ctx, s)" by fastforce
  obtain y env where y: "handleChatCompletions d (csTrace s) (csStart s) (csNow s) (csUuid s) (csBody s) ctx (svEnv sv) = (y, env)"
    by fastforce
  note out = handle_books [of d ctx "csTrace s" "csStart s" "csNow s" "csUuid s" "svEnv sv" "csBody s", unfolded y outcome_def, simplified]
  have rest: "length (filter (\<lambda>p. owes row (fst p)) (svAdmitted sv)) =
      length (filter (\<lambda>p. owes row (fst p)) (without i (svAdmitted sv))) + (if owes row ctx then 1 else 0)"
    using without_count [of i "svAdmitted sv" "\<lambda>p. owes row (fst p)"] False i by simp
  show ?thesis
  proof (cases y)
    case (Inl e)
    with out have "aeDb (ceAuth env) = aeDb (ceAuth (svEnv sv))" by (simp add: same_books_def)
    from within_fewer [OF inv [folded within_same [OF this]] _ c(1)] show ?thesis
      using False i y Inl rest by (simp add: in_flight_def)
  next
    case (Inr ans)
    show ?thesis
    proof (cases ans)
      case (Completion x)
      with out Inr have "aeDb (ceAuth env) = map_option (charged d ctx (cpCost x)) (aeDb (ceAuth (svEnv sv)))" by (auto simp: books_def)
      from within_charged [OF inv this _ c] show ?thesis
        using False i y Inr Completion rest cost by (simp add: in_flight_def)
    next
      case (Streaming x)
      with out Inr have "aeDb (ceAuth env) = aeDb (ceAuth (svEnv sv))" and x: "osContext x = ctx" "\<not> osFinalized x"
        by (simp_all add: same_books_def)
      from inv [folded within_same [OF this(1)]] show ?thesis
        using False i y Inr Streaming rest x by (simp add: in_flight_def unsettled_def split: if_splits)
    qed
  qed
qed (use inv in simp)

lemma act_settle:
  assumes inv: "within_budget c B row (in_flight row sv) (svEnv sv)" and c: "0 \<le> c" "B < 2 ^ 53"
    and cost: "\<forall>x\<in>set (svBilled (chat_act sc d opts (Settle j now uuid usage) sv)). x \<le> c"
  shows "within_budget c B row (in_flight row (chat_act sc d opts (Settle j now uuid usage) sv))
    (svEnv (chat_act sc d opts (Settle j now uuid usage) sv))"
proof (cases "length (svOpen sv) \<le> j")
  case False
  let ?x = "svOpen sv ! j"
  show ?thesis
  proof (cases "osFinalized ?x")
    case True
    with False inv show ?thesis by (simp add: finalizeStream_def in_flight_def list_update_id)
  next
    case fresh: False
    obtain x env where x: "finalizeStream d now uuid usage ?x (svEnv sv) = (x, env)" by fastforce
    then have "osFinalized x" using fresh by (auto simp: finalizeStream_def)
    then have rest: "length (filter (unsettled row) (svOpen sv)) =
        length (filter (unsettled row) ((svOpen sv)[j := x])) + (if owes row (osContext ?x) then 1 else 0)"
      using update_count [of j "svOpen sv" "unsettled row" x] False fresh by (simp add: unsettled_def)
    have "aeDb (ceAuth env) = map_option (charged d (osContext ?x) (stream_cost d (osModel ?x) usage)) (aeDb (ceAuth (svEnv sv)))"
      using finalize_books(1) [OF fresh, of d now uuid usage "svEnv sv"] by (simp add: x books_def)
    from within_charged [OF inv this _ c] show ?thesis
      using False fresh x rest cost by (simp add: in_flight_def)
  qed
qed (use inv in simp)

lemma billed_grows: "set (svBilled sv) \<subseteq> set (svBilled (chat_act sc d opts act sv))"
  by (cases act) (auto simp: Let_def split: prod.splits sum.splits chat_answer.splits)

lemma billed_fold: "set (svBilled sv) \<subseteq> set (svBilled (fold (chat_act sc d opts) acts sv))"
proof (induction acts arbitrary: sv)
  case (Cons act acts)
  from Cons.IH [of "chat_act sc d opts act sv"] billed_grows [of sv sc d opts act] show ?case by auto
qed simp

lemma acts_within:
  assumes "within_budget c B row (in_flight row sv) (svEnv sv)" and c: "0 \<le> c" "B < 2 ^ 53"
    and row: "trTenant row \<notin> {''admin'', ''demo''}" "0 < trBudget row"
    and "\<forall>x\<in>set (svBilled (fold (chat_act sc d opts) acts sv)). x \<le> c"
    and "\<forall>n\<le>length acts. trBudget row - 1 + c * int (in_flight row (fold (chat_act sc d opts) (take n acts) sv)) \<le> B"
  shows "within_budget c B row (in_flight row (fold (chat_act sc d opts) acts sv)) (svEnv (fold (chat_act sc d opts) acts sv))"
  using assms(1, 6, 7)
proof (induction acts arbitrary: sv)
  case (Cons act acts)
  let ?sv = "chat_act sc d opts act sv"
  have billed: "\<forall>x\<in>set (svBilled ?sv). x \<le> c" using Cons.prems(2) billed_fold [of ?sv sc d opts acts] by auto
  have room: "trBudget row - 1 + c * int (in_flight row ?sv) \<le> B" using Cons.prems(3) [rule_format, of 1] by simp
  have "within_budget c B row (in_flight row ?sv) (svEnv ?sv)"
  proof (cases act)
    case (Admit s)
    show ?thesis unfolding Admit by (rule act_admit [OF Cons.prems(1) row room [unfolded Admit]])
  next
    case (Serve i)
    show ?thesis unfolding Serve by (rule act_serve [OF Cons.prems(1) c billed [unfolded Serve]])
  next
    case (Settle j now uuid usage)
    show ?thesis unfolding Settle by (rule act_settle [OF Cons.prems(1) c billed [unfolded Settle]])
  qed
  moreover have "\<forall>n\<le>length acts. trBudget row - 1 + c * int (in_flight row (fold (chat_act sc d opts) (take n acts) ?sv)) \<le> B"
  proof (intro allI impI)
    fix n assume "n \<le> length acts"
    then show "trBudget row - 1 + c * int (in_flight row (fold (chat_act sc d opts) (take n acts) ?sv)) \<le> B"
      using Cons.prems(3) [rule_format, of "Suc n"] by simp
  qed
  ultimately show ?case using Cons.IH [of ?sv] Cons.prems(2) by simp
qed simp

section \<open>Lemmas: the two books\<close>

definition spent_by :: "string \<Rightarrow> 's ChatEnv \<Rightarrow> int" where
  "spent_by t env = sum_list (map trSpent (filter (\<lambda>r. trTenant r = t) (first_some (aeDb (ceAuth env)) [])))"

definition booked :: "string \<Rightarrow> 's ChatEnv \<Rightarrow> int" where
  "booked t env = sum_list (map leCost (filter (\<lambda>e. leTenant e = t) (ldEvents (ceLedger env))))"

lemma sum_charge:
  assumes "distinct (map trId db)" "\<forall>r\<in>set db. 0 \<le> trSpent r \<and> trSpent r + c < 2 ^ 53" "0 \<le> c"
  shows "sum_list (map trSpent (filter (\<lambda>r. trTenant r = t) (map (charge_row i c) db))) =
    sum_list (map trSpent (filter (\<lambda>r. trTenant r = t) db)) + (if \<exists>r\<in>set db. trId r = i \<and> trTenant r = t then c else 0)"
  using assms
proof (induction db)
  case (Cons r db)
  have "trSpent (charge_row i c r) = trSpent r + (if trId r = i then c else 0)"
    using Cons.prems by (intro charge_spent) auto
  moreover have "\<not> (\<exists>x\<in>set db. trId x = i \<and> trTenant x = t)" if "trId r = i"
    using that Cons.prems(1) by (auto simp: image_iff)
  ultimately show ?case using Cons by auto
qed simp

lemma input_tenant [simp]: "liTenant (ledger_input trace t m usage cost latency) = t"
  by (simp add: ledger_input_def)

text \<open>The event of a completion.\<close>

lemma record_completion:
  fixes db :: LedgerDb
  assumes "js_trim tenant = tenant" "tenant \<noteq> []" "js_trim trace \<noteq> []" "js_trim (mdId m) \<noteq> []" "js_trim (mdProvider m) \<noteq> []"
    and "uuid \<notin> leId ` set (ldEvents db)" "0 \<le> cost" "cost \<le> MAX_SAFE_INTEGER"
  shows "\<exists>ev. snd (recordEvent parse now uuid (ledger_input trace tenant m usage cost latency) db) = db\<lparr>ldEvents := ldEvents db @ [ev]\<rparr>
    \<and> leTenant ev = tenant \<and> leCost ev = cost \<and> leId ev = uuid"
  using assms
  by (simp add: recordEvent_def event_of_def validateEventInput_def validateTenantId_def blank_text_def ledger_input_def
      toSqlInteger_def MAX_SAFE_INTEGER_def insert_event_def) (rule exI, intro conjI, rule refl, simp_all)

lemma record_ids:
  "leId ` set (ldEvents (snd (recordEvent parse now uuid (ledger_input trace tenant m usage cost latency) db)))
     \<subseteq> insert uuid (leId ` set (ldEvents db))"
  by (auto simp: recordEvent_def event_of_def ledger_input_def insert_event_def split: sum.splits option.splits if_splits)

text \<open>Only what costs is booked.\<close>

lemma record_free:
  assumes "cost \<le> 0"
  shows "sum_list (map leCost (filter (\<lambda>e. leTenant e = t)
    (ldEvents (snd (recordEvent parse now uuid (ledger_input trace tenant m usage cost latency) db))))) =
    sum_list (map leCost (filter (\<lambda>e. leTenant e = t) (ldEvents db)))"
  using assms by (auto simp: recordEvent_def event_of_def ledger_input_def insert_event_def split: sum.splits option.splits if_splits)

lemma booked_foreign:
  "js_trim (liTenant inp) \<noteq> t \<Longrightarrow>
   filter (\<lambda>e. leTenant e = t) (ldEvents (snd (recordEvent parse now uuid inp db))) = filter (\<lambda>e. leTenant e = t) (ldEvents db)"
  using own_writes(1) [of inp t parse now uuid db] by (simp add: own_part_def)

text \<open>The model and the provider of an answer have names.\<close>

definition named :: "('x + chat_answer) \<Rightarrow> bool" where
  "named r \<longleftrightarrow> (case r of Inl _ \<Rightarrow> True | Inr a \<Rightarrow> js_trim (fst (names_of a)) \<noteq> [] \<and> js_trim (snd (names_of a)) \<noteq> [])"

lemma charged_foreign:
  assumes "table_ok db" "t \<noteq> js_trim (acTenantId ctx)"
  shows "filter (\<lambda>r. trTenant r = t) (charged d ctx cost db) = filter (\<lambda>r. trTenant r = t) db"
proof (cases "charged d ctx cost db = db")
  case False
  with charged_cases [OF assms(1)] obtain row where row: "row \<in> set db" "trTenant row = js_trim (acTenantId ctx)"
    "charged d ctx cost db = map (charge_row (trId row) cost) db" by blast
  have "x = row" if "x \<in> set db" "trId x = trId row" for x
    using assms(1) row(1) that by (auto simp: table_ok_def distinct_map dest: inj_onD)
  then have "\<forall>x\<in>set db. trTenant x = t \<longrightarrow> charge_row (trId row) cost x = x"
    using row(2) assms(2) by (auto simp: charge_row_def)
  then have "map (charge_row (trId row) cost) (filter (\<lambda>r. trTenant r = t) db) = filter (\<lambda>r. trTenant r = t) db"
    by (intro map_idI) simp
  then show ?thesis by (simp add: row(3) filter_map comp_def)
qed simp

lemma charged_balance:
  assumes db: "aeDb (ceAuth env) = Some db" "table_ok db" "trimmed_ids db"
    and ctx: "(\<exists>row\<in>set db. acToken ctx = record_of (cdParse d) row \<and> acTenantId ctx = trTenant row) \<or> acTenantId ctx \<in> {''admin'', ''demo''}"
    and bk: "books d ctx trace now uuid m usage cost latency env env'" and t: "t \<notin> {''admin'', ''demo''}"
    and new: "js_trim trace \<noteq> []" "uuid \<notin> leId ` set (ldEvents (ceLedger env))" "js_trim (mdId m) \<noteq> []" "js_trim (mdProvider m) \<noteq> []"
    and small: "\<forall>x\<in>set db. trSpent x + max 0 cost \<le> MAX_SAFE_INTEGER"
  shows "spent_by t env' - booked t env' = spent_by t env - booked t env"
proof -
  let ?inp = "ledger_input trace (acTenantId ctx) m usage cost latency"
  have tables: "aeDb (ceAuth env') = Some (charged d ctx cost db)"
    "ceLedger env' = snd (recordEvent (cdDate d) now uuid ?inp (ceLedger env))"
    using bk db(1) by (simp_all add: books_def)
  have inp: "liTenant ?inp = acTenantId ctx" by (simp add: ledger_input_def)
  show ?thesis
  proof (cases "\<exists>row\<in>set db. acToken ctx = record_of (cdParse d) row \<and> acTenantId ctx = trTenant row")
    case True
    then obtain row where row: "row \<in> set db" "atId (acToken ctx) = trId row" "acTenantId ctx = trTenant row" by auto
    have tenant: "js_trim (trTenant row) = trTenant row" "trTenant row \<noteq> []"
      using db(2) row(1) by (auto simp: table_ok_def list_all_iff row_ok_def)
    have unique: "x = row" if "x \<in> set db" "trId x = trId row" for x
      using db(2) row(1) that by (auto simp: table_ok_def distinct_map dest: inj_onD)
    show ?thesis
    proof (cases "cost > 0")
      case free: False
      then show ?thesis
        using record_free [of cost t "cdDate d" now uuid trace "acTenantId ctx" m usage latency "ceLedger env"] tables db(1)
        by (simp add: spent_by_def booked_def charged_def)
    next
      case paid: True
      have "0 \<le> trSpent row" using row(1) db(2) by (auto simp: table_ok_def list_all_iff row_ok_def)
      moreover have "trSpent row + max 0 cost \<le> MAX_SAFE_INTEGER" using small row(1) by blast
      ultimately have "cost \<le> MAX_SAFE_INTEGER" by linarith
      with record_completion [OF tenant new(1,3,4,2), of cost "cdDate d" now usage latency] \<open>cost \<le> MAX_SAFE_INTEGER\<close> paid obtain ev
        where ev: "ceLedger env' = ceLedger env\<lparr>ldEvents := ldEvents (ceLedger env) @ [ev]\<rparr>" "leTenant ev = trTenant row" "leCost ev = cost"
        using tables(2) row(3) by fastforce
      have "\<forall>x\<in>set db. 0 \<le> trSpent x \<and> trSpent x + cost < 2 ^ 53"
        using small db(2) paid by (auto simp: table_ok_def list_all_iff row_ok_def MAX_SAFE_INTEGER_def)
      then have "sum_list (map trSpent (filter (\<lambda>r. trTenant r = t) (map (charge_row (trId row) cost) db))) =
          sum_list (map trSpent (filter (\<lambda>r. trTenant r = t) db)) + (if \<exists>r\<in>set db. trId r = trId row \<and> trTenant r = t then cost else 0)"
        using db(2) paid by (intro sum_charge) (simp_all add: table_ok_def)
      moreover have "(\<exists>r\<in>set db. trId r = trId row \<and> trTenant r = t) \<longleftrightarrow> trTenant row = t" using unique row(1) by auto
      moreover have "charged d ctx cost db = map (charge_row (trId row) cost) db"
        using paid by (simp add: charged_row [OF db(2, 3) row])
      ultimately show ?thesis
        using tables(1) db(1) ev by (simp add: spent_by_def booked_def)
    qed
  next
    case False
    with ctx have who: "acTenantId ctx \<in> {''admin'', ''demo''}" by blast
    moreover have "js_trim ''admin'' = ''admin''" "js_trim ''demo'' = ''demo''" by code_simp+
    ultimately have other: "js_trim (acTenantId ctx) \<noteq> t" using t by auto
    have "filter (\<lambda>r. trTenant r = t) (charged d ctx cost db) = filter (\<lambda>r. trTenant r = t) db"
      using other by (intro charged_foreign [OF db(2)]) simp
    moreover have "filter (\<lambda>e. leTenant e = t) (ldEvents (ceLedger env')) = filter (\<lambda>e. leTenant e = t) (ldEvents (ceLedger env))"
      unfolding tables(2) using other inp by (intro booked_foreign) simp
    ultimately show ?thesis using tables(1) db(1) by (simp add: spent_by_def booked_def)
  qed
qed

lemma step_balance:
  assumes db: "aeDb (ceAuth env) = Some db" "table_ok db" "trimmed_ids db" and step: "chat_step sc d opts s env = (r, env')"
    and t: "t \<notin> {''admin'', ''demo''}" and new: "js_trim (csTrace s) \<noteq> []" "csUuid s \<notin> leId ` set (ldEvents (ceLedger env))" "named r"
    and small: "\<forall>x\<in>set db. trSpent x + max 0 (billed d s r) \<le> MAX_SAFE_INTEGER"
  shows "spent_by t env' - booked t env' = spent_by t env - booked t env" (is ?balance)
    and "leId ` set (ldEvents (ceLedger env')) \<subseteq> insert (csUuid s) (leId ` set (ldEvents (ceLedger env)))" (is ?ids)
proof -
  obtain y a where auth: "authenticate sc (cdParse d) (csStart s) (csRequest s) opts (ceAuth env) = (y, a)" by fastforce
  have "?balance \<and> ?ids"
  proof (cases y)
    case (Inl e)
    with auth step chat_step_refused have "env' = env\<lparr>ceAuth := a\<rparr>" by (metis Pair_inject)
    with authenticate_db [OF auth] show ?thesis by (auto simp: spent_by_def booked_def)
  next
    case (Inr ctx)
    note out = chat_step_admitted [OF auth [unfolded Inr] step]
    show ?thesis
    proof (cases r)
      case (Inl e)
      with out show ?thesis by (auto simp: same_books_def spent_by_def booked_def)
    next
      case (Inr ans)
      with out obtain m usage latency where names: "names_of ans = (mdId m, mdProvider m)"
        and bk: "books d ctx (csTrace s) (csNow s) (csUuid s) m usage (billed d s r) latency env env'" by auto
      have "js_trim (mdId m) \<noteq> []" "js_trim (mdProvider m) \<noteq> []" using new(3) Inr names by (simp_all add: named_def)
      moreover have "(\<exists>row\<in>set db. acToken ctx = record_of (cdParse d) row \<and> acTenantId ctx = trTenant row) \<or> acTenantId ctx \<in> {''admin'', ''demo''}"
        using grant_cases [OF auth [unfolded \<open>y = Inr ctx\<close>]] db(1) by auto
      ultimately have ?balance using charged_balance [OF db _ bk t new(1, 2)] small by blast
      moreover have ?ids
        using bk db(1) record_ids [of "cdDate d" "csNow s" "csUuid s" "csTrace s" "acTenantId ctx" m usage "billed d s r" latency "ceLedger env"]
        by (simp add: books_def)
      ultimately show ?thesis ..
    qed
  qed
  then show ?balance ?ids by blast+
qed

section \<open>Lemmas: the brake\<close>

text \<open>What a report of a volume does to the brake of the tenant that sent it.\<close>

lemma plain_tenant:
  "encodeURIComponent t = t \<Longrightarrow> t \<notin> {''.'', ''..''} \<Longrightarrow> brake_request t = BrakeStatus t"
  by (simp add: brake_request_def)

lemma reported_brake:
  assumes "ceReachable env" "ceCoordinator env = Some c" "encodeURIComponent t = t" "t \<notin> {''.'', ''..''}" "0 \<le> now"
  shows "brake_active u t (report_volume now t v env) =
    (if fst (pc_reportVolume now t (max 1 v) c) then u < now + 60000 else brake_active u t env)"
  using assms
  by (simp add: brake_active_def report_volume_def plain_tenant pc_brakeStatus_def pc_reportVolume_def pc_putBrakes_def
      BRAKE_MS_def Let_def split_beta)

text \<open>An identifier that the URL spells differently is looked up under the other spelling.\<close>

lemma encoded_tenant_unbraked:
  assumes "encodeURIComponent t \<noteq> t"
  shows "brake_active u t (report_volume now t v env) = brake_active u t env"
proof (cases "ceCoordinator env")
  case (Some c)
  have "t \<noteq> []" using assms by (auto simp: encodeURIComponent_def)
  with assms Some show ?thesis
    by (auto simp: brake_active_def report_volume_def brake_request_def pc_brakeStatus_def pc_reportVolume_def pc_putBrakes_def
        Let_def split_beta update_conv' split: option.splits)
qed (simp add: brake_active_def report_volume_def)

text \<open>What can happen to the coordinator: a request of anyone, its alarm, the loss of its memory.\<close>

datatype watch_event = WatchRequest pool_request | WatchAlarm | WatchEviction "timestamp option"

fun watch :: "timestamp \<times> watch_event \<Rightarrow> PoolCoordinatorDO \<Rightarrow> PoolCoordinatorDO" where
  "watch (now, WatchRequest r) c = snd (pc_fetch now r c)"
| "watch (now, WatchAlarm) c = pc_alarm now c"
| "watch (now, WatchEviction alarm) c = newPoolCoordinatorDO now (pcStorage c) alarm"

definition brake_holds :: "string \<Rightarrow> timestamp \<Rightarrow> PoolCoordinatorDO \<Rightarrow> bool" where
  "brake_holds t expiry c \<longleftrightarrow>
     distinct (map fst (activeBrakes c)) \<and> pcStorage c ''activeBrakes'' = Some (js_of_brakes (activeBrakes c)) \<and>
     (\<exists>e\<ge>expiry. map_of (activeBrakes c) t = Some e)"

lemma brake_status_holds: "brake_holds t expiry c \<Longrightarrow> 0 < expiry \<Longrightarrow> u < expiry \<Longrightarrow> pc_brakeStatus u t c"
  by (auto simp: brake_holds_def pc_brakeStatus_def)

lemma report_holds:
  assumes "fst (pc_reportVolume now t v c)" "distinct (map fst (activeBrakes c))"
  shows "brake_holds t (now + 60000) (snd (pc_reportVolume now t v c))"
  using assms
  by (auto simp: brake_holds_def pc_reportVolume_def pc_putBrakes_def BRAKE_MS_def Let_def update_conv' split: if_splits
      intro: distinct_update)

lemma watch_holds:
  assumes holds: "brake_holds t expiry c" and time: "expiry \<le> now + 60000" "now < expiry"
  shows "brake_holds t expiry (watch (now, ev) c)"
proof (cases ev)
  case (WatchRequest r)
  show ?thesis
  proof (cases r)
    case (ReportVolume u v)
    have "brake_holds t expiry (snd (pc_reportVolume now u v c))"
      using holds time
      by (auto simp: brake_holds_def pc_reportVolume_def pc_putBrakes_def BRAKE_MS_def Let_def update_conv'
          intro: distinct_update)
    with WatchRequest ReportVolume show ?thesis by (simp add: split_beta)
  next
    case (UpdateProvider p a q l)
    let ?c = "snd (pc_updateProvider p a q l c)"
    have "activeBrakes ?c = activeBrakes c" "pcStorage ?c ''activeBrakes'' = pcStorage c ''activeBrakes''"
      by (simp_all add: pc_updateProvider_def Let_def)
    with WatchRequest UpdateProvider holds show ?thesis by (simp add: brake_holds_def split_beta del: map_of_eq_Some_iff)
  qed (use WatchRequest holds in simp_all)
next
  case WatchAlarm
  let ?kept = "filter (\<lambda>(t, e). \<not> now > e) (activeBrakes c)"
  from holds obtain e where e: "expiry \<le> e" "map_of (activeBrakes c) t = Some e" "distinct (map fst (activeBrakes c))"
    by (auto simp: brake_holds_def)
  have "map_of ?kept t = Some e" using e time by (simp add: map_of_filter_fst)
  moreover have "distinct (map fst ?kept)" using e(3) by (rule distinct_map_filter)
  ultimately have "brake_holds t expiry (pc_alarm now c)"
    using holds e(1) by (auto simp: brake_holds_def pc_alarm_def pc_scheduleNextAlarm_def pc_putBrakes_def Let_def)
  with WatchAlarm show ?thesis by simp
next
  case (WatchEviction alarm)
  from holds have "load_map num_of (pcStorage c ''activeBrakes'') [] = activeBrakes c" by (simp add: brake_holds_def)
  then have "activeBrakes (newPoolCoordinatorDO now (pcStorage c) alarm) = activeBrakes c"
    "pcStorage (newPoolCoordinatorDO now (pcStorage c) alarm) = pcStorage c"
    by (simp_all add: newPoolCoordinatorDO_def pc_initStorage_def)
  with WatchEviction holds show ?thesis by (simp add: brake_holds_def del: map_of_eq_Some_iff)
qed

lemma watched_holds:
  "brake_holds t expiry c \<Longrightarrow> \<forall>e\<in>set evs. expiry \<le> fst e + 60000 \<and> fst e < expiry \<Longrightarrow> brake_holds t expiry (fold watch evs c)"
proof (induction evs arbitrary: c)
  case (Cons e evs)
  have "brake_holds t expiry (watch e c)" using watch_holds [of t expiry c "fst e" "snd e"] Cons.prems by simp
  with Cons show ?case by simp
qed simp

definition same_gates :: "'s ChatEnv \<Rightarrow> 's ChatEnv \<Rightarrow> bool" where
  "same_gates env env' \<longleftrightarrow>
     ceCoordinator env' = ceCoordinator env \<and> ceReachable env' = ceReachable env \<and> cePoolBound env' = cePoolBound env"

lemma settle_gates: "same_gates env (settle d kind now uuid x usage cost env)"
  by (simp add: same_gates_def settle_def settle_telemetry_def settle_token_def settle_ledger_def settle_pool_def Let_def)

lemma respond_gates: "same_gates env (snd (respond d stream trace st now uuid ctx r env))"
  by (simp add: respond_def Let_def settle_gates) (simp add: same_gates_def)

lemma served_report:
  assumes "handleChatCompletions d trace st now uuid body ctx env = (Inr x, env')"
  shows "\<exists>v env1. env' = report_volume now (acTenantId ctx) v env1 \<and> same_gates env env1 \<and>
    cePoolBound env \<and> js_trim (acTenantId ctx) \<noteq> []"
proof -
  let ?t = "acTenantId ctx"
  obtain y s where route: "route (cdRouter d ?t) (cdAborted d) (cdIsAbort d) (cascade_request trace ?t body) (cePools env ?t) = (y, s)"
    by fastforce
  have open_pool: "cePoolBound env \<and> js_trim ?t \<noteq> []"
    using assms by (simp add: handleChatCompletions_def Let_def getKeyPool_def split: if_splits)
  show ?thesis
  proof (cases y)
    case (Inl e)
    with route assms show ?thesis
      by (simp add: handleChatCompletions_def Let_def split: if_splits option.splits)
  next
    case (Inr r)
    let ?stream = "js_truthy (js_get body ''stream'')" and ?env = "env\<lparr>cePools := (cePools env)(?t := s)\<rparr>"
    obtain z env1 where z: "respond d ?stream trace st now uuid ctx r ?env = (z, env1)" by fastforce
    with respond_gates [of ?env d ?stream trace st now uuid ctx r] have "same_gates env env1" by (simp add: same_gates_def)
    moreover have "\<exists>v. env' = report_volume now ?t v env1"
      using route assms Inr z
      by (cases z) (auto simp: handleChatCompletions_def Let_def split: if_splits option.splits)
    ultimately show ?thesis using open_pool by blast
  qed
qed

section \<open>Properties\<close>


text \<open>
  C2. The two books agree. Over any run of requests, of any tenants and with any outcome, what the token
  rows of a tenant gain in spending is what the ledger gains in events of that tenant. Every request has
  a trace and an identifier of its own for its event, the models and providers have names, and the amounts
  stay safe integers. The requests of \<open>admin\<close> and \<open>demo\<close>, which need no row, are booked but not charged.
\<close>

theorem books_balance:
  assumes "chat_run sc d opts steps env = (replies, env')"
    and "aeDb (ceAuth env) = Some db" "table_ok db" "trimmed_ids db" "t \<notin> {''admin'', ''demo''}"
    and "\<forall>s\<in>set steps. js_trim (csTrace s) \<noteq> []" "distinct (map csUuid steps)"
    and "csUuid ` set steps \<inter> leId ` set (ldEvents (ceLedger env)) = {}" "list_all named replies"
    and "\<forall>x\<in>set db. trSpent x + sum_list (map2 (\<lambda>s r. max 0 (billed d s r)) steps replies) \<le> MAX_SAFE_INTEGER"
  shows "spent_by t env' - spent_by t env = booked t env' - booked t env"
  using assms
proof (induction steps arbitrary: env db replies)
  case Nil
  then show ?case by simp
next
  case (Cons s ss)
  obtain r env1 rs where step: "chat_step sc d opts s env = (r, env1)" and rest: "chat_run sc d opts ss env1 = (rs, env')"
    and replies: "replies = r # rs"
    using Cons.prems(1) by (auto simp: Let_def split: prod.splits)
  let ?b = "billed d s r" and ?sum = "sum_list (map2 (\<lambda>s r. max 0 (billed d s r)) ss rs)"
  have sum: "0 \<le> ?sum" by (intro sum_list_nonneg) (auto simp: split_beta)
  have small: "trSpent x + max 0 ?b + ?sum \<le> MAX_SAFE_INTEGER" if "x \<in> set db" for x
    using Cons.prems(10) that by (auto simp: replies)
  have "\<forall>x\<in>set db. trSpent x + max 0 ?b \<le> MAX_SAFE_INTEGER" using small sum by fastforce
  with step_balance [OF Cons.prems(2-4) step Cons.prems(5)] Cons.prems(6-9)
  have one: "spent_by t env1 - booked t env1 = spent_by t env - booked t env"
    and ids: "leId ` set (ldEvents (ceLedger env1)) \<subseteq> insert (csUuid s) (leId ` set (ldEvents (ceLedger env)))"
    by (auto simp: replies)
  obtain db1 where db1: "aeDb (ceAuth env1) = Some db1" "table_ok db1" "trimmed_ids db1"
    and cases: "db1 = db \<or> (\<exists>x\<in>set db. 0 < ?b \<and> db1 = map (charge_row (trId x) ?b) db)"
    using step_charge [OF Cons.prems(2-4) step] by blast
  have "trSpent x + ?sum \<le> MAX_SAFE_INTEGER" if x: "x \<in> set db1" for x
  proof (cases "db1 = db")
    case True
    with small [of x] x show ?thesis by auto
  next
    case False
    then obtain i y where y: "x = charge_row i ?b y" "y \<in> set db" "0 < ?b" using cases x by auto
    moreover have "0 \<le> trSpent y" using y(2) Cons.prems(3) by (auto simp: table_ok_def list_all_iff row_ok_def)
    ultimately show ?thesis using small [OF y(2)] sum charge_spent [of y ?b i] by (auto simp: MAX_SAFE_INTEGER_def)
  qed
  moreover have "csUuid ` set ss \<inter> leId ` set (ldEvents (ceLedger env1)) = {}"
  proof -
    have "csUuid ` set ss \<inter> insert (csUuid s) (leId ` set (ldEvents (ceLedger env))) = {}" using Cons.prems(7, 8) by auto
    with ids show ?thesis by blast
  qed
  moreover have "\<forall>s\<in>set ss. js_trim (csTrace s) \<noteq> []" "distinct (map csUuid ss)" "list_all named rs"
    using Cons.prems(6, 7, 9) by (simp_all add: replies)
  ultimately have "spent_by t env' - spent_by t env1 = booked t env' - booked t env1"
    by (intro Cons.IH [OF rest db1 Cons.prems(5)]) blast+
  with one show ?case by simp
qed

text \<open>
  C4. Completions do not mix tenants. A request that was let through for a tenant leaves the key pools of the
  others, their tokens and their part of the ledger as they are; one that was not changes no pool, token or
  event at all.
\<close>

theorem completion_isolation:
  assumes "authenticate sc (cdParse d) (csStart s) (csRequest s) opts (ceAuth env) = (y, a)"
    and "chat_step sc d opts s env = (r, env')" "aeDb (ceAuth env) = Some db" "table_ok db"
    and "case y of Inl e \<Rightarrow> True | Inr ctx \<Rightarrow> u \<noteq> acTenantId ctx \<and> u \<noteq> js_trim (acTenantId ctx)"
  shows "cePools env' u = cePools env u \<and> own_part u (ceLedger env') = own_part u (ceLedger env) \<and>
    map_option (filter (\<lambda>r. trTenant r = u)) (aeDb (ceAuth env')) = map_option (filter (\<lambda>r. trTenant r = u)) (aeDb (ceAuth env))"
proof (cases y)
  case (Inl e)
  with assms(1, 2) chat_step_refused have "env' = env\<lparr>ceAuth := a\<rparr>" by (metis Pair_inject)
  with authenticate_db [OF assms(1)] show ?thesis by simp
next
  case (Inr ctx)
  note out = chat_step_admitted [OF assms(1) [unfolded Inr] assms(2)]
  show ?thesis
  proof (cases r)
    case (Inl e)
    with out Inr assms(5) show ?thesis by (simp add: same_books_def)
  next
    case answered: (Inr ans)
    with out obtain m usage latency where bk: "books d ctx (csTrace s) (csNow s) (csUuid s) m usage (billed d s r) latency env env'"
      by auto
    have other: "js_trim (acTenantId ctx) \<noteq> u" using assms(5) Inr by auto
    then have "own_part u (ceLedger env') = own_part u (ceLedger env)"
      using bk assms(3) other by (simp add: books_def own_writes(1))
    moreover have "filter (\<lambda>r. trTenant r = u) (charged d ctx (billed d s r) db) = filter (\<lambda>r. trTenant r = u) db"
      using other by (intro charged_foreign [OF assms(4)]) simp
    ultimately show ?thesis using bk assms(3, 5) out Inr by (auto simp: books_def)
  qed
qed

text \<open>
  C6. The brake stops the tenant for a minute. A served request reports its tokens at \<open>now\<close>. If the tenant
  then has more than 35 percent of the volume of five minutes, every request of it that starts within 60
  seconds is refused with \<open>EMERGENCY_BRAKE_ACTIVE\<close> and touches nothing, whatever happens to the
  coordinator in between: requests of anyone to any of its routes, further reports of the tenant among them,
  alarms, losses of its memory. If it has less than 35 percent, the report changes nothing for it. This
  holds for a tenant whose identifier \<open>encodeURIComponent\<close> leaves as it is and that is not \<open>.\<close> or \<open>..\<close>;
  other identifiers are never braked (\<open>encoded_tenant_unbraked\<close>). The coordinator answers.
\<close>

theorem overuse_stops_next_request:
  assumes "handleChatCompletions d trace st now uuid body ctx env = (Inr x, env')"
    and "ceReachable env" "ceCoordinator env = Some c0" "distinct (map fst (activeBrakes c0))" "0 \<le> now"
    and "encodeURIComponent (acTenantId ctx) = acTenantId ctx" "acTenantId ctx \<notin> {''.'', ''..''}"
    and "acTenantId ctx2 = acTenantId ctx" "js_get body2 ''messages'' = JArr ms"
    and "\<forall>e\<in>set evs. now \<le> fst e \<and> fst e \<le> st2"
    and "ceReachable env2" "cePoolBound env2" "ceCoordinator env2 = Some (fold watch evs (the (ceCoordinator env')))"
  defines "vols \<equiv> tenantVolumes (the (ceCoordinator env'))"
  assumes "0 < pool_volume now vols" "pool_volume now vols < 2 ^ 45"
  shows "(35 * pool_volume now vols < 100 * tenant_volume now (acTenantId ctx) vols \<longrightarrow> st2 < now + 60000 \<longrightarrow>
      handleChatCompletions d2 trace2 st2 now2 uuid2 body2 ctx2 env2 = (Inl (EmergencyBrake (acTenantId ctx)), env2)) \<and>
    (100 * tenant_volume now (acTenantId ctx) vols < 35 * pool_volume now vols \<longrightarrow>
      brake_active u (acTenantId ctx) env' = brake_active u (acTenantId ctx) env)"
proof -
  let ?t = "acTenantId ctx"
  obtain v env1 where v: "env' = report_volume now ?t v env1" and gates: "same_gates env env1"
    and pool: "cePoolBound env" "js_trim ?t \<noteq> []"
    using served_report [OF assms(1)] by blast
  from assms(2, 3) gates have c: "ceCoordinator env1 = Some c0" "ceReachable env1" by (auto simp: same_gates_def)
  let ?r = "pc_reportVolume now ?t (max 1 v) c0"
  have after: "ceCoordinator env' = Some (snd ?r)" by (simp add: v report_volume_def c split_beta)
  have vols: "vols = tenantVolumes (snd ?r)" by (simp add: vols_def after)
  have dec: "fst ?r = over_share (tenant_volume now ?t vols) (pool_volume now vols)"
    unfolding vols by (rule report_decision)
  have brake: "brake_active u ?t env' = (if fst ?r then u < now + 60000 else brake_active u ?t env1)" for u
    unfolding v by (rule reported_brake [OF c(2, 1) assms(6, 7, 5)])
  have same: "brake_active u ?t env1 = brake_active u ?t env" for u
    using gates by (simp add: brake_active_def same_gates_def)
  have "handleChatCompletions d2 trace2 st2 now2 uuid2 body2 ctx2 env2 = (Inl (EmergencyBrake ?t), env2)"
    if over: "35 * pool_volume now vols < 100 * tenant_volume now ?t vols" "st2 < now + 60000"
  proof -
    have "fst ?r" using over_share_lower [OF assms(15, 16) over(1)] dec by simp
    then have "brake_holds ?t (now + 60000) (fold watch evs (snd ?r))"
      using report_holds assms(4, 10) over(2) by (intro watched_holds) fastforce+
    from brake_status_holds [OF this _ over(2)] assms(5) have "pc_brakeStatus st2 ?t (fold watch evs (snd ?r))" by simp
    then have "brake_active st2 ?t env2"
      using assms(6, 7, 11, 13) after by (simp add: brake_active_def plain_tenant)
    with pool(2) assms(8, 9, 12) show ?thesis
      by (simp add: handleChatCompletions_def getKeyPool_def only_array_def Let_def)
  qed
  moreover have "\<not> fst ?r" if "100 * tenant_volume now ?t vols < 35 * pool_volume now vols"
    using over_share_upper [OF assms(16)] dec that by fastforce
  ultimately show ?thesis using brake same by auto
qed

section \<open>A run\<close>

text \<open>One tenant with a budget of 100 asks the demo model, whose answer costs 5, twice.\<close>

definition priced_answer :: UpstreamChatResponse where
  "priced_answer = demo_answer\<lparr>crCost := 5\<rparr>"

definition chat_deps :: "(unit, string, string) ChatDeps" where
  "chat_deps = \<lparr>cdRegistry = rcRegistry CascadeProps.demo_context, cdRouter = (\<lambda>_. demo_router (\<lambda>c s. (Inr priced_answer, s))),
     cdUsage = (\<lambda>_ _ s. s), cdAborted = (\<lambda>_. False), cdIsAbort = (\<lambda>_. False), cdParse = (\<lambda>_. None), cdDate = (\<lambda>_. None),
     cdEmitter = \<lparr>temDataset = None, temFallback = None, temStrict = False\<rparr>, cdContext = True\<rparr>"

definition chat_row :: AuthTokenRow where
  "chat_row = (toy_row ''t1'' ''acme'' 0)\<lparr>trHash := hashToken toy_subtle ''k'', trBudget := 100\<rparr>"

definition chat_env :: "unit ChatEnv" where
  "chat_env = \<lparr>ceAuth = toy_env\<lparr>aeDb := Some [chat_row]\<rparr>, ceLedger = \<lparr>ldEvents = [], ldRollups = []\<rparr>, cePoolBound = True,
     cePools = (\<lambda>_. ()), ceCoordinator = Some (newPoolCoordinatorDO 0 Map.empty None), ceReachable = True,
     ceTelemetry = \<lparr>tlPoints = [], tlFallback = [], tlErrors = []\<rparr>\<rparr>"

definition chat_payload :: js where
  "chat_payload = JObj [(''model'', JStr ''demo-1''), (''messages'', JArr [])]"

definition chat_ask :: "timestamp \<Rightarrow> string \<Rightarrow> ChatStep" where
  "chat_ask start i = \<lparr>csRequest = toy_request, csTrace = i, csStart = start, csNow = start, csUuid = i, csBody = chat_payload, csUsage = None\<rparr>"

lemma chat_cascade:
  "cascade_request i ''acme'' chat_payload = JObj
     [(''modelAlias'', JStr ''demo-1''), (''messages'', JArr []), (''stream'', JBool False), (''temperature'', JUndefined),
      (''maxTokens'', JUndefined), (''tools'', JUndefined), (''functions'', JUndefined), (''tool_choice'', JUndefined),
      (''function_call'', JUndefined), (''response_format'', JUndefined), (''estimatedPromptTokens'', JUndefined),
      (''headers'', JObj [(''x-kc-trace-id'', JStr i), (''x-kc-tenant-id'', JStr ''acme'')])]"
proof -
  have "model_alias chat_payload = ''demo-1''" "max_tokens chat_payload = None" "estimated_tokens chat_payload = None"
    unfolding chat_payload_def by code_simp+
  then show ?thesis
    by (simp add: cascade_request_def chat_payload_def Let_def opt_num_def js_truthy_def only_array_def)
qed

lemma chat_candidates:
  "resolveCandidates (cascade_request i ''acme'' chat_payload) CascadeProps.demo_context = Inr [normalizeModelDef demo_model]"
  unfolding chat_cascade by code_simp


lemma chat_routed:
  "\<exists>res. route (cdRouter chat_deps t) (cdAborted chat_deps) (cdIsAbort chat_deps) (cascade_request i ''acme'' chat_payload) () =
     (Inr res, ()) \<and> cvCost res = 5 \<and> cvModel res = normalizeModelDef demo_model \<and> cvUsage res = None"
proof -
  let ?cr = "demo_router (\<lambda>c s. (Inr priced_answer, s))" and ?req = "cascade_request i ''acme'' chat_payload"
  have "getCandidates ?cr ?req = resolveCandidates ?req CascadeProps.demo_context"
    by (simp add: getCandidates_def demo_router_def newCascadeRouter_def CascadeProps.demo_context_def)
  then have cs: "getCandidates ?cr ?req = Inr [normalizeModelDef demo_model]" by (simp add: chat_candidates)
  have "candidatesToTry (route_context ?cr (cdAborted chat_deps) (cdIsAbort chat_deps)) ?req [normalizeModelDef demo_model] =
      [normalizeModelDef demo_model]"
    by (simp add: candidatesToTry_def route_context_def demo_router_def newCascadeRouter_def chat_cascade)
  with cs show ?thesis
    by (simp add: route_def executeCascadeRouting_def chat_deps_def)
      (simp add: route_context_def demo_router_def newCascadeRouter_def acquire_key_def chat_cascade settled_cost_def
        priced_answer_def demo_answer_def record_success_def Let_def)
qed

lemma chat_found: "findByToken toy_subtle (\<lambda>_. None) ''k'' [chat_row] = Inr (Some (record_of (\<lambda>_. None) chat_row))"
  by (simp add: findByToken_def chat_row_def select_one_def map_row_def map_row_ok toy_row_def hashToken_def)

lemma chat_admitted:
  "\<exists>ctx a. authenticate toy_subtle (cdParse chat_deps) 1000 toy_request no_auth_options (ceAuth chat_env) = (Inr ctx, a) \<and>
     acTenantId ctx = ''acme''"
proof -
  let ?r = "record_of (\<lambda>_. None) chat_row"
  have tenant: "atTenant ?r = ''acme''" by (simp add: chat_row_def toy_row_def)
  have ask: "quota_ask toy_request no_auth_options ?r = quota_request toy_request no_auth_options ''acme'' (JBigInt 0)"
    by (simp add: quota_ask_def chat_row_def toy_row_def no_auth_options_def)
  obtain res where res: "fst (tq_consumeQuota 1000 (quota_ask toy_request no_auth_options ?r) tq_example) = Inr res" "cqAllowed res"
    using toy_admitted unfolding ask by (auto split: sum.splits)
  have "auth_gate 1000 no_auth_options ?r = None"
    by (simp add: auth_gate_None expired_def provider_allowed_def no_auth_options_def record_of_def chat_row_def toy_row_def truthy_str_def)
  then show ?thesis
    using res chat_found toy_token tenant
    by (cases "tq_consumeQuota 1000 (quota_ask toy_request no_auth_options ?r) tq_example")
      (simp add: authenticate_def auth_count_def chat_env_def chat_deps_def toy_env_def consume_rpc_eq record_context_def Let_def)
qed

lemma settle_pools_gates: "same_gates env (settle d kind now uuid x usage cost (env\<lparr>cePools := p\<rparr>))"
  using settle_gates [of "env\<lparr>cePools := p\<rparr>" d kind now uuid x usage cost] by (simp add: same_gates_def)

lemma chat_served:
  assumes "acTenantId ctx = ''acme''" "cePoolBound env" "ceCoordinator env = Some (newPoolCoordinatorDO 0 Map.empty None)"
  shows "\<exists>c env'. handleChatCompletions chat_deps ''a'' 1000 1000 ''a'' chat_payload ctx env = (Inr (Completion c), report_volume 1000 ''acme'' 1 env') \<and>
    same_gates env env' \<and> cpCost c = 5 \<and> cpModel c = '' Demo-1 '' \<and> cpProvider c = ''acme''"
proof -
  obtain r where r: "route (cdRouter chat_deps ''acme'') (cdAborted chat_deps) (cdIsAbort chat_deps) (cascade_request ''a'' ''acme'' chat_payload)
      (cePools env ''acme'') = (Inr r, ())" "cvCost r = 5" "cvModel r = normalizeModelDef demo_model" "cvUsage r = None"
    using chat_routed [of "''acme''" "''a''"] by auto
  have names: "mdId (normalizeModelDef demo_model) = '' Demo-1 ''" "mdProvider (normalizeModelDef demo_model) = ''acme''" by code_simp+
  have plain: "js_trim ''acme'' = ''acme''" "encodeURIComponent ''acme'' = ''acme''" by code_simp+
  have "\<not> brake_active 1000 ''acme'' env"
    using assms(3) plain
    by (simp add: brake_active_def brake_request_def pc_brakeStatus_def newPoolCoordinatorDO_def pc_initStorage_def)
  moreover have body: "js_get chat_payload ''messages'' = JArr []" "js_get chat_payload ''stream'' = JUndefined"
    by (simp_all add: chat_payload_def)
  moreover have "estimated_tokens chat_payload = None" unfolding chat_payload_def by code_simp
  moreover have pool: "getKeyPool ''acme'' env = (None :: (string, string) chat_error option)"
    using assms plain by (simp add: getKeyPool_def)
  ultimately show ?thesis
    using r assms(1) names
    by (auto simp: handleChatCompletions_def Let_def only_array_def respond_def js_truthy_def completion_of_def)
      (intro exI conjI, rule refl, rule settle_pools_gates)
qed

lemma chat_answered:
  "\<exists>c env'. chat_step toy_subtle chat_deps no_auth_options (chat_ask 1000 ''a'') chat_env = (Inr (Completion c), env') \<and>
     cpCost c = 5 \<and> cpModel c = '' Demo-1 '' \<and> cpProvider c = ''acme''"
proof -
  obtain ctx a where auth: "authenticate toy_subtle (cdParse chat_deps) 1000 toy_request no_auth_options (ceAuth chat_env) = (Inr ctx, a)"
    "acTenantId ctx = ''acme''" using chat_admitted by blast
  obtain c env' where "handleChatCompletions chat_deps ''a'' 1000 1000 ''a'' chat_payload ctx (chat_env\<lparr>ceAuth := a\<rparr>) =
      (Inr (Completion c), env')" "cpCost c = 5" "cpModel c = '' Demo-1 ''" "cpProvider c = ''acme''"
    using chat_served [OF auth(2), of "chat_env\<lparr>ceAuth := a\<rparr>"] by (auto simp: chat_env_def)
  with auth(1) show ?thesis by (simp add: chat_step_def completions_def chat_ask_def)
qed

lemma chat_tables: "aeDb (ceAuth chat_env) = Some [chat_row]" "table_ok [chat_row]" "trimmed_ids [chat_row]"
proof -
  have "js_trim ''acme'' = ''acme''" "js_trim ''t1'' = ''t1''" by code_simp+
  then show "aeDb (ceAuth chat_env) = Some [chat_row]" "table_ok [chat_row]" "trimmed_ids [chat_row]"
    by (simp_all add: chat_env_def trimmed_ids_def table_ok_def row_ok_def chat_row_def toy_row_def isValidRpmLimit_def MIN_RPM_LIMIT_def MAX_RPM_LIMIT_def)
qed


theorem books_balance_witness:
  "\<exists>c env'. chat_run toy_subtle chat_deps no_auth_options [chat_ask 1000 ''a''] chat_env = ([Inr (Completion c)], env') \<and>
     cpCost c = 5 \<and> spent_by ''acme'' env' = booked ''acme'' env'"
proof -
  obtain c env' where c: "chat_step toy_subtle chat_deps no_auth_options (chat_ask 1000 ''a'') chat_env = (Inr (Completion c), env')"
    "cpCost c = 5" "cpModel c = '' Demo-1 ''" "cpProvider c = ''acme''" using chat_answered by blast
  then have run: "chat_run toy_subtle chat_deps no_auth_options [chat_ask 1000 ''a''] chat_env = ([Inr (Completion c)], env')"
    by simp
  have trims: "js_trim ''a'' = ''a''" "js_trim '' Demo-1 '' = ''Demo-1''" "js_trim ''acme'' = ''acme''" by code_simp+
  have "spent_by ''acme'' env' - spent_by ''acme'' chat_env = booked ''acme'' env' - booked ''acme'' chat_env"
    by (rule books_balance [OF run chat_tables])
      (simp_all add: trims c billed_def named_def names_of_def chat_ask_def chat_env_def chat_row_def toy_row_def MAX_SAFE_INTEGER_def)
  moreover have "spent_by ''acme'' chat_env = 0" "booked ''acme'' chat_env = 0"
    by (simp_all add: spent_by_def booked_def chat_env_def chat_row_def toy_row_def)
  ultimately show ?thesis using run c(2) by auto
qed

theorem completion_isolation_witness:
  "\<exists>c env'. chat_step toy_subtle chat_deps no_auth_options (chat_ask 1000 ''a'') chat_env = (Inr (Completion c), env') \<and>
     own_part ''other'' (ceLedger env') = own_part ''other'' (ceLedger chat_env)"
proof -
  obtain c env' where c: "chat_step toy_subtle chat_deps no_auth_options (chat_ask 1000 ''a'') chat_env = (Inr (Completion c), env')"
    using chat_answered by blast
  obtain ctx a where auth: "authenticate toy_subtle (cdParse chat_deps) 1000 toy_request no_auth_options (ceAuth chat_env) = (Inr ctx, a)"
    "acTenantId ctx = ''acme''" using chat_admitted by blast
  have "js_trim ''acme'' = ''acme''" by code_simp
  then have "own_part ''other'' (ceLedger env') = own_part ''other'' (ceLedger chat_env)"
    using completion_isolation [OF _ c chat_tables(1, 2), of "Inr ctx" a "''other''"] auth by (simp add: chat_ask_def)
  with c show ?thesis by blast
qed

theorem overuse_stops_next_request_witness:
  "\<exists>ctx c env' env2. handleChatCompletions chat_deps ''a'' 1000 1000 ''a'' chat_payload ctx chat_env = (Inr (Completion c), env') \<and>
     ceCoordinator env2 = Some (fold watch [(2000, WatchRequest (ReportVolume ''other'' 99)), (30000, WatchAlarm), (40000, WatchEviction None)]
       (the (ceCoordinator env'))) \<and>
     handleChatCompletions chat_deps ''b'' 60999 60999 ''b'' chat_payload ctx env2 = (Inl (EmergencyBrake ''acme''), env2)"
proof -
  obtain ctx a where ctx: "authenticate toy_subtle (cdParse chat_deps) 1000 toy_request no_auth_options (ceAuth chat_env) = (Inr ctx, a)"
    "acTenantId ctx = ''acme''" using chat_admitted by blast
  obtain c env' where c: "handleChatCompletions chat_deps ''a'' 1000 1000 ''a'' chat_payload ctx chat_env =
      (Inr (Completion c), report_volume 1000 ''acme'' 1 env')" and gates: "same_gates chat_env env'"
    using chat_served [OF ctx(2), of chat_env] by (auto simp: chat_env_def)
  let ?env = "report_volume 1000 ''acme'' 1 env'"
  have "ceReachable env'" "ceCoordinator env' = Some (newPoolCoordinatorDO 0 Map.empty None)"
    using gates by (simp_all add: same_gates_def chat_env_def)
  then have vols: "tenantVolumes (the (ceCoordinator ?env)) = [(''acme'', [\<lparr>volAmount = 1, volTime = 1000\<rparr>])]"
    by (simp add: report_volume_def split_beta pc_reportVolume_def newPoolCoordinatorDO_def pc_initStorage_def fresh_volumes_def
        FIVE_MINUTES_def Let_def pc_putBrakes_def)
  have uri: "encodeURIComponent ''acme'' = ''acme''" by code_simp
  have sums: "pool_volume 1000 [(''acme'', [\<lparr>volAmount = 1, volTime = 1000\<rparr>])] = 1"
    "tenant_volume 1000 ''acme'' [(''acme'', [\<lparr>volAmount = 1, volTime = 1000\<rparr>])] = 1"
    by (simp_all add: pool_volume_def tenant_volume_def volume_sum_def fresh_volumes_def FIVE_MINUTES_def)
  let ?evs = "[(2000, WatchRequest (ReportVolume ''other'' 99)), (30000, WatchAlarm), (40000, WatchEviction None)]"
  let ?env2 = "?env\<lparr>ceCoordinator := Some (fold watch ?evs (the (ceCoordinator ?env)))\<rparr>"
  have start: "ceCoordinator chat_env = Some (newPoolCoordinatorDO 0 Map.empty None)"
    "activeBrakes (newPoolCoordinatorDO 0 Map.empty None) = []" "ceReachable chat_env"
    by (simp_all add: chat_env_def newPoolCoordinatorDO_def pc_initStorage_def)
  have env2: "ceReachable ?env2" "cePoolBound ?env2" "ceCoordinator ?env2 = Some (fold watch ?evs (the (ceCoordinator ?env)))"
    using gates by (simp_all add: same_gates_def chat_env_def report_volume_def)
  have "handleChatCompletions chat_deps ''b'' 60999 60999 ''b'' chat_payload ctx ?env2 = (Inl (EmergencyBrake ''acme''), ?env2)"
    using overuse_stops_next_request [OF c start(3, 1), of ctx chat_payload "[]" ?evs 60999 ?env2 chat_deps "''b''" 60999 "''b''"]
      ctx(2) uri env2 start(2)
    by (simp add: vols sums del: watch.simps fold_simps) (simp add: chat_payload_def)
  with c env2(3) show ?thesis by blast
qed

end
