(* ===== verification/ModelStore.thy ===== *)
theory ModelStore
  imports LedgerD1 RegistryProps AuthTokens
begin

text \<open>
  \<open>src/storage/repositories/model_registry/\<close>: models, prices and aliases as rows of a D1 table. Flags and
  costs are integer columns, aliases a JSON text. The tables keep their order where \<open>ORDER BY\<close> does not
  decide. A number handed in as a cost is an integer. \<open>tail\<close> says whether the database ignores what stands
  after the semicolon of a statement, which one query needs; otherwise it refuses the text.
\<close>

record ModelRegistryRow =
  mrId :: string
  mrProvider :: string
  mrAliases :: string
  mrContext :: int
  mrMaxOutput :: int
  mrInput :: int
  mrOutput :: int
  mrCacheRead :: int
  mrTools :: int
  mrVision :: int
  mrJson :: int
  mrDeprecated :: "string option"
  mrSunset :: "string option"
  mrActive :: int
  mrSynced :: string

type_synonym model_table = "ModelRegistryRow list"

datatype store_error = CostType | CostRange | StoredModelNotFound string | DuplicateModel string | StatementRefused

section \<open>Rows (mapper.ts)\<close>

definition toDbCost :: "js \<Rightarrow> store_error + int" where
  "toDbCost cost =
     (case cost of
        JUndefined \<Rightarrow> Inr 0
      | JNum n \<Rightarrow> Inr n
      | JBigInt n \<Rightarrow> (if n > MAX_SAFE_INTEGER \<or> n < - MAX_SAFE_INTEGER then Inl CostRange else Inr n)
      | _ \<Rightarrow> Inl CostType)"

definition parseAliases :: "(string \<Rightarrow> js option) \<Rightarrow> string \<Rightarrow> string list" where
  "parseAliases parse raw =
     (case parse raw of
        Some (JArr xs) \<Rightarrow> filter (\<lambda>a. a \<noteq> []) (map (js_trim \<circ> js_string) xs)
      | _ \<Rightarrow> [])"

definition rowToModelDef :: "(string \<Rightarrow> js option) \<Rightarrow> ModelRegistryRow \<Rightarrow> ModelDef" where
  "rowToModelDef parse row =
     \<lparr>mdId = mrId row, mdProvider = mrProvider row, logicalAliases = parseAliases parse (mrAliases row),
      contextWindow = mrContext row, maxOutputTokens = mrMaxOutput row,
      inputCostPerMTokMicro = mrInput row, outputCostPerMTokMicro = mrOutput row,
      cacheReadCostPerMTokMicro = mrCacheRead row, supportsTools = (mrTools row = 1),
      supportsVision = (mrVision row = 1), supportsJsonSchema = (mrJson row = 1),
      deprecatedAt = mrDeprecated row, sunsetAt = mrSunset row, mdIsActive = (mrActive row = 1),
      lastSyncedAt = Some (mrSynced row)\<rparr>"

definition sql_flag :: "bool \<Rightarrow> int" where
  "sql_flag b = (if b then 1 else 0)"

definition alias_text :: "string list \<Rightarrow> string" where
  "alias_text as = the (json (JArr (map JStr as)))"

definition buildParamValues :: "string \<Rightarrow> RawModelDef \<Rightarrow> store_error + ModelRegistryRow" where
  "buildParamValues now m =
     (case toDbCost (rmInputCost m) of
        Inl e \<Rightarrow> Inl e
      | Inr i \<Rightarrow>
          (case toDbCost (rmOutputCost m) of
             Inl e \<Rightarrow> Inl e
           | Inr out \<Rightarrow>
               (case toDbCost (rmCacheReadCost m) of
                  Inl e \<Rightarrow> Inl e
                | Inr cache \<Rightarrow>
                    Inr \<lparr>mrId = rmId m, mrProvider = rmProvider m, mrAliases = alias_text (first_some (rmAliases m) []),
                      mrContext = rmContextWindow m, mrMaxOutput = rmMaxOutputTokens m,
                      mrInput = i, mrOutput = out, mrCacheRead = cache,
                      mrTools = sql_flag (rmTools m), mrVision = sql_flag (rmVision m), mrJson = sql_flag (rmJsonSchema m),
                      mrDeprecated = rmDeprecatedAt m, mrSunset = rmSunsetAt m,
                      mrActive = sql_flag (rmIsActive m \<noteq> Some False),
                      mrSynced = first_some (rmLastSyncedAt m) now\<rparr>)))"

section \<open>\<open>LIKE\<close>\<close>

text \<open>\<open>LIKE\<close> with \<open>ESCAPE '\'\<close> takes ASCII letters of either case for the same.\<close>

fun sql_like :: "string \<Rightarrow> string \<Rightarrow> bool" where
  "sql_like [] t = (t = [])"
| "sql_like (c # p) t =
     (if c = CHR ''%'' then sql_like p t \<or> (case t of [] \<Rightarrow> False | _ # u \<Rightarrow> sql_like (c # p) u)
      else if code_of c = 92 then
        (case p of [] \<Rightarrow> False
         | d # q \<Rightarrow> (case t of [] \<Rightarrow> False | x # u \<Rightarrow> lower_char x = lower_char d \<and> sql_like q u))
      else (case t of [] \<Rightarrow> False | x # u \<Rightarrow> (c = CHR ''_'' \<or> lower_char x = lower_char c) \<and> sql_like p u))"

definition escape_like :: "string \<Rightarrow> string" where
  "escape_like s = concat (map (\<lambda>c. if c \<in> {CHR ''%'', CHR ''_''} \<or> code_of c = 92 then [char_of (92 :: nat), c] else [c]) s)"

definition like_pattern :: "string \<Rightarrow> string" where
  "like_pattern s = ''%\"'' @ escape_like s @ ''\"%''"

section \<open>Look-up (repository.ts)\<close>

definition find_model :: "(string \<Rightarrow> js option) \<Rightarrow> string \<Rightarrow> model_table \<Rightarrow> ModelDef option" where
  "find_model parse i t = map_option (rowToModelDef parse) (find (\<lambda>r. mrId r = i) t)"

definition get_model :: "(string \<Rightarrow> js option) \<Rightarrow> string \<Rightarrow> model_table \<Rightarrow> store_error + ModelDef" where
  "get_model parse i t = (case find_model parse i t of Some m \<Rightarrow> Inr m | None \<Rightarrow> Inl (StoredModelNotFound i))"

definition findAllByAlias ::
  "(string \<Rightarrow> js option) \<Rightarrow> bool \<Rightarrow> string \<Rightarrow> bool \<Rightarrow> model_table \<Rightarrow> store_error + ModelDef list" where
  "findAllByAlias parse tail a onlyActive t =
     (let cleanAlias = js_trim a in
      if cleanAlias = [] then Inr []
      else if \<not> tail then Inl StatementRefused
      else Inr (filter (\<lambda>m. cleanAlias \<in> set (logicalAliases m))
             (map (rowToModelDef parse) (filter (\<lambda>r. sql_like (like_pattern cleanAlias) (mrAliases r)) t))))"

definition findByAlias ::
  "(string \<Rightarrow> js option) \<Rightarrow> bool \<Rightarrow> string \<Rightarrow> bool \<Rightarrow> model_table \<Rightarrow> store_error + ModelDef option" where
  "findByAlias parse tail a onlyActive t =
     map_sum id (\<lambda>ms. if ms = [] then None else Some (hd ms)) (findAllByAlias parse tail a onlyActive t)"

definition resolve_stored_model ::
  "(string \<Rightarrow> js option) \<Rightarrow> bool \<Rightarrow> string \<Rightarrow> bool \<Rightarrow> model_table \<Rightarrow> store_error + ModelDef option" where
  "resolve_stored_model parse tail idOrAlias onlyActive t =
     (let c = js_trim idOrAlias in
      if c = [] then Inr None
      else case find_model parse c t of
        Some m \<Rightarrow> Inr (if \<not> onlyActive \<or> mdIsActive m then Some m else None)
      | None \<Rightarrow> findByAlias parse tail c onlyActive t)"

definition getResolvedModel ::
  "(string \<Rightarrow> js option) \<Rightarrow> bool \<Rightarrow> string \<Rightarrow> bool \<Rightarrow> model_table \<Rightarrow> store_error + ModelDef" where
  "getResolvedModel parse tail idOrAlias onlyActive t =
     (case resolve_stored_model parse tail idOrAlias onlyActive t of
        Inl e \<Rightarrow> Inl e
      | Inr None \<Rightarrow> Inl (StoredModelNotFound idOrAlias)
      | Inr (Some m) \<Rightarrow> Inr m)"

section \<open>Lists (repository.ts)\<close>

datatype model_order = ById | ByInputCost | ByContextWindow

record ModelFilterOptions =
  mfProvider :: "string option"
  mfActive :: "bool option"
  mfTools :: "bool option"
  mfVision :: "bool option"
  mfJson :: "bool option"
  mfMinContext :: "int option"
  mfMaxCost :: "js option"
  mfOrder :: model_order
  mfDescending :: bool
  mfLimit :: "int option"
  mfOffset :: "int option"

definition no_filter :: ModelFilterOptions where
  "no_filter = \<lparr>mfProvider = None, mfActive = None, mfTools = None, mfVision = None, mfJson = None, mfMinContext = None,
     mfMaxCost = None, mfOrder = ById, mfDescending = False, mfLimit = None, mfOffset = None\<rparr>"

text \<open>A condition that is added only for an option that is given.\<close>

definition wanted :: "('a \<Rightarrow> bool) \<Rightarrow> 'a option \<Rightarrow> bool" where
  "wanted P v \<longleftrightarrow> (case v of None \<Rightarrow> True | Some x \<Rightarrow> P x)"

definition cost_bound :: "js option \<Rightarrow> store_error + int option" where
  "cost_bound v = (case v of None \<Rightarrow> Inr None | Some c \<Rightarrow> map_sum id Some (toDbCost c))"

definition matches_filter :: "ModelFilterOptions \<Rightarrow> int option \<Rightarrow> ModelRegistryRow \<Rightarrow> bool" where
  "matches_filter f bound r \<longleftrightarrow>
     wanted (\<lambda>p. p = [] \<or> mrProvider r = p) (mfProvider f) \<and>
     wanted (\<lambda>b. mrActive r = sql_flag b) (mfActive f) \<and>
     wanted (\<lambda>b. mrTools r = sql_flag b) (mfTools f) \<and>
     wanted (\<lambda>b. mrVision r = sql_flag b) (mfVision f) \<and>
     wanted (\<lambda>b. mrJson r = sql_flag b) (mfJson f) \<and>
     wanted (\<lambda>n. mrContext r \<ge> n) (mfMinContext f) \<and>
     wanted (\<lambda>n. mrInput r \<le> n) bound"

definition model_rows_ordered :: "model_order \<Rightarrow> bool \<Rightarrow> model_table \<Rightarrow> model_table" where
  "model_rows_ordered ord desc t =
     (case ord of
        ById \<Rightarrow> if desc then rev (sort_key mrId (rev t)) else sort_key mrId t
      | ByInputCost \<Rightarrow> sort_key (\<lambda>r. if desc then - mrInput r else mrInput r) t
      | ByContextWindow \<Rightarrow> sort_key (\<lambda>r. if desc then - mrContext r else mrContext r) t)"

text \<open>\<open>LIMIT\<close>, negative for none, and \<open>OFFSET\<close>, which is given only with a limit.\<close>

definition model_page :: "int option \<Rightarrow> int option \<Rightarrow> 'a list \<Rightarrow> 'a list" where
  "model_page limit offset rows =
     (case limit of
        None \<Rightarrow> rows
      | Some l \<Rightarrow>
          let rest = drop (nat (first_some offset 0)) rows in if l < 0 then rest else take (nat l) rest)"

definition listAll :: "(string \<Rightarrow> js option) \<Rightarrow> ModelFilterOptions \<Rightarrow> model_table \<Rightarrow> store_error + ModelDef list" where
  "listAll parse f t =
     map_sum id
       (\<lambda>bound. map (rowToModelDef parse) (model_page (mfLimit f) (mfOffset f)
          (model_rows_ordered (mfOrder f) (mfDescending f) (filter (matches_filter f bound) t))))
       (cost_bound (mfMaxCost f))"

definition listActive :: "(string \<Rightarrow> js option) \<Rightarrow> string option \<Rightarrow> model_table \<Rightarrow> store_error + ModelDef list" where
  "listActive parse prov t = listAll parse (no_filter\<lparr>mfActive := Some True, mfProvider := prov\<rparr>) t"

record ModelCapabilitiesFilter =
  mcTools :: bool
  mcVision :: bool
  mcJson :: bool
  mcMinContext :: "int option"
  mcPromptTokens :: "int option"
  mcProvider :: "string option"
  mcMaxCost :: "js option"
  mcOnlyActive :: "bool option"

definition compatible_row :: "ModelCapabilitiesFilter \<Rightarrow> int option \<Rightarrow> ModelRegistryRow \<Rightarrow> bool" where
  "compatible_row f bound r \<longleftrightarrow>
     (first_some (mcOnlyActive f) True \<longrightarrow> mrActive r = 1) \<and>
     (mcTools f \<longrightarrow> mrTools r = 1) \<and> (mcVision f \<longrightarrow> mrVision r = 1) \<and> (mcJson f \<longrightarrow> mrJson r = 1) \<and>
     wanted (\<lambda>n. mrContext r \<ge> n) (mcMinContext f) \<and> wanted (\<lambda>n. mrContext r \<ge> n) (mcPromptTokens f) \<and>
     wanted (\<lambda>n. mrInput r \<le> n) bound \<and> wanted (\<lambda>p. p = [] \<or> mrProvider r = p) (mcProvider f)"

definition findCompatible ::
  "(string \<Rightarrow> js option) \<Rightarrow> ModelCapabilitiesFilter \<Rightarrow> model_table \<Rightarrow> store_error + ModelDef list" where
  "findCompatible parse f t =
     map_sum id
       (\<lambda>bound. map (rowToModelDef parse) (model_rows_ordered ByInputCost False (filter (compatible_row f bound) t)))
       (cost_bound (mcMaxCost f))"

definition count_models :: "string option \<Rightarrow> bool option \<Rightarrow> model_table \<Rightarrow> nat" where
  "count_models prov active t =
     length (filter (matches_filter (no_filter\<lparr>mfProvider := prov, mfActive := active\<rparr>) None) t)"

definition stored_alias_map :: "(string \<Rightarrow> js option) \<Rightarrow> bool \<Rightarrow> model_table \<Rightarrow> store_error + (string, string) jsmap" where
  "stored_alias_map parse onlyActive t =
     map_sum id
       (\<lambda>models. fold (\<lambda>m aliases. fold (\<lambda>a am. if map_of am a = None then am @ [(a, mdId m)] else am) (logicalAliases m) aliases)
          models [])
       (listAll parse (no_filter\<lparr>mfActive := (if onlyActive then Some True else None), mfOrder := ByInputCost\<rparr>) t)"

section \<open>Changes (repository.ts)\<close>

definition put_row :: "ModelRegistryRow \<Rightarrow> model_table \<Rightarrow> model_table" where
  "put_row row t =
     (if mrId row \<in> mrId ` set t then map (\<lambda>r. if mrId r = mrId row then row else r) t else t @ [row])"

definition create_model ::
  "(string \<Rightarrow> js option) \<Rightarrow> string \<Rightarrow> RawModelDef \<Rightarrow> model_table \<Rightarrow> (store_error + ModelDef) \<times> model_table" where
  "create_model parse now m t =
     (case buildParamValues now m of
        Inl e \<Rightarrow> (Inl e, t)
      | Inr row \<Rightarrow>
          if mrId row \<in> mrId ` set t then (Inl (DuplicateModel (mrId row)), t)
          else (get_model parse (rmId m) (t @ [row]), t @ [row]))"

definition upsert_model ::
  "(string \<Rightarrow> js option) \<Rightarrow> string \<Rightarrow> RawModelDef \<Rightarrow> model_table \<Rightarrow> (store_error + ModelDef) \<times> model_table" where
  "upsert_model parse now m t =
     (case buildParamValues now m of
        Inl e \<Rightarrow> (Inl e, t)
      | Inr row \<Rightarrow> (get_model parse (rmId m) (put_row row t), put_row row t))"

record ModelUpdates =
  upProvider :: "string option"
  upAliases :: "string list option"
  upContext :: "int option"
  upMaxOutput :: "int option"
  upInput :: js
  upOutput :: js
  upCacheRead :: js
  upTools :: "bool option"
  upVision :: "bool option"
  upJson :: "bool option"
  upDeprecated :: "string option option"
  upSunset :: "string option option"
  upActive :: "bool option"
  upSynced :: "string option"

text \<open>The new value of a cost column; \<open>undefined\<close> leaves it.\<close>

definition new_cost :: "js \<Rightarrow> int \<Rightarrow> store_error + int" where
  "new_cost v old = (if v = JUndefined then Inr old else toDbCost v)"

definition updated_row :: "string \<Rightarrow> ModelUpdates \<Rightarrow> ModelRegistryRow \<Rightarrow> store_error + ModelRegistryRow" where
  "updated_row now u r =
     (case new_cost (upInput u) (mrInput r) of
        Inl e \<Rightarrow> Inl e
      | Inr i \<Rightarrow>
          (case new_cost (upOutput u) (mrOutput r) of
             Inl e \<Rightarrow> Inl e
           | Inr out \<Rightarrow>
               (case new_cost (upCacheRead u) (mrCacheRead r) of
                  Inl e \<Rightarrow> Inl e
                | Inr cache \<Rightarrow>
                    Inr \<lparr>mrId = mrId r, mrProvider = first_some (upProvider u) (mrProvider r),
                      mrAliases = (case upAliases u of Some as \<Rightarrow> alias_text as | None \<Rightarrow> mrAliases r),
                      mrContext = first_some (upContext u) (mrContext r), mrMaxOutput = first_some (upMaxOutput u) (mrMaxOutput r),
                      mrInput = i, mrOutput = out, mrCacheRead = cache,
                      mrTools = (case upTools u of Some b \<Rightarrow> sql_flag b | None \<Rightarrow> mrTools r),
                      mrVision = (case upVision u of Some b \<Rightarrow> sql_flag b | None \<Rightarrow> mrVision r),
                      mrJson = (case upJson u of Some b \<Rightarrow> sql_flag b | None \<Rightarrow> mrJson r),
                      mrDeprecated = first_some (upDeprecated u) (mrDeprecated r), mrSunset = first_some (upSunset u) (mrSunset r),
                      mrActive = (case upActive u of Some b \<Rightarrow> sql_flag b | None \<Rightarrow> mrActive r),
                      mrSynced = first_some (upSynced u) now\<rparr>)))"

definition update_model ::
  "(string \<Rightarrow> js option) \<Rightarrow> string \<Rightarrow> string \<Rightarrow> ModelUpdates \<Rightarrow> model_table \<Rightarrow> (store_error + ModelDef option) \<times> model_table" where
  "update_model parse now i u t =
     (case find (\<lambda>r. mrId r = i) t of
        None \<Rightarrow> (Inr None, t)
      | Some r \<Rightarrow>
          (case updated_row now u r of
             Inl e \<Rightarrow> (Inl e, t)
           | Inr row \<Rightarrow> (map_sum id Some (get_model parse i (put_row row t)), put_row row t)))"

text \<open>An \<open>UPDATE\<close> or \<open>DELETE\<close> by id, and whether it changed a row.\<close>

definition change_model :: "string \<Rightarrow> (ModelRegistryRow \<Rightarrow> ModelRegistryRow) \<Rightarrow> model_table \<Rightarrow> bool \<times> model_table" where
  "change_model i f t = (i \<in> mrId ` set t, map (\<lambda>r. if mrId r = i then f r else r) t)"

definition delete_model :: "string \<Rightarrow> model_table \<Rightarrow> bool \<times> model_table" where
  "delete_model i t = (i \<in> mrId ` set t, filter (\<lambda>r. mrId r \<noteq> i) t)"

definition setActiveStatus :: "string \<Rightarrow> string \<Rightarrow> bool \<Rightarrow> string option \<Rightarrow> model_table \<Rightarrow> bool \<times> model_table" where
  "setActiveStatus now i active sunset t =
     change_model i (\<lambda>r. r\<lparr>mrActive := sql_flag active, mrSunset := (if sunset \<noteq> None then sunset else mrSunset r), mrSynced := now\<rparr>) t"

definition deprecate :: "string \<Rightarrow> string \<Rightarrow> string option \<Rightarrow> string option \<Rightarrow> model_table \<Rightarrow> bool \<times> model_table" where
  "deprecate now i since sunset t =
     change_model i (\<lambda>r. r\<lparr>mrDeprecated := Some (first_some since now),
       mrSunset := (if sunset \<noteq> None then sunset else mrSunset r), mrSynced := now\<rparr>) t"

text \<open>All statements are bound before the batch runs.\<close>

fun bound_rows :: "string \<Rightarrow> RawModelDef list \<Rightarrow> store_error + ModelRegistryRow list" where
  "bound_rows now [] = Inr []"
| "bound_rows now (m # ms) =
     (case buildParamValues now m of
        Inl e \<Rightarrow> Inl e
      | Inr row \<Rightarrow> map_sum id (Cons row) (bound_rows now ms))"

definition bulkUpsert :: "string \<Rightarrow> RawModelDef list \<Rightarrow> model_table \<Rightarrow> (store_error + nat) \<times> model_table" where
  "bulkUpsert now ms t =
     (case bound_rows now ms of
        Inl e \<Rightarrow> (Inl e, t)
      | Inr rows \<Rightarrow> (Inr (length ms), fold put_row rows t))"

section \<open>Lemmas: \<open>LIKE\<close>\<close>

lemma like_any: "sql_like (CHR ''%'' # p) t \<longleftrightarrow> (\<exists>u v. t = u @ v \<and> sql_like p v)"
proof (induction t)
  case (Cons x t)
  have "(\<exists>u v. x # t = u @ v \<and> sql_like p v) \<longleftrightarrow> sql_like p (x # t) \<or> (\<exists>u v. t = u @ v \<and> sql_like p v)"
    by (metis (no_types, lifting) append_Cons append_Nil append_eq_Cons_conv)
  with Cons show ?case by simp
qed simp

lemma like_char:
  assumes "c \<noteq> CHR ''%''" "c \<noteq> CHR ''_''" "code_of c \<noteq> 92"
  shows "sql_like (c # p) t \<longleftrightarrow> (\<exists>x u. t = x # u \<and> lower_char x = lower_char c \<and> sql_like p u)"
  using assms by (cases t) auto

lemma backslash: "char_of (92 :: nat) \<noteq> CHR ''%''" "code_of (char_of (92 :: nat)) = 92"
  by code_simp simp

lemma like_escaped:
  "sql_like (char_of (92 :: nat) # c # p) t \<longleftrightarrow> (\<exists>x u. t = x # u \<and> lower_char x = lower_char c \<and> sql_like p u)"
  by (cases t) (simp_all add: backslash)

lemma like_rest [simp]: "sql_like [CHR ''%''] t"
  by (subst like_any) simp

lemma lower_Cons: "js_lower u = js_lower (c # s) \<longleftrightarrow> (\<exists>x w. u = x # w \<and> lower_char x = lower_char c \<and> js_lower w = js_lower s)"
  by (auto simp: js_lower_def map_eq_Cons_conv)

lemma lower_append: "js_lower (a @ b) = js_lower a @ js_lower b"
  by (simp add: js_lower_def)

lemma like_text: "sql_like (escape_like s @ p) t \<longleftrightarrow> (\<exists>u v. t = u @ v \<and> js_lower u = js_lower s \<and> sql_like p v)"
proof (induction s arbitrary: t)
  case Nil
  then show ?case by (simp add: escape_like_def js_lower_def)
next
  case (Cons c s)
  have "sql_like (escape_like (c # s) @ p) t \<longleftrightarrow> (\<exists>x u. t = x # u \<and> lower_char x = lower_char c \<and> sql_like (escape_like s @ p) u)"
  proof (cases "c \<in> {CHR ''%'', CHR ''_''} \<or> code_of c = 92")
    case True
    then show ?thesis using like_escaped [of c "escape_like s @ p" t] by (simp add: escape_like_def)
  next
    case False
    then show ?thesis using like_char [of c "escape_like s @ p" t] by (simp add: escape_like_def)
  qed
  also have "\<dots> \<longleftrightarrow> (\<exists>u v. t = u @ v \<and> js_lower u = js_lower (c # s) \<and> sql_like p v)"
    unfolding Cons.IH lower_Cons by (metis append_Cons)
  finally show ?case .
qed

lemma includes_lower: "str_includes (js_lower t) (js_lower q) \<longleftrightarrow> (\<exists>u w v. t = u @ w @ v \<and> js_lower w = js_lower q)"
proof
  assume "str_includes (js_lower t) (js_lower q)"
  then obtain a b where "map lower_char t = a @ js_lower q @ b" by (auto simp: str_includes_iff js_lower_def)
  then obtain u r where r: "t = u @ r" "js_lower q @ b = map lower_char r" unfolding map_eq_append_conv by metis
  then obtain w v where "r = w @ v" "js_lower w = js_lower q" unfolding append_eq_map_conv js_lower_def by metis
  with r(1) show "\<exists>u w v. t = u @ w @ v \<and> js_lower w = js_lower q" by blast
next
  assume "\<exists>u w v. t = u @ w @ v \<and> js_lower w = js_lower q"
  then show "str_includes (js_lower t) (js_lower q)" unfolding str_includes_iff by (metis lower_append)
qed

lemma like_pattern_iff:
  "sql_like (like_pattern s) t \<longleftrightarrow> str_includes (js_lower t) (js_lower (''\"'' @ s @ ''\"''))"
proof -
  have quote: "sql_like (CHR ''\"'' # p) u \<longleftrightarrow> (\<exists>x v. u = x # v \<and> lower_char x = lower_char CHR ''\"'' \<and> sql_like p v)" for p u
    by (rule like_char) (simp_all, code_simp?)
  have pattern: "like_pattern s = CHR ''%'' # CHR ''\"'' # escape_like s @ [CHR ''\"'', CHR ''%'']"
    by (simp add: like_pattern_def)
  have around: "js_lower w = js_lower (''\"'' @ s @ ''\"'') \<longleftrightarrow>
      (\<exists>x u y. w = x # u @ [y] \<and> lower_char x = lower_char CHR ''\"'' \<and> js_lower u = js_lower s \<and> lower_char y = lower_char CHR ''\"'')" (is "?l w \<longleftrightarrow> ?r w") for w
  proof
    show "?l w \<Longrightarrow> ?r w" by (fastforce simp: js_lower_def map_eq_Cons_conv map_eq_append_conv)
    show "?r w \<Longrightarrow> ?l w" by (auto simp: js_lower_def)
  qed
  have "sql_like (like_pattern s) t \<longleftrightarrow>
      (\<exists>u x w y v. t = u @ x # w @ y # v \<and> lower_char x = lower_char CHR ''\"'' \<and> js_lower w = js_lower s \<and>
        lower_char y = lower_char CHR ''\"'')"
  proof
    assume "sql_like (like_pattern s) t"
    then show "\<exists>u x w y v. t = u @ x # w @ y # v \<and> lower_char x = lower_char CHR ''\"'' \<and> js_lower w = js_lower s \<and>
        lower_char y = lower_char CHR ''\"''"
      unfolding pattern like_any quote like_text by (elim exE conjE) (simp del: sql_like.simps, blast)
  next
    assume "\<exists>u x w y v. t = u @ x # w @ y # v \<and> lower_char x = lower_char CHR ''\"'' \<and> js_lower w = js_lower s \<and>
        lower_char y = lower_char CHR ''\"''"
    then obtain u x w y v where t: "t = u @ x # w @ y # v" "lower_char x = lower_char CHR ''\"''" "js_lower w = js_lower s"
      "lower_char y = lower_char CHR ''\"''" by blast
    have "sql_like [CHR ''\"'', CHR ''%''] (y # v)" using t(4) like_rest quote by blast
    then have "sql_like (escape_like s @ [CHR ''\"'', CHR ''%'']) (w @ y # v)" unfolding like_text using t(3) by blast
    then have "sql_like (CHR ''\"'' # escape_like s @ [CHR ''\"'', CHR ''%'']) (x # w @ y # v)" using t(2) quote by blast
    then show "sql_like (like_pattern s) t" unfolding pattern like_any t(1) by blast
  qed
  also have "\<dots> \<longleftrightarrow> (\<exists>u w v. t = u @ w @ v \<and> js_lower w = js_lower (''\"'' @ s @ ''\"''))"
    unfolding around
  proof (intro iffI; elim exE conjE)
    fix u x w y v
    assume "t = u @ x # w @ y # v" "lower_char x = lower_char CHR ''\"''" "js_lower w = js_lower s"
      "lower_char y = lower_char CHR ''\"''"
    then show "\<exists>u w v. t = u @ w @ v \<and> (\<exists>x w' y. w = x # w' @ [y] \<and> lower_char x = lower_char CHR ''\"'' \<and>
        js_lower w' = js_lower s \<and> lower_char y = lower_char CHR ''\"'')"
      by (intro exI [of _ u] exI [of _ "x # w @ [y]"] exI [of _ v]) simp
  next
    fix u w v x w' y
    assume "t = u @ w @ v" "w = x # w' @ [y]" "lower_char x = lower_char CHR ''\"''" "js_lower w' = js_lower s"
      "lower_char y = lower_char CHR ''\"''"
    then show "\<exists>u x w y v. t = u @ x # w @ y # v \<and> lower_char x = lower_char CHR ''\"'' \<and> js_lower w = js_lower s \<and>
        lower_char y = lower_char CHR ''\"''"
      by (intro exI [of _ u] exI [of _ x] exI [of _ w'] exI [of _ y] exI [of _ v]) simp
  qed
  also have "\<dots> \<longleftrightarrow> str_includes (js_lower t) (js_lower (''\"'' @ s @ ''\"''))"
    by (rule includes_lower [symmetric])
  finally show ?thesis .
qed

section \<open>Lemmas: rows\<close>

lemma bound_id: "buildParamValues now m = Inr row \<Longrightarrow> mrId row = rmId m"
  by (auto simp: buildParamValues_def split: sum.splits)

lemma bound_row:
  assumes "buildParamValues now m = Inr row" "parse (mrAliases row) = Some (JArr (map JStr (first_some (rmAliases m) [])))"
  shows "rowToModelDef parse row = (normalizeModelDef m)\<lparr>lastSyncedAt := Some (first_some (rmLastSyncedAt m) now)\<rparr>"
proof -
  have cost: "toDbCost v = Inr n \<Longrightarrow> toBigIntMicro v 0 = n" for v n
    by (auto simp: toDbCost_def toBigIntMicro_def split: js.splits if_splits)
  have active: "sql_flag (rmIsActive m \<noteq> Some False) = 1 \<longleftrightarrow> first_some (rmIsActive m) True"
    by (cases "rmIsActive m") (auto simp: sql_flag_def)
  have flag: "sql_flag b = 1 \<longleftrightarrow> b" for b by (simp add: sql_flag_def)
  have trim: "js_trim \<circ> (js_string \<circ> JStr) = js_trim" by (simp add: fun_eq_iff)
  obtain i ocost cache where costs: "toDbCost (rmInputCost m) = Inr i" "toDbCost (rmOutputCost m) = Inr ocost"
    "toDbCost (rmCacheReadCost m) = Inr cache"
    using assms(1) by (auto simp: buildParamValues_def split: sum.splits)
  with assms(1) have row: "row = \<lparr>mrId = rmId m, mrProvider = rmProvider m, mrAliases = alias_text (first_some (rmAliases m) []),
      mrContext = rmContextWindow m, mrMaxOutput = rmMaxOutputTokens m, mrInput = i, mrOutput = ocost, mrCacheRead = cache,
      mrTools = sql_flag (rmTools m), mrVision = sql_flag (rmVision m), mrJson = sql_flag (rmJsonSchema m),
      mrDeprecated = rmDeprecatedAt m, mrSunset = rmSunsetAt m, mrActive = sql_flag (rmIsActive m \<noteq> Some False),
      mrSynced = first_some (rmLastSyncedAt m) now\<rparr>"
    by (simp add: buildParamValues_def)
  have aliases: "parseAliases parse (mrAliases row) = filter (\<lambda>a. a \<noteq> []) (map js_trim (first_some (rmAliases m) []))"
    by (simp add: parseAliases_def assms(2) comp_assoc trim)
  show "rowToModelDef parse row = (normalizeModelDef m)\<lparr>lastSyncedAt := Some (first_some (rmLastSyncedAt m) now)\<rparr>"
    using costs [THEN cost] aliases active flag by (simp add: rowToModelDef_def normalizeModelDef_def row)
qed

lemma put_row_keys: "set (map mrId (put_row row t)) = insert (mrId row) (set (map mrId t))"
  "distinct (map mrId t) \<Longrightarrow> distinct (map mrId (put_row row t))"
proof -
  have same: "map mrId (map (\<lambda>r. if mrId r = mrId row then row else r) t) = map mrId t" by (induction t) auto
  show "set (map mrId (put_row row t)) = insert (mrId row) (set (map mrId t))"
    by (auto simp: put_row_def image_iff)
  show "distinct (map mrId t) \<Longrightarrow> distinct (map mrId (put_row row t))"
    by (simp add: put_row_def same del: map_map)
qed

lemma find_put: "find (\<lambda>r. mrId r = i) (put_row row t) = (if i = mrId row then Some row else find (\<lambda>r. mrId r = i) t)"
proof -
  have "find (\<lambda>r. mrId r = i) (map (\<lambda>r. if mrId r = mrId row then row else r) t) =
      (if i = mrId row then (if i \<in> mrId ` set t then Some row else None) else find (\<lambda>r. mrId r = i) t)"
    by (induction t) auto
  moreover have "find (\<lambda>r. mrId r = i) (t @ [row]) =
      (if i \<in> mrId ` set t then find (\<lambda>r. mrId r = i) t else if i = mrId row then Some row else None)"
    by (induction t) auto
  moreover have "i \<notin> mrId ` set t \<Longrightarrow> find (\<lambda>r. mrId r = i) t = None" by (auto simp: find_None_iff)
  ultimately show ?thesis by (auto simp: put_row_def)
qed

text \<open>Ids stay unique under every change.\<close>

lemma changes_keep_ids:
  assumes "distinct (map mrId t)"
  shows "distinct (map mrId (snd (create_model parse now m t)))" "distinct (map mrId (snd (upsert_model parse now m t)))"
    "distinct (map mrId (snd (update_model parse now i u t)))" "distinct (map mrId (snd (delete_model i t)))"
    "distinct (map mrId (snd (setActiveStatus now i b e t)))" "distinct (map mrId (snd (deprecate now i d e t)))"
    "distinct (map mrId (snd (bulkUpsert now ms t)))"
proof -
  have change: "map mrId (map (\<lambda>r. if mrId r = i then f r else r) t) = map mrId t" if "\<And>r. mrId (f r) = mrId r" for f
    using that by (induction t) auto
  have put: "distinct (map mrId (fold put_row rows t'))" if "distinct (map mrId t')" for rows t'
    using that by (induction rows arbitrary: t') (simp_all add: put_row_keys)
  show "distinct (map mrId (snd (create_model parse now m t)))"
    using assms by (auto simp: create_model_def split: sum.splits)
  show "distinct (map mrId (snd (upsert_model parse now m t)))"
    using assms by (auto simp: upsert_model_def put_row_keys simp del: map_map split: sum.splits)
  show "distinct (map mrId (snd (update_model parse now i u t)))"
    using assms by (auto simp: update_model_def put_row_keys split: sum.splits option.splits)
  show "distinct (map mrId (snd (delete_model i t)))"
    using assms by (simp add: delete_model_def distinct_map_filter)
  show "distinct (map mrId (snd (setActiveStatus now i b e t)))" "distinct (map mrId (snd (deprecate now i d e t)))"
    using assms by (simp_all add: setActiveStatus_def deprecate_def change_model_def change del: map_map)
  show "distinct (map mrId (snd (bulkUpsert now ms t)))"
    using assms put by (auto simp: bulkUpsert_def split: sum.splits)
qed

section \<open>Lemmas: aliases\<close>

lemma join_member: "x \<in> set xs \<Longrightarrow> \<exists>u v. join sep xs = u @ x @ v"
proof (induction sep xs rule: join.induct)
  case (2 sep y)
  then show ?case by (intro exI [of _ "[]"]) simp
next
  case (3 sep x' y zs)
  show ?case
  proof (cases "x = x'")
    case True
    then have "join sep (x' # y # zs) = [] @ x @ (sep @ join sep (y # zs))" by simp
    then show ?thesis by blast
  next
    case False
    with 3 obtain u v where "join sep (y # zs) = u @ x @ v" by auto
    then show ?thesis by (intro exI [of _ "x' @ sep @ u"] exI [of _ v]) simp
  qed
qed simp

lemma alias_texts: "alias_text as = ''['' @ join '','' (map json_string as) @ '']''"
proof -
  have "those (map json (map JStr as)) = Some (map json_string as)" by (induction as) simp_all
  then show ?thesis by (simp add: alias_text_def)
qed

text \<open>Characters that \<open>JSON.stringify\<close> writes as they are.\<close>

definition json_plain :: "string \<Rightarrow> bool" where
  "json_plain s \<longleftrightarrow> (\<forall>c\<in>set s. 32 \<le> code_of c \<and> code_of c \<noteq> 34 \<and> code_of c \<noteq> 92)"

lemma json_plain_string: "json_plain s \<Longrightarrow> json_string s = ''\"'' @ s @ ''\"''"
proof -
  assume "json_plain s"
  then have "map json_char s = map (\<lambda>c. [c]) s"
    by (intro map_cong refl) (auto simp: json_plain_def json_char_def Let_def)
  then have "concat (map json_char s) = concat (map (\<lambda>c. [c]) s)" by (rule arg_cong)
  then show ?thesis by (simp add: json_string_def)
qed

lemma alias_like:
  assumes "a \<in> set as" "json_plain a"
  shows "sql_like (like_pattern a) (alias_text as)"
proof -
  obtain u v where "join '','' (map json_string as) = u @ json_string a @ v" using join_member assms(1) by fastforce
  then have "alias_text as = (''['' @ u) @ (''\"'' @ a @ ''\"'') @ (v @ '']'')"
    by (simp add: alias_texts json_plain_string [OF assms(2)])
  then show ?thesis unfolding like_pattern_iff includes_lower by blast
qed

section \<open>Properties\<close>

text \<open>
  A stored model reads back as the in-memory registry would keep it. After an upsert the table gives,
  under the id, the normalised definition with its time of synchronisation, whether the model was there
  before or not; every other id gives what it gave; ids stay unique. \<open>JSON.parse\<close> reads back the aliases.
\<close>

theorem stored_model_refines_registry:
  assumes "buildParamValues now m = Inr row" "distinct (map mrId t)"
    and "parse (mrAliases row) = Some (JArr (map JStr (first_some (rmAliases m) [])))"
  shows "upsert_model parse now m t =
      (Inr ((normalizeModelDef m)\<lparr>lastSyncedAt := Some (first_some (rmLastSyncedAt m) now)\<rparr>), put_row row t) \<and>
    (\<forall>i. find_model parse i (put_row row t) =
      (if i = rmId m then Some ((normalizeModelDef m)\<lparr>lastSyncedAt := Some (first_some (rmLastSyncedAt m) now)\<rparr>)
       else find_model parse i t)) \<and>
    distinct (map mrId (put_row row t))"
  using bound_row [of now m row parse, OF assms(1, 3)] bound_id [OF assms(1)] assms(1) put_row_keys(2) [OF assms(2), of row]
  by (simp add: upsert_model_def get_model_def find_model_def find_put)

theorem stored_model_refines_registry_witness:
  "\<exists>t. upsert_model (\<lambda>_. Some (JArr [JStr ''quick''])) ''now'' demo_model [] =
     (Inr ((normalizeModelDef demo_model)\<lparr>lastSyncedAt := Some (first_some (rmLastSyncedAt demo_model) ''now'')\<rparr>), t)"
proof -
  have fields: "rmAliases demo_model = Some [''quick'']"
    by (simp add: demo_model_def catalog_entry_def)
  have "case buildParamValues ''now'' demo_model of Inr _ \<Rightarrow> True | Inl _ \<Rightarrow> False" by code_simp
  then obtain row where row: "buildParamValues ''now'' demo_model = Inr row" by (auto split: sum.splits)
  from stored_model_refines_registry [OF this, of "[]" "\<lambda>_. Some (JArr [JStr ''quick''])"] show ?thesis
    by (simp add: fields)
qed

text \<open>
  Looking up an alias. When the database ignores the text after the semicolon, the models found are exactly
  those that carry the alias, active or not, in the order of the table: the \<open>LIKE\<close> pattern loses none. When
  it refuses such a text, no alias is ever found. The aliases were stored trimmed, and the alias has no
  character that JSON escapes.
\<close>

theorem alias_lookup_exact:
  assumes "js_trim a \<noteq> []" "json_plain (js_trim a)"
    and "\<And>r. r \<in> set t \<Longrightarrow> \<exists>as. mrAliases r = alias_text as \<and> parse (mrAliases r) = Some (JArr (map JStr as)) \<and>
      (\<forall>x\<in>set as. js_trim x = x)"
  shows "findAllByAlias parse True a onlyActive t =
      Inr (filter (\<lambda>m. js_trim a \<in> set (logicalAliases m)) (map (rowToModelDef parse) t)) \<and>
    findAllByAlias parse False a onlyActive t = Inl StatementRefused"
proof -
  let ?has = "\<lambda>r. js_trim a \<in> set (logicalAliases (rowToModelDef parse r))"
  have like: "sql_like (like_pattern (js_trim a)) (mrAliases r)" if r: "r \<in> set t" "?has r" for r
  proof -
    obtain as where as: "mrAliases r = alias_text as" "parse (mrAliases r) = Some (JArr (map JStr as))" "\<forall>x\<in>set as. js_trim x = x"
      using assms(3) r(1) by blast
    then have "js_trim a \<in> set as" using r(2) by (auto simp: rowToModelDef_def parseAliases_def)
    then show ?thesis using alias_like assms(2) as(1) by simp
  qed
  have "filter (\<lambda>m. js_trim a \<in> set (logicalAliases m))
      (map (rowToModelDef parse) (filter (\<lambda>r. sql_like (like_pattern (js_trim a)) (mrAliases r)) t)) =
    filter (\<lambda>m. js_trim a \<in> set (logicalAliases m)) (map (rowToModelDef parse) t)"
    using like by (simp add: filter_map comp_def cong: filter_cong) (metis (mono_tags, lifting) filter_cong)
  then show ?thesis using assms(1) by (simp add: findAllByAlias_def Let_def)
qed

definition toy_models :: model_table where
  "toy_models = [\<lparr>mrId = ''m'', mrProvider = ''p'', mrAliases = alias_text [''quick''], mrContext = 1, mrMaxOutput = 1, mrInput = 1,
     mrOutput = 1, mrCacheRead = 0, mrTools = 0, mrVision = 0, mrJson = 0, mrDeprecated = None, mrSunset = None, mrActive = 0,
     mrSynced = ''now''\<rparr>]"

theorem alias_lookup_exact_witness:
  "case findAllByAlias (\<lambda>_. Some (JArr [JStr ''quick''])) True '' quick '' True toy_models of
     Inr ms \<Rightarrow> map mdId ms = [''m''] \<and> map mdIsActive ms = [False] | Inl _ \<Rightarrow> False"
proof -
  have trims: "js_trim '' quick '' = ''quick''" "js_trim ''quick'' = ''quick''" "json_plain ''quick''" by code_simp+
  have "findAllByAlias (\<lambda>_. Some (JArr [JStr ''quick''])) True '' quick '' True toy_models =
      Inr (filter (\<lambda>m. js_trim '' quick '' \<in> set (logicalAliases m)) (map (rowToModelDef (\<lambda>_. Some (JArr [JStr ''quick'']))) toy_models))"
    by (rule alias_lookup_exact [THEN conjunct1]) (simp_all add: trims toy_models_def, intro exI [of _ "[''quick'']"], simp add: trims)
  then show ?thesis by (simp add: toy_models_def rowToModelDef_def parseAliases_def trims)
qed

end
