(* ===== verification/OAuth.thy ===== *)
theory OAuth
  imports Sybil Auth Cascade
begin

text \<open>
  \<open>src/auth/oauth/{pkce,crypto,providers,client}.ts\<close>: code verifiers and challenges, session tokens, and the
  login with an external provider. The provider's endpoints are functions, with \<open>None\<close> for a network
  error; \<open>JSON.parse\<close> and the parser of form bodies are functions too. A URL is its endpoint, without
  parameters of its own, and the list of those that are set. Numbers in a token are integers.
\<close>

datatype oauth_error = AuthFailed string | BadRange | TypeFailed

section \<open>PKCE and state (pkce.ts)\<close>

definition generateOAuthState :: "random_source \<Rightarrow> string \<times> string" where
  "generateOAuthState rnd =
     (uint8ArrayToBase64Url (map (rnd 0) [0..<32]), uint8ArrayToBase64Url (map (rnd 1) [0..<32]))"

definition UNRESERVED :: string where
  "UNRESERVED = ''ABCDEFGHIJKLMNOPQRSTUVWXYZabcdefghijklmnopqrstuvwxyz0123456789-._~''"

definition generateCodeVerifier :: "random_source \<Rightarrow> int \<Rightarrow> (oauth_error + string) option" where
  "generateCodeVerifier rnd len =
     (if len < 43 \<or> len > 128 then Some (Inl BadRange)
      else map_option Inr (random_loop rnd (\<lambda>_. nat len) UNRESERVED (nat len) 0 []))"

definition generateCodeChallenge :: "'k SubtleCrypto \<Rightarrow> string \<Rightarrow> oauth_error + string" where
  "generateCodeChallenge sc verifier =
     (if length verifier < 43 \<or> length verifier > 128 then Inl BadRange
      else Inr (uint8ArrayToBase64Url (scDigest sc (stringToBytes verifier))))"

record PKCEPair =
  pkVerifier :: string
  pkChallenge :: string

definition generatePKCEPair :: "'k SubtleCrypto \<Rightarrow> random_source \<Rightarrow> int \<Rightarrow> (oauth_error + PKCEPair) option" where
  "generatePKCEPair sc rnd len =
     (case generateCodeVerifier rnd len of
        None \<Rightarrow> None
      | Some (Inl e) \<Rightarrow> Some (Inl e)
      | Some (Inr v) \<Rightarrow> Some (map_sum id (\<lambda>c. \<lparr>pkVerifier = v, pkChallenge = c\<rparr>) (generateCodeChallenge sc v)))"

section \<open>Session tokens (crypto.ts)\<close>

definition getHmacKey :: "string \<Rightarrow> bytes" where
  "getHmacKey secret = stringToBytes secret"

definition segment :: "string \<Rightarrow> string" where
  "segment s = uint8ArrayToBase64Url (stringToBytes s)"

definition jwt_header :: js where
  "jwt_header = JObj [(''alg'', JStr ''HS256''), (''typ'', JStr ''JWT'')]"

text \<open>\<open>{ ...payload, iat, exp, iss }\<close>\<close>

definition full_payload :: "timestamp \<Rightarrow> (string \<times> js) list \<Rightarrow> int option \<Rightarrow> js" where
  "full_payload now payload expires =
     (let get = js_get (JObj payload);
          iat = first_some (num_opt_of (get ''iat'')) (now div 1000);
          expiry = first_some (num_opt_of (get ''exp'')) (iat + first_some expires 86400);
          iss = (if is_str (get ''iss'') then get ''iss'' else JStr ''key-collective'')
      in JObj (AList.update ''iss'' iss (AList.update ''exp'' (JNum expiry) (AList.update ''iat'' (JNum iat) payload))))"

definition sign_jwt :: "'k SubtleCrypto \<Rightarrow> string \<Rightarrow> string \<Rightarrow> string \<Rightarrow> string" where
  "sign_jwt sc secret header payload =
     (let signingInput = segment header @ ''.'' @ segment payload
      in signingInput @ ''.'' @ uint8ArrayToBase64Url (scHmac sc (getHmacKey secret) (stringToBytes signingInput)))"

definition issueUserJWT ::
  "'k SubtleCrypto \<Rightarrow> timestamp \<Rightarrow> (string \<times> js) list \<Rightarrow> string \<Rightarrow> int option \<Rightarrow> oauth_error + string" where
  "issueUserJWT sc now payload secret expires =
     (if js_trim secret = [] then Inl (AuthFailed ''invalid_jwt_secret'')
      else if \<not> js_truthy (js_get (JObj payload) ''sub'') \<or> \<not> js_truthy (js_get (JObj payload) ''tenantId'')
      then Inl (AuthFailed ''invalid_jwt_payload'')
      else case json (full_payload now payload expires) of
        None \<Rightarrow> Inl TypeFailed
      | Some p \<Rightarrow> Inr (sign_jwt sc secret (the (json jwt_header)) p))"

definition decode_segment :: "(unicode \<Rightarrow> js option) \<Rightarrow> string \<Rightarrow> js option" where
  "decode_segment parse seg =
     (case base64UrlToUint8Array seg of
        Inl _ \<Rightarrow> None
      | Inr bs \<Rightarrow> (case bytesToString bs of Inl _ \<Rightarrow> None | Inr t \<Rightarrow> parse t))"

definition check_header :: "(unicode \<Rightarrow> js option) \<Rightarrow> string \<Rightarrow> oauth_error option" where
  "check_header parse seg =
     (case decode_segment parse seg of
        None \<Rightarrow> Some (AuthFailed ''malformed_token'')
      | Some h \<Rightarrow>
          if h = JNull then Some TypeFailed
          else if js_get h ''alg'' \<noteq> JStr ''HS256'' then Some (AuthFailed ''unsupported_jwt_algorithm'') else None)"

definition check_signature :: "'k SubtleCrypto \<Rightarrow> string \<Rightarrow> string \<Rightarrow> string \<Rightarrow> string \<Rightarrow> oauth_error option" where
  "check_signature sc secret h p sig =
     (if base64UrlToUint8Array sig = Inr (scHmac sc (getHmacKey secret) (stringToBytes (h @ ''.'' @ p))) then None
      else Some (AuthFailed ''invalid_signature''))"

definition read_payload :: "(unicode \<Rightarrow> js option) \<Rightarrow> timestamp \<Rightarrow> string \<Rightarrow> oauth_error + js" where
  "read_payload parse now seg =
     (case decode_segment parse seg of
        None \<Rightarrow> Inl (AuthFailed ''malformed_token'')
      | Some p \<Rightarrow>
          if p = JNull then Inl TypeFailed
          else (case js_get p ''exp'' of
                  JNum expiry \<Rightarrow> if now div 1000 \<ge> expiry then Inl (AuthFailed ''expired_token'') else Inr p
                | _ \<Rightarrow> Inr p))"

definition verifyUserJWT ::
  "'k SubtleCrypto \<Rightarrow> (unicode \<Rightarrow> js option) \<Rightarrow> timestamp \<Rightarrow> string \<Rightarrow> string \<Rightarrow> oauth_error + js" where
  "verifyUserJWT sc parse now token secret =
     (if js_trim token = [] then Inl (AuthFailed ''missing_token'')
      else if js_trim secret = [] then Inl (AuthFailed ''invalid_jwt_secret'')
      else case split_on CHR ''.'' (js_trim token) of
        [h, p, s] \<Rightarrow>
          (case check_header parse h of
             Some e \<Rightarrow> Inl e
           | None \<Rightarrow> (case check_signature sc secret h p s of Some e \<Rightarrow> Inl e | None \<Rightarrow> read_payload parse now p))
      | _ \<Rightarrow> Inl (AuthFailed ''malformed_token''))"

section \<open>Providers (providers.ts)\<close>

record OAuthProviderPreset =
  opProvider :: string
  opAuthorize :: string
  opToken :: string
  opUserInfo :: string
  opScopes :: "string list"

definition GITHUB_OAUTH_PRESET :: OAuthProviderPreset where
  "GITHUB_OAUTH_PRESET = \<lparr>opProvider = ''github'', opAuthorize = ''https://github.com/login/oauth/authorize'',
     opToken = ''https://github.com/login/oauth/access_token'', opUserInfo = ''https://api.github.com/user'',
     opScopes = [''read:user'', ''user:email'']\<rparr>"

definition GOOGLE_OAUTH_PRESET :: OAuthProviderPreset where
  "GOOGLE_OAUTH_PRESET = \<lparr>opProvider = ''google'', opAuthorize = ''https://accounts.google.com/o/oauth2/v2/auth'',
     opToken = ''https://oauth2.googleapis.com/token'',
     opUserInfo = ''https://openidconnect.googleapis.com/v1/userinfo'', opScopes = [''openid'', ''email'', ''profile'']\<rparr>"

definition KNOWN_PROVIDERS :: "(string \<times> OAuthProviderPreset) list" where
  "KNOWN_PROVIDERS = [(''github'', GITHUB_OAUTH_PRESET), (''google'', GOOGLE_OAUTH_PRESET)]"

definition buildOAuthTenantId :: "string \<Rightarrow> string \<Rightarrow> string" where
  "buildOAuthTenantId prov userId =
     ''usr_'' @ js_trim (js_lower (if prov = [] then ''oauth'' else prov)) @ ''_'' @ js_trim userId"

record OAuthUserProfile =
  ouId :: string
  ouEmail :: string
  ouUsername :: string
  ouName :: "string option"
  ouAvatar :: "string option"

text \<open>\<open>a ?? b ?? c\<close>\<close>

fun nullish :: "js list \<Rightarrow> js" where
  "nullish [] = JUndefined"
| "nullish [v] = v"
| "nullish (v # vs) = (if v = JUndefined \<or> v = JNull then nullish vs else v)"

definition trimmed_text :: "js \<Rightarrow> string option" where
  "trimmed_text v = (if is_str v \<and> js_trim (str_of v) \<noteq> [] then Some (js_trim (str_of v)) else None)"

definition normalizeUserProfile :: "js \<Rightarrow> oauth_error + OAuthUserProfile" where
  "normalizeUserProfile data =
     (let get = js_get data; rawId = nullish [get ''id'', get ''sub'', get ''login'']; i = js_trim (js_string rawId);
          username = js_trim (js_string (nullish [get ''login'', get ''username'', get ''preferred_username'', get ''email'', JStr i]))
      in if data = JNull then Inl TypeFailed
         else if rawId = JUndefined \<or> rawId = JNull \<or> i = [] then Inl (AuthFailed ''missing_user_id'')
         else Inr \<lparr>ouId = i,
           ouEmail = js_trim (js_string (nullish [get ''email'', get ''primary_email'', JStr (username @ ''@oauth.local'')])),
           ouUsername = username, ouName = trimmed_text (get ''name''),
           ouAvatar = first_opt (trimmed_text (get ''avatar_url'')) (trimmed_text (get ''picture''))\<rparr>)"

section \<open>The client (client.ts)\<close>

record OAuthProviderConfig =
  ocProvider :: "string option"
  ocClientId :: string
  ocClientSecret :: "string option"
  ocToken :: string
  ocAuthorize :: "string option"
  ocUserInfo :: "string option"
  ocRedirect :: "string option"
  ocVerifier :: "string option"
  ocScopes :: "string list option"

record AuthorizationUrlOptions =
  aoChallenge :: "string option"
  aoMethod :: "string option"
  aoScopes :: "string list option"
  aoNonce :: "string option"
  aoRedirect :: "string option"
  aoAdditional :: "(string \<times> string) list"

text \<open>A parameter that is set only when its value is not empty.\<close>

definition set_param :: "string \<Rightarrow> string option \<Rightarrow> (string \<times> string) list \<Rightarrow> (string \<times> string) list" where
  "set_param name v ps = (case v of None \<Rightarrow> ps | Some [] \<Rightarrow> ps | Some x \<Rightarrow> AList.update name x ps)"

definition either_or :: "string option \<Rightarrow> string option \<Rightarrow> string option" where
  "either_or a b = (if a = None \<or> a = Some [] then b else a)"

definition buildAuthorizationUrl ::
  "OAuthProviderConfig \<Rightarrow> string \<Rightarrow> AuthorizationUrlOptions \<Rightarrow> oauth_error + string \<times> (string \<times> string) list" where
  "buildAuthorizationUrl c state opts =
     (if ocAuthorize c = None \<or> ocAuthorize c = Some [] then Inl (AuthFailed ''missing_authorize_endpoint'')
      else if ocClientId c = [] then Inl (AuthFailed ''missing_client_id'')
      else if js_trim state = [] then Inl (AuthFailed ''missing_state'')
      else
        (let ps = [(''response_type'', ''code''), (''client_id'', ocClientId c), (''state'', state)];
             ps = set_param ''redirect_uri'' (either_or (aoRedirect opts) (ocRedirect c)) ps;
             scopes = first_some (aoScopes opts) (first_some (ocScopes c) []);
             ps = (if scopes = [] then ps else AList.update ''scope'' (join '' '' scopes) ps);
             ps = (if aoChallenge opts = None \<or> aoChallenge opts = Some [] then ps
                   else set_param ''code_challenge_method'' (either_or (aoMethod opts) (Some ''S256''))
                          (set_param ''code_challenge'' (aoChallenge opts) ps));
             ps = set_param ''nonce'' (aoNonce opts) ps;
             ps = fold (\<lambda>(k, v). AList.update k v) (aoAdditional opts) ps
         in Inr (the (ocAuthorize c), ps)))"

record HttpReply =
  hyStatus :: int
  hyType :: string
  hyText :: string

record OAuthServices =
  svParse :: "string \<Rightarrow> js option"
  svForm :: "string \<Rightarrow> (string \<times> string) list"
  svToken :: "string \<Rightarrow> (string \<times> string) list \<Rightarrow> HttpReply option"
  svUser :: "string \<Rightarrow> string \<Rightarrow> HttpReply option"

definition hy_ok :: "HttpReply \<Rightarrow> bool" where
  "hy_ok r \<longleftrightarrow> 200 \<le> hyStatus r \<and> hyStatus r \<le> 299"

definition token_fields :: "OAuthProviderConfig \<Rightarrow> string \<Rightarrow> (string \<times> string) list" where
  "token_fields c code =
     set_param ''code_verifier'' (ocVerifier c) (set_param ''redirect_uri'' (ocRedirect c)
       (set_param ''client_secret'' (ocClientSecret c)
         [(''grant_type'', ''authorization_code''), (''client_id'', ocClientId c), (''code'', js_trim code)]))"

definition token_payload :: "OAuthServices \<Rightarrow> HttpReply \<Rightarrow> js option" where
  "token_payload sv r =
     (if str_includes (hyType r) ''application/json'' then svParse sv (hyText r)
      else case svParse sv (hyText r) of
        Some v \<Rightarrow> Some v
      | None \<Rightarrow> Some (JObj (fold (\<lambda>(k, v). AList.update k (JStr v)) (svForm sv (hyText r)) [])))"

definition token_of_payload :: "HttpReply \<Rightarrow> js \<Rightarrow> oauth_error + string" where
  "token_of_payload r p =
     (let e = js_get p ''error''; access = (if is_str (js_get p ''access_token'') then js_trim (str_of (js_get p ''access_token'')) else []) in
      if p = JNull then Inl TypeFailed
      else if \<not> hy_ok r then Inl (AuthFailed (if is_str e then str_of e else ''token_exchange_rejected''))
      else if js_truthy e then Inl (AuthFailed (js_string e))
      else if access = [] then Inl (AuthFailed ''missing_access_token'') else Inr access)"

definition exchangeCodeForToken :: "OAuthServices \<Rightarrow> OAuthProviderConfig \<Rightarrow> string \<Rightarrow> oauth_error + string" where
  "exchangeCodeForToken sv c code =
     (if js_trim code = [] then Inl (AuthFailed ''invalid_code'')
      else if ocToken c = [] then Inl (AuthFailed ''missing_token_endpoint'')
      else if ocClientId c = [] then Inl (AuthFailed ''missing_client_id'')
      else case svToken sv (ocToken c) (token_fields c code) of
        None \<Rightarrow> Inl (AuthFailed ''oauth_network_error'')
      | Some r \<Rightarrow>
          (case token_payload sv r of
             None \<Rightarrow> Inl (AuthFailed ''invalid_provider_response'')
           | Some p \<Rightarrow> token_of_payload r p))"

definition fetchOAuthUserProfile :: "OAuthServices \<Rightarrow> string \<Rightarrow> string \<Rightarrow> oauth_error + OAuthUserProfile" where
  "fetchOAuthUserProfile sv endpoint accessToken =
     (if endpoint = [] then Inl (AuthFailed ''invalid_user_endpoint'')
      else if js_trim accessToken = [] then Inl (AuthFailed ''invalid_token'')
      else case svUser sv endpoint (''Bearer '' @ js_trim accessToken) of
        None \<Rightarrow> Inl (AuthFailed ''user_profile_network_error'')
      | Some r \<Rightarrow>
          if \<not> hy_ok r then Inl (AuthFailed ''user_profile_fetch_failed'')
          else (case svParse sv (hyText r) of
                  None \<Rightarrow> Inl (AuthFailed ''invalid_user_profile_payload'')
                | Some data \<Rightarrow> normalizeUserProfile data))"

record OAuthLoginOptions =
  olCode :: string
  olState :: string
  olExpected :: string
  olSecret :: string
  olExpires :: "int option"
  olUserEndpoint :: "string option"

record OAuthLoginResult =
  orAccessToken :: string
  orUser :: OAuthUserProfile
  orJwt :: string
  orTenant :: string

definition login_claims :: "OAuthUserProfile \<Rightarrow> string \<Rightarrow> (string \<times> js) list" where
  "login_claims user tenantId =
     [(''sub'', JStr (ouId user)), (''tenantId'', JStr tenantId), (''email'', JStr (ouEmail user)),
      (''username'', JStr (ouUsername user)), (''tier'', JStr ''builder'')]"

definition handleOAuthLogin ::
  "'k SubtleCrypto \<Rightarrow> OAuthServices \<Rightarrow> timestamp \<Rightarrow> OAuthProviderConfig \<Rightarrow> OAuthLoginOptions \<Rightarrow> oauth_error + OAuthLoginResult" where
  "handleOAuthLogin sc sv now c opts =
     (if olState opts = [] \<or> olExpected opts = [] \<or> \<not> timingSafeEqualStrings (olState opts) (olExpected opts)
      then Inl (AuthFailed ''state_mismatch'')
      else case exchangeCodeForToken sv c (olCode opts) of
        Inl e \<Rightarrow> Inl e
      | Inr accessToken \<Rightarrow>
          (case either_or (olUserEndpoint opts) (either_or (ocUserInfo c) None) of
             None \<Rightarrow> Inl (AuthFailed ''missing_user_endpoint'')
           | Some endpoint \<Rightarrow>
               (case fetchOAuthUserProfile sv endpoint accessToken of
                  Inl e \<Rightarrow> Inl e
                | Inr user \<Rightarrow>
                    let tenantId = buildOAuthTenantId (first_some (either_or (ocProvider c) None) ''oauth'') (ouId user)
                    in map_sum id (\<lambda>jwt. \<lparr>orAccessToken = accessToken, orUser = user, orJwt = jwt, orTenant = tenantId\<rparr>)
                         (issueUserJWT sc now (login_claims user tenantId) (olSecret opts) (Some (first_some (olExpires opts) 86400))))))"

section \<open>Lemmas: tokens\<close>

lemma split_on_plain: "c \<notin> set s \<Longrightarrow> split_on c s = [s]"
  by (induction s) auto

lemma split_on_append: "c \<notin> set a \<Longrightarrow> split_on c (a @ c # b) = a # split_on c b"
  by (induction a) auto

lemma url_text_chars:
  assumes "c \<in> set (uint8ArrayToBase64Url bs)"
  shows "c \<noteq> CHR ''.''" "\<not> is_space c"
proof -
  obtain t p where s: "uint8ArrayToBase64 bs = t @ padding p" "b64_text t" by (rule base64_shape)
  obtain d where d: "d \<in> set t" "c = to_url_char d" using assms unfolding to_url_strip [OF s(2, 1)] by auto
  have "b64_val CHR ''.'' = None" by code_simp
  then have "d \<noteq> CHR ''.''" using s(2) d(1) by (auto simp: b64_text_def list_all_iff)
  then show "c \<noteq> CHR ''.''" by (auto simp: d(2) to_url_char_def)
  show "\<not> is_space c" using b64_text_chars(4) [OF s(2) d(1)] by (auto simp: d(2) to_url_char_def is_space_def)
qed

lemma decode_own_segment [simp]: "decode_segment parse (segment s) = parse (map of_char s)"
  using utf8_roundtrip [OF string_scalar, of s]
  by (simp add: decode_segment_def segment_def base64url_roundtrip stringToBytes_def)

lemma sign_jwt_parts:
  "split_on CHR ''.'' (sign_jwt sc secret h p) =
     [segment h, segment p, uint8ArrayToBase64Url (scHmac sc (getHmacKey secret) (stringToBytes (segment h @ ''.'' @ segment p)))]"
proof -
  have "CHR ''.'' \<notin> set (uint8ArrayToBase64Url bs)" for bs using url_text_chars(1) by blast
  then show ?thesis
    unfolding sign_jwt_def Let_def segment_def by (simp add: split_on_append split_on_plain)
qed

lemma sign_jwt_trim [simp]: "js_trim (sign_jwt sc secret h p) = sign_jwt sc secret h p"
proof -
  have "\<not> is_space CHR ''.''" by code_simp
  then show ?thesis
    by (intro trim_no_space) (auto simp: sign_jwt_def Let_def segment_def list_all_iff url_text_chars(2))
qed

lemma sign_jwt_nonempty [simp]: "sign_jwt sc secret h p \<noteq> []"
  by (simp add: sign_jwt_def Let_def)

lemma header_json: "json jwt_header \<noteq> None"
  by (simp add: jwt_header_def)

lemma full_payload_claims:
  "full_payload now payload expires \<noteq> JNull"
  "js_get (full_payload now payload expires) ''exp'' = JNum (first_some (num_opt_of (js_get (JObj payload) ''exp''))
     (first_some (num_opt_of (js_get (JObj payload) ''iat'')) (now div 1000) + first_some expires 86400))"
  "f \<notin> {''iat'', ''exp'', ''iss''} \<Longrightarrow> js_get (full_payload now payload expires) f = js_get (JObj payload) f"
  by (simp_all add: full_payload_def Let_def update_conv')

text \<open>\<open>JSON.parse\<close> reads back what \<open>JSON.stringify\<close> wrote for this value.\<close>

definition json_reads :: "(unicode \<Rightarrow> js option) \<Rightarrow> js \<Rightarrow> bool" where
  "json_reads parse v \<longleftrightarrow> (\<forall>s. json v = Some s \<longrightarrow> parse (map of_char s) = Some v)"

text \<open>An issued token under the secret that signed it.\<close>

lemma token_reads_back:
  assumes "issueUserJWT sc now payload secret expires = Inr token"
    and "json_reads parse jwt_header" "json_reads parse (full_payload now payload expires)"
  shows "verifyUserJWT sc parse t token secret =
      (if num_of (js_get (full_payload now payload expires) ''exp'') \<le> t div 1000 then Inl (AuthFailed ''expired_token'')
       else Inr (full_payload now payload expires))"
    and "js_trim other \<noteq> [] \<Longrightarrow> (\<And>d. scHmac sc (getHmacKey other) d \<noteq> scHmac sc (getHmacKey secret) d) \<Longrightarrow>
      verifyUserJWT sc parse t token other = Inl (AuthFailed ''invalid_signature'')"
proof -
  obtain p where p: "json (full_payload now payload expires) = Some p" and secret: "js_trim secret \<noteq> []"
    and token: "token = sign_jwt sc secret (the (json jwt_header)) p"
    using assms(1) by (auto simp: issueUserJWT_def split: if_splits option.splits)
  obtain h where h: "json jwt_header = Some h" using header_json by blast
  have parse: "parse (map of_char h) = Some jwt_header" "parse (map of_char p) = Some (full_payload now payload expires)"
    using assms(2, 3) h p by (simp_all add: json_reads_def)
  have header: "check_header parse (segment h) = None"
    using parse(1) by (simp add: check_header_def) (simp add: jwt_header_def)
  have payload: "read_payload parse t (segment p) =
      (if num_of (js_get (full_payload now payload expires) ''exp'') \<le> t div 1000 then Inl (AuthFailed ''expired_token'')
       else Inr (full_payload now payload expires))"
    using parse(2) full_payload_claims(1) by (simp add: read_payload_def full_payload_claims(2))
  show "verifyUserJWT sc parse t token secret =
      (if num_of (js_get (full_payload now payload expires) ''exp'') \<le> t div 1000 then Inl (AuthFailed ''expired_token'')
       else Inr (full_payload now payload expires))"
    using secret header payload
    by (simp add: verifyUserJWT_def token h sign_jwt_parts check_signature_def base64url_roundtrip)
  show "verifyUserJWT sc parse t token other = Inl (AuthFailed ''invalid_signature'')"
    if "js_trim other \<noteq> []" "\<And>d. scHmac sc (getHmacKey other) d \<noteq> scHmac sc (getHmacKey secret) d"
    using that(1) that(2) [symmetric] header
    by (simp add: verifyUserJWT_def token h sign_jwt_parts check_signature_def base64url_roundtrip)
qed

lemma map_sum_Inr_iff: "map_sum id f x = Inr y \<longleftrightarrow> (\<exists>z. x = Inr z \<and> y = f z)"
  by (cases x) auto

section \<open>Lemmas: identities\<close>

lemma until_char: "c \<notin> set a \<Longrightarrow> c \<notin> set b \<Longrightarrow> a @ c # u = b @ c # v \<longleftrightarrow> a = b \<and> u = v"
proof (induction a arbitrary: b)
  case Nil
  then show ?case by (cases b) auto
next
  case (Cons x a)
  then show ?case by (cases b) auto
qed

text \<open>Identities of providers whose names have no underscore never share a tenant.\<close>

lemma tenant_identity:
  assumes "CHR ''_'' \<notin> set (js_trim (js_lower p))" "CHR ''_'' \<notin> set (js_trim (js_lower q))" "p \<noteq> []" "q \<noteq> []"
  shows "buildOAuthTenantId p u = buildOAuthTenantId q v \<longleftrightarrow>
    js_trim (js_lower p) = js_trim (js_lower q) \<and> js_trim u = js_trim v"
  using until_char [OF assms(1, 2), of "js_trim u" "js_trim v"] assms(3, 4) by (simp add: buildOAuthTenantId_def)

lemma claims_of_login:
  "js_get (full_payload now (login_claims user tenant) e) ''sub'' = JStr (ouId user)"
  "js_get (full_payload now (login_claims user tenant) e) ''tenantId'' = JStr tenant"
  "num_of (js_get (full_payload now (login_claims user tenant) e) ''exp'') = now div 1000 + first_some e 86400"
proof -
  have "js_get (JObj (login_claims user tenant)) ''sub'' = JStr (ouId user)"
    "js_get (JObj (login_claims user tenant)) ''tenantId'' = JStr tenant"
    "js_get (JObj (login_claims user tenant)) ''exp'' = JUndefined" "js_get (JObj (login_claims user tenant)) ''iat'' = JUndefined"
    by (simp_all add: login_claims_def)
  then show "js_get (full_payload now (login_claims user tenant) e) ''sub'' = JStr (ouId user)"
    "js_get (full_payload now (login_claims user tenant) e) ''tenantId'' = JStr tenant"
    "num_of (js_get (full_payload now (login_claims user tenant) e) ''exp'') = now div 1000 + first_some e 86400"
    using full_payload_claims(3) [of "''sub''" now "login_claims user tenant" e] full_payload_claims(3) [of "''tenantId''" now "login_claims user tenant" e]
    by (simp_all add: full_payload_claims(2))
qed

section \<open>Properties\<close>

text \<open>
  A session token reads back. What \<open>issueUserJWT\<close> signs is accepted by \<open>verifyUserJWT\<close> with the same
  secret until the second of its expiry, and yields exactly the payload that was signed; from then on it is
  expired. Under a secret that signs it differently it is never accepted. \<open>JSON.parse\<close> reads back what
  \<open>JSON.stringify\<close> wrote.
\<close>

theorem session_token_roundtrip:
  assumes "issueUserJWT sc now payload secret expires = Inr token"
    and "json_reads parse jwt_header" "json_reads parse (full_payload now payload expires)"
    and "js_trim other \<noteq> []" "\<And>d. scHmac sc (getHmacKey other) d \<noteq> scHmac sc (getHmacKey secret) d"
  shows "verifyUserJWT sc parse t token secret =
      (if num_of (js_get (full_payload now payload expires) ''exp'') \<le> t div 1000 then Inl (AuthFailed ''expired_token'')
       else Inr (full_payload now payload expires)) \<and>
    verifyUserJWT sc parse t token other = Inl (AuthFailed ''invalid_signature'')"
  using token_reads_back [OF assms(1-3)] assms(4, 5) by blast

text \<open>
  What a login gives. A login succeeds only with the state that was handed out; the provider accepted
  the code, with the client's secret and verifier, and named the user for the access token it gave; and the
  session token verifies, until it expires, with claims that name this user and the tenant of its identity.
\<close>

theorem login_names_its_user:
  assumes "handleOAuthLogin sc sv now c opts = Inr r"
    and "json_reads parse jwt_header"
      "json_reads parse (full_payload now (login_claims (orUser r) (orTenant r)) (Some (first_some (olExpires opts) 86400)))"
    and "t div 1000 < now div 1000 + first_some (olExpires opts) 86400"
  shows "olState opts = olExpected opts \<and> olState opts \<noteq> [] \<and>
    (\<exists>reply p. svToken sv (ocToken c) (token_fields c (olCode opts)) = Some reply \<and> hy_ok reply \<and> token_payload sv reply = Some p \<and>
      orAccessToken r = js_trim (str_of (js_get p ''access_token''))) \<and>
    (\<exists>endpoint reply data. svUser sv endpoint (''Bearer '' @ orAccessToken r) = Some reply \<and> hy_ok reply \<and>
      svParse sv (hyText reply) = Some data \<and> normalizeUserProfile data = Inr (orUser r)) \<and>
    orTenant r = buildOAuthTenantId (first_some (either_or (ocProvider c) None) ''oauth'') (ouId (orUser r)) \<and>
    (\<exists>claims. verifyUserJWT sc parse t (orJwt r) (olSecret opts) = Inr claims \<and>
      js_get claims ''sub'' = JStr (ouId (orUser r)) \<and> js_get claims ''tenantId'' = JStr (orTenant r))"
proof -
  obtain access where access: "exchangeCodeForToken sv c (olCode opts) = Inr access"
    and state: "olState opts = olExpected opts" "olState opts \<noteq> []"
    using assms(1) by (auto simp: handleOAuthLogin_def split: if_splits sum.splits)
  then obtain endpoint user where user: "fetchOAuthUserProfile sv endpoint access = Inr user"
    and jwt: "issueUserJWT sc now (login_claims user (buildOAuthTenantId (first_some (either_or (ocProvider c) None) ''oauth'') (ouId user)))
      (olSecret opts) (Some (first_some (olExpires opts) 86400)) = Inr (orJwt r)"
    and r: "orUser r = user" "orAccessToken r = access"
      "orTenant r = buildOAuthTenantId (first_some (either_or (ocProvider c) None) ''oauth'') (ouId user)"
    using assms(1) by (auto simp: handleOAuthLogin_def Let_def map_sum_Inr_iff split: if_splits sum.splits option.splits)
  have token: "\<exists>reply p. svToken sv (ocToken c) (token_fields c (olCode opts)) = Some reply \<and> hy_ok reply \<and>
      token_payload sv reply = Some p \<and> access = js_trim (str_of (js_get p ''access_token''))"
    using access by (auto simp: exchangeCodeForToken_def token_of_payload_def Let_def split: if_splits option.splits)
  then have "js_trim access = access" by auto
  with user have profile: "\<exists>endpoint reply data. svUser sv endpoint (''Bearer '' @ access) = Some reply \<and> hy_ok reply \<and>
      svParse sv (hyText reply) = Some data \<and> normalizeUserProfile data = Inr user"
    by (auto simp: fetchOAuthUserProfile_def split: if_splits option.splits)
  have "verifyUserJWT sc parse t (orJwt r) (olSecret opts) =
      Inr (full_payload now (login_claims user (orTenant r)) (Some (first_some (olExpires opts) 86400)))"
    using token_reads_back(1) [OF jwt assms(2) assms(3) [unfolded r], of t] assms(4) by (simp add: r claims_of_login)
  with state token profile r show ?thesis by (auto simp: claims_of_login)
qed

section \<open>Instances\<close>

definition toy_claims :: "(string \<times> js) list" where
  "toy_claims = login_claims \<lparr>ouId = ''7'', ouEmail = ''e'', ouUsername = ''u'', ouName = None, ouAvatar = None\<rparr> ''usr_x_7''"

definition toy_json :: "timestamp \<Rightarrow> unicode \<Rightarrow> js option" where
  "toy_json now t =
     (if t = map of_char (the (json jwt_header)) then Some jwt_header else Some (full_payload now toy_claims (Some 60)))"

lemma toy_json_reads: "json_reads (toy_json 5000) jwt_header" "json_reads (toy_json 5000) (full_payload 5000 toy_claims (Some 60))"
proof -
  have "json (full_payload 5000 toy_claims (Some 60)) \<noteq> json jwt_header" by code_simp
  then have "map of_char s \<noteq> (map of_char (the (json jwt_header)) :: unicode)"
    if "json (full_payload 5000 toy_claims (Some 60)) = Some s" for s
    using that header_json by (auto simp: inj_map_eq_map [OF inj_of_char])
  then show "json_reads (toy_json 5000) (full_payload 5000 toy_claims (Some 60))"
    by (auto simp: toy_json_def json_reads_def)
  show "json_reads (toy_json 5000) jwt_header" by (auto simp: toy_json_def json_reads_def)
qed

definition toy_session :: string where
  "toy_session = (case issueUserJWT toy_subtle 5000 toy_claims ''secret'' (Some 60) of Inr t \<Rightarrow> t | Inl _ \<Rightarrow> [])"

lemma toy_session_issued: "issueUserJWT toy_subtle 5000 toy_claims ''secret'' (Some 60) = Inr toy_session"
proof -
  have "js_trim ''secret'' \<noteq> []" "json (full_payload 5000 toy_claims (Some 60)) \<noteq> None" by code_simp+
  moreover have "js_truthy (js_get (JObj toy_claims) ''sub'')" "js_truthy (js_get (JObj toy_claims) ''tenantId'')" by code_simp+
  ultimately show ?thesis by (auto simp: toy_session_def issueUserJWT_def)
qed

theorem session_token_roundtrip_witness:
  "verifyUserJWT toy_subtle (toy_json 5000) 64000 toy_session ''secret'' = Inr (full_payload 5000 toy_claims (Some 60))
    \<and> verifyUserJWT toy_subtle (toy_json 5000) 65000 toy_session ''secret'' = Inl (AuthFailed ''expired_token'')
    \<and> verifyUserJWT toy_subtle (toy_json 5000) 64000 toy_session ''tercet'' = Inl (AuthFailed ''invalid_signature'')"
proof -
  have "js_trim ''tercet'' \<noteq> []" by code_simp
  moreover have "scHmac toy_subtle (getHmacKey ''tercet'') d \<noteq> scHmac toy_subtle (getHmacKey ''secret'') d" for d
  proof -
    have "getHmacKey ''tercet'' \<noteq> getHmacKey ''secret''" by code_simp
    then show ?thesis by (simp add: toy_subtle_def)
  qed
  moreover have "num_of (js_get (full_payload 5000 toy_claims (Some 60)) ''exp'') = 65" by code_simp
  ultimately show ?thesis
    using session_token_roundtrip [OF toy_session_issued toy_json_reads, of "''tercet''" 64000]
      session_token_roundtrip [OF toy_session_issued toy_json_reads, of "''tercet''" 65000] by simp
qed

definition toy_services :: OAuthServices where
  "toy_services =
     \<lparr>svParse = (\<lambda>t. if t = ''T'' then Some (JObj [(''access_token'', JStr ''tok'')])
                  else Some (JObj [(''id'', JNum 7), (''login'', JStr ''u''), (''email'', JStr ''e'')])),
      svForm = (\<lambda>_. []),
      svToken = (\<lambda>_ fields. if map_of fields ''code'' = Some ''c1'' then Some \<lparr>hyStatus = 200, hyType = ''application/json'', hyText = ''T''\<rparr> else None),
      svUser = (\<lambda>_ auth. if auth = ''Bearer tok'' then Some \<lparr>hyStatus = 200, hyType = ''application/json'', hyText = ''U''\<rparr> else None)\<rparr>"

definition toy_provider :: OAuthProviderConfig where
  "toy_provider = \<lparr>ocProvider = Some ''x'', ocClientId = ''id'', ocClientSecret = None, ocToken = ''https://x/token'', ocAuthorize = None,
     ocUserInfo = Some ''https://x/user'', ocRedirect = None, ocVerifier = Some ''v'', ocScopes = None\<rparr>"

definition toy_login :: OAuthLoginOptions where
  "toy_login = \<lparr>olCode = ''c1'', olState = ''s'', olExpected = ''s'', olSecret = ''secret'', olExpires = Some 60, olUserEndpoint = None\<rparr>"

definition toy_result :: OAuthLoginResult where
  "toy_result = \<lparr>orAccessToken = ''tok'', orUser = \<lparr>ouId = ''7'', ouEmail = ''e'', ouUsername = ''u'', ouName = None, ouAvatar = None\<rparr>,
     orJwt = toy_session, orTenant = ''usr_x_7''\<rparr>"

lemma toy_login_runs: "handleOAuthLogin toy_subtle toy_services 5000 toy_provider toy_login = Inr toy_result"
proof -
  have "exchangeCodeForToken toy_services toy_provider ''c1'' = Inr ''tok''" by code_simp
  moreover have "fetchOAuthUserProfile toy_services ''https://x/user'' ''tok'' =
      Inr \<lparr>ouId = ''7'', ouEmail = ''e'', ouUsername = ''u'', ouName = None, ouAvatar = None\<rparr>" by code_simp
  moreover have "timingSafeEqualStrings ''s'' ''s''" "buildOAuthTenantId ''x'' ''7'' = ''usr_x_7''" by code_simp+
  ultimately show ?thesis
    using toy_session_issued
    by (simp add: handleOAuthLogin_def toy_login_def toy_provider_def toy_result_def either_or_def toy_claims_def Let_def)
qed

theorem login_names_its_user_witness:
  "orTenant toy_result = ''usr_x_7'' \<and>
   (\<exists>claims. verifyUserJWT toy_subtle (toy_json 5000) 64000 (orJwt toy_result) ''secret'' = Inr claims \<and>
      js_get claims ''sub'' = JStr ''7'' \<and> js_get claims ''tenantId'' = JStr ''usr_x_7'')"
proof -
  have fields: "orTenant toy_result = ''usr_x_7''" "login_claims (orUser toy_result) (orTenant toy_result) = toy_claims"
    "ouId (orUser toy_result) = ''7''" "olExpires toy_login = Some 60" "olSecret toy_login = ''secret''"
    by (simp_all add: toy_result_def toy_claims_def toy_login_def)
  have "json_reads (toy_json 5000)
      (full_payload 5000 (login_claims (orUser toy_result) (orTenant toy_result)) (Some (first_some (olExpires toy_login) 86400)))"
    unfolding fields(2, 4) using toy_json_reads(2) by simp
  moreover have "(64000 :: int) div 1000 < 5000 div 1000 + first_some (olExpires toy_login) 86400" by (simp add: fields(4))
  ultimately have "\<exists>claims. verifyUserJWT toy_subtle (toy_json 5000) 64000 (orJwt toy_result) (olSecret toy_login) = Inr claims \<and>
      js_get claims ''sub'' = JStr (ouId (orUser toy_result)) \<and> js_get claims ''tenantId'' = JStr (orTenant toy_result)"
    using login_names_its_user [OF toy_login_runs toy_json_reads(1)] by blast
  then show ?thesis unfolding fields(1, 3, 5) by blast
qed

end
