(* ===== verification/Spec2Isabelle.thy ===== *)
theory Spec2Isabelle
  imports KeySelection TenantQuota PoolCoordinator KeyPoolSafety PoolRouting Auth LedgerD1 ApiKeys SybilProps AdminProps ChatProps ModelStore OAuth
begin

text \<open>
  Verification of the TypeScript core of Key-Collective (\<open>src/src/\<close>): a gateway that pools the
  provider keys of its tenants, decides who may send a request and how much, picks a key and a
  model for it, forwards it, and charges for it.

  \<^bold>\<open>The program and its theories.\<close> The worker's \<open>fetch\<close> resolves the host of a request and passes it to
  the administrators' API, the console or the dispatcher (\<open>Gateway\<close> and \<open>Dispatch\<close>, \<open>worker/gateway\<close> and
  \<open>worker/router/core/dispatcher.ts\<close>). A request for the API enters through the middleware (\<open>Auth\<close>,
  \<open>worker/auth\<close>). It reads the bearer token, looks its hash up in the token table (\<open>AuthTokens\<close>,
  \<open>storage/repositories/auth_tokens\<close>; \<open>Crypto\<close> and \<open>Bytes\<close>, \<open>crypto/\<close>), or asks the
  public demo pool (\<open>Demo\<close>, \<open>auth/demo\<close>), and has the request counted by the quota object of
  the token's tenant (\<open>TenantQuota\<close> and \<open>Quota\<close>, \<open>quota/\<close> and \<open>contracts/v3_types.ts\<close>) or, without one, by a
  rate limiter of the worker (\<open>RateLimiter\<close>, \<open>durable_objects/rate_limiter\<close>). What is refused
  becomes an error of \<open>Errors\<close> (\<open>errors/\<close>) and a JSON response. An admitted completion (\<open>Chat\<close>,
  \<open>worker/router/chat\<close>) asks the coordinator whether its tenant is braked, and goes to the cascade (\<open>Cascade\<close>, \<open>router/cascade\<close>), which asks the registry and the capability
  filter for the candidate models (\<open>ModelRegistry\<close>, \<open>router/registry\<close>; \<open>Capability\<close>,
  \<open>router/capability\<close>), the tenant's key pool for a key (\<open>KeyPool\<close>, \<open>durable_objects/key_pool\<close>,
  which owns a \<open>KeySelector\<close>, \<open>durable_objects/key_selector\<close>, a \<open>CircuitBreaker\<close>,
  \<open>durable_objects/circuit_breaker\<close>, and a \<open>RateLimiter\<close>), and the upstream client for the
  call (\<open>Upstream\<close>, \<open>proxy/upstream\<close>). The response's stream is cut into events
  (\<open>SseTransformer\<close>, \<open>proxy/sse\<close>), its usage is read (\<open>SseUsage\<close>) and priced
  (\<open>Financial\<close>, \<open>constants/financial.ts\<close>, \<open>proxy/cost_calculator.ts\<close>). \<open>PoolRouting\<close> joins
  cascade, client and pool the way \<open>router/cascade/router.ts\<close> and
  \<open>worker/router/core/resolver.ts\<close> do; \<open>PoolCoordinator\<close> (\<open>pool/coordinator_do.ts\<close>)
  brakes a tenant that takes too much of the whole pool. The answer is then settled: usage of the pool,
  an event of the ledger, spending of the token, and a data point (\<open>Telemetry\<close>,
  \<open>worker/telemetry_emitter.ts\<close>); a stream when its body has been read or cancelled.

  What a request cost is an event of the ledger, summed into daily rows (\<open>Ledger\<close>, \<open>Dates\<close>,
  \<open>storage/repositories/cost_ledger\<close>; \<open>LedgerD1\<close>, \<open>storage/d1\<close>). The provider keys are rows of another
  table (\<open>ApiKeys\<close>, \<open>storage/repositories/api_keys\<close>, \<open>storage/d1/keys.ts\<close>). The console
  (\<open>worker/router/dashboard\<close>) hands out sessions (\<open>Gateway\<close>), keeps projects and tokens (\<open>Dashboard\<close>)
  and keys (\<open>DashboardKeys\<close>), and finds out whom it serves (\<open>DashboardRouter\<close>); administrators set
  tiers, quarantines and routing and see the fleet (\<open>Admin\<close>, \<open>worker/gateway/admin_handler.ts\<close>), through
  the worker or through the console, which passes requests for \<open>/api/admin\<close> on. Who
  applies for an account is scored (\<open>Sybil\<close>, \<open>auth/sybil\<close>). Beside the registry in memory the models
  have a table of their own (\<open>ModelStore\<close>, \<open>storage/repositories/model_registry\<close>), and there is a client
  for the sign-in with an identity provider and its session tokens (\<open>OAuth\<close>, \<open>auth/oauth\<close>), which the
  worker does not call yet.

  \<^bold>\<open>How definitions correspond to the code.\<close> A class is a record of its fields and one definition
  per method, taking the record last and returning the result and the new record; the method keeps
  its name, with a short prefix where several classes share it (\<open>cb_\<close> the breaker, \<open>rl_\<close> the
  limiter, \<open>ks_\<close> the selector, \<open>kp_\<close> the pool, \<open>tq_\<close> the quota object, \<open>pc_\<close> the
  coordinator, \<open>sb_\<close> and \<open>dd_\<close> the demo pool). Interfaces are records, unions and enums
  datatypes, \<open>throw\<close> is \<open>Inl\<close>, \<open>undefined\<close> and \<open>null\<close> are \<open>None\<close>, a \<open>Map\<close> is an
  association list in insertion order (\<open>jsmap\<close>), a value of unknown type is \<open>js\<close>
  (\<open>JsValue\<close>). Durable storage is a map from keys to \<open>js\<close> values; a durable object that
  caches it holds both, and an eviction drops the cache. The mutation of a cached object is a
  write back to the cache. An awaited call is a function application; calls that are not awaited run
  in the order they are issued.

  \<^bold>\<open>Numbers, times, texts.\<close> Numbers used as counters, sizes and timestamps are \<open>int\<close> (they
  stay below \<open>2 ^ 53\<close>); where the code multiplies by a fraction the IEEE rounding is written out
  (\<open>JsValue\<close>). A \<open>bigint\<close> is an \<open>int\<close>, an infinite limit is \<open>None\<close>, bytes are
  \<open>8 word\<close>. Every operation reads the clock once and takes the time as an argument; an ISO date
  is the instant it denotes. Strings have characters below 256; texts beyond are lists of code points.

  \<^bold>\<open>Parameters.\<close> What is not source here is an argument: the Web Crypto primitives (record
  \<open>SubtleCrypto\<close>, with their documented behaviour in \<open>subtle_ok\<close>), random bytes and numbers, \<open>JSON.parse\<close>,
  \<open>Date.parse\<close>, \<open>fetch\<close>, the rows a database query returns. A D1 table is the list of its
  rows, a statement the list operation it denotes, its uniqueness constraints checked; rows that
  \<open>ORDER BY\<close> does not tell apart keep the order of the table, a batch is one transaction, and the
  database answers. The ledger and the key tables keep dates as strings, as SQLite does, the others as
  instants. \<open>geSchema\<close> says whether a statement fits the tables that the migrations create. The body of a
  console request is the record of the interface the code declares for it. White space is that of
  ASCII, \<open>Number(s)\<close> exact on decimal numerals, and one evaluation of a gate one step.

  \<^bold>\<open>Interfaces.\<close> The locales of \<open>Interfaces\<close> (and \<open>comparison\<close> in \<open>JsLib\<close>, the meter in
  \<open>PoolRouting\<close>) state what one component relies on in another; each is interpreted on the code's
  model in the theory that provides it. \<open>aging_cache\<close> gives the refinement of breaker and limiter
  by their persistent state, \<open>sliding_window\<close> the limits of every window, \<open>stable_probe\<close> the
  independence of a triage from its order, \<open>invariant_system\<close> the invariants of breaker,
  registry, pool and demo object under all sequences of calls.

  \<^bold>\<open>What is shown.\<close> Admission: who gets through the middleware and which limits hold over every
  sequence of requests (\<open>Auth\<close>, \<open>TenantQuota\<close>, \<open>RateLimiter\<close>, \<open>Demo\<close>). Isolation: a pool, a
  quota object, the token table, the key table, the ledger, the console and the dispatcher never serve a
  foreign tenant (\<open>KeyPoolSafety\<close>, \<open>TenantQuota\<close>, \<open>AuthTokens\<close>, \<open>ApiKeys\<close>, \<open>LedgerProps\<close>,
  \<open>DashboardProps\<close>), and where the console does after all. Books: rollups and summaries agree with the
  ledger, reconciliation repairs them, both store layers do the same (\<open>LedgerProps\<close>, \<open>LedgerD1\<close>).
  Over any run of completions, spending and ledger agree, nobody pays for another tenant, a budget is
  overrun by no more than the requests that were in flight together cost, settled in any order, and a braked
  tenant waits whatever is reported meanwhile (\<open>ChatProps\<close>).
  Keys: what is stored or rotated is read back, and to whom a list shows it (\<open>ApiKeys\<close>,
  \<open>DashboardProps\<close>). Administration: a quarantine ends it, the fleet is complete (\<open>AdminProps\<close>).
  Accounts: the exact conditions of the gates and the limit per subnet (\<open>SybilProps\<close>). Breaker: its state invariant, when it trips and when it lets a
  probe through (\<open>CircuitBreaker\<close>). Selection: a selected key was healthy, a healthy key is found,
  round robin is fair (\<open>KeySelection\<close>). Routing: the exact candidates, the outcome of the walk
  and when it must succeed (\<open>CascadeProps\<close>), and what the wiring records and does not record
  (\<open>PoolRouting\<close>). Streams: cutting a stream into chunks does not matter, and events round-trip
  (\<open>SseTransformer\<close>). Money, codecs, encryption, errors: exactness, round trips and the responses of
  failures (\<open>Financial\<close>, \<open>Bytes\<close>, \<open>Crypto\<close>, \<open>Errors\<close>). Some theorems show behaviour that a
  reader of the code may not expect; their texts say so.

  \<^bold>\<open>Termination and bounds.\<close> All loops are structural recursions over the data they consume, or have a
  measure, with one exception: \<open>secureRandomString\<close> draws bytes until enough are below its bound,
  which may go on for ever, so \<open>random_loop\<close> is a partial function into \<open>option\<close> and
  \<open>random_string_returns\<close> says when it returns. There is no fuel.

  \<^bold>\<open>Not modelled.\<close> The floating-point averages behind the adaptive timeout of the upstream client, the
  fairness score and latencies of the admin view, and the branches of the price helpers that print
  doubles; the logger and callbacks, which only observe; the handlers behind the dispatcher for models
  and reports, and the metrics of the console, which only read a request and call the components above;
  injected factories and the \<open>kc_api\<close> envelope of a completion; static replies and CORS headers; the Svelte user interface and the
  scripts; outages of the database, except where the code names what it does then.
\<close>

end
